(* ===== verification/Py_Prelude.thy ===== *)
theory Py_Prelude
  imports Main "HOL-Library.Char_ord" "HOL-Library.List_Lexorder" "HOL-Library.AList"
begin

text \<open>
  Shared vocabulary of the development: the Python values, exceptions, string
  operations and dictionary idioms that the sources under
  \<^verbatim>\<open>src/codepilot/core\<close> and \<^verbatim>\<open>src/codepilot/tools\<close> use, and the generic lemmas
  about them.

  Strings are lists of \<open>char\<close>, that is, Python strings over the code points
  below 256; whitespace, lower-casing and ordering are Python's on that range.
  A raised exception is the left summand of \<open>'a result\<close>. A Python object that
  comes from outside (decoded JSON) is a \<open>pyval\<close>; floats do not occur in it.
\<close>

named_theorems py_simps \<open>evaluation rules for results, dictionaries and texts\<close>

section \<open>Exceptions and results\<close>

text \<open>
  \<open>PlanValidationError\<close> and \<open>CoreContractError\<close> are subclasses of \<open>ValueError\<close> in the
  source, as is \<open>ToolRegistryError\<close>, whose subclasses follow it; \<open>CoreInvariantError\<close>,
  \<open>CoreBoundaryCommitError\<close>, \<open>ToolStateConflictError\<close> and the two errors of the context
  engine are \<open>RuntimeError\<close>s.
\<close>

datatype exn =
    ValueError string
  | PlanValidationError string
  | TypeError string
  | CoreContractError string
  | CoreInvariantError string
  | KeyError string
  | CoreBoundaryCommitError string
  | RuntimeError string
  | ToolStateConflictError string
  | ToolRegistryError string
  | ToolRegistrationConflictError string
  | ToolRegistrationNotFoundError string
  | StaleToolRegistrationError string
  | ContextBudgetExceededError string
  | ContextCompactionError string

fun is_value_error :: "exn \<Rightarrow> bool" where
  "is_value_error (ValueError _) = True"
| "is_value_error (PlanValidationError _) = True"
| "is_value_error (CoreContractError _) = True"
| "is_value_error (TypeError _) = False"
| "is_value_error (CoreInvariantError _) = False"
| "is_value_error (KeyError _) = False"
| "is_value_error (CoreBoundaryCommitError _) = False"
| "is_value_error (RuntimeError _) = False"
| "is_value_error (ToolStateConflictError _) = False"
| "is_value_error (ToolRegistryError _) = True"
| "is_value_error (ToolRegistrationConflictError _) = True"
| "is_value_error (ToolRegistrationNotFoundError _) = True"
| "is_value_error (StaleToolRegistrationError _) = True"
| "is_value_error (ContextBudgetExceededError _) = False"
| "is_value_error (ContextCompactionError _) = False"

type_synonym 'a result = "exn + 'a"

definition bindE :: "'a result \<Rightarrow> ('a \<Rightarrow> 'b result) \<Rightarrow> 'b result" where
  "bindE m f = (case m of Inl e \<Rightarrow> Inl e | Inr x \<Rightarrow> f x)"

definition mapE :: "('a \<Rightarrow> 'b) \<Rightarrow> 'a result \<Rightarrow> 'b result" where
  "mapE f m = bindE m (\<lambda>x. Inr (f x))"

lemma bindE_Inr [simp, py_simps]: "bindE (Inr x) f = f x"
  by (simp add: bindE_def)

lemma bindE_Inl [simp, py_simps]: "bindE (Inl e) f = Inl e"
  by (simp add: bindE_def)

lemma bindE_eq_Inr: "bindE m f = Inr y \<longleftrightarrow> (\<exists>x. m = Inr x \<and> f x = Inr y)"
  by (auto simp: bindE_def split: sum.splits)

lemma mapE_Inr [simp, py_simps]: "mapE f (Inr x) = Inr (f x)"
  by (simp add: mapE_def)

lemma mapE_Inl [simp, py_simps]: "mapE f (Inl e) = Inl e"
  by (simp add: mapE_def)

lemma mapE_eq_Inr: "mapE f m = Inr y \<longleftrightarrow> (\<exists>x. m = Inr x \<and> y = f x)"
  by (auto simp: mapE_def bindE_eq_Inr)

lemma if_Inl_eq_Inr [simp]:
  "(if c then Inl e else m) = Inr y \<longleftrightarrow> \<not> c \<and> m = Inr y"
  "(if c then m else Inl e) = Inr y \<longleftrightarrow> c \<and> m = Inr y"
  by auto

text \<open>A comprehension \<^verbatim>\<open>tuple(f(x) for x in xs)\<close> stops at the first exception.\<close>

fun traverse :: "('a \<Rightarrow> 'b result) \<Rightarrow> 'a list \<Rightarrow> 'b list result" where
  "traverse f [] = Inr []"
| "traverse f (x # xs) = bindE (f x) (\<lambda>y. bindE (traverse f xs) (\<lambda>ys. Inr (y # ys)))"

lemma traverse_eq_Inr:
  "traverse f xs = Inr ys \<longleftrightarrow> list_all2 (\<lambda>x y. f x = Inr y) xs ys"
proof (induction xs arbitrary: ys)
  case Nil
  show ?case by auto
next
  case (Cons x xs)
  then show ?case
    by (cases ys) (auto simp: bindE_eq_Inr)
qed

lemma traverse_map_Inr:
  assumes "\<And>x. x \<in> set xs \<Longrightarrow> f (g x) = Inr (h x)"
  shows "traverse f (map g xs) = Inr (map h xs)"
  using assms by (induction xs) auto

lemma traverse_id: "(\<And>x. x \<in> set xs \<Longrightarrow> f x = Inr x) \<Longrightarrow> traverse f xs = Inr xs"
  by (induction xs) auto

lemma traverse_length: "traverse f xs = Inr ys \<Longrightarrow> length ys = length xs"
  by (auto simp: traverse_eq_Inr list_all2_lengthD)

lemma traverse_set:
  assumes "traverse f xs = Inr ys" and "y \<in> set ys"
  shows "\<exists>x \<in> set xs. f x = Inr y"
  using assms unfolding traverse_eq_Inr
  by (induction rule: list_all2_induct) auto

section \<open>Values\<close>

datatype pyval =
    PNone
  | PBool bool
  | PInt int
  | PStr string
  | PList "pyval list"
  | PTuple "pyval list"
  | PDict "(string \<times> pyval) list"

type_synonym dict = "(string \<times> pyval) list"

text \<open>\<^verbatim>\<open>d.get(k)\<close> and \<^verbatim>\<open>d.get(k, default)\<close>.\<close>

definition dget :: "dict \<Rightarrow> string \<Rightarrow> pyval" where
  "dget d k = (case map_of d k of None \<Rightarrow> PNone | Some v \<Rightarrow> v)"

definition dget_default :: "dict \<Rightarrow> string \<Rightarrow> pyval \<Rightarrow> pyval" where
  "dget_default d k v = (case map_of d k of None \<Rightarrow> v | Some w \<Rightarrow> w)"

lemma dget_Cons [simp, py_simps]:
  "dget ((k, v) # d) k' = (if k = k' then v else dget d k')"
  by (simp add: dget_def)

lemma dget_Nil [simp, py_simps]: "dget [] k = PNone"
  by (simp add: dget_def)

lemma dget_default_Cons [simp, py_simps]:
  "dget_default ((k, v) # d) k' w = (if k = k' then v else dget_default d k' w)"
  by (simp add: dget_default_def)

lemma dget_default_Nil [simp, py_simps]: "dget_default [] k w = w"
  by (simp add: dget_default_def)

text \<open>A dictionary display or comprehension: a repeated key keeps its place and takes the
  last value.\<close>

definition dict_of :: "('k \<times> 'v) list \<Rightarrow> ('k \<times> 'v) list" where
  "dict_of kvs = fold (\<lambda>(k, v). AList.update k v) kvs []"

lemma set_update_subset: "set (AList.update k v d) \<subseteq> insert (k, v) (set d)"
  by (induction d) auto

lemma fold_update_distinct:
  "distinct (map fst (d @ kvs)) \<Longrightarrow> fold (\<lambda>(k, v). AList.update k v) kvs d = d @ kvs"
proof (induction kvs arbitrary: d)
  case Nil
  show ?case by simp
next
  case (Cons kv kvs)
  obtain k v where kv: "kv = (k, v)" by (cases kv)
  have "AList.update k v d = d @ [(k, v)]"
    using Cons.prems by (induction d) (auto simp: kv)
  with Cons show ?case by (simp add: kv)
qed

lemma dict_of_distinct: "distinct (map fst kvs) \<Longrightarrow> dict_of kvs = kvs"
  using fold_update_distinct [of "[]" kvs] by (simp add: dict_of_def)

lemma map_of_fold_update:
  "map_of (fold (\<lambda>(k, v). AList.update k v) kvs d) = map_of d ++ map_of (rev kvs)"
  by (induction kvs arbitrary: d) (auto simp: update_conv' map_add_upd_left)

lemma map_of_dict_of: "map_of (dict_of kvs) = map_of (rev kvs)"
  by (simp add: dict_of_def map_of_fold_update)

text \<open>Truth value of an object.\<close>

fun py_truth :: "pyval \<Rightarrow> bool" where
  "py_truth PNone = False"
| "py_truth (PBool b) = b"
| "py_truth (PInt i) = (i \<noteq> 0)"
| "py_truth (PStr s) = (s \<noteq> [])"
| "py_truth (PList xs) = (xs \<noteq> [])"
| "py_truth (PTuple xs) = (xs \<noteq> [])"
| "py_truth (PDict d) = (d \<noteq> [])"

fun is_mapping :: "pyval \<Rightarrow> bool" where
  "is_mapping (PDict _) = True"
| "is_mapping _ = False"

text \<open>What a value is after \<^verbatim>\<open>json.loads(json.dumps(v))\<close>: tuples have become lists.\<close>

fun jsonify :: "pyval \<Rightarrow> pyval" where
  "jsonify (PList xs) = PList (map jsonify xs)"
| "jsonify (PTuple xs) = PList (map jsonify xs)"
| "jsonify (PDict d) = PDict (map (\<lambda>(k, v). (k, jsonify v)) d)"
| "jsonify v = v"

end
