(* ===== verification/Py_Text.thy ===== *)
theory Py_Text
  imports Py_Prelude
begin

text \<open>
  Python string operations: \<open>strip\<close>, \<open>split\<close>, \<open>join\<close>, \<open>lower\<close>, \<open>startswith\<close>,
  decimal and \<open>repr\<close> conversion, \<open>dict.fromkeys\<close>, and the text contracts that
  every module of the core repeats (a text is normalised, and a required text is
  not empty). The contract is stated once for an arbitrary normaliser, as a
  locale, and interpreted for \<open>strip\<close> and for the whitespace-collapsing
  normaliser of \<^verbatim>\<open>core/plan.py\<close>.
\<close>

section \<open>Whitespace, strip, split and join\<close>

definition py_space :: "char \<Rightarrow> bool" where
  "py_space c = (let n = (of_char c :: nat) in
     (9 \<le> n \<and> n \<le> 13) \<or> (28 \<le> n \<and> n \<le> 32) \<or> n = 133 \<or> n = 160)"

text \<open>On the bits of a character, which is what evaluation uses.\<close>

lemma py_space_bits [code]:
  "py_space (Char b0 b1 b2 b3 b4 b5 b6 b7) =
    (if b7 then \<not> b6 \<and> \<not> b4 \<and> \<not> b3 \<and> \<not> b1 \<and> (if b5 then \<not> b2 \<and> \<not> b0 else b2 \<and> b0)
     else \<not> b6 \<and>
       (if b5 then \<not> b4 \<and> \<not> b3 \<and> \<not> b2 \<and> \<not> b1 \<and> \<not> b0
        else b3 \<and> (if b4 then b2 else if b2 then \<not> b1 else b1 \<or> b0)))"
  by (cases b0; cases b1; cases b2; cases b3; cases b4; cases b5; cases b6; cases b7;
      simp add: py_space_def of_char_def)

definition py_lstrip :: "string \<Rightarrow> string" where
  "py_lstrip s = dropWhile py_space s"

definition py_strip :: "string \<Rightarrow> string" where
  "py_strip s = rev (py_lstrip (rev (py_lstrip s)))"

text \<open>\<^verbatim>\<open>s.split()\<close>: the maximal runs of characters that are not whitespace.\<close>

function py_split :: "string \<Rightarrow> string list" where
  "py_split s =
     (case py_lstrip s of
        [] \<Rightarrow> []
      | c # t \<Rightarrow> (c # takeWhile (\<lambda>d. \<not> py_space d) t)
                 # py_split (dropWhile (\<lambda>d. \<not> py_space d) t))"
  by pat_completeness auto
termination
proof (relation "measure length")
  show "wf (measure length)" by simp
next
  fix s c t
  assume "py_lstrip s = c # t"
  then have "length (c # t) \<le> length s"
    unfolding py_lstrip_def by (metis length_dropWhile_le)
  moreover have "length (dropWhile (\<lambda>d. \<not> py_space d) t) \<le> length t"
    by (rule length_dropWhile_le)
  ultimately show "(dropWhile (\<lambda>d. \<not> py_space d) t, s) \<in> measure length"
    by simp
qed

declare py_split.simps [simp del]

text \<open>\<^verbatim>\<open>sep.join(parts)\<close>.\<close>

fun py_join :: "string \<Rightarrow> string list \<Rightarrow> string" where
  "py_join sep [] = []"
| "py_join sep [w] = w"
| "py_join sep (w # v # ws) = w @ sep @ py_join sep (v # ws)"

definition word_ok :: "string \<Rightarrow> bool" where
  "word_ok w \<longleftrightarrow> w \<noteq> [] \<and> (\<forall>c \<in> set w. \<not> py_space c)"

lemma py_space_blank [simp]: "py_space CHR '' ''"
  by (simp add: py_space_def)

lemma py_split_words: "w \<in> set (py_split s) \<Longrightarrow> word_ok w"
proof (induction s rule: py_split.induct)
  case (1 s)
  show ?case
  proof (cases "py_lstrip s")
    case Nil
    with "1.prems" show ?thesis by (simp add: py_split.simps [of s])
  next
    case (Cons c t)
    then have "\<not> py_space c"
      unfolding py_lstrip_def by (metis hd_dropWhile list.distinct(1) list.sel(1))
    with "1.prems" Cons show ?thesis
      by (auto simp: py_split.simps [of s] word_ok_def dest: "1.IH" set_takeWhileD)
  qed
qed

lemma py_split_blank: "py_split ('' '' @ t) = py_split t"
  by (simp add: py_split.simps [of "CHR '' '' # t"] py_split.simps [of t] py_lstrip_def)

lemma py_split_word_append:
  assumes "word_ok w" and "t = [] \<or> py_space (hd t)"
  shows "py_split (w @ t) = w # py_split t"
proof -
  from assms(1) obtain c v where w: "w = c # v" and c: "\<not> py_space c"
    and v: "\<forall>d \<in> set v. \<not> py_space d"
    by (cases w) (auto simp: word_ok_def)
  have "takeWhile (\<lambda>d. \<not> py_space d) (v @ t) = v"
    using v assms(2) by (cases t) (auto simp: takeWhile_append)
  moreover have "dropWhile (\<lambda>d. \<not> py_space d) (v @ t) = t"
    using v assms(2) by (cases t) (auto simp: dropWhile_append)
  ultimately show ?thesis
    using c by (simp add: py_split.simps [of "c # v @ t"] w py_lstrip_def)
qed

lemma py_split_Nil [simp]: "py_split [] = []"
  by (simp add: py_split.simps py_lstrip_def)

lemma py_split_join:
  "(\<forall>w \<in> set ws. word_ok w) \<Longrightarrow> py_split (py_join '' '' ws) = ws"
proof (induction "'' ''" ws rule: py_join.induct)
  case 1
  show ?case by simp
next
  case (2 w)
  then show ?case using py_split_word_append [of w "[]"] by simp
next
  case (3 w v ws)
  have "py_split (w @ '' '' @ py_join '' '' (v # ws))
      = w # py_split ('' '' @ py_join '' '' (v # ws))"
    using 3 by (intro py_split_word_append) auto
  then show ?case using 3 by (simp add: py_split_blank del: append_Cons append_Nil)
qed

lemma hd_py_join: "word_ok w \<Longrightarrow> hd (py_join '' '' (w # ws)) = hd w"
  by (cases ws) (auto simp: word_ok_def)

lemma py_join_not_Nil: "word_ok w \<Longrightarrow> py_join sep (w # ws) \<noteq> []"
  by (cases ws) (auto simp: word_ok_def)

lemma last_py_join:
  "(\<forall>w \<in> set ws. word_ok w) \<Longrightarrow> ws \<noteq> [] \<Longrightarrow>
   last (py_join '' '' ws) = last (last ws)"
  by (induction "'' ''" ws rule: py_join.induct)
     (auto simp: py_join_not_Nil)

text \<open>A text whose ends are not whitespace is stripped, and the other way round.\<close>

definition stripped :: "string \<Rightarrow> bool" where
  "stripped s \<longleftrightarrow> s = [] \<or> (\<not> py_space (hd s) \<and> \<not> py_space (last s))"

lemma py_strip_fix: "stripped s \<Longrightarrow> py_strip s = s"
proof (cases "s = []")
  case True
  then show ?thesis by (simp add: py_strip_def py_lstrip_def)
next
  case False
  assume "stripped s"
  with False have "py_lstrip s = s" and "py_lstrip (rev s) = rev s"
    by (auto simp: stripped_def py_lstrip_def dropWhile_eq_self_iff hd_rev)
  then show ?thesis by (simp add: py_strip_def)
qed

lemma stripped_py_strip: "stripped (py_strip s)"
proof -
  let ?t = "py_lstrip s" and ?u = "py_lstrip (rev (py_lstrip s))"
  show ?thesis
  proof (cases "?u = []")
    case True
    then show ?thesis by (simp add: py_strip_def stripped_def)
  next
    case False
    then have l: "\<not> py_space (hd ?u)"
      unfolding py_lstrip_def by (rule hd_dropWhile)
    have t: "?t \<noteq> []"
      using False unfolding py_lstrip_def by (metis dropWhile.simps(1) rev.simps(1))
    then have h: "\<not> py_space (hd ?t)"
      unfolding py_lstrip_def by (rule hd_dropWhile)
    have "last ?u = last (rev ?t)"
      using False unfolding py_lstrip_def
      by (metis append_is_Nil_conv last_appendR takeWhile_dropWhile_id)
    with t have "last ?u = hd ?t" by (simp add: last_rev)
    with l h False show ?thesis
      by (simp add: py_strip_def stripped_def hd_rev last_rev)
  qed
qed

lemma py_strip_idem [simp]: "py_strip (py_strip s) = py_strip s"
  by (simp add: py_strip_fix stripped_py_strip)

lemma stripped_join:
  assumes "\<forall>w \<in> set ws. word_ok w"
  shows "stripped (py_join '' '' ws)"
proof (cases ws)
  case Nil
  then show ?thesis by (simp add: stripped_def)
next
  case (Cons w vs)
  have "word_ok w" using assms Cons by simp
  moreover have "word_ok (last ws)" using assms Cons by (metis last_in_set list.discI)
  ultimately show ?thesis
    using assms Cons last_py_join [of ws] hd_py_join [of w vs]
    by (auto simp: stripped_def word_ok_def last_in_set)
qed

text \<open>\<^verbatim>\<open>" ".join(str(value).strip().split())\<close>, the normal form of plan texts.\<close>

definition plan_clean :: "string \<Rightarrow> string" where
  "plan_clean s = py_join '' '' (py_split (py_strip s))"

lemma plan_clean_idem [simp]: "plan_clean (plan_clean s) = plan_clean s"
  by (simp add: plan_clean_def py_strip_fix stripped_join py_split_words py_split_join)

lemma plan_clean_stripped: "plan_clean s = s \<Longrightarrow> py_strip s = s"
  by (metis plan_clean_def py_split_words py_strip_fix stripped_join)

section \<open>Decimal numbers\<close>

fun str_nat :: "nat \<Rightarrow> string" where
  "str_nat n = (if n < 10 then [char_of (48 + n)]
                else str_nat (n div 10) @ [char_of (48 + n mod 10)])"

declare str_nat.simps [simp del]

definition str_int :: "int \<Rightarrow> string" where
  "str_int i = (if i < 0 then ''-'' @ str_nat (nat (- i)) else str_nat (nat i))"

definition ascii_digit :: "char \<Rightarrow> bool" where
  "ascii_digit c \<longleftrightarrow> 48 \<le> (of_char c :: nat) \<and> (of_char c :: nat) \<le> 57"

text \<open>Python's \<^verbatim>\<open>isdigit\<close> also accepts the superscripts one, two and three, which
  \<^verbatim>\<open>int\<close> rejects.\<close>

definition py_isdigit :: "string \<Rightarrow> bool" where
  "py_isdigit s \<longleftrightarrow> s \<noteq> [] \<and>
     (\<forall>c \<in> set s. ascii_digit c \<or> (of_char c :: nat) \<in> {178, 179, 185})"

definition digits_value :: "string \<Rightarrow> nat" where
  "digits_value s = foldl (\<lambda>a c. 10 * a + (of_char c - 48)) 0 s"

lemma str_nat_digits: "c \<in> set (str_nat n) \<Longrightarrow> 48 \<le> (of_char c :: nat) \<and> of_char c \<le> (57::nat)"
proof (induction n rule: str_nat.induct)
  case (1 n)
  show ?case
  proof (cases "n < 10")
    case True
    with "1.prems" show ?thesis by (simp add: str_nat.simps [of n])
  next
    case False
    from "1.prems" False consider "c \<in> set (str_nat (n div 10))" | "c = char_of (48 + n mod 10)"
      by (auto simp: str_nat.simps [of n])
    then show ?thesis
    proof cases
      case 1
      then show ?thesis using "1.IH" False by blast
    next
      case 2
      have "n mod 10 < 10" by simp
      with 2 show ?thesis by simp
    qed
  qed
qed

lemma str_nat_not_Nil [simp]: "str_nat n \<noteq> []"
  by (simp add: str_nat.simps [of n])

lemma str_nat_isdigit: "py_isdigit (str_nat n)"
  using str_nat_digits [of _ n] by (auto simp: py_isdigit_def ascii_digit_def)

lemma digits_value_str_nat [simp]: "digits_value (str_nat n) = n"
proof (induction n rule: str_nat.induct)
  case (1 n)
  have "n mod 10 < 10" by simp
  then show ?case
    using 1 by (auto simp: str_nat.simps [of n] digits_value_def)
qed

text \<open>\<^verbatim>\<open>int\<close> of a string that passed \<^verbatim>\<open>isdigit\<close>.\<close>

definition py_int_of_digits :: "string \<Rightarrow> nat result" where
  "py_int_of_digits s =
     (if \<forall>c \<in> set s. ascii_digit c then Inr (digits_value s)
      else Inl (ValueError (''invalid literal for int() with base 10: '' @ s)))"

lemma py_int_of_str_nat [simp]: "py_int_of_digits (str_nat n) = Inr n"
  using str_nat_digits [of _ n] by (simp add: py_int_of_digits_def ascii_digit_def)

lemma str_nat_inj [simp]: "str_nat m = str_nat n \<longleftrightarrow> m = n"
  by (metis digits_value_str_nat)

section \<open>Substrings\<close>

definition py_startswith :: "string \<Rightarrow> string \<Rightarrow> bool" where
  "py_startswith s p \<longleftrightarrow> take (length p) s = p"

definition py_removeprefix :: "string \<Rightarrow> string \<Rightarrow> string" where
  "py_removeprefix s p = (if py_startswith s p then drop (length p) s else s)"

definition lower_char :: "char \<Rightarrow> char" where
  "lower_char c = (let n = (of_char c :: nat) in
     if (65 \<le> n \<and> n \<le> 90) \<or> (192 \<le> n \<and> n \<le> 222 \<and> n \<noteq> 215)
     then char_of (n + 32) else c)"

lemma lower_char_bits [code]:
  "lower_char (Char b0 b1 b2 b3 b4 b5 b6 b7) =
    (if b6 \<and> \<not> b5 \<and>
        (if b7 then \<not> (b4 \<and> b2 \<and> b1 \<and> b0 \<and> \<not> b3) \<and> \<not> (b4 \<and> b3 \<and> b2 \<and> b1 \<and> b0) else (b0 \<or> b1 \<or> b2 \<or> b3 \<or> b4) \<and> \<not> (b4 \<and> b3 \<and> (b2 \<or> b1 \<and> b0)))
     then Char b0 b1 b2 b3 b4 True b6 b7 else Char b0 b1 b2 b3 b4 b5 b6 b7)"
  by (cases b0; cases b1; cases b2; cases b3; cases b4; cases b5; cases b6; cases b7;
      simp add: lower_char_def of_char_def char_of_def bit_0)

definition py_lower :: "string \<Rightarrow> string" where
  "py_lower s = map lower_char s"

text \<open>\<^verbatim>\<open>s.split(sep)\<close> for a one-character separator: always at least one part.\<close>

fun py_split_on :: "char \<Rightarrow> string \<Rightarrow> string list" where
  "py_split_on d [] = [[]]"
| "py_split_on d (c # s) =
     (if c = d then [] # py_split_on d s
      else (case py_split_on d s of [] \<Rightarrow> [[c]] | w # ws \<Rightarrow> (c # w) # ws))"

lemma py_split_on_not_Nil [simp]: "py_split_on d s \<noteq> []"
  by (cases s) (auto split: list.splits)

lemma py_split_on_no_sep: "w \<in> set (py_split_on d s) \<Longrightarrow> d \<notin> set w"
proof (induction s arbitrary: w)
  case Nil
  then show ?case by simp
next
  case (Cons c s)
  then show ?case by (cases "py_split_on d s") (auto split: if_splits)
qed

section \<open>\<open>repr\<close>, \<open>str\<close> and \<open>json.dumps\<close>\<close>

definition hex_char :: "nat \<Rightarrow> char" where
  "hex_char n = (if n < 10 then char_of (48 + n) else char_of (87 + n))"

definition repr_char :: "char \<Rightarrow> char \<Rightarrow> string" where
  "repr_char q c = (let n = (of_char c :: nat) in
     if c = q \<or> n = 92 then [CHR 0x5C, c]
     else if n = 9 then [CHR 0x5C, CHR ''t'']
     else if n = 10 then [CHR 0x5C, CHR ''n'']
     else if n = 13 then [CHR 0x5C, CHR ''r'']
     else if n < 32 \<or> (127 \<le> n \<and> n \<le> 160) \<or> n = 173
       then [CHR 0x5C, CHR ''x'', hex_char (n div 16), hex_char (n mod 16)]
     else [c])"

definition repr_string :: "string \<Rightarrow> string" where
  "repr_string s = (let q = (if CHR 0x27 \<in> set s \<and> CHR 0x22 \<notin> set s
                             then CHR 0x22 else CHR 0x27)
                    in [q] @ concat (map (repr_char q) s) @ [q])"

fun py_repr :: "pyval \<Rightarrow> string" where
  "py_repr PNone = ''None''"
| "py_repr (PBool b) = (if b then ''True'' else ''False'')"
| "py_repr (PInt i) = str_int i"
| "py_repr (PStr s) = repr_string s"
| "py_repr (PList xs) = ''['' @ py_join '', '' (map py_repr xs) @ '']''"
| "py_repr (PTuple xs) =
     (case xs of [x] \<Rightarrow> ''('' @ py_repr x @ '',)''
                | _ \<Rightarrow> ''('' @ py_join '', '' (map py_repr xs) @ '')'')"
| "py_repr (PDict d) =
     ''{'' @ py_join '', '' (map (\<lambda>(k, v). repr_string k @ '': '' @ py_repr v) d) @ ''}''"

fun py_str :: "pyval \<Rightarrow> string" where
  "py_str (PStr s) = s"
| "py_str v = py_repr v"

definition json_char :: "char \<Rightarrow> string" where
  "json_char c = (let n = (of_char c :: nat) in
     if n = 34 \<or> n = 92 then [CHR 0x5C, c]
     else if n = 10 then [CHR 0x5C, CHR ''n'']
     else if n = 13 then [CHR 0x5C, CHR ''r'']
     else if n = 9 then [CHR 0x5C, CHR ''t'']
     else if n = 12 then [CHR 0x5C, CHR ''f'']
     else if n = 8 then [CHR 0x5C, CHR ''b'']
     else if n < 32 then [CHR 0x5C, CHR ''u'', CHR ''0'', CHR ''0'',
                          hex_char (n div 16), hex_char (n mod 16)]
     else [c])"

definition json_string :: "string \<Rightarrow> string" where
  "json_string s = [CHR 0x22] @ concat (map json_char s) @ [CHR 0x22]"

text \<open>\<^verbatim>\<open>json.dumps(value, sort_keys=True, ensure_ascii=False)\<close>.\<close>

fun json_dumps :: "pyval \<Rightarrow> string" where
  "json_dumps PNone = ''null''"
| "json_dumps (PBool b) = (if b then ''true'' else ''false'')"
| "json_dumps (PInt i) = str_int i"
| "json_dumps (PStr s) = json_string s"
| "json_dumps (PList xs) = ''['' @ py_join '', '' (map json_dumps xs) @ '']''"
| "json_dumps (PTuple xs) = ''['' @ py_join '', '' (map json_dumps xs) @ '']''"
| "json_dumps (PDict d) =
     ''{'' @ py_join '', '' (map (\<lambda>(k, v). json_string k @ '': '' @ v)
        (sort_key fst (map (\<lambda>(k, v). (k, json_dumps v)) d))) @ ''}''"

section \<open>First occurrences: \<open>dict.fromkeys\<close>\<close>

fun dedup :: "'a list \<Rightarrow> 'a list" where
  "dedup [] = []"
| "dedup (x # xs) = x # filter (\<lambda>y. y \<noteq> x) (dedup xs)"

lemma set_dedup [simp]: "set (dedup xs) = set xs"
  by (induction xs) auto

lemma distinct_dedup [simp]: "distinct (dedup xs)"
  by (induction xs) auto

lemma dedup_id: "distinct xs \<Longrightarrow> dedup xs = xs"
  by (induction xs) (auto simp: filter_id_conv)

lemma dedup_idem [simp]: "dedup (dedup xs) = dedup xs"
  by (simp add: dedup_id)

lemma dedup_append:
  "dedup (xs @ ys) = dedup xs @ filter (\<lambda>y. y \<notin> set xs) (dedup ys)"
  by (induction xs) (auto simp: conj_commute intro!: filter_cong)

lemma length_dedup: "length (dedup xs) \<le> length xs"
  by (induction xs) (auto intro: le_trans [OF length_filter_le])

lemma dedup_eq_Nil [simp]: "dedup xs = [] \<longleftrightarrow> xs = []"
  by (cases xs) auto

section \<open>Text contracts\<close>

definition optional_text :: "(string \<Rightarrow> string) \<Rightarrow> pyval \<Rightarrow> string option" where
  "optional_text norm v =
     (case v of PNone \<Rightarrow> None
      | _ \<Rightarrow> (let t = norm (py_str v) in if t = [] then None else Some t))"

definition required_text :: "(string \<Rightarrow> string) \<Rightarrow> exn \<Rightarrow> pyval \<Rightarrow> string result" where
  "required_text norm e v = (case optional_text norm v of None \<Rightarrow> Inl e | Some t \<Rightarrow> Inr t)"

text \<open>\<^verbatim>\<open>tuple(dict.fromkeys(_required_text(v, ...) for v in values))\<close>; the error may
  name the index.\<close>

definition text_tuple ::
  "(string \<Rightarrow> string) \<Rightarrow> (nat \<Rightarrow> exn) \<Rightarrow> string list \<Rightarrow> string list result" where
  "text_tuple norm e vs =
     mapE dedup (traverse (\<lambda>(i, v). required_text norm (e i) (PStr v)) (enumerate 0 vs))"

definition canon_text :: "(string \<Rightarrow> string) \<Rightarrow> string \<Rightarrow> bool" where
  "canon_text norm t \<longleftrightarrow> norm t = t \<and> t \<noteq> []"

definition canon_texts :: "(string \<Rightarrow> string) \<Rightarrow> string list \<Rightarrow> bool" where
  "canon_texts norm ts \<longleftrightarrow> distinct ts \<and> (\<forall>t \<in> set ts. canon_text norm t)"

lemma optional_text_PNone [simp]: "optional_text norm PNone = None"
  by (simp add: optional_text_def)

lemma optional_text_PStr:
  "optional_text norm (PStr s) = (if norm s = [] then None else Some (norm s))"
  by (simp add: optional_text_def Let_def)

lemma required_text_PStr:
  "required_text norm e (PStr s) = (if norm s = [] then Inl e else Inr (norm s))"
  by (simp add: required_text_def optional_text_PStr)

lemma required_text_fix: "canon_text norm s \<Longrightarrow> required_text norm e (PStr s) = Inr s"
  by (simp add: required_text_PStr canon_text_def)

lemma optional_text_fix:
  "canon_text norm s \<Longrightarrow> optional_text norm (PStr s) = Some s"
  by (simp add: optional_text_PStr canon_text_def)

lemma text_tuple_fix: "canon_texts norm ts \<Longrightarrow> text_tuple norm e ts = Inr ts"
proof -
  assume c: "canon_texts norm ts"
  have "traverse (\<lambda>(i, v). required_text norm (e i) (PStr v)) (enumerate n ts) = Inr ts" for n
    using c unfolding canon_texts_def
    by (induction ts arbitrary: n) (auto simp: required_text_fix)
  with c show ?thesis by (simp add: text_tuple_def canon_texts_def dedup_id)
qed

lemma text_tuple_map:
  assumes "text_tuple norm e vs = Inr ts"
  shows "ts = dedup (map norm vs)" and "\<forall>v \<in> set vs. norm v \<noteq> []"
proof -
  obtain us where us: "traverse (\<lambda>(i, v). required_text norm (e i) (PStr v)) (enumerate 0 vs) = Inr us"
    and ts: "ts = dedup us"
    using assms by (auto simp: text_tuple_def mapE_eq_Inr)
  have "us = map norm vs \<and> (\<forall>v \<in> set vs. norm v \<noteq> [])"
    if "traverse (\<lambda>(i, v). required_text norm (e i) (PStr v)) (enumerate n vs) = Inr us" for n us
    using that
    by (induction vs arbitrary: n us)
       (fastforce simp: bindE_eq_Inr required_text_PStr split: if_splits)+
  from this [OF us] ts show "ts = dedup (map norm vs)" and "\<forall>v \<in> set vs. norm v \<noteq> []"
    by auto
qed

lemma text_tuple_ok:
  "(\<forall>v \<in> set vs. norm v \<noteq> []) \<Longrightarrow> text_tuple norm e vs = Inr (dedup (map norm vs))"
proof -
  assume ok: "\<forall>v \<in> set vs. norm v \<noteq> []"
  have "traverse (\<lambda>(i, v). required_text norm (e i) (PStr v)) (enumerate n vs) = Inr (map norm vs)" for n
    using ok by (induction vs arbitrary: n) (auto simp: required_text_PStr)
  then show ?thesis by (simp add: text_tuple_def)
qed

text \<open>The contract of a normaliser: applying it twice changes nothing.\<close>

locale text_normaliser =
  fixes norm :: "string \<Rightarrow> string"
  assumes norm_idem: "norm (norm s) = norm s"
begin

lemma required_text_canon: "required_text norm e v = Inr t \<Longrightarrow> canon_text norm t"
  by (auto simp: required_text_def optional_text_def canon_text_def norm_idem Let_def
      split: option.splits pyval.splits if_splits)

lemma optional_text_canon: "optional_text norm v = Some t \<Longrightarrow> canon_text norm t"
  by (auto simp: optional_text_def canon_text_def norm_idem Let_def
      split: pyval.splits if_splits)

lemma text_tuple_canon: "text_tuple norm e vs = Inr ts \<Longrightarrow> canon_texts norm ts"
  using text_tuple_map [of norm e vs ts]
  by (auto simp: canon_texts_def canon_text_def norm_idem)

end

interpretation strip: text_normaliser py_strip
  by unfold_locales (rule py_strip_idem)

interpretation clean: text_normaliser plan_clean
  by unfold_locales (rule plan_clean_idem)

end
