(* ===== verification/Py_Codec.thy ===== *)
theory Py_Codec
  imports Py_Text
begin

text \<open>
  The interfaces the components share: a dataclass whose \<^verbatim>\<open>__post_init__\<close> validates and
  normalises (\<open>validated\<close>), a value with \<^verbatim>\<open>to_dict\<close> and \<^verbatim>\<open>from_mapping\<close>
  (\<open>record_codec\<close>, and both at
  once \<open>dataclass_codec\<close>), a \<^verbatim>\<open>Literal\<close> type with its parser (\<open>str_enum\<close>), and a state with
  a fallible step that keeps an invariant (\<open>result_machine\<close>). Each is interpreted on the
  model's definitions in the theory of the component that provides them.
\<close>

section \<open>Literal types\<close>

text \<open>\<^verbatim>\<open>text = str(value).strip() if value is not None else ""\<close>, then a membership test.\<close>

definition enum_text :: "pyval \<Rightarrow> string" where
  "enum_text v = (case v of PNone \<Rightarrow> [] | _ \<Rightarrow> py_strip (py_str v))"

definition parse_enum ::
  "('e \<Rightarrow> string) \<Rightarrow> 'e list \<Rightarrow> (string \<Rightarrow> exn) \<Rightarrow> pyval \<Rightarrow> 'e result" where
  "parse_enum name all err v =
     (case find (\<lambda>e. name e = enum_text v) all of
        None \<Rightarrow> Inl (err (py_str v))
      | Some e \<Rightarrow> Inr e)"

locale str_enum =
  fixes name :: "'e \<Rightarrow> string" and all :: "'e list"
  assumes name_inj: "name a = name b \<Longrightarrow> a = b"
    and all_complete: "e \<in> set all"
    and name_stripped: "py_strip (name e) = name e"
begin

lemma parse_name: "parse_enum name all err (PStr (name e)) = Inr e"
proof -
  have "\<exists>a. find (\<lambda>a. name a = name e) all = Some a"
    using all_complete [of e] by (metis (mono_tags, lifting) find_None_iff option.exhaust)
  then obtain a where a: "find (\<lambda>a. name a = name e) all = Some a" by blast
  then have "name a = name e" by (auto simp: find_Some_iff)
  with a show ?thesis
    by (simp add: parse_enum_def enum_text_def name_stripped name_inj)
qed

lemma parse_sound: "parse_enum name all err v = Inr e \<Longrightarrow> name e = enum_text v"
  by (auto simp: parse_enum_def find_Some_iff split: option.splits)

lemma parse_rejects:
  "(\<forall>e. name e \<noteq> enum_text v) \<Longrightarrow> parse_enum name all err v = Inl (err (py_str v))"
  by (auto simp: parse_enum_def find_Some_iff split: option.splits)

end

section \<open>Validated records and their dictionaries\<close>

locale validated =
  fixes valid :: "'a \<Rightarrow> bool" and post_init :: "'a \<Rightarrow> 'a result"
  assumes post_init_valid: "post_init x = Inr y \<Longrightarrow> valid y"
    and valid_post_init: "valid x \<Longrightarrow> post_init x = Inr x"
begin

lemma post_init_idem: "post_init x = Inr y \<Longrightarrow> post_init y = Inr y"
  by (rule valid_post_init) (rule post_init_valid)

lemma post_init_fix: "post_init x = Inr x \<longleftrightarrow> valid x"
  using post_init_valid valid_post_init by blast

end

locale record_codec =
  fixes valid :: "'a \<Rightarrow> bool"
    and to_dict :: "'a \<Rightarrow> dict" and from_mapping :: "dict \<Rightarrow> 'a result"
  assumes decode_encode: "valid x \<Longrightarrow> from_mapping (to_dict x) = Inr x"
    and decode_valid: "from_mapping d = Inr x \<Longrightarrow> valid x"
begin

lemma reencode: "from_mapping d = Inr x \<Longrightarrow> from_mapping (to_dict x) = Inr x"
  by (rule decode_encode) (rule decode_valid)

lemma encode_inj:
  assumes "valid x" and "valid y" and "to_dict x = to_dict y"
  shows "x = y"
proof -
  have "Inr x = from_mapping (to_dict x)" using assms(1) by (simp add: decode_encode)
  also have "\<dots> = Inr y" using assms(2,3) by (simp add: decode_encode)
  finally show ?thesis by simp
qed

lemma decode_encode_list:
  "(\<forall>x \<in> set xs. valid x) \<Longrightarrow> traverse from_mapping (map to_dict xs) = Inr xs"
  using traverse_map_Inr [of xs from_mapping to_dict "\<lambda>x. x"] by (simp add: decode_encode)

lemma decode_list_valid:
  "traverse from_mapping ds = Inr xs \<Longrightarrow> x \<in> set xs \<Longrightarrow> valid x"
  by (metis traverse_set decode_valid)

end

text \<open>A dataclass with both.\<close>

locale dataclass_codec = validated + record_codec

section \<open>Machines with fallible steps\<close>

fun run_steps :: "('s \<Rightarrow> 'i \<Rightarrow> 's result) \<Rightarrow> 's \<Rightarrow> 'i list \<Rightarrow> 's result" where
  "run_steps step s [] = Inr s"
| "run_steps step s (i # is) = bindE (step s i) (\<lambda>t. run_steps step t is)"

lemma run_steps_append:
  "run_steps step s (is @ js) = bindE (run_steps step s is) (\<lambda>t. run_steps step t js)"
proof (induction "is" arbitrary: s)
  case Nil
  show ?case by simp
next
  case (Cons i "is")
  show ?case by (cases "step s i") (simp_all add: Cons.IH)
qed

text \<open>\<open>ok\<close> is what the machine may assume of its inputs.\<close>

locale result_machine =
  fixes step :: "'s \<Rightarrow> 'i \<Rightarrow> 's result" and inv :: "'s \<Rightarrow> bool" and ok :: "'i \<Rightarrow> bool"
  assumes step_inv: "inv s \<Longrightarrow> ok i \<Longrightarrow> step s i = Inr t \<Longrightarrow> inv t"
begin

lemma run_inv: "inv s \<Longrightarrow> \<forall>i \<in> set is. ok i \<Longrightarrow> run_steps step s is = Inr t \<Longrightarrow> inv t"
  by (induction "is" arbitrary: s) (auto simp: bindE_eq_Inr intro: step_inv)

end

text \<open>A machine whose every step respects a preorder: the order then relates the ends of
  every run.\<close>

locale ordered_machine = result_machine +
  fixes le :: "'s \<Rightarrow> 's \<Rightarrow> bool"
  assumes le_refl: "le s s"
    and le_trans: "le s t \<Longrightarrow> le t u \<Longrightarrow> le s u"
    and step_le: "inv s \<Longrightarrow> ok i \<Longrightarrow> step s i = Inr t \<Longrightarrow> le s t"
begin

lemma run_le:
  "inv s \<Longrightarrow> \<forall>i \<in> set is. ok i \<Longrightarrow> run_steps step s is = Inr t \<Longrightarrow> le s t"
proof (induction "is" arbitrary: s)
  case Nil
  then show ?case by (simp add: le_refl)
next
  case (Cons i "is")
  then obtain u where u: "step s i = Inr u" "run_steps step u is = Inr t"
    by (auto simp: bindE_eq_Inr)
  from Cons.prems(2) have ok: "ok i" "\<forall>i \<in> set is. ok i" by simp_all
  from Cons.prems(1) ok(1) u(1) have "inv u" by (rule step_inv)
  then have "le u t" using ok(2) u(2) by (rule Cons.IH)
  with step_le [OF Cons.prems(1) ok(1) u(1)] show ?case by (rule le_trans)
qed

end

end
