(* ===== verification/Core_Plan.thy ===== *)
theory Core_Plan
  imports Py_Codec
begin

text \<open>
  The canonical task plan, \<^verbatim>\<open>src/codepilot/core/plan.py\<close>: plan values as records, the
  validation each dataclass performs in \<^verbatim>\<open>__post_init__\<close>, the strict dictionary
  codecs, and the well-formedness predicates that these constructors establish.
  \<^verbatim>\<open>dataclasses.replace\<close> re-runs \<^verbatim>\<open>__post_init__\<close>, so an update of a plan in the
  reducer is the record update followed by \<open>plan_state_post_init\<close>.
\<close>

section \<open>Literal types\<close>

datatype run_mode = ModeRead | ModePlan | ModeBuild
datatype budget_profile = Conservative | Balanced | Wide
datatype plan_origin = OriginPlanMode | OriginBuildMode
datatype plan_status = PlanProposed | PlanActive | PlanCompleted | PlanRejected | PlanAbandoned
datatype step_status = StepPending | StepInProgress | StepCompleted
datatype revision_reason = UserRequest | RepeatedExecutionFailure | NewEvidence
datatype plan_operation = ProposePlan | CreateBuildPlan | UpdatePlanProgressOp | ClosePlan

fun run_mode_name :: "run_mode \<Rightarrow> string" where
  "run_mode_name ModeRead = ''read''"
| "run_mode_name ModePlan = ''plan''"
| "run_mode_name ModeBuild = ''build''"

fun budget_profile_name :: "budget_profile \<Rightarrow> string" where
  "budget_profile_name Conservative = ''conservative''"
| "budget_profile_name Balanced = ''balanced''"
| "budget_profile_name Wide = ''wide''"

fun plan_origin_name :: "plan_origin \<Rightarrow> string" where
  "plan_origin_name OriginPlanMode = ''plan_mode''"
| "plan_origin_name OriginBuildMode = ''build_mode''"

fun plan_status_name :: "plan_status \<Rightarrow> string" where
  "plan_status_name PlanProposed = ''proposed''"
| "plan_status_name PlanActive = ''active''"
| "plan_status_name PlanCompleted = ''completed''"
| "plan_status_name PlanRejected = ''rejected''"
| "plan_status_name PlanAbandoned = ''abandoned''"

fun step_status_name :: "step_status \<Rightarrow> string" where
  "step_status_name StepPending = ''pending''"
| "step_status_name StepInProgress = ''in_progress''"
| "step_status_name StepCompleted = ''completed''"

fun revision_reason_name :: "revision_reason \<Rightarrow> string" where
  "revision_reason_name UserRequest = ''user_request''"
| "revision_reason_name RepeatedExecutionFailure = ''repeated_execution_failure''"
| "revision_reason_name NewEvidence = ''new_evidence''"

fun plan_operation_name :: "plan_operation \<Rightarrow> string" where
  "plan_operation_name ProposePlan = ''propose_plan''"
| "plan_operation_name CreateBuildPlan = ''create_build_plan''"
| "plan_operation_name UpdatePlanProgressOp = ''update_plan_progress''"
| "plan_operation_name ClosePlan = ''close_plan''"

definition ensure_run_mode :: "pyval \<Rightarrow> run_mode result" where
  "ensure_run_mode = parse_enum run_mode_name [ModeRead, ModePlan, ModeBuild]
     (\<lambda>t. ValueError (''Unknown run mode: '' @ t))"

definition ensure_planning_budget_profile :: "pyval \<Rightarrow> budget_profile result" where
  "ensure_planning_budget_profile =
     parse_enum budget_profile_name [Conservative, Balanced, Wide]
       (\<lambda>t. ValueError (''Unknown planning budget profile: '' @ t))"

definition ensure_plan_origin :: "pyval \<Rightarrow> plan_origin result" where
  "ensure_plan_origin = parse_enum plan_origin_name [OriginPlanMode, OriginBuildMode]
     (\<lambda>t. PlanValidationError (''Unknown plan origin: '' @ t))"

definition ensure_plan_status :: "pyval \<Rightarrow> plan_status result" where
  "ensure_plan_status = parse_enum plan_status_name
     [PlanProposed, PlanActive, PlanCompleted, PlanRejected, PlanAbandoned]
     (\<lambda>t. PlanValidationError (''Unknown plan status: '' @ t))"

definition ensure_plan_step_status :: "pyval \<Rightarrow> step_status result" where
  "ensure_plan_step_status = parse_enum step_status_name
     [StepPending, StepInProgress, StepCompleted]
     (\<lambda>t. PlanValidationError (''Unknown plan step status: '' @ t))"

definition ensure_plan_revision_reason :: "pyval \<Rightarrow> revision_reason result" where
  "ensure_plan_revision_reason = parse_enum revision_reason_name
     [UserRequest, RepeatedExecutionFailure, NewEvidence]
     (\<lambda>t. PlanValidationError (''Unknown plan revision reason: '' @ t))"

definition ensure_plan_operation :: "pyval \<Rightarrow> plan_operation result" where
  "ensure_plan_operation = parse_enum plan_operation_name
     [ProposePlan, CreateBuildPlan, UpdatePlanProgressOp, ClosePlan]
     (\<lambda>t. PlanValidationError (''Unknown plan operation: '' @ t))"

interpretation run_mode: str_enum run_mode_name "[ModeRead, ModePlan, ModeBuild]"
proof
  fix a b e :: run_mode
  show "run_mode_name a = run_mode_name b \<Longrightarrow> a = b" by (cases a; cases b) simp_all
  show "e \<in> set [ModeRead, ModePlan, ModeBuild]" by (cases e) simp_all
  show "py_strip (run_mode_name e) = run_mode_name e"
    by (cases e) (simp_all add: py_strip_fix stripped_def py_space_bits)
qed

interpretation budget_profile: str_enum budget_profile_name "[Conservative, Balanced, Wide]"
proof
  fix a b e :: budget_profile
  show "budget_profile_name a = budget_profile_name b \<Longrightarrow> a = b" by (cases a; cases b) simp_all
  show "e \<in> set [Conservative, Balanced, Wide]" by (cases e) simp_all
  show "py_strip (budget_profile_name e) = budget_profile_name e"
    by (cases e) (simp_all add: py_strip_fix stripped_def py_space_bits)
qed

interpretation plan_origin: str_enum plan_origin_name "[OriginPlanMode, OriginBuildMode]"
proof
  fix a b e :: plan_origin
  show "plan_origin_name a = plan_origin_name b \<Longrightarrow> a = b" by (cases a; cases b) simp_all
  show "e \<in> set [OriginPlanMode, OriginBuildMode]" by (cases e) simp_all
  show "py_strip (plan_origin_name e) = plan_origin_name e"
    by (cases e) (simp_all add: py_strip_fix stripped_def py_space_bits)
qed

interpretation plan_status: str_enum plan_status_name "[PlanProposed, PlanActive, PlanCompleted, PlanRejected, PlanAbandoned]"
proof
  fix a b e :: plan_status
  show "plan_status_name a = plan_status_name b \<Longrightarrow> a = b" by (cases a; cases b) simp_all
  show "e \<in> set [PlanProposed, PlanActive, PlanCompleted, PlanRejected, PlanAbandoned]" by (cases e) simp_all
  show "py_strip (plan_status_name e) = plan_status_name e"
    by (cases e) (simp_all add: py_strip_fix stripped_def py_space_bits)
qed

interpretation step_status: str_enum step_status_name "[StepPending, StepInProgress, StepCompleted]"
proof
  fix a b e :: step_status
  show "step_status_name a = step_status_name b \<Longrightarrow> a = b" by (cases a; cases b) simp_all
  show "e \<in> set [StepPending, StepInProgress, StepCompleted]" by (cases e) simp_all
  show "py_strip (step_status_name e) = step_status_name e"
    by (cases e) (simp_all add: py_strip_fix stripped_def py_space_bits)
qed

interpretation revision_reason: str_enum revision_reason_name "[UserRequest, RepeatedExecutionFailure, NewEvidence]"
proof
  fix a b e :: revision_reason
  show "revision_reason_name a = revision_reason_name b \<Longrightarrow> a = b" by (cases a; cases b) simp_all
  show "e \<in> set [UserRequest, RepeatedExecutionFailure, NewEvidence]" by (cases e) simp_all
  show "py_strip (revision_reason_name e) = revision_reason_name e"
    by (cases e) (simp_all add: py_strip_fix stripped_def py_space_bits)
qed

interpretation plan_operation: str_enum plan_operation_name "[ProposePlan, CreateBuildPlan, UpdatePlanProgressOp, ClosePlan]"
proof
  fix a b e :: plan_operation
  show "plan_operation_name a = plan_operation_name b \<Longrightarrow> a = b" by (cases a; cases b) simp_all
  show "e \<in> set [ProposePlan, CreateBuildPlan, UpdatePlanProgressOp, ClosePlan]" by (cases e) simp_all
  show "py_strip (plan_operation_name e) = plan_operation_name e"
    by (cases e) (simp_all add: py_strip_fix stripped_def py_space_bits)
qed

lemmas ensure_defs =
  ensure_run_mode_def ensure_planning_budget_profile_def ensure_plan_origin_def
  ensure_plan_status_def ensure_plan_step_status_def ensure_plan_revision_reason_def
  ensure_plan_operation_def

lemmas ensure_names [simp] =
  run_mode.parse_name [of "\<lambda>t. ValueError (''Unknown run mode: '' @ t)",
    folded ensure_run_mode_def]
  plan_origin.parse_name [of "\<lambda>t. PlanValidationError (''Unknown plan origin: '' @ t)",
    folded ensure_plan_origin_def]
  plan_status.parse_name [of "\<lambda>t. PlanValidationError (''Unknown plan status: '' @ t)",
    folded ensure_plan_status_def]
  step_status.parse_name [of "\<lambda>t. PlanValidationError (''Unknown plan step status: '' @ t)",
    folded ensure_plan_step_status_def]
  revision_reason.parse_name
    [of "\<lambda>t. PlanValidationError (''Unknown plan revision reason: '' @ t)",
    folded ensure_plan_revision_reason_def]

section \<open>Field helpers\<close>

abbreviation PLAN_STATE_SCHEMA_VERSION :: int where "PLAN_STATE_SCHEMA_VERSION \<equiv> 7"
abbreviation MAX_PLAN_ITEMS :: nat where "MAX_PLAN_ITEMS \<equiv> 20"
abbreviation QUALIFIED_FAILURES_FOR_REVISION :: int where
  "QUALIFIED_FAILURES_FOR_REVISION \<equiv> 5"

definition plan_optional_text :: "pyval \<Rightarrow> string option" where
  "plan_optional_text v = optional_text plan_clean v"

definition plan_required_text :: "pyval \<Rightarrow> string \<Rightarrow> string result" where
  "plan_required_text v field =
     required_text plan_clean (PlanValidationError (field @ '' is required'')) v"

text \<open>\<^verbatim>\<open>_optional_text(value) or ""\<close>.\<close>

definition plan_text_or_empty :: "pyval \<Rightarrow> string" where
  "plan_text_or_empty v = (case plan_optional_text v of None \<Rightarrow> [] | Some t \<Rightarrow> t)"

definition plan_text_tuple :: "string list \<Rightarrow> string \<Rightarrow> nat \<Rightarrow> nat \<Rightarrow> string list result" where
  "plan_text_tuple vs field lo hi =
     bindE (text_tuple plan_clean
              (\<lambda>i. PlanValidationError (field @ ''['' @ str_nat i @ ''] is required'')) vs)
       (\<lambda>items. if lo \<le> length items \<and> length items \<le> hi then Inr items
          else Inl (PlanValidationError (field @ '' must contain between '' @ str_nat lo
                 @ '' and '' @ str_nat hi @ '' items'')))"

definition plan_non_negative_int :: "pyval \<Rightarrow> string \<Rightarrow> int result" where
  "plan_non_negative_int v field =
     (case v of
        PInt i \<Rightarrow> if i < 0 then Inl (PlanValidationError (field @ '' must be a non-negative integer''))
                 else Inr i
      | _ \<Rightarrow> Inl (PlanValidationError (field @ '' must be a non-negative integer'')))"

definition plan_mapping :: "pyval \<Rightarrow> string \<Rightarrow> dict result" where
  "plan_mapping v field =
     (case v of PDict d \<Rightarrow> Inr d
      | _ \<Rightarrow> Inl (PlanValidationError (field @ '' must be an object'')))"

fun as_mappings :: "exn \<Rightarrow> pyval list \<Rightarrow> dict list result" where
  "as_mappings e [] = Inr []"
| "as_mappings e (PDict d # vs) = bindE (as_mappings e vs) (\<lambda>ds. Inr (d # ds))"
| "as_mappings e (_ # vs) = Inl e"

definition plan_mapping_sequence :: "pyval \<Rightarrow> string \<Rightarrow> dict list result" where
  "plan_mapping_sequence v field =
     (case v of
        PList xs \<Rightarrow> as_mappings (PlanValidationError (field @ '' must contain objects'')) xs
      | PTuple xs \<Rightarrow> as_mappings (PlanValidationError (field @ '' must contain objects'')) xs
      | _ \<Rightarrow> Inl (PlanValidationError (field @ '' must be a list'')))"

definition plan_sequence :: "pyval \<Rightarrow> string \<Rightarrow> string list result" where
  "plan_sequence v field =
     (case v of
        PList xs \<Rightarrow> Inr (map py_str xs)
      | PTuple xs \<Rightarrow> Inr (map py_str xs)
      | _ \<Rightarrow> Inl (PlanValidationError (field @ '' must be a list'')))"

definition plan_reject_unknown :: "dict \<Rightarrow> string list \<Rightarrow> string \<Rightarrow> unit result" where
  "plan_reject_unknown raw allowed field =
     (let unknown = sort (remdups (filter (\<lambda>k. k \<notin> set allowed) (map fst raw)))
      in if unknown \<noteq> []
         then Inl (PlanValidationError
                (''unknown '' @ field @ '' fields: '' @ py_join '', '' unknown))
         else Inr ())"

lemma plan_text_or_empty_PStr [simp]: "plan_text_or_empty (PStr s) = plan_clean s"
  by (simp add: plan_text_or_empty_def plan_optional_text_def optional_text_PStr)

lemma plan_clean_Nil [simp]: "plan_clean [] = []"
  by (simp add: plan_clean_def py_strip_def py_lstrip_def)

lemma plan_text_or_empty_clean [simp]: "plan_clean (plan_text_or_empty v) = plan_text_or_empty v"
  using clean.optional_text_canon [of v]
  by (auto simp: plan_text_or_empty_def plan_optional_text_def canon_text_def split: option.splits)

lemma plan_required_text_canon: "plan_required_text v f = Inr t \<Longrightarrow> canon_text plan_clean t"
  unfolding plan_required_text_def by (rule clean.required_text_canon)

lemma plan_required_text_fix:
  "plan_required_text (PStr s) f = Inr s \<longleftrightarrow> canon_text plan_clean s"
  using plan_required_text_canon [of "PStr s" f s]
  by (auto simp: plan_required_text_def intro: required_text_fix)

lemma plan_text_tuple_canon:
  "plan_text_tuple vs f lo hi = Inr ts \<Longrightarrow>
   canon_texts plan_clean ts \<and> lo \<le> length ts \<and> length ts \<le> hi"
  using clean.text_tuple_canon by (auto simp: plan_text_tuple_def bindE_eq_Inr)

lemma plan_text_tuple_fix:
  "plan_text_tuple ts f lo hi = Inr ts \<longleftrightarrow>
   canon_texts plan_clean ts \<and> lo \<le> length ts \<and> length ts \<le> hi"
  using plan_text_tuple_canon [of ts f lo hi ts]
  by (auto simp: plan_text_tuple_def text_tuple_fix)

lemma plan_text_tuple_Nil [simp]: "plan_text_tuple [] f 0 hi = Inr []"
  by (simp add: plan_text_tuple_def text_tuple_def)

lemma as_mappings_map [simp]: "as_mappings e (map PDict ds) = Inr ds"
  by (induction ds) auto

lemma plan_mapping_sequence_PDict [simp]:
  "plan_mapping_sequence (PList (map (\<lambda>x. PDict (f x)) xs)) field = Inr (map f xs)"
  using as_mappings_map [of _ "map f xs"] by (simp add: plan_mapping_sequence_def comp_def)

lemma plan_sequence_PStr [simp]: "plan_sequence (PList (map PStr xs)) f = Inr xs"
  by (simp add: plan_sequence_def comp_def)

lemma plan_reject_unknown_ok [simp]:
  "set (map fst raw) \<subseteq> set allowed \<Longrightarrow> plan_reject_unknown raw allowed f = Inr ()"
proof -
  assume "set (map fst raw) \<subseteq> set allowed"
  then have "filter (\<lambda>k. k \<notin> set allowed) (map fst raw) = []"
    unfolding filter_empty_conv by blast
  then show ?thesis by (simp only: plan_reject_unknown_def Let_def) simp
qed

lemma plan_mapping_PDict [simp]: "plan_mapping (PDict d) f = Inr d"
  by (simp add: plan_mapping_def)

lemma plan_non_negative_int_PInt:
  "plan_non_negative_int (PInt i) f = Inr j \<longleftrightarrow> 0 \<le> i \<and> j = i"
  by (auto simp: plan_non_negative_int_def)

lemma plan_non_negative_int_sound: "plan_non_negative_int v f = Inr i \<Longrightarrow> 0 \<le> i"
  by (auto simp: plan_non_negative_int_def split: pyval.splits if_splits)

section \<open>Plan definition\<close>

record plan_definition =
  pd_summary :: string
  pd_completion_criteria :: "string list"
  pd_task_understanding :: string
  pd_current_implementation :: string
  pd_target_design :: string
  pd_impact_scope :: string
  pd_risks_and_open_questions :: "string list"
  pd_verification_plan :: string
  pd_explanation :: string

definition plan_definition_post_init :: "plan_definition \<Rightarrow> plan_definition result" where
  "plan_definition_post_init d =
     bindE (plan_required_text (PStr (pd_summary d)) ''summary'') (\<lambda>summary.
     bindE (plan_text_tuple (pd_completion_criteria d) ''completion_criteria'' 1 5) (\<lambda>criteria.
     bindE (plan_text_tuple (pd_risks_and_open_questions d) ''risks_and_open_questions'' 0 8)
       (\<lambda>risks.
     Inr \<lparr>pd_summary = summary,
          pd_completion_criteria = criteria,
          pd_task_understanding = plan_text_or_empty (PStr (pd_task_understanding d)),
          pd_current_implementation = plan_text_or_empty (PStr (pd_current_implementation d)),
          pd_target_design = plan_text_or_empty (PStr (pd_target_design d)),
          pd_impact_scope = plan_text_or_empty (PStr (pd_impact_scope d)),
          pd_risks_and_open_questions = risks,
          pd_verification_plan = plan_text_or_empty (PStr (pd_verification_plan d)),
          pd_explanation = plan_text_or_empty (PStr (pd_explanation d))\<rparr>)))"

definition require_plan_mode_details :: "plan_definition \<Rightarrow> unit result" where
  "require_plan_mode_details d =
     (case find (\<lambda>(name, value). value = [])
        [(''task_understanding'', pd_task_understanding d),
         (''current_implementation'', pd_current_implementation d),
         (''target_design'', pd_target_design d),
         (''impact_scope'', pd_impact_scope d),
         (''verification_plan'', pd_verification_plan d)] of
        Some (name, _) \<Rightarrow> Inl (PlanValidationError (name @ '' is required in plan mode''))
      | None \<Rightarrow>
          if pd_risks_and_open_questions d = []
          then Inl (PlanValidationError
            ''risks_and_open_questions must contain at least 1 item in plan mode'')
          else Inr ())"

definition plan_definition_to_dict :: "plan_definition \<Rightarrow> dict" where
  "plan_definition_to_dict d =
     [(''summary'', PStr (pd_summary d)),
      (''completion_criteria'', PList (map PStr (pd_completion_criteria d))),
      (''task_understanding'', PStr (pd_task_understanding d)),
      (''current_implementation'', PStr (pd_current_implementation d)),
      (''target_design'', PStr (pd_target_design d)),
      (''impact_scope'', PStr (pd_impact_scope d)),
      (''risks_and_open_questions'', PList (map PStr (pd_risks_and_open_questions d))),
      (''verification_plan'', PStr (pd_verification_plan d)),
      (''explanation'', PStr (pd_explanation d))]"

definition plan_definition_from_mapping :: "dict \<Rightarrow> plan_definition result" where
  "plan_definition_from_mapping raw =
     bindE (plan_reject_unknown raw
       [''summary'', ''completion_criteria'', ''task_understanding'',
        ''current_implementation'', ''target_design'', ''impact_scope'',
        ''risks_and_open_questions'', ''verification_plan'', ''explanation'']
       ''plan definition'') (\<lambda>_.
     bindE (plan_required_text (dget raw ''summary'') ''summary'') (\<lambda>summary.
     bindE (plan_sequence (dget raw ''completion_criteria'') ''completion_criteria'') (\<lambda>criteria.
     bindE (plan_sequence (dget_default raw ''risks_and_open_questions'' (PTuple []))
              ''risks_and_open_questions'') (\<lambda>risks.
     plan_definition_post_init
       \<lparr>pd_summary = summary,
        pd_completion_criteria = criteria,
        pd_task_understanding = plan_text_or_empty (dget raw ''task_understanding''),
        pd_current_implementation = plan_text_or_empty (dget raw ''current_implementation''),
        pd_target_design = plan_text_or_empty (dget raw ''target_design''),
        pd_impact_scope = plan_text_or_empty (dget raw ''impact_scope''),
        pd_risks_and_open_questions = risks,
        pd_verification_plan = plan_text_or_empty (dget raw ''verification_plan''),
        pd_explanation = plan_text_or_empty (dget raw ''explanation'')\<rparr>))))"

definition wf_plan_definition :: "plan_definition \<Rightarrow> bool" where
  "wf_plan_definition d \<longleftrightarrow>
     canon_text plan_clean (pd_summary d) \<and>
     canon_texts plan_clean (pd_completion_criteria d) \<and>
     1 \<le> length (pd_completion_criteria d) \<and> length (pd_completion_criteria d) \<le> 5 \<and>
     canon_texts plan_clean (pd_risks_and_open_questions d) \<and>
     length (pd_risks_and_open_questions d) \<le> 8 \<and>
     plan_clean (pd_task_understanding d) = pd_task_understanding d \<and>
     plan_clean (pd_current_implementation d) = pd_current_implementation d \<and>
     plan_clean (pd_target_design d) = pd_target_design d \<and>
     plan_clean (pd_impact_scope d) = pd_impact_scope d \<and>
     plan_clean (pd_verification_plan d) = pd_verification_plan d \<and>
     plan_clean (pd_explanation d) = pd_explanation d"

lemma plan_definition_eta [simp]:
  "\<lparr>pd_summary = pd_summary x,
    pd_completion_criteria = pd_completion_criteria x,
    pd_task_understanding = pd_task_understanding x,
    pd_current_implementation = pd_current_implementation x,
    pd_target_design = pd_target_design x,
    pd_impact_scope = pd_impact_scope x,
    pd_risks_and_open_questions = pd_risks_and_open_questions x,
    pd_verification_plan = pd_verification_plan x,
    pd_explanation = pd_explanation x\<rparr> = (x :: plan_definition)"
  by simp

lemma plan_definition_post_init_wf:
  "plan_definition_post_init d = Inr e \<Longrightarrow> wf_plan_definition e"
  by (auto simp: plan_definition_post_init_def bindE_eq_Inr wf_plan_definition_def
      dest!: plan_required_text_canon plan_text_tuple_canon)

lemma plan_definition_post_init_fix:
  "plan_definition_post_init d = Inr d \<longleftrightarrow> wf_plan_definition d"
proof
  show "wf_plan_definition d" if "plan_definition_post_init d = Inr d"
    using that by (rule plan_definition_post_init_wf)
  show "plan_definition_post_init d = Inr d" if "wf_plan_definition d"
    using that
    by (simp add: plan_definition_post_init_def wf_plan_definition_def plan_required_text_def
        required_text_fix plan_text_tuple_fix [THEN iffD2])
qed

lemma plan_definition_decode_encode:
  "wf_plan_definition d \<Longrightarrow> plan_definition_from_mapping (plan_definition_to_dict d) = Inr d"
  using plan_definition_post_init_fix [of d]
  by (simp add: plan_definition_from_mapping_def plan_definition_to_dict_def
      wf_plan_definition_def plan_required_text_def required_text_fix)

interpretation plan_definition: dataclass_codec wf_plan_definition plan_definition_post_init
  plan_definition_to_dict plan_definition_from_mapping
proof
  fix x y :: plan_definition and d :: dict
  show "wf_plan_definition y" if "plan_definition_post_init x = Inr y"
    using that by (rule plan_definition_post_init_wf)
  show "plan_definition_post_init x = Inr x" if "wf_plan_definition x"
    using that by (simp add: plan_definition_post_init_fix)
  show "plan_definition_from_mapping (plan_definition_to_dict x) = Inr x"
    if "wf_plan_definition x"
    using that by (rule plan_definition_decode_encode)
  show "wf_plan_definition x" if "plan_definition_from_mapping d = Inr x"
    using that
    by (auto simp: plan_definition_from_mapping_def bindE_eq_Inr dest: plan_definition_post_init_wf)
qed

section \<open>Plan steps\<close>

record plan_step_definition =
  psd_step :: string
  psd_details :: string
  psd_verification :: string

definition plan_step_definition_post_init ::
  "plan_step_definition \<Rightarrow> plan_step_definition result" where
  "plan_step_definition_post_init d =
     bindE (plan_required_text (PStr (psd_step d)) ''step'') (\<lambda>step.
     bindE (plan_required_text (PStr (psd_details d)) ''details'') (\<lambda>details.
     bindE (plan_required_text (PStr (psd_verification d)) ''verification'') (\<lambda>verification.
     Inr \<lparr>psd_step = step, psd_details = details, psd_verification = verification\<rparr>)))"

definition plan_step_definition_to_dict :: "plan_step_definition \<Rightarrow> dict" where
  "plan_step_definition_to_dict d =
     [(''step'', PStr (psd_step d)),
      (''details'', PStr (psd_details d)),
      (''verification'', PStr (psd_verification d))]"

definition plan_step_definition_from_mapping :: "dict \<Rightarrow> plan_step_definition result" where
  "plan_step_definition_from_mapping raw =
     bindE (plan_reject_unknown raw [''step'', ''details'', ''verification''] ''plan step'') (\<lambda>_.
     bindE (plan_required_text (dget raw ''step'') ''step'') (\<lambda>step.
     bindE (plan_required_text (dget raw ''details'') ''details'') (\<lambda>details.
     bindE (plan_required_text (dget raw ''verification'') ''verification'') (\<lambda>verification.
     plan_step_definition_post_init
       \<lparr>psd_step = step, psd_details = details, psd_verification = verification\<rparr>))))"

definition wf_plan_step_definition :: "plan_step_definition \<Rightarrow> bool" where
  "wf_plan_step_definition d \<longleftrightarrow>
     canon_text plan_clean (psd_step d) \<and> canon_text plan_clean (psd_details d) \<and>
     canon_text plan_clean (psd_verification d)"

lemma plan_step_definition_eta [simp]:
  "\<lparr>psd_step = psd_step x,
    psd_details = psd_details x,
    psd_verification = psd_verification x\<rparr> = (x :: plan_step_definition)"
  by simp

lemma plan_step_definition_post_init_wf:
  "plan_step_definition_post_init d = Inr e \<Longrightarrow> wf_plan_step_definition e"
  by (auto simp: plan_step_definition_post_init_def bindE_eq_Inr wf_plan_step_definition_def
      dest!: plan_required_text_canon)

lemma plan_step_definition_post_init_fix:
  "plan_step_definition_post_init d = Inr d \<longleftrightarrow> wf_plan_step_definition d"
proof
  show "wf_plan_step_definition d" if "plan_step_definition_post_init d = Inr d"
    using that by (rule plan_step_definition_post_init_wf)
  show "plan_step_definition_post_init d = Inr d" if "wf_plan_step_definition d"
    using that
    by (simp add: plan_step_definition_post_init_def wf_plan_step_definition_def
        plan_required_text_def required_text_fix)
qed

lemma plan_step_definition_decode_encode:
  "wf_plan_step_definition d \<Longrightarrow>
   plan_step_definition_from_mapping (plan_step_definition_to_dict d) = Inr d"
  using plan_step_definition_post_init_fix [of d]
  by (simp add: plan_step_definition_from_mapping_def plan_step_definition_to_dict_def
      wf_plan_step_definition_def plan_required_text_def required_text_fix)

interpretation plan_step_definition: dataclass_codec wf_plan_step_definition plan_step_definition_post_init
  plan_step_definition_to_dict plan_step_definition_from_mapping
proof
  fix x y :: plan_step_definition and d :: dict
  show "wf_plan_step_definition y" if "plan_step_definition_post_init x = Inr y"
    using that by (rule plan_step_definition_post_init_wf)
  show "plan_step_definition_post_init x = Inr x" if "wf_plan_step_definition x"
    using that by (simp add: plan_step_definition_post_init_fix)
  show "plan_step_definition_from_mapping (plan_step_definition_to_dict x) = Inr x"
    if "wf_plan_step_definition x"
    using that by (rule plan_step_definition_decode_encode)
  show "wf_plan_step_definition x" if "plan_step_definition_from_mapping d = Inr x"
    using that
    by (auto simp: plan_step_definition_from_mapping_def bindE_eq_Inr dest: plan_step_definition_post_init_wf)
qed

record plan_step =
  st_step_id :: string
  st_step :: string
  st_details :: string
  st_verification :: string
  st_status :: step_status
  st_completion_note :: string
  st_evidence_refs :: "string list"

definition plan_step_post_init :: "plan_step \<Rightarrow> plan_step result" where
  "plan_step_post_init s =
     bindE (plan_required_text (PStr (st_step_id s)) ''step_id'') (\<lambda>step_id.
     bindE (plan_required_text (PStr (st_step s)) ''step'') (\<lambda>step.
     bindE (plan_required_text (PStr (st_details s)) ''details'') (\<lambda>details.
     bindE (plan_required_text (PStr (st_verification s)) ''verification'') (\<lambda>verification.
     bindE (plan_text_tuple (st_evidence_refs s) ''evidence_refs'' 0 64) (\<lambda>refs.
     let note = plan_text_or_empty (PStr (st_completion_note s)) in
     if st_status s = StepCompleted \<and> note = [] then
       Inl (PlanValidationError ''completed plan step requires completion_note'')
     else if st_status s \<noteq> StepCompleted \<and> (note \<noteq> [] \<or> refs \<noteq> []) then
       Inl (PlanValidationError ''only completed plan steps can contain completion evidence'')
     else
       Inr \<lparr>st_step_id = step_id, st_step = step, st_details = details,
            st_verification = verification, st_status = st_status s,
            st_completion_note = note, st_evidence_refs = refs\<rparr>)))))"

definition plan_step_definition_of :: "plan_step \<Rightarrow> plan_step_definition result" where
  "plan_step_definition_of s =
     plan_step_definition_post_init
       \<lparr>psd_step = st_step s, psd_details = st_details s,
        psd_verification = st_verification s\<rparr>"

definition plan_step_to_dict :: "plan_step \<Rightarrow> dict" where
  "plan_step_to_dict s =
     [(''step_id'', PStr (st_step_id s)),
      (''step'', PStr (st_step s)),
      (''details'', PStr (st_details s)),
      (''verification'', PStr (st_verification s)),
      (''status'', PStr (step_status_name (st_status s))),
      (''completion_note'', PStr (st_completion_note s)),
      (''evidence_refs'', PList (map PStr (st_evidence_refs s)))]"

definition plan_step_from_mapping :: "dict \<Rightarrow> plan_step result" where
  "plan_step_from_mapping raw =
     bindE (plan_reject_unknown raw
       [''step_id'', ''step'', ''details'', ''verification'', ''status'',
        ''completion_note'', ''evidence_refs''] ''plan step'') (\<lambda>_.
     bindE (plan_required_text (dget raw ''step_id'') ''step_id'') (\<lambda>step_id.
     bindE (plan_required_text (dget raw ''step'') ''step'') (\<lambda>step.
     bindE (plan_required_text (dget raw ''details'') ''details'') (\<lambda>details.
     bindE (plan_required_text (dget raw ''verification'') ''verification'') (\<lambda>verification.
     bindE (ensure_plan_step_status (dget raw ''status'')) (\<lambda>status.
     bindE (plan_sequence (dget_default raw ''evidence_refs'' (PTuple [])) ''evidence_refs'')
       (\<lambda>refs.
     plan_step_post_init
       \<lparr>st_step_id = step_id, st_step = step, st_details = details,
        st_verification = verification, st_status = status,
        st_completion_note = plan_text_or_empty (dget raw ''completion_note''),
        st_evidence_refs = refs\<rparr>)))))))"

definition wf_plan_step :: "plan_step \<Rightarrow> bool" where
  "wf_plan_step s \<longleftrightarrow>
     canon_text plan_clean (st_step_id s) \<and> canon_text plan_clean (st_step s) \<and>
     canon_text plan_clean (st_details s) \<and> canon_text plan_clean (st_verification s) \<and>
     canon_texts plan_clean (st_evidence_refs s) \<and> length (st_evidence_refs s) \<le> 64 \<and>
     plan_clean (st_completion_note s) = st_completion_note s \<and>
     (st_status s = StepCompleted \<longrightarrow> st_completion_note s \<noteq> []) \<and>
     (st_status s \<noteq> StepCompleted \<longrightarrow>
        st_completion_note s = [] \<and> st_evidence_refs s = [])"

lemma plan_step_eta [simp]:
  "\<lparr>st_step_id = st_step_id x,
    st_step = st_step x,
    st_details = st_details x,
    st_verification = st_verification x,
    st_status = st_status x,
    st_completion_note = st_completion_note x,
    st_evidence_refs = st_evidence_refs x\<rparr> = (x :: plan_step)"
  by simp

lemma plan_step_post_init_wf:
  "plan_step_post_init s = Inr t \<Longrightarrow> wf_plan_step t"
  by (auto simp: plan_step_post_init_def bindE_eq_Inr wf_plan_step_def Let_def
      dest!: plan_required_text_canon plan_text_tuple_canon)

lemma plan_step_post_init_fix: "plan_step_post_init s = Inr s \<longleftrightarrow> wf_plan_step s"
proof
  show "wf_plan_step s" if "plan_step_post_init s = Inr s"
    using that by (rule plan_step_post_init_wf)
  show "plan_step_post_init s = Inr s" if "wf_plan_step s"
    using that
    by (cases "st_status s = StepCompleted")
       (simp_all add: plan_step_post_init_def wf_plan_step_def plan_required_text_def
        required_text_fix plan_text_tuple_fix [THEN iffD2] Let_def plan_step.equality)
qed

lemma plan_step_post_init_status:
  "plan_step_post_init s = Inr t \<Longrightarrow> st_status t = st_status s"
  by (auto simp: plan_step_post_init_def bindE_eq_Inr Let_def)

lemma plan_step_decode_encode:
  "wf_plan_step s \<Longrightarrow> plan_step_from_mapping (plan_step_to_dict s) = Inr s"
  using plan_step_post_init_fix [of s]
  by (simp add: plan_step_from_mapping_def plan_step_to_dict_def
      wf_plan_step_def plan_required_text_def required_text_fix)

interpretation plan_step: dataclass_codec wf_plan_step plan_step_post_init
  plan_step_to_dict plan_step_from_mapping
proof
  fix x y :: plan_step and d :: dict
  show "wf_plan_step y" if "plan_step_post_init x = Inr y"
    using that by (rule plan_step_post_init_wf)
  show "plan_step_post_init x = Inr x" if "wf_plan_step x"
    using that by (simp add: plan_step_post_init_fix)
  show "plan_step_from_mapping (plan_step_to_dict x) = Inr x"
    if "wf_plan_step x"
    using that by (rule plan_step_decode_encode)
  show "wf_plan_step x" if "plan_step_from_mapping d = Inr x"
    using that
    by (auto simp: plan_step_from_mapping_def bindE_eq_Inr dest: plan_step_post_init_wf)
qed

record plan_step_update =
  su_step_id :: string
  su_status :: step_status
  su_completion_note :: string
  su_evidence_refs :: "string list"

definition plan_step_update_post_init :: "plan_step_update \<Rightarrow> plan_step_update result" where
  "plan_step_update_post_init u =
     bindE (plan_required_text (PStr (su_step_id u)) ''step_id'') (\<lambda>step_id.
     bindE (plan_text_tuple (su_evidence_refs u) ''evidence_refs'' 0 64) (\<lambda>refs.
     Inr \<lparr>su_step_id = step_id, su_status = su_status u,
          su_completion_note = plan_text_or_empty (PStr (su_completion_note u)),
          su_evidence_refs = refs\<rparr>))"

definition plan_step_update_to_dict :: "plan_step_update \<Rightarrow> dict" where
  "plan_step_update_to_dict u =
     [(''step_id'', PStr (su_step_id u)),
      (''status'', PStr (step_status_name (su_status u))),
      (''completion_note'', PStr (su_completion_note u)),
      (''evidence_refs'', PList (map PStr (su_evidence_refs u)))]"

definition plan_step_update_from_mapping :: "dict \<Rightarrow> plan_step_update result" where
  "plan_step_update_from_mapping raw =
     bindE (plan_reject_unknown raw
       [''step_id'', ''status'', ''completion_note'', ''evidence_refs''] ''plan step update'') (\<lambda>_.
     bindE (plan_required_text (dget raw ''step_id'') ''step_id'') (\<lambda>step_id.
     bindE (ensure_plan_step_status (dget raw ''status'')) (\<lambda>status.
     bindE (plan_sequence (dget_default raw ''evidence_refs'' (PTuple [])) ''evidence_refs'')
       (\<lambda>refs.
     plan_step_update_post_init
       \<lparr>su_step_id = step_id, su_status = status,
        su_completion_note = plan_text_or_empty (dget raw ''completion_note''),
        su_evidence_refs = refs\<rparr>))))"

definition wf_plan_step_update :: "plan_step_update \<Rightarrow> bool" where
  "wf_plan_step_update u \<longleftrightarrow>
     canon_text plan_clean (su_step_id u) \<and>
     plan_clean (su_completion_note u) = su_completion_note u \<and>
     canon_texts plan_clean (su_evidence_refs u) \<and> length (su_evidence_refs u) \<le> 64"

lemma plan_step_update_eta [simp]:
  "\<lparr>su_step_id = su_step_id x,
    su_status = su_status x,
    su_completion_note = su_completion_note x,
    su_evidence_refs = su_evidence_refs x\<rparr> = (x :: plan_step_update)"
  by simp

lemma plan_step_update_post_init_wf:
  "plan_step_update_post_init u = Inr v \<Longrightarrow> wf_plan_step_update v"
  by (auto simp: plan_step_update_post_init_def bindE_eq_Inr wf_plan_step_update_def
      dest!: plan_required_text_canon plan_text_tuple_canon)

lemma plan_step_update_post_init_fix:
  "plan_step_update_post_init u = Inr u \<longleftrightarrow> wf_plan_step_update u"
proof
  show "wf_plan_step_update u" if "plan_step_update_post_init u = Inr u"
    using that by (rule plan_step_update_post_init_wf)
  show "plan_step_update_post_init u = Inr u" if "wf_plan_step_update u"
    using that
    by (simp add: plan_step_update_post_init_def wf_plan_step_update_def plan_required_text_def
        required_text_fix plan_text_tuple_fix [THEN iffD2])
qed

lemma plan_step_update_decode_encode:
  "wf_plan_step_update u \<Longrightarrow>
   plan_step_update_from_mapping (plan_step_update_to_dict u) = Inr u"
  using plan_step_update_post_init_fix [of u]
  by (simp add: plan_step_update_from_mapping_def plan_step_update_to_dict_def
      wf_plan_step_update_def plan_required_text_def required_text_fix)

interpretation plan_step_update: dataclass_codec wf_plan_step_update plan_step_update_post_init
  plan_step_update_to_dict plan_step_update_from_mapping
proof
  fix x y :: plan_step_update and d :: dict
  show "wf_plan_step_update y" if "plan_step_update_post_init x = Inr y"
    using that by (rule plan_step_update_post_init_wf)
  show "plan_step_update_post_init x = Inr x" if "wf_plan_step_update x"
    using that by (simp add: plan_step_update_post_init_fix)
  show "plan_step_update_from_mapping (plan_step_update_to_dict x) = Inr x"
    if "wf_plan_step_update x"
    using that by (rule plan_step_update_decode_encode)
  show "wf_plan_step_update x" if "plan_step_update_from_mapping d = Inr x"
    using that
    by (auto simp: plan_step_update_from_mapping_def bindE_eq_Inr dest: plan_step_update_post_init_wf)
qed

section \<open>Step lists\<close>

definition validate_steps :: "plan_step list \<Rightarrow> plan_step list result" where
  "validate_steps steps =
     (if steps = [] \<or> length steps > MAX_PLAN_ITEMS then
        Inl (PlanValidationError (''plan must contain between 1 and '' @ str_nat MAX_PLAN_ITEMS
               @ '' steps''))
      else if length (remdups (map st_step_id steps)) \<noteq> length steps then
        Inl (PlanValidationError ''plan step ids must be unique'')
      else if length (filter (\<lambda>s. st_status s = StepInProgress) steps) > 1 then
        Inl (PlanValidationError ''plan can contain at most one in_progress step'')
      else Inr steps)"

definition wf_steps :: "plan_step list \<Rightarrow> bool" where
  "wf_steps steps \<longleftrightarrow>
     steps \<noteq> [] \<and> length steps \<le> MAX_PLAN_ITEMS \<and> distinct (map st_step_id steps) \<and>
     length (filter (\<lambda>s. st_status s = StepInProgress) steps) \<le> 1"

lemma length_remdups_distinct: "length (remdups xs) = length xs \<longleftrightarrow> distinct xs"
  by (metis distinct_remdups distinct_remdups_id remdups_id_iff_distinct length_remdups_eq)

lemma validate_steps_Inr: "validate_steps steps = Inr ss \<longleftrightarrow> wf_steps steps \<and> ss = steps"
  using length_remdups_distinct [of "map st_step_id steps"]
  by (auto simp: validate_steps_def wf_steps_def)

section \<open>Pending revision and close request\<close>

record pending_plan_revision =
  pr_reason :: revision_reason
  pr_definition :: plan_definition
  pr_steps :: "plan_step list"
  pr_proposed_at_revision :: int

definition pending_plan_revision_post_init ::
  "pending_plan_revision \<Rightarrow> pending_plan_revision result" where
  "pending_plan_revision_post_init p =
     bindE (validate_steps (pr_steps p)) (\<lambda>steps.
     bindE (plan_non_negative_int (PInt (pr_proposed_at_revision p)) ''proposed_at_revision'') (\<lambda>n.
     Inr (p\<lparr>pr_steps := steps, pr_proposed_at_revision := n\<rparr>)))"

definition pending_plan_revision_to_dict :: "pending_plan_revision \<Rightarrow> dict" where
  "pending_plan_revision_to_dict p =
     [(''reason'', PStr (revision_reason_name (pr_reason p))),
      (''definition'', PDict (plan_definition_to_dict (pr_definition p))),
      (''steps'', PList (map (\<lambda>s. PDict (plan_step_to_dict s)) (pr_steps p))),
      (''proposed_at_revision'', PInt (pr_proposed_at_revision p))]"

definition pending_plan_revision_from_mapping :: "dict \<Rightarrow> pending_plan_revision result" where
  "pending_plan_revision_from_mapping raw =
     bindE (plan_reject_unknown raw
       [''reason'', ''definition'', ''steps'', ''proposed_at_revision'']
       ''pending plan revision'') (\<lambda>_.
     bindE (ensure_plan_revision_reason (dget raw ''reason'')) (\<lambda>reason.
     bindE (plan_mapping (dget raw ''definition'') ''definition'') (\<lambda>d.
     bindE (plan_definition_from_mapping d) (\<lambda>definition.
     bindE (plan_mapping_sequence (dget raw ''steps'') ''steps'') (\<lambda>ds.
     bindE (traverse plan_step_from_mapping ds) (\<lambda>steps.
     bindE (plan_non_negative_int (dget raw ''proposed_at_revision'') ''proposed_at_revision'') (\<lambda>n.
     pending_plan_revision_post_init
       \<lparr>pr_reason = reason, pr_definition = definition, pr_steps = steps,
        pr_proposed_at_revision = n\<rparr>)))))))"

text \<open>A step or definition inside another value is an object that went through its own
  constructor, hence the well-formedness of the parts below.\<close>

definition wf_pending_plan_revision :: "pending_plan_revision \<Rightarrow> bool" where
  "wf_pending_plan_revision p \<longleftrightarrow>
     wf_plan_definition (pr_definition p) \<and> wf_steps (pr_steps p) \<and>
     (\<forall>s \<in> set (pr_steps p). wf_plan_step s) \<and> 0 \<le> pr_proposed_at_revision p"

lemma pending_plan_revision_eta [simp]:
  "\<lparr>pr_reason = pr_reason x,
    pr_definition = pr_definition x,
    pr_steps = pr_steps x,
    pr_proposed_at_revision = pr_proposed_at_revision x\<rparr> = (x :: pending_plan_revision)"
  by simp

lemma pending_plan_revision_post_init_Inr:
  "pending_plan_revision_post_init p = Inr q \<longleftrightarrow>
   wf_steps (pr_steps p) \<and> 0 \<le> pr_proposed_at_revision p \<and> q = p"
  by (auto simp: pending_plan_revision_post_init_def bindE_eq_Inr validate_steps_Inr
      plan_non_negative_int_PInt)

lemma plan_steps_decode_encode:
  "(\<forall>s \<in> set steps. wf_plan_step s) \<Longrightarrow>
   traverse plan_step_from_mapping (map plan_step_to_dict steps) = Inr steps"
  by (rule plan_step.decode_encode_list)

lemma pending_plan_revision_decode_encode:
  "wf_pending_plan_revision p \<Longrightarrow>
   pending_plan_revision_from_mapping (pending_plan_revision_to_dict p) = Inr p"
  by (simp add: pending_plan_revision_from_mapping_def pending_plan_revision_to_dict_def
      wf_pending_plan_revision_def plan_definition_decode_encode plan_steps_decode_encode
      pending_plan_revision_post_init_Inr plan_non_negative_int_def)

lemma plan_steps_decode_valid:
  "traverse plan_step_from_mapping ds = Inr steps \<Longrightarrow> s \<in> set steps \<Longrightarrow> wf_plan_step s"
  by (rule plan_step.decode_list_valid)

lemma pending_plan_revision_decode_wf:
  "pending_plan_revision_from_mapping d = Inr p \<Longrightarrow> wf_pending_plan_revision p"
  by (auto simp: pending_plan_revision_from_mapping_def bindE_eq_Inr
      pending_plan_revision_post_init_Inr wf_pending_plan_revision_def
      dest: plan_definition.decode_valid plan_steps_decode_valid)

interpretation pending_plan_revision: record_codec wf_pending_plan_revision
  pending_plan_revision_to_dict pending_plan_revision_from_mapping
  by unfold_locales
     (simp_all add: pending_plan_revision_decode_encode pending_plan_revision_decode_wf)

record plan_close_request =
  cr_summary :: string
  cr_evidence_refs :: "string list"
  cr_requested_at_revision :: int

definition plan_close_request_post_init :: "plan_close_request \<Rightarrow> plan_close_request result" where
  "plan_close_request_post_init c =
     bindE (plan_required_text (PStr (cr_summary c)) ''summary'') (\<lambda>summary.
     bindE (plan_text_tuple (cr_evidence_refs c) ''evidence_refs'' 1 64) (\<lambda>refs.
     bindE (plan_non_negative_int (PInt (cr_requested_at_revision c)) ''requested_at_revision'') (\<lambda>n.
     Inr \<lparr>cr_summary = summary, cr_evidence_refs = refs, cr_requested_at_revision = n\<rparr>)))"

definition plan_close_request_to_dict :: "plan_close_request \<Rightarrow> dict" where
  "plan_close_request_to_dict c =
     [(''summary'', PStr (cr_summary c)),
      (''evidence_refs'', PList (map PStr (cr_evidence_refs c))),
      (''requested_at_revision'', PInt (cr_requested_at_revision c))]"

definition plan_close_request_from_mapping :: "dict \<Rightarrow> plan_close_request result" where
  "plan_close_request_from_mapping raw =
     bindE (plan_reject_unknown raw
       [''summary'', ''evidence_refs'', ''requested_at_revision''] ''plan close request'') (\<lambda>_.
     bindE (plan_required_text (dget raw ''summary'') ''summary'') (\<lambda>summary.
     bindE (plan_sequence (dget raw ''evidence_refs'') ''evidence_refs'') (\<lambda>refs.
     bindE (plan_non_negative_int (dget raw ''requested_at_revision'') ''requested_at_revision'') (\<lambda>n.
     plan_close_request_post_init
       \<lparr>cr_summary = summary, cr_evidence_refs = refs, cr_requested_at_revision = n\<rparr>))))"

definition wf_plan_close_request :: "plan_close_request \<Rightarrow> bool" where
  "wf_plan_close_request c \<longleftrightarrow>
     canon_text plan_clean (cr_summary c) \<and> canon_texts plan_clean (cr_evidence_refs c) \<and>
     1 \<le> length (cr_evidence_refs c) \<and> length (cr_evidence_refs c) \<le> 64 \<and>
     0 \<le> cr_requested_at_revision c"

lemma plan_close_request_eta [simp]:
  "\<lparr>cr_summary = cr_summary x,
    cr_evidence_refs = cr_evidence_refs x,
    cr_requested_at_revision = cr_requested_at_revision x\<rparr> = (x :: plan_close_request)"
  by simp

lemma plan_close_request_post_init_wf:
  "plan_close_request_post_init c = Inr d \<Longrightarrow> wf_plan_close_request d"
  by (auto simp: plan_close_request_post_init_def bindE_eq_Inr wf_plan_close_request_def
      plan_non_negative_int_PInt dest!: plan_required_text_canon plan_text_tuple_canon)

lemma plan_close_request_post_init_fix:
  "plan_close_request_post_init c = Inr c \<longleftrightarrow> wf_plan_close_request c"
proof
  show "wf_plan_close_request c" if "plan_close_request_post_init c = Inr c"
    using that by (rule plan_close_request_post_init_wf)
  show "plan_close_request_post_init c = Inr c" if "wf_plan_close_request c"
    using that
    by (simp add: plan_close_request_post_init_def wf_plan_close_request_def
        plan_required_text_def required_text_fix plan_text_tuple_fix [THEN iffD2]
        plan_non_negative_int_def)
qed

lemma plan_close_request_decode_encode:
  "wf_plan_close_request c \<Longrightarrow>
   plan_close_request_from_mapping (plan_close_request_to_dict c) = Inr c"
  using plan_close_request_post_init_fix [of c]
  by (simp add: plan_close_request_from_mapping_def plan_close_request_to_dict_def
      wf_plan_close_request_def plan_required_text_def required_text_fix
      plan_non_negative_int_def)

interpretation plan_close_request: dataclass_codec wf_plan_close_request plan_close_request_post_init
  plan_close_request_to_dict plan_close_request_from_mapping
proof
  fix x y :: plan_close_request and d :: dict
  show "wf_plan_close_request y" if "plan_close_request_post_init x = Inr y"
    using that by (rule plan_close_request_post_init_wf)
  show "plan_close_request_post_init x = Inr x" if "wf_plan_close_request x"
    using that by (simp add: plan_close_request_post_init_fix)
  show "plan_close_request_from_mapping (plan_close_request_to_dict x) = Inr x"
    if "wf_plan_close_request x"
    using that by (rule plan_close_request_decode_encode)
  show "wf_plan_close_request x" if "plan_close_request_from_mapping d = Inr x"
    using that
    by (auto simp: plan_close_request_from_mapping_def bindE_eq_Inr dest: plan_close_request_post_init_wf)
qed

section \<open>Plan state\<close>

record plan_state =
  ps_plan_id :: string
  ps_origin :: plan_origin
  ps_status :: plan_status
  ps_revision :: int
  ps_definition :: plan_definition
  ps_steps :: "plan_step list"
  ps_pending_revision :: "pending_plan_revision option"
  ps_close_request :: "plan_close_request option"
  ps_schema_version :: int

definition plan_state_post_init :: "plan_state \<Rightarrow> plan_state result" where
  "plan_state_post_init p =
     (if ps_schema_version p \<noteq> PLAN_STATE_SCHEMA_VERSION then
        Inl (PlanValidationError ''unsupported plan state schema'')
      else
     bindE (plan_required_text (PStr (ps_plan_id p)) ''plan_id'') (\<lambda>plan_id.
     bindE (plan_non_negative_int (PInt (ps_revision p)) ''revision'') (\<lambda>revision.
     bindE (validate_steps (ps_steps p)) (\<lambda>steps.
     Inr (p\<lparr>ps_plan_id := plan_id, ps_revision := revision, ps_steps := steps\<rparr>)))))"

definition plan_state_to_dict :: "plan_state \<Rightarrow> dict" where
  "plan_state_to_dict p =
     [(''schema_version'', PInt (ps_schema_version p)),
      (''plan_id'', PStr (ps_plan_id p)),
      (''origin'', PStr (plan_origin_name (ps_origin p))),
      (''status'', PStr (plan_status_name (ps_status p))),
      (''revision'', PInt (ps_revision p)),
      (''definition'', PDict (plan_definition_to_dict (ps_definition p))),
      (''steps'', PList (map (\<lambda>s. PDict (plan_step_to_dict s)) (ps_steps p))),
      (''pending_revision'',
        (case ps_pending_revision p of None \<Rightarrow> PNone
         | Some r \<Rightarrow> PDict (pending_plan_revision_to_dict r))),
      (''close_request'',
        (case ps_close_request p of None \<Rightarrow> PNone
         | Some c \<Rightarrow> PDict (plan_close_request_to_dict c)))]"

text \<open>\<^verbatim>\<open>f(_mapping(raw, field)) if raw is not None else None\<close>.\<close>

definition optional_part :: "(dict \<Rightarrow> 'a result) \<Rightarrow> pyval \<Rightarrow> string \<Rightarrow> 'a option result" where
  "optional_part f v field =
     (case v of PNone \<Rightarrow> Inr None
      | _ \<Rightarrow> bindE (plan_mapping v field) (\<lambda>d. mapE Some (f d)))"

definition plan_state_from_mapping :: "dict \<Rightarrow> plan_state result" where
  "plan_state_from_mapping raw =
     bindE (plan_reject_unknown raw
       [''schema_version'', ''plan_id'', ''origin'', ''status'', ''revision'',
        ''definition'', ''steps'', ''pending_revision'', ''close_request'']
       ''plan state'') (\<lambda>_.
     if dget raw ''schema_version'' \<noteq> PInt PLAN_STATE_SCHEMA_VERSION then
       Inl (PlanValidationError ''unsupported plan state schema'')
     else
     bindE (plan_required_text (dget raw ''plan_id'') ''plan_id'') (\<lambda>plan_id.
     bindE (ensure_plan_origin (dget raw ''origin'')) (\<lambda>origin.
     bindE (ensure_plan_status (dget raw ''status'')) (\<lambda>status.
     bindE (plan_non_negative_int (dget raw ''revision'') ''revision'') (\<lambda>revision.
     bindE (plan_mapping (dget raw ''definition'') ''definition'') (\<lambda>d.
     bindE (plan_definition_from_mapping d) (\<lambda>definition.
     bindE (plan_mapping_sequence (dget raw ''steps'') ''steps'') (\<lambda>ds.
     bindE (traverse plan_step_from_mapping ds) (\<lambda>steps.
     bindE (optional_part pending_plan_revision_from_mapping
              (dget raw ''pending_revision'') ''pending_revision'') (\<lambda>pending.
     bindE (optional_part plan_close_request_from_mapping
              (dget raw ''close_request'') ''close_request'') (\<lambda>close.
     plan_state_post_init
       \<lparr>ps_plan_id = plan_id, ps_origin = origin, ps_status = status,
        ps_revision = revision, ps_definition = definition, ps_steps = steps,
        ps_pending_revision = pending, ps_close_request = close,
        ps_schema_version = PLAN_STATE_SCHEMA_VERSION\<rparr>)))))))))))"

definition wf_plan_state :: "plan_state \<Rightarrow> bool" where
  "wf_plan_state p \<longleftrightarrow>
     ps_schema_version p = PLAN_STATE_SCHEMA_VERSION \<and>
     canon_text plan_clean (ps_plan_id p) \<and> 0 \<le> ps_revision p \<and>
     wf_plan_definition (ps_definition p) \<and>
     wf_steps (ps_steps p) \<and> (\<forall>s \<in> set (ps_steps p). wf_plan_step s) \<and>
     (\<forall>r. ps_pending_revision p = Some r \<longrightarrow> wf_pending_plan_revision r) \<and>
     (\<forall>c. ps_close_request p = Some c \<longrightarrow> wf_plan_close_request c)"

lemma plan_state_eta [simp]:
  "\<lparr>ps_plan_id = ps_plan_id x,
    ps_origin = ps_origin x,
    ps_status = ps_status x,
    ps_revision = ps_revision x,
    ps_definition = ps_definition x,
    ps_steps = ps_steps x,
    ps_pending_revision = ps_pending_revision x,
    ps_close_request = ps_close_request x,
    ps_schema_version = ps_schema_version x\<rparr> = (x :: plan_state)"
  by simp

lemma plan_state_post_init_Inr:
  "plan_state_post_init p = Inr q \<longleftrightarrow>
   ps_schema_version p = PLAN_STATE_SCHEMA_VERSION \<and> plan_clean (ps_plan_id p) \<noteq> [] \<and>
   0 \<le> ps_revision p \<and> wf_steps (ps_steps p) \<and>
   q = p\<lparr>ps_plan_id := plan_clean (ps_plan_id p)\<rparr>"
  by (auto simp: plan_state_post_init_def bindE_eq_Inr validate_steps_Inr
      plan_non_negative_int_PInt plan_required_text_def required_text_PStr)

lemma wf_plan_state_post_init: "wf_plan_state p \<Longrightarrow> plan_state_post_init p = Inr p"
  by (simp add: plan_state_post_init_Inr wf_plan_state_def canon_text_def)

lemma optional_part_encode:
  "(\<And>x. v = Some x \<Longrightarrow> dec (enc x) = Inr x) \<Longrightarrow>
   optional_part dec (case v of None \<Rightarrow> PNone | Some x \<Rightarrow> PDict (enc x)) f = Inr v"
  by (cases v) (auto simp: optional_part_def)

lemma optional_part_sound:
  "optional_part dec v f = Inr (Some x) \<Longrightarrow> \<exists>d. dec d = Inr x"
  by (auto simp: optional_part_def bindE_eq_Inr mapE_eq_Inr split: pyval.splits)

lemma plan_state_decode_encode:
  assumes "wf_plan_state p"
  shows "plan_state_from_mapping (plan_state_to_dict p) = Inr p"
proof -
  have pending: "optional_part pending_plan_revision_from_mapping
      (case ps_pending_revision p of None \<Rightarrow> PNone
       | Some r \<Rightarrow> PDict (pending_plan_revision_to_dict r)) ''pending_revision''
      = Inr (ps_pending_revision p)"
    using assms by (intro optional_part_encode)
      (simp add: wf_plan_state_def pending_plan_revision_decode_encode)
  have close: "optional_part plan_close_request_from_mapping
      (case ps_close_request p of None \<Rightarrow> PNone
       | Some c \<Rightarrow> PDict (plan_close_request_to_dict c)) ''close_request''
      = Inr (ps_close_request p)"
    using assms by (intro optional_part_encode)
      (simp add: wf_plan_state_def plan_close_request_decode_encode)
  have version: "ps_schema_version p = PLAN_STATE_SCHEMA_VERSION"
    using assms by (simp add: wf_plan_state_def)
  show ?thesis
    using assms wf_plan_state_post_init [OF assms]
    by (simp add: plan_state_from_mapping_def plan_state_to_dict_def pending close
        wf_plan_state_def plan_required_text_def required_text_fix plan_non_negative_int_def
        plan_definition_decode_encode plan_steps_decode_encode version
        plan_state_eta [of p, unfolded version])
qed

lemma plan_state_decode_wf:
  assumes "plan_state_from_mapping d = Inr p"
  shows "wf_plan_state p"
  using assms
  by (auto simp: plan_state_from_mapping_def bindE_eq_Inr plan_state_post_init_Inr
      wf_plan_state_def canon_text_def
      dest!: plan_definition.decode_valid optional_part_sound
        pending_plan_revision.decode_valid plan_close_request.decode_valid
      dest: plan_steps_decode_valid)

interpretation plan_state: record_codec wf_plan_state plan_state_to_dict plan_state_from_mapping
  by unfold_locales (simp_all add: plan_state_decode_encode plan_state_decode_wf)

text \<open>\<open>Inl p\<close> is an object that already is a \<open>PlanState\<close>.\<close>

definition load_plan_state :: "plan_state + pyval \<Rightarrow> plan_state option result" where
  "load_plan_state raw =
     (case raw of
        Inl p \<Rightarrow> Inr (Some p)
      | Inr PNone \<Rightarrow> Inr None
      | Inr (PDict d) \<Rightarrow>
          if dget d ''schema_version'' = PInt PLAN_STATE_SCHEMA_VERSION
          then mapE Some (plan_state_from_mapping d)
          else Inl (PlanValidationError ''unsupported plan state schema'')
      | Inr _ \<Rightarrow> Inl (PlanValidationError ''plan state must be an object''))"

definition plan_state_to_dict_opt :: "plan_state + pyval \<Rightarrow> dict option result" where
  "plan_state_to_dict_opt state = mapE (map_option plan_state_to_dict) (load_plan_state state)"

end
