(* ===== verification/Core_Commands.thy ===== *)
theory Core_Commands
  imports Core_Plan
begin

text \<open>
  Core commands, \<^verbatim>\<open>src/codepilot/core/commands.py\<close>: one constructor per command
  dataclass, a \<open>mk_\<close> function per \<^verbatim>\<open>__post_init__\<close>, the strict dictionary codec and
  the proof that it round-trips on every command the constructors accept.
\<close>

section \<open>Field helpers\<close>

definition cmd_required_text :: "pyval \<Rightarrow> string \<Rightarrow> string result" where
  "cmd_required_text v field = required_text py_strip (ValueError (field @ '' is required'')) v"

definition cmd_text_tuple :: "string list \<Rightarrow> string \<Rightarrow> string list result" where
  "cmd_text_tuple vs field =
     text_tuple py_strip (\<lambda>_. ValueError (field @ '' item is required'')) vs"

definition cmd_non_negative_int :: "pyval \<Rightarrow> string \<Rightarrow> int result" where
  "cmd_non_negative_int v field =
     (case v of
        PInt i \<Rightarrow> if i < 0 then Inl (ValueError (field @ '' must be a non-negative integer''))
                 else Inr i
      | _ \<Rightarrow> Inl (ValueError (field @ '' must be a non-negative integer'')))"

definition cmd_mapping :: "pyval \<Rightarrow> string \<Rightarrow> dict result" where
  "cmd_mapping v field =
     (case v of PDict d \<Rightarrow> Inr d | _ \<Rightarrow> Inl (TypeError (field @ '' must be an object'')))"

definition cmd_mapping_list :: "pyval \<Rightarrow> string \<Rightarrow> dict list result" where
  "cmd_mapping_list v field =
     (case v of
        PList xs \<Rightarrow> as_mappings (TypeError (field @ '' must contain objects'')) xs
      | PTuple xs \<Rightarrow> as_mappings (TypeError (field @ '' must contain objects'')) xs
      | _ \<Rightarrow> Inl (TypeError (field @ '' must be a list'')))"

definition cmd_string_list :: "pyval \<Rightarrow> string \<Rightarrow> string list result" where
  "cmd_string_list v field =
     (case v of
        PList xs \<Rightarrow> Inr (map py_str xs)
      | PTuple xs \<Rightarrow> Inr (map py_str xs)
      | _ \<Rightarrow> Inl (TypeError (field @ '' must be a list'')))"

definition expected_revision_of :: "dict \<Rightarrow> int result" where
  "expected_revision_of raw = cmd_non_negative_int (dget raw ''expected_revision'') ''expected_revision''"

definition step_definitions :: "plan_step_definition list \<Rightarrow> plan_step_definition list result" where
  "step_definitions steps =
     (if 1 \<le> length steps \<and> length steps \<le> MAX_PLAN_ITEMS then Inr steps
      else Inl (ValueError (''steps must contain between 1 and '' @ str_nat MAX_PLAN_ITEMS
                  @ '' items'')))"

definition step_definitions_from_raw :: "pyval \<Rightarrow> plan_step_definition list result" where
  "step_definitions_from_raw v =
     bindE (cmd_mapping_list v ''steps'') (\<lambda>ds. traverse plan_step_definition_from_mapping ds)"

section \<open>Commands\<close>

datatype core_command =
    SubmitPlan (command_id: string) plan_definition "plan_step_definition list"
  | UpdatePlanProgress (command_id: string) int "plan_step_update list"
  | ProposePlanRevision (command_id: string) int revision_reason plan_definition
      "plan_step_definition list"
  | RequestPlanClose (command_id: string) int string "string list"
  | ApprovePlan (command_id: string) int
  | RejectPlan (command_id: string) int string
  | ApprovePlanRevision (command_id: string) int
  | RejectPlanRevision (command_id: string) int string
  | AbandonPlan (command_id: string) int string
  | ReportVerificationUnavailable (command_id: string) string "string list" "string list"

definition set_command_id :: "string \<Rightarrow> string result" where
  "set_command_id cid = cmd_required_text (PStr cid) ''command_id''"

definition mk_submit_plan ::
  "string \<Rightarrow> plan_definition \<Rightarrow> plan_step_definition list \<Rightarrow> core_command result" where
  "mk_submit_plan cid definition steps =
     bindE (set_command_id cid) (\<lambda>cid.
     bindE (step_definitions steps) (\<lambda>steps.
     Inr (SubmitPlan cid definition steps)))"

definition mk_update_plan_progress ::
  "string \<Rightarrow> int \<Rightarrow> plan_step_update list \<Rightarrow> core_command result" where
  "mk_update_plan_progress cid exp_rev updates =
     bindE (set_command_id cid) (\<lambda>cid.
     bindE (cmd_non_negative_int (PInt exp_rev) ''expected_revision'') (\<lambda>exp_rev.
     if updates = [] then Inl (ValueError ''updates must contain at least one item'')
     else if length (remdups (map su_step_id updates)) \<noteq> length updates
       then Inl (ValueError ''updates must contain unique step ids'')
     else Inr (UpdatePlanProgress cid exp_rev updates)))"

definition mk_propose_plan_revision ::
  "string \<Rightarrow> int \<Rightarrow> revision_reason \<Rightarrow> plan_definition \<Rightarrow> plan_step_definition list
   \<Rightarrow> core_command result" where
  "mk_propose_plan_revision cid exp_rev reason definition steps =
     bindE (set_command_id cid) (\<lambda>cid.
     bindE (cmd_non_negative_int (PInt exp_rev) ''expected_revision'') (\<lambda>exp_rev.
     bindE (step_definitions steps) (\<lambda>steps.
     Inr (ProposePlanRevision cid exp_rev reason definition steps))))"

definition mk_request_plan_close ::
  "string \<Rightarrow> int \<Rightarrow> string \<Rightarrow> string list \<Rightarrow> core_command result" where
  "mk_request_plan_close cid exp_rev summary refs =
     bindE (set_command_id cid) (\<lambda>cid.
     bindE (cmd_non_negative_int (PInt exp_rev) ''expected_revision'') (\<lambda>exp_rev.
     bindE (cmd_required_text (PStr summary) ''summary'') (\<lambda>summary.
     bindE (cmd_text_tuple refs ''evidence_refs'') (\<lambda>refs.
     if refs = [] then Inl (ValueError ''evidence_refs must contain at least one item'')
     else Inr (RequestPlanClose cid exp_rev summary refs)))))"

definition mk_approve_plan :: "string \<Rightarrow> int \<Rightarrow> core_command result" where
  "mk_approve_plan cid exp_rev =
     bindE (set_command_id cid) (\<lambda>cid.
     bindE (cmd_non_negative_int (PInt exp_rev) ''expected_revision'') (\<lambda>exp_rev.
     Inr (ApprovePlan cid exp_rev)))"

definition mk_reject_plan :: "string \<Rightarrow> int \<Rightarrow> string \<Rightarrow> core_command result" where
  "mk_reject_plan cid exp_rev reason =
     bindE (set_command_id cid) (\<lambda>cid.
     bindE (cmd_non_negative_int (PInt exp_rev) ''expected_revision'') (\<lambda>exp_rev.
     bindE (cmd_required_text (PStr reason) ''reason'') (\<lambda>reason.
     Inr (RejectPlan cid exp_rev reason))))"

definition mk_approve_plan_revision :: "string \<Rightarrow> int \<Rightarrow> core_command result" where
  "mk_approve_plan_revision cid exp_rev =
     bindE (set_command_id cid) (\<lambda>cid.
     bindE (cmd_non_negative_int (PInt exp_rev) ''expected_revision'') (\<lambda>exp_rev.
     Inr (ApprovePlanRevision cid exp_rev)))"

definition mk_reject_plan_revision :: "string \<Rightarrow> int \<Rightarrow> string \<Rightarrow> core_command result" where
  "mk_reject_plan_revision cid exp_rev reason =
     bindE (set_command_id cid) (\<lambda>cid.
     bindE (cmd_non_negative_int (PInt exp_rev) ''expected_revision'') (\<lambda>exp_rev.
     bindE (cmd_required_text (PStr reason) ''reason'') (\<lambda>reason.
     Inr (RejectPlanRevision cid exp_rev reason))))"

definition mk_abandon_plan :: "string \<Rightarrow> int \<Rightarrow> string \<Rightarrow> core_command result" where
  "mk_abandon_plan cid exp_rev reason =
     bindE (set_command_id cid) (\<lambda>cid.
     bindE (cmd_non_negative_int (PInt exp_rev) ''expected_revision'') (\<lambda>exp_rev.
     bindE (cmd_required_text (PStr reason) ''reason'') (\<lambda>reason.
     Inr (AbandonPlan cid exp_rev reason))))"

definition mk_report_verification_unavailable ::
  "string \<Rightarrow> string \<Rightarrow> string list \<Rightarrow> string list \<Rightarrow> core_command result" where
  "mk_report_verification_unavailable cid reason checks refs =
     bindE (set_command_id cid) (\<lambda>cid.
     bindE (cmd_required_text (PStr reason) ''reason'') (\<lambda>reason.
     bindE (cmd_text_tuple checks ''attempted_checks'') (\<lambda>checks.
     bindE (cmd_text_tuple refs ''evidence_refs'') (\<lambda>refs.
     Inr (ReportVerificationUnavailable cid reason checks refs)))))"

text \<open>Running a command's constructor on its own fields.\<close>

fun core_command_post_init :: "core_command \<Rightarrow> core_command result" where
  "core_command_post_init (SubmitPlan cid d ss) = mk_submit_plan cid d ss"
| "core_command_post_init (UpdatePlanProgress cid r us) = mk_update_plan_progress cid r us"
| "core_command_post_init (ProposePlanRevision cid r w d ss) =
     mk_propose_plan_revision cid r w d ss"
| "core_command_post_init (RequestPlanClose cid r s es) = mk_request_plan_close cid r s es"
| "core_command_post_init (ApprovePlan cid r) = mk_approve_plan cid r"
| "core_command_post_init (RejectPlan cid r w) = mk_reject_plan cid r w"
| "core_command_post_init (ApprovePlanRevision cid r) = mk_approve_plan_revision cid r"
| "core_command_post_init (RejectPlanRevision cid r w) = mk_reject_plan_revision cid r w"
| "core_command_post_init (AbandonPlan cid r w) = mk_abandon_plan cid r w"
| "core_command_post_init (ReportVerificationUnavailable cid w cs es) =
     mk_report_verification_unavailable cid w cs es"

datatype command_status = Applied | CommandRejected

record command_result =
  cmdr_command_id :: string
  cmdr_status :: command_status
  cmdr_reason :: string

definition mk_command_result :: "string \<Rightarrow> command_status \<Rightarrow> string \<Rightarrow> command_result result" where
  "mk_command_result cid status reason =
     bindE (cmd_required_text (PStr cid) ''command_id'') (\<lambda>cid.
     Inr \<lparr>cmdr_command_id = cid, cmdr_status = status, cmdr_reason = py_strip reason\<rparr>)"

section \<open>Codec\<close>

fun core_command_to_dict :: "core_command \<Rightarrow> dict" where
  "core_command_to_dict (SubmitPlan cid definition steps) =
     [(''kind'', PStr ''submit_plan''),
      (''command_id'', PStr cid),
      (''definition'', PDict (plan_definition_to_dict definition)),
      (''steps'', PList (map (\<lambda>s. PDict (plan_step_definition_to_dict s)) steps))]"
| "core_command_to_dict (UpdatePlanProgress cid exp_rev updates) =
     [(''kind'', PStr ''update_plan_progress''),
      (''command_id'', PStr cid),
      (''expected_revision'', PInt exp_rev),
      (''updates'', PList (map (\<lambda>u. PDict (plan_step_update_to_dict u)) updates))]"
| "core_command_to_dict (ProposePlanRevision cid exp_rev reason definition steps) =
     [(''kind'', PStr ''propose_plan_revision''),
      (''command_id'', PStr cid),
      (''expected_revision'', PInt exp_rev),
      (''reason'', PStr (revision_reason_name reason)),
      (''definition'', PDict (plan_definition_to_dict definition)),
      (''steps'', PList (map (\<lambda>s. PDict (plan_step_definition_to_dict s)) steps))]"
| "core_command_to_dict (RequestPlanClose cid exp_rev summary refs) =
     [(''kind'', PStr ''request_plan_close''),
      (''command_id'', PStr cid),
      (''expected_revision'', PInt exp_rev),
      (''summary'', PStr summary),
      (''evidence_refs'', PList (map PStr refs))]"
| "core_command_to_dict (ApprovePlan cid exp_rev) =
     [(''kind'', PStr ''approve_plan''),
      (''command_id'', PStr cid),
      (''expected_revision'', PInt exp_rev)]"
| "core_command_to_dict (ApprovePlanRevision cid exp_rev) =
     [(''kind'', PStr ''approve_plan_revision''),
      (''command_id'', PStr cid),
      (''expected_revision'', PInt exp_rev)]"
| "core_command_to_dict (RejectPlan cid exp_rev reason) =
     [(''kind'', PStr ''reject_plan''),
      (''command_id'', PStr cid),
      (''expected_revision'', PInt exp_rev),
      (''reason'', PStr reason)]"
| "core_command_to_dict (RejectPlanRevision cid exp_rev reason) =
     [(''kind'', PStr ''reject_plan_revision''),
      (''command_id'', PStr cid),
      (''expected_revision'', PInt exp_rev),
      (''reason'', PStr reason)]"
| "core_command_to_dict (AbandonPlan cid exp_rev reason) =
     [(''kind'', PStr ''abandon_plan''),
      (''command_id'', PStr cid),
      (''expected_revision'', PInt exp_rev),
      (''reason'', PStr reason)]"
| "core_command_to_dict (ReportVerificationUnavailable cid reason checks refs) =
     [(''kind'', PStr ''report_verification_unavailable''),
      (''command_id'', PStr cid),
      (''reason'', PStr reason),
      (''attempted_checks'', PList (map PStr checks)),
      (''evidence_refs'', PList (map PStr refs))]"

definition core_command_from_mapping :: "dict \<Rightarrow> core_command result" where
  "core_command_from_mapping raw =
     bindE (cmd_required_text (dget raw ''kind'') ''kind'') (\<lambda>kind.
     bindE (cmd_required_text (dget raw ''command_id'') ''command_id'') (\<lambda>cid.
     if kind = ''submit_plan'' then
       bindE (cmd_mapping (dget raw ''definition'') ''definition'') (\<lambda>d.
       bindE (plan_definition_from_mapping d) (\<lambda>definition.
       bindE (step_definitions_from_raw (dget raw ''steps'')) (\<lambda>steps.
       mk_submit_plan cid definition steps)))
     else if kind = ''update_plan_progress'' then
       bindE (expected_revision_of raw) (\<lambda>exp_rev.
       bindE (cmd_mapping_list (dget raw ''updates'') ''updates'') (\<lambda>ds.
       bindE (traverse plan_step_update_from_mapping ds) (\<lambda>updates.
       mk_update_plan_progress cid exp_rev updates)))
     else if kind = ''propose_plan_revision'' then
       bindE (expected_revision_of raw) (\<lambda>exp_rev.
       bindE (ensure_plan_revision_reason (dget raw ''reason'')) (\<lambda>reason.
       bindE (cmd_mapping (dget raw ''definition'') ''definition'') (\<lambda>d.
       bindE (plan_definition_from_mapping d) (\<lambda>definition.
       bindE (step_definitions_from_raw (dget raw ''steps'')) (\<lambda>steps.
       mk_propose_plan_revision cid exp_rev reason definition steps)))))
     else if kind = ''request_plan_close'' then
       bindE (expected_revision_of raw) (\<lambda>exp_rev.
       bindE (cmd_required_text (dget raw ''summary'') ''summary'') (\<lambda>summary.
       bindE (cmd_string_list (dget raw ''evidence_refs'') ''evidence_refs'') (\<lambda>refs.
       mk_request_plan_close cid exp_rev summary refs)))
     else if kind = ''approve_plan'' then
       bindE (expected_revision_of raw) (\<lambda>exp_rev. mk_approve_plan cid exp_rev)
     else if kind = ''reject_plan'' then
       bindE (expected_revision_of raw) (\<lambda>exp_rev.
       bindE (cmd_required_text (dget_default raw ''reason'' (PStr ''user_rejected'')) ''reason'')
         (\<lambda>reason. mk_reject_plan cid exp_rev reason))
     else if kind = ''approve_plan_revision'' then
       bindE (expected_revision_of raw) (\<lambda>exp_rev. mk_approve_plan_revision cid exp_rev)
     else if kind = ''reject_plan_revision'' then
       bindE (expected_revision_of raw) (\<lambda>exp_rev.
       bindE (cmd_required_text (dget_default raw ''reason'' (PStr ''user_rejected'')) ''reason'')
         (\<lambda>reason. mk_reject_plan_revision cid exp_rev reason))
     else if kind = ''abandon_plan'' then
       bindE (expected_revision_of raw) (\<lambda>exp_rev.
       bindE (cmd_required_text (dget raw ''reason'') ''reason'') (\<lambda>reason.
       mk_abandon_plan cid exp_rev reason))
     else if kind = ''report_verification_unavailable'' then
       bindE (cmd_required_text (dget raw ''reason'') ''reason'') (\<lambda>reason.
       bindE (cmd_string_list (dget_default raw ''attempted_checks'' (PTuple []))
                ''attempted_checks'') (\<lambda>checks.
       bindE (cmd_string_list (dget_default raw ''evidence_refs'' (PTuple []))
                ''evidence_refs'') (\<lambda>refs.
       mk_report_verification_unavailable cid reason checks refs)))
     else Inl (ValueError (''Unknown Core command kind: '' @ kind))))"

section \<open>Well-formed commands\<close>

fun wf_command_body :: "core_command \<Rightarrow> bool" where
  "wf_command_body (SubmitPlan _ d ss) \<longleftrightarrow>
     wf_plan_definition d \<and> 1 \<le> length ss \<and> length ss \<le> MAX_PLAN_ITEMS \<and>
     (\<forall>s \<in> set ss. wf_plan_step_definition s)"
| "wf_command_body (UpdatePlanProgress _ r us) \<longleftrightarrow>
     0 \<le> r \<and> us \<noteq> [] \<and> distinct (map su_step_id us) \<and> (\<forall>u \<in> set us. wf_plan_step_update u)"
| "wf_command_body (ProposePlanRevision _ r _ d ss) \<longleftrightarrow>
     0 \<le> r \<and> wf_plan_definition d \<and> 1 \<le> length ss \<and> length ss \<le> MAX_PLAN_ITEMS \<and>
     (\<forall>s \<in> set ss. wf_plan_step_definition s)"
| "wf_command_body (RequestPlanClose _ r s es) \<longleftrightarrow>
     0 \<le> r \<and> canon_text py_strip s \<and> canon_texts py_strip es \<and> es \<noteq> []"
| "wf_command_body (ApprovePlan _ r) \<longleftrightarrow> 0 \<le> r"
| "wf_command_body (RejectPlan _ r w) \<longleftrightarrow> 0 \<le> r \<and> canon_text py_strip w"
| "wf_command_body (ApprovePlanRevision _ r) \<longleftrightarrow> 0 \<le> r"
| "wf_command_body (RejectPlanRevision _ r w) \<longleftrightarrow> 0 \<le> r \<and> canon_text py_strip w"
| "wf_command_body (AbandonPlan _ r w) \<longleftrightarrow> 0 \<le> r \<and> canon_text py_strip w"
| "wf_command_body (ReportVerificationUnavailable _ w cs es) \<longleftrightarrow>
     canon_text py_strip w \<and> canon_texts py_strip cs \<and> canon_texts py_strip es"

definition wf_command :: "core_command \<Rightarrow> bool" where
  "wf_command c \<longleftrightarrow> canon_text py_strip (command_id c) \<and> wf_command_body c"

lemma cmd_required_text_PStr_Inr:
  "cmd_required_text (PStr s) f = Inr t \<longleftrightarrow> t = py_strip s \<and> t \<noteq> []"
  by (auto simp: cmd_required_text_def required_text_PStr)

lemma cmd_required_text_canon: "cmd_required_text v f = Inr t \<Longrightarrow> canon_text py_strip t"
  unfolding cmd_required_text_def by (rule strip.required_text_canon)

lemma cmd_required_text_fix [simp]:
  "canon_text py_strip s \<Longrightarrow> cmd_required_text (PStr s) f = Inr s"
  by (simp add: cmd_required_text_def required_text_fix)

lemma set_command_id_canon: "set_command_id s = Inr t \<Longrightarrow> canon_text py_strip t"
  unfolding set_command_id_def by (rule cmd_required_text_canon)

lemma set_command_id_fix [simp]: "canon_text py_strip s \<Longrightarrow> set_command_id s = Inr s"
  by (simp add: set_command_id_def)

lemma cmd_text_tuple_canon: "cmd_text_tuple vs f = Inr ts \<Longrightarrow> canon_texts py_strip ts"
  unfolding cmd_text_tuple_def by (rule strip.text_tuple_canon)

lemma cmd_text_tuple_fix [simp]: "canon_texts py_strip ts \<Longrightarrow> cmd_text_tuple ts f = Inr ts"
  by (simp add: cmd_text_tuple_def text_tuple_fix)

lemma cmd_non_negative_int_PInt [simp]:
  "cmd_non_negative_int (PInt i) f = Inr j \<longleftrightarrow> 0 \<le> i \<and> j = i"
  by (auto simp: cmd_non_negative_int_def)

lemma cmd_non_negative_int_ok [simp]: "0 \<le> i \<Longrightarrow> cmd_non_negative_int (PInt i) f = Inr i"
  by simp

lemma step_definitions_Inr [simp]:
  "step_definitions ss = Inr ts \<longleftrightarrow> 1 \<le> length ss \<and> length ss \<le> MAX_PLAN_ITEMS \<and> ts = ss"
  by (auto simp: step_definitions_def)

lemmas mk_command_defs =
  mk_submit_plan_def mk_update_plan_progress_def mk_propose_plan_revision_def
  mk_request_plan_close_def mk_approve_plan_def mk_reject_plan_def
  mk_approve_plan_revision_def mk_reject_plan_revision_def mk_abandon_plan_def
  mk_report_verification_unavailable_def

text \<open>Constructing a command from well-formed parts gives a well-formed command, and a
  well-formed command is a fixed point of its constructor.\<close>

lemma core_command_post_init_fix: "wf_command c \<Longrightarrow> core_command_post_init c = Inr c"
  by (cases c)
     (auto simp: wf_command_def mk_command_defs bindE_eq_Inr distinct_remdups_id)

lemma mk_update_plan_progress_wf:
  "mk_update_plan_progress cid r us = Inr c \<Longrightarrow> \<forall>u \<in> set us. wf_plan_step_update u \<Longrightarrow> wf_command c"
  using length_remdups_distinct [of "map su_step_id us"]
  by (auto simp: mk_update_plan_progress_def bindE_eq_Inr wf_command_def
      dest: set_command_id_canon)

lemma mk_command_wf:
  "mk_submit_plan cid d ss = Inr c \<Longrightarrow> wf_plan_definition d \<Longrightarrow>
     \<forall>s \<in> set ss. wf_plan_step_definition s \<Longrightarrow> wf_command c"
  "mk_propose_plan_revision cid r w d ss = Inr c \<Longrightarrow> wf_plan_definition d \<Longrightarrow>
     \<forall>s \<in> set ss. wf_plan_step_definition s \<Longrightarrow> wf_command c"
  "mk_request_plan_close cid r t es = Inr c \<Longrightarrow> wf_command c"
  "mk_approve_plan cid r = Inr c \<Longrightarrow> wf_command c"
  "mk_reject_plan cid r t = Inr c \<Longrightarrow> wf_command c"
  "mk_approve_plan_revision cid r = Inr c \<Longrightarrow> wf_command c"
  "mk_reject_plan_revision cid r t = Inr c \<Longrightarrow> wf_command c"
  "mk_abandon_plan cid r t = Inr c \<Longrightarrow> wf_command c"
  "mk_report_verification_unavailable cid t cs es = Inr c \<Longrightarrow> wf_command c"
  by (auto simp: mk_command_defs bindE_eq_Inr wf_command_def
      dest!: set_command_id_canon cmd_required_text_canon cmd_text_tuple_canon)

lemma cmd_mapping_list_PDict [simp]:
  "cmd_mapping_list (PList (map (\<lambda>x. PDict (f x)) xs)) field = Inr (map f xs)"
  using as_mappings_map [of _ "map f xs"] by (simp add: cmd_mapping_list_def comp_def)

lemma cmd_string_list_PStr [simp]: "cmd_string_list (PList (map PStr xs)) f = Inr xs"
  by (simp add: cmd_string_list_def comp_def)

lemma step_definitions_from_raw_encode [simp]:
  "(\<forall>s \<in> set ss. wf_plan_step_definition s) \<Longrightarrow>
   step_definitions_from_raw (PList (map (\<lambda>s. PDict (plan_step_definition_to_dict s)) ss)) = Inr ss"
  by (simp add: step_definitions_from_raw_def plan_step_definition.decode_encode_list)

lemma step_definitions_from_raw_wf:
  "step_definitions_from_raw v = Inr ss \<Longrightarrow> \<forall>s \<in> set ss. wf_plan_step_definition s"
  by (auto simp: step_definitions_from_raw_def bindE_eq_Inr
      dest: plan_step_definition.decode_list_valid)

lemma kind_text [simp]:
  "cmd_required_text (PStr ''submit_plan'') f = Inr ''submit_plan''"
  "cmd_required_text (PStr ''update_plan_progress'') f = Inr ''update_plan_progress''"
  "cmd_required_text (PStr ''propose_plan_revision'') f = Inr ''propose_plan_revision''"
  "cmd_required_text (PStr ''request_plan_close'') f = Inr ''request_plan_close''"
  "cmd_required_text (PStr ''approve_plan'') f = Inr ''approve_plan''"
  "cmd_required_text (PStr ''reject_plan'') f = Inr ''reject_plan''"
  "cmd_required_text (PStr ''approve_plan_revision'') f = Inr ''approve_plan_revision''"
  "cmd_required_text (PStr ''reject_plan_revision'') f = Inr ''reject_plan_revision''"
  "cmd_required_text (PStr ''abandon_plan'') f = Inr ''abandon_plan''"
  "cmd_required_text (PStr ''report_verification_unavailable'') f
     = Inr ''report_verification_unavailable''"
  by (simp_all add: cmd_required_text_PStr_Inr py_strip_fix stripped_def py_space_bits)

lemma core_command_decode_encode:
  assumes "wf_command c"
  shows "core_command_from_mapping (core_command_to_dict c) = Inr c"
  using core_command_post_init_fix [OF assms] assms
  by (cases c)
     (simp_all add: core_command_from_mapping_def wf_command_def expected_revision_of_def
       cmd_mapping_def plan_definition_decode_encode plan_step_update.decode_encode_list)

lemma core_command_decode_wf:
  assumes "core_command_from_mapping d = Inr c"
  shows "wf_command c"
  using assms unfolding core_command_from_mapping_def bindE_eq_Inr
  apply (elim exE conjE)
  apply (simp_all only: bindE_eq_Inr split: if_split_asm)
  subgoal by (elim exE conjE)
    (metis mk_command_wf(1) plan_definition.decode_valid step_definitions_from_raw_wf)
  subgoal by (elim exE conjE)
    (metis mk_update_plan_progress_wf plan_step_update.decode_list_valid)
  subgoal by (elim exE conjE)
    (metis mk_command_wf(2) plan_definition.decode_valid step_definitions_from_raw_wf)
  subgoal by (elim exE conjE) (rule mk_command_wf(3))
  subgoal by (elim exE conjE) (rule mk_command_wf(4))
  subgoal by (elim exE conjE) (rule mk_command_wf(5))
  subgoal by (elim exE conjE) (rule mk_command_wf(6))
  subgoal by (elim exE conjE) (rule mk_command_wf(7))
  subgoal by (elim exE conjE) (rule mk_command_wf(8))
  subgoal by (elim exE conjE) (rule mk_command_wf(9))
  subgoal by simp
  done

interpretation core_command: record_codec wf_command core_command_to_dict core_command_from_mapping
  by unfold_locales (simp_all add: core_command_decode_encode core_command_decode_wf)

lemma mk_command_result_ok [simp]:
  "canon_text py_strip cid \<Longrightarrow>
   mk_command_result cid st r
     = Inr \<lparr>cmdr_command_id = cid, cmdr_status = st, cmdr_reason = py_strip r\<rparr>"
  by (simp add: mk_command_result_def)

end
