(* ===== verification/Core_State.thy ===== *)
theory Core_State
  imports Core_Plan
begin

text \<open>
  The canonical task state, \<^verbatim>\<open>src/codepilot/core/state.py\<close>: task, counters, workspace,
  verification, failure, loop-guard and ledger facts as records; the validation of every
  dataclass; the persistence codec \<^verbatim>\<open>CoreState.to_dict\<close> / \<^verbatim>\<open>from_mapping\<close> /
  \<^verbatim>\<open>load_core_state\<close>; and the completion assessment.
\<close>

section \<open>Field helpers\<close>

abbreviation CORE_STATE_SCHEMA_VERSION :: int where "CORE_STATE_SCHEMA_VERSION \<equiv> 2"

definition st_optional_text :: "pyval \<Rightarrow> string option" where
  "st_optional_text v = optional_text py_strip v"

definition st_required_text :: "pyval \<Rightarrow> string \<Rightarrow> string result" where
  "st_required_text v field = required_text py_strip (ValueError (field @ '' is required'')) v"

definition st_optional_int :: "pyval \<Rightarrow> int option" where
  "st_optional_int v = (case v of PInt i \<Rightarrow> Some i | _ \<Rightarrow> None)"

definition st_non_negative_int :: "pyval \<Rightarrow> int" where
  "st_non_negative_int v = (case v of PInt i \<Rightarrow> if i \<ge> 0 then i else 0 | _ \<Rightarrow> 0)"

definition st_positive_int :: "pyval \<Rightarrow> string \<Rightarrow> int result" where
  "st_positive_int v field =
     (case v of
        PInt i \<Rightarrow> if i \<le> 0 then Inl (ValueError (field @ '' must be positive'')) else Inr i
      | _ \<Rightarrow> Inl (ValueError (field @ '' must be positive'')))"

text \<open>Only a list is read; blank items are skipped.\<close>

definition st_string_list :: "pyval \<Rightarrow> string list" where
  "st_string_list v = (case v of PList xs \<Rightarrow> List.map_filter st_optional_text xs | _ \<Rightarrow> [])"

definition st_text_tuple :: "string list \<Rightarrow> string list result" where
  "st_text_tuple vs = text_tuple py_strip (\<lambda>_. ValueError ''text value is required'') vs"

definition st_mapping :: "pyval \<Rightarrow> string \<Rightarrow> dict result" where
  "st_mapping v field =
     (case v of PDict d \<Rightarrow> Inr d | _ \<Rightarrow> Inl (TypeError (field @ '' must be an object'')))"

definition st_mapping_list :: "pyval \<Rightarrow> string \<Rightarrow> dict list result" where
  "st_mapping_list v field =
     (case v of
        PList xs \<Rightarrow> as_mappings (TypeError (field @ '' must be a list of objects'')) xs
      | _ \<Rightarrow> Inl (TypeError (field @ '' must be a list of objects'')))"

text \<open>\<^verbatim>\<open>value in {...}\<close> over a set of strings: no conversion, and an unhashable value
  raises \<open>TypeError\<close>.\<close>

definition literal_member ::
  "('e \<Rightarrow> string) \<Rightarrow> 'e list \<Rightarrow> string \<Rightarrow> pyval \<Rightarrow> 'e result" where
  "literal_member name all msg v =
     (case v of
        PStr t \<Rightarrow> (case find (\<lambda>e. name e = t) all of
                    None \<Rightarrow> Inl (ValueError (msg @ t)) | Some e \<Rightarrow> Inr e)
      | PList _ \<Rightarrow> Inl (TypeError ''unhashable type'')
      | PDict _ \<Rightarrow> Inl (TypeError ''unhashable type'')
      | _ \<Rightarrow> Inl (ValueError (msg @ py_str v)))"

lemma st_required_text_canon: "st_required_text v f = Inr t \<Longrightarrow> canon_text py_strip t"
  unfolding st_required_text_def by (rule strip.required_text_canon)

lemma st_required_text_fix [simp]:
  "canon_text py_strip s \<Longrightarrow> st_required_text (PStr s) f = Inr s"
  by (simp add: st_required_text_def required_text_fix)

lemma st_optional_text_canon: "st_optional_text v = Some t \<Longrightarrow> canon_text py_strip t"
  unfolding st_optional_text_def by (rule strip.optional_text_canon)

lemma st_optional_text_fix [simp]:
  "canon_text py_strip s \<Longrightarrow> st_optional_text (PStr s) = Some s"
  by (simp add: st_optional_text_def optional_text_fix)

lemma st_optional_text_PNone [simp]: "st_optional_text PNone = None"
  by (simp add: st_optional_text_def)

lemma st_text_tuple_canon: "st_text_tuple vs = Inr ts \<Longrightarrow> canon_texts py_strip ts"
  unfolding st_text_tuple_def by (rule strip.text_tuple_canon)

lemma st_text_tuple_fix [simp]: "canon_texts py_strip ts \<Longrightarrow> st_text_tuple ts = Inr ts"
  by (simp add: st_text_tuple_def text_tuple_fix)

lemma st_text_tuple_canon_list:
  "(\<forall>v \<in> set vs. canon_text py_strip v) \<Longrightarrow> st_text_tuple vs = Inr (dedup vs)"
proof -
  assume c: "\<forall>v \<in> set vs. canon_text py_strip v"
  then have "map py_strip vs = vs" by (simp add: canon_text_def map_idI)
  with c text_tuple_ok [of vs py_strip "\<lambda>_. ValueError ''text value is required''"]
  show ?thesis by (auto simp: st_text_tuple_def canon_text_def)
qed

lemma st_string_list_PStr [simp]:
  "canon_texts py_strip ts \<Longrightarrow> st_string_list (PList (map PStr ts)) = ts"
  unfolding canon_texts_def
  by (induction ts) (auto simp: st_string_list_def List.map_filter_simps)

lemma st_non_negative_int_PInt [simp]: "0 \<le> i \<Longrightarrow> st_non_negative_int (PInt i) = i"
  by (simp add: st_non_negative_int_def)

lemma st_non_negative_int_ge [simp]: "0 \<le> st_non_negative_int v"
  by (auto simp: st_non_negative_int_def split: pyval.splits)

section \<open>Literal types\<close>

datatype task_status = TaskActive | TaskBlocked | TaskSatisfied | TaskAbandoned

datatype blocker_kind =
    UserInputRequired | ToolUnavailable | VerificationFailed | PlanIncomplete | ReplanRequired

datatype verification_status =
    VNone | VUnknown | VPassed | VFailed | VStale | VUnavailable

datatype assessment_status =
    AActive | ABlocked | ANeedsVerification | ANeedsReplan | AReadyToFinish | ASatisfied

fun task_status_name :: "task_status \<Rightarrow> string" where
  "task_status_name TaskActive = ''active''"
| "task_status_name TaskBlocked = ''blocked''"
| "task_status_name TaskSatisfied = ''satisfied''"
| "task_status_name TaskAbandoned = ''abandoned''"

fun blocker_kind_name :: "blocker_kind \<Rightarrow> string" where
  "blocker_kind_name UserInputRequired = ''user_input_required''"
| "blocker_kind_name ToolUnavailable = ''tool_unavailable''"
| "blocker_kind_name VerificationFailed = ''verification_failed''"
| "blocker_kind_name PlanIncomplete = ''plan_incomplete''"
| "blocker_kind_name ReplanRequired = ''replan_required''"

fun verification_status_name :: "verification_status \<Rightarrow> string" where
  "verification_status_name VNone = ''none''"
| "verification_status_name VUnknown = ''unknown''"
| "verification_status_name VPassed = ''passed''"
| "verification_status_name VFailed = ''failed''"
| "verification_status_name VStale = ''stale''"
| "verification_status_name VUnavailable = ''unavailable''"

definition parse_task_status :: "pyval \<Rightarrow> task_status result" where
  "parse_task_status = literal_member task_status_name
     [TaskActive, TaskBlocked, TaskSatisfied, TaskAbandoned] ''Unknown task status: ''"

definition parse_blocker_kind :: "pyval \<Rightarrow> blocker_kind result" where
  "parse_blocker_kind = literal_member blocker_kind_name
     [UserInputRequired, ToolUnavailable, VerificationFailed, PlanIncomplete, ReplanRequired]
     ''Unknown task blocker: ''"

definition parse_verification_status :: "pyval \<Rightarrow> verification_status result" where
  "parse_verification_status = literal_member verification_status_name
     [VNone, VUnknown, VPassed, VFailed, VStale, VUnavailable] ''Unknown verification status: ''"

lemma parse_task_status_name [simp]: "parse_task_status (PStr (task_status_name e)) = Inr e"
  by (cases e) (simp_all add: parse_task_status_def literal_member_def)

lemma parse_blocker_kind_name [simp]: "parse_blocker_kind (PStr (blocker_kind_name e)) = Inr e"
  by (cases e) (simp_all add: parse_blocker_kind_def literal_member_def)

lemma parse_verification_status_name [simp]:
  "parse_verification_status (PStr (verification_status_name e)) = Inr e"
  by (cases e) (simp_all add: parse_verification_status_def literal_member_def)

section \<open>Blockers and task\<close>

record task_blocker =
  tb_kind :: blocker_kind
  tb_reason :: string
  tb_evidence_refs :: "string list"
  tb_recoverable :: bool

definition task_blocker_post_init :: "task_blocker \<Rightarrow> task_blocker result" where
  "task_blocker_post_init b =
     bindE (st_required_text (PStr (tb_reason b)) ''blocker reason'') (\<lambda>reason.
     bindE (st_text_tuple (tb_evidence_refs b)) (\<lambda>refs.
     Inr (b\<lparr>tb_reason := reason, tb_evidence_refs := refs\<rparr>)))"

definition wf_task_blocker :: "task_blocker \<Rightarrow> bool" where
  "wf_task_blocker b \<longleftrightarrow>
     canon_text py_strip (tb_reason b) \<and> canon_texts py_strip (tb_evidence_refs b)"

interpretation task_blocker: validated wf_task_blocker task_blocker_post_init
  by unfold_locales
     (auto simp: task_blocker_post_init_def wf_task_blocker_def bindE_eq_Inr
        dest: st_required_text_canon st_text_tuple_canon)

record task_state =
  ts_original_request :: string
  ts_current_goal :: string
  ts_status :: task_status
  ts_plan :: "plan_state option"
  ts_blockers :: "task_blocker list"

definition task_state_post_init :: "task_state \<Rightarrow> task_state result" where
  "task_state_post_init t =
     bindE (st_required_text (PStr (ts_original_request t)) ''original_request'') (\<lambda>request.
     bindE (st_required_text (PStr (ts_current_goal t)) ''current_goal'') (\<lambda>goal.
     Inr (t\<lparr>ts_original_request := request, ts_current_goal := goal\<rparr>)))"

text \<open>The parts of a task were built by their own constructors.\<close>

definition wf_task_state :: "task_state \<Rightarrow> bool" where
  "wf_task_state t \<longleftrightarrow>
     canon_text py_strip (ts_original_request t) \<and> canon_text py_strip (ts_current_goal t) \<and>
     (\<forall>p. ts_plan t = Some p \<longrightarrow> wf_plan_state p) \<and>
     (\<forall>b \<in> set (ts_blockers t). wf_task_blocker b)"

lemma wf_task_state_post_init [simp]: "wf_task_state t \<Longrightarrow> task_state_post_init t = Inr t"
  by (simp add: wf_task_state_def task_state_post_init_def)

section \<open>Facts\<close>

record core_counters =
  cc_model_turns :: int
  cc_model_attempts :: int
  cc_tool_iterations :: int
  cc_tool_calls :: int
  cc_total_recoveries :: int

text \<open>\<^verbatim>\<open>CoreCounters(...)\<close>: an absent \<^verbatim>\<open>model_attempts\<close> is \<^verbatim>\<open>model_turns\<close>.\<close>

definition mk_core_counters :: "int \<Rightarrow> int option \<Rightarrow> int \<Rightarrow> int \<Rightarrow> int \<Rightarrow> core_counters result" where
  "mk_core_counters turns attempts iterations calls recoveries =
     (let attempts' = (case attempts of None \<Rightarrow> turns | Some n \<Rightarrow> n) in
      case find (\<lambda>(name, value). value < 0)
        [(''model_turns'', turns), (''model_attempts'', attempts'),
         (''tool_iterations'', iterations), (''tool_calls'', calls),
         (''total_recoveries'', recoveries)] of
        Some (name, _) \<Rightarrow> Inl (ValueError (name @ '' must be a non-negative integer''))
      | None \<Rightarrow> Inr \<lparr>cc_model_turns = turns, cc_model_attempts = attempts',
                     cc_tool_iterations = iterations, cc_tool_calls = calls,
                     cc_total_recoveries = recoveries\<rparr>)"

definition core_counters_post_init :: "core_counters \<Rightarrow> core_counters result" where
  "core_counters_post_init c =
     mk_core_counters (cc_model_turns c) (Some (cc_model_attempts c)) (cc_tool_iterations c)
       (cc_tool_calls c) (cc_total_recoveries c)"

definition wf_core_counters :: "core_counters \<Rightarrow> bool" where
  "wf_core_counters c \<longleftrightarrow>
     0 \<le> cc_model_turns c \<and> 0 \<le> cc_model_attempts c \<and> 0 \<le> cc_tool_iterations c \<and>
     0 \<le> cc_tool_calls c \<and> 0 \<le> cc_total_recoveries c"

interpretation core_counters: validated wf_core_counters core_counters_post_init
  by unfold_locales
     (auto simp: core_counters_post_init_def mk_core_counters_def wf_core_counters_def Let_def
        split: if_splits)

definition sorted_set :: "string list \<Rightarrow> string list" where
  "sorted_set xs = sort (remdups xs)"

lemma sorted_set_props [simp]:
  "sorted (sorted_set xs)" "distinct (sorted_set xs)" "set (sorted_set xs) = set xs"
  by (simp_all add: sorted_set_def)

lemma sorted_set_id: "sorted xs \<Longrightarrow> distinct xs \<Longrightarrow> sorted_set xs = xs"
  by (simp add: sorted_set_def distinct_remdups_id sorted_sort_id)

record workspace_facts =
  wk_revision :: int
  wk_changed :: bool
  wk_affected_paths :: "string list"
  wk_evidence_refs :: "string list"

definition workspace_facts_post_init :: "workspace_facts \<Rightarrow> workspace_facts result" where
  "workspace_facts_post_init w =
     (if wk_revision w < 0
      then Inl (ValueError ''workspace revision must be a non-negative integer'')
      else
     bindE (st_text_tuple (wk_affected_paths w)) (\<lambda>paths.
     bindE (st_text_tuple (wk_evidence_refs w)) (\<lambda>refs.
     Inr (w\<lparr>wk_affected_paths := sorted_set paths, wk_evidence_refs := refs\<rparr>))))"

definition wf_workspace_facts :: "workspace_facts \<Rightarrow> bool" where
  "wf_workspace_facts w \<longleftrightarrow>
     0 \<le> wk_revision w \<and> canon_texts py_strip (wk_affected_paths w) \<and>
     sorted (wk_affected_paths w) \<and> canon_texts py_strip (wk_evidence_refs w)"

lemma canon_texts_sorted_set: "canon_texts n xs \<Longrightarrow> canon_texts n (sorted_set xs)"
  by (simp add: canon_texts_def)

interpretation workspace_facts: validated wf_workspace_facts workspace_facts_post_init
proof
  fix x y :: workspace_facts
  show "wf_workspace_facts y" if "workspace_facts_post_init x = Inr y"
    using that by (auto simp: workspace_facts_post_init_def wf_workspace_facts_def bindE_eq_Inr
        dest!: st_text_tuple_canon intro: canon_texts_sorted_set)
  show "workspace_facts_post_init x = Inr x" if "wf_workspace_facts x"
  proof -
    have "sorted_set (wk_affected_paths x) = wk_affected_paths x"
      using that by (intro sorted_set_id) (auto simp: wf_workspace_facts_def canon_texts_def)
    with that show ?thesis by (simp add: workspace_facts_post_init_def wf_workspace_facts_def)
  qed
qed

record verification_facts =
  vf_status :: verification_status
  vf_verified_revision :: "int option"
  vf_attempted_checks :: "string list"
  vf_evidence_refs :: "string list"
  vf_unavailable_reason :: "string option"

text \<open>\<^verbatim>\<open>_optional_text\<close> of an optional text.\<close>

definition st_optional_text_opt :: "string option \<Rightarrow> string option" where
  "st_optional_text_opt v = (case v of None \<Rightarrow> None | Some s \<Rightarrow> st_optional_text (PStr s))"

definition verification_facts_post_init :: "verification_facts \<Rightarrow> verification_facts result" where
  "verification_facts_post_init v =
     (if (case vf_verified_revision v of None \<Rightarrow> False | Some r \<Rightarrow> r < 0)
      then Inl (ValueError ''verified_revision must be a non-negative integer or None'')
      else
     bindE (st_text_tuple (vf_attempted_checks v)) (\<lambda>checks.
     bindE (st_text_tuple (vf_evidence_refs v)) (\<lambda>refs.
     let reason = st_optional_text_opt (vf_unavailable_reason v) in
     if vf_status v = VUnavailable \<and> reason = None
     then Inl (ValueError ''unavailable verification requires a reason'')
     else Inr (v\<lparr>vf_attempted_checks := checks, vf_evidence_refs := refs,
                vf_unavailable_reason := reason\<rparr>))))"

definition wf_verification_facts :: "verification_facts \<Rightarrow> bool" where
  "wf_verification_facts v \<longleftrightarrow>
     (\<forall>r. vf_verified_revision v = Some r \<longrightarrow> 0 \<le> r) \<and>
     canon_texts py_strip (vf_attempted_checks v) \<and> canon_texts py_strip (vf_evidence_refs v) \<and>
     (\<forall>t. vf_unavailable_reason v = Some t \<longrightarrow> canon_text py_strip t) \<and>
     (vf_status v = VUnavailable \<longrightarrow> vf_unavailable_reason v \<noteq> None)"

lemma st_optional_text_opt_canon:
  "st_optional_text_opt v = Some t \<Longrightarrow> canon_text py_strip t"
  by (auto simp: st_optional_text_opt_def dest: st_optional_text_canon split: option.splits)

lemma st_optional_text_opt_fix:
  "(\<forall>t. v = Some t \<longrightarrow> canon_text py_strip t) \<Longrightarrow> st_optional_text_opt v = v"
  by (cases v) (simp_all add: st_optional_text_opt_def)

interpretation verification_facts: validated wf_verification_facts verification_facts_post_init
proof
  fix x y :: verification_facts
  show "wf_verification_facts y" if "verification_facts_post_init x = Inr y"
    using that
    by (auto simp: verification_facts_post_init_def wf_verification_facts_def bindE_eq_Inr Let_def
        dest: st_text_tuple_canon st_optional_text_opt_canon split: option.splits)
  show "verification_facts_post_init x = Inr x" if "wf_verification_facts x"
    using that st_optional_text_opt_fix [of "vf_unavailable_reason x"]
    by (auto simp: verification_facts_post_init_def wf_verification_facts_def Let_def
        split: option.splits)
qed

record failure_record =
  fr_code :: string
  fr_source :: string
  fr_message :: string
  fr_recoverable :: bool
  fr_evidence_refs :: "string list"

definition failure_record_post_init :: "failure_record \<Rightarrow> failure_record result" where
  "failure_record_post_init f =
     bindE (st_required_text (PStr (fr_code f)) ''failure code'') (\<lambda>code.
     bindE (st_required_text (PStr (fr_source f)) ''failure source'') (\<lambda>source.
     bindE (st_required_text (PStr (fr_message f)) ''failure message'') (\<lambda>message.
     bindE (st_text_tuple (fr_evidence_refs f)) (\<lambda>refs.
     Inr (f\<lparr>fr_code := code, fr_source := source, fr_message := message,
            fr_evidence_refs := refs\<rparr>)))))"

definition wf_failure_record :: "failure_record \<Rightarrow> bool" where
  "wf_failure_record f \<longleftrightarrow>
     canon_text py_strip (fr_code f) \<and> canon_text py_strip (fr_source f) \<and>
     canon_text py_strip (fr_message f) \<and> canon_texts py_strip (fr_evidence_refs f)"

interpretation failure_record: validated wf_failure_record failure_record_post_init
  by unfold_locales
     (auto simp: failure_record_post_init_def wf_failure_record_def bindE_eq_Inr
        dest: st_required_text_canon st_text_tuple_canon)

record failure_count =
  fc_code :: string
  fc_count :: int

definition failure_count_post_init :: "failure_count \<Rightarrow> failure_count result" where
  "failure_count_post_init c =
     bindE (st_required_text (PStr (fc_code c)) ''failure count code'') (\<lambda>code.
     if fc_count c \<le> 0 then Inl (ValueError ''failure count must be positive'')
     else Inr (c\<lparr>fc_code := code\<rparr>))"

definition wf_failure_count :: "failure_count \<Rightarrow> bool" where
  "wf_failure_count c \<longleftrightarrow> canon_text py_strip (fc_code c) \<and> 0 < fc_count c"

interpretation failure_count: validated wf_failure_count failure_count_post_init
  by unfold_locales
     (auto simp: failure_count_post_init_def wf_failure_count_def bindE_eq_Inr
        dest: st_required_text_canon)

record failure_facts =
  ff_latest :: "failure_record option"
  ff_counts :: "failure_count list"

definition failure_facts_post_init :: "failure_facts \<Rightarrow> failure_facts result" where
  "failure_facts_post_init f =
     (if length (remdups (map fc_code (ff_counts f))) \<noteq> length (ff_counts f)
      then Inl (ValueError ''failure count codes must be unique'')
      else Inr (f\<lparr>ff_counts := sort_key fc_code (ff_counts f)\<rparr>))"

definition count_for :: "failure_facts \<Rightarrow> string \<Rightarrow> int" where
  "count_for f code =
     (case find (\<lambda>c. fc_code c = code) (ff_counts f) of None \<Rightarrow> 0 | Some c \<Rightarrow> fc_count c)"

definition wf_failure_facts :: "failure_facts \<Rightarrow> bool" where
  "wf_failure_facts f \<longleftrightarrow>
     (\<forall>r. ff_latest f = Some r \<longrightarrow> wf_failure_record r) \<and>
     (\<forall>c \<in> set (ff_counts f). wf_failure_count c) \<and>
     distinct (map fc_code (ff_counts f)) \<and> sorted (map fc_code (ff_counts f))"

lemma failure_facts_post_init_Inr:
  "failure_facts_post_init f = Inr g \<longleftrightarrow>
   distinct (map fc_code (ff_counts f)) \<and> g = f\<lparr>ff_counts := sort_key fc_code (ff_counts f)\<rparr>"
  using length_remdups_distinct [of "map fc_code (ff_counts f)"]
  by (auto simp: failure_facts_post_init_def)

lemma wf_failure_facts_post_init [simp]:
  "wf_failure_facts f \<Longrightarrow> failure_facts_post_init f = Inr f"
  by (simp add: failure_facts_post_init_Inr wf_failure_facts_def sort_key_id_if_sorted)

record loop_guard_facts =
  lg_last_tool_fingerprint :: "string option"
  lg_repeated_tool_calls :: int
  lg_repeated_no_progress :: int
  lg_seen_tool_call_ids :: "string list"

definition loop_guard_facts_post_init :: "loop_guard_facts \<Rightarrow> loop_guard_facts result" where
  "loop_guard_facts_post_init g =
     (case find (\<lambda>(name, value). value < 0)
        [(''repeated_tool_calls'', lg_repeated_tool_calls g),
         (''repeated_no_progress'', lg_repeated_no_progress g)] of
        Some (name, _) \<Rightarrow> Inl (ValueError (name @ '' must be a non-negative integer''))
      | None \<Rightarrow>
     bindE (st_text_tuple (lg_seen_tool_call_ids g)) (\<lambda>ids.
     Inr (g\<lparr>lg_last_tool_fingerprint := st_optional_text_opt (lg_last_tool_fingerprint g),
            lg_seen_tool_call_ids := ids\<rparr>)))"

definition wf_loop_guard_facts :: "loop_guard_facts \<Rightarrow> bool" where
  "wf_loop_guard_facts g \<longleftrightarrow>
     (\<forall>t. lg_last_tool_fingerprint g = Some t \<longrightarrow> canon_text py_strip t) \<and>
     0 \<le> lg_repeated_tool_calls g \<and> 0 \<le> lg_repeated_no_progress g \<and>
     canon_texts py_strip (lg_seen_tool_call_ids g)"

interpretation loop_guard_facts: validated wf_loop_guard_facts loop_guard_facts_post_init
proof
  fix x y :: loop_guard_facts
  show "wf_loop_guard_facts y" if "loop_guard_facts_post_init x = Inr y"
    using that
    by (auto simp: loop_guard_facts_post_init_def wf_loop_guard_facts_def bindE_eq_Inr
        dest: st_text_tuple_canon st_optional_text_opt_canon split: if_splits)
  show "loop_guard_facts_post_init x = Inr x" if "wf_loop_guard_facts x"
    using that st_optional_text_opt_fix [of "lg_last_tool_fingerprint x"]
    by (simp add: loop_guard_facts_post_init_def wf_loop_guard_facts_def)
qed

record observation_ledger =
  ol_applied_observation_ids :: "string list"

definition observation_ledger_post_init :: "observation_ledger \<Rightarrow> observation_ledger result" where
  "observation_ledger_post_init l =
     bindE (st_text_tuple (ol_applied_observation_ids l)) (\<lambda>ids.
     Inr (l\<lparr>ol_applied_observation_ids := ids\<rparr>))"

definition wf_observation_ledger :: "observation_ledger \<Rightarrow> bool" where
  "wf_observation_ledger l \<longleftrightarrow> canon_texts py_strip (ol_applied_observation_ids l)"

interpretation observation_ledger: validated wf_observation_ledger observation_ledger_post_init
  by unfold_locales
     (auto simp: observation_ledger_post_init_def wf_observation_ledger_def bindE_eq_Inr
        dest: st_text_tuple_canon)

record run_facts =
  rf_counters :: core_counters
  rf_workspace :: workspace_facts
  rf_verification :: verification_facts
  rf_failures :: failure_facts
  rf_loop_guards :: loop_guard_facts
  rf_observation_ledger :: observation_ledger

definition wf_run_facts :: "run_facts \<Rightarrow> bool" where
  "wf_run_facts f \<longleftrightarrow>
     wf_core_counters (rf_counters f) \<and> wf_workspace_facts (rf_workspace f) \<and>
     wf_verification_facts (rf_verification f) \<and> wf_failure_facts (rf_failures f) \<and>
     wf_loop_guard_facts (rf_loop_guards f) \<and>
     wf_observation_ledger (rf_observation_ledger f)"

section \<open>Core state\<close>

definition initial_run_facts :: run_facts where
  "initial_run_facts =
     \<lparr>rf_counters = \<lparr>cc_model_turns = 0, cc_model_attempts = 0, cc_tool_iterations = 0,
                     cc_tool_calls = 0, cc_total_recoveries = 0\<rparr>,
      rf_workspace = \<lparr>wk_revision = 0, wk_changed = False, wk_affected_paths = [],
                      wk_evidence_refs = []\<rparr>,
      rf_verification = \<lparr>vf_status = VNone, vf_verified_revision = None,
                         vf_attempted_checks = [], vf_evidence_refs = [],
                         vf_unavailable_reason = None\<rparr>,
      rf_failures = \<lparr>ff_latest = None, ff_counts = []\<rparr>,
      rf_loop_guards = \<lparr>lg_last_tool_fingerprint = None, lg_repeated_tool_calls = 0,
                        lg_repeated_no_progress = 0, lg_seen_tool_call_ids = []\<rparr>,
      rf_observation_ledger = \<lparr>ol_applied_observation_ids = []\<rparr>\<rparr>"

record core_state =
  cs_task :: task_state
  cs_facts :: run_facts
  cs_schema_version :: int

definition core_state_post_init :: "core_state \<Rightarrow> core_state result" where
  "core_state_post_init s =
     (if cs_schema_version s \<noteq> CORE_STATE_SCHEMA_VERSION
      then Inl (ValueError (''Unsupported CoreState schema: '' @ str_int (cs_schema_version s)))
      else Inr s)"

definition core_state_new :: "string \<Rightarrow> string option \<Rightarrow> core_state result" where
  "core_state_new original_request current_goal =
     bindE (st_required_text (PStr original_request) ''original_request'') (\<lambda>request.
     let goal = (case st_optional_text_opt current_goal of None \<Rightarrow> request | Some g \<Rightarrow> g) in
     bindE (task_state_post_init
              \<lparr>ts_original_request = request, ts_current_goal = goal, ts_status = TaskActive,
               ts_plan = None, ts_blockers = []\<rparr>) (\<lambda>task.
     core_state_post_init
       \<lparr>cs_task = task, cs_facts = initial_run_facts,
        cs_schema_version = CORE_STATE_SCHEMA_VERSION\<rparr>))"

definition wf_core_state :: "core_state \<Rightarrow> bool" where
  "wf_core_state s \<longleftrightarrow>
     cs_schema_version s = CORE_STATE_SCHEMA_VERSION \<and>
     wf_task_state (cs_task s) \<and> wf_run_facts (cs_facts s)"

lemma wf_initial_run_facts: "wf_run_facts initial_run_facts"
  by (simp add: wf_run_facts_def initial_run_facts_def wf_core_counters_def
      wf_workspace_facts_def wf_verification_facts_def wf_failure_facts_def
      wf_loop_guard_facts_def wf_observation_ledger_def canon_texts_def)

lemma core_state_new_wf: "core_state_new r g = Inr s \<Longrightarrow> wf_core_state s"
  by (auto simp: core_state_new_def bindE_eq_Inr Let_def task_state_post_init_def
      core_state_post_init_def wf_core_state_def wf_task_state_def wf_initial_run_facts
      dest: st_required_text_canon split: if_splits)

section \<open>Persistence\<close>

definition opt_pyval :: "('a \<Rightarrow> pyval) \<Rightarrow> 'a option \<Rightarrow> pyval" where
  "opt_pyval f v = (case v of None \<Rightarrow> PNone | Some x \<Rightarrow> f x)"

definition task_blocker_to_dict :: "task_blocker \<Rightarrow> dict" where
  "task_blocker_to_dict b =
     [(''kind'', PStr (blocker_kind_name (tb_kind b))),
      (''reason'', PStr (tb_reason b)),
      (''evidence_refs'', PList (map PStr (tb_evidence_refs b))),
      (''recoverable'', PBool (tb_recoverable b))]"

definition task_state_to_dict :: "task_state \<Rightarrow> dict" where
  "task_state_to_dict t =
     [(''original_request'', PStr (ts_original_request t)),
      (''current_goal'', PStr (ts_current_goal t)),
      (''status'', PStr (task_status_name (ts_status t))),
      (''plan'', opt_pyval (\<lambda>p. PDict (plan_state_to_dict p)) (ts_plan t)),
      (''blockers'', PList (map (\<lambda>b. PDict (task_blocker_to_dict b)) (ts_blockers t)))]"

text \<open>\<^verbatim>\<open>asdict\<close> of a failure record keeps its tuple of evidence references a tuple.\<close>

definition failure_record_asdict :: "failure_record \<Rightarrow> dict" where
  "failure_record_asdict f =
     [(''code'', PStr (fr_code f)),
      (''source'', PStr (fr_source f)),
      (''message'', PStr (fr_message f)),
      (''recoverable'', PBool (fr_recoverable f)),
      (''evidence_refs'', PTuple (map PStr (fr_evidence_refs f)))]"

definition run_facts_to_dict :: "run_facts \<Rightarrow> dict" where
  "run_facts_to_dict f =
     (let c = rf_counters f; w = rf_workspace f; v = rf_verification f;
          fl = rf_failures f; g = rf_loop_guards f; l = rf_observation_ledger f
      in
     [(''counters'', PDict
        [(''model_turns'', PInt (cc_model_turns c)),
         (''model_attempts'', PInt (cc_model_attempts c)),
         (''tool_iterations'', PInt (cc_tool_iterations c)),
         (''tool_calls'', PInt (cc_tool_calls c)),
         (''total_recoveries'', PInt (cc_total_recoveries c))]),
      (''workspace'', PDict
        [(''revision'', PInt (wk_revision w)),
         (''changed'', PBool (wk_changed w)),
         (''affected_paths'', PList (map PStr (wk_affected_paths w))),
         (''evidence_refs'', PList (map PStr (wk_evidence_refs w)))]),
      (''verification'', PDict
        [(''status'', PStr (verification_status_name (vf_status v))),
         (''verified_revision'', opt_pyval PInt (vf_verified_revision v)),
         (''attempted_checks'', PList (map PStr (vf_attempted_checks v))),
         (''evidence_refs'', PList (map PStr (vf_evidence_refs v))),
         (''unavailable_reason'', opt_pyval PStr (vf_unavailable_reason v))]),
      (''failures'', PDict
        [(''latest'', opt_pyval (\<lambda>r. PDict (failure_record_asdict r)) (ff_latest fl)),
         (''counts'', PList (map (\<lambda>n. PDict [(''code'', PStr (fc_code n)),
                                              (''count'', PInt (fc_count n))]) (ff_counts fl)))]),
      (''loop_guards'', PDict
        [(''last_tool_fingerprint'', opt_pyval PStr (lg_last_tool_fingerprint g)),
         (''repeated_tool_calls'', PInt (lg_repeated_tool_calls g)),
         (''repeated_no_progress'', PInt (lg_repeated_no_progress g)),
         (''seen_tool_call_ids'', PList (map PStr (lg_seen_tool_call_ids g)))]),
      (''observation_ledger'', PDict
        [(''applied_observation_ids'', PList (map PStr (ol_applied_observation_ids l)))])])"

definition core_state_to_dict :: "core_state \<Rightarrow> dict" where
  "core_state_to_dict s =
     [(''schema_version'', PInt (cs_schema_version s)),
      (''task'', PDict (task_state_to_dict (cs_task s))),
      (''facts'', PDict (run_facts_to_dict (cs_facts s)))]"

definition task_blocker_from_mapping :: "dict \<Rightarrow> task_blocker result" where
  "task_blocker_from_mapping item =
     bindE (st_required_text (dget item ''reason'') ''blocker reason'') (\<lambda>reason.
     bindE (parse_blocker_kind (dget item ''kind'')) (\<lambda>kind.
     task_blocker_post_init
       \<lparr>tb_kind = kind, tb_reason = reason,
        tb_evidence_refs = st_string_list (dget item ''evidence_refs''),
        tb_recoverable = py_truth (dget item ''recoverable'')\<rparr>))"

definition failure_record_from_mapping :: "dict \<Rightarrow> failure_record result" where
  "failure_record_from_mapping raw =
     bindE (st_required_text (dget raw ''code'') ''failure code'') (\<lambda>code.
     bindE (st_required_text (dget raw ''source'') ''failure source'') (\<lambda>source.
     bindE (st_required_text (dget raw ''message'') ''failure message'') (\<lambda>message.
     failure_record_post_init
       \<lparr>fr_code = code, fr_source = source, fr_message = message,
        fr_recoverable = py_truth (dget raw ''recoverable''),
        fr_evidence_refs = st_string_list (dget raw ''evidence_refs'')\<rparr>)))"

definition failure_count_from_mapping :: "dict \<Rightarrow> failure_count result" where
  "failure_count_from_mapping item =
     bindE (st_required_text (dget item ''code'') ''failure count code'') (\<lambda>code.
     bindE (st_positive_int (dget item ''count'') ''failure count'') (\<lambda>n.
     failure_count_post_init \<lparr>fc_code = code, fc_count = n\<rparr>))"

text \<open>The \<^verbatim>\<open>facts\<close> part, section by section.\<close>

definition core_counters_from_mapping :: "dict \<Rightarrow> core_counters result" where
  "core_counters_from_mapping raw =
     mk_core_counters
       (st_non_negative_int (dget raw ''model_turns''))
       (Some (st_non_negative_int
          (dget_default raw ''model_attempts'' (dget raw ''model_turns''))))
       (st_non_negative_int (dget raw ''tool_iterations''))
       (st_non_negative_int (dget raw ''tool_calls''))
       (st_non_negative_int (dget raw ''total_recoveries''))"

definition workspace_facts_from_mapping :: "dict \<Rightarrow> workspace_facts result" where
  "workspace_facts_from_mapping raw =
     workspace_facts_post_init
       \<lparr>wk_revision = st_non_negative_int (dget raw ''revision''),
        wk_changed = py_truth (dget raw ''changed''),
        wk_affected_paths = st_string_list (dget raw ''affected_paths''),
        wk_evidence_refs = st_string_list (dget raw ''evidence_refs'')\<rparr>"

definition verification_facts_from_mapping :: "dict \<Rightarrow> verification_facts result" where
  "verification_facts_from_mapping raw =
     bindE (parse_verification_status (dget raw ''status'')) (\<lambda>status.
     verification_facts_post_init
       \<lparr>vf_status = status,
        vf_verified_revision = st_optional_int (dget raw ''verified_revision''),
        vf_attempted_checks = st_string_list (dget raw ''attempted_checks''),
        vf_evidence_refs = st_string_list (dget raw ''evidence_refs''),
        vf_unavailable_reason = st_optional_text (dget raw ''unavailable_reason'')\<rparr>)"

definition loop_guard_facts_from_mapping :: "dict \<Rightarrow> loop_guard_facts result" where
  "loop_guard_facts_from_mapping raw =
     loop_guard_facts_post_init
       \<lparr>lg_last_tool_fingerprint = st_optional_text (dget raw ''last_tool_fingerprint''),
        lg_repeated_tool_calls = st_non_negative_int (dget raw ''repeated_tool_calls''),
        lg_repeated_no_progress = st_non_negative_int (dget raw ''repeated_no_progress''),
        lg_seen_tool_call_ids = st_string_list (dget raw ''seen_tool_call_ids'')\<rparr>"

definition observation_ledger_from_mapping :: "dict \<Rightarrow> observation_ledger result" where
  "observation_ledger_from_mapping raw =
     observation_ledger_post_init
       \<lparr>ol_applied_observation_ids = st_string_list (dget raw ''applied_observation_ids'')\<rparr>"

definition latest_failure_from_mapping :: "pyval \<Rightarrow> failure_record option result" where
  "latest_failure_from_mapping v =
     (if v = PNone then Inr None
      else bindE (st_mapping v ''facts.failures.latest'')
             (\<lambda>d. mapE Some (failure_record_from_mapping d)))"

definition core_state_from_mapping :: "dict \<Rightarrow> core_state result" where
  "core_state_from_mapping raw =
     (if dget raw ''schema_version'' \<noteq> PInt CORE_STATE_SCHEMA_VERSION
      then Inl (ValueError ''Unsupported CoreState schema'')
      else
     bindE (st_mapping (dget raw ''task'') ''task'') (\<lambda>task_raw.
     bindE (st_mapping (dget raw ''facts'') ''facts'') (\<lambda>facts_raw.
     bindE (st_mapping (dget facts_raw ''counters'') ''facts.counters'') (\<lambda>counters_raw.
     bindE (st_mapping (dget facts_raw ''workspace'') ''facts.workspace'') (\<lambda>workspace_raw.
     bindE (st_mapping (dget facts_raw ''verification'') ''facts.verification'') (\<lambda>verification_raw.
     bindE (st_mapping (dget facts_raw ''failures'') ''facts.failures'') (\<lambda>failures_raw.
     bindE (st_mapping (dget facts_raw ''loop_guards'') ''facts.loop_guards'') (\<lambda>loop_raw.
     bindE (st_mapping (dget facts_raw ''observation_ledger'') ''facts.observation_ledger'') (\<lambda>ledger_raw.
     bindE (st_mapping_list (dget task_raw ''blockers'') ''task.blockers'') (\<lambda>blocker_values.
     bindE (st_mapping_list (dget failures_raw ''counts'') ''facts.failures.counts'') (\<lambda>count_values.
     bindE (latest_failure_from_mapping (dget failures_raw ''latest'')) (\<lambda>latest.
     bindE (st_required_text (dget task_raw ''original_request'') ''original_request'') (\<lambda>request.
     bindE (st_required_text (dget task_raw ''current_goal'') ''current_goal'') (\<lambda>goal.
     bindE (load_plan_state (Inr (dget task_raw ''plan''))) (\<lambda>plan.
     bindE (traverse task_blocker_from_mapping blocker_values) (\<lambda>blockers.
     bindE (parse_task_status (dget task_raw ''status'')) (\<lambda>status.
     bindE (task_state_post_init
              \<lparr>ts_original_request = request, ts_current_goal = goal, ts_status = status,
               ts_plan = plan, ts_blockers = blockers\<rparr>) (\<lambda>task.
     bindE (core_counters_from_mapping counters_raw) (\<lambda>counters.
     bindE (workspace_facts_from_mapping workspace_raw) (\<lambda>workspace.
     bindE (verification_facts_from_mapping verification_raw) (\<lambda>verification.
     bindE (traverse failure_count_from_mapping count_values) (\<lambda>counts.
     bindE (failure_facts_post_init \<lparr>ff_latest = latest, ff_counts = counts\<rparr>) (\<lambda>failures.
     bindE (loop_guard_facts_from_mapping loop_raw) (\<lambda>loop_guards.
     bindE (observation_ledger_from_mapping ledger_raw) (\<lambda>ledger.
     core_state_post_init
       \<lparr>cs_task = task,
        cs_facts = \<lparr>rf_counters = counters, rf_workspace = workspace,
                    rf_verification = verification, rf_failures = failures,
                    rf_loop_guards = loop_guards, rf_observation_ledger = ledger\<rparr>,
        cs_schema_version = CORE_STATE_SCHEMA_VERSION\<rparr>)))))))))))))))))))))))))"

fun exn_message :: "exn \<Rightarrow> string" where
  "exn_message (ValueError m) = m"
| "exn_message (PlanValidationError m) = m"
| "exn_message (TypeError m) = m"
| "exn_message (CoreContractError m) = m"
| "exn_message (CoreInvariantError m) = m"
| "exn_message (KeyError m) = m"
| "exn_message (CoreBoundaryCommitError m) = m"
| "exn_message (RuntimeError m) = m"
| "exn_message (ToolStateConflictError m) = m"
| "exn_message (ToolRegistryError m) = m"
| "exn_message (ToolRegistrationConflictError m) = m"
| "exn_message (ToolRegistrationNotFoundError m) = m"
| "exn_message (StaleToolRegistrationError m) = m"
| "exn_message (ContextBudgetExceededError m) = m"
| "exn_message (ContextCompactionError m) = m"

text \<open>The class of an exception and its text, as \<^verbatim>\<open>except Exception\<close> sees it.\<close>

fun exn_type_name :: "exn \<Rightarrow> string" where
  "exn_type_name (ValueError _) = ''ValueError''"
| "exn_type_name (PlanValidationError _) = ''PlanValidationError''"
| "exn_type_name (TypeError _) = ''TypeError''"
| "exn_type_name (CoreContractError _) = ''CoreContractError''"
| "exn_type_name (CoreInvariantError _) = ''CoreInvariantError''"
| "exn_type_name (KeyError _) = ''KeyError''"
| "exn_type_name (CoreBoundaryCommitError _) = ''CoreBoundaryCommitError''"
| "exn_type_name (RuntimeError _) = ''RuntimeError''"
| "exn_type_name (ToolStateConflictError _) = ''ToolStateConflictError''"
| "exn_type_name (ToolRegistryError _) = ''ToolRegistryError''"
| "exn_type_name (ToolRegistrationConflictError _) = ''ToolRegistrationConflictError''"
| "exn_type_name (ToolRegistrationNotFoundError _) = ''ToolRegistrationNotFoundError''"
| "exn_type_name (StaleToolRegistrationError _) = ''StaleToolRegistrationError''"
| "exn_type_name (ContextBudgetExceededError _) = ''ContextBudgetExceededError''"
| "exn_type_name (ContextCompactionError _) = ''ContextCompactionError''"

fun exn_text :: "exn \<Rightarrow> string" where
  "exn_text (KeyError k) = repr_string k"
| "exn_text e = exn_message e"

fun is_type_error :: "exn \<Rightarrow> bool" where
  "is_type_error (TypeError _) = True"
| "is_type_error _ = False"

text \<open>\<open>Inl s\<close> is an object that already is a \<open>CoreState\<close>.\<close>

definition load_core_state :: "core_state + pyval \<Rightarrow> core_state result" where
  "load_core_state raw =
     (case raw of
        Inl s \<Rightarrow> Inr s
      | Inr (PDict d) \<Rightarrow>
          if dget d ''schema_version'' \<noteq> PInt CORE_STATE_SCHEMA_VERSION
          then Inl (CoreContractError (''Unsupported CoreState schema: ''
                      @ py_str (dget d ''schema_version'')))
          else (case core_state_from_mapping d of
                  Inr s \<Rightarrow> Inr s
                | Inl e \<Rightarrow> if is_type_error e \<or> is_value_error e
                           then Inl (CoreContractError (''Invalid CoreState schema: '' @ exn_message e))
                           else Inl e)
      | Inr _ \<Rightarrow> Inl (CoreContractError ''Core state must be an object''))"

section \<open>Assessment\<close>

record core_assessment =
  as_status :: assessment_status
  as_reasons :: "string list"

definition verification_fresh :: "verification_facts \<Rightarrow> workspace_facts \<Rightarrow> bool" where
  "verification_fresh v w \<longleftrightarrow>
     vf_status v \<in> {VPassed, VUnavailable} \<and> vf_verified_revision v = Some (wk_revision w)"

definition assess_core_state :: "core_state \<Rightarrow> core_assessment" where
  "assess_core_state s =
     (let task = cs_task s;
          workspace = rf_workspace (cs_facts s);
          verification = rf_verification (cs_facts s)
      in
      if ts_status task = TaskSatisfied then \<lparr>as_status = ASatisfied, as_reasons = []\<rparr>
      else if ts_status task \<in> {TaskBlocked, TaskAbandoned} then
        \<lparr>as_status = ABlocked, as_reasons = [''task_'' @ task_status_name (ts_status task)]\<rparr>
      else if list_ex (\<lambda>b. tb_kind b = ReplanRequired) (ts_blockers task) then
        \<lparr>as_status = ANeedsReplan, as_reasons = [''replan_required'']\<rparr>
      else if wk_changed workspace \<and> \<not> verification_fresh verification workspace then
        \<lparr>as_status = ANeedsVerification, as_reasons = [''verification_not_fresh'']\<rparr>
      else (case ts_plan task of
          None \<Rightarrow> \<lparr>as_status = AActive, as_reasons = []\<rparr>
        | Some plan \<Rightarrow>
            if ps_status plan = PlanActive \<and> ps_close_request plan \<noteq> None \<and>
               list_all (\<lambda>st. st_status st = StepCompleted) (ps_steps plan)
            then \<lparr>as_status = AReadyToFinish, as_reasons = []\<rparr>
            else \<lparr>as_status = AActive, as_reasons = []\<rparr>))"

section \<open>Round trips\<close>

definition jsonify_dict :: "dict \<Rightarrow> dict" where
  "jsonify_dict d = map (\<lambda>(k, v). (k, jsonify v)) d"

lemma jsonify_PDict: "jsonify (PDict d) = PDict (jsonify_dict d)"
  by (simp add: jsonify_dict_def)

lemma jsonify_map_PStr [simp]: "map jsonify (map PStr xs) = map PStr xs"
  by simp

lemma jsonify_opt [simp]:
  "jsonify (opt_pyval f v) = opt_pyval (\<lambda>x. jsonify (f x)) v"
  by (cases v) (simp_all add: opt_pyval_def)

lemma jsonify_plan [simp]:
  "jsonify (PDict (plan_definition_to_dict d)) = PDict (plan_definition_to_dict d)"
  "jsonify (PDict (plan_step_to_dict st)) = PDict (plan_step_to_dict st)"
  "jsonify (PDict (plan_close_request_to_dict c)) = PDict (plan_close_request_to_dict c)"
  by (simp_all add: plan_definition_to_dict_def plan_step_to_dict_def
      plan_close_request_to_dict_def comp_def)

lemma jsonify_pending [simp]:
  "jsonify (PDict (pending_plan_revision_to_dict r)) = PDict (pending_plan_revision_to_dict r)"
  using jsonify_plan(1) [of "pr_definition r"] jsonify_plan(2)
  by (simp add: pending_plan_revision_to_dict_def comp_def)

lemma jsonify_plan_state [simp]:
  "jsonify (PDict (plan_state_to_dict p)) = PDict (plan_state_to_dict p)"
  using jsonify_plan(1) [of "ps_definition p"] jsonify_plan(2,3) jsonify_pending
  by (simp add: plan_state_to_dict_def comp_def split: option.splits)

lemma jsonify_task_blocker [simp]:
  "jsonify (PDict (task_blocker_to_dict b)) = PDict (task_blocker_to_dict b)"
  by (simp add: task_blocker_to_dict_def comp_def)

lemma jsonify_task_state:
  "jsonify_dict (task_state_to_dict t) = task_state_to_dict t"
  by (simp add: jsonify_dict_def task_state_to_dict_def comp_def del: jsonify.simps(3))

lemma task_blocker_eta [simp]:
  "\<lparr>tb_kind = tb_kind x,
    tb_reason = tb_reason x,
    tb_evidence_refs = tb_evidence_refs x,
    tb_recoverable = tb_recoverable x\<rparr> = (x :: task_blocker)"
  by simp

lemma failure_record_eta [simp]:
  "\<lparr>fr_code = fr_code x,
    fr_source = fr_source x,
    fr_message = fr_message x,
    fr_recoverable = fr_recoverable x,
    fr_evidence_refs = fr_evidence_refs x\<rparr> = (x :: failure_record)"
  by simp

lemma failure_count_eta [simp]:
  "\<lparr>fc_code = fc_code x,
    fc_count = fc_count x\<rparr> = (x :: failure_count)"
  by simp

lemma core_counters_eta [simp]:
  "\<lparr>cc_model_turns = cc_model_turns x,
    cc_model_attempts = cc_model_attempts x,
    cc_tool_iterations = cc_tool_iterations x,
    cc_tool_calls = cc_tool_calls x,
    cc_total_recoveries = cc_total_recoveries x\<rparr> = (x :: core_counters)"
  by simp

lemma workspace_facts_eta [simp]:
  "\<lparr>wk_revision = wk_revision x,
    wk_changed = wk_changed x,
    wk_affected_paths = wk_affected_paths x,
    wk_evidence_refs = wk_evidence_refs x\<rparr> = (x :: workspace_facts)"
  by simp

lemma verification_facts_eta [simp]:
  "\<lparr>vf_status = vf_status x,
    vf_verified_revision = vf_verified_revision x,
    vf_attempted_checks = vf_attempted_checks x,
    vf_evidence_refs = vf_evidence_refs x,
    vf_unavailable_reason = vf_unavailable_reason x\<rparr> = (x :: verification_facts)"
  by simp

lemma failure_facts_eta [simp]:
  "\<lparr>ff_latest = ff_latest x,
    ff_counts = ff_counts x\<rparr> = (x :: failure_facts)"
  by simp

lemma loop_guard_facts_eta [simp]:
  "\<lparr>lg_last_tool_fingerprint = lg_last_tool_fingerprint x,
    lg_repeated_tool_calls = lg_repeated_tool_calls x,
    lg_repeated_no_progress = lg_repeated_no_progress x,
    lg_seen_tool_call_ids = lg_seen_tool_call_ids x\<rparr> = (x :: loop_guard_facts)"
  by simp

lemma observation_ledger_eta [simp]:
  "\<lparr>ol_applied_observation_ids = ol_applied_observation_ids x\<rparr> = (x :: observation_ledger)"
  by simp

lemma run_facts_eta [simp]:
  "\<lparr>rf_counters = rf_counters x,
    rf_workspace = rf_workspace x,
    rf_verification = rf_verification x,
    rf_failures = rf_failures x,
    rf_loop_guards = rf_loop_guards x,
    rf_observation_ledger = rf_observation_ledger x\<rparr> = (x :: run_facts)"
  by simp

lemma task_state_eta [simp]:
  "\<lparr>ts_original_request = ts_original_request x,
    ts_current_goal = ts_current_goal x,
    ts_status = ts_status x,
    ts_plan = ts_plan x,
    ts_blockers = ts_blockers x\<rparr> = (x :: task_state)"
  by simp

lemma task_blocker_decode_encode:
  "wf_task_blocker b \<Longrightarrow> task_blocker_from_mapping (task_blocker_to_dict b) = Inr b"
  using task_blocker.valid_post_init [of b]
  by (simp add: task_blocker_from_mapping_def task_blocker_to_dict_def wf_task_blocker_def)

lemma task_blocker_decode_wf: "task_blocker_from_mapping d = Inr b \<Longrightarrow> wf_task_blocker b"
  by (auto simp: task_blocker_from_mapping_def bindE_eq_Inr dest: task_blocker.post_init_valid)

interpretation task_blocker_codec: record_codec wf_task_blocker
  task_blocker_to_dict task_blocker_from_mapping
  by unfold_locales (simp_all add: task_blocker_decode_encode task_blocker_decode_wf)

lemma failure_record_decode_list:
  "wf_failure_record f \<Longrightarrow>
   failure_record_from_mapping
     [(''code'', PStr (fr_code f)), (''source'', PStr (fr_source f)),
      (''message'', PStr (fr_message f)), (''recoverable'', PBool (fr_recoverable f)),
      (''evidence_refs'', PList (map PStr (fr_evidence_refs f)))] = Inr f"
  using failure_record.valid_post_init [of f]
  by (simp add: failure_record_from_mapping_def wf_failure_record_def)

lemma failure_record_decode_tuple:
  "wf_failure_record f \<Longrightarrow>
   failure_record_from_mapping (failure_record_asdict f) = Inr (f\<lparr>fr_evidence_refs := []\<rparr>)"
  by (simp add: failure_record_from_mapping_def failure_record_asdict_def wf_failure_record_def
      st_string_list_def failure_record_post_init_def st_text_tuple_def text_tuple_def)

lemma failure_count_decode_encode:
  "wf_failure_count c \<Longrightarrow>
   failure_count_from_mapping [(''code'', PStr (fc_code c)), (''count'', PInt (fc_count c))] = Inr c"
  using failure_count.valid_post_init [of c]
  by (simp add: failure_count_from_mapping_def wf_failure_count_def st_positive_int_def)

lemma core_counters_decode_encode:
  "wf_core_counters c \<Longrightarrow>
   core_counters_from_mapping
     [(''model_turns'', PInt (cc_model_turns c)), (''model_attempts'', PInt (cc_model_attempts c)),
      (''tool_iterations'', PInt (cc_tool_iterations c)), (''tool_calls'', PInt (cc_tool_calls c)),
      (''total_recoveries'', PInt (cc_total_recoveries c))] = Inr c"
  using core_counters.valid_post_init [of c]
  by (simp add: core_counters_from_mapping_def wf_core_counters_def core_counters_post_init_def)

lemma workspace_facts_decode_encode:
  "wf_workspace_facts w \<Longrightarrow>
   workspace_facts_from_mapping
     [(''revision'', PInt (wk_revision w)), (''changed'', PBool (wk_changed w)),
      (''affected_paths'', PList (map PStr (wk_affected_paths w))),
      (''evidence_refs'', PList (map PStr (wk_evidence_refs w)))] = Inr w"
  using workspace_facts.valid_post_init [of w]
  by (simp add: workspace_facts_from_mapping_def wf_workspace_facts_def)

lemma opt_int_decode [simp]: "st_optional_int (opt_pyval PInt v) = v"
  by (cases v) (simp_all add: opt_pyval_def st_optional_int_def)

lemma opt_text_decode [simp]:
  "(\<forall>t. v = Some t \<longrightarrow> canon_text py_strip t) \<Longrightarrow> st_optional_text (opt_pyval PStr v) = v"
  by (cases v) (simp_all add: opt_pyval_def)

lemma verification_facts_decode_encode:
  "wf_verification_facts v \<Longrightarrow>
   verification_facts_from_mapping
     [(''status'', PStr (verification_status_name (vf_status v))),
      (''verified_revision'', opt_pyval PInt (vf_verified_revision v)),
      (''attempted_checks'', PList (map PStr (vf_attempted_checks v))),
      (''evidence_refs'', PList (map PStr (vf_evidence_refs v))),
      (''unavailable_reason'', opt_pyval PStr (vf_unavailable_reason v))] = Inr v"
  using verification_facts.valid_post_init [of v]
  by (simp add: verification_facts_from_mapping_def wf_verification_facts_def)

lemma loop_guard_facts_decode_encode:
  "wf_loop_guard_facts g \<Longrightarrow>
   loop_guard_facts_from_mapping
     [(''last_tool_fingerprint'', opt_pyval PStr (lg_last_tool_fingerprint g)),
      (''repeated_tool_calls'', PInt (lg_repeated_tool_calls g)),
      (''repeated_no_progress'', PInt (lg_repeated_no_progress g)),
      (''seen_tool_call_ids'', PList (map PStr (lg_seen_tool_call_ids g)))] = Inr g"
  using loop_guard_facts.valid_post_init [of g]
  by (simp add: loop_guard_facts_from_mapping_def wf_loop_guard_facts_def)

lemma observation_ledger_decode_encode:
  "wf_observation_ledger l \<Longrightarrow>
   observation_ledger_from_mapping
     [(''applied_observation_ids'', PList (map PStr (ol_applied_observation_ids l)))] = Inr l"
  using observation_ledger.valid_post_init [of l]
  by (simp add: observation_ledger_from_mapping_def wf_observation_ledger_def)

lemma load_plan_state_encode:
  assumes "\<forall>p. v = Some p \<longrightarrow> wf_plan_state p"
  shows "load_plan_state (Inr (opt_pyval (\<lambda>p. PDict (plan_state_to_dict p)) v)) = Inr v"
proof (cases v)
  case None
  then show ?thesis by (simp add: opt_pyval_def load_plan_state_def)
next
  case (Some p)
  with assms have p: "wf_plan_state p" by simp
  then have "dget (plan_state_to_dict p) ''schema_version'' = PInt PLAN_STATE_SCHEMA_VERSION"
    by (simp add: plan_state_to_dict_def wf_plan_state_def)
  with Some p show ?thesis
    by (simp add: opt_pyval_def load_plan_state_def plan_state_decode_encode)
qed

lemma st_mapping_list_PDict:
  "st_mapping_list (PList (map (\<lambda>x. PDict (f x)) xs)) field = Inr (map f xs)"
  using as_mappings_map [of _ "map f xs"] by (simp add: st_mapping_list_def comp_def)

lemma failure_counts_decode_encode:
  "(\<forall>c \<in> set cs. wf_failure_count c) \<Longrightarrow>
   traverse failure_count_from_mapping
     (map (\<lambda>n. [(''code'', PStr (fc_code n)), (''count'', PInt (fc_count n))]) cs) = Inr cs"
  using traverse_map_Inr [of cs failure_count_from_mapping
      "\<lambda>n. [(''code'', PStr (fc_code n)), (''count'', PInt (fc_count n))]" "\<lambda>x. x"]
  by (simp add: failure_count_decode_encode)

lemma load_plan_state_wf:
  "load_plan_state (Inr v) = Inr (Some p) \<Longrightarrow> wf_plan_state p"
  by (auto simp: load_plan_state_def mapE_eq_Inr dest: plan_state.decode_valid
      split: pyval.splits)

lemmas section_codecs =
  core_counters_decode_encode workspace_facts_decode_encode verification_facts_decode_encode
  loop_guard_facts_decode_encode observation_ledger_decode_encode load_plan_state_encode
  failure_counts_decode_encode

text \<open>The failure section, whose latest record may have come back changed.\<close>

definition with_latest :: "core_state \<Rightarrow> failure_record option \<Rightarrow> core_state" where
  "with_latest s latest =
     s\<lparr>cs_facts := cs_facts s\<lparr>rf_failures := rf_failures (cs_facts s)\<lparr>ff_latest := latest\<rparr>\<rparr>\<rparr>"

definition core_state_dict_with :: "core_state \<Rightarrow> (failure_record \<Rightarrow> pyval) \<Rightarrow> dict" where
  "core_state_dict_with s enc =
     [(''schema_version'', PInt (cs_schema_version s)),
      (''task'', PDict (task_state_to_dict (cs_task s))),
      (''facts'', PDict (map (\<lambda>(k, v). if k = ''failures'' then (k, PDict
          [(''latest'', opt_pyval enc (ff_latest (rf_failures (cs_facts s)))),
           (''counts'', PList (map (\<lambda>n. PDict [(''code'', PStr (fc_code n)),
              (''count'', PInt (fc_count n))]) (ff_counts (rf_failures (cs_facts s)))))])
          else (k, v)) (run_facts_to_dict (cs_facts s))))]"

lemma core_state_to_dict_with:
  "core_state_to_dict s = core_state_dict_with s (\<lambda>r. PDict (failure_record_asdict r))"
  by (simp add: core_state_to_dict_def core_state_dict_with_def run_facts_to_dict_def Let_def)

lemma jsonify_core_state:
  "jsonify_dict (core_state_to_dict s) = core_state_dict_with s
     (\<lambda>r. PDict [(''code'', PStr (fr_code r)), (''source'', PStr (fr_source r)),
      (''message'', PStr (fr_message r)), (''recoverable'', PBool (fr_recoverable r)),
      (''evidence_refs'', PList (map PStr (fr_evidence_refs r)))])"
  using jsonify_task_state [of "cs_task s"]
  by (simp add: core_state_to_dict_def core_state_dict_with_def run_facts_to_dict_def Let_def
      jsonify_dict_def failure_record_asdict_def comp_def)

lemma core_state_decode_with:
  assumes wf: "wf_core_state s"
    and enc: "\<And>r. ff_latest (rf_failures (cs_facts s)) = Some r \<Longrightarrow>
      \<exists>d. enc r = PDict d \<and> failure_record_from_mapping d = Inr (f r)"
  shows "core_state_from_mapping (core_state_dict_with s enc)
    = Inr (with_latest s (map_option f (ff_latest (rf_failures (cs_facts s)))))"
proof -
  let ?ff = "rf_failures (cs_facts s)"
  from wf have ff: "wf_failure_facts ?ff" and task: "wf_task_state (cs_task s)"
    and version: "cs_schema_version s = CORE_STATE_SCHEMA_VERSION"
    by (auto simp: wf_core_state_def wf_run_facts_def)
  have latest: "latest_failure_from_mapping (opt_pyval enc (ff_latest ?ff))
     = Inr (map_option f (ff_latest ?ff))"
  proof (cases "ff_latest ?ff")
    case None
    then show ?thesis by (simp add: opt_pyval_def latest_failure_from_mapping_def)
  next
    case (Some r)
    with enc [OF Some] show ?thesis
      by (auto simp: opt_pyval_def st_mapping_def latest_failure_from_mapping_def)
  qed
  have counts: "failure_facts_post_init
      \<lparr>ff_latest = map_option f (ff_latest ?ff), ff_counts = ff_counts ?ff\<rparr>
      = Inr (?ff\<lparr>ff_latest := map_option f (ff_latest ?ff)\<rparr>)"
    using ff by (simp add: failure_facts_post_init_Inr wf_failure_facts_def sort_key_id_if_sorted)
  have result: "\<lparr>cs_task = cs_task s,
      cs_facts = \<lparr>rf_counters = rf_counters (cs_facts s), rf_workspace = rf_workspace (cs_facts s),
        rf_verification = rf_verification (cs_facts s),
        rf_failures = ?ff\<lparr>ff_latest := map_option f (ff_latest ?ff)\<rparr>,
        rf_loop_guards = rf_loop_guards (cs_facts s),
        rf_observation_ledger = rf_observation_ledger (cs_facts s)\<rparr>,
      cs_schema_version = CORE_STATE_SCHEMA_VERSION\<rparr>
      = with_latest s (map_option f (ff_latest ?ff))"
    using version by (simp add: with_latest_def)
  show ?thesis
    using wf ff task version latest counts result wf_task_state_post_init [OF task]
    by (simp add: core_state_from_mapping_def core_state_dict_with_def run_facts_to_dict_def
        task_state_to_dict_def Let_def wf_core_state_def wf_run_facts_def section_codecs
        st_mapping_def st_mapping_list_PDict task_blocker_codec.decode_encode_list
        wf_failure_facts_def wf_task_state_def core_state_post_init_def)
qed

lemma with_latest_same [simp]: "with_latest s (ff_latest (rf_failures (cs_facts s))) = s"
  by (simp add: with_latest_def)

lemma core_state_decode_json:
  assumes "wf_core_state s"
  shows "core_state_from_mapping (jsonify_dict (core_state_to_dict s)) = Inr s"
proof -
  have "wf_failure_record r" if "ff_latest (rf_failures (cs_facts s)) = Some r" for r
    using assms that by (simp add: wf_core_state_def wf_run_facts_def wf_failure_facts_def)
  then show ?thesis
    unfolding jsonify_core_state
    by (subst core_state_decode_with [OF assms, where f = "\<lambda>r. r"])
       (auto simp: failure_record_decode_list option.map_ident)
qed

lemma core_state_decode_memory:
  assumes "wf_core_state s"
  shows "core_state_from_mapping (core_state_to_dict s)
    = Inr (with_latest s (map_option (\<lambda>r. r\<lparr>fr_evidence_refs := []\<rparr>)
        (ff_latest (rf_failures (cs_facts s)))))"
proof -
  have "wf_failure_record r" if "ff_latest (rf_failures (cs_facts s)) = Some r" for r
    using assms that by (simp add: wf_core_state_def wf_run_facts_def wf_failure_facts_def)
  then show ?thesis
    unfolding core_state_to_dict_with
    by (intro core_state_decode_with [OF assms]) (auto simp: failure_record_decode_tuple)
qed

lemma core_counters_decode_wf: "core_counters_from_mapping d = Inr c \<Longrightarrow> wf_core_counters c"
  by (rule core_counters.post_init_valid)
     (auto simp: core_counters_from_mapping_def core_counters_post_init_def
        mk_core_counters_def Let_def split: if_splits)

lemma failure_record_decode_wf: "failure_record_from_mapping d = Inr f \<Longrightarrow> wf_failure_record f"
  by (auto simp: failure_record_from_mapping_def bindE_eq_Inr
      dest: failure_record.post_init_valid)

lemma failure_count_decode_wf: "failure_count_from_mapping d = Inr c \<Longrightarrow> wf_failure_count c"
  by (auto simp: failure_count_from_mapping_def bindE_eq_Inr
      dest: failure_count.post_init_valid)

lemma failure_facts_post_init_wf:
  "failure_facts_post_init f = Inr g \<Longrightarrow>
   (\<forall>r. ff_latest f = Some r \<longrightarrow> wf_failure_record r) \<Longrightarrow>
   (\<forall>c \<in> set (ff_counts f). wf_failure_count c) \<Longrightarrow> wf_failure_facts g"
  by (auto simp: failure_facts_post_init_Inr wf_failure_facts_def distinct_map)

lemma section_decode_wf:
  "workspace_facts_from_mapping d = Inr w \<Longrightarrow> wf_workspace_facts w"
  "verification_facts_from_mapping d = Inr v \<Longrightarrow> wf_verification_facts v"
  "loop_guard_facts_from_mapping d = Inr g \<Longrightarrow> wf_loop_guard_facts g"
  "observation_ledger_from_mapping d = Inr l \<Longrightarrow> wf_observation_ledger l"
  by (auto simp: workspace_facts_from_mapping_def verification_facts_from_mapping_def
      loop_guard_facts_from_mapping_def observation_ledger_from_mapping_def bindE_eq_Inr
      dest: workspace_facts.post_init_valid verification_facts.post_init_valid
        loop_guard_facts.post_init_valid observation_ledger.post_init_valid)

lemma task_state_post_init_wf:
  "task_state_post_init t = Inr u \<Longrightarrow> (\<forall>p. ts_plan t = Some p \<longrightarrow> wf_plan_state p) \<Longrightarrow>
   (\<forall>b \<in> set (ts_blockers t). wf_task_blocker b) \<Longrightarrow> wf_task_state u"
  by (auto simp: task_state_post_init_def bindE_eq_Inr wf_task_state_def
      dest: st_required_text_canon)

lemma latest_failure_decode_wf:
  "latest_failure_from_mapping v = Inr latest \<Longrightarrow> \<forall>r. latest = Some r \<longrightarrow> wf_failure_record r"
  by (auto simp: latest_failure_from_mapping_def bindE_eq_Inr mapE_eq_Inr
      dest: failure_record_decode_wf split: if_splits)

lemma core_state_decode_wf:
  assumes "core_state_from_mapping d = Inr s"
  shows "wf_core_state s"
proof -
  from assms obtain task counters workspace verification failures loop_guards ledger
      plan bs lv latest counts tr c w v g l vl f rq gl st
    where plan: "load_plan_state (Inr (dget tr ''plan'')) = Inr plan"
      and bs: "traverse task_blocker_from_mapping bs = Inr c"
      and t: "task_state_post_init \<lparr>ts_original_request = rq, ts_current_goal = gl,
               ts_status = st, ts_plan = plan, ts_blockers = c\<rparr> = Inr task"
      and cs: "core_counters_from_mapping w = Inr counters"
      and wk: "workspace_facts_from_mapping v = Inr workspace"
      and vf: "verification_facts_from_mapping g = Inr verification"
      and fc: "traverse failure_count_from_mapping l = Inr counts"
      and ff: "failure_facts_post_init \<lparr>ff_latest = latest, ff_counts = counts\<rparr> = Inr failures"
      and lg: "loop_guard_facts_from_mapping vl = Inr loop_guards"
      and ol: "observation_ledger_from_mapping f = Inr ledger"
      and lt: "latest_failure_from_mapping lv = Inr latest"
      and s: "core_state_post_init
               \<lparr>cs_task = task, cs_facts = \<lparr>rf_counters = counters, rf_workspace = workspace,
                 rf_verification = verification, rf_failures = failures,
                 rf_loop_guards = loop_guards, rf_observation_ledger = ledger\<rparr>,
                 cs_schema_version = CORE_STATE_SCHEMA_VERSION\<rparr> = Inr s"
    unfolding core_state_from_mapping_def if_Inl_eq_Inr bindE_eq_Inr
    by (elim exE conjE) (rule that)
  have "wf_task_state task"
    using plan bs by (intro task_state_post_init_wf [OF t])
      (auto dest: load_plan_state_wf task_blocker_codec.decode_list_valid)
  moreover have "wf_failure_facts failures"
    using latest_failure_decode_wf [OF lt] fc
    by (intro failure_facts_post_init_wf [OF ff])
       (auto dest: traverse_set failure_count_decode_wf)
  ultimately show ?thesis
    using cs wk vf lg ol s
    by (auto simp: core_state_post_init_def wf_core_state_def wf_run_facts_def
        core_counters_decode_wf section_decode_wf)
qed

interpretation core_state: record_codec wf_core_state
  "\<lambda>s. jsonify_dict (core_state_to_dict s)" core_state_from_mapping
  by unfold_locales (simp_all add: core_state_decode_json core_state_decode_wf)

end
