(* ===== verification/Tools_Security.thy ===== *)
theory Tools_Security
  imports Py_Codec "HOL-Library.Product_Lexorder"
begin

text \<open>
  The security values of the tool subsystem, \<^verbatim>\<open>src/codepilot/tools/security.py\<close>: tool
  policies, resources, effects, access requests, permission rules and the decision
  procedure of \<^verbatim>\<open>PermissionEngine\<close>, approval challenges, responses and grants; and the
  engines that \<^verbatim>\<open>src/codepilot/runtime/builder.py\<close> configures for the three permission
  modes. A \<^verbatim>\<open>Literal\<close> field is an enumeration, so the membership test of its constructor
  is the type; a \<^verbatim>\<open>frozenset\<close> is a set.
\<close>

section \<open>Literal types\<close>

datatype tool_mode = ToolPlan | ToolExecute | ToolUnrestricted
datatype risk_level = RiskLow | RiskMedium | RiskHigh | RiskCritical
datatype approval_policy = ApproveNever | ApproveOnRisk | ApproveAlways
datatype effect_kind =
    FilesystemRead | FilesystemWrite | FilesystemDelete | ProcessSpawn | NetworkAccess
  | CredentialAccess | ExternalStateRead | ExternalStateWrite | SessionStateRead
  | SessionStateWrite
datatype effect_status = EffStarted | EffCompleted | EffPartial | EffUnknown
datatype effect_certainty = CertObserved | CertReported | CertInferred
datatype content_trust = Trusted | Untrusted
datatype permission_effect = Allow | Deny | Ask
datatype rule_source = SrcConfiguration | SrcProject | SrcRuntime
datatype approval_scope = ScopeOnce | ScopeSession | ScopeProject
datatype approval_decision = Approve | DenyApproval
datatype concurrency_mode = Parallel | Serial

fun risk_rank :: "risk_level \<Rightarrow> int" where
  "risk_rank RiskLow = 0"
| "risk_rank RiskMedium = 1"
| "risk_rank RiskHigh = 2"
| "risk_rank RiskCritical = 3"

fun risk_level_name :: "risk_level \<Rightarrow> string" where
  "risk_level_name RiskLow = ''low''"
| "risk_level_name RiskMedium = ''medium''"
| "risk_level_name RiskHigh = ''high''"
| "risk_level_name RiskCritical = ''critical''"

fun permission_effect_name :: "permission_effect \<Rightarrow> string" where
  "permission_effect_name Allow = ''allow''"
| "permission_effect_name Deny = ''deny''"
| "permission_effect_name Ask = ''ask''"

section \<open>Field helpers\<close>

definition sec_require_text :: "pyval \<Rightarrow> string \<Rightarrow> string result" where
  "sec_require_text v field =
     required_text py_strip (ValueError (field @ '' cannot be empty'')) v"

definition sec_optional_text :: "string option \<Rightarrow> string option" where
  "sec_optional_text v = (case v of None \<Rightarrow> None | Some s \<Rightarrow> optional_text py_strip (PStr s))"

definition require_positive_int :: "int \<Rightarrow> string \<Rightarrow> unit result" where
  "require_positive_int i field =
     (if i \<le> 0 then Inl (ValueError (field @ '' must be positive'')) else Inr ())"

definition require_non_negative_int :: "int \<Rightarrow> string \<Rightarrow> unit result" where
  "require_non_negative_int i field =
     (if i < 0 then Inl (ValueError (field @ '' cannot be negative'')) else Inr ())"

text \<open>\<^verbatim>\<open>_freeze_value\<close>: lists become tuples, mappings become read-only.\<close>

fun freeze_value :: "pyval \<Rightarrow> pyval" where
  "freeze_value (PDict d) = PDict (map (\<lambda>(k, v). (k, freeze_value v)) d)"
| "freeze_value (PList xs) = PTuple (map freeze_value xs)"
| "freeze_value (PTuple xs) = PTuple (map freeze_value xs)"
| "freeze_value v = v"

definition freeze_mapping :: "dict \<Rightarrow> dict" where
  "freeze_mapping d = map (\<lambda>(k, v). (k, freeze_value v)) d"

lemma freeze_value_idem: "freeze_value (freeze_value v) = freeze_value v"
  by (induction v rule: freeze_value.induct) auto

lemma freeze_mapping_idem [simp]: "freeze_mapping (freeze_mapping d) = freeze_mapping d"
  by (simp add: freeze_mapping_def freeze_value_idem case_prod_unfold)

lemma sec_require_text_canon: "sec_require_text v f = Inr t \<Longrightarrow> canon_text py_strip t"
  unfolding sec_require_text_def by (rule strip.required_text_canon)

lemma sec_require_text_fix [simp]:
  "canon_text py_strip s \<Longrightarrow> sec_require_text (PStr s) f = Inr s"
  by (simp add: sec_require_text_def required_text_fix)

section \<open>Policies\<close>

record timeout_policy =
  tp_default_execution_ms :: int
  tp_max_execution_ms :: int
  tp_cleanup_grace_ms :: int

definition timeout_policy_post_init :: "timeout_policy \<Rightarrow> timeout_policy result" where
  "timeout_policy_post_init p =
     bindE (require_positive_int (tp_default_execution_ms p) ''default_execution_ms'') (\<lambda>_.
     bindE (require_positive_int (tp_max_execution_ms p) ''max_execution_ms'') (\<lambda>_.
     if tp_max_execution_ms p < tp_default_execution_ms p
     then Inl (ValueError ''max_execution_ms cannot be less than default_execution_ms'')
     else
     bindE (require_non_negative_int (tp_cleanup_grace_ms p) ''cleanup_grace_ms'') (\<lambda>_.
     Inr p)))"

record concurrency_policy =
  cp_mode :: concurrency_mode
  cp_group :: "string option"
  cp_max_parallel :: "int option"

definition concurrency_policy_post_init :: "concurrency_policy \<Rightarrow> concurrency_policy result" where
  "concurrency_policy_post_init p =
     (let grp = sec_optional_text (cp_group p) in
      if cp_mode p = Serial \<and> grp = None
      then Inl (ValueError ''serial concurrency requires a group'')
      else
     bindE (case cp_max_parallel p of
              None \<Rightarrow> Inr ()
            | Some n \<Rightarrow> bindE (require_positive_int n ''max_parallel'') (\<lambda>_.
                if grp = None
                then Inl (ValueError ''max_parallel concurrency requires a group'')
                else Inr ())) (\<lambda>_.
     Inr (p\<lparr>cp_group := grp\<rparr>)))"

record output_limits =
  ol_max_data_bytes :: int
  ol_max_content_bytes :: int
  ol_max_artifacts :: int
  ol_max_artifact_bytes :: int

definition output_limits_post_init :: "output_limits \<Rightarrow> output_limits result" where
  "output_limits_post_init l =
     bindE (require_positive_int (ol_max_data_bytes l) ''max_data_bytes'') (\<lambda>_.
     bindE (require_positive_int (ol_max_content_bytes l) ''max_content_bytes'') (\<lambda>_.
     bindE (require_positive_int (ol_max_artifacts l) ''max_artifacts'') (\<lambda>_.
     bindE (require_positive_int (ol_max_artifact_bytes l) ''max_artifact_bytes'') (\<lambda>_.
     Inr l))))"

record output_trust_policy =
  otp_default_content_trust :: content_trust
  otp_allow_structurally_validated :: bool

record tool_policy =
  po_allowed_modes :: "tool_mode set"
  po_declared_effects :: "effect_kind set"
  po_required_permissions :: "string list"
  po_base_risk :: risk_level
  po_approval :: approval_policy
  po_timeout :: timeout_policy
  po_concurrency :: concurrency_policy
  po_output_limits :: output_limits
  po_output_trust :: output_trust_policy

text \<open>The permissions are a \<^verbatim>\<open>frozenset\<close> of texts that \<^verbatim>\<open>decide\<close> reads sorted; the model keeps
  them as a list without duplicates.\<close>

definition tool_policy_post_init :: "tool_policy \<Rightarrow> tool_policy result" where
  "tool_policy_post_init p =
     (if po_allowed_modes p = {} then Inl (ValueError ''Invalid allowed tool modes: []'')
      else
     bindE (text_tuple py_strip (\<lambda>_. ValueError ''required permission cannot be empty'')
              (po_required_permissions p)) (\<lambda>perms.
     Inr (p\<lparr>po_required_permissions := perms\<rparr>)))"

section \<open>Resources, effects and access requests\<close>

record tool_resource =
  tr_uri :: string
  tr_metadata :: dict

definition tool_resource_post_init :: "tool_resource \<Rightarrow> tool_resource result" where
  "tool_resource_post_init r =
     bindE (sec_require_text (PStr (tr_uri r)) ''resource uri'') (\<lambda>uri.
     Inr (r\<lparr>tr_uri := uri, tr_metadata := freeze_mapping (tr_metadata r)\<rparr>))"

record tool_effect =
  te_kind :: effect_kind
  te_resource :: tool_resource
  te_operation :: string
  te_status :: effect_status
  te_certainty :: effect_certainty

definition tool_effect_post_init :: "tool_effect \<Rightarrow> tool_effect result" where
  "tool_effect_post_init e =
     bindE (sec_require_text (PStr (te_operation e)) ''effect operation'') (\<lambda>operation.
     Inr (e\<lparr>te_operation := operation\<rparr>))"

record tool_access_request =
  ar_actions :: "string list"
  ar_resources :: "tool_resource list"
  ar_effects :: "effect_kind set"
  ar_risk :: risk_level
  ar_reason :: string
  ar_safe_preview :: dict
  ar_approval_scopes :: "approval_scope set"

definition tool_access_request_post_init :: "tool_access_request \<Rightarrow> tool_access_request result" where
  "tool_access_request_post_init a =
     bindE (traverse (\<lambda>v. sec_require_text (PStr v) ''access action'') (ar_actions a)) (\<lambda>actions.
     if actions = [] then Inl (ValueError ''access actions cannot be empty'')
     else if ar_approval_scopes a = {} then Inl (ValueError ''Invalid access approval scopes: []'')
     else
     bindE (sec_require_text (PStr (ar_reason a)) ''access reason'') (\<lambda>reason.
     Inr (a\<lparr>ar_actions := actions, ar_reason := reason,
            ar_safe_preview := freeze_mapping (ar_safe_preview a)\<rparr>)))"

section \<open>Shell-style patterns: \<open>fnmatch.fnmatchcase\<close>\<close>

text \<open>\<^verbatim>\<open>*\<close>, \<^verbatim>\<open>?\<close> and bracket expressions with ranges and \<^verbatim>\<open>!\<close>; a bracket that is never
  closed is a literal.\<close>

datatype glob_token =
    GStar
  | GAny
  | GLit char
  | GClass bool "(char \<times> char) list"

fun class_ranges :: "string \<Rightarrow> (char \<times> char) list" where
  "class_ranges (lo # c # hi # s) =
     (if c = CHR ''-'' then (lo, hi) # class_ranges s else (lo, lo) # class_ranges (c # hi # s))"
| "class_ranges (c # s) = (c, c) # class_ranges s"
| "class_ranges [] = []"

text \<open>What follows \<^verbatim>\<open>[\<close>: is the class negated, its body, and the rest after \<^verbatim>\<open>]\<close>.\<close>

definition split_class :: "string \<Rightarrow> (bool \<times> string \<times> string) option" where
  "split_class s =
     (let (neg, s1) = (case s of c # t \<Rightarrow> if c = CHR ''!'' then (True, t) else (False, s)
                              | [] \<Rightarrow> (False, s));
          (h, s2) = (case s1 of c # t \<Rightarrow> if c = CHR '']'' then ([c], t) else ([], s1)
                              | [] \<Rightarrow> ([], s1))
      in case dropWhile (\<lambda>c. c \<noteq> CHR '']'') s2 of
           [] \<Rightarrow> None
         | _ # rest \<Rightarrow> Some (neg, h @ takeWhile (\<lambda>c. c \<noteq> CHR '']'') s2, rest))"

lemma split_class_shorter: "split_class s = Some (neg, b, rest) \<Longrightarrow> length rest < length s"
proof -
  have "length (dropWhile P xs) \<le> length xs" for P and xs :: string
    by (rule length_dropWhile_le)
  moreover assume "split_class s = Some (neg, b, rest)"
  ultimately show ?thesis
    by (auto simp: split_class_def Let_def split: list.splits if_splits)
       (metis Suc_le_eq length_Cons le_SucI)+
qed

function glob_tokens :: "string \<Rightarrow> glob_token list" where
  "glob_tokens [] = []"
| "glob_tokens (c # s) =
     (if c = CHR ''*'' then GStar # glob_tokens s
      else if c = CHR ''?'' then GAny # glob_tokens s
      else if c = CHR ''['' then
        (case split_class s of
           None \<Rightarrow> GLit c # glob_tokens s
         | Some (neg, b, rest) \<Rightarrow> GClass neg (class_ranges b) # glob_tokens rest)
      else GLit c # glob_tokens s)"
  by pat_completeness auto
termination
  by (relation "measure length") (auto dest: split_class_shorter)

fun token_matches :: "glob_token \<Rightarrow> char \<Rightarrow> bool" where
  "token_matches GStar c = True"
| "token_matches GAny c = True"
| "token_matches (GLit d) c = (c = d)"
| "token_matches (GClass neg rs) c = (list_ex (\<lambda>(lo, hi). lo \<le> c \<and> c \<le> hi) rs \<noteq> neg)"

fun glob_match :: "glob_token list \<Rightarrow> string \<Rightarrow> bool" where
  "glob_match [] s = (s = [])"
| "glob_match (GStar # ts) [] = glob_match ts []"
| "glob_match (GStar # ts) (c # s) = (glob_match ts (c # s) \<or> glob_match (GStar # ts) s)"
| "glob_match (t # ts) [] = False"
| "glob_match (t # ts) (c # s) = (token_matches t c \<and> glob_match ts s)"

definition fnmatchcase :: "string \<Rightarrow> string \<Rightarrow> bool" where
  "fnmatchcase name pat = glob_match (glob_tokens pat) name"

lemma glob_match_star: "glob_match [GStar] s"
  by (induction s) auto

lemma fnmatchcase_star [simp]: "fnmatchcase s ''*''"
  by (simp add: fnmatchcase_def glob_match_star)

definition plain_pattern :: "string \<Rightarrow> bool" where
  "plain_pattern p \<longleftrightarrow> (\<forall>c \<in> set p. c \<notin> {CHR ''*'', CHR ''?'', CHR ''[''})"

lemma glob_tokens_plain_append:
  "plain_pattern p \<Longrightarrow> glob_tokens (p @ q) = map GLit p @ glob_tokens q"
  by (induction p) (auto simp: plain_pattern_def)

lemma glob_match_lits:
  "glob_match (map GLit p @ ts) s \<longleftrightarrow> (\<exists>t. s = p @ t \<and> glob_match ts t)"
proof (induction p arbitrary: s)
  case Nil
  show ?case by simp
next
  case (Cons c p)
  then show ?case by (cases s) auto
qed

lemma fnmatchcase_plain: "plain_pattern p \<Longrightarrow> fnmatchcase s p \<longleftrightarrow> s = p"
  using glob_tokens_plain_append [of p "[]"] glob_match_lits [of p "[]" s]
  by (simp add: fnmatchcase_def)

text \<open>A literal prefix followed by a star is the prefix test.\<close>

lemma fnmatchcase_prefix:
  "plain_pattern p \<Longrightarrow> fnmatchcase s (p @ ''*'') \<longleftrightarrow> py_startswith s p"
  using glob_tokens_plain_append [of p "''*''"] glob_match_lits [of p "[GStar]" s]
  by (auto simp: fnmatchcase_def glob_match_star py_startswith_def)
     (metis append_take_drop_id)

section \<open>Permission rules\<close>

record permission_rule =
  pm_action_pattern :: string
  pm_resource_pattern :: string
  pm_effect :: permission_effect
  pm_modes :: "tool_mode set"
  pm_source :: rule_source
  pm_priority :: int

definition permission_rule_post_init :: "permission_rule \<Rightarrow> permission_rule result" where
  "permission_rule_post_init r =
     bindE (sec_require_text (PStr (pm_action_pattern r)) ''action pattern'') (\<lambda>action.
     bindE (sec_require_text (PStr (pm_resource_pattern r)) ''resource pattern'') (\<lambda>resource.
     Inr (r\<lparr>pm_action_pattern := action, pm_resource_pattern := resource\<rparr>)))"

record permission_decision =
  pdc_effect :: permission_effect
  pdc_reason :: string
  pdc_matched_rule :: "permission_rule option"
  pdc_details :: dict

definition permission_decision_of ::
  "permission_effect \<Rightarrow> string \<Rightarrow> permission_rule option \<Rightarrow> dict \<Rightarrow> permission_decision" where
  "permission_decision_of effect reason rule details =
     \<lparr>pdc_effect = effect, pdc_reason = reason, pdc_matched_rule = rule,
      pdc_details = freeze_mapping details\<rparr>"

record permission_engine =
  pe_rules :: "permission_rule list"
  pe_denied_effects :: "effect_kind set"
  pe_approval_effects :: "effect_kind set"
  pe_granted_permissions :: "string list"

definition permission_engine_post_init :: "permission_engine \<Rightarrow> permission_engine result" where
  "permission_engine_post_init e =
     bindE (text_tuple py_strip (\<lambda>_. ValueError ''granted permission cannot be empty'')
              (pe_granted_permissions e)) (\<lambda>perms.
     Inr (e\<lparr>pe_granted_permissions := perms\<rparr>))"

text \<open>The execution request of \<^verbatim>\<open>tools/contracts.py\<close> that a decision is about.\<close>

record tool_execution_request =
  ter_run_id :: string
  ter_session_id :: string
  ter_tool_call_id :: string
  ter_tool_name :: string
  ter_arguments :: dict
  ter_mode :: tool_mode
  ter_registration_id :: string
  ter_deadline_at_ms :: "int option"
  ter_raw_arguments :: "string option"
  ter_argument_parse_error :: "string option"

definition tool_execution_request_post_init ::
  "tool_execution_request \<Rightarrow> tool_execution_request result" where
  "tool_execution_request_post_init r =
     bindE (sec_require_text (PStr (ter_run_id r)) ''run_id'') (\<lambda>run_id.
     bindE (sec_require_text (PStr (ter_session_id r)) ''session_id'') (\<lambda>session_id.
     bindE (sec_require_text (PStr (ter_tool_call_id r)) ''tool_call_id'') (\<lambda>call_id.
     bindE (sec_require_text (PStr (ter_tool_name r)) ''tool_name'') (\<lambda>tool_name.
     bindE (sec_require_text (PStr (ter_registration_id r)) ''registration_id'') (\<lambda>registration.
     Inr (r\<lparr>ter_run_id := run_id, ter_session_id := session_id, ter_tool_call_id := call_id,
            ter_tool_name := tool_name, ter_registration_id := registration,
            ter_arguments := freeze_mapping (ter_arguments r),
            ter_raw_arguments := sec_optional_text (ter_raw_arguments r),
            ter_argument_parse_error := sec_optional_text (ter_argument_parse_error r)\<rparr>))))))"

section \<open>The permission engine\<close>

definition forbidden_model_auth_keys :: "string list" where
  "forbidden_model_auth_keys =
     [''allow_dangerous'', ''bypass_approval'', ''ignore_workspace_boundary'', ''trusted'',
      ''sudo'', ''force_without_approval'']"

fun contains_forbidden_auth :: "pyval \<Rightarrow> bool" where
  "contains_forbidden_auth (PDict d) =
     (list_ex (\<lambda>(k, v). k \<in> set forbidden_model_auth_keys) d \<or>
      list_ex (\<lambda>(k, v). contains_forbidden_auth v) d)"
| "contains_forbidden_auth (PList xs) = list_ex contains_forbidden_auth xs"
| "contains_forbidden_auth (PTuple xs) = list_ex contains_forbidden_auth xs"
| "contains_forbidden_auth v = False"

definition pattern_specificity :: "string \<Rightarrow> int" where
  "pattern_specificity p =
     int (length (filter (\<lambda>c. c \<notin> {CHR ''*'', CHR ''?'', CHR ''['', CHR '']''}) p))"

fun effect_rank :: "permission_effect \<Rightarrow> int" where
  "effect_rank Allow = 0"
| "effect_rank Ask = 1"
| "effect_rank Deny = 2"

definition rule_rank :: "permission_rule \<Rightarrow> int \<times> int \<times> int" where
  "rule_rank r =
     (pm_priority r,
      pattern_specificity (pm_action_pattern r) + pattern_specificity (pm_resource_pattern r),
      effect_rank (pm_effect r))"

text \<open>\<^verbatim>\<open>max(items, key=key)\<close> of a nonempty list: the first item of greatest key.\<close>

fun max_by :: "('a \<Rightarrow> 'k::linorder) \<Rightarrow> 'a \<Rightarrow> 'a list \<Rightarrow> 'a" where
  "max_by key x [] = x"
| "max_by key x (y # ys) = max_by key (if key x < key y then y else x) ys"

definition rule_applies :: "tool_mode \<Rightarrow> string \<Rightarrow> string \<Rightarrow> permission_rule \<Rightarrow> bool" where
  "rule_applies mode action uri r \<longleftrightarrow>
     (pm_modes r = {} \<or> mode \<in> pm_modes r) \<and>
     fnmatchcase action (pm_action_pattern r) \<and> fnmatchcase uri (pm_resource_pattern r)"

text \<open>The best rule of each action and resource; no rule for one of them is no match at
  all.\<close>

fun select_rules ::
  "permission_rule list \<Rightarrow> tool_mode \<Rightarrow> (string \<times> string) list \<Rightarrow> permission_rule list option" where
  "select_rules rules mode [] = Some []"
| "select_rules rules mode ((action, uri) # ps) =
     (case filter (rule_applies mode action uri) rules of
        [] \<Rightarrow> None
      | r # rs \<Rightarrow> map_option (\<lambda>sel. max_by rule_rank r rs # sel) (select_rules rules mode ps))"

fun strictest_rule :: "permission_effect list \<Rightarrow> permission_rule list \<Rightarrow> permission_rule option" where
  "strictest_rule [] selected = None"
| "strictest_rule (e # es) selected =
     (case filter (\<lambda>r. pm_effect r = e) selected of
        [] \<Rightarrow> strictest_rule es selected
      | r # rs \<Rightarrow> Some (max_by rule_rank r rs))"

definition access_pairs :: "tool_access_request \<Rightarrow> (string \<times> string) list" where
  "access_pairs a =
     List.product (ar_actions a)
       (if ar_resources a = [] then [''''] else map tr_uri (ar_resources a))"

definition matched_rule ::
  "permission_engine \<Rightarrow> tool_mode \<Rightarrow> tool_access_request \<Rightarrow> permission_rule option" where
  "matched_rule e mode a =
     (case select_rules (pe_rules e) mode (access_pairs a) of
        None \<Rightarrow> None
      | Some selected \<Rightarrow> strictest_rule [Deny, Ask, Allow] selected)"

definition missing_permissions :: "permission_engine \<Rightarrow> tool_policy \<Rightarrow> string list" where
  "missing_permissions e p =
     sort (filter (\<lambda>perm. \<not> list_ex (fnmatchcase perm) (pe_granted_permissions e))
             (po_required_permissions p))"

definition decide_permission ::
  "permission_engine \<Rightarrow> tool_execution_request \<Rightarrow> tool_policy \<Rightarrow> tool_access_request
   \<Rightarrow> permission_decision" where
  "decide_permission e req policy a =
     (if contains_forbidden_auth (PDict (ter_arguments req))
        then permission_decision_of Deny ''model_authorization_forbidden'' None []
      else if ter_mode req \<notin> po_allowed_modes policy
        then permission_decision_of Deny ''tool_mode_denied'' None []
      else if missing_permissions e policy \<noteq> []
        then permission_decision_of Deny ''required_permission_missing'' None
               [(''missing_permissions'', PList (map PStr (missing_permissions e policy)))]
      else if \<not> ar_effects a \<subseteq> po_declared_effects policy
        then permission_decision_of Deny ''tool_effect_policy_violation'' None []
      else if dget (ar_safe_preview a) ''shell_class'' = PStr ''high_risk''
        then permission_decision_of Deny ''shell_high_risk_forbidden'' None []
      else if ar_effects a \<inter> pe_denied_effects e \<noteq> {}
        then permission_decision_of Deny ''runtime_effect_denied'' None []
      else if ar_effects a \<inter> pe_approval_effects e \<noteq> {}
        then permission_decision_of Ask ''runtime_effect_requires_approval'' None []
      else (case matched_rule e (ter_mode req) a of
          Some r \<Rightarrow> permission_decision_of (pm_effect r)
                      (''permission_rule_'' @ permission_effect_name (pm_effect r)) (Some r) []
        | None \<Rightarrow>
            if po_approval policy = ApproveAlways
              then permission_decision_of Ask ''tool_policy_requires_approval'' None []
            else if po_approval policy = ApproveOnRisk \<and>
                    max (risk_rank (po_base_risk policy)) (risk_rank (ar_risk a))
                      \<ge> risk_rank RiskMedium
              then permission_decision_of Ask ''tool_risk_requires_approval'' None []
            else permission_decision_of Allow ''tool_policy_allow'' None []))"

section \<open>Facts about the engine\<close>

text \<open>The hard constraints: what every decision that is not a denial has passed.\<close>

definition within_hard_limits ::
  "permission_engine \<Rightarrow> tool_execution_request \<Rightarrow> tool_policy \<Rightarrow> tool_access_request \<Rightarrow> bool" where
  "within_hard_limits e req policy a \<longleftrightarrow>
     \<not> contains_forbidden_auth (PDict (ter_arguments req)) \<and>
     ter_mode req \<in> po_allowed_modes policy \<and>
     (\<forall>perm \<in> set (po_required_permissions policy).
        \<exists>pat \<in> set (pe_granted_permissions e). fnmatchcase perm pat) \<and>
     ar_effects a \<subseteq> po_declared_effects policy \<and>
     dget (ar_safe_preview a) ''shell_class'' \<noteq> PStr ''high_risk'' \<and>
     ar_effects a \<inter> pe_denied_effects e = {}"

lemma sort_eq_Nil: "sort xs = [] \<longleftrightarrow> xs = []"
  by (metis length_0_conv length_sort)

lemma missing_permissions_Nil:
  "missing_permissions e p = [] \<longleftrightarrow>
   (\<forall>perm \<in> set (po_required_permissions p).
      \<exists>pat \<in> set (pe_granted_permissions e). fnmatchcase perm pat)"
  by (simp add: missing_permissions_def sort_eq_Nil filter_empty_conv list_ex_iff)

lemma decision_of_effect [simp]:
  "pdc_effect (permission_decision_of eff reason rule details) = eff"
  "pdc_reason (permission_decision_of eff reason rule details) = reason"
  by (simp_all add: permission_decision_of_def)

lemma decide_hard:
  "\<not> within_hard_limits e req p a \<Longrightarrow> pdc_effect (decide_permission e req p a) = Deny"
  by (auto simp: decide_permission_def within_hard_limits_def missing_permissions_Nil [symmetric])

lemma decide_soft:
  assumes "within_hard_limits e req p a"
  shows "decide_permission e req p a =
     (if ar_effects a \<inter> pe_approval_effects e \<noteq> {}
      then permission_decision_of Ask ''runtime_effect_requires_approval'' None []
      else (case matched_rule e (ter_mode req) a of
          Some r \<Rightarrow> permission_decision_of (pm_effect r)
                      (''permission_rule_'' @ permission_effect_name (pm_effect r)) (Some r) []
        | None \<Rightarrow>
            if po_approval p = ApproveAlways
              then permission_decision_of Ask ''tool_policy_requires_approval'' None []
            else if po_approval p = ApproveOnRisk \<and>
                    max (risk_rank (po_base_risk p)) (risk_rank (ar_risk a))
                      \<ge> risk_rank RiskMedium
              then permission_decision_of Ask ''tool_risk_requires_approval'' None []
            else permission_decision_of Allow ''tool_policy_allow'' None []))"
  using assms
  by (simp add: decide_permission_def within_hard_limits_def missing_permissions_Nil [symmetric])

lemma max_by_in: "max_by key x xs \<in> set (x # xs)"
  by (induction xs arbitrary: x) auto

lemma max_by_max: "y \<in> set (x # xs) \<Longrightarrow> key y \<le> key (max_by key x xs)"
proof (induction xs arbitrary: x y)
  case Nil
  then show ?case by simp
next
  case (Cons z zs)
  let ?m = "max_by key (if key x < key z then z else x) zs"
  have m: "key w \<le> key ?m" if "w = (if key x < key z then z else x) \<or> w \<in> set zs" for w
    using Cons.IH [of w "if key x < key z then z else x"] that by auto
  show ?case
  proof (cases "y \<in> set zs")
    case True
    then show ?thesis using m by simp
  next
    case False
    with Cons.prems have "key y \<le> key (if key x < key z then z else x)" by auto
    also have "\<dots> \<le> key ?m" using m by blast
    finally show ?thesis by simp
  qed
qed

lemma max_by_key_eq:
  assumes "set (x # xs) = set (y # ys)"
  shows "key (max_by key x xs) = key (max_by key y ys)"
  by (metis assms max_by_in max_by_max order_antisym)

lemma rule_rank_effect: "rule_rank r = rule_rank r' \<Longrightarrow> pm_effect r = pm_effect r'"
  by (cases "pm_effect r"; cases "pm_effect r'") (simp_all add: rule_rank_def)

text \<open>The order in which rules are registered does not matter.\<close>

lemma select_rules_order:
  assumes "set rules = set rules'"
  shows "rel_option (list_all2 (\<lambda>r r'. rule_rank r = rule_rank r'))
           (select_rules rules mode ps) (select_rules rules' mode ps)"
proof (induction ps)
  case Nil
  show ?case by simp
next
  case (Cons p ps)
  obtain action uri where p: "p = (action, uri)" by (cases p)
  let ?f = "filter (rule_applies mode action uri)"
  have s: "set (?f rules) = set (?f rules')" using assms by auto
  show ?case
  proof (cases "?f rules")
    case Nil
    with s have "?f rules' = []" by (metis set_empty)
    with Nil show ?thesis by (simp add: p)
  next
    case f: (Cons r rs)
    with s obtain r' rs' where f': "?f rules' = r' # rs'"
      by (metis list.set_intros(1) list.exhaust set_empty2 empty_iff)
    from s have "rule_rank (max_by rule_rank r rs) = rule_rank (max_by rule_rank r' rs')"
      unfolding f f' by (rule max_by_key_eq)
    with Cons.IH f f' show ?thesis
      by (cases "select_rules rules mode ps"; cases "select_rules rules' mode ps")
         (simp_all add: p)
  qed
qed

lemma strictest_rule_effect:
  "map_option pm_effect (strictest_rule [Deny, Ask, Allow] sel) =
   (if Deny \<in> pm_effect ` set sel then Some Deny
    else if Ask \<in> pm_effect ` set sel then Some Ask
    else if sel = [] then None else Some Allow)"
proof -
  have pick: "pm_effect (max_by rule_rank r rs) = e"
    if "filter (\<lambda>r. pm_effect r = e) sel = r # rs" for e r rs
  proof -
    have "max_by rule_rank r rs \<in> set (filter (\<lambda>r. pm_effect r = e) sel)"
      using max_by_in [of rule_rank r rs] that by simp
    then show ?thesis by simp
  qed
  have some: "filter (\<lambda>r. pm_effect r = e) sel = [] \<longleftrightarrow> e \<notin> pm_effect ` set sel" for e
    by (auto simp: filter_empty_conv)
  have "sel \<noteq> [] \<Longrightarrow> Deny \<notin> pm_effect ` set sel \<Longrightarrow> Ask \<notin> pm_effect ` set sel \<Longrightarrow>
        Allow \<in> pm_effect ` set sel"
    by (cases sel) (simp, metis (full_types) image_eqI list.set_intros(1) permission_effect.exhaust)
  then show ?thesis
    by (auto simp: some [symmetric] pick split: list.splits)
       (use some in blast)
qed

lemma matched_rule_effect_order:
  assumes "set (pe_rules e) = set (pe_rules e')"
  shows "map_option pm_effect (matched_rule e mode a) = map_option pm_effect (matched_rule e' mode a)"
proof -
  have r: "rel_option (list_all2 (\<lambda>r r'. rule_rank r = rule_rank r'))
             (select_rules (pe_rules e) mode (access_pairs a))
             (select_rules (pe_rules e') mode (access_pairs a))"
    by (rule select_rules_order [OF assms])
  have eff: "pm_effect ` set xs = pm_effect ` set ys \<and> (xs = [] \<longleftrightarrow> ys = [])"
    if "list_all2 (\<lambda>r r'. rule_rank r = rule_rank r') xs ys" for xs ys
    using that by (induction rule: list_all2_induct) (auto dest: rule_rank_effect)
  show ?thesis
    using r unfolding matched_rule_def
    by (cases "select_rules (pe_rules e) mode (access_pairs a)";
        cases "select_rules (pe_rules e') mode (access_pairs a)")
       (auto simp: strictest_rule_effect simp del: strictest_rule.simps dest: eff)
qed

lemma select_rules_applies:
  "select_rules rules mode ps = Some sel \<Longrightarrow> (action, uri) \<in> set ps \<Longrightarrow>
   \<exists>r \<in> set rules. r \<in> set sel \<and> rule_applies mode action uri r"
proof (induction ps arbitrary: sel)
  case Nil
  then show ?case by simp
next
  case (Cons p ps)
  obtain act u where p: "p = (act, u)" by (cases p)
  from Cons.prems(1) obtain r rs sel' where
    f: "filter (rule_applies mode act u) rules = r # rs"
    and s': "select_rules rules mode ps = Some sel'"
    and sel: "sel = max_by rule_rank r rs # sel'"
    by (auto simp: p split: list.splits)
  show ?case
  proof (cases "(action, uri) \<in> set ps")
    case True
    with Cons.IH [OF s'] sel show ?thesis by auto
  next
    case False
    with Cons.prems(2) p have "(action, uri) = (act, u)" by auto
    moreover have "max_by rule_rank r rs \<in> set (filter (rule_applies mode act u) rules)"
      using max_by_in [of rule_rank r rs] f by simp
    ultimately show ?thesis using sel by auto
  qed
qed

section \<open>Approval challenges, responses and grants\<close>

record approval_challenge =
  ac_approval_id :: string
  ac_request_fingerprint :: string
  ac_run_id :: string
  ac_session_id :: string
  ac_tool_call_id :: string
  ac_tool_name :: string
  ac_registration_id :: string
  ac_actions :: "string list"
  ac_resources :: "tool_resource list"
  ac_effects :: "effect_kind set"
  ac_risk :: risk_level
  ac_reason :: string
  ac_safe_preview :: dict
  ac_allowed_scopes :: "approval_scope set"
  ac_expires_at_ms :: "int option"

definition approval_challenge_post_init :: "approval_challenge \<Rightarrow> approval_challenge result" where
  "approval_challenge_post_init c =
     (if ac_allowed_scopes c = {} then Inl (ValueError ''Invalid approval scopes: []'')
      else
     bindE (sec_require_text (PStr (ac_approval_id c)) ''approval_id'') (\<lambda>approval_id.
     bindE (sec_require_text (PStr (ac_request_fingerprint c)) ''request_fingerprint'') (\<lambda>fingerprint.
     bindE (sec_require_text (PStr (ac_run_id c)) ''run_id'') (\<lambda>run_id.
     bindE (sec_require_text (PStr (ac_session_id c)) ''session_id'') (\<lambda>session_id.
     bindE (sec_require_text (PStr (ac_tool_call_id c)) ''tool_call_id'') (\<lambda>call_id.
     bindE (sec_require_text (PStr (ac_tool_name c)) ''tool_name'') (\<lambda>tool_name.
     bindE (sec_require_text (PStr (ac_registration_id c)) ''registration_id'') (\<lambda>registration.
     bindE (sec_require_text (PStr (ac_reason c)) ''reason'') (\<lambda>reason.
     bindE (traverse (\<lambda>v. sec_require_text (PStr v) ''approval action'') (ac_actions c)) (\<lambda>actions.
     bindE (case ac_expires_at_ms c of None \<Rightarrow> Inr ()
            | Some n \<Rightarrow> require_non_negative_int n ''expires_at_ms'') (\<lambda>_.
     Inr (c\<lparr>ac_approval_id := approval_id, ac_request_fingerprint := fingerprint,
            ac_run_id := run_id, ac_session_id := session_id, ac_tool_call_id := call_id,
            ac_tool_name := tool_name, ac_registration_id := registration, ac_reason := reason,
            ac_actions := actions, ac_safe_preview := freeze_mapping (ac_safe_preview c)\<rparr>))))))))))))"

record approval_response =
  ap_approval_id :: string
  ap_request_fingerprint :: string
  ap_decision :: approval_decision
  ap_scope :: approval_scope
  ap_reason :: string

definition approval_response_post_init :: "approval_response \<Rightarrow> approval_response result" where
  "approval_response_post_init r =
     bindE (sec_require_text (PStr (ap_approval_id r)) ''approval_id'') (\<lambda>approval_id.
     bindE (sec_require_text (PStr (ap_request_fingerprint r)) ''request_fingerprint'') (\<lambda>fingerprint.
     Inr (r\<lparr>ap_approval_id := approval_id, ap_request_fingerprint := fingerprint,
            ap_reason := py_strip (ap_reason r)\<rparr>)))"

record approval_grant =
  ag_grant_id :: string
  ag_approval_id :: string
  ag_request_fingerprint :: string
  ag_scope :: approval_scope
  ag_actions :: "string list"
  ag_resources :: "tool_resource list"
  ag_effects :: "effect_kind set"
  ag_risk :: risk_level
  ag_issued_at_ms :: int
  ag_expires_at_ms :: "int option"

definition approval_grant_post_init :: "approval_grant \<Rightarrow> approval_grant result" where
  "approval_grant_post_init g =
     bindE (sec_require_text (PStr (ag_grant_id g)) ''grant_id'') (\<lambda>grant_id.
     bindE (sec_require_text (PStr (ag_approval_id g)) ''approval_id'') (\<lambda>approval_id.
     bindE (sec_require_text (PStr (ag_request_fingerprint g)) ''request_fingerprint'') (\<lambda>fingerprint.
     bindE (require_non_negative_int (ag_issued_at_ms g) ''issued_at_ms'') (\<lambda>_.
     bindE (case ag_expires_at_ms g of None \<Rightarrow> Inr ()
            | Some n \<Rightarrow> require_non_negative_int n ''expires_at_ms'') (\<lambda>_.
     Inr (g\<lparr>ag_grant_id := grant_id, ag_approval_id := approval_id,
            ag_request_fingerprint := fingerprint\<rparr>))))))"

text \<open>The clock is an argument.\<close>

definition approval_grant_expired :: "approval_grant \<Rightarrow> int \<Rightarrow> bool" where
  "approval_grant_expired g now =
     (case ag_expires_at_ms g of None \<Rightarrow> False | Some e \<Rightarrow> now \<ge> e)"

text \<open>The random part of the identifier and the clock are arguments.\<close>

definition issue_approval_grant ::
  "string \<Rightarrow> int \<Rightarrow> approval_challenge \<Rightarrow> approval_response \<Rightarrow> approval_grant result" where
  "issue_approval_grant uuid now c r =
     approval_grant_post_init
       \<lparr>ag_grant_id = ''grant_'' @ uuid, ag_approval_id = ac_approval_id c,
        ag_request_fingerprint = ac_request_fingerprint c, ag_scope = ap_scope r,
        ag_actions = ac_actions c, ag_resources = ac_resources c, ag_effects = ac_effects c,
        ag_risk = ac_risk c, ag_issued_at_ms = now, ag_expires_at_ms = ac_expires_at_ms c\<rparr>"

section \<open>The engines of the three permission modes\<close>

definition mutating_effects :: "effect_kind set" where
  "mutating_effects = {FilesystemWrite, FilesystemDelete, ProcessSpawn, ExternalStateWrite}"

definition sensitive_read_effects :: "effect_kind set" where
  "sensitive_read_effects = {NetworkAccess, CredentialAccess, ExternalStateRead}"

definition workspace_capabilities :: "string list" where
  "workspace_capabilities =
     [''write'', ''edit'', ''apply_patch'', ''command.inspection'', ''command.bounded_mutation'']"

definition workspace_rule :: "string \<Rightarrow> permission_rule" where
  "workspace_rule action =
     \<lparr>pm_action_pattern = action, pm_resource_pattern = ''workspace:///*'', pm_effect = Allow,
      pm_modes = {ToolExecute}, pm_source = SrcRuntime, pm_priority = 100\<rparr>"

definition runtime_permission_engine :: "string \<Rightarrow> permission_engine" where
  "runtime_permission_engine mode =
     (if mode = ''read-only'' then
        \<lparr>pe_rules = [], pe_denied_effects = mutating_effects \<union> {CredentialAccess},
         pe_approval_effects = {NetworkAccess, ExternalStateRead},
         pe_granted_permissions = [''workspace.read'', ''session.*'', ''mcp.call'']\<rparr>
      else if mode = ''ask'' then
        \<lparr>pe_rules = [], pe_denied_effects = {},
         pe_approval_effects = mutating_effects \<union> sensitive_read_effects,
         pe_granted_permissions = [''*'']\<rparr>
      else
        \<lparr>pe_rules = map workspace_rule workspace_capabilities, pe_denied_effects = {},
         pe_approval_effects = sensitive_read_effects, pe_granted_permissions = [''*'']\<rparr>)"

lemma allow_effects:
  assumes "pdc_effect (decide_permission e req p a) = Allow"
  shows "ar_effects a \<inter> (pe_denied_effects e \<union> pe_approval_effects e) = {}"
proof -
  have w: "within_hard_limits e req p a" using assms decide_hard by fastforce
  with assms have "ar_effects a \<inter> pe_approval_effects e = {}"
    by (auto simp: decide_soft split: if_splits)
  with w show ?thesis by (auto simp: within_hard_limits_def)
qed

lemma effect_cases: "(UNIV :: effect_kind set) =
  {FilesystemRead, FilesystemWrite, FilesystemDelete, ProcessSpawn, NetworkAccess,
   CredentialAccess, ExternalStateRead, ExternalStateWrite, SessionStateRead, SessionStateWrite}"
  using effect_kind.exhaust by auto

lemma matched_rule_all:
  assumes "matched_rule e mode a = Some r" and "(action, uri) \<in> set (access_pairs a)"
  shows "\<exists>r \<in> set (pe_rules e). rule_applies mode action uri r"
  using assms select_rules_applies [of "pe_rules e" mode "access_pairs a" _ action uri]
  by (auto simp: matched_rule_def split: option.splits)

lemma workspace_rule_applies:
  "c \<in> set workspace_capabilities \<Longrightarrow>
   rule_applies mode action uri (workspace_rule c) \<longleftrightarrow>
   mode = ToolExecute \<and> action = c \<and> py_startswith uri ''workspace:///''"
proof -
  assume "c \<in> set workspace_capabilities"
  then have "plain_pattern c"
    by (auto simp: workspace_capabilities_def plain_pattern_def)
  moreover have "plain_pattern ''workspace:///''" by (simp add: plain_pattern_def)
  then have "fnmatchcase uri ''workspace:///*'' \<longleftrightarrow> py_startswith uri ''workspace:///''"
    using fnmatchcase_prefix [of "''workspace:///''" uri] by simp
  ultimately show ?thesis
    by (simp add: rule_applies_def workspace_rule_def fnmatchcase_plain)
qed

end
