(* ===== verification/Conversation.thy ===== *)
theory Conversation
  imports Py_Codec
begin

text \<open>
  Conversation messages, \<^verbatim>\<open>src/codepilot/protocols/conversation.py\<close>, and the pure
  transcript queries of \<^verbatim>\<open>src/codepilot/core/transcript.py\<close>: grouping a tool batch with
  its results, closed and unconsumed batches, unsettled tool calls, and the last
  assistant message. Provider bookkeeping that no query of the model reads (usage, the
  structured provider error) is left out of the message records.
\<close>

section \<open>Messages\<close>

record tool_call =
  tc_id :: string
  tc_name :: string
  tc_arguments :: dict
  tc_raw_arguments :: "string option"
  tc_index :: "int option"
  tc_provider :: "string option"
  tc_metadata :: dict

text \<open>Content blocks: text and its signature; thinking, its signature and whether it is
  redacted; image data, media type and source; a tool call.\<close>

datatype content_block =
    TextBlock string "string option"
  | ThinkingBlock string "string option" bool
  | ImageBlock string string "string option"
  | ToolCallBlock tool_call

datatype tool_result_status =
    TRSuccess | TRError | TRDenied | TRApprovalRequired | TRCancelled | TRTimedOut | TRInterrupted

fun tool_result_status_name :: "tool_result_status \<Rightarrow> string" where
  "tool_result_status_name TRSuccess = ''success''"
| "tool_result_status_name TRError = ''error''"
| "tool_result_status_name TRDenied = ''denied''"
| "tool_result_status_name TRApprovalRequired = ''approval_required''"
| "tool_result_status_name TRCancelled = ''cancelled''"
| "tool_result_status_name TRTimedOut = ''timed_out''"
| "tool_result_status_name TRInterrupted = ''interrupted''"

record user_message =
  um_content :: "string + content_block list"
  um_timestamp :: int
  um_metadata :: dict

record assistant_message =
  am_content :: "content_block list"
  am_api :: string
  am_provider :: string
  am_model :: string
  am_stop_reason :: string
  am_response_id :: "string option"
  am_error_message :: "string option"
  am_timestamp :: int
  am_metadata :: dict

record tool_result_message =
  trm_tool_call_id :: string
  trm_tool_name :: string
  trm_content :: "content_block list"
  trm_status :: tool_result_status
  trm_approved :: bool
  trm_approval_id :: "string option"
  trm_error_code :: "string option"
  trm_exit_code :: "int option"
  trm_affected_paths :: "string list"
  trm_workspace_changed :: "bool option"
  trm_diff_summary :: "string option"
  trm_verification :: "dict option"
  trm_details :: pyval
  trm_timestamp :: int
  trm_metadata :: dict

datatype message =
    UserMessage user_message
  | AssistantMessage assistant_message
  | ToolResultMessage tool_result_message

definition trm_is_error :: "tool_result_message \<Rightarrow> bool" where
  "trm_is_error m \<longleftrightarrow> trm_status m \<noteq> TRSuccess"

text \<open>The tool calls of a list of blocks, in order.\<close>

fun block_tool_calls :: "content_block list \<Rightarrow> tool_call list" where
  "block_tool_calls [] = []"
| "block_tool_calls (ToolCallBlock c # bs) = c # block_tool_calls bs"
| "block_tool_calls (_ # bs) = block_tool_calls bs"

text \<open>Some text block is not blank.\<close>

fun has_text :: "content_block list \<Rightarrow> bool" where
  "has_text [] = False"
| "has_text (TextBlock t _ # bs) = (py_strip t \<noteq> [] \<or> has_text bs)"
| "has_text (_ # bs) = has_text bs"

section \<open>Transcript queries\<close>

fun is_assistant :: "message \<Rightarrow> bool" where
  "is_assistant (AssistantMessage _) = True"
| "is_assistant _ = False"

definition call_ids :: "assistant_message \<Rightarrow> string set" where
  "call_ids a = set (map tc_id (block_tool_calls (am_content a)))"

fun is_result_for :: "string set \<Rightarrow> message \<Rightarrow> bool" where
  "is_result_for ids (ToolResultMessage r) = (trm_tool_call_id r \<in> ids)"
| "is_result_for ids _ = False"

fun opens_batch :: "message \<Rightarrow> string set" where
  "opens_batch (AssistantMessage a) = call_ids a"
| "opens_batch _ = {}"

function message_groups :: "message list \<Rightarrow> message list list" where
  "message_groups [] = []"
| "message_groups (m # ms) =
     (if opens_batch m \<noteq> {}
      then (m # takeWhile (is_result_for (opens_batch m)) ms)
           # message_groups (dropWhile (is_result_for (opens_batch m)) ms)
      else [m] # message_groups ms)"
  by pat_completeness auto
termination
  by (relation "measure length") (auto simp: le_imp_less_Suc length_dropWhile_le)

definition tool_batch_call_ids :: "message list \<Rightarrow> string set" where
  "tool_batch_call_ids grp =
     (case grp of AssistantMessage a # _ \<Rightarrow> call_ids a | _ \<Rightarrow> {})"

fun result_ids :: "message list \<Rightarrow> string list" where
  "result_ids [] = []"
| "result_ids (ToolResultMessage r # ms) = trm_tool_call_id r # result_ids ms"
| "result_ids (_ # ms) = result_ids ms"

lemma result_ids_append [simp]: "result_ids (ms @ ns) = result_ids ms @ result_ids ns"
  by (induction ms rule: result_ids.induct) simp_all

lemma result_ids_results [simp]: "result_ids (map ToolResultMessage ms) = map trm_tool_call_id ms"
  by (induction ms) simp_all

definition is_closed_tool_batch :: "message list \<Rightarrow> bool" where
  "is_closed_tool_batch grp =
     (let ids = tool_batch_call_ids grp; rids = result_ids (tl grp) in
      ids \<noteq> {} \<and> length rids = card ids \<and> set rids = ids)"

text \<open>The loop runs from the last group to the first; \<open>later\<close> is \<^verbatim>\<open>has_later_assistant\<close>
  and the groups come reversed, so the index of the head is the length of its tail.\<close>

fun latest_unconsumed_loop :: "bool \<Rightarrow> message list list \<Rightarrow> nat option" where
  "latest_unconsumed_loop later [] = None"
| "latest_unconsumed_loop later (g # gs) =
     (if is_closed_tool_batch g \<and> \<not> later then Some (length gs)
      else latest_unconsumed_loop (later \<or> list_ex is_assistant g) gs)"

definition latest_unconsumed_tool_batch :: "message list list \<Rightarrow> nat option" where
  "latest_unconsumed_tool_batch groups = latest_unconsumed_loop False (rev groups)"

text \<open>\<^verbatim>\<open>calls[block.id] = block\<close> keeps the position of a key and replaces its value.\<close>

definition note_calls :: "tool_call list \<Rightarrow> (string \<times> tool_call) list \<Rightarrow> (string \<times> tool_call) list" where
  "note_calls cs calls = fold (\<lambda>c. AList.update (tc_id c) c) cs calls"

fun transcript_calls :: "message list \<Rightarrow> (string \<times> tool_call) list \<Rightarrow> (string \<times> tool_call) list" where
  "transcript_calls [] calls = calls"
| "transcript_calls (AssistantMessage a # ms) calls =
     transcript_calls ms (note_calls (block_tool_calls (am_content a)) calls)"
| "transcript_calls (_ # ms) calls = transcript_calls ms calls"

definition unsettled_tool_calls :: "message list \<Rightarrow> tool_call list" where
  "unsettled_tool_calls ms =
     (let settled = set (result_ids ms) in
      map snd (filter (\<lambda>(i, c). i \<notin> settled) (transcript_calls ms [])))"

fun as_assistant :: "message \<Rightarrow> assistant_message option" where
  "as_assistant (AssistantMessage a) = Some a"
| "as_assistant _ = None"

fun first_assistant :: "message list \<Rightarrow> assistant_message option" where
  "first_assistant [] = None"
| "first_assistant (m # ms) =
     (case as_assistant m of Some a \<Rightarrow> Some a | None \<Rightarrow> first_assistant ms)"

definition last_assistant_message :: "message list \<Rightarrow> assistant_message option" where
  "last_assistant_message ms = first_assistant (rev ms)"

section \<open>Facts about the queries\<close>

lemma concat_message_groups: "concat (message_groups ms) = ms"
  by (induction ms rule: message_groups.induct) simp_all

lemma message_groups_nonempty: "g \<in> set (message_groups ms) \<Longrightarrow> g \<noteq> []"
  by (induction ms rule: message_groups.induct) (auto split: if_splits)

text \<open>Every group is one message, or an assistant batch followed by results of that batch
  only.\<close>

lemma message_groups_shape:
  "g \<in> set (message_groups ms) \<Longrightarrow>
   length g = 1 \<or> (opens_batch (hd g) \<noteq> {} \<and> (\<forall>m \<in> set (tl g). is_result_for (opens_batch (hd g)) m))"
proof (induction ms rule: message_groups.induct)
  case 1
  then show ?case by simp
next
  case (2 m ms)
  show ?case
  proof (cases "opens_batch m \<noteq> {}")
    case True
    with "2.prems" consider "g = m # takeWhile (is_result_for (opens_batch m)) ms"
      | "g \<in> set (message_groups (dropWhile (is_result_for (opens_batch m)) ms))"
      by auto
    then show ?thesis
    proof cases
      case 1
      then show ?thesis using True by (auto dest: set_takeWhileD)
    next
      case b: 2
      show ?thesis by (rule "2.IH"(1) [OF True b])
    qed
  next
    case False
    with "2.prems" consider "g = [m]" | "g \<in> set (message_groups ms)" by auto
    then show ?thesis
    proof cases
      case 1
      then show ?thesis by simp
    next
      case b: 2
      show ?thesis by (rule "2.IH"(2) [OF False b])
    qed
  qed
qed

lemma closed_tool_batch_assistant: "is_closed_tool_batch g \<Longrightarrow> list_ex is_assistant g"
  by (cases g) (auto simp: is_closed_tool_batch_def tool_batch_call_ids_def Let_def
      split: message.splits)

lemma latest_unconsumed_loop_later: "latest_unconsumed_loop True gs = None"
  by (induction gs) auto

lemma latest_unconsumed_loop_Some:
  "latest_unconsumed_loop False gs = Some i \<longleftrightarrow>
   (\<exists>xs g ys. gs = xs @ g # ys \<and> i = length ys \<and> is_closed_tool_batch g \<and>
              (\<forall>x \<in> set xs. \<not> list_ex is_assistant x))" (is "_ \<longleftrightarrow> ?R gs")
proof (induction gs)
  case Nil
  show ?case by simp
next
  case (Cons h gs)
  consider (closed) "is_closed_tool_batch h"
    | (spoken) "\<not> is_closed_tool_batch h" "list_ex is_assistant h"
    | (silent) "\<not> is_closed_tool_batch h" "\<not> list_ex is_assistant h"
    by blast
  then show ?case
  proof cases
    case closed
    have "?R (h # gs) \<longleftrightarrow> i = length gs"
    proof
      assume "?R (h # gs)"
      then obtain xs g ys where s: "h # gs = xs @ g # ys" "i = length ys"
        "\<forall>x \<in> set xs. \<not> list_ex is_assistant x" by blast
      with closed_tool_batch_assistant [OF closed] have "xs = []" by (cases xs) auto
      with s show "i = length gs" by simp
    next
      assume i: "i = length gs"
      show "?R (h # gs)"
        by (rule exI [of _ "[]"], rule exI [of _ h], rule exI [of _ gs]) (simp add: i closed)
    qed
    with closed show ?thesis by auto
  next
    case spoken
    then have "\<not> ?R (h # gs)" by (auto simp: Cons_eq_append_conv)
    with spoken show ?thesis by (simp add: latest_unconsumed_loop_later)
  next
    case silent
    have "?R (h # gs) \<longleftrightarrow> ?R gs"
    proof
      assume "?R (h # gs)"
      then obtain xs g ys where s: "h # gs = xs @ g # ys" "i = length ys"
        "is_closed_tool_batch g" "\<forall>x \<in> set xs. \<not> list_ex is_assistant x" by blast
      with silent obtain xs' where "xs = h # xs'" by (cases xs) auto
      with s show "?R gs" by auto
    next
      assume "?R gs"
      then obtain xs g ys where s: "gs = xs @ g # ys" "i = length ys"
        "is_closed_tool_batch g" "\<forall>x \<in> set xs. \<not> list_ex is_assistant x" by blast
      with silent show "?R (h # gs)" by (intro exI [of _ "h # xs"]) auto
    qed
    with silent Cons.IH show ?thesis by simp
  qed
qed

lemma note_calls_keys: "fst ` set (note_calls cs calls) = fst ` set calls \<union> tc_id ` set cs"
  unfolding note_calls_def by (induction cs arbitrary: calls) (auto simp: dom_update)

lemma note_calls_key:
  "(\<forall>(i, c) \<in> set calls. tc_id c = i) \<Longrightarrow> distinct (map fst calls) \<Longrightarrow>
   (\<forall>(i, c) \<in> set (note_calls cs calls). tc_id c = i) \<and> distinct (map fst (note_calls cs calls))"
  unfolding note_calls_def
proof (induction cs arbitrary: calls)
  case Nil
  then show ?case by simp
next
  case (Cons c cs)
  have "set (AList.update (tc_id c) c calls) \<subseteq> insert (tc_id c, c) (set calls)"
    by (induction calls) auto
  with Cons.prems have "\<forall>(i, d) \<in> set (AList.update (tc_id c) c calls). tc_id d = i" by auto
  moreover have "distinct (map fst (AList.update (tc_id c) c calls))"
    using Cons.prems(2) by (rule distinct_update)
  ultimately show ?case using Cons.IH [of "AList.update (tc_id c) c calls"] by simp
qed

lemma set_transcript_calls:
  "fst ` set (transcript_calls ms calls) =
   fst ` set calls \<union> (\<Union>m \<in> set ms. opens_batch m)"
  by (induction ms calls rule: transcript_calls.induct)
     (auto simp: note_calls_keys call_ids_def)

lemma transcript_calls_key:
  "(\<forall>(i, c) \<in> set calls. tc_id c = i) \<Longrightarrow> distinct (map fst calls) \<Longrightarrow>
   (\<forall>(i, c) \<in> set (transcript_calls ms calls). tc_id c = i) \<and>
   distinct (map fst (transcript_calls ms calls))"
  by (induction ms calls rule: transcript_calls.induct) (simp_all add: note_calls_key)

lemma unsettled_tool_calls_ids:
  "tc_id ` set (unsettled_tool_calls ms) =
   (\<Union>m \<in> set ms. opens_batch m) - set (result_ids ms)"
proof -
  have k: "\<forall>(i, c) \<in> set (transcript_calls ms []). tc_id c = i"
    using transcript_calls_key [of "[]" ms] by simp
  have "tc_id ` set (unsettled_tool_calls ms) =
        fst ` set (transcript_calls ms []) - set (result_ids ms)"
    using k by (force simp: unsettled_tool_calls_def Let_def image_iff)
  then show ?thesis by (simp add: set_transcript_calls)
qed

lemma unsettled_tool_calls_distinct: "distinct (map tc_id (unsettled_tool_calls ms))"
proof -
  have k: "\<forall>(i, c) \<in> set (transcript_calls ms []). tc_id c = i"
    and d: "distinct (map fst (transcript_calls ms []))"
    using transcript_calls_key [of "[]" ms] by simp_all
  have "map tc_id (unsettled_tool_calls ms) =
        map fst (filter (\<lambda>(i, c). i \<notin> set (result_ids ms)) (transcript_calls ms []))"
    using k by (auto simp: unsettled_tool_calls_def Let_def)
  with d show ?thesis by (simp add: distinct_map_filter)
qed

end
