(* ===== verification/Core_Observations.thy ===== *)
theory Core_Observations
  imports Core_Commands Core_State Tools_Results
begin

text \<open>
  What the reducer consumes and emits: the observations of
  \<^verbatim>\<open>src/codepilot/core/observations.py\<close> with the validation of each constructor, and the
  domain events of \<^verbatim>\<open>src/codepilot/core/events.py\<close>.
\<close>

section \<open>Observations\<close>

datatype model_status = ModelCompleted | ModelFailed

datatype model_purpose =
    PurposeReasoning | PurposeRecovery | PurposeVerification | PurposeReplan
  | PurposePlanCloseout | PurposeFinalResponse

fun model_purpose_name :: "model_purpose \<Rightarrow> string" where
  "model_purpose_name PurposeReasoning = ''reasoning''"
| "model_purpose_name PurposeRecovery = ''recovery''"
| "model_purpose_name PurposeVerification = ''verification''"
| "model_purpose_name PurposeReplan = ''replan''"
| "model_purpose_name PurposePlanCloseout = ''plan_closeout''"
| "model_purpose_name PurposeFinalResponse = ''final_response''"

record model_observation =
  mo_observation_id :: string
  mo_message :: "assistant_message option"
  mo_status :: model_status
  mo_error :: "failure_record option"
  mo_purpose :: model_purpose
  mo_attempts :: int

record tool_batch_observation =
  tbo_observation_id :: string
  tbo_calls :: "tool_call list"
  tbo_results :: "tool_result list"
  tbo_commands :: "core_command list"

record user_input_observation =
  ui_observation_id :: string
  ui_text :: string
  ui_current_goal :: "string option"

record command_observation =
  co_observation_id :: string
  co_command :: core_command

record cancellation_observation =
  ca_observation_id :: string
  ca_reason :: string

datatype core_observation =
    ModelObservation model_observation
  | ToolBatchObservation tool_batch_observation
  | UserInputObservation user_input_observation
  | CommandObservation command_observation
  | CancellationObservation cancellation_observation

fun observation_id :: "core_observation \<Rightarrow> string" where
  "observation_id (ModelObservation m) = mo_observation_id m"
| "observation_id (ToolBatchObservation t) = tbo_observation_id t"
| "observation_id (UserInputObservation u) = ui_observation_id u"
| "observation_id (CommandObservation c) = co_observation_id c"
| "observation_id (CancellationObservation c) = ca_observation_id c"

definition model_observation_post_init :: "model_observation \<Rightarrow> model_observation result" where
  "model_observation_post_init m =
     bindE (st_required_text (PStr (mo_observation_id m)) ''observation_id'') (\<lambda>oid.
     if mo_status m = ModelFailed \<and> mo_error m = None
     then Inl (ValueError ''failed model observation requires an error'')
     else if mo_attempts m \<le> 0
     then Inl (ValueError ''model attempts must be a positive integer'')
     else Inr (m\<lparr>mo_observation_id := oid\<rparr>))"

definition tool_batch_observation_post_init ::
  "tool_batch_observation \<Rightarrow> tool_batch_observation result" where
  "tool_batch_observation_post_init t =
     bindE (st_required_text (PStr (tbo_observation_id t)) ''observation_id'') (\<lambda>oid.
     Inr (t\<lparr>tbo_observation_id := oid\<rparr>))"

definition user_input_observation_post_init ::
  "user_input_observation \<Rightarrow> user_input_observation result" where
  "user_input_observation_post_init u =
     bindE (st_required_text (PStr (ui_observation_id u)) ''observation_id'') (\<lambda>oid.
     bindE (st_required_text (PStr (ui_text u)) ''text'') (\<lambda>text.
     Inr (u\<lparr>ui_observation_id := oid, ui_text := text,
            ui_current_goal := st_optional_text_opt (ui_current_goal u)\<rparr>)))"

definition command_observation_post_init :: "command_observation \<Rightarrow> command_observation result" where
  "command_observation_post_init c =
     bindE (st_required_text (PStr (co_observation_id c)) ''observation_id'') (\<lambda>oid.
     Inr (c\<lparr>co_observation_id := oid\<rparr>))"

definition cancellation_observation_post_init ::
  "cancellation_observation \<Rightarrow> cancellation_observation result" where
  "cancellation_observation_post_init c =
     bindE (st_required_text (PStr (ca_observation_id c)) ''observation_id'') (\<lambda>oid.
     bindE (st_required_text (PStr (ca_reason c)) ''reason'') (\<lambda>reason.
     Inr (c\<lparr>ca_observation_id := oid, ca_reason := reason\<rparr>)))"

fun observation_post_init :: "core_observation \<Rightarrow> core_observation result" where
  "observation_post_init (ModelObservation m) =
     mapE ModelObservation (model_observation_post_init m)"
| "observation_post_init (ToolBatchObservation t) =
     mapE ToolBatchObservation (tool_batch_observation_post_init t)"
| "observation_post_init (UserInputObservation u) =
     mapE UserInputObservation (user_input_observation_post_init u)"
| "observation_post_init (CommandObservation c) =
     mapE CommandObservation (command_observation_post_init c)"
| "observation_post_init (CancellationObservation c) =
     mapE CancellationObservation (cancellation_observation_post_init c)"

text \<open>An observation whose parts went through their constructors.\<close>

definition wf_tool_result_parts :: "tool_result \<Rightarrow> bool" where
  "wf_tool_result_parts r \<longleftrightarrow>
     wf_tool_result r \<and> (\<forall>e. to_error r = Some e \<longrightarrow> wf_tool_error e) \<and>
     (\<forall>e \<in> set (to_effects r). canon_text py_strip (tr_uri (te_resource e)))"

fun wf_observation_body :: "core_observation \<Rightarrow> bool" where
  "wf_observation_body (ModelObservation m) \<longleftrightarrow>
     (mo_status m = ModelFailed \<longrightarrow> mo_error m \<noteq> None) \<and> 0 < mo_attempts m \<and>
     (\<forall>f. mo_error m = Some f \<longrightarrow> wf_failure_record f)"
| "wf_observation_body (ToolBatchObservation t) \<longleftrightarrow>
     (\<forall>r \<in> set (tbo_results t). wf_tool_result_parts r) \<and>
     (\<forall>c \<in> set (tbo_commands t). wf_command c)"
| "wf_observation_body (UserInputObservation u) \<longleftrightarrow>
     canon_text py_strip (ui_text u) \<and>
     (\<forall>g. ui_current_goal u = Some g \<longrightarrow> canon_text py_strip g)"
| "wf_observation_body (CommandObservation c) \<longleftrightarrow> wf_command (co_command c)"
| "wf_observation_body (CancellationObservation c) \<longleftrightarrow> canon_text py_strip (ca_reason c)"

definition wf_observation :: "core_observation \<Rightarrow> bool" where
  "wf_observation ob \<longleftrightarrow> canon_text py_strip (observation_id ob) \<and> wf_observation_body ob"

lemma wf_observation_post_init: "wf_observation ob \<Longrightarrow> observation_post_init ob = Inr ob"
  by (cases ob)
     (auto simp: wf_observation_def model_observation_post_init_def
        tool_batch_observation_post_init_def user_input_observation_post_init_def
        command_observation_post_init_def cancellation_observation_post_init_def
        st_optional_text_opt_fix)

section \<open>Domain events\<close>

record core_event =
  ev_kind :: string
  ev_payload :: dict
  ev_evidence_refs :: "string list"

definition runtime_envelope_fields :: "string list" where
  "runtime_envelope_fields =
     [''event_id'', ''run_id'', ''session_id'', ''sequence'', ''timestamp'', ''timestamp_ms'',
      ''type'']"

definition mk_event :: "string \<Rightarrow> dict \<Rightarrow> string list \<Rightarrow> core_event result" where
  "mk_event kind payload refs =
     (let kind' = py_strip kind;
          envelope = filter (\<lambda>k. k \<in> set runtime_envelope_fields) (remdups (map fst payload))
      in
      if kind' = [] then Inl (ValueError ''Core domain event kind is required'')
      else if envelope \<noteq> []
        then Inl (ValueError (''Core domain event cannot contain Runtime envelope fields: ''
                    @ py_join '', '' (sort envelope)))
      else
     bindE (text_tuple py_strip (\<lambda>_. ValueError ''evidence reference cannot be empty'') refs)
       (\<lambda>refs.
     Inr \<lparr>ev_kind = kind', ev_payload = payload, ev_evidence_refs = refs\<rparr>))"

definition core_event_to_dict :: "core_event \<Rightarrow> dict" where
  "core_event_to_dict e =
     [(''kind'', PStr (ev_kind e)), (''payload'', PDict (ev_payload e)),
      (''evidence_refs'', PList (map PStr (ev_evidence_refs e)))]"

definition event_ok :: "string \<Rightarrow> dict \<Rightarrow> string list \<Rightarrow> bool" where
  "event_ok kind payload refs \<longleftrightarrow>
     canon_text py_strip kind \<and> set (map fst payload) \<inter> set runtime_envelope_fields = {} \<and>
     canon_texts py_strip refs"

lemma mk_event_ok:
  "event_ok kind payload refs \<Longrightarrow>
   mk_event kind payload refs =
     Inr \<lparr>ev_kind = kind, ev_payload = payload, ev_evidence_refs = refs\<rparr>"
  by (auto simp: mk_event_def event_ok_def canon_text_def Let_def text_tuple_fix
      filter_empty_conv)

lemma mk_event_Inr:
  "mk_event kind payload refs = Inr e \<Longrightarrow>
   event_ok (ev_kind e) (ev_payload e) (ev_evidence_refs e) \<and> ev_kind e = py_strip kind \<and>
   ev_payload e = payload"
  by (auto simp: mk_event_def event_ok_def canon_text_def Let_def bindE_eq_Inr filter_empty_conv
      dest: strip.text_tuple_canon split: if_splits)

end
