(* ===== verification/Core_Contracts.thy ===== *)
theory Core_Contracts
  imports Core_Observations
begin

text \<open>
  The decisions of \<^verbatim>\<open>src/codepilot/core/contracts.py\<close>: run limits, reasons, directives,
  waits, and the four things the driver can be told to do next. Each constructor function
  runs the validation of its dataclass.
\<close>

record core_limits =
  li_max_model_turns :: int
  li_max_tool_iterations :: int
  li_max_tool_calls_per_turn :: "int option"
  li_max_tool_calls :: "int option"
  li_max_recovery_attempts :: int
  li_repeated_tool_call_limit :: int

definition default_core_limits :: core_limits where
  "default_core_limits =
     \<lparr>li_max_model_turns = 100, li_max_tool_iterations = 240,
      li_max_tool_calls_per_turn = Some 16, li_max_tool_calls = None,
      li_max_recovery_attempts = 5, li_repeated_tool_call_limit = 3\<rparr>"

definition core_limits_post_init :: "core_limits \<Rightarrow> core_limits result" where
  "core_limits_post_init l =
     (case find (\<lambda>(name, value). (case value of None \<Rightarrow> False | Some v \<Rightarrow> v < 0))
        [(''max_model_turns'', Some (li_max_model_turns l)),
         (''max_tool_iterations'', Some (li_max_tool_iterations l)),
         (''max_recovery_attempts'', Some (li_max_recovery_attempts l)),
         (''repeated_tool_call_limit'', Some (li_repeated_tool_call_limit l)),
         (''max_tool_calls_per_turn'', li_max_tool_calls_per_turn l),
         (''max_tool_calls'', li_max_tool_calls l)] of
        Some (name, _) \<Rightarrow> Inl (CoreContractError (name @ '' must be a non-negative integer''))
      | None \<Rightarrow> Inr l)"

definition core_required_text :: "string \<Rightarrow> string \<Rightarrow> string result" where
  "core_required_text v field =
     required_text py_strip (ValueError (field @ '' is required'')) (PStr v)"

definition core_evidence_refs :: "string list \<Rightarrow> string list result" where
  "core_evidence_refs refs = text_tuple py_strip (\<lambda>_. ValueError ''evidence ref is required'') refs"

record core_reason =
  cr_code :: string
  cr_message :: string
  cr_source :: string
  cr_recoverable :: bool
  cr_reason_refs :: "string list"
  cr_details :: dict

definition mk_core_reason ::
  "string \<Rightarrow> string \<Rightarrow> string \<Rightarrow> bool \<Rightarrow> string list \<Rightarrow> dict \<Rightarrow> core_reason result" where
  "mk_core_reason code message source recoverable refs details =
     bindE (core_required_text code ''reason code'') (\<lambda>code.
     bindE (core_required_text source ''reason source'') (\<lambda>source.
     bindE (core_evidence_refs refs) (\<lambda>refs.
     Inr \<lparr>cr_code = code, cr_message = py_strip message, cr_source = source,
          cr_recoverable = recoverable, cr_reason_refs = refs, cr_details = details\<rparr>)))"

record core_directive =
  cd_code :: string
  cd_constraints :: "string list"
  cd_evidence_refs :: "string list"

definition mk_core_directive ::
  "string \<Rightarrow> string list \<Rightarrow> string list \<Rightarrow> core_directive result" where
  "mk_core_directive code constraints refs =
     bindE (core_required_text code ''directive code'') (\<lambda>code.
     bindE (traverse (\<lambda>c. core_required_text c ''constraint'') constraints) (\<lambda>constraints.
     bindE (core_evidence_refs refs) (\<lambda>refs.
     Inr \<lparr>cd_code = code, cd_constraints = constraints, cd_evidence_refs = refs\<rparr>)))"

datatype core_wait_kind = WaitToolApproval | WaitUserInput | WaitPlanConfirmation | WaitContinuation

record core_wait =
  cw_kind :: core_wait_kind
  cw_request_id :: string
  cw_reason :: core_reason
  cw_payload :: dict

definition mk_core_wait ::
  "core_wait_kind \<Rightarrow> string \<Rightarrow> core_reason \<Rightarrow> dict \<Rightarrow> core_wait result" where
  "mk_core_wait kind request_id reason payload =
     bindE (core_required_text request_id ''request_id'') (\<lambda>request_id.
     Inr \<lparr>cw_kind = kind, cw_request_id = request_id, cw_reason = reason,
          cw_payload = payload\<rparr>)"

datatype termination_status = TermCompleted | TermFailed | TermCancelled

record termination_decision =
  te_term_status :: termination_status
  te_reason_code :: string
  te_message :: string
  te_evidence_refs :: "string list"

text \<open>\<open>CallModel\<close> carries the purpose, the directive and the reason; \<open>ExecuteTools\<close> the calls
  and the reason.\<close>

datatype core_decision =
    CallModel model_purpose core_directive core_reason
  | ExecuteTools "tool_call list" core_reason
  | Wait core_wait
  | Terminate termination_decision

definition mk_execute_tools :: "tool_call list \<Rightarrow> core_reason \<Rightarrow> core_decision result" where
  "mk_execute_tools calls reason =
     (if calls = [] then Inl (ValueError ''ExecuteTools requires ToolCall values'')
      else Inr (ExecuteTools calls reason))"

definition mk_terminate ::
  "termination_status \<Rightarrow> string \<Rightarrow> string \<Rightarrow> string list \<Rightarrow> core_decision result" where
  "mk_terminate status code message refs =
     bindE (core_required_text code ''reason_code'') (\<lambda>code.
     bindE (core_evidence_refs refs) (\<lambda>refs.
     Inr (Terminate \<lparr>te_term_status = status, te_reason_code = code,
                     te_message = py_strip message, te_evidence_refs = refs\<rparr>)))"

definition termination_reason :: "termination_decision \<Rightarrow> core_reason result" where
  "termination_reason t =
     mk_core_reason (te_reason_code t) (te_message t) ''core'' False (te_evidence_refs t) []"

text \<open>The code of a decision's reason: what the driver and \<open>apply_decision\<close> report.\<close>

fun decision_reason_code :: "core_decision \<Rightarrow> string" where
  "decision_reason_code (CallModel _ _ r) = cr_code r"
| "decision_reason_code (ExecuteTools _ r) = cr_code r"
| "decision_reason_code (Wait w) = cr_code (cw_reason w)"
| "decision_reason_code (Terminate t) = te_reason_code t"

lemma core_required_text_fix [simp]:
  "canon_text py_strip t \<Longrightarrow> core_required_text t f = Inr t"
  by (simp add: core_required_text_def required_text_fix)

lemma core_evidence_refs_fix [simp]:
  "canon_texts py_strip refs \<Longrightarrow> core_evidence_refs refs = Inr refs"
  by (simp add: core_evidence_refs_def text_tuple_fix)

lemma core_evidence_refs_canon:
  "(\<forall>r \<in> set refs. canon_text py_strip r) \<Longrightarrow> core_evidence_refs refs = Inr (dedup refs)"
proof -
  assume c: "\<forall>r \<in> set refs. canon_text py_strip r"
  then have "map py_strip refs = refs" by (simp add: canon_text_def map_idI)
  with c text_tuple_ok [of refs py_strip "\<lambda>_. ValueError ''evidence ref is required''"]
  show ?thesis by (auto simp: core_evidence_refs_def canon_text_def)
qed

end
