(* ===== verification/Core_Reducer.thy ===== *)
theory Core_Reducer
  imports Core_Contracts
begin

text \<open>
  The reducer, \<^verbatim>\<open>src/codepilot/core/reducer.py\<close>: every handler that turns an observation,
  a core command or a decision into the next core state, with the events and command
  results it emits. \<^verbatim>\<open>dataclasses.replace\<close> runs the constructor's validation again, so a
  handler is a \<open>result\<close>: \<open>Inl\<close> is an exception that leaves the reducer, a rejected command
  is a value.
\<close>

section \<open>Context, reductions and replacement\<close>

record reduction_context =
  rc_run_id :: string
  rc_mode :: run_mode
  rc_now_ms :: int

definition reduction_context_post_init :: "reduction_context \<Rightarrow> reduction_context result" where
  "reduction_context_post_init c =
     bindE (required_text py_strip (ValueError ''run_id is required'') (PStr (rc_run_id c)))
       (\<lambda>run_id.
     if rc_now_ms c < 0 then Inl (ValueError ''now_ms must be a non-negative integer'')
     else Inr (c\<lparr>rc_run_id := run_id\<rparr>))"

record core_reduction =
  red_state :: core_state
  red_events :: "core_event list"
  red_command_results :: "command_result list"

definition reduction :: "core_state \<Rightarrow> core_event list \<Rightarrow> command_result list \<Rightarrow> core_reduction" where
  "reduction s events results =
     \<lparr>red_state = s, red_events = events, red_command_results = results\<rparr>"

definition with_facts :: "core_state \<Rightarrow> run_facts \<Rightarrow> core_state result" where
  "with_facts s f = core_state_post_init (s\<lparr>cs_facts := f\<rparr>)"

definition with_task :: "core_state \<Rightarrow> task_state \<Rightarrow> core_state result" where
  "with_task s t =
     bindE (task_state_post_init t) (\<lambda>t. core_state_post_init (s\<lparr>cs_task := t\<rparr>))"

definition with_plan :: "core_state \<Rightarrow> plan_state \<Rightarrow> core_state result" where
  "with_plan s p = with_task s ((cs_task s)\<lparr>ts_plan := Some p\<rparr>)"

section \<open>Blockers, failures and loop guards\<close>

definition put_blocker :: "core_state \<Rightarrow> task_blocker \<Rightarrow> core_state result" where
  "put_blocker s b =
     with_task s ((cs_task s)\<lparr>ts_blockers :=
       filter (\<lambda>item. tb_kind item \<noteq> tb_kind b) (ts_blockers (cs_task s)) @ [b]\<rparr>)"

definition remove_blocker :: "core_state \<Rightarrow> blocker_kind \<Rightarrow> core_state result" where
  "remove_blocker s kind =
     with_task s ((cs_task s)\<lparr>ts_blockers :=
       filter (\<lambda>item. tb_kind item \<noteq> kind) (ts_blockers (cs_task s))\<rparr>)"

definition reset_no_progress :: "core_state \<Rightarrow> core_state result" where
  "reset_no_progress s =
     bindE (loop_guard_facts_post_init
              ((rf_loop_guards (cs_facts s))\<lparr>lg_repeated_no_progress := 0\<rparr>)) (\<lambda>guards.
     with_facts s ((cs_facts s)\<lparr>rf_loop_guards := guards\<rparr>))"

text \<open>\<^verbatim>\<open>counts[code] = counts.get(code, 0) + 1\<close>, then one \<^verbatim>\<open>FailureCount\<close> per entry.\<close>

definition bump_count :: "string \<Rightarrow> failure_count list \<Rightarrow> (string \<times> int) list" where
  "bump_count code items =
     (let counts = dict_of (map (\<lambda>c. (fc_code c, fc_count c)) items) in
      AList.update code
        ((case map_of counts code of None \<Rightarrow> 0 | Some n \<Rightarrow> n) + 1) counts)"

definition record_failure :: "core_state \<Rightarrow> failure_record \<Rightarrow> core_state result" where
  "record_failure s f =
     bindE (traverse (\<lambda>(code, n). failure_count_post_init \<lparr>fc_code = code, fc_count = n\<rparr>)
              (bump_count (fr_code f) (ff_counts (rf_failures (cs_facts s))))) (\<lambda>counts.
     bindE (failure_facts_post_init \<lparr>ff_latest = Some f, ff_counts = counts\<rparr>) (\<lambda>failures.
     with_facts s ((cs_facts s)\<lparr>rf_failures := failures\<rparr>)))"

definition failure_event :: "failure_record \<Rightarrow> core_event result" where
  "failure_event f =
     mk_event ''failure_recorded''
       [(''code'', PStr (fr_code f)), (''source'', PStr (fr_source f)),
        (''recoverable'', PBool (fr_recoverable f))] (fr_evidence_refs f)"

definition failure_from_tool_result :: "tool_result \<Rightarrow> failure_record option result" where
  "failure_from_tool_result r =
     (case to_error r of
        None \<Rightarrow> Inr None
      | Some e \<Rightarrow>
          mapE Some (failure_record_post_init
            \<lparr>fr_code = er_code e, fr_source = ''tools'', fr_message = er_message e,
             fr_recoverable = (er_retryable e \<or>
               er_kind e \<in> {KValidation, KUnavailable, KPermission, KApproval, KExecution,
                            KOutputValidation}),
             fr_evidence_refs = [to_tool_call_id r]\<rparr>))"

definition ledger_append :: "core_state \<Rightarrow> string \<Rightarrow> core_state result" where
  "ledger_append s oid =
     bindE (observation_ledger_post_init
              \<lparr>ol_applied_observation_ids =
                 ol_applied_observation_ids (rf_observation_ledger (cs_facts s)) @ [oid]\<rparr>)
       (\<lambda>ledger. with_facts s ((cs_facts s)\<lparr>rf_observation_ledger := ledger\<rparr>))"

section \<open>Workspace and verification facts\<close>

text \<open>The loop of \<^verbatim>\<open>_reduce_workspace\<close>: paths, evidence and whether anything changed. The
  order of the set of paths is immaterial: \<open>WorkspaceFacts\<close> sorts them.\<close>

definition workspace_path :: "string \<Rightarrow> string" where
  "workspace_path uri =
     (let p = py_removeprefix uri ''workspace:///'' in if p = [] then ''.'' else p)"

fun scan_workspace ::
  "tool_result list \<Rightarrow> string list \<times> string list \<times> bool \<Rightarrow> string list \<times> string list \<times> bool" where
  "scan_workspace [] acc = acc"
| "scan_workspace (r # rs) (paths, evidence, changed) =
     (let (uris, result_changed) = workspace_effect_summary (to_effects r) in
      scan_workspace rs
        (paths @ map workspace_path uris,
         (if result_changed then evidence @ [to_tool_call_id r] else evidence),
         changed \<or> result_changed))"

definition reduce_workspace ::
  "workspace_facts \<Rightarrow> tool_result list \<Rightarrow> (workspace_facts \<times> bool) result" where
  "reduce_workspace current results =
     (let (paths, evidence, changed) =
            scan_workspace results (wk_affected_paths current, wk_evidence_refs current, False)
      in
      if \<not> changed then Inr (current, False)
      else mapE (\<lambda>w. (w, True))
        (workspace_facts_post_init
          \<lparr>wk_revision = wk_revision current + 1, wk_changed = True,
           wk_affected_paths = paths, wk_evidence_refs = evidence\<rparr>))"

text \<open>Python's \<^verbatim>\<open>value == revision\<close> for an integer revision; a boolean equals 0 or 1.\<close>

fun py_equals_int :: "pyval \<Rightarrow> int \<Rightarrow> bool" where
  "py_equals_int (PInt j) i = (j = i)"
| "py_equals_int (PBool b) i = ((if b then 1 else 0) = i)"
| "py_equals_int _ i = False"

fun parse_reported_status :: "string \<Rightarrow> verification_status" where
  "parse_reported_status s =
     (if s = ''passed'' then VPassed else if s = ''failed'' then VFailed else VUnknown)"

text \<open>One reported verification, a mapping in the data of a tool result.\<close>

definition verification_from_report ::
  "dict \<Rightarrow> string \<Rightarrow> workspace_facts \<Rightarrow> bool \<Rightarrow> verification_facts result" where
  "verification_from_report value call_id workspace workspace_changed =
     (let raw = dget value ''status'';
          status = parse_reported_status
            (py_lower (py_strip (if py_truth raw then py_str raw else ''unknown'')));
          explicit = dget value ''verified_revision'';
          reported = (case explicit of PInt i \<Rightarrow> Some i | _ \<Rightarrow> Some (wk_revision workspace));
          elsewhere = (workspace_changed \<and> \<not> py_equals_int explicit (wk_revision workspace));
          (status', verified) =
            (if elsewhere \<and> status = VPassed then (VStale, None)
             else if elsewhere \<and> status = VFailed then (status, None)
             else (status, reported));
          cmd = dget value ''command'';
          check = py_strip (if py_truth cmd then py_str cmd else [])
      in verification_facts_post_init
           \<lparr>vf_status = status', vf_verified_revision = verified,
            vf_attempted_checks = (if check = [] then [] else [check]),
            vf_evidence_refs = [call_id], vf_unavailable_reason = None\<rparr>)"

fun scan_verification ::
  "tool_result list \<Rightarrow> workspace_facts \<Rightarrow> bool \<Rightarrow> verification_facts \<Rightarrow> verification_facts result" where
  "scan_verification [] workspace changed v = Inr v"
| "scan_verification (r # rs) workspace changed v =
     (case dget (to_data r) ''verification'' of
        PDict value \<Rightarrow>
          bindE (verification_from_report value (to_tool_call_id r) workspace changed)
            (\<lambda>v'. scan_verification rs workspace changed v')
      | _ \<Rightarrow> scan_verification rs workspace changed v)"

definition reduce_verification ::
  "verification_facts \<Rightarrow> tool_result list \<Rightarrow> workspace_facts \<Rightarrow> bool \<Rightarrow> verification_facts result" where
  "reduce_verification current results workspace changed =
     bindE (if changed \<and> vf_status current \<notin> {VNone, VUnknown}
            then verification_facts_post_init
                   (current\<lparr>vf_status := VStale, vf_verified_revision := None\<rparr>)
            else Inr current) (\<lambda>v.
     scan_verification results workspace changed v)"

definition sync_verification_blocker :: "core_state \<Rightarrow> core_state result" where
  "sync_verification_blocker s =
     (let v = rf_verification (cs_facts s) in
      if vf_status v = VFailed then
        bindE (failure_record_post_init
                 \<lparr>fr_code = ''verification.failed'', fr_source = ''verification'',
                  fr_message = ''Verification failed'', fr_recoverable = True,
                  fr_evidence_refs = vf_evidence_refs v\<rparr>) (\<lambda>f.
        bindE (record_failure s f) (\<lambda>s.
        bindE (task_blocker_post_init
                 \<lparr>tb_kind = VerificationFailed, tb_reason = ''Verification failed'',
                  tb_evidence_refs = vf_evidence_refs v, tb_recoverable = True\<rparr>) (\<lambda>b.
        put_blocker s b)))
      else if vf_status v \<in> {VPassed, VUnavailable} then remove_blocker s VerificationFailed
      else Inr s)"

definition sync_replan_blocker :: "core_state \<Rightarrow> core_state result" where
  "sync_replan_blocker s =
     (case ff_latest (rf_failures (cs_facts s)) of
        None \<Rightarrow> Inr s
      | Some latest \<Rightarrow>
          if \<not> fr_recoverable latest then Inr s
          else if count_for (rf_failures (cs_facts s)) (fr_code latest)
                    < QUALIFIED_FAILURES_FOR_REVISION then Inr s
          else
          bindE (task_blocker_post_init
                   \<lparr>tb_kind = ReplanRequired,
                    tb_reason = ''Repeated failure requires replanning: '' @ fr_code latest,
                    tb_evidence_refs = fr_evidence_refs latest, tb_recoverable = True\<rparr>) (\<lambda>b.
          put_blocker s b))"

definition tool_fingerprint :: "tool_call list \<Rightarrow> string" where
  "tool_fingerprint calls =
     json_dumps (PList (map (\<lambda>c. PTuple [PStr (tc_name c), PDict (tc_arguments c)]) calls))"

definition reduce_loop_guards ::
  "loop_guard_facts \<Rightarrow> tool_call list \<Rightarrow> tool_result list \<Rightarrow> loop_guard_facts result" where
  "reduce_loop_guards current calls results =
     (let fingerprint = (if calls \<noteq> [] then Some (tool_fingerprint calls)
                         else lg_last_tool_fingerprint current);
          repeated = (if calls \<noteq> []
            then (if fingerprint = lg_last_tool_fingerprint current
                  then lg_repeated_tool_calls current + 1 else 1)
            else lg_repeated_tool_calls current)
      in loop_guard_facts_post_init
           \<lparr>lg_last_tool_fingerprint = fingerprint, lg_repeated_tool_calls = repeated,
            lg_repeated_no_progress = lg_repeated_no_progress current,
            lg_seen_tool_call_ids =
              lg_seen_tool_call_ids current @ map to_tool_call_id results\<rparr>)"

section \<open>Steps and evidence\<close>

definition new_step :: "string \<Rightarrow> plan_step_definition \<Rightarrow> nat \<Rightarrow> plan_step result" where
  "new_step plan_id d index =
     plan_step_post_init
       \<lparr>st_step_id = plan_id @ '':step:'' @ str_nat index, st_step = psd_step d,
        st_details = psd_details d, st_verification = psd_verification d,
        st_status = StepPending, st_completion_note = [], st_evidence_refs = []\<rparr>"

definition new_steps :: "string \<Rightarrow> plan_step_definition list \<Rightarrow> plan_step list result" where
  "new_steps plan_id ds = traverse (\<lambda>(index, d). new_step plan_id d index) (enumerate 1 ds)"

definition step_key :: "plan_step \<Rightarrow> string \<times> string \<times> string" where
  "step_key st = (st_step st, st_details st, st_verification st)"

definition preserve_matching_steps :: "plan_step list \<Rightarrow> plan_step list \<Rightarrow> plan_step list" where
  "preserve_matching_steps previous replacement =
     (let by_definition = dict_of (map (\<lambda>st. (step_key st, st)) previous) in
      map (\<lambda>st. case map_of by_definition (step_key st) of Some old \<Rightarrow> old | None \<Rightarrow> st)
        replacement)"

definition normalize_evidence_ref :: "string \<Rightarrow> string" where
  "normalize_evidence_ref ref =
     (let value = py_strip ref in
      if \<not> py_startswith (py_lower value) ''workspace:'' then value
      else
        (let path = dropWhile (\<lambda>c. c = CHR ''/'')
               (map (\<lambda>c. if c = CHR 0x5C then CHR ''/'' else c) (drop 10 value));
             parts = filter (\<lambda>p. p \<noteq> [] \<and> p \<noteq> ''.'') (py_split_on CHR ''/'' path)
         in if list_ex (\<lambda>p. p = ''..'') parts then value
            else ''workspace:///'' @ py_join ''/'' parts))"

definition normalize_evidence_refs :: "string list \<Rightarrow> string list" where
  "normalize_evidence_refs refs = dedup (map normalize_evidence_ref refs)"

definition workspace_evidence_ref :: "string \<Rightarrow> string" where
  "workspace_evidence_ref path = normalize_evidence_ref (''workspace:///'' @ path)"

definition known_evidence :: "core_state \<Rightarrow> string set" where
  "known_evidence s =
     (let f = cs_facts s in
      set (map normalize_evidence_ref
        (ol_applied_observation_ids (rf_observation_ledger f)
         @ lg_seen_tool_call_ids (rf_loop_guards f)
         @ wk_evidence_refs (rf_workspace f)
         @ map workspace_evidence_ref (wk_affected_paths (rf_workspace f))
         @ vf_evidence_refs (rf_verification f)
         @ (case ff_latest (rf_failures f) of None \<Rightarrow> [] | Some r \<Rightarrow> fr_evidence_refs r))))"

section \<open>Plan commands\<close>

text \<open>A rejected command changes nothing; an applied one resets the no-progress guard.\<close>

definition reject_command :: "core_state \<Rightarrow> core_command \<Rightarrow> string \<Rightarrow> core_reduction result" where
  "reject_command s c reason =
     bindE (mk_event ''command_rejected''
              [(''command_id'', PStr (command_id c)), (''reason'', PStr reason)] []) (\<lambda>ev.
     bindE (mk_command_result (command_id c) CommandRejected reason) (\<lambda>res.
     Inr (reduction s [ev] [res])))"

definition applied_plan_command ::
  "core_state \<Rightarrow> core_command \<Rightarrow> string \<Rightarrow> dict \<Rightarrow> core_reduction result" where
  "applied_plan_command s c event_type payload =
     bindE (reset_no_progress s) (\<lambda>s.
     bindE (mk_event event_type payload []) (\<lambda>ev.
     bindE (mk_command_result (command_id c) Applied []) (\<lambda>res.
     Inr (reduction s [ev] [res]))))"

definition plan_revision_problem :: "plan_state option \<Rightarrow> int \<Rightarrow> string option" where
  "plan_revision_problem plan expected =
     (case plan of
        None \<Rightarrow> Some ''plan.missing''
      | Some p \<Rightarrow> if ps_revision p \<noteq> expected then Some ''plan.revision_conflict'' else None)"

definition active_plan_problem :: "core_state \<Rightarrow> int \<Rightarrow> reduction_context \<Rightarrow> string option" where
  "active_plan_problem s expected ctx =
     (if rc_mode ctx = ModeRead then Some ''plan.read_only''
      else if rc_mode ctx \<noteq> ModeBuild then Some ''plan.build_mode_required''
      else (case plan_revision_problem (ts_plan (cs_task s)) expected of
          Some problem \<Rightarrow> Some problem
        | None \<Rightarrow>
            (case ts_plan (cs_task s) of
               None \<Rightarrow> None
             | Some p \<Rightarrow> if ps_status p \<noteq> PlanActive then Some ''plan.not_active'' else None)))"

text \<open>The handlers below that start from a checked plan: \<open>k\<close> is the rest of the handler.\<close>

definition with_checked_plan ::
  "core_state \<Rightarrow> core_command \<Rightarrow> string option \<Rightarrow> (plan_state \<Rightarrow> core_reduction result)
   \<Rightarrow> core_reduction result" where
  "with_checked_plan s c problem k =
     (case problem of
        Some reason \<Rightarrow> reject_command s c reason
      | None \<Rightarrow> (case ts_plan (cs_task s) of
            None \<Rightarrow> Inl (CoreInvariantError ''assert plan is not None'')
          | Some p \<Rightarrow> k p))"

definition submit_plan ::
  "core_state \<Rightarrow> core_command \<Rightarrow> plan_definition \<Rightarrow> plan_step_definition list \<Rightarrow> reduction_context
   \<Rightarrow> core_reduction result" where
  "submit_plan s c definition steps ctx =
     (if rc_mode ctx = ModeRead then reject_command s c ''plan.read_only''
      else if rc_mode ctx = ModePlan \<and>
              (case require_plan_mode_details definition of Inl e \<Rightarrow> is_value_error e | Inr _ \<Rightarrow> False)
        then reject_command s c ''plan.definition_incomplete''
      else (case ts_plan (cs_task s) of
          Some current \<Rightarrow>
            if rc_mode ctx \<noteq> ModePlan \<or> ps_status current \<noteq> PlanProposed
            then reject_command s c ''plan.already_exists''
            else
            bindE (new_steps (ps_plan_id current) steps) (\<lambda>replacement.
            bindE (plan_state_post_init
                     (current\<lparr>ps_definition := definition,
                        ps_steps := preserve_matching_steps (ps_steps current) replacement,
                        ps_revision := ps_revision current + 1,
                        ps_pending_revision := None, ps_close_request := None\<rparr>)) (\<lambda>plan.
            bindE (with_plan s plan) (\<lambda>s1.
            bindE (remove_blocker s1 PlanIncomplete) (\<lambda>s2.
            applied_plan_command s2 c ''plan_proposal_revised''
              [(''plan_id'', PStr (ps_plan_id plan)), (''revision'', PInt (ps_revision plan))]))))
        | None \<Rightarrow>
            (let plan_id = ''plan:'' @ command_id c in
            bindE (new_steps plan_id steps) (\<lambda>items.
            bindE (plan_state_post_init
                     \<lparr>ps_plan_id = plan_id,
                      ps_origin = (if rc_mode ctx = ModePlan then OriginPlanMode else OriginBuildMode),
                      ps_status = (if rc_mode ctx = ModePlan then PlanProposed else PlanActive),
                      ps_revision = 1, ps_definition = definition, ps_steps = items,
                      ps_pending_revision = None, ps_close_request = None,
                      ps_schema_version = PLAN_STATE_SCHEMA_VERSION\<rparr>) (\<lambda>plan.
            bindE (with_plan s plan) (\<lambda>s1.
            bindE (remove_blocker s1 PlanIncomplete) (\<lambda>s2.
            applied_plan_command s2 c ''plan_submitted''
              [(''plan_id'', PStr (ps_plan_id plan)),
               (''status'', PStr (plan_status_name (ps_status plan))),
               (''revision'', PInt (ps_revision plan))])))))))"

text \<open>One update of the progress loop: the next entry of \<^verbatim>\<open>next_by_id\<close>, or the reason for
  which the command is rejected.\<close>

definition progress_step ::
  "plan_step \<Rightarrow> plan_step_update \<Rightarrow> string set \<Rightarrow> (string + plan_step) result" where
  "progress_step previous u known =
     (if st_status previous = StepCompleted \<and> su_status u \<noteq> StepCompleted
        then Inr (Inl ''plan.completed_step_regression'')
      else if su_status u = StepCompleted \<and> su_completion_note u = []
        then Inr (Inl ''plan.completion_note_required'')
      else (case plan_step_post_init
              \<lparr>st_step_id = st_step_id previous, st_step = st_step previous,
               st_details = st_details previous, st_verification = st_verification previous,
               st_status = su_status u,
               st_completion_note = (if su_status u = StepCompleted then su_completion_note u else []),
               st_evidence_refs = (if su_status u = StepCompleted
                 then filter (\<lambda>r. r \<in> known) (normalize_evidence_refs (su_evidence_refs u))
                 else [])\<rparr> of
          Inr st \<Rightarrow> Inr (Inr st)
        | Inl e \<Rightarrow> if is_value_error e then Inr (Inl ''plan.invalid_progress'') else Inl e))"

fun progress_loop ::
  "(string \<times> plan_step) list \<Rightarrow> string set \<Rightarrow> plan_step_update list \<Rightarrow> (string \<times> plan_step) list
   \<Rightarrow> (string + (string \<times> plan_step) list) result" where
  "progress_loop by_id known [] nxt = Inr (Inr nxt)"
| "progress_loop by_id known (u # us) nxt =
     (case map_of by_id (su_step_id u) of
        None \<Rightarrow> Inl (KeyError (su_step_id u))
      | Some previous \<Rightarrow>
          bindE (progress_step previous u known) (\<lambda>r.
          case r of
            Inl reason \<Rightarrow> Inr (Inl reason)
          | Inr st \<Rightarrow> progress_loop by_id known us (AList.update (su_step_id u) st nxt)))"

definition update_plan_progress ::
  "core_state \<Rightarrow> core_command \<Rightarrow> int \<Rightarrow> plan_step_update list \<Rightarrow> reduction_context
   \<Rightarrow> core_reduction result" where
  "update_plan_progress s c expected updates ctx =
     with_checked_plan s c (active_plan_problem s expected ctx) (\<lambda>plan.
     let by_id = dict_of (map (\<lambda>st. (st_step_id st, st)) (ps_steps plan)) in
     if list_ex (\<lambda>u. map_of by_id (su_step_id u) = None) updates
     then reject_command s c ''plan.unknown_step''
     else
     bindE (progress_loop by_id (known_evidence s) updates by_id) (\<lambda>r.
     case r of
       Inl reason \<Rightarrow> reject_command s c reason
     | Inr nxt \<Rightarrow>
     bindE (traverse (\<lambda>st. case map_of nxt (st_step_id st) of
                             None \<Rightarrow> Inl (KeyError (st_step_id st)) | Some st' \<Rightarrow> Inr st')
              (ps_steps plan)) (\<lambda>steps.
     if length (filter (\<lambda>st. st_status st = StepInProgress) steps) > 1
     then reject_command s c ''plan.multiple_in_progress''
     else
     bindE (plan_state_post_init
              (plan\<lparr>ps_steps := steps, ps_revision := ps_revision plan + 1,
                    ps_close_request := None\<rparr>)) (\<lambda>next_plan.
     bindE (with_plan s next_plan) (\<lambda>s1.
     bindE (remove_blocker s1 ReplanRequired) (\<lambda>s2.
     applied_plan_command s2 c ''plan_progress_updated''
       [(''plan_id'', PStr (ps_plan_id plan)), (''revision'', PInt (ps_revision next_plan))]))))))"

definition max_failure_count :: "failure_facts \<Rightarrow> int" where
  "max_failure_count f =
     (case ff_counts f of [] \<Rightarrow> 0
      | c # cs \<Rightarrow> foldl max (fc_count c) (map fc_count cs))"

definition propose_plan_revision ::
  "core_state \<Rightarrow> core_command \<Rightarrow> int \<Rightarrow> revision_reason \<Rightarrow> plan_definition
   \<Rightarrow> plan_step_definition list \<Rightarrow> reduction_context \<Rightarrow> core_reduction result" where
  "propose_plan_revision s c expected reason definition steps ctx =
     with_checked_plan s c (active_plan_problem s expected ctx) (\<lambda>plan.
     if ps_pending_revision plan \<noteq> None then reject_command s c ''plan.revision_pending''
     else
     bindE (new_steps (ps_plan_id plan @ '':revision:'' @ str_int (ps_revision plan + 1)) steps)
       (\<lambda>replacement.
     let merged = preserve_matching_steps (ps_steps plan) replacement;
         auto_apply = (ps_origin plan = OriginBuildMode \<and> reason = RepeatedExecutionFailure \<and>
           max_failure_count (rf_failures (cs_facts s)) \<ge> QUALIFIED_FAILURES_FOR_REVISION)
     in
     bindE (if auto_apply
            then plan_state_post_init
                   (plan\<lparr>ps_definition := definition, ps_steps := merged,
                         ps_revision := ps_revision plan + 1,
                         ps_pending_revision := None, ps_close_request := None\<rparr>)
            else
              bindE (pending_plan_revision_post_init
                       \<lparr>pr_reason = reason, pr_definition = definition, pr_steps = merged,
                        pr_proposed_at_revision = ps_revision plan\<rparr>) (\<lambda>pending.
              plan_state_post_init
                (plan\<lparr>ps_pending_revision := Some pending,
                      ps_revision := ps_revision plan + 1\<rparr>))) (\<lambda>next_plan.
     bindE (with_plan s next_plan) (\<lambda>s1.
     bindE (remove_blocker s1 ReplanRequired) (\<lambda>s2.
     applied_plan_command s2 c
       (if auto_apply then ''plan_revision_applied'' else ''plan_revision_proposed'')
       [(''plan_id'', PStr (ps_plan_id plan)), (''revision'', PInt (ps_revision next_plan))])))))"

definition request_plan_close ::
  "core_state \<Rightarrow> core_command \<Rightarrow> int \<Rightarrow> string \<Rightarrow> string list \<Rightarrow> reduction_context
   \<Rightarrow> core_reduction result" where
  "request_plan_close s c expected summary refs ctx =
     with_checked_plan s c (active_plan_problem s expected ctx) (\<lambda>plan.
     if list_ex (\<lambda>st. st_status st \<noteq> StepCompleted) (ps_steps plan)
     then reject_command s c ''plan.steps_incomplete''
     else
     bindE (plan_close_request_post_init
              \<lparr>cr_summary = summary,
               cr_evidence_refs =
                 filter (\<lambda>r. r \<in> known_evidence s) (normalize_evidence_refs refs),
               cr_requested_at_revision = ps_revision plan\<rparr>) (\<lambda>request.
     bindE (plan_state_post_init
              (plan\<lparr>ps_close_request := Some request, ps_revision := ps_revision plan + 1\<rparr>))
       (\<lambda>next_plan.
     bindE (with_plan s next_plan) (\<lambda>s1.
     applied_plan_command s1 c ''plan_close_requested''
       [(''plan_id'', PStr (ps_plan_id plan)), (''revision'', PInt (ps_revision next_plan))]))))"

definition approve_plan :: "core_state \<Rightarrow> core_command \<Rightarrow> int \<Rightarrow> core_reduction result" where
  "approve_plan s c expected =
     with_checked_plan s c (plan_revision_problem (ts_plan (cs_task s)) expected) (\<lambda>plan.
     if ps_status plan \<noteq> PlanProposed then reject_command s c ''plan.not_proposed''
     else
     bindE (plan_state_post_init
              (plan\<lparr>ps_status := PlanActive, ps_revision := ps_revision plan + 1\<rparr>)) (\<lambda>next_plan.
     bindE (with_plan s next_plan) (\<lambda>s1.
     applied_plan_command s1 c ''plan_approved''
       [(''plan_id'', PStr (ps_plan_id plan)), (''revision'', PInt (ps_revision next_plan))])))"

definition reject_plan :: "core_state \<Rightarrow> core_command \<Rightarrow> int \<Rightarrow> string \<Rightarrow> core_reduction result" where
  "reject_plan s c expected reason =
     with_checked_plan s c (plan_revision_problem (ts_plan (cs_task s)) expected) (\<lambda>plan.
     if ps_status plan \<noteq> PlanProposed then reject_command s c ''plan.not_proposed''
     else
     bindE (plan_state_post_init
              (plan\<lparr>ps_status := PlanRejected, ps_revision := ps_revision plan + 1\<rparr>)) (\<lambda>next_plan.
     bindE (with_plan s next_plan) (\<lambda>s1.
     applied_plan_command s1 c ''plan_rejected''
       [(''plan_id'', PStr (ps_plan_id plan)), (''reason'', PStr reason)])))"

definition approve_plan_revision ::
  "core_state \<Rightarrow> core_command \<Rightarrow> int \<Rightarrow> core_reduction result" where
  "approve_plan_revision s c expected =
     with_checked_plan s c (plan_revision_problem (ts_plan (cs_task s)) expected) (\<lambda>plan.
     case ps_pending_revision plan of
       None \<Rightarrow> reject_command s c ''plan.no_pending_revision''
     | Some pending \<Rightarrow>
     bindE (plan_state_post_init
              (plan\<lparr>ps_definition := pr_definition pending,
                    ps_steps := preserve_matching_steps (ps_steps plan) (pr_steps pending),
                    ps_pending_revision := None, ps_close_request := None,
                    ps_revision := ps_revision plan + 1\<rparr>)) (\<lambda>next_plan.
     bindE (with_plan s next_plan) (\<lambda>s1.
     applied_plan_command s1 c ''plan_revision_approved''
       [(''plan_id'', PStr (ps_plan_id plan)), (''revision'', PInt (ps_revision next_plan))])))"

definition reject_plan_revision ::
  "core_state \<Rightarrow> core_command \<Rightarrow> int \<Rightarrow> string \<Rightarrow> core_reduction result" where
  "reject_plan_revision s c expected reason =
     with_checked_plan s c (plan_revision_problem (ts_plan (cs_task s)) expected) (\<lambda>plan.
     if ps_pending_revision plan = None then reject_command s c ''plan.no_pending_revision''
     else
     bindE (plan_state_post_init
              (plan\<lparr>ps_pending_revision := None, ps_revision := ps_revision plan + 1\<rparr>))
       (\<lambda>next_plan.
     bindE (with_plan s next_plan) (\<lambda>s1.
     applied_plan_command s1 c ''plan_revision_rejected''
       [(''plan_id'', PStr (ps_plan_id plan)), (''reason'', PStr reason)])))"

definition abandon_plan :: "core_state \<Rightarrow> core_command \<Rightarrow> int \<Rightarrow> string \<Rightarrow> core_reduction result" where
  "abandon_plan s c expected reason =
     with_checked_plan s c (plan_revision_problem (ts_plan (cs_task s)) expected) (\<lambda>plan.
     if ps_status plan \<notin> {PlanProposed, PlanActive} then reject_command s c ''plan.not_abandonable''
     else
     bindE (plan_state_post_init
              (plan\<lparr>ps_status := PlanAbandoned, ps_pending_revision := None,
                    ps_close_request := None, ps_revision := ps_revision plan + 1\<rparr>))
       (\<lambda>next_plan.
     bindE (with_plan s next_plan) (\<lambda>s1.
     applied_plan_command s1 c ''plan_abandoned''
       [(''plan_id'', PStr (ps_plan_id plan)), (''reason'', PStr reason)])))"

definition report_verification_unavailable ::
  "core_state \<Rightarrow> core_command \<Rightarrow> string \<Rightarrow> string list \<Rightarrow> string list \<Rightarrow> core_reduction result" where
  "report_verification_unavailable s c reason checks refs =
     (if checks = [] \<or> refs = [] then reject_command s c ''verification_evidence_required''
      else
     bindE (verification_facts_post_init
              \<lparr>vf_status = VUnavailable,
               vf_verified_revision = Some (wk_revision (rf_workspace (cs_facts s))),
               vf_attempted_checks = checks, vf_evidence_refs = refs,
               vf_unavailable_reason = Some reason\<rparr>) (\<lambda>v.
     bindE (with_facts s ((cs_facts s)\<lparr>rf_verification := v\<rparr>)) (\<lambda>s1.
     bindE (remove_blocker s1 VerificationFailed) (\<lambda>s2.
     bindE (mk_event ''verification_recorded''
              [(''status'', PStr ''unavailable''),
               (''revision'', opt_pyval PInt (vf_verified_revision v))] (vf_evidence_refs v)) (\<lambda>ev.
     bindE (mk_command_result (command_id c) Applied []) (\<lambda>res.
     Inr (reduction s2 [ev] [res])))))))"

fun reduce_command ::
  "core_state \<Rightarrow> core_command \<Rightarrow> reduction_context \<Rightarrow> core_reduction result" where
  "reduce_command s (SubmitPlan cid d ss) ctx = submit_plan s (SubmitPlan cid d ss) d ss ctx"
| "reduce_command s (UpdatePlanProgress cid r us) ctx =
     update_plan_progress s (UpdatePlanProgress cid r us) r us ctx"
| "reduce_command s (ProposePlanRevision cid r w d ss) ctx =
     propose_plan_revision s (ProposePlanRevision cid r w d ss) r w d ss ctx"
| "reduce_command s (RequestPlanClose cid r w es) ctx =
     request_plan_close s (RequestPlanClose cid r w es) r w es ctx"
| "reduce_command s (ApprovePlan cid r) ctx = approve_plan s (ApprovePlan cid r) r"
| "reduce_command s (RejectPlan cid r w) ctx = reject_plan s (RejectPlan cid r w) r w"
| "reduce_command s (ApprovePlanRevision cid r) ctx =
     approve_plan_revision s (ApprovePlanRevision cid r) r"
| "reduce_command s (RejectPlanRevision cid r w) ctx =
     reject_plan_revision s (RejectPlanRevision cid r w) r w"
| "reduce_command s (AbandonPlan cid r w) ctx = abandon_plan s (AbandonPlan cid r w) r w"
| "reduce_command s (ReportVerificationUnavailable cid w cs es) ctx =
     report_verification_unavailable s (ReportVerificationUnavailable cid w cs es) w cs es"

definition apply_core_command ::
  "core_state \<Rightarrow> core_command \<Rightarrow> reduction_context \<Rightarrow> core_reduction result" where
  "apply_core_command s c ctx =
     (if command_id c \<in> set (ol_applied_observation_ids (rf_observation_ledger (cs_facts s)))
      then Inr (reduction s [] [])
      else
     bindE (reduce_command s c ctx) (\<lambda>red.
     bindE (ledger_append (red_state red) (command_id c)) (\<lambda>s1.
     Inr (red\<lparr>red_state := s1\<rparr>))))"

fun apply_commands ::
  "core_state \<Rightarrow> core_command list \<Rightarrow> reduction_context \<Rightarrow> core_reduction result" where
  "apply_commands s [] ctx = Inr (reduction s [] [])"
| "apply_commands s (c # cs) ctx =
     bindE (apply_core_command s c ctx) (\<lambda>r1.
     bindE (apply_commands (red_state r1) cs ctx) (\<lambda>r2.
     Inr (reduction (red_state r2) (red_events r1 @ red_events r2)
            (red_command_results r1 @ red_command_results r2))))"

section \<open>Observations\<close>

definition model_message_is_empty :: "model_observation \<Rightarrow> bool" where
  "model_message_is_empty ob =
     (case mo_message ob of
        None \<Rightarrow> True
      | Some m \<Rightarrow> block_tool_calls (am_content m) = [] \<and> \<not> has_text (am_content m))"

definition is_unfinished_plan_final_candidate :: "core_state \<Rightarrow> model_observation \<Rightarrow> bool" where
  "is_unfinished_plan_final_candidate s ob =
     (case (ts_plan (cs_task s), mo_message ob) of
        (Some plan, Some m) \<Rightarrow>
          ps_status plan = PlanActive \<and>
          \<not> list_all (\<lambda>st. st_status st = StepCompleted) (ps_steps plan) \<and>
          mo_status ob = ModelCompleted \<and>
          has_text (am_content m) \<and> block_tool_calls (am_content m) = []
      | _ \<Rightarrow> False)"

definition reduce_model :: "core_state \<Rightarrow> model_observation \<Rightarrow> core_reduction result" where
  "reduce_model s ob =
     (let f = cs_facts s;
          no_progress = lg_repeated_no_progress (rf_loop_guards f)
            + (if is_unfinished_plan_final_candidate s ob then 1 else 0)
      in
     bindE (loop_guard_facts_post_init ((rf_loop_guards f)\<lparr>lg_repeated_no_progress := no_progress\<rparr>))
       (\<lambda>guards.
     bindE (core_counters_post_init
              ((rf_counters f)\<lparr>cc_model_turns := cc_model_turns (rf_counters f) + 1,
                 cc_model_attempts := cc_model_attempts (rf_counters f) + mo_attempts ob\<rparr>))
       (\<lambda>counters.
     bindE (with_facts s (f\<lparr>rf_counters := counters, rf_loop_guards := guards\<rparr>)) (\<lambda>s1.
     bindE (mk_event ''model_observed'' [] []) (\<lambda>ev.
     bindE (if mo_status ob = ModelCompleted \<and> model_message_is_empty ob
            then mapE Some (failure_record_post_init
                   \<lparr>fr_code = ''model.empty_response'', fr_source = ''model'',
                    fr_message = ''Model returned no text or tool calls'', fr_recoverable = True,
                    fr_evidence_refs = [mo_observation_id ob]\<rparr>)
            else Inr (mo_error ob)) (\<lambda>failure.
     case failure of
       None \<Rightarrow> Inr (reduction s1 [ev] [])
     | Some fl \<Rightarrow>
         bindE (record_failure s1 fl) (\<lambda>s2.
         bindE (failure_event fl) (\<lambda>fev.
         Inr (reduction s2 [ev, fev] [])))))))))"

text \<open>The first result of each call.\<close>

fun unique_results :: "string list \<Rightarrow> tool_result list \<Rightarrow> tool_result list" where
  "unique_results seen [] = []"
| "unique_results seen (r # rs) =
     (if to_tool_call_id r \<in> set seen then unique_results seen rs
      else r # unique_results (seen @ [to_tool_call_id r]) rs)"

definition is_deferred :: "tool_result \<Rightarrow> bool" where
  "is_deferred r \<longleftrightarrow> (case to_error r of None \<Rightarrow> False | Some e \<Rightarrow> er_code e = ''core.tool_deferred'')"

definition material_results :: "tool_result list \<Rightarrow> tool_result list" where
  "material_results rs = filter (\<lambda>r. \<not> is_deferred r) (unique_results [] rs)"

text \<open>The failure loop of \<^verbatim>\<open>_reduce_tools\<close>.\<close>

fun record_tool_failures ::
  "core_state \<Rightarrow> tool_result list \<Rightarrow> (core_state \<times> core_event list) result" where
  "record_tool_failures s [] = Inr (s, [])"
| "record_tool_failures s (r # rs) =
     bindE (failure_from_tool_result r) (\<lambda>failure.
     case (failure, to_error r) of
       (Some fl, Some e) \<Rightarrow>
         bindE (record_failure s fl) (\<lambda>s1.
         bindE (failure_event fl) (\<lambda>ev.
         bindE (if er_kind e = KUnavailable \<or> er_code e = ''tool_not_found''
                then bindE (task_blocker_post_init
                       \<lparr>tb_kind = ToolUnavailable, tb_reason = er_message e,
                        tb_evidence_refs = [to_tool_call_id r],
                        tb_recoverable = fr_recoverable fl\<rparr>) (\<lambda>b. put_blocker s1 b)
                else Inr s1) (\<lambda>s2.
         bindE (record_tool_failures s2 rs) (\<lambda>(s3, evs). Inr (s3, ev # evs)))))
     | _ \<Rightarrow> record_tool_failures s rs)"

definition reduce_tools ::
  "core_state \<Rightarrow> tool_batch_observation \<Rightarrow> reduction_context \<Rightarrow> core_reduction result" where
  "reduce_tools s ob ctx =
     (let f = cs_facts s;
          counted = set (lg_seen_tool_call_ids (rf_loop_guards f));
          material = material_results (tbo_results ob);
          new_calls = int (length (filter (\<lambda>r. to_tool_call_id r \<notin> counted) material))
      in
     bindE (core_counters_post_init
              ((rf_counters f)\<lparr>cc_tool_iterations := cc_tool_iterations (rf_counters f)
                   + (if material \<noteq> [] then 1 else 0),
                 cc_tool_calls := cc_tool_calls (rf_counters f) + new_calls\<rparr>)) (\<lambda>counters.
     bindE (with_facts s (f\<lparr>rf_counters := counters\<rparr>)) (\<lambda>s1.
     bindE (reduce_workspace (rf_workspace (cs_facts s1)) material) (\<lambda>(workspace, ws_changed).
     bindE (with_facts s1 ((cs_facts s1)\<lparr>rf_workspace := workspace\<rparr>)) (\<lambda>s2.
     bindE (if ws_changed
            then mapE (\<lambda>e. [e]) (mk_event ''workspace_changed''
                   [(''revision'', PInt (wk_revision workspace)),
                    (''affected_paths'', PList (map PStr (wk_affected_paths workspace)))]
                   (wk_evidence_refs workspace))
            else Inr []) (\<lambda>ev1.
     bindE (reduce_verification (rf_verification (cs_facts s2)) material workspace ws_changed)
       (\<lambda>verification.
     bindE (with_facts s2 ((cs_facts s2)\<lparr>rf_verification := verification\<rparr>)) (\<lambda>s3.
     let v_changed = (verification \<noteq> rf_verification f) in
     bindE (if v_changed
            then mapE (\<lambda>e. [e]) (mk_event ''verification_recorded''
                   [(''status'', PStr (verification_status_name (vf_status verification))),
                    (''revision'', opt_pyval PInt (vf_verified_revision verification))]
                   (vf_evidence_refs verification))
            else Inr []) (\<lambda>ev2.
     bindE (sync_verification_blocker s3) (\<lambda>s4.
     let clean_success = (material \<noteq> [] \<and> list_all (\<lambda>r. to_status r = TSuccess) material) in
     bindE (record_tool_failures s4 material) (\<lambda>(s5, ev3).
     bindE (sync_replan_blocker s5) (\<lambda>s6.
     bindE (apply_commands s6 (tbo_commands ob) ctx) (\<lambda>cmds.
     bindE (if clean_success
            then bindE (remove_blocker (red_state cmds) ToolUnavailable) (\<lambda>t1.
                 bindE (remove_blocker t1 ReplanRequired) (\<lambda>t2.
                 with_facts t2 ((cs_facts t2)\<lparr>rf_failures := \<lparr>ff_latest = None, ff_counts = []\<rparr>\<rparr>)))
            else Inr (red_state cmds)) (\<lambda>s7.
     let material_ids = set (map to_tool_call_id material) in
     bindE (reduce_loop_guards (rf_loop_guards (cs_facts s7))
              (filter (\<lambda>c. tc_id c \<in> material_ids) (tbo_calls ob)) material) (\<lambda>guards.
     bindE (if ws_changed \<or> v_changed \<or>
               list_ex (\<lambda>r. cmdr_status r = Applied) (red_command_results cmds)
            then loop_guard_facts_post_init (guards\<lparr>lg_repeated_no_progress := 0\<rparr>)
            else Inr guards) (\<lambda>guards'.
     bindE (with_facts s7 ((cs_facts s7)\<lparr>rf_loop_guards := guards'\<rparr>)) (\<lambda>s8.
     Inr (reduction s8 (ev1 @ ev2 @ ev3 @ red_events cmds)
            (red_command_results cmds)))))))))))))))))))"

definition reduce_user_input :: "core_state \<Rightarrow> user_input_observation \<Rightarrow> core_reduction result" where
  "reduce_user_input s ob =
     (let task = cs_task s;
          waiting = filter (\<lambda>b. tb_kind b \<noteq> UserInputRequired) (ts_blockers task);
          feedback = (case ts_plan task of
                        Some plan \<Rightarrow> ps_status plan = PlanProposed \<and> ui_text ob \<noteq> ts_current_goal task
                      | None \<Rightarrow> False)
      in
     bindE (if feedback
            then bindE (task_blocker_post_init
                   \<lparr>tb_kind = PlanIncomplete,
                    tb_reason = ''User feedback requires a new canonical plan revision.'',
                    tb_evidence_refs = [], tb_recoverable = True\<rparr>) (\<lambda>b.
                 Inr (filter (\<lambda>b. tb_kind b \<noteq> PlanIncomplete) waiting @ [b]))
            else Inr waiting) (\<lambda>blockers.
     bindE (with_task s (task
              \<lparr>ts_current_goal := (case ui_current_goal ob of None \<Rightarrow> ts_current_goal task
                                   | Some g \<Rightarrow> g),
               ts_status := (if ts_status task = TaskBlocked then TaskActive else ts_status task),
               ts_blockers := blockers\<rparr>)) (\<lambda>s1.
     bindE (reset_no_progress s1) (\<lambda>s2.
     bindE (mk_event ''user_input_received'' [] []) (\<lambda>ev.
     Inr (reduction s2 [ev] []))))))"

definition reduce_cancellation ::
  "core_state \<Rightarrow> cancellation_observation \<Rightarrow> core_reduction result" where
  "reduce_cancellation s ob =
     bindE (failure_record_post_init
              \<lparr>fr_code = ''run.cancelled'', fr_source = ''runtime'', fr_message = ca_reason ob,
               fr_recoverable = False, fr_evidence_refs = [ca_observation_id ob]\<rparr>) (\<lambda>f.
     bindE (record_failure s f) (\<lambda>s1.
     bindE (mk_event ''cancellation_observed'' [(''reason'', PStr (ca_reason ob))] []) (\<lambda>ev.
     Inr (reduction s1 [ev] []))))"

fun reduce_by_kind ::
  "core_state \<Rightarrow> core_observation \<Rightarrow> reduction_context \<Rightarrow> core_reduction result" where
  "reduce_by_kind s (ModelObservation m) ctx = reduce_model s m"
| "reduce_by_kind s (ToolBatchObservation t) ctx = reduce_tools s t ctx"
| "reduce_by_kind s (UserInputObservation u) ctx = reduce_user_input s u"
| "reduce_by_kind s (CommandObservation c) ctx = apply_core_command s (co_command c) ctx"
| "reduce_by_kind s (CancellationObservation c) ctx = reduce_cancellation s c"

definition reduce_observation ::
  "core_state \<Rightarrow> core_observation \<Rightarrow> reduction_context \<Rightarrow> core_reduction result" where
  "reduce_observation s ob ctx =
     (if observation_id ob \<in> set (ol_applied_observation_ids (rf_observation_ledger (cs_facts s)))
      then Inr (reduction s [] [])
      else
     bindE (reduce_by_kind s ob ctx) (\<lambda>red.
     bindE (ledger_append (red_state red) (observation_id ob)) (\<lambda>s1.
     Inr (red\<lparr>red_state := s1\<rparr>))))"

section \<open>Decisions\<close>

fun termination_task_status :: "termination_status \<Rightarrow> task_status" where
  "termination_task_status TermCompleted = TaskSatisfied"
| "termination_task_status TermFailed = TaskBlocked"
| "termination_task_status TermCancelled = TaskAbandoned"

fun termination_event_kind :: "termination_status \<Rightarrow> string" where
  "termination_event_kind TermCompleted = ''task_satisfied''"
| "termination_event_kind TermFailed = ''task_blocked''"
| "termination_event_kind TermCancelled = ''task_abandoned''"

definition terminated_plan ::
  "plan_state option \<Rightarrow> termination_status \<Rightarrow> plan_state option result" where
  "terminated_plan plan status =
     (case plan of
        None \<Rightarrow> Inr None
      | Some p \<Rightarrow>
          if status = TermCompleted \<and> ps_status p = PlanActive \<and>
             list_all (\<lambda>st. st_status st = StepCompleted) (ps_steps p)
          then mapE Some (plan_state_post_init
                 (p\<lparr>ps_status := PlanCompleted, ps_revision := ps_revision p + 1\<rparr>))
          else if status \<in> {TermFailed, TermCancelled} \<and> ps_status p \<in> {PlanProposed, PlanActive}
          then mapE Some (plan_state_post_init
                 (p\<lparr>ps_status := PlanAbandoned, ps_pending_revision := None,
                    ps_close_request := None, ps_revision := ps_revision p + 1\<rparr>))
          else Inr (Some p))"

fun apply_decision :: "core_state \<Rightarrow> core_decision \<Rightarrow> core_reduction result" where
  "apply_decision s (CallModel purpose directive reason) =
     (if purpose \<noteq> PurposeRecovery then Inr (reduction s [] [])
      else
     bindE (core_counters_post_init
              ((rf_counters (cs_facts s))\<lparr>cc_total_recoveries :=
                 cc_total_recoveries (rf_counters (cs_facts s)) + 1\<rparr>)) (\<lambda>counters.
     bindE (with_facts s ((cs_facts s)\<lparr>rf_counters := counters\<rparr>)) (\<lambda>s1.
     bindE (mk_event ''recovery_requested'' [(''reason'', PStr (cr_code reason))] []) (\<lambda>ev.
     Inr (reduction s1 [ev] [])))))"
| "apply_decision s (ExecuteTools calls reason) = Inr (reduction s [] [])"
| "apply_decision s (Wait w) = Inr (reduction s [] [])"
| "apply_decision s (Terminate t) =
     bindE (terminated_plan (ts_plan (cs_task s)) (te_term_status t)) (\<lambda>plan.
     bindE (with_task s ((cs_task s)
              \<lparr>ts_status := termination_task_status (te_term_status t), ts_plan := plan,
               ts_blockers := (if te_term_status t = TermCompleted then []
                               else ts_blockers (cs_task s))\<rparr>)) (\<lambda>s1.
     bindE (termination_reason t) (\<lambda>reason.
     bindE (mk_event (termination_event_kind (te_term_status t))
              [(''reason'', PStr (cr_code reason))] []) (\<lambda>ev.
     Inr (reduction s1 [ev] [])))))"

end
