(* ===== verification/Reducer_Facts.thy ===== *)
theory Reducer_Facts
  imports Core_Reducer
begin

text \<open>
  The handlers of \<open>Core_Reducer\<close> on well-formed states: what each building block returns
  (none of them raises there), and that a handler's result is well formed again.
\<close>

section \<open>Replacement on well-formed states\<close>

lemma wf_core_state_parts:
  assumes "wf_core_state s"
  shows "cs_schema_version s = CORE_STATE_SCHEMA_VERSION" "wf_task_state (cs_task s)"
    "wf_run_facts (cs_facts s)"
  using assms by (simp_all add: wf_core_state_def)

lemma wf_run_facts_parts:
  assumes "wf_run_facts f"
  shows "wf_core_counters (rf_counters f)" "wf_workspace_facts (rf_workspace f)"
    "wf_verification_facts (rf_verification f)" "wf_failure_facts (rf_failures f)"
    "wf_loop_guard_facts (rf_loop_guards f)" "wf_observation_ledger (rf_observation_ledger f)"
  using assms by (simp_all add: wf_run_facts_def)

lemmas wf_parts = wf_core_state_parts wf_run_facts_parts

lemma with_facts_eq:
  "wf_core_state s \<Longrightarrow> with_facts s f = Inr (s\<lparr>cs_facts := f\<rparr>)"
  by (simp add: with_facts_def core_state_post_init_def wf_core_state_def)

lemma with_task_eq:
  "wf_core_state s \<Longrightarrow> wf_task_state t \<Longrightarrow> with_task s t = Inr (s\<lparr>cs_task := t\<rparr>)"
  by (simp add: with_task_def core_state_post_init_def wf_core_state_def)

lemma wf_set_facts [simp]:
  "wf_core_state s \<Longrightarrow> wf_core_state (s\<lparr>cs_facts := f\<rparr>) \<longleftrightarrow> wf_run_facts f"
  by (simp add: wf_core_state_def)

lemma wf_set_task [simp]:
  "wf_core_state s \<Longrightarrow> wf_core_state (s\<lparr>cs_task := t\<rparr>) \<longleftrightarrow> wf_task_state t"
  by (simp add: wf_core_state_def)

lemma wf_set_fact_parts [simp]:
  assumes "wf_run_facts f"
  shows "wf_run_facts (f\<lparr>rf_counters := c\<rparr>) \<longleftrightarrow> wf_core_counters c"
    "wf_run_facts (f\<lparr>rf_workspace := w\<rparr>) \<longleftrightarrow> wf_workspace_facts w"
    "wf_run_facts (f\<lparr>rf_verification := v\<rparr>) \<longleftrightarrow> wf_verification_facts v"
    "wf_run_facts (f\<lparr>rf_failures := x\<rparr>) \<longleftrightarrow> wf_failure_facts x"
    "wf_run_facts (f\<lparr>rf_loop_guards := g\<rparr>) \<longleftrightarrow> wf_loop_guard_facts g"
    "wf_run_facts (f\<lparr>rf_observation_ledger := l\<rparr>) \<longleftrightarrow> wf_observation_ledger l"
  using assms by (simp_all add: wf_run_facts_def)

lemma wf_set_blockers:
  "wf_task_state t \<Longrightarrow> (\<forall>b \<in> set bs. wf_task_blocker b) \<Longrightarrow> wf_task_state (t\<lparr>ts_blockers := bs\<rparr>)"
  by (simp add: wf_task_state_def)

lemma wf_set_plan:
  "wf_task_state t \<Longrightarrow> wf_plan_state p \<Longrightarrow> wf_task_state (t\<lparr>ts_plan := Some p\<rparr>)"
  by (simp add: wf_task_state_def)

lemma wf_blockers: "wf_core_state s \<Longrightarrow> b \<in> set (ts_blockers (cs_task s)) \<Longrightarrow> wf_task_blocker b"
  by (simp add: wf_core_state_def wf_task_state_def)

lemma wf_plan: "wf_core_state s \<Longrightarrow> ts_plan (cs_task s) = Some p \<Longrightarrow> wf_plan_state p"
  by (simp add: wf_core_state_def wf_task_state_def)

section \<open>Blockers\<close>

definition without_blocker :: "blocker_kind \<Rightarrow> core_state \<Rightarrow> core_state" where
  "without_blocker kind s =
     s\<lparr>cs_task := (cs_task s)\<lparr>ts_blockers :=
       filter (\<lambda>b. tb_kind b \<noteq> kind) (ts_blockers (cs_task s))\<rparr>\<rparr>"

definition having_blocker :: "task_blocker \<Rightarrow> core_state \<Rightarrow> core_state" where
  "having_blocker b s =
     s\<lparr>cs_task := (cs_task s)\<lparr>ts_blockers :=
       filter (\<lambda>c. tb_kind c \<noteq> tb_kind b) (ts_blockers (cs_task s)) @ [b]\<rparr>\<rparr>"

lemma without_blocker_wf [simp]: "wf_core_state s \<Longrightarrow> wf_core_state (without_blocker k s)"
  by (auto simp: without_blocker_def wf_core_state_def wf_task_state_def)

lemma having_blocker_wf [simp]:
  "wf_core_state s \<Longrightarrow> wf_task_blocker b \<Longrightarrow> wf_core_state (having_blocker b s)"
  by (auto simp: having_blocker_def wf_core_state_def wf_task_state_def)

lemma remove_blocker_eq: "wf_core_state s \<Longrightarrow> remove_blocker s k = Inr (without_blocker k s)"
  by (simp add: remove_blocker_def without_blocker_def with_task_eq wf_set_blockers wf_parts
      wf_blockers)

lemma put_blocker_eq:
  "wf_core_state s \<Longrightarrow> wf_task_blocker b \<Longrightarrow> put_blocker s b = Inr (having_blocker b s)"
  by (simp add: put_blocker_def having_blocker_def with_task_eq wf_set_blockers wf_parts
      wf_blockers)

lemma blocker_frame [simp]:
  "cs_facts (without_blocker k s) = cs_facts s"
  "cs_facts (having_blocker b s) = cs_facts s"
  "ts_plan (cs_task (without_blocker k s)) = ts_plan (cs_task s)"
  "ts_plan (cs_task (having_blocker b s)) = ts_plan (cs_task s)"
  "ts_status (cs_task (without_blocker k s)) = ts_status (cs_task s)"
  "ts_status (cs_task (having_blocker b s)) = ts_status (cs_task s)"
  "ts_blockers (cs_task (without_blocker k s)) =
     filter (\<lambda>b. tb_kind b \<noteq> k) (ts_blockers (cs_task s))"
  "ts_blockers (cs_task (having_blocker b s)) =
     filter (\<lambda>c. tb_kind c \<noteq> tb_kind b) (ts_blockers (cs_task s)) @ [b]"
  "cs_schema_version (without_blocker k s) = cs_schema_version s"
  "cs_schema_version (having_blocker b s) = cs_schema_version s"
  by (simp_all add: without_blocker_def having_blocker_def)

section \<open>No-progress guard and ledger\<close>

definition progressed :: "core_state \<Rightarrow> core_state" where
  "progressed s =
     s\<lparr>cs_facts := (cs_facts s)\<lparr>rf_loop_guards :=
       (rf_loop_guards (cs_facts s))\<lparr>lg_repeated_no_progress := 0\<rparr>\<rparr>\<rparr>"

lemma progressed_wf [simp]: "wf_core_state s \<Longrightarrow> wf_core_state (progressed s)"
  by (simp add: progressed_def wf_core_state_def wf_run_facts_def wf_loop_guard_facts_def)

lemma reset_no_progress_eq: "wf_core_state s \<Longrightarrow> reset_no_progress s = Inr (progressed s)"
proof -
  assume w: "wf_core_state s"
  let ?g = "(rf_loop_guards (cs_facts s))\<lparr>lg_repeated_no_progress := 0\<rparr>"
  have "wf_loop_guard_facts ?g"
    using w by (simp add: wf_core_state_def wf_run_facts_def wf_loop_guard_facts_def)
  then have "loop_guard_facts_post_init ?g = Inr ?g" by (rule loop_guard_facts.valid_post_init)
  then show ?thesis using w by (simp add: reset_no_progress_def progressed_def with_facts_eq)
qed

lemma progressed_frame [simp]:
  "cs_task (progressed s) = cs_task s"
  "rf_counters (cs_facts (progressed s)) = rf_counters (cs_facts s)"
  "rf_workspace (cs_facts (progressed s)) = rf_workspace (cs_facts s)"
  "rf_verification (cs_facts (progressed s)) = rf_verification (cs_facts s)"
  "rf_failures (cs_facts (progressed s)) = rf_failures (cs_facts s)"
  "rf_observation_ledger (cs_facts (progressed s)) = rf_observation_ledger (cs_facts s)"
  "lg_repeated_no_progress (rf_loop_guards (cs_facts (progressed s))) = 0"
  "lg_seen_tool_call_ids (rf_loop_guards (cs_facts (progressed s))) =
     lg_seen_tool_call_ids (rf_loop_guards (cs_facts s))"
  by (simp_all add: progressed_def)

definition applied_ids :: "core_state \<Rightarrow> string list" where
  "applied_ids s = ol_applied_observation_ids (rf_observation_ledger (cs_facts s))"

definition noted :: "string \<Rightarrow> core_state \<Rightarrow> core_state" where
  "noted oid s =
     s\<lparr>cs_facts := (cs_facts s)\<lparr>rf_observation_ledger :=
       \<lparr>ol_applied_observation_ids = dedup (applied_ids s @ [oid])\<rparr>\<rparr>\<rparr>"

lemma wf_ledger: "wf_core_state s \<Longrightarrow> canon_texts py_strip (applied_ids s)"
  by (simp add: wf_core_state_def wf_run_facts_def wf_observation_ledger_def applied_ids_def)

lemma canon_texts_dedup:
  "(\<forall>t \<in> set ts. canon_text n t) \<Longrightarrow> canon_texts n (dedup ts)"
  by (simp add: canon_texts_def)

lemma dedup_snoc: "distinct xs \<Longrightarrow> dedup (xs @ [x]) = (if x \<in> set xs then xs else xs @ [x])"
  by (simp add: dedup_append dedup_id)

lemma noted_wf [simp]:
  "wf_core_state s \<Longrightarrow> canon_text py_strip oid \<Longrightarrow> wf_core_state (noted oid s)"
  using wf_ledger [of s]
  by (auto simp: noted_def wf_parts wf_observation_ledger_def canon_texts_def
      intro!: canon_texts_dedup)

lemma ledger_append_eq:
  "wf_core_state s \<Longrightarrow> canon_text py_strip oid \<Longrightarrow> ledger_append s oid = Inr (noted oid s)"
  using wf_ledger [of s]
  by (auto simp: ledger_append_def noted_def observation_ledger_post_init_def with_facts_eq
      applied_ids_def st_text_tuple_canon_list canon_texts_def)

lemma noted_frame [simp]:
  "cs_task (noted oid s) = cs_task s"
  "rf_counters (cs_facts (noted oid s)) = rf_counters (cs_facts s)"
  "rf_workspace (cs_facts (noted oid s)) = rf_workspace (cs_facts s)"
  "rf_verification (cs_facts (noted oid s)) = rf_verification (cs_facts s)"
  "rf_failures (cs_facts (noted oid s)) = rf_failures (cs_facts s)"
  "rf_loop_guards (cs_facts (noted oid s)) = rf_loop_guards (cs_facts s)"
  by (simp_all add: noted_def)

lemma applied_ids_noted: "set (applied_ids (noted oid s)) = insert oid (set (applied_ids s))"
  by (auto simp: noted_def applied_ids_def)

lemma applied_ids_frame [simp]:
  "applied_ids (without_blocker k s) = applied_ids s"
  "applied_ids (having_blocker b s) = applied_ids s"
  "applied_ids (progressed s) = applied_ids s"
  by (simp_all add: applied_ids_def)

section \<open>Failures\<close>

definition count_pairs :: "failure_count list \<Rightarrow> (string \<times> int) list" where
  "count_pairs cs = map (\<lambda>c. (fc_code c, fc_count c)) cs"

definition counts_of :: "(string \<times> int) list \<Rightarrow> failure_count list" where
  "counts_of ps = map (\<lambda>(code, n). \<lparr>fc_code = code, fc_count = n\<rparr>) ps"

definition failed_with :: "failure_record \<Rightarrow> core_state \<Rightarrow> core_state" where
  "failed_with f s =
     s\<lparr>cs_facts := (cs_facts s)\<lparr>rf_failures :=
       \<lparr>ff_latest = Some f,
        ff_counts = sort_key fc_code
          (counts_of (bump_count (fr_code f) (ff_counts (rf_failures (cs_facts s)))))\<rparr>\<rparr>\<rparr>"

lemma count_pairs_keys [simp]: "map fst (count_pairs cs) = map fc_code cs"
  by (simp add: count_pairs_def)

lemma counts_of_codes [simp]: "map fc_code (counts_of ps) = map fst ps"
  by (auto simp: counts_of_def)

lemma count_pairs_counts_of [simp]: "count_pairs (counts_of ps) = ps"
  by (induction ps) (auto simp: counts_of_def count_pairs_def)

lemma count_for_map_of:
  "count_for f code = (case map_of (count_pairs (ff_counts f)) code of None \<Rightarrow> 0 | Some n \<Rightarrow> n)"
proof -
  have "(case find (\<lambda>c. fc_code c = code) cs of None \<Rightarrow> 0 | Some c \<Rightarrow> fc_count c) =
        (case map_of (count_pairs cs) code of None \<Rightarrow> 0 | Some n \<Rightarrow> n)" for cs
    by (induction cs) (auto simp: count_pairs_def)
  then show ?thesis by (simp add: count_for_def)
qed

lemma bump_count_distinct:
  "distinct (map fc_code cs) \<Longrightarrow>
   bump_count code cs = AList.update code
     ((case map_of (count_pairs cs) code of None \<Rightarrow> 0 | Some n \<Rightarrow> n) + 1) (count_pairs cs)"
  using dict_of_distinct [of "count_pairs cs"]
  by (simp add: bump_count_def Let_def count_pairs_def [symmetric])

lemma bump_count_entries:
  assumes "wf_failure_facts x" and "canon_text py_strip code"
    and "(c, n) \<in> set (bump_count code (ff_counts x))"
  shows "canon_text py_strip c \<and> 0 < n"
proof -
  have d: "distinct (map fc_code (ff_counts x))" and
    pos: "\<forall>c \<in> set (ff_counts x). wf_failure_count c"
    using assms(1) by (simp_all add: wf_failure_facts_def)
  have pairs: "canon_text py_strip c \<and> 0 < n" if "(c, n) \<in> set (count_pairs (ff_counts x))" for c n
    using that pos by (auto simp: count_pairs_def wf_failure_count_def)
  have "0 < (case map_of (count_pairs (ff_counts x)) code of None \<Rightarrow> 0 | Some n \<Rightarrow> n) + 1"
    by (auto split: option.splits dest!: map_of_SomeD pairs)
  with assms(2,3) pairs show ?thesis
    using set_update_subset by (fastforce simp: bump_count_distinct [OF d])
qed

lemma wf_failures: "wf_core_state s \<Longrightarrow> wf_failure_facts (rf_failures (cs_facts s))"
  by (simp add: wf_parts)

lemma bump_count_distinct_keys:
  "distinct (map fc_code cs) \<Longrightarrow> distinct (map fst (bump_count code cs))"
  by (simp add: bump_count_distinct distinct_update)

lemma distinct_map_sort_key: "distinct (map f (sort_key f xs)) \<longleftrightarrow> distinct (map f xs)"
  by (simp add: distinct_map)

lemma failed_with_wf [simp]:
  assumes "wf_core_state s" and "wf_failure_record f"
  shows "wf_core_state (failed_with f s)"
proof -
  let ?cs = "counts_of (bump_count (fr_code f) (ff_counts (rf_failures (cs_facts s))))"
  have code: "canon_text py_strip (fr_code f)" using assms(2) by (simp add: wf_failure_record_def)
  have ok: "\<forall>c \<in> set ?cs. wf_failure_count c"
    by (auto simp: counts_of_def wf_failure_count_def
          dest: bump_count_entries [OF wf_failures [OF assms(1)] code])
  have "distinct (map fc_code (ff_counts (rf_failures (cs_facts s))))"
    using wf_failures [OF assms(1)] by (simp add: wf_failure_facts_def)
  then have d: "distinct (map fc_code ?cs)" by (simp add: bump_count_distinct_keys)
  then have "distinct (map fc_code (sort_key fc_code ?cs))"
    by (simp only: distinct_map_sort_key)
  with ok assms show ?thesis
    by (simp add: failed_with_def wf_parts wf_failure_facts_def)
qed

lemma record_failure_eq:
  assumes "wf_core_state s" and "wf_failure_record f"
  shows "record_failure s f = Inr (failed_with f s)"
proof -
  let ?b = "bump_count (fr_code f) (ff_counts (rf_failures (cs_facts s)))"
  have code: "canon_text py_strip (fr_code f)" using assms(2) by (simp add: wf_failure_record_def)
  have d: "distinct (map fc_code (ff_counts (rf_failures (cs_facts s))))"
    using wf_failures [OF assms(1)] by (simp add: wf_failure_facts_def)
  have "traverse (\<lambda>(code, n). failure_count_post_init \<lparr>fc_code = code, fc_count = n\<rparr>) (map id ?b)
        = Inr (map (\<lambda>(code, n). \<lparr>fc_code = code, fc_count = n\<rparr>) ?b)"
    by (intro traverse_map_Inr)
       (auto simp: failure_count_post_init_def
          dest: bump_count_entries [OF wf_failures [OF assms(1)] code])
  moreover have "failure_facts_post_init \<lparr>ff_latest = Some f, ff_counts = counts_of ?b\<rparr> =
      Inr \<lparr>ff_latest = Some f, ff_counts = sort_key fc_code (counts_of ?b)\<rparr>"
    using d by (simp add: failure_facts_post_init_Inr bump_count_distinct_keys)
  ultimately show ?thesis
    using assms(1)
    by (simp add: record_failure_def failed_with_def with_facts_eq counts_of_def)
qed

lemma failed_with_frame [simp]:
  "cs_task (failed_with f s) = cs_task s"
  "rf_counters (cs_facts (failed_with f s)) = rf_counters (cs_facts s)"
  "rf_workspace (cs_facts (failed_with f s)) = rf_workspace (cs_facts s)"
  "rf_verification (cs_facts (failed_with f s)) = rf_verification (cs_facts s)"
  "rf_loop_guards (cs_facts (failed_with f s)) = rf_loop_guards (cs_facts s)"
  "rf_observation_ledger (cs_facts (failed_with f s)) = rf_observation_ledger (cs_facts s)"
  "applied_ids (failed_with f s) = applied_ids s"
  "ff_latest (rf_failures (cs_facts (failed_with f s))) = Some f"
  by (simp_all add: failed_with_def applied_ids_def)

text \<open>Recording a failure counts it, and only it.\<close>

lemma count_for_failed_with:
  assumes "wf_core_state s"
  shows "count_for (rf_failures (cs_facts (failed_with f s))) code =
         count_for (rf_failures (cs_facts s)) code + (if code = fr_code f then 1 else 0)"
proof -
  let ?cs = "ff_counts (rf_failures (cs_facts s))"
  let ?b = "bump_count (fr_code f) ?cs"
  have d: "distinct (map fc_code ?cs)"
    using wf_failures [OF assms] by (simp add: wf_failure_facts_def)
  let ?sorted = "sort_key fc_code (counts_of ?b)"
  have "map_of (count_pairs ?sorted) = map_of (count_pairs (counts_of ?b))"
  proof (rule map_of_inject_set [THEN iffD2])
    have "distinct (map fc_code (counts_of ?b))" using d by (simp add: bump_count_distinct_keys)
    then show "distinct (map fst (count_pairs (counts_of ?b)))"
      and "distinct (map fst (count_pairs ?sorted))"
      by (simp_all only: distinct_map_sort_key count_pairs_keys)
    show "set (count_pairs ?sorted) = set (count_pairs (counts_of ?b))"
      by (simp add: count_pairs_def)
  qed
  then show ?thesis
    by (simp add: count_for_map_of failed_with_def bump_count_distinct [OF d] update_conv')
qed

lemma failure_event_eq:
  "wf_failure_record f \<Longrightarrow>
   failure_event f = Inr
     \<lparr>ev_kind = ''failure_recorded'',
      ev_payload = [(''code'', PStr (fr_code f)), (''source'', PStr (fr_source f)),
                    (''recoverable'', PBool (fr_recoverable f))],
      ev_evidence_refs = fr_evidence_refs f\<rparr>"
  unfolding failure_event_def
  by (rule mk_event_ok)
     (simp add: event_ok_def canon_text_def runtime_envelope_fields_def wf_failure_record_def
        py_strip_fix stripped_def py_space_bits)

section \<open>Workspace facts\<close>

definition changes_workspace :: "tool_result \<Rightarrow> bool" where
  "changes_workspace r \<longleftrightarrow> (\<exists>e \<in> set (to_effects r). touches_workspace e)"

lemma summary_changed: "snd (workspace_effect_summary (to_effects r)) \<longleftrightarrow> changes_workspace r"
proof -
  obtain ps ch where s: "workspace_effect_summary (to_effects r) = (ps, ch)"
    by (cases "workspace_effect_summary (to_effects r)")
  from workspace_effect_summary_paths [OF s] have ch: "ch \<longleftrightarrow> ps \<noteq> []"
    and ps: "set ps = (\<lambda>e. tr_uri (te_resource e)) ` {e \<in> set (to_effects r). touches_workspace e}"
    by blast+
  have "ps \<noteq> [] \<longleftrightarrow> set ps \<noteq> {}" by simp
  then have "ch \<longleftrightarrow> {e \<in> set (to_effects r). touches_workspace e} \<noteq> {}"
    unfolding ch ps by simp
  then show ?thesis unfolding s changes_workspace_def by auto
qed

definition touched_paths :: "tool_result list \<Rightarrow> string set" where
  "touched_paths rs = (\<Union>r \<in> set rs. (\<lambda>e. workspace_path (tr_uri (te_resource e)))
                                       ` {e \<in> set (to_effects r). touches_workspace e})"

lemma scan_workspace_eq:
  "scan_workspace rs (ps, es, ch) =
   (ps @ concat (map (\<lambda>r. map workspace_path (fst (workspace_effect_summary (to_effects r)))) rs),
    es @ map to_tool_call_id (filter changes_workspace rs),
    ch \<or> list_ex changes_workspace rs)"
proof (induction rs arbitrary: ps es ch)
  case Nil
  show ?case by simp
next
  case (Cons r rs)
  show ?case
    using Cons summary_changed [of r]
    by (cases "workspace_effect_summary (to_effects r)") (simp add: Let_def)
qed

lemma reduce_workspace_cases:
  assumes "reduce_workspace w rs = Inr (w', ch)"
  shows "ch \<longleftrightarrow> list_ex changes_workspace rs"
    and "\<not> ch \<Longrightarrow> w' = w"
    and "ch \<Longrightarrow> wk_revision w' = wk_revision w + 1 \<and> wk_changed w'"
  using assms
  by (auto simp: reduce_workspace_def scan_workspace_eq mapE_eq_Inr workspace_facts_post_init_def
      bindE_eq_Inr split: if_splits)

lemma reduce_workspace_wf:
  "reduce_workspace w rs = Inr (w', ch) \<Longrightarrow> wf_workspace_facts w \<Longrightarrow> wf_workspace_facts w'"
  by (auto simp: reduce_workspace_def scan_workspace_eq mapE_eq_Inr
      dest: workspace_facts.post_init_valid split: if_splits)

lemma st_text_tuple_map: "st_text_tuple vs = Inr ts \<Longrightarrow> ts = dedup (map py_strip vs)"
  unfolding st_text_tuple_def by (rule text_tuple_map)

lemma canon_texts_map_strip: "canon_texts py_strip ts \<Longrightarrow> py_strip ` set ts = set ts"
  by (auto simp: canon_texts_def canon_text_def image_iff)

text \<open>The affected paths grow by the paths of the effects, and nothing else.\<close>

lemma reduce_workspace_paths:
  assumes "reduce_workspace w rs = Inr (w', True)" and "wf_workspace_facts w"
  shows "set (wk_affected_paths w') =
         set (wk_affected_paths w) \<union> py_strip ` touched_paths rs"
proof -
  let ?ps = "concat (map (\<lambda>r. map workspace_path (fst (workspace_effect_summary (to_effects r)))) rs)"
  obtain ts where ts: "st_text_tuple (wk_affected_paths w @ ?ps) = Inr ts"
    and w': "wk_affected_paths w' = sorted_set ts"
    using assms(1)
    by (auto simp: reduce_workspace_def scan_workspace_eq mapE_eq_Inr
        workspace_facts_post_init_def bindE_eq_Inr split: if_splits)
  have "workspace_path ` set (fst (workspace_effect_summary (to_effects r))) =
        (\<lambda>e. workspace_path (tr_uri (te_resource e)))
          ` {e \<in> set (to_effects r). touches_workspace e}" for r :: tool_result
    using workspace_effect_summary_paths [of "to_effects r"]
    by (cases "workspace_effect_summary (to_effects r)") (simp add: image_image)
  then have "set ?ps = touched_paths rs"
    unfolding touched_paths_def set_concat set_map image_image by simp
  moreover have "set ts = py_strip ` set (wk_affected_paths w) \<union> py_strip ` set ?ps"
    using st_text_tuple_map [OF ts] by (simp add: image_Un)
  moreover have "py_strip ` set (wk_affected_paths w) = set (wk_affected_paths w)"
    using assms(2) by (intro canon_texts_map_strip) (simp add: wf_workspace_facts_def)
  ultimately show ?thesis by (simp add: w')
qed

section \<open>Verification facts\<close>

lemma verification_from_report_wf:
  "verification_from_report d cid w ch = Inr v \<Longrightarrow> wf_verification_facts v"
  by (auto simp: verification_from_report_def Let_def split: prod.splits if_splits
      dest: verification_facts.post_init_valid)

lemma scan_verification_wf:
  "scan_verification rs w ch v = Inr v' \<Longrightarrow> wf_verification_facts v \<Longrightarrow> wf_verification_facts v'"
proof (induction rs arbitrary: v)
  case Nil
  then show ?case by simp
next
  case (Cons r rs)
  then show ?case
    by (cases "dget (to_data r) ''verification''")
       (auto simp: bindE_eq_Inr dest: verification_from_report_wf)
qed

lemma reduce_verification_wf:
  "reduce_verification v rs w ch = Inr v' \<Longrightarrow> wf_verification_facts v \<Longrightarrow> wf_verification_facts v'"
  by (auto simp: reduce_verification_def bindE_eq_Inr split: if_splits
      dest: scan_verification_wf verification_facts.post_init_valid)

text \<open>The explicit revision of a report, as \<^verbatim>\<open>explicit_revision == workspace.revision\<close> reads it.\<close>

definition reports_revision :: "tool_result \<Rightarrow> int \<Rightarrow> bool" where
  "reports_revision r n \<longleftrightarrow>
     (case dget (to_data r) ''verification'' of
        PDict d \<Rightarrow> py_equals_int (dget d ''verified_revision'') n | _ \<Rightarrow> False)"

definition fresh_or_reported :: "tool_result list \<Rightarrow> workspace_facts \<Rightarrow> verification_facts \<Rightarrow> bool" where
  "fresh_or_reported rs w v \<longleftrightarrow>
     vf_status v = VPassed \<longrightarrow>
       (\<exists>r \<in> set rs. reports_revision r (wk_revision w)) \<and>
       vf_verified_revision v = Some (wk_revision w)"

lemma verification_facts_post_init_keeps:
  "verification_facts_post_init x = Inr v \<Longrightarrow>
   vf_status v = vf_status x \<and> vf_verified_revision v = vf_verified_revision x"
  by (auto simp: verification_facts_post_init_def bindE_eq_Inr Let_def split: if_splits)

lemma verification_from_report_changed:
  assumes "verification_from_report d cid w True = Inr v" and "vf_status v = VPassed"
  shows "py_equals_int (dget d ''verified_revision'') (wk_revision w) \<and>
         vf_verified_revision v = Some (wk_revision w)"
proof (cases "py_equals_int (dget d ''verified_revision'') (wk_revision w)")
  case True
  then show ?thesis
    using assms
    by (cases "dget d ''verified_revision''")
       (auto simp: verification_from_report_def Let_def simp del: py_truth.simps py_str.simps
          dest!: verification_facts_post_init_keeps)
next
  case False
  then show ?thesis
    using assms
    by (auto simp: verification_from_report_def Let_def simp del: py_truth.simps py_str.simps
        dest!: verification_facts_post_init_keeps split: if_splits)
qed

lemma scan_verification_changed:
  "scan_verification rs w True v = Inr v' \<Longrightarrow> vf_status v \<noteq> VPassed \<Longrightarrow> fresh_or_reported rs w v'"
proof -
  have "vf_status v' = VPassed \<longrightarrow>
        (vf_status v = VPassed \<and> vf_verified_revision v' = vf_verified_revision v) \<or>
        ((\<exists>r \<in> set rs. reports_revision r (wk_revision w)) \<and>
         vf_verified_revision v' = Some (wk_revision w))"
    if "scan_verification rs w True v = Inr v'" for v
    using that
  proof (induction rs arbitrary: v)
    case Nil
    then show ?case by simp
  next
    case (Cons r rs)
    show ?case
    proof (cases "\<exists>d. dget (to_data r) ''verification'' = PDict d")
      case True
      then obtain d where d: "dget (to_data r) ''verification'' = PDict d" by blast
      with Cons.prems obtain u where u: "verification_from_report d (to_tool_call_id r) w True = Inr u"
        and rest: "scan_verification rs w True u = Inr v'"
        by (auto simp: bindE_eq_Inr)
      have "vf_status u = VPassed \<longrightarrow> reports_revision r (wk_revision w) \<and>
            vf_verified_revision u = Some (wk_revision w)"
        using verification_from_report_changed [OF u] d by (auto simp: reports_revision_def)
      with Cons.IH [OF rest] show ?thesis by auto
    next
      case False
      then have "scan_verification (r # rs) w True v = scan_verification rs w True v"
        by (cases "dget (to_data r) ''verification''") auto
      with Cons show ?thesis by auto
    qed
  qed
  then show "scan_verification rs w True v = Inr v' \<Longrightarrow> vf_status v \<noteq> VPassed \<Longrightarrow>
    fresh_or_reported rs w v'"
    by (auto simp: fresh_or_reported_def)
qed

lemma reduce_verification_changed:
  "reduce_verification v rs w True = Inr v' \<Longrightarrow> fresh_or_reported rs w v'"
  by (auto simp: reduce_verification_def bindE_eq_Inr verification_facts_post_init_def Let_def
      split: if_splits dest!: scan_verification_changed)

lemma reduce_verification_unchanged:
  "reduce_verification v rs w False = Inr v' \<Longrightarrow>
   (\<forall>r \<in> set rs. \<not> is_mapping (dget (to_data r) ''verification'')) \<Longrightarrow> v' = v"
proof -
  have "scan_verification rs w False v = Inr v"
    if "\<forall>r \<in> set rs. \<not> is_mapping (dget (to_data r) ''verification'')"
    using that
  proof (induction rs)
    case Nil
    show ?case by simp
  next
    case (Cons r rs)
    then show ?case by (cases "dget (to_data r) ''verification''") auto
  qed
  then show "reduce_verification v rs w False = Inr v' \<Longrightarrow>
    (\<forall>r \<in> set rs. \<not> is_mapping (dget (to_data r) ''verification'')) \<Longrightarrow> v' = v"
    by (simp add: reduce_verification_def)
qed

end
