(* ===== verification/Plan_Lifecycle.thy ===== *)
theory Plan_Lifecycle
  imports Reducer_Facts
begin

text \<open>
  The abstract life of a plan: a step relation on plan states that says, rule by rule, what
  a core command may do to the canonical plan, and the proof that every handler of
  \<open>Core_Reducer\<close> refines it. Revision numbers, terminal statuses, step progress and
  evidence are then read off the relation by rule induction.
\<close>

section \<open>The relation\<close>

definition next_revision :: "plan_state \<Rightarrow> plan_state \<Rightarrow> bool" where
  "next_revision p q \<longleftrightarrow>
     ps_plan_id q = ps_plan_id p \<and> ps_origin q = ps_origin p \<and>
     ps_revision q = ps_revision p + 1 \<and> ps_schema_version q = ps_schema_version p"

text \<open>A step under progress keeps its identity and text; a completed one stays completed; a
  step that is touched and completed has a note, and evidence the state knows.\<close>

definition step_advances :: "string set \<Rightarrow> plan_step \<Rightarrow> plan_step \<Rightarrow> bool" where
  "step_advances known st st' \<longleftrightarrow>
     st_step_id st' = st_step_id st \<and> step_key st' = step_key st \<and>
     (st_status st = StepCompleted \<longrightarrow> st_status st' = StepCompleted) \<and>
     (st' = st \<or>
      (st_status st' = StepCompleted \<longrightarrow>
         st_completion_note st' \<noteq> [] \<and> set (st_evidence_refs st') \<subseteq> plan_clean ` known))"

datatype plan_label =
    LCreate | LResubmit | LProgress | LRevise | LPropose | LClose | LApprove | LReject
  | LApproveRevision | LRejectRevision | LAbandon

inductive plan_transition :: "string set \<Rightarrow> plan_label \<Rightarrow> plan_state \<Rightarrow> plan_state \<Rightarrow> bool"
  for known where
  resubmit:
    "\<lbrakk>ps_status p = PlanProposed; ps_status q = PlanProposed; next_revision p q;
      ps_pending_revision q = None; ps_close_request q = None\<rbrakk> \<Longrightarrow> plan_transition known LResubmit p q"
| progress:
    "\<lbrakk>ps_status p = PlanActive; ps_status q = PlanActive; next_revision p q;
      ps_definition q = ps_definition p; ps_pending_revision q = ps_pending_revision p;
      ps_close_request q = None; list_all2 (step_advances known) (ps_steps p) (ps_steps q)\<rbrakk>
     \<Longrightarrow> plan_transition known LProgress p q"
| revise:
    "\<lbrakk>ps_status p = PlanActive; ps_origin p = OriginBuildMode; ps_pending_revision p = None;
      ps_status q = PlanActive; next_revision p q; ps_pending_revision q = None;
      ps_close_request q = None\<rbrakk> \<Longrightarrow> plan_transition known LRevise p q"
| propose:
    "\<lbrakk>ps_status p = PlanActive; ps_pending_revision p = None;
      pr_proposed_at_revision r = ps_revision p;
      q = p\<lparr>ps_pending_revision := Some r, ps_revision := ps_revision p + 1\<rparr>\<rbrakk>
     \<Longrightarrow> plan_transition known LPropose p q"
| request_close:
    "\<lbrakk>ps_status p = PlanActive; \<forall>st \<in> set (ps_steps p). st_status st = StepCompleted;
      set (cr_evidence_refs c) \<subseteq> plan_clean ` known; cr_evidence_refs c \<noteq> [];
      q = p\<lparr>ps_close_request := Some c, ps_revision := ps_revision p + 1\<rparr>\<rbrakk>
     \<Longrightarrow> plan_transition known LClose p q"
| approve:
    "\<lbrakk>ps_status p = PlanProposed;
      q = p\<lparr>ps_status := PlanActive, ps_revision := ps_revision p + 1\<rparr>\<rbrakk>
     \<Longrightarrow> plan_transition known LApprove p q"
| reject:
    "\<lbrakk>ps_status p = PlanProposed;
      q = p\<lparr>ps_status := PlanRejected, ps_revision := ps_revision p + 1\<rparr>\<rbrakk>
     \<Longrightarrow> plan_transition known LReject p q"
| approve_revision:
    "\<lbrakk>ps_pending_revision p = Some r;
      q = p\<lparr>ps_definition := pr_definition r,
            ps_steps := preserve_matching_steps (ps_steps p) (pr_steps r),
            ps_pending_revision := None, ps_close_request := None,
            ps_revision := ps_revision p + 1\<rparr>\<rbrakk> \<Longrightarrow> plan_transition known LApproveRevision p q"
| reject_revision:
    "\<lbrakk>ps_pending_revision p \<noteq> None;
      q = p\<lparr>ps_pending_revision := None, ps_revision := ps_revision p + 1\<rparr>\<rbrakk>
     \<Longrightarrow> plan_transition known LRejectRevision p q"
| abandon:
    "\<lbrakk>ps_status p \<in> {PlanProposed, PlanActive};
      q = p\<lparr>ps_status := PlanAbandoned, ps_pending_revision := None, ps_close_request := None,
            ps_revision := ps_revision p + 1\<rparr>\<rbrakk> \<Longrightarrow> plan_transition known LAbandon p q"

inductive_cases progress_elim: "plan_transition known LProgress p q"
inductive_cases revise_elim: "plan_transition known LRevise p q"
inductive_cases propose_elim: "plan_transition known LPropose p q"
inductive_cases close_elim: "plan_transition known LClose p q"
inductive_cases approve_revision_elim: "plan_transition known LApproveRevision p q"
inductive_cases create_elim: "plan_transition known LCreate p q"

text \<open>A new plan.\<close>

definition created_plan :: "plan_state \<Rightarrow> bool" where
  "created_plan p \<longleftrightarrow>
     ps_revision p = 1 \<and> ps_pending_revision p = None \<and> ps_close_request p = None \<and>
     (ps_origin p = OriginPlanMode \<and> ps_status p = PlanProposed \<or>
      ps_origin p = OriginBuildMode \<and> ps_status p = PlanActive) \<and>
     (\<forall>st \<in> set (ps_steps p). st_status st = StepPending)"

definition plan_moves ::
  "string set \<Rightarrow> plan_label \<Rightarrow> plan_state option \<Rightarrow> plan_state \<Rightarrow> bool" where
  "plan_moves known l p q \<longleftrightarrow>
     (case p of None \<Rightarrow> l = LCreate \<and> created_plan q | Some p \<Rightarrow> plan_transition known l p q)"

lemma plan_transition_next: "plan_transition known l p q \<Longrightarrow> next_revision p q"
  by (induction rule: plan_transition.induct) (simp_all add: next_revision_def)

definition terminal_plan :: "plan_status \<Rightarrow> bool" where
  "terminal_plan st \<longleftrightarrow> st \<in> {PlanCompleted, PlanRejected, PlanAbandoned}"

text \<open>A pending revision belongs to an active plan.\<close>

definition pending_ok :: "plan_state option \<Rightarrow> bool" where
  "pending_ok p \<longleftrightarrow>
     (case p of None \<Rightarrow> True
      | Some p \<Rightarrow> ps_pending_revision p \<noteq> None \<longrightarrow> ps_status p = PlanActive)"

lemma plan_transition_pending:
  "plan_transition known l p q \<Longrightarrow> pending_ok (Some p) \<Longrightarrow> pending_ok (Some q)"
  by (induction rule: plan_transition.induct) (auto simp: pending_ok_def)

lemma plan_transition_terminal:
  "plan_transition known l p q \<Longrightarrow> pending_ok (Some p) \<Longrightarrow> \<not> terminal_plan (ps_status p)"
  by (induction rule: plan_transition.induct) (auto simp: pending_ok_def terminal_plan_def)

section \<open>Building blocks of the handlers\<close>

definition planned :: "plan_state \<Rightarrow> core_state \<Rightarrow> core_state" where
  "planned p s = s\<lparr>cs_task := (cs_task s)\<lparr>ts_plan := Some p\<rparr>\<rparr>"

lemma planned_wf [simp]: "wf_core_state s \<Longrightarrow> wf_plan_state p \<Longrightarrow> wf_core_state (planned p s)"
  by (simp add: planned_def wf_set_plan wf_parts)

lemma with_plan_eq:
  "wf_core_state s \<Longrightarrow> wf_plan_state p \<Longrightarrow> with_plan s p = Inr (planned p s)"
  by (simp add: with_plan_def planned_def with_task_eq wf_set_plan wf_parts)

lemma planned_frame [simp]:
  "cs_facts (planned p s) = cs_facts s"
  "ts_plan (cs_task (planned p s)) = Some p"
  "ts_status (cs_task (planned p s)) = ts_status (cs_task s)"
  "ts_blockers (cs_task (planned p s)) = ts_blockers (cs_task s)"
  "applied_ids (planned p s) = applied_ids s"
  by (simp_all add: planned_def applied_ids_def)

lemma plan_post_init_wf:
  assumes "plan_state_post_init p = Inr q"
    and "wf_plan_definition (ps_definition p)" and "\<forall>st \<in> set (ps_steps p). wf_plan_step st"
    and "\<forall>r. ps_pending_revision p = Some r \<longrightarrow> wf_pending_plan_revision r"
    and "\<forall>c. ps_close_request p = Some c \<longrightarrow> wf_plan_close_request c"
  shows "wf_plan_state q" and "q = p\<lparr>ps_plan_id := plan_clean (ps_plan_id p)\<rparr>"
  using assms by (auto simp: plan_state_post_init_Inr wf_plan_state_def canon_text_def)

lemma new_steps_wf:
  assumes "new_steps pid ds = Inr sts" and "st \<in> set sts"
  shows "wf_plan_step st" and "st_status st = StepPending"
proof -
  obtain i d where st: "new_step pid d i = Inr st"
    using traverse_set [OF assms(1) [unfolded new_steps_def] assms(2)] by auto
  show "wf_plan_step st" using st unfolding new_step_def by (rule plan_step.post_init_valid)
  show "st_status st = StepPending"
    using plan_step_post_init_status [OF st [unfolded new_step_def]] by simp
qed

lemma preserve_matching_steps_in:
  "st \<in> set (preserve_matching_steps old new) \<Longrightarrow> st \<in> set old \<or> st \<in> set new"
  by (auto simp: preserve_matching_steps_def map_of_dict_of Let_def split: option.splits
      dest!: map_of_SomeD)

text \<open>A step that the new list repeats keeps its identity and its progress.\<close>

lemma preserve_matching_steps_keeps:
  assumes "st \<in> set new" and "\<exists>old' \<in> set old. step_key old' = step_key st"
  shows "\<exists>st' \<in> set (preserve_matching_steps old new). st' \<in> set old \<and> step_key st' = step_key st"
proof -
  let ?m = "map_of (rev (map (\<lambda>st. (step_key st, st)) old))"
  obtain old' where "old' \<in> set old" and "step_key old' = step_key st" using assms(2) by blast
  then have "(step_key st, old') \<in> set (rev (map (\<lambda>st. (step_key st, st)) old))"
    by (simp add: image_iff)
  then obtain st' where st': "?m (step_key st) = Some st'"
    using weak_map_of_SomeI by fastforce
  then have "st' \<in> set old \<and> step_key st' = step_key st"
    by (auto dest!: map_of_SomeD)
  moreover have "st' \<in> set (preserve_matching_steps old new)"
    using assms(1) st'
    by (force simp: preserve_matching_steps_def map_of_dict_of Let_def image_iff)
  ultimately show ?thesis by blast
qed

lemma preserve_matching_steps_keys:
  "map step_key (preserve_matching_steps old new) = map step_key new"
  by (auto simp: preserve_matching_steps_def map_of_dict_of Let_def split: option.splits
      dest!: map_of_SomeD)

section \<open>Outcomes of a command\<close>

lemma mk_command_result_eq:
  "canon_text py_strip cid \<Longrightarrow>
   mk_command_result cid st reason =
     Inr \<lparr>cmdr_command_id = cid, cmdr_status = st, cmdr_reason = py_strip reason\<rparr>"
  by (simp add: mk_command_result_def)

lemma wf_command_id: "wf_command c \<Longrightarrow> canon_text py_strip (command_id c)"
  by (simp add: wf_command_def)

definition command_reply :: "core_command \<Rightarrow> command_status \<Rightarrow> string \<Rightarrow> command_result" where
  "command_reply c st reason =
     \<lparr>cmdr_command_id = command_id c, cmdr_status = st, cmdr_reason = py_strip reason\<rparr>"

fun expected_revision :: "core_command \<Rightarrow> int option" where
  "expected_revision (SubmitPlan _ _ _) = None"
| "expected_revision (UpdatePlanProgress _ r _) = Some r"
| "expected_revision (ProposePlanRevision _ r _ _ _) = Some r"
| "expected_revision (RequestPlanClose _ r _ _) = Some r"
| "expected_revision (ApprovePlan _ r) = Some r"
| "expected_revision (RejectPlan _ r _) = Some r"
| "expected_revision (ApprovePlanRevision _ r) = Some r"
| "expected_revision (RejectPlanRevision _ r _) = Some r"
| "expected_revision (AbandonPlan _ r _) = Some r"
| "expected_revision (ReportVerificationUnavailable _ _ _ _) = None"

definition revision_matches :: "core_state \<Rightarrow> core_command \<Rightarrow> bool" where
  "revision_matches s c \<longleftrightarrow>
     (\<forall>r. expected_revision c = Some r \<longrightarrow>
        (\<exists>p. ts_plan (cs_task s) = Some p \<and> ps_revision p = r))"

definition unavailable_facts :: "string \<Rightarrow> string list \<Rightarrow> string list \<Rightarrow> core_state \<Rightarrow> verification_facts" where
  "unavailable_facts reason checks refs s =
     \<lparr>vf_status = VUnavailable,
      vf_verified_revision = Some (wk_revision (rf_workspace (cs_facts s))),
      vf_attempted_checks = checks, vf_evidence_refs = refs,
      vf_unavailable_reason = Some reason\<rparr>"

text \<open>Which moves a command may make, in which mode, and from which failure history.\<close>

fun command_label :: "core_command \<Rightarrow> plan_label \<Rightarrow> bool" where
  "command_label (SubmitPlan _ _ _) l \<longleftrightarrow> l = LCreate \<or> l = LResubmit"
| "command_label (UpdatePlanProgress _ _ _) l \<longleftrightarrow> l = LProgress"
| "command_label (ProposePlanRevision _ _ _ _ _) l \<longleftrightarrow> l = LPropose \<or> l = LRevise"
| "command_label (RequestPlanClose _ _ _ _) l \<longleftrightarrow> l = LClose"
| "command_label (ApprovePlan _ _) l \<longleftrightarrow> l = LApprove"
| "command_label (RejectPlan _ _ _) l \<longleftrightarrow> l = LReject"
| "command_label (ApprovePlanRevision _ _) l \<longleftrightarrow> l = LApproveRevision"
| "command_label (RejectPlanRevision _ _ _) l \<longleftrightarrow> l = LRejectRevision"
| "command_label (AbandonPlan _ _ _) l \<longleftrightarrow> l = LAbandon"
| "command_label (ReportVerificationUnavailable _ _ _ _) l \<longleftrightarrow> False"

fun mode_label :: "run_mode \<Rightarrow> plan_label \<Rightarrow> bool" where
  "mode_label mode LCreate \<longleftrightarrow> mode \<noteq> ModeRead"
| "mode_label mode LResubmit \<longleftrightarrow> mode = ModePlan"
| "mode_label mode LProgress \<longleftrightarrow> mode = ModeBuild"
| "mode_label mode LRevise \<longleftrightarrow> mode = ModeBuild"
| "mode_label mode LPropose \<longleftrightarrow> mode = ModeBuild"
| "mode_label mode LClose \<longleftrightarrow> mode = ModeBuild"
| "mode_label mode _ \<longleftrightarrow> True"

definition label_allowed :: "core_state \<Rightarrow> reduction_context \<Rightarrow> core_command \<Rightarrow> plan_label \<Rightarrow> bool" where
  "label_allowed s ctx c l \<longleftrightarrow>
     command_label c l \<and> mode_label (rc_mode ctx) l \<and>
     (l = LRevise \<longrightarrow>
        max_failure_count (rf_failures (cs_facts s)) \<ge> QUALIFIED_FAILURES_FOR_REVISION)"

inductive command_outcome ::
  "core_state \<Rightarrow> reduction_context \<Rightarrow> core_command \<Rightarrow> core_reduction \<Rightarrow> bool" for s ctx c where
  rejected:
    "\<lbrakk>ev_kind ev = ''command_rejected'';
      red = reduction s [ev] [command_reply c CommandRejected reason]\<rbrakk> \<Longrightarrow> command_outcome s ctx c red"
| planned:
    "\<lbrakk>wf_plan_state p; plan_moves (known_evidence s) l (ts_plan (cs_task s)) p;
      label_allowed s ctx c l; revision_matches s c; set ks \<subseteq> {PlanIncomplete, ReplanRequired};
      red = reduction (progressed (fold without_blocker ks (planned p s))) [ev]
              [command_reply c Applied []]\<rbrakk> \<Longrightarrow> command_outcome s ctx c red"
| unavailable:
    "\<lbrakk>c = ReportVerificationUnavailable cid reason checks refs; checks \<noteq> []; refs \<noteq> [];
      red = reduction
        (without_blocker VerificationFailed
          (s\<lparr>cs_facts := (cs_facts s)\<lparr>rf_verification := unavailable_facts reason checks refs s\<rparr>\<rparr>))
        [ev] [command_reply c Applied []]\<rbrakk> \<Longrightarrow> command_outcome s ctx c red"

lemma reject_command_outcome:
  "wf_command c \<Longrightarrow> reject_command s c reason = Inr red \<Longrightarrow> command_outcome s ctx c red"
  by (auto simp: reject_command_def bindE_eq_Inr wf_command_id mk_command_result_eq
      command_reply_def [symmetric] py_strip_fix stripped_def py_space_bits
      dest!: mk_event_Inr intro: command_outcome.rejected)

lemma applied_plan_command_Inr:
  "wf_command c \<Longrightarrow> wf_core_state s \<Longrightarrow> applied_plan_command s c kind payload = Inr red \<Longrightarrow>
   \<exists>ev. red = reduction (progressed s) [ev] [command_reply c Applied []]"
  by (auto simp: applied_plan_command_def bindE_eq_Inr wf_command_id mk_command_result_eq
      command_reply_def [symmetric] reset_no_progress_eq)

text \<open>The common end of the plan handlers.\<close>

lemma plan_command_outcome:
  assumes "wf_command c" "wf_core_state s" "wf_plan_state p"
    and "plan_moves (known_evidence s) l (ts_plan (cs_task s)) p"
    and "label_allowed s ctx c l" and "revision_matches s c"
  shows "bindE (with_plan s p) (\<lambda>s1. applied_plan_command s1 c kind payload) = Inr red \<Longrightarrow>
         command_outcome s ctx c red"
    and "k \<in> {PlanIncomplete, ReplanRequired} \<Longrightarrow>
         bindE (with_plan s p) (\<lambda>s1. bindE (remove_blocker s1 k)
           (\<lambda>s2. applied_plan_command s2 c kind payload)) = Inr red \<Longrightarrow>
         command_outcome s ctx c red"
proof -
  assume "bindE (with_plan s p) (\<lambda>s1. applied_plan_command s1 c kind payload) = Inr red"
  then obtain ev where "red = reduction (progressed (planned p s)) [ev] [command_reply c Applied []]"
    using assms applied_plan_command_Inr [of c "planned p s" kind payload red]
    by (auto simp: with_plan_eq)
  then show "command_outcome s ctx c red"
    using command_outcome.planned [of p s l ctx c "[]"] assms by simp
next
  assume k: "k \<in> {PlanIncomplete, ReplanRequired}"
    and "bindE (with_plan s p) (\<lambda>s1. bindE (remove_blocker s1 k)
           (\<lambda>s2. applied_plan_command s2 c kind payload)) = Inr red"
  then obtain ev where
    "red = reduction (progressed (without_blocker k (planned p s))) [ev] [command_reply c Applied []]"
    using assms applied_plan_command_Inr [of c "without_blocker k (planned p s)" kind payload red]
    by (auto simp: with_plan_eq remove_blocker_eq)
  then show "command_outcome s ctx c red"
    using command_outcome.planned [of p s l ctx c "[k]"] assms k by simp
qed

end
