(* ===== verification/Reducer_Commands.thy ===== *)
theory Reducer_Commands
  imports Plan_Lifecycle
begin

text \<open>
  Every command handler of \<open>Core_Reducer\<close> refines the plan life of \<open>Plan_Lifecycle\<close>: on a
  well-formed state and command its reduction is one of the outcomes of
  \<open>command_outcome\<close>. Then \<open>apply_core_command\<close> and lists of commands.
\<close>

section \<open>Handlers\<close>

lemma with_checked_plan_cases:
  assumes "with_checked_plan s c problem k = Inr red"
  obtains (problem) reason where "reject_command s c reason = Inr red"
  | (plan) p where "problem = None" "ts_plan (cs_task s) = Some p" "k p = Inr red"
  using assms by (auto simp: with_checked_plan_def split: option.splits)

lemma plan_revision_problem_None:
  "plan_revision_problem q r = None \<longleftrightarrow> (\<exists>p. q = Some p \<and> ps_revision p = r)"
  by (auto simp: plan_revision_problem_def split: option.splits)

lemma active_plan_problem_None:
  "active_plan_problem s r ctx = None \<longleftrightarrow>
   rc_mode ctx = ModeBuild \<and>
   (\<exists>p. ts_plan (cs_task s) = Some p \<and> ps_revision p = r \<and> ps_status p = PlanActive)"
  by (cases "rc_mode ctx")
     (auto simp: active_plan_problem_def plan_revision_problem_def split: option.splits if_splits)

lemma revised_plan:
  assumes "wf_plan_state p" and "plan_state_post_init q = Inr q'"
    and "ps_plan_id q = ps_plan_id p"
    and "wf_plan_definition (ps_definition q)" and "\<forall>st \<in> set (ps_steps q). wf_plan_step st"
    and "\<forall>r. ps_pending_revision q = Some r \<longrightarrow> wf_pending_plan_revision r"
    and "\<forall>c. ps_close_request q = Some c \<longrightarrow> wf_plan_close_request c"
  shows "wf_plan_state q'" and "q' = q"
proof -
  show "wf_plan_state q'" by (rule plan_post_init_wf [OF assms(2,4-7)])
  have "q' = q\<lparr>ps_plan_id := plan_clean (ps_plan_id q)\<rparr>"
    by (rule plan_post_init_wf [OF assms(2,4-7)])
  moreover have "plan_clean (ps_plan_id q) = ps_plan_id q"
    using assms(1,3) by (simp add: wf_plan_state_def canon_text_def)
  ultimately show "q' = q" by simp
qed

lemma wf_plan_parts:
  assumes "wf_plan_state p"
  shows "wf_plan_definition (ps_definition p)" "\<forall>st \<in> set (ps_steps p). wf_plan_step st"
    "\<forall>r. ps_pending_revision p = Some r \<longrightarrow> wf_pending_plan_revision r"
    "\<forall>c. ps_close_request p = Some c \<longrightarrow> wf_plan_close_request c" "wf_steps (ps_steps p)"
  using assms by (simp_all add: wf_plan_state_def)

lemma preserve_wf:
  "\<forall>st \<in> set old. wf_plan_step st \<Longrightarrow> new_steps pid ds = Inr new \<Longrightarrow>
   \<forall>st \<in> set (preserve_matching_steps old new). wf_plan_step st"
  using preserve_matching_steps_in new_steps_wf by blast

lemma submit_plan_outcome:
  assumes s: "wf_core_state s" and c: "wf_command (SubmitPlan cid d ss)"
    and r: "submit_plan s (SubmitPlan cid d ss) d ss ctx = Inr red"
  shows "command_outcome s ctx (SubmitPlan cid d ss) red"
proof -
  let ?c = "SubmitPlan cid d ss"
  have d: "wf_plan_definition d" using c by (simp add: wf_command_def)
  have m: "revision_matches s ?c" by (simp add: revision_matches_def)
  consider (rejected) reason where "reject_command s ?c reason = Inr red"
    | (again) p new q payload where "ts_plan (cs_task s) = Some p"
        "ps_status p = PlanProposed \<and> rc_mode ctx = ModePlan"
        "new_steps (ps_plan_id p) ss = Inr new"
        "plan_state_post_init
           (p\<lparr>ps_definition := d, ps_steps := preserve_matching_steps (ps_steps p) new,
              ps_revision := ps_revision p + 1, ps_pending_revision := None,
              ps_close_request := None\<rparr>) = Inr q"
        "bindE (with_plan s q) (\<lambda>s1. bindE (remove_blocker s1 PlanIncomplete)
           (\<lambda>s2. applied_plan_command s2 ?c ''plan_proposal_revised'' payload)) = Inr red"
    | (new) new q payload where "ts_plan (cs_task s) = None \<and> rc_mode ctx \<noteq> ModeRead"
        "new_steps (''plan:'' @ cid) ss = Inr new"
        "plan_state_post_init
           \<lparr>ps_plan_id = ''plan:'' @ cid,
            ps_origin = (if rc_mode ctx = ModePlan then OriginPlanMode else OriginBuildMode),
            ps_status = (if rc_mode ctx = ModePlan then PlanProposed else PlanActive),
            ps_revision = 1, ps_definition = d, ps_steps = new,
            ps_pending_revision = None, ps_close_request = None,
            ps_schema_version = PLAN_STATE_SCHEMA_VERSION\<rparr> = Inr q"
        "bindE (with_plan s q) (\<lambda>s1. bindE (remove_blocker s1 PlanIncomplete)
           (\<lambda>s2. applied_plan_command s2 ?c ''plan_submitted'' payload)) = Inr red"
  proof (cases "ts_plan (cs_task s)")
    case None
    show ?thesis
      using r None
      by (auto simp: submit_plan_def Let_def bindE_eq_Inr split: if_splits
          intro: rejected new [OF conjI [OF None]])
  next
    case (Some p)
    show ?thesis
      using r Some
      by (auto simp: submit_plan_def bindE_eq_Inr split: if_splits
          intro: rejected again [OF Some])
  qed
  then show ?thesis
  proof cases
    case rejected
    then show ?thesis using c by (rule reject_command_outcome [rotated])
  next
    case (again p new q payload)
    have wp: "wf_plan_state p" using s again(1) by (rule wf_plan)
    let ?q = "p\<lparr>ps_definition := d, ps_steps := preserve_matching_steps (ps_steps p) new,
              ps_revision := ps_revision p + 1, ps_pending_revision := None,
              ps_close_request := None\<rparr>"
    have q: "wf_plan_state q" "q = ?q"
      by (rule revised_plan [OF wp again(4)];
          use d preserve_wf [OF wf_plan_parts(2) [OF wp] again(3)] in simp)+
    have "plan_moves (known_evidence s) LResubmit (ts_plan (cs_task s)) q"
      by (simp add: plan_moves_def again(1) q(2) plan_transition.resubmit again(2)
          next_revision_def)
    moreover have "label_allowed s ctx ?c LResubmit"
      using again(2) by (simp add: label_allowed_def)
    ultimately show ?thesis using plan_command_outcome(2) [OF c s q(1) _ _ m _ again(5)] by simp
  next
    case (new new q payload)
    have steps: "\<forall>st \<in> set new. wf_plan_step st \<and> st_status st = StepPending"
      using new_steps_wf [OF new(2)] by blast
    have q: "wf_plan_state q"
      by (rule plan_post_init_wf(1) [OF new(3)]) (use d steps in simp_all)
    have "created_plan q"
      using plan_post_init_wf(2) [OF new(3)] d steps by (auto simp: created_plan_def)
    then have "plan_moves (known_evidence s) LCreate (ts_plan (cs_task s)) q"
      by (simp add: plan_moves_def new(1))
    moreover have "label_allowed s ctx ?c LCreate"
      using new(1) by (simp add: label_allowed_def)
    ultimately show ?thesis using plan_command_outcome(2) [OF c s q _ _ m _ new(4)] by simp
  qed
qed

section \<open>Progress\<close>

lemma plan_text_tuple_set: "plan_text_tuple vs f lo hi = Inr ts \<Longrightarrow> set ts = plan_clean ` set vs"
  by (auto simp: plan_text_tuple_def bindE_eq_Inr dest!: text_tuple_map(1) split: if_splits)

lemma plan_required_text_PStr: "canon_text plan_clean t \<Longrightarrow> plan_required_text (PStr t) f = Inr t"
  by (simp add: plan_required_text_def required_text_fix)

lemma progress_step_advances:
  assumes "wf_plan_step previous" and "progress_step previous u known = Inr (Inr st)"
  shows "wf_plan_step st" and "step_advances known previous st"
proof -
  let ?refs = "filter (\<lambda>r. r \<in> known) (normalize_evidence_refs (su_evidence_refs u))"
  let ?raw = "\<lparr>st_step_id = st_step_id previous, st_step = st_step previous,
               st_details = st_details previous, st_verification = st_verification previous,
               st_status = su_status u,
               st_completion_note = (if su_status u = StepCompleted then su_completion_note u else []),
               st_evidence_refs = (if su_status u = StepCompleted then ?refs else [])\<rparr>"
  from assms(2) have keep: "st_status previous = StepCompleted \<longrightarrow> su_status u = StepCompleted"
    and post: "plan_step_post_init ?raw = Inr st"
    by (auto simp: progress_step_def split: if_splits sum.splits)
  show w: "wf_plan_step st" using post by (rule plan_step.post_init_valid)
  have "st_step_id st = st_step_id previous \<and> step_key st = step_key previous"
    using post assms(1)
    by (auto simp: plan_step_post_init_def bindE_eq_Inr Let_def wf_plan_step_def
        plan_required_text_PStr step_key_def split: if_splits)
  moreover have "st_status st = su_status u"
    using plan_step_post_init_status [OF post] by simp
  moreover have "set (st_evidence_refs st) \<subseteq> plan_clean ` known"
  proof -
    obtain ts where "plan_text_tuple (st_evidence_refs ?raw) ''evidence_refs'' 0 64 = Inr ts"
      and "st_evidence_refs st = ts"
      using post by (auto simp: plan_step_post_init_def bindE_eq_Inr Let_def split: if_splits)
    then have "set (st_evidence_refs st) = plan_clean ` set (st_evidence_refs ?raw)"
      using plan_text_tuple_set by blast
    then show ?thesis by (auto split: if_splits)
  qed
  ultimately show "step_advances known previous st"
    using keep w by (auto simp: step_advances_def wf_plan_step_def)
qed

text \<open>The dictionary under construction maps each identifier to an advance of its step.\<close>

definition progress_ok :: "(string \<times> plan_step) list \<Rightarrow> string set \<Rightarrow> (string \<times> plan_step) list \<Rightarrow> bool" where
  "progress_ok by_id known nxt \<longleftrightarrow>
     (\<forall>i st'. map_of nxt i = Some st' \<longrightarrow>
        (\<exists>st. map_of by_id i = Some st \<and> step_advances known st st' \<and> wf_plan_step st'))"

lemma progress_loop_Cons:
  "progress_loop by_id known (u # us) nxt = Inr (Inr nxt') \<Longrightarrow>
   \<exists>previous st. map_of by_id (su_step_id u) = Some previous \<and>
     progress_step previous u known = Inr (Inr st) \<and>
     progress_loop by_id known us (AList.update (su_step_id u) st nxt) = Inr (Inr nxt')"
  by (auto simp: bindE_def split: option.splits sum.splits)

lemma progress_loop_ok:
  "progress_loop by_id known us nxt = Inr (Inr nxt') \<Longrightarrow> progress_ok by_id known nxt \<Longrightarrow>
   (\<forall>i st. map_of by_id i = Some st \<longrightarrow> wf_plan_step st) \<Longrightarrow> progress_ok by_id known nxt'"
proof (induction by_id known us nxt rule: progress_loop.induct)
  case 1
  then show ?case by simp
next
  case (2 by_id known u us nxt)
  obtain previous st where p: "map_of by_id (su_step_id u) = Some previous"
    and st: "progress_step previous u known = Inr (Inr st)"
    and rest: "progress_loop by_id known us (AList.update (su_step_id u) st nxt) = Inr (Inr nxt')"
    using progress_loop_Cons [OF "2.prems"(1)] by blast
  have "progress_ok by_id known (AList.update (su_step_id u) st nxt)"
    using "2.prems"(2,3) p progress_step_advances [OF _ st]
    by (auto simp: progress_ok_def update_conv')
  with "2.IH" [OF p rest] "2.prems"(3) show ?case by simp
qed

lemma step_advances_refl: "step_advances known st st"
  by (simp add: step_advances_def)

lemma update_plan_steps:
  assumes w: "\<forall>st \<in> set steps. wf_plan_step st" and d: "distinct (map st_step_id steps)"
    and r: "progress_loop (map (\<lambda>st. (st_step_id st, st)) steps) known us
              (map (\<lambda>st. (st_step_id st, st)) steps) = Inr (Inr nxt)"
    and t: "traverse (\<lambda>st. case map_of nxt (st_step_id st) of
              None \<Rightarrow> Inl (KeyError (st_step_id st)) | Some st' \<Rightarrow> Inr st') steps = Inr steps'"
  shows "list_all2 (step_advances known) steps steps' \<and> (\<forall>st \<in> set steps'. wf_plan_step st)"
proof -
  let ?by = "map (\<lambda>st. (st_step_id st, st)) steps"
  have by_id: "map_of ?by i = Some st \<longleftrightarrow> st \<in> set steps \<and> st_step_id st = i" for i st
  proof -
    have "distinct (map fst ?by)" using d by (simp add: comp_def)
    then show ?thesis by (subst map_of_eq_Some_iff) auto
  qed
  have "progress_ok ?by known ?by"
    using w by (auto simp: progress_ok_def by_id step_advances_refl)
  then have ok: "progress_ok ?by known nxt"
    by (rule progress_loop_ok [OF r]) (use w by_id in auto)
  have "step_advances known st st' \<and> wf_plan_step st'"
    if "st \<in> set steps" and "map_of nxt (st_step_id st) = Some st'" for st st'
    using ok that d unfolding progress_ok_def by_id
    by (metis distinct_map inj_onD)
  note adv = this
  have "list_all2 (\<lambda>st st'. step_advances known st st' \<and> wf_plan_step st') steps steps'"
  proof (rule list_all2_all_nthI)
    show "length steps = length steps'" using traverse_length [OF t] by simp
    fix i assume i: "i < length steps"
    then have "map_of nxt (st_step_id (steps ! i)) = Some (steps' ! i)"
      using t unfolding traverse_eq_Inr
      by (auto simp: list_all2_conv_all_nth split: option.splits)
    with adv [OF nth_mem [OF i]]
    show "step_advances known (steps ! i) (steps' ! i) \<and> wf_plan_step (steps' ! i)"
      by simp
  qed
  then show ?thesis
    by (auto simp: list_all2_conv_all_nth in_set_conv_nth)
qed

lemma update_plan_progress_outcome:
  assumes s: "wf_core_state s" and c: "wf_command (UpdatePlanProgress cid n us)"
    and r: "update_plan_progress s (UpdatePlanProgress cid n us) n us ctx = Inr red"
  shows "command_outcome s ctx (UpdatePlanProgress cid n us) red"
  using r unfolding update_plan_progress_def
proof (cases rule: with_checked_plan_cases)
  case problem
  then show ?thesis using c by (rule reject_command_outcome [rotated])
next
  case (plan p)
  let ?c = "UpdatePlanProgress cid n us"
  have wp: "wf_plan_state p" using s plan(2) by (rule wf_plan)
  have d: "distinct (map st_step_id (ps_steps p))"
    using wf_plan_parts(5) [OF wp] by (simp add: wf_steps_def)
  then have by_id: "dict_of (map (\<lambda>st. (st_step_id st, st)) (ps_steps p)) =
                    map (\<lambda>st. (st_step_id st, st)) (ps_steps p)"
    by (intro dict_of_distinct) (simp add: comp_def)
  let ?by = "map (\<lambda>st. (st_step_id st, st)) (ps_steps p)"
  consider (rejected) reason where "reject_command s ?c reason = Inr red"
    | (ok) nxt steps q payload where
        "progress_loop ?by (known_evidence s) us ?by = Inr (Inr nxt)"
        "traverse (\<lambda>st. case map_of nxt (st_step_id st) of
              None \<Rightarrow> Inl (KeyError (st_step_id st)) | Some st' \<Rightarrow> Inr st') (ps_steps p) = Inr steps"
        "plan_state_post_init
           (p\<lparr>ps_steps := steps, ps_revision := ps_revision p + 1, ps_close_request := None\<rparr>) = Inr q"
        "bindE (with_plan s q) (\<lambda>s1. bindE (remove_blocker s1 ReplanRequired)
           (\<lambda>s2. applied_plan_command s2 ?c ''plan_progress_updated'' payload)) = Inr red"
    using plan(3) unfolding by_id Let_def
    by (cases "progress_loop ?by (known_evidence s) us ?by"; cases "projr (progress_loop ?by (known_evidence s) us ?by)")
       (auto simp: bindE_eq_Inr split: if_splits intro: that)
  then show ?thesis
  proof cases
    case rejected
    then show ?thesis using c by (rule reject_command_outcome [rotated])
  next
    case (ok nxt steps q payload)
    have adv: "list_all2 (step_advances (known_evidence s)) (ps_steps p) steps"
      and ws: "\<forall>st \<in> set steps. wf_plan_step st"
      using update_plan_steps [OF wf_plan_parts(2) [OF wp] d ok(1,2)] by simp_all
    have q: "wf_plan_state q"
      "q = p\<lparr>ps_steps := steps, ps_revision := ps_revision p + 1, ps_close_request := None\<rparr>"
      by (rule revised_plan [OF wp ok(3)]; use wf_plan_parts [OF wp] ws in simp)+
    have act: "ps_status p = PlanActive" "ps_revision p = n" "rc_mode ctx = ModeBuild"
      using plan(1,2) by (auto simp: active_plan_problem_None)
    have "plan_moves (known_evidence s) LProgress (ts_plan (cs_task s)) q"
      using plan_transition.progress [of p q "known_evidence s"] adv act
      by (simp add: plan_moves_def plan(2) q(2) next_revision_def)
    moreover have "revision_matches s ?c"
      using plan(2) act by (simp add: revision_matches_def)
    moreover have "label_allowed s ctx ?c LProgress" using act by (simp add: label_allowed_def)
    ultimately show ?thesis
      using plan_command_outcome(2) [OF c s q(1) _ _ _ _ ok(4)] by simp
  qed
qed

section \<open>The remaining handlers\<close>

lemma propose_plan_revision_outcome:
  assumes s: "wf_core_state s" and c: "wf_command (ProposePlanRevision cid n w d ss)"
    and r: "propose_plan_revision s (ProposePlanRevision cid n w d ss) n w d ss ctx = Inr red"
  shows "command_outcome s ctx (ProposePlanRevision cid n w d ss) red"
  using r unfolding propose_plan_revision_def
proof (cases rule: with_checked_plan_cases)
  case problem
  then show ?thesis using c by (rule reject_command_outcome [rotated])
next
  case (plan p)
  let ?c = "ProposePlanRevision cid n w d ss"
  have wp: "wf_plan_state p" using s plan(2) by (rule wf_plan)
  have d: "wf_plan_definition d" using c by (simp add: wf_command_def)
  have act: "ps_status p = PlanActive" "ps_revision p = n" "rc_mode ctx = ModeBuild"
    using plan(1,2) by (auto simp: active_plan_problem_None)
  have m: "revision_matches s ?c" using plan(2) act by (simp add: revision_matches_def)
  let ?auto = "ps_origin p = OriginBuildMode \<and> w = RepeatedExecutionFailure \<and>
       max_failure_count (rf_failures (cs_facts s)) \<ge> QUALIFIED_FAILURES_FOR_REVISION"
  consider (rejected) reason where "reject_command s ?c reason = Inr red"
    | (auto) new q kind payload where "ps_pending_revision p = None" "?auto"
        "new_steps (ps_plan_id p @ '':revision:'' @ str_int (ps_revision p + 1)) ss = Inr new"
        "plan_state_post_init
           (p\<lparr>ps_definition := d, ps_steps := preserve_matching_steps (ps_steps p) new,
              ps_revision := ps_revision p + 1, ps_pending_revision := None,
              ps_close_request := None\<rparr>) = Inr q"
        "bindE (with_plan s q) (\<lambda>s1. bindE (remove_blocker s1 ReplanRequired)
           (\<lambda>s2. applied_plan_command s2 ?c kind payload)) = Inr red"
    | (pend) new pr q kind payload where "ps_pending_revision p = None"
        "new_steps (ps_plan_id p @ '':revision:'' @ str_int (ps_revision p + 1)) ss = Inr new"
        "pending_plan_revision_post_init
           \<lparr>pr_reason = w, pr_definition = d,
            pr_steps = preserve_matching_steps (ps_steps p) new,
            pr_proposed_at_revision = ps_revision p\<rparr> = Inr pr"
        "plan_state_post_init
           (p\<lparr>ps_pending_revision := Some pr, ps_revision := ps_revision p + 1\<rparr>) = Inr q"
        "bindE (with_plan s q) (\<lambda>s1. bindE (remove_blocker s1 ReplanRequired)
           (\<lambda>s2. applied_plan_command s2 ?c kind payload)) = Inr red"
  proof (cases ?auto)
    case True
    then show ?thesis
      using plan(3) that(1) that(2) [OF _ True]
      by (auto simp: bindE_eq_Inr split: if_splits)
  next
    case False
    show ?thesis
      using plan(3) that(1) that(3)
      unfolding Let_def if_not_P [OF False]
      by (auto simp: bindE_eq_Inr split: if_splits)
  qed
  then show ?thesis
  proof cases
    case rejected
    then show ?thesis using c by (rule reject_command_outcome [rotated])
  next
    case (auto new q kind payload)
    have steps: "\<forall>st \<in> set (preserve_matching_steps (ps_steps p) new). wf_plan_step st"
      by (rule preserve_wf [OF wf_plan_parts(2) [OF wp] auto(3)])
    have q: "wf_plan_state q"
      "q = p\<lparr>ps_definition := d, ps_steps := preserve_matching_steps (ps_steps p) new,
              ps_revision := ps_revision p + 1, ps_pending_revision := None,
              ps_close_request := None\<rparr>"
      by (rule revised_plan [OF wp auto(4)]; use d steps in simp)+
    have "plan_moves (known_evidence s) LRevise (ts_plan (cs_task s)) q"
      using plan_transition.revise [of p q "known_evidence s"] act auto(1,2)
      by (simp add: plan_moves_def plan(2) q(2) next_revision_def)
    moreover have "label_allowed s ctx ?c LRevise"
      using act auto(2) by (simp add: label_allowed_def)
    ultimately show ?thesis using plan_command_outcome(2) [OF c s q(1) _ _ m _ auto(5)] by simp
  next
    case (pend new pr q kind payload)
    have steps: "\<forall>st \<in> set (preserve_matching_steps (ps_steps p) new). wf_plan_step st"
      by (rule preserve_wf [OF wf_plan_parts(2) [OF wp] pend(2)])
    have pr: "wf_pending_plan_revision pr" "pr_proposed_at_revision pr = ps_revision p"
      using pend(3) d steps
      by (auto simp: pending_plan_revision_post_init_Inr wf_pending_plan_revision_def)
    have q: "wf_plan_state q"
      "q = p\<lparr>ps_pending_revision := Some pr, ps_revision := ps_revision p + 1\<rparr>"
      by (rule revised_plan [OF wp pend(4)]; use wf_plan_parts [OF wp] pr in simp)+
    have "plan_moves (known_evidence s) LPropose (ts_plan (cs_task s)) q"
      using plan_transition.propose [of p pr q "known_evidence s"] act(1) pend(1) pr(2)
      by (simp add: plan_moves_def plan(2) q(2))
    moreover have "label_allowed s ctx ?c LPropose" using act by (simp add: label_allowed_def)
    ultimately show ?thesis using plan_command_outcome(2) [OF c s q(1) _ _ m _ pend(5)] by simp
  qed
qed

lemma request_plan_close_outcome:
  assumes s: "wf_core_state s" and c: "wf_command (RequestPlanClose cid n w es)"
    and r: "request_plan_close s (RequestPlanClose cid n w es) n w es ctx = Inr red"
  shows "command_outcome s ctx (RequestPlanClose cid n w es) red"
  using r unfolding request_plan_close_def
proof (cases rule: with_checked_plan_cases)
  case problem
  then show ?thesis using c by (rule reject_command_outcome [rotated])
next
  case (plan p)
  let ?c = "RequestPlanClose cid n w es"
  have wp: "wf_plan_state p" using s plan(2) by (rule wf_plan)
  have act: "ps_status p = PlanActive" "ps_revision p = n" "rc_mode ctx = ModeBuild"
    using plan(1,2) by (auto simp: active_plan_problem_None)
  have m: "revision_matches s ?c" using plan(2) act by (simp add: revision_matches_def)
  let ?refs = "filter (\<lambda>r. r \<in> known_evidence s) (normalize_evidence_refs es)"
  consider (rejected) reason where "reject_command s ?c reason = Inr red"
    | (ok) cr q payload where "\<forall>st \<in> set (ps_steps p). st_status st = StepCompleted"
        "plan_close_request_post_init
           \<lparr>cr_summary = w, cr_evidence_refs = ?refs, cr_requested_at_revision = ps_revision p\<rparr> = Inr cr"
        "plan_state_post_init
           (p\<lparr>ps_close_request := Some cr, ps_revision := ps_revision p + 1\<rparr>) = Inr q"
        "bindE (with_plan s q) (\<lambda>s1. applied_plan_command s1 ?c ''plan_close_requested'' payload)
         = Inr red"
    using plan(3) by (auto simp: bindE_eq_Inr list_ex_iff split: if_splits intro: that)
  then show ?thesis
  proof cases
    case rejected
    then show ?thesis using c by (rule reject_command_outcome [rotated])
  next
    case (ok cr q payload)
    have wc: "wf_plan_close_request cr" using ok(2) by (rule plan_close_request_post_init_wf)
    have "plan_text_tuple ?refs ''evidence_refs'' 1 64 = Inr (cr_evidence_refs cr)"
      using ok(2) by (auto simp: plan_close_request_post_init_def bindE_eq_Inr)
    then have refs: "set (cr_evidence_refs cr) \<subseteq> plan_clean ` known_evidence s"
      using plan_text_tuple_set by fastforce
    have ne: "cr_evidence_refs cr \<noteq> []" using wc by (auto simp: wf_plan_close_request_def)
    have q: "wf_plan_state q"
      "q = p\<lparr>ps_close_request := Some cr, ps_revision := ps_revision p + 1\<rparr>"
      by (rule revised_plan [OF wp ok(3)]; use wf_plan_parts [OF wp] wc in simp)+
    have "plan_moves (known_evidence s) LClose (ts_plan (cs_task s)) q"
      using plan_transition.request_close [OF act(1) ok(1) refs ne q(2)]
      by (simp add: plan_moves_def plan(2))
    moreover have "label_allowed s ctx ?c LClose" using act by (simp add: label_allowed_def)
    ultimately show ?thesis using plan_command_outcome(1) [OF c s q(1) _ _ m ok(4)] by simp
  qed
qed

text \<open>The handlers of the user's decisions share their shape: reject, or move to a plan \<open>q\<close>
  built from parts that were well formed.\<close>

inductive decision_result :: "core_state \<Rightarrow> core_command \<Rightarrow> plan_label \<Rightarrow> plan_state \<Rightarrow> core_reduction \<Rightarrow> bool"
  for s c l p red where
  rejected: "reject_command s c reason = Inr red \<Longrightarrow> decision_result s c l p red"
| moved:
    "\<lbrakk>plan_state_post_init q = Inr q'; with_plan s q' = Inr s1;
      applied_plan_command s1 c kind payload = Inr red; plan_transition (known_evidence s) l p q;
      ps_plan_id q = ps_plan_id p; wf_plan_definition (ps_definition q);
      \<forall>st \<in> set (ps_steps q). wf_plan_step st;
      \<forall>r. ps_pending_revision q = Some r \<longrightarrow> wf_pending_plan_revision r;
      \<forall>c. ps_close_request q = Some c \<longrightarrow> wf_plan_close_request c\<rbrakk>
     \<Longrightarrow> decision_result s c l p red"

lemma user_decision_outcome:
  assumes s: "wf_core_state s" and c: "wf_command c" and n: "expected_revision c = Some n"
    and r: "with_checked_plan s c (plan_revision_problem (ts_plan (cs_task s)) n) k = Inr red"
    and k: "\<And>p. ts_plan (cs_task s) = Some p \<Longrightarrow> wf_plan_state p \<Longrightarrow> k p = Inr red \<Longrightarrow>
      decision_result s c l p red"
    and l: "command_label c l" "l \<in> {LApprove, LReject, LApproveRevision, LRejectRevision, LAbandon}"
  shows "command_outcome s ctx c red"
  using r
proof (cases rule: with_checked_plan_cases)
  case problem
  then show ?thesis using c by (rule reject_command_outcome [rotated])
next
  case (plan p)
  have wp: "wf_plan_state p" using s plan(2) by (rule wf_plan)
  from k [OF plan(2) wp plan(3)] show ?thesis
  proof cases
    case rejected
    then show ?thesis using c by (rule reject_command_outcome [rotated])
  next
    case (moved q q' s1 kind payload)
    have q': "wf_plan_state q'" "q' = q"
      by (rule revised_plan [OF wp moved(1,5-9)])+
    have "plan_moves (known_evidence s) l (ts_plan (cs_task s)) q'"
      using moved(4) by (simp add: plan_moves_def plan(2) q'(2))
    moreover have "revision_matches s c"
      using n plan(1,2) by (simp add: revision_matches_def plan_revision_problem_None)
    moreover have "label_allowed s ctx c l" using l by (auto simp: label_allowed_def)
    ultimately show ?thesis
      using plan_command_outcome(1) [OF c s q'(1)] moved(2,3) by simp
  qed
qed

lemma reject_pending:
  "ps_pending_revision p = Some r \<Longrightarrow>
   plan_transition known LRejectRevision p (p\<lparr>ps_pending_revision := None, ps_revision := ps_revision p + 1\<rparr>)"
  by (rule plan_transition.reject_revision) simp_all

lemma approve_plan_outcome:
  assumes s: "wf_core_state s" and c: "wf_command (ApprovePlan cid n)"
    and r: "approve_plan s (ApprovePlan cid n) n = Inr red"
  shows "command_outcome s ctx (ApprovePlan cid n) red"
  by (rule user_decision_outcome [where l = LApprove, OF s c _ r [unfolded approve_plan_def]])
     (auto simp: bindE_eq_Inr wf_plan_parts split: if_splits
        intro: decision_result.intros plan_transition.approve)

lemma reject_plan_outcome:
  assumes s: "wf_core_state s" and c: "wf_command (RejectPlan cid n w)"
    and r: "reject_plan s (RejectPlan cid n w) n w = Inr red"
  shows "command_outcome s ctx (RejectPlan cid n w) red"
  by (rule user_decision_outcome [where l = LReject, OF s c _ r [unfolded reject_plan_def]])
     (auto simp: bindE_eq_Inr wf_plan_parts split: if_splits
        intro: decision_result.intros plan_transition.reject)

lemma reject_plan_revision_outcome:
  assumes s: "wf_core_state s" and c: "wf_command (RejectPlanRevision cid n w)"
    and r: "reject_plan_revision s (RejectPlanRevision cid n w) n w = Inr red"
  shows "command_outcome s ctx (RejectPlanRevision cid n w) red"
  by (rule user_decision_outcome [where l = LRejectRevision, OF s c _ r [unfolded reject_plan_revision_def]])
     (auto simp: bindE_eq_Inr wf_plan_parts split: if_splits
        intro: decision_result.intros reject_pending)

lemma abandon_plan_outcome:
  assumes s: "wf_core_state s" and c: "wf_command (AbandonPlan cid n w)"
    and r: "abandon_plan s (AbandonPlan cid n w) n w = Inr red"
  shows "command_outcome s ctx (AbandonPlan cid n w) red"
  by (rule user_decision_outcome [where l = LAbandon, OF s c _ r [unfolded abandon_plan_def]])
     (auto simp: bindE_eq_Inr wf_plan_parts split: if_splits
        intro: decision_result.intros plan_transition.abandon)

lemma approve_plan_revision_outcome:
  assumes s: "wf_core_state s" and c: "wf_command (ApprovePlanRevision cid n)"
    and r: "approve_plan_revision s (ApprovePlanRevision cid n) n = Inr red"
  shows "command_outcome s ctx (ApprovePlanRevision cid n) red"
proof (rule user_decision_outcome [where l = LApproveRevision, OF s c _ r [unfolded approve_plan_revision_def]])
  show "expected_revision (ApprovePlanRevision cid n) = Some n" by simp
  show "command_label (ApprovePlanRevision cid n) LApproveRevision" by simp
  show "LApproveRevision \<in> {LApprove, LReject, LApproveRevision, LRejectRevision, LAbandon}" by simp
  fix p assume p: "wf_plan_state p"
    and k: "(case ps_pending_revision p of
       None \<Rightarrow> reject_command s (ApprovePlanRevision cid n) ''plan.no_pending_revision''
     | Some pending \<Rightarrow>
     bindE (plan_state_post_init
              (p\<lparr>ps_definition := pr_definition pending,
                    ps_steps := preserve_matching_steps (ps_steps p) (pr_steps pending),
                    ps_pending_revision := None, ps_close_request := None,
                    ps_revision := ps_revision p + 1\<rparr>)) (\<lambda>next_plan.
     bindE (with_plan s next_plan) (\<lambda>s1.
     applied_plan_command s1 (ApprovePlanRevision cid n) ''plan_revision_approved''
       [(''plan_id'', PStr (ps_plan_id p)), (''revision'', PInt (ps_revision next_plan))]))) = Inr red"
  show "decision_result s (ApprovePlanRevision cid n) LApproveRevision p red"
  proof (cases "ps_pending_revision p")
    case None
    with k show ?thesis by (simp add: decision_result.rejected)
  next
    case (Some pr)
    have "wf_pending_plan_revision pr" using wf_plan_parts(3) [OF p] Some by blast
    then have parts: "wf_plan_definition (pr_definition pr)"
      "\<forall>st \<in> set (preserve_matching_steps (ps_steps p) (pr_steps pr)). wf_plan_step st"
      using preserve_matching_steps_in wf_plan_parts(2) [OF p]
      unfolding wf_pending_plan_revision_def by blast+
    let ?q = "p\<lparr>ps_definition := pr_definition pr,
                ps_steps := preserve_matching_steps (ps_steps p) (pr_steps pr),
                ps_pending_revision := None, ps_close_request := None,
                ps_revision := ps_revision p + 1\<rparr>"
    have "plan_transition (known_evidence s) LApproveRevision p ?q"
      by (rule plan_transition.approve_revision [OF Some refl])
    moreover obtain q' s1 payload where "plan_state_post_init ?q = Inr q'" "with_plan s q' = Inr s1"
      "applied_plan_command s1 (ApprovePlanRevision cid n) ''plan_revision_approved'' payload = Inr red"
      using k Some by (auto simp: bindE_eq_Inr)
    ultimately show ?thesis
      by (intro decision_result.moved [where q = ?q]) (use parts in simp_all)
  qed
qed

lemma report_verification_unavailable_outcome:
  assumes s: "wf_core_state s" and c: "wf_command (ReportVerificationUnavailable cid w cs es)"
    and r: "report_verification_unavailable s (ReportVerificationUnavailable cid w cs es) w cs es
            = Inr red"
  shows "command_outcome s ctx (ReportVerificationUnavailable cid w cs es) red"
proof (cases "cs = [] \<or> es = []")
  case True
  with r c show ?thesis
    by (auto simp: report_verification_unavailable_def intro: reject_command_outcome)
next
  case False
  let ?v = "unavailable_facts w cs es s"
  have "0 \<le> wk_revision (rf_workspace (cs_facts s))"
    using s by (simp add: wf_core_state_def wf_run_facts_def wf_workspace_facts_def)
  then have v: "wf_verification_facts ?v"
    using c by (simp add: unavailable_facts_def wf_verification_facts_def wf_command_def)
  have post: "verification_facts_post_init
      \<lparr>vf_status = VUnavailable,
       vf_verified_revision = Some (wk_revision (rf_workspace (cs_facts s))),
       vf_attempted_checks = cs, vf_evidence_refs = es, vf_unavailable_reason = Some w\<rparr> = Inr ?v"
    using verification_facts.valid_post_init [OF v] by (simp add: unavailable_facts_def)
  have w1: "wf_core_state (s\<lparr>cs_facts := (cs_facts s)\<lparr>rf_verification := ?v\<rparr>\<rparr>)"
    using s v by (simp add: wf_parts)
  have nochecks: "\<not> (cs = [] \<or> es = [])" using False .
  from r obtain ev where "red = reduction
      (without_blocker VerificationFailed (s\<lparr>cs_facts := (cs_facts s)\<lparr>rf_verification := ?v\<rparr>\<rparr>))
      [ev] [command_reply (ReportVerificationUnavailable cid w cs es) Applied []]"
    unfolding report_verification_unavailable_def if_not_P [OF nochecks] post
    using s c w1 wf_command_id [OF c]
    by (auto simp: bindE_eq_Inr with_facts_eq remove_blocker_eq
        mk_command_result_eq command_reply_def)
  with False show ?thesis
    by (intro command_outcome.unavailable [of _ cid w cs es]) auto
qed

lemma reduce_command_outcome:
  assumes "wf_core_state s" and "wf_command c" and "reduce_command s c ctx = Inr red"
  shows "command_outcome s ctx c red"
  using assms
  by (cases c)
     (auto intro: submit_plan_outcome update_plan_progress_outcome propose_plan_revision_outcome
        request_plan_close_outcome approve_plan_outcome reject_plan_outcome
        approve_plan_revision_outcome reject_plan_revision_outcome abandon_plan_outcome
        report_verification_unavailable_outcome)

end
