(* ===== verification/Reducer_Observations.thy ===== *)
theory Reducer_Observations
  imports Reducer_Commands
begin

text \<open>
  The reducer as a machine: every observation handler keeps the state well formed and moves
  it forward in an order (\<open>state_le\<close>: the ledger, the workspace revision and the counters
  only grow, the plan only evolves by plan transitions), so whole runs do. The machine
  interfaces of \<open>Py_Codec\<close> are interpreted on the reducer here.
\<close>

section \<open>The order on states\<close>

definition plan_step_opt :: "plan_state option \<Rightarrow> plan_state option \<Rightarrow> bool" where
  "plan_step_opt p q \<longleftrightarrow> (\<exists>known l q'. q = Some q' \<and> plan_moves known l p q')"

definition plan_evolves :: "plan_state option \<Rightarrow> plan_state option \<Rightarrow> bool" where
  "plan_evolves = plan_step_opt\<^sup>*\<^sup>*"

definition counters_le :: "core_counters \<Rightarrow> core_counters \<Rightarrow> bool" where
  "counters_le c d \<longleftrightarrow>
     cc_model_turns c \<le> cc_model_turns d \<and> cc_model_attempts c \<le> cc_model_attempts d \<and>
     cc_tool_iterations c \<le> cc_tool_iterations d \<and> cc_tool_calls c \<le> cc_tool_calls d \<and>
     cc_total_recoveries c \<le> cc_total_recoveries d"

definition workspace_le :: "workspace_facts \<Rightarrow> workspace_facts \<Rightarrow> bool" where
  "workspace_le v w \<longleftrightarrow>
     wk_revision v \<le> wk_revision w \<and> (wk_changed v \<longrightarrow> wk_changed w) \<and>
     set (wk_affected_paths v) \<subseteq> set (wk_affected_paths w) \<and>
     (wk_revision v = wk_revision w \<longrightarrow> v = w)"

definition state_le :: "core_state \<Rightarrow> core_state \<Rightarrow> bool" where
  "state_le s t \<longleftrightarrow>
     set (applied_ids s) \<subseteq> set (applied_ids t) \<and>
     counters_le (rf_counters (cs_facts s)) (rf_counters (cs_facts t)) \<and>
     workspace_le (rf_workspace (cs_facts s)) (rf_workspace (cs_facts t)) \<and>
     plan_evolves (ts_plan (cs_task s)) (ts_plan (cs_task t))"

lemma plan_evolves_refl [simp]: "plan_evolves p p"
  by (simp add: plan_evolves_def)

lemma plan_evolves_trans: "plan_evolves p q \<Longrightarrow> plan_evolves q r \<Longrightarrow> plan_evolves p r"
  by (simp add: plan_evolves_def)

lemma plan_evolves_step: "plan_moves known l p q \<Longrightarrow> plan_evolves p (Some q)"
  unfolding plan_evolves_def by (rule r_into_rtranclp) (auto simp: plan_step_opt_def)

lemma state_le_refl [simp]: "state_le s s"
  by (simp add: state_le_def counters_le_def workspace_le_def)

lemma state_le_trans [trans]: "state_le s t \<Longrightarrow> state_le t u \<Longrightarrow> state_le s u"
  by (auto simp: state_le_def counters_le_def workspace_le_def intro: plan_evolves_trans)

text \<open>Same plan, counters, workspace and ledger.\<close>

lemma state_leI:
  assumes "applied_ids t = applied_ids s"
    and "counters_le (rf_counters (cs_facts s)) (rf_counters (cs_facts t))"
    and "rf_workspace (cs_facts t) = rf_workspace (cs_facts s)"
    and "ts_plan (cs_task t) = ts_plan (cs_task s)"
  shows "state_le s t"
  using assms by (simp add: state_le_def workspace_le_def)

lemma counters_le_refl [simp]: "counters_le c c"
  by (simp add: counters_le_def)

lemma fold_without_blocker_frame [simp]:
  "cs_facts (fold without_blocker ks s) = cs_facts s"
  "ts_plan (cs_task (fold without_blocker ks s)) = ts_plan (cs_task s)"
  "ts_status (cs_task (fold without_blocker ks s)) = ts_status (cs_task s)"
  "applied_ids (fold without_blocker ks s) = applied_ids s"
  by (induction ks arbitrary: s) simp_all

lemma fold_without_blocker_wf [simp]: "wf_core_state s \<Longrightarrow> wf_core_state (fold without_blocker ks s)"
  by (induction ks arbitrary: s) simp_all

section \<open>Commands\<close>

lemma reduction_simps [simp]:
  "red_state (reduction s evs rs) = s" "red_events (reduction s evs rs) = evs"
  "red_command_results (reduction s evs rs) = rs"
  by (simp_all add: reduction_def)

lemma unavailable_facts_wf:
  assumes "wf_core_state s" and "wf_command (ReportVerificationUnavailable cid w cs es)"
  shows "wf_verification_facts (unavailable_facts w cs es s)"
  using assms
  by (simp add: unavailable_facts_def wf_verification_facts_def wf_command_def wf_core_state_def
      wf_run_facts_def wf_workspace_facts_def)

lemma command_outcome_state:
  assumes "command_outcome s ctx c red" and "wf_core_state s" and "wf_command c"
  shows "wf_core_state (red_state red)" and "state_le s (red_state red)"
    and "applied_ids (red_state red) = applied_ids s"
    and "rf_workspace (cs_facts (red_state red)) = rf_workspace (cs_facts s)"
    and "rf_counters (cs_facts (red_state red)) = rf_counters (cs_facts s)"
    and "rf_failures (cs_facts (red_state red)) = rf_failures (cs_facts s)"
    and "ts_status (cs_task (red_state red)) = ts_status (cs_task s)"
  using assms
proof (induction rule: command_outcome.induct)
  case (rejected ev red reason)
  { case 1 then show ?case using rejected by simp }
  { case 2 then show ?case using rejected by simp }
  { case 3 then show ?case using rejected by simp }
  { case 4 then show ?case using rejected by simp }
  { case 5 then show ?case using rejected by simp }
  { case 6 then show ?case using rejected by simp }
  { case 7 then show ?case using rejected by simp }
next
  case (planned p l ks red ev)
  note r = planned(6)
  { case 1 then show ?case using planned(1) by (simp add: r) }
  { case 2 show ?case
      using planned(2) by (auto simp: r state_le_def workspace_le_def intro: plan_evolves_step) }
  { case 3 show ?case by (simp add: r) }
  { case 4 show ?case by (simp add: r) }
  { case 5 show ?case by (simp add: r) }
  { case 6 show ?case by (simp add: r) }
  { case 7 show ?case by (simp add: r) }
next
  case (unavailable cid w cs es red ev)
  note r = unavailable(4)
  { case 1 then show ?case
      using unavailable_facts_wf [of s cid w cs es] unavailable(1) by (simp add: r wf_parts) }
  { case 2 show ?case by (rule state_leI) (simp_all add: r applied_ids_def) }
  { case 3 show ?case by (simp add: r applied_ids_def) }
  { case 4 show ?case by (simp add: r) }
  { case 5 show ?case by (simp add: r) }
  { case 6 show ?case by (simp add: r) }
  { case 7 show ?case by (simp add: r) }
qed

lemma noted_le: "state_le s (noted oid s)"
  by (auto simp: state_le_def workspace_le_def applied_ids_noted)

lemma apply_core_command_cases:
  assumes "apply_core_command s c ctx = Inr red" and "wf_core_state s" and "wf_command c"
  obtains (seen) "command_id c \<in> set (applied_ids s)" "red = reduction s [] []"
  | (new) red' where "command_id c \<notin> set (applied_ids s)" "command_outcome s ctx c red'"
      "red = red'\<lparr>red_state := noted (command_id c) (red_state red')\<rparr>"
proof (cases "command_id c \<in> set (applied_ids s)")
  case True
  with assms(1) show ?thesis by (intro seen) (simp_all add: apply_core_command_def applied_ids_def)
next
  case False
  then obtain red' t where r': "reduce_command s c ctx = Inr red'"
    and t: "ledger_append (red_state red') (command_id c) = Inr t" "red = red'\<lparr>red_state := t\<rparr>"
    using assms(1) by (auto simp: apply_core_command_def applied_ids_def bindE_eq_Inr)
  have oc: "command_outcome s ctx c red'" using assms(2,3) r' by (rule reduce_command_outcome)
  have "t = noted (command_id c) (red_state red')"
    using t(1) command_outcome_state(1) [OF oc assms(2,3)] wf_command_id [OF assms(3)]
    by (simp add: ledger_append_eq)
  then show ?thesis using new [OF False oc] t(2) by simp
qed

lemma apply_core_command_state:
  assumes "apply_core_command s c ctx = Inr red" and "wf_core_state s" and "wf_command c"
  shows "wf_core_state (red_state red)" and "state_le s (red_state red)"
    and "rf_workspace (cs_facts (red_state red)) = rf_workspace (cs_facts s)"
    and "rf_failures (cs_facts (red_state red)) = rf_failures (cs_facts s)"
    and "rf_counters (cs_facts (red_state red)) = rf_counters (cs_facts s)"
    and "set (applied_ids (red_state red)) = insert (command_id c) (set (applied_ids s))"
    and "ts_status (cs_task (red_state red)) = ts_status (cs_task s)"
proof -
  have "wf_core_state (red_state red) \<and> state_le s (red_state red) \<and>
    rf_workspace (cs_facts (red_state red)) = rf_workspace (cs_facts s) \<and>
    rf_failures (cs_facts (red_state red)) = rf_failures (cs_facts s) \<and>
    rf_counters (cs_facts (red_state red)) = rf_counters (cs_facts s) \<and>
    set (applied_ids (red_state red)) = insert (command_id c) (set (applied_ids s)) \<and>
    ts_status (cs_task (red_state red)) = ts_status (cs_task s)"
    using assms
  proof (cases rule: apply_core_command_cases)
    case seen
    then show ?thesis using assms(2) by auto
  next
    case (new red')
    note st = command_outcome_state [OF new(2) assms(2,3)]
    have "state_le s (noted (command_id c) (red_state red'))"
      using st(2) noted_le by (rule state_le_trans)
    then show ?thesis
      using st wf_command_id [OF assms(3)] by (simp add: new(3) applied_ids_noted)
  qed
  then show "wf_core_state (red_state red)" and "state_le s (red_state red)"
    and "rf_workspace (cs_facts (red_state red)) = rf_workspace (cs_facts s)"
    and "rf_failures (cs_facts (red_state red)) = rf_failures (cs_facts s)"
    and "rf_counters (cs_facts (red_state red)) = rf_counters (cs_facts s)"
    and "set (applied_ids (red_state red)) = insert (command_id c) (set (applied_ids s))"
    and "ts_status (cs_task (red_state red)) = ts_status (cs_task s)"
    by blast+
qed

lemma apply_commands_state:
  assumes "apply_commands s cs ctx = Inr red" and "wf_core_state s" and "\<forall>c \<in> set cs. wf_command c"
  shows "wf_core_state (red_state red) \<and> state_le s (red_state red) \<and>
    rf_workspace (cs_facts (red_state red)) = rf_workspace (cs_facts s) \<and>
    rf_failures (cs_facts (red_state red)) = rf_failures (cs_facts s) \<and>
    rf_counters (cs_facts (red_state red)) = rf_counters (cs_facts s) \<and>
    set (applied_ids (red_state red)) = command_id ` set cs \<union> set (applied_ids s) \<and>
    ts_status (cs_task (red_state red)) = ts_status (cs_task s)"
  using assms
proof (induction cs arbitrary: s red)
  case Nil
  then show ?case by auto
next
  case (Cons c cs)
  then obtain r1 r2 where r1: "apply_core_command s c ctx = Inr r1"
    and r2: "apply_commands (red_state r1) cs ctx = Inr r2" and red: "red_state red = red_state r2"
    by (auto simp: bindE_eq_Inr)
  have c: "wf_command c" using Cons.prems(3) by simp
  note st = apply_core_command_state [OF r1 Cons.prems(2) c]
  note ih = Cons.IH [OF r2 st(1)]
  have "state_le s (red_state red)"
    unfolding red using st(2) ih Cons.prems(3) by (auto intro: state_le_trans)
  then show ?case using ih st Cons.prems(3) by (auto simp: red)
qed

section \<open>Model, user input and cancellation observations\<close>

lemma event_literal:
  assumes "canon_text py_strip kind"
    and "set (map fst payload) \<inter> set runtime_envelope_fields = {}"
  shows "mk_event kind payload [] =
         Inr \<lparr>ev_kind = kind, ev_payload = payload, ev_evidence_refs = []\<rparr>"
  using assms by (intro mk_event_ok) (simp add: event_ok_def canon_texts_def)

lemma literal_canon: "stripped t \<Longrightarrow> t \<noteq> [] \<Longrightarrow> canon_text py_strip t"
  by (simp add: canon_text_def py_strip_fix)

lemmas literal = literal_canon stripped_def py_space_bits runtime_envelope_fields_def

definition turned :: "core_state \<Rightarrow> model_observation \<Rightarrow> core_state" where
  "turned s ob =
     s\<lparr>cs_facts := (cs_facts s)
       \<lparr>rf_counters := (rf_counters (cs_facts s))
          \<lparr>cc_model_turns := cc_model_turns (rf_counters (cs_facts s)) + 1,
           cc_model_attempts := cc_model_attempts (rf_counters (cs_facts s)) + mo_attempts ob\<rparr>,
        rf_loop_guards := (rf_loop_guards (cs_facts s))
          \<lparr>lg_repeated_no_progress := lg_repeated_no_progress (rf_loop_guards (cs_facts s))
             + (if is_unfinished_plan_final_candidate s ob then 1 else 0)\<rparr>\<rparr>\<rparr>"

definition empty_response :: "model_observation \<Rightarrow> failure_record" where
  "empty_response ob =
     \<lparr>fr_code = ''model.empty_response'', fr_source = ''model'',
      fr_message = ''Model returned no text or tool calls'', fr_recoverable = True,
      fr_evidence_refs = [mo_observation_id ob]\<rparr>"

definition model_failure :: "model_observation \<Rightarrow> failure_record option" where
  "model_failure ob =
     (if mo_status ob = ModelCompleted \<and> model_message_is_empty ob then Some (empty_response ob)
      else mo_error ob)"

lemma turned_wf: "wf_core_state s \<Longrightarrow> 0 < mo_attempts ob \<Longrightarrow> wf_core_state (turned s ob)"
  by (simp add: turned_def wf_core_state_def wf_run_facts_def wf_core_counters_def
      wf_loop_guard_facts_def)

lemma empty_response_wf:
  "canon_text py_strip (mo_observation_id ob) \<Longrightarrow> wf_failure_record (empty_response ob)"
  by (simp add: empty_response_def wf_failure_record_def canon_texts_def literal)

lemma model_failure_wf:
  "wf_observation (ModelObservation ob) \<Longrightarrow> model_failure ob = Some f \<Longrightarrow> wf_failure_record f"
  by (auto simp: model_failure_def wf_observation_def empty_response_wf split: if_splits)

text \<open>A model observation never raises: it counts the turn and records at most one failure.\<close>

lemma reduce_model_eq:
  assumes s: "wf_core_state s" and ob: "wf_observation (ModelObservation ob)"
  shows "\<exists>evs. reduce_model s ob =
    Inr (reduction (case model_failure ob of None \<Rightarrow> turned s ob
                    | Some f \<Rightarrow> failed_with f (turned s ob)) evs [])"
proof -
  have pos: "0 < mo_attempts ob" and oid: "canon_text py_strip (mo_observation_id ob)"
    using ob by (simp_all add: wf_observation_def)
  have t: "wf_core_state (turned s ob)" using s pos by (rule turned_wf)
  let ?f = "cs_facts s"
  let ?g = "(rf_loop_guards ?f)\<lparr>lg_repeated_no_progress := lg_repeated_no_progress (rf_loop_guards ?f)
             + (if is_unfinished_plan_final_candidate s ob then 1 else 0)\<rparr>"
  let ?c = "(rf_counters ?f)\<lparr>cc_model_turns := cc_model_turns (rf_counters ?f) + 1,
             cc_model_attempts := cc_model_attempts (rf_counters ?f) + mo_attempts ob\<rparr>"
  have g: "loop_guard_facts_post_init ?g = Inr ?g"
    using t by (intro loop_guard_facts.valid_post_init) (simp add: turned_def wf_core_state_def wf_run_facts_def)
  have c: "core_counters_post_init ?c = Inr ?c"
    using t by (intro core_counters.valid_post_init) (simp add: turned_def wf_core_state_def wf_run_facts_def)
  have ev: "mk_event ''model_observed'' [] [] =
      Inr \<lparr>ev_kind = ''model_observed'', ev_payload = [], ev_evidence_refs = []\<rparr>"
    by (rule event_literal) (simp_all add: literal)
  have fl: "(if mo_status ob = ModelCompleted \<and> model_message_is_empty ob
            then mapE Some (failure_record_post_init (empty_response ob))
            else Inr (mo_error ob)) = Inr (model_failure ob)"
    using failure_record.valid_post_init [OF empty_response_wf [OF oid]]
    by (simp add: model_failure_def)
  have w: "with_facts s (?f\<lparr>rf_counters := ?c, rf_loop_guards := ?g\<rparr>) = Inr (turned s ob)"
    using s by (simp add: with_facts_eq turned_def)
  show ?thesis
    using model_failure_wf [OF ob] t
    unfolding reduce_model_def Let_def g bindE_Inr c w ev fl [unfolded empty_response_def]
    by (cases "model_failure ob") (auto simp: record_failure_eq failure_event_eq)
qed

lemma reduce_model_state:
  assumes s: "wf_core_state s" and ob: "wf_observation (ModelObservation ob)"
    and r: "reduce_model s ob = Inr red"
  shows "wf_core_state (red_state red)" and "state_le s (red_state red)"
proof -
  have t: "wf_core_state (turned s ob)"
    using s ob by (simp add: turned_wf wf_observation_def)
  have pos: "0 < mo_attempts ob" using ob by (simp add: wf_observation_def)
  have le: "state_le s (turned s ob)"
    using pos by (intro state_leI) (simp_all add: turned_def applied_ids_def counters_le_def)
  have "red_state red = (case model_failure ob of None \<Rightarrow> turned s ob
                         | Some f \<Rightarrow> failed_with f (turned s ob))"
    using reduce_model_eq [OF s ob] r by auto
  moreover have "state_le (turned s ob) (failed_with f (turned s ob))" for f
    by (rule state_leI) simp_all
  ultimately show "wf_core_state (red_state red)" and "state_le s (red_state red)"
    using t le model_failure_wf [OF ob] by (auto split: option.splits intro: state_le_trans)
qed

definition feedback_blocker :: task_blocker where
  "feedback_blocker =
     \<lparr>tb_kind = PlanIncomplete,
      tb_reason = ''User feedback requires a new canonical plan revision.'',
      tb_evidence_refs = [], tb_recoverable = True\<rparr>"

definition gives_feedback :: "core_state \<Rightarrow> user_input_observation \<Rightarrow> bool" where
  "gives_feedback s ob \<longleftrightarrow>
     (\<exists>p. ts_plan (cs_task s) = Some p \<and> ps_status p = PlanProposed \<and>
          ui_text ob \<noteq> ts_current_goal (cs_task s))"

definition answered :: "core_state \<Rightarrow> user_input_observation \<Rightarrow> core_state" where
  "answered s ob =
     progressed (s\<lparr>cs_task := (cs_task s)
       \<lparr>ts_current_goal := (case ui_current_goal ob of None \<Rightarrow> ts_current_goal (cs_task s)
                            | Some g \<Rightarrow> g),
        ts_status := (if ts_status (cs_task s) = TaskBlocked then TaskActive
                      else ts_status (cs_task s)),
        ts_blockers :=
          (let waiting = filter (\<lambda>b. tb_kind b \<noteq> UserInputRequired) (ts_blockers (cs_task s)) in
           if gives_feedback s ob
           then filter (\<lambda>b. tb_kind b \<noteq> PlanIncomplete) waiting @ [feedback_blocker]
           else waiting)\<rparr>\<rparr>)"

lemma feedback_blocker_wf: "wf_task_blocker feedback_blocker"
  by (simp add: feedback_blocker_def wf_task_blocker_def canon_texts_def literal)

lemma reduce_user_input_eq:
  assumes s: "wf_core_state s" and ob: "wf_observation (UserInputObservation ob)"
  shows "\<exists>evs. reduce_user_input s ob = Inr (reduction (answered s ob) evs [])"
    and "wf_core_state (answered s ob)"
proof -
  let ?task = "(cs_task s)
       \<lparr>ts_current_goal := (case ui_current_goal ob of None \<Rightarrow> ts_current_goal (cs_task s)
                            | Some g \<Rightarrow> g),
        ts_status := (if ts_status (cs_task s) = TaskBlocked then TaskActive
                      else ts_status (cs_task s)),
        ts_blockers :=
          (let waiting = filter (\<lambda>b. tb_kind b \<noteq> UserInputRequired) (ts_blockers (cs_task s)) in
           if gives_feedback s ob
           then filter (\<lambda>b. tb_kind b \<noteq> PlanIncomplete) waiting @ [feedback_blocker]
           else waiting)\<rparr>"
  have t: "wf_task_state ?task"
    using s ob feedback_blocker_wf
    by (auto simp: wf_core_state_def wf_task_state_def wf_observation_def Let_def
        split: option.splits)
  then show w: "wf_core_state (answered s ob)"
    using s by (simp add: answered_def)
  have b: "task_blocker_post_init feedback_blocker = Inr feedback_blocker"
    by (rule task_blocker.valid_post_init [OF feedback_blocker_wf])
  have f: "(case ts_plan (cs_task s) of
              Some plan \<Rightarrow> ps_status plan = PlanProposed \<and> ui_text ob \<noteq> ts_current_goal (cs_task s)
            | None \<Rightarrow> False) = gives_feedback s ob"
    by (auto simp: gives_feedback_def split: option.splits)
  have bl: "(if gives_feedback s ob
       then bindE (task_blocker_post_init feedback_blocker) (\<lambda>b.
              Inr (filter (\<lambda>b. tb_kind b \<noteq> PlanIncomplete)
                (filter (\<lambda>b. tb_kind b \<noteq> UserInputRequired) (ts_blockers (cs_task s))) @ [b]))
       else Inr (filter (\<lambda>b. tb_kind b \<noteq> UserInputRequired) (ts_blockers (cs_task s))))
     = Inr (ts_blockers ?task)"
    by (simp add: b Let_def)
  have ev: "mk_event ''user_input_received'' [] [] =
      Inr \<lparr>ev_kind = ''user_input_received'', ev_payload = [], ev_evidence_refs = []\<rparr>"
    by (rule event_literal) (simp_all add: literal)
  have w1: "wf_core_state (s\<lparr>cs_task := ?task\<rparr>)" using s t by simp
  show "\<exists>evs. reduce_user_input s ob = Inr (reduction (answered s ob) evs [])"
    unfolding reduce_user_input_def Let_def f feedback_blocker_def [symmetric] bl bindE_Inr
    using with_task_eq [OF s t] reset_no_progress_eq [OF w1]
    by (auto simp: ev answered_def Let_def)
qed

lemma answered_le: "state_le s (answered s ob)"
  by (rule state_leI) (simp_all add: answered_def applied_ids_def)

definition cancelled_failure :: "cancellation_observation \<Rightarrow> failure_record" where
  "cancelled_failure ob =
     \<lparr>fr_code = ''run.cancelled'', fr_source = ''runtime'', fr_message = ca_reason ob,
      fr_recoverable = False, fr_evidence_refs = [ca_observation_id ob]\<rparr>"

lemma reduce_cancellation_eq:
  assumes s: "wf_core_state s" and ob: "wf_observation (CancellationObservation ob)"
  shows "\<exists>evs. reduce_cancellation s ob = Inr (reduction (failed_with (cancelled_failure ob) s) evs [])"
    and "wf_core_state (failed_with (cancelled_failure ob) s)"
proof -
  have f: "wf_failure_record (cancelled_failure ob)"
    using ob by (simp add: cancelled_failure_def wf_failure_record_def wf_observation_def
        canon_texts_def literal)
  then show "wf_core_state (failed_with (cancelled_failure ob) s)" using s by simp
  have ev: "mk_event ''cancellation_observed'' [(''reason'', PStr (ca_reason ob))] [] =
      Inr \<lparr>ev_kind = ''cancellation_observed'', ev_payload = [(''reason'', PStr (ca_reason ob))],
           ev_evidence_refs = []\<rparr>"
    by (rule event_literal) (simp_all add: literal)
  show "\<exists>evs. reduce_cancellation s ob = Inr (reduction (failed_with (cancelled_failure ob) s) evs [])"
    unfolding reduce_cancellation_def cancelled_failure_def [symmetric]
    using s f failure_record.valid_post_init [OF f] by (auto simp: record_failure_eq ev)
qed

lemma failed_with_le: "state_le s (failed_with f s)"
  by (rule state_leI) simp_all

section \<open>Tool batches\<close>

lemma sync_verification_blocker_state:
  assumes "sync_verification_blocker s = Inr t" and "wf_core_state s"
  shows "wf_core_state t" and "state_le s t"
    and "rf_workspace (cs_facts t) = rf_workspace (cs_facts s)"
    and "rf_verification (cs_facts t) = rf_verification (cs_facts s)"
    and "rf_loop_guards (cs_facts t) = rf_loop_guards (cs_facts s)"
    and "ts_status (cs_task t) = ts_status (cs_task s)"
proof -
  consider (failed) f b where "wf_failure_record f" "wf_task_blocker b"
      "t = having_blocker b (failed_with f s)"
    | (passed) "t = without_blocker VerificationFailed s" | (same) "t = s"
  proof (cases "vf_status (rf_verification (cs_facts s)) = VFailed")
    case True
    obtain f s1 b where f: "failure_record_post_init
        \<lparr>fr_code = ''verification.failed'', fr_source = ''verification'',
         fr_message = ''Verification failed'', fr_recoverable = True,
         fr_evidence_refs = vf_evidence_refs (rf_verification (cs_facts s))\<rparr> = Inr f"
      and s1: "record_failure s f = Inr s1"
      and b: "task_blocker_post_init
        \<lparr>tb_kind = VerificationFailed, tb_reason = ''Verification failed'',
         tb_evidence_refs = vf_evidence_refs (rf_verification (cs_facts s)), tb_recoverable = True\<rparr>
        = Inr b"
      and t: "put_blocker s1 b = Inr t"
      using assms(1) True by (auto simp: sync_verification_blocker_def Let_def bindE_eq_Inr)
    have wf: "wf_failure_record f" "wf_task_blocker b"
      using f b by (auto dest: failure_record.post_init_valid task_blocker.post_init_valid)
    show ?thesis
      using failed [OF wf] s1 t assms(2) wf by (auto simp: record_failure_eq put_blocker_eq)
  next
    case False
    then show ?thesis
      using assms passed same
      by (auto simp: sync_verification_blocker_def Let_def remove_blocker_eq split: if_splits)
  qed
  then have "wf_core_state t \<and> state_le s t \<and>
      rf_workspace (cs_facts t) = rf_workspace (cs_facts s) \<and>
      rf_verification (cs_facts t) = rf_verification (cs_facts s) \<and>
      rf_loop_guards (cs_facts t) = rf_loop_guards (cs_facts s) \<and>
      ts_status (cs_task t) = ts_status (cs_task s)"
    by cases (use assms(2) in \<open>simp_all add: state_leI\<close>)
  then show "wf_core_state t" and "state_le s t"
    and "rf_workspace (cs_facts t) = rf_workspace (cs_facts s)"
    and "rf_verification (cs_facts t) = rf_verification (cs_facts s)"
    and "rf_loop_guards (cs_facts t) = rf_loop_guards (cs_facts s)"
    and "ts_status (cs_task t) = ts_status (cs_task s)"
    by blast+
qed

text \<open>Only blockers and failures change.\<close>

definition only_failures :: "core_state \<Rightarrow> core_state \<Rightarrow> bool" where
  "only_failures s t \<longleftrightarrow>
     wf_core_state t \<and> applied_ids t = applied_ids s \<and>
     rf_counters (cs_facts t) = rf_counters (cs_facts s) \<and>
     rf_workspace (cs_facts t) = rf_workspace (cs_facts s) \<and>
     rf_verification (cs_facts t) = rf_verification (cs_facts s) \<and>
     rf_loop_guards (cs_facts t) = rf_loop_guards (cs_facts s) \<and>
     ts_plan (cs_task t) = ts_plan (cs_task s) \<and>
     ts_status (cs_task t) = ts_status (cs_task s)"

lemma only_failures_refl [simp]: "wf_core_state s \<Longrightarrow> only_failures s s"
  by (simp add: only_failures_def)

lemma only_failures_trans: "only_failures s t \<Longrightarrow> only_failures t u \<Longrightarrow> only_failures s u"
  by (simp add: only_failures_def)

lemma only_failures_le: "only_failures s t \<Longrightarrow> state_le s t"
  by (intro state_leI) (simp_all add: only_failures_def)

lemma only_failures_wf: "only_failures s t \<Longrightarrow> wf_core_state t"
  by (simp add: only_failures_def)

lemma only_failures_failed [simp]:
  "wf_core_state s \<Longrightarrow> wf_failure_record f \<Longrightarrow> only_failures s (failed_with f s)"
  by (simp add: only_failures_def)

lemma only_failures_put [simp]:
  "wf_core_state s \<Longrightarrow> wf_task_blocker b \<Longrightarrow> only_failures s (having_blocker b s)"
  by (simp add: only_failures_def)

lemma record_tool_failures_state:
  "record_tool_failures s rs = Inr (t, evs) \<Longrightarrow> wf_core_state s \<Longrightarrow> only_failures s t"
proof (induction rs arbitrary: s t evs)
  case Nil
  then show ?case by simp
next
  case (Cons r rs)
  obtain failure where f: "failure_from_tool_result r = Inr failure"
    using Cons.prems(1) by (auto simp: bindE_eq_Inr)
  show ?case
  proof (cases failure)
    case None
    with f Cons.prems(1) have "record_tool_failures s rs = Inr (t, evs)" by simp
    then show ?thesis using Cons by blast
  next
    case (Some fl)
    obtain e where e: "to_error r = Some e" "wf_failure_record fl"
      using f Some
      by (auto simp: failure_from_tool_result_def mapE_eq_Inr split: option.splits
          dest: failure_record.post_init_valid)
    then obtain s1 s2 evs' where s1: "record_failure s fl = Inr s1"
      and blocked: "(if er_kind e = KUnavailable \<or> er_code e = ''tool_not_found''
                then bindE (task_blocker_post_init
                       \<lparr>tb_kind = ToolUnavailable, tb_reason = er_message e,
                        tb_evidence_refs = [to_tool_call_id r],
                        tb_recoverable = fr_recoverable fl\<rparr>) (\<lambda>b. put_blocker s1 b)
                else Inr s1) = Inr s2"
      and rest: "record_tool_failures s2 rs = Inr (t, evs')"
      using Cons.prems(1) f Some by (auto simp: bindE_eq_Inr simp del: if_Inl_eq_Inr)
    have s2: "s2 = s1 \<or> (\<exists>b. wf_task_blocker b \<and> put_blocker s1 b = Inr s2)"
      using blocked
      by (auto simp: bindE_eq_Inr split: if_splits dest: task_blocker.post_init_valid)
    have w1: "only_failures s s1"
      using s1 Cons.prems(2) e(2) by (auto simp: record_failure_eq)
    moreover have "only_failures s1 s2"
      using s2 only_failures_wf [OF w1] by (auto simp: put_blocker_eq)
    ultimately have "only_failures s s2" by (rule only_failures_trans)
    moreover from this have "only_failures s2 t"
      using Cons.IH [OF rest] only_failures_wf by blast
    ultimately show ?thesis by (rule only_failures_trans)
  qed
qed

lemma sync_replan_blocker_state:
  "sync_replan_blocker s = Inr t \<Longrightarrow> wf_core_state s \<Longrightarrow> only_failures s t"
  by (auto simp: sync_replan_blocker_def bindE_eq_Inr put_blocker_eq
      dest!: task_blocker.post_init_valid split: option.splits if_splits)

lemma reduce_loop_guards_wf: "reduce_loop_guards g cs rs = Inr g' \<Longrightarrow> wf_loop_guard_facts g'"
  by (auto simp: reduce_loop_guards_def Let_def dest: loop_guard_facts.post_init_valid)

text \<open>The stages of \<open>reduce_tools\<close>, named.\<close>

definition clean_batch :: "tool_result list \<Rightarrow> bool" where
  "clean_batch rs \<longleftrightarrow> rs \<noteq> [] \<and> list_all (\<lambda>r. to_status r = TSuccess) rs"

definition cleared :: "core_state \<Rightarrow> core_state" where
  "cleared s =
     (let t = without_blocker ReplanRequired (without_blocker ToolUnavailable s) in
      t\<lparr>cs_facts := (cs_facts t)\<lparr>rf_failures := \<lparr>ff_latest = None, ff_counts = []\<rparr>\<rparr>\<rparr>)"

lemma cleared_wf [simp]: "wf_core_state s \<Longrightarrow> wf_core_state (cleared s)"
  by (simp add: cleared_def Let_def wf_parts wf_failure_facts_def)

lemma cleared_frame [simp]:
  "applied_ids (cleared s) = applied_ids s"
  "rf_counters (cs_facts (cleared s)) = rf_counters (cs_facts s)"
  "rf_workspace (cs_facts (cleared s)) = rf_workspace (cs_facts s)"
  "rf_verification (cs_facts (cleared s)) = rf_verification (cs_facts s)"
  "rf_loop_guards (cs_facts (cleared s)) = rf_loop_guards (cs_facts s)"
  "ts_plan (cs_task (cleared s)) = ts_plan (cs_task s)"
  "ts_status (cs_task (cleared s)) = ts_status (cs_task s)"
  by (simp_all add: cleared_def Let_def applied_ids_def)

lemma with_facts_Inr:
  "with_facts s f = Inr t \<longleftrightarrow> cs_schema_version s = CORE_STATE_SCHEMA_VERSION \<and> t = s\<lparr>cs_facts := f\<rparr>"
  by (auto simp: with_facts_def core_state_post_init_def)

definition batch_counters :: "core_state \<Rightarrow> tool_result list \<Rightarrow> core_counters" where
  "batch_counters s material =
     (let c = rf_counters (cs_facts s);
          counted = set (lg_seen_tool_call_ids (rf_loop_guards (cs_facts s))) in
      c\<lparr>cc_tool_iterations := cc_tool_iterations c + (if material \<noteq> [] then 1 else 0),
        cc_tool_calls := cc_tool_calls c
          + int (length (filter (\<lambda>r. to_tool_call_id r \<notin> counted) material))\<rparr>)"

definition batch_facts ::
  "core_state \<Rightarrow> tool_result list \<Rightarrow> workspace_facts \<Rightarrow> verification_facts \<Rightarrow> core_state" where
  "batch_facts s material w v =
     s\<lparr>cs_facts := (cs_facts s)\<lparr>rf_counters := batch_counters s material, rf_workspace := w,
                                rf_verification := v\<rparr>\<rparr>"

lemma batch_counters_wf:
  "wf_core_state s \<Longrightarrow> wf_core_counters (batch_counters s material)"
  by (simp add: batch_counters_def wf_core_state_def wf_run_facts_def wf_core_counters_def Let_def)

lemma batch_counters_le: "counters_le (rf_counters (cs_facts s)) (batch_counters s material)"
  by (simp add: batch_counters_def counters_le_def Let_def)

lemma reduce_tools_stages:
  assumes s: "wf_core_state s" and ob: "wf_observation (ToolBatchObservation ob)"
    and r: "reduce_tools s ob ctx = Inr red"
  obtains w ws v s4 s5 evs s6 cmds guards guards' where
    "reduce_workspace (rf_workspace (cs_facts s)) (material_results (tbo_results ob)) = Inr (w, ws)"
    "reduce_verification (rf_verification (cs_facts s)) (material_results (tbo_results ob)) w ws = Inr v"
    "sync_verification_blocker (batch_facts s (material_results (tbo_results ob)) w v) = Inr s4"
    "record_tool_failures s4 (material_results (tbo_results ob)) = Inr (s5, evs)"
    "sync_replan_blocker s5 = Inr s6"
    "apply_commands s6 (tbo_commands ob) ctx = Inr cmds"
    "reduce_loop_guards (rf_loop_guards (cs_facts (red_state cmds)))
       (filter (\<lambda>c. tc_id c \<in> set (map to_tool_call_id (material_results (tbo_results ob))))
          (tbo_calls ob)) (material_results (tbo_results ob)) = Inr guards"
    "guards' = guards \<or> guards' = guards\<lparr>lg_repeated_no_progress := 0\<rparr>"
    "wf_loop_guard_facts guards'"
    "red_state red =
       (let t = (if clean_batch (material_results (tbo_results ob)) then cleared (red_state cmds)
                 else red_state cmds)
        in t\<lparr>cs_facts := (cs_facts t)\<lparr>rf_loop_guards := guards'\<rparr>\<rparr>)"
    "red_command_results red = red_command_results cmds"
proof -
  let ?m = "material_results (tbo_results ob)"
  have counters: "core_counters_post_init
       ((rf_counters (cs_facts s))\<lparr>cc_tool_iterations := cc_tool_iterations (rf_counters (cs_facts s))
            + (if ?m \<noteq> [] then 1 else 0),
          cc_tool_calls := cc_tool_calls (rf_counters (cs_facts s))
            + int (length (filter (\<lambda>r. to_tool_call_id r \<notin>
                 set (lg_seen_tool_call_ids (rf_loop_guards (cs_facts s)))) ?m))\<rparr>)
     = Inr (batch_counters s ?m)"
    using core_counters.valid_post_init [OF batch_counters_wf [OF s, of ?m]]
    by (simp add: batch_counters_def Let_def)
  have sch: "cs_schema_version s = CORE_STATE_SCHEMA_VERSION" using s by (simp add: wf_core_state_def)
  obtain w ws ev1 v ev2 s4 s5 evs s6 cmds s7 guards guards' where
    w: "reduce_workspace (rf_workspace (cs_facts s)) ?m = Inr (w, ws)" and
    v: "reduce_verification (rf_verification (cs_facts s)) ?m w ws = Inr v" and
    s4: "sync_verification_blocker (batch_facts s ?m w v) = Inr s4" and
    s5: "record_tool_failures s4 ?m = Inr (s5, evs)" and
    s6: "sync_replan_blocker s5 = Inr s6" and
    cmds: "apply_commands s6 (tbo_commands ob) ctx = Inr cmds" and
    s7: "(if clean_batch ?m
            then bindE (remove_blocker (red_state cmds) ToolUnavailable) (\<lambda>t1.
                 bindE (remove_blocker t1 ReplanRequired) (\<lambda>t2.
                 with_facts t2 ((cs_facts t2)\<lparr>rf_failures := \<lparr>ff_latest = None, ff_counts = []\<rparr>\<rparr>)))
            else Inr (red_state cmds)) = Inr s7" and
    guards: "reduce_loop_guards (rf_loop_guards (cs_facts s7))
              (filter (\<lambda>c. tc_id c \<in> set (map to_tool_call_id ?m)) (tbo_calls ob)) ?m = Inr guards" and
    guards': "(if ws \<or> v \<noteq> rf_verification (cs_facts s) \<or>
                  list_ex (\<lambda>r. cmdr_status r = Applied) (red_command_results cmds)
            then loop_guard_facts_post_init (guards\<lparr>lg_repeated_no_progress := 0\<rparr>)
            else Inr guards) = Inr guards'" and
    red: "red = reduction (s7\<lparr>cs_facts := (cs_facts s7)\<lparr>rf_loop_guards := guards'\<rparr>\<rparr>)
            (ev1 @ ev2 @ evs @ red_events cmds) (red_command_results cmds)"
    using r unfolding reduce_tools_def Let_def counters bindE_Inr clean_batch_def [symmetric]
    by (auto simp: bindE_eq_Inr with_facts_Inr batch_facts_def simp del: if_Inl_eq_Inr
        split: prod.splits)
  have wf: "wf_workspace_facts w" "wf_verification_facts v"
    using reduce_workspace_wf [OF w] reduce_verification_wf [OF v] s by (simp_all add: wf_parts)
  have "wf_core_state (batch_facts s ?m w v)"
    using s wf batch_counters_wf [OF s] by (simp add: batch_facts_def wf_core_state_def wf_run_facts_def)
  then have "wf_core_state s4" by (rule sync_verification_blocker_state(1) [OF s4])
  then have "wf_core_state s5" using record_tool_failures_state [OF s5] only_failures_wf by blast
  then have "wf_core_state s6" using sync_replan_blocker_state [OF s6] only_failures_wf by blast
  moreover have "\<forall>c \<in> set (tbo_commands ob). wf_command c" using ob by (simp add: wf_observation_def)
  ultimately have wc: "wf_core_state (red_state cmds)" using apply_commands_state [OF cmds] by blast
  have s7': "s7 = (if clean_batch ?m then cleared (red_state cmds) else red_state cmds)"
    using s7 wc by (auto simp: remove_blocker_eq with_facts_Inr bindE_eq_Inr cleared_def Let_def
        split: if_splits)
  have "rf_loop_guards (cs_facts s7) = rf_loop_guards (cs_facts (red_state cmds))"
    by (simp add: s7')
  note guards_eq = guards [unfolded this]
  have gw: "wf_loop_guard_facts guards" using guards by (rule reduce_loop_guards_wf)
  then have "wf_loop_guard_facts (guards\<lparr>lg_repeated_no_progress := 0\<rparr>)"
    by (simp add: wf_loop_guard_facts_def)
  then have g': "guards' = guards \<or> guards' = guards\<lparr>lg_repeated_no_progress := 0\<rparr>"
    and "wf_loop_guard_facts guards'"
    using guards' gw loop_guard_facts.valid_post_init by (auto split: if_splits)
  moreover have "red_state red =
      (let t = (if clean_batch ?m then cleared (red_state cmds) else red_state cmds)
       in t\<lparr>cs_facts := (cs_facts t)\<lparr>rf_loop_guards := guards'\<rparr>\<rparr>)"
    unfolding red s7' Let_def by (rule reduction_simps)
  moreover have "red_command_results red = red_command_results cmds" by (simp add: red)
  ultimately show ?thesis by (rule that [OF w v s4 s5 s6 cmds guards_eq])
qed

lemma applied_ids_guards:
  "applied_ids (t\<lparr>cs_facts := (cs_facts t)\<lparr>rf_loop_guards := g\<rparr>\<rparr>) = applied_ids t"
  by (simp add: applied_ids_def)

lemma reduce_tools_state:
  assumes s: "wf_core_state s" and ob: "wf_observation (ToolBatchObservation ob)"
    and r: "reduce_tools s ob ctx = Inr red"
  shows "wf_core_state (red_state red)" and "state_le s (red_state red)"
proof -
  let ?m = "material_results (tbo_results ob)"
  from assms obtain w ws v s4 s5 evs s6 cmds guards' where
    w: "reduce_workspace (rf_workspace (cs_facts s)) ?m = Inr (w, ws)" and
    v: "reduce_verification (rf_verification (cs_facts s)) ?m w ws = Inr v" and
    s4: "sync_verification_blocker (batch_facts s ?m w v) = Inr s4" and
    s5: "record_tool_failures s4 ?m = Inr (s5, evs)" and
    s6: "sync_replan_blocker s5 = Inr s6" and
    cmds: "apply_commands s6 (tbo_commands ob) ctx = Inr cmds" and
    g: "wf_loop_guard_facts guards'" and
    red: "red_state red =
       (let t = (if clean_batch ?m then cleared (red_state cmds) else red_state cmds)
        in t\<lparr>cs_facts := (cs_facts t)\<lparr>rf_loop_guards := guards'\<rparr>\<rparr>)"
    by (rule reduce_tools_stages)
  have wf: "wf_workspace_facts w" "wf_verification_facts v"
    using reduce_workspace_wf [OF w] reduce_verification_wf [OF v] s by (simp_all add: wf_parts)
  have w0: "wf_core_state (batch_facts s ?m w v)"
    using s wf batch_counters_wf [OF s] by (simp add: batch_facts_def wf_core_state_def wf_run_facts_def)
  have "workspace_le (rf_workspace (cs_facts s)) w"
    using reduce_workspace_cases [OF w] reduce_workspace_paths [of _ ?m w] w s
    by (cases ws) (auto simp: workspace_le_def wf_parts)
  then have le0: "state_le s (batch_facts s ?m w v)"
    using batch_counters_le by (simp add: batch_facts_def state_le_def applied_ids_def)
  note st4 = sync_verification_blocker_state [OF s4 w0]
  note of5 = record_tool_failures_state [OF s5 st4(1)]
  note of6 = sync_replan_blocker_state [OF s6 only_failures_wf [OF of5]]
  have "\<forall>c \<in> set (tbo_commands ob). wf_command c" using ob by (simp add: wf_observation_def)
  note stc = apply_commands_state [OF cmds only_failures_wf [OF of6] this]
  have "state_le s6 (red_state cmds)" using stc by blast
  with only_failures_le [OF of6] have "state_le s5 (red_state cmds)" by (rule state_le_trans)
  with only_failures_le [OF of5] have "state_le s4 (red_state cmds)" by (rule state_le_trans)
  with st4(2) have "state_le (batch_facts s ?m w v) (red_state cmds)" by (rule state_le_trans)
  with le0 have le: "state_le s (red_state cmds)" by (rule state_le_trans)
  let ?t = "if clean_batch ?m then cleared (red_state cmds) else red_state cmds"
  have wt: "wf_core_state ?t" using stc by simp
  show "wf_core_state (red_state red)"
    using wt g unfolding red Let_def by (simp add: wf_core_state_def wf_run_facts_def)
  have "state_le (red_state cmds) (red_state red)"
    unfolding red Let_def by (rule state_leI) (simp_all add: applied_ids_guards)
  with le show "state_le s (red_state red)" by (rule state_le_trans)
qed

section \<open>The machine\<close>

lemma reduce_by_kind_state:
  assumes "wf_core_state s" and "wf_observation ob" and "reduce_by_kind s ob ctx = Inr red"
  shows "wf_core_state (red_state red)" and "state_le s (red_state red)"
proof -
  have "wf_core_state (red_state red) \<and> state_le s (red_state red)"
  proof (cases ob)
    case (ModelObservation m)
    with assms show ?thesis using reduce_model_state [of s m red] by simp
  next
    case (ToolBatchObservation t)
    with assms show ?thesis using reduce_tools_state [of s t ctx red] by simp
  next
    case (UserInputObservation u)
    with assms show ?thesis using reduce_user_input_eq [of s u] answered_le [of s u] by auto
  next
    case (CommandObservation c)
    with assms show ?thesis
      using apply_core_command_state(1,2) [of s "co_command c" ctx red]
      by (simp add: wf_observation_def)
  next
    case (CancellationObservation c)
    with assms show ?thesis
      using reduce_cancellation_eq [of s c] failed_with_le [of s "cancelled_failure c"] by auto
  qed
  then show "wf_core_state (red_state red)" and "state_le s (red_state red)" by blast+
qed

lemma reduce_observation_cases:
  assumes "reduce_observation s ob ctx = Inr red" and "wf_core_state s" and "wf_observation ob"
  obtains (seen) "observation_id ob \<in> set (applied_ids s)" "red = reduction s [] []"
  | (new) red' where "observation_id ob \<notin> set (applied_ids s)"
      "reduce_by_kind s ob ctx = Inr red'" "wf_core_state (red_state red')"
      "red = red'\<lparr>red_state := noted (observation_id ob) (red_state red')\<rparr>"
proof (cases "observation_id ob \<in> set (applied_ids s)")
  case True
  with assms(1) show ?thesis by (intro seen) (simp_all add: reduce_observation_def applied_ids_def)
next
  case False
  then obtain red' t where r': "reduce_by_kind s ob ctx = Inr red'"
    and t: "ledger_append (red_state red') (observation_id ob) = Inr t" "red = red'\<lparr>red_state := t\<rparr>"
    using assms(1) by (auto simp: reduce_observation_def applied_ids_def bindE_eq_Inr)
  note st = reduce_by_kind_state [OF assms(2,3) r']
  have "t = noted (observation_id ob) (red_state red')"
    using t(1) st(1) assms(3) by (simp add: ledger_append_eq wf_observation_def)
  then show ?thesis using new [OF False r' st(1)] t(2) by simp
qed

lemma reduce_observation_state:
  assumes "wf_core_state s" and "wf_observation ob" and "reduce_observation s ob ctx = Inr red"
  shows "wf_core_state (red_state red)" and "state_le s (red_state red)"
    and "observation_id ob \<in> set (applied_ids (red_state red))"
proof -
  have "wf_core_state (red_state red) \<and> state_le s (red_state red) \<and>
        observation_id ob \<in> set (applied_ids (red_state red))"
    using assms(3,1,2)
  proof (cases rule: reduce_observation_cases)
    case seen
    then show ?thesis using assms(1) by simp
  next
    case (new red')
    have "state_le s (noted (observation_id ob) (red_state red'))"
      using reduce_by_kind_state(2) [OF assms(1,2) new(2)] noted_le by (rule state_le_trans)
    then show ?thesis
      using new(3) assms(2) by (simp add: new(4) applied_ids_noted wf_observation_def)
  qed
  then show "wf_core_state (red_state red)" and "state_le s (red_state red)"
    and "observation_id ob \<in> set (applied_ids (red_state red))" by blast+
qed

text \<open>One step of the machine: an observation, in its context.\<close>

definition reducer_step :: "core_state \<Rightarrow> core_observation \<times> reduction_context \<Rightarrow> core_state result" where
  "reducer_step s i = mapE red_state (reduce_observation s (fst i) (snd i))"

definition reducer_input_ok :: "core_observation \<times> reduction_context \<Rightarrow> bool" where
  "reducer_input_ok i \<longleftrightarrow> wf_observation (fst i)"

interpretation reducer: ordered_machine reducer_step wf_core_state reducer_input_ok state_le
proof
  fix s t u :: core_state and i :: "core_observation \<times> reduction_context"
  show "wf_core_state t" if "wf_core_state s" "reducer_input_ok i" "reducer_step s i = Inr t"
    using that reduce_observation_state(1)
    by (auto simp: reducer_step_def reducer_input_ok_def mapE_eq_Inr)
  show "state_le s s" by simp
  show "state_le s u" if "state_le s t" "state_le t u" using that by (rule state_le_trans)
  show "state_le s t" if "wf_core_state s" "reducer_input_ok i" "reducer_step s i = Inr t"
    using that reduce_observation_state(2)
    by (auto simp: reducer_step_def reducer_input_ok_def mapE_eq_Inr)
qed

end
