(* ===== verification/Core_Policy.thy ===== *)
theory Core_Policy
  imports Core_Contracts
begin

text \<open>
  The decision policy, \<^verbatim>\<open>src/codepilot/core/policy.py\<close>: from the state after a reduction,
  the observation that was reduced and the run limits to the next decision. The branches
  stand in the order of the source; each step of the chain is a function that either
  decides or passes on.
\<close>

record policy_context =
  pc_mode :: run_mode
  pc_limits :: core_limits

section \<open>Reading the observation\<close>

definition message_tool_calls :: "model_observation \<Rightarrow> tool_call list" where
  "message_tool_calls m =
     (case mo_message m of None \<Rightarrow> [] | Some a \<Rightarrow> block_tool_calls (am_content a))"

fun observed_tool_calls :: "core_observation \<Rightarrow> tool_call list" where
  "observed_tool_calls (ModelObservation m) = message_tool_calls m"
| "observed_tool_calls _ = []"

fun is_final_candidate :: "core_observation \<Rightarrow> bool" where
  "is_final_candidate (ModelObservation m) =
     (mo_status m = ModelCompleted \<and> message_tool_calls m = [] \<and>
      (case mo_message m of None \<Rightarrow> False | Some a \<Rightarrow> has_text (am_content a)))"
| "is_final_candidate _ = False"

fun has_tool_status :: "core_observation \<Rightarrow> tool_status \<Rightarrow> bool" where
  "has_tool_status (ToolBatchObservation t) status =
     list_ex (\<lambda>r. to_status r = status) (tbo_results t)"
| "has_tool_status _ status = False"

fun is_cancellation :: "core_observation \<Rightarrow> bool" where
  "is_cancellation (CancellationObservation _) = True"
| "is_cancellation _ = False"

fun is_model_or_tools :: "core_observation \<Rightarrow> bool" where
  "is_model_or_tools (ModelObservation _) = True"
| "is_model_or_tools (ToolBatchObservation _) = True"
| "is_model_or_tools _ = False"

fun user_input_differs :: "core_observation \<Rightarrow> string \<Rightarrow> bool" where
  "user_input_differs (UserInputObservation u) goal = (ui_text u \<noteq> goal)"
| "user_input_differs _ goal = False"

definition has_blocker :: "core_state \<Rightarrow> blocker_kind \<Rightarrow> bool" where
  "has_blocker s kind = list_ex (\<lambda>b. tb_kind b = kind) (ts_blockers (cs_task s))"

fun needs_recovery :: "core_state \<Rightarrow> core_observation \<Rightarrow> bool" where
  "needs_recovery s (ModelObservation m) =
     (has_blocker s VerificationFailed \<or> has_blocker s ToolUnavailable \<or>
      has_blocker s ReplanRequired \<or>
      mo_status m = ModelFailed \<or>
      (case mo_message m of
         None \<Rightarrow> True
       | Some a \<Rightarrow> block_tool_calls (am_content a) = [] \<and> \<not> has_text (am_content a)))"
| "needs_recovery s (ToolBatchObservation t) =
     (has_blocker s VerificationFailed \<or> has_blocker s ToolUnavailable \<or>
      has_blocker s ReplanRequired \<or>
      list_ex (\<lambda>r. to_error r \<noteq> None \<or>
        (case dget (to_data r) ''verification'' of
           PDict d \<Rightarrow> dget d ''status'' = PStr ''failed'' | _ \<Rightarrow> False)) (tbo_results t))"
| "needs_recovery s _ =
     (has_blocker s VerificationFailed \<or> has_blocker s ToolUnavailable \<or>
      has_blocker s ReplanRequired)"

section \<open>Building decisions\<close>

definition call_model ::
  "model_purpose \<Rightarrow> string \<Rightarrow> string list \<Rightarrow> string list \<Rightarrow> core_decision result" where
  "call_model purpose code refs constraints =
     bindE (mk_core_directive code constraints refs) (\<lambda>directive.
     bindE (mk_core_reason code [] ''core'' True refs []) (\<lambda>reason.
     Inr (CallModel purpose directive reason)))"

definition request_tools :: "tool_call list \<Rightarrow> core_decision result" where
  "request_tools calls =
     bindE (mk_core_reason ''model.requested_tools'' [] ''core'' True [] []) (\<lambda>reason.
     mk_execute_tools calls reason)"

definition wait_for ::
  "core_wait_kind \<Rightarrow> string \<Rightarrow> core_reason result \<Rightarrow> dict \<Rightarrow> core_decision result" where
  "wait_for kind request_id reason payload =
     bindE reason (\<lambda>reason. mapE Wait (mk_core_wait kind request_id reason payload))"

text \<open>A wait copies its payload with \<^verbatim>\<open>deepcopy\<close>. The interaction of a result is frozen, so
  its inner mappings are \<^verbatim>\<open>MappingProxyType\<close> objects, which Python cannot copy; the other
  payloads of the policy hold texts and numbers only.\<close>

fun holds_mapping :: "pyval \<Rightarrow> bool" where
  "holds_mapping (PDict d) = True"
| "holds_mapping (PList vs) = list_ex holds_mapping vs"
| "holds_mapping (PTuple vs) = list_ex holds_mapping vs"
| "holds_mapping v = False"

definition deepcopy_frozen :: "dict \<Rightarrow> dict result" where
  "deepcopy_frozen d =
     (if list_ex (\<lambda>(k, v). holds_mapping v) d
      then Inl (TypeError ''cannot pickle mappingproxy object'') else Inr d)"

text \<open>\<^verbatim>\<open>_external_wait\<close>: the first result that suspends the run.\<close>

definition result_wait :: "tool_result \<Rightarrow> core_decision result option" where
  "result_wait r =
     (case to_error r of
        Some e \<Rightarrow>
          if er_code e = ''tool.recovery.ambiguous''
          then Some (wait_for WaitUserInput (''recovery:'' @ to_tool_call_id r)
                 (mk_core_reason ''tool.recovery.ambiguous'' (er_message e) ''tools'' True
                    [to_tool_call_id r] [])
                 [(''tool_call_id'', PStr (to_tool_call_id r)),
                  (''tool_name'', PStr (to_tool_name r))])
          else None
      | None \<Rightarrow> None)"

definition result_suspension :: "tool_result \<Rightarrow> core_decision result option" where
  "result_suspension r =
     (case result_wait r of
        Some w \<Rightarrow> Some w
      | None \<Rightarrow>
     (case (to_status r, to_approval r) of
        (TApprovalRequired, Some approval) \<Rightarrow>
          Some (wait_for WaitToolApproval (ac_approval_id approval)
                 (mk_core_reason ''tool.approval_required'' (ac_reason approval) ''tools'' True
                    [to_tool_call_id r] [])
                 [(''tool_call_id'', PStr (to_tool_call_id r)),
                  (''tool_name'', PStr (to_tool_name r)),
                  (''risk'', PStr (risk_level_name (ac_risk approval)))])
      | _ \<Rightarrow>
     (case (to_status r, to_interaction r) of
        (TUserInputRequired, Some interaction) \<Rightarrow>
          (let raw = dget interaction ''request_id'' in
          Some (bindE (wait_for WaitUserInput
                   (if py_truth raw then py_str raw else to_tool_call_id r)
                   (mk_core_reason ''tool.user_input_required'' [] ''tools'' True
                      [to_tool_call_id r] [])
                   interaction) (\<lambda>w.
                mapE (\<lambda>_. w) (deepcopy_frozen interaction))))
      | _ \<Rightarrow> None)))"

fun first_suspension :: "tool_result list \<Rightarrow> core_decision result option" where
  "first_suspension [] = None"
| "first_suspension (r # rs) =
     (case result_suspension r of Some w \<Rightarrow> Some w | None \<Rightarrow> first_suspension rs)"

fun external_wait :: "core_observation \<Rightarrow> core_decision result option" where
  "external_wait (ToolBatchObservation t) = first_suspension (tbo_results t)"
| "external_wait _ = None"

definition budget_reason ::
  "core_state \<Rightarrow> core_observation \<Rightarrow> policy_context \<Rightarrow> string option" where
  "budget_reason s ob ctx =
     (let c = rf_counters (cs_facts s); l = pc_limits ctx;
          final_candidate = (is_final_candidate ob \<and> ts_blockers (cs_task s) = [])
      in
      if cc_model_turns c > li_max_model_turns l \<or>
         (cc_model_turns c \<ge> li_max_model_turns l \<and> is_model_or_tools ob \<and>
          observed_tool_calls ob = [] \<and> \<not> final_candidate)
        then Some ''run.max_model_turns''
      else if cc_tool_iterations c > li_max_tool_iterations l
        then Some ''run.max_tool_iterations''
      else if (case li_max_tool_calls l of None \<Rightarrow> False | Some m \<Rightarrow> cc_tool_calls c > m)
        then Some ''run.max_tool_calls''
      else if lg_repeated_tool_calls (rf_loop_guards (cs_facts s)) > li_repeated_tool_call_limit l
        then Some ''run.repeated_tool_call''
      else None)"

definition budget_wait ::
  "core_state \<Rightarrow> core_observation \<Rightarrow> policy_context \<Rightarrow> core_decision result option" where
  "budget_wait s ob ctx =
     map_option (\<lambda>reason. wait_for WaitContinuation (''continuation:'' @ reason)
        (mk_core_reason reason [] ''core'' True [] []) []) (budget_reason s ob ctx)"

text \<open>The evidence of blockers, in order.\<close>

definition blocker_refs :: "core_state \<Rightarrow> string list" where
  "blocker_refs s = concat (map tb_evidence_refs (ts_blockers (cs_task s)))"

section \<open>The decision chain\<close>

text \<open>A step of the chain: \<open>None\<close> falls through to the next.\<close>

fun first_decision :: "core_decision result option list \<Rightarrow> core_decision result \<Rightarrow> core_decision result" where
  "first_decision [] fallback = fallback"
| "first_decision (d # ds) fallback =
     (case d of Some r \<Rightarrow> r | None \<Rightarrow> first_decision ds fallback)"

definition decide_task_status :: "core_state \<Rightarrow> core_decision result option" where
  "decide_task_status s =
     (if ts_status (cs_task s) = TaskSatisfied
        then Some (mk_terminate TermCompleted ''task.completed'' [] [])
      else if ts_status (cs_task s) = TaskAbandoned
        then Some (mk_terminate TermCancelled ''run.cancelled'' [] [])
      else None)"

definition decide_fatal :: "core_state \<Rightarrow> core_decision result option" where
  "decide_fatal s =
     (case ff_latest (rf_failures (cs_facts s)) of
        None \<Rightarrow> None
      | Some f \<Rightarrow>
          if \<not> fr_recoverable f \<and> fr_code f \<noteq> ''run.cancelled''
          then Some (mk_terminate TermFailed (fr_code f) (fr_message f) (fr_evidence_refs f))
          else None)"

definition decide_cancelled :: "core_observation \<Rightarrow> core_decision result option" where
  "decide_cancelled ob =
     (if is_cancellation ob \<or> has_tool_status ob TCancelled
      then Some (mk_terminate TermCancelled ''run.cancelled'' [] []) else None)"

definition decide_read_only :: "core_state \<Rightarrow> policy_context \<Rightarrow> core_decision result option" where
  "decide_read_only s ctx =
     (if pc_mode ctx = ModeRead \<and> wk_changed (rf_workspace (cs_facts s))
      then Some (mk_terminate TermFailed ''read.workspace_changed'' [] []) else None)"

definition decide_proposed ::
  "core_state \<Rightarrow> core_observation \<Rightarrow> policy_context \<Rightarrow> plan_state \<Rightarrow> core_decision result" where
  "decide_proposed s ob ctx plan =
     (if observed_tool_calls ob \<noteq> [] then request_tools (observed_tool_calls ob)
      else if user_input_differs ob (ts_current_goal (cs_task s))
        then call_model PurposeReplan ''plan.feedback_received'' [] []
      else if has_blocker s PlanIncomplete
        then (case budget_wait s ob ctx of
                Some w \<Rightarrow> w
              | None \<Rightarrow> call_model PurposeReplan ''plan.revision_submission_required'' [] [])
      else wait_for WaitPlanConfirmation (ps_plan_id plan)
             (mk_core_reason ''plan.confirmation_required'' [] ''core'' True [] [])
             [(''plan_id'', PStr (ps_plan_id plan)), (''revision'', PInt (ps_revision plan))])"

definition decide_plan_confirmation ::
  "core_state \<Rightarrow> core_observation \<Rightarrow> policy_context \<Rightarrow> core_decision result option" where
  "decide_plan_confirmation s ob ctx =
     (case ts_plan (cs_task s) of
        None \<Rightarrow> None
      | Some plan \<Rightarrow>
          if ps_status plan = PlanProposed then Some (decide_proposed s ob ctx plan)
          else if ps_status plan = PlanActive \<and> ps_pending_revision plan \<noteq> None
          then Some (wait_for WaitPlanConfirmation (ps_plan_id plan)
                 (mk_core_reason ''plan.revision_confirmation_required'' [] ''core'' True [] [])
                 [(''plan_id'', PStr (ps_plan_id plan)), (''revision'', PInt (ps_revision plan)),
                  (''confirmation'', PStr ''revision'')])
          else None)"

definition decide_tools :: "core_observation \<Rightarrow> core_decision result option" where
  "decide_tools ob =
     (if observed_tool_calls ob \<noteq> [] then Some (request_tools (observed_tool_calls ob)) else None)"

definition decide_recovery ::
  "core_state \<Rightarrow> core_observation \<Rightarrow> policy_context \<Rightarrow> core_decision result option" where
  "decide_recovery s ob ctx =
     (case ff_latest (rf_failures (cs_facts s)) of
        None \<Rightarrow> None
      | Some f \<Rightarrow>
          if fr_recoverable f \<and> needs_recovery s ob
          then Some
            (if has_blocker s ReplanRequired
               then call_model PurposeReplan ''replan.required'' (fr_evidence_refs f) []
             else if count_for (rf_failures (cs_facts s)) (fr_code f)
                       \<le> li_max_recovery_attempts (pc_limits ctx)
               then call_model PurposeRecovery ''recovery.required'' (fr_evidence_refs f) []
             else mk_terminate TermFailed ''core.recovery_exhausted'' [] (fr_evidence_refs f))
          else None)"

definition decide_replan :: "core_state \<Rightarrow> core_decision result option" where
  "decide_replan s =
     (if has_blocker s ReplanRequired
      then Some (call_model PurposeReplan ''replan.required''
             (concat (map tb_evidence_refs
                (filter (\<lambda>b. tb_kind b = ReplanRequired) (ts_blockers (cs_task s))))) [])
      else None)"

definition pending_step_ids :: "plan_state \<Rightarrow> string list" where
  "pending_step_ids plan =
     map st_step_id (filter (\<lambda>st. st_status st \<noteq> StepCompleted) (ps_steps plan))"

definition decide_active_plan ::
  "core_state \<Rightarrow> core_observation \<Rightarrow> core_decision result option" where
  "decide_active_plan s ob =
     (case ts_plan (cs_task s) of
        None \<Rightarrow> None
      | Some plan \<Rightarrow>
          if ps_status plan \<noteq> PlanActive then None
          else if list_all (\<lambda>st. st_status st = StepCompleted) (ps_steps plan)
          then Some
            (if ts_blockers (cs_task s) \<noteq> []
               then call_model PurposeRecovery ''task.blocked'' (blocker_refs s) []
             else if is_final_candidate ob
               then mk_terminate TermCompleted ''plan.completed'' [] []
             else call_model PurposeFinalResponse ''final_response.required'' [] [])
          else if is_final_candidate ob
          then Some
            (if lg_repeated_no_progress (rf_loop_guards (cs_facts s)) \<ge> 2
             then mk_terminate TermFailed ''plan.reconciliation_exhausted''
                    (''The model produced a final response twice while ''
                     @ ''the active Task Plan still had incomplete steps.'')
                    (pending_step_ids plan)
             else call_model PurposeReasoning ''plan.reconciliation_required'' []
                    [''Active Plan expected_revision='' @ str_int (ps_revision plan) @ ''.'',
                     ''Incomplete step_ids: '' @ py_join '', '' (pending_step_ids plan),
                     ''Reconcile the canonical Plan with the work actually ''
                     @ ''completed. If an incomplete step is complete, call ''
                     @ ''update_plan_progress with the current expected_revision ''
                     @ ''and only the changed step_ids.'',
                     ''If any step is not complete, continue the required ''
                     @ ''implementation or verification work. Do not emit another ''
                     @ ''final response while incomplete steps remain.''])
          else None)"

definition decide_verification :: "core_state \<Rightarrow> core_decision result option" where
  "decide_verification s =
     (if as_status (assess_core_state s) = ANeedsVerification
      then Some (call_model PurposeVerification ''verification.required''
             (wk_evidence_refs (rf_workspace (cs_facts s))) [])
      else None)"

definition decide_final ::
  "core_state \<Rightarrow> core_observation \<Rightarrow> policy_context \<Rightarrow> core_decision result option" where
  "decide_final s ob ctx =
     (if is_final_candidate ob
      then Some
        (if pc_mode ctx = ModeRead \<and> wk_changed (rf_workspace (cs_facts s))
           then mk_terminate TermFailed ''read.workspace_changed'' [] []
         else if ts_blockers (cs_task s) \<noteq> []
           then call_model PurposeRecovery ''task.blocked'' (blocker_refs s) []
         else mk_terminate TermCompleted ''task.completed'' [] [])
      else None)"

definition policy_decide ::
  "core_state \<Rightarrow> core_observation \<Rightarrow> policy_context \<Rightarrow> core_decision result" where
  "policy_decide s ob ctx =
     first_decision
       [decide_task_status s,
        decide_fatal s,
        external_wait ob,
        decide_cancelled ob,
        decide_read_only s ctx,
        decide_plan_confirmation s ob ctx,
        budget_wait s ob ctx,
        decide_tools ob,
        decide_recovery s ob ctx,
        decide_replan s,
        decide_active_plan s ob,
        decide_verification s,
        decide_final s ob ctx]
       (call_model PurposeReasoning ''reasoning.continue'' [] [])"

end
