(* ===== verification/Samples.thy ===== *)
theory Samples
  imports Reducer_Observations Core_Policy
begin

text \<open>
  Concrete values that the witnesses of the properties evaluate: a definition, steps, plans
  and states; and the equations that let the well-formedness predicates, which quantify over
  what an option holds, be evaluated.
\<close>

section \<open>Evaluation\<close>

fun opt_all :: "('a \<Rightarrow> bool) \<Rightarrow> 'a option \<Rightarrow> bool" where
  "opt_all P None = True"
| "opt_all P (Some x) = P x"

lemma opt_all_iff: "opt_all P x \<longleftrightarrow> (\<forall>y. x = Some y \<longrightarrow> P y)"
  by (cases x) simp_all

lemma wf_plan_state_code [code]:
  "wf_plan_state p \<longleftrightarrow>
     ps_schema_version p = PLAN_STATE_SCHEMA_VERSION \<and>
     canon_text plan_clean (ps_plan_id p) \<and> 0 \<le> ps_revision p \<and>
     wf_plan_definition (ps_definition p) \<and>
     wf_steps (ps_steps p) \<and> (\<forall>s \<in> set (ps_steps p). wf_plan_step s) \<and>
     opt_all wf_pending_plan_revision (ps_pending_revision p) \<and>
     opt_all wf_plan_close_request (ps_close_request p)"
  by (simp add: wf_plan_state_def opt_all_iff)

lemma wf_task_state_code [code]:
  "wf_task_state t \<longleftrightarrow>
     canon_text py_strip (ts_original_request t) \<and> canon_text py_strip (ts_current_goal t) \<and>
     opt_all wf_plan_state (ts_plan t) \<and> (\<forall>b \<in> set (ts_blockers t). wf_task_blocker b)"
  by (simp add: wf_task_state_def opt_all_iff)

lemma wf_verification_facts_code [code]:
  "wf_verification_facts v \<longleftrightarrow>
     opt_all (\<lambda>r. 0 \<le> r) (vf_verified_revision v) \<and>
     canon_texts py_strip (vf_attempted_checks v) \<and> canon_texts py_strip (vf_evidence_refs v) \<and>
     opt_all (canon_text py_strip) (vf_unavailable_reason v) \<and>
     (vf_status v = VUnavailable \<longrightarrow> vf_unavailable_reason v \<noteq> None)"
  by (simp add: wf_verification_facts_def opt_all_iff)

lemma wf_failure_facts_code [code]:
  "wf_failure_facts f \<longleftrightarrow>
     opt_all wf_failure_record (ff_latest f) \<and>
     (\<forall>c \<in> set (ff_counts f). wf_failure_count c) \<and>
     distinct (map fc_code (ff_counts f)) \<and> sorted (map fc_code (ff_counts f))"
  by (simp add: wf_failure_facts_def opt_all_iff)

lemma wf_loop_guard_facts_code [code]:
  "wf_loop_guard_facts g \<longleftrightarrow>
     opt_all (canon_text py_strip) (lg_last_tool_fingerprint g) \<and>
     0 \<le> lg_repeated_tool_calls g \<and> 0 \<le> lg_repeated_no_progress g \<and>
     canon_texts py_strip (lg_seen_tool_call_ids g)"
  by (simp add: wf_loop_guard_facts_def opt_all_iff)

lemma wf_tool_result_parts_code [code]:
  "wf_tool_result_parts r \<longleftrightarrow>
     wf_tool_result r \<and> opt_all wf_tool_error (to_error r) \<and>
     (\<forall>e \<in> set (to_effects r). canon_text py_strip (tr_uri (te_resource e)))"
  by (simp add: wf_tool_result_parts_def opt_all_iff)

lemma wf_observation_body_code [code]:
  "wf_observation_body (ModelObservation m) \<longleftrightarrow>
     (mo_status m = ModelFailed \<longrightarrow> mo_error m \<noteq> None) \<and> 0 < mo_attempts m \<and>
     opt_all wf_failure_record (mo_error m)"
  "wf_observation_body (ToolBatchObservation t) \<longleftrightarrow>
     (\<forall>r \<in> set (tbo_results t). wf_tool_result_parts r) \<and>
     (\<forall>c \<in> set (tbo_commands t). wf_command c)"
  "wf_observation_body (UserInputObservation u) \<longleftrightarrow>
     canon_text py_strip (ui_text u) \<and> opt_all (canon_text py_strip) (ui_current_goal u)"
  "wf_observation_body (CommandObservation c) \<longleftrightarrow> wf_command (co_command c)"
  "wf_observation_body (CancellationObservation ca) \<longleftrightarrow> canon_text py_strip (ca_reason ca)"
  by (simp_all add: opt_all_iff)

section \<open>Sample values\<close>

definition sample_definition :: plan_definition where
  "sample_definition =
     \<lparr>pd_summary = ''S'', pd_completion_criteria = [''ok''], pd_task_understanding = ''U'',
      pd_current_implementation = ''I'', pd_target_design = ''D'', pd_impact_scope = ''A'',
      pd_risks_and_open_questions = [''R''], pd_verification_plan = ''V'', pd_explanation = []\<rparr>"

definition sample_step_definition :: "string \<Rightarrow> plan_step_definition" where
  "sample_step_definition t = \<lparr>psd_step = t, psd_details = ''d'', psd_verification = ''v''\<rparr>"

definition sample_step :: "string \<Rightarrow> string \<Rightarrow> step_status \<Rightarrow> plan_step" where
  "sample_step i t st =
     \<lparr>st_step_id = i, st_step = t, st_details = ''d'', st_verification = ''v'', st_status = st,
      st_completion_note = (if st = StepCompleted then ''done'' else []), st_evidence_refs = []\<rparr>"

definition sample_plan :: "plan_origin \<Rightarrow> plan_status \<Rightarrow> plan_step list \<Rightarrow> plan_state" where
  "sample_plan origin status steps =
     \<lparr>ps_plan_id = ''p'', ps_origin = origin, ps_status = status, ps_revision = 3,
      ps_definition = sample_definition, ps_steps = steps, ps_pending_revision = None,
      ps_close_request = None, ps_schema_version = PLAN_STATE_SCHEMA_VERSION\<rparr>"

definition sample_task :: "plan_state option \<Rightarrow> task_state" where
  "sample_task plan =
     \<lparr>ts_original_request = ''g'', ts_current_goal = ''g'', ts_status = TaskActive,
      ts_plan = plan, ts_blockers = []\<rparr>"

definition sample_state :: "plan_state option \<Rightarrow> core_state" where
  "sample_state plan =
     \<lparr>cs_task = sample_task plan, cs_facts = initial_run_facts,
      cs_schema_version = CORE_STATE_SCHEMA_VERSION\<rparr>"

text \<open>One pending step, in build mode.\<close>

definition building :: core_state where
  "building = sample_state (Some (sample_plan OriginBuildMode PlanActive
     [sample_step ''a'' ''A'' StepPending]))"

text \<open>A plan of plan mode that waits for confirmation.\<close>

definition proposing :: core_state where
  "proposing = sample_state (Some (sample_plan OriginPlanMode PlanProposed
     [sample_step ''a'' ''A'' StepPending]))"

definition sample_context :: "run_mode \<Rightarrow> reduction_context" where
  "sample_context mode = \<lparr>rc_run_id = ''r'', rc_mode = mode, rc_now_ms = 0\<rparr>"

definition complete_a :: core_command where
  "complete_a = UpdatePlanProgress ''c'' 3
     [\<lparr>su_step_id = ''a'', su_status = StepCompleted, su_completion_note = ''done'',
       su_evidence_refs = []\<rparr>]"

definition sample_input :: core_observation where
  "sample_input = UserInputObservation
     \<lparr>ui_observation_id = ''u'', ui_text = ''hi'', ui_current_goal = None\<rparr>"

definition sample_message :: "content_block list \<Rightarrow> assistant_message" where
  "sample_message blocks =
     \<lparr>am_content = blocks, am_api = [], am_provider = [], am_model = [], am_stop_reason = ''stop'',
      am_response_id = None, am_error_message = None, am_timestamp = 0, am_metadata = []\<rparr>"

definition sample_model :: "string \<Rightarrow> content_block list \<Rightarrow> core_observation" where
  "sample_model oid blocks = ModelObservation
     \<lparr>mo_observation_id = oid, mo_message = Some (sample_message blocks),
      mo_status = ModelCompleted, mo_error = None, mo_purpose = PurposeReasoning,
      mo_attempts = 1\<rparr>"

text \<open>A successful write of \<^verbatim>\<open>workspace:///f\<close>; its data is the argument.\<close>

definition sample_write :: "string \<Rightarrow> dict \<Rightarrow> tool_result" where
  "sample_write cid data =
     \<lparr>to_tool_call_id = cid, to_tool_name = ''write'', to_status = TSuccess, to_content = [],
      to_data = data, to_error = None,
      to_effects = [\<lparr>te_kind = FilesystemWrite,
        te_resource = \<lparr>tr_uri = ''workspace:///f'', tr_metadata = []\<rparr>,
        te_operation = ''write'', te_status = EffCompleted, te_certainty = CertObserved\<rparr>],
      to_artifacts = [], to_approval = None, to_interaction = None,
      to_timing = \<lparr>tt_queued_at_ms = None, tt_started_at_ms = None, tt_finished_at_ms = None,
                   tt_duration_ms = None\<rparr>,
      to_registration_id = ''w'', to_output_validation = SchemaValidated,
      to_content_trust = Trusted\<rparr>"

definition sample_failure :: "string \<Rightarrow> string \<Rightarrow> tool_result" where
  "sample_failure cid code =
     (sample_write cid [])\<lparr>to_status := TError, to_effects := [],
       to_error := Some \<lparr>er_code = code, er_kind = KExecution, er_message = ''m'',
         er_retryable = False, er_recovery_hint = [], er_details = []\<rparr>\<rparr>"

definition sample_batch :: "string \<Rightarrow> tool_result list \<Rightarrow> core_command list \<Rightarrow> tool_batch_observation" where
  "sample_batch oid results commands =
     \<lparr>tbo_observation_id = oid, tbo_calls = [], tbo_results = results, tbo_commands = commands\<rparr>"

definition sample_limits :: policy_context where
  "sample_limits = \<lparr>pc_mode = ModeBuild, pc_limits = default_core_limits\<rparr>"

text \<open>What a reduction is, for evaluation.\<close>

definition run_of :: "core_reduction result \<Rightarrow> core_reduction" where
  "run_of r = (case r of Inr red \<Rightarrow> red | Inl _ \<Rightarrow> reduction (sample_state None) [] [])"

definition returns :: "'a result \<Rightarrow> bool" where
  "returns r \<longleftrightarrow> (case r of Inr _ \<Rightarrow> True | Inl _ \<Rightarrow> False)"

lemma returns_run_of: "returns r \<Longrightarrow> r = Inr (run_of r)"
  by (auto simp: returns_def run_of_def split: sum.splits)

lemma building_wf: "wf_core_state building"
  by code_simp

lemma proposing_wf: "wf_core_state proposing"
  by code_simp

lemma sample_input_wf: "wf_observation sample_input"
  by code_simp

lemma complete_a_wf: "wf_command complete_a"
  by code_simp

end
