(* ===== verification/Reducer_Properties.thy ===== *)
theory Reducer_Properties
  imports Samples
begin

text \<open>
  The correctness properties of the reducer: well-formedness and order over whole runs,
  idempotent replay, the command protocol (revision checks, rejection, read-only mode), the
  life of the plan, and the facts about workspace, verification and failures. Each property
  that has hypotheses is followed by its witness on the values of \<open>Samples\<close>.
\<close>

section \<open>Definitions and samples\<close>

definition sample_run :: "(core_observation \<times> reduction_context) list" where
  "sample_run =
     [(sample_model ''m1'' [], sample_context ModeBuild), (sample_input, sample_context ModeBuild)]"

definition sample_new :: core_state where
  "sample_new = (case core_state_new ''do it'' None of Inr s \<Rightarrow> s | Inl _ \<Rightarrow> building)"

definition sample_end :: core_state where
  "sample_end = (case run_steps reducer_step sample_new sample_run of Inr t \<Rightarrow> t | Inl _ \<Rightarrow> building)"

definition completed_a :: core_reduction where
  "completed_a = run_of (apply_core_command building complete_a (sample_context ModeBuild))"

definition stale_a :: core_reduction where
  "stale_a = run_of (apply_core_command proposing complete_a (sample_context ModeBuild))"

definition resubmitted :: core_reduction where
  "resubmitted = run_of (apply_core_command proposing
     (SubmitPlan ''c2'' sample_definition [sample_step_definition ''B'']) (sample_context ModePlan))"

definition plan_kept :: "plan_state option \<Rightarrow> plan_state option \<Rightarrow> bool" where
  "plan_kept x y \<longleftrightarrow>
     (\<forall>p. x = Some p \<longrightarrow> (\<exists>q. y = Some q \<and> ps_plan_id q = ps_plan_id p \<and>
        ps_origin q = ps_origin p \<and> ps_revision p \<le> ps_revision q \<and>
        (ps_revision q = ps_revision p \<longrightarrow> q = p) \<and>
        (terminal_plan (ps_status p) \<longrightarrow> q = p)))"

definition sample_plan_run :: "(core_observation \<times> reduction_context) list" where
  "sample_plan_run =
     [(CommandObservation \<lparr>co_observation_id = ''o1'', co_command =
         SubmitPlan ''c1'' sample_definition [sample_step_definition ''A'']\<rparr>,
       sample_context ModePlan)]"

definition sample_approval_run :: "(core_observation \<times> reduction_context) list" where
  "sample_approval_run =
     [(CommandObservation \<lparr>co_observation_id = ''o2'', co_command = ApprovePlan ''c2'' 1\<rparr>,
       sample_context ModePlan)]"

definition state_of :: "core_state result \<Rightarrow> core_state" where
  "state_of r = (case r of Inr s \<Rightarrow> s | Inl _ \<Rightarrow> building)"

text \<open>What the samples evaluate to.\<close>

lemma reducer_values:
  "core_state_new ''do it'' None = Inr sample_new"
  "returns (run_steps reducer_step sample_new sample_run)"
  "list_all (\<lambda>i. wf_observation (fst i)) sample_run"
  "cc_model_turns (rf_counters (cs_facts sample_end)) = 1"
  "returns (reduce_observation building sample_input (sample_context ModeBuild))"
  "returns (apply_core_command building complete_a (sample_context ModeBuild))"
  "ts_plan (cs_task (red_state completed_a)) \<noteq> ts_plan (cs_task building)"
  "ps_revision (the (ts_plan (cs_task building))) = 3"
  "ts_plan (cs_task building) \<noteq> None"
  "returns (apply_core_command proposing complete_a (sample_context ModeBuild))"
  "red_command_results stale_a = [command_reply complete_a CommandRejected ''plan.not_active'']"
  "wf_command (AbandonPlan ''z'' 2 ''why'')"
  "ts_plan (cs_task building) = Some (sample_plan OriginBuildMode PlanActive [sample_step ''a''
     ''A'' StepPending])"
  "length (ps_steps (the (ts_plan (cs_task building)))) = 1"
  "returns (apply_core_command proposing (SubmitPlan ''c2'' sample_definition
     [sample_step_definition ''B'']) (sample_context ModePlan))"
  "wf_command (SubmitPlan ''c2'' sample_definition [sample_step_definition ''B''])"
  "ts_plan (cs_task (red_state resubmitted)) \<noteq> ts_plan (cs_task proposing)"
  "returns (apply_core_command proposing (SubmitPlan ''c3''
     (sample_definition\<lparr>pd_summary := ''T''\<rparr>) [sample_step_definition ''B''])
     (sample_context ModePlan))"
  "map_option (\<lambda>q. pd_summary (ps_definition q)) (ts_plan (cs_task (red_state (run_of
     (apply_core_command proposing (SubmitPlan ''c3'' (sample_definition\<lparr>pd_summary :=
     ''T''\<rparr>) [sample_step_definition ''B'']) (sample_context ModePlan)))))) = Some ''T''"
  "wf_command (SubmitPlan ''c3'' (sample_definition\<lparr>pd_summary := ''T''\<rparr>)
     [sample_step_definition ''B''])"
  "returns (run_steps reducer_step sample_new sample_plan_run)"
  "returns (run_steps reducer_step (state_of (run_steps reducer_step sample_new
     sample_plan_run)) sample_approval_run)"
  "list_all (\<lambda>i. wf_observation (fst i)) (sample_plan_run @ sample_approval_run)"
  "map_option ps_revision (ts_plan (cs_task (state_of (run_steps reducer_step sample_new
     sample_plan_run)))) = Some 1"
  "canon_text py_strip ''ok''"
  "''ok'' \<notin> set (applied_ids proposing)"
  by code_simp+

section \<open>Runs\<close>

text \<open>Property C1. From a new core state, every run of the reducer over well-formed
  observations stays in well-formed states (all the dataclass invariants of the state, so no
  later decoding of it can fail), and moves forward: applied identifiers are never forgotten,
  counters and the workspace revision never decrease, and the plan only makes the moves of
  the plan life.\<close>

lemma reducer_run_keeps_state:
  assumes "core_state_new request goal = Inr s"
    and "run_steps reducer_step s is = Inr t"
    and "\<forall>i \<in> set is. wf_observation (fst i)"
  shows "wf_core_state t \<and> state_le s t"
proof -
  have "wf_core_state s" using assms(1) by (rule core_state_new_wf)
  moreover have "\<forall>i \<in> set is. reducer_input_ok i" using assms(3) by (simp add: reducer_input_ok_def)
  ultimately show ?thesis
    using reducer.run_inv [OF _ _ assms(2)] reducer.run_le [OF _ _ assms(2)] by blast
qed

lemma sample_run_parts:
  "core_state_new ''do it'' None = Inr sample_new"
  "run_steps reducer_step sample_new sample_run = Inr sample_end"
  "list_all (\<lambda>i. wf_observation (fst i)) sample_run"
proof -
  show "core_state_new ''do it'' None = Inr sample_new" by (fact reducer_values)
  have "returns (run_steps reducer_step sample_new sample_run)" by (fact reducer_values)
  then show "run_steps reducer_step sample_new sample_run = Inr sample_end"
    by (auto simp: sample_end_def returns_def split: sum.splits)
  show "list_all (\<lambda>i. wf_observation (fst i)) sample_run" by (fact reducer_values)
qed

lemma reducer_run_keeps_state_witness:
  "wf_core_state sample_end \<and> state_le sample_new sample_end \<and>
   cc_model_turns (rf_counters (cs_facts sample_end)) = 1"
proof -
  have "wf_core_state sample_end \<and> state_le sample_new sample_end"
    using sample_run_parts(3)
    by (intro reducer_run_keeps_state [OF sample_run_parts(1,2)]) (simp add: list_all_iff)
  moreover have "cc_model_turns (rf_counters (cs_facts sample_end)) = 1" by (fact reducer_values)
  ultimately show ?thesis by blast
qed

text \<open>Property C2. Replay is idempotent: once an observation has been reduced, reducing it
  again (any observation with its identifier, in any later state of the run) changes nothing,
  reports no command and emits no event.\<close>

lemma replay_is_idempotent:
  assumes "wf_core_state s" and "wf_observation ob"
    and "reduce_observation s ob ctx = Inr red"
    and "run_steps reducer_step (red_state red) is = Inr t"
    and "\<forall>i \<in> set is. wf_observation (fst i)"
    and "observation_id ob' = observation_id ob"
  shows "reduce_observation t ob' ctx' = Inr (reduction t [] [])"
proof -
  note st = reduce_observation_state [OF assms(1,2,3)]
  have "state_le (red_state red) t"
    using st(1) assms(4,5) by (intro reducer.run_le) (auto simp: reducer_input_ok_def)
  then have "observation_id ob' \<in> set (applied_ids t)"
    using st(3) assms(6) by (auto simp: state_le_def)
  then show ?thesis by (simp add: reduce_observation_def applied_ids_def)
qed

lemma replay_is_idempotent_witness:
  "reduce_observation
     (red_state (run_of (reduce_observation building sample_input (sample_context ModeBuild))))
     sample_input (sample_context ModeRead) =
   Inr (reduction (red_state (run_of (reduce_observation building sample_input
          (sample_context ModeBuild)))) [] [])"
proof -
  have "returns (reduce_observation building sample_input (sample_context ModeBuild))" by (fact reducer_values)
  then have r: "reduce_observation building sample_input (sample_context ModeBuild) =
    Inr (run_of (reduce_observation building sample_input (sample_context ModeBuild)))"
    by (rule returns_run_of)
  show ?thesis
    by (rule replay_is_idempotent [OF building_wf sample_input_wf r, of "[]"]) simp_all
qed

section \<open>Commands\<close>

text \<open>What a command did to the plan, and with which answer.\<close>

lemma command_move:
  assumes "apply_core_command s c ctx = Inr red" and "wf_core_state s" and "wf_command c"
    and "ts_plan (cs_task (red_state red)) \<noteq> ts_plan (cs_task s)"
  obtains l q where "ts_plan (cs_task (red_state red)) = Some q" "wf_plan_state q"
    "plan_moves (known_evidence s) l (ts_plan (cs_task s)) q" "label_allowed s ctx c l"
    "revision_matches s c" "red_command_results red = [command_reply c Applied []]"
  using assms(1-3)
proof (cases rule: apply_core_command_cases)
  case seen
  with assms(4) show ?thesis by simp
next
  case (new red')
  from new(2) show ?thesis
  proof cases
    case rejected
    with assms(4) show ?thesis by (simp add: new(3))
  next
    case (planned p l ks ev)
    then show ?thesis using that [of p l] by (simp add: new(3))
  next
    case unavailable
    with assms(4) show ?thesis by (simp add: new(3))
  qed
qed

text \<open>Property C3. Every change of the plan by a command is licensed: the command named the
  revision it was based on (unless it submits a plan) and that is the current one, the move
  is one the plan life allows from the current plan, the run mode and the failure history
  allow that kind of move, and the new plan is well formed and answered with one
  \<^verbatim>\<open>applied\<close> result. An existing plan keeps its identity and origin and goes up by exactly
  one revision.\<close>

lemma plan_changes_are_licensed:
  assumes "apply_core_command s c ctx = Inr red" and "wf_core_state s" and "wf_command c"
    and "ts_plan (cs_task (red_state red)) \<noteq> ts_plan (cs_task s)"
  shows "\<exists>l q. ts_plan (cs_task (red_state red)) = Some q \<and> wf_plan_state q \<and>
    plan_moves (known_evidence s) l (ts_plan (cs_task s)) q \<and> label_allowed s ctx c l \<and>
    (\<forall>n. expected_revision c = Some n \<longrightarrow> map_option ps_revision (ts_plan (cs_task s)) = Some n) \<and>
    (\<forall>p. ts_plan (cs_task s) = Some p \<longrightarrow>
       ps_plan_id q = ps_plan_id p \<and> ps_origin q = ps_origin p \<and>
       ps_revision q = ps_revision p + 1) \<and>
    red_command_results red = [command_reply c Applied []]"
proof -
  from assms obtain l q where m: "ts_plan (cs_task (red_state red)) = Some q" "wf_plan_state q"
    "plan_moves (known_evidence s) l (ts_plan (cs_task s)) q" "label_allowed s ctx c l"
    "revision_matches s c" "red_command_results red = [command_reply c Applied []]"
    by (rule command_move)
  moreover have "next_revision p q" if "ts_plan (cs_task s) = Some p" for p
    using m(3) that plan_transition_next by (auto simp: plan_moves_def)
  ultimately show ?thesis
    by (intro exI [of _ l] exI [of _ q]) (auto simp: revision_matches_def next_revision_def)
qed

lemma completed_a_run:
  "apply_core_command building complete_a (sample_context ModeBuild) = Inr completed_a"
proof -
  have "returns (apply_core_command building complete_a (sample_context ModeBuild))" by (fact reducer_values)
  then show ?thesis unfolding completed_a_def by (rule returns_run_of)
qed

lemma completed_a_changes:
  "ts_plan (cs_task (red_state completed_a)) \<noteq> ts_plan (cs_task building)"
  by (fact reducer_values)

lemma plan_changes_are_licensed_witness:
  "\<exists>q. ts_plan (cs_task (red_state completed_a)) = Some q \<and> ps_revision q = 4"
proof -
  have "ps_revision (the (ts_plan (cs_task building))) = 3" by (fact reducer_values)
  moreover have "ts_plan (cs_task building) \<noteq> None" by (fact reducer_values)
  ultimately show ?thesis
    using plan_changes_are_licensed [OF completed_a_run building_wf complete_a_wf completed_a_changes]
    by (auto split: option.splits)
qed

text \<open>Property C4. A rejected command changes nothing but the ledger of seen identifiers: the
  task with its plan and blockers, the workspace, verification, failures, counters and loop
  guards are untouched, and one \<^verbatim>\<open>command_rejected\<close> event says so.\<close>

lemma rejected_command_changes_nothing:
  assumes "apply_core_command s c ctx = Inr red" and "wf_core_state s" and "wf_command c"
    and "r \<in> set (red_command_results red)" and "cmdr_status r = CommandRejected"
  shows "red_state red = noted (command_id c) s \<and> cmdr_command_id r = command_id c \<and>
         map ev_kind (red_events red) = [''command_rejected'']"
  using assms(1-3)
proof (cases rule: apply_core_command_cases)
  case seen
  with assms(4) show ?thesis by simp
next
  case (new red')
  from new(2) show ?thesis
  proof cases
    case (rejected ev reason)
    then show ?thesis using assms(4) by (simp add: new(3) command_reply_def)
  qed (use assms(4,5) in \<open>simp_all add: new(3) command_reply_def\<close>)
qed

lemma rejected_command_changes_nothing_witness:
  "red_state stale_a = noted (command_id complete_a) proposing"
proof -
  have "returns (apply_core_command proposing complete_a (sample_context ModeBuild))" by (fact reducer_values)
  then have r: "apply_core_command proposing complete_a (sample_context ModeBuild) = Inr stale_a"
    unfolding stale_a_def by (rule returns_run_of)
  have "red_command_results stale_a = [command_reply complete_a CommandRejected ''plan.not_active'']"
    by (fact reducer_values)
  then have "command_reply complete_a CommandRejected ''plan.not_active'' \<in>
    set (red_command_results stale_a)" by simp
  from rejected_command_changes_nothing [OF r proposing_wf complete_a_wf this]
  show ?thesis by (simp add: command_reply_def)
qed

text \<open>A command based on another revision than the current one is always
  answered, never raises and never touches the plan: it is rejected with
  \<^verbatim>\<open>plan.revision_conflict\<close>, whatever the command carries, unless the run mode already
  forbids it.\<close>

lemma stale_command_is_rejected:
  assumes "wf_core_state s" and "wf_command c" and "ts_plan (cs_task s) = Some p"
    and "expected_revision c = Some n" and "n \<noteq> ps_revision p"
    and "command_id c \<notin> set (applied_ids s)" and "rc_mode ctx = ModeBuild"
  shows "\<exists>red. apply_core_command s c ctx = Inr red \<and>
    red_command_results red = [command_reply c CommandRejected ''plan.revision_conflict''] \<and>
    red_state red = noted (command_id c) s"
proof -
  have ev: "mk_event ''command_rejected''
      [(''command_id'', PStr (command_id c)), (''reason'', PStr reason)] [] =
    Inr \<lparr>ev_kind = ''command_rejected'', ev_payload =
      [(''command_id'', PStr (command_id c)), (''reason'', PStr reason)], ev_evidence_refs = []\<rparr>"
    for reason
    by (rule event_literal) (simp_all add: literal)
  have "plan_revision_problem (ts_plan (cs_task s)) n = Some ''plan.revision_conflict''"
    using assms(3,5) by (simp add: plan_revision_problem_def)
  then have "reduce_command s c ctx = reject_command s c ''plan.revision_conflict''"
    using assms(4,7)
    by (cases c)
       (simp_all add: update_plan_progress_def propose_plan_revision_def request_plan_close_def
          approve_plan_def reject_plan_def approve_plan_revision_def reject_plan_revision_def
          abandon_plan_def with_checked_plan_def active_plan_problem_def)
  moreover have "reject_command s c ''plan.revision_conflict'' =
      Inr (reduction s [\<lparr>ev_kind = ''command_rejected'', ev_payload =
        [(''command_id'', PStr (command_id c)), (''reason'', PStr ''plan.revision_conflict'')],
        ev_evidence_refs = []\<rparr>] [command_reply c CommandRejected ''plan.revision_conflict''])"
    unfolding reject_command_def
    by (simp add: ev mk_command_result_eq wf_command_id [OF assms(2)] command_reply_def)
  ultimately show ?thesis
    using assms(1,6) wf_command_id [OF assms(2)]
    by (simp add: apply_core_command_def applied_ids_def ledger_append_eq)
qed

text \<open>Property C5. Progress never regresses and is never invented: an applied
  \<^verbatim>\<open>update_plan_progress\<close> keeps the definition, the pending revision, the status and the
  list of steps with their identifiers and texts; a completed step stays completed, and a
  step that the update completes carries a note, and only evidence the state already
  knows.\<close>

lemma progress_never_regresses:
  assumes "apply_core_command s (UpdatePlanProgress cid n us) ctx = Inr red"
    and "wf_core_state s" and "wf_command (UpdatePlanProgress cid n us)"
    and "ts_plan (cs_task (red_state red)) \<noteq> ts_plan (cs_task s)"
  shows "\<exists>p q. ts_plan (cs_task s) = Some p \<and> ts_plan (cs_task (red_state red)) = Some q \<and>
    ps_status p = PlanActive \<and> ps_status q = PlanActive \<and> ps_revision p = n \<and>
    ps_definition q = ps_definition p \<and> ps_pending_revision q = ps_pending_revision p \<and>
    length (ps_steps q) = length (ps_steps p) \<and>
    (\<forall>i < length (ps_steps p).
       st_step_id (ps_steps q ! i) = st_step_id (ps_steps p ! i) \<and>
       step_key (ps_steps q ! i) = step_key (ps_steps p ! i) \<and>
       (st_status (ps_steps p ! i) = StepCompleted \<longrightarrow> st_status (ps_steps q ! i) = StepCompleted) \<and>
       (ps_steps q ! i \<noteq> ps_steps p ! i \<longrightarrow> st_status (ps_steps q ! i) = StepCompleted \<longrightarrow>
          st_completion_note (ps_steps q ! i) \<noteq> [] \<and>
          set (st_evidence_refs (ps_steps q ! i)) \<subseteq> plan_clean ` known_evidence s))"
proof -
  from assms obtain l q where q: "ts_plan (cs_task (red_state red)) = Some q"
    and m: "plan_moves (known_evidence s) l (ts_plan (cs_task s)) q"
    and l: "label_allowed s ctx (UpdatePlanProgress cid n us) l"
    and r: "revision_matches s (UpdatePlanProgress cid n us)"
    by (rule command_move)
  have "l = LProgress" using l by (simp add: label_allowed_def)
  with m obtain p where p: "ts_plan (cs_task s) = Some p"
    and t: "plan_transition (known_evidence s) LProgress p q"
    by (auto simp: plan_moves_def split: option.splits)
  show ?thesis
    using t p q r
    by (cases rule: progress_elim)
       (auto simp: list_all2_conv_all_nth step_advances_def revision_matches_def)
qed

lemma progress_never_regresses_witness:
  "\<exists>q. ts_plan (cs_task (red_state completed_a)) = Some q \<and> ps_status q = PlanActive \<and>
       length (ps_steps q) = 1"
proof -
  have "length (ps_steps (the (ts_plan (cs_task building)))) = 1" by (fact reducer_values)
  then show ?thesis
    using progress_never_regresses [OF completed_a_run [unfolded complete_a_def] building_wf
        complete_a_wf [unfolded complete_a_def] completed_a_changes]
    by auto
qed

text \<open>Read-only runs cannot touch the plan: in read mode, the commands a model
  can send (submit, progress, propose a revision, request closing) never change the plan.
  In plan mode, of these only a submission does.\<close>

lemma model_commands_respect_the_mode:
  assumes "apply_core_command s c ctx = Inr red" and "wf_core_state s" and "wf_command c"
    and "ts_plan (cs_task (red_state red)) \<noteq> ts_plan (cs_task s)"
    and "rc_mode ctx \<noteq> ModeBuild"
  shows "(rc_mode ctx = ModePlan \<and> (\<exists>cid d ss. c = SubmitPlan cid d ss)) \<or>
    (\<exists>cid n. c = ApprovePlan cid n \<or> c = ApprovePlanRevision cid n) \<or>
    (\<exists>cid n w. c = RejectPlan cid n w \<or> c = RejectPlanRevision cid n w \<or> c = AbandonPlan cid n w)"
proof -
  from assms(1-4) obtain l where "label_allowed s ctx c l" by (rule command_move)
  with assms(5) show ?thesis by (cases c; cases "rc_mode ctx") (auto simp: label_allowed_def)
qed

lemma resubmitted_run:
  "apply_core_command proposing (SubmitPlan ''c2'' sample_definition [sample_step_definition ''B''])
     (sample_context ModePlan) = Inr resubmitted"
proof -
  have "returns (apply_core_command proposing
    (SubmitPlan ''c2'' sample_definition [sample_step_definition ''B'']) (sample_context ModePlan))"
    by (fact reducer_values)
  then show ?thesis unfolding resubmitted_def by (rule returns_run_of)
qed

lemma resubmitted_facts:
  "wf_command (SubmitPlan ''c2'' sample_definition [sample_step_definition ''B''])"
  "ts_plan (cs_task (red_state resubmitted)) \<noteq> ts_plan (cs_task proposing)"
  by (fact reducer_values)+

text \<open>Property C6. An approved plan is never silently replaced: when a command changes the
  definition of an existing plan, then the plan was a proposal that plan mode submits again;
  or it is a plan of build mode whose execution failed at least five times by one code, with
  no revision pending; or the user approved exactly the pending revision.\<close>

lemma plan_definition_needs_consent:
  assumes "apply_core_command s c ctx = Inr red" and "wf_core_state s" and "wf_command c"
    and "ts_plan (cs_task s) = Some p" and "ts_plan (cs_task (red_state red)) = Some q"
    and "ps_definition q \<noteq> ps_definition p"
  shows "(\<exists>cid d ss. c = SubmitPlan cid d ss \<and> ps_status p = PlanProposed \<and> rc_mode ctx = ModePlan) \<or>
    (\<exists>cid n w d ss. c = ProposePlanRevision cid n w d ss \<and> ps_origin p = OriginBuildMode \<and>
       ps_pending_revision p = None \<and> 5 \<le> max_failure_count (rf_failures (cs_facts s))) \<or>
    (\<exists>cid r. c = ApprovePlanRevision cid (ps_revision p) \<and> ps_pending_revision p = Some r \<and>
       ps_definition q = pr_definition r)"
proof -
  have "ts_plan (cs_task (red_state red)) \<noteq> ts_plan (cs_task s)" using assms(4-6) by auto
  from assms(1-3) this obtain l q' where q': "ts_plan (cs_task (red_state red)) = Some q'"
    and m: "plan_moves (known_evidence s) l (ts_plan (cs_task s)) q'"
    and l: "label_allowed s ctx c l" and r: "revision_matches s c"
    by (rule command_move)
  have "plan_transition (known_evidence s) l p q"
    using m q' assms(4,5) by (simp add: plan_moves_def)
  then show ?thesis
    using assms(6) l r assms(4)
    by (cases rule: plan_transition.cases; cases c)
       (auto simp: label_allowed_def revision_matches_def)
qed

lemma plan_definition_needs_consent_witness:
  "\<exists>p. ts_plan (cs_task proposing) = Some p \<and> ps_status p = PlanProposed"
proof -
  let ?c = "SubmitPlan ''c3'' (sample_definition\<lparr>pd_summary := ''T''\<rparr>) [sample_step_definition ''B'']"
  let ?red = "apply_core_command proposing ?c (sample_context ModePlan)"
  obtain p where p: "ts_plan (cs_task proposing) = Some p" "pd_summary (ps_definition p) = ''S''"
    by (simp add: proposing_def sample_state_def sample_task_def sample_plan_def sample_definition_def)
  have "returns ?red" by (fact reducer_values)
  then have r: "?red = Inr (run_of ?red)" by (rule returns_run_of)
  have "map_option (\<lambda>q. pd_summary (ps_definition q)) (ts_plan (cs_task (red_state (run_of ?red)))) = Some ''T''"
    by (fact reducer_values)
  then obtain q where q: "ts_plan (cs_task (red_state (run_of ?red))) = Some q"
    "pd_summary (ps_definition q) = ''T''" by auto
  have c: "wf_command ?c" by (fact reducer_values)
  have "ps_definition q \<noteq> ps_definition p" using p(2) q(2) by auto
  from plan_definition_needs_consent [OF r proposing_wf c p(1) q(1) this] p(1)
  show ?thesis by auto
qed

section \<open>The life of the plan over runs\<close>

lemma plan_step_kept:
  assumes "plan_step_opt x y" and "pending_ok x"
  shows "plan_kept x y" and "pending_ok y"
proof -
  from assms(1) obtain known l q where y: "y = Some q" and m: "plan_moves known l x q"
    by (auto simp: plan_step_opt_def)
  have "plan_kept x y \<and> pending_ok y"
  proof (cases x)
    case None
    with m y show ?thesis by (simp add: plan_kept_def plan_moves_def created_plan_def pending_ok_def)
  next
    case (Some p)
    then have t: "plan_transition known l p q" using m by (simp add: plan_moves_def)
    from plan_transition_next [OF t] plan_transition_terminal [OF t] plan_transition_pending [OF t]
    show ?thesis using assms(2) by (simp add: plan_kept_def Some y next_revision_def)
  qed
  then show "plan_kept x y" and "pending_ok y" by blast+
qed

lemma plan_kept_trans: "plan_kept x y \<Longrightarrow> plan_kept y z \<Longrightarrow> plan_kept x z"
  unfolding plan_kept_def by fastforce

lemma plan_evolves_kept: "plan_evolves x y \<Longrightarrow> pending_ok x \<Longrightarrow> plan_kept x y \<and> pending_ok y"
  unfolding plan_evolves_def
proof (induction rule: rtranclp_induct)
  case base
  then show ?case by (simp add: plan_kept_def)
next
  case (step y z)
  then show ?case using plan_step_kept plan_kept_trans by blast
qed

lemma core_state_new_plan: "core_state_new r g = Inr s \<Longrightarrow> ts_plan (cs_task s) = None"
  by (auto simp: core_state_new_def bindE_eq_Inr Let_def task_state_post_init_def
      core_state_post_init_def)

text \<open>Property C7. The life of a plan over any run from a new state: once a plan exists it is
  never lost, keeps its identity and origin, its revision never decreases and equal revisions
  mean equal plans (so a revision number identifies what the user or the model saw); a
  completed, rejected or abandoned plan is final; and only active plans have a revision
  pending.\<close>

lemma plan_life:
  assumes "core_state_new request goal = Inr s"
    and "run_steps reducer_step s is = Inr t" and "run_steps reducer_step t js = Inr u"
    and "\<forall>i \<in> set (is @ js). wf_observation (fst i)"
    and "ts_plan (cs_task t) = Some p"
  shows "\<exists>q. ts_plan (cs_task u) = Some q \<and> ps_plan_id q = ps_plan_id p \<and>
    ps_origin q = ps_origin p \<and> ps_revision p \<le> ps_revision q \<and>
    (ps_revision q = ps_revision p \<longrightarrow> q = p) \<and>
    (ps_status p \<in> {PlanCompleted, PlanRejected, PlanAbandoned} \<longrightarrow> q = p) \<and>
    (ps_pending_revision q \<noteq> None \<longrightarrow> ps_status q = PlanActive)"
proof -
  have ok: "\<forall>i \<in> set is. reducer_input_ok i" "\<forall>i \<in> set js. reducer_input_ok i"
    using assms(4) by (auto simp: reducer_input_ok_def)
  have "wf_core_state s" using assms(1) by (rule core_state_new_wf)
  note st = reducer.run_inv [OF this ok(1) assms(2)] reducer.run_le [OF this ok(1) assms(2)]
  have "plan_evolves None (Some p)"
    using st(2) assms(5) core_state_new_plan [OF assms(1)] by (simp add: state_le_def)
  then have p: "pending_ok (Some p)" using plan_evolves_kept by (fastforce simp: pending_ok_def)
  have "plan_evolves (Some p) (ts_plan (cs_task u))"
    using reducer.run_le [OF st(1) ok(2) assms(3)] assms(5) by (simp add: state_le_def)
  from plan_evolves_kept [OF this p] show ?thesis
    by (auto simp: plan_kept_def pending_ok_def terminal_plan_def)
qed

lemma returns_state_of: "returns r \<Longrightarrow> r = Inr (state_of r)"
  by (auto simp: returns_def state_of_def split: sum.splits)

lemma plan_life_witness:
  "\<exists>q. ts_plan (cs_task (state_of (run_steps reducer_step
     (state_of (run_steps reducer_step sample_new sample_plan_run)) sample_approval_run))) = Some q \<and>
   1 \<le> ps_revision q"
proof -
  let ?t = "run_steps reducer_step sample_new sample_plan_run"
  let ?u = "run_steps reducer_step (state_of ?t) sample_approval_run"
  have "returns ?t" and "returns ?u" by (fact reducer_values)+
  then have t: "?t = Inr (state_of ?t)" and u: "?u = Inr (state_of ?u)"
    by (blast intro: returns_state_of)+
  have ok: "list_all (\<lambda>i. wf_observation (fst i)) (sample_plan_run @ sample_approval_run)"
    by (fact reducer_values)
  have "map_option ps_revision (ts_plan (cs_task (state_of ?t))) = Some 1" by (fact reducer_values)
  then obtain p where p: "ts_plan (cs_task (state_of ?t)) = Some p" "ps_revision p = 1" by auto
  from plan_life [OF sample_run_parts(1) t u _ p(1)] ok p(2) show ?thesis
    by (auto simp: list_all_iff)
qed

text \<open>Approving works: an approval of the current revision of a proposed plan,
  under an unused identifier, is applied, and the plan becomes active under the next
  revision with the same definition and steps.\<close>

lemma approval_activates:
  assumes "wf_core_state s" and "canon_text py_strip cid" and "cid \<notin> set (applied_ids s)"
    and "ts_plan (cs_task s) = Some p" and "ps_status p = PlanProposed"
  shows "\<exists>red. apply_core_command s (ApprovePlan cid (ps_revision p)) ctx = Inr red \<and>
    ts_plan (cs_task (red_state red)) =
      Some (p\<lparr>ps_status := PlanActive, ps_revision := ps_revision p + 1\<rparr>) \<and>
    map cmdr_status (red_command_results red) = [Applied]"
proof -
  let ?q = "p\<lparr>ps_status := PlanActive, ps_revision := ps_revision p + 1\<rparr>"
  have "wf_plan_state p" using assms(1,4) by (rule wf_plan)
  then have q: "wf_plan_state ?q" by (simp add: wf_plan_state_def)
  then have post: "plan_state_post_init ?q = Inr ?q" by (rule wf_plan_state_post_init)
  have s1: "wf_core_state (planned ?q s)" using assms(1) q by simp
  have ev: "mk_event ''plan_approved'' payload [] =
      Inr \<lparr>ev_kind = ''plan_approved'', ev_payload = payload, ev_evidence_refs = []\<rparr>"
    if "set (map fst payload) \<inter> set runtime_envelope_fields = {}" for payload
    using that by (intro event_literal) (simp_all add: literal)
  have "\<exists>e. reduce_command s (ApprovePlan cid (ps_revision p)) ctx =
    Inr (reduction (progressed (planned ?q s)) [e]
           [command_reply (ApprovePlan cid (ps_revision p)) Applied []])"
    using assms(1,4,5) q post
    by (auto simp: approve_plan_def with_checked_plan_def plan_revision_problem_def with_plan_eq
        applied_plan_command_def reset_no_progress_eq [OF s1] ev runtime_envelope_fields_def
        mk_command_result_eq [OF assms(2)] command_reply_def)
  moreover have "wf_core_state (progressed (planned ?q s))" using s1 by simp
  ultimately show ?thesis
    using assms(2,3)
    by (auto simp: apply_core_command_def applied_ids_def ledger_append_eq command_reply_def)
qed

lemma approval_activates_witness:
  "\<exists>red. apply_core_command proposing (ApprovePlan ''ok'' 3) (sample_context ModePlan) = Inr red \<and>
    map cmdr_status (red_command_results red) = [Applied]"
proof -
  let ?p = "sample_plan OriginPlanMode PlanProposed [sample_step ''a'' ''A'' StepPending]"
  have p: "ts_plan (cs_task proposing) = Some ?p" "ps_status ?p = PlanProposed" "ps_revision ?p = 3"
    by (simp_all add: proposing_def sample_state_def sample_task_def sample_plan_def)
  have c: "canon_text py_strip ''ok''" "''ok'' \<notin> set (applied_ids proposing)" by (fact reducer_values)+
  from approval_activates [OF proposing_wf c p(1,2), of "sample_context ModePlan"] p(3)
  show ?thesis by fastforce
qed

end
