(* ===== verification/Execution_Properties.thy ===== *)
theory Execution_Properties
  imports Samples
begin

text \<open>
  The properties of the reducer that are about execution: what a tool batch does to the
  workspace, to verification and to the call counters, what a model observation records, and
  which observations can never raise.
\<close>

section \<open>Definitions and samples\<close>

definition same_execution :: "core_state \<Rightarrow> core_state \<Rightarrow> bool" where
  "same_execution s t \<longleftrightarrow>
     rf_workspace (cs_facts t) = rf_workspace (cs_facts s) \<and>
     rf_counters (cs_facts t) = rf_counters (cs_facts s) \<and>
     lg_seen_tool_call_ids (rf_loop_guards (cs_facts t)) =
       lg_seen_tool_call_ids (rf_loop_guards (cs_facts s)) \<and>
     (vf_status (rf_verification (cs_facts t)) = VPassed \<longrightarrow>
        rf_verification (cs_facts t) = rf_verification (cs_facts s))"

definition write_batch :: tool_batch_observation where
  "write_batch = sample_batch ''b1'' [sample_write ''call'' []] []"

definition written :: core_reduction where
  "written = run_of (reduce_observation building (ToolBatchObservation write_batch)
                       (sample_context ModeBuild))"

definition verified_batch :: tool_batch_observation where
  "verified_batch = sample_batch ''b2''
     [sample_write ''call'' [(''verification'', PDict [(''status'', PStr ''passed''),
        (''verified_revision'', PInt 1)])]] []"

text \<open>The invariant, and that every reduction keeps it.\<close>

definition calls_counted :: "core_state \<Rightarrow> bool" where
  "calls_counted s \<longleftrightarrow> wf_core_state s \<and>
     cc_tool_calls (rf_counters (cs_facts s)) =
       int (length (lg_seen_tool_call_ids (rf_loop_guards (cs_facts s))))"

definition repeated_run :: "(core_observation \<times> reduction_context) list" where
  "repeated_run =
     [(ToolBatchObservation (sample_batch ''b1'' [sample_write ''k'' [], sample_write ''k'' []] []),
       sample_context ModeBuild),
      (ToolBatchObservation (sample_batch ''b2'' [sample_write ''k'' [], sample_write ''l'' []] []),
       sample_context ModeBuild)]"

text \<open>What the samples evaluate to.\<close>

lemma execution_values:
  "returns (reduce_observation building (ToolBatchObservation write_batch) (sample_context
     ModeBuild))"
  "list_ex (\<lambda>r. list_ex touches_workspace (to_effects r)) (material_results
     (tbo_results write_batch))"
  "wk_revision (rf_workspace (cs_facts building)) = 0"
  "returns (reduce_observation building (ToolBatchObservation verified_batch) (sample_context
     ModeBuild))"
  "wf_observation (ToolBatchObservation verified_batch)"
  "wk_revision (rf_workspace (cs_facts (red_state (run_of (reduce_observation building
     (ToolBatchObservation verified_batch) (sample_context ModeBuild)))))) = 1"
  "vf_status (rf_verification (cs_facts (red_state (run_of (reduce_observation building
     (ToolBatchObservation verified_batch) (sample_context ModeBuild)))))) = VPassed"
  "returns (core_state_new ''g'' None)"
  "returns (run_steps reducer_step (case core_state_new ''g'' None of Inr s \<Rightarrow> s |
     Inl _ \<Rightarrow> building) repeated_run)"
  "list_all (\<lambda>i. wf_observation (fst i)) repeated_run"
  "lg_seen_tool_call_ids (rf_loop_guards (cs_facts (case run_steps reducer_step (case
     core_state_new ''g'' None of Inr s \<Rightarrow> s | Inl _ \<Rightarrow> building)
     repeated_run of Inr t \<Rightarrow> t | Inl _ \<Rightarrow> building))) = [''k'', ''l'']"
  "wf_observation (sample_model ''m1'' [])"
  "count_for (rf_failures (cs_facts building)) ''model.empty_response'' = 0"
  by code_simp+

section \<open>What a command leaves alone\<close>

lemma same_execution_refl [simp]: "same_execution s s"
  by (simp add: same_execution_def)

lemma same_execution_trans: "same_execution s t \<Longrightarrow> same_execution t u \<Longrightarrow> same_execution s u"
  by (auto simp: same_execution_def)

lemma only_failures_same: "only_failures s t \<Longrightarrow> same_execution s t"
  by (simp add: only_failures_def same_execution_def)

lemma noted_same [simp]: "same_execution s (noted oid s)"
  by (simp add: same_execution_def)

lemma command_outcome_same:
  "command_outcome s ctx c red \<Longrightarrow> same_execution s (red_state red)"
  by (induction rule: command_outcome.induct)
     (simp_all add: same_execution_def unavailable_facts_def)

lemma apply_core_command_same:
  assumes "apply_core_command s c ctx = Inr red" and "wf_core_state s" and "wf_command c"
  shows "same_execution s (red_state red)"
  using assms
proof (cases rule: apply_core_command_cases)
  case (new red')
  show ?thesis
    unfolding new(3) using command_outcome_same [OF new(2)] noted_same same_execution_trans
    by (simp add: same_execution_def)
qed simp

lemma apply_commands_same:
  "apply_commands s cs ctx = Inr red \<Longrightarrow> wf_core_state s \<Longrightarrow> \<forall>c \<in> set cs. wf_command c \<Longrightarrow>
   same_execution s (red_state red)"
proof (induction cs arbitrary: s red)
  case Nil
  then show ?case by auto
next
  case (Cons c cs)
  then obtain r1 r2 where r1: "apply_core_command s c ctx = Inr r1"
    and r2: "apply_commands (red_state r1) cs ctx = Inr r2" and red: "red_state red = red_state r2"
    by (auto simp: bindE_eq_Inr)
  have c: "wf_command c" "\<forall>c \<in> set cs. wf_command c" using Cons.prems(3) by simp_all
  have "wf_core_state (red_state r1)"
    by (rule apply_core_command_state(1) [OF r1 Cons.prems(2) c(1)])
  from Cons.IH [OF r2 this c(2)] apply_core_command_same [OF r1 Cons.prems(2) c(1)]
  show ?case unfolding red by (blast intro: same_execution_trans)
qed

section \<open>Tool batches\<close>

lemma reduce_loop_guards_seen:
  assumes "reduce_loop_guards g cs rs = Inr g'"
  shows "lg_seen_tool_call_ids g' =
    dedup (map py_strip (lg_seen_tool_call_ids g @ map to_tool_call_id rs))"
  using assms
  by (auto simp: reduce_loop_guards_def Let_def loop_guard_facts_post_init_def bindE_eq_Inr
      dest!: st_text_tuple_map split: option.splits)

text \<open>The facts after a batch, from those before it.\<close>

lemma reduce_tools_facts:
  assumes s: "wf_core_state s" and ob: "wf_observation (ToolBatchObservation ob)"
    and r: "reduce_tools s ob ctx = Inr red"
  obtains w ws v where
    "reduce_workspace (rf_workspace (cs_facts s)) (material_results (tbo_results ob)) = Inr (w, ws)"
    "reduce_verification (rf_verification (cs_facts s)) (material_results (tbo_results ob)) w ws = Inr v"
    "rf_workspace (cs_facts (red_state red)) = w"
    "vf_status (rf_verification (cs_facts (red_state red))) = VPassed \<longrightarrow>
       rf_verification (cs_facts (red_state red)) = v"
    "rf_counters (cs_facts (red_state red)) = batch_counters s (material_results (tbo_results ob))"
    "lg_seen_tool_call_ids (rf_loop_guards (cs_facts (red_state red))) =
       dedup (map py_strip (lg_seen_tool_call_ids (rf_loop_guards (cs_facts s))
                            @ map to_tool_call_id (material_results (tbo_results ob))))"
proof -
  let ?m = "material_results (tbo_results ob)"
  from assms obtain w ws v s4 s5 evs s6 cmds guards guards' where
    w: "reduce_workspace (rf_workspace (cs_facts s)) ?m = Inr (w, ws)" and
    v: "reduce_verification (rf_verification (cs_facts s)) ?m w ws = Inr v" and
    s4: "sync_verification_blocker (batch_facts s ?m w v) = Inr s4" and
    s5: "record_tool_failures s4 ?m = Inr (s5, evs)" and
    s6: "sync_replan_blocker s5 = Inr s6" and
    cmds: "apply_commands s6 (tbo_commands ob) ctx = Inr cmds" and
    g: "reduce_loop_guards (rf_loop_guards (cs_facts (red_state cmds)))
       (filter (\<lambda>c. tc_id c \<in> set (map to_tool_call_id ?m)) (tbo_calls ob)) ?m = Inr guards"
       "guards' = guards \<or> guards' = guards\<lparr>lg_repeated_no_progress := 0\<rparr>" and
    red: "red_state red =
       (let t = (if clean_batch ?m then cleared (red_state cmds) else red_state cmds)
        in t\<lparr>cs_facts := (cs_facts t)\<lparr>rf_loop_guards := guards'\<rparr>\<rparr>)"
    by (rule reduce_tools_stages)
  let ?b = "batch_facts s ?m w v"
  have wf: "wf_workspace_facts w" "wf_verification_facts v"
    using reduce_workspace_wf [OF w] reduce_verification_wf [OF v] s by (simp_all add: wf_parts)
  have b: "wf_core_state ?b"
    using s wf batch_counters_wf [OF s] by (simp add: batch_facts_def wf_core_state_def wf_run_facts_def)
  note st4 = sync_verification_blocker_state [OF s4 b]
  note of5 = record_tool_failures_state [OF s5 st4(1)]
  note of6 = sync_replan_blocker_state [OF s6 only_failures_wf [OF of5]]
  have "rf_counters (cs_facts s4) = rf_counters (cs_facts ?b)"
    using s4 b
    by (auto simp: sync_verification_blocker_def Let_def bindE_eq_Inr record_failure_eq
        put_blocker_eq remove_blocker_eq split: if_splits
        dest!: failure_record.post_init_valid task_blocker.post_init_valid)
  then have "same_execution ?b s4" using st4 by (simp add: same_execution_def)
  moreover have "same_execution s4 s6"
    using of5 of6 by (blast intro: only_failures_same same_execution_trans)
  moreover have "same_execution s6 (red_state cmds)"
    using apply_commands_same [OF cmds only_failures_wf [OF of6]] ob by (simp add: wf_observation_def)
  ultimately have same: "same_execution ?b (red_state cmds)" by (blast intro: same_execution_trans)
  have facts: "rf_workspace (cs_facts (red_state red)) = rf_workspace (cs_facts (red_state cmds))"
    "rf_verification (cs_facts (red_state red)) = rf_verification (cs_facts (red_state cmds))"
    "rf_counters (cs_facts (red_state red)) = rf_counters (cs_facts (red_state cmds))"
    "rf_loop_guards (cs_facts (red_state red)) = guards'"
    by (simp_all add: red Let_def)
  show ?thesis
  proof (rule that [OF w v])
    show "rf_workspace (cs_facts (red_state red)) = w"
      and "rf_counters (cs_facts (red_state red)) = batch_counters s ?m"
      using same by (simp_all add: facts same_execution_def batch_facts_def)
    show "vf_status (rf_verification (cs_facts (red_state red))) = VPassed \<longrightarrow>
       rf_verification (cs_facts (red_state red)) = v"
      using same by (simp add: facts same_execution_def batch_facts_def)
    have "lg_seen_tool_call_ids (rf_loop_guards (cs_facts (red_state red))) =
        lg_seen_tool_call_ids guards"
      using g(2) by (auto simp: facts)
    then show "lg_seen_tool_call_ids (rf_loop_guards (cs_facts (red_state red))) =
       dedup (map py_strip (lg_seen_tool_call_ids (rf_loop_guards (cs_facts s))
                            @ map to_tool_call_id ?m))"
      using reduce_loop_guards_seen [OF g(1)] same
      by (simp add: same_execution_def batch_facts_def)
  qed
qed

lemma batch_observation:
  assumes "reduce_observation s (ToolBatchObservation ob) ctx = Inr red" and "wf_core_state s"
    and "wf_observation (ToolBatchObservation ob)"
    and "tbo_observation_id ob \<notin> set (applied_ids s)"
  obtains red' where "reduce_tools s ob ctx = Inr red'"
    "red_state red = noted (tbo_observation_id ob) (red_state red')"
  using assms(1-3)
proof (cases rule: reduce_observation_cases)
  case seen
  with assms(4) show ?thesis by simp
next
  case (new red')
  then show ?thesis using that by simp
qed

text \<open>Property C8. The workspace revision counts changing batches: a batch that is reduced for
  the first time raises it by one exactly when one of its material results (first per call,
  not deferred) carries an effect that writes or deletes in the workspace, whatever the status
  of the result; then the affected paths grow by exactly the paths of those effects.
  Otherwise the workspace facts are unchanged.\<close>

lemma workspace_revision_counts_changes:
  assumes "reduce_observation s (ToolBatchObservation ob) ctx = Inr red" and "wf_core_state s"
    and "wf_observation (ToolBatchObservation ob)"
    and "tbo_observation_id ob \<notin> set (applied_ids s)"
  shows "if \<exists>r \<in> set (material_results (tbo_results ob)). \<exists>e \<in> set (to_effects r). touches_workspace e
    then wk_revision (rf_workspace (cs_facts (red_state red)))
           = wk_revision (rf_workspace (cs_facts s)) + 1 \<and>
         wk_changed (rf_workspace (cs_facts (red_state red))) \<and>
         set (wk_affected_paths (rf_workspace (cs_facts (red_state red)))) =
           set (wk_affected_paths (rf_workspace (cs_facts s))) \<union>
           py_strip ` touched_paths (material_results (tbo_results ob))
    else rf_workspace (cs_facts (red_state red)) = rf_workspace (cs_facts s)"
proof -
  from assms obtain red' where r: "reduce_tools s ob ctx = Inr red'"
    and red: "red_state red = noted (tbo_observation_id ob) (red_state red')"
    by (rule batch_observation)
  from assms(2,3) r obtain w ws where
    w: "reduce_workspace (rf_workspace (cs_facts s)) (material_results (tbo_results ob)) = Inr (w, ws)"
    and eq: "rf_workspace (cs_facts (red_state red')) = w"
    by (rule reduce_tools_facts)
  have "ws \<longleftrightarrow> (\<exists>r \<in> set (material_results (tbo_results ob)). \<exists>e \<in> set (to_effects r). touches_workspace e)"
    using reduce_workspace_cases(1) [OF w] by (simp add: list_ex_iff changes_workspace_def)
  moreover have "wf_workspace_facts (rf_workspace (cs_facts s))" using assms(2) by (simp add: wf_parts)
  ultimately show ?thesis
    using reduce_workspace_cases(2,3) [OF w] w
    by (cases ws) (simp_all add: red eq reduce_workspace_paths)
qed

lemma write_batch_facts:
  "reduce_observation building (ToolBatchObservation write_batch) (sample_context ModeBuild) = Inr written"
  "wf_observation (ToolBatchObservation write_batch)"
  "tbo_observation_id write_batch \<notin> set (applied_ids building)"
proof -
  have "returns (reduce_observation building (ToolBatchObservation write_batch) (sample_context ModeBuild))"
    by (fact execution_values)
  then show "reduce_observation building (ToolBatchObservation write_batch) (sample_context ModeBuild)
    = Inr written"
    unfolding written_def by (rule returns_run_of)
qed code_simp+

lemma workspace_revision_counts_changes_witness:
  "wk_revision (rf_workspace (cs_facts (red_state written))) = 1"
proof -
  have "list_ex (\<lambda>r. list_ex touches_workspace (to_effects r))
    (material_results (tbo_results write_batch))" by (fact execution_values)
  moreover have "wk_revision (rf_workspace (cs_facts building)) = 0" by (fact execution_values)
  ultimately show ?thesis
    using workspace_revision_counts_changes [OF write_batch_facts(1) building_wf write_batch_facts(2,3)]
    by (auto simp: list_ex_iff split: if_splits)
qed

text \<open>Property C9. A change invalidates what was verified: after a batch that changed the
  workspace, the verification status is \<^verbatim>\<open>passed\<close> only if a result of this very batch
  reports a verification that names the new workspace revision explicitly, and then the
  verified revision is the new one. An earlier success never survives a change.\<close>

lemma change_invalidates_verification:
  assumes "reduce_observation s (ToolBatchObservation ob) ctx = Inr red" and "wf_core_state s"
    and "wf_observation (ToolBatchObservation ob)"
    and "wk_revision (rf_workspace (cs_facts (red_state red))) \<noteq> wk_revision (rf_workspace (cs_facts s))"
    and "vf_status (rf_verification (cs_facts (red_state red))) = VPassed"
  shows "vf_verified_revision (rf_verification (cs_facts (red_state red))) =
      Some (wk_revision (rf_workspace (cs_facts (red_state red)))) \<and>
    (\<exists>r \<in> set (material_results (tbo_results ob)).
       reports_revision r (wk_revision (rf_workspace (cs_facts (red_state red)))))"
proof -
  have "tbo_observation_id ob \<notin> set (applied_ids s)"
    using assms(1,4) by (auto simp: reduce_observation_def applied_ids_def)
  with assms(1-3) obtain red' where r: "reduce_tools s ob ctx = Inr red'"
    and red: "red_state red = noted (tbo_observation_id ob) (red_state red')"
    by (rule batch_observation)
  from assms(2,3) r obtain w ws v where
    w: "reduce_workspace (rf_workspace (cs_facts s)) (material_results (tbo_results ob)) = Inr (w, ws)"
    and v: "reduce_verification (rf_verification (cs_facts s)) (material_results (tbo_results ob)) w ws = Inr v"
    and eq: "rf_workspace (cs_facts (red_state red')) = w"
      "vf_status (rf_verification (cs_facts (red_state red'))) = VPassed \<longrightarrow>
         rf_verification (cs_facts (red_state red')) = v"
    by (rule reduce_tools_facts)
  have ws using reduce_workspace_cases(2) [OF w] assms(4) by (auto simp: red eq(1))
  with v have "fresh_or_reported (material_results (tbo_results ob)) w v"
    by (simp add: reduce_verification_changed)
  with eq(2) assms(5) show ?thesis by (simp add: red eq(1) fresh_or_reported_def)
qed

lemma change_invalidates_verification_witness:
  "vf_verified_revision (rf_verification (cs_facts (red_state (run_of
     (reduce_observation building (ToolBatchObservation verified_batch) (sample_context ModeBuild)))))) = Some 1"
proof -
  let ?r = "reduce_observation building (ToolBatchObservation verified_batch) (sample_context ModeBuild)"
  have "returns ?r" by (fact execution_values)
  then have r: "?r = Inr (run_of ?r)" by (rule returns_run_of)
  have ob: "wf_observation (ToolBatchObservation verified_batch)" by (fact execution_values)
  have rev: "wk_revision (rf_workspace (cs_facts (red_state (run_of ?r)))) = 1"
    "wk_revision (rf_workspace (cs_facts building)) = 0"
    "vf_status (rf_verification (cs_facts (red_state (run_of ?r)))) = VPassed"
    by (fact execution_values)+
  from change_invalidates_verification [OF r building_wf ob _ rev(3)] rev(1,2) show ?thesis by simp
qed

section \<open>Counting calls\<close>

lemma unique_results_ids:
  "distinct (map to_tool_call_id (unique_results seen rs)) \<and>
   set (map to_tool_call_id (unique_results seen rs)) \<inter> set seen = {}"
  by (induction seen rs rule: unique_results.induct) auto

lemma unique_results_subset: "set (unique_results seen rs) \<subseteq> set rs"
  by (induction seen rs rule: unique_results.induct) auto

lemma material_ids_distinct: "distinct (map to_tool_call_id (material_results rs))"
proof -
  have d: "distinct (map to_tool_call_id (unique_results [] rs))"
    using unique_results_ids [of "[]" rs] by blast
  show ?thesis unfolding material_results_def by (rule distinct_map_filter [OF d])
qed

lemma material_ids_canon:
  assumes "wf_observation (ToolBatchObservation ob)"
  shows "map py_strip (map to_tool_call_id (material_results (tbo_results ob))) =
         map to_tool_call_id (material_results (tbo_results ob))"
  using assms unique_results_subset [of "[]" "tbo_results ob"]
  by (auto simp: wf_observation_def wf_tool_result_parts_def wf_tool_result_def
      material_results_def canon_text_def)

lemma length_dedup_new:
  "distinct xs \<Longrightarrow> distinct ys \<Longrightarrow>
   length (dedup (xs @ ys)) = length xs + length (filter (\<lambda>y. y \<notin> set xs) ys)"
  by (simp add: dedup_append dedup_id)

lemma calls_counted_same:
  assumes "calls_counted s" and "wf_core_state t"
    and "cc_tool_calls (rf_counters (cs_facts t)) = cc_tool_calls (rf_counters (cs_facts s))"
    and "lg_seen_tool_call_ids (rf_loop_guards (cs_facts t)) =
         lg_seen_tool_call_ids (rf_loop_guards (cs_facts s))"
  shows "calls_counted t"
  using assms by (simp add: calls_counted_def)

lemma reduce_tools_counted:
  assumes s: "calls_counted s" and ob: "wf_observation (ToolBatchObservation ob)"
    and r: "reduce_tools s ob ctx = Inr red"
  shows "calls_counted (red_state red)"
proof -
  have w: "wf_core_state s" using s by (simp add: calls_counted_def)
  let ?m = "material_results (tbo_results ob)"
  let ?seen = "lg_seen_tool_call_ids (rf_loop_guards (cs_facts s))"
  from w ob r obtain c: "rf_counters (cs_facts (red_state red)) = batch_counters s ?m"
    and g: "lg_seen_tool_call_ids (rf_loop_guards (cs_facts (red_state red))) =
       dedup (map py_strip (?seen @ map to_tool_call_id ?m))"
    by (rule reduce_tools_facts)
  have seen: "distinct ?seen" "map py_strip ?seen = ?seen"
    using w by (auto simp: wf_loop_guard_facts_def wf_core_state_def wf_run_facts_def
        canon_texts_def canon_text_def intro: map_idI)
  have "length (filter (\<lambda>y. y \<notin> set ?seen) (map to_tool_call_id ?m)) =
        length (filter (\<lambda>r. to_tool_call_id r \<notin> set ?seen) ?m)"
    by (simp add: filter_map comp_def)
  then have "length (dedup (map py_strip (?seen @ map to_tool_call_id ?m))) =
        length ?seen + length (filter (\<lambda>r. to_tool_call_id r \<notin> set ?seen) ?m)"
    unfolding map_append seen(2) material_ids_canon [OF ob]
    using length_dedup_new [OF seen(1) material_ids_distinct] by simp
  then show ?thesis
    using s reduce_tools_state(1) [OF w ob r] unfolding calls_counted_def g c
    by (simp add: batch_counters_def Let_def)
qed

lemma reduce_by_kind_counted:
  assumes s: "calls_counted s" and ob: "wf_observation ob" and r: "reduce_by_kind s ob ctx = Inr red"
  shows "calls_counted (red_state red)"
proof -
  have w: "wf_core_state s" using s by (simp add: calls_counted_def)
  have t: "wf_core_state (red_state red)" using w ob r by (rule reduce_by_kind_state)
  show ?thesis
  proof (cases ob)
    case (ModelObservation m)
    then show ?thesis
      using reduce_model_eq [OF w, of m] r ob
      by (intro calls_counted_same [OF s t]) (auto simp: turned_def split: option.splits)
  next
    case (ToolBatchObservation b)
    then show ?thesis using reduce_tools_counted [OF s] ob r by simp
  next
    case (UserInputObservation u)
    then show ?thesis
      using reduce_user_input_eq [OF w, of u] r ob
      by (intro calls_counted_same [OF s t]) (auto simp: answered_def)
  next
    case (CommandObservation c)
    then show ?thesis
      using apply_core_command_same [of s "co_command c" ctx red] w r ob
      by (intro calls_counted_same [OF s t])
        (auto simp: same_execution_def wf_observation_def)
  next
    case (CancellationObservation c)
    then show ?thesis
      using reduce_cancellation_eq [OF w, of c] r ob
      by (intro calls_counted_same [OF s t]) auto
  qed
qed

interpretation call_count: result_machine reducer_step calls_counted reducer_input_ok
proof
  fix s t :: core_state and i :: "core_observation \<times> reduction_context"
  assume s: "calls_counted s" and i: "reducer_input_ok i" and "reducer_step s i = Inr t"
  then obtain red where red: "reduce_observation s (fst i) (snd i) = Inr red" "t = red_state red"
    by (auto simp: reducer_step_def mapE_eq_Inr)
  have w: "wf_core_state s" "wf_observation (fst i)"
    using s i by (simp_all add: calls_counted_def reducer_input_ok_def)
  from red(1) w show "calls_counted t"
  proof (cases rule: reduce_observation_cases)
    case seen
    then show ?thesis using s by (simp add: red(2))
  next
    case (new red')
    then show ?thesis
      using reduce_by_kind_counted [OF s w(2) new(2)] w(2)
      by (simp add: red(2) calls_counted_def wf_observation_def)
  qed
qed

lemma core_state_new_counted: "core_state_new r g = Inr s \<Longrightarrow> calls_counted s"
  using core_state_new_wf [of r g s]
  by (auto simp: calls_counted_def core_state_new_def bindE_eq_Inr Let_def core_state_post_init_def
      initial_run_facts_def)

text \<open>Property C10. Every tool call counts once against the budget: over any run from a new
  state, the counter of tool calls is the number of distinct identifiers of calls whose
  results were reduced (the ledger the loop guards keep), however often results are
  repeated within a batch or across batches, and whether or not they are deferred in
  between.\<close>

lemma tool_calls_count_once:
  assumes "core_state_new request goal = Inr s" and "run_steps reducer_step s is = Inr t"
    and "\<forall>i \<in> set is. wf_observation (fst i)"
  shows "cc_tool_calls (rf_counters (cs_facts t)) =
           int (length (lg_seen_tool_call_ids (rf_loop_guards (cs_facts t)))) \<and>
         distinct (lg_seen_tool_call_ids (rf_loop_guards (cs_facts t)))"
proof -
  have "calls_counted t"
    using assms by (intro call_count.run_inv [OF core_state_new_counted]) (auto simp: reducer_input_ok_def)
  then show ?thesis
    by (simp add: calls_counted_def wf_core_state_def wf_run_facts_def wf_loop_guard_facts_def
        canon_texts_def)
qed

lemma tool_calls_count_once_witness:
  "\<exists>s t. core_state_new ''g'' None = Inr s \<and> run_steps reducer_step s repeated_run = Inr t \<and>
     lg_seen_tool_call_ids (rf_loop_guards (cs_facts t)) = [''k'', ''l''] \<and>
     cc_tool_calls (rf_counters (cs_facts t)) = 2"
proof -
  let ?s = "case core_state_new ''g'' None of Inr s \<Rightarrow> s | Inl _ \<Rightarrow> building"
  let ?t = "case run_steps reducer_step ?s repeated_run of Inr t \<Rightarrow> t | Inl _ \<Rightarrow> building"
  have "returns (core_state_new ''g'' None)" by (fact execution_values)
  then have s: "core_state_new ''g'' None = Inr ?s" by (auto simp: returns_def split: sum.splits)
  have "returns (run_steps reducer_step ?s repeated_run)" by (fact execution_values)
  then have t: "run_steps reducer_step ?s repeated_run = Inr ?t"
    by (auto simp: returns_def split: sum.splits)
  have ok: "list_all (\<lambda>i. wf_observation (fst i)) repeated_run" by (fact execution_values)
  have "lg_seen_tool_call_ids (rf_loop_guards (cs_facts ?t)) = [''k'', ''l'']" by (fact execution_values)
  moreover from tool_calls_count_once [OF s t] ok this
  have "cc_tool_calls (rf_counters (cs_facts ?t)) = 2" by (simp add: list_all_iff)
  ultimately show ?thesis using s t by blast
qed

section \<open>Observations that cannot fail\<close>

text \<open>A model observation is always accounted for: it raises the turns by one and
  the attempts by the reported attempts, touches no other counter, the task, workspace or
  verification, and records at most one failure: that of the observation, or
  \<^verbatim>\<open>model.empty_response\<close> when a completed response has neither text nor calls. Then it is
  the latest failure and its code, and no other, is counted once more.\<close>

lemma model_observation_is_accounted:
  assumes "wf_core_state s" and "wf_observation (ModelObservation ob)"
  shows "\<exists>red. reduce_model s ob = Inr red \<and>
    cs_task (red_state red) = cs_task s \<and>
    rf_workspace (cs_facts (red_state red)) = rf_workspace (cs_facts s) \<and>
    rf_verification (cs_facts (red_state red)) = rf_verification (cs_facts s) \<and>
    rf_counters (cs_facts (red_state red)) = (rf_counters (cs_facts s))
      \<lparr>cc_model_turns := cc_model_turns (rf_counters (cs_facts s)) + 1,
       cc_model_attempts := cc_model_attempts (rf_counters (cs_facts s)) + mo_attempts ob\<rparr> \<and>
    (case model_failure ob of
       None \<Rightarrow> rf_failures (cs_facts (red_state red)) = rf_failures (cs_facts s)
     | Some f \<Rightarrow> ff_latest (rf_failures (cs_facts (red_state red))) = Some f \<and>
         (\<forall>code. count_for (rf_failures (cs_facts (red_state red))) code =
            count_for (rf_failures (cs_facts s)) code + (if code = fr_code f then 1 else 0)))"
proof -
  have pos: "0 < mo_attempts ob" using assms(2) by (simp add: wf_observation_def)
  note count = count_for_failed_with [OF turned_wf [OF assms(1) pos]]
  have frame: "cs_task (turned s ob) = cs_task s"
    "rf_workspace (cs_facts (turned s ob)) = rf_workspace (cs_facts s)"
    "rf_verification (cs_facts (turned s ob)) = rf_verification (cs_facts s)"
    "rf_failures (cs_facts (turned s ob)) = rf_failures (cs_facts s)"
    "rf_counters (cs_facts (turned s ob)) = (rf_counters (cs_facts s))
      \<lparr>cc_model_turns := cc_model_turns (rf_counters (cs_facts s)) + 1,
       cc_model_attempts := cc_model_attempts (rf_counters (cs_facts s)) + mo_attempts ob\<rparr>"
    by (simp_all add: turned_def)
  from reduce_model_eq [OF assms] obtain evs where
    "reduce_model s ob = Inr (reduction (case model_failure ob of None \<Rightarrow> turned s ob
                    | Some f \<Rightarrow> failed_with f (turned s ob)) evs [])" by blast
  then show ?thesis by (cases "model_failure ob") (simp_all add: frame count)
qed

lemma model_observation_is_accounted_witness:
  "\<exists>ob red. sample_model ''m1'' [] = ModelObservation ob \<and> reduce_model building ob = Inr red \<and>
     count_for (rf_failures (cs_facts (red_state red))) ''model.empty_response'' = 1"
proof -
  obtain ob where ob: "sample_model ''m1'' [] = ModelObservation ob" by (simp add: sample_model_def)
  have "wf_observation (sample_model ''m1'' [])" by (fact execution_values)
  then have "wf_observation (ModelObservation ob)" by (simp add: ob)
  moreover have "model_failure ob = Some (empty_response ob)"
    using ob by (auto simp: model_failure_def sample_model_def sample_message_def
        model_message_is_empty_def)
  moreover have "count_for (rf_failures (cs_facts building)) ''model.empty_response'' = 0" by (fact execution_values)
  ultimately show ?thesis
    using model_observation_is_accounted [OF building_wf, of ob] ob
    by (auto simp: empty_response_def)
qed

text \<open>Observations of the model, of the user and of a cancellation never make the
  reducer raise, in any well-formed state: the run loop always gets a state back.\<close>

lemma observation_never_raises:
  assumes "wf_core_state s" and "wf_observation ob"
    and "case ob of ModelObservation _ \<Rightarrow> True | UserInputObservation _ \<Rightarrow> True
           | CancellationObservation _ \<Rightarrow> True | _ \<Rightarrow> False"
  shows "\<exists>red. reduce_observation s ob ctx = Inr red"
proof (cases "observation_id ob \<in> set (applied_ids s)")
  case True
  then show ?thesis by (simp add: reduce_observation_def applied_ids_def)
next
  case False
  have "\<exists>red. reduce_by_kind s ob ctx = Inr red"
    using assms
    by (cases ob)
       (auto dest: reduce_user_input_eq reduce_cancellation_eq reduce_model_eq)
  then obtain red where red: "reduce_by_kind s ob ctx = Inr red" by blast
  have "wf_core_state (red_state red)" using assms(1,2) red by (rule reduce_by_kind_state)
  moreover have "canon_text py_strip (observation_id ob)"
    using assms(2) by (simp add: wf_observation_def)
  ultimately show ?thesis
    using False red by (auto simp: reduce_observation_def applied_ids_def ledger_append_eq)
qed

end
