(* ===== verification/Policy_Facts.thy ===== *)
theory Policy_Facts
  imports Samples
begin

text \<open>
  What each step of the decision chain of \<open>Core_Policy\<close> can decide: which kind of decision
  its result is, and how the chain reaches it.
\<close>

section \<open>Kinds of decisions\<close>

lemma call_model_Inr:
  "call_model p code refs cs = Inr d \<Longrightarrow> \<exists>dir r. d = CallModel p dir r"
  by (auto simp: call_model_def bindE_eq_Inr)

lemma wait_for_Inr: "wait_for k i r pl = Inr d \<Longrightarrow> \<exists>w. d = Wait w"
  by (auto simp: wait_for_def bindE_eq_Inr mapE_eq_Inr)

lemma request_tools_Inr: "request_tools cs = Inr d \<Longrightarrow> \<exists>r. d = ExecuteTools cs r"
  by (auto simp: request_tools_def bindE_eq_Inr mk_execute_tools_def split: if_splits)

lemma mk_terminate_Inr:
  "mk_terminate st code msg refs = Inr d \<Longrightarrow>
   \<exists>t. d = Terminate t \<and> te_term_status t = st"
  by (auto simp: mk_terminate_def bindE_eq_Inr Let_def)

text \<open>The kinds apart, for simplification.\<close>

lemma kinds [simp]:
  "call_model p code refs cs \<noteq> Inr (Terminate t)" "call_model p code refs cs \<noteq> Inr (Wait w)"
  "call_model p code refs cs \<noteq> Inr (ExecuteTools ts r)"
  "wait_for k i re pl \<noteq> Inr (Terminate t)" "wait_for k i re pl \<noteq> Inr (CallModel pu di r)"
  "wait_for k i re pl \<noteq> Inr (ExecuteTools ts r)"
  "request_tools tcs \<noteq> Inr (Terminate t)" "request_tools tcs \<noteq> Inr (Wait w)"
  "request_tools tcs \<noteq> Inr (CallModel pu di r)"
  "mk_terminate st tcode msg trefs \<noteq> Inr (CallModel pu di r)"
  "mk_terminate st tcode msg trefs \<noteq> Inr (Wait w)"
  "mk_terminate st tcode msg trefs \<noteq> Inr (ExecuteTools ts r)"
  using call_model_Inr wait_for_Inr request_tools_Inr mk_terminate_Inr by fastforce+

lemma completed_literals [simp]:
  "mk_terminate TermCompleted ''task.completed'' [] [] =
     Inr (Terminate \<lparr>te_term_status = TermCompleted, te_reason_code = ''task.completed'',
                     te_message = [], te_evidence_refs = []\<rparr>)"
  "mk_terminate TermCompleted ''plan.completed'' [] [] =
     Inr (Terminate \<lparr>te_term_status = TermCompleted, te_reason_code = ''plan.completed'',
                     te_message = [], te_evidence_refs = []\<rparr>)"
  by code_simp+

lemma terminate_status [simp]:
  "mk_terminate st code msg refs = Inr (Terminate t) \<Longrightarrow> te_term_status t = st"
  using mk_terminate_Inr by fastforce

section \<open>The steps of the chain\<close>

text \<open>Steps that only suspend.\<close>

lemma result_suspension_wait: "result_suspension r = Some d \<Longrightarrow> d = Inr x \<Longrightarrow> \<exists>w. x = Wait w"
  by (auto simp: result_suspension_def result_wait_def Let_def bindE_eq_Inr mapE_eq_Inr
      dest!: wait_for_Inr split: option.splits if_splits tool_status.splits)

lemma first_suspension_wait: "first_suspension rs = Some d \<Longrightarrow> d = Inr x \<Longrightarrow> \<exists>w. x = Wait w"
  by (induction rs) (auto dest: result_suspension_wait split: option.splits)

lemma external_wait_wait: "external_wait ob = Some (Inr x) \<Longrightarrow> \<exists>w. x = Wait w"
  by (cases ob) (auto dest: first_suspension_wait)

lemma budget_wait_wait: "budget_wait s ob ctx = Some (Inr x) \<Longrightarrow> \<exists>w. x = Wait w"
  by (auto simp: budget_wait_def dest: wait_for_Inr)

lemma budget_wait_None: "budget_wait s ob ctx = None \<longleftrightarrow> budget_reason s ob ctx = None"
  by (simp add: budget_wait_def)

lemma plan_confirmation_not_terminate:
  "decide_plan_confirmation s ob ctx \<noteq> Some (Inr (Terminate t))"
  using budget_wait_wait [of s ob ctx "Terminate t"]
  by (auto simp: decide_plan_confirmation_def decide_proposed_def split: option.splits if_splits)

lemma decide_proposed_tools:
  "decide_proposed s ob ctx p = Inr (ExecuteTools calls r) \<Longrightarrow> calls = observed_tool_calls ob \<and> calls \<noteq> []"
  using budget_wait_wait [of s ob ctx "ExecuteTools calls r"] request_tools_Inr
  by (fastforce simp: decide_proposed_def split: option.splits if_splits)

lemma chain_step:
  "first_decision (d # ds) fb = Inr x \<longleftrightarrow>
     d = Some (Inr x) \<or> d = None \<and> first_decision ds fb = Inr x"
  by (auto split: option.splits)

text \<open>Every step but the last, when it decides, decides one of these.\<close>

lemma decide_fatal_terminate:
  "decide_fatal s = Some (Inr (Terminate t)) \<Longrightarrow> te_term_status t = TermFailed"
  by (auto simp: decide_fatal_def split: option.splits if_splits)

lemma decide_recovery_terminate:
  "decide_recovery s ob ctx = Some (Inr (Terminate t)) \<Longrightarrow> te_term_status t = TermFailed"
  by (auto simp: decide_recovery_def split: option.splits if_splits)

lemma decide_active_plan_terminate:
  "decide_active_plan s ob = Some (Inr (Terminate t)) \<Longrightarrow> te_term_status t = TermCompleted \<Longrightarrow>
   \<exists>p. ts_plan (cs_task s) = Some p \<and> ps_status p = PlanActive \<and>
       (\<forall>st \<in> set (ps_steps p). st_status st = StepCompleted) \<and>
       ts_blockers (cs_task s) = [] \<and> is_final_candidate ob \<and> te_reason_code t = ''plan.completed''"
  by (auto simp: decide_active_plan_def list_all_iff split: option.splits if_splits)

lemma decide_active_plan_None:
  "decide_active_plan s ob = None \<Longrightarrow> ts_plan (cs_task s) = Some p \<Longrightarrow> ps_status p = PlanActive \<Longrightarrow>
   \<not> is_final_candidate ob"
  by (auto simp: decide_active_plan_def split: option.splits if_splits)

lemma decide_final_terminate:
  "decide_final s ob ctx = Some (Inr (Terminate t)) \<Longrightarrow> te_term_status t = TermCompleted \<Longrightarrow>
   is_final_candidate ob \<and> ts_blockers (cs_task s) = [] \<and> te_reason_code t = ''task.completed''"
  by (auto simp: decide_final_def split: if_splits)

lemma decide_replan_not_terminate: "decide_replan s \<noteq> Some (Inr (Terminate t))"
  by (simp add: decide_replan_def)

lemma decide_verification_not_terminate: "decide_verification s \<noteq> Some (Inr (Terminate t))"
  by (simp add: decide_verification_def)

lemma decide_tools_not_terminate: "decide_tools ob \<noteq> Some (Inr (Terminate t))"
  by (simp add: decide_tools_def)

lemmas chain_terminate =
  decide_replan_not_terminate decide_verification_not_terminate decide_tools_not_terminate
  plan_confirmation_not_terminate

lemma needs_verification:
  "decide_verification s = None \<Longrightarrow> ts_status (cs_task s) = TaskActive \<Longrightarrow>
   \<not> has_blocker s ReplanRequired \<Longrightarrow>
   wk_changed (rf_workspace (cs_facts s)) \<longrightarrow>
   verification_fresh (rf_verification (cs_facts s)) (rf_workspace (cs_facts s))"
  by (auto simp: decide_verification_def assess_core_state_def Let_def has_blocker_def
      split: if_splits option.splits)

text \<open>A completion names what the chain passed on its way.\<close>

lemma completed_chain:
  assumes "policy_decide s ob ctx = Inr (Terminate t)" and "te_term_status t = TermCompleted"
    and "ts_status (cs_task s) \<noteq> TaskSatisfied"
  shows "decide_task_status s = None" "decide_fatal s = None" "external_wait ob = None"
    "decide_cancelled ob = None" "decide_read_only s ctx = None"
    "decide_plan_confirmation s ob ctx = None" "budget_reason s ob ctx = None"
    "decide_tools ob = None" "decide_recovery s ob ctx = None" "decide_replan s = None"
    "decide_active_plan s ob = Some (Inr (Terminate t)) \<or>
     decide_active_plan s ob = None \<and> decide_verification s = None \<and>
     decide_final s ob ctx = Some (Inr (Terminate t))"
proof -
  have "decide_task_status s \<noteq> Some (Inr (Terminate t))"
    using assms(2,3) by (auto simp: decide_task_status_def)
  moreover have "decide_fatal s \<noteq> Some (Inr (Terminate t))"
    using assms(2) decide_fatal_terminate by fastforce
  moreover have "external_wait ob \<noteq> Some (Inr (Terminate t))"
    using external_wait_wait by blast
  moreover have "decide_cancelled ob \<noteq> Some (Inr (Terminate t))"
    using assms(2) by (auto simp: decide_cancelled_def)
  moreover have "decide_read_only s ctx \<noteq> Some (Inr (Terminate t))"
    using assms(2) by (auto simp: decide_read_only_def)
  moreover have "budget_wait s ob ctx \<noteq> Some (Inr (Terminate t))"
    using budget_wait_wait by blast
  moreover have "decide_recovery s ob ctx \<noteq> Some (Inr (Terminate t))"
    using assms(2) decide_recovery_terminate by fastforce
  ultimately show "decide_task_status s = None" "decide_fatal s = None" "external_wait ob = None"
    "decide_cancelled ob = None" "decide_read_only s ctx = None"
    "decide_plan_confirmation s ob ctx = None" "budget_reason s ob ctx = None"
    "decide_tools ob = None" "decide_recovery s ob ctx = None" "decide_replan s = None"
    "decide_active_plan s ob = Some (Inr (Terminate t)) \<or>
     decide_active_plan s ob = None \<and> decide_verification s = None \<and>
     decide_final s ob ctx = Some (Inr (Terminate t))"
    using assms(1) unfolding policy_decide_def chain_step
    by (simp_all add: chain_terminate budget_wait_None) blast?
qed

text \<open>Where a call of tools comes from.\<close>

lemma decided_tools:
  assumes "policy_decide s ob ctx = Inr (ExecuteTools calls r)"
  shows "calls = observed_tool_calls ob \<and> calls \<noteq> [] \<and>
    (budget_reason s ob ctx = None \<or>
     (\<exists>p. ts_plan (cs_task s) = Some p \<and> ps_status p = PlanProposed))"
proof -
  let ?x = "ExecuteTools calls r"
  have skip: "decide_task_status s \<noteq> Some (Inr ?x)" "decide_fatal s \<noteq> Some (Inr ?x)"
    "decide_cancelled ob \<noteq> Some (Inr ?x)" "decide_read_only s ctx \<noteq> Some (Inr ?x)"
    "decide_recovery s ob ctx \<noteq> Some (Inr ?x)" "decide_replan s \<noteq> Some (Inr ?x)"
    "decide_active_plan s ob \<noteq> Some (Inr ?x)" "decide_verification s \<noteq> Some (Inr ?x)"
    "decide_final s ob ctx \<noteq> Some (Inr ?x)"
    by (auto simp: decide_task_status_def decide_fatal_def decide_cancelled_def
        decide_read_only_def decide_recovery_def decide_replan_def decide_active_plan_def
        decide_verification_def decide_final_def split: option.splits if_splits)
  have "external_wait ob \<noteq> Some (Inr ?x)" "budget_wait s ob ctx \<noteq> Some (Inr ?x)"
    using external_wait_wait budget_wait_wait by blast+
  with assms skip
  consider (plan) "decide_plan_confirmation s ob ctx = Some (Inr ?x)"
    | (model) "budget_wait s ob ctx = None" "decide_tools ob = Some (Inr ?x)"
    unfolding policy_decide_def chain_step by (auto simp del: first_decision.simps(2))
  then show ?thesis
  proof cases
    case plan
    then obtain p where p: "ts_plan (cs_task s) = Some p" "ps_status p = PlanProposed"
      "decide_proposed s ob ctx p = Inr ?x"
      by (auto simp: decide_plan_confirmation_def split: option.splits if_splits)
    with decide_proposed_tools [OF p(3)] show ?thesis by blast
  next
    case model
    then show ?thesis
      using request_tools_Inr [of calls ?x]
      by (auto simp: decide_tools_def budget_wait_None dest: request_tools_Inr split: if_splits)
  qed
qed

text \<open>Where a call of the model comes from.\<close>

lemma decided_model:
  assumes "policy_decide s ob ctx = Inr (CallModel purpose directive reason)"
    and "\<And>u. ob \<noteq> UserInputObservation u"
  shows "budget_reason s ob ctx = None"
proof (rule ccontr)
  assume b: "budget_reason s ob ctx \<noteq> None"
  let ?x = "CallModel purpose directive reason"
  obtain w where w: "budget_wait s ob ctx = Some w" using b budget_wait_None by (cases "budget_wait s ob ctx") auto
  have nw: "w \<noteq> Inr ?x" using budget_wait_wait [of s ob ctx ?x] w by auto
  have "decide_task_status s \<noteq> Some (Inr ?x)" "decide_fatal s \<noteq> Some (Inr ?x)"
    "decide_cancelled ob \<noteq> Some (Inr ?x)" "decide_read_only s ctx \<noteq> Some (Inr ?x)"
    by (auto simp: decide_task_status_def decide_fatal_def decide_cancelled_def
        decide_read_only_def split: option.splits if_splits)
  moreover have "external_wait ob \<noteq> Some (Inr ?x)" using external_wait_wait by blast
  moreover have "decide_plan_confirmation s ob ctx \<noteq> Some (Inr ?x)"
  proof -
    have "\<not> user_input_differs ob goal" for goal using assms(2) by (cases ob) auto
    then show ?thesis
      using w nw
      by (auto simp: decide_plan_confirmation_def decide_proposed_def split: option.splits if_splits)
  qed
  ultimately show False
    using assms(1) w nw unfolding policy_decide_def chain_step
    by (auto simp del: first_decision.simps(2))
qed

text \<open>Where a recovery call comes from: the branch of the latest failure, or one of the two that
  find the task blocked.\<close>

lemma decided_recovery:
  assumes "policy_decide s ob ctx = Inr (CallModel PurposeRecovery dir r)"
  obtains (failure) "decide_recovery s ob ctx = Some (Inr (CallModel PurposeRecovery dir r))"
      "budget_reason s ob ctx = None" "decide_fatal s = None" "decide_tools ob = None"
    | (blocked) "decide_recovery s ob ctx = None" "decide_replan s = None"
      "decide_active_plan s ob = Some (Inr (CallModel PurposeRecovery dir r)) \<or>
       decide_active_plan s ob = None \<and> decide_final s ob ctx = Some (Inr (CallModel PurposeRecovery dir r))"
      "budget_reason s ob ctx = None" "decide_fatal s = None" "decide_tools ob = None"
proof -
  let ?x = "CallModel PurposeRecovery dir r"
  have other: "p \<noteq> PurposeRecovery \<Longrightarrow> call_model p c refs cs \<noteq> Inr ?x" for p c refs cs
    using call_model_Inr by fastforce
  have skip: "decide_task_status s \<noteq> Some (Inr ?x)" "decide_fatal s \<noteq> Some (Inr ?x)"
    "decide_cancelled ob \<noteq> Some (Inr ?x)" "decide_read_only s ctx \<noteq> Some (Inr ?x)"
    "decide_tools ob \<noteq> Some (Inr ?x)" "decide_replan s \<noteq> Some (Inr ?x)"
    "decide_verification s \<noteq> Some (Inr ?x)"
    by (auto simp: decide_task_status_def decide_fatal_def decide_cancelled_def
        decide_read_only_def decide_tools_def decide_replan_def
        decide_verification_def other split: option.splits if_splits)
  have wait: "external_wait ob \<noteq> Some (Inr ?x)" "budget_wait s ob ctx \<noteq> Some (Inr ?x)"
    using external_wait_wait budget_wait_wait by blast+
  have plan: "decide_plan_confirmation s ob ctx \<noteq> Some (Inr ?x)"
    using wait(2)
    by (auto simp: decide_plan_confirmation_def decide_proposed_def other
        split: option.splits if_splits)
  have last: "call_model PurposeReasoning ''reasoning.continue'' [] [] \<noteq> Inr ?x"
    by (rule other) simp
  show thesis
    using assms skip wait plan last that unfolding policy_decide_def chain_step budget_wait_None [symmetric]
    by (simp only: first_decision.simps simp_thms) blast
qed

text \<open>A recovery call after a response or a batch leaves a model turn to spend.\<close>

lemma needs_recovery_not_final:
  "needs_recovery s ob \<Longrightarrow> ts_blockers (cs_task s) = [] \<Longrightarrow> \<not> is_final_candidate ob"
  by (cases ob) (auto simp: has_blocker_def message_tool_calls_def split: option.splits)

lemma budget_leaves_turn:
  assumes "budget_reason s ob ctx = None" and "observed_tool_calls ob = []"
    and "\<not> (is_final_candidate ob \<and> ts_blockers (cs_task s) = [])"
  shows "cc_model_turns (rf_counters (cs_facts s)) \<le> li_max_model_turns (pc_limits ctx) \<and>
    (is_model_or_tools ob \<longrightarrow> cc_model_turns (rf_counters (cs_facts s)) < li_max_model_turns (pc_limits ctx))"
  using assms by (auto simp: budget_reason_def Let_def split: if_splits)

lemma call_model_code:
  "call_model p c refs cs = Inr (CallModel p' dir r) \<Longrightarrow> p' = p \<and> cr_code r = py_strip c"
  by (auto simp: call_model_def bindE_eq_Inr mk_core_reason_def core_required_text_def
      required_text_PStr split: if_splits)

lemma recovery_codes: "py_strip ''task.blocked'' = ''task.blocked''"
    "py_strip ''recovery.required'' = ''recovery.required''"
  by code_simp+

section \<open>Decisions that cannot raise\<close>

abbreviation nonblank :: "string \<Rightarrow> bool" where
  "nonblank t \<equiv> py_strip t \<noteq> []"

lemma nonblank_Cons: "\<not> py_space c \<Longrightarrow> nonblank (c # cs)"
proof -
  assume c: "\<not> py_space c"
  then have "py_lstrip (c # cs) = c # cs" by (simp add: py_lstrip_def)
  moreover have "c \<in> set (py_lstrip (rev (c # cs)))"
  proof -
    have "\<not> (\<forall>d \<in> set (rev (c # cs)). py_space d)" using c by auto
    then have "dropWhile py_space (rev cs @ [c]) = dropWhile py_space (rev cs) @ [c]"
      using c by (cases "\<forall>d \<in> set (rev cs). py_space d")
        (auto simp: dropWhile_append3 dropWhile_append2 dropWhile_append1 dropWhile_eq_Nil_conv)
    then show ?thesis by (simp add: py_lstrip_def)
  qed
  ultimately show ?thesis by (auto simp: py_strip_def)
qed

lemma canon_nonblank: "canon_text py_strip t \<Longrightarrow> nonblank t"
  by (simp add: canon_text_def)

lemma plan_canon_nonblank: "canon_text plan_clean t \<Longrightarrow> nonblank t"
  by (simp add: canon_text_def plan_clean_stripped)

lemmas nonblank_literal = nonblank_Cons py_space_bits

lemma core_required_text_ok: "nonblank t \<Longrightarrow> core_required_text t f = Inr (py_strip t)"
  by (simp add: core_required_text_def required_text_PStr)

lemma core_evidence_refs_ok:
  "\<forall>r \<in> set refs. nonblank r \<Longrightarrow> core_evidence_refs refs = Inr (dedup (map py_strip refs))"
  by (simp add: core_evidence_refs_def text_tuple_ok)

lemma returns_Inr [simp]: "returns (Inr x)"
  by (simp add: returns_def)

lemma returns_bindE: "returns r \<Longrightarrow> (\<And>x. r = Inr x \<Longrightarrow> returns (k x)) \<Longrightarrow> returns (bindE r k)"
  by (cases r) (simp_all add: returns_def)

lemma returns_mapE: "returns (mapE f r) \<longleftrightarrow> returns r"
  by (cases r) (simp_all add: returns_def mapE_def)

lemma returns_iff: "returns r \<longleftrightarrow> (\<exists>x. r = Inr x)"
  by (cases r) (simp_all add: returns_def)

lemma returns_traverse: "\<forall>x \<in> set xs. returns (f x) \<Longrightarrow> returns (traverse f xs)"
  by (induction xs) (auto intro!: returns_bindE)

lemma mk_core_reason_ok:
  "nonblank code \<Longrightarrow> nonblank src \<Longrightarrow> \<forall>r \<in> set refs. nonblank r \<Longrightarrow>
   returns (mk_core_reason code msg src rec refs ds)"
  by (simp add: mk_core_reason_def core_required_text_ok core_evidence_refs_ok)

lemma core_nonblank [simp]: "nonblank ''core''" "nonblank ''tools''"
  by (simp_all add: nonblank_literal)

lemma call_model_ok:
  "nonblank code \<Longrightarrow> \<forall>r \<in> set refs. nonblank r \<Longrightarrow> \<forall>c \<in> set cs. nonblank c \<Longrightarrow>
   returns (call_model p code refs cs)"
  unfolding call_model_def mk_core_directive_def
  by (intro returns_bindE returns_traverse mk_core_reason_ok ballI returns_Inr)
     (simp_all add: core_required_text_ok core_evidence_refs_ok)

lemma mk_terminate_ok:
  "nonblank code \<Longrightarrow> \<forall>r \<in> set refs. nonblank r \<Longrightarrow> returns (mk_terminate st code msg refs)"
  by (simp add: mk_terminate_def core_required_text_ok core_evidence_refs_ok)

lemma wait_for_ok: "nonblank i \<Longrightarrow> returns r \<Longrightarrow> returns (wait_for k i r pl)"
  unfolding wait_for_def returns_mapE mk_core_wait_def
  by (intro returns_bindE) (simp_all add: returns_mapE core_required_text_ok)

lemma request_tools_ok: "cs \<noteq> [] \<Longrightarrow> returns (request_tools cs)"
  unfolding request_tools_def mk_execute_tools_def
  by (intro returns_bindE mk_core_reason_ok) (simp_all add: nonblank_literal)

lemmas decision_ok = call_model_ok mk_terminate_ok wait_for_ok request_tools_ok mk_core_reason_ok

text \<open>A step of the chain that is skipped or returns.\<close>

definition safe :: "'a result option \<Rightarrow> bool" where
  "safe d \<longleftrightarrow> (case d of None \<Rightarrow> True | Some r \<Rightarrow> returns r)"

lemma safe_simps [simp]: "safe None" "safe (Some r) \<longleftrightarrow> returns r"
  by (simp_all add: safe_def)

lemma chain_ok: "list_all safe ds \<Longrightarrow> returns fb \<Longrightarrow> returns (first_decision ds fb)"
  by (induction ds) (auto split: option.splits)

text \<open>The suspensions of a batch name their request: an approval has an identifier, and a
  request for user input that brings an identifier brings a non-blank one, with no mapping
  inside its data.\<close>

definition suspension_named :: "tool_result \<Rightarrow> bool" where
  "suspension_named r \<longleftrightarrow>
     (case to_approval r of None \<Rightarrow> True | Some a \<Rightarrow> nonblank (ac_approval_id a)) \<and>
     (case to_interaction r of None \<Rightarrow> True
      | Some d \<Rightarrow> (py_truth (dget d ''request_id'') \<longrightarrow> nonblank (py_str (dget d ''request_id''))) \<and>
          \<not> list_ex (\<lambda>(k, v). holds_mapping v) d)"

fun suspensions_named :: "core_observation \<Rightarrow> bool" where
  "suspensions_named (ToolBatchObservation b) \<longleftrightarrow> list_all suspension_named (tbo_results b)"
| "suspensions_named _ \<longleftrightarrow> True"

lemma result_wait_safe: "nonblank (to_tool_call_id r) \<Longrightarrow> safe (result_wait r)"
  by (auto simp: result_wait_def nonblank_literal intro!: wait_for_ok mk_core_reason_ok split: option.splits)

lemma result_suspension_safe:
  assumes "suspension_named r" and "nonblank (to_tool_call_id r)"
  shows "safe (result_suspension r)"
proof -
  consider w where "result_wait r = Some w"
    | a where "result_wait r = None" "to_status r = TApprovalRequired" "to_approval r = Some a"
    | d where "result_wait r = None" "to_status r = TUserInputRequired" "to_interaction r = Some d"
    | "result_suspension r = None"
    by (cases "result_wait r"; cases "to_status r"; cases "to_approval r"; cases "to_interaction r")
       (auto simp: result_suspension_def)
  then show ?thesis
  proof cases
    case 1
    then show ?thesis using result_wait_safe [OF assms(2)] by (simp add: result_suspension_def)
  next
    case 2
    then show ?thesis
      using assms by (auto simp: result_suspension_def suspension_named_def nonblank_literal
          intro!: wait_for_ok mk_core_reason_ok)
  next
    case 3
    then show ?thesis
      using assms by (auto simp: result_suspension_def suspension_named_def nonblank_literal Let_def deepcopy_frozen_def
          returns_mapE intro!: wait_for_ok mk_core_reason_ok returns_bindE)
  qed simp
qed

lemma first_suspension_safe:
  "list_all suspension_named rs \<Longrightarrow> \<forall>r \<in> set rs. nonblank (to_tool_call_id r) \<Longrightarrow>
   safe (first_suspension rs)"
proof (induction rs)
  case (Cons r rs)
  then show ?case using result_suspension_safe [of r] by (auto split: option.splits)
qed simp

lemma external_wait_safe: "suspensions_named ob \<Longrightarrow> wf_observation ob \<Longrightarrow> safe (external_wait ob)"
  using first_suspension_safe
  by (cases ob)
     (auto simp: wf_observation_def wf_tool_result_parts_def wf_tool_result_def canon_text_def)

lemma budget_wait_safe: "safe (budget_wait s ob ctx)"
  unfolding budget_wait_def
  by (auto simp: safe_def budget_reason_def Let_def nonblank_literal intro!: wait_for_ok mk_core_reason_ok)

lemma blocker_refs_nonblank:
  "wf_core_state s \<Longrightarrow> \<forall>b \<in> set (ts_blockers (cs_task s)). \<forall>r \<in> set (tb_evidence_refs b). nonblank r"
  using wf_blockers [of s] by (auto simp: wf_task_blocker_def canon_texts_def canon_text_def)

lemma latest_failure_nonblank:
  "wf_core_state s \<Longrightarrow> ff_latest (rf_failures (cs_facts s)) = Some f \<Longrightarrow>
   nonblank (fr_code f) \<and> (\<forall>r \<in> set (fr_evidence_refs f). nonblank r)"
  using wf_failures [of s]
  by (auto simp: wf_failure_facts_def wf_failure_record_def canon_texts_def canon_text_def)

lemma plan_id_nonblank: "wf_core_state s \<Longrightarrow> ts_plan (cs_task s) = Some p \<Longrightarrow> nonblank (ps_plan_id p)"
  using wf_plan [of s p] by (simp add: wf_plan_state_def plan_canon_nonblank)

lemma pending_ids_nonblank:
  "wf_core_state s \<Longrightarrow> ts_plan (cs_task s) = Some p \<Longrightarrow> \<forall>i \<in> set (pending_step_ids p). nonblank i"
  using wf_plan [of s p]
  by (auto simp: wf_plan_state_def wf_plan_step_def pending_step_ids_def plan_canon_nonblank)

lemma decide_proposed_safe:
  "wf_core_state s \<Longrightarrow> ts_plan (cs_task s) = Some p \<Longrightarrow> returns (decide_proposed s ob ctx p)"
  using budget_wait_safe [of s ob ctx] plan_id_nonblank [of s p]
  by (auto simp: decide_proposed_def nonblank_literal intro!: decision_ok split: option.splits)

lemma plan_confirmation_safe: "wf_core_state s \<Longrightarrow> safe (decide_plan_confirmation s ob ctx)"
  using decide_proposed_safe [of s _ ob ctx] plan_id_nonblank [of s]
  by (auto simp: decide_plan_confirmation_def nonblank_literal intro!: decision_ok split: option.splits)

lemma decide_active_plan_safe: "wf_core_state s \<Longrightarrow> safe (decide_active_plan s ob)"
  using blocker_refs_nonblank [of s] pending_ids_nonblank [of s]
  by (auto simp: decide_active_plan_def blocker_refs_def nonblank_literal
      intro!: decision_ok split: option.splits)

lemma decide_recovery_safe: "wf_core_state s \<Longrightarrow> safe (decide_recovery s ob ctx)"
  using latest_failure_nonblank [of s]
  by (auto simp: decide_recovery_def nonblank_literal intro!: decision_ok split: option.splits)

lemma decide_fatal_safe: "wf_core_state s \<Longrightarrow> safe (decide_fatal s)"
  using latest_failure_nonblank [of s]
  by (auto simp: decide_fatal_def intro!: decision_ok split: option.splits)

lemma decide_replan_safe: "wf_core_state s \<Longrightarrow> safe (decide_replan s)"
  using blocker_refs_nonblank [of s]
  by (auto simp: decide_replan_def nonblank_literal intro!: decision_ok)

lemma decide_verification_safe:
  assumes "wf_core_state s" shows "safe (decide_verification s)"
proof -
  have "wf_workspace_facts (rf_workspace (cs_facts s))" using assms by (simp add: wf_parts)
  then have "\<forall>r \<in> set (wk_evidence_refs (rf_workspace (cs_facts s))). nonblank r"
    by (auto simp: wf_workspace_facts_def canon_texts_def canon_text_def)
  then show ?thesis
    by (auto simp: decide_verification_def nonblank_literal intro!: decision_ok)
qed

lemma decide_final_safe: "wf_core_state s \<Longrightarrow> safe (decide_final s ob ctx)"
  using blocker_refs_nonblank [of s]
  by (auto simp: decide_final_def blocker_refs_def nonblank_literal intro!: decision_ok)

lemma literal_decisions_safe:
  "safe (decide_task_status s)" "safe (decide_cancelled ob)" "safe (decide_read_only s ctx)"
  "safe (decide_tools ob)"
  by (auto simp: decide_task_status_def decide_cancelled_def decide_read_only_def decide_tools_def
      nonblank_literal intro!: decision_ok)

lemmas chain_safe =
  literal_decisions_safe decide_fatal_safe external_wait_safe plan_confirmation_safe
  budget_wait_safe decide_recovery_safe decide_replan_safe decide_active_plan_safe
  decide_verification_safe decide_final_safe

end
