(* ===== verification/Policy_Properties.thy ===== *)
theory Policy_Properties
  imports Policy_Facts
begin

text \<open>
  The properties of the policy: when a run may be called complete, which tools it may run,
  how recovery is bounded, and that a decision is always reached.
\<close>

section \<open>Definitions and samples\<close>

definition final_message :: core_observation where
  "final_message = sample_model ''m'' [TextBlock ''done'' None]"

definition the_decision :: "core_decision result \<Rightarrow> core_decision" where
  "the_decision r = (case r of Inr d \<Rightarrow> d
     | Inl _ \<Rightarrow> ExecuteTools [] \<lparr>cr_code = [], cr_message = [], cr_source = [],
                  cr_recoverable = False, cr_reason_refs = [], cr_details = []\<rparr>)"

definition verified_state :: core_state where
  "verified_state = (sample_state None)\<lparr>cs_facts := initial_run_facts
     \<lparr>rf_workspace := \<lparr>wk_revision = 1, wk_changed = True, wk_affected_paths = [''f''],
                       wk_evidence_refs = [''k'']\<rparr>,
      rf_verification := \<lparr>vf_status = VPassed, vf_verified_revision = Some 1,
        vf_attempted_checks = [], vf_evidence_refs = [''k''], vf_unavailable_reason = None\<rparr>\<rparr>\<rparr>"

definition unverified_run :: "(core_observation \<times> reduction_context) list" where
  "unverified_run =
     [(CommandObservation \<lparr>co_observation_id = ''o1'', co_command =
         SubmitPlan ''c1'' sample_definition [sample_step_definition ''A'']\<rparr>, sample_context ModeBuild),
      (ToolBatchObservation (sample_batch ''b1'' [sample_write ''k'' []] []), sample_context ModeBuild),
      (CommandObservation \<lparr>co_observation_id = ''o2'', co_command =
         UpdatePlanProgress ''c2'' 1 [\<lparr>su_step_id = ''plan:c1:step:1'', su_status = StepCompleted,
           su_completion_note = ''done'', su_evidence_refs = []\<rparr>]\<rparr>, sample_context ModeBuild),
      (final_message, sample_context ModeBuild)]"

definition requesting_message :: core_observation where
  "requesting_message = sample_model ''m'' [ToolCallBlock
     \<lparr>tc_id = ''k'', tc_name = ''read'', tc_arguments = [], tc_raw_arguments = None,
      tc_index = None, tc_provider = None, tc_metadata = []\<rparr>]"

definition failing_state :: core_state where
  "failing_state = failed_with
     \<lparr>fr_code = ''x'', fr_source = ''model'', fr_message = ''m'', fr_recoverable = True,
      fr_evidence_refs = []\<rparr> (sample_state None)"

definition blank_request :: core_observation where
  "blank_request = ToolBatchObservation (sample_batch ''b'' [(sample_write ''k'' [])
     \<lparr>to_status := TUserInputRequired, to_effects := [],
      to_interaction := Some [(''request_id'', PStr '' '')]\<rparr>] [])"

definition nested_request :: core_observation where
  "nested_request = ToolBatchObservation (sample_batch ''b'' [(sample_write ''k'' [])
     \<lparr>to_status := TUserInputRequired, to_effects := [],
      to_interaction := Some [(''options'', PTuple [PDict []])]\<rparr>] [])"

text \<open>What the samples evaluate to.\<close>

lemma policy_values:
  "policy_decide (sample_state None) final_message sample_limits = Inr (Terminate
     \<lparr>te_term_status = TermCompleted, te_reason_code = ''task.completed'', te_message =
     [], te_evidence_refs = []\<rparr>)"
  "ts_status (cs_task (sample_state None)) \<noteq> TaskSatisfied"
  "policy_decide verified_state final_message sample_limits = Inr (Terminate
     \<lparr>te_term_status = TermCompleted, te_reason_code = ''task.completed'', te_message =
     [], te_evidence_refs = []\<rparr>)"
  "ts_status (cs_task verified_state) = TaskActive"
  "wk_changed (rf_workspace (cs_facts verified_state))"
  "ts_plan (cs_task verified_state) = None"
  "case (policy_decide (sample_state None) requesting_message sample_limits) of Inr
     (ExecuteTools calls r) \<Rightarrow> length calls = 1 | _ \<Rightarrow> False"
  "ts_plan (cs_task (sample_state None)) = None"
  "case (policy_decide failing_state (sample_model ''m'' []) sample_limits) of Inr (CallModel
     PurposeRecovery dir r) \<Rightarrow> cr_code r = ''recovery.required'' | _ \<Rightarrow>
     False"
  "map_option fr_code (ff_latest (rf_failures (cs_facts failing_state))) = Some ''x''"
  "li_max_recovery_attempts (pc_limits sample_limits) = 5"
  "wf_observation blank_request"
  "wf_observation nested_request"
  "policy_decide building blank_request sample_limits = Inl (ValueError ''request_id is required'')"
  "policy_decide building nested_request sample_limits = Inl (TypeError ''cannot pickle mappingproxy object'')"
  by code_simp+

section \<open>Completion\<close>

text \<open>Property C11. A run is declared complete only for a final answer on a clean slate: unless
  the task was satisfied before, the observation is a completed response with text and
  without calls, no blocker is left, no plan waits for confirmation, every budget holds, the
  latest failure is not fatal, a read-only run changed nothing, and either the active plan
  has all its steps completed or there is no active plan.\<close>

lemma completion_is_earned:
  assumes "policy_decide s ob ctx = Inr (Terminate t)" and "te_term_status t = TermCompleted"
    and "ts_status (cs_task s) \<noteq> TaskSatisfied"
  shows "is_final_candidate ob \<and> ts_blockers (cs_task s) = [] \<and>
    ts_status (cs_task s) \<noteq> TaskAbandoned \<and> budget_reason s ob ctx = None \<and>
    (\<forall>f. ff_latest (rf_failures (cs_facts s)) = Some f \<longrightarrow>
       fr_recoverable f \<or> fr_code f = ''run.cancelled'') \<and>
    (pc_mode ctx = ModeRead \<longrightarrow> \<not> wk_changed (rf_workspace (cs_facts s))) \<and>
    (\<forall>p. ts_plan (cs_task s) = Some p \<longrightarrow> ps_status p \<noteq> PlanProposed \<and>
       (ps_status p = PlanActive \<longrightarrow> ps_pending_revision p = None \<and>
          (\<forall>st \<in> set (ps_steps p). st_status st = StepCompleted) \<and>
          te_reason_code t = ''plan.completed''))"
proof -
  note chain = completed_chain [OF assms]
  from chain(11) show ?thesis
  proof (elim disjE conjE)
    assume "decide_active_plan s ob = Some (Inr (Terminate t))"
    from decide_active_plan_terminate [OF this assms(2)] show ?thesis
      using chain(1,2,5,6,7)
      by (auto simp: decide_task_status_def decide_fatal_def decide_read_only_def
          decide_plan_confirmation_def split: option.splits if_splits)
  next
    assume none: "decide_active_plan s ob = None"
      and "decide_final s ob ctx = Some (Inr (Terminate t))"
    from decide_final_terminate [OF this(2) assms(2)] decide_active_plan_None [OF none]
    show ?thesis
      using chain(1,2,5,6,7)
      by (auto simp: decide_task_status_def decide_fatal_def decide_read_only_def
          decide_plan_confirmation_def split: option.splits if_splits)
  qed
qed

lemma final_without_plan:
  "policy_decide (sample_state None) final_message sample_limits =
   Inr (Terminate \<lparr>te_term_status = TermCompleted, te_reason_code = ''task.completed'',
                   te_message = [], te_evidence_refs = []\<rparr>)"
  by (fact policy_values)

lemma completion_is_earned_witness:
  "is_final_candidate final_message \<and> budget_reason (sample_state None) final_message sample_limits = None"
proof -
  have "ts_status (cs_task (sample_state None)) \<noteq> TaskSatisfied" by (fact policy_values)
  from completion_is_earned [OF final_without_plan _ this] show ?thesis by simp
qed

text \<open>Property C12. Without an active plan, an active task that changed the workspace is
  completed only when the verification facts are fresh: passed, or recorded as unavailable,
  for exactly the current workspace revision.\<close>

lemma completion_needs_fresh_verification:
  assumes "policy_decide s ob ctx = Inr (Terminate t)" and "te_term_status t = TermCompleted"
    and "ts_status (cs_task s) = TaskActive" and "wk_changed (rf_workspace (cs_facts s))"
    and "\<forall>p. ts_plan (cs_task s) = Some p \<longrightarrow> ps_status p \<noteq> PlanActive"
  shows "vf_status (rf_verification (cs_facts s)) \<in> {VPassed, VUnavailable} \<and>
    vf_verified_revision (rf_verification (cs_facts s)) = Some (wk_revision (rf_workspace (cs_facts s)))"
proof -
  have "ts_status (cs_task s) \<noteq> TaskSatisfied" using assms(3) by simp
  note chain = completed_chain [OF assms(1,2) this]
  have "decide_active_plan s ob \<noteq> Some (Inr (Terminate t))"
    using decide_active_plan_terminate [OF _ assms(2), of s ob] assms(5) by blast
  then have "decide_verification s = None" using chain(11) by blast
  moreover have "\<not> has_blocker s ReplanRequired"
    using chain(10) by (simp add: decide_replan_def split: if_splits)
  ultimately show ?thesis
    using needs_verification [of s] assms(3,4) by (simp add: verification_fresh_def)
qed

lemma completion_needs_fresh_verification_witness:
  "vf_verified_revision (rf_verification (cs_facts verified_state)) =
   Some (wk_revision (rf_workspace (cs_facts verified_state)))"
proof -
  have d: "policy_decide verified_state final_message sample_limits =
    Inr (Terminate \<lparr>te_term_status = TermCompleted, te_reason_code = ''task.completed'',
                    te_message = [], te_evidence_refs = []\<rparr>)" by (fact policy_values)
  have "ts_status (cs_task verified_state) = TaskActive"
    and "wk_changed (rf_workspace (cs_facts verified_state))"
    and "ts_plan (cs_task verified_state) = None" by (fact policy_values)+
  then show ?thesis
    using completion_needs_fresh_verification [OF d] by simp
qed

text \<open>The completion of a plan skips that check: in a run from a new state, a
  build-mode plan is submitted, a write changes the workspace, the step is reported complete
  without any verification, and the policy ends the run as \<^verbatim>\<open>plan.completed\<close> although the
  assessment of the state is that verification is needed.\<close>

lemma plan_completion_skips_verification:
  "case core_state_new ''do it'' None of
     Inl _ \<Rightarrow> False
   | Inr s \<Rightarrow> (case run_steps reducer_step s unverified_run of
       Inl _ \<Rightarrow> False
     | Inr t \<Rightarrow>
         wk_changed (rf_workspace (cs_facts t)) \<and>
         vf_status (rf_verification (cs_facts t)) = VNone \<and>
         as_status (assess_core_state t) = ANeedsVerification \<and>
         policy_decide t final_message sample_limits =
           Inr (Terminate \<lparr>te_term_status = TermCompleted, te_reason_code = ''plan.completed'',
                           te_message = [], te_evidence_refs = []\<rparr>))"
  by code_simp

section \<open>Tools and recovery\<close>

text \<open>Property C13. Tools run only when the model asked for them, in the very response under
  decision, and within the budgets of turns, iterations, calls and repetition. The one
  exception is a plan that waits for confirmation, where the tools are run without looking at
  the budgets.\<close>

lemma tools_run_on_request:
  assumes "policy_decide s ob ctx = Inr (ExecuteTools calls r)"
  shows "calls = observed_tool_calls ob \<and> calls \<noteq> [] \<and>
    (budget_reason s ob ctx = None \<or>
     (\<exists>p. ts_plan (cs_task s) = Some p \<and> ps_status p = PlanProposed))"
  using assms by (rule decided_tools)

lemma tools_run_on_request_witness:
  "\<exists>calls r. policy_decide (sample_state None) requesting_message sample_limits =
     Inr (ExecuteTools calls r) \<and> length calls = 1 \<and>
     budget_reason (sample_state None) requesting_message sample_limits = None"
proof -
  let ?d = "policy_decide (sample_state None) requesting_message sample_limits"
  have "case ?d of Inr (ExecuteTools calls r) \<Rightarrow> length calls = 1 | _ \<Rightarrow> False" by (fact policy_values)
  then obtain calls r where d: "?d = Inr (ExecuteTools calls r)" "length calls = 1"
    by (auto split: sum.splits core_decision.splits)
  have "ts_plan (cs_task (sample_state None)) = None" by (fact policy_values)
  with tools_run_on_request [OF d(1)] d show ?thesis by auto
qed

text \<open>Property C14. Recovery is bounded. Every recovery call of the policy is within all budgets, and
  after a response or a batch it leaves a model turn to spend; the model asked for no tools, no
  replanning is due and the latest failure is not fatal. It has one of two reasons.
  \<^verbatim>\<open>recovery.required\<close>: the observation shows a problem, and the latest failure is recoverable
  with its code counted at most \<^verbatim>\<open>max_recovery_attempts\<close> times. \<^verbatim>\<open>task.blocked\<close>: there is a blocker
  but no failure to recover from, and the model has given a final answer or all steps of the
  active plan are complete; these calls have no count of their own, only the budgets.\<close>

lemma recovery_is_bounded:
  assumes "policy_decide s ob ctx = Inr (CallModel PurposeRecovery dir r)"
  shows "budget_reason s ob ctx = None \<and> observed_tool_calls ob = [] \<and>
    (is_model_or_tools ob \<longrightarrow>
       cc_model_turns (rf_counters (cs_facts s)) < li_max_model_turns (pc_limits ctx)) \<and>
    \<not> has_blocker s ReplanRequired \<and>
    (\<forall>f. ff_latest (rf_failures (cs_facts s)) = Some f \<longrightarrow>
       fr_recoverable f \<or> fr_code f = ''run.cancelled'') \<and>
    (cr_code r = ''recovery.required'' \<and> needs_recovery s ob \<and>
       (\<exists>f. ff_latest (rf_failures (cs_facts s)) = Some f \<and> fr_recoverable f \<and>
         count_for (rf_failures (cs_facts s)) (fr_code f) \<le> li_max_recovery_attempts (pc_limits ctx)) \<or>
     cr_code r = ''task.blocked'' \<and> ts_blockers (cs_task s) \<noteq> [] \<and>
       \<not> (\<exists>f. ff_latest (rf_failures (cs_facts s)) = Some f \<and> fr_recoverable f \<and> needs_recovery s ob) \<and>
       (is_final_candidate ob \<or>
        (\<exists>p. ts_plan (cs_task s) = Some p \<and> ps_status p = PlanActive \<and>
           (\<forall>st \<in> set (ps_steps p). st_status st = StepCompleted))))"
  using assms
proof (cases rule: decided_recovery)
  case failure
  have calls: "observed_tool_calls ob = []" using failure(4) by (simp add: decide_tools_def split: if_splits)
  obtain f where f: "ff_latest (rf_failures (cs_facts s)) = Some f" "fr_recoverable f" "needs_recovery s ob"
    "\<not> has_blocker s ReplanRequired"
    "count_for (rf_failures (cs_facts s)) (fr_code f) \<le> li_max_recovery_attempts (pc_limits ctx)"
    "call_model PurposeRecovery ''recovery.required'' (fr_evidence_refs f) [] = Inr (CallModel PurposeRecovery dir r)"
    using failure(1) by (auto simp: decide_recovery_def dest: call_model_Inr split: option.splits if_splits)
  have "cr_code r = ''recovery.required''" using call_model_code [OF f(6)] by (simp add: recovery_codes)
  with f calls failure(2) budget_leaves_turn [OF failure(2) calls] needs_recovery_not_final [OF f(3)]
  show ?thesis by auto
next
  case blocked
  have calls: "observed_tool_calls ob = []" using blocked(6) by (simp add: decide_tools_def split: if_splits)
  have parts: "cr_code r = ''task.blocked'' \<and> ts_blockers (cs_task s) \<noteq> [] \<and>
      (is_final_candidate ob \<or> (\<exists>p. ts_plan (cs_task s) = Some p \<and> ps_status p = PlanActive \<and>
           (\<forall>st \<in> set (ps_steps p). st_status st = StepCompleted)))"
    using blocked(3)
    by (auto simp: decide_active_plan_def decide_final_def list_all_iff recovery_codes
        dest!: call_model_code split: option.splits if_splits)
  have replan: "\<not> has_blocker s ReplanRequired"
    using blocked(2) by (simp add: decide_replan_def split: if_splits)
  have fatal: "\<forall>f. ff_latest (rf_failures (cs_facts s)) = Some f \<longrightarrow>
      fr_recoverable f \<or> fr_code f = ''run.cancelled''"
    using blocked(5) by (auto simp: decide_fatal_def split: option.splits if_splits)
  have none: "\<not> (\<exists>f. ff_latest (rf_failures (cs_facts s)) = Some f \<and> fr_recoverable f \<and> needs_recovery s ob)"
    using blocked(1) by (auto simp: decide_recovery_def)
  show ?thesis
    using parts replan fatal none calls blocked(4) budget_leaves_turn [OF blocked(4) calls] by auto
qed
lemma recovery_is_bounded_witness:
  "\<exists>dir r. policy_decide failing_state (sample_model ''m'' []) sample_limits =
     Inr (CallModel PurposeRecovery dir r) \<and>
     count_for (rf_failures (cs_facts failing_state)) ''x'' \<le> 5"
proof -
  let ?d = "policy_decide failing_state (sample_model ''m'' []) sample_limits"
  have "case ?d of Inr (CallModel PurposeRecovery dir r) \<Rightarrow> cr_code r = ''recovery.required''
        | _ \<Rightarrow> False" by (fact policy_values)
  then obtain dir r where d: "?d = Inr (CallModel PurposeRecovery dir r)"
    "cr_code r = ''recovery.required''"
    by (auto split: sum.splits core_decision.splits model_purpose.splits)
  have "map_option fr_code (ff_latest (rf_failures (cs_facts failing_state))) = Some ''x''"
    and "li_max_recovery_attempts (pc_limits sample_limits) = 5" by (fact policy_values)+
  with recovery_is_bounded [OF d(1)] d show ?thesis by auto
qed

text \<open>A final answer with an open blocker is answered with the other kind of call.\<close>

definition blocked_state :: core_state where
  "blocked_state = (sample_state None)\<lparr>cs_task := (cs_task (sample_state None))
     \<lparr>ts_blockers := [\<lparr>tb_kind = VerificationFailed, tb_reason = ''b'', tb_evidence_refs = [''k''], tb_recoverable = True\<rparr>]\<rparr>\<rparr>"

lemma blocked_answer_recovers:
  "case policy_decide blocked_state final_message sample_limits of
     Inr (CallModel PurposeRecovery dir r) \<Rightarrow> cr_code r = ''task.blocked'' | _ \<Rightarrow> False"
  by code_simp

section \<open>A decision is always reached\<close>

text \<open>Property C15. The policy is total: from every well-formed state and observation, and
  whatever the limits, it reaches a decision without raising, provided the suspended results
  of a batch name their request with a non-blank identifier, and the data of a request for
  user input is flat.\<close>

lemma policy_always_decides:
  assumes "wf_core_state s" and "wf_observation ob" and "suspensions_named ob"
  shows "\<exists>d. policy_decide s ob ctx = Inr d"
proof -
  have "returns (call_model PurposeReasoning ''reasoning.continue'' [] [])"
    by (rule call_model_ok) (simp_all add: nonblank_literal)
  then have "returns (policy_decide s ob ctx)"
    unfolding policy_decide_def using assms by (intro chain_ok) (simp_all add: chain_safe)
  then show ?thesis by (simp add: returns_iff)
qed

lemma policy_always_decides_witness:
  "\<exists>d. policy_decide building sample_input sample_limits = Inr d"
  by (rule policy_always_decides [OF building_wf sample_input_wf]) (simp add: sample_input_def)

text \<open>The proviso is needed: a valid tool result that asks the user under a blank
  identifier, or with a mapping inside its data, makes the policy raise instead of waiting.\<close>

lemma odd_requests_raise:
  "wf_observation blank_request \<and> wf_observation nested_request \<and>
   policy_decide building blank_request sample_limits = Inl (ValueError ''request_id is required'') \<and>
   policy_decide building nested_request sample_limits =
     Inl (TypeError ''cannot pickle mappingproxy object'')"
proof (intro conjI)
  show "wf_observation blank_request" and "wf_observation nested_request" by (fact policy_values)+
  show "policy_decide building blank_request sample_limits =
    Inl (ValueError ''request_id is required'')" by (fact policy_values)
  show "policy_decide building nested_request sample_limits =
    Inl (TypeError ''cannot pickle mappingproxy object'')" by (fact policy_values)
qed

end
