(* ===== verification/Decision_Facts.thy ===== *)
theory Decision_Facts
  imports Execution_Properties Policy_Facts
begin

text \<open>
  What applying a decision does to the state (\<open>apply_decision\<close> of \<open>Core_Reducer\<close>, the last
  function of \<^verbatim>\<open>src/codepilot/core/reducer.py\<close>), branch by branch, and the order on states
  that both reductions and decisions respect.
\<close>

section \<open>The order\<close>

text \<open>As \<open>state_le\<close>, but of the plan only its identity and that its revision does not fall:
  termination closes a plan outside the plan transitions.\<close>

definition plan_le :: "plan_state option \<Rightarrow> plan_state option \<Rightarrow> bool" where
  "plan_le p q \<longleftrightarrow>
     (case p of None \<Rightarrow> True
      | Some p \<Rightarrow> (case q of None \<Rightarrow> False
           | Some q \<Rightarrow> ps_plan_id q = ps_plan_id p \<and> ps_revision p \<le> ps_revision q))"

definition core_le :: "core_state \<Rightarrow> core_state \<Rightarrow> bool" where
  "core_le s t \<longleftrightarrow>
     set (applied_ids s) \<subseteq> set (applied_ids t) \<and>
     counters_le (rf_counters (cs_facts s)) (rf_counters (cs_facts t)) \<and>
     workspace_le (rf_workspace (cs_facts s)) (rf_workspace (cs_facts t)) \<and>
     plan_le (ts_plan (cs_task s)) (ts_plan (cs_task t))"

lemma plan_le_refl [simp]: "plan_le p p"
  by (simp add: plan_le_def split: option.split)

lemma plan_le_trans: "plan_le p q \<Longrightarrow> plan_le q r \<Longrightarrow> plan_le p r"
  by (auto simp: plan_le_def split: option.splits)

lemma core_le_refl [simp]: "core_le s s"
  by (simp add: core_le_def counters_le_def workspace_le_def)

lemma core_le_trans [trans]: "core_le s t \<Longrightarrow> core_le t u \<Longrightarrow> core_le s u"
  by (auto simp: core_le_def counters_le_def workspace_le_def intro: plan_le_trans)

lemma plan_evolves_le: "plan_evolves p q \<Longrightarrow> plan_le p q"
  unfolding plan_evolves_def
proof (induction rule: rtranclp_induct)
  case base
  show ?case by simp
next
  case (step q r)
  then obtain known l r' where r: "r = Some r'" "plan_moves known l q r'"
    by (auto simp: plan_step_opt_def)
  have "plan_le q r"
    using r plan_transition_next by (fastforce simp: plan_le_def plan_moves_def next_revision_def split: option.splits)
  with step.IH show ?case by (rule plan_le_trans)
qed

lemma state_le_core_le: "state_le s t \<Longrightarrow> core_le s t"
  by (simp add: state_le_def core_le_def plan_evolves_le)

section \<open>Closing the plan\<close>

definition closed_plan :: "termination_status \<Rightarrow> plan_state \<Rightarrow> plan_state" where
  "closed_plan st p =
     (if st = TermCompleted \<and> ps_status p = PlanActive \<and>
         (\<forall>s \<in> set (ps_steps p). st_status s = StepCompleted)
      then p\<lparr>ps_status := PlanCompleted, ps_revision := ps_revision p + 1\<rparr>
      else if st \<noteq> TermCompleted \<and> ps_status p \<in> {PlanProposed, PlanActive}
      then p\<lparr>ps_status := PlanAbandoned, ps_pending_revision := None,
             ps_close_request := None, ps_revision := ps_revision p + 1\<rparr>
      else p)"

lemma terminated_plan_Inr:
  assumes "terminated_plan p st = Inr q" and "\<forall>p'. p = Some p' \<longrightarrow> wf_plan_state p'"
  shows "q = map_option (closed_plan st) p" and "\<forall>q'. q = Some q' \<longrightarrow> wf_plan_state q'"
    and "plan_le p q"
proof -
  have "q = map_option (closed_plan st) p \<and> (\<forall>q'. q = Some q' \<longrightarrow> wf_plan_state q')"
  proof (cases p)
    case None
    with assms show ?thesis by (simp add: terminated_plan_def)
  next
    case (Some p')
    note w = assms(2) [rule_format, OF Some]
    note parts = wf_plan_parts [OF w]
    have complete: "plan_state_post_init (p'\<lparr>ps_status := PlanCompleted, ps_revision := ps_revision p' + 1\<rparr>) = Inr r
      \<Longrightarrow> wf_plan_state r \<and> r = p'\<lparr>ps_status := PlanCompleted, ps_revision := ps_revision p' + 1\<rparr>" for r
      using revised_plan [OF w] parts by simp
    have abandon: "plan_state_post_init (p'\<lparr>ps_status := PlanAbandoned, ps_pending_revision := None,
                    ps_close_request := None, ps_revision := ps_revision p' + 1\<rparr>) = Inr r
      \<Longrightarrow> wf_plan_state r \<and> r = p'\<lparr>ps_status := PlanAbandoned, ps_pending_revision := None,
                    ps_close_request := None, ps_revision := ps_revision p' + 1\<rparr>" for r
      using revised_plan [OF w] parts by simp
    show ?thesis
      using assms(1) w Some
      by (cases st) (auto simp: terminated_plan_def closed_plan_def mapE_eq_Inr list_all_iff
          dest!: complete abandon split: if_splits)
  qed
  then show q: "q = map_option (closed_plan st) p" and "\<forall>q'. q = Some q' \<longrightarrow> wf_plan_state q'"
    by blast+
  show "plan_le p q" by (simp add: q plan_le_def closed_plan_def split: option.split)
qed

section \<open>Applying a decision\<close>

definition terminated :: "termination_status \<Rightarrow> core_state \<Rightarrow> core_state" where
  "terminated st s =
     s\<lparr>cs_task := (cs_task s)
        \<lparr>ts_status := termination_task_status st,
         ts_plan := map_option (closed_plan st) (ts_plan (cs_task s)),
         ts_blockers := (if st = TermCompleted then [] else ts_blockers (cs_task s))\<rparr>\<rparr>"

definition recovering :: "core_state \<Rightarrow> core_state" where
  "recovering s =
     s\<lparr>cs_facts := (cs_facts s)\<lparr>rf_counters := (rf_counters (cs_facts s))
        \<lparr>cc_total_recoveries := cc_total_recoveries (rf_counters (cs_facts s)) + 1\<rparr>\<rparr>\<rparr>"

text \<open>The state after a decision.\<close>

fun decided :: "core_decision \<Rightarrow> core_state \<Rightarrow> core_state" where
  "decided (CallModel purpose directive reason) s =
     (if purpose = PurposeRecovery then recovering s else s)"
| "decided (ExecuteTools calls reason) s = s"
| "decided (Wait w) s = s"
| "decided (Terminate t) s = terminated (te_term_status t) s"

lemma apply_decision_Inr:
  assumes "apply_decision s d = Inr red" and s: "wf_core_state s"
  shows "red_state red = decided d s" "wf_core_state (decided d s)" "core_le s (decided d s)"
proof -
  have "red_state red = decided d s \<and> wf_core_state (decided d s) \<and> core_le s (decided d s)"
  proof (cases d)
    case (CallModel purpose directive reason)
    have "wf_core_counters ((rf_counters (cs_facts s))\<lparr>cc_total_recoveries :=
            cc_total_recoveries (rf_counters (cs_facts s)) + 1\<rparr>)"
      using wf_parts(4) [OF wf_parts(3) [OF s]] by (simp add: wf_core_counters_def)
    then show ?thesis
      using assms CallModel
      by (auto simp: recovering_def with_facts_eq bindE_eq_Inr core_counters.valid_post_init
          wf_parts core_le_def counters_le_def workspace_le_def applied_ids_def)
  next
    case (Terminate t)
    let ?st = "te_term_status t"
    obtain plan s1 where p: "terminated_plan (ts_plan (cs_task s)) ?st = Inr plan"
      and s1: "with_task s ((cs_task s)
              \<lparr>ts_status := termination_task_status ?st, ts_plan := plan,
               ts_blockers := (if ?st = TermCompleted then [] else ts_blockers (cs_task s))\<rparr>)
             = Inr s1" "red_state red = s1"
      using assms(1) Terminate by (auto simp: bindE_eq_Inr)
    have wp: "\<forall>p'. ts_plan (cs_task s) = Some p' \<longrightarrow> wf_plan_state p'" using wf_plan [OF s] by blast
    note q = terminated_plan_Inr [OF p wp]
    have "wf_task_state ((cs_task s)
              \<lparr>ts_status := termination_task_status ?st, ts_plan := plan,
               ts_blockers := (if ?st = TermCompleted then [] else ts_blockers (cs_task s))\<rparr>)"
      using q(2) wf_parts(2) [OF s] by (simp add: wf_task_state_def)
    then have "red_state red = terminated ?st s \<and> wf_core_state (terminated ?st s)"
      using s1 s q(1) by (auto simp: with_task_eq terminated_def)
    moreover have "core_le s (terminated ?st s)"
      using q(1,3) by (simp add: core_le_def terminated_def counters_le_def workspace_le_def
          applied_ids_def)
    ultimately show ?thesis using Terminate by simp
  qed (use assms in auto)
  then show "red_state red = decided d s" "wf_core_state (decided d s)" "core_le s (decided d s)"
    by blast+
qed

lemma decided_frame [simp]:
  "applied_ids (decided d s) = applied_ids s"
  "cc_model_turns (rf_counters (cs_facts (decided d s))) = cc_model_turns (rf_counters (cs_facts s))"
  "cc_tool_iterations (rf_counters (cs_facts (decided d s))) =
     cc_tool_iterations (rf_counters (cs_facts s))"
  "rf_workspace (cs_facts (decided d s)) = rf_workspace (cs_facts s)"
  "rf_failures (cs_facts (decided d s)) = rf_failures (cs_facts s)"
  by (cases d; simp add: recovering_def terminated_def applied_ids_def)+

end
