(* ===== verification/Core_Views.thy ===== *)
theory Core_Views
  imports Policy_Facts
begin

text \<open>
  The read-only projection of the core state that the context preparation receives: the
  views of \<^verbatim>\<open>src/codepilot/core/contracts.py\<close> with their constructor checks, and
  \<^verbatim>\<open>CoreContextView.from_state\<close>. The checks repeat those of the state with another
  normal form, so that a view can be built from every well-formed state is a fact to prove.
\<close>

definition require_non_negative :: "int \<Rightarrow> string \<Rightarrow> unit result" where
  "require_non_negative n field =
     (if n < 0 then Inl (CoreContractError (field @ '' must be a non-negative integer''))
      else Inr ())"

definition optional_core_text :: "string option \<Rightarrow> string option" where
  "optional_core_text v = optional_text py_strip (case v of None \<Rightarrow> PNone | Some t \<Rightarrow> PStr t)"

record task_step_view =
  sv_step_id :: string
  sv_step :: string
  sv_details :: string
  sv_verification :: string
  sv_status :: step_status

definition task_step_view_post_init :: "task_step_view \<Rightarrow> task_step_view result" where
  "task_step_view_post_init v =
     bindE (core_required_text (sv_step_id v) ''step_id'') (\<lambda>step_id.
     bindE (core_required_text (sv_step v) ''step'') (\<lambda>step.
     bindE (core_required_text (sv_details v) ''details'') (\<lambda>details.
     bindE (core_required_text (sv_verification v) ''verification'') (\<lambda>verification.
     Inr (v\<lparr>sv_step_id := step_id, sv_step := step, sv_details := details,
            sv_verification := verification\<rparr>)))))"

record task_plan_view =
  pv_plan_id :: string
  pv_origin :: string
  pv_status :: string
  pv_revision :: int
  pv_definition :: dict
  pv_steps :: "task_step_view list"

definition task_plan_view_post_init :: "task_plan_view \<Rightarrow> task_plan_view result" where
  "task_plan_view_post_init v =
     bindE (core_required_text (pv_plan_id v) ''plan_id'') (\<lambda>plan_id.
     bindE (core_required_text (pv_origin v) ''plan origin'') (\<lambda>origin.
     bindE (core_required_text (pv_status v) ''plan status'') (\<lambda>status.
     bindE (require_non_negative (pv_revision v) ''plan revision'') (\<lambda>_.
     Inr (v\<lparr>pv_plan_id := plan_id, pv_origin := origin, pv_status := status\<rparr>)))))"

definition task_plan_view_to_mapping :: "task_plan_view \<Rightarrow> dict" where
  "task_plan_view_to_mapping v =
     [(''plan_id'', PStr (pv_plan_id v)), (''origin'', PStr (pv_origin v)),
      (''status'', PStr (pv_status v)), (''revision'', PInt (pv_revision v)),
      (''definition'', PDict (pv_definition v)),
      (''steps'', PList (map (\<lambda>st. PDict
         [(''step_id'', PStr (sv_step_id st)), (''step'', PStr (sv_step st)),
          (''details'', PStr (sv_details st)), (''verification'', PStr (sv_verification st)),
          (''status'', PStr (step_status_name (sv_status st)))]) (pv_steps v)))]"

record verification_view =
  vv_status :: verification_status
  vv_verified_revision :: "int option"
  vv_attempted_checks :: "string list"
  vv_evidence_refs :: "string list"
  vv_unavailable_reason :: "string option"

definition verification_view_post_init :: "verification_view \<Rightarrow> verification_view result" where
  "verification_view_post_init v =
     bindE (case vv_verified_revision v of None \<Rightarrow> Inr ()
            | Some n \<Rightarrow> require_non_negative n ''verified_revision'') (\<lambda>_.
     bindE (traverse (\<lambda>c. core_required_text c ''attempted check'') (vv_attempted_checks v)) (\<lambda>checks.
     bindE (traverse (\<lambda>r. core_required_text r ''evidence ref'') (vv_evidence_refs v)) (\<lambda>refs.
     Inr (v\<lparr>vv_attempted_checks := checks, vv_evidence_refs := refs,
            vv_unavailable_reason := optional_core_text (vv_unavailable_reason v)\<rparr>))))"

record core_context_view =
  cv_original_request :: string
  cv_goal :: string
  cv_mode :: run_mode
  cv_task_status :: string
  cv_plan :: "task_plan_view option"
  cv_current_step :: "task_step_view option"
  cv_verification :: verification_view
  cv_blocked_reason :: "string option"
  cv_workspace_revision :: int
  cv_workspace_changed :: bool
  cv_affected_paths :: "string list"

definition core_context_view_post_init :: "core_context_view \<Rightarrow> core_context_view result" where
  "core_context_view_post_init v =
     bindE (core_required_text (cv_original_request v) ''original_request'') (\<lambda>request.
     bindE (core_required_text (cv_goal v) ''goal'') (\<lambda>goal.
     bindE (core_required_text (cv_task_status v) ''task_status'') (\<lambda>status.
     bindE (require_non_negative (cv_workspace_revision v) ''workspace_revision'') (\<lambda>_.
     bindE (traverse (\<lambda>p. core_required_text p ''affected path'') (cv_affected_paths v)) (\<lambda>paths.
     Inr (v\<lparr>cv_original_request := request, cv_goal := goal, cv_task_status := status,
            cv_blocked_reason := optional_core_text (cv_blocked_reason v),
            cv_affected_paths := sorted_set paths\<rparr>))))))"

section \<open>Building the view\<close>

definition step_view :: "plan_step \<Rightarrow> task_step_view result" where
  "step_view st = task_step_view_post_init
     \<lparr>sv_step_id = st_step_id st, sv_step = st_step st, sv_details = st_details st,
      sv_verification = st_verification st, sv_status = st_status st\<rparr>"

text \<open>The step in progress, or else the first pending one.\<close>

definition current_step_of :: "task_step_view list \<Rightarrow> task_step_view option" where
  "current_step_of steps =
     (case find (\<lambda>v. sv_status v = StepInProgress) steps of
        Some v \<Rightarrow> Some v
      | None \<Rightarrow> find (\<lambda>v. sv_status v = StepPending) steps)"

definition plan_view :: "plan_state \<Rightarrow> (task_plan_view \<times> task_step_view option) result" where
  "plan_view p =
     bindE (traverse step_view (ps_steps p)) (\<lambda>steps.
     bindE (task_plan_view_post_init
              \<lparr>pv_plan_id = ps_plan_id p, pv_origin = plan_origin_name (ps_origin p),
               pv_status = plan_status_name (ps_status p), pv_revision = ps_revision p,
               pv_definition = plan_definition_to_dict (ps_definition p),
               pv_steps = steps\<rparr>) (\<lambda>v.
     Inr (v, current_step_of steps)))"

definition blocked_reason_of :: "core_state \<Rightarrow> string option" where
  "blocked_reason_of s =
     (let joined = py_join ''; '' (map tb_reason (ts_blockers (cs_task s))) in
      if joined \<noteq> [] then Some joined
      else map_option fr_message (ff_latest (rf_failures (cs_facts s))))"

definition core_context_view_from_state :: "core_state \<Rightarrow> run_mode \<Rightarrow> core_context_view result" where
  "core_context_view_from_state s mode =
     (let task = cs_task s; v = rf_verification (cs_facts s); w = rf_workspace (cs_facts s) in
     bindE (case ts_plan task of
              None \<Rightarrow> Inr (None, None)
            | Some p \<Rightarrow> mapE (\<lambda>(pv, cur). (Some pv, cur)) (plan_view p)) (\<lambda>(plan, current).
     bindE (verification_view_post_init
              \<lparr>vv_status = vf_status v, vv_verified_revision = vf_verified_revision v,
               vv_attempted_checks = vf_attempted_checks v, vv_evidence_refs = vf_evidence_refs v,
               vv_unavailable_reason = vf_unavailable_reason v\<rparr>) (\<lambda>verification.
     core_context_view_post_init
       \<lparr>cv_original_request = ts_original_request task, cv_goal = ts_current_goal task,
        cv_mode = mode, cv_task_status = task_status_name (ts_status task), cv_plan = plan,
        cv_current_step = current, cv_verification = verification,
        cv_blocked_reason = blocked_reason_of s, cv_workspace_revision = wk_revision w,
        cv_workspace_changed = wk_changed w, cv_affected_paths = wk_affected_paths w\<rparr>)))"

section \<open>The view of a well-formed state\<close>

lemma core_required_text_plan [simp]:
  "canon_text plan_clean t \<Longrightarrow> core_required_text t f = Inr t"
  by (simp add: core_required_text_def required_text_PStr canon_text_def plan_clean_stripped)

lemma step_view_eq:
  "wf_plan_step st \<Longrightarrow> step_view st = Inr
     \<lparr>sv_step_id = st_step_id st, sv_step = st_step st, sv_details = st_details st,
      sv_verification = st_verification st, sv_status = st_status st\<rparr>"
  by (simp add: step_view_def task_step_view_post_init_def wf_plan_step_def)

definition plain_view :: "plan_step \<Rightarrow> task_step_view" where
  "plain_view st =
     \<lparr>sv_step_id = st_step_id st, sv_step = st_step st, sv_details = st_details st,
      sv_verification = st_verification st, sv_status = st_status st\<rparr>"

lemma step_views_eq:
  "\<forall>st \<in> set sts. wf_plan_step st \<Longrightarrow> traverse step_view sts = Inr (map plain_view sts)"
  by (induction sts) (simp_all add: step_view_eq plain_view_def)

lemma origin_name_fix [simp]: "canon_text py_strip (plan_origin_name og)"
  by (cases og) (simp_all add: literal)

lemma plan_status_name_fix [simp]: "canon_text py_strip (plan_status_name ps)"
  by (cases ps) (simp_all add: literal)

lemma task_status_name_fix [simp]: "canon_text py_strip (task_status_name ts)"
  by (cases ts) (simp_all add: literal)

lemma plan_view_eq:
  assumes "wf_plan_state p"
  shows "plan_view p = Inr
    (\<lparr>pv_plan_id = ps_plan_id p, pv_origin = plan_origin_name (ps_origin p),
      pv_status = plan_status_name (ps_status p), pv_revision = ps_revision p,
      pv_definition = plan_definition_to_dict (ps_definition p),
      pv_steps = map plain_view (ps_steps p)\<rparr>,
     current_step_of (map plain_view (ps_steps p)))"
  using assms
  by (simp add: plan_view_def step_views_eq wf_plan_state_def task_plan_view_post_init_def
      require_non_negative_def)

lemma traverse_required:
  "canon_texts py_strip ts \<Longrightarrow> traverse (\<lambda>t. core_required_text t f) ts = Inr ts"
  by (rule traverse_id) (simp add: canon_texts_def)

lemma sorted_set_canon:
  "sorted xs \<Longrightarrow> distinct xs \<Longrightarrow> sorted_set xs = xs"
  by (simp add: sorted_set_def distinct_remdups_id sort_key_id_if_sorted)

lemma optional_core_text_fix: "\<forall>t. v = Some t \<longrightarrow> canon_text py_strip t \<Longrightarrow> optional_core_text v = v"
  by (cases v) (simp_all add: optional_core_text_def optional_text_fix)

lemma verification_view_eq:
  assumes "wf_verification_facts v"
  shows "verification_view_post_init
     \<lparr>vv_status = vf_status v, vv_verified_revision = vf_verified_revision v,
      vv_attempted_checks = vf_attempted_checks v, vv_evidence_refs = vf_evidence_refs v,
      vv_unavailable_reason = vf_unavailable_reason v\<rparr> = Inr
     \<lparr>vv_status = vf_status v, vv_verified_revision = vf_verified_revision v,
      vv_attempted_checks = vf_attempted_checks v, vv_evidence_refs = vf_evidence_refs v,
      vv_unavailable_reason = vf_unavailable_reason v\<rparr>"
  using assms
  by (cases "vf_verified_revision v")
     (simp_all add: verification_view_post_init_def wf_verification_facts_def require_non_negative_def
        traverse_required optional_core_text_fix)

lemma find_holds: "find P xs = Some x \<Longrightarrow> P x"
  by (induction xs) (auto split: if_splits)

lemma current_step_facts:
  "(\<forall>c. current_step_of (map plain_view sts) = Some c \<longrightarrow> sv_status c \<noteq> StepCompleted) \<and>
   (current_step_of (map plain_view sts) = None \<longleftrightarrow> (\<forall>st \<in> set sts. st_status st = StepCompleted))"
proof
  show "\<forall>c. current_step_of (map plain_view sts) = Some c \<longrightarrow> sv_status c \<noteq> StepCompleted"
    by (auto simp: current_step_of_def split: option.splits dest!: find_holds)
  have status: "st = StepCompleted \<longleftrightarrow> st \<noteq> StepInProgress \<and> st \<noteq> StepPending" for st
    by (cases st) simp_all
  have "current_step_of xs = None \<longleftrightarrow>
    find (\<lambda>v. sv_status v = StepInProgress) xs = None \<and> find (\<lambda>v. sv_status v = StepPending) xs = None"
    for xs by (simp add: current_step_of_def split: option.splits)
  then show "current_step_of (map plain_view sts) = None \<longleftrightarrow>
    (\<forall>st \<in> set sts. st_status st = StepCompleted)"
    by (auto simp: find_None_iff plain_view_def status)
qed

text \<open>The context view can be built from every well-formed state, without raising
  and without losing anything: goals, mode, plan with its revision and steps in order,
  verification, workspace revision and affected paths are those of the state. The current
  step is in progress if any step is, and otherwise the first pending one.\<close>

lemma context_view_is_total:
  assumes "wf_core_state s"
  shows "\<exists>v. core_context_view_from_state s mode = Inr v \<and>
    cv_original_request v = ts_original_request (cs_task s) \<and>
    cv_goal v = ts_current_goal (cs_task s) \<and> cv_mode v = mode \<and>
    map_option pv_revision (cv_plan v) = map_option ps_revision (ts_plan (cs_task s)) \<and>
    map_option pv_steps (cv_plan v) =
      map_option (\<lambda>p. map plain_view (ps_steps p)) (ts_plan (cs_task s)) \<and>
    vv_status (cv_verification v) = vf_status (rf_verification (cs_facts s)) \<and>
    vv_verified_revision (cv_verification v) = vf_verified_revision (rf_verification (cs_facts s)) \<and>
    cv_workspace_revision v = wk_revision (rf_workspace (cs_facts s)) \<and>
    cv_affected_paths v = wk_affected_paths (rf_workspace (cs_facts s)) \<and>
    (\<forall>c. cv_current_step v = Some c \<longrightarrow> sv_status c \<noteq> StepCompleted) \<and>
    (cv_current_step v = None \<longleftrightarrow>
       (\<forall>p. ts_plan (cs_task s) = Some p \<longrightarrow> (\<forall>st \<in> set (ps_steps p). st_status st = StepCompleted)))"
proof -
  let ?v = "rf_verification (cs_facts s)" and ?w = "rf_workspace (cs_facts s)"
  have v: "wf_verification_facts ?v" and w: "wf_workspace_facts ?w" and t: "wf_task_state (cs_task s)"
    using assms by (simp_all add: wf_parts)
  define plan where "plan = (case ts_plan (cs_task s) of None \<Rightarrow> Inr (None, None)
            | Some p \<Rightarrow> mapE (\<lambda>(pv, cur). (Some pv, cur)) (plan_view p))"
  have cur: "(\<forall>c. current_step_of (map plain_view sts) = Some c \<longrightarrow> sv_status c \<noteq> StepCompleted) \<and>
    (current_step_of (map plain_view sts) = None \<longleftrightarrow> (\<forall>st \<in> set sts. st_status st = StepCompleted))"
    for sts
    by (rule current_step_facts)
  obtain pv c where p: "plan = Inr (pv, c)"
    and pv: "map_option pv_revision pv = map_option ps_revision (ts_plan (cs_task s))"
      "map_option pv_steps pv = map_option (\<lambda>p. map plain_view (ps_steps p)) (ts_plan (cs_task s))"
    and c: "\<forall>x. c = Some x \<longrightarrow> sv_status x \<noteq> StepCompleted"
      "c = None \<longleftrightarrow> (\<forall>p. ts_plan (cs_task s) = Some p \<longrightarrow>
         (\<forall>st \<in> set (ps_steps p). st_status st = StepCompleted))"
  proof (cases "ts_plan (cs_task s)")
    case None
    then show ?thesis using that by (simp add: plan_def)
  next
    case (Some p)
    then have "plan_view p = Inr
      (\<lparr>pv_plan_id = ps_plan_id p, pv_origin = plan_origin_name (ps_origin p),
        pv_status = plan_status_name (ps_status p), pv_revision = ps_revision p,
        pv_definition = plan_definition_to_dict (ps_definition p),
        pv_steps = map plain_view (ps_steps p)\<rparr>, current_step_of (map plain_view (ps_steps p)))"
      using wf_plan [OF assms] by (intro plan_view_eq) simp
    then show ?thesis using that cur [of "ps_steps p"] Some by (simp add: plan_def)
  qed
  have "canon_text py_strip (ts_original_request (cs_task s))"
    and "canon_text py_strip (ts_current_goal (cs_task s))"
    using t by (simp_all add: wf_task_state_def)
  moreover have "canon_texts py_strip (wk_affected_paths ?w)" "sorted (wk_affected_paths ?w)"
    "0 \<le> wk_revision ?w" using w by (simp_all add: wf_workspace_facts_def)
  ultimately show ?thesis
    using pv c
    unfolding core_context_view_from_state_def Let_def plan_def [symmetric] p
    by (simp add: verification_view_eq [OF v] core_context_view_post_init_def traverse_required
        require_non_negative_def sorted_set_canon canon_texts_def)
qed

end
