(* ===== verification/Core_Tool_Step.thy ===== *)
theory Core_Tool_Step
  imports Core_Views
begin

text \<open>
  The tool step, \<^verbatim>\<open>src/codepilot/core/tool_step.py\<close>: from the calls of a model response
  to requests of the tool port, and from results back to the conversation and to core
  commands. With it the functions of \<^verbatim>\<open>core/driver.py\<close> that complete and bound a batch.
  The tool port is a parameter. Live events, which never influence the run, are left out.
\<close>

section \<open>Results the core makes itself\<close>

definition plan_tool_names :: "string list" where
  "plan_tool_names =
     [''propose_plan'', ''create_build_plan'', ''update_plan_progress'', ''close_plan'']"

definition no_timing :: tool_timing where
  "no_timing = \<lparr>tt_queued_at_ms = None, tt_started_at_ms = None, tt_finished_at_ms = None,
                tt_duration_ms = None\<rparr>"

text \<open>A result with an error and one text, all other fields at their defaults.\<close>

definition core_error_result ::
  "tool_call \<Rightarrow> tool_status \<Rightarrow> string \<Rightarrow> string \<Rightarrow> tool_error_kind \<Rightarrow> string \<Rightarrow> bool \<Rightarrow> string
   \<Rightarrow> tool_result result" where
  "core_error_result call status content code kind message retryable registration =
     bindE (tool_error_post_init
              \<lparr>er_code = code, er_kind = kind, er_message = message, er_retryable = retryable,
               er_recovery_hint = [], er_details = []\<rparr>) (\<lambda>e.
     tool_result_post_init
       \<lparr>to_tool_call_id = tc_id call, to_tool_name = tc_name call, to_status = status,
        to_content = [ToolText content], to_data = [], to_error = Some e, to_effects = [],
        to_artifacts = [], to_approval = None, to_interaction = None, to_timing = no_timing,
        to_registration_id = registration, to_output_validation = SchemaValidated,
        to_content_trust = Trusted\<rparr>)"

definition interrupted_tool_results ::
  "tool_call list \<Rightarrow> string \<Rightarrow> string \<Rightarrow> tool_result list result" where
  "interrupted_tool_results calls code message =
     traverse (\<lambda>call. core_error_result call TInterrupted message code KInterrupted message True
                 ''core_settlement'') calls"

definition deferred_message :: "int \<Rightarrow> string" where
  "deferred_message limit =
     ''Core deferred this Tool call because the per-turn execution limit is '' @ str_int limit
     @ ''. '' @ ''Re-issue the call in a later model turn if it is still needed.''"

definition deferred_tool_results :: "tool_call list \<Rightarrow> int \<Rightarrow> tool_result list result" where
  "deferred_tool_results calls limit =
     traverse (\<lambda>call. core_error_result call TInterrupted (deferred_message limit)
                 ''core.tool_deferred'' KInterrupted (deferred_message limit) True
                 ''core_deferred'') calls"

definition unavailable_tool_results :: "tool_call list \<Rightarrow> tool_result list result" where
  "unavailable_tool_results calls =
     traverse (\<lambda>call. core_error_result call TError
                 ''No ToolExecutionPort is available for this run.'' ''tool_not_found''
                 KUnavailable (''Tool is unavailable: '' @ tc_name call) False
                 ''registration_missing'') calls"

section \<open>Requests\<close>

text \<open>\<^verbatim>\<open>ToolBatchPreparation\<close>: a batch to execute, or results at once.\<close>

record tool_batch_preparation =
  bp_batch_id :: "string option"
  bp_results :: "tool_result list"

definition tool_batch_preparation_post_init ::
  "tool_batch_preparation \<Rightarrow> tool_batch_preparation result" where
  "tool_batch_preparation_post_init p =
     (let batch_id = sec_optional_text (bp_batch_id p) in
      if (batch_id = None) = (bp_results p = [])
      then Inl (ValueError ''ToolBatchPreparation requires exactly one of batch_id or results'')
      else Inr (p\<lparr>bp_batch_id := batch_id\<rparr>))"

fun tool_mode_for_run_mode :: "run_mode \<Rightarrow> tool_mode" where
  "tool_mode_for_run_mode ModeRead = ToolPlan"
| "tool_mode_for_run_mode ModePlan = ToolPlan"
| "tool_mode_for_run_mode ModeBuild = ToolExecute"

text \<open>The catalog is the list of tool names with their registration; of two entries with one
  name the later counts.\<close>

definition parse_error_of :: "tool_call \<Rightarrow> string option" where
  "parse_error_of call =
     (let e = dget (tc_metadata call) ''argument_parse_error'' in
      if py_truth e then Some (py_str e) else None)"

definition request_of ::
  "string \<Rightarrow> string \<Rightarrow> run_mode \<Rightarrow> (string \<times> string) list \<Rightarrow> tool_call \<Rightarrow> tool_execution_request result" where
  "request_of run_id session_id mode catalog call =
     tool_execution_request_post_init
       \<lparr>ter_run_id = run_id, ter_session_id = session_id, ter_tool_call_id = tc_id call,
        ter_tool_name = tc_name call, ter_arguments = tc_arguments call,
        ter_mode = tool_mode_for_run_mode mode,
        ter_registration_id = (case map_of (dict_of catalog) (tc_name call) of
             Some registration \<Rightarrow> registration | None \<Rightarrow> ''registration_missing''),
        ter_deadline_at_ms = None, ter_raw_arguments = tc_raw_arguments call,
        ter_argument_parse_error = parse_error_of call\<rparr>"

section \<open>Bounding and completing a batch\<close>

definition bounded_tool_calls :: "tool_call list \<Rightarrow> int option \<Rightarrow> tool_call list \<times> tool_call list" where
  "bounded_tool_calls calls limit =
     (case limit of
        None \<Rightarrow> (calls, [])
      | Some n \<Rightarrow> if int (length calls) \<le> n then (calls, [])
                  else (take (nat n) calls, drop (nat n) calls))"

fun collect_results ::
  "string set \<Rightarrow> tool_result list \<Rightarrow> (string \<times> tool_result) list \<Rightarrow> (string \<times> tool_result) list result" where
  "collect_results expected [] acc = Inr acc"
| "collect_results expected (r # rs) acc =
     (if to_tool_call_id r \<notin> expected then Inl (CoreInvariantError
         (''ToolExecutionPort returned a result for unknown ToolCall: '' @ to_tool_call_id r))
      else if map_of acc (to_tool_call_id r) \<noteq> None then Inl (CoreInvariantError
         (''ToolExecutionPort returned duplicate results for ToolCall: '' @ to_tool_call_id r))
      else collect_results expected rs (AList.update (to_tool_call_id r) r acc))"

definition complete_results :: "tool_call list \<Rightarrow> tool_result list \<Rightarrow> tool_result list result" where
  "complete_results calls results =
     bindE (collect_results (set (map tc_id calls)) results []) (\<lambda>by_call_id.
     bindE (interrupted_tool_results
              (filter (\<lambda>call. map_of by_call_id (tc_id call) = None) calls)
              ''tool.batch.incomplete''
              ''Tool execution returned no final result for this call.'') (\<lambda>missing.
     let all_by_id = fold (\<lambda>r. AList.update (to_tool_call_id r) r) missing by_call_id in
     traverse (\<lambda>call. case map_of all_by_id (tc_id call) of
         Some r \<Rightarrow> Inr r | None \<Rightarrow> Inl (KeyError (tc_id call))) calls))"

definition is_suspended :: "tool_result \<Rightarrow> bool" where
  "is_suspended r \<longleftrightarrow> to_status r \<in> {TApprovalRequired, TUserInputRequired}"

definition has_external_wait :: "tool_result list \<Rightarrow> bool" where
  "has_external_wait rs \<longleftrightarrow> list_ex is_suspended rs"

section \<open>Projections\<close>

definition project_final_tool_messages :: "tool_result list \<Rightarrow> tool_result_message list result" where
  "project_final_tool_messages rs = traverse to_tool_result_message (filter (\<lambda>r. \<not> is_suspended r) rs)"

definition is_plan_success :: "tool_result \<Rightarrow> bool" where
  "is_plan_success r \<longleftrightarrow> to_status r = TSuccess \<and> to_tool_name r \<in> set plan_tool_names"

text \<open>Core commands come only from successful plan tools, and name their own call.\<close>

definition project_core_command :: "tool_result \<Rightarrow> core_command result" where
  "project_core_command r =
     (case dget (to_data r) ''core_command'' of
        PDict raw \<Rightarrow>
          bindE (case core_command_from_mapping raw of
                   Inr c \<Rightarrow> Inr c
                 | Inl e \<Rightarrow>
                     if is_type_error e \<or> is_value_error e
                     then Inl (CoreInvariantError
                       (''Plan tool returned an invalid Core command: '' @ to_tool_name r))
                     else Inl e) (\<lambda>c.
          if command_id c \<noteq> to_tool_call_id r
          then Inl (CoreInvariantError
            (''Plan command id does not match ToolCall: '' @ to_tool_call_id r))
          else Inr c)
      | _ \<Rightarrow> Inl (CoreInvariantError
          (''Plan tool returned no Core command: '' @ to_tool_name r)))"

definition project_core_commands :: "tool_result list \<Rightarrow> core_command list result" where
  "project_core_commands rs = traverse project_core_command (filter is_plan_success rs)"

fun command_status_name :: "command_status \<Rightarrow> string" where
  "command_status_name Applied = ''applied''"
| "command_status_name CommandRejected = ''rejected''"

definition command_message :: "command_result \<Rightarrow> string" where
  "command_message c =
     (if cmdr_status c = Applied then ''Core applied the Plan command.''
      else ''Core rejected the Plan command: '' @ cmdr_reason c @ ''.'')"

text \<open>A result whose command was reduced tells the model so; a rejected command turns it into
  an error. The new result is built without artifacts and timing.\<close>

definition project_command_result :: "tool_result \<Rightarrow> command_result \<Rightarrow> tool_result result" where
  "project_command_result r c =
     bindE (if cmdr_status c = Applied then Inr (to_error r)
            else mapE Some (tool_error_post_init
                   \<lparr>er_code = cmdr_reason c, er_kind = KValidation,
                    er_message = command_message c, er_retryable = True,
                    er_recovery_hint = [], er_details = []\<rparr>)) (\<lambda>e.
     tool_result_post_init
       \<lparr>to_tool_call_id = to_tool_call_id r, to_tool_name = to_tool_name r,
        to_status = (if cmdr_status c = Applied then to_status r else TError),
        to_content = to_content r @ [ToolText (command_message c)],
        to_data = AList.update ''core_command_result''
          (PDict [(''status'', PStr (command_status_name (cmdr_status c))),
                  (''reason'', PStr (cmdr_reason c))]) (to_data r),
        to_error = e, to_effects = to_effects r, to_artifacts = [],
        to_approval = to_approval r, to_interaction = to_interaction r, to_timing = no_timing,
        to_registration_id = to_registration_id r,
        to_output_validation = to_output_validation r, to_content_trust = to_content_trust r\<rparr>)"

definition project_core_command_results ::
  "tool_result list \<Rightarrow> command_result list \<Rightarrow> tool_result list result" where
  "project_core_command_results rs cs =
     (let by_id = dict_of (map (\<lambda>c. (cmdr_command_id c, c)) cs) in
      traverse (\<lambda>r. case map_of by_id (to_tool_call_id r) of
          Some c \<Rightarrow> project_command_result r c
        | None \<Rightarrow>
            if is_plan_success r then Inl (CoreInvariantError
              (''Successful Plan ToolResult has no matching Core CommandResult: ''
               @ to_tool_name r @ '' ('' @ to_tool_call_id r @ '')''))
            else Inr r) rs)"

end
