(* ===== verification/Core_Driver.thy ===== *)
theory Core_Driver
  imports Core_Tool_Step
begin

text \<open>
  The run loop, \<^verbatim>\<open>src/codepilot/core/driver.py\<close>, and the model step,
  \<^verbatim>\<open>core/model_step.py\<close>, over the ports of \<^verbatim>\<open>core/contracts.py\<close>.

  The ports are parameters: a record of functions from the number of the query (the clock of
  the driver, which counts the queries made so far) and the query to an answer, so that a
  port may answer equal queries differently. The context preparation and the model stream
  behind it are one port. \<open>'u\<close> is the type of the usage record, which the core only passes
  on. Live events, and cancellation between the statements of the loop rather than through a
  port, are not modelled; what a shielded commit does is the commit.
\<close>

section \<open>Values of the loop\<close>

text \<open>A port answers, raises an exception with its type name and text, or is cancelled.\<close>

datatype 'a answer = Answered 'a | Raised string string | Cancelled string

datatype core_entry =
    ModelEntry "assistant_message option"
  | ToolResultEntry "tool_result list"

definition mk_tool_result_entry :: "tool_result list \<Rightarrow> core_entry result" where
  "mk_tool_result_entry rs =
     (if rs = [] then Inl (CoreContractError ''ToolResultEntry requires at least one result'')
      else if list_ex is_suspended rs
      then Inl (CoreContractError ''ToolResultEntry accepts only final ToolResult values'')
      else Inr (ToolResultEntry rs))"

record core_run_input =
  in_session_id :: string
  in_run_id :: string
  in_entry :: core_entry
  in_messages :: "message list"
  in_state :: core_state
  in_mode :: run_mode
  in_limits :: core_limits
  in_context_seed :: dict

text \<open>The state of an input is a \<^verbatim>\<open>CoreState\<close> or a mapping to load one from.\<close>

definition core_run_input_post_init ::
  "core_run_input \<Rightarrow> core_state + pyval \<Rightarrow> core_run_input result" where
  "core_run_input_post_init i raw_state =
     bindE (core_required_text (in_session_id i) ''session_id'') (\<lambda>session_id.
     bindE (core_required_text (in_run_id i) ''run_id'') (\<lambda>run_id.
     bindE (load_core_state raw_state) (\<lambda>s.
     Inr (i\<lparr>in_session_id := session_id, in_run_id := run_id, in_state := s\<rparr>))))"

datatype boundary_kind =
  BeforeModel | AfterModel | BeforeTools | AfterTools | Waiting | BeforeTerminal

fun boundary_kind_name :: "boundary_kind \<Rightarrow> string" where
  "boundary_kind_name BeforeModel = ''before_model''"
| "boundary_kind_name AfterModel = ''after_model''"
| "boundary_kind_name BeforeTools = ''before_tools''"
| "boundary_kind_name AfterTools = ''after_tools''"
| "boundary_kind_name Waiting = ''waiting''"
| "boundary_kind_name BeforeTerminal = ''before_terminal''"

record core_boundary =
  bo_kind :: boundary_kind
  bo_state :: core_state
  bo_new_messages :: "message list"
  bo_domain_events :: "core_event list"
  bo_wait :: "core_wait option"

definition core_boundary_post_init :: "core_boundary \<Rightarrow> core_boundary result" where
  "core_boundary_post_init b =
     (if bo_kind b = Waiting \<and> bo_wait b = None
      then Inl (CoreContractError ''Waiting boundary requires CoreWait'')
      else if bo_kind b \<noteq> Waiting \<and> bo_wait b \<noteq> None
      then Inl (CoreContractError ''CoreWait is only valid on a waiting boundary'')
      else Inr b)"

datatype outcome_status = OutCompleted | OutWaiting | OutFailed | OutCancelled

record 'u core_outcome =
  oc_status :: outcome_status
  oc_reason :: core_reason
  oc_state :: core_state
  oc_new_messages :: "message list"
  oc_final_message :: "assistant_message option"
  oc_wait :: "core_wait option"
  oc_usage :: "'u option"
  oc_error :: "dict option"

definition core_outcome_post_init :: "'u core_outcome \<Rightarrow> 'u core_outcome result" where
  "core_outcome_post_init oc =
     (if oc_status oc = OutWaiting \<and> oc_wait oc = None
        then Inl (CoreContractError ''A waiting outcome requires CoreWait'')
      else if oc_status oc \<noteq> OutWaiting \<and> oc_wait oc \<noteq> None
        then Inl (CoreContractError ''CoreWait is only valid on a waiting outcome'')
      else if oc_status oc = OutCompleted \<and> oc_final_message oc = None
        then Inl (CoreContractError ''A completed outcome requires final_message'')
      else if oc_status oc \<in> {OutCompleted, OutWaiting} \<and> oc_error oc \<noteq> None
        then Inl (CoreContractError ''Only failed or cancelled outcomes may include an error'')
      else Inr oc)"

section \<open>The model step\<close>

datatype context_purpose = ContextReasoning | ContextVerification | ContextFinalization

fun context_purpose_of :: "model_purpose \<Rightarrow> context_purpose" where
  "context_purpose_of PurposeVerification = ContextVerification"
| "context_purpose_of PurposeFinalResponse = ContextFinalization"
| "context_purpose_of _ = ContextReasoning"

definition directive_text :: "core_directive \<Rightarrow> int option \<Rightarrow> string" where
  "directive_text directive max_tool_calls_per_turn =
     py_join [CHR 0x0A]
       ([cd_code directive] @ cd_constraints directive
        @ (case max_tool_calls_per_turn of
             None \<Rightarrow> []
           | Some n \<Rightarrow> [''Issue at most '' @ str_int n
               @ '' ToolCalls in one model turn; split larger work '' @ ''across turns.''])
        @ (if cd_evidence_refs directive = [] then []
           else [''evidence: '' @ py_join '', '' (cd_evidence_refs directive)]))"

text \<open>The error of a failed call: a mapping, or an object with the attributes \<^verbatim>\<open>code\<close>,
  \<^verbatim>\<open>message\<close> and \<^verbatim>\<open>retryable\<close> (\<open>PNone\<close> where it has none) and its text.\<close>

datatype llm_error =
    ErrorMapping dict
  | ErrorObject pyval pyval pyval string

datatype 'u llm_event =
    LLMStarted
  | LLMTextDelta string
  | LLMReasoningDelta string
  | LLMToolCallDelta tool_call
  | LLMCompleted assistant_message "'u option" int
  | LLMFailed llm_error int

text \<open>A stream is the events it yields and how it ends.\<close>

datatype stream_end = StreamEnds | StreamRaises string string | StreamCancelled string

record model_request =
  mr_purpose :: context_purpose
  mr_directive :: "string option"
  mr_session_id :: string
  mr_run_id :: string
  mr_messages :: "message list"
  mr_view :: core_context_view
  mr_catalog :: "(string \<times> string) list option"
  mr_seed :: dict

definition context_prepare_request_post_init :: "model_request \<Rightarrow> model_request result" where
  "context_prepare_request_post_init r =
     bindE (core_required_text (mr_session_id r) ''session_id'') (\<lambda>session_id.
     bindE (core_required_text (mr_run_id r) ''run_id'') (\<lambda>run_id.
     Inr (r\<lparr>mr_session_id := session_id, mr_run_id := run_id,
            mr_directive := (case mr_directive r of None \<Rightarrow> None
                             | Some d \<Rightarrow> optional_text py_strip (PStr d))\<rparr>)))"

definition text_or :: "pyval \<Rightarrow> string \<Rightarrow> string" where
  "text_or v other = (case optional_text py_strip v of Some t \<Rightarrow> t | None \<Rightarrow> other)"

fun model_failure_of :: "llm_error \<Rightarrow> string \<Rightarrow> failure_record result" where
  "model_failure_of (ErrorMapping d) oid =
     (let code = text_or (dget d ''code'') ''model.call_failed'' in
      failure_record_post_init
        \<lparr>fr_code = code, fr_source = ''model'', fr_message = text_or (dget d ''message'') code,
         fr_recoverable = py_truth (dget_default d ''retryable'' (PBool False)),
         fr_evidence_refs = [oid]\<rparr>)"
| "model_failure_of (ErrorObject code message retryable text) oid =
     (let code = text_or code ''model.call_failed''; msg = text_or message text in
      failure_record_post_init
        \<lparr>fr_code = code, fr_source = ''model'', fr_message = (if msg = [] then code else msg),
         fr_recoverable = py_truth retryable, fr_evidence_refs = [oid]\<rparr>)"

fun answer_of :: "'a result \<Rightarrow> 'a answer" where
  "answer_of (Inr x) = Answered x"
| "answer_of (Inl e) = Raised (exn_type_name e) (exn_text e)"

record 'u model_action =
  ma_observation :: model_observation
  ma_usage :: "'u option"
  ma_snapshot :: "(string \<times> string) list option"

definition model_action_of ::
  "(string \<times> string) list option \<Rightarrow> 'u option \<Rightarrow> model_observation \<Rightarrow> 'u model_action answer" where
  "model_action_of snapshot usage ob =
     answer_of (mapE (\<lambda>ob. \<lparr>ma_observation = ob, ma_usage = usage, ma_snapshot = snapshot\<rparr>)
                  (model_observation_post_init ob))"

text \<open>The event loop; \<open>seen\<close> is the last completion seen.\<close>

fun consume_stream ::
  "'u llm_event list \<Rightarrow> stream_end \<Rightarrow> string \<Rightarrow> model_purpose \<Rightarrow> (string \<times> string) list option \<Rightarrow>
   (assistant_message \<times> 'u option \<times> int) option \<Rightarrow> 'u model_action answer" where
  "consume_stream [] (StreamRaises name text) oid purpose snapshot seen = Raised name text"
| "consume_stream [] (StreamCancelled text) oid purpose snapshot seen = Cancelled text"
| "consume_stream [] StreamEnds oid purpose snapshot seen =
     (case seen of
        Some (message, usage, attempts) \<Rightarrow>
          model_action_of snapshot usage
            \<lparr>mo_observation_id = oid, mo_message = Some message, mo_status = ModelCompleted,
             mo_error = None, mo_purpose = purpose, mo_attempts = attempts\<rparr>
      | None \<Rightarrow>
          (case failure_record_post_init
                  \<lparr>fr_code = ''llm.stream_incomplete'', fr_source = ''model'',
                   fr_message = ''Model stream ended without a completion event'',
                   fr_recoverable = False, fr_evidence_refs = [oid]\<rparr> of
             Inl e \<Rightarrow> Raised (exn_type_name e) (exn_text e)
           | Inr f \<Rightarrow> model_action_of snapshot None
               \<lparr>mo_observation_id = oid, mo_message = None, mo_status = ModelFailed,
                mo_error = Some f, mo_purpose = purpose, mo_attempts = 1\<rparr>))"
| "consume_stream (LLMFailed err attempts # es) fin oid purpose snapshot seen =
     (case model_failure_of err oid of
        Inl e \<Rightarrow> Raised (exn_type_name e) (exn_text e)
      | Inr f \<Rightarrow> model_action_of snapshot None
          \<lparr>mo_observation_id = oid, mo_message = None, mo_status = ModelFailed,
           mo_error = Some f, mo_purpose = purpose, mo_attempts = attempts\<rparr>)"
| "consume_stream (LLMCompleted message usage attempts # es) fin oid purpose snapshot seen =
     consume_stream es fin oid purpose snapshot (Some (message, usage, attempts))"
| "consume_stream (_ # es) fin oid purpose snapshot seen =
     consume_stream es fin oid purpose snapshot seen"

section \<open>Ports\<close>

text \<open>Every port takes the clock first. A commit answers \<open>Some text\<close> when it raised; the
  probe answers \<open>Some reason\<close> when the run is cancelled. \<open>None\<close> for the tool port or the
  probe is a run without one.\<close>

record tool_port =
  tp_catalog :: "nat \<Rightarrow> tool_mode \<Rightarrow> (string \<times> string) list answer"
  tp_prepare_batch :: "nat \<Rightarrow> tool_execution_request list \<Rightarrow> tool_batch_preparation answer"
  tp_execute_prepared :: "nat \<Rightarrow> string \<Rightarrow> tool_result list answer"

record 'u core_ports =
  cp_model :: "nat \<Rightarrow> model_request \<Rightarrow> 'u llm_event list \<times> stream_end"
  cp_commit :: "nat \<Rightarrow> core_boundary \<Rightarrow> string option"
  cp_tools :: "tool_port option"
  cp_cancellation :: "(nat \<Rightarrow> string option) option"

section \<open>Journals and the driver state\<close>

record message_journal =
  mj_messages :: "message list"
  mj_added :: "message list"
  mj_pending :: "message list"

definition mj_start :: "message list \<Rightarrow> message_journal" where
  "mj_start initial = \<lparr>mj_messages = initial, mj_added = [], mj_pending = []\<rparr>"

definition mj_extend :: "message list \<Rightarrow> message_journal \<Rightarrow> message_journal" where
  "mj_extend ms j =
     \<lparr>mj_messages = mj_messages j @ ms, mj_added = mj_added j @ ms, mj_pending = mj_pending j @ ms\<rparr>"

definition mj_mark_committed :: "message_journal \<Rightarrow> message_journal" where
  "mj_mark_committed j = j\<lparr>mj_pending := []\<rparr>"

text \<open>\<open>dr_events\<close> is the pending list of the event journal. \<open>dr_clock\<close> counts the queries of
  the ports and \<open>dr_committed\<close> records the boundaries committed so far, oldest first; the
  code reads neither.\<close>

record 'u driver =
  dr_core :: core_state
  dr_observation :: core_observation
  dr_messages :: message_journal
  dr_events :: "core_event list"
  dr_usage :: "'u option"
  dr_catalog_snapshot :: "(string \<times> string) list option"
  dr_sequence :: nat
  dr_clock :: nat
  dr_committed :: "core_boundary list"

definition driver_observation_id :: "string \<Rightarrow> 'u driver \<Rightarrow> string \<times> 'u driver" where
  "driver_observation_id kind dr =
     (''core:'' @ kind @ '':'' @ str_nat (dr_sequence dr + 1),
      dr\<lparr>dr_sequence := dr_sequence dr + 1\<rparr>)"

definition tick :: "'u driver \<Rightarrow> 'u driver" where
  "tick dr = dr\<lparr>dr_clock := dr_clock dr + 1\<rparr>"

definition extend_messages :: "message list \<Rightarrow> 'u driver \<Rightarrow> 'u driver" where
  "extend_messages ms dr = dr\<lparr>dr_messages := mj_extend ms (dr_messages dr)\<rparr>"

section \<open>Starting a run\<close>

text \<open>\<^verbatim>\<open>rsplit(":", 1)[-1]\<close> of an id that starts with \<^verbatim>\<open>core:\<close>.\<close>

definition id_suffix :: "string \<Rightarrow> string" where
  "id_suffix oid = last (py_split_on (CHR '':'') oid)"

fun latest_sequence :: "string list \<Rightarrow> nat \<Rightarrow> nat result" where
  "latest_sequence [] latest = Inr latest"
| "latest_sequence (oid # oids) latest =
     (if py_startswith ''core:'' oid \<and> py_isdigit (id_suffix oid)
      then bindE (py_int_of_digits (id_suffix oid)) (\<lambda>n. latest_sequence oids (max latest n))
      else latest_sequence oids latest)"

definition last_observation_sequence :: "core_state \<Rightarrow> nat result" where
  "last_observation_sequence s =
     latest_sequence (ol_applied_observation_ids (rf_observation_ledger (cs_facts s))) 0"

fun block_text :: "content_block \<Rightarrow> string" where
  "block_text (TextBlock t signature) = t"
| "block_text (ThinkingBlock t signature redacted) = []"
| "block_text (ImageBlock img media src) = []"
| "block_text (ToolCallBlock call) = []"

definition user_text :: "user_message \<Rightarrow> string" where
  "user_text u =
     py_strip (case um_content u of Inl t \<Rightarrow> t | Inr bs \<Rightarrow> concat (map block_text bs))"

fun first_user_text :: "message list \<Rightarrow> string option" where
  "first_user_text [] = None"
| "first_user_text (UserMessage u # ms) =
     (if user_text u \<noteq> [] then Some (user_text u) else first_user_text ms)"
| "first_user_text (_ # ms) = first_user_text ms"

definition last_user_text :: "message list \<Rightarrow> string option" where
  "last_user_text ms = first_user_text (rev ms)"

definition initial_observation :: "core_run_input \<Rightarrow> core_observation result" where
  "initial_observation i =
     bindE (last_observation_sequence (in_state i)) (\<lambda>n.
     let task = cs_task (in_state i); suffix = str_nat (n + 1) in
     observation_post_init
       (case in_entry i of
          ToolResultEntry rs \<Rightarrow>
            UserInputObservation
              \<lparr>ui_observation_id = ''core:entry:tool_results:'' @ suffix,
               ui_text = ts_current_goal task, ui_current_goal = Some (ts_current_goal task)\<rparr>
        | ModelEntry (Some message) \<Rightarrow>
            ModelObservation
              \<lparr>mo_observation_id = ''core:entry:persisted_model:'' @ suffix,
               mo_message = Some message, mo_status = ModelCompleted, mo_error = None,
               mo_purpose = PurposeReasoning, mo_attempts = 1\<rparr>
        | ModelEntry None \<Rightarrow>
            UserInputObservation
              \<lparr>ui_observation_id = ''core:entry:model:'' @ suffix,
               ui_text = (case last_user_text (in_messages i) of
                            Some t \<Rightarrow> t | None \<Rightarrow> ts_original_request task),
               ui_current_goal = Some (ts_current_goal task)\<rparr>))"

section \<open>Steps of the driver\<close>

text \<open>\<^verbatim>\<open>_reduce\<close>; the observation went through its constructor first.\<close>

definition reduce_driver ::
  "core_observation \<Rightarrow> reduction_context \<Rightarrow> 'u driver \<Rightarrow> (core_reduction \<times> 'u driver) result" where
  "reduce_driver ob ctx dr =
     bindE (observation_post_init ob) (\<lambda>ob.
     bindE (reduce_observation (dr_core dr) ob ctx) (\<lambda>red.
     Inr (red, dr\<lparr>dr_core := red_state red, dr_observation := ob,
                  dr_events := dr_events dr @ red_events red\<rparr>)))"

definition commit_boundary ::
  "'u core_ports \<Rightarrow> boundary_kind \<Rightarrow> core_wait option \<Rightarrow> 'u driver \<Rightarrow> 'u driver result" where
  "commit_boundary ports kind wait dr =
     bindE (core_boundary_post_init
              \<lparr>bo_kind = kind, bo_state = dr_core dr,
               bo_new_messages = mj_pending (dr_messages dr), bo_domain_events = dr_events dr,
               bo_wait = wait\<rparr>) (\<lambda>b.
     case cp_commit ports (dr_clock dr) b of
       Some text \<Rightarrow> Inl (CoreBoundaryCommitError
         (''Core boundary commit failed: '' @ boundary_kind_name kind @ '': '' @ text))
     | None \<Rightarrow> Inr ((tick dr)\<lparr>dr_messages := mj_mark_committed (dr_messages dr),
                              dr_events := [], dr_committed := dr_committed dr @ [b]\<rparr>))"

text \<open>\<^verbatim>\<open>_cancellation_observation\<close> followed by the reduction of what it returns.\<close>

definition observe_cancellation ::
  "'u core_ports \<Rightarrow> reduction_context \<Rightarrow> 'u driver \<Rightarrow> (bool \<times> 'u driver) result" where
  "observe_cancellation ports ctx dr =
     (case cp_cancellation ports of
        None \<Rightarrow> Inr (False, dr)
      | Some probe \<Rightarrow>
          if is_cancellation (dr_observation dr) then Inr (False, dr)
          else (case probe (dr_clock dr) of
                  None \<Rightarrow> Inr (False, tick dr)
                | Some raw \<Rightarrow>
                    let (oid, dr) = driver_observation_id ''cancelled'' (tick dr);
                        reason = py_strip raw in
                    bindE (reduce_driver (CancellationObservation
                             \<lparr>ca_observation_id = oid,
                              ca_reason = (if reason = [] then ''run.cancelled'' else reason)\<rparr>)
                             ctx dr) (\<lambda>(red, dr).
                    Inr (True, dr))))"

definition append_final_results :: "tool_result list \<Rightarrow> 'u driver \<Rightarrow> 'u driver result" where
  "append_final_results rs dr =
     bindE (project_final_tool_messages rs) (\<lambda>ms.
     Inr (extend_messages (map ToolResultMessage ms) dr))"

text \<open>What every batch of results goes through, at the entry and in the loop: reduce it with
  its commands, show the outcome of the commands in the results, append them.\<close>

definition reduce_batch ::
  "string \<Rightarrow> tool_call list \<Rightarrow> tool_result list \<Rightarrow> core_command list \<Rightarrow> reduction_context \<Rightarrow>
   'u driver \<Rightarrow> 'u driver result" where
  "reduce_batch oid calls results commands ctx dr =
     bindE (reduce_driver (ToolBatchObservation
              \<lparr>tbo_observation_id = oid, tbo_calls = calls, tbo_results = results,
               tbo_commands = commands\<rparr>) ctx dr) (\<lambda>(red, dr).
     bindE (project_core_command_results results (red_command_results red)) (\<lambda>visible.
     append_final_results visible dr))"

definition settle_unexecuted_calls ::
  "'u core_ports \<Rightarrow> reduction_context \<Rightarrow> tool_call list \<Rightarrow> string \<Rightarrow> 'u driver \<Rightarrow> 'u driver result" where
  "settle_unexecuted_calls ports ctx calls reason dr =
     bindE (interrupted_tool_results calls ''core.tool_not_executed''
              (''Core did not execute this Tool call before '' @ reason @ ''.'')) (\<lambda>results.
     let (oid, dr) = driver_observation_id ''settlement'' dr in
     bindE (reduce_driver (ToolBatchObservation
              \<lparr>tbo_observation_id = oid, tbo_calls = calls, tbo_results = results,
               tbo_commands = []\<rparr>) ctx dr) (\<lambda>(red, dr).
     bindE (append_final_results results dr) (\<lambda>dr.
     commit_boundary ports AfterTools None dr)))"

text \<open>\<^verbatim>\<open>_outcome\<close>.\<close>

definition failure_error :: "failure_record \<Rightarrow> dict" where
  "failure_error f =
     [(''code'', PStr (fr_code f)), (''source'', PStr (fr_source f)),
      (''message'', PStr (fr_message f)), (''recoverable'', PBool (fr_recoverable f)),
      (''evidence_refs'', PList (map PStr (fr_evidence_refs f)))]"

definition driver_outcome ::
  "'u driver \<Rightarrow> outcome_status \<Rightarrow> core_reason \<Rightarrow> core_wait option \<Rightarrow> dict option \<Rightarrow>
   'u core_outcome result" where
  "driver_outcome dr status reason wait err =
     core_outcome_post_init
       \<lparr>oc_status = status, oc_reason = reason, oc_state = dr_core dr,
        oc_new_messages = mj_added (dr_messages dr),
        oc_final_message = last_assistant_message (mj_messages (dr_messages dr)),
        oc_wait = wait, oc_usage = dr_usage dr,
        oc_error = (if err = None \<and> status \<in> {OutFailed, OutCancelled}
                    then map_option failure_error (ff_latest (rf_failures (cs_facts (dr_core dr))))
                    else err)\<rparr>"

text \<open>A pass through the loop, or the whole run, continues with a driver state or returns an
  outcome; the final driver state is kept beside the outcome.\<close>

datatype 'u loop_result =
    Continues "'u driver"
  | Returns "'u core_outcome" "'u driver"

definition returning :: "'u driver \<Rightarrow> 'u core_outcome result \<Rightarrow> 'u loop_result result" where
  "returning dr oc = mapE (\<lambda>oc. Returns oc dr) oc"

fun outcome_of_termination :: "termination_status \<Rightarrow> outcome_status" where
  "outcome_of_termination TermCompleted = OutCompleted"
| "outcome_of_termination TermFailed = OutFailed"
| "outcome_of_termination TermCancelled = OutCancelled"

text \<open>\<^verbatim>\<open>driver.core = apply_decision(..).state; driver.events.extend(..)\<close>\<close>

definition apply_driver_decision :: "core_decision \<Rightarrow> 'u driver \<Rightarrow> 'u driver result" where
  "apply_driver_decision d dr =
     bindE (apply_decision (dr_core dr) d) (\<lambda>red.
     Inr (dr\<lparr>dr_core := red_state red, dr_events := dr_events dr @ red_events red\<rparr>))"

text \<open>The handler of an interrupted port: settle or commit what is pending, then end the run.
  \<open>mk_terminate\<close> only ever makes a \<open>Terminate\<close>, so the last case is never taken.\<close>

definition terminate_interrupted_execution ::
  "'u core_ports \<Rightarrow> reduction_context \<Rightarrow> termination_status \<Rightarrow> string \<Rightarrow> string \<Rightarrow> boundary_kind \<Rightarrow>
   dict option \<Rightarrow> 'u driver \<Rightarrow> 'u loop_result result" where
  "terminate_interrupted_execution ports ctx status reason_code message pending err dr =
     bindE (let unsettled = unsettled_tool_calls (mj_messages (dr_messages dr)) in
            if mj_pending (dr_messages dr) \<noteq> [] then commit_boundary ports pending None dr
            else if unsettled \<noteq> []
            then settle_unexecuted_calls ports ctx unsettled reason_code dr
            else Inr dr) (\<lambda>dr.
     bindE (if status \<noteq> TermCancelled then Inr dr
            else let (oid, dr) = driver_observation_id ''cancelled'' dr in
              mapE snd (reduce_driver (CancellationObservation
                \<lparr>ca_observation_id = oid, ca_reason = message\<rparr>) ctx dr)) (\<lambda>dr.
     bindE (mk_terminate status reason_code message []) (\<lambda>d.
     bindE (apply_driver_decision d dr) (\<lambda>dr.
     bindE (commit_boundary ports BeforeTerminal None dr) (\<lambda>dr.
     case d of
       Terminate t \<Rightarrow> bindE (termination_reason t) (\<lambda>reason.
         returning dr (driver_outcome dr (outcome_of_termination status) reason None err))
     | _ \<Rightarrow> Inr (Continues dr))))))"

text \<open>The two \<^verbatim>\<open>except\<close> clauses around a call of a port.\<close>

definition execution_error :: "string \<Rightarrow> string \<Rightarrow> dict" where
  "execution_error name text =
     [(''code'', PStr ''core.execution_error''),
      (''message'', PStr (if text = [] then name else text)), (''source'', PStr ''core'')]"

fun guarding ::
  "'u core_ports \<Rightarrow> reduction_context \<Rightarrow> boundary_kind \<Rightarrow> 'u driver \<Rightarrow> 'a answer \<Rightarrow>
   ('a \<Rightarrow> 'u loop_result result) \<Rightarrow> 'u loop_result result" where
  "guarding ports ctx pending dr (Answered x) k = k x"
| "guarding ports ctx pending dr (Cancelled text) k =
     terminate_interrupted_execution ports ctx TermCancelled ''run.cancelled''
       (if text = [] then ''run.cancelled'' else text) pending None dr"
| "guarding ports ctx pending dr (Raised name text) k =
     terminate_interrupted_execution ports ctx TermFailed ''core.execution_error''
       (name @ '': '' @ text) pending (Some (execution_error name text)) dr"

section \<open>The model branch\<close>

definition core_tool_catalog ::
  "core_run_input \<Rightarrow> 'u core_ports \<Rightarrow> nat \<Rightarrow> (string \<times> string) list option answer \<times> nat" where
  "core_tool_catalog i ports clock =
     (case cp_tools ports of
        None \<Rightarrow> (Answered None, clock)
      | Some tp \<Rightarrow>
          if py_truth (dget_default (in_context_seed i) ''suppress_tools'' (PBool False))
          then (Answered None, clock)
          else (case tp_catalog tp clock (tool_mode_for_run_mode (in_mode i)) of
                  Answered entries \<Rightarrow> Answered (Some entries)
                | Raised name text \<Rightarrow> Raised name text
                | Cancelled text \<Rightarrow> Cancelled text,
                clock + 1))"

definition model_request_of ::
  "core_run_input \<Rightarrow> message list \<Rightarrow> core_state \<Rightarrow> model_purpose \<Rightarrow> core_directive \<Rightarrow>
   (string \<times> string) list option \<Rightarrow> model_request result" where
  "model_request_of i messages s purpose directive snapshot =
     bindE (core_context_view_from_state s (in_mode i)) (\<lambda>view.
     context_prepare_request_post_init
       \<lparr>mr_purpose = context_purpose_of purpose,
        mr_directive = Some (directive_text directive (li_max_tool_calls_per_turn (in_limits i))),
        mr_session_id = in_session_id i, mr_run_id = in_run_id i, mr_messages = messages,
        mr_view = view, mr_catalog = snapshot, mr_seed = in_context_seed i\<rparr>)"

definition call_model_once ::
  "core_run_input \<Rightarrow> 'u core_ports \<Rightarrow> message list \<Rightarrow> core_state \<Rightarrow> model_purpose \<Rightarrow> core_directive \<Rightarrow>
   string \<Rightarrow> nat \<Rightarrow> 'u model_action answer \<times> nat" where
  "call_model_once i ports messages s purpose directive oid clock =
     (case core_tool_catalog i ports clock of
        (Raised name text, clock) \<Rightarrow> (Raised name text, clock)
      | (Cancelled text, clock) \<Rightarrow> (Cancelled text, clock)
      | (Answered snapshot, clock) \<Rightarrow>
          (case model_request_of i messages s purpose directive snapshot of
             Inl e \<Rightarrow> (Raised (exn_type_name e) (exn_text e), clock)
           | Inr request \<Rightarrow>
               let (events, fin) = cp_model ports clock request in
               (consume_stream events fin oid purpose snapshot None, clock + 1)))"

definition finish_model ::
  "'u core_ports \<Rightarrow> reduction_context \<Rightarrow> 'u model_action \<Rightarrow> 'u driver \<Rightarrow> 'u loop_result result" where
  "finish_model ports ctx action dr =
     (let dr = extend_messages (case mo_message (ma_observation action) of
                 None \<Rightarrow> [] | Some a \<Rightarrow> [AssistantMessage a]) dr;
          dr = dr\<lparr>dr_usage := (case ma_usage action of None \<Rightarrow> dr_usage dr | Some u \<Rightarrow> Some u),
                  dr_catalog_snapshot := ma_snapshot action\<rparr> in
      bindE (reduce_driver (ModelObservation (ma_observation action)) ctx dr) (\<lambda>(red, dr).
      bindE (commit_boundary ports AfterModel None dr) (\<lambda>dr.
      Inr (Continues dr))))"

definition model_branch ::
  "core_run_input \<Rightarrow> 'u core_ports \<Rightarrow> reduction_context \<Rightarrow> model_purpose \<Rightarrow> core_directive \<Rightarrow>
   'u driver \<Rightarrow> 'u loop_result result" where
  "model_branch i ports ctx purpose directive dr =
     bindE (commit_boundary ports BeforeModel None dr) (\<lambda>dr.
     let (oid, dr) = driver_observation_id ''model'' dr;
         (ans, clock) = call_model_once i ports (mj_messages (dr_messages dr)) (dr_core dr)
                          purpose directive oid (dr_clock dr);
         dr = dr\<lparr>dr_clock := clock\<rparr> in
     guarding ports ctx AfterModel dr ans (\<lambda>action. finish_model ports ctx action dr))"

section \<open>The tools branch\<close>

definition prepare_core_tool_batch ::
  "core_run_input \<Rightarrow> 'u core_ports \<Rightarrow> tool_call list \<Rightarrow> (string \<times> string) list option \<Rightarrow> nat \<Rightarrow>
   tool_batch_preparation answer \<times> nat" where
  "prepare_core_tool_batch i ports calls snapshot clock =
     (case cp_tools ports of
        None \<Rightarrow>
          (answer_of (bindE (unavailable_tool_results calls) (\<lambda>rs.
             tool_batch_preparation_post_init \<lparr>bp_batch_id = None, bp_results = rs\<rparr>)), clock)
      | Some tp \<Rightarrow>
          (case traverse (request_of (in_run_id i) (in_session_id i) (in_mode i)
                   (case snapshot of None \<Rightarrow> [] | Some entries \<Rightarrow> entries)) calls of
             Inl e \<Rightarrow> (Raised (exn_type_name e) (exn_text e), clock)
           | Inr requests \<Rightarrow>
               (case tp_prepare_batch tp clock requests of
                  Answered p \<Rightarrow> answer_of (tool_batch_preparation_post_init p)
                | Raised name text \<Rightarrow> Raised name text
                | Cancelled text \<Rightarrow> Cancelled text,
                clock + 1)))"

definition execute_core_tool_batch ::
  "'u core_ports \<Rightarrow> tool_batch_preparation \<Rightarrow> nat \<Rightarrow> tool_result list answer \<times> nat" where
  "execute_core_tool_batch ports p clock =
     (case (cp_tools ports, bp_batch_id p) of
        (Some tp, Some batch_id) \<Rightarrow> (tp_execute_prepared tp clock batch_id, clock + 1)
      | _ \<Rightarrow> (Raised ''RuntimeError'' ''Prepared Tool batch is not executable'', clock))"

definition finish_tools ::
  "core_run_input \<Rightarrow> 'u core_ports \<Rightarrow> reduction_context \<Rightarrow> tool_call list \<Rightarrow> tool_call list \<Rightarrow> bool \<Rightarrow>
   tool_result list \<Rightarrow> 'u driver \<Rightarrow> 'u loop_result result" where
  "finish_tools i ports ctx calls deferred executed results dr =
     bindE (deferred_tool_results deferred
              (case li_max_tool_calls_per_turn (in_limits i) of None \<Rightarrow> 0 | Some n \<Rightarrow> n)) (\<lambda>late.
     let results = results @ late; (oid, dr) = driver_observation_id ''tools'' dr in
     bindE (project_core_commands results) (\<lambda>commands.
     bindE (reduce_batch oid calls results commands ctx dr) (\<lambda>dr.
     bindE (if executed \<or> \<not> has_external_wait results
            then commit_boundary ports AfterTools None dr else Inr dr) (\<lambda>dr.
     Inr (Continues dr)))))"

text \<open>A prepared batch: results at once, or a boundary and the execution.\<close>

definition run_prepared_batch ::
  "core_run_input \<Rightarrow> 'u core_ports \<Rightarrow> reduction_context \<Rightarrow> tool_call list \<Rightarrow> tool_call list \<Rightarrow>
   tool_call list \<Rightarrow> tool_batch_preparation \<Rightarrow> 'u driver \<Rightarrow> 'u loop_result result" where
  "run_prepared_batch i ports ctx calls executable deferred p dr =
     (if bp_results p \<noteq> []
      then bindE (complete_results executable (bp_results p)) (\<lambda>results.
           finish_tools i ports ctx calls deferred False results dr)
      else
     bindE (commit_boundary ports BeforeTools None dr) (\<lambda>dr.
     let (ans, clock) = execute_core_tool_batch ports p (dr_clock dr);
         dr = dr\<lparr>dr_clock := clock\<rparr> in
     guarding ports ctx AfterTools dr ans (\<lambda>returned.
     bindE (complete_results executable returned) (\<lambda>results.
     finish_tools i ports ctx calls deferred True results dr))))"

definition tools_branch ::
  "core_run_input \<Rightarrow> 'u core_ports \<Rightarrow> reduction_context \<Rightarrow> tool_call list \<Rightarrow> 'u driver \<Rightarrow>
   'u loop_result result" where
  "tools_branch i ports ctx calls dr =
     (let (executable, deferred) =
            bounded_tool_calls calls (li_max_tool_calls_per_turn (in_limits i)) in
      if executable = [] then finish_tools i ports ctx calls deferred False [] dr
      else
     (let (ans, clock) = prepare_core_tool_batch i ports executable (dr_catalog_snapshot dr)
                           (dr_clock dr);
          dr = dr\<lparr>dr_clock := clock\<rparr> in
     guarding ports ctx AfterTools dr ans (\<lambda>p.
     run_prepared_batch i ports ctx calls executable deferred p dr)))"

section \<open>The loop\<close>

fun must_settle :: "core_decision \<Rightarrow> bool" where
  "must_settle (Terminate t) = True"
| "must_settle (Wait w) = (cw_kind w \<notin> {WaitToolApproval, WaitUserInput})"
| "must_settle (CallModel purpose directive reason) = False"
| "must_settle (ExecuteTools calls reason) = False"

fun execute_decision ::
  "core_run_input \<Rightarrow> 'u core_ports \<Rightarrow> reduction_context \<Rightarrow> core_decision \<Rightarrow> 'u driver \<Rightarrow>
   'u loop_result result" where
  "execute_decision i ports ctx (CallModel purpose directive reason) dr =
     model_branch i ports ctx purpose directive dr"
| "execute_decision i ports ctx (ExecuteTools calls reason) dr =
     tools_branch i ports ctx calls dr"
| "execute_decision i ports ctx (Wait w) dr =
     bindE (commit_boundary ports Waiting (Some w) dr) (\<lambda>dr.
     returning dr (driver_outcome dr OutWaiting (cw_reason w) (Some w) None))"
| "execute_decision i ports ctx (Terminate t) dr =
     bindE (commit_boundary ports BeforeTerminal None dr) (\<lambda>dr.
     bindE (termination_reason t) (\<lambda>reason.
     returning dr
       (driver_outcome dr (outcome_of_termination (te_term_status t)) reason None None)))"

definition settle_before ::
  "'u core_ports \<Rightarrow> reduction_context \<Rightarrow> core_decision \<Rightarrow> 'u driver \<Rightarrow> 'u driver result" where
  "settle_before ports ctx d dr =
     (let unsettled = unsettled_tool_calls (mj_messages (dr_messages dr)) in
      if unsettled \<noteq> [] \<and> must_settle d
      then settle_unexecuted_calls ports ctx unsettled (decision_reason_code d) dr
      else Inr dr)"

text \<open>One pass through \<^verbatim>\<open>while True\<close>.\<close>

definition loop_body ::
  "core_run_input \<Rightarrow> 'u core_ports \<Rightarrow> reduction_context \<Rightarrow> 'u driver \<Rightarrow> 'u loop_result result" where
  "loop_body i ports ctx dr =
     bindE (observe_cancellation ports ctx dr) (\<lambda>(cancelled, dr).
     bindE (policy_decide (dr_core dr) (dr_observation dr)
              \<lparr>pc_mode = in_mode i, pc_limits = in_limits i\<rparr>) (\<lambda>d.
     bindE (settle_before ports ctx d dr) (\<lambda>dr.
     bindE (apply_driver_decision d dr) (\<lambda>dr.
     execute_decision i ports ctx d dr))))"

text \<open>The loop with fuel: \<open>None\<close> is a run that is still going after so many passes.\<close>

fun drive ::
  "nat \<Rightarrow> core_run_input \<Rightarrow> 'u core_ports \<Rightarrow> reduction_context \<Rightarrow> 'u driver \<Rightarrow>
   ('u core_outcome \<times> 'u driver) result option" where
  "drive 0 i ports ctx dr = None"
| "drive (Suc fuel) i ports ctx dr =
     (case loop_body i ports ctx dr of
        Inl e \<Rightarrow> Some (Inl e)
      | Inr (Returns oc dr) \<Rightarrow> Some (Inr (oc, dr))
      | Inr (Continues dr) \<Rightarrow> drive fuel i ports ctx dr)"

definition driver_start :: "core_run_input \<Rightarrow> 'u driver result" where
  "driver_start i =
     bindE (initial_observation i) (\<lambda>ob.
     bindE (last_observation_sequence (in_state i)) (\<lambda>n.
     Inr \<lparr>dr_core = in_state i, dr_observation = ob, dr_messages = mj_start (in_messages i),
          dr_events = [], dr_usage = None, dr_catalog_snapshot = None, dr_sequence = n,
          dr_clock = 0, dr_committed = []\<rparr>))"

text \<open>What happens before the loop.\<close>

definition enter_run ::
  "core_run_input \<Rightarrow> 'u core_ports \<Rightarrow> reduction_context \<Rightarrow> 'u driver \<Rightarrow> 'u driver result" where
  "enter_run i ports ctx dr =
     bindE (observe_cancellation ports ctx dr) (\<lambda>(cancelled, dr).
     if cancelled then Inr dr
     else (case in_entry i of
       ToolResultEntry entry_results \<Rightarrow>
         let calls = unsettled_tool_calls (mj_messages (dr_messages dr));
             (oid, dr) = driver_observation_id ''entry_tools'' dr in
         bindE (complete_results calls entry_results) (\<lambda>results.
         bindE (project_core_commands entry_results) (\<lambda>commands.
         bindE (reduce_batch oid calls results commands ctx dr) (\<lambda>dr.
         commit_boundary ports AfterTools None dr)))
     | ModelEntry None \<Rightarrow> mapE snd (reduce_driver (dr_observation dr) ctx dr)
     | ModelEntry (Some message) \<Rightarrow> Inr dr))"

definition run_context :: "core_run_input \<Rightarrow> reduction_context result" where
  "run_context i =
     reduction_context_post_init \<lparr>rc_run_id = in_run_id i, rc_mode = in_mode i, rc_now_ms = 0\<rparr>"

definition run_driver ::
  "nat \<Rightarrow> core_run_input \<Rightarrow> 'u core_ports \<Rightarrow> ('u core_outcome \<times> 'u driver) result option" where
  "run_driver fuel i ports =
     (case bindE (run_context i) (\<lambda>ctx. bindE (driver_start i) (\<lambda>dr.
             mapE (Pair ctx) (enter_run i ports ctx dr))) of
        Inl e \<Rightarrow> Some (Inl e)
      | Inr (ctx, dr) \<Rightarrow> drive fuel i ports ctx dr)"

definition run_core :: "nat \<Rightarrow> core_run_input \<Rightarrow> 'u core_ports \<Rightarrow> 'u core_outcome result option" where
  "run_core fuel i ports = map_option (mapE fst) (run_driver fuel i ports)"

end
