(* ===== verification/Driver_Facts.thy ===== *)
theory Driver_Facts
  imports Decision_Facts Core_Driver "HOL-Library.Sublist"
begin

text \<open>
  Facts about the run loop of \<open>Core_Driver\<close>: the results the core makes are valid and carry
  the ids of their calls; every step of the driver keeps an invariant (the state and the
  observation are well formed, nothing in the journals is lost) and moves forward in an order
  on driver states; and what exactly a pass through the loop that continues has done.
\<close>

section \<open>Results\<close>

lemma core_error_result_Inr:
  assumes "core_error_result call status content code kind message retryable registration = Inr r"
  shows "wf_tool_result_parts r" "to_tool_call_id r = py_strip (tc_id call)"
    "to_status r = status" "to_error r \<noteq> None" "to_effects r = []"
    "\<exists>e. to_error r = Some e \<and> er_code e = py_strip code"
    "to_tool_name r = py_strip (tc_name call)"
proof -
  obtain e where e: "tool_error_post_init
       \<lparr>er_code = code, er_kind = kind, er_message = message, er_retryable = retryable,
        er_recovery_hint = [], er_details = []\<rparr> = Inr e"
    and r: "tool_result_post_init
       \<lparr>to_tool_call_id = tc_id call, to_tool_name = tc_name call, to_status = status,
        to_content = [ToolText content], to_data = [], to_error = Some e, to_effects = [],
        to_artifacts = [], to_approval = None, to_interaction = None, to_timing = no_timing,
        to_registration_id = registration, to_output_validation = SchemaValidated,
        to_content_trust = Trusted\<rparr> = Inr r"
    using assms by (auto simp: core_error_result_def bindE_eq_Inr)
  have f: "to_tool_call_id r = py_strip (tc_id call)" "to_tool_name r = py_strip (tc_name call)"
    "to_status r = status" "to_error r = Some e" "to_effects r = []"
    using r by (auto simp: tool_result_post_init_def bindE_eq_Inr sec_require_text_def
        required_text_PStr split: option.splits)
  then show "to_tool_call_id r = py_strip (tc_id call)" "to_tool_name r = py_strip (tc_name call)"
    "to_status r = status" "to_error r \<noteq> None" "to_effects r = []"
    by simp_all
  have "er_code e = py_strip code"
    using e by (auto simp: tool_error_post_init_def bindE_eq_Inr sec_require_text_def
        required_text_PStr)
  then show "\<exists>e. to_error r = Some e \<and> er_code e = py_strip code" using f by simp
  show "wf_tool_result_parts r"
    using f tool_result.post_init_valid [OF r] tool_error.post_init_valid [OF e]
    by (simp add: wf_tool_result_parts_def)
qed

text \<open>A list of results that answers a list of calls, one each and in order.\<close>

definition answers :: "tool_call list \<Rightarrow> tool_result list \<Rightarrow> bool" where
  "answers calls rs \<longleftrightarrow> map to_tool_call_id rs = map (\<lambda>c. py_strip (tc_id c)) calls"

lemma traverse_error_results:
  assumes "traverse (\<lambda>call. core_error_result call status (content call) code kind (message call)
             retryable registration) calls = Inr rs"
  shows "answers calls rs"
    and "\<forall>r \<in> set rs. wf_tool_result_parts r \<and> to_status r = status \<and> to_effects r = [] \<and>
      (\<exists>e. to_error r = Some e \<and> er_code e = py_strip code)"
proof -
  have "answers calls rs \<and>
     (\<forall>r \<in> set rs. wf_tool_result_parts r \<and> to_status r = status \<and> to_effects r = [] \<and>
      (\<exists>e. to_error r = Some e \<and> er_code e = py_strip code))"
    using assms
  proof (induction calls arbitrary: rs)
    case Nil
    then show ?case by (simp add: answers_def)
  next
    case (Cons call calls)
    then obtain r rs' where r: "core_error_result call status (content call) code kind
          (message call) retryable registration = Inr r"
      and rs': "traverse (\<lambda>call. core_error_result call status (content call) code kind
          (message call) retryable registration) calls = Inr rs'" "rs = r # rs'"
      by (auto simp: bindE_eq_Inr)
    show ?case using core_error_result_Inr [OF r] Cons.IH [OF rs'(1)] rs'(2)
      by (simp add: answers_def)
  qed
  then show "answers calls rs"
    and "\<forall>r \<in> set rs. wf_tool_result_parts r \<and> to_status r = status \<and> to_effects r = [] \<and>
      (\<exists>e. to_error r = Some e \<and> er_code e = py_strip code)" by blast+
qed

lemma interrupted_tool_results_Inr:
  assumes "interrupted_tool_results calls code message = Inr rs"
  shows "answers calls rs"
    and "\<forall>r \<in> set rs. wf_tool_result_parts r \<and> to_status r = TInterrupted \<and> to_effects r = [] \<and>
      (\<exists>e. to_error r = Some e \<and> er_code e = py_strip code)"
  using traverse_error_results [OF assms [unfolded interrupted_tool_results_def]] by blast+

lemma deferred_tool_results_Inr:
  assumes "deferred_tool_results calls limit = Inr rs"
  shows "answers calls rs"
    and "\<forall>r \<in> set rs. wf_tool_result_parts r \<and> to_status r = TInterrupted \<and> to_effects r = [] \<and>
      (\<exists>e. to_error r = Some e \<and> er_code e = py_strip ''core.tool_deferred'')"
  using traverse_error_results [OF assms [unfolded deferred_tool_results_def]] by blast+

text \<open>Completing a batch.\<close>

definition by_call_id :: "tool_result list \<Rightarrow> string \<Rightarrow> tool_result option" where
  "by_call_id rs k = find (\<lambda>r. to_tool_call_id r = k) rs"

lemma by_call_id_simps [simp]:
  "by_call_id [] k = None"
  "by_call_id (r # rs) k = (if to_tool_call_id r = k then Some r else by_call_id rs k)"
  by (simp_all add: by_call_id_def)

lemma by_call_id_Some: "by_call_id rs k = Some r \<Longrightarrow> r \<in> set rs \<and> to_tool_call_id r = k"
  by (induction rs) (auto split: if_splits)

lemma by_call_id_None: "by_call_id rs k = None \<longleftrightarrow> k \<notin> to_tool_call_id ` set rs"
  by (induction rs) auto

lemma by_call_id_distinct:
  "distinct (map to_tool_call_id rs) \<Longrightarrow> r \<in> set rs \<Longrightarrow> by_call_id rs (to_tool_call_id r) = Some r"
  by (induction rs) auto

lemma collect_results_Inr:
  "collect_results expected rs acc = Inr acc' \<Longrightarrow>
   distinct (map to_tool_call_id rs) \<and> to_tool_call_id ` set rs \<subseteq> expected \<and>
   (\<forall>r \<in> set rs. map_of acc (to_tool_call_id r) = None) \<and>
   (\<forall>k. map_of acc' k = (case by_call_id rs k of Some r \<Rightarrow> Some r | None \<Rightarrow> map_of acc k))"
proof (induction expected rs acc rule: collect_results.induct)
  case (1 expected acc)
  then show ?case by simp
next
  case (2 expected r rs acc)
  let ?acc = "AList.update (to_tool_call_id r) r acc"
  have g: "to_tool_call_id r \<in> expected" "map_of acc (to_tool_call_id r) = None"
    and c: "collect_results expected rs ?acc = Inr acc'"
    using "2.prems" by (simp_all split: if_splits)
  have u: "map_of ?acc = (map_of acc)(to_tool_call_id r \<mapsto> r)" by (simp add: update_conv')
  have n: "\<forall>q \<in> set rs. map_of ?acc (to_tool_call_id q) = None"
    and d: "distinct (map to_tool_call_id rs)" "to_tool_call_id ` set rs \<subseteq> expected"
    and m: "\<forall>k. map_of acc' k = (case by_call_id rs k of Some r \<Rightarrow> Some r | None \<Rightarrow> map_of ?acc k)"
    using "2.IH" [OF _ _ c] g by simp_all
  have new: "to_tool_call_id r \<notin> to_tool_call_id ` set rs"
  proof
    assume "to_tool_call_id r \<in> to_tool_call_id ` set rs"
    then obtain q where "q \<in> set rs" "to_tool_call_id q = to_tool_call_id r" by auto
    with n u show False by (metis fun_upd_same option.distinct(1))
  qed
  then have b: "by_call_id rs (to_tool_call_id r) = None" by (simp add: by_call_id_None)
  have "\<forall>q \<in> set rs. map_of acc (to_tool_call_id q) = None"
    using n u by (metis fun_upd_apply option.distinct(1))
  moreover have "\<forall>k. map_of acc' k =
      (case by_call_id (r # rs) k of Some r \<Rightarrow> Some r | None \<Rightarrow> map_of acc k)"
    using m b by (auto simp: update_conv' split: option.split)
  ultimately show ?case using d g new by simp
qed

lemma map_of_fold_results:
  "map_of (fold (\<lambda>r. AList.update (to_tool_call_id r) r) ms acc) k =
     (case by_call_id (rev ms) k of Some r \<Rightarrow> Some r | None \<Rightarrow> map_of acc k)"
proof (induction ms rule: rev_induct)
  case Nil
  then show ?case by simp
next
  case (snoc r ms)
  then show ?case by (auto simp: update_conv')
qed

lemma complete_results_Inr:
  assumes "complete_results calls results = Inr rs" and ok: "\<forall>r \<in> set results. wf_tool_result_parts r"
  shows "map to_tool_call_id rs = map tc_id calls" "answers calls rs"
    "distinct (map to_tool_call_id results)" "set results \<subseteq> set rs"
    "\<forall>r \<in> set rs. r \<in> set results \<or> to_status r = TInterrupted"
    "\<forall>r \<in> set rs. wf_tool_result_parts r"
    "\<forall>r \<in> set rs. \<forall>q \<in> set rs. to_tool_call_id r = to_tool_call_id q \<longrightarrow> r = q"
proof -
  obtain by_id missing where
    c: "collect_results (set (map tc_id calls)) results [] = Inr by_id" and
    m: "interrupted_tool_results (filter (\<lambda>call. map_of by_id (tc_id call) = None) calls)
          ''tool.batch.incomplete'' ''Tool execution returned no final result for this call.''
        = Inr missing" and
    t: "traverse (\<lambda>call. case map_of (fold (\<lambda>r. AList.update (to_tool_call_id r) r) missing by_id)
           (tc_id call) of Some r \<Rightarrow> Inr r | None \<Rightarrow> Inl (KeyError (tc_id call))) calls = Inr rs"
    using assms(1) by (auto simp: complete_results_def bindE_eq_Inr Let_def)
  note col = collect_results_Inr [OF c, simplified]
  note mis = interrupted_tool_results_Inr [OF m]
  define look where "look k = (case by_call_id (rev missing) k of Some r \<Rightarrow> Some r
      | None \<Rightarrow> by_call_id results k)" for k
  have look: "map_of (fold (\<lambda>r. AList.update (to_tool_call_id r) r) missing by_id) k = look k" for k
    using col by (simp add: map_of_fold_results look_def split: option.splits)
  have lk: "look k = Some r \<Longrightarrow>
      to_tool_call_id r = k \<and> (r \<in> set missing \<or> r \<in> set results)" for k r
    by (auto simp: look_def dest!: by_call_id_Some split: option.splits)
  have parts: "r \<in> set missing \<or> r \<in> set results \<Longrightarrow> wf_tool_result_parts r" for r
    using mis(2) ok by blast
  have "list_all2 (\<lambda>call r. look (tc_id call) = Some r) calls rs"
    using t unfolding traverse_eq_Inr look
    by (rule list_all2_mono) (simp split: option.splits)
  note l2 = this [unfolded list_all2_conv_all_nth]
  have each: "r \<in> set rs \<Longrightarrow> \<exists>call \<in> set calls. look (tc_id call) = Some r" for r
    using l2 by (metis in_set_conv_nth)
  have all: "call \<in> set calls \<Longrightarrow> \<exists>r \<in> set rs. look (tc_id call) = Some r" for call
    using l2 by (metis in_set_conv_nth)
  show ids: "map to_tool_call_id rs = map tc_id calls"
    using l2 lk by (auto intro!: nth_equalityI)
  have canon: "call \<in> set calls \<Longrightarrow> canon_text py_strip (tc_id call)" for call
    using all [of call] lk parts
    by (fastforce simp: wf_tool_result_parts_def wf_tool_result_def)
  then show "answers calls rs" using ids by (simp add: answers_def canon_text_def)
  show "distinct (map to_tool_call_id results)" using col by blast
  show "\<forall>r \<in> set rs. r \<in> set results \<or> to_status r = TInterrupted"
    using each lk mis(2) by blast
  show "\<forall>r \<in> set rs. wf_tool_result_parts r" using each lk parts by blast
  show "\<forall>r \<in> set rs. \<forall>q \<in> set rs. to_tool_call_id r = to_tool_call_id q \<longrightarrow> r = q"
    using each lk by (metis option.sel)
  show "set results \<subseteq> set rs"
  proof
    fix r assume r: "r \<in> set results"
    then obtain call where call: "call \<in> set calls" "tc_id call = to_tool_call_id r"
      using col by auto
    have bc: "by_call_id results (tc_id call) = Some r"
      using call(2) by_call_id_distinct [OF _ r] col by simp
    have "tc_id call \<notin> to_tool_call_id ` set missing"
    proof
      assume "tc_id call \<in> to_tool_call_id ` set missing"
      then have "tc_id call \<in> set (map to_tool_call_id missing)" by simp
      also have "\<dots> = py_strip ` tc_id ` set (filter (\<lambda>c. map_of by_id (tc_id c) = None) calls)"
        using mis(1) by (simp add: answers_def image_image)
      finally obtain call' where c': "call' \<in> set calls" "map_of by_id (tc_id call') = None"
          "tc_id call = py_strip (tc_id call')"
        by auto
      then have "tc_id call = tc_id call'" using canon by (simp add: canon_text_def)
      with bc c'(2) col show False by simp
    qed
    then have "look (tc_id call) = Some r"
      using bc by (simp add: look_def by_call_id_None [THEN iffD2])
    with all [OF call(1)] show "r \<in> set rs" by force
  qed
qed

lemma project_core_commands_Inr:
  assumes "project_core_commands rs = Inr cs"
  shows "\<forall>c \<in> set cs. wf_command c"
    and "map command_id cs = map to_tool_call_id (filter is_plan_success rs)"
proof -
  have one: "project_core_command r = Inr c \<Longrightarrow> wf_command c \<and> command_id c = to_tool_call_id r" for r c
    by (auto simp: project_core_command_def bindE_eq_Inr core_command_decode_wf
        split: pyval.splits sum.splits if_splits)
  have l2: "list_all2 (\<lambda>r c. project_core_command r = Inr c) (filter is_plan_success rs) cs"
    using assms by (simp add: project_core_commands_def traverse_eq_Inr)
  then have "list_all2 (\<lambda>r c. wf_command c \<and> command_id c = to_tool_call_id r)
      (filter is_plan_success rs) cs"
    by (rule list_all2_mono) (rule one)
  then show "\<forall>c \<in> set cs. wf_command c"
    and "map command_id cs = map to_tool_call_id (filter is_plan_success rs)"
    by (induction rule: list_all2_induct) simp_all
qed

section \<open>The invariant and the order\<close>

text \<open>\<open>history dr\<close> is the list of the states the run has committed, and the current one.\<close>

definition history :: "'u driver \<Rightarrow> core_state list" where
  "history dr = map bo_state (dr_committed dr) @ [dr_core dr]"

definition driver_ok :: "core_run_input \<Rightarrow> 'u driver \<Rightarrow> bool" where
  "driver_ok i dr \<longleftrightarrow>
     wf_core_state (dr_core dr) \<and> wf_observation (dr_observation dr) \<and>
     mj_messages (dr_messages dr) = in_messages i @ mj_added (dr_messages dr) \<and>
     mj_added (dr_messages dr) =
       concat (map bo_new_messages (dr_committed dr)) @ mj_pending (dr_messages dr) \<and>
     (\<forall>b \<in> set (dr_committed dr). wf_core_state (bo_state b)) \<and>
     sorted_wrt core_le (history dr)"

definition driver_le :: "'u driver \<Rightarrow> 'u driver \<Rightarrow> bool" where
  "driver_le dr dr' \<longleftrightarrow>
     core_le (dr_core dr) (dr_core dr') \<and> dr_sequence dr \<le> dr_sequence dr' \<and>
     prefix (dr_committed dr) (dr_committed dr') \<and>
     prefix (mj_added (dr_messages dr)) (mj_added (dr_messages dr'))"

lemma driver_le_refl [simp]: "driver_le dr dr"
  by (simp add: driver_le_def)

lemma driver_le_trans [trans]: "driver_le a b \<Longrightarrow> driver_le b c \<Longrightarrow> driver_le a c"
  by (auto simp: driver_le_def intro: core_le_trans prefix_order.trans)

text \<open>A step that keeps the invariant and moves forward.\<close>

definition moves :: "core_run_input \<Rightarrow> 'u driver \<Rightarrow> 'u driver \<Rightarrow> bool" where
  "moves i dr dr' \<longleftrightarrow> (driver_ok i dr \<longrightarrow> driver_ok i dr' \<and> driver_le dr dr')"

lemma moves_refl [simp]: "moves i dr dr"
  by (simp add: moves_def)

lemma moves_trans [trans]: "moves i a b \<Longrightarrow> moves i b c \<Longrightarrow> moves i a c"
  unfolding moves_def using driver_le_trans by blast

lemma movesD: "moves i dr dr' \<Longrightarrow> driver_ok i dr \<Longrightarrow> driver_ok i dr'"
  by (simp add: moves_def)

lemma driver_ok_parts:
  assumes "driver_ok i dr"
  shows "wf_core_state (dr_core dr)" "wf_observation (dr_observation dr)"
  using assms by (simp_all add: driver_ok_def)

text \<open>Changes the invariant does not look at.\<close>

lemma moves_frame [simp]:
  "moves i dr (dr\<lparr>dr_clock := c\<rparr>)" "moves i dr (tick dr)"
  "moves i dr (dr\<lparr>dr_usage := u\<rparr>)" "moves i dr (dr\<lparr>dr_catalog_snapshot := n\<rparr>)"
  "moves i dr (dr\<lparr>dr_usage := u, dr_catalog_snapshot := n\<rparr>)"
  "moves i dr (snd (driver_observation_id kind dr))"
  "moves i dr (extend_messages ms dr)"
  by (simp_all add: moves_def driver_ok_def driver_le_def history_def tick_def
      driver_observation_id_def extend_messages_def mj_extend_def)

lemma moves_core:
  assumes "driver_ok i dr \<Longrightarrow> wf_core_state s \<and> core_le (dr_core dr) s"
    and "driver_ok i dr \<Longrightarrow> wf_observation ob"
  shows "moves i dr (dr\<lparr>dr_core := s, dr_observation := ob, dr_events := evs\<rparr>)"
  unfolding moves_def
proof (intro impI conjI)
  assume ok: "driver_ok i dr"
  then have "sorted_wrt core_le (map bo_state (dr_committed dr) @ [s])"
    using assms(1) [OF ok] core_le_trans 
    by (auto simp: driver_ok_def history_def sorted_wrt_append)
  then show "driver_ok i (dr\<lparr>dr_core := s, dr_observation := ob, dr_events := evs\<rparr>)"
    using ok assms [OF ok] by (simp add: driver_ok_def history_def)
  show "driver_le dr (dr\<lparr>dr_core := s, dr_observation := ob, dr_events := evs\<rparr>)"
    using assms(1) [OF ok] by (simp add: driver_le_def)
qed

section \<open>The steps\<close>

text \<open>The parts of an observation were built by their own constructors.\<close>

fun parts_ok :: "core_observation \<Rightarrow> bool" where
  "parts_ok (ModelObservation m) \<longleftrightarrow> (\<forall>f. mo_error m = Some f \<longrightarrow> wf_failure_record f)"
| "parts_ok (ToolBatchObservation t) \<longleftrightarrow>
     (\<forall>r \<in> set (tbo_results t). wf_tool_result_parts r) \<and> (\<forall>c \<in> set (tbo_commands t). wf_command c)"
| "parts_ok (UserInputObservation u) \<longleftrightarrow> True"
| "parts_ok (CommandObservation c) \<longleftrightarrow> wf_command (co_command c)"
| "parts_ok (CancellationObservation c) \<longleftrightarrow> True"

lemma observation_post_init_wf:
  "observation_post_init ob = Inr ob' \<Longrightarrow> parts_ok ob \<Longrightarrow> wf_observation ob'"
  by (cases ob)
     (auto simp: wf_observation_def mapE_eq_Inr bindE_eq_Inr model_observation_post_init_def
        tool_batch_observation_post_init_def user_input_observation_post_init_def
        command_observation_post_init_def cancellation_observation_post_init_def
        dest: st_required_text_canon st_optional_text_opt_canon split: if_splits)

lemma reduce_driver_Inr:
  assumes "reduce_driver ob ctx dr = Inr (red, dr')"
  obtains ob' where "observation_post_init ob = Inr ob'"
    "reduce_observation (dr_core dr) ob' ctx = Inr red"
    "dr' = dr\<lparr>dr_core := red_state red, dr_observation := ob',
              dr_events := dr_events dr @ red_events red\<rparr>"
  using assms by (auto simp: reduce_driver_def bindE_eq_Inr)

lemma reduce_driver_moves:
  assumes "reduce_driver ob ctx dr = Inr (red, dr')" and ok: "parts_ok ob"
  shows "moves i dr dr'"
proof -
  from assms(1) obtain ob' where o: "observation_post_init ob = Inr ob'"
    and r: "reduce_observation (dr_core dr) ob' ctx = Inr red"
    and d: "dr' = dr\<lparr>dr_core := red_state red, dr_observation := ob',
              dr_events := dr_events dr @ red_events red\<rparr>"
    by (rule reduce_driver_Inr)
  have w: "wf_observation ob'" using o ok by (rule observation_post_init_wf)
  have "wf_core_state (red_state red) \<and> core_le (dr_core dr) (red_state red)"
    if "driver_ok i dr"
    using reduce_observation_state(1,2) [OF driver_ok_parts(1) [OF that] w r]
    by (simp add: state_le_core_le)
  then show ?thesis unfolding d using w by (rule moves_core)
qed

lemma commit_boundary_Inr:
  assumes "commit_boundary ports kind wait dr = Inr dr'"
  shows "dr' = (tick dr)\<lparr>dr_messages := mj_mark_committed (dr_messages dr), dr_events := [],
     dr_committed := dr_committed dr @
       [\<lparr>bo_kind = kind, bo_state = dr_core dr, bo_new_messages = mj_pending (dr_messages dr),
         bo_domain_events = dr_events dr, bo_wait = wait\<rparr>]\<rparr>"
    and "(kind = Waiting) = (wait \<noteq> None)"
  using assms
  by (auto simp: commit_boundary_def core_boundary_post_init_def bindE_eq_Inr
      split: option.splits if_splits)

lemma commit_boundary_frame:
  assumes "commit_boundary ports kind wait dr = Inr dr'"
  shows "dr_core dr' = dr_core dr" "dr_observation dr' = dr_observation dr"
    "dr_sequence dr' = dr_sequence dr" "dr_events dr' = []" "mj_pending (dr_messages dr') = []"
    "mj_messages (dr_messages dr') = mj_messages (dr_messages dr)"
  using commit_boundary_Inr(1) [OF assms] by (simp_all add: tick_def mj_mark_committed_def)

lemma commit_boundary_moves:
  assumes "commit_boundary ports kind wait dr = Inr dr'"
  shows "moves i dr dr'"
  unfolding commit_boundary_Inr(1) [OF assms]
  by (auto simp: moves_def driver_ok_def driver_le_def history_def tick_def mj_mark_committed_def
      sorted_wrt_append)

lemma append_final_results_moves:
  "append_final_results rs dr = Inr dr' \<Longrightarrow> moves i dr dr'"
  by (auto simp: append_final_results_def bindE_eq_Inr)

lemma append_final_results_frame:
  assumes "append_final_results rs dr = Inr dr'"
  shows "dr_core dr' = dr_core dr" "dr_observation dr' = dr_observation dr"
    "dr_sequence dr' = dr_sequence dr"
  using assms by (auto simp: append_final_results_def bindE_eq_Inr extend_messages_def)

lemma observe_cancellation_Inr:
  assumes "observe_cancellation ports ctx dr = Inr (cancelled, dr')"
  shows "moves i dr dr'"
    and "if cancelled then is_cancellation (dr_observation dr')
         else dr_core dr' = dr_core dr \<and> dr_observation dr' = dr_observation dr \<and>
              dr_sequence dr' = dr_sequence dr \<and> dr_messages dr' = dr_messages dr"
proof -
  have "moves i dr dr' \<and> (if cancelled then is_cancellation (dr_observation dr')
         else dr_core dr' = dr_core dr \<and> dr_observation dr' = dr_observation dr \<and>
              dr_sequence dr' = dr_sequence dr \<and> dr_messages dr' = dr_messages dr)"
  proof (cases "cp_cancellation ports = None \<or> is_cancellation (dr_observation dr) \<or>
      (\<exists>probe. cp_cancellation ports = Some probe \<and> probe (dr_clock dr) = None)")
    case True
    with assms show ?thesis
      by (auto simp: observe_cancellation_def tick_def split: if_splits option.splits)
  next
    case False
    then obtain probe raw where p: "cp_cancellation ports = Some probe"
      "probe (dr_clock dr) = Some raw" "\<not> is_cancellation (dr_observation dr)" by auto
    let ?dr = "snd (driver_observation_id ''cancelled'' (tick dr))"
    obtain red ob where r: "reduce_driver (CancellationObservation ob) ctx ?dr = Inr (red, dr')"
      and c: "cancelled"
      using assms p
      by (auto simp: observe_cancellation_def Let_def bindE_eq_Inr split: prod.splits)
    have "moves i dr ?dr" using moves_frame(2,6) by (rule moves_trans)
    also have "moves i ?dr dr'" using r by (rule reduce_driver_moves) simp
    finally have "moves i dr dr'" .
    moreover have "is_cancellation (dr_observation dr')"
      using r by (rule reduce_driver_Inr) (auto simp: mapE_eq_Inr)
    ultimately show ?thesis using c by simp
  qed
  then show "moves i dr dr'"
    and "if cancelled then is_cancellation (dr_observation dr')
         else dr_core dr' = dr_core dr \<and> dr_observation dr' = dr_observation dr \<and>
              dr_sequence dr' = dr_sequence dr \<and> dr_messages dr' = dr_messages dr" by blast+
qed

section \<open>Identifiers of the driver\<close>

definition driver_id :: "string \<Rightarrow> nat \<Rightarrow> string" where
  "driver_id kind n = ''core:'' @ kind @ '':'' @ str_nat n"

lemma driver_observation_id_eq:
  "driver_observation_id kind dr =
     (driver_id kind (dr_sequence dr + 1), dr\<lparr>dr_sequence := dr_sequence dr + 1\<rparr>)"
  by (simp add: driver_observation_id_def driver_id_def)

lemma str_nat_not_space: "c \<in> set (str_nat n) \<Longrightarrow> \<not> py_space c"
  using str_nat_digits [of c n] by (auto simp: py_space_def)

lemma driver_id_canon [simp]: "canon_text py_strip (driver_id kind n)"
proof -
  have "\<not> py_space (last (str_nat n))"
    by (rule str_nat_not_space [of _ n]) (rule last_in_set, rule str_nat_not_Nil)
  then have "stripped (driver_id kind n)"
    by (simp add: stripped_def driver_id_def py_space_def)
  then show ?thesis using py_strip_fix by (simp add: canon_text_def driver_id_def)
qed

lemma py_split_on_append:
  "d \<notin> set t \<Longrightarrow> py_split_on d (s @ d # t) = py_split_on d s @ [t]"
proof (induction s)
  case Nil
  have "d \<notin> set t \<Longrightarrow> py_split_on d t = [t]" for t by (induction t) auto
  then show ?case using Nil by simp
next
  case (Cons c s)
  then show ?case by (auto split: list.split)
qed

lemma id_suffix_driver_id [simp]: "id_suffix (driver_id kind n) = str_nat n"
proof -
  have "CHR '':'' \<notin> set (str_nat n)" using str_nat_digits by force
  from py_split_on_append [OF this, of "''core:'' @ kind"] show ?thesis
    by (simp add: id_suffix_def driver_id_def)
qed

section \<open>Batches\<close>

lemma st_required_text_fix': "canon_text py_strip t \<Longrightarrow> st_required_text (PStr t) f = Inr t"
  by (simp add: st_required_text_def required_text_fix)

lemma reduce_batch_Inr:
  assumes "reduce_batch oid calls results commands ctx dr = Inr dr'" and "canon_text py_strip oid"
  obtains red visible where
    "reduce_observation (dr_core dr) (ToolBatchObservation
       \<lparr>tbo_observation_id = oid, tbo_calls = calls, tbo_results = results,
        tbo_commands = commands\<rparr>) ctx = Inr red"
    "project_core_command_results results (red_command_results red) = Inr visible"
    "dr_core dr' = red_state red"
    "dr_observation dr' = ToolBatchObservation
       \<lparr>tbo_observation_id = oid, tbo_calls = calls, tbo_results = results,
        tbo_commands = commands\<rparr>"
    "dr_sequence dr' = dr_sequence dr"
proof -
  let ?ob = "ToolBatchObservation \<lparr>tbo_observation_id = oid, tbo_calls = calls,
      tbo_results = results, tbo_commands = commands\<rparr>"
  obtain red dr1 visible where r: "reduce_driver ?ob ctx dr = Inr (red, dr1)"
    and v: "project_core_command_results results (red_command_results red) = Inr visible"
    and a: "append_final_results visible dr1 = Inr dr'"
    using assms(1) by (auto simp: reduce_batch_def bindE_eq_Inr)
  have "observation_post_init ?ob = Inr ?ob"
    using assms(2) by (simp add: tool_batch_observation_post_init_def st_required_text_fix')
  with r have "reduce_observation (dr_core dr) ?ob ctx = Inr red"
    "dr1 = dr\<lparr>dr_core := red_state red, dr_observation := ?ob,
              dr_events := dr_events dr @ red_events red\<rparr>"
    by (auto elim!: reduce_driver_Inr)
  with v append_final_results_frame [OF a] show ?thesis using that by simp
qed

lemma reduce_batch_moves:
  assumes "reduce_batch oid calls results commands ctx dr = Inr dr'"
    and "\<forall>r \<in> set results. wf_tool_result_parts r" and "\<forall>c \<in> set commands. wf_command c"
  shows "moves i dr dr'"
proof -
  obtain red dr1 visible where
    r: "reduce_driver (ToolBatchObservation \<lparr>tbo_observation_id = oid, tbo_calls = calls,
      tbo_results = results, tbo_commands = commands\<rparr>) ctx dr = Inr (red, dr1)"
    and a: "append_final_results visible dr1 = Inr dr'"
    using assms(1) by (auto simp: reduce_batch_def bindE_eq_Inr)
  have "moves i dr dr1" using r by (rule reduce_driver_moves) (simp add: assms)
  also have "moves i dr1 dr'" using a by (rule append_final_results_moves)
  finally show ?thesis .
qed

lemma settle_unexecuted_calls_moves:
  assumes "settle_unexecuted_calls ports ctx calls reason dr = Inr dr'"
  shows "moves i dr dr'" and "mj_pending (dr_messages dr') = []" and "dr_events dr' = []"
proof -
  let ?dr = "snd (driver_observation_id ''settlement'' dr)"
  obtain message results red dr1 dr2 where
    t: "interrupted_tool_results calls ''core.tool_not_executed'' message = Inr results"
    and r: "reduce_driver (ToolBatchObservation
         \<lparr>tbo_observation_id = fst (driver_observation_id ''settlement'' dr), tbo_calls = calls,
          tbo_results = results, tbo_commands = []\<rparr>) ctx ?dr = Inr (red, dr1)"
    and a: "append_final_results results dr1 = Inr dr2"
    and c: "commit_boundary ports AfterTools None dr2 = Inr dr'"
    using assms
    unfolding settle_unexecuted_calls_def bindE_eq_Inr Let_def split_beta
    by (elim exE conjE) (auto simp only: split_beta fst_conv snd_conv prod.collapse)
  have "moves i dr ?dr" by simp
  also have "moves i ?dr dr1"
    using r by (rule reduce_driver_moves) (use interrupted_tool_results_Inr(2) [OF t] in simp)
  also have "moves i dr1 dr2" using a by (rule append_final_results_moves)
  also have "moves i dr2 dr'" using c by (rule commit_boundary_moves)
  finally show "moves i dr dr'" .
  show "mj_pending (dr_messages dr') = []" and "dr_events dr' = []"
    using commit_boundary_frame [OF c] by simp_all
qed

lemma apply_driver_decision_Inr:
  assumes "apply_driver_decision d dr = Inr dr'" and "wf_core_state (dr_core dr)"
  shows "dr_core dr' = decided d (dr_core dr)" "dr_observation dr' = dr_observation dr"
    "dr_messages dr' = dr_messages dr" "dr_sequence dr' = dr_sequence dr"
    "dr_committed dr' = dr_committed dr" "moves i dr dr'"
proof -
  obtain red where r: "apply_decision (dr_core dr) d = Inr red"
    and d: "dr' = dr\<lparr>dr_core := red_state red, dr_events := dr_events dr @ red_events red\<rparr>"
    using assms(1) by (auto simp: apply_driver_decision_def bindE_eq_Inr)
  note ap = apply_decision_Inr [OF r assms(2)]
  show "dr_core dr' = decided d (dr_core dr)" "dr_observation dr' = dr_observation dr"
    "dr_messages dr' = dr_messages dr" "dr_sequence dr' = dr_sequence dr"
    "dr_committed dr' = dr_committed dr"
    by (simp_all add: d ap)
  have "moves i dr (dr\<lparr>dr_core := red_state red, dr_observation := dr_observation dr,
      dr_events := dr_events dr @ red_events red\<rparr>)"
    by (rule moves_core) (use ap driver_ok_parts in auto)
  then show "moves i dr dr'" by (simp add: d)
qed

section \<open>Returning\<close>

text \<open>An outcome that tells the driver state it was made from, with everything committed.\<close>

definition concluded :: "'u core_outcome \<Rightarrow> 'u driver \<Rightarrow> bool" where
  "concluded oc dr \<longleftrightarrow>
     oc_state oc = dr_core dr \<and> oc_new_messages oc = mj_added (dr_messages dr) \<and>
     oc_final_message oc = last_assistant_message (mj_messages (dr_messages dr)) \<and>
     mj_pending (dr_messages dr) = [] \<and> dr_events dr = [] \<and>
     core_outcome_post_init oc = Inr oc"

lemma returning_Inr:
  assumes "returning dr (driver_outcome dr status reason wait err) = Inr lr"
    and "mj_pending (dr_messages dr) = []" and "dr_events dr = []"
  obtains oc where "lr = Returns oc dr" "concluded oc dr" "oc_status oc = status"
    "oc_reason oc = reason" "oc_wait oc = wait"
  using assms
  by (auto simp: returning_def mapE_eq_Inr driver_outcome_def core_outcome_post_init_def
      concluded_def split: if_splits)

text \<open>The results of a pass.\<close>

fun pass_ok :: "core_run_input \<Rightarrow> 'u driver \<Rightarrow> 'u loop_result \<Rightarrow> bool" where
  "pass_ok i dr (Continues dr') \<longleftrightarrow> moves i dr dr'"
| "pass_ok i dr (Returns oc dr') \<longleftrightarrow> moves i dr dr' \<and> concluded oc dr'"

lemma pass_ok_trans: "moves i dr dr1 \<Longrightarrow> pass_ok i dr1 lr \<Longrightarrow> pass_ok i dr lr"
  by (cases lr) (auto intro: moves_trans)

fun is_return :: "'u loop_result \<Rightarrow> bool" where
  "is_return (Returns oc dr) = True"
| "is_return (Continues dr) = False"

lemma terminate_interrupted_steps:
  assumes "terminate_interrupted_execution ports ctx status reason_code message pending err dr = Inr lr"
    and ok: "driver_ok i dr"
  obtains dr1 s dr3 dr4 oc where
    "(if mj_pending (dr_messages dr) \<noteq> [] then commit_boundary ports pending None dr
      else if unsettled_tool_calls (mj_messages (dr_messages dr)) \<noteq> []
      then settle_unexecuted_calls ports ctx (unsettled_tool_calls (mj_messages (dr_messages dr)))
             reason_code dr
      else Inr dr) = Inr dr1"
    "dr_core dr3 = terminated status s" "dr_messages dr3 = dr_messages dr1"
    "moves i dr dr3" "commit_boundary ports BeforeTerminal None dr3 = Inr dr4"
    "lr = Returns oc dr4" "concluded oc dr4" "oc_status oc = outcome_of_termination status"
    "oc_wait oc = None"
proof -
  obtain dr1 dr2 d dr3 dr4 where
    s1: "(if mj_pending (dr_messages dr) \<noteq> [] then commit_boundary ports pending None dr
          else if unsettled_tool_calls (mj_messages (dr_messages dr)) \<noteq> []
          then settle_unexecuted_calls ports ctx (unsettled_tool_calls (mj_messages (dr_messages dr)))
                 reason_code dr
          else Inr dr) = Inr dr1" and
    s2: "(if status \<noteq> TermCancelled then Inr dr1
          else mapE snd (reduce_driver (CancellationObservation
                \<lparr>ca_observation_id = fst (driver_observation_id ''cancelled'' dr1),
                 ca_reason = message\<rparr>) ctx (snd (driver_observation_id ''cancelled'' dr1)))) = Inr dr2" and
    s3: "mk_terminate status reason_code message [] = Inr d" and
    s4: "apply_driver_decision d dr2 = Inr dr3" and
    s5: "commit_boundary ports BeforeTerminal None dr3 = Inr dr4" and
    s6: "(case d of
       Terminate t \<Rightarrow> bindE (termination_reason t) (\<lambda>reason.
         returning dr4 (driver_outcome dr4 (outcome_of_termination status) reason None err))
     | _ \<Rightarrow> Inr (Continues dr4)) = Inr lr"
    using assms(1)
    unfolding terminate_interrupted_execution_def bindE_eq_Inr Let_def split_beta by blast
  have m1: "moves i dr dr1"
    using s1 commit_boundary_moves settle_unexecuted_calls_moves(1)
    by (metis moves_refl sum.inject(2))
  have m2: "moves i dr1 dr2 \<and> dr_messages dr2 = dr_messages dr1"
  proof (cases "status = TermCancelled")
    case True
    with s2 obtain red where r: "reduce_driver (CancellationObservation
                \<lparr>ca_observation_id = fst (driver_observation_id ''cancelled'' dr1),
                 ca_reason = message\<rparr>) ctx (snd (driver_observation_id ''cancelled'' dr1))
        = Inr (red, dr2)"
      by (auto simp: mapE_eq_Inr)
    have "moves i dr1 (snd (driver_observation_id ''cancelled'' dr1))" by simp
    also have "moves i \<dots> dr2" using r by (rule reduce_driver_moves) simp
    finally show ?thesis
      using r by (auto simp: driver_observation_id_eq elim!: reduce_driver_Inr)
  next
    case False
    with s2 show ?thesis by simp
  qed
  have m: "moves i dr dr2" using m1 m2 moves_trans by blast
  obtain t where d: "d = Terminate t" "te_term_status t = status"
    using mk_terminate_Inr [OF s3] by auto
  obtain reason where ret: "returning dr4 (driver_outcome dr4 (outcome_of_termination status)
      reason None err) = Inr lr"
    using s6 d by (auto simp: bindE_eq_Inr)
  obtain oc where oc: "lr = Returns oc dr4" "concluded oc dr4"
    "oc_status oc = outcome_of_termination status" "oc_wait oc = None"
    using ret commit_boundary_frame(4,5) [OF s5] by (auto elim!: returning_Inr)
  have "wf_core_state (dr_core dr2)" using movesD [OF m ok] driver_ok_parts by blast
  note a = apply_driver_decision_Inr [OF s4 this]
  show ?thesis
  proof (rule that)
    show "dr_messages dr3 = dr_messages dr1" using a(3) m2 by simp
    show "dr_core dr3 = terminated status (dr_core dr2)" using a(1) d by simp
    show "moves i dr dr3" using m a(6) by (rule moves_trans)
  qed (rule s1 s5 oc)+
qed

lemma terminate_interrupted_execution_Inr:
  assumes "terminate_interrupted_execution ports ctx status reason_code message pending err dr = Inr lr"
    and "driver_ok i dr"
  shows "pass_ok i dr lr" and "is_return lr"
proof -
  obtain dr3 dr4 oc where m: "moves i dr dr3" and c: "commit_boundary ports BeforeTerminal None dr3 = Inr dr4"
    and r: "lr = Returns oc dr4" "concluded oc dr4"
    by (rule terminate_interrupted_steps [OF assms])
  have "moves i dr dr4" using m commit_boundary_moves [OF c] by (rule moves_trans)
  with r show "pass_ok i dr lr" and "is_return lr" by simp_all
qed

text \<open>A guarded call either went through or ended the run.\<close>

lemma guarding_cases:
  assumes "guarding ports ctx pending dr ans k = Inr lr"
  obtains (answered) x where "ans = Answered x" "k x = Inr lr"
    | (interrupted) status code message err where
      "terminate_interrupted_execution ports ctx status code message pending err dr = Inr lr"
  using assms by (cases ans) auto

lemma guarding_Inr:
  assumes "guarding ports ctx pending dr ans k = Inr lr" and "driver_ok i dr"
  obtains (answered) x where "ans = Answered x" "k x = Inr lr"
    | (interrupted) "is_return lr" "pass_ok i dr lr"
  using assms(1)
proof (cases rule: guarding_cases)
  case answered
  then show ?thesis by (rule that(1))
next
  case interrupted
  show ?thesis
    using terminate_interrupted_execution_Inr(2,1) [OF interrupted assms(2)] by (rule that(2))
qed

section \<open>The model branch\<close>

definition ports_ok :: "'u core_ports \<Rightarrow> bool" where
  "ports_ok ports \<longleftrightarrow>
     (\<forall>tp. cp_tools ports = Some tp \<longrightarrow>
        (\<forall>n requests p. tp_prepare_batch tp n requests = Answered p \<longrightarrow>
           (\<forall>r \<in> set (bp_results p). wf_tool_result_parts r)) \<and>
        (\<forall>n batch_id rs. tp_execute_prepared tp n batch_id = Answered rs \<longrightarrow>
           (\<forall>r \<in> set rs. wf_tool_result_parts r)))"

lemma model_action_of_Answered:
  assumes "model_action_of snapshot usage ob = Answered action" and "canon_text py_strip (mo_observation_id ob)"
    and "\<forall>f. mo_error ob = Some f \<longrightarrow> wf_failure_record f"
  shows "ma_observation action = ob \<and> wf_observation (ModelObservation ob)"
proof -
  obtain ob' where o: "model_observation_post_init ob = Inr ob'" and a: "ma_observation action = ob'"
    using assms(1) by (cases "model_observation_post_init ob") (auto simp: model_action_of_def)
  have "ob' = ob"
    using o assms(2) by (auto simp: model_observation_post_init_def st_required_text_fix'
        split: if_splits)
  moreover have "wf_observation (ModelObservation ob')"
    by (rule observation_post_init_wf [of "ModelObservation ob"]) (simp_all add: o assms(3))
  ultimately show ?thesis using a by simp
qed

lemma model_failure_of_wf: "model_failure_of e oid = Inr f \<Longrightarrow> wf_failure_record f"
  by (cases e) (auto simp: Let_def dest: failure_record.post_init_valid)

lemma consume_stream_Answered:
  "consume_stream es fin oid purpose snapshot seen = Answered action \<Longrightarrow> canon_text py_strip oid \<Longrightarrow>
   wf_observation (ModelObservation (ma_observation action)) \<and>
   mo_observation_id (ma_observation action) = oid \<and>
   mo_purpose (ma_observation action) = purpose"
proof (induction es fin oid purpose snapshot seen rule: consume_stream.induct)
  case (3 oid purpose snapshot seen)
  then show ?case
    by (auto dest!: model_action_of_Answered failure_record.post_init_valid
        split: option.splits sum.splits)
next
  case (4 err attempts es fin oid purpose snapshot seen)
  then show ?case
    by (auto dest!: model_action_of_Answered model_failure_of_wf split: sum.splits)
qed simp_all

lemma call_model_once_Answered:
  assumes "call_model_once i ports messages s purpose directive oid clock = (Answered action, clock')"
    and "canon_text py_strip oid"
  shows "wf_observation (ModelObservation (ma_observation action))"
    "mo_observation_id (ma_observation action) = oid"
    "mo_purpose (ma_observation action) = purpose"
  using assms consume_stream_Answered
  by (force simp: call_model_once_def split: prod.splits answer.splits sum.splits)+

text \<open>What a pass that called the model and continues has done.\<close>

definition model_pass :: "reduction_context \<Rightarrow> model_purpose \<Rightarrow> 'u driver \<Rightarrow> 'u driver \<Rightarrow> bool" where
  "model_pass ctx purpose dr dr' \<longleftrightarrow>
     (\<exists>ob red. dr_observation dr' = ModelObservation ob \<and> wf_observation (ModelObservation ob) \<and>
        mo_observation_id ob = driver_id ''model'' (Suc (dr_sequence dr)) \<and>
        mo_purpose ob = purpose \<and>
        reduce_observation (dr_core dr) (ModelObservation ob) ctx = Inr red \<and>
        dr_core dr' = red_state red \<and> dr_sequence dr' = Suc (dr_sequence dr) \<and>
        mj_messages (dr_messages dr') = mj_messages (dr_messages dr)
          @ (case mo_message ob of None \<Rightarrow> [] | Some a \<Rightarrow> [AssistantMessage a]) \<and>
        mj_pending (dr_messages dr') = [])"

lemma finish_model_Inr:
  assumes "finish_model ports ctx action dr = Inr lr"
    and ob: "wf_observation (ModelObservation (ma_observation action))"
    and oid: "mo_observation_id (ma_observation action) = driver_id ''model'' (dr_sequence dr)"
  obtains dr' red where "lr = Continues dr'" "moves i dr dr'"
    "dr_observation dr' = ModelObservation (ma_observation action)"
    "reduce_observation (dr_core dr) (ModelObservation (ma_observation action)) ctx = Inr red"
    "dr_core dr' = red_state red" "dr_sequence dr' = dr_sequence dr"
    "mj_messages (dr_messages dr') = mj_messages (dr_messages dr)
       @ (case mo_message (ma_observation action) of None \<Rightarrow> [] | Some a \<Rightarrow> [AssistantMessage a])"
    "mj_pending (dr_messages dr') = []"
proof -
  let ?ob = "ma_observation action"
  let ?ms = "case mo_message ?ob of None \<Rightarrow> [] | Some a \<Rightarrow> [AssistantMessage a]"
  define dr1 where "dr1 = (extend_messages ?ms dr)\<lparr>dr_usage := (case ma_usage action of
      None \<Rightarrow> dr_usage (extend_messages ?ms dr) | Some u \<Rightarrow> Some u), dr_catalog_snapshot := ma_snapshot action\<rparr>"
  obtain red dr2 dr3 where r: "reduce_driver (ModelObservation ?ob) ctx dr1 = Inr (red, dr2)"
    and c: "commit_boundary ports AfterModel None dr2 = Inr dr3" and lr: "lr = Continues dr3"
    using assms(1) unfolding finish_model_def Let_def dr1_def [symmetric]
    by (auto simp: bindE_eq_Inr)
  have pi: "observation_post_init (ModelObservation ?ob) = Inr (ModelObservation ?ob)"
    using ob by (rule wf_observation_post_init)
  have d1: "dr_core dr1 = dr_core dr" "dr_sequence dr1 = dr_sequence dr"
    "mj_messages (dr_messages dr1) = mj_messages (dr_messages dr) @ ?ms"
    by (simp_all add: dr1_def extend_messages_def mj_extend_def)
  have red: "reduce_observation (dr_core dr) (ModelObservation ?ob) ctx = Inr red"
    and d2: "dr2 = dr1\<lparr>dr_core := red_state red, dr_observation := ModelObservation ?ob,
                dr_events := dr_events dr1 @ red_events red\<rparr>"
    using r pi d1 by (auto elim!: reduce_driver_Inr)
  have "moves i dr (extend_messages ?ms dr)" by simp
  also have "moves i \<dots> dr1" by (simp add: dr1_def)
  also have "moves i dr1 dr2"
    using r by (rule reduce_driver_moves) (use ob in \<open>simp add: wf_observation_def\<close>)
  also have "moves i dr2 dr3" using c by (rule commit_boundary_moves)
  finally have "moves i dr dr3" .
  then show ?thesis
    using that [OF lr] red commit_boundary_frame [OF c] d1 by (simp add: d2)
qed

lemma model_branch_Inr:
  assumes "model_branch i ports ctx purpose directive dr = Inr lr" and ok: "driver_ok i dr"
  shows "pass_ok i dr lr" and "lr = Continues dr' \<Longrightarrow> model_pass ctx purpose dr dr'"
proof -
  obtain dr1 where c: "commit_boundary ports BeforeModel None dr = Inr dr1"
    using assms(1) by (auto simp: model_branch_def bindE_eq_Inr)
  define oid where "oid = driver_id ''model'' (Suc (dr_sequence dr1))"
  let ?dr2 = "dr1\<lparr>dr_sequence := Suc (dr_sequence dr1)\<rparr>"
  obtain ans clock where call: "call_model_once i ports (mj_messages (dr_messages ?dr2)) (dr_core ?dr2)
      purpose directive oid (dr_clock ?dr2) = (ans, clock)" by force
  let ?dr3 = "?dr2\<lparr>dr_clock := clock\<rparr>"
  have g: "guarding ports ctx AfterModel ?dr3 ans (\<lambda>action. finish_model ports ctx action ?dr3) = Inr lr"
    using assms(1) c call by (simp add: model_branch_def driver_observation_id_eq oid_def Let_def)
  have "moves i dr dr1" using c by (rule commit_boundary_moves)
  also have "moves i dr1 ?dr2" using moves_frame(6) [of i dr1 "''model''"]
    by (simp add: driver_observation_id_eq)
  also have "moves i ?dr2 ?dr3" by simp
  finally have m: "moves i dr ?dr3" .
  have ok3: "driver_ok i ?dr3" using m ok by (rule movesD)
  have "pass_ok i dr lr \<and> (lr = Continues dr' \<longrightarrow> model_pass ctx purpose dr dr')"
  proof (rule guarding_Inr [OF g ok3])
    assume "is_return lr" "pass_ok i ?dr3 lr"
    moreover from this have "pass_ok i dr lr" using pass_ok_trans [OF m] by blast
    ultimately show ?thesis by (cases lr) auto
  next
    fix action
    assume a: "ans = Answered action" and k: "finish_model ports ctx action ?dr3 = Inr lr"
    let ?ob = "ma_observation action"
    note ob = call_model_once_Answered [OF call [unfolded a], unfolded oid_def, OF driver_id_canon]
    obtain dr4 red where f: "lr = Continues dr4" "moves i ?dr3 dr4"
      "dr_observation dr4 = ModelObservation ?ob"
      "reduce_observation (dr_core ?dr3) (ModelObservation ?ob) ctx = Inr red"
      "dr_core dr4 = red_state red" "dr_sequence dr4 = dr_sequence ?dr3"
      "mj_messages (dr_messages dr4) = mj_messages (dr_messages ?dr3)
         @ (case mo_message ?ob of None \<Rightarrow> [] | Some a \<Rightarrow> [AssistantMessage a])"
      "mj_pending (dr_messages dr4) = []"
      by (rule finish_model_Inr [OF k, where i = i]) (use ob in auto)
    have "model_pass ctx purpose dr dr4"
      unfolding model_pass_def
      by (rule exI [of _ ?ob], rule exI [of _ red])
         (use ob f commit_boundary_frame [OF c] in simp)
    moreover have "moves i dr dr4" using m f(2) by (rule moves_trans)
    ultimately show ?thesis using f(1) by auto
  qed
  then show "pass_ok i dr lr" and "lr = Continues dr' \<Longrightarrow> model_pass ctx purpose dr dr'" by blast+
qed

section \<open>The tools branch\<close>

lemma bounded_tool_calls_append:
  "bounded_tool_calls calls limit = (executable, deferred) \<Longrightarrow> calls = executable @ deferred"
  by (auto simp: bounded_tool_calls_def split: option.splits if_splits)

lemma tool_batch_preparation_results:
  "tool_batch_preparation_post_init p = Inr p' \<Longrightarrow> bp_results p' = bp_results p"
  by (auto simp: tool_batch_preparation_post_init_def Let_def split: if_splits)

lemma prepare_core_tool_batch_Answered:
  assumes "prepare_core_tool_batch i ports calls snapshot clock = (Answered p, clock')" and "ports_ok ports"
  shows "\<forall>r \<in> set (bp_results p). wf_tool_result_parts r"
proof (cases "cp_tools ports")
  case None
  then obtain rs where u: "unavailable_tool_results calls = Inr rs" and p: "bp_results p = rs"
    using assms(1)
    by (cases "unavailable_tool_results calls")
       (auto simp: prepare_core_tool_batch_def dest: tool_batch_preparation_results
         elim!: answer_of.elims)
  have "\<forall>r \<in> set rs. wf_tool_result_parts r"
    using traverse_error_results(2) [OF u [unfolded unavailable_tool_results_def]] by blast
  then show ?thesis by (simp add: p)
next
  case (Some tp)
  then show ?thesis
    using assms
    by (fastforce simp: prepare_core_tool_batch_def ports_ok_def
        dest: tool_batch_preparation_results elim!: answer_of.elims split: sum.splits answer.splits)
qed

lemma execute_core_tool_batch_Answered:
  assumes "execute_core_tool_batch ports p clock = (Answered rs, clock')" and "ports_ok ports"
  shows "\<forall>r \<in> set rs. wf_tool_result_parts r"
  using assms by (auto simp: execute_core_tool_batch_def ports_ok_def split: option.splits)

text \<open>A batch of the loop: the calls of the decision, one result each, and the commands of
  its successful plan tools.\<close>

definition tools_pass :: "reduction_context \<Rightarrow> tool_call list \<Rightarrow> 'u driver \<Rightarrow> 'u driver \<Rightarrow> bool" where
  "tools_pass ctx calls dr dr' \<longleftrightarrow>
     (\<exists>ob red. dr_observation dr' = ToolBatchObservation ob \<and>
        wf_observation (ToolBatchObservation ob) \<and>
        tbo_observation_id ob = driver_id ''tools'' (Suc (dr_sequence dr)) \<and>
        tbo_calls ob = calls \<and> answers calls (tbo_results ob) \<and>
        (tbo_commands ob \<noteq> [] \<longrightarrow> material_results (tbo_results ob) \<noteq> []) \<and>
        reduce_observation (dr_core dr) (ToolBatchObservation ob) ctx = Inr red \<and>
        dr_core dr' = red_state red \<and> dr_sequence dr' = Suc (dr_sequence dr))"

lemma unique_results_first:
  assumes "r \<in> set xs" and "\<forall>p \<in> set xs. \<forall>q \<in> set xs. to_tool_call_id p = to_tool_call_id q \<longrightarrow> p = q"
    and "to_tool_call_id r \<notin> set seen"
  shows "r \<in> set (unique_results seen (xs @ ys))"
  using assms
proof (induction xs arbitrary: seen)
  case Nil
  then show ?case by simp
next
  case (Cons x xs)
  show ?case
  proof (cases "x = r")
    case True
    with Cons.prems(3) show ?thesis by simp
  next
    case False
    with Cons.prems have "r \<in> set xs" "to_tool_call_id x \<noteq> to_tool_call_id r" by auto
    with Cons show ?thesis by simp
  qed
qed

lemma commands_are_material:
  assumes "project_core_commands (xs @ ys) = Inr commands" and "commands \<noteq> []"
    and "\<forall>p \<in> set xs. \<forall>q \<in> set xs. to_tool_call_id p = to_tool_call_id q \<longrightarrow> p = q"
    and "\<forall>r \<in> set (xs @ ys). wf_tool_result_parts r" and "\<forall>r \<in> set ys. to_status r = TInterrupted"
  shows "material_results (xs @ ys) \<noteq> []"
proof -
  have "filter is_plan_success (xs @ ys) \<noteq> []"
    using project_core_commands_Inr(2) [OF assms(1)] assms(2) by auto
  then obtain r where r: "r \<in> set (xs @ ys)" "is_plan_success r"
    by (auto simp: filter_empty_conv)
  then have x: "r \<in> set xs" using assms(5) by (auto simp: is_plan_success_def)
  have "wf_tool_result r" using assms(4) r(1) by (simp add: wf_tool_result_parts_def)
  then have "to_error r = None"
    using r(2) wf_tool_result_error [of r] by (auto simp: is_plan_success_def)
  then have "\<not> is_deferred r" by (simp add: is_deferred_def)
  moreover have "r \<in> set (unique_results [] (xs @ ys))"
    using x assms(3) by (rule unique_results_first) simp
  ultimately have "r \<in> set (material_results (xs @ ys))" by (simp add: material_results_def)
  then show ?thesis by auto
qed

lemma finish_tools_Inr:
  assumes "finish_tools i ports ctx calls deferred executed results dr = Inr lr"
    and calls: "calls = executable @ deferred" and ans: "answers executable results"
    and wf: "\<forall>r \<in> set results. wf_tool_result_parts r"
    and unique: "\<forall>p \<in> set results. \<forall>q \<in> set results. to_tool_call_id p = to_tool_call_id q \<longrightarrow> p = q"
  obtains dr' where "lr = Continues dr'" "moves i dr dr'" "tools_pass ctx calls dr dr'"
proof -
  define oid where "oid = driver_id ''tools'' (Suc (dr_sequence dr))"
  let ?dr = "dr\<lparr>dr_sequence := Suc (dr_sequence dr)\<rparr>"
  obtain limit late commands dr1 dr2 where
    l: "deferred_tool_results deferred limit = Inr late" and
    c: "project_core_commands (results @ late) = Inr commands" and
    b: "reduce_batch oid calls (results @ late) commands ctx ?dr = Inr dr1" and
    d: "(if executed \<or> \<not> has_external_wait (results @ late)
         then commit_boundary ports AfterTools None dr1 else Inr dr1) = Inr dr2" and
    lr: "lr = Continues dr2"
    using assms(1) by (auto simp: finish_tools_def bindE_eq_Inr Let_def driver_observation_id_eq oid_def)
  note late = deferred_tool_results_Inr [OF l]
  have wf': "\<forall>r \<in> set (results @ late). wf_tool_result_parts r" using wf late(2) by auto
  note cmds = project_core_commands_Inr(1) [OF c]
  have oid: "canon_text py_strip oid" by (simp add: oid_def)
  from b oid obtain red visible where
    r: "reduce_observation (dr_core ?dr) (ToolBatchObservation
       \<lparr>tbo_observation_id = oid, tbo_calls = calls, tbo_results = results @ late,
        tbo_commands = commands\<rparr>) ctx = Inr red" "dr_core dr1 = red_state red"
      "dr_observation dr1 = ToolBatchObservation
       \<lparr>tbo_observation_id = oid, tbo_calls = calls, tbo_results = results @ late,
        tbo_commands = commands\<rparr>" "dr_sequence dr1 = dr_sequence ?dr"
    by (rule reduce_batch_Inr)
  have "moves i dr ?dr" using moves_frame(6) [of i dr "''tools''"] by (simp add: driver_observation_id_eq)
  also have "moves i ?dr dr1" using b wf' cmds by (rule reduce_batch_moves)
  also have "moves i dr1 dr2"
    using d commit_boundary_moves by (metis moves_refl sum.inject(2))
  finally have m: "moves i dr dr2" .
  have frame: "dr_core dr2 = dr_core dr1" "dr_observation dr2 = dr_observation dr1"
    "dr_sequence dr2 = dr_sequence dr1"
    using d commit_boundary_frame by (metis sum.inject(2))+
  let ?ob = "\<lparr>tbo_observation_id = oid, tbo_calls = calls, tbo_results = results @ late,
        tbo_commands = commands\<rparr>"
  have "wf_observation (ToolBatchObservation ?ob)"
    using wf' cmds oid by (simp add: wf_observation_def)
  moreover have "answers calls (results @ late)"
    using ans late(1) by (simp add: answers_def calls)
  moreover have "commands \<noteq> [] \<longrightarrow> material_results (results @ late) \<noteq> []"
    using commands_are_material [OF c _ unique wf'] late(2) by blast
  ultimately have "tools_pass ctx calls dr dr2"
    unfolding tools_pass_def
    by (intro exI [of _ ?ob] exI [of _ red]) (use r frame in \<open>simp add: oid_def\<close>)
  then show ?thesis using that lr m by blast
qed

text \<open>What a pass of the tools branch comes to, from any later driver state of the pass.\<close>

definition tools_result ::
  "core_run_input \<Rightarrow> reduction_context \<Rightarrow> tool_call list \<Rightarrow> 'u driver \<Rightarrow> 'u loop_result \<Rightarrow> bool" where
  "tools_result i ctx calls dr lr \<longleftrightarrow>
     pass_ok i dr lr \<and> (\<forall>dr'. lr = Continues dr' \<longrightarrow> tools_pass ctx calls dr dr')"

lemma tools_result_later:
  assumes "tools_result i ctx calls dr1 lr" and "moves i dr dr1"
    and "dr_core dr1 = dr_core dr" "dr_sequence dr1 = dr_sequence dr"
  shows "tools_result i ctx calls dr lr"
  using assms pass_ok_trans [OF assms(2)] by (simp add: tools_result_def tools_pass_def)

lemma tools_result_return:
  "is_return lr \<Longrightarrow> pass_ok i dr lr \<Longrightarrow> tools_result i ctx calls dr lr"
  by (cases lr) (simp_all add: tools_result_def)

lemma completed_batch_result:
  assumes "finish_tools i ports ctx calls deferred executed results dr = Inr lr"
    and "complete_results executable returned = Inr results"
    and "\<forall>r \<in> set returned. wf_tool_result_parts r" and "calls = executable @ deferred"
  shows "tools_result i ctx calls dr lr"
proof -
  note cr = complete_results_Inr [OF assms(2,3)]
  show ?thesis
    by (rule finish_tools_Inr [OF assms(1,4) cr(2,6,7), where thesis = ?thesis])
       (auto simp: tools_result_def)
qed

lemma run_prepared_batch_result:
  assumes k: "run_prepared_batch i ports ctx calls executable deferred b dr = Inr lr"
    and ok: "driver_ok i dr" and p: "ports_ok ports" and calls: "calls = executable @ deferred"
    and results: "\<forall>r \<in> set (bp_results b). wf_tool_result_parts r"
  shows "tools_result i ctx calls dr lr"
proof (cases "bp_results b = []")
  case False
  with k obtain rs where "complete_results executable (bp_results b) = Inr rs"
    "finish_tools i ports ctx calls deferred False rs dr = Inr lr"
    by (auto simp: run_prepared_batch_def bindE_eq_Inr)
  then show ?thesis using completed_batch_result results calls by blast
next
  case True
  with k obtain dr2 where c2: "commit_boundary ports BeforeTools None dr = Inr dr2"
    by (auto simp: run_prepared_batch_def bindE_eq_Inr)
  obtain ans clock where e: "execute_core_tool_batch ports b (dr_clock dr2) = (ans, clock)" by force
  let ?dr3 = "dr2\<lparr>dr_clock := clock\<rparr>"
  have g: "guarding ports ctx AfterTools ?dr3 ans (\<lambda>returned.
       bindE (complete_results executable returned) (\<lambda>rs.
       finish_tools i ports ctx calls deferred True rs ?dr3)) = Inr lr"
    using k True c2 e by (simp add: run_prepared_batch_def Let_def)
  have m3: "moves i dr ?dr3" using commit_boundary_moves [OF c2] by (rule moves_trans) simp
  have "tools_result i ctx calls ?dr3 lr"
  proof (rule guarding_Inr [OF g movesD [OF m3 ok]])
    assume "is_return lr" "pass_ok i ?dr3 lr"
    then show ?thesis by (rule tools_result_return)
  next
    fix returned
    assume a: "ans = Answered returned"
      and "bindE (complete_results executable returned) (\<lambda>rs.
             finish_tools i ports ctx calls deferred True rs ?dr3) = Inr lr"
    then obtain rs where "complete_results executable returned = Inr rs"
      "finish_tools i ports ctx calls deferred True rs ?dr3 = Inr lr"
      by (auto simp: bindE_eq_Inr)
    then show ?thesis
      using completed_batch_result execute_core_tool_batch_Answered [OF e [unfolded a] p] calls
      by blast
  qed
  then show ?thesis by (rule tools_result_later) (use m3 commit_boundary_frame [OF c2] in simp_all)
qed

lemma tools_branch_result:
  assumes "tools_branch i ports ctx calls dr = Inr lr" and ok: "driver_ok i dr" and p: "ports_ok ports"
  shows "tools_result i ctx calls dr lr"
proof -
  obtain executable deferred where bd:
    "bounded_tool_calls calls (li_max_tool_calls_per_turn (in_limits i)) = (executable, deferred)"
    by force
  note calls = bounded_tool_calls_append [OF bd]
  show ?thesis
  proof (cases "executable = []")
    case True
    then have "finish_tools i ports ctx calls deferred False [] dr = Inr lr"
      using assms(1) bd by (simp add: tools_branch_def)
    then show ?thesis
      by (rule completed_batch_result [where returned = "[]" and executable = "[]"])
         (simp_all add: calls True complete_results_def interrupted_tool_results_def)
  next
    case False
    obtain ans clock where call: "prepare_core_tool_batch i ports executable (dr_catalog_snapshot dr)
        (dr_clock dr) = (ans, clock)" by force
    let ?dr1 = "dr\<lparr>dr_clock := clock\<rparr>"
    have ok1: "driver_ok i ?dr1" using moves_frame(1) ok by (rule movesD)
    have g: "guarding ports ctx AfterTools ?dr1 ans
        (\<lambda>b. run_prepared_batch i ports ctx calls executable deferred b ?dr1) = Inr lr"
      using assms(1) bd False call by (simp add: tools_branch_def Let_def)
    have "tools_result i ctx calls ?dr1 lr"
    proof (rule guarding_Inr [OF g ok1])
      assume "is_return lr" "pass_ok i ?dr1 lr"
      then show ?thesis by (rule tools_result_return)
    next
      fix b
      assume a: "ans = Answered b"
        and k: "run_prepared_batch i ports ctx calls executable deferred b ?dr1 = Inr lr"
      show ?thesis
        using k ok1 p calls prepare_core_tool_batch_Answered [OF call [unfolded a] p]
        by (rule run_prepared_batch_result)
    qed
    then show ?thesis by (rule tools_result_later) simp_all
  qed
qed

section \<open>A pass through the loop\<close>

abbreviation run_policy :: "core_run_input \<Rightarrow> policy_context" where
  "run_policy i \<equiv> \<lparr>pc_mode = in_mode i, pc_limits = in_limits i\<rparr>"

lemma cancellation_terminates:
  assumes "policy_decide s ob ctx = Inr d" and "is_cancellation ob"
  shows "\<exists>t. d = Terminate t"
  using assms
  by (cases ob)
     (auto simp: policy_decide_def decide_task_status_def decide_fatal_def decide_cancelled_def
        split: if_splits option.splits dest!: mk_terminate_Inr)

lemma settle_before_moves:
  assumes "settle_before ports ctx d dr = Inr dr'"
  shows "moves i dr dr'" and "\<not> must_settle d \<Longrightarrow> dr' = dr"
  using assms settle_unexecuted_calls_moves(1)
  by (auto simp: settle_before_def Let_def split: if_splits)

lemma execute_wait_Inr:
  assumes "execute_decision i ports ctx (Wait w) dr = Inr lr"
  obtains oc dr' where "lr = Returns oc dr'" "concluded oc dr'" "oc_status oc = OutWaiting"
    "oc_wait oc = Some w" "oc_reason oc = cw_reason w" "moves i dr dr'"
    "commit_boundary ports Waiting (Some w) dr = Inr dr'"
proof -
  obtain dr' where c: "commit_boundary ports Waiting (Some w) dr = Inr dr'"
    and r: "returning dr' (driver_outcome dr' OutWaiting (cw_reason w) (Some w) None) = Inr lr"
    using assms by (auto simp: bindE_eq_Inr)
  obtain oc where "lr = Returns oc dr'" "concluded oc dr'" "oc_status oc = OutWaiting"
    "oc_wait oc = Some w" "oc_reason oc = cw_reason w"
    using r commit_boundary_frame(4,5) [OF c] by (auto elim!: returning_Inr)
  then show ?thesis using that commit_boundary_moves [OF c] c by blast
qed

lemma execute_terminate_Inr:
  assumes "execute_decision i ports ctx (Terminate t) dr = Inr lr"
  obtains oc dr' where "lr = Returns oc dr'" "concluded oc dr'"
    "oc_status oc = outcome_of_termination (te_term_status t)" "moves i dr dr'"
    "commit_boundary ports BeforeTerminal None dr = Inr dr'"
proof -
  obtain dr' reason where c: "commit_boundary ports BeforeTerminal None dr = Inr dr'"
    and r: "returning dr' (driver_outcome dr' (outcome_of_termination (te_term_status t)) reason
              None None) = Inr lr"
    using assms by (auto simp: bindE_eq_Inr)
  obtain oc where "lr = Returns oc dr'" "concluded oc dr'"
    "oc_status oc = outcome_of_termination (te_term_status t)"
    using r commit_boundary_frame(4,5) [OF c] by (auto elim!: returning_Inr)
  then show ?thesis using that commit_boundary_moves [OF c] c by blast
qed

lemma execute_decision_Inr:
  assumes "execute_decision i ports ctx d dr = Inr lr" and "driver_ok i dr" and "ports_ok ports"
  shows "pass_ok i dr lr"
    and "lr = Continues dr' \<Longrightarrow>
      (\<exists>purpose directive reason. d = CallModel purpose directive reason \<and> model_pass ctx purpose dr dr') \<or>
      (\<exists>calls reason. d = ExecuteTools calls reason \<and> tools_pass ctx calls dr dr')"
proof -
  have "pass_ok i dr lr \<and> (lr = Continues dr' \<longrightarrow>
      (\<exists>purpose directive reason. d = CallModel purpose directive reason \<and> model_pass ctx purpose dr dr') \<or>
      (\<exists>calls reason. d = ExecuteTools calls reason \<and> tools_pass ctx calls dr dr'))"
  proof (cases d)
    case (CallModel purpose directive reason)
    then show ?thesis using assms model_branch_Inr(1) [of i ports ctx purpose directive dr lr]
      model_branch_Inr(2) [of i ports ctx purpose directive dr lr dr'] by auto
  next
    case (ExecuteTools calls reason)
    then show ?thesis using assms tools_branch_result [of i ports ctx calls dr lr] by (auto simp: tools_result_def)
  next
    case (Wait w)
    show ?thesis
      by (rule execute_wait_Inr [OF assms(1) [unfolded Wait]]) auto
  next
    case (Terminate t)
    show ?thesis
      by (rule execute_terminate_Inr [OF assms(1) [unfolded Terminate]]) auto
  qed
  then show "pass_ok i dr lr"
    and "lr = Continues dr' \<Longrightarrow>
      (\<exists>purpose directive reason. d = CallModel purpose directive reason \<and> model_pass ctx purpose dr dr') \<or>
      (\<exists>calls reason. d = ExecuteTools calls reason \<and> tools_pass ctx calls dr dr')" by blast+
qed

lemma loop_body_steps:
  assumes "loop_body i ports ctx dr = Inr lr" and "driver_ok i dr"
  obtains cancelled dr1 d dr2 dr3 where
    "observe_cancellation ports ctx dr = Inr (cancelled, dr1)" "moves i dr dr1" "driver_ok i dr1"
    "policy_decide (dr_core dr1) (dr_observation dr1) (run_policy i) = Inr d"
    "settle_before ports ctx d dr1 = Inr dr2" "moves i dr dr2" "driver_ok i dr2"
    "apply_driver_decision d dr2 = Inr dr3" "moves i dr dr3" "driver_ok i dr3"
    "execute_decision i ports ctx d dr3 = Inr lr"
proof -
  obtain cancelled dr1 d dr2 dr3 where
    o: "observe_cancellation ports ctx dr = Inr (cancelled, dr1)" and
    p: "policy_decide (dr_core dr1) (dr_observation dr1) (run_policy i) = Inr d" and
    s: "settle_before ports ctx d dr1 = Inr dr2" and
    a: "apply_driver_decision d dr2 = Inr dr3" and
    e: "execute_decision i ports ctx d dr3 = Inr lr"
    using assms(1) by (auto simp: loop_body_def bindE_eq_Inr)
  have m1: "moves i dr dr1" using o by (rule observe_cancellation_Inr)
  have m2: "moves i dr dr2" using m1 settle_before_moves(1) [OF s] by (rule moves_trans)
  have ok2: "driver_ok i dr2" using m2 assms(2) by (rule movesD)
  have "moves i dr2 dr3" using a driver_ok_parts(1) [OF ok2] by (rule apply_driver_decision_Inr)
  with m2 have m3: "moves i dr dr3" by (rule moves_trans)
  show ?thesis
    using that [OF o m1 _ p s m2 ok2 a m3 _ e] movesD [OF m1 assms(2)] movesD [OF m3 assms(2)] by blast
qed

lemma loop_body_Inr:
  assumes "loop_body i ports ctx dr = Inr lr" and "driver_ok i dr" and "ports_ok ports"
  shows "pass_ok i dr lr"
    and "lr = Continues dr' \<Longrightarrow> \<exists>d dr1.
      policy_decide (dr_core dr) (dr_observation dr) (run_policy i) = Inr d \<and>
      dr_core dr1 = decided d (dr_core dr) \<and> dr_observation dr1 = dr_observation dr \<and>
      dr_sequence dr1 = dr_sequence dr \<and> driver_ok i dr1 \<and>
      ((\<exists>purpose directive reason. d = CallModel purpose directive reason \<and> model_pass ctx purpose dr1 dr') \<or>
       (\<exists>calls reason. d = ExecuteTools calls reason \<and> tools_pass ctx calls dr1 dr'))"
proof -
  from assms(1,2) obtain cancelled dr1 d dr2 dr3 where
    o: "observe_cancellation ports ctx dr = Inr (cancelled, dr1)" and
    p: "policy_decide (dr_core dr1) (dr_observation dr1) (run_policy i) = Inr d" and
    s: "settle_before ports ctx d dr1 = Inr dr2" "driver_ok i dr2" and
    a: "apply_driver_decision d dr2 = Inr dr3" "moves i dr dr3" "driver_ok i dr3" and
    e: "execute_decision i ports ctx d dr3 = Inr lr"
    by (rule loop_body_steps)
  note ex = execute_decision_Inr [OF e a(3) assms(3)]
  show "pass_ok i dr lr" using a(2) ex(1) by (rule pass_ok_trans)
  assume lr: "lr = Continues dr'"
  note alts = ex(2) [OF lr]
  then have "\<not> must_settle d" and "\<nexists>t. d = Terminate t" by auto
  have dr2: "dr2 = dr1" using s(1) \<open>\<not> must_settle d\<close> by (rule settle_before_moves)
  have "\<not> cancelled"
    using observe_cancellation_Inr(2) [OF o] cancellation_terminates [OF p] \<open>\<nexists>t. d = Terminate t\<close>
    by auto
  then have d1: "dr_core dr1 = dr_core dr" "dr_observation dr1 = dr_observation dr"
    "dr_sequence dr1 = dr_sequence dr"
    using observe_cancellation_Inr(2) [OF o] by simp_all
  note ad = apply_driver_decision_Inr [OF a(1) driver_ok_parts(1) [OF s(2)]]
  show "\<exists>d dr1.
      policy_decide (dr_core dr) (dr_observation dr) (run_policy i) = Inr d \<and>
      dr_core dr1 = decided d (dr_core dr) \<and> dr_observation dr1 = dr_observation dr \<and>
      dr_sequence dr1 = dr_sequence dr \<and> driver_ok i dr1 \<and>
      ((\<exists>purpose directive reason. d = CallModel purpose directive reason \<and> model_pass ctx purpose dr1 dr') \<or>
       (\<exists>calls reason. d = ExecuteTools calls reason \<and> tools_pass ctx calls dr1 dr'))"
    by (rule exI [of _ d], rule exI [of _ dr3]) (use p d1 dr2 ad a(3) alts in simp)
qed

section \<open>Whole runs\<close>

lemma drive_Inr:
  "drive fuel i ports ctx dr = Some (Inr (oc, dr')) \<Longrightarrow> driver_ok i dr \<Longrightarrow> ports_ok ports \<Longrightarrow>
   driver_ok i dr' \<and> driver_le dr dr' \<and> concluded oc dr'"
proof (induction fuel arbitrary: dr)
  case 0
  then show ?case by simp
next
  case (Suc fuel)
  then obtain lr where b: "loop_body i ports ctx dr = Inr lr"
    by (auto split: sum.splits)
  note ok = loop_body_Inr(1) [OF b Suc.prems(2,3)]
  show ?case
  proof (cases lr)
    case (Returns oc2 dr2)
    with Suc.prems b ok show ?thesis by (simp add: moves_def)
  next
    case (Continues dr1)
    with Suc.prems(1) b have d: "drive fuel i ports ctx dr1 = Some (Inr (oc, dr'))" by simp
    have m: "driver_ok i dr1" "driver_le dr dr1" using ok Continues Suc.prems(2) by (simp_all add: moves_def)
    from Suc.IH [OF d m(1) Suc.prems(3)] m(2) show ?thesis using driver_le_trans by blast
  qed
qed

text \<open>The input's state and results were built by their constructors.\<close>

definition input_ok :: "core_run_input \<Rightarrow> bool" where
  "input_ok i \<longleftrightarrow> wf_core_state (in_state i) \<and>
     (case in_entry i of ToolResultEntry rs \<Rightarrow> \<forall>r \<in> set rs. wf_tool_result_parts r
      | ModelEntry m \<Rightarrow> True)"

lemma driver_start_ok:
  assumes "driver_start i = Inr dr" and "input_ok i"
  shows "driver_ok i dr" and "dr_core dr = in_state i" and "dr_committed dr = []"
    and "mj_added (dr_messages dr) = []" and "last_observation_sequence (in_state i) = Inr (dr_sequence dr)"
proof -
  obtain ob n where ob: "initial_observation i = Inr ob"
    and n: "last_observation_sequence (in_state i) = Inr n"
    and dr: "dr = \<lparr>dr_core = in_state i, dr_observation = ob, dr_messages = mj_start (in_messages i),
          dr_events = [], dr_usage = None, dr_catalog_snapshot = None, dr_sequence = n,
          dr_clock = 0, dr_committed = []\<rparr>"
    using assms(1) by (auto simp: driver_start_def bindE_eq_Inr)
  have "wf_observation ob"
    using ob unfolding initial_observation_def bindE_eq_Inr Let_def
    by (elim exE conjE, elim observation_post_init_wf) (simp split: core_entry.split option.split)
  then show "driver_ok i dr" and "dr_core dr = in_state i" and "dr_committed dr = []"
    and "mj_added (dr_messages dr) = []" and "last_observation_sequence (in_state i) = Inr (dr_sequence dr)"
    using assms(2) n by (simp_all add: dr driver_ok_def mj_start_def history_def input_ok_def)
qed

lemma enter_tool_results_moves:
  assumes "bindE (complete_results calls entry_results) (\<lambda>results.
         bindE (project_core_commands entry_results) (\<lambda>commands.
         bindE (reduce_batch oid calls results commands ctx dr) (\<lambda>dr.
         commit_boundary ports AfterTools None dr))) = Inr dr'"
    and wf: "\<forall>r \<in> set entry_results. wf_tool_result_parts r"
  shows "moves i dr dr'"
proof -
  obtain results commands dr1 where c: "complete_results calls entry_results = Inr results"
    and p: "project_core_commands entry_results = Inr commands"
    and b: "reduce_batch oid calls results commands ctx dr = Inr dr1"
    and b': "commit_boundary ports AfterTools None dr1 = Inr dr'"
    using assms(1) by (auto simp: bindE_eq_Inr)
  have "moves i dr dr1"
    using b complete_results_Inr(6) [OF c wf] project_core_commands_Inr(1) [OF p]
    by (rule reduce_batch_moves)
  also have "moves i dr1 dr'" using b' by (rule commit_boundary_moves)
  finally show ?thesis .
qed

lemma enter_run_moves:
  assumes "enter_run i ports ctx dr = Inr dr'" and "input_ok i" and "driver_ok i dr"
  shows "moves i dr dr'"
proof -
  obtain cancelled dr1 where o: "observe_cancellation ports ctx dr = Inr (cancelled, dr1)"
    and k: "(if cancelled then Inr dr1
     else (case in_entry i of
       ToolResultEntry entry_results \<Rightarrow>
         let calls = unsettled_tool_calls (mj_messages (dr_messages dr1));
             (oid, dr) = driver_observation_id ''entry_tools'' dr1 in
         bindE (complete_results calls entry_results) (\<lambda>results.
         bindE (project_core_commands entry_results) (\<lambda>commands.
         bindE (reduce_batch oid calls results commands ctx dr) (\<lambda>dr.
         commit_boundary ports AfterTools None dr)))
     | ModelEntry None \<Rightarrow> mapE snd (reduce_driver (dr_observation dr1) ctx dr1)
     | ModelEntry (Some message) \<Rightarrow> Inr dr1)) = Inr dr'"
    using assms(1) by (auto simp: enter_run_def bindE_eq_Inr)
  have m: "moves i dr dr1" using o by (rule observe_cancellation_Inr)
  have ok: "driver_ok i dr1" using m assms(3) by (rule movesD)
  have "moves i dr1 dr'"
  proof (cases "cancelled")
    case True
    with k show ?thesis by simp
  next
    case False
    show ?thesis
    proof (cases "in_entry i")
      case (ToolResultEntry rs)
      let ?dr = "snd (driver_observation_id ''entry_tools'' dr1)"
      have "moves i dr1 ?dr" by simp
      also have "moves i ?dr dr'"
        using k False ToolResultEntry assms(2)
        by (intro enter_tool_results_moves [where oid = "fst (driver_observation_id ''entry_tools'' dr1)"])
           (auto simp: input_ok_def Let_def driver_observation_id_eq)
      finally show ?thesis .
    next
      case (ModelEntry m)
      show ?thesis
      proof (cases m)
        case None
        with k False ModelEntry obtain red where
          "reduce_driver (dr_observation dr1) ctx dr1 = Inr (red, dr')"
          by (auto simp: mapE_eq_Inr)
        then show ?thesis
          by (rule reduce_driver_moves)
             (use driver_ok_parts(2) [OF ok] in \<open>cases "dr_observation dr1"; simp add: wf_observation_def\<close>)
      qed (use k False ModelEntry in auto)
    qed
  qed
  with m show ?thesis by (rule moves_trans)
qed

text \<open>A run is its start, its entry and its loop.\<close>

lemma run_driver_Inr:
  assumes "run_driver fuel i ports = Some (Inr (oc, dr'))"
  obtains ctx dr0 dr1 where "run_context i = Inr ctx" "driver_start i = Inr dr0"
    "enter_run i ports ctx dr0 = Inr dr1" "drive fuel i ports ctx dr1 = Some (Inr (oc, dr'))"
  using assms by (auto simp: run_driver_def bindE_eq_Inr mapE_eq_Inr split: sum.splits)

lemma run_driver_ok:
  assumes "run_driver fuel i ports = Some (Inr (oc, dr'))" and "input_ok i" and "ports_ok ports"
  shows "driver_ok i dr'" and "concluded oc dr'" and "core_le (in_state i) (dr_core dr')"
proof -
  from assms(1) obtain ctx dr0 dr1 where s: "driver_start i = Inr dr0"
    and e: "enter_run i ports ctx dr0 = Inr dr1"
    and d: "drive fuel i ports ctx dr1 = Some (Inr (oc, dr'))"
    by (rule run_driver_Inr)
  note st = driver_start_ok [OF s assms(2)]
  have m: "driver_ok i dr1" "driver_le dr0 dr1"
    using enter_run_moves [OF e assms(2) st(1)] st(1) by (simp_all add: moves_def)
  note dd = drive_Inr [OF d m(1) assms(3)]
  show "driver_ok i dr'" and "concluded oc dr'" using dd by blast+
  have "driver_le dr0 dr'" using m(2) dd driver_le_trans by blast
  then show "core_le (in_state i) (dr_core dr')" using st(2) by (simp add: driver_le_def)
qed

end
