(* ===== verification/Driver_Termination.thy ===== *)
theory Driver_Termination
  imports Driver_Facts
begin

text \<open>
  The run loop of \<open>Core_Driver\<close> returns. A pass that continues has called the model or run
  tools. The model is called only within the budgets, so a pass that calls it lowers the
  turns that are left, or its observation was ignored because its id was already in the
  ledger (tool call ids, which the model chooses, get into the ledger as command ids): then
  one id that the driver may still use is gone. Tools run at most once after each call of the
  model, and a batch that puts command ids into the ledger also counts an iteration. So a
  lexicographic rank falls with every pass, whatever the ports answer.
\<close>

section \<open>What a reduction does to the counters and the ledger\<close>

lemma sync_verification_blocker_ids:
  assumes "sync_verification_blocker s = Inr t" and "wf_core_state s"
  shows "applied_ids t = applied_ids s"
  using assms
  by (auto simp: sync_verification_blocker_def Let_def bindE_eq_Inr record_failure_eq
        put_blocker_eq remove_blocker_eq split: if_splits
        dest!: failure_record.post_init_valid task_blocker.post_init_valid)

lemma reduce_tools_no_commands:
  assumes s: "wf_core_state s" and ob: "wf_observation (ToolBatchObservation ob)"
    and r: "reduce_tools s ob ctx = Inr red" and none: "tbo_commands ob = []"
  shows "applied_ids (red_state red) = applied_ids s"
proof -
  let ?m = "material_results (tbo_results ob)"
  from s ob r obtain w ws v s4 s5 evs s6 cmds guards' where
    w: "reduce_workspace (rf_workspace (cs_facts s)) ?m = Inr (w, ws)" and
    v: "reduce_verification (rf_verification (cs_facts s)) ?m w ws = Inr v" and
    s4: "sync_verification_blocker (batch_facts s ?m w v) = Inr s4" and
    s5: "record_tool_failures s4 ?m = Inr (s5, evs)" and
    s6: "sync_replan_blocker s5 = Inr s6" and
    cmds: "apply_commands s6 (tbo_commands ob) ctx = Inr cmds" and
    red: "red_state red =
       (let t = (if clean_batch ?m then cleared (red_state cmds) else red_state cmds)
        in t\<lparr>cs_facts := (cs_facts t)\<lparr>rf_loop_guards := guards'\<rparr>\<rparr>)"
    by (rule reduce_tools_stages)
  have wf: "wf_workspace_facts w" "wf_verification_facts v"
    using reduce_workspace_wf [OF w] reduce_verification_wf [OF v] s by (simp_all add: wf_parts)
  have b: "wf_core_state (batch_facts s ?m w v)"
    using s wf batch_counters_wf [OF s] by (simp add: batch_facts_def wf_core_state_def wf_run_facts_def)
  have "applied_ids s4 = applied_ids s"
    using sync_verification_blocker_ids [OF s4 b] by (simp add: batch_facts_def applied_ids_def)
  moreover have w4: "wf_core_state s4" using s4 b by (rule sync_verification_blocker_state)
  moreover have of5: "only_failures s4 s5" using s5 w4 by (rule record_tool_failures_state)
  moreover have "only_failures s5 s6" using s6 only_failures_wf [OF of5] by (rule sync_replan_blocker_state)
  moreover have "red_state cmds = s6" using cmds none by auto
  ultimately show ?thesis
    unfolding red Let_def by (simp add: applied_ids_guards only_failures_def)
qed

text \<open>A model observation, reduced.\<close>

lemma model_reduction:
  assumes "reduce_observation s (ModelObservation ob) ctx = Inr red" and s: "wf_core_state s"
    and ob: "wf_observation (ModelObservation ob)"
  shows "if mo_observation_id ob \<in> set (applied_ids s) then red_state red = s
    else set (applied_ids (red_state red)) = insert (mo_observation_id ob) (set (applied_ids s)) \<and>
      cc_model_turns (rf_counters (cs_facts (red_state red))) =
        cc_model_turns (rf_counters (cs_facts s)) + 1 \<and>
      cc_tool_iterations (rf_counters (cs_facts (red_state red))) =
        cc_tool_iterations (rf_counters (cs_facts s))"
  using assms
proof (cases rule: reduce_observation_cases)
  case seen
  then show ?thesis by simp
next
  case (new red')
  obtain evs where "reduce_model s ob =
    Inr (reduction (case model_failure ob of None \<Rightarrow> turned s ob
                    | Some f \<Rightarrow> failed_with f (turned s ob)) evs [])"
    using reduce_model_eq [OF s ob] by blast
  then have "red_state red' = (case model_failure ob of None \<Rightarrow> turned s ob
                    | Some f \<Rightarrow> failed_with f (turned s ob))"
    using new(2) by auto
  then have "applied_ids (red_state red') = applied_ids s"
    "cc_model_turns (rf_counters (cs_facts (red_state red'))) =
       cc_model_turns (rf_counters (cs_facts s)) + 1"
    "cc_tool_iterations (rf_counters (cs_facts (red_state red'))) =
       cc_tool_iterations (rf_counters (cs_facts s))"
    by (auto simp: turned_def applied_ids_def split: option.split)
  with new(1) show ?thesis by (simp add: new(4) applied_ids_noted)
qed

text \<open>A batch, reduced.\<close>

lemma batch_reduction:
  assumes "reduce_observation s (ToolBatchObservation ob) ctx = Inr red" and s: "wf_core_state s"
    and ob: "wf_observation (ToolBatchObservation ob)"
    and cmds: "tbo_commands ob \<noteq> [] \<longrightarrow> material_results (tbo_results ob) \<noteq> []"
  shows "red_state red = s \<or>
    cc_model_turns (rf_counters (cs_facts (red_state red))) = cc_model_turns (rf_counters (cs_facts s)) \<and>
    (cc_tool_iterations (rf_counters (cs_facts (red_state red))) =
       cc_tool_iterations (rf_counters (cs_facts s)) + 1 \<or>
     cc_tool_iterations (rf_counters (cs_facts (red_state red))) =
       cc_tool_iterations (rf_counters (cs_facts s)) \<and>
     set (applied_ids (red_state red)) = insert (tbo_observation_id ob) (set (applied_ids s)))"
  using assms(1) s ob
proof (cases rule: reduce_observation_cases)
  case seen
  then show ?thesis by simp
next
  case (new red')
  have r: "reduce_tools s ob ctx = Inr red'" using new(2) by simp
  have counters: "rf_counters (cs_facts (red_state red')) = batch_counters s (material_results (tbo_results ob))"
    by (rule reduce_tools_facts [OF s ob r])
  show ?thesis
  proof (cases "material_results (tbo_results ob) = []")
    case True
    with cmds have "tbo_commands ob = []" by blast
    then have "applied_ids (red_state red') = applied_ids s"
      by (rule reduce_tools_no_commands [OF s ob r])
    then show ?thesis
      using True counters by (simp add: new(4) batch_counters_def Let_def applied_ids_noted)
  next
    case False
    then show ?thesis using counters by (simp add: new(4) batch_counters_def Let_def)
  qed
qed

section \<open>The rank\<close>

text \<open>The ids in the ledger that the driver could still use.\<close>

definition future_ids :: "nat \<Rightarrow> core_state \<Rightarrow> string set" where
  "future_ids n s = {oid \<in> set (applied_ids s). \<exists>m > n. id_suffix oid = str_nat m}"

lemma future_ids_finite [simp]: "finite (future_ids n s)"
  by (simp add: future_ids_def)

lemma future_ids_used:
  assumes "set (applied_ids t) \<subseteq> insert (driver_id kind (Suc n)) (set (applied_ids s))"
  shows "future_ids (Suc n) t \<subseteq> future_ids n s"
proof
  fix oid assume "oid \<in> future_ids (Suc n) t"
  then obtain m where m: "oid \<in> set (applied_ids t)" "m > Suc n" "id_suffix oid = str_nat m"
    by (auto simp: future_ids_def)
  then have "oid \<noteq> driver_id kind (Suc n)" by auto
  with m assms have "oid \<in> set (applied_ids s)" by auto
  with m show "oid \<in> future_ids n s" unfolding future_ids_def using Suc_lessD by blast
qed

lemma future_ids_seen:
  assumes "driver_id kind (Suc n) \<in> set (applied_ids s)"
  shows "card (future_ids (Suc n) s) < card (future_ids n s)"
proof (rule psubset_card_mono)
  have "driver_id kind (Suc n) \<in> future_ids n s" using assms by (auto simp: future_ids_def)
  moreover have "driver_id kind (Suc n) \<notin> future_ids (Suc n) s" by (auto simp: future_ids_def)
  moreover have "future_ids (Suc n) s \<subseteq> future_ids n s" using assms by (intro future_ids_used) auto
  ultimately show "future_ids (Suc n) s \<subset> future_ids n s" by blast
qed simp

definition iterations_left :: "core_limits \<Rightarrow> core_state \<Rightarrow> nat" where
  "iterations_left l s =
     nat (li_max_tool_iterations l + 1 - cc_tool_iterations (rf_counters (cs_facts s)))"

definition turns_left :: "core_limits \<Rightarrow> core_state \<Rightarrow> nat" where
  "turns_left l s = nat (li_max_model_turns l + 1 - cc_model_turns (rf_counters (cs_facts s)))"

definition rank :: "core_limits \<Rightarrow> 'u driver \<Rightarrow> nat \<times> nat \<times> nat" where
  "rank l dr =
     (iterations_left l (dr_core dr),
      if iterations_left l (dr_core dr) = 0 then 0
      else turns_left l (dr_core dr) + card (future_ids (dr_sequence dr) (dr_core dr)),
      if observed_tool_calls (dr_observation dr) = [] then 0 else 1)"

definition rank_less :: "((nat \<times> nat \<times> nat) \<times> (nat \<times> nat \<times> nat)) set" where
  "rank_less = less_than <*lex*> less_than <*lex*> less_than"

lemma wf_rank_less: "wf rank_less"
  by (simp add: rank_less_def wf_lex_prod)

lemma in_rank_less [simp]:
  "((a, b, c), (a', b', c')) \<in> rank_less \<longleftrightarrow> a < a' \<or> a = a' \<and> (b < b' \<or> b = b' \<and> c < c')"
  by (simp add: rank_less_def)

lemma budget_left:
  assumes "budget_reason s ob \<lparr>pc_mode = m, pc_limits = l\<rparr> = None"
  shows "cc_model_turns (rf_counters (cs_facts s)) \<le> li_max_model_turns l"
    and "cc_tool_iterations (rf_counters (cs_facts s)) \<le> li_max_tool_iterations l"
  using assms by (auto simp: budget_reason_def Let_def split: if_splits)

text \<open>A call of the model.\<close>

lemma model_pass_rank:
  assumes p: "model_pass ctx purpose dr dr'" and w: "wf_core_state (dr_core dr)"
    and turns: "cc_model_turns (rf_counters (cs_facts (dr_core dr))) \<le> li_max_model_turns l"
    and iterations: "cc_tool_iterations (rf_counters (cs_facts (dr_core dr))) \<le> li_max_tool_iterations l"
  shows "(rank l dr', rank l dr) \<in> rank_less"
proof -
  let ?s = "dr_core dr" and ?n = "dr_sequence dr" and ?t = "dr_core dr'"
  obtain ob red where ob: "wf_observation (ModelObservation ob)"
    "mo_observation_id ob = driver_id ''model'' (Suc ?n)"
    and r: "reduce_observation ?s (ModelObservation ob) ctx = Inr red"
    and t: "?t = red_state red" "dr_sequence dr' = Suc ?n"
    using p by (auto simp: model_pass_def)
  note m = model_reduction [OF r w ob(1), folded t(1), unfolded ob(2)]
  have left: "0 < iterations_left l ?s" using iterations by (simp add: iterations_left_def)
  have "iterations_left l ?t = iterations_left l ?s \<and>
    turns_left l ?t + card (future_ids (Suc ?n) ?t) < turns_left l ?s + card (future_ids ?n ?s)"
  proof (cases "driver_id ''model'' (Suc ?n) \<in> set (applied_ids ?s)")
    case True
    then have "?t = ?s" using m by simp
    with future_ids_seen [OF True] show ?thesis by simp
  next
    case False
    then have "card (future_ids (Suc ?n) ?t) \<le> card (future_ids ?n ?s)"
      using m by (intro card_mono future_ids_used [where kind = "''model''"]) auto
    moreover have "turns_left l ?t < turns_left l ?s" "iterations_left l ?t = iterations_left l ?s"
      using m False turns by (simp_all add: turns_left_def iterations_left_def)
    ultimately show ?thesis by linarith
  qed
  then show ?thesis using left by (simp add: rank_def t(2))
qed

text \<open>A batch of tools.\<close>

lemma tools_pass_rank:
  assumes p: "tools_pass ctx calls dr dr'" and w: "wf_core_state (dr_core dr)"
    and calls: "observed_tool_calls (dr_observation dr) \<noteq> []"
  shows "(rank l dr', rank l dr) \<in> rank_less"
proof -
  let ?s = "dr_core dr" and ?n = "dr_sequence dr" and ?t = "dr_core dr'"
  obtain ob red where ob: "wf_observation (ToolBatchObservation ob)"
    "tbo_observation_id ob = driver_id ''tools'' (Suc ?n)"
    and cmds: "tbo_commands ob \<noteq> [] \<longrightarrow> material_results (tbo_results ob) \<noteq> []"
    and r: "reduce_observation ?s (ToolBatchObservation ob) ctx = Inr red"
    and t: "?t = red_state red" "dr_sequence dr' = Suc ?n"
      "dr_observation dr' = ToolBatchObservation ob"
    using p by (auto simp: tools_pass_def)
  note b = batch_reduction [OF r w ob(1) cmds, folded t(1), unfolded ob(2)]
  then consider (more) "cc_tool_iterations (rf_counters (cs_facts ?t)) =
        cc_tool_iterations (rf_counters (cs_facts ?s)) + 1"
    | (same) "cc_tool_iterations (rf_counters (cs_facts ?t)) =
        cc_tool_iterations (rf_counters (cs_facts ?s))"
      "cc_model_turns (rf_counters (cs_facts ?t)) = cc_model_turns (rf_counters (cs_facts ?s))"
      "set (applied_ids ?t) \<subseteq> insert (driver_id ''tools'' (Suc ?n)) (set (applied_ids ?s))"
    by (cases "?t = ?s") auto
  then show ?thesis
  proof cases
    case more
    then have "iterations_left l ?t < iterations_left l ?s \<or>
        iterations_left l ?t = 0 \<and> iterations_left l ?s = 0"
      by (auto simp: iterations_left_def)
    then show ?thesis using calls by (auto simp: rank_def t)
  next
    case same
    have "card (future_ids (Suc ?n) ?t) \<le> card (future_ids ?n ?s)"
      using same(3) by (intro card_mono future_ids_used) simp_all
    moreover have "iterations_left l ?t = iterations_left l ?s" "turns_left l ?t = turns_left l ?s"
      using same by (simp_all add: iterations_left_def turns_left_def)
    ultimately show ?thesis using calls by (auto simp: rank_def t)
  qed
qed

section \<open>The loop returns\<close>

definition is_user_input :: "core_observation \<Rightarrow> bool" where
  "is_user_input ob \<longleftrightarrow> (\<exists>u. ob = UserInputObservation u)"

lemma continuing_pass_rank:
  assumes "loop_body i ports ctx dr = Inr (Continues dr')" and "driver_ok i dr" and "ports_ok ports"
  shows "driver_ok i dr'" and "\<not> is_user_input (dr_observation dr')"
    and "\<not> is_user_input (dr_observation dr) \<Longrightarrow> (rank (in_limits i) dr', rank (in_limits i) dr) \<in> rank_less"
proof -
  show "driver_ok i dr'" using loop_body_Inr(1) [OF assms] assms(2) by (simp add: moves_def)
  obtain d dr1 where
    d: "policy_decide (dr_core dr) (dr_observation dr) (run_policy i) = Inr d"
    and dr1: "dr_core dr1 = decided d (dr_core dr)" "dr_observation dr1 = dr_observation dr"
      "dr_sequence dr1 = dr_sequence dr" and ok1: "driver_ok i dr1"
    and alts: "(\<exists>purpose directive reason. d = CallModel purpose directive reason \<and> model_pass ctx purpose dr1 dr') \<or>
       (\<exists>calls reason. d = ExecuteTools calls reason \<and> tools_pass ctx calls dr1 dr')"
    using loop_body_Inr(2) [OF assms refl] by blast
  then show "\<not> is_user_input (dr_observation dr')"
    by (auto simp: model_pass_def tools_pass_def is_user_input_def)
  assume u: "\<not> is_user_input (dr_observation dr)"
  have same: "rank l dr1 = rank l dr" for l
    using dr1 by (simp add: rank_def iterations_left_def turns_left_def future_ids_def)
  note w = driver_ok_parts(1) [OF ok1]
  from alts show "(rank (in_limits i) dr', rank (in_limits i) dr) \<in> rank_less"
  proof (elim disjE exE conjE)
    fix purpose directive reason
    assume m: "d = CallModel purpose directive reason" "model_pass ctx purpose dr1 dr'"
    have "budget_reason (dr_core dr) (dr_observation dr) (run_policy i) = None"
      using d [unfolded m(1)] by (rule decided_model) (use u in \<open>simp add: is_user_input_def\<close>)
    note left = budget_left [OF this]
    have "(rank (in_limits i) dr', rank (in_limits i) dr1) \<in> rank_less"
      using m(2) w by (rule model_pass_rank) (use left dr1 in simp_all)
    then show ?thesis by (simp only: same)
  next
    fix calls reason
    assume t: "d = ExecuteTools calls reason" "tools_pass ctx calls dr1 dr'"
    have "observed_tool_calls (dr_observation dr1) \<noteq> []"
      using decided_tools [OF d [unfolded t(1)]] dr1 by auto
    with t(2) w have "(rank (in_limits i) dr', rank (in_limits i) dr1) \<in> rank_less"
      by (rule tools_pass_rank)
    then show ?thesis by (simp only: same)
  qed
qed

lemma drive_returns:
  assumes "driver_ok i dr" and "ports_ok ports"
  shows "\<exists>fuel r. drive fuel i ports ctx dr = Some r"
proof -
  have step: "\<exists>fuel r. drive fuel i ports ctx dr = Some r"
    if rest: "\<And>dr'. loop_body i ports ctx dr = Inr (Continues dr') \<Longrightarrow> \<exists>fuel r. drive fuel i ports ctx dr' = Some r"
    for dr
  proof (cases "\<exists>dr'. loop_body i ports ctx dr = Inr (Continues dr')")
    case True
    then obtain dr' fuel r where "loop_body i ports ctx dr = Inr (Continues dr')"
      "drive fuel i ports ctx dr' = Some r" using rest by blast
    then have "drive (Suc fuel) i ports ctx dr = Some r" by simp
    then show ?thesis by blast
  next
    case False
    then have "\<exists>r. drive (Suc 0) i ports ctx dr = Some r"
      by (cases "loop_body i ports ctx dr") (auto split: loop_result.split)
    then show ?thesis by blast
  qed
  have later: "\<exists>fuel r. drive fuel i ports ctx dr = Some r"
    if "driver_ok i dr" "\<not> is_user_input (dr_observation dr)" for dr
    using that
  proof (induction "rank (in_limits i) dr" arbitrary: dr rule: wf_induct_rule [OF wf_rank_less])
    case (1 dr)
    show ?case
    proof (rule step)
      fix dr' assume b: "loop_body i ports ctx dr = Inr (Continues dr')"
      note r = continuing_pass_rank [OF b "1.prems"(1) assms(2)]
      show "\<exists>fuel r. drive fuel i ports ctx dr' = Some r"
        using "1.hyps" r(1,2) r(3) [OF "1.prems"(2)] by blast
    qed
  qed
  show ?thesis
    using step later continuing_pass_rank(1,2) [OF _ assms] by blast
qed

lemma drive_more_fuel:
  "drive fuel i ports ctx dr = Some r \<Longrightarrow> fuel \<le> fuel' \<Longrightarrow> drive fuel' i ports ctx dr = Some r"
proof (induction fuel arbitrary: dr fuel')
  case 0
  then show ?case by simp
next
  case (Suc fuel)
  then obtain fuel2 where f: "fuel' = Suc fuel2" "fuel \<le> fuel2" by (cases fuel') auto
  then show ?case using Suc by (auto split: sum.splits loop_result.splits)
qed

lemma run_core_more_fuel:
  "run_core fuel i ports = Some r \<Longrightarrow> fuel \<le> fuel' \<Longrightarrow> run_core fuel' i ports = Some r"
  by (auto simp: run_core_def run_driver_def intro: drive_more_fuel split: sum.splits)

lemma run_driver_returns:
  assumes "input_ok i" and "ports_ok ports"
  shows "\<exists>fuel r. run_driver fuel i ports = Some r"
proof (cases "bindE (run_context i) (\<lambda>ctx. bindE (driver_start i) (\<lambda>dr.
             mapE (Pair ctx) (enter_run i ports ctx dr)))")
  case (Inl e)
  then show ?thesis by (simp add: run_driver_def)
next
  case (Inr ctx_dr)
  then obtain ctx dr dr0 where "ctx_dr = (ctx, dr)" "driver_start i = Inr dr0"
    "enter_run i ports ctx dr0 = Inr dr"
    by (auto simp: bindE_eq_Inr mapE_eq_Inr)
  moreover from this have "driver_ok i dr"
    using driver_start_ok(1) enter_run_moves assms(1) movesD by blast
  ultimately show ?thesis using drive_returns [OF _ assms(2)] Inr by (simp add: run_driver_def)
qed

end
