(* ===== verification/Driver_Endings.thy ===== *)
theory Driver_Endings
  imports Driver_Termination
begin

text \<open>
  How a run of \<open>Core_Driver\<close> ends: the pass that returns, its last boundary, the state it
  leaves and the tool calls it settles.
\<close>

section \<open>Settling\<close>

lemma to_tool_result_message_id: "to_tool_result_message r = Inr m \<Longrightarrow> trm_tool_call_id m = to_tool_call_id r"
  by (auto simp: to_tool_result_message_def Let_def split: option.splits if_splits prod.splits)

lemma settle_unexecuted_calls_messages:
  assumes "settle_unexecuted_calls ports ctx calls reason dr = Inr dr'"
  obtains ms where "mj_messages (dr_messages dr') = mj_messages (dr_messages dr) @ map ToolResultMessage ms"
    "map trm_tool_call_id ms = map (\<lambda>c. py_strip (tc_id c)) calls"
proof -
  let ?dr = "snd (driver_observation_id ''settlement'' dr)"
  obtain message results red dr1 dr2 where
    t: "interrupted_tool_results calls ''core.tool_not_executed'' message = Inr results"
    and r: "reduce_driver (ToolBatchObservation
         \<lparr>tbo_observation_id = fst (driver_observation_id ''settlement'' dr), tbo_calls = calls,
          tbo_results = results, tbo_commands = []\<rparr>) ctx ?dr = Inr (red, dr1)"
    and a: "append_final_results results dr1 = Inr dr2"
    and c: "commit_boundary ports AfterTools None dr2 = Inr dr'"
    using assms
    unfolding settle_unexecuted_calls_def bindE_eq_Inr Let_def split_beta
    by (elim exE conjE) (auto simp only: split_beta fst_conv snd_conv prod.collapse)
  note ir = interrupted_tool_results_Inr [OF t]
  obtain ms where ms: "project_final_tool_messages results = Inr ms"
    and dr2: "dr2 = extend_messages (map ToolResultMessage ms) dr1"
    using a by (auto simp: append_final_results_def bindE_eq_Inr)
  have "filter (\<lambda>r. \<not> is_suspended r) results = results"
    using ir(2) by (simp add: filter_id_conv is_suspended_def)
  then have "list_all2 (\<lambda>r m. to_tool_result_message r = Inr m) results ms"
    using ms by (simp add: project_final_tool_messages_def traverse_eq_Inr)
  then have "map trm_tool_call_id ms = map to_tool_call_id results"
    by (induction rule: list_all2_induct) (simp_all add: to_tool_result_message_id)
  then have ids: "map trm_tool_call_id ms = map (\<lambda>c. py_strip (tc_id c)) calls"
    using ir(1) by (simp add: answers_def)
  have "dr_messages dr1 = dr_messages dr"
    using r by (auto simp: driver_observation_id_eq elim!: reduce_driver_Inr)
  then have "mj_messages (dr_messages dr') = mj_messages (dr_messages dr) @ map ToolResultMessage ms"
    using commit_boundary_frame(6) [OF c] by (simp add: dr2 extend_messages_def mj_extend_def)
  with ids show ?thesis using that by blast
qed

lemma opens_batch_results: "(\<Union>m \<in> set (map ToolResultMessage ms). opens_batch m) = {}"
  by auto

text \<open>A transcript whose tool calls all have ids that are already stripped and not empty.\<close>

definition canonical_calls :: "message list \<Rightarrow> bool" where
  "canonical_calls ms \<longleftrightarrow> (\<forall>m \<in> set ms. \<forall>i \<in> opens_batch m. canon_text py_strip i)"

lemma unsettled_settled:
  assumes "map trm_tool_call_id rs = map (\<lambda>c. py_strip (tc_id c)) (unsettled_tool_calls ms)"
    and "canonical_calls ms"
  shows "unsettled_tool_calls (ms @ map ToolResultMessage rs) = []"
proof -
  have "py_strip (tc_id c) = tc_id c" if "c \<in> set (unsettled_tool_calls ms)" for c
  proof -
    have "tc_id c \<in> (\<Union>m \<in> set ms. opens_batch m)"
      using that unsettled_tool_calls_ids [of ms] by blast
    then show ?thesis using assms(2) by (auto simp: canonical_calls_def canon_text_def)
  qed
  then have "set (map trm_tool_call_id rs) = tc_id ` set (unsettled_tool_calls ms)"
    unfolding assms(1) by force
  then have "tc_id ` set (unsettled_tool_calls (ms @ map ToolResultMessage rs)) = {}"
    using unsettled_tool_calls_ids [of ms] by (auto simp: unsettled_tool_calls_ids)
  then show ?thesis by simp
qed

definition settled :: "'u driver \<Rightarrow> bool" where
  "settled dr \<longleftrightarrow> (canonical_calls (mj_messages (dr_messages dr)) \<longrightarrow>
     unsettled_tool_calls (mj_messages (dr_messages dr)) = [])"

lemma settle_unexecuted_calls_settled:
  assumes "settle_unexecuted_calls ports ctx (unsettled_tool_calls (mj_messages (dr_messages dr))) reason dr = Inr dr'"
  shows "settled dr'"
proof -
  obtain ms where m: "mj_messages (dr_messages dr') = mj_messages (dr_messages dr) @ map ToolResultMessage ms"
    "map trm_tool_call_id ms = map (\<lambda>c. py_strip (tc_id c)) (unsettled_tool_calls (mj_messages (dr_messages dr)))"
    using assms by (rule settle_unexecuted_calls_messages)
  show ?thesis
    unfolding settled_def m(1) using unsettled_settled [OF m(2)] by (auto simp: canonical_calls_def)
qed

lemma settle_before_settled:
  assumes "settle_before ports ctx d dr = Inr dr'" and "must_settle d"
  shows "settled dr'"
proof (cases "unsettled_tool_calls (mj_messages (dr_messages dr)) = []")
  case True
  with assms show ?thesis by (simp add: settle_before_def settled_def)
next
  case False
  with assms have "settle_unexecuted_calls ports ctx (unsettled_tool_calls (mj_messages (dr_messages dr)))
      (decision_reason_code d) dr = Inr dr'"
    by (simp add: settle_before_def Let_def)
  then show ?thesis by (rule settle_unexecuted_calls_settled)
qed

section \<open>The pass that returns\<close>

text \<open>The outcome, the state it leaves and the last boundary belong together.\<close>

fun closed_state :: "outcome_status \<Rightarrow> core_state \<Rightarrow> bool" where
  "closed_state OutCompleted s \<longleftrightarrow> (\<exists>t. s = terminated TermCompleted t)"
| "closed_state OutFailed s \<longleftrightarrow> (\<exists>t. s = terminated TermFailed t)"
| "closed_state OutCancelled s \<longleftrightarrow> (\<exists>t. s = terminated TermCancelled t)"
| "closed_state OutWaiting s \<longleftrightarrow> True"

definition last_boundary_ok :: "'u core_outcome \<Rightarrow> 'u driver \<Rightarrow> bool" where
  "last_boundary_ok oc dr \<longleftrightarrow>
     (\<exists>bs b. dr_committed dr = bs @ [b] \<and> bo_state b = dr_core dr \<and> bo_wait b = oc_wait oc \<and>
        bo_kind b = (if oc_status oc = OutWaiting then Waiting else BeforeTerminal))"

definition must_settle_outcome :: "'u core_outcome \<Rightarrow> bool" where
  "must_settle_outcome oc \<longleftrightarrow>
     (case oc_wait oc of None \<Rightarrow> True | Some w \<Rightarrow> cw_kind w \<notin> {WaitToolApproval, WaitUserInput})"

definition ends_well :: "'u core_outcome \<Rightarrow> 'u driver \<Rightarrow> bool" where
  "ends_well oc dr \<longleftrightarrow>
     closed_state (oc_status oc) (dr_core dr) \<and> last_boundary_ok oc dr \<and>
     (must_settle_outcome oc \<longrightarrow> settled dr)"

lemma commit_boundary_last:
  assumes "commit_boundary ports kind wait dr = Inr dr'"
  shows "\<exists>bs b. dr_committed dr' = bs @ [b] \<and> bo_state b = dr_core dr' \<and> bo_wait b = wait \<and> bo_kind b = kind"
  using commit_boundary_Inr(1) [OF assms] by (simp add: tick_def)

lemma settled_messages: "mj_messages (dr_messages dr') = mj_messages (dr_messages dr) \<Longrightarrow> settled dr \<Longrightarrow> settled dr'"
  by (simp add: settled_def)

lemma closed_terminated: "closed_state (outcome_of_termination st) (terminated st s)"
  by (cases st) auto

lemma closed_outcome:
  assumes "oc_status oc = outcome_of_termination st"
  shows "oc_status oc \<noteq> OutWaiting"
  using assms by (cases st) simp_all

lemma concluded_wait: "concluded oc dr \<Longrightarrow> oc_status oc \<noteq> OutWaiting \<Longrightarrow> oc_wait oc = None"
  by (auto simp: concluded_def core_outcome_post_init_def split: if_splits)

lemma terminate_interrupted_ends:
  assumes "terminate_interrupted_execution ports ctx status reason_code message pending err dr = Inr (Returns oc dr')"
    and ok: "driver_ok i dr" and pend: "mj_pending (dr_messages dr) = []"
  shows "ends_well oc dr'"
proof -
  obtain dr1 s dr3 where
    s1: "(if mj_pending (dr_messages dr) \<noteq> [] then commit_boundary ports pending None dr
      else if unsettled_tool_calls (mj_messages (dr_messages dr)) \<noteq> []
      then settle_unexecuted_calls ports ctx (unsettled_tool_calls (mj_messages (dr_messages dr)))
             reason_code dr
      else Inr dr) = Inr dr1"
    and m: "dr_messages dr3 = dr_messages dr1"
    and core: "dr_core dr3 = terminated status s"
    and c: "commit_boundary ports BeforeTerminal None dr3 = Inr dr'"
    and oc: "oc_status oc = outcome_of_termination status" "oc_wait oc = None"
    by (rule terminate_interrupted_steps [OF assms(1) ok]) auto
  have "settled dr1"
  proof (cases "unsettled_tool_calls (mj_messages (dr_messages dr)) = []")
    case True
    with s1 pend show ?thesis by (simp add: settled_def)
  next
    case False
    with s1 pend show ?thesis using settle_unexecuted_calls_settled by simp
  qed
  moreover have "mj_messages (dr_messages dr') = mj_messages (dr_messages dr1)"
    using commit_boundary_frame(6) [OF c] m by simp
  ultimately have "settled dr'" by (simp add: settled_def)
  moreover have "closed_state (oc_status oc) (dr_core dr')"
    unfolding oc commit_boundary_frame(1) [OF c] core by (rule closed_terminated)
  moreover have "last_boundary_ok oc dr'"
    using commit_boundary_last [OF c] oc(2) closed_outcome [OF oc(1)]
    by (simp add: last_boundary_ok_def)
  ultimately show ?thesis by (simp add: ends_well_def)
qed

lemma model_branch_ends:
  assumes "model_branch i ports ctx purpose directive dr = Inr (Returns oc dr')" and ok: "driver_ok i dr"
  shows "ends_well oc dr'"
proof -
  obtain dr1 where c: "commit_boundary ports BeforeModel None dr = Inr dr1"
    using assms(1) by (auto simp: model_branch_def bindE_eq_Inr)
  obtain oid ans clock where g: "guarding ports ctx AfterModel
      (dr1\<lparr>dr_sequence := Suc (dr_sequence dr1), dr_clock := clock\<rparr>) ans
      (\<lambda>action. finish_model ports ctx action
         (dr1\<lparr>dr_sequence := Suc (dr_sequence dr1), dr_clock := clock\<rparr>)) = Inr (Returns oc dr')"
    using assms(1) c by (auto simp: model_branch_def driver_observation_id_eq Let_def split: prod.splits)
  let ?dr = "dr1\<lparr>dr_sequence := Suc (dr_sequence dr1), dr_clock := clock\<rparr>"
  have "moves i dr dr1" using c by (rule commit_boundary_moves)
  also have "moves i dr1 (dr1\<lparr>dr_sequence := Suc (dr_sequence dr1)\<rparr>)"
    using moves_frame(6) [of i dr1 "''model''"] by (simp add: driver_observation_id_eq)
  also have "moves i \<dots> ?dr" by simp
  finally have ok': "driver_ok i ?dr" using ok by (rule movesD)
  from g show ?thesis
  proof (cases rule: guarding_cases)
    case (answered action)
    then show ?thesis by (auto simp: finish_model_def Let_def bindE_eq_Inr)
  next
    case (interrupted status code message err)
    then show ?thesis
      by (rule terminate_interrupted_ends [OF _ ok']) (simp add: commit_boundary_frame [OF c])
  qed
qed

lemma finish_tools_continues:
  "finish_tools i ports ctx calls deferred executed results dr \<noteq> Inr (Returns oc dr')"
  by (auto simp: finish_tools_def bindE_eq_Inr Let_def split: prod.splits)

lemma run_prepared_batch_ends:
  assumes "run_prepared_batch i ports ctx calls executable deferred b dr = Inr (Returns oc dr')"
    and ok: "driver_ok i dr"
  shows "ends_well oc dr'"
proof -
  have empty: "bp_results b = []"
  proof (rule ccontr)
    assume "bp_results b \<noteq> []"
    with assms(1) show False
      by (auto simp: finish_tools_continues run_prepared_batch_def bindE_eq_Inr)
  qed
  then obtain dr1 where c: "commit_boundary ports BeforeTools None dr = Inr dr1"
    using assms(1) by (auto simp: run_prepared_batch_def bindE_eq_Inr)
  obtain ans clock where e: "execute_core_tool_batch ports b (dr_clock dr1) = (ans, clock)" by force
  have g: "guarding ports ctx AfterTools (dr1\<lparr>dr_clock := clock\<rparr>) ans (\<lambda>returned.
       bindE (complete_results executable returned) (\<lambda>rs.
       finish_tools i ports ctx calls deferred True rs (dr1\<lparr>dr_clock := clock\<rparr>))) = Inr (Returns oc dr')"
    using assms(1) empty c e by (simp add: run_prepared_batch_def Let_def)
  have ok': "driver_ok i (dr1\<lparr>dr_clock := clock\<rparr>)"
    using moves_trans [OF commit_boundary_moves [OF c] moves_frame(1)] ok by (rule movesD)
  from g show ?thesis
  proof (cases rule: guarding_cases)
    case (answered x)
    then show ?thesis by (auto simp: finish_tools_continues bindE_eq_Inr)
  next
    case (interrupted status code message err)
    then show ?thesis
      by (rule terminate_interrupted_ends [OF _ ok']) (simp add: commit_boundary_frame [OF c])
  qed
qed

lemma tools_branch_ends:
  assumes "tools_branch i ports ctx calls dr = Inr (Returns oc dr')" and ok: "driver_ok i dr"
    and pend: "mj_pending (dr_messages dr) = []"
  shows "ends_well oc dr'"
proof -
  obtain executable deferred clock ans where
    g: "guarding ports ctx AfterTools (dr\<lparr>dr_clock := clock\<rparr>) ans (\<lambda>b.
      run_prepared_batch i ports ctx calls executable deferred b (dr\<lparr>dr_clock := clock\<rparr>))
      = Inr (Returns oc dr')"
    using assms(1)
    by (auto simp: finish_tools_continues tools_branch_def Let_def split: if_splits prod.splits)
  have ok': "driver_ok i (dr\<lparr>dr_clock := clock\<rparr>)" using moves_frame(1) ok by (rule movesD)
  from g show ?thesis
  proof (cases rule: guarding_cases)
    case (answered b)
    then show ?thesis using run_prepared_batch_ends ok' by blast
  next
    case (interrupted status code message err)
    then show ?thesis by (rule terminate_interrupted_ends [OF _ ok']) (simp add: pend)
  qed
qed

section \<open>The whole run\<close>

text \<open>Before the tools of a model response run, everything has been committed.\<close>

definition model_committed :: "'u driver \<Rightarrow> bool" where
  "model_committed dr \<longleftrightarrow>
     (observed_tool_calls (dr_observation dr) \<noteq> [] \<longrightarrow> mj_pending (dr_messages dr) = [])"

lemma loop_body_ends:
  assumes "loop_body i ports ctx dr = Inr (Returns oc dr')" and ok: "driver_ok i dr"
    and mc: "model_committed dr"
  shows "ends_well oc dr'"
proof -
  from assms(1,2) obtain cancelled dr1 d dr2 dr3 where
    o: "observe_cancellation ports ctx dr = Inr (cancelled, dr1)" and
    p: "policy_decide (dr_core dr1) (dr_observation dr1) (run_policy i) = Inr d" and
    s: "settle_before ports ctx d dr1 = Inr dr2" "driver_ok i dr2" and
    a: "apply_driver_decision d dr2 = Inr dr3" "driver_ok i dr3" and
    e: "execute_decision i ports ctx d dr3 = Inr (Returns oc dr')"
    by (rule loop_body_steps)
  note ad = apply_driver_decision_Inr [OF a(1) driver_ok_parts(1) [OF s(2)]]
  have settled: "settled dr3" if "must_settle d"
    using settle_before_settled [OF s(1) that] by (rule settled_messages [rotated]) (simp add: ad)
  show ?thesis
  proof (cases d)
    case (CallModel purpose directive reason)
    with e a(2) show ?thesis by (intro model_branch_ends) simp_all
  next
    case (ExecuteTools calls reason)
    have "\<not> is_cancellation (dr_observation dr1)"
      using cancellation_terminates [OF p] ExecuteTools by auto
    then have "dr_observation dr1 = dr_observation dr" "dr_messages dr1 = dr_messages dr"
      using observe_cancellation_Inr(2) [OF o] by (auto split: if_splits)
    moreover have "observed_tool_calls (dr_observation dr1) \<noteq> []"
      using decided_tools [OF p [unfolded ExecuteTools]] by auto
    moreover have "dr2 = dr1" by (rule settle_before_moves(2) [OF s(1)]) (simp add: ExecuteTools)
    ultimately have "mj_pending (dr_messages dr3) = []" using mc ad by (simp add: model_committed_def)
    with e a(2) ExecuteTools show ?thesis by (intro tools_branch_ends) simp_all
  next
    case (Wait w)
    obtain oc' dr4 where r: "Inr (Returns oc dr') = Inr (Returns oc' dr4)"
      "oc_status oc' = OutWaiting" "oc_wait oc' = Some w"
      "commit_boundary ports Waiting (Some w) dr3 = Inr dr4"
      by (rule execute_wait_Inr [OF e [unfolded Wait]]) auto
    have "settled dr4" if "must_settle_outcome oc'"
      using settled [unfolded Wait] that r(3) commit_boundary_frame(6) [OF r(4)]
      by (auto simp: must_settle_outcome_def settled_def)
    then show ?thesis
      using r commit_boundary_last [OF r(4)] by (simp add: ends_well_def last_boundary_ok_def)
  next
    case (Terminate t)
    obtain oc' dr4 where r: "Inr (Returns oc dr') = Inr (Returns oc' dr4)"
      "concluded oc' dr4" "oc_status oc' = outcome_of_termination (te_term_status t)"
      "commit_boundary ports BeforeTerminal None dr3 = Inr dr4"
      by (rule execute_terminate_Inr [OF e [unfolded Terminate]]) auto
    have "settled dr4"
      using settled [unfolded Terminate] commit_boundary_frame(6) [OF r(4)] by (simp add: settled_def)
    moreover have "dr_core dr4 = terminated (te_term_status t) (dr_core dr2)"
      using ad(1) Terminate commit_boundary_frame(1) [OF r(4)] by simp
    ultimately show ?thesis
      using r commit_boundary_last [OF r(4)] closed_outcome [OF r(3)] closed_terminated
        concluded_wait [OF r(2) closed_outcome [OF r(3)]]
      by (simp add: ends_well_def last_boundary_ok_def)
  qed
qed

lemma continuing_pass_committed:
  assumes "loop_body i ports ctx dr = Inr (Continues dr')" and "driver_ok i dr" and "ports_ok ports"
  shows "model_committed dr'"
  using loop_body_Inr(2) [OF assms refl]
  by (auto simp: model_pass_def tools_pass_def model_committed_def)

lemma drive_ends:
  "drive fuel i ports ctx dr = Some (Inr (oc, dr')) \<Longrightarrow> driver_ok i dr \<Longrightarrow> ports_ok ports \<Longrightarrow>
   model_committed dr \<Longrightarrow> ends_well oc dr'"
proof (induction fuel arbitrary: dr)
  case 0
  then show ?case by simp
next
  case (Suc fuel)
  then obtain lr where b: "loop_body i ports ctx dr = Inr lr" by (auto split: sum.splits)
  show ?case
  proof (cases lr)
    case (Returns oc2 dr2)
    with Suc.prems(1) b have "loop_body i ports ctx dr = Inr (Returns oc dr')" by simp
    then show ?thesis using Suc.prems(2,4) by (rule loop_body_ends)
  next
    case (Continues dr1)
    with Suc.prems(1) b have d: "drive fuel i ports ctx dr1 = Some (Inr (oc, dr'))" by simp
    note b' = b [unfolded Continues]
    show ?thesis
      by (rule Suc.IH [OF d continuing_pass_rank(1) [OF b' Suc.prems(2,3)] Suc.prems(3)
            continuing_pass_committed [OF b' Suc.prems(2,3)]])
  qed
qed

lemma enter_run_committed:
  assumes "enter_run i ports ctx dr = Inr dr'" and "mj_pending (dr_messages dr) = []"
  shows "mj_pending (dr_messages dr') = []"
proof -
  obtain cancelled dr1 where o: "observe_cancellation ports ctx dr = Inr (cancelled, dr1)"
    using assms(1) by (auto simp: enter_run_def bindE_eq_Inr)
  have d1: "mj_pending (dr_messages dr1) = []"
    using o assms(2)
    by (auto simp: observe_cancellation_def Let_def driver_observation_id_eq tick_def bindE_eq_Inr
        split: option.splits if_splits elim!: reduce_driver_Inr)
  show ?thesis
  proof (cases "cancelled")
    case True
    with assms(1) o d1 show ?thesis by (simp add: enter_run_def)
  next
    case False
    with assms(1) o d1 show ?thesis
      by (auto simp: enter_run_def Let_def driver_observation_id_eq bindE_eq_Inr mapE_eq_Inr
          commit_boundary_frame split: core_entry.splits option.splits elim!: reduce_driver_Inr)
  qed
qed

lemma run_driver_ends:
  assumes "run_driver fuel i ports = Some (Inr (oc, dr'))" and "input_ok i" and "ports_ok ports"
  shows "ends_well oc dr'"
proof -
  from assms(1) obtain ctx dr0 dr1 where s: "driver_start i = Inr dr0"
    and e: "enter_run i ports ctx dr0 = Inr dr1"
    and d: "drive fuel i ports ctx dr1 = Some (Inr (oc, dr'))"
    by (rule run_driver_Inr)
  note st = driver_start_ok [OF s assms(2)]
  have "mj_pending (dr_messages dr0) = []"
    using s by (auto simp: driver_start_def bindE_eq_Inr mj_start_def)
  then have "mj_pending (dr_messages dr1) = []" by (rule enter_run_committed [OF e])
  then have "model_committed dr1" by (simp add: model_committed_def)
  moreover have "driver_ok i dr1"
    using movesD [OF enter_run_moves [OF e assms(2) st(1)] st(1)] .
  ultimately show ?thesis using drive_ends [OF d _ assms(3)] by blast
qed

end
