(* ===== verification/Driver_Samples.thy ===== *)
theory Driver_Samples
  imports Driver_Endings Samples
begin

text \<open>
  Concrete inputs and ports for the witnesses of the driver's properties: a model that first
  asks for a tool and then answers, a tool port that runs it, a run that starts from a new
  task.
\<close>

definition sample_call :: "string \<Rightarrow> tool_call" where
  "sample_call i = \<lparr>tc_id = i, tc_name = ''write'', tc_arguments = [], tc_raw_arguments = None,
     tc_index = None, tc_provider = None, tc_metadata = []\<rparr>"

definition sample_run_input :: core_run_input where
  "sample_run_input =
     \<lparr>in_session_id = ''s'', in_run_id = ''r'', in_entry = ModelEntry None,
      in_messages = [UserMessage \<lparr>um_content = Inl ''g'', um_timestamp = 0, um_metadata = []\<rparr>],
      in_state = sample_state None, in_mode = ModeBuild, in_limits = default_core_limits,
      in_context_seed = []\<rparr>"

text \<open>The answer depends on what the model is shown: the first request has one message.\<close>

definition sample_stream :: "nat \<Rightarrow> model_request \<Rightarrow> unit llm_event list \<times> stream_end" where
  "sample_stream clock request =
     ([LLMCompleted (sample_message (if length (mr_messages request) = 1
         then [ToolCallBlock (sample_call ''k'')] else [TextBlock ''t'' None])) None 1], StreamEnds)"

definition sample_tool_port :: tool_port where
  "sample_tool_port =
     \<lparr>tp_catalog = (\<lambda>clock mode. Answered [(''write'', ''w'')]),
      tp_prepare_batch = (\<lambda>clock requests. Answered \<lparr>bp_batch_id = Some ''b'', bp_results = []\<rparr>),
      tp_execute_prepared = (\<lambda>clock batch_id. Answered [(sample_write ''k'' [])\<lparr>to_effects := []\<rparr>])\<rparr>"

definition sample_ports :: "unit core_ports" where
  "sample_ports =
     \<lparr>cp_model = sample_stream, cp_commit = (\<lambda>clock boundary. None),
      cp_tools = Some sample_tool_port, cp_cancellation = None\<rparr>"

definition sample_driver_run :: "(unit core_outcome \<times> unit driver) result option" where
  "sample_driver_run = run_driver 4 sample_run_input sample_ports"

lemma sample_run_input_ok: "input_ok sample_run_input"
proof -
  have "wf_core_state (sample_state None)" by code_simp
  then show ?thesis by (simp add: input_ok_def sample_run_input_def)
qed

lemma sample_ports_ok: "ports_ok sample_ports"
proof -
  have "wf_tool_result_parts ((sample_write ''k'' [])\<lparr>to_effects := []\<rparr>)" by code_simp
  then show ?thesis by (simp add: ports_ok_def sample_ports_def sample_tool_port_def)
qed

text \<open>The run completes with the second answer of the model, after seven boundaries.\<close>

definition sample_outcome_ok :: "unit core_outcome \<Rightarrow> unit driver \<Rightarrow> bool" where
  "sample_outcome_ok oc dr \<longleftrightarrow>
     oc_status oc = OutCompleted \<and> oc_wait oc = None \<and> length (oc_new_messages oc) = 3 \<and>
     map bo_kind (dr_committed dr) =
       [BeforeModel, AfterModel, BeforeTools, AfterTools, BeforeModel, AfterModel, BeforeTerminal] \<and>
     list_all (\<lambda>m. list_all (\<lambda>c. tc_id c = ''k'')
       (case m of AssistantMessage a \<Rightarrow> block_tool_calls (am_content a) | _ \<Rightarrow> []))
       (in_messages sample_run_input @ oc_new_messages oc)"

lemma sample_run_returns:
  obtains oc dr where "sample_driver_run = Some (Inr (oc, dr))" "sample_outcome_ok oc dr"
proof -
  have "case sample_driver_run of Some (Inr (oc, dr)) \<Rightarrow> sample_outcome_ok oc dr | _ \<Rightarrow> False"
    by code_simp
  then show ?thesis using that by (auto split: option.splits sum.splits prod.splits)
qed

lemma sample_outcome_okD:
  assumes "sample_outcome_ok oc dr"
  shows "oc_status oc = OutCompleted" "oc_wait oc = None" "length (oc_new_messages oc) = 3"
    "length (dr_committed dr) = 7"
proof -
  show "oc_status oc = OutCompleted" "oc_wait oc = None" "length (oc_new_messages oc) = 3"
    using assms by (simp_all add: sample_outcome_ok_def)
  have "length (map bo_kind (dr_committed dr)) = 7" using assms by (simp only: sample_outcome_ok_def) simp
  then show "length (dr_committed dr) = 7" by simp
qed

end
