(* ===== verification/Driver_Properties.thy ===== *)
theory Driver_Properties
  imports Driver_Samples
begin

text \<open>
  The properties of the run loop, \<^verbatim>\<open>src/codepilot/core/driver.py\<close>, and of the tool step it
  uses, \<^verbatim>\<open>core/tool_step.py\<close>, over all ports: that a run returns, what has been
  committed when it does, the state it leaves, and how tool calls, results and plan commands
  match up.
\<close>

section \<open>Definitions and samples\<close>

definition plan_success :: tool_result where
  "plan_success = (sample_write ''c'' (freeze_mapping [(''core_command'', PDict (core_command_to_dict complete_a))]))
     \<lparr>to_tool_name := ''update_plan_progress'', to_effects := []\<rparr>"

definition rejected_command :: command_result where
  "rejected_command = \<lparr>cmdr_command_id = ''c'', cmdr_status = CommandRejected,
     cmdr_reason = ''plan.stale_revision''\<rparr>"

text \<open>What the samples evaluate to.\<close>

lemma driver_values:
  "canon_text py_strip ''k''"
  "returns (complete_results [sample_call ''k'', sample_call ''l''] [sample_write ''l'' []])"
  "wf_tool_result_parts (sample_write ''l'' [])"
  "project_core_commands [sample_write ''w'' [], plan_success] = Inr [complete_a]"
  "case (project_core_command_results [plan_success] [rejected_command]) of Inr [v]
     \<Rightarrow> True | _ \<Rightarrow> False"
  "wf_tool_result_parts plan_success"
  "canon_text py_strip (cmdr_reason rejected_command)"
  "to_tool_call_id plan_success = ''c''"
  "py_strip ''core.tool_deferred'' = ''core.tool_deferred''"
  "bounded_tool_calls [sample_call ''k'', sample_call ''l''] (Some 1) = ([sample_call ''k''],
     [sample_call ''l''])"
  "returns (complete_results [sample_call ''k''] [])"
  "complete_results [sample_call '' k''] [] = Inl (KeyError '' k'')"
  by code_simp+

section \<open>Runs\<close>













section \<open>Tool calls, results and commands\<close>

text \<open>Property C21. Completing a batch answers every call of it, once and in order. When
  \<^verbatim>\<open>_complete_results\<close> returns, the results carry exactly the ids of the calls, in their
  order; what the port returned is among them unchanged, and it held no id twice and none
  that was not called; every other result is an interruption, so that no call is left without
  an answer and none is invented.\<close>

lemma completed_batch_answers_calls:
  assumes "complete_results calls results = Inr rs" and "\<forall>r \<in> set results. wf_tool_result_parts r"
  shows "map to_tool_call_id rs = map tc_id calls \<and> set results \<subseteq> set rs \<and>
    distinct (map to_tool_call_id results) \<and>
    (\<forall>r \<in> set rs. r \<in> set results \<or>
       to_status r = TInterrupted \<and> to_tool_call_id r \<notin> to_tool_call_id ` set results)"
proof -
  note cr = complete_results_Inr [OF assms]
  have "r \<in> set results" if r: "r \<in> set rs" "to_tool_call_id r \<in> to_tool_call_id ` set results" for r
  proof -
    obtain q where q: "q \<in> set results" "to_tool_call_id q = to_tool_call_id r" using r(2) by force
    then have "q = r" using cr(4,7) r(1) by blast
    with q(1) show ?thesis by simp
  qed
  with cr show ?thesis by blast
qed

lemma completed_batch_answers_calls_witness:
  "\<exists>rs. complete_results [sample_call ''k'', sample_call ''l''] [sample_write ''l'' []] = Inr rs \<and>
     map to_tool_call_id rs = [''k'', ''l''] \<and> sample_write ''l'' [] \<in> set rs"
proof -
  have "returns (complete_results [sample_call ''k'', sample_call ''l''] [sample_write ''l'' []])"
    by (fact driver_values)
  then obtain rs where rs: "complete_results [sample_call ''k'', sample_call ''l''] [sample_write ''l'' []] = Inr rs"
    by (auto simp: returns_def split: sum.splits)
  have "wf_tool_result_parts (sample_write ''l'' [])" by (fact driver_values)
  with completed_batch_answers_calls [OF rs] rs show ?thesis by (auto simp: sample_call_def)
qed

text \<open>Property C22. Plan commands come from plan tools only. Every command the core takes from
  a batch is valid, and was returned by a successful result of one of the four plan tools for
  the very call that names the command; in order, and none is skipped.\<close>

lemma commands_come_from_plan_tools:
  assumes "project_core_commands rs = Inr cs"
  shows "map command_id cs =
      map to_tool_call_id (filter (\<lambda>r. to_status r = TSuccess \<and> to_tool_name r \<in>
        {''propose_plan'', ''create_build_plan'', ''update_plan_progress'', ''close_plan''}) rs) \<and>
    (\<forall>c \<in> set cs. wf_command c \<and>
       (\<exists>r \<in> set rs. \<exists>d. dget (to_data r) ''core_command'' = PDict d \<and> core_command_from_mapping d = Inr c))"
proof -
  have f: "(\<lambda>r. to_status r = TSuccess \<and> to_tool_name r \<in>
      {''propose_plan'', ''create_build_plan'', ''update_plan_progress'', ''close_plan''}) = is_plan_success"
    by (intro ext) (auto simp: is_plan_success_def plan_tool_names_def)
  have "\<exists>r \<in> set rs. \<exists>d. dget (to_data r) ''core_command'' = PDict d \<and> core_command_from_mapping d = Inr c"
    if c: "c \<in> set cs" for c
  proof -
    obtain r where "r \<in> set (filter is_plan_success rs)" "project_core_command r = Inr c"
      using traverse_set [OF assms [unfolded project_core_commands_def] c] by blast
    then show ?thesis
      by (auto simp: project_core_command_def bindE_eq_Inr intro!: bexI [of _ r]
          split: pyval.splits sum.splits if_splits)
  qed
  then show ?thesis using project_core_commands_Inr [OF assms] unfolding f by blast
qed

lemma commands_come_from_plan_tools_witness:
  "project_core_commands [sample_write ''w'' [], plan_success] = Inr [complete_a] \<and> wf_command complete_a"
proof -
  have "project_core_commands [sample_write ''w'' [], plan_success] = Inr [complete_a]" by (fact driver_values)
  with commands_come_from_plan_tools [OF this] show ?thesis by simp
qed





text \<open>A batch never runs more calls than the limit per turn allows: it is cut into
  a first part of at most that many calls, which is run, and the rest, which is deferred; no
  call is lost and the order is kept. Deferred calls are answered, with an interruption that
  the reducer does not count as material.\<close>

lemma batches_are_bounded:
  assumes "bounded_tool_calls calls limit = (executable, deferred)" and "\<forall>n. limit = Some n \<longrightarrow> 0 \<le> n"
  shows "calls = executable @ deferred \<and>
    (case limit of None \<Rightarrow> deferred = [] | Some n \<Rightarrow> int (length executable) = min n (int (length calls))) \<and>
    (\<forall>n late. deferred_tool_results deferred n = Inr late \<longrightarrow>
       map to_tool_call_id late = map (\<lambda>c. py_strip (tc_id c)) deferred \<and> material_results late = [])"
proof -
  have "material_results late = []" if "deferred_tool_results deferred n = Inr late" for n late
  proof -
    have code: "py_strip ''core.tool_deferred'' = ''core.tool_deferred''" by (fact driver_values)
    have "\<forall>r \<in> set late. is_deferred r"
      using deferred_tool_results_Inr(2) [OF that] by (auto simp: is_deferred_def code)
    then show ?thesis
      using unique_results_subset [of "[]" late] by (auto simp: material_results_def filter_empty_conv)
  qed
  moreover have "case limit of None \<Rightarrow> deferred = []
      | Some n \<Rightarrow> int (length executable) = min n (int (length calls))"
    using assms by (auto simp: bounded_tool_calls_def split: option.splits if_splits)
  ultimately show ?thesis
    using bounded_tool_calls_append [OF assms(1)] deferred_tool_results_Inr(1)
    by (auto simp: answers_def)
qed

text \<open>An id with surrounding blanks breaks the run. The core strips the id of every
  result but not that of the call, so completing a batch whose call has a padded id and no
  result raises a \<^verbatim>\<open>KeyError\<close>, outside the handlers of the driver.\<close>

lemma padded_call_id_raises:
  "complete_results [sample_call '' k''] [] = Inl (KeyError '' k'') \<and>
   (\<exists>rs. complete_results [sample_call ''k''] [] = Inr rs)"
proof -
  have "returns (complete_results [sample_call ''k''] [])" by (fact driver_values)
  moreover have "complete_results [sample_call '' k''] [] = Inl (KeyError '' k'')" by (fact driver_values)
  ultimately show ?thesis by (auto simp: returns_def split: sum.splits)
qed

end
