(* ===== verification/Py_Stateful.thy ===== *)
theory Py_Stateful
  imports Py_Prelude
begin

text \<open>
  Stateful code that may raise: a function from the state to a result and the state after it,
  which an exception does not roll back. The combinators are the sequencing, the
  \<^verbatim>\<open>try\<close>/\<^verbatim>\<open>except\<close> and the loops of the source; the locale \<open>stateful_relation\<close> derives, for a
  preorder on states, the rules by which a composed operation keeps it when its parts do.
\<close>

type_synonym ('s, 'a) stateful = "'s \<Rightarrow> 'a result \<times> 's"

definition returnS :: "'a \<Rightarrow> ('s, 'a) stateful" where
  "returnS x = (\<lambda>s. (Inr x, s))"

definition raiseS :: "exn \<Rightarrow> ('s, 'a) stateful" where
  "raiseS e = (\<lambda>s. (Inl e, s))"

definition liftS :: "'a result \<Rightarrow> ('s, 'a) stateful" where
  "liftS r = (\<lambda>s. (r, s))"

definition bindS :: "('s, 'a) stateful \<Rightarrow> ('a \<Rightarrow> ('s, 'b) stateful) \<Rightarrow> ('s, 'b) stateful" where
  "bindS m f = (\<lambda>s. case m s of (Inl e, t) \<Rightarrow> (Inl e, t) | (Inr x, t) \<Rightarrow> f x t)"

definition getS :: "('s \<Rightarrow> 'a) \<Rightarrow> ('s, 'a) stateful" where
  "getS f = (\<lambda>s. (Inr (f s), s))"

definition modifyS :: "('s \<Rightarrow> 's) \<Rightarrow> ('s, unit) stateful" where
  "modifyS f = (\<lambda>s. (Inr (), f s))"

text \<open>\<^verbatim>\<open>try: m except E as e: handler(e)\<close>, for the exceptions the handler takes.\<close>

definition catchS ::
  "('s, 'a) stateful \<Rightarrow> (exn \<Rightarrow> ('s, 'a) stateful option) \<Rightarrow> ('s, 'a) stateful" where
  "catchS m handler =
     (\<lambda>s. case m s of
        (Inl e, t) \<Rightarrow> (case handler e of None \<Rightarrow> (Inl e, t) | Some h \<Rightarrow> h t)
      | (Inr x, t) \<Rightarrow> (Inr x, t))"

text \<open>The outcome of a part as a value, an exception included: \<^verbatim>\<open>try\<close> around all of it.\<close>

definition attemptS :: "('s, 'a) stateful \<Rightarrow> ('s, 'a result) stateful" where
  "attemptS m = (\<lambda>s. case m s of (r, t) \<Rightarrow> (Inr r, t))"

fun mapS :: "('a \<Rightarrow> ('s, 'b) stateful) \<Rightarrow> 'a list \<Rightarrow> ('s, 'b list) stateful" where
  "mapS f [] = returnS []"
| "mapS f (x # xs) = bindS (f x) (\<lambda>y. bindS (mapS f xs) (\<lambda>ys. returnS (y # ys)))"

text \<open>\<^verbatim>\<open>asyncio.gather\<close> over parts that do not overlap: they run in the order of the list, each to
  its end, and a part that raises does not stop the others, which \<^verbatim>\<open>gather\<close> does not cancel. The
  first exception is then raised. This is one schedule of the source, where parts may overlap at
  their awaits, and where the caller sees an exception as soon as it is raised, while the other
  parts are still running; here it sees it when all parts are over.\<close>

definition gatherS :: "('a \<Rightarrow> ('s, 'b) stateful) \<Rightarrow> 'a list \<Rightarrow> ('s, 'b list) stateful" where
  "gatherS f xs = bindS (mapS (\<lambda>x. attemptS (f x)) xs) (\<lambda>rs. liftS (traverse id rs))"

lemma stateful_simps [simp, py_simps]:
  "returnS x s = (Inr x, s)" "raiseS e s = (Inl e, s)" "liftS r s = (r, s)"
  "getS f s = (Inr (f s), s)" "modifyS g s = (Inr (), g s)"
  by (simp_all add: returnS_def raiseS_def liftS_def getS_def modifyS_def)

lemma bindS_returns [simp, py_simps]: "m s = (Inr x, t) \<Longrightarrow> bindS m f s = f x t"
  by (simp add: bindS_def)

lemma bindS_raises [simp, py_simps]: "m s = (Inl e, t) \<Longrightarrow> bindS m f s = (Inl e, t)"
  by (simp add: bindS_def)

lemma bindS_eq:
  "bindS m f s = (r, u) \<longleftrightarrow>
   (\<exists>e. m s = (Inl e, u) \<and> r = Inl e) \<or> (\<exists>x t. m s = (Inr x, t) \<and> f x t = (r, u))"
  by (auto simp: bindS_def split: prod.splits sum.splits)

lemma bindS_Inr:
  "bindS m f s = (Inr y, u) \<longleftrightarrow> (\<exists>x t. m s = (Inr x, t) \<and> f x t = (Inr y, u))"
  by (auto simp: bindS_eq)

lemma attemptS_eq: "attemptS m s = (r, t) \<longleftrightarrow> (\<exists>x. m s = (x, t) \<and> r = Inr x)"
  by (auto simp: attemptS_def split: prod.splits)

lemma catchS_returns [simp]: "m s = (Inr x, t) \<Longrightarrow> catchS m h s = (Inr x, t)"
  by (simp add: catchS_def)

lemma catchS_raises [simp]:
  "m s = (Inl e, t) \<Longrightarrow> catchS m h s = (case h e of None \<Rightarrow> (Inl e, t) | Some k \<Rightarrow> k t)"
  by (simp add: catchS_def)

text \<open>Every run of an operation, returning or raising, relates its first and last state.\<close>

definition keeps :: "('s \<Rightarrow> 's \<Rightarrow> bool) \<Rightarrow> ('s, 'a) stateful \<Rightarrow> bool" where
  "keeps R m \<longleftrightarrow> (\<forall>s r t. m s = (r, t) \<longrightarrow> R s t)"

lemma keepsD: "keeps R m \<Longrightarrow> m s = (r, t) \<Longrightarrow> R s t"
  by (auto simp: keeps_def)

lemma keepsI: "(\<And>s r t. m s = (r, t) \<Longrightarrow> R s t) \<Longrightarrow> keeps R m"
  by (auto simp: keeps_def)

locale stateful_relation =
  fixes R :: "'s \<Rightarrow> 's \<Rightarrow> bool"
  assumes refl: "R s s" and trans: "R s t \<Longrightarrow> R t u \<Longrightarrow> R s u"
begin

lemma keeps_pure [intro]:
  "keeps R (returnS x)" "keeps R (raiseS e)" "keeps R (liftS r)" "keeps R (getS f)"
  by (auto simp: keeps_def refl)

lemma keeps_modify: "(\<And>s. R s (f s)) \<Longrightarrow> keeps R (modifyS f)"
  by (auto simp: keeps_def)

lemma keeps_bind [intro]:
  assumes "keeps R m" and "\<And>x. keeps R (f x)"
  shows "keeps R (bindS m f)"
proof (rule keepsI)
  fix s r u
  assume "bindS m f s = (r, u)"
  then show "R s u"
    unfolding bindS_eq using keepsD [OF assms(1)] keepsD [OF assms(2)] trans by blast
qed

text \<open>The value of the first part may be used, in the state in which it was returned.\<close>

lemma keeps_bind_at:
  assumes "keeps R m" and "\<And>s x t. m s = (Inr x, t) \<Longrightarrow> keeps R (f x)"
  shows "keeps R (bindS m f)"
proof (rule keepsI)
  fix s r u
  assume "bindS m f s = (r, u)"
  then show "R s u"
    unfolding bindS_eq using keepsD [OF assms(1)] keepsD [OF assms(2)] trans by blast
qed

lemma keeps_catch [intro]:
  assumes "keeps R m" and "\<And>e k. h e = Some k \<Longrightarrow> keeps R k"
  shows "keeps R (catchS m h)"
proof (rule keepsI)
  fix s r u
  assume "catchS m h s = (r, u)"
  then show "R s u"
    using assms
    by (auto simp: catchS_def dest: keepsD intro: trans split: prod.splits sum.splits option.splits)
       (meson keepsD trans)+
qed

lemma keeps_attempt [intro]: "keeps R m \<Longrightarrow> keeps R (attemptS m)"
  by (auto simp: keeps_def attemptS_eq)

lemma keeps_map [intro]: "(\<And>x. x \<in> set xs \<Longrightarrow> keeps R (f x)) \<Longrightarrow> keeps R (mapS f xs)"
  by (induction xs) auto

lemma keeps_gather [intro]: "(\<And>x. x \<in> set xs \<Longrightarrow> keeps R (f x)) \<Longrightarrow> keeps R (gatherS f xs)"
  unfolding gatherS_def by (intro keeps_bind keeps_map keeps_attempt keeps_pure) auto

end

text \<open>Triples: from a state that satisfies the precondition, every run respects the relation,
  and a run that returns ensures the postcondition of its value and last state.\<close>

definition ensures ::
  "('s \<Rightarrow> 's \<Rightarrow> bool) \<Rightarrow> ('s \<Rightarrow> bool) \<Rightarrow> ('s, 'a) stateful \<Rightarrow> ('a \<Rightarrow> 's \<Rightarrow> bool) \<Rightarrow> bool" where
  "ensures R P m Q \<longleftrightarrow>
     (\<forall>s r t. P s \<longrightarrow> m s = (r, t) \<longrightarrow> R s t \<and> (\<forall>x. r = Inr x \<longrightarrow> Q x t))"

definition stable_under :: "('s \<Rightarrow> 's \<Rightarrow> bool) \<Rightarrow> ('s \<Rightarrow> bool) \<Rightarrow> bool" where
  "stable_under R P \<longleftrightarrow> (\<forall>s t. P s \<longrightarrow> R s t \<longrightarrow> P t)"

lemma ensuresI:
  "(\<And>s r t. P s \<Longrightarrow> m s = (r, t) \<Longrightarrow> R s t \<and> (\<forall>x. r = Inr x \<longrightarrow> Q x t)) \<Longrightarrow> ensures R P m Q"
  by (simp add: ensures_def)

lemma ensuresD:
  assumes "ensures R P m Q" and "P s" and "m s = (r, t)"
  shows "R s t" and "r = Inr x \<Longrightarrow> Q x t"
  using assms by (auto simp: ensures_def)

lemma stable_underI: "(\<And>s t. P s \<Longrightarrow> R s t \<Longrightarrow> P t) \<Longrightarrow> stable_under R P"
  by (auto simp: stable_under_def)

lemma stable_underD: "stable_under R P \<Longrightarrow> P s \<Longrightarrow> R s t \<Longrightarrow> P t"
  by (auto simp: stable_under_def)

lemma stable_conj [intro]: "stable_under R P \<Longrightarrow> stable_under R Q \<Longrightarrow> stable_under R (\<lambda>s. P s \<and> Q s)"
  by (auto simp: stable_under_def)

lemma stable_all [intro]: "(\<And>x. x \<in> A \<Longrightarrow> stable_under R (P x)) \<Longrightarrow> stable_under R (\<lambda>s. \<forall>x \<in> A. P x s)"
  unfolding stable_under_def by blast

lemma stable_const [intro]: "stable_under R (\<lambda>s. b)"
  by (simp add: stable_under_def)

lemma ensures_conseq:
  "ensures R P m Q \<Longrightarrow> (\<And>s. P' s \<Longrightarrow> P s) \<Longrightarrow> (\<And>x s. Q x s \<Longrightarrow> Q' x s) \<Longrightarrow> ensures R P' m Q'"
  unfolding ensures_def by blast

lemma ensures_keeps: "keeps R m \<Longrightarrow> ensures R P m (\<lambda>_ _. True)"
  by (auto simp: ensures_def dest: keepsD)

context stateful_relation
begin

lemma ensures_return: "(\<And>s. P s \<Longrightarrow> Q x s) \<Longrightarrow> ensures R P (returnS x) Q"
  by (simp add: ensures_def refl)

lemma ensures_raise: "ensures R P (raiseS e) Q"
  by (simp add: ensures_def refl)

lemma ensures_lift: "(\<And>s x. P s \<Longrightarrow> r = Inr x \<Longrightarrow> Q x s) \<Longrightarrow> ensures R P (liftS r) Q"
  by (simp add: ensures_def refl)

lemma ensures_seq:
  assumes "ensures R P m Q" and "\<And>x. ensures R (Q x) (f x) Q'"
  shows "ensures R P (bindS m f) Q'"
proof (rule ensuresI)
  fix s r t
  assume p: "P s" and run: "bindS m f s = (r, t)"
  obtain a u where m: "m s = (a, u)" by (cases "m s")
  have su: "R s u" by (rule ensuresD(1) [OF assms(1) p m])
  show "R s t \<and> (\<forall>x. r = Inr x \<longrightarrow> Q' x t)"
  proof (cases a)
    case (Inl e)
    then have "r = Inl e \<and> t = u" using run m by simp
    then show ?thesis using su by simp
  next
    case (Inr x)
    then have "f x u = (r, t)" using run m by simp
    with ensuresD [OF assms(2) ensuresD(2) [OF assms(1) p m Inr]] show ?thesis
      using trans [OF su] by blast
  qed
qed

lemma ensures_bind:
  assumes "ensures R P m Q" and "\<And>x. ensures R (\<lambda>s. P s \<and> Q x s) (f x) Q'" and "stable_under R P"
  shows "ensures R P (bindS m f) Q'"
proof (rule ensures_seq)
  show "ensures R P m (\<lambda>x s. P s \<and> Q x s)"
    using assms(1,3) by (auto simp: ensures_def stable_under_def)
qed (rule assms(2))

text \<open>A first part that reads the state, or whose value does not matter.\<close>

lemma ensures_get:
  "(\<And>x. ensures R (\<lambda>s. P s \<and> g s = x) (f x) Q) \<Longrightarrow> ensures R P (bindS (getS g) f) Q"
  by (simp add: ensures_def bindS_def)

lemma ensures_then:
  assumes "keeps R m" and "\<And>x. ensures R P (f x) Q" and "stable_under R P"
  shows "ensures R P (bindS m f) Q"
  by (rule ensures_bind [OF ensures_keeps [OF assms(1)] _ assms(3)])
     (rule ensures_conseq [OF assms(2)]; simp)

lemma ensures_attempt:
  "ensures R P m Q \<Longrightarrow> ensures R P (attemptS m) (\<lambda>x t. \<forall>y. x = Inr y \<longrightarrow> Q y t)"
  by (auto simp: ensures_def attemptS_eq)

lemma ensures_catch:
  assumes "ensures R P m Q" and "\<And>e k. h e = Some k \<Longrightarrow> keeps R k"
  shows "ensures R P (catchS m h) (\<lambda>_ _. True)"
proof (rule ensuresI)
  fix s r t
  assume p: "P s" and run: "catchS m h s = (r, t)"
  obtain x u where m: "m s = (x, u)" by (cases "m s")
  have su: "R s u" by (rule ensuresD(1) [OF assms(1) p m])
  have "R s t"
  proof (cases x)
    case (Inr y)
    then show ?thesis using run m su by auto
  next
    case (Inl e)
    then show ?thesis
      using run m su assms(2) [of e] by (cases "h e") (auto dest: keepsD intro: trans)
  qed
  then show "R s t \<and> (\<forall>x. r = Inr x \<longrightarrow> True)" by simp
qed

lemma ensures_map:
  assumes "\<And>x. x \<in> set xs \<Longrightarrow> ensures R P (f x) (Q x)" and "stable_under R P" and "\<And>x y. stable_under R (Q x y)"
  shows "ensures R P (mapS f xs) (\<lambda>ys t. list_all2 (\<lambda>x y. Q x y t) xs ys)"
  using assms(1)
proof (induction xs)
  case Nil
  then show ?case unfolding mapS.simps by (intro ensures_return) simp
next
  case (Cons x xs)
  have "ensures R (\<lambda>s. (P s \<and> Q x y s) \<and> list_all2 (\<lambda>x y. Q x y s) xs ys) (returnS (y # ys))
      (\<lambda>ys t. list_all2 (\<lambda>x y. Q x y t) (x # xs) ys)" for y ys
    by (rule ensures_return) simp
  then have "ensures R (\<lambda>s. P s \<and> Q x y s) (bindS (mapS f xs) (\<lambda>ys. returnS (y # ys)))
      (\<lambda>ys t. list_all2 (\<lambda>x y. Q x y t) (x # xs) ys)" for y
    using Cons assms(2,3)
    by (intro ensures_bind [where Q = "\<lambda>ys t. list_all2 (\<lambda>x y. Q x y t) xs ys"])
       (auto intro: ensures_conseq)
  then show ?case
    unfolding mapS.simps by (intro ensures_bind [OF Cons.prems _ assms(2)]) auto
qed

end

text \<open>What an operation returns, when it returns.\<close>

definition yields :: "('s, 'a) stateful \<Rightarrow> ('a \<Rightarrow> bool) \<Rightarrow> bool" where
  "yields m Q \<longleftrightarrow> (\<forall>s x t. m s = (Inr x, t) \<longrightarrow> Q x)"

lemma yieldsD: "yields m Q \<Longrightarrow> m s = (Inr x, t) \<Longrightarrow> Q x"
  by (auto simp: yields_def)

lemma yields_pure:
  "Q x \<Longrightarrow> yields (returnS x) Q" "yields (raiseS e) Q" "(\<And>x. r = Inr x \<Longrightarrow> Q x) \<Longrightarrow> yields (liftS r) Q"
  by (auto simp: yields_def)

lemma yields_bind: "yields m P \<Longrightarrow> (\<And>x. P x \<Longrightarrow> yields (f x) Q) \<Longrightarrow> yields (bindS m f) Q"
  by (fastforce simp: yields_def bindS_Inr)

lemma yields_mono: "yields m P \<Longrightarrow> (\<And>x. P x \<Longrightarrow> Q x) \<Longrightarrow> yields m Q"
  by (auto simp: yields_def)

lemma yields_then: "(\<And>x. yields (f x) Q) \<Longrightarrow> yields (bindS m f) Q"
  by (fastforce simp: yields_def bindS_Inr)

lemma mapS_Inr_length: "mapS f xs s = (Inr ys, t) \<Longrightarrow> length ys = length xs"
  by (induction xs arbitrary: s ys) (auto simp: bindS_Inr)

lemma gatherS_Inr_length: "gatherS f xs s = (Inr ys, t) \<Longrightarrow> length ys = length xs"
  unfolding gatherS_def bindS_Inr by (auto dest!: mapS_Inr_length traverse_length)

text \<open>A property of the pairs of argument and result that every call ensures.\<close>

lemma mapS_all2:
  assumes "mapS f xs s = (Inr ys, t)"
    and "\<And>x y s t. x \<in> set xs \<Longrightarrow> f x s = (Inr y, t) \<Longrightarrow> P x y"
  shows "list_all2 P xs ys"
  using assms by (induction xs arbitrary: s ys) (auto simp: bindS_Inr)

lemma yields_map: "(\<And>x. x \<in> set xs \<Longrightarrow> yields (f x) (P x)) \<Longrightarrow> yields (mapS f xs) (list_all2 P xs)"
proof (induction xs)
  case Nil
  show ?case unfolding mapS.simps by (rule yields_pure) simp
next
  case (Cons x xs)
  have "yields (mapS f xs) (list_all2 P xs)" by (rule Cons.IH) (simp add: Cons.prems)
  then have "yields (bindS (mapS f xs) (\<lambda>ys. returnS (y # ys))) (list_all2 P (x # xs))" if "P x y" for y
    by (rule yields_bind) (rule yields_pure, simp add: that)
  then show ?case unfolding mapS.simps by (intro yields_bind [OF Cons.prems]) simp_all
qed

lemma yields_gather:
  assumes "\<And>x. x \<in> set xs \<Longrightarrow> yields (f x) (P x)"
  shows "yields (gatherS f xs) (list_all2 P xs)"
proof -
  have "yields (mapS (\<lambda>x. attemptS (f x)) xs) (list_all2 (\<lambda>x r. \<forall>y. r = Inr y \<longrightarrow> P x y) xs)"
    by (rule yields_map) (use assms in \<open>auto simp: yields_def attemptS_eq\<close>)
  moreover have "list_all2 (\<lambda>x r. \<forall>y. r = Inr y \<longrightarrow> P x y) xs rs \<Longrightarrow> traverse id rs = Inr ys \<Longrightarrow> list_all2 P xs ys" for rs ys
    by (auto simp: traverse_eq_Inr list_all2_conv_all_nth)
  ultimately show ?thesis unfolding gatherS_def by (auto intro!: yields_bind yields_pure)
qed

end
