(* ===== verification/Tools_State.thy ===== *)
theory Tools_State
  imports Tools_Results
begin

text \<open>
  The state of tool attempts, \<^verbatim>\<open>src/codepilot/tools/state.py\<close>: the life cycle of an attempt
  with its transition table, interaction requests and responses, the attempt record, and the
  in-memory store with its compare-and-set. The lock of the store makes every operation one
  step; the clock, the random part of an identifier and SHA-256 are arguments.
\<close>

section \<open>The life cycle of an attempt\<close>

datatype attempt_state =
    Received | Validating | ResolvingAccess | AwaitingApproval | AwaitingInput | Queued
  | Running | Succeeded | Failed | Denied | TimedOut | AttemptCancelled | Interrupted

fun attempt_state_name :: "attempt_state \<Rightarrow> string" where
  "attempt_state_name Received = ''received''"
| "attempt_state_name Validating = ''validating''"
| "attempt_state_name ResolvingAccess = ''resolving_access''"
| "attempt_state_name AwaitingApproval = ''awaiting_approval''"
| "attempt_state_name AwaitingInput = ''awaiting_input''"
| "attempt_state_name Queued = ''queued''"
| "attempt_state_name Running = ''running''"
| "attempt_state_name Succeeded = ''succeeded''"
| "attempt_state_name Failed = ''failed''"
| "attempt_state_name Denied = ''denied''"
| "attempt_state_name TimedOut = ''timed_out''"
| "attempt_state_name AttemptCancelled = ''cancelled''"
| "attempt_state_name Interrupted = ''interrupted''"

text \<open>\<^verbatim>\<open>_TOOL_ATTEMPT_TRANSITIONS\<close>\<close>

fun attempt_transitions :: "attempt_state \<Rightarrow> attempt_state list" where
  "attempt_transitions Received = [Validating]"
| "attempt_transitions Validating = [ResolvingAccess, Failed]"
| "attempt_transitions ResolvingAccess = [AwaitingApproval, Queued, Denied]"
| "attempt_transitions AwaitingApproval = [ResolvingAccess, Denied]"
| "attempt_transitions AwaitingInput = [Succeeded, Failed]"
| "attempt_transitions Queued = [Running, Failed, TimedOut, AttemptCancelled, Interrupted]"
| "attempt_transitions Running = [AwaitingInput, Succeeded, Failed, TimedOut, AttemptCancelled]"
| "attempt_transitions Succeeded = []"
| "attempt_transitions Failed = []"
| "attempt_transitions Denied = []"
| "attempt_transitions TimedOut = []"
| "attempt_transitions AttemptCancelled = []"
| "attempt_transitions Interrupted = []"

section \<open>Interactions\<close>

record interaction_request =
  ir_interaction_id :: string
  ir_request_fingerprint :: string
  ir_session_id :: string
  ir_tool_call_id :: string
  ir_tool_name :: string
  ir_registration_id :: string
  ir_prompt :: string
  ir_options :: "string list"
  ir_allow_free_text :: bool
  ir_created_at_ms :: int

definition interaction_request_post_init :: "interaction_request \<Rightarrow> interaction_request result" where
  "interaction_request_post_init i =
     bindE (sec_require_text (PStr (ir_interaction_id i)) ''interaction_id'') (\<lambda>interaction_id.
     bindE (sec_require_text (PStr (ir_request_fingerprint i)) ''request_fingerprint'') (\<lambda>fingerprint.
     bindE (sec_require_text (PStr (ir_session_id i)) ''session_id'') (\<lambda>session_id.
     bindE (sec_require_text (PStr (ir_tool_call_id i)) ''tool_call_id'') (\<lambda>call_id.
     bindE (sec_require_text (PStr (ir_tool_name i)) ''tool_name'') (\<lambda>tool_name.
     bindE (sec_require_text (PStr (ir_registration_id i)) ''registration_id'') (\<lambda>registration.
     bindE (sec_require_text (PStr (ir_prompt i)) ''prompt'') (\<lambda>prompt.
     let options = map py_strip (ir_options i) in
     if [] \<in> set options
       then Inl (ValueError ''interaction options cannot contain empty values'')
     else if \<not> distinct options then Inl (ValueError ''interaction options must be unique'')
     else Inr (i\<lparr>ir_interaction_id := interaction_id, ir_request_fingerprint := fingerprint,
            ir_session_id := session_id, ir_tool_call_id := call_id, ir_tool_name := tool_name,
            ir_registration_id := registration, ir_prompt := prompt, ir_options := options\<rparr>))))))))"

definition interaction_request_to_dict :: "interaction_request \<Rightarrow> dict" where
  "interaction_request_to_dict i =
     [(''interaction_id'', PStr (ir_interaction_id i)),
      (''request_fingerprint'', PStr (ir_request_fingerprint i)),
      (''session_id'', PStr (ir_session_id i)),
      (''tool_call_id'', PStr (ir_tool_call_id i)),
      (''tool_name'', PStr (ir_tool_name i)),
      (''registration_id'', PStr (ir_registration_id i)),
      (''prompt'', PStr (ir_prompt i)),
      (''options'', PList (map PStr (ir_options i))),
      (''allow_free_text'', PBool (ir_allow_free_text i)),
      (''created_at_ms'', PInt (ir_created_at_ms i))]"

definition wf_interaction_request :: "interaction_request \<Rightarrow> bool" where
  "wf_interaction_request i \<longleftrightarrow>
     canon_text py_strip (ir_interaction_id i) \<and> canon_text py_strip (ir_request_fingerprint i) \<and>
     canon_text py_strip (ir_session_id i) \<and> canon_text py_strip (ir_tool_call_id i) \<and>
     canon_text py_strip (ir_tool_name i) \<and> canon_text py_strip (ir_registration_id i) \<and>
     canon_text py_strip (ir_prompt i) \<and> (\<forall>opt \<in> set (ir_options i). canon_text py_strip opt) \<and>
     distinct (ir_options i)"

record interaction_response =
  is_interaction_id :: string
  is_request_fingerprint :: string
  is_session_id :: string
  is_tool_call_id :: string
  is_tool_name :: string
  is_registration_id :: string
  is_answers :: dict

definition interaction_response_post_init :: "interaction_response \<Rightarrow> interaction_response result" where
  "interaction_response_post_init r =
     bindE (sec_require_text (PStr (is_interaction_id r)) ''interaction_id'') (\<lambda>interaction_id.
     bindE (sec_require_text (PStr (is_request_fingerprint r)) ''request_fingerprint'') (\<lambda>fingerprint.
     bindE (sec_require_text (PStr (is_session_id r)) ''session_id'') (\<lambda>session_id.
     bindE (sec_require_text (PStr (is_tool_call_id r)) ''tool_call_id'') (\<lambda>call_id.
     bindE (sec_require_text (PStr (is_tool_name r)) ''tool_name'') (\<lambda>tool_name.
     bindE (sec_require_text (PStr (is_registration_id r)) ''registration_id'') (\<lambda>registration.
     if is_answers r = []
     then Inl (ValueError ''interaction answers must be a non-empty mapping'')
     else Inr (r\<lparr>is_interaction_id := interaction_id, is_request_fingerprint := fingerprint,
            is_session_id := session_id, is_tool_call_id := call_id, is_tool_name := tool_name,
            is_registration_id := registration,
            is_answers := map (\<lambda>(k, v). (k, jsonify v)) (is_answers r)\<rparr>)))))))"

definition wf_interaction_response :: "interaction_response \<Rightarrow> bool" where
  "wf_interaction_response r \<longleftrightarrow>
     canon_text py_strip (is_interaction_id r) \<and> canon_text py_strip (is_request_fingerprint r) \<and>
     canon_text py_strip (is_session_id r) \<and> canon_text py_strip (is_tool_call_id r) \<and>
     canon_text py_strip (is_tool_name r) \<and> canon_text py_strip (is_registration_id r) \<and>
     is_answers r \<noteq> [] \<and> map (\<lambda>(k, v). (k, jsonify v)) (is_answers r) = is_answers r"

text \<open>\<^verbatim>\<open>build_interaction_request\<close>; \<open>digest\<close> is the hexadecimal SHA-256 of the canonical JSON
  text of a payload.\<close>

definition build_interaction_request ::
  "(dict \<Rightarrow> string) \<Rightarrow> string \<Rightarrow> nat \<Rightarrow> tool_execution_request \<Rightarrow> string \<Rightarrow> string list \<Rightarrow> bool
   \<Rightarrow> interaction_request result" where
  "build_interaction_request digest uuid now request prompt options allow_free_text =
     (let payload =
        [(''session_id'', PStr (ter_session_id request)),
         (''tool_call_id'', PStr (ter_tool_call_id request)),
         (''tool_name'', PStr (ter_tool_name request)),
         (''registration_id'', PStr (ter_registration_id request)),
         (''prompt'', PStr (py_strip prompt)),
         (''options'', PList (map PStr options)),
         (''allow_free_text'', PBool allow_free_text)]
      in interaction_request_post_init
        \<lparr>ir_interaction_id = ''interaction_'' @ uuid, ir_request_fingerprint = digest payload,
         ir_session_id = ter_session_id request, ir_tool_call_id = ter_tool_call_id request,
         ir_tool_name = ter_tool_name request, ir_registration_id = ter_registration_id request,
         ir_prompt = py_strip prompt, ir_options = options, ir_allow_free_text = allow_free_text,
         ir_created_at_ms = int now\<rparr>)"

section \<open>Attempt records and the store\<close>

record attempt_record =
  at_attempt_id :: string
  at_request :: tool_execution_request
  at_state :: attempt_state
  at_challenge :: "approval_challenge option"
  at_interaction :: "interaction_request option"
  at_interaction_consumed :: bool
  at_grant :: "approval_grant option"
  at_grant_consumed :: bool
  at_result :: "tool_result option"
  at_cleanup_errors :: "string list"

definition new_attempt :: "string \<Rightarrow> tool_execution_request \<Rightarrow> attempt_record" where
  "new_attempt attempt_id request =
     \<lparr>at_attempt_id = attempt_id, at_request = request, at_state = Received, at_challenge = None,
      at_interaction = None, at_interaction_consumed = False, at_grant = None,
      at_grant_consumed = False, at_result = None, at_cleanup_errors = []\<rparr>"

definition attempt_id_for :: "tool_execution_request \<Rightarrow> string" where
  "attempt_id_for request =
     ter_session_id request @ '':'' @ ter_run_id request @ '':'' @ ter_tool_call_id request"

text \<open>\<^verbatim>\<open>transition\<close>; the other changes are a function on the record.\<close>

definition transition ::
  "attempt_record \<Rightarrow> attempt_state \<Rightarrow> (attempt_record \<Rightarrow> attempt_record) \<Rightarrow> attempt_record result" where
  "transition r state changes =
     (if state \<in> set (attempt_transitions (at_state r))
      then Inr (changes (r\<lparr>at_state := state\<rparr>))
      else Inl (ValueError (''Invalid Tool attempt transition: '' @ attempt_state_name (at_state r)
                  @ '' -> '' @ attempt_state_name state)))"

text \<open>The attempts in order of creation, and the two indices.\<close>

record tool_store =
  sr_attempts :: "(string \<times> attempt_record) list"
  sr_approvals :: "string \<rightharpoonup> string"
  sr_interactions :: "string \<rightharpoonup> string"

definition empty_store :: tool_store where
  "empty_store = \<lparr>sr_attempts = [], sr_approvals = Map.empty, sr_interactions = Map.empty\<rparr>"

definition store_get :: "tool_store \<Rightarrow> string \<Rightarrow> attempt_record option" where
  "store_get s attempt_id = map_of (sr_attempts s) attempt_id"

definition index_attempt :: "attempt_record \<Rightarrow> tool_store \<Rightarrow> tool_store" where
  "index_attempt r s =
     s\<lparr>sr_approvals := (case at_challenge r of None \<Rightarrow> sr_approvals s
          | Some c \<Rightarrow> (sr_approvals s)(ac_approval_id c \<mapsto> at_attempt_id r)),
       sr_interactions := (case at_interaction r of None \<Rightarrow> sr_interactions s
          | Some i \<Rightarrow> (sr_interactions s)(ir_interaction_id i \<mapsto> at_attempt_id r))\<rparr>"

definition put_attempt :: "attempt_record \<Rightarrow> tool_store \<Rightarrow> tool_store" where
  "put_attempt r s =
     index_attempt r (s\<lparr>sr_attempts := AList.update (at_attempt_id r) r (sr_attempts s)\<rparr>)"

definition store_create :: "attempt_record \<Rightarrow> tool_store \<Rightarrow> tool_store result" where
  "store_create r s =
     (if store_get s (at_attempt_id r) \<noteq> None
      then Inl (ToolStateConflictError (''Tool attempt already exists: '' @ at_attempt_id r))
      else Inr (put_attempt r s))"

definition find_by_approval_id :: "tool_store \<Rightarrow> string \<Rightarrow> attempt_record option" where
  "find_by_approval_id s approval_id =
     Option.bind (sr_approvals s approval_id) (store_get s)"

definition find_by_interaction_id :: "tool_store \<Rightarrow> string \<Rightarrow> attempt_record option" where
  "find_by_interaction_id s interaction_id =
     Option.bind (sr_interactions s interaction_id) (store_get s)"

definition pending_challenges :: "tool_store \<Rightarrow> approval_challenge list" where
  "pending_challenges s =
     List.map_filter (\<lambda>(k, r). if at_state r = AwaitingApproval then at_challenge r else None)
       (sr_attempts s)"

text \<open>What a grant must cover: the same actions and resources, no more effects and no more
  risk.\<close>

definition grant_covers :: "approval_grant \<Rightarrow> tool_access_request \<Rightarrow> bool" where
  "grant_covers g a \<longleftrightarrow>
     ag_actions g = ar_actions a \<and>
     map tr_uri (ag_resources g) = map tr_uri (ar_resources a) \<and>
     ar_effects a \<subseteq> ag_effects g \<and> risk_rank (ar_risk a) \<le> risk_rank (ag_risk g)"

definition record_grant_reusable ::
  "int \<Rightarrow> tool_execution_request \<Rightarrow> tool_access_request \<Rightarrow> attempt_record \<Rightarrow> approval_grant option" where
  "record_grant_reusable now request a r =
     (case at_grant r of
        None \<Rightarrow> None
      | Some g \<Rightarrow>
          if ag_scope g \<noteq> ScopeOnce \<and> \<not> at_grant_consumed r \<and> \<not> approval_grant_expired g now \<and>
             ter_registration_id (at_request r) = ter_registration_id request \<and>
             (ag_scope g = ScopeSession \<longrightarrow> ter_session_id (at_request r) = ter_session_id request) \<and>
             grant_covers g a
          then Some g else None)"

fun first_some :: "('a \<Rightarrow> 'b option) \<Rightarrow> 'a list \<Rightarrow> 'b option" where
  "first_some f [] = None"
| "first_some f (x # xs) = (case f x of None \<Rightarrow> first_some f xs | Some y \<Rightarrow> Some y)"

text \<open>The newest attempt first.\<close>

definition find_reusable_grant ::
  "tool_store \<Rightarrow> int \<Rightarrow> tool_execution_request \<Rightarrow> tool_access_request \<Rightarrow> approval_grant option" where
  "find_reusable_grant s now request a =
     first_some (record_grant_reusable now request a) (rev (map snd (sr_attempts s)))"

definition compare_and_set ::
  "string \<Rightarrow> attempt_state \<Rightarrow> attempt_record \<Rightarrow> tool_store \<Rightarrow> tool_store result" where
  "compare_and_set attempt_id expected r s =
     (case store_get s attempt_id of
        None \<Rightarrow> Inl (ToolStateConflictError (''Tool attempt state conflict: expected ''
                  @ attempt_state_name expected @ '', got missing''))
      | Some current \<Rightarrow>
          if at_state current \<noteq> expected
          then Inl (ToolStateConflictError (''Tool attempt state conflict: expected ''
                 @ attempt_state_name expected @ '', got '' @ attempt_state_name (at_state current)))
          else if at_attempt_id r \<noteq> attempt_id
          then Inl (ValueError ''replacement attempt_id must match'')
          else Inr (put_attempt r s))"

end
