(* ===== verification/Tools_State_Codec.thy ===== *)
theory Tools_State_Codec
  imports Tools_State
begin

text \<open>
  The checkpoint codec of tool state, the \<^verbatim>\<open>_to_dict\<close> and \<^verbatim>\<open>_from_dict\<close> functions of
  \<^verbatim>\<open>src/codepilot/tools/state_store.py\<close>, and the proof that every value they encode is decoded
  again. Enumerations are types here, so a name outside a \<^verbatim>\<open>Literal\<close> is an error of the
  decoder; the code leaves it to the constructors, which check most of them.
\<close>

section \<open>Names of the literal types\<close>

fun tool_mode_name :: "tool_mode \<Rightarrow> string" where
  "tool_mode_name ToolPlan = ''plan''"
| "tool_mode_name ToolExecute = ''execute''"
| "tool_mode_name ToolUnrestricted = ''unrestricted''"

definition tool_modes :: "tool_mode list" where
  "tool_modes = [ToolPlan, ToolExecute, ToolUnrestricted]"

definition risk_levels :: "risk_level list" where
  "risk_levels = [RiskLow, RiskMedium, RiskHigh, RiskCritical]"

fun effect_kind_name :: "effect_kind \<Rightarrow> string" where
  "effect_kind_name FilesystemRead = ''filesystem_read''"
| "effect_kind_name FilesystemWrite = ''filesystem_write''"
| "effect_kind_name FilesystemDelete = ''filesystem_delete''"
| "effect_kind_name ProcessSpawn = ''process_spawn''"
| "effect_kind_name NetworkAccess = ''network_access''"
| "effect_kind_name CredentialAccess = ''credential_access''"
| "effect_kind_name ExternalStateRead = ''external_state_read''"
| "effect_kind_name ExternalStateWrite = ''external_state_write''"
| "effect_kind_name SessionStateRead = ''session_state_read''"
| "effect_kind_name SessionStateWrite = ''session_state_write''"

definition effect_kinds :: "effect_kind list" where
  "effect_kinds =
     [FilesystemRead, FilesystemWrite, FilesystemDelete, ProcessSpawn, NetworkAccess,
      CredentialAccess, ExternalStateRead, ExternalStateWrite, SessionStateRead,
      SessionStateWrite]"

fun effect_status_name :: "effect_status \<Rightarrow> string" where
  "effect_status_name EffStarted = ''started''"
| "effect_status_name EffCompleted = ''completed''"
| "effect_status_name EffPartial = ''partial''"
| "effect_status_name EffUnknown = ''unknown''"

definition effect_statuses :: "effect_status list" where
  "effect_statuses = [EffStarted, EffCompleted, EffPartial, EffUnknown]"

fun effect_certainty_name :: "effect_certainty \<Rightarrow> string" where
  "effect_certainty_name CertObserved = ''observed''"
| "effect_certainty_name CertReported = ''reported''"
| "effect_certainty_name CertInferred = ''inferred''"

definition effect_certainties :: "effect_certainty list" where
  "effect_certainties = [CertObserved, CertReported, CertInferred]"

fun approval_scope_name :: "approval_scope \<Rightarrow> string" where
  "approval_scope_name ScopeOnce = ''once''"
| "approval_scope_name ScopeSession = ''session''"
| "approval_scope_name ScopeProject = ''project''"

definition approval_scopes :: "approval_scope list" where
  "approval_scopes = [ScopeOnce, ScopeSession, ScopeProject]"

definition tool_statuses :: "tool_status list" where
  "tool_statuses =
     [TSuccess, TError, TDenied, TApprovalRequired, TUserInputRequired, TCancelled, TTimedOut,
      TInterrupted]"

fun tool_error_kind_name :: "tool_error_kind \<Rightarrow> string" where
  "tool_error_kind_name KRegistration = ''registration''"
| "tool_error_kind_name KValidation = ''validation''"
| "tool_error_kind_name KUnavailable = ''unavailable''"
| "tool_error_kind_name KPermission = ''permission''"
| "tool_error_kind_name KApproval = ''approval''"
| "tool_error_kind_name KInteraction = ''interaction''"
| "tool_error_kind_name KQueueTimeout = ''queue_timeout''"
| "tool_error_kind_name KExecutionTimeout = ''execution_timeout''"
| "tool_error_kind_name KCancelled = ''cancelled''"
| "tool_error_kind_name KInterrupted = ''interrupted''"
| "tool_error_kind_name KExecution = ''execution''"
| "tool_error_kind_name KOutputValidation = ''output_validation''"
| "tool_error_kind_name KPolicyViolation = ''policy_violation''"
| "tool_error_kind_name KResourceCleanup = ''resource_cleanup''"
| "tool_error_kind_name KStaleRegistration = ''stale_registration''"
| "tool_error_kind_name KInternal = ''internal''"

definition tool_error_kinds :: "tool_error_kind list" where
  "tool_error_kinds =
     [KRegistration, KValidation, KUnavailable, KPermission, KApproval, KInteraction,
      KQueueTimeout, KExecutionTimeout, KCancelled, KInterrupted, KExecution,
      KOutputValidation, KPolicyViolation, KResourceCleanup, KStaleRegistration, KInternal]"

definition output_validations :: "output_validation list" where
  "output_validations = [SchemaValidated, StructurallyValidated]"

definition content_trusts :: "content_trust list" where
  "content_trusts = [Trusted, Untrusted]"

definition attempt_states :: "attempt_state list" where
  "attempt_states =
     [Received, Validating, ResolvingAccess, AwaitingApproval, AwaitingInput, Queued, Running,
      Succeeded, Failed, Denied, TimedOut, AttemptCancelled, Interrupted]"

text \<open>A set of literals is written as the sorted list of their names.\<close>

definition names_of :: "('e \<Rightarrow> string) \<Rightarrow> 'e list \<Rightarrow> 'e set \<Rightarrow> string list" where
  "names_of name all S = sort (map name (filter (\<lambda>e. e \<in> S) all))"

definition parse_literal :: "('e \<Rightarrow> string) \<Rightarrow> 'e list \<Rightarrow> string \<Rightarrow> string \<Rightarrow> 'e result" where
  "parse_literal name all field text =
     parse_enum name all (\<lambda>t. ValueError (''Unknown '' @ field @ '': '' @ t)) (PStr text)"

definition parse_literals :: "('e \<Rightarrow> string) \<Rightarrow> 'e list \<Rightarrow> string \<Rightarrow> string list \<Rightarrow> 'e set result" where
  "parse_literals name all field texts = mapE set (traverse (parse_literal name all field) texts)"

context str_enum
begin

lemma parse_literal_name [simp]: "parse_literal name all field (name e) = Inr e"
  by (simp add: parse_literal_def parse_name)

lemma parse_literals_names [simp]: "parse_literals name all field (names_of name all S) = Inr S"
proof -
  let ?es = "filter (\<lambda>e. e \<in> S) all"
  have "traverse (parse_literal name all field) (map name es) = Inr es" for es
    using traverse_map_Inr [of es "parse_literal name all field" name "\<lambda>x. x"] by simp
  moreover obtain es where es: "sort (map name ?es) = map name es" and "set es = set ?es"
  proof -
    have "set (sort (map name ?es)) = name ` set ?es" by simp
    define es where "es = map (the_inv name) (sort (map name ?es))"
    have inj: "inj name" by (auto intro: injI name_inj)
    have "map name es = sort (map name ?es)"
      unfolding es_def
      by (auto intro!: map_idI simp: the_inv_f_f [OF inj])
    moreover from this have "name ` set es = name ` set ?es"
      by (metis list.set_map set_sort)
    then have "set es = set ?es" using inj by (simp add: inj_image_eq_iff)
    ultimately show ?thesis using that by metis
  qed
  ultimately show ?thesis
    using all_complete by (auto simp: parse_literals_def names_of_def)
qed

end

lemmas literal_lists =
  tool_modes_def risk_levels_def effect_kinds_def effect_statuses_def effect_certainties_def
  approval_scopes_def tool_statuses_def tool_error_kinds_def output_validations_def
  content_trusts_def attempt_states_def

interpretation tool_mode: str_enum tool_mode_name tool_modes
proof
  fix a b e :: tool_mode
  show "tool_mode_name a = tool_mode_name b \<Longrightarrow> a = b" by (cases a; cases b) simp_all
  show "e \<in> set tool_modes" by (cases e) (simp_all add: literal_lists)
  show "py_strip (tool_mode_name e) = tool_mode_name e"
    by (cases e) (simp_all add: py_strip_fix stripped_def py_space_bits)
qed

interpretation risk_level: str_enum risk_level_name risk_levels
proof
  fix a b e :: risk_level
  show "risk_level_name a = risk_level_name b \<Longrightarrow> a = b" by (cases a; cases b) simp_all
  show "e \<in> set risk_levels" by (cases e) (simp_all add: literal_lists)
  show "py_strip (risk_level_name e) = risk_level_name e"
    by (cases e) (simp_all add: py_strip_fix stripped_def py_space_bits)
qed

interpretation effect_kind: str_enum effect_kind_name effect_kinds
proof
  fix a b e :: effect_kind
  show "effect_kind_name a = effect_kind_name b \<Longrightarrow> a = b" by (cases a; cases b) simp_all
  show "e \<in> set effect_kinds" by (cases e) (simp_all add: literal_lists)
  show "py_strip (effect_kind_name e) = effect_kind_name e"
    by (cases e) (simp_all add: py_strip_fix stripped_def py_space_bits)
qed

interpretation effect_status: str_enum effect_status_name effect_statuses
proof
  fix a b e :: effect_status
  show "effect_status_name a = effect_status_name b \<Longrightarrow> a = b" by (cases a; cases b) simp_all
  show "e \<in> set effect_statuses" by (cases e) (simp_all add: literal_lists)
  show "py_strip (effect_status_name e) = effect_status_name e"
    by (cases e) (simp_all add: py_strip_fix stripped_def py_space_bits)
qed

interpretation effect_certainty: str_enum effect_certainty_name effect_certainties
proof
  fix a b e :: effect_certainty
  show "effect_certainty_name a = effect_certainty_name b \<Longrightarrow> a = b" by (cases a; cases b) simp_all
  show "e \<in> set effect_certainties" by (cases e) (simp_all add: literal_lists)
  show "py_strip (effect_certainty_name e) = effect_certainty_name e"
    by (cases e) (simp_all add: py_strip_fix stripped_def py_space_bits)
qed

interpretation approval_scope: str_enum approval_scope_name approval_scopes
proof
  fix a b e :: approval_scope
  show "approval_scope_name a = approval_scope_name b \<Longrightarrow> a = b" by (cases a; cases b) simp_all
  show "e \<in> set approval_scopes" by (cases e) (simp_all add: literal_lists)
  show "py_strip (approval_scope_name e) = approval_scope_name e"
    by (cases e) (simp_all add: py_strip_fix stripped_def py_space_bits)
qed

interpretation tool_status: str_enum tool_status_name tool_statuses
proof
  fix a b e :: tool_status
  show "tool_status_name a = tool_status_name b \<Longrightarrow> a = b" by (cases a; cases b) simp_all
  show "e \<in> set tool_statuses" by (cases e) (simp_all add: literal_lists)
  show "py_strip (tool_status_name e) = tool_status_name e"
    by (cases e) (simp_all add: py_strip_fix stripped_def py_space_bits)
qed

interpretation tool_error_kind: str_enum tool_error_kind_name tool_error_kinds
proof
  fix a b e :: tool_error_kind
  show "tool_error_kind_name a = tool_error_kind_name b \<Longrightarrow> a = b" by (cases a; cases b) simp_all
  show "e \<in> set tool_error_kinds" by (cases e) (simp_all add: literal_lists)
  show "py_strip (tool_error_kind_name e) = tool_error_kind_name e"
    by (cases e) (simp_all add: py_strip_fix stripped_def py_space_bits)
qed

interpretation output_validation: str_enum output_validation_name output_validations
proof
  fix a b e :: output_validation
  show "output_validation_name a = output_validation_name b \<Longrightarrow> a = b" by (cases a; cases b) simp_all
  show "e \<in> set output_validations" by (cases e) (simp_all add: literal_lists)
  show "py_strip (output_validation_name e) = output_validation_name e"
    by (cases e) (simp_all add: py_strip_fix stripped_def py_space_bits)
qed

interpretation content_trust: str_enum content_trust_name content_trusts
proof
  fix a b e :: content_trust
  show "content_trust_name a = content_trust_name b \<Longrightarrow> a = b" by (cases a; cases b) simp_all
  show "e \<in> set content_trusts" by (cases e) (simp_all add: literal_lists)
  show "py_strip (content_trust_name e) = content_trust_name e"
    by (cases e) (simp_all add: py_strip_fix stripped_def py_space_bits)
qed

interpretation attempt_state: str_enum attempt_state_name attempt_states
proof
  fix a b e :: attempt_state
  show "attempt_state_name a = attempt_state_name b \<Longrightarrow> a = b" by (cases a; cases b) simp_all
  show "e \<in> set attempt_states" by (cases e) (simp_all add: literal_lists)
  show "py_strip (attempt_state_name e) = attempt_state_name e"
    by (cases e) (simp_all add: py_strip_fix stripped_def py_space_bits)
qed

section \<open>Field helpers\<close>

definition ts_required_text :: "pyval \<Rightarrow> string \<Rightarrow> string result" where
  "ts_required_text v field =
     (let text = (case v of PStr s \<Rightarrow> py_strip s | _ \<Rightarrow> []) in
      if text = [] then Inl (ValueError (field @ '' must be a non-empty string'')) else Inr text)"

definition ts_required_string :: "pyval \<Rightarrow> string \<Rightarrow> string result" where
  "ts_required_string v field =
     (case v of PStr s \<Rightarrow> Inr s | _ \<Rightarrow> Inl (ValueError (field @ '' must be a string'')))"

definition ts_optional_text :: "pyval \<Rightarrow> string option result" where
  "ts_optional_text v =
     (case v of PNone \<Rightarrow> Inr None | _ \<Rightarrow> mapE Some (ts_required_text v ''optional text''))"

definition ts_required_bool :: "pyval \<Rightarrow> string \<Rightarrow> bool result" where
  "ts_required_bool v field =
     (case v of PBool b \<Rightarrow> Inr b | _ \<Rightarrow> Inl (ValueError (field @ '' must be bool'')))"

definition ts_required_int :: "pyval \<Rightarrow> string \<Rightarrow> int result" where
  "ts_required_int v field =
     (case v of PInt i \<Rightarrow> Inr i | _ \<Rightarrow> Inl (ValueError (field @ '' must be int'')))"

definition ts_optional_int :: "pyval \<Rightarrow> string \<Rightarrow> int option result" where
  "ts_optional_int v field =
     (case v of PNone \<Rightarrow> Inr None | _ \<Rightarrow> mapE Some (ts_required_int v field))"

definition ts_mapping :: "pyval \<Rightarrow> string \<Rightarrow> dict result" where
  "ts_mapping v field =
     (case v of PDict d \<Rightarrow> Inr d | _ \<Rightarrow> Inl (ValueError (field @ '' must be an object'')))"

fun as_string :: "pyval \<Rightarrow> string option" where
  "as_string (PStr s) = Some s"
| "as_string _ = None"

definition ts_string_tuple :: "pyval \<Rightarrow> string \<Rightarrow> string list result" where
  "ts_string_tuple v field =
     (case v of
        PList xs \<Rightarrow> if list_all (\<lambda>x. as_string x \<noteq> None) xs
                   then Inr (List.map_filter as_string xs)
                   else Inl (ValueError (field @ '' must be a list of strings''))
      | _ \<Rightarrow> Inl (ValueError (field @ '' must be a list of strings'')))"

definition ts_exact_keys :: "dict \<Rightarrow> string list \<Rightarrow> string \<Rightarrow> unit result" where
  "ts_exact_keys raw expected what =
     (if set (map fst raw) = set expected then Inr ()
      else Inl (ValueError (what @ '' has unknown or missing fields'')))"

text \<open>A list of objects, each decoded.\<close>

definition ts_objects :: "pyval \<Rightarrow> string \<Rightarrow> exn \<Rightarrow> (dict \<Rightarrow> 'a result) \<Rightarrow> 'a list result" where
  "ts_objects v item_name not_list decode =
     (case v of PList xs \<Rightarrow> traverse (\<lambda>x. bindE (ts_mapping x item_name) decode) xs
      | _ \<Rightarrow> Inl not_list)"

text \<open>An optional object.\<close>

definition ts_optional :: "pyval \<Rightarrow> string \<Rightarrow> (dict \<Rightarrow> 'a result) \<Rightarrow> 'a option result" where
  "ts_optional v field decode =
     (case v of PNone \<Rightarrow> Inr None | _ \<Rightarrow> mapE Some (bindE (ts_mapping v field) decode))"

definition plain_dict :: "dict \<Rightarrow> dict" where
  "plain_dict d = map (\<lambda>(k, v). (k, plain_json v)) d"

definition opt_val :: "('a \<Rightarrow> pyval) \<Rightarrow> 'a option \<Rightarrow> pyval" where
  "opt_val f x = (case x of None \<Rightarrow> PNone | Some y \<Rightarrow> f y)"

named_theorems codec_simps \<open>decoding of what was encoded, field by field\<close>

lemma ts_required_text_PStr [codec_simps]:
  "canon_text py_strip s \<Longrightarrow> ts_required_text (PStr s) field = Inr s"
  by (simp add: ts_required_text_def canon_text_def)

lemma ts_required_text_canon: "ts_required_text v field = Inr t \<Longrightarrow> canon_text py_strip t"
  by (auto simp: ts_required_text_def canon_text_def Let_def split: pyval.splits if_splits)

lemma ts_optional_text_opt [codec_simps]:
  "(\<forall>t. x = Some t \<longrightarrow> canon_text py_strip t) \<Longrightarrow> ts_optional_text (opt_val PStr x) = Inr x"
  by (cases x) (simp_all add: ts_optional_text_def opt_val_def codec_simps)

lemma ts_optional_int_opt [codec_simps]: "ts_optional_int (opt_val PInt x) field = Inr x"
  by (cases x) (simp_all add: ts_optional_int_def ts_required_int_def opt_val_def)

lemma ts_simple [codec_simps]:
  "ts_required_string (PStr s) field = Inr s" "ts_required_bool (PBool b) field = Inr b"
  "ts_required_int (PInt i) field = Inr i" "ts_mapping (PDict d) field = Inr d"
  by (simp_all add: ts_required_string_def ts_required_bool_def ts_required_int_def ts_mapping_def)

lemma ts_string_tuple_PStr [codec_simps]: "ts_string_tuple (PList (map PStr xs)) field = Inr xs"
proof -
  have "List.map_filter as_string (map PStr xs) = xs" by (induction xs) (simp_all add: map_filter_simps)
  then show ?thesis by (simp add: ts_string_tuple_def list_all_iff)
qed

lemma ts_exact_keys_ok [codec_simps]:
  "set (map fst raw) = set expected \<Longrightarrow> ts_exact_keys raw expected what = Inr ()"
  by (simp add: ts_exact_keys_def)

lemma ts_objects_map [codec_simps]:
  "(\<And>x. x \<in> set xs \<Longrightarrow> decode (to_dict x) = Inr x) \<Longrightarrow>
   ts_objects (PList (map (\<lambda>x. PDict (to_dict x)) xs)) what err decode = Inr xs"
  by (simp add: ts_objects_def ts_mapping_def traverse_map_Inr [where h = "\<lambda>x. x", simplified])

lemma ts_optional_opt [codec_simps]:
  "(\<And>x. v = Some x \<Longrightarrow> decode (to_dict x) = Inr x) \<Longrightarrow>
   ts_optional (opt_val (\<lambda>x. PDict (to_dict x)) v) field decode = Inr v"
  by (cases v) (simp_all add: ts_optional_def opt_val_def ts_mapping_def)

lemma freeze_plain_json: "freeze_value (plain_json v) = freeze_value v"
proof -
  have "freeze_value (jsonify v) = freeze_value v" by (induction v rule: jsonify.induct) auto
  then show ?thesis by (simp add: plain_json_def)
qed

lemma freeze_plain_dict [simp]: "freeze_mapping (plain_dict d) = freeze_mapping d"
  by (simp add: freeze_mapping_def plain_dict_def freeze_plain_json case_prod_unfold)

section \<open>Resources, effects, artifacts, contents and errors\<close>

definition wf_tool_resource :: "tool_resource \<Rightarrow> bool" where
  "wf_tool_resource r \<longleftrightarrow>
     canon_text py_strip (tr_uri r) \<and> freeze_mapping (tr_metadata r) = tr_metadata r"

interpretation tool_resource: validated wf_tool_resource tool_resource_post_init
  by unfold_locales
     (auto simp: tool_resource_post_init_def wf_tool_resource_def bindE_eq_Inr
        dest: sec_require_text_canon)

definition resource_to_dict :: "tool_resource \<Rightarrow> dict" where
  "resource_to_dict r =
     [(''uri'', PStr (tr_uri r)), (''metadata'', PDict (plain_dict (tr_metadata r)))]"

definition resource_from_dict :: "dict \<Rightarrow> tool_resource result" where
  "resource_from_dict raw =
     bindE (ts_exact_keys raw [''uri'', ''metadata''] ''tool resource'') (\<lambda>_.
     bindE (ts_required_text (dget raw ''uri'') ''resource uri'') (\<lambda>uri.
     bindE (ts_mapping (dget raw ''metadata'') ''resource metadata'') (\<lambda>metadata.
     tool_resource_post_init \<lparr>tr_uri = uri, tr_metadata = metadata\<rparr>)))"

interpretation resource_codec: record_codec wf_tool_resource resource_to_dict resource_from_dict
proof
  fix x :: tool_resource and d
  show "resource_from_dict (resource_to_dict x) = Inr x" if "wf_tool_resource x"
    using that
    by (cases x) (simp add: resource_from_dict_def resource_to_dict_def codec_simps
        wf_tool_resource_def tool_resource_post_init_def)
  show "wf_tool_resource x" if "resource_from_dict d = Inr x"
    using that by (auto simp: resource_from_dict_def bindE_eq_Inr intro: tool_resource.post_init_valid)
qed

definition wf_tool_effect :: "tool_effect \<Rightarrow> bool" where
  "wf_tool_effect e \<longleftrightarrow> canon_text py_strip (te_operation e) \<and> wf_tool_resource (te_resource e)"

definition effect_to_dict :: "tool_effect \<Rightarrow> dict" where
  "effect_to_dict e =
     [(''kind'', PStr (effect_kind_name (te_kind e))),
      (''resource'', PDict (resource_to_dict (te_resource e))),
      (''operation'', PStr (te_operation e)),
      (''status'', PStr (effect_status_name (te_status e))),
      (''certainty'', PStr (effect_certainty_name (te_certainty e)))]"

definition effect_from_dict :: "dict \<Rightarrow> tool_effect result" where
  "effect_from_dict raw =
     bindE (ts_exact_keys raw [''kind'', ''resource'', ''operation'', ''status'', ''certainty'']
              ''effect'') (\<lambda>_.
     bindE (ts_required_text (dget raw ''kind'') ''effect kind'') (\<lambda>kind.
     bindE (bindE (ts_mapping (dget raw ''resource'') ''resource'') resource_from_dict) (\<lambda>resource.
     bindE (ts_required_text (dget raw ''operation'') ''operation'') (\<lambda>operation.
     bindE (ts_required_text (dget raw ''status'') ''effect status'') (\<lambda>status.
     bindE (ts_required_text (dget raw ''certainty'') ''effect certainty'') (\<lambda>certainty.
     bindE (parse_literal effect_kind_name effect_kinds ''tool effect'' kind) (\<lambda>kind.
     bindE (parse_literal effect_status_name effect_statuses ''effect status'' status) (\<lambda>status.
     bindE (parse_literal effect_certainty_name effect_certainties ''effect certainty'' certainty)
       (\<lambda>certainty.
     tool_effect_post_init
       \<lparr>te_kind = kind, te_resource = resource, te_operation = operation, te_status = status,
        te_certainty = certainty\<rparr>)))))))))"

lemma literal_name_canon [codec_simps]:
  "canon_text py_strip (effect_kind_name a)" "canon_text py_strip (effect_status_name b)"
  "canon_text py_strip (effect_certainty_name c)" "canon_text py_strip (tool_mode_name d)"
  "canon_text py_strip (risk_level_name e)" "canon_text py_strip (approval_scope_name f)"
  "canon_text py_strip (tool_status_name g)" "canon_text py_strip (tool_error_kind_name h)"
  "canon_text py_strip (output_validation_name i)" "canon_text py_strip (content_trust_name j)"
  "canon_text py_strip (attempt_state_name k)"
  by (simp_all add: canon_text_def effect_kind.name_stripped effect_status.name_stripped
      effect_certainty.name_stripped tool_mode.name_stripped risk_level.name_stripped
      approval_scope.name_stripped tool_status.name_stripped tool_error_kind.name_stripped
      output_validation.name_stripped content_trust.name_stripped attempt_state.name_stripped)
     ((cases a; simp), (cases b; simp), (cases c; simp), (cases d; simp), (cases e; simp), (cases f; simp),
      (cases g; simp), (cases h; simp), (cases i; simp), (cases j; simp), (cases k; simp))

lemma effect_decode_wf: "effect_from_dict d = Inr x \<Longrightarrow> wf_tool_effect x"
  by (auto simp: effect_from_dict_def bindE_eq_Inr wf_tool_effect_def tool_effect_post_init_def
      dest: sec_require_text_canon resource_codec.decode_valid)

interpretation effect_codec: record_codec wf_tool_effect effect_to_dict effect_from_dict
proof
  fix x :: tool_effect and d
  show "effect_from_dict (effect_to_dict x) = Inr x" if "wf_tool_effect x"
    using that
    by (cases x) (simp add: effect_from_dict_def effect_to_dict_def codec_simps
        wf_tool_effect_def tool_effect_post_init_def resource_codec.decode_encode)
  show "wf_tool_effect x" if "effect_from_dict d = Inr x"
    using that by (rule effect_decode_wf)
qed

definition wf_artifact_ref :: "artifact_ref \<Rightarrow> bool" where
  "wf_artifact_ref a \<longleftrightarrow>
     canon_text py_strip (arf_artifact_id a) \<and> canon_text py_strip (arf_media_type a) \<and>
     (\<forall>t. arf_name a = Some t \<longrightarrow> canon_text py_strip t) \<and>
     (\<forall>n. arf_size_bytes a = Some n \<longrightarrow> 0 \<le> n)"

lemma sec_optional_text_canon: "sec_optional_text v = Some t \<Longrightarrow> canon_text py_strip t"
  by (auto simp: sec_optional_text_def dest: strip.optional_text_canon split: option.splits)

lemma sec_optional_text_fix [codec_simps]:
  "(\<forall>t. v = Some t \<longrightarrow> canon_text py_strip t) \<Longrightarrow> sec_optional_text v = v"
  by (cases v) (simp_all add: sec_optional_text_def optional_text_fix)

interpretation artifact_ref: validated wf_artifact_ref artifact_ref_post_init
  by unfold_locales
     (auto simp: artifact_ref_post_init_def wf_artifact_ref_def bindE_eq_Inr sec_optional_text_fix
        require_non_negative_int_def
        dest: sec_require_text_canon sec_optional_text_canon split: option.splits if_splits)

definition artifact_to_dict :: "artifact_ref \<Rightarrow> dict" where
  "artifact_to_dict a =
     [(''artifact_id'', PStr (arf_artifact_id a)), (''media_type'', PStr (arf_media_type a)),
      (''name'', opt_val PStr (arf_name a)), (''size_bytes'', opt_val PInt (arf_size_bytes a))]"

definition artifact_from_dict :: "dict \<Rightarrow> artifact_ref result" where
  "artifact_from_dict raw =
     bindE (ts_exact_keys raw [''artifact_id'', ''media_type'', ''name'', ''size_bytes'']
              ''artifact'') (\<lambda>_.
     bindE (ts_required_text (dget raw ''artifact_id'') ''artifact_id'') (\<lambda>artifact_id.
     bindE (ts_required_text (dget raw ''media_type'') ''media_type'') (\<lambda>media_type.
     bindE (ts_optional_text (dget raw ''name'')) (\<lambda>name.
     bindE (ts_optional_int (dget raw ''size_bytes'') ''size_bytes'') (\<lambda>size.
     artifact_ref_post_init
       \<lparr>arf_artifact_id = artifact_id, arf_media_type = media_type, arf_name = name,
        arf_size_bytes = size\<rparr>)))))"

interpretation artifact_codec: record_codec wf_artifact_ref artifact_to_dict artifact_from_dict
proof
  fix x :: artifact_ref and d
  show "artifact_from_dict (artifact_to_dict x) = Inr x" if "wf_artifact_ref x"
    using that
    by (cases x) (simp add: artifact_from_dict_def artifact_to_dict_def codec_simps
        wf_artifact_ref_def artifact_ref.valid_post_init)
  show "wf_artifact_ref x" if "artifact_from_dict d = Inr x"
    using that by (auto simp: artifact_from_dict_def bindE_eq_Inr intro: artifact_ref.post_init_valid)
qed

fun wf_tool_content :: "tool_content \<Rightarrow> bool" where
  "wf_tool_content (ToolText t) = True"
| "wf_tool_content (ToolImage data mime name) =
     (canon_text py_strip data \<and> canon_text py_strip mime \<and>
      (case name of None \<Rightarrow> True | Some t \<Rightarrow> canon_text py_strip t))"
| "wf_tool_content (ToolArtifact a) = wf_artifact_ref a"

fun content_to_dict :: "tool_content \<Rightarrow> dict" where
  "content_to_dict (ToolText t) = [(''type'', PStr ''text''), (''text'', PStr t)]"
| "content_to_dict (ToolImage data mime name) =
     [(''type'', PStr ''image''), (''data'', PStr data), (''mime_type'', PStr mime),
      (''name'', opt_val PStr name)]"
| "content_to_dict (ToolArtifact a) =
     [(''type'', PStr ''artifact''), (''artifact'', PDict (artifact_to_dict a))]"

definition content_from_dict :: "dict \<Rightarrow> tool_content result" where
  "content_from_dict raw =
     (if dget raw ''type'' = PStr ''text'' then
        bindE (ts_exact_keys raw [''type'', ''text''] ''text content'') (\<lambda>_.
        mapE ToolText (ts_required_string (dget raw ''text'') ''text''))
      else if dget raw ''type'' = PStr ''image'' then
        bindE (ts_exact_keys raw [''type'', ''data'', ''mime_type'', ''name''] ''image content'') (\<lambda>_.
        bindE (ts_required_text (dget raw ''data'') ''image data'') (\<lambda>data.
        bindE (ts_required_text (dget raw ''mime_type'') ''mime_type'') (\<lambda>mime.
        mapE (ToolImage data mime) (ts_optional_text (dget raw ''name'')))))
      else if dget raw ''type'' = PStr ''artifact'' then
        bindE (ts_exact_keys raw [''type'', ''artifact''] ''artifact content'') (\<lambda>_.
        mapE ToolArtifact (bindE (ts_mapping (dget raw ''artifact'') ''artifact'') artifact_from_dict))
      else Inl (ValueError ''Unknown tool content type''))"

lemma ts_optional_text_canon: "ts_optional_text v = Inr (Some t) \<Longrightarrow> canon_text py_strip t"
  by (auto simp: ts_optional_text_def mapE_eq_Inr dest: ts_required_text_canon split: pyval.splits)

interpretation content_codec: record_codec wf_tool_content content_to_dict content_from_dict
proof
  fix x :: tool_content and d
  show "content_from_dict (content_to_dict x) = Inr x" if "wf_tool_content x"
    using that
    by (cases x)
       (simp_all add: content_from_dict_def codec_simps artifact_codec.decode_encode
          split: option.splits)
  show "wf_tool_content x" if "content_from_dict d = Inr x"
    using that
    by (auto simp: content_from_dict_def bindE_eq_Inr mapE_eq_Inr
        dest: ts_required_text_canon ts_optional_text_canon artifact_codec.decode_valid
        split: if_splits option.splits)
qed

definition error_to_dict :: "tool_error \<Rightarrow> dict" where
  "error_to_dict e =
     [(''code'', PStr (er_code e)), (''kind'', PStr (tool_error_kind_name (er_kind e))),
      (''message'', PStr (er_message e)), (''retryable'', PBool (er_retryable e)),
      (''recovery_hint'', PStr (er_recovery_hint e)),
      (''details'', PDict (plain_dict (er_details e)))]"

definition error_from_dict :: "dict \<Rightarrow> tool_error result" where
  "error_from_dict raw =
     bindE (ts_exact_keys raw [''code'', ''kind'', ''message'', ''retryable'', ''recovery_hint'',
              ''details''] ''tool error'') (\<lambda>_.
     bindE (ts_required_text (dget raw ''code'') ''error code'') (\<lambda>code.
     bindE (ts_required_text (dget raw ''kind'') ''error kind'') (\<lambda>kind.
     bindE (ts_required_text (dget raw ''message'') ''error message'') (\<lambda>message.
     bindE (ts_required_bool (dget raw ''retryable'') ''retryable'') (\<lambda>retryable.
     bindE (ts_optional_text (dget raw ''recovery_hint'')) (\<lambda>hint.
     bindE (ts_mapping (dget raw ''details'') ''error details'') (\<lambda>details.
     bindE (parse_literal tool_error_kind_name tool_error_kinds ''tool error kind'' kind) (\<lambda>kind.
     tool_error_post_init
       \<lparr>er_code = code, er_kind = kind, er_message = message, er_retryable = retryable,
        er_recovery_hint = (case hint of None \<Rightarrow> [] | Some t \<Rightarrow> t), er_details = details\<rparr>))))))))"

text \<open>An empty recovery hint, the default, is written as the empty text, which the decoder
  refuses; so only an error with a hint is decoded again.\<close>

lemma error_decode_encode:
  assumes "wf_tool_error e" and "er_recovery_hint e \<noteq> []"
  shows "error_from_dict (error_to_dict e) = Inr e"
proof -
  have "ts_optional_text (PStr (er_recovery_hint e)) = Inr (Some (er_recovery_hint e))"
    using assms by (simp add: ts_optional_text_def codec_simps canon_text_def wf_tool_error_def)
  then show ?thesis
    using assms
    by (cases e) (simp add: error_from_dict_def error_to_dict_def codec_simps wf_tool_error_def
        tool_error_post_init_def)
qed

lemma error_without_hint_refused:
  assumes "wf_tool_error e" and "er_recovery_hint e = []"
  shows "error_from_dict (error_to_dict e) =
    Inl (ValueError ''optional text must be a non-empty string'')"
proof -
  have "ts_optional_text (PStr []) = Inl (ValueError ''optional text must be a non-empty string'')"
    by code_simp
  then show ?thesis
    using assms
    by (cases e) (simp add: error_from_dict_def error_to_dict_def codec_simps wf_tool_error_def)
qed

section \<open>Challenges, grants, interactions and requests\<close>

definition wf_approval_challenge :: "approval_challenge \<Rightarrow> bool" where
  "wf_approval_challenge c \<longleftrightarrow>
     ac_allowed_scopes c \<noteq> {} \<and>
     canon_text py_strip (ac_approval_id c) \<and> canon_text py_strip (ac_request_fingerprint c) \<and>
     canon_text py_strip (ac_run_id c) \<and> canon_text py_strip (ac_session_id c) \<and>
     canon_text py_strip (ac_tool_call_id c) \<and> canon_text py_strip (ac_tool_name c) \<and>
     canon_text py_strip (ac_registration_id c) \<and> canon_text py_strip (ac_reason c) \<and>
     (\<forall>t \<in> set (ac_actions c). canon_text py_strip t) \<and>
     (\<forall>r \<in> set (ac_resources c). wf_tool_resource r) \<and>
     freeze_mapping (ac_safe_preview c) = ac_safe_preview c \<and>
     (\<forall>n. ac_expires_at_ms c = Some n \<longrightarrow> 0 \<le> n)"

definition challenge_to_dict :: "approval_challenge \<Rightarrow> dict" where
  "challenge_to_dict c =
     [(''approval_id'', PStr (ac_approval_id c)),
      (''request_fingerprint'', PStr (ac_request_fingerprint c)),
      (''run_id'', PStr (ac_run_id c)),
      (''session_id'', PStr (ac_session_id c)),
      (''tool_call_id'', PStr (ac_tool_call_id c)),
      (''tool_name'', PStr (ac_tool_name c)),
      (''registration_id'', PStr (ac_registration_id c)),
      (''actions'', PList (map PStr (ac_actions c))),
      (''resources'', PList (map (\<lambda>r. PDict (resource_to_dict r)) (ac_resources c))),
      (''effects'', PList (map PStr (names_of effect_kind_name effect_kinds (ac_effects c)))),
      (''risk'', PStr (risk_level_name (ac_risk c))),
      (''reason'', PStr (ac_reason c)),
      (''safe_preview'', PDict (plain_dict (ac_safe_preview c))),
      (''allowed_scopes'',
         PList (map PStr (names_of approval_scope_name approval_scopes (ac_allowed_scopes c)))),
      (''expires_at_ms'', opt_val PInt (ac_expires_at_ms c))]"

definition resources_from :: "pyval \<Rightarrow> tool_resource list result" where
  "resources_from v =
     ts_objects v ''resource'' (ValueError ''resources must be a list'') resource_from_dict"

definition challenge_keys :: "string list" where
  "challenge_keys =
     [''approval_id'', ''request_fingerprint'', ''run_id'', ''session_id'', ''tool_call_id'',
      ''tool_name'', ''registration_id'', ''actions'', ''resources'', ''effects'', ''risk'',
      ''reason'', ''safe_preview'', ''allowed_scopes'', ''expires_at_ms'']"

definition challenge_from_dict :: "dict \<Rightarrow> approval_challenge result" where
  "challenge_from_dict raw =
     bindE (ts_exact_keys raw challenge_keys ''approval challenge'') (\<lambda>_.
     bindE (ts_required_text (dget raw ''approval_id'') ''approval_id'') (\<lambda>approval_id.
     bindE (ts_required_text (dget raw ''request_fingerprint'') ''request_fingerprint'') (\<lambda>fingerprint.
     bindE (ts_required_text (dget raw ''run_id'') ''run_id'') (\<lambda>run_id.
     bindE (ts_required_text (dget raw ''session_id'') ''session_id'') (\<lambda>session_id.
     bindE (ts_required_text (dget raw ''tool_call_id'') ''tool_call_id'') (\<lambda>call_id.
     bindE (ts_required_text (dget raw ''tool_name'') ''tool_name'') (\<lambda>tool_name.
     bindE (ts_required_text (dget raw ''registration_id'') ''registration_id'') (\<lambda>registration.
     bindE (ts_string_tuple (dget raw ''actions'') ''actions'') (\<lambda>actions.
     bindE (resources_from (dget raw ''resources'')) (\<lambda>resources.
     bindE (ts_string_tuple (dget raw ''effects'') ''effects'') (\<lambda>effects.
     bindE (ts_required_text (dget raw ''risk'') ''risk'') (\<lambda>risk.
     bindE (ts_required_text (dget raw ''reason'') ''reason'') (\<lambda>reason.
     bindE (ts_mapping (dget raw ''safe_preview'') ''safe_preview'') (\<lambda>preview.
     bindE (ts_string_tuple (dget raw ''allowed_scopes'') ''allowed_scopes'') (\<lambda>scopes.
     bindE (ts_optional_int (dget raw ''expires_at_ms'') ''expires_at_ms'') (\<lambda>expires.
     bindE (parse_literals effect_kind_name effect_kinds ''approval effect'' effects) (\<lambda>effects.
     bindE (parse_literal risk_level_name risk_levels ''approval risk'' risk) (\<lambda>risk.
     bindE (parse_literals approval_scope_name approval_scopes ''approval scope'' scopes) (\<lambda>scopes.
     approval_challenge_post_init
       \<lparr>ac_approval_id = approval_id, ac_request_fingerprint = fingerprint, ac_run_id = run_id,
        ac_session_id = session_id, ac_tool_call_id = call_id, ac_tool_name = tool_name,
        ac_registration_id = registration, ac_actions = actions, ac_resources = resources,
        ac_effects = effects, ac_risk = risk, ac_reason = reason, ac_safe_preview = preview,
        ac_allowed_scopes = scopes, ac_expires_at_ms = expires\<rparr>)))))))))))))))))))"

lemma resources_decode_encode [codec_simps]:
  "\<forall>r \<in> set rs. wf_tool_resource r \<Longrightarrow>
   resources_from (PList (map (\<lambda>r. PDict (resource_to_dict r)) rs)) = Inr rs"
  by (simp add: resources_from_def codec_simps resource_codec.decode_encode)

lemma resources_decode_wf: "resources_from v = Inr rs \<Longrightarrow> r \<in> set rs \<Longrightarrow> wf_tool_resource r"
  by (auto simp: resources_from_def ts_objects_def bindE_eq_Inr
      dest!: traverse_set resource_codec.decode_valid split: pyval.splits)

lemma traverse_require_canon:
  "traverse (\<lambda>v. sec_require_text (PStr v) f) xs = Inr ys \<Longrightarrow> t \<in> set ys \<Longrightarrow> canon_text py_strip t"
  by (metis traverse_set sec_require_text_canon)

lemma traverse_require_fix [codec_simps]:
  "\<forall>t \<in> set xs. canon_text py_strip t \<Longrightarrow> traverse (\<lambda>v. sec_require_text (PStr v) f) xs = Inr xs"
  by (rule traverse_id) simp

lemma non_negative_option [codec_simps]:
  "(case x of None \<Rightarrow> Inr () | Some n \<Rightarrow> require_non_negative_int n f) = Inr u \<longleftrightarrow>
   (\<forall>n. x = Some n \<longrightarrow> 0 \<le> n)"
  by (cases x) (auto simp: require_non_negative_int_def)

lemma challenge_post_init_wf:
  "approval_challenge_post_init c = Inr c' \<Longrightarrow> \<forall>r \<in> set (ac_resources c). wf_tool_resource r \<Longrightarrow>
   wf_approval_challenge c'"
  by (auto simp: approval_challenge_post_init_def wf_approval_challenge_def bindE_eq_Inr
      non_negative_option dest: sec_require_text_canon traverse_require_canon)

lemma challenge_post_init_fix:
  "wf_approval_challenge c \<Longrightarrow> approval_challenge_post_init c = Inr c"
  by (cases c) (auto simp: approval_challenge_post_init_def wf_approval_challenge_def codec_simps
      require_non_negative_int_def split: option.splits)

interpretation challenge_codec:
  record_codec wf_approval_challenge challenge_to_dict challenge_from_dict
proof
  fix x :: approval_challenge and d
  show "challenge_from_dict (challenge_to_dict x) = Inr x" if wf: "wf_approval_challenge x"
  proof -
    have keys: "set (map fst (challenge_to_dict x)) = set challenge_keys"
      by (simp add: challenge_to_dict_def challenge_keys_def)
    show ?thesis
      using wf challenge_post_init_fix [OF wf] unfolding challenge_from_dict_def ts_exact_keys_ok [OF keys]
      by (cases x) (simp add: challenge_to_dict_def codec_simps wf_approval_challenge_def
          approval_challenge_post_init_def)
  qed
  show "wf_approval_challenge x" if "challenge_from_dict d = Inr x"
    using that
    by (auto simp: challenge_from_dict_def bindE_eq_Inr intro!: challenge_post_init_wf
        dest: resources_decode_wf)
qed

definition wf_approval_grant :: "approval_grant \<Rightarrow> bool" where
  "wf_approval_grant g \<longleftrightarrow>
     canon_text py_strip (ag_grant_id g) \<and> canon_text py_strip (ag_approval_id g) \<and>
     canon_text py_strip (ag_request_fingerprint g) \<and>
     (\<forall>r \<in> set (ag_resources g). wf_tool_resource r) \<and> 0 \<le> ag_issued_at_ms g \<and>
     (\<forall>n. ag_expires_at_ms g = Some n \<longrightarrow> 0 \<le> n)"

lemma grant_post_init_wf:
  "approval_grant_post_init g = Inr g' \<Longrightarrow> \<forall>r \<in> set (ag_resources g). wf_tool_resource r \<Longrightarrow>
   wf_approval_grant g'"
  by (auto simp: approval_grant_post_init_def wf_approval_grant_def bindE_eq_Inr
      non_negative_option require_non_negative_int_def dest: sec_require_text_canon split: if_splits)

lemma grant_post_init_fix: "wf_approval_grant g \<Longrightarrow> approval_grant_post_init g = Inr g"
  by (cases g) (auto simp: approval_grant_post_init_def wf_approval_grant_def
      require_non_negative_int_def split: option.splits)

definition grant_to_dict :: "approval_grant \<Rightarrow> dict" where
  "grant_to_dict g =
     [(''grant_id'', PStr (ag_grant_id g)),
      (''approval_id'', PStr (ag_approval_id g)),
      (''request_fingerprint'', PStr (ag_request_fingerprint g)),
      (''scope'', PStr (approval_scope_name (ag_scope g))),
      (''actions'', PList (map PStr (ag_actions g))),
      (''resources'', PList (map (\<lambda>r. PDict (resource_to_dict r)) (ag_resources g))),
      (''effects'', PList (map PStr (names_of effect_kind_name effect_kinds (ag_effects g)))),
      (''risk'', PStr (risk_level_name (ag_risk g))),
      (''issued_at_ms'', PInt (ag_issued_at_ms g)),
      (''expires_at_ms'', opt_val PInt (ag_expires_at_ms g))]"

definition grant_from_dict :: "dict \<Rightarrow> approval_grant result" where
  "grant_from_dict raw =
     bindE (ts_exact_keys raw [''grant_id'', ''approval_id'', ''request_fingerprint'', ''scope'',
              ''actions'', ''resources'', ''effects'', ''risk'', ''issued_at_ms'', ''expires_at_ms'']
              ''approval grant'') (\<lambda>_.
     bindE (ts_required_text (dget raw ''grant_id'') ''grant_id'') (\<lambda>grant_id.
     bindE (ts_required_text (dget raw ''approval_id'') ''approval_id'') (\<lambda>approval_id.
     bindE (ts_required_text (dget raw ''request_fingerprint'') ''request_fingerprint'') (\<lambda>fingerprint.
     bindE (ts_required_text (dget raw ''scope'') ''scope'') (\<lambda>scope.
     bindE (ts_string_tuple (dget raw ''actions'') ''actions'') (\<lambda>actions.
     bindE (resources_from (dget raw ''resources'')) (\<lambda>resources.
     bindE (ts_string_tuple (dget raw ''effects'') ''effects'') (\<lambda>effects.
     bindE (ts_required_text (dget raw ''risk'') ''risk'') (\<lambda>risk.
     bindE (ts_required_int (dget raw ''issued_at_ms'') ''issued_at_ms'') (\<lambda>issued.
     bindE (ts_optional_int (dget raw ''expires_at_ms'') ''expires_at_ms'') (\<lambda>expires.
     bindE (parse_literal approval_scope_name approval_scopes ''approval scope'' scope) (\<lambda>scope.
     bindE (parse_literals effect_kind_name effect_kinds ''grant effect'' effects) (\<lambda>effects.
     bindE (parse_literal risk_level_name risk_levels ''grant risk'' risk) (\<lambda>risk.
     approval_grant_post_init
       \<lparr>ag_grant_id = grant_id, ag_approval_id = approval_id, ag_request_fingerprint = fingerprint,
        ag_scope = scope, ag_actions = actions, ag_resources = resources, ag_effects = effects,
        ag_risk = risk, ag_issued_at_ms = issued, ag_expires_at_ms = expires\<rparr>))))))))))))))"

interpretation grant_codec: record_codec wf_approval_grant grant_to_dict grant_from_dict
proof
  fix x :: approval_grant and d
  show "grant_from_dict (grant_to_dict x) = Inr x" if wf: "wf_approval_grant x"
    using wf grant_post_init_fix [OF wf]
    by (cases x) (simp add: grant_from_dict_def grant_to_dict_def codec_simps wf_approval_grant_def)
  show "wf_approval_grant x" if "grant_from_dict d = Inr x"
    using that
    by (auto simp: grant_from_dict_def bindE_eq_Inr intro!: grant_post_init_wf
        dest: resources_decode_wf)
qed

interpretation interaction_request: validated wf_interaction_request interaction_request_post_init
proof
  fix x y :: interaction_request
  show "wf_interaction_request y" if "interaction_request_post_init x = Inr y"
    using that
    by (auto simp: interaction_request_post_init_def wf_interaction_request_def bindE_eq_Inr Let_def
        canon_text_def py_strip_idem dest: sec_require_text_canon)
  show "interaction_request_post_init x = Inr x" if "wf_interaction_request x"
  proof -
    have "map py_strip (ir_options x) = ir_options x" "[] \<notin> set (ir_options x)"
      using that by (auto simp: wf_interaction_request_def canon_text_def intro: map_idI)
    then show ?thesis
      using that by (simp add: interaction_request_post_init_def wf_interaction_request_def)
  qed
qed

definition interaction_from_dict :: "dict \<Rightarrow> interaction_request result" where
  "interaction_from_dict raw =
     bindE (ts_exact_keys raw [''interaction_id'', ''request_fingerprint'', ''session_id'',
              ''tool_call_id'', ''tool_name'', ''registration_id'', ''prompt'', ''options'',
              ''allow_free_text'', ''created_at_ms''] ''interaction request'') (\<lambda>_.
     bindE (ts_required_text (dget raw ''interaction_id'') ''interaction_id'') (\<lambda>interaction_id.
     bindE (ts_required_text (dget raw ''request_fingerprint'') ''request_fingerprint'') (\<lambda>fingerprint.
     bindE (ts_required_text (dget raw ''session_id'') ''session_id'') (\<lambda>session_id.
     bindE (ts_required_text (dget raw ''tool_call_id'') ''tool_call_id'') (\<lambda>call_id.
     bindE (ts_required_text (dget raw ''tool_name'') ''tool_name'') (\<lambda>tool_name.
     bindE (ts_required_text (dget raw ''registration_id'') ''registration_id'') (\<lambda>registration.
     bindE (ts_required_text (dget raw ''prompt'') ''prompt'') (\<lambda>prompt.
     bindE (ts_string_tuple (dget raw ''options'') ''options'') (\<lambda>options.
     bindE (ts_required_bool (dget raw ''allow_free_text'') ''allow_free_text'') (\<lambda>free.
     bindE (ts_required_int (dget raw ''created_at_ms'') ''created_at_ms'') (\<lambda>created.
     interaction_request_post_init
       \<lparr>ir_interaction_id = interaction_id, ir_request_fingerprint = fingerprint,
        ir_session_id = session_id, ir_tool_call_id = call_id, ir_tool_name = tool_name,
        ir_registration_id = registration, ir_prompt = prompt, ir_options = options,
        ir_allow_free_text = free, ir_created_at_ms = created\<rparr>)))))))))))"

interpretation interaction_codec:
  record_codec wf_interaction_request interaction_request_to_dict interaction_from_dict
proof
  fix x :: interaction_request and d
  show "interaction_from_dict (interaction_request_to_dict x) = Inr x" if wf: "wf_interaction_request x"
    using wf interaction_request.valid_post_init [OF wf]
    by (cases x) (simp add: interaction_from_dict_def interaction_request_to_dict_def codec_simps
        wf_interaction_request_def)
  show "wf_interaction_request x" if "interaction_from_dict d = Inr x"
    using that by (auto simp: interaction_from_dict_def bindE_eq_Inr
        intro: interaction_request.post_init_valid)
qed

definition wf_execution_request :: "tool_execution_request \<Rightarrow> bool" where
  "wf_execution_request r \<longleftrightarrow>
     canon_text py_strip (ter_run_id r) \<and> canon_text py_strip (ter_session_id r) \<and>
     canon_text py_strip (ter_tool_call_id r) \<and> canon_text py_strip (ter_tool_name r) \<and>
     canon_text py_strip (ter_registration_id r) \<and>
     freeze_mapping (ter_arguments r) = ter_arguments r \<and>
     (\<forall>t. ter_raw_arguments r = Some t \<longrightarrow> canon_text py_strip t) \<and>
     (\<forall>t. ter_argument_parse_error r = Some t \<longrightarrow> canon_text py_strip t)"

interpretation execution_request: validated wf_execution_request tool_execution_request_post_init
  by unfold_locales
     (auto simp: tool_execution_request_post_init_def wf_execution_request_def bindE_eq_Inr
        sec_optional_text_fix dest: sec_require_text_canon sec_optional_text_canon)

definition request_to_dict :: "tool_execution_request \<Rightarrow> dict" where
  "request_to_dict r =
     [(''run_id'', PStr (ter_run_id r)), (''session_id'', PStr (ter_session_id r)),
      (''tool_call_id'', PStr (ter_tool_call_id r)), (''tool_name'', PStr (ter_tool_name r)),
      (''arguments'', PDict (plain_dict (ter_arguments r))),
      (''mode'', PStr (tool_mode_name (ter_mode r))),
      (''registration_id'', PStr (ter_registration_id r)),
      (''deadline_at_ms'', opt_val PInt (ter_deadline_at_ms r)),
      (''raw_arguments'', opt_val PStr (ter_raw_arguments r)),
      (''argument_parse_error'', opt_val PStr (ter_argument_parse_error r))]"

definition request_from_dict :: "dict \<Rightarrow> tool_execution_request result" where
  "request_from_dict raw =
     bindE (ts_exact_keys raw [''run_id'', ''session_id'', ''tool_call_id'', ''tool_name'',
              ''arguments'', ''mode'', ''registration_id'', ''deadline_at_ms'', ''raw_arguments'',
              ''argument_parse_error''] ''tool request'') (\<lambda>_.
     bindE (ts_required_text (dget raw ''run_id'') ''run_id'') (\<lambda>run_id.
     bindE (ts_required_text (dget raw ''session_id'') ''session_id'') (\<lambda>session_id.
     bindE (ts_required_text (dget raw ''tool_call_id'') ''tool_call_id'') (\<lambda>call_id.
     bindE (ts_required_text (dget raw ''tool_name'') ''tool_name'') (\<lambda>tool_name.
     bindE (ts_mapping (dget raw ''arguments'') ''arguments'') (\<lambda>arguments.
     bindE (ts_required_text (dget raw ''mode'') ''mode'') (\<lambda>mode.
     bindE (ts_required_text (dget raw ''registration_id'') ''registration_id'') (\<lambda>registration.
     bindE (ts_optional_int (dget raw ''deadline_at_ms'') ''deadline_at_ms'') (\<lambda>deadline.
     bindE (ts_optional_text (dget raw ''raw_arguments'')) (\<lambda>raw_arguments.
     bindE (ts_optional_text (dget raw ''argument_parse_error'')) (\<lambda>parse_error.
     bindE (parse_literal tool_mode_name tool_modes ''tool mode'' mode) (\<lambda>mode.
     tool_execution_request_post_init
       \<lparr>ter_run_id = run_id, ter_session_id = session_id, ter_tool_call_id = call_id,
        ter_tool_name = tool_name, ter_arguments = arguments, ter_mode = mode,
        ter_registration_id = registration, ter_deadline_at_ms = deadline,
        ter_raw_arguments = raw_arguments, ter_argument_parse_error = parse_error\<rparr>))))))))))))"

interpretation request_codec: record_codec wf_execution_request request_to_dict request_from_dict
proof
  fix x :: tool_execution_request and d
  show "request_from_dict (request_to_dict x) = Inr x" if wf: "wf_execution_request x"
    using wf
    by (cases x) (simp add: request_from_dict_def request_to_dict_def codec_simps
        wf_execution_request_def tool_execution_request_post_init_def)
  show "wf_execution_request x" if "request_from_dict d = Inr x"
    using that by (auto simp: request_from_dict_def bindE_eq_Inr
        intro: execution_request.post_init_valid)
qed

section \<open>Results and attempt records\<close>

text \<open>\<^verbatim>\<open>ToolTiming.__post_init__\<close>.\<close>

definition tool_timing_post_init :: "tool_timing \<Rightarrow> tool_timing result" where
  "tool_timing_post_init t =
     (let check = (\<lambda>v name. case v of None \<Rightarrow> Inr () | Some n \<Rightarrow> require_non_negative_int n name) in
     bindE (check (tt_queued_at_ms t) ''queued_at_ms'') (\<lambda>_.
     bindE (check (tt_started_at_ms t) ''started_at_ms'') (\<lambda>_.
     bindE (check (tt_finished_at_ms t) ''finished_at_ms'') (\<lambda>_.
     bindE (check (tt_duration_ms t) ''duration_ms'') (\<lambda>_.
     Inr t)))))"

definition wf_tool_timing :: "tool_timing \<Rightarrow> bool" where
  "wf_tool_timing t \<longleftrightarrow>
     (\<forall>n. tt_queued_at_ms t = Some n \<longrightarrow> 0 \<le> n) \<and> (\<forall>n. tt_started_at_ms t = Some n \<longrightarrow> 0 \<le> n) \<and>
     (\<forall>n. tt_finished_at_ms t = Some n \<longrightarrow> 0 \<le> n) \<and> (\<forall>n. tt_duration_ms t = Some n \<longrightarrow> 0 \<le> n)"

interpretation tool_timing: validated wf_tool_timing tool_timing_post_init
  by unfold_locales
     (auto simp: tool_timing_post_init_def wf_tool_timing_def bindE_eq_Inr Let_def non_negative_option
        require_non_negative_int_def split: option.splits)

definition timing_to_dict :: "tool_timing \<Rightarrow> dict" where
  "timing_to_dict t =
     [(''queued_at_ms'', opt_val PInt (tt_queued_at_ms t)),
      (''started_at_ms'', opt_val PInt (tt_started_at_ms t)),
      (''finished_at_ms'', opt_val PInt (tt_finished_at_ms t)),
      (''duration_ms'', opt_val PInt (tt_duration_ms t))]"

definition result_to_dict :: "tool_result \<Rightarrow> dict" where
  "result_to_dict r =
     [(''tool_call_id'', PStr (to_tool_call_id r)), (''tool_name'', PStr (to_tool_name r)),
      (''status'', PStr (tool_status_name (to_status r))),
      (''content'', PList (map (\<lambda>c. PDict (content_to_dict c)) (to_content r))),
      (''data'', PDict (plain_dict (to_data r))),
      (''error'', opt_val (\<lambda>e. PDict (error_to_dict e)) (to_error r)),
      (''effects'', PList (map (\<lambda>e. PDict (effect_to_dict e)) (to_effects r))),
      (''artifacts'', PList (map (\<lambda>a. PDict (artifact_to_dict a)) (to_artifacts r))),
      (''approval'', opt_val (\<lambda>c. PDict (challenge_to_dict c)) (to_approval r)),
      (''interaction'', (case to_interaction r of None \<Rightarrow> PNone
          | Some d \<Rightarrow> if d = [] then PNone else PDict (plain_dict d))),
      (''timing'', PDict (timing_to_dict (to_timing r))),
      (''registration_id'', PStr (to_registration_id r)),
      (''output_validation'', PStr (output_validation_name (to_output_validation r))),
      (''content_trust'', PStr (content_trust_name (to_content_trust r)))]"

fun is_list :: "pyval \<Rightarrow> bool" where
  "is_list (PList _) = True"
| "is_list _ = False"

definition result_keys :: "string list" where
  "result_keys =
     [''tool_call_id'', ''tool_name'', ''status'', ''content'', ''data'', ''error'', ''effects'',
      ''artifacts'', ''approval'', ''interaction'', ''timing'', ''registration_id'',
      ''output_validation'', ''content_trust'']"

definition timing_from_dict :: "dict \<Rightarrow> tool_timing result" where
  "timing_from_dict timing =
     bindE (ts_optional_int (dget timing ''queued_at_ms'') ''queued_at_ms'') (\<lambda>queued.
     bindE (ts_optional_int (dget timing ''started_at_ms'') ''started_at_ms'') (\<lambda>started.
     bindE (ts_optional_int (dget timing ''finished_at_ms'') ''finished_at_ms'') (\<lambda>finished.
     bindE (ts_optional_int (dget timing ''duration_ms'') ''duration_ms'') (\<lambda>duration.
     tool_timing_post_init
       \<lparr>tt_queued_at_ms = queued, tt_started_at_ms = started, tt_finished_at_ms = finished,
        tt_duration_ms = duration\<rparr>))))"

definition result_from_dict :: "dict \<Rightarrow> tool_result result" where
  "result_from_dict raw =
     bindE (ts_exact_keys raw result_keys ''tool result'') (\<lambda>_.
     let not_lists = ValueError ''Tool result content, effects and artifacts must be lists'' in
     if \<not> (is_list (dget raw ''content'') \<and> is_list (dget raw ''effects'') \<and>
           is_list (dget raw ''artifacts''))
     then Inl not_lists else
     bindE (ts_mapping (dget raw ''timing'') ''timing'') (\<lambda>timing.
     bindE (ts_exact_keys timing [''queued_at_ms'', ''started_at_ms'', ''finished_at_ms'',
              ''duration_ms''] ''tool timing'') (\<lambda>_.
     bindE (ts_required_text (dget raw ''tool_call_id'') ''tool_call_id'') (\<lambda>call_id.
     bindE (ts_required_text (dget raw ''tool_name'') ''tool_name'') (\<lambda>tool_name.
     bindE (ts_required_text (dget raw ''status'') ''status'') (\<lambda>status.
     bindE (ts_objects (dget raw ''content'') ''content'' not_lists content_from_dict) (\<lambda>content.
     bindE (ts_mapping (dget raw ''data'') ''data'') (\<lambda>data.
     bindE (ts_optional (dget raw ''error'') ''error'' error_from_dict) (\<lambda>err.
     bindE (ts_objects (dget raw ''effects'') ''effect'' not_lists effect_from_dict) (\<lambda>effects.
     bindE (ts_objects (dget raw ''artifacts'') ''artifact'' not_lists artifact_from_dict) (\<lambda>artifacts.
     bindE (ts_optional (dget raw ''approval'') ''approval'' challenge_from_dict) (\<lambda>approval.
     bindE (ts_optional (dget raw ''interaction'') ''interaction'' Inr) (\<lambda>interaction.
     bindE (timing_from_dict timing) (\<lambda>timing.
     bindE (ts_required_text (dget raw ''registration_id'') ''registration_id'') (\<lambda>registration.
     bindE (ts_required_text (dget raw ''output_validation'') ''output_validation'') (\<lambda>validation.
     bindE (ts_required_text (dget raw ''content_trust'') ''content_trust'') (\<lambda>trust.
     bindE (parse_literal tool_status_name tool_statuses ''tool status'' status) (\<lambda>status.
     bindE (parse_literal output_validation_name output_validations ''output validation'' validation)
       (\<lambda>validation.
     bindE (parse_literal content_trust_name content_trusts ''content trust'' trust) (\<lambda>trust.
     tool_result_post_init
       \<lparr>to_tool_call_id = call_id, to_tool_name = tool_name, to_status = status,
        to_content = content, to_data = data, to_error = err, to_effects = effects,
        to_artifacts = artifacts, to_approval = approval, to_interaction = interaction,
        to_timing = timing, to_registration_id = registration, to_output_validation = validation,
        to_content_trust = trust\<rparr>))))))))))))))))))))"

text \<open>The results that survive a checkpoint: an error without a hint and an empty interaction
  do not.\<close>

definition storable_result :: "tool_result \<Rightarrow> bool" where
  "storable_result r \<longleftrightarrow>
     wf_tool_result r \<and> (\<forall>c \<in> set (to_content r). wf_tool_content c) \<and>
     (\<forall>e. to_error r = Some e \<longrightarrow> wf_tool_error e \<and> er_recovery_hint e \<noteq> []) \<and>
     (\<forall>e \<in> set (to_effects r). wf_tool_effect e) \<and>
     (\<forall>a \<in> set (to_artifacts r). wf_artifact_ref a) \<and>
     (\<forall>c. to_approval r = Some c \<longrightarrow> wf_approval_challenge c) \<and> to_interaction r \<noteq> Some [] \<and>
     wf_tool_timing (to_timing r)"

lemma timing_decode_encode [codec_simps]:
  "wf_tool_timing t \<Longrightarrow> timing_from_dict (timing_to_dict t) = Inr t"
  by (cases t) (simp add: timing_from_dict_def timing_to_dict_def codec_simps tool_timing.valid_post_init)

lemma timing_keys: "ts_exact_keys (timing_to_dict t)
    [''queued_at_ms'', ''started_at_ms'', ''finished_at_ms'', ''duration_ms''] what = Inr ()"
  by (rule ts_exact_keys_ok) (simp add: timing_to_dict_def)

lemma result_decode_encode:
  assumes "storable_result r"
  shows "result_from_dict (result_to_dict r) = Inr r"
proof -
  have keys: "set (map fst (result_to_dict r)) = set result_keys"
    by (simp add: result_to_dict_def result_keys_def)
  have inter: "ts_optional (dget (result_to_dict r) ''interaction'') ''interaction'' Inr
      = Inr (map_option plain_dict (to_interaction r))"
    using assms by (cases "to_interaction r")
      (auto simp: result_to_dict_def storable_result_def ts_optional_def ts_mapping_def)
  have same: "tool_result_status_problem (r\<lparr>to_data := plain_dict (to_data r),
      to_interaction := map_option plain_dict (to_interaction r)\<rparr>) = tool_result_status_problem r"
    by (simp add: tool_result_status_problem_def Let_def)
  have thaw: "map_option freeze_mapping (map_option plain_dict (to_interaction r)) = to_interaction r"
    using assms by (simp add: storable_result_def wf_tool_result_def option.map_comp comp_def)
  have post: "tool_result_post_init (r\<lparr>to_data := plain_dict (to_data r),
      to_interaction := map_option plain_dict (to_interaction r)\<rparr>) = Inr r"
    using assms unfolding tool_result_post_init_def same
    by (simp add: storable_result_def wf_tool_result_def thaw)
  show ?thesis
    using assms post
    unfolding result_from_dict_def ts_exact_keys_ok [OF keys] inter
    by (cases r) (simp add: result_to_dict_def storable_result_def wf_tool_result_def codec_simps
        timing_keys content_codec.decode_encode
        effect_codec.decode_encode artifact_codec.decode_encode error_decode_encode
        challenge_codec.decode_encode)
qed

definition record_to_dict :: "attempt_record \<Rightarrow> dict" where
  "record_to_dict r =
     [(''attempt_id'', PStr (at_attempt_id r)),
      (''request'', PDict (request_to_dict (at_request r))),
      (''state'', PStr (attempt_state_name (at_state r))),
      (''challenge'', opt_val (\<lambda>c. PDict (challenge_to_dict c)) (at_challenge r)),
      (''interaction'', opt_val (\<lambda>i. PDict (interaction_request_to_dict i)) (at_interaction r)),
      (''interaction_consumed'', PBool (at_interaction_consumed r)),
      (''grant'', opt_val (\<lambda>g. PDict (grant_to_dict g)) (at_grant r)),
      (''grant_consumed'', PBool (at_grant_consumed r)),
      (''result'', opt_val (\<lambda>r. PDict (result_to_dict r)) (at_result r)),
      (''cleanup_errors'', PList (map PStr (at_cleanup_errors r)))]"

definition record_from_dict :: "dict \<Rightarrow> attempt_record result" where
  "record_from_dict raw =
     bindE (ts_exact_keys raw [''attempt_id'', ''request'', ''state'', ''challenge'',
              ''interaction'', ''interaction_consumed'', ''grant'', ''grant_consumed'', ''result'',
              ''cleanup_errors''] ''tool attempt'') (\<lambda>_.
     bindE (ts_mapping (dget raw ''request'') ''request'') (\<lambda>request.
     bindE (ts_string_tuple (dget raw ''cleanup_errors'') ''cleanup_errors'') (\<lambda>cleanup.
     bindE (ts_required_text (dget raw ''attempt_id'') ''attempt_id'') (\<lambda>attempt_id.
     bindE (request_from_dict request) (\<lambda>request.
     bindE (ts_required_text (dget raw ''state'') ''state'') (\<lambda>state.
     bindE (ts_optional (dget raw ''challenge'') ''challenge'' challenge_from_dict) (\<lambda>challenge.
     bindE (ts_optional (dget raw ''interaction'') ''interaction'' interaction_from_dict) (\<lambda>interaction.
     bindE (ts_required_bool (dget raw ''interaction_consumed'') ''interaction_consumed'') (\<lambda>iconsumed.
     bindE (ts_optional (dget raw ''grant'') ''grant'' grant_from_dict) (\<lambda>grant.
     bindE (ts_required_bool (dget raw ''grant_consumed'') ''grant_consumed'') (\<lambda>gconsumed.
     bindE (ts_optional (dget raw ''result'') ''result'' result_from_dict) (\<lambda>result.
     bindE (parse_literal attempt_state_name attempt_states ''attempt state'' state) (\<lambda>state.
     Inr \<lparr>at_attempt_id = attempt_id, at_request = request, at_state = state,
          at_challenge = challenge, at_interaction = interaction,
          at_interaction_consumed = iconsumed, at_grant = grant, at_grant_consumed = gconsumed,
          at_result = result, at_cleanup_errors = cleanup\<rparr>)))))))))))))"

definition storable_record :: "attempt_record \<Rightarrow> bool" where
  "storable_record r \<longleftrightarrow>
     canon_text py_strip (at_attempt_id r) \<and> wf_execution_request (at_request r) \<and>
     (\<forall>c. at_challenge r = Some c \<longrightarrow> wf_approval_challenge c) \<and>
     (\<forall>i. at_interaction r = Some i \<longrightarrow> wf_interaction_request i) \<and>
     (\<forall>g. at_grant r = Some g \<longrightarrow> wf_approval_grant g) \<and>
     (\<forall>x. at_result r = Some x \<longrightarrow> storable_result x)"

lemma record_decode_encode: "storable_record r \<Longrightarrow> record_from_dict (record_to_dict r) = Inr r"
  by (cases r)
     (simp add: record_from_dict_def record_to_dict_def storable_record_def codec_simps
        request_codec.decode_encode challenge_codec.decode_encode interaction_codec.decode_encode
        grant_codec.decode_encode result_decode_encode)

text \<open>Which attempts come back: a record whose parts their constructors have built decodes to
  itself, unless its result has an error without a recovery hint, or an empty interaction.\<close>

definition built_result :: "tool_result \<Rightarrow> bool" where
  "built_result r \<longleftrightarrow>
     wf_tool_result r \<and> (\<forall>c \<in> set (to_content r). wf_tool_content c) \<and>
     (\<forall>e. to_error r = Some e \<longrightarrow> wf_tool_error e) \<and>
     (\<forall>e \<in> set (to_effects r). wf_tool_effect e) \<and>
     (\<forall>a \<in> set (to_artifacts r). wf_artifact_ref a) \<and>
     (\<forall>c. to_approval r = Some c \<longrightarrow> wf_approval_challenge c) \<and> wf_tool_timing (to_timing r)"

definition built_record :: "attempt_record \<Rightarrow> bool" where
  "built_record r \<longleftrightarrow>
     canon_text py_strip (at_attempt_id r) \<and> wf_execution_request (at_request r) \<and>
     (\<forall>c. at_challenge r = Some c \<longrightarrow> wf_approval_challenge c) \<and>
     (\<forall>i. at_interaction r = Some i \<longrightarrow> wf_interaction_request i) \<and>
     (\<forall>g. at_grant r = Some g \<longrightarrow> wf_approval_grant g) \<and>
     (\<forall>x. at_result r = Some x \<longrightarrow> built_result x)"

definition hintless :: "tool_result \<Rightarrow> bool" where
  "hintless r \<longleftrightarrow> (case to_error r of None \<Rightarrow> False | Some e \<Rightarrow> er_recovery_hint e = [])"

lemma storable_built:
  "storable_result r \<longleftrightarrow> built_result r \<and> \<not> hintless r \<and> to_interaction r \<noteq> Some []"
  by (auto simp: storable_result_def built_result_def hintless_def split: option.splits)

lemma ts_optional_Some: "ts_optional (opt_val (\<lambda>x. PDict (f x)) (Some e)) field dec = mapE Some (dec (f e))"
  by (simp add: ts_optional_def opt_val_def ts_mapping_def)

lemma hintless_result_refused:
  assumes "built_result r" and "hintless r"
  shows "result_from_dict (result_to_dict r) = Inl (ValueError ''optional text must be a non-empty string'')"
proof -
  obtain e where e: "to_error r = Some e" "wf_tool_error e" "er_recovery_hint e = []"
    using assms by (auto simp: built_result_def hintless_def split: option.splits)
  have keys: "set (map fst (result_to_dict r)) = set result_keys"
    by (simp add: result_to_dict_def result_keys_def)
  show ?thesis
    using assms(1) e
    unfolding result_from_dict_def ts_exact_keys_ok [OF keys]
    by (cases r) (simp add: result_to_dict_def built_result_def wf_tool_result_def codec_simps
        timing_keys content_codec.decode_encode error_without_hint_refused ts_optional_Some)
qed

lemma empty_interaction_stored: "to_interaction r = Some [] \<Longrightarrow>
    result_to_dict r = result_to_dict (r\<lparr>to_interaction := None\<rparr>)"
  by (simp add: result_to_dict_def)

lemma empty_interaction_read:
  assumes "built_result r" and "\<not> hintless r" and "to_interaction r = Some []"
  shows "result_from_dict (result_to_dict r) =
    tool_result_post_init (r\<lparr>to_data := plain_dict (to_data r), to_interaction := None\<rparr>)"
proof -
  have keys: "set (map fst (result_to_dict r)) = set result_keys"
    by (simp add: result_to_dict_def result_keys_def)
  have inter: "ts_optional (dget (result_to_dict r) ''interaction'') ''interaction'' Inr = Inr None"
    using assms by (simp add: result_to_dict_def ts_optional_def)
  have hint: "er_recovery_hint e \<noteq> []" if "to_error r = Some e" for e
    using assms(2) that by (simp add: hintless_def)
  show ?thesis
    using assms(1) hint
    unfolding result_from_dict_def ts_exact_keys_ok [OF keys] inter
    by (cases r) (simp add: result_to_dict_def built_result_def wf_tool_result_def codec_simps
        timing_keys content_codec.decode_encode
        effect_codec.decode_encode artifact_codec.decode_encode error_decode_encode
        challenge_codec.decode_encode)
qed

lemma empty_interaction_lost:
  assumes "built_result r" and "\<not> hintless r" and "to_interaction r = Some []"
  shows "result_from_dict (result_to_dict r) =
    (if to_status r = TUserInputRequired
     then Inl (ValueError ''user_input_required result requires interaction data'')
     else Inr (r\<lparr>to_interaction := None\<rparr>))"
proof (cases "to_status r = TUserInputRequired")
  case False
  have "wf_tool_result (r\<lparr>to_interaction := None\<rparr>)"
    using assms False
    by (auto simp: built_result_def wf_tool_result_def tool_result_status_problem_def Let_def split: if_splits)
  then have "storable_result (r\<lparr>to_interaction := None\<rparr>)"
    using assms by (simp add: storable_built built_result_def hintless_def)
  then show ?thesis using False by (simp add: empty_interaction_stored [OF assms(3)] result_decode_encode)
next
  case True
  then have "to_error r = None"
    using assms(1) by (auto simp: built_result_def wf_tool_result_def tool_result_status_problem_def Let_def
        split: if_splits)
  then show ?thesis
    using True by (simp add: empty_interaction_read [OF assms] tool_result_post_init_def
        tool_result_status_problem_def)
qed

text \<open>What a stored result is read as.\<close>

definition reread_result :: "tool_result \<Rightarrow> tool_result result" where
  "reread_result r =
     (if hintless r then Inl (ValueError ''optional text must be a non-empty string'')
      else if to_interaction r \<noteq> Some [] then Inr r
      else if to_status r = TUserInputRequired
        then Inl (ValueError ''user_input_required result requires interaction data'')
      else Inr (r\<lparr>to_interaction := None\<rparr>))"

lemma result_reread: "built_result r \<Longrightarrow> result_from_dict (result_to_dict r) = reread_result r"
  by (simp add: reread_result_def hintless_result_refused empty_interaction_lost
      result_decode_encode storable_built)

lemma record_reread:
  assumes "built_record r"
  shows "record_from_dict (record_to_dict r) =
    (case at_result r of
       None \<Rightarrow> Inr r
     | Some x \<Rightarrow> mapE (\<lambda>x. r\<lparr>at_result := Some x\<rparr>) (reread_result x))"
proof (cases "at_result r")
  case None
  then have "storable_record r" using assms by (auto simp: storable_record_def built_record_def)
  then show ?thesis using None by (simp add: record_decode_encode)
next
  case (Some x)
  then show ?thesis
    using assms
    by (cases r; cases "reread_result x")
       (simp_all add: record_from_dict_def record_to_dict_def built_record_def codec_simps result_reread
          ts_optional_Some request_codec.decode_encode challenge_codec.decode_encode
          interaction_codec.decode_encode grant_codec.decode_encode)
qed
end
