(* ===== verification/Tools_Registry.thy ===== *)
theory Tools_Registry
  imports Tools_State_Codec
begin

text \<open>
  Tool registrations, \<^verbatim>\<open>ToolSpec\<close> and \<^verbatim>\<open>ToolRegistration\<close> of
  \<^verbatim>\<open>src/codepilot/tools/contracts.py\<close>, and the registry \<^verbatim>\<open>tools/registry.py\<close>. A registration
  carries the behaviour of its tool as functions: the codecs, the access resolver, the
  renderer, and the handler as the execution controller runs it. They take a clock first, so
  that they may answer equal queries differently; a raised exception is its text. \<open>'i\<close> is the
  type of decoded inputs and \<open>'o\<close> of raw outputs. \<open>digest\<close> is the hexadecimal SHA-256 of the
  canonical JSON text of a payload, and \<open>schema_error\<close> the JSON Schema library's check of a
  schema.
\<close>

section \<open>Specifications\<close>

datatype tool_category =
    CatFilesystem | CatSearch | CatCommand | CatDelegation | CatPlan | CatInteraction | CatExternal

fun tool_category_name :: "tool_category \<Rightarrow> string" where
  "tool_category_name CatFilesystem = ''filesystem''"
| "tool_category_name CatSearch = ''search''"
| "tool_category_name CatCommand = ''command''"
| "tool_category_name CatDelegation = ''delegation''"
| "tool_category_name CatPlan = ''plan''"
| "tool_category_name CatInteraction = ''interaction''"
| "tool_category_name CatExternal = ''external''"

datatype tool_source = BuiltinTool | CallerTool | SkillTool | ExtensionTool | McpTool

fun tool_source_name :: "tool_source \<Rightarrow> string" where
  "tool_source_name BuiltinTool = ''builtin''"
| "tool_source_name CallerTool = ''caller''"
| "tool_source_name SkillTool = ''skill''"
| "tool_source_name ExtensionTool = ''extension''"
| "tool_source_name McpTool = ''mcp''"

record tool_spec =
  sp_name :: string
  sp_description :: string
  sp_input_schema :: dict
  sp_output_schema :: "dict option"
  sp_schema_version :: int

text \<open>\<^verbatim>\<open>[A-Za-z][A-Za-z0-9_-]{0,63}\<close>\<close>

definition ascii_letter :: "char \<Rightarrow> bool" where
  "ascii_letter c \<longleftrightarrow> CHR ''A'' \<le> c \<and> c \<le> CHR ''Z'' \<or> CHR ''a'' \<le> c \<and> c \<le> CHR ''z''"

fun tool_name_ok :: "string \<Rightarrow> bool" where
  "tool_name_ok [] = False"
| "tool_name_ok (c # cs) =
     (ascii_letter c \<and> length cs \<le> 63 \<and>
      list_all (\<lambda>d. ascii_letter d \<or> ascii_digit d \<or> d \<in> {CHR ''_'', CHR ''-''}) cs)"

definition tool_spec_post_init :: "tool_spec \<Rightarrow> tool_spec result" where
  "tool_spec_post_init s =
     bindE (sec_require_text (PStr (sp_name s)) ''tool name'') (\<lambda>name.
     if \<not> tool_name_ok name then Inl (ValueError (''Invalid tool name: '' @ sp_name s))
     else if sp_schema_version s \<le> 0 then Inl (ValueError ''schema_version must be positive'')
     else
     bindE (sec_require_text (PStr (sp_description s)) ''description'') (\<lambda>description.
     Inr (s\<lparr>sp_name := name, sp_description := description,
            sp_input_schema := freeze_mapping (sp_input_schema s),
            sp_output_schema := map_option freeze_mapping (sp_output_schema s)\<rparr>)))"

section \<open>Registrations\<close>

text \<open>\<^verbatim>\<open>ToolAccessResolution\<close>\<close>

record 'i access_resolution =
  re_input :: 'i
  re_access :: tool_access_request
  re_execution_timeout_ms :: "int option"

definition access_resolution_post_init :: "'i access_resolution \<Rightarrow> 'i access_resolution result" where
  "access_resolution_post_init r =
     bindE (case re_execution_timeout_ms r of None \<Rightarrow> Inr ()
            | Some n \<Rightarrow> require_positive_int n ''execution_timeout_ms'') (\<lambda>_. Inr r)"

text \<open>What the output codec encodes: the output of a handler, or the answers of the user to an
  interaction.\<close>

datatype 'o tool_output = HandlerValue 'o | UserAnswers dict

text \<open>How a run of the handler under \<^verbatim>\<open>ExecutionController.run\<close> ended: without starting,
  because the queue was full, waiting took too long or the deadline had passed; or after it
  started, by a timeout, a cancellation, a \<^verbatim>\<open>ToolHandlerError\<close> (code, message, retryable,
  details), another exception (its type), a request for an interaction, or a value.\<close>

datatype 'o handler_end =
    HandlerTimedOut
  | HandlerCancelled
  | HandlerError string string bool dict
  | HandlerRaised string
  | HandlerSuspends interaction_request
  | HandlerReturns 'o

datatype 'o execution_end =
    QueueFull
  | QueueTimedOut
  | DeadlinePassed
  | Started "'o handler_end"

text \<open>The end of a run with the effects the handler reported, the errors of its cleanup, and
  the time when it was over.\<close>

record 'o run_report =
  rr_end :: "'o execution_end"
  rr_effects :: "tool_effect list"
  rr_cleanup_errors :: "string list"
  rr_finished_ms :: nat

record ('i, 'o) tool_registration =
  rg_version :: string
  rg_implementation_version :: string
  rg_spec :: tool_spec
  rg_category :: tool_category
  rg_source :: tool_source
  rg_owner :: string
  rg_policy :: tool_policy
  rg_input_schema :: "dict option"
  rg_output_schema :: "dict option"
  rg_decode :: "nat \<Rightarrow> dict \<Rightarrow> string + 'i"
  rg_resolve :: "nat \<Rightarrow> 'i \<Rightarrow> tool_execution_request \<Rightarrow> string + 'i access_resolution"
  rg_run :: "nat \<Rightarrow> 'i access_resolution \<Rightarrow> tool_execution_request \<Rightarrow> 'o run_report"
  rg_encode :: "nat \<Rightarrow> 'o tool_output \<Rightarrow> string + pyval"
  rg_render :: "nat \<Rightarrow> pyval \<Rightarrow> string + tool_content list"

definition tool_registration_post_init ::
  "('i, 'o) tool_registration \<Rightarrow> ('i, 'o) tool_registration result" where
  "tool_registration_post_init r =
     bindE (sec_require_text (PStr (rg_version r)) ''tool version'') (\<lambda>version.
     bindE (sec_require_text (PStr (rg_implementation_version r)) ''implementation_version'') (\<lambda>impl.
     bindE (sec_require_text (PStr (rg_owner r)) ''tool owner'') (\<lambda>owner.
     Inr (r\<lparr>rg_version := version, rg_implementation_version := impl, rg_owner := owner\<rparr>))))"

section \<open>The registry\<close>

text \<open>A registration with the id it was given (\<^verbatim>\<open>_MaterializedTool\<close>).\<close>

record ('i, 'o) materialized_tool =
  mt_registration_id :: string
  mt_registration :: "('i, 'o) tool_registration"

record ('i, 'o) tool_registry =
  ty_registrations :: "(string \<times> ('i, 'o) materialized_tool) list"
  ty_reserved_names :: "string set"
  ty_revision :: nat

definition empty_registry :: "('i, 'o) tool_registry" where
  "empty_registry = \<lparr>ty_registrations = [], ty_reserved_names = {}, ty_revision = 0\<rparr>"

definition registry_reserve :: "string list \<Rightarrow> ('i, 'o) tool_registry \<Rightarrow> ('i, 'o) tool_registry result" where
  "registry_reserve names ty =
     (let values = map py_strip names in
      if [] \<in> set values then Inl (ValueError ''reserved tool names cannot be empty'')
      else Inr (ty\<lparr>ty_reserved_names := ty_reserved_names ty \<union> set values\<rparr>))"

text \<open>Equality of JSON values: dictionaries are equal whatever their order, and \<^verbatim>\<open>True == 1\<close>.\<close>

fun as_int :: "pyval \<Rightarrow> int option" where
  "as_int (PInt i) = Some i"
| "as_int (PBool b) = Some (of_bool b)"
| "as_int _ = None"

fun py_equal :: "pyval \<Rightarrow> pyval \<Rightarrow> bool" where
  "py_equal (PDict d) (PDict e) =
     (set (map fst d) = set (map fst e) \<and>
      list_all (\<lambda>(k, v). case map_of e k of None \<Rightarrow> False | Some w \<Rightarrow> py_equal v w) d)"
| "py_equal (PList xs) (PList ys) = list_all2 py_equal xs ys"
| "py_equal (PTuple xs) (PTuple ys) = list_all2 py_equal xs ys"
| "py_equal (PStr s) (PStr t) = (s = t)"
| "py_equal PNone PNone = True"
| "py_equal v w = (as_int v \<noteq> None \<and> as_int v = as_int w)"

text \<open>\<^verbatim>\<open>validate_json_schema\<close> of \<^verbatim>\<open>tools/codecs.py\<close>; its errors are \<^verbatim>\<open>ValueError\<close>s.\<close>

definition validate_json_schema ::
  "(dict \<Rightarrow> string option) \<Rightarrow> bool \<Rightarrow> dict \<Rightarrow> dict result" where
  "validate_json_schema schema_error require_object schema =
     (let copied = plain_dict schema in
      if require_object \<and> dget copied ''type'' \<noteq> PStr ''object''
        then Inl (ValueError ''JSON object codec schema must declare type=object'')
      else case schema_error copied of
          Some text \<Rightarrow> Inl (ValueError (''Invalid JSON Schema: '' @ text))
        | None \<Rightarrow> Inr copied)"

definition same_schema :: "dict \<Rightarrow> dict \<Rightarrow> bool" where
  "same_schema d e \<longleftrightarrow> py_equal (jsonify (PDict d)) (jsonify (PDict e))"

definition validate_registration ::
  "(dict \<Rightarrow> string option) \<Rightarrow> ('i, 'o) tool_registration \<Rightarrow> unit result" where
  "validate_registration schema_error r =
     (case rg_input_schema r of
        None \<Rightarrow> Inl (ToolRegistryError ''Canonical tool input codec must declare a schema'')
      | Some input_schema \<Rightarrow>
     bindE (validate_json_schema schema_error True (sp_input_schema (rg_spec r))) (\<lambda>declared.
     if \<not> same_schema input_schema declared
     then Inl (ToolRegistryError ''ToolSpec input schema does not match input codec schema'')
     else (case rg_output_schema r of
         None \<Rightarrow>
           if sp_output_schema (rg_spec r) \<noteq> None
           then Inl (ToolRegistryError ''Unverified output codec requires output_schema=None'')
           else Inr ()
       | Some output_schema \<Rightarrow>
           (let mismatch = ToolRegistryError ''ToolSpec output schema does not match output codec schema'' in
            case sp_output_schema (rg_spec r) of
              None \<Rightarrow> Inl mismatch
            | Some schema \<Rightarrow>
                bindE (validate_json_schema schema_error False schema) (\<lambda>declared.
                if \<not> same_schema output_schema declared then Inl mismatch else Inr ())))))"

fun approval_policy_name :: "approval_policy \<Rightarrow> string" where
  "approval_policy_name ApproveNever = ''never''"
| "approval_policy_name ApproveOnRisk = ''on_risk''"
| "approval_policy_name ApproveAlways = ''always''"

fun concurrency_mode_name :: "concurrency_mode \<Rightarrow> string" where
  "concurrency_mode_name Parallel = ''parallel''"
| "concurrency_mode_name Serial = ''serial''"

definition strings :: "string list \<Rightarrow> pyval" where
  "strings ts = PList (map PStr ts)"

definition policy_payload :: "tool_policy \<Rightarrow> dict" where
  "policy_payload p =
     [(''allowed_modes'', strings (names_of tool_mode_name tool_modes (po_allowed_modes p))),
      (''declared_effects'', strings (names_of effect_kind_name effect_kinds (po_declared_effects p))),
      (''required_permissions'', strings (sort (remdups (po_required_permissions p)))),
      (''base_risk'', PStr (risk_level_name (po_base_risk p))),
      (''approval'', PStr (approval_policy_name (po_approval p))),
      (''timeout'', PDict
         [(''default_execution_ms'', PInt (tp_default_execution_ms (po_timeout p))),
          (''max_execution_ms'', PInt (tp_max_execution_ms (po_timeout p))),
          (''cleanup_grace_ms'', PInt (tp_cleanup_grace_ms (po_timeout p)))]),
      (''concurrency'', PDict
         [(''mode'', PStr (concurrency_mode_name (cp_mode (po_concurrency p)))),
          (''group'', opt_val PStr (cp_group (po_concurrency p))),
          (''max_parallel'', opt_val PInt (cp_max_parallel (po_concurrency p)))]),
      (''output_trust'', PStr (content_trust_name (otp_default_content_trust (po_output_trust p)))),
      (''allow_structurally_validated'', PBool (otp_allow_structurally_validated (po_output_trust p))),
      (''output_limits'', PDict
         [(''max_data_bytes'', PInt (ol_max_data_bytes (po_output_limits p))),
          (''max_content_bytes'', PInt (ol_max_content_bytes (po_output_limits p))),
          (''max_artifacts'', PInt (ol_max_artifacts (po_output_limits p))),
          (''max_artifact_bytes'', PInt (ol_max_artifact_bytes (po_output_limits p)))])]"

definition registration_payload :: "('i, 'o) tool_registration \<Rightarrow> nat \<Rightarrow> dict" where
  "registration_payload r revision =
     [(''name'', PStr (sp_name (rg_spec r))),
      (''description'', PStr (sp_description (rg_spec r))),
      (''input_schema'', jsonify (PDict (sp_input_schema (rg_spec r)))),
      (''output_schema'', opt_val (\<lambda>d. jsonify (PDict d)) (sp_output_schema (rg_spec r))),
      (''schema_version'', PInt (sp_schema_version (rg_spec r))),
      (''version'', PStr (rg_version r)),
      (''implementation_version'', PStr (rg_implementation_version r)),
      (''category'', PStr (tool_category_name (rg_category r))),
      (''source'', PStr (tool_source_name (rg_source r))),
      (''owner'', PStr (rg_owner r)),
      (''policy'', PDict (policy_payload (rg_policy r))),
      (''revision'', PInt (int revision))]"

definition registration_id_of ::
  "(dict \<Rightarrow> string) \<Rightarrow> ('i, 'o) tool_registration \<Rightarrow> nat \<Rightarrow> string" where
  "registration_id_of digest r revision =
     ''reg_'' @ take 28 (digest (registration_payload r revision))"

text \<open>The checks of one registration of a batch.\<close>

definition check_registration ::
  "(dict \<Rightarrow> string option) \<Rightarrow> bool \<Rightarrow> ('i, 'o) tool_registry \<Rightarrow> ('i, 'o) tool_registration \<Rightarrow> unit result" where
  "check_registration schema_error replace ty r =
     bindE (validate_registration schema_error r) (\<lambda>_.
     let name = sp_name (rg_spec r); existing = map_of (ty_registrations ty) name in
     if name \<in> ty_reserved_names ty \<and> rg_source r \<noteq> BuiltinTool
       then Inl (ToolRegistrationConflictError (''Tool name is reserved by the runtime: '' @ name))
     else if existing \<noteq> None \<and> \<not> replace
       then Inl (ToolRegistrationConflictError (''Tool already registered: '' @ name))
     else if (case existing of None \<Rightarrow> False
              | Some m \<Rightarrow> rg_source (mt_registration m) = BuiltinTool) \<and> rg_source r \<noteq> BuiltinTool
       then Inl (ToolRegistrationConflictError (''External tool cannot replace builtin: '' @ name))
     else Inr ())"

text \<open>Ids are given in order, each from the next revision.\<close>

fun materialize_all ::
  "(dict \<Rightarrow> string) \<Rightarrow> nat \<Rightarrow> ('i, 'o) tool_registration list \<Rightarrow> ('i, 'o) materialized_tool list" where
  "materialize_all digest revision [] = []"
| "materialize_all digest revision (r # rs) =
     \<lparr>mt_registration_id = registration_id_of digest r (revision + 1), mt_registration = r\<rparr>
     # materialize_all digest (revision + 1) rs"

definition insert_materialized ::
  "('i, 'o) materialized_tool \<Rightarrow> (string \<times> ('i, 'o) materialized_tool) list
   \<Rightarrow> (string \<times> ('i, 'o) materialized_tool) list" where
  "insert_materialized m = AList.update (sp_name (rg_spec (mt_registration m))) m"

definition register_batch ::
  "(dict \<Rightarrow> string) \<Rightarrow> (dict \<Rightarrow> string option) \<Rightarrow> ('i, 'o) tool_registration list \<Rightarrow> string \<Rightarrow> bool
   \<Rightarrow> ('i, 'o) tool_registry \<Rightarrow> (string list \<times> ('i, 'o) tool_registry) result" where
  "register_batch digest schema_error items owner replace ty =
     (if items = [] then Inr ([], ty)
      else let owner = py_strip owner; names = map (\<lambda>r. sp_name (rg_spec r)) items in
      if owner = [] then Inl (ValueError ''registration batch owner cannot be empty'')
      else if list_ex (\<lambda>r. rg_owner r \<noteq> owner) items
        then Inl (ValueError ''registration owner does not match batch owner'')
      else if \<not> distinct names
        then Inl (ToolRegistrationConflictError ''registration batch contains duplicate tool names'')
      else
     bindE (traverse (check_registration schema_error replace ty) items) (\<lambda>_.
     let materialized = materialize_all digest (ty_revision ty) items in
     Inr (map mt_registration_id materialized,
          ty\<lparr>ty_registrations := fold insert_materialized materialized (ty_registrations ty),
             ty_revision := ty_revision ty + length items\<rparr>)))"

definition register_tool ::
  "(dict \<Rightarrow> string) \<Rightarrow> (dict \<Rightarrow> string option) \<Rightarrow> ('i, 'o) tool_registration \<Rightarrow> bool
   \<Rightarrow> ('i, 'o) tool_registry \<Rightarrow> (string \<times> ('i, 'o) tool_registry) result" where
  "register_tool digest schema_error r replace ty =
     mapE (\<lambda>(ids, ty). (hd ids, ty))
       (register_batch digest schema_error [r] (rg_owner r) replace ty)"

text \<open>One registration after the other: on an error, what was registered before it stays.\<close>

fun extend_registry ::
  "(dict \<Rightarrow> string) \<Rightarrow> (dict \<Rightarrow> string option) \<Rightarrow> bool \<Rightarrow> ('i, 'o) tool_registration list
   \<Rightarrow> ('i, 'o) tool_registry \<Rightarrow> string list result \<times> ('i, 'o) tool_registry" where
  "extend_registry digest schema_error replace [] ty = (Inr [], ty)"
| "extend_registry digest schema_error replace (r # rs) ty =
     (case register_tool digest schema_error r replace ty of
        Inl e \<Rightarrow> (Inl e, ty)
      | Inr (i, ty') \<Rightarrow>
          (case extend_registry digest schema_error replace rs ty' of
             (ids, ty'') \<Rightarrow> (mapE (Cons i) ids, ty'')))"

text \<open>What the model is shown of a tool.\<close>

record catalog_entry =
  ce_spec :: tool_spec
  ce_category :: tool_category
  ce_source :: tool_source
  ce_policy :: tool_policy
  ce_registration_id :: string
  ce_version :: string
  ce_owner :: string

definition entry_of :: "('i, 'o) materialized_tool \<Rightarrow> catalog_entry" where
  "entry_of m =
     (let r = mt_registration m in
      \<lparr>ce_spec = rg_spec r, ce_category = rg_category r, ce_source = rg_source r,
       ce_policy = rg_policy r, ce_registration_id = mt_registration_id m,
       ce_version = rg_version r, ce_owner = rg_owner r\<rparr>)"

definition registry_entry :: "string \<Rightarrow> ('i, 'o) tool_registry \<Rightarrow> catalog_entry option" where
  "registry_entry name ty = map_option entry_of (map_of (ty_registrations ty) name)"

record catalog_snapshot =
  cs_catalog_id :: string
  cs_entries :: "catalog_entry list"
  cs_created_at_ms :: int

definition catalog_snapshot_of ::
  "(dict \<Rightarrow> string) \<Rightarrow> nat \<Rightarrow> tool_mode option \<Rightarrow> ('i, 'o) tool_registry \<Rightarrow> catalog_snapshot" where
  "catalog_snapshot_of digest now mode ty =
     (let entries =
        sort_key (\<lambda>e. (tool_category_name (ce_category e), sp_name (ce_spec e)))
          (map entry_of
            (filter (\<lambda>m. case mode of None \<Rightarrow> True
                     | Some md \<Rightarrow> md \<in> po_allowed_modes (rg_policy (mt_registration m)))
               (map snd (ty_registrations ty))));
        payload = [(''revision'', PInt (int (ty_revision ty))),
                   (''registrations'', strings (map ce_registration_id entries))]
      in \<lparr>cs_catalog_id = ''catalog_'' @ take 24 (digest payload), cs_entries = entries,
          cs_created_at_ms = int now\<rparr>)"

definition materialize ::
  "('i, 'o) tool_registry \<Rightarrow> string \<Rightarrow> string \<Rightarrow> ('i, 'o) materialized_tool result" where
  "materialize ty name registration_id =
     (case map_of (ty_registrations ty) name of
        None \<Rightarrow> Inl (ToolRegistrationNotFoundError (''Tool registration not found: '' @ name))
      | Some m \<Rightarrow>
          if mt_registration_id m \<noteq> registration_id
          then Inl (StaleToolRegistrationError
                 (''Tool registration is stale: '' @ name @ '' ('' @ registration_id @ '')''))
          else Inr m)"

definition unregister_tool ::
  "string \<Rightarrow> string option \<Rightarrow> ('i, 'o) tool_registry \<Rightarrow> bool \<times> ('i, 'o) tool_registry" where
  "unregister_tool name owner ty =
     (case map_of (ty_registrations ty) name of
        None \<Rightarrow> (False, ty)
      | Some m \<Rightarrow>
          if owner \<notin> {None, Some (rg_owner (mt_registration m))} then (False, ty)
          else (True, ty\<lparr>ty_registrations := AList.delete name (ty_registrations ty),
                         ty_revision := ty_revision ty + 1\<rparr>))"

definition unregister_owner :: "string \<Rightarrow> ('i, 'o) tool_registry \<Rightarrow> nat \<times> ('i, 'o) tool_registry" where
  "unregister_owner owner ty =
     (let names = map fst (filter (\<lambda>(k, m). rg_owner (mt_registration m) = owner) (ty_registrations ty))
      in (length names,
          ty\<lparr>ty_registrations := filter (\<lambda>(k, m). k \<notin> set names) (ty_registrations ty),
             ty_revision := ty_revision ty + (if names = [] then 0 else 1)\<rparr>))"

end
