(* ===== verification/Tools_State_Store.thy ===== *)
theory Tools_State_Store
  imports Tools_State_Codec
begin

text \<open>
  The stores of \<^verbatim>\<open>src/codepilot/tools/state_store.py\<close>: the file of reusable grants and the
  session's store with its checkpoint. One record stands for both store classes:
  \<open>ss_session\<close> is \<open>None\<close> for the in-memory base class and the session of a
  \<^verbatim>\<open>CheckpointToolStateStore\<close> otherwise; \<open>ss_grants\<close> is the content of its grant file, \<open>None\<close>
  without one. The file is the JSON value it holds, \<open>None\<close> while it does not exist.
\<close>

section \<open>The grant file\<close>

definition grant_entry_of :: "dict \<Rightarrow> (string \<times> dict) result" where
  "grant_entry_of raw =
     bindE (ts_exact_keys raw [''session_id'', ''registration_id'', ''grant''] ''tool grant'') (\<lambda>_.
     bindE (bindE (ts_mapping (dget raw ''grant'') ''grant'') grant_from_dict) (\<lambda>g.
     bindE (ts_optional_text (dget raw ''session_id'')) (\<lambda>session_id.
     if ag_scope g = ScopeSession \<and> session_id = None
       then Inl (ValueError ''Session grants require session_id'')
     else if ag_scope g = ScopeProject \<and> session_id \<noteq> None
       then Inl (ValueError ''Project grants cannot contain session_id'')
     else if ag_scope g = ScopeOnce
       then Inl (ValueError ''Tool grant file cannot contain once grants'')
     else Inr (ag_grant_id g, raw))))"

definition grants_load :: "pyval option \<Rightarrow> (string \<times> dict) list result" where
  "grants_load file =
     (case file of
        None \<Rightarrow> Inr []
      | Some (PDict payload) \<Rightarrow>
          bindE (ts_exact_keys payload [''schema_version'', ''grants''] ''tool grants'') (\<lambda>_.
          if dget payload ''schema_version'' \<notin> {PInt 1, PBool True}
          then Inl (ValueError ''Unsupported tool grant schema version'')
          else mapE dict_of
            (ts_objects (dget payload ''grants'') ''tool grant''
               (ValueError ''Tool grants must be a list'') grant_entry_of))
      | Some _ \<Rightarrow> Inl (ValueError ''JSON file must contain an object''))"

definition entry_grant :: "dict \<Rightarrow> approval_grant result" where
  "entry_grant item = bindE (ts_mapping (dget item ''grant'') ''grant'') grant_from_dict"

text \<open>\<^verbatim>\<open>_write\<close> keeps the grants that have not expired.\<close>

definition grants_write :: "int \<Rightarrow> (string \<times> dict) list \<Rightarrow> pyval result" where
  "grants_write now entries =
     bindE (traverse (\<lambda>(k, item). mapE (\<lambda>g. (item, g)) (entry_grant item)) entries) (\<lambda>items.
     let active = map fst (filter (\<lambda>(item, g). \<not> approval_grant_expired g now) items) in
     Inr (jsonify (PDict [(''schema_version'', PInt 1), (''grants'', PList (map PDict active))])))"

definition grants_remember ::
  "int \<Rightarrow> string \<Rightarrow> string \<Rightarrow> approval_grant \<Rightarrow> pyval option \<Rightarrow> pyval option result" where
  "grants_remember now session_id registration_id g file =
     (if ag_scope g \<notin> {ScopeSession, ScopeProject} then Inr file
      else
     bindE (ts_required_text (PStr registration_id) ''registration_id'') (\<lambda>registration.
     let entry = [(''session_id'', if ag_scope g = ScopeSession then PStr session_id else PNone),
                  (''registration_id'', PStr registration),
                  (''grant'', PDict (grant_to_dict g))] in
     bindE (grants_load file) (\<lambda>entries.
     mapE Some (grants_write now (AList.update (ag_grant_id g) entry entries)))))"

definition entry_reusable ::
  "int \<Rightarrow> string \<Rightarrow> tool_execution_request \<Rightarrow> tool_access_request \<Rightarrow> dict \<Rightarrow> approval_grant option result" where
  "entry_reusable now session_id request a item =
     bindE (ts_required_text (dget item ''registration_id'') ''registration_id'') (\<lambda>registration.
     bindE (entry_grant item) (\<lambda>g.
     bindE (ts_optional_text (dget item ''session_id'')) (\<lambda>entry_session.
     Inr (if approval_grant_expired g now \<or> registration \<noteq> ter_registration_id request \<or>
             ag_scope g = ScopeSession \<and> entry_session \<noteq> Some session_id \<or>
             ag_scope g = ScopeProject \<and> entry_session \<noteq> None \<or> \<not> grant_covers g a
          then None else Some g))))"

fun first_reusable :: "('a \<Rightarrow> 'b option result) \<Rightarrow> 'a list \<Rightarrow> 'b option result" where
  "first_reusable f [] = Inr None"
| "first_reusable f (x # xs) =
     bindE (f x) (\<lambda>y. case y of None \<Rightarrow> first_reusable f xs | Some g \<Rightarrow> Inr (Some g))"

definition grants_find_reusable ::
  "int \<Rightarrow> string \<Rightarrow> tool_execution_request \<Rightarrow> tool_access_request \<Rightarrow> pyval option
   \<Rightarrow> approval_grant option result" where
  "grants_find_reusable now session_id request a file =
     bindE (grants_load file) (\<lambda>entries.
     first_reusable (entry_reusable now session_id request a) (rev (map snd entries)))"

section \<open>The session store\<close>

record session_store =
  ss_memory :: tool_store
  ss_session :: "string option"
  ss_grants :: "pyval option option"

definition checkpoint_store :: "string \<Rightarrow> pyval option option \<Rightarrow> session_store result" where
  "checkpoint_store session_id grants =
     mapE (\<lambda>sid. \<lparr>ss_memory = empty_store, ss_session = Some sid, ss_grants = grants\<rparr>)
       (ts_required_text (PStr session_id) ''session_id'')"

definition validate_record_session :: "attempt_record \<Rightarrow> session_store \<Rightarrow> unit result" where
  "validate_record_session r s =
     (if ss_session s \<notin> {None, Some (ter_session_id (at_request r))}
      then Inl (ValueError ''Tool attempt session_id does not match state store'') else Inr ())"

definition ss_create :: "attempt_record \<Rightarrow> session_store \<Rightarrow> session_store result" where
  "ss_create r s =
     bindE (validate_record_session r s) (\<lambda>_.
     mapE (\<lambda>m. s\<lparr>ss_memory := m\<rparr>) (store_create r (ss_memory s)))"

definition ss_get :: "session_store \<Rightarrow> string \<Rightarrow> attempt_record option" where
  "ss_get s = store_get (ss_memory s)"

text \<open>The attempt is updated before the grant is remembered, so when the grant file is invalid
  the update stays.\<close>

definition ss_compare_and_set ::
  "int \<Rightarrow> string \<Rightarrow> attempt_state \<Rightarrow> attempt_record \<Rightarrow> session_store \<Rightarrow> unit result \<times> session_store" where
  "ss_compare_and_set now attempt_id expected r s =
     (case bindE (validate_record_session r s) (\<lambda>_.
             compare_and_set attempt_id expected r (ss_memory s)) of
        Inl e \<Rightarrow> (Inl e, s)
      | Inr m \<Rightarrow>
          let s = s\<lparr>ss_memory := m\<rparr> in
          (case (ss_session s, ss_grants s, at_grant r) of
             (Some sid, Some file, Some g) \<Rightarrow>
               (case grants_remember now sid (ter_registration_id (at_request r)) g file of
                  Inl e \<Rightarrow> (Inl e, s)
                | Inr file \<Rightarrow> (Inr (), s\<lparr>ss_grants := Some file\<rparr>))
           | _ \<Rightarrow> (Inr (), s)))"

definition ss_find_reusable_grant ::
  "int \<Rightarrow> tool_execution_request \<Rightarrow> tool_access_request \<Rightarrow> session_store \<Rightarrow> approval_grant option result" where
  "ss_find_reusable_grant now request a s =
     (case find_reusable_grant (ss_memory s) now request a of
        Some g \<Rightarrow> Inr (Some g)
      | None \<Rightarrow>
          (case (ss_session s, ss_grants s) of
             (Some sid, Some file) \<Rightarrow> grants_find_reusable now sid request a file
           | _ \<Rightarrow> Inr None))"

section \<open>Checkpoints\<close>

definition terminal_states :: "attempt_state set" where
  "terminal_states = {Succeeded, Failed, Denied, TimedOut, AttemptCancelled, Interrupted}"

definition open_attempts :: "session_store \<Rightarrow> (string \<times> attempt_record) list" where
  "open_attempts s = filter (\<lambda>(k, r). at_state r \<notin> terminal_states) (sr_attempts (ss_memory s))"

definition ss_checkpoint_state :: "dict option \<Rightarrow> string \<Rightarrow> session_store \<Rightarrow> dict option" where
  "ss_checkpoint_state intent session_id s =
     (let attempts = map (\<lambda>(k, r). PDict (record_to_dict r)) (open_attempts s) in
      if attempts = [] \<and> intent \<in> {None, Some []} then None
      else Some
        [(''schema_version'', PInt 1), (''session_id'', PStr session_id),
         (''attempts'', PList attempts),
         (''intent'', opt_val (\<lambda>d. PDict (plain_dict d)) intent)])"

fun restore_records ::
  "session_store \<Rightarrow> pyval list \<Rightarrow> (string \<times> attempt_record) list
   \<Rightarrow> (string \<times> attempt_record) list result" where
  "restore_records s [] acc = Inr acc"
| "restore_records s (x # xs) acc =
     bindE (bindE (ts_mapping x ''tool attempt'') record_from_dict) (\<lambda>r.
     bindE (validate_record_session r s) (\<lambda>_.
     if at_state r \<in> terminal_states
       then Inl (ValueError ''Tool checkpoint cannot contain terminal attempts'')
     else if map_of acc (at_attempt_id r) \<noteq> None
       then Inl (ValueError ''Tool checkpoint attempt IDs must be unique'')
     else restore_records s xs (acc @ [(at_attempt_id r, r)])))"

fun create_all :: "attempt_record list \<Rightarrow> tool_store \<Rightarrow> tool_store result" where
  "create_all [] m = Inr m"
| "create_all (r # rs) m = bindE (store_create r m) (create_all rs)"

definition ss_restore :: "dict \<Rightarrow> string \<Rightarrow> session_store \<Rightarrow> session_store result" where
  "ss_restore payload session_id s =
     bindE (ts_exact_keys payload [''schema_version'', ''session_id'', ''attempts'', ''intent'']
              ''tool checkpoint'') (\<lambda>_.
     if dget payload ''schema_version'' \<notin> {PInt 1, PBool True}
       then Inl (ValueError ''Unsupported tool checkpoint schema version'')
     else if dget payload ''session_id'' \<noteq> PStr session_id
       then Inl (ValueError ''Tool checkpoint session_id does not match runtime session'')
     else (case dget payload ''attempts'' of
       PList raw \<Rightarrow>
         if dget payload ''intent'' \<noteq> PNone \<and> \<not> is_mapping (dget payload ''intent'')
         then Inl (ValueError ''Tool checkpoint intent must be an object or null'')
         else
         bindE (restore_records s raw []) (\<lambda>restored.
         if sr_attempts (ss_memory s) \<noteq> []
         then (if set (open_attempts s) = set restored then Inr s
               else Inl (ValueError ''Tool state conflicts with restored checkpoint''))
         else mapE (\<lambda>m. s\<lparr>ss_memory := m\<rparr>) (create_all (map snd restored) (ss_memory s)))
     | _ \<Rightarrow> Inl (ValueError ''Tool checkpoint attempts must be a list'')))"

section \<open>A checkpoint restores what is open\<close>

text \<open>The attempts of a store under their own ids, each once, all of one session.\<close>

definition store_keys_ok :: "tool_store \<Rightarrow> bool" where
  "store_keys_ok m \<longleftrightarrow>
     distinct (map fst (sr_attempts m)) \<and> (\<forall>(k, r) \<in> set (sr_attempts m). at_attempt_id r = k)"

lemma restore_records_encoded:
  assumes "\<forall>r \<in> set rs. storable_record r \<and> at_state r \<notin> terminal_states \<and>
      validate_record_session r s = Inr ()"
    and "distinct (map fst acc @ map at_attempt_id rs)"
  shows "restore_records s (map (\<lambda>r. PDict (record_to_dict r)) rs) acc
    = Inr (acc @ map (\<lambda>r. (at_attempt_id r, r)) rs)"
  using assms
proof (induction rs arbitrary: acc)
  case Nil
  show ?case by simp
next
  case (Cons r rs)
  have "map_of acc (at_attempt_id r) = None" using Cons.prems(2) by (auto simp: map_of_eq_None_iff)
  moreover have "restore_records s (map (\<lambda>r. PDict (record_to_dict r)) rs) (acc @ [(at_attempt_id r, r)])
    = Inr ((acc @ [(at_attempt_id r, r)]) @ map (\<lambda>r. (at_attempt_id r, r)) rs)"
    using Cons.prems by (intro Cons.IH) auto
  ultimately show ?case
    using Cons.prems(1) by (simp add: ts_mapping_def record_decode_encode)
qed

lemma put_attempt_attempts:
  "sr_attempts (put_attempt r m) = AList.update (at_attempt_id r) r (sr_attempts m)"
  by (simp add: put_attempt_def index_attempt_def)

lemma update_new: "k \<notin> set (map fst al) \<Longrightarrow> AList.update k v al = al @ [(k, v)]"
  by (induction al) auto

lemma create_all_new:
  assumes "distinct (map fst (sr_attempts m) @ map at_attempt_id rs)"
  shows "\<exists>m'. create_all rs m = Inr m' \<and>
    sr_attempts m' = sr_attempts m @ map (\<lambda>r. (at_attempt_id r, r)) rs"
  using assms
proof (induction rs arbitrary: m)
  case Nil
  show ?case by simp
next
  case (Cons r rs)
  have new: "at_attempt_id r \<notin> set (map fst (sr_attempts m))" using Cons.prems by auto
  then have create: "store_create r m = Inr (put_attempt r m)"
    by (simp add: store_create_def store_get_def map_of_eq_None_iff)
  have attempts: "sr_attempts (put_attempt r m) = sr_attempts m @ [(at_attempt_id r, r)]"
    using new by (simp add: put_attempt_attempts update_new)
  have "distinct (map fst (sr_attempts (put_attempt r m)) @ map at_attempt_id rs)"
    using Cons.prems by (auto simp: attempts)
  from Cons.IH [OF this] show ?case by (simp add: create attempts)
qed

lemma restored_attempts:
  assumes "store_keys_ok (ss_memory s)" and "ss_session s = Some sid"
    and "\<forall>(k, r) \<in> set (open_attempts s). storable_record r \<and> ter_session_id (at_request r) = sid"
    and "ss_checkpoint_state intent sid s = Some payload"
    and "ss_session fresh = Some sid" and "ss_memory fresh = empty_store"
  shows "\<exists>t. ss_restore payload sid fresh = Inr t \<and> sr_attempts (ss_memory t) = open_attempts s"
proof -
  let ?rs = "map snd (open_attempts s)"
  have keys: "map fst (open_attempts s) = map at_attempt_id ?rs"
    using assms(1) by (auto simp: open_attempts_def store_keys_ok_def)
  have pairs: "map (\<lambda>r. (at_attempt_id r, r)) ?rs = open_attempts s"
    using assms(1) by (auto simp: open_attempts_def store_keys_ok_def intro!: map_idI)
  have d: "distinct (map at_attempt_id ?rs)"
    using assms(1) unfolding keys [symmetric]
    by (auto simp: open_attempts_def store_keys_ok_def distinct_map_filter)
  have payload: "payload = [(''schema_version'', PInt 1), (''session_id'', PStr sid),
      (''attempts'', PList (map (\<lambda>r. PDict (record_to_dict r)) ?rs)),
      (''intent'', opt_val (\<lambda>d. PDict (plain_dict d)) intent)]"
    using assms(4) by (auto simp: ss_checkpoint_state_def Let_def comp_def case_prod_unfold split: if_splits)
  have "restore_records fresh (map (\<lambda>r. PDict (record_to_dict r)) ?rs) []
      = Inr (map (\<lambda>r. (at_attempt_id r, r)) ?rs)"
    using assms(3,5) d restore_records_encoded [of ?rs fresh "[]"]
    by (auto simp: open_attempts_def validate_record_session_def)
  moreover obtain m where "create_all ?rs empty_store = Inr m" "sr_attempts m = open_attempts s"
    using create_all_new [of empty_store ?rs] d pairs by (auto simp: empty_store_def)
  moreover have "is_mapping (opt_val (\<lambda>d. PDict (plain_dict d)) intent) \<or>
      opt_val (\<lambda>d. PDict (plain_dict d)) intent = PNone"
    by (cases intent) (simp_all add: opt_val_def)
  ultimately show ?thesis
    by (auto simp: ss_restore_def payload codec_simps pairs assms(6) empty_store_def comp_def)
qed

end
