(* ===== verification/Tools_Runtime.thy ===== *)
theory Tools_Runtime
  imports Py_Stateful Tools_Registry Tools_State_Store Core_Tool_Step
begin

text \<open>
  The tool runtime, \<^verbatim>\<open>src/codepilot/tools/runtime.py\<close>: admission of a batch, execution of
  admitted calls, approvals and interactions that resume a suspended call, and the checkpoint
  of what is open. Its operations are stateful functions that may raise. The clock, the random
  identifiers, SHA-256 and the batch reading limit of the read tool are a record of arguments;
  the state counts the queries made, so that equal queries may be answered differently.

  The execution controller's scheduling is part of the registration's \<open>rg_run\<close>, which tells
  how a run of the handler ended; a handler that started is written down in \<open>rt_runs\<close>, a
  history the program does not keep.
\<close>

section \<open>Environment and state\<close>

record 'i tool_env =
  ev_now :: "nat \<Rightarrow> nat"
  ev_uuid :: "nat \<Rightarrow> string"
  ev_digest :: "dict \<Rightarrow> string"
  ev_read_chars :: "'i \<Rightarrow> int option"

text \<open>\<^verbatim>\<open>_Prepared\<close>\<close>

record ('i, 'o) prepared_call =
  pc_request :: tool_execution_request
  pc_registration :: "('i, 'o) tool_registration"
  pc_resolution :: "'i access_resolution"
  pc_attempt_id :: string
  pc_started_ms :: int

datatype resume_response =
    ResumeApproval approval_response
  | ResumeInteraction interaction_response

text \<open>The history holds the call whose handler started and the attempt record at that time.\<close>

record ('i, 'o) tool_runtime =
  rt_registry :: "('i, 'o) tool_registry"
  rt_engine :: permission_engine
  rt_store :: session_store
  rt_batches :: "(string \<times> ('i, 'o) prepared_call list) list"
  rt_batch_sequence :: nat
  rt_resumes :: "(string \<times> resume_response) list"
  rt_resume_sequence :: nat
  rt_clock :: nat
  rt_runs :: "(('i, 'o) prepared_call \<times> attempt_record) list"

type_synonym ('i, 'o, 'a) runtime_op = "(('i, 'o) tool_runtime, 'a) stateful"

definition new_runtime ::
  "('i, 'o) tool_registry \<Rightarrow> permission_engine \<Rightarrow> session_store \<Rightarrow> nat \<Rightarrow> ('i, 'o) tool_runtime" where
  "new_runtime registry engine store clock =
     \<lparr>rt_registry = registry, rt_engine = engine, rt_store = store, rt_batches = [],
      rt_batch_sequence = 0, rt_resumes = [], rt_resume_sequence = 0, rt_clock = clock,
      rt_runs = []\<rparr>"

text \<open>\<^verbatim>\<open>for_session\<close>: the registry and the engine are shared, the attempts are the session's
  own. The grant file is shared too; here the new runtime starts from its present content.\<close>

definition for_session :: "string \<Rightarrow> ('i, 'o) tool_runtime \<Rightarrow> ('i, 'o) tool_runtime result" where
  "for_session session_id rt =
     mapE (\<lambda>store. new_runtime (rt_registry rt) (rt_engine rt) store (rt_clock rt))
       (checkpoint_store session_id (ss_grants (rt_store rt)))"

definition clock_tick :: "('i, 'o, nat) runtime_op" where
  "clock_tick = (\<lambda>s. (Inr (rt_clock s), s\<lparr>rt_clock := rt_clock s + 1\<rparr>))"

definition now_ms :: "'i tool_env \<Rightarrow> ('i, 'o, int) runtime_op" where
  "now_ms env = bindS clock_tick (\<lambda>n. returnS (int (ev_now env n)))"

definition random_id :: "'i tool_env \<Rightarrow> ('i, 'o, string) runtime_op" where
  "random_id env = bindS clock_tick (\<lambda>n. returnS (take 20 (ev_uuid env n)))"

section \<open>Attempts\<close>

definition create_attempt :: "attempt_record \<Rightarrow> ('i, 'o, unit) runtime_op" where
  "create_attempt r =
     (\<lambda>s. case ss_create r (rt_store s) of
        Inl e \<Rightarrow> (Inl e, s)
      | Inr store \<Rightarrow> (Inr (), s\<lparr>rt_store := store\<rparr>))"

definition set_attempt ::
  "'i tool_env \<Rightarrow> string \<Rightarrow> attempt_state \<Rightarrow> attempt_record \<Rightarrow> ('i, 'o, unit) runtime_op" where
  "set_attempt env attempt_id expected r =
     bindS (now_ms env) (\<lambda>now s.
       case ss_compare_and_set now attempt_id expected r (rt_store s) of
         (result, store) \<Rightarrow> (result, s\<lparr>rt_store := store\<rparr>))"

text \<open>\<^verbatim>\<open>_transition\<close>\<close>

definition transition_attempt ::
  "'i tool_env \<Rightarrow> string \<Rightarrow> attempt_state \<Rightarrow> (attempt_record \<Rightarrow> attempt_record)
   \<Rightarrow> ('i, 'o, unit) runtime_op" where
  "transition_attempt env attempt_id state changes =
     bindS (getS (\<lambda>s. ss_get (rt_store s) attempt_id)) (\<lambda>found.
     case found of
       None \<Rightarrow> raiseS (RuntimeError (''Tool attempt not found: '' @ attempt_id))
     | Some r \<Rightarrow> bindS (liftS (transition r state changes)) (set_attempt env attempt_id (at_state r)))"

text \<open>\<^verbatim>\<open>_settle\<close>\<close>

definition with_result :: "tool_result \<Rightarrow> string list \<Rightarrow> attempt_record \<Rightarrow> attempt_record" where
  "with_result result errors r = r\<lparr>at_result := Some result, at_cleanup_errors := errors\<rparr>"

definition settle ::
  "'i tool_env \<Rightarrow> string \<Rightarrow> attempt_state \<Rightarrow> string list \<Rightarrow> tool_result \<Rightarrow> ('i, 'o, tool_result) runtime_op" where
  "settle env attempt_id state errors result =
     bindS (transition_attempt env attempt_id state (with_result result errors)) (\<lambda>_. returnS result)"

section \<open>Results\<close>

text \<open>\<^verbatim>\<open>_timing\<close>, with the time at which the call was over.\<close>

definition call_timing :: "int \<Rightarrow> int \<Rightarrow> tool_timing result" where
  "call_timing started finished =
     tool_timing_post_init
       \<lparr>tt_queued_at_ms = None, tt_started_at_ms = Some started,
        tt_finished_at_ms = Some finished, tt_duration_ms = Some (max 0 (finished - started))\<rparr>"

definition result_for :: "tool_execution_request \<Rightarrow> tool_status \<Rightarrow> tool_content list \<Rightarrow> tool_result" where
  "result_for request status content =
     \<lparr>to_tool_call_id = ter_tool_call_id request, to_tool_name = ter_tool_name request,
      to_status = status, to_content = content, to_data = [], to_error = None, to_effects = [],
      to_artifacts = [], to_approval = None, to_interaction = None, to_timing = no_timing,
      to_registration_id = ter_registration_id request, to_output_validation = SchemaValidated,
      to_content_trust = Trusted\<rparr>"

text \<open>What may differ between two failures: \<^verbatim>\<open>_failure(..., status=, effects=, retryable=,
  details=)\<close>.\<close>

record failure =
  fl_code :: string
  fl_kind :: tool_error_kind
  fl_message :: string
  fl_status :: tool_status
  fl_effects :: "tool_effect list"
  fl_retryable :: bool
  fl_details :: dict

definition failure_of :: "string \<Rightarrow> tool_error_kind \<Rightarrow> string \<Rightarrow> failure" where
  "failure_of code kind message =
     \<lparr>fl_code = code, fl_kind = kind, fl_message = message, fl_status = TError,
      fl_effects = [], fl_retryable = False, fl_details = []\<rparr>"

text \<open>\<^verbatim>\<open>_failure\<close> at a given time.\<close>

definition failure_result :: "tool_execution_request \<Rightarrow> failure \<Rightarrow> int \<Rightarrow> int \<Rightarrow> tool_result result" where
  "failure_result request f started finished =
     bindE (tool_error_post_init
       \<lparr>er_code = fl_code f, er_kind = fl_kind f, er_message = fl_message f,
        er_retryable = fl_retryable f, er_recovery_hint = [], er_details = fl_details f\<rparr>) (\<lambda>err.
     bindE (call_timing started finished) (\<lambda>timing.
     tool_result_post_init
       ((result_for request (fl_status f) [ToolText (fl_message f)])
          \<lparr>to_data := (case dget (fl_details f) ''verification'' of
              PDict d \<Rightarrow> [(''verification'', PDict d)] | _ \<Rightarrow> []),
           to_error := Some err, to_effects := fl_effects f, to_timing := timing\<rparr>)))"

definition failS ::
  "'i tool_env \<Rightarrow> tool_execution_request \<Rightarrow> failure \<Rightarrow> int \<Rightarrow> ('i, 'o, tool_result) runtime_op" where
  "failS env request f started =
     bindS (now_ms env) (\<lambda>finished. liftS (failure_result request f started finished))"

text \<open>A failure that settles the attempt.\<close>

definition refuse ::
  "'i tool_env \<Rightarrow> string \<Rightarrow> attempt_state \<Rightarrow> tool_execution_request \<Rightarrow> failure \<Rightarrow> int
   \<Rightarrow> ('i, 'o, tool_result) runtime_op" where
  "refuse env attempt_id state request f started =
     bindS (failS env request f started) (settle env attempt_id state [])"

definition denied :: "failure \<Rightarrow> failure" where
  "denied f = f\<lparr>fl_status := TDenied\<rparr>"

definition or_else :: "string \<Rightarrow> string \<Rightarrow> string" where
  "or_else text other = (if text = [] then other else text)"

section \<open>Approval challenges\<close>

text \<open>\<^verbatim>\<open>approval_fingerprint\<close> and \<^verbatim>\<open>build_approval_challenge\<close> of \<^verbatim>\<open>tools/security.py\<close>.\<close>

definition approval_payload :: "tool_execution_request \<Rightarrow> tool_access_request \<Rightarrow> dict" where
  "approval_payload request a =
     [(''run_id'', PStr (ter_run_id request)), (''session_id'', PStr (ter_session_id request)),
      (''tool_call_id'', PStr (ter_tool_call_id request)),
      (''tool_name'', PStr (ter_tool_name request)),
      (''registration_id'', PStr (ter_registration_id request)),
      (''arguments'', jsonify (PDict (ter_arguments request))),
      (''actions'', strings (ar_actions a)),
      (''resources'', strings (map tr_uri (ar_resources a))),
      (''effects'', strings (names_of effect_kind_name effect_kinds (ar_effects a))),
      (''approval_scopes'', strings (names_of approval_scope_name approval_scopes (ar_approval_scopes a)))]"

definition approval_fingerprint ::
  "(dict \<Rightarrow> string) \<Rightarrow> tool_execution_request \<Rightarrow> tool_access_request \<Rightarrow> string" where
  "approval_fingerprint digest request a = ''sha256:'' @ digest (approval_payload request a)"

definition approval_ttl_ms :: int where
  "approval_ttl_ms = 300000"

definition build_approval_challenge ::
  "'i tool_env \<Rightarrow> tool_execution_request \<Rightarrow> tool_access_request \<Rightarrow> string
   \<Rightarrow> ('i, 'o, approval_challenge) runtime_op" where
  "build_approval_challenge env request a reason =
     bindS (now_ms env) (\<lambda>now.
     bindS (random_id env) (\<lambda>uuid.
     liftS (approval_challenge_post_init
       \<lparr>ac_approval_id = ''approval_'' @ uuid,
        ac_request_fingerprint = approval_fingerprint (ev_digest env) request a,
        ac_run_id = ter_run_id request, ac_session_id = ter_session_id request,
        ac_tool_call_id = ter_tool_call_id request, ac_tool_name = ter_tool_name request,
        ac_registration_id = ter_registration_id request, ac_actions = ar_actions a,
        ac_resources = ar_resources a, ac_effects = ar_effects a, ac_risk = ar_risk a,
        ac_reason = reason, ac_safe_preview = ar_safe_preview a,
        ac_allowed_scopes = ar_approval_scopes a, ac_expires_at_ms = Some (now + approval_ttl_ms)\<rparr>)))"

definition approval_result ::
  "'i tool_env \<Rightarrow> tool_execution_request \<Rightarrow> approval_challenge \<Rightarrow> int \<Rightarrow> ('i, 'o, tool_result) runtime_op" where
  "approval_result env request c started =
     bindS (now_ms env) (\<lambda>finished.
     liftS (bindE (call_timing started finished) (\<lambda>timing.
       tool_result_post_init
         ((result_for request TApprovalRequired [ToolText (ac_reason c)])
            \<lparr>to_approval := Some c, to_timing := timing\<rparr>))))"

section \<open>Admission\<close>

text \<open>\<^verbatim>\<open>_prepare\<close>, from its last step to its first. A call is refused, suspended (a result,
  on the left), or admitted.\<close>

definition find_grant ::
  "'i tool_env \<Rightarrow> tool_execution_request \<Rightarrow> tool_access_request
   \<Rightarrow> ('i, 'o, approval_grant option) runtime_op" where
  "find_grant env request a =
     bindS (now_ms env) (\<lambda>now s. (ss_find_reusable_grant now request a (rt_store s), s))"

definition refused :: "('s, tool_result) stateful \<Rightarrow> ('s, tool_result + 'p) stateful" where
  "refused m = bindS m (\<lambda>r. returnS (Inl r))"

definition admitted :: "('s, unit) stateful \<Rightarrow> 'p \<Rightarrow> ('s, tool_result + 'p) stateful" where
  "admitted m p = bindS m (\<lambda>_. returnS (Inr p))"

definition authorize_call ::
  "'i tool_env \<Rightarrow> ('i, 'o) prepared_call \<Rightarrow> ('i, 'o, tool_result + ('i, 'o) prepared_call) runtime_op" where
  "authorize_call env p =
     bindS (getS rt_engine) (\<lambda>engine.
     let request = pc_request p; a = re_access (pc_resolution p); attempt_id = pc_attempt_id p;
         permission = decide_permission engine request (rg_policy (pc_registration p)) a in
     if pdc_effect permission = Deny
       then refused (refuse env attempt_id Denied request
              (denied (failure_of ''tool.permission.denied'' KPermission (pdc_reason permission)))
              (pc_started_ms p))
     else if pdc_effect permission = Ask
       then bindS (find_grant env request a) (\<lambda>found.
         case found of
           None \<Rightarrow>
             bindS (build_approval_challenge env request a (pdc_reason permission)) (\<lambda>c.
             bindS (transition_attempt env attempt_id AwaitingApproval (at_challenge_update (\<lambda>_. Some c))) (\<lambda>_.
             refused (approval_result env request c (pc_started_ms p))))
         | Some g \<Rightarrow>
             admitted (transition_attempt env attempt_id Queued
               (\<lambda>r. r\<lparr>at_grant := Some g, at_grant_consumed := False\<rparr>)) p)
     else admitted (transition_attempt env attempt_id Queued id) p)"

definition resolve_call ::
  "'i tool_env \<Rightarrow> tool_execution_request \<Rightarrow> ('i, 'o) tool_registration \<Rightarrow> 'i \<Rightarrow> string \<Rightarrow> int
   \<Rightarrow> ('i, 'o, tool_result + ('i, 'o) prepared_call) runtime_op" where
  "resolve_call env request registration decoded attempt_id started =
     bindS (transition_attempt env attempt_id ResolvingAccess id) (\<lambda>_.
     bindS clock_tick (\<lambda>n.
     case rg_resolve registration n decoded request of
       Inl text \<Rightarrow>
         refused (refuse env attempt_id Denied request
           (denied (failure_of ''tool.access.invalid'' KValidation
             (or_else text ''Tool access resolution failed''))) started)
     | Inr resolution \<Rightarrow>
         authorize_call env
           \<lparr>pc_request = request, pc_registration = registration, pc_resolution = resolution,
            pc_attempt_id = attempt_id, pc_started_ms = started\<rparr>))"

definition decode_call ::
  "'i tool_env \<Rightarrow> tool_execution_request \<Rightarrow> ('i, 'o) tool_registration \<Rightarrow> string \<Rightarrow> int
   \<Rightarrow> ('i, 'o, tool_result + ('i, 'o) prepared_call) runtime_op" where
  "decode_call env request registration attempt_id started =
     bindS clock_tick (\<lambda>n.
     case rg_decode registration n (ter_arguments request) of
       Inl text \<Rightarrow>
         refused (refuse env attempt_id Failed request
           (failure_of ''tool.input.invalid'' KValidation
             (or_else text ''Tool input validation failed'')) started)
     | Inr decoded \<Rightarrow> resolve_call env request registration decoded attempt_id started)"

definition validate_call ::
  "'i tool_env \<Rightarrow> tool_execution_request \<Rightarrow> string \<Rightarrow> int
   \<Rightarrow> ('i, 'o, tool_result + ('i, 'o) prepared_call) runtime_op" where
  "validate_call env request attempt_id started =
     bindS (transition_attempt env attempt_id Validating id) (\<lambda>_.
     case ter_argument_parse_error request of
       Some text \<Rightarrow>
         refused (refuse env attempt_id Failed request
           ((failure_of ''tool.arguments.invalid_json'' KValidation text)
              \<lparr>fl_details := [(''raw_arguments'', PStr (case ter_raw_arguments request of
                                  None \<Rightarrow> [] | Some raw \<Rightarrow> raw))]\<rparr>) started)
     | None \<Rightarrow>
     bindS (getS rt_registry) (\<lambda>registry.
     case materialize registry (ter_tool_name request) (ter_registration_id request) of
       Inl (ToolRegistrationNotFoundError text) \<Rightarrow>
         refused (refuse env attempt_id Failed request
           (failure_of ''tool.registration.not_found'' KRegistration text) started)
     | Inl (StaleToolRegistrationError text) \<Rightarrow>
         refused (refuse env attempt_id Failed request
           (failure_of ''tool.registration.stale'' KStaleRegistration text) started)
     | Inl e \<Rightarrow> raiseS e
     | Inr m \<Rightarrow> decode_call env request (mt_registration m) attempt_id started))"

definition prepare_call ::
  "'i tool_env \<Rightarrow> tool_execution_request
   \<Rightarrow> ('i, 'o, tool_result + ('i, 'o) prepared_call) runtime_op" where
  "prepare_call env request =
     bindS (now_ms env) (\<lambda>started.
     let attempt_id = attempt_id_for request in
     bindS (attemptS (create_attempt (new_attempt attempt_id request))) (\<lambda>created.
     case created of
       Inl e \<Rightarrow>
         refused (failS env request (failure_of ''tool.state.conflict'' KInternal (exn_message e)) started)
     | Inr _ \<Rightarrow> validate_call env request attempt_id started))"

section \<open>Batches\<close>

definition interruption :: "string \<Rightarrow> failure" where
  "interruption barrier =
     (failure_of ''tool.batch.interrupted'' KInterrupted
        (''Tool call was not started because '' @ [CHR 0x27] @ barrier @ [CHR 0x27] @ '' paused the batch''))
       \<lparr>fl_status := TInterrupted, fl_retryable := True,
        fl_details := [(''barrier_tool_call_id'', PStr barrier)]\<rparr>"

text \<open>\<^verbatim>\<open>_interrupt_tail\<close> and \<^verbatim>\<open>_interrupt_unstarted\<close>\<close>

definition interrupt_tail ::
  "'i tool_env \<Rightarrow> string \<Rightarrow> ('i, 'o) prepared_call list \<Rightarrow> ('i, 'o, tool_result list) runtime_op" where
  "interrupt_tail env barrier =
     mapS (\<lambda>p. refuse env (pc_attempt_id p) Interrupted (pc_request p) (interruption barrier)
                 (pc_started_ms p))"

definition interrupt_unstarted ::
  "'i tool_env \<Rightarrow> string \<Rightarrow> tool_execution_request \<Rightarrow> ('i, 'o, tool_result) runtime_op" where
  "interrupt_unstarted env barrier request =
     bindS (now_ms env) (\<lambda>started.
     bindS (failS env request (interruption barrier) started) (\<lambda>result.
     bindS (attemptS (create_attempt
              ((new_attempt (attempt_id_for request) request)
                 \<lparr>at_state := Interrupted, at_result := Some result\<rparr>))) (\<lambda>created.
     case created of
       Inl e \<Rightarrow> failS env request (failure_of ''tool.state.conflict'' KInternal (exn_message e)) started
     | Inr _ \<Rightarrow> returnS result)))"

fun prepare_items ::
  "'i tool_env \<Rightarrow> ('i, 'o) prepared_call list \<Rightarrow> tool_execution_request list
   \<Rightarrow> ('i, 'o, tool_result list + ('i, 'o) prepared_call list) runtime_op" where
  "prepare_items env ps [] = returnS (Inr ps)"
| "prepare_items env ps (request # rest) =
     bindS (prepare_call env request) (\<lambda>outcome.
     case outcome of
       Inl result \<Rightarrow>
         bindS (interrupt_tail env (to_tool_call_id result) ps) (\<lambda>before.
         bindS (mapS (interrupt_unstarted env (to_tool_call_id result)) rest) (\<lambda>after.
         returnS (Inl (before @ [result] @ after))))
     | Inr p \<Rightarrow> prepare_items env (ps @ [p]) rest)"

text \<open>The answers in the order of the requests, looked up by call id.\<close>

definition answers_in_order ::
  "tool_execution_request list \<Rightarrow> tool_result list \<Rightarrow> tool_result list result" where
  "answers_in_order requests results =
     (let by_call_id = dict_of (map (\<lambda>r. (to_tool_call_id r, r)) results) in
      traverse (\<lambda>request. case map_of by_call_id (ter_tool_call_id request) of
          Some r \<Rightarrow> Inr r | None \<Rightarrow> Inl (KeyError (ter_tool_call_id request))) requests)"

definition READ_BATCH_MAX_CHARS :: int where
  "READ_BATCH_MAX_CHARS = 100000"

text \<open>\<^verbatim>\<open>_read_batch_output_budget\<close>; \<open>ev_read_chars\<close> tells of a decoded input whether it is a
  \<^verbatim>\<open>ReadInput\<close>, and its \<^verbatim>\<open>max_chars\<close>.\<close>

definition requested_read_chars :: "'i tool_env \<Rightarrow> ('i, 'o) prepared_call list \<Rightarrow> int" where
  "requested_read_chars env ps =
     sum_list (map (\<lambda>p. if ter_tool_name (pc_request p) = ''read''
        then (case ev_read_chars env (re_input (pc_resolution p)) of None \<Rightarrow> 0 | Some n \<Rightarrow> n) else 0) ps)"

definition over_budget :: "int \<Rightarrow> failure" where
  "over_budget requested =
     (failure_of ''tool.batch.output_budget_exceeded'' KValidation
        (''Parallel read batch requested '' @ str_int requested @ '' characters; maximum is ''
         @ str_int READ_BATCH_MAX_CHARS))
       \<lparr>fl_details := [(''requested_chars'', PInt requested),
                      (''max_chars'', PInt READ_BATCH_MAX_CHARS)]\<rparr>"

definition store_batch ::
  "tool_execution_request list \<Rightarrow> ('i, 'o) prepared_call list \<Rightarrow> ('i, 'o, string) runtime_op" where
  "store_batch requests ps =
     (\<lambda>s. let n = rt_batch_sequence s + 1;
            batch_id = ter_run_id (hd requests) @ '':batch:'' @ str_nat n
          in (Inr batch_id, s\<lparr>rt_batch_sequence := n,
                              rt_batches := AList.update batch_id ps (rt_batches s)\<rparr>))"

text \<open>The admitted calls of a batch are refused together when the reads among them ask for too
  much, and kept for execution otherwise.\<close>

definition admit_batch ::
  "'i tool_env \<Rightarrow> tool_execution_request list \<Rightarrow> ('i, 'o) prepared_call list
   \<Rightarrow> ('i, 'o, tool_batch_preparation) runtime_op" where
  "admit_batch env requests ps =
     (let requested = requested_read_chars env ps in
      if READ_BATCH_MAX_CHARS < requested
      then bindS (mapS (\<lambda>p. refuse env (pc_attempt_id p) Failed (pc_request p)
                    (over_budget requested) (pc_started_ms p)) ps) (\<lambda>rs.
        liftS (tool_batch_preparation_post_init \<lparr>bp_batch_id = None, bp_results = rs\<rparr>))
      else bindS (store_batch requests ps) (\<lambda>batch_id.
        liftS (tool_batch_preparation_post_init \<lparr>bp_batch_id = Some batch_id, bp_results = []\<rparr>)))"

definition prepare_batch ::
  "'i tool_env \<Rightarrow> tool_execution_request list \<Rightarrow> ('i, 'o, tool_batch_preparation) runtime_op" where
  "prepare_batch env requests =
     (if requests = []
      then raiseS (ValueError ''ToolRuntime.prepare_batch requires at least one request'')
      else
     bindS (prepare_items env [] requests) (\<lambda>outcome.
     case outcome of
       Inl results \<Rightarrow>
         liftS (bindE (answers_in_order requests results) (\<lambda>rs.
           tool_batch_preparation_post_init \<lparr>bp_batch_id = None, bp_results = rs\<rparr>))
     | Inr ps \<Rightarrow> admit_batch env requests ps))"

section \<open>Running a handler\<close>

text \<open>The bytes of a text in UTF-8, of characters below 256.\<close>

definition utf8_length :: "string \<Rightarrow> int" where
  "utf8_length s = sum_list (map (\<lambda>c. if (of_char c :: nat) < 128 then 1 else 2) s)"

definition content_bytes :: "tool_content list \<Rightarrow> int" where
  "content_bytes content =
     sum_list (map (\<lambda>c. case c of ToolText text \<Rightarrow> utf8_length text
        | ToolImage bytes media name \<Rightarrow> utf8_length bytes | ToolArtifact a \<Rightarrow> 0) content)"

definition content_artifacts :: "tool_content list \<Rightarrow> artifact_ref list" where
  "content_artifacts content =
     List.map_filter (\<lambda>c. case c of ToolArtifact a \<Rightarrow> Some a | _ \<Rightarrow> None) content"

text \<open>\<^verbatim>\<open>_guard_output\<close>: the text of the error it raises, if any. Keys are sorted here and not
  there, which does not change the length.\<close>

definition guard_output :: "pyval \<Rightarrow> tool_content list \<Rightarrow> output_limits \<Rightarrow> string option" where
  "guard_output value content limits =
     (if utf8_length (json_dumps value) > ol_max_data_bytes limits
        then Some ''Tool data exceeds output limit''
      else if content_bytes content > ol_max_content_bytes limits
        then Some ''Tool content exceeds output limit''
      else if int (length (content_artifacts content)) > ol_max_artifacts limits \<or>
              sum_list (map (\<lambda>a. case arf_size_bytes a of None \<Rightarrow> 0 | Some n \<Rightarrow> n)
                 (content_artifacts content)) > ol_max_artifact_bytes limits
        then Some ''Tool artifacts exceed output limit''
      else None)"

definition rstrip_slash :: "string \<Rightarrow> string" where
  "rstrip_slash s = rev (dropWhile (\<lambda>c. c = CHR ''/'') (rev s))"

text \<open>\<^verbatim>\<open>_effect_resources_authorized\<close>\<close>

definition effect_resources_authorized :: "tool_effect list \<Rightarrow> tool_resource list \<Rightarrow> bool" where
  "effect_resources_authorized effects resources =
     list_all (\<lambda>e. list_ex (\<lambda>r.
        let base = rstrip_slash (tr_uri r); uri = tr_uri (te_resource e) in
        rstrip_slash uri = base \<or> py_startswith uri (base @ ''/'')) resources) effects"

text \<open>Encoding and rendering; an error is its text.\<close>

definition encode_output ::
  "('i, 'o) tool_registration \<Rightarrow> nat \<Rightarrow> nat \<Rightarrow> 'o \<Rightarrow> string + (dict \<times> tool_content list)" where
  "encode_output registration n m v =
     (case rg_encode registration n (HandlerValue v) of
        Inl text \<Rightarrow> Inl text
      | Inr (PDict d) \<Rightarrow>
          if rg_output_schema registration = None \<and>
             \<not> otp_allow_structurally_validated (po_output_trust (rg_policy registration))
          then Inl ''Structurally validated output is not allowed by tool policy''
          else (case rg_render registration m (PDict d) of
              Inl text \<Rightarrow> Inl text
            | Inr content \<Rightarrow>
                (case guard_output (PDict d) content (po_output_limits (rg_policy registration)) of
                   Some text \<Rightarrow> Inl text
                 | None \<Rightarrow> Inr (d, content)))
      | Inr _ \<Rightarrow> Inl ''Canonical tool output must encode to an object'')"

definition success_result ::
  "tool_execution_request \<Rightarrow> ('i, 'o) tool_registration \<Rightarrow> dict \<Rightarrow> tool_content list \<Rightarrow> tool_effect list
   \<Rightarrow> int \<Rightarrow> int \<Rightarrow> tool_result result" where
  "success_result request registration d content effects started finished =
     bindE (call_timing started finished) (\<lambda>timing.
     tool_result_post_init
       ((result_for request TSuccess content)
          \<lparr>to_data := d, to_effects := effects, to_artifacts := content_artifacts content,
           to_timing := timing,
           to_output_validation := (if rg_output_schema registration \<noteq> None
              then SchemaValidated else StructurallyValidated),
           to_content_trust := otp_default_content_trust (po_output_trust (rg_policy registration))\<rparr>))"

text \<open>What a run amounts to: a failure that settles the attempt, a suspension, or a value.\<close>

definition timed_out :: "failure \<Rightarrow> failure" where
  "timed_out f = f\<lparr>fl_status := TTimedOut\<rparr>"

datatype 'o call_end =
    CallFails attempt_state failure
  | CallSuspends interaction_request
  | CallReturns 'o

fun call_end_of :: "'o execution_end \<Rightarrow> 'o call_end" where
  "call_end_of QueueFull =
     CallFails Failed (failure_of ''tool.queue.full'' KQueueTimeout ''Tool queue is full'')"
| "call_end_of QueueTimedOut =
     CallFails TimedOut (timed_out (failure_of ''tool.queue.timeout'' KQueueTimeout ''Tool queue wait timed out''))"
| "call_end_of DeadlinePassed =
     CallFails TimedOut (timed_out (failure_of ''tool.execution.timeout'' KExecutionTimeout ''Tool execution timed out''))"
| "call_end_of (Started HandlerTimedOut) =
     CallFails TimedOut (timed_out (failure_of ''tool.execution.timeout'' KExecutionTimeout ''Tool execution timed out''))"
| "call_end_of (Started HandlerCancelled) =
     CallFails AttemptCancelled ((failure_of ''tool.execution.cancelled'' KCancelled ''Tool execution cancelled'')
       \<lparr>fl_status := TCancelled\<rparr>)"
| "call_end_of (Started (HandlerError code message retryable details)) =
     CallFails Failed ((failure_of code KExecution message)\<lparr>fl_retryable := retryable, fl_details := details\<rparr>)"
| "call_end_of (Started (HandlerRaised name)) =
     CallFails Failed (failure_of ''tool.execution.handler_error'' KExecution (''Tool execution failed: '' @ name))"
| "call_end_of (Started (HandlerSuspends i)) = CallSuspends i"
| "call_end_of (Started (HandlerReturns v)) = CallReturns v"

definition settle_failure ::
  "'i tool_env \<Rightarrow> ('i, 'o) prepared_call \<Rightarrow> 'o run_report \<Rightarrow> attempt_state \<Rightarrow> failure
   \<Rightarrow> ('i, 'o, tool_result) runtime_op" where
  "settle_failure env p report state f =
     bindS (liftS (failure_result (pc_request p) (f\<lparr>fl_effects := rr_effects report\<rparr>)
              (pc_started_ms p) (int (rr_finished_ms report))))
       (settle env (pc_attempt_id p) state (rr_cleanup_errors report))"

definition suspend_call ::
  "'i tool_env \<Rightarrow> ('i, 'o) prepared_call \<Rightarrow> 'o run_report \<Rightarrow> interaction_request
   \<Rightarrow> ('i, 'o, tool_result) runtime_op" where
  "suspend_call env p report i =
     (if rg_category (pc_registration p) \<noteq> CatInteraction \<or> rr_effects report \<noteq> []
      then settle_failure env p report Failed
             (failure_of ''tool.interaction.invalid_handler'' KInteraction ''Invalid interaction suspension'')
      else
     bindS (transition_attempt env (pc_attempt_id p) AwaitingInput
              (\<lambda>r. r\<lparr>at_interaction := Some i, at_cleanup_errors := rr_cleanup_errors report\<rparr>)) (\<lambda>_.
     liftS (bindE (call_timing (pc_started_ms p) (int (rr_finished_ms report))) (\<lambda>timing.
       tool_result_post_init
         ((result_for (pc_request p) TUserInputRequired [])
            \<lparr>to_interaction := Some (interaction_request_to_dict i), to_timing := timing\<rparr>)))))"

definition return_value ::
  "'i tool_env \<Rightarrow> ('i, 'o) prepared_call \<Rightarrow> 'o run_report \<Rightarrow> 'o \<Rightarrow> ('i, 'o, tool_result) runtime_op" where
  "return_value env p report v =
     (let a = re_access (pc_resolution p) in
      if \<not> te_kind ` set (rr_effects report) \<subseteq> ar_effects a
        then settle_failure env p report Failed
               (failure_of ''tool.effect.policy_violation'' KPolicyViolation
                  ''Observed effects exceed authorized access'')
      else if \<not> effect_resources_authorized (rr_effects report) (ar_resources a)
        then settle_failure env p report Failed
               (failure_of ''tool.effect.resource_violation'' KPolicyViolation
                  ''Observed effect resource exceeds authorized access'')
      else
     bindS clock_tick (\<lambda>n. bindS clock_tick (\<lambda>m.
     case encode_output (pc_registration p) n m v of
       Inl text \<Rightarrow>
         settle_failure env p report Failed
           (failure_of ''tool.output.invalid'' KOutputValidation
              (or_else text ''Tool output validation failed''))
     | Inr (d, content) \<Rightarrow>
         bindS (liftS (success_result (pc_request p) (pc_registration p) d content (rr_effects report)
                  (pc_started_ms p) (int (rr_finished_ms report))))
           (settle env (pc_attempt_id p) Succeeded (rr_cleanup_errors report)))))"

definition finish_call ::
  "'i tool_env \<Rightarrow> ('i, 'o) prepared_call \<Rightarrow> 'o run_report \<Rightarrow> ('i, 'o, tool_result) runtime_op" where
  "finish_call env p report =
     (case call_end_of (rr_end report) of
        CallFails state f \<Rightarrow> settle_failure env p report state f
      | CallSuspends i \<Rightarrow> suspend_call env p report i
      | CallReturns v \<Rightarrow> return_value env p report v)"

definition note_run :: "('i, 'o) prepared_call \<Rightarrow> ('i, 'o, unit) runtime_op" where
  "note_run p =
     (\<lambda>s. (Inr (), case ss_get (rt_store s) (pc_attempt_id p) of
        None \<Rightarrow> s | Some r \<Rightarrow> s\<lparr>rt_runs := rt_runs s @ [(p, r)]\<rparr>))"

definition start_handler :: "'i tool_env \<Rightarrow> ('i, 'o) prepared_call \<Rightarrow> ('i, 'o, unit) runtime_op" where
  "start_handler env p =
     bindS (transition_attempt env (pc_attempt_id p) Running id) (\<lambda>_. note_run p)"

text \<open>\<^verbatim>\<open>_run_handler\<close>; when the transition to running raises, the handler is not called and the
  exception is reported as its own.\<close>

fun ran :: "'o execution_end \<Rightarrow> bool" where
  "ran (Started _) = True"
| "ran _ = False"

definition run_report_of ::
  "('i, 'o) prepared_call \<Rightarrow> nat \<Rightarrow> 'o run_report" where
  "run_report_of p n = rg_run (pc_registration p) n (pc_resolution p) (pc_request p)"

definition not_started :: "exn \<Rightarrow> 'o run_report \<Rightarrow> 'o run_report" where
  "not_started e report =
     report\<lparr>rr_end := Started (HandlerRaised (exn_type_name e)), rr_effects := []\<rparr>"

definition run_handler ::
  "'i tool_env \<Rightarrow> ('i, 'o) prepared_call \<Rightarrow> ('i, 'o, tool_result) runtime_op" where
  "run_handler env p =
     bindS clock_tick (\<lambda>n.
     let report = run_report_of p n in
     if ran (rr_end report)
     then bindS (attemptS (start_handler env p)) (\<lambda>started.
       finish_call env p (case started of Inl e \<Rightarrow> not_started e report | Inr _ \<Rightarrow> report))
     else finish_call env p report)"

section \<open>Executing a batch\<close>

definition is_barrier :: "tool_result \<Rightarrow> bool" where
  "is_barrier r \<longleftrightarrow> to_status r \<in> {TApprovalRequired, TUserInputRequired, TDenied}"

definition runs_parallel :: "('i, 'o) prepared_call \<Rightarrow> bool" where
  "runs_parallel p \<longleftrightarrow> cp_mode (po_concurrency (rg_policy (pc_registration p))) = Parallel"

text \<open>\<^verbatim>\<open>_execute_prepared_items\<close>. The handlers of a parallel group are run one after the other
  here, in the order of the batch; other schedules of \<^verbatim>\<open>asyncio.gather\<close> are not modelled.\<close>

function execute_items ::
  "'i tool_env \<Rightarrow> ('i, 'o) prepared_call list \<Rightarrow> ('i, 'o, tool_result list) runtime_op" where
  "execute_items env [] = returnS []"
| "execute_items env (p # ps) =
     (let group = (if runs_parallel p then p # takeWhile runs_parallel ps else [p]);
          rest = (if runs_parallel p then dropWhile runs_parallel ps else ps) in
     bindS (gatherS (run_handler env) group) (\<lambda>results.
     case List.find is_barrier results of
       Some b \<Rightarrow>
         bindS (interrupt_tail env (to_tool_call_id b) rest) (\<lambda>tail. returnS (results @ tail))
     | None \<Rightarrow> bindS (execute_items env rest) (\<lambda>tail. returnS (results @ tail))))"
  by pat_completeness auto
termination
  by (relation "measure (\<lambda>(env, ps). length ps)")
     (auto simp: less_Suc_eq_le intro: length_dropWhile_le)

text \<open>\<^verbatim>\<open>execute_prepared\<close> and \<^verbatim>\<open>execute_batch\<close>\<close>

definition take_batch :: "string \<Rightarrow> ('i, 'o, ('i, 'o) prepared_call list) runtime_op" where
  "take_batch batch_id =
     (\<lambda>s. case map_of (rt_batches s) batch_id of
        None \<Rightarrow> (Inl (ValueError (''Prepared Tool batch not found: '' @ batch_id)), s)
      | Some ps \<Rightarrow> (Inr ps, s\<lparr>rt_batches := AList.delete batch_id (rt_batches s)\<rparr>))"

definition execute_prepared :: "'i tool_env \<Rightarrow> string \<Rightarrow> ('i, 'o, tool_result list) runtime_op" where
  "execute_prepared env batch_id =
     (let batch_id = py_strip batch_id in
      if batch_id = [] then raiseS (ValueError ''batch_id is required'')
      else bindS (take_batch batch_id) (execute_items env))"

definition execute_batch ::
  "'i tool_env \<Rightarrow> tool_execution_request list \<Rightarrow> ('i, 'o, tool_result list) runtime_op" where
  "execute_batch env requests =
     bindS (prepare_batch env requests) (\<lambda>preparation.
     if bp_results preparation \<noteq> [] then returnS (bp_results preparation)
     else execute_prepared env (case bp_batch_id preparation of None \<Rightarrow> [] | Some b \<Rightarrow> b))"

section \<open>Resuming a suspended call\<close>

definition approval_consumed ::
  "'i tool_env \<Rightarrow> tool_execution_request \<Rightarrow> int \<Rightarrow> ('i, 'o, tool_result) runtime_op" where
  "approval_consumed env request started =
     failS env request
       (failure_of ''tool.approval.consumed'' KApproval ''Approval has already been consumed'') started"

definition answer_error ::
  "string \<Rightarrow> string \<Rightarrow> string \<Rightarrow> string \<Rightarrow> tool_error_kind \<Rightarrow> string \<Rightarrow> tool_result result" where
  "answer_error call_id tool_name registration_id code kind message =
     bindE (tool_error_post_init
       \<lparr>er_code = code, er_kind = kind, er_message = message, er_retryable = False,
        er_recovery_hint = [], er_details = []\<rparr>) (\<lambda>err.
     tool_result_post_init
       \<lparr>to_tool_call_id = call_id, to_tool_name = tool_name, to_status = TError,
        to_content = [ToolText message], to_data = [], to_error = Some err, to_effects = [],
        to_artifacts = [], to_approval = None, to_interaction = None, to_timing = no_timing,
        to_registration_id = registration_id, to_output_validation = SchemaValidated,
        to_content_trust = Trusted\<rparr>)"

definition interaction_error :: "interaction_response \<Rightarrow> string \<Rightarrow> string \<Rightarrow> tool_result result" where
  "interaction_error response code message =
     answer_error (is_tool_call_id response) (is_tool_name response) (is_registration_id response)
       code KInteraction message"

definition already_answered :: "interaction_response \<Rightarrow> tool_result result" where
  "already_answered response =
     interaction_error response ''tool.interaction.already_consumed''
       ''Interaction response has already been consumed''"

text \<open>\<^verbatim>\<open>_settle_approval_response\<close>; a state conflict means that the approval was used
  meanwhile.\<close>

definition if_conflict :: "('s, 'a) stateful \<Rightarrow> exn \<Rightarrow> ('s, 'a) stateful option" where
  "if_conflict h e = (case e of ToolStateConflictError _ \<Rightarrow> Some h | _ \<Rightarrow> None)"

definition settle_approval ::
  "'i tool_env \<Rightarrow> attempt_record \<Rightarrow> failure \<Rightarrow> int \<Rightarrow> ('i, 'o, tool_result) runtime_op" where
  "settle_approval env r f started =
     bindS (failS env (at_request r) (denied f) started) (\<lambda>result.
     catchS (bindS (bindS (liftS (transition r Denied (at_result_update (\<lambda>_. Some result))))
                      (set_attempt env (at_attempt_id r) AwaitingApproval)) (\<lambda>_. returnS result))
       (if_conflict (approval_consumed env (at_request r) started)))"

text \<open>Registration, arguments and access once more; an exception is its text.\<close>

definition revalidate ::
  "tool_execution_request
   \<Rightarrow> ('i, 'o, string + ('i, 'o) tool_registration \<times> 'i access_resolution) runtime_op" where
  "revalidate request =
     bindS (getS rt_registry) (\<lambda>registry.
     bindS clock_tick (\<lambda>n. bindS clock_tick (\<lambda>m.
     returnS
       (case materialize registry (ter_tool_name request) (ter_registration_id request) of
          Inl e \<Rightarrow> Inl (exn_message e)
        | Inr mt \<Rightarrow>
            (let registration = mt_registration mt in
             case rg_decode registration n (ter_arguments request) of
               Inl text \<Rightarrow> Inl text
             | Inr decoded \<Rightarrow>
                 (case rg_resolve registration m decoded request of
                    Inl text \<Rightarrow> Inl text
                  | Inr resolution \<Rightarrow> Inr (registration, resolution)))))))"

definition run_approved ::
  "'i tool_env \<Rightarrow> attempt_record \<Rightarrow> approval_challenge \<Rightarrow> approval_response \<Rightarrow> int
   \<Rightarrow> ('i, 'o, tool_result) runtime_op" where
  "run_approved env r c response started =
     (let request = at_request r in
     bindS (revalidate request) (\<lambda>valid.
     case valid of
       Inl text \<Rightarrow>
         refuse env (at_attempt_id r) Denied request
           (denied (failure_of ''tool.approval.revalidation_failed'' KPermission text)) started
     | Inr (registration, resolution) \<Rightarrow>
         if approval_fingerprint (ev_digest env) request (re_access resolution)
            \<noteq> ac_request_fingerprint c
         then refuse env (at_attempt_id r) Denied request
           (denied (failure_of ''tool.approval.fingerprint_mismatch'' KPermission
              ''Resolved approval fingerprint changed'')) started
         else
         bindS (now_ms env) (\<lambda>now.
         bindS (random_id env) (\<lambda>uuid.
         bindS (liftS (issue_approval_grant uuid now c response)) (\<lambda>g.
         bindS (transition_attempt env (at_attempt_id r) Queued
                  (\<lambda>r. r\<lparr>at_grant := Some g, at_grant_consumed := (ap_scope response = ScopeOnce)\<rparr>)) (\<lambda>_.
         run_handler env
           \<lparr>pc_request = request, pc_registration = registration, pc_resolution = resolution,
            pc_attempt_id = at_attempt_id r, pc_started_ms = started\<rparr>))))))"

text \<open>What is wrong with a response, if anything.\<close>

definition response_problem :: "approval_challenge \<Rightarrow> approval_response \<Rightarrow> int \<Rightarrow> failure option" where
  "response_problem c response now =
     (if ap_request_fingerprint response \<noteq> ac_request_fingerprint c
        then Some (failure_of ''tool.approval.fingerprint_mismatch'' KPermission ''Approval fingerprint mismatch'')
      else if ap_scope response \<notin> ac_allowed_scopes c
        then Some (failure_of ''tool.approval.scope_denied'' KPermission ''Approval scope is not allowed'')
      else if (case ac_expires_at_ms c of None \<Rightarrow> False | Some n \<Rightarrow> n \<le> now)
        then Some (failure_of ''tool.approval.expired'' KPermission ''Approval challenge expired'')
      else if ap_decision response = DenyApproval
        then Some (failure_of ''tool.approval.denied'' KPermission
               (or_else (ap_reason response) ''Tool execution denied''))
      else None)"

text \<open>\<^verbatim>\<open>_resume_approval\<close>\<close>

definition resume_approval ::
  "'i tool_env \<Rightarrow> approval_response \<Rightarrow> ('i, 'o, tool_result) runtime_op" where
  "resume_approval env response =
     bindS (getS (\<lambda>s. find_by_approval_id (ss_memory (rt_store s)) (ap_approval_id response))) (\<lambda>found.
     case found of
       None \<Rightarrow>
         liftS (answer_error (ap_approval_id response) ''unknown'' ''unknown''
           ''tool.approval.not_found'' KApproval ''Approval request was not found'')
     | Some r \<Rightarrow>
         bindS (now_ms env) (\<lambda>started.
         if at_state r \<noteq> AwaitingApproval \<or> at_grant_consumed r
         then approval_consumed env (at_request r) started
         else (case at_challenge r of
             None \<Rightarrow>
               settle_approval env r
                 (failure_of ''tool.approval.fingerprint_mismatch'' KPermission ''Approval fingerprint mismatch'')
                 started
           | Some c \<Rightarrow>
               bindS (now_ms env) (\<lambda>now.
               case response_problem c response now of
                 Some f \<Rightarrow> settle_approval env r f started
               | None \<Rightarrow>
                   bindS (attemptS (bindS (liftS (transition r ResolvingAccess id))
                            (set_attempt env (at_attempt_id r) AwaitingApproval))) (\<lambda>reopened.
                   case reopened of
                     Inl (ToolStateConflictError _) \<Rightarrow> approval_consumed env (at_request r) started
                   | Inl e \<Rightarrow> raiseS e
                   | Inr _ \<Rightarrow> run_approved env r c response started)))))"

text \<open>The answers of the user, encoded and rendered; an exception is its text.\<close>

definition encode_answers ::
  "tool_execution_request \<Rightarrow> dict
   \<Rightarrow> ('i, 'o, string + ('i, 'o) tool_registration \<times> pyval \<times> tool_content list) runtime_op" where
  "encode_answers request answers =
     bindS (getS rt_registry) (\<lambda>registry.
     bindS clock_tick (\<lambda>n. bindS clock_tick (\<lambda>m.
     returnS
       (case materialize registry (ter_tool_name request) (ter_registration_id request) of
          Inl e \<Rightarrow> Inl (exn_message e)
        | Inr mt \<Rightarrow>
            (let registration = mt_registration mt in
             case rg_encode registration n (UserAnswers [(''answers'', PDict answers)]) of
               Inl text \<Rightarrow> Inl text
             | Inr v \<Rightarrow>
                 (case rg_render registration m v of
                    Inl text \<Rightarrow> Inl text
                  | Inr content \<Rightarrow>
                      (case guard_output v content (po_output_limits (rg_policy registration)) of
                         Some text \<Rightarrow> Inl text
                       | None \<Rightarrow> Inr (registration, v, content))))))))"

definition answer_result ::
  "'i tool_env \<Rightarrow> tool_execution_request \<Rightarrow> ('i, 'o) tool_registration \<Rightarrow> pyval \<Rightarrow> tool_content list
   \<Rightarrow> int \<Rightarrow> ('i, 'o, tool_result) runtime_op" where
  "answer_result env request registration v content started =
     bindS (now_ms env) (\<lambda>finished.
     liftS (bindE (call_timing started finished) (\<lambda>timing.
       case v of
         PDict d \<Rightarrow>
           tool_result_post_init
             ((result_for request TSuccess content)
                \<lparr>to_data := d, to_timing := timing,
                 to_content_trust := otp_default_content_trust (po_output_trust (rg_policy registration))\<rparr>)
       | _ \<Rightarrow> Inl (TypeError ''tool result data must be a mapping''))))"

definition interaction_identity :: "interaction_request \<Rightarrow> string list" where
  "interaction_identity i =
     [ir_request_fingerprint i, ir_session_id i, ir_tool_call_id i, ir_tool_name i, ir_registration_id i]"

definition response_identity :: "interaction_response \<Rightarrow> string list" where
  "response_identity r =
     [is_request_fingerprint r, is_session_id r, is_tool_call_id r, is_tool_name r, is_registration_id r]"

definition answer_allowed :: "interaction_request \<Rightarrow> interaction_response \<Rightarrow> bool" where
  "answer_allowed i r \<longleftrightarrow>
     ir_options i = [] \<or> ir_allow_free_text i \<or> dget (is_answers r) ''answer'' \<in> PStr ` set (ir_options i)"

definition settle_answer ::
  "'i tool_env \<Rightarrow> attempt_record \<Rightarrow> interaction_response \<Rightarrow> int \<Rightarrow> ('i, 'o, tool_result) runtime_op" where
  "settle_answer env r response started =
     (let request = at_request r in
     bindS (encode_answers request (is_answers response)) (\<lambda>encoded.
     case encoded of
       Inl text \<Rightarrow>
         refuse env (at_attempt_id r) Failed request
           (failure_of ''tool.interaction.output_invalid'' KOutputValidation text) started
     | Inr (registration, v, content) \<Rightarrow>
         bindS (answer_result env request registration v content started) (\<lambda>result.
         catchS (bindS (bindS (liftS (transition r Succeeded
                          (\<lambda>r. r\<lparr>at_result := Some result, at_interaction_consumed := True\<rparr>)))
                        (set_attempt env (at_attempt_id r) AwaitingInput)) (\<lambda>_. returnS result))
           (if_conflict (liftS (already_answered response))))))"

text \<open>\<^verbatim>\<open>_resume_interaction\<close>\<close>

definition resume_interaction ::
  "'i tool_env \<Rightarrow> interaction_response \<Rightarrow> ('i, 'o, tool_result) runtime_op" where
  "resume_interaction env response =
     bindS (getS (\<lambda>s. find_by_interaction_id (ss_memory (rt_store s)) (is_interaction_id response))) (\<lambda>found.
     case found of
       None \<Rightarrow>
         liftS (answer_error (is_tool_call_id response) (is_tool_name response)
           (is_registration_id response)
           ''tool.interaction.not_found'' KInteraction ''Interaction request was not found'')
     | Some r \<Rightarrow>
         (case at_interaction r of
            None \<Rightarrow> liftS (already_answered response)
          | Some i \<Rightarrow>
              if at_state r \<noteq> AwaitingInput \<or> at_interaction_consumed r
                then liftS (already_answered response)
              else if interaction_identity i \<noteq> response_identity response
                then liftS (interaction_error response ''tool.interaction.fingerprint_mismatch''
                       ''Interaction response does not match request'')
              else if \<not> answer_allowed i response
                then liftS (interaction_error response ''tool.interaction.invalid_answer''
                       ''Answer must be one of the allowed options'')
              else bindS (now_ms env) (settle_answer env r response)))"

section \<open>Prepared resumes and checkpoints\<close>

definition take_resume :: "string \<Rightarrow> ('i, 'o, resume_response) runtime_op" where
  "take_resume resume_id =
     (\<lambda>s. case map_of (rt_resumes s) resume_id of
        None \<Rightarrow> (Inl (ValueError (''Prepared Tool resume not found: '' @ resume_id)), s)
      | Some r \<Rightarrow> (Inr r, s\<lparr>rt_resumes := AList.delete resume_id (rt_resumes s)\<rparr>))"

definition execute_prepared_resume :: "'i tool_env \<Rightarrow> string \<Rightarrow> ('i, 'o, tool_result) runtime_op" where
  "execute_prepared_resume env resume_id =
     (let resume_id = py_strip resume_id in
      if resume_id = [] then raiseS (ValueError ''resume_id is required'')
      else bindS (take_resume resume_id) (\<lambda>response.
        case response of
          ResumeApproval r \<Rightarrow> resume_approval env r
        | ResumeInteraction r \<Rightarrow> resume_interaction env r))"

fun approval_decision_name :: "approval_decision \<Rightarrow> string" where
  "approval_decision_name Approve = ''approve''"
| "approval_decision_name DenyApproval = ''deny''"

definition resume_response_to_dict :: "resume_response \<Rightarrow> dict" where
  "resume_response_to_dict response =
     (case response of
        ResumeApproval r \<Rightarrow>
          [(''kind'', PStr ''approval''), (''approval_id'', PStr (ap_approval_id r)),
           (''request_fingerprint'', PStr (ap_request_fingerprint r)),
           (''decision'', PStr (approval_decision_name (ap_decision r))),
           (''scope'', PStr (approval_scope_name (ap_scope r))), (''reason'', PStr (ap_reason r))]
      | ResumeInteraction r \<Rightarrow>
          [(''kind'', PStr ''interaction''), (''interaction_id'', PStr (is_interaction_id r)),
           (''request_fingerprint'', PStr (is_request_fingerprint r)),
           (''session_id'', PStr (is_session_id r)), (''tool_call_id'', PStr (is_tool_call_id r)),
           (''tool_name'', PStr (is_tool_name r)),
           (''registration_id'', PStr (is_registration_id r)), (''answers'', PDict (is_answers r))])"

definition same_keys :: "dict \<Rightarrow> string list \<Rightarrow> bool" where
  "same_keys d ks \<longleftrightarrow> set (map fst d) = set ks"

text \<open>\<^verbatim>\<open>ApprovalResponse(...)\<close> from texts: the decision and the scope are checked first.\<close>

definition approval_response_of ::
  "string \<Rightarrow> string \<Rightarrow> string \<Rightarrow> string \<Rightarrow> string \<Rightarrow> approval_response result" where
  "approval_response_of approval_id fingerprint decision scope reason =
     (case List.find (\<lambda>d. approval_decision_name d = py_strip decision) [Approve, DenyApproval] of
        None \<Rightarrow> Inl (ValueError (''Unknown approval decision: '' @ decision))
      | Some d \<Rightarrow>
     (case List.find (\<lambda>s. approval_scope_name s = py_strip scope) approval_scopes of
        None \<Rightarrow> Inl (ValueError (''Unknown approval scope: '' @ scope))
      | Some s \<Rightarrow>
          approval_response_post_init
            \<lparr>ap_approval_id = approval_id, ap_request_fingerprint = fingerprint, ap_decision = d,
             ap_scope = s, ap_reason = reason\<rparr>))"

definition resume_response_from_dict :: "dict \<Rightarrow> resume_response result" where
  "resume_response_from_dict raw =
     (let text = (\<lambda>k. py_str (dget raw k)) in
      if dget raw ''kind'' = PStr ''approval'' then
        (if \<not> same_keys raw [''kind'', ''approval_id'', ''request_fingerprint'', ''decision'',
                              ''scope'', ''reason'']
         then Inl (ValueError ''Approval resume checkpoint fields are invalid'')
         else mapE ResumeApproval
           (approval_response_of (text ''approval_id'') (text ''request_fingerprint'')
              (text ''decision'') (text ''scope'') (text ''reason'')))
      else if dget raw ''kind'' = PStr ''interaction'' then
        (case (same_keys raw [''kind'', ''interaction_id'', ''request_fingerprint'', ''session_id'',
                 ''tool_call_id'', ''tool_name'', ''registration_id'', ''answers''],
               dget raw ''answers'') of
           (True, PDict answers) \<Rightarrow>
             mapE ResumeInteraction (interaction_response_post_init
               \<lparr>is_interaction_id = text ''interaction_id'',
                is_request_fingerprint = text ''request_fingerprint'',
                is_session_id = text ''session_id'', is_tool_call_id = text ''tool_call_id'',
                is_tool_name = text ''tool_name'', is_registration_id = text ''registration_id'',
                is_answers = answers\<rparr>)
         | _ \<Rightarrow> Inl (ValueError ''Interaction resume checkpoint fields are invalid''))
      else Inl (ValueError ''Unknown prepared resume response kind''))"

text \<open>\<^verbatim>\<open>checkpoint_state\<close>; a store without a session makes no snapshot of its attempts.\<close>

definition resume_entries :: "(string \<times> resume_response) list \<Rightarrow> pyval" where
  "resume_entries rs =
     PList (map (\<lambda>(k, r). PDict [(''resume_id'', PStr k), (''response'', PDict (resume_response_to_dict r))])
       (sort_key fst rs))"

definition runtime_intent :: "dict option \<Rightarrow> (string \<times> resume_response) list \<Rightarrow> dict" where
  "runtime_intent intent rs =
     (case intent of None \<Rightarrow> [] | Some [] \<Rightarrow> [] | Some d \<Rightarrow> [(''boundary_intent'', PDict d)]) @
     (if rs = [] then [] else [(''prepared_resumes'', resume_entries rs)])"

definition checkpoint_state :: "dict option \<Rightarrow> ('i, 'o) tool_runtime \<Rightarrow> dict option" where
  "checkpoint_state intent s =
     (let d = runtime_intent intent (rt_resumes s) in
      case ss_session (rt_store s) of
        Some sid \<Rightarrow> ss_checkpoint_state (if d = [] then None else Some d) sid (rt_store s)
      | None \<Rightarrow> if d = [] then None else Some [(''intent'', PDict d)])"

text \<open>\<^verbatim>\<open>prepare_resume\<close> and \<^verbatim>\<open>pending_prepared_resume\<close> return the handle with the frozen
  checkpoint.\<close>

definition frozen_checkpoint :: "('i, 'o, dict) runtime_op" where
  "frozen_checkpoint =
     bindS (getS (checkpoint_state None)) (\<lambda>checkpoint.
     case checkpoint of
       None \<Rightarrow> raiseS (RuntimeError ''Prepared Tool resume produced no checkpoint'')
     | Some d \<Rightarrow> returnS (freeze_mapping d))"

definition prepare_resume :: "resume_response \<Rightarrow> ('i, 'o, string \<times> dict) runtime_op" where
  "prepare_resume response =
     (\<lambda>s. let n = rt_resume_sequence s + 1; resume_id = ''resume:'' @ str_nat n;
            t = s\<lparr>rt_resume_sequence := n, rt_resumes := AList.update resume_id response (rt_resumes s)\<rparr> in
        case frozen_checkpoint t of
          (Inl e, u) \<Rightarrow> (Inl e, u\<lparr>rt_resumes := AList.delete resume_id (rt_resumes u)\<rparr>)
        | (Inr d, u) \<Rightarrow> (Inr (resume_id, d), u))"

definition pending_prepared_resume :: "('i, 'o, (string \<times> dict) option) runtime_op" where
  "pending_prepared_resume =
     bindS (getS rt_resumes) (\<lambda>rs.
     case rs of
       [] \<Rightarrow> returnS None
     | [(resume_id, _)] \<Rightarrow> bindS frozen_checkpoint (\<lambda>d. returnS (Some (resume_id, d)))
     | _ \<Rightarrow> raiseS (RuntimeError ''Tool runtime has multiple prepared resumes''))"

text \<open>\<^verbatim>\<open>restore_checkpoint_state\<close>: the store first, then the prepared resumes.\<close>

definition restore_store :: "dict \<Rightarrow> ('i, 'o, unit) runtime_op" where
  "restore_store state =
     (\<lambda>s. case ss_session (rt_store s) of
        Some sid \<Rightarrow>
          (case ss_restore state sid (rt_store s) of
             Inl e \<Rightarrow> (Inl e, s) | Inr store \<Rightarrow> (Inr (), s\<lparr>rt_store := store\<rparr>))
      | None \<Rightarrow>
          if same_keys state [''intent''] then (Inr (), s)
          else (Inl (RuntimeError ''Configured ToolStateStore cannot restore checkpoint state''), s))"

fun restored_resumes ::
  "pyval list \<Rightarrow> (string \<times> resume_response) list \<Rightarrow> (string \<times> resume_response) list result" where
  "restored_resumes [] acc = Inr acc"
| "restored_resumes (raw # rest) acc =
     (let invalid = ValueError ''Prepared resume checkpoint entry is invalid'' in
      case raw of
        PDict d \<Rightarrow>
          (if \<not> same_keys d [''resume_id'', ''response''] then Inl invalid
           else let resume_id = py_strip (py_str (dget d ''resume_id'')) in
             (case dget d ''response'' of
                PDict response \<Rightarrow>
                  if resume_id = [] then Inl invalid
                  else if map_of acc resume_id \<noteq> None
                    then Inl (ValueError ''Prepared resume IDs must be unique'')
                  else bindE (resume_response_from_dict response) (\<lambda>r.
                    restored_resumes rest (acc @ [(resume_id, r)]))
              | _ \<Rightarrow> Inl invalid))
      | _ \<Rightarrow> Inl invalid)"

text \<open>The number of \<^verbatim>\<open>resume:n\<close>, when \<^verbatim>\<open>int\<close> parses what follows the first colon; the ids are the
  runtime's own, so only digits are read here.\<close>

definition resume_number :: "string \<Rightarrow> nat" where
  "resume_number resume_id =
     (if py_startswith resume_id ''resume:''
      then (case py_int_of_digits (drop 7 resume_id) of Inl _ \<Rightarrow> 0 | Inr n \<Rightarrow> n) else 0)"

definition adopt_resumes :: "(string \<times> resume_response) list \<Rightarrow> ('i, 'o, unit) runtime_op" where
  "adopt_resumes restored =
     (\<lambda>s. if rt_resumes s \<noteq> []
        then (if map_of (rt_resumes s) = map_of restored then (Inr (), s)
              else (Inl (ValueError ''Prepared resume state conflicts with restored checkpoint''), s))
        else (Inr (), s\<lparr>rt_resumes := restored,
                      rt_resume_sequence := fold max (map (\<lambda>(k, r). resume_number k) restored)
                        (rt_resume_sequence s)\<rparr>))"

definition restore_resumes :: "dict \<Rightarrow> ('i, 'o, unit) runtime_op" where
  "restore_resumes intent =
     (if \<not> set (map fst intent) \<subseteq> {''boundary_intent'', ''prepared_resumes''}
      then raiseS (ValueError (''Unknown Tool runtime checkpoint fields: '' @ py_join '', ''
             (sort (remdups (filter (\<lambda>k. k \<notin> {''boundary_intent'', ''prepared_resumes''}) (map fst intent))))))
      else (case dget intent ''prepared_resumes'' of
          PNone \<Rightarrow> returnS ()
        | PList xs \<Rightarrow> bindS (liftS (restored_resumes xs [])) adopt_resumes
        | PTuple xs \<Rightarrow> bindS (liftS (restored_resumes xs [])) adopt_resumes
        | _ \<Rightarrow> raiseS (ValueError ''prepared_resumes must be a sequence'')))"

definition restore_checkpoint_state :: "dict \<Rightarrow> ('i, 'o, unit) runtime_op" where
  "restore_checkpoint_state state =
     bindS (restore_store state) (\<lambda>_.
     case dget state ''intent'' of
       PNone \<Rightarrow> returnS ()
     | PDict intent \<Rightarrow> restore_resumes intent
     | _ \<Rightarrow> raiseS (ValueError ''Tool checkpoint intent must be a mapping''))"

end
