(* ===== verification/Tools_Attempts.thy ===== *)
theory Tools_Attempts
  imports Tools_Runtime "HOL-Library.Sublist"
begin

text \<open>
  The life of an attempt under the operations of the runtime. Every operation moves attempts
  along the transition table, keeps their request, never touches a settled one, and starts a
  handler only for an attempt that was admitted; \<open>advances\<close> is this as a relation between the
  states before and after, and \<open>stateful_relation\<close> is interpreted for it.
\<close>

section \<open>Attempts that advance\<close>

definition attempt_step :: "attempt_state \<Rightarrow> attempt_state \<Rightarrow> bool" where
  "attempt_step a b \<longleftrightarrow> b \<in> set (attempt_transitions a)"

text \<open>The states before the admission of a call.\<close>

definition unadmitted :: "attempt_state set" where
  "unadmitted = {Received, Validating, ResolvingAccess, AwaitingApproval}"

definition attempt_le :: "attempt_record \<Rightarrow> attempt_record \<Rightarrow> bool" where
  "attempt_le r r' \<longleftrightarrow>
     at_attempt_id r' = at_attempt_id r \<and> at_request r' = at_request r \<and>
     attempt_step\<^sup>*\<^sup>* (at_state r) (at_state r') \<and>
     (at_state r \<in> terminal_states \<longrightarrow> r' = r) \<and>
     (at_state r \<notin> unadmitted \<longrightarrow> at_grant r' = at_grant r)"

lemma terminal_no_step: "a \<in> terminal_states \<longleftrightarrow> (\<forall>b. \<not> attempt_step a b)"
  by (cases a) (auto simp: terminal_states_def attempt_step_def)

lemma admitted_step: "attempt_step a b \<Longrightarrow> a \<notin> unadmitted \<Longrightarrow> b \<notin> unadmitted"
  by (cases a) (auto simp: attempt_step_def unadmitted_def)

lemma admitted_steps: "attempt_step\<^sup>*\<^sup>* a b \<Longrightarrow> a \<notin> unadmitted \<Longrightarrow> b \<notin> unadmitted"
  by (induction rule: rtranclp_induct) (auto dest: admitted_step)

text \<open>The states of an attempt whose handler may have been called.\<close>

definition after_start :: "attempt_state set" where
  "after_start = - (unadmitted \<union> {Queued})"

lemma started_step: "attempt_step a b \<Longrightarrow> a \<in> after_start \<Longrightarrow> b \<in> after_start"
  by (cases a) (auto simp: attempt_step_def after_start_def unadmitted_def)

lemma started_steps: "attempt_step\<^sup>*\<^sup>* a b \<Longrightarrow> a \<in> after_start \<Longrightarrow> b \<in> after_start"
  by (induction rule: rtranclp_induct) (auto dest: started_step)

lemma attempt_le_refl [simp]: "attempt_le r r"
  by (simp add: attempt_le_def)

lemma attempt_le_trans:
  assumes "attempt_le a b" and "attempt_le b c"
  shows "attempt_le a c"
proof (cases "at_state a \<in> terminal_states")
  case True
  then show ?thesis using assms by (simp add: attempt_le_def)
next
  case False
  have "at_state a \<notin> unadmitted \<Longrightarrow> at_state b \<notin> unadmitted"
    using assms(1) admitted_steps by (auto simp: attempt_le_def)
  moreover have "attempt_step\<^sup>*\<^sup>* (at_state a) (at_state c)"
    using assms unfolding attempt_le_def by (meson rtranclp_trans)
  ultimately show ?thesis using False assms by (auto simp: attempt_le_def)
qed

text \<open>A change of the other fields that a transition may make.\<close>

definition proper_change :: "attempt_state \<Rightarrow> (attempt_record \<Rightarrow> attempt_record) \<Rightarrow> bool" where
  "proper_change state changes \<longleftrightarrow>
     (\<forall>r. at_attempt_id (changes r) = at_attempt_id r \<and> at_request (changes r) = at_request r \<and>
          at_state (changes r) = at_state r \<and> (state \<noteq> Queued \<longrightarrow> at_grant (changes r) = at_grant r))"

lemma proper_changes [simp]:
  "proper_change state id" "proper_change state (with_result result errors)"
  "proper_change state (at_challenge_update f)"
  "proper_change state (at_result_update g)"
  "proper_change Queued (\<lambda>r. r\<lparr>at_grant := x, at_grant_consumed := b\<rparr>)"
  "proper_change state (\<lambda>r. r\<lparr>at_interaction := i, at_cleanup_errors := errors\<rparr>)"
  "proper_change state (\<lambda>r. r\<lparr>at_result := y, at_interaction_consumed := c\<rparr>)"
  by (simp_all add: proper_change_def with_result_def)

lemma transition_Inr:
  assumes "transition r state changes = Inr r'" and "proper_change state changes"
  shows "attempt_le r r'" and "at_state r' = state" and "attempt_step (at_state r) state"
    and "r' = changes (r\<lparr>at_state := state\<rparr>)"
proof -
  have step: "attempt_step (at_state r) state" and r': "r' = changes (r\<lparr>at_state := state\<rparr>)"
    using assms(1) by (auto simp: transition_def attempt_step_def split: if_splits)
  have same: "at_attempt_id r' = at_attempt_id r" "at_request r' = at_request r" "at_state r' = state"
    "state \<noteq> Queued \<Longrightarrow> at_grant r' = at_grant r"
    using assms(2) by (simp_all add: r' proper_change_def)
  have "at_state r \<notin> terminal_states" using step terminal_no_step by blast
  moreover have "at_state r \<notin> unadmitted \<Longrightarrow> state \<noteq> Queued"
    using step by (cases "at_state r") (auto simp: attempt_step_def unadmitted_def)
  ultimately show "attempt_le r r'"
    using same step by (auto simp: attempt_le_def)
  show "at_state r' = state" "attempt_step (at_state r) state" "r' = changes (r\<lparr>at_state := state\<rparr>)"
    by fact+
qed

section \<open>The store\<close>

definition attempts_of :: "('i, 'o) tool_runtime \<Rightarrow> string \<Rightarrow> attempt_record option" where
  "attempts_of s = map_of (sr_attempts (ss_memory (rt_store s)))"

lemma ss_get_attempts: "ss_get (rt_store s) = attempts_of s"
  by (simp add: fun_eq_iff ss_get_def store_get_def attempts_of_def)

lemma put_attempt_get: "map_of (sr_attempts (put_attempt r m)) = (map_of (sr_attempts m))(at_attempt_id r \<mapsto> r)"
  by (simp add: put_attempt_attempts update_conv')

lemma put_attempt_keys: "store_keys_ok m \<Longrightarrow> store_keys_ok (put_attempt r m)"
  using set_update_subset [of "at_attempt_id r" r "sr_attempts m"]
  by (auto simp: store_keys_ok_def put_attempt_attempts distinct_update)

lemma compare_and_set_cases:
  assumes "ss_compare_and_set now k expected r st = (x, st')"
  obtains (kept) e where "x = Inl e" "st' = st"
    | (put) g cur where "store_get (ss_memory st) k = Some cur" "at_state cur = expected"
        "at_attempt_id r = k"
        "st' = st\<lparr>ss_memory := put_attempt r (ss_memory st), ss_grants := g\<rparr>"
proof -
  have same: "\<exists>g. st\<lparr>ss_memory := m\<rparr> = st\<lparr>ss_memory := m, ss_grants := g\<rparr>" for m
    by (rule exI [of _ "ss_grants st"]) simp
  show thesis
  proof (cases "bindE (validate_record_session r st) (\<lambda>_. compare_and_set k expected r (ss_memory st))")
    case (Inl e)
    then have "x = Inl e" "st' = st" using assms by (auto simp: ss_compare_and_set_def)
    then show thesis by (rule kept)
  next
    case (Inr m)
    then have cas: "compare_and_set k expected r (ss_memory st) = Inr m" by (auto simp: bindE_eq_Inr)
    then obtain cur where cur: "store_get (ss_memory st) k = Some cur" "at_state cur = expected"
      "at_attempt_id r = k" and m: "m = put_attempt r (ss_memory st)"
      by (auto simp: compare_and_set_def split: option.splits if_splits)
    have "\<exists>g. st' = st\<lparr>ss_memory := m, ss_grants := g\<rparr>"
      using assms Inr by (auto simp: ss_compare_and_set_def Let_def same split: option.splits sum.splits)
    then show thesis using put [OF cur] m by blast
  qed
qed

section \<open>The runtime\<close>

text \<open>What entitles a call to run: the engine allows it; or it asks, and a grant that is not for
  one use covers the access; or a grant was issued for exactly this request and access, by its
  fingerprint, which the grant's constructor strips.\<close>

definition licensed ::
  "'i tool_env \<Rightarrow> permission_engine \<Rightarrow> ('i, 'o) prepared_call \<Rightarrow> attempt_record \<Rightarrow> bool" where
  "licensed env engine p r \<longleftrightarrow>
     at_attempt_id r = pc_attempt_id p \<and> at_request r = pc_request p \<and>
     (let a = re_access (pc_resolution p);
          effect = pdc_effect (decide_permission engine (pc_request p) (rg_policy (pc_registration p)) a) in
      effect = Allow \<or>
      (\<exists>g. at_grant r = Some g \<and>
         (effect = Ask \<and> ag_scope g \<noteq> ScopeOnce \<and> grant_covers g a \<or>
          ag_request_fingerprint g =
            py_strip (approval_fingerprint (ev_digest env) (pc_request p) a))))"

definition ready :: "'i tool_env \<Rightarrow> ('i, 'o) prepared_call \<Rightarrow> ('i, 'o) tool_runtime \<Rightarrow> bool" where
  "ready env p s \<longleftrightarrow>
     (\<exists>r. attempts_of s (pc_attempt_id p) = Some r \<and> at_state r \<notin> unadmitted \<and>
          licensed env (rt_engine s) p r)"

definition run_ok ::
  "'i tool_env \<Rightarrow> ('i, 'o) tool_runtime \<Rightarrow> ('i, 'o) prepared_call \<times> attempt_record \<Rightarrow> bool" where
  "run_ok env s = (\<lambda>(p, r).
     at_state r = Running \<and> licensed env (rt_engine s) p r \<and>
     (\<exists>r'. attempts_of s (pc_attempt_id p) = Some r' \<and> attempt_le r r'))"

text \<open>The invariant: the attempts are under their ids, no handler started twice, each was
  entitled to start, and the calls of the batches that wait are still entitled.\<close>

definition runtime_ok :: "'i tool_env \<Rightarrow> ('i, 'o) tool_runtime \<Rightarrow> bool" where
  "runtime_ok env s \<longleftrightarrow>
     store_keys_ok (ss_memory (rt_store s)) \<and>
     distinct (map (pc_attempt_id \<circ> fst) (rt_runs s)) \<and>
     (\<forall>x \<in> set (rt_runs s). run_ok env s x) \<and>
     (\<forall>b \<in> set (rt_batches s). \<forall>p \<in> set (snd b). ready env p s)"

definition runtime_le :: "('i, 'o) tool_runtime \<Rightarrow> ('i, 'o) tool_runtime \<Rightarrow> bool" where
  "runtime_le s t \<longleftrightarrow>
     (\<forall>k r. attempts_of s k = Some r \<longrightarrow> (\<exists>r'. attempts_of t k = Some r' \<and> attempt_le r r')) \<and>
     rt_registry t = rt_registry s \<and> rt_engine t = rt_engine s \<and> prefix (rt_runs s) (rt_runs t)"

definition advances :: "'i tool_env \<Rightarrow> ('i, 'o) tool_runtime \<Rightarrow> ('i, 'o) tool_runtime \<Rightarrow> bool" where
  "advances env s t \<longleftrightarrow> (runtime_ok env s \<longrightarrow> runtime_ok env t \<and> runtime_le s t)"

lemma runtime_le_refl [simp]: "runtime_le s s"
  by (simp add: runtime_le_def)

lemma runtime_le_trans: "runtime_le s t \<Longrightarrow> runtime_le t u \<Longrightarrow> runtime_le s u"
  unfolding runtime_le_def by (metis attempt_le_trans prefix_order.trans)

interpretation advances: stateful_relation "advances env" for env
  by unfold_locales (auto simp: advances_def intro: runtime_le_trans)

lemma licensed_le:
  "licensed env e p r \<Longrightarrow> attempt_le r r' \<Longrightarrow> at_state r \<notin> unadmitted \<Longrightarrow> licensed env e p r'"
  by (simp add: licensed_def attempt_le_def)

lemma ready_le:
  assumes "ready env p s" and "runtime_le s t"
  shows "ready env p t"
proof -
  obtain r where r: "attempts_of s (pc_attempt_id p) = Some r" "at_state r \<notin> unadmitted"
    "licensed env (rt_engine s) p r"
    using assms(1) by (auto simp: ready_def)
  obtain r' where r': "attempts_of t (pc_attempt_id p) = Some r'" "attempt_le r r'"
    using assms(2) r(1) by (auto simp: runtime_le_def)
  have "at_state r' \<notin> unadmitted" using r(2) r'(2) admitted_steps by (auto simp: attempt_le_def)
  then show ?thesis
    using licensed_le [OF r(3) r'(2) r(2)] r'(1) assms(2) by (auto simp: ready_def runtime_le_def)
qed

lemma run_ok_le:
  assumes "run_ok env s x" and "runtime_le s t"
  shows "run_ok env t x"
proof (cases x)
  case (Pair p r)
  then obtain r' where r: "at_state r = Running" "licensed env (rt_engine s) p r"
    "attempts_of s (pc_attempt_id p) = Some r'" "attempt_le r r'"
    using assms(1) by (auto simp: run_ok_def)
  obtain u where "attempts_of t (pc_attempt_id p) = Some u" "attempt_le r' u"
    using assms(2) r(3) by (auto simp: runtime_le_def)
  then show ?thesis
    using r attempt_le_trans [OF r(4)] assms(2) Pair by (auto simp: run_ok_def runtime_le_def)
qed

text \<open>A change of the attempts only.\<close>

lemma advancesI:
  assumes "runtime_ok env s \<Longrightarrow> store_keys_ok (ss_memory (rt_store t))"
    and "runtime_ok env s \<Longrightarrow> runtime_le s t"
    and "rt_runs t = rt_runs s" and "set (rt_batches t) \<subseteq> set (rt_batches s)"
  shows "advances env s t"
  unfolding advances_def
proof (intro impI conjI)
  assume ok: "runtime_ok env s"
  note le = assms(2) [OF ok]
  show "runtime_ok env t"
    using ok assms(1) [OF ok] assms(3,4) run_ok_le [OF _ le] ready_le [OF _ le]
    by (auto simp: runtime_ok_def)
  show "runtime_le s t" by (rule le)
qed

lemma advances_put:
  assumes "\<And>r. attempts_of s (at_attempt_id r') = Some r \<Longrightarrow> attempt_le r r'"
  shows "advances env s (s\<lparr>rt_clock := c, rt_store := (rt_store s)
    \<lparr>ss_memory := put_attempt r' (ss_memory (rt_store s)), ss_grants := g\<rparr>\<rparr>)"
proof (rule advancesI)
  assume "runtime_ok env s"
  then show "store_keys_ok (ss_memory (rt_store (s\<lparr>rt_clock := c, rt_store := (rt_store s)
      \<lparr>ss_memory := put_attempt r' (ss_memory (rt_store s)), ss_grants := g\<rparr>\<rparr>)))"
    by (simp add: runtime_ok_def put_attempt_keys)
qed (use assms in \<open>auto simp: runtime_le_def attempts_of_def put_attempt_get\<close>)

section \<open>Operations that only read the clock\<close>

definition clock_only :: "('i, 'o) tool_runtime \<Rightarrow> ('i, 'o) tool_runtime \<Rightarrow> bool" where
  "clock_only s t \<longleftrightarrow> (\<exists>c. t = s\<lparr>rt_clock := c\<rparr>)"

lemma clock_only_refl: "clock_only s s"
  unfolding clock_only_def by (rule exI [of _ "rt_clock s"]) simp

interpretation clock_only: stateful_relation clock_only
  by unfold_locales (rule clock_only_refl, auto simp: clock_only_def)

lemma clock_only_attempts: "clock_only s t \<Longrightarrow> attempts_of t = attempts_of s"
  by (auto simp: clock_only_def attempts_of_def)

lemma clock_advances: "clock_only s t \<Longrightarrow> advances env s t"
  by (auto simp: clock_only_def runtime_le_def attempts_of_def runtime_ok_def intro!: advancesI)

lemma clock_tick_only: "keeps clock_only clock_tick"
  by (auto simp: keeps_def clock_tick_def clock_only_def)

lemma now_ms_only: "keeps clock_only (now_ms env)"
  unfolding now_ms_def by (intro clock_only.keeps_bind clock_tick_only clock_only.keeps_pure)

lemma random_id_only: "keeps clock_only (random_id env)"
  unfolding random_id_def by (intro clock_only.keeps_bind clock_tick_only clock_only.keeps_pure)

lemma failS_only: "keeps clock_only (failS env request f started)"
  unfolding failS_def by (intro clock_only.keeps_bind now_ms_only clock_only.keeps_pure)

lemma approval_result_only: "keeps clock_only (approval_result env request c started)"
  unfolding approval_result_def by (intro clock_only.keeps_bind now_ms_only clock_only.keeps_pure)

lemma find_grant_only: "keeps clock_only (find_grant env request a)"
  unfolding find_grant_def
  by (intro clock_only.keeps_bind now_ms_only) (auto intro!: keepsI clock_only.refl)

lemma build_challenge_only: "keeps clock_only (build_approval_challenge env request a reason)"
  unfolding build_approval_challenge_def
  by (intro clock_only.keeps_bind now_ms_only random_id_only clock_only.keeps_pure)

lemma approval_consumed_only: "keeps clock_only (approval_consumed env request started)"
  unfolding approval_consumed_def by (rule failS_only)

lemma revalidate_only: "keeps clock_only (revalidate request)"
  unfolding revalidate_def by (intro clock_only.keeps_bind clock_tick_only clock_only.keeps_pure)

lemma encode_answers_only: "keeps clock_only (encode_answers request answers)"
  unfolding encode_answers_def by (intro clock_only.keeps_bind clock_tick_only clock_only.keeps_pure)

lemma answer_result_only: "keeps clock_only (answer_result env request registration v content started)"
  unfolding answer_result_def by (intro clock_only.keeps_bind now_ms_only clock_only.keeps_pure)

lemmas clock_ops = clock_tick_only now_ms_only random_id_only failS_only approval_result_only
  find_grant_only build_challenge_only approval_consumed_only revalidate_only encode_answers_only
  answer_result_only

lemma clock_only_keeps: "keeps clock_only m \<Longrightarrow> keeps (advances env) m"
  by (auto simp: keeps_def intro: clock_advances)

lemmas clock_keeps = clock_ops [THEN clock_only_keeps]

section \<open>Operations on one attempt\<close>

text \<open>Writing a record that continues the present one.\<close>

lemma set_attempt_advances:
  assumes "set_attempt env k expected r' s = (x, t)"
    and "\<And>r. attempts_of s k = Some r \<Longrightarrow> attempt_le r r'"
  shows "advances env s t"
    and "x = Inr () \<Longrightarrow> attempts_of t = (attempts_of s)(k \<mapsto> r')"
proof -
  obtain c st' where cas: "ss_compare_and_set (int (ev_now env (rt_clock s))) k expected r' (rt_store s) = (x, st')"
    and t: "t = s\<lparr>rt_clock := c, rt_store := st'\<rparr>"
    using assms(1) by (auto simp: set_attempt_def now_ms_def clock_tick_def bindS_def split: prod.splits)
  show "advances env s t"
    using cas
  proof (cases rule: compare_and_set_cases)
    case kept
    then show ?thesis using t by (auto intro!: clock_advances simp: clock_only_def)
  next
    case (put g cur)
    then show ?thesis using advances_put [where s = s and r' = r' and env = env and c = c and g = g] assms(2) t by simp
  qed
  show "attempts_of t = (attempts_of s)(k \<mapsto> r')" if "x = Inr ()"
    using cas
  proof (cases rule: compare_and_set_cases)
    case kept
    then show ?thesis using that by simp
  next
    case (put g cur)
    then show ?thesis by (simp add: t attempts_of_def put_attempt_get)
  qed
qed

text \<open>No handler starts where only attempts are written.\<close>

definition same_runs :: "('i, 'o) tool_runtime \<Rightarrow> ('i, 'o) tool_runtime \<Rightarrow> bool" where
  "same_runs s t \<longleftrightarrow> rt_runs t = rt_runs s"

interpretation same_runs: stateful_relation same_runs
  by unfold_locales (auto simp: same_runs_def)

lemma clock_same_runs: "keeps clock_only m \<Longrightarrow> keeps same_runs m"
  by (auto simp: keeps_def clock_only_def same_runs_def) force

lemmas clock_runs = clock_ops [THEN clock_same_runs]

lemma set_attempt_runs: "keeps same_runs (set_attempt env k expected r)"
  unfolding set_attempt_def
  by (intro same_runs.keeps_bind clock_runs) (auto simp: keeps_def same_runs_def split: prod.splits)

lemma transition_attempt_runs: "keeps same_runs (transition_attempt env k state changes)"
  unfolding transition_attempt_def
  by (intro same_runs.keeps_bind same_runs.keeps_pure)
     (auto intro: same_runs.keeps_bind same_runs.keeps_pure set_attempt_runs split: option.splits)

lemma create_attempt_runs: "keeps same_runs (create_attempt r)"
  by (auto simp: keeps_def same_runs_def create_attempt_def split: sum.splits)

lemma settle_runs: "keeps same_runs (settle env k state errors result)"
  unfolding settle_def by (intro same_runs.keeps_bind transition_attempt_runs same_runs.keeps_pure)

lemma refuse_runs: "keeps same_runs (refuse env k state request f started)"
  unfolding refuse_def by (intro same_runs.keeps_bind clock_runs settle_runs)

text \<open>After a transition the attempt is in the new state, with the changes made, unless it
  raised.\<close>

lemma transition_attempt_run:
  assumes "transition_attempt env k state changes s = (x, t)" and "proper_change state changes"
  shows "advances env s t"
    and "x = Inr () \<Longrightarrow> \<exists>r. attempts_of s k = Some r \<and> attempt_step (at_state r) state \<and>
      attempts_of t = (attempts_of s)(k \<mapsto> changes (r\<lparr>at_state := state\<rparr>))"
proof -
  have "advances env s t \<and> (x = Inr () \<longrightarrow> (\<exists>r. attempts_of s k = Some r \<and> attempt_step (at_state r) state \<and>
      attempts_of t = (attempts_of s)(k \<mapsto> changes (r\<lparr>at_state := state\<rparr>))))"
  proof (cases "attempts_of s k")
    case None
    then show ?thesis using assms(1) by (auto simp: transition_attempt_def ss_get_attempts advances.refl)
  next
    case (Some r)
    show ?thesis
    proof (cases "transition r state changes")
      case (Inl e)
      then show ?thesis
        using assms(1) Some by (auto simp: transition_attempt_def ss_get_attempts advances.refl)
    next
      case (Inr r')
      then have run: "set_attempt env k (at_state r) r' s = (x, t)"
        using assms(1) Some by (simp add: transition_attempt_def ss_get_attempts)
      note tr = transition_Inr [OF Inr assms(2)]
      have le: "\<And>u. attempts_of s k = Some u \<Longrightarrow> attempt_le u r'" using tr(1) Some by simp
      show ?thesis using set_attempt_advances [OF run le] Some tr by auto
    qed
  qed
  then show "advances env s t"
    and "x = Inr () \<Longrightarrow> \<exists>r. attempts_of s k = Some r \<and> attempt_step (at_state r) state \<and>
      attempts_of t = (attempts_of s)(k \<mapsto> changes (r\<lparr>at_state := state\<rparr>))"
    by blast+
qed

lemma transition_attempt_keeps:
  "proper_change state changes \<Longrightarrow> keeps (advances env) (transition_attempt env k state changes)"
  by (auto simp: keeps_def dest: transition_attempt_run(1))

lemma settle_keeps: "keeps (advances env) (settle env k state errors result)"
  unfolding settle_def by (intro advances.keeps_bind transition_attempt_keeps advances.keeps_pure) simp

lemma refuse_keeps: "keeps (advances env) (refuse env k state request f started)"
  unfolding refuse_def by (intro advances.keeps_bind clock_keeps settle_keeps)

lemma create_attempt_run:
  assumes "create_attempt r s = (x, t)"
  shows "advances env s t" and "x = Inr () \<Longrightarrow> attempts_of t = (attempts_of s)(at_attempt_id r \<mapsto> r)"
proof -
  consider e where "x = Inl e" "t = s"
    | "attempts_of s (at_attempt_id r) = None"
      "t = s\<lparr>rt_store := (rt_store s)\<lparr>ss_memory := put_attempt r (ss_memory (rt_store s))\<rparr>\<rparr>"
  proof (cases "ss_create r (rt_store s)")
    case (Inl e)
    then have "x = Inl e" "t = s" using assms by (auto simp: create_attempt_def)
    then show thesis by (rule that(1))
  next
    case (Inr st)
    then have "attempts_of s (at_attempt_id r) = None"
      "st = (rt_store s)\<lparr>ss_memory := put_attempt r (ss_memory (rt_store s))\<rparr>"
      by (auto simp: ss_create_def bindE_eq_Inr mapE_eq_Inr store_create_def attempts_of_def
          store_get_def split: if_splits)
    then show thesis using assms that(2) Inr by (simp add: create_attempt_def)
  qed
  then have "advances env s t \<and>
    (x = Inr () \<longrightarrow> attempts_of t = (attempts_of s)(at_attempt_id r \<mapsto> r))"
  proof cases
    case 2
    have "t = s\<lparr>rt_clock := rt_clock s, rt_store := (rt_store s)
      \<lparr>ss_memory := put_attempt r (ss_memory (rt_store s)), ss_grants := ss_grants (rt_store s)\<rparr>\<rparr>"
      by (simp add: 2(2))
    then have "advances env s t" by (rule ssubst) (rule advances_put, simp add: 2(1))
    then show ?thesis by (simp add: 2(2) attempts_of_def put_attempt_get)
  qed (simp add: advances.refl)
  then show "advances env s t" and "x = Inr () \<Longrightarrow> attempts_of t = (attempts_of s)(at_attempt_id r \<mapsto> r)"
    by blast+
qed

lemma create_attempt_keeps: "keeps (advances env) (create_attempt r)"
  by (auto simp: keeps_def dest: create_attempt_run(1))

section \<open>Running a handler\<close>

lemma settle_failure_keeps: "keeps (advances env) (settle_failure env p report state f)"
  unfolding settle_failure_def by (intro advances.keeps_bind advances.keeps_pure settle_keeps)

lemma suspend_call_keeps: "keeps (advances env) (suspend_call env p report i)"
  unfolding suspend_call_def
  by (simp only: if_distrib split: if_split)
     (intro conjI impI settle_failure_keeps advances.keeps_bind transition_attempt_keeps
       advances.keeps_pure proper_changes)

lemma return_value_keeps: "keeps (advances env) (return_value env p report v)"
  unfolding return_value_def Let_def
  by (auto intro!: settle_failure_keeps advances.keeps_bind clock_keeps advances.keeps_pure settle_keeps
      split: sum.splits)

lemma finish_call_keeps: "keeps (advances env) (finish_call env p report)"
  unfolding finish_call_def
  by (auto intro: settle_failure_keeps suspend_call_keeps return_value_keeps split: call_end.splits)

text \<open>The handler of a call that is ready starts from the queue, so it did not run before, and
  its start is written down with what entitled it.\<close>

lemma note_run_run:
  assumes "note_run p s = (x, t)" and "attempts_of s (pc_attempt_id p) = Some r"
  shows "x = Inr ()" and "t = s\<lparr>rt_runs := rt_runs s @ [(p, r)]\<rparr>"
  using assms by (auto simp: note_run_def ss_get_attempts)

lemma start_handler_run:
  assumes "start_handler env p s = (x, t)" and ready: "ready env p s"
  shows "advances env s t"
proof (cases "transition_attempt env (pc_attempt_id p) Running id s")
  case (Pair y u)
  note su = transition_attempt_run [OF Pair, simplified]
  show ?thesis
  proof (cases y)
    case (Inl e)
    then show ?thesis using assms(1) su(1) Pair by (auto simp: start_handler_def)
  next
    case (Inr z)
    then obtain r where r: "attempts_of s (pc_attempt_id p) = Some r" "attempt_step (at_state r) Running"
      and u: "attempts_of u = (attempts_of s)(pc_attempt_id p \<mapsto> r\<lparr>at_state := Running\<rparr>)"
      using su(2) by (cases z) auto
    have "note_run p u = (x, t)" using assms(1) Pair Inr by (simp add: start_handler_def)
    from note_run_run [OF this] u have t: "t = u\<lparr>rt_runs := rt_runs u @ [(p, r\<lparr>at_state := Running\<rparr>)]\<rparr>"
      by simp
    show ?thesis
      unfolding advances_def
    proof (intro impI)
      assume ok: "runtime_ok env s"
      then have ok_u: "runtime_ok env u" and le: "runtime_le s u" using su(1) by (auto simp: advances_def)
      have queued: "at_state r = Queued"
        using r(2) by (cases "at_state r") (auto simp: attempt_step_def)
      have lic: "licensed env (rt_engine u) p (r\<lparr>at_state := Running\<rparr>)"
        using ready r(1) le by (auto simp: ready_def licensed_def runtime_le_def)
      have fresh: "pc_attempt_id p \<notin> set (map (pc_attempt_id \<circ> fst) (rt_runs u))"
      proof
        assume "pc_attempt_id p \<in> set (map (pc_attempt_id \<circ> fst) (rt_runs u))"
        moreover have "rt_runs u = rt_runs s"
          using keepsD [OF transition_attempt_runs Pair] by (simp add: same_runs_def)
        ultimately obtain q r0 where q: "(q, r0) \<in> set (rt_runs s)" "pc_attempt_id q = pc_attempt_id p"
          by auto
        with ok obtain r' where "at_state r0 = Running" "attempts_of s (pc_attempt_id p) = Some r'"
          "attempt_le r0 r'"
          by (fastforce simp: runtime_ok_def run_ok_def)
        with r(1) queued started_steps [of Running Queued] show False
          by (auto simp: attempt_le_def after_start_def unadmitted_def)
      qed
      have t_le: "runtime_le u t" by (simp add: t runtime_le_def attempts_of_def)
      have "run_ok env t (p, r\<lparr>at_state := Running\<rparr>)"
        using u lic by (simp add: t run_ok_def attempts_of_def)
      then have "runtime_ok env t"
        using ok_u fresh run_ok_le [OF _ t_le] ready_le [OF _ t_le]
        by (auto simp: runtime_ok_def t)
      then show "runtime_ok env t \<and> runtime_le s t"
        using runtime_le_trans [OF le t_le] by simp
    qed
  qed
qed

end
