(* ===== verification/Tools_Admission.thy ===== *)
theory Tools_Admission
  imports Tools_Attempts
begin

text \<open>
  What the operations of the runtime ensure: an admitted call is entitled to run and stays so
  until it runs; batches, resumes and restores keep the invariant of \<open>Tools_Attempts\<close>.
\<close>

section \<open>Reusable grants\<close>

lemma set_dict_of_subset: "set (dict_of kvs) \<subseteq> set kvs"
proof -
  have "set (fold (\<lambda>(k, v). AList.update k v) kvs d) \<subseteq> set d \<union> set kvs" for d
    using set_update_subset by (induction kvs arbitrary: d) fastforce+
  from this [of "[]"] show ?thesis by (simp add: dict_of_def)
qed

definition reusable :: "approval_grant \<Rightarrow> tool_access_request \<Rightarrow> bool" where
  "reusable g a \<longleftrightarrow> ag_scope g \<noteq> ScopeOnce \<and> grant_covers g a"

lemma first_some_Some: "first_some f xs = Some y \<Longrightarrow> \<exists>x \<in> set xs. f x = Some y"
  by (induction xs) (auto split: option.splits)

lemma find_reusable_grant_Some: "find_reusable_grant m now request a = Some g \<Longrightarrow> reusable g a"
  by (auto simp: find_reusable_grant_def record_grant_reusable_def reusable_def
      dest!: first_some_Some split: option.splits if_splits)

lemma grant_entry_scope:
  "grant_entry_of raw = Inr (k, item) \<Longrightarrow> entry_grant item = Inr g \<Longrightarrow> ag_scope g \<noteq> ScopeOnce"
  by (auto simp: grant_entry_of_def entry_grant_def bindE_eq_Inr split: if_splits)

lemma grants_load_scope:
  assumes "grants_load present = Inr entries" and "(k, item) \<in> set entries" and "entry_grant item = Inr g"
  shows "ag_scope g \<noteq> ScopeOnce"
proof (cases present)
  case None
  then show ?thesis using assms by (simp add: grants_load_def)
next
  case (Some v)
  with assms(1) obtain payload es where
    es: "ts_objects (dget payload ''grants'') ''tool grant''
      (ValueError ''Tool grants must be a list'') grant_entry_of = Inr es" and entries: "entries = dict_of es"
    by (auto simp: grants_load_def bindE_eq_Inr mapE_eq_Inr split: pyval.splits if_splits)
  have "(k, item) \<in> set es" using assms(2) entries set_dict_of_subset by blast
  with es obtain raw where "grant_entry_of raw = Inr (k, item)"
    by (auto simp: ts_objects_def bindE_eq_Inr dest!: traverse_set split: pyval.splits)
  then show ?thesis using grant_entry_scope assms(3) by blast
qed

lemma first_reusable_Some: "first_reusable f xs = Inr (Some g) \<Longrightarrow> \<exists>x \<in> set xs. f x = Inr (Some g)"
  by (induction xs) (auto simp: bindE_eq_Inr split: option.splits)

lemma grants_find_reusable_Some:
  assumes "grants_find_reusable now sid request a file = Inr (Some g)"
  shows "reusable g a"
proof -
  obtain entries where load: "grants_load file = Inr entries"
    and found: "first_reusable (entry_reusable now sid request a) (rev (map snd entries)) = Inr (Some g)"
    using assms by (auto simp: grants_find_reusable_def bindE_eq_Inr)
  obtain k item where item: "(k, item) \<in> set entries" "entry_reusable now sid request a item = Inr (Some g)"
    using first_reusable_Some [OF found] by auto
  then have "entry_grant item = Inr g" "grant_covers g a"
    by (auto simp: entry_reusable_def bindE_eq_Inr split: if_splits)
  then show ?thesis using grants_load_scope [OF load item(1)] by (simp add: reusable_def)
qed

lemma ss_find_reusable_grant_Some:
  "ss_find_reusable_grant now request a st = Inr (Some g) \<Longrightarrow> reusable g a"
  by (auto simp: ss_find_reusable_grant_def dest: find_reusable_grant_Some grants_find_reusable_Some
      split: option.splits)

lemma find_grant_run:
  "find_grant env request a s = (Inr (Some g), t) \<Longrightarrow> reusable g a"
  by (auto simp: find_grant_def now_ms_def clock_tick_def bindS_def dest: ss_find_reusable_grant_Some)

section \<open>Calls that wait\<close>

definition waiting :: "'i tool_env \<Rightarrow> ('i, 'o) prepared_call list \<Rightarrow> ('i, 'o) tool_runtime \<Rightarrow> bool" where
  "waiting env ps s \<longleftrightarrow> runtime_ok env s \<and> (\<forall>p \<in> set ps. ready env p s)"

lemma waiting_stable: "stable_under (advances env) (waiting env ps)"
  by (rule stable_underI) (auto simp: waiting_def advances_def intro: ready_le)

lemma waiting_Nil: "waiting env [] s \<longleftrightarrow> runtime_ok env s"
  by (simp add: waiting_def)

lemma waiting_Cons: "waiting env (p # ps) s \<longleftrightarrow> waiting env ps s \<and> ready env p s"
  by (auto simp: waiting_def)

lemma waiting_append: "waiting env (ps @ qs) s \<longleftrightarrow> waiting env ps s \<and> waiting env qs s"
  by (auto simp: waiting_def)

lemma waiting_subset: "waiting env ps s \<Longrightarrow> set qs \<subseteq> set ps \<Longrightarrow> waiting env qs s"
  by (auto simp: waiting_def)

abbreviation holds ::
  "'i tool_env \<Rightarrow> ('i, 'o) prepared_call list \<Rightarrow> (('i, 'o) tool_runtime, 'a) stateful
   \<Rightarrow> ('a \<Rightarrow> ('i, 'o) tool_runtime \<Rightarrow> bool) \<Rightarrow> bool" where
  "holds env ps m Q \<equiv> ensures (advances env) (waiting env ps) m Q"

abbreviation safe_for :: "'i tool_env \<Rightarrow> ('i, 'o) prepared_call list \<Rightarrow> (('i, 'o) tool_runtime, 'a) stateful \<Rightarrow> bool" where
  "safe_for env ps m \<equiv> holds env ps m (\<lambda>_ _. True)"

lemma safe_bind:
  assumes "holds env ps m Q" and "\<And>x. ensures (advances env) (\<lambda>s. waiting env ps s \<and> Q x s) (f x) Q'"
  shows "holds env ps (bindS m f) Q'"
  by (rule advances.ensures_bind [OF assms waiting_stable])

lemma safe_then:
  "keeps (advances env) m \<Longrightarrow> (\<And>x. holds env ps (f x) Q) \<Longrightarrow> holds env ps (bindS m f) Q"
  by (rule advances.ensures_then [OF _ _ waiting_stable])

lemma holds_weaken: "holds env ps m Q \<Longrightarrow> set ps \<subseteq> set qs \<Longrightarrow> holds env qs m Q"
  by (erule ensures_conseq) (auto intro: waiting_subset)

lemma safe_any: "holds env ps m Q \<Longrightarrow> safe_for env ps m"
  by (erule ensures_conseq) auto

lemma safe_map:
  assumes "\<And>x. x \<in> set xs \<Longrightarrow> safe_for env ps (f x)"
  shows "safe_for env ps (mapS f xs)"
  by (rule safe_any [OF advances.ensures_map [where Q = "\<lambda>_ _ _. True"]])
     (auto intro: assms waiting_stable)

lemma safe_gather:
  assumes "\<And>x. x \<in> set xs \<Longrightarrow> safe_for env ps (f x)"
  shows "safe_for env ps (gatherS f xs)"
  unfolding gatherS_def
  by (rule safe_bind [OF safe_map]) (auto intro!: advances.ensures_lift safe_any [OF advances.ensures_attempt] assms)

section \<open>Running and executing\<close>

lemma start_handler_safe: "safe_for env [p] (start_handler env p)"
  by (rule ensuresI) (auto simp: waiting_def dest: start_handler_run)

lemma run_handler_safe: "safe_for env [p] (run_handler env p)"
  unfolding run_handler_def Let_def
proof (rule safe_then [OF clock_keeps(1)])
  fix n
  let ?report = "run_report_of p n"
  have "safe_for env [p] (bindS (attemptS (start_handler env p)) (\<lambda>started.
      finish_call env p (case started of Inl e \<Rightarrow> not_started e ?report | Inr _ \<Rightarrow> ?report)))"
    by (rule safe_bind [OF safe_any [OF advances.ensures_attempt [OF start_handler_safe]]])
       (rule ensures_keeps [OF finish_call_keeps])
  moreover have "safe_for env [p] (finish_call env p ?report)"
    by (rule ensures_keeps [OF finish_call_keeps])
  ultimately show "safe_for env [p]
      (if ran (rr_end ?report)
       then bindS (attemptS (start_handler env p)) (\<lambda>started.
         finish_call env p (case started of Inl e \<Rightarrow> not_started e ?report | Inr _ \<Rightarrow> ?report))
       else finish_call env p ?report)"
    by simp
qed

lemma interrupt_tail_keeps: "keeps (advances env) (interrupt_tail env barrier ps)"
  unfolding interrupt_tail_def by (intro advances.keeps_map refuse_keeps)

lemma execute_items_safe: "safe_for env ps (execute_items env ps)"
proof (induction env ps rule: execute_items.induct)
  case (1 env)
  then show ?case unfolding execute_items.simps by (intro advances.ensures_return) simp
next
  case (2 env p ps)
  define group where "group = (if runs_parallel p then p # takeWhile runs_parallel ps else [p])"
  define rest where "rest = (if runs_parallel p then dropWhile runs_parallel ps else ps)"
  have sub: "set group \<subseteq> set (p # ps)" "set rest \<subseteq> set (p # ps)"
    by (auto simp: group_def rest_def dest: set_takeWhileD set_dropWhileD)
  have tail: "safe_for env (p # ps) (bindS (execute_items env rest) (\<lambda>tail. returnS (rs @ tail)))"
    if "List.find is_barrier rs = None" for rs
    by (rule safe_bind [OF holds_weaken [OF 2 [OF group_def rest_def that] sub(2)]])
       (auto intro: advances.ensures_return)
  have cut: "safe_for env (p # ps) (bindS (interrupt_tail env b rest) (\<lambda>tail. returnS (rs @ tail)))" for rs b
    by (rule safe_then [OF interrupt_tail_keeps]) (rule advances.ensures_return, simp)
  have run: "safe_for env (p # ps) (gatherS (run_handler env) group)"
    by (rule safe_gather) (rule holds_weaken [OF run_handler_safe], use sub(1) in auto)
  show ?case
    unfolding execute_items.simps Let_def group_def [symmetric] rest_def [symmetric]
  proof (rule safe_bind [OF run])
    fix rs
    show "ensures (advances env) (\<lambda>s. waiting env (p # ps) s \<and> True)
       (case List.find is_barrier rs of
          Some b \<Rightarrow> bindS (interrupt_tail env (to_tool_call_id b) rest) (\<lambda>tail. returnS (rs @ tail))
        | None \<Rightarrow> bindS (execute_items env rest) (\<lambda>tail. returnS (rs @ tail))) (\<lambda>_ _. True)"
      using tail cut by (cases "List.find is_barrier rs") simp_all
  qed
qed

section \<open>Admission\<close>

text \<open>The attempt of a call exists, under its id and for its request.\<close>

definition begun :: "'i tool_env \<Rightarrow> string \<Rightarrow> tool_execution_request \<Rightarrow> ('i, 'o) tool_runtime \<Rightarrow> bool" where
  "begun env k request s \<longleftrightarrow>
     runtime_ok env s \<and>
     (\<exists>r. attempts_of s k = Some r \<and> at_attempt_id r = k \<and> at_request r = request)"

lemma begun_stable: "stable_under (advances env) (begun env k request)"
  by (rule stable_underI) (fastforce simp: begun_def advances_def runtime_le_def attempt_le_def)

definition begun_under ::
  "'i tool_env \<Rightarrow> permission_engine \<Rightarrow> string \<Rightarrow> tool_execution_request \<Rightarrow> ('i, 'o) tool_runtime \<Rightarrow> bool" where
  "begun_under env engine k request s \<longleftrightarrow> begun env k request s \<and> rt_engine s = engine"

lemma begun_under_stable: "stable_under (advances env) (begun_under env engine k request)"
proof (rule stable_underI)
  fix s t
  assume s: "begun_under env engine k request s" and le: "advances env s t"
  then have "begun env k request t"
    using stable_underD [OF begun_stable] by (auto simp: begun_under_def)
  moreover have "rt_engine t = engine"
    using s le by (simp add: begun_under_def begun_def advances_def runtime_le_def)
  ultimately show "begun_under env engine k request t" by (simp add: begun_under_def)
qed

definition outcome_ready ::
  "'i tool_env \<Rightarrow> tool_result + ('i, 'o) prepared_call \<Rightarrow> ('i, 'o) tool_runtime \<Rightarrow> bool" where
  "outcome_ready env outcome s \<longleftrightarrow> (\<forall>p. outcome = Inr p \<longrightarrow> ready env p s)"

lemma refused_ensures:
  "keeps (advances env) m \<Longrightarrow> stable_under (advances env) P \<Longrightarrow>
   ensures (advances env) P (refused m) (outcome_ready env)"
  unfolding refused_def
  by (erule advances.ensures_then) (auto intro: advances.ensures_return simp: outcome_ready_def)

lemma queued_ready:
  assumes "transition_attempt env (pc_attempt_id p) Queued changes s = (Inr (), t)"
    and "proper_change Queued changes" and "begun_under env engine (pc_attempt_id p) (pc_request p) s"
    and "\<And>r. at_attempt_id r = pc_attempt_id p \<Longrightarrow> at_request r = pc_request p \<Longrightarrow>
      licensed env engine p (changes (r\<lparr>at_state := Queued\<rparr>))"
  shows "ready env p t"
proof -
  note run = transition_attempt_run [OF assms(1,2)]
  obtain r where r: "attempts_of s (pc_attempt_id p) = Some r"
    and t: "attempts_of t = (attempts_of s)(pc_attempt_id p \<mapsto> changes (r\<lparr>at_state := Queued\<rparr>))"
    using run(2) by auto
  have same: "at_attempt_id r = pc_attempt_id p" "at_request r = pc_request p"
    using assms(3) r by (auto simp: begun_under_def begun_def)
  have "rt_engine t = engine"
    using stable_underD [OF begun_under_stable assms(3) run(1)] by (simp add: begun_under_def)
  moreover have "at_state (changes (r\<lparr>at_state := Queued\<rparr>)) \<notin> unadmitted"
    using assms(2) by (simp add: proper_change_def unadmitted_def)
  ultimately show ?thesis using t assms(4) [OF same] by (simp add: ready_def)
qed

lemma admitted_ensures:
  fixes p :: "('i, 'o) prepared_call"
  assumes "proper_change Queued changes"
    and "\<And>r. at_attempt_id r = pc_attempt_id p \<Longrightarrow> at_request r = pc_request p \<Longrightarrow>
      licensed env engine p (changes (r\<lparr>at_state := Queued\<rparr>))"
  shows "ensures (advances env) (begun_under env engine (pc_attempt_id p) (pc_request p))
    (admitted (transition_attempt env (pc_attempt_id p) Queued changes) p) (outcome_ready env)"
proof (rule ensuresI)
  fix s t :: "('i, 'o) tool_runtime" and x
  assume b: "begun_under env engine (pc_attempt_id p) (pc_request p) s"
    and run: "admitted (transition_attempt env (pc_attempt_id p) Queued changes) p s = (x, t)"
  obtain y where y: "transition_attempt env (pc_attempt_id p) Queued changes s = (y, t)"
    and x: "x = (case y of Inl e \<Rightarrow> Inl e | Inr _ \<Rightarrow> Inr (Inr p))"
    using run by (auto simp: admitted_def bindS_def split: prod.splits sum.splits)
  show "advances env s t \<and> (\<forall>z. x = Inr z \<longrightarrow> outcome_ready env z t)"
    using transition_attempt_run(1) [OF y assms(1)] queued_ready [OF _ assms(1) b assms(2)] x y
    by (cases y) (auto simp: outcome_ready_def)
qed

lemma authorize_call_ensures:
  "ensures (advances env) (begun env (pc_attempt_id p) (pc_request p)) (authorize_call env p) (outcome_ready env)"
  unfolding authorize_call_def
proof (rule advances.ensures_get)
  fix engine
  define a where "a = re_access (pc_resolution p)"
  define d where "d = decide_permission engine (pc_request p) (rg_policy (pc_registration p)) a"
  let ?P = "begun_under env engine (pc_attempt_id p) (pc_request p)"
  let ?id = "pc_attempt_id p"
  have ask: "ensures (advances env) ?P (bindS (find_grant env (pc_request p) a) (\<lambda>found. case found of
         None \<Rightarrow>
           bindS (build_approval_challenge env (pc_request p) a (pdc_reason d)) (\<lambda>c.
           bindS (transition_attempt env ?id AwaitingApproval (at_challenge_update (\<lambda>_. Some c))) (\<lambda>_.
           refused (approval_result env (pc_request p) c (pc_started_ms p))))
       | Some g \<Rightarrow>
           admitted (transition_attempt env ?id Queued
             (\<lambda>r. r\<lparr>at_grant := Some g, at_grant_consumed := False\<rparr>)) p)) (outcome_ready env)"
    if effect: "pdc_effect d = Ask"
  proof (rule advances.ensures_bind [OF _ _ begun_under_stable])
    show "ensures (advances env) ?P (find_grant env (pc_request p) a) (\<lambda>found s. \<forall>g. found = Some g \<longrightarrow> reusable g a)"
      by (rule ensuresI) (auto dest: find_grant_run keepsD [OF clock_keeps(6)])
    fix found
    show "ensures (advances env) (\<lambda>s. ?P s \<and> (\<forall>g. found = Some g \<longrightarrow> reusable g a))
       (case found of
         None \<Rightarrow>
           bindS (build_approval_challenge env (pc_request p) a (pdc_reason d)) (\<lambda>c.
           bindS (transition_attempt env ?id AwaitingApproval (at_challenge_update (\<lambda>_. Some c))) (\<lambda>_.
           refused (approval_result env (pc_request p) c (pc_started_ms p))))
       | Some g \<Rightarrow>
           admitted (transition_attempt env ?id Queued
             (\<lambda>r. r\<lparr>at_grant := Some g, at_grant_consumed := False\<rparr>)) p) (outcome_ready env)"
    proof (cases found)
      case None
      then show ?thesis
        by (auto intro!: advances.ensures_then clock_keeps transition_attempt_keeps refused_ensures begun_under_stable)
    next
      case (Some g)
      show ?thesis
      proof (cases "reusable g a")
        case True
        have "ensures (advances env) ?P (admitted (transition_attempt env ?id Queued
             (\<lambda>r. r\<lparr>at_grant := Some g, at_grant_consumed := False\<rparr>)) p) (outcome_ready env)"
          by (rule admitted_ensures) (use True effect in \<open>auto simp: licensed_def reusable_def d_def a_def\<close>)
        then show ?thesis using Some by (auto intro: ensures_conseq)
      next
        case False
        then show ?thesis using Some by (auto simp: ensures_def)
      qed
    qed
  qed
  have allow: "ensures (advances env) ?P (admitted (transition_attempt env ?id Queued id) p) (outcome_ready env)"
    if "pdc_effect d = Allow"
    by (rule admitted_ensures) (use that in \<open>auto simp: licensed_def d_def a_def\<close>)
  have deny: "ensures (advances env) ?P (refused (refuse env ?id Denied (pc_request p) f started)) (outcome_ready env)"
    for f started
    by (rule refused_ensures [OF refuse_keeps begun_under_stable])
  show "ensures (advances env) (\<lambda>s. begun env ?id (pc_request p) s \<and> rt_engine s = engine)
     (let request = pc_request p; a = re_access (pc_resolution p); attempt_id = pc_attempt_id p;
         permission = decide_permission engine request (rg_policy (pc_registration p)) a in
     if pdc_effect permission = Deny
       then refused (refuse env attempt_id Denied request
              (denied (failure_of ''tool.permission.denied'' KPermission (pdc_reason permission)))
              (pc_started_ms p))
     else if pdc_effect permission = Ask
       then bindS (find_grant env request a) (\<lambda>found.
         case found of
           None \<Rightarrow>
             bindS (build_approval_challenge env request a (pdc_reason permission)) (\<lambda>c.
             bindS (transition_attempt env attempt_id AwaitingApproval (at_challenge_update (\<lambda>_. Some c))) (\<lambda>_.
             refused (approval_result env request c (pc_started_ms p))))
         | Some g \<Rightarrow>
             admitted (transition_attempt env attempt_id Queued
               (\<lambda>r. r\<lparr>at_grant := Some g, at_grant_consumed := False\<rparr>)) p)
     else admitted (transition_attempt env attempt_id Queued id) p) (outcome_ready env)"
    unfolding Let_def a_def [symmetric] d_def [symmetric] begun_under_def [symmetric]
    using ask allow deny by (cases "pdc_effect d") simp_all
qed

lemma refuse_ensures:
  "ensures (advances env) (begun env k request) (refused (refuse env attempt_id state rq f started)) (outcome_ready env)"
  by (rule refused_ensures [OF refuse_keeps begun_stable])

lemma resolve_call_ensures:
  "ensures (advances env) (begun env k request) (resolve_call env request registration decoded k started)
     (outcome_ready env)"
proof -
  have "ensures (advances env) (begun env k request) (authorize_call env
      \<lparr>pc_request = request, pc_registration = registration, pc_resolution = resolution,
       pc_attempt_id = k, pc_started_ms = started\<rparr>) (outcome_ready env)" for resolution
    using authorize_call_ensures [of env "\<lparr>pc_request = request, pc_registration = registration,
      pc_resolution = resolution, pc_attempt_id = k, pc_started_ms = started\<rparr>"] by simp
  then show ?thesis
    unfolding resolve_call_def
    by (intro advances.ensures_then [OF transition_attempt_keeps _ begun_stable]
          advances.ensures_then [OF clock_keeps(1) _ begun_stable] proper_changes)
       (auto intro: refuse_ensures split: sum.split)
qed

lemma decode_call_ensures:
  "ensures (advances env) (begun env k request) (decode_call env request registration k started)
     (outcome_ready env)"
  unfolding decode_call_def
  by (intro advances.ensures_then [OF clock_keeps(1) _ begun_stable])
     (auto intro: refuse_ensures resolve_call_ensures split: sum.split)

lemma validate_call_ensures:
  "ensures (advances env) (begun env k request) (validate_call env request k started) (outcome_ready env)"
proof -
  have found: "ensures (advances env) (begun env k request) (case materialize registry name i of
       Inl (ToolRegistrationNotFoundError text) \<Rightarrow> refused (refuse env k Failed request (f text) started)
     | Inl (StaleToolRegistrationError text) \<Rightarrow> refused (refuse env k Failed request (g text) started)
     | Inl e \<Rightarrow> raiseS e
     | Inr m \<Rightarrow> decode_call env request (mt_registration m) k started) (outcome_ready env)"
    for registry :: "('a, 'b) tool_registry" and name i f g
    by (auto intro: refuse_ensures decode_call_ensures advances.ensures_raise split: sum.split exn.split)
  show ?thesis
    unfolding validate_call_def
    by (intro advances.ensures_then [OF transition_attempt_keeps _ begun_stable] proper_changes)
       (auto intro!: refuse_ensures found advances.ensures_get intro: ensures_conseq [OF found] split: option.split)
qed

lemma prepare_call_ensures:
  "ensures (advances env) (waiting env ps) (prepare_call env request)
     (\<lambda>outcome s. \<forall>p. outcome = Inr p \<longrightarrow> ready env p s)"
  unfolding prepare_call_def Let_def outcome_ready_def [symmetric]
proof (rule advances.ensures_then [OF clock_keeps(2) _ waiting_stable])
  fix started
  let ?k = "attempt_id_for request"
  let ?new = "new_attempt ?k request"
  show "ensures (advances env) (waiting env ps)
     (bindS (attemptS (create_attempt ?new)) (\<lambda>created.
     case created of
       Inl e \<Rightarrow>
         refused (failS env request (failure_of ''tool.state.conflict'' KInternal (exn_message e)) started)
     | Inr _ \<Rightarrow> validate_call env request ?k started)) (outcome_ready env)"
  proof (rule safe_bind [OF advances.ensures_attempt])
    show "ensures (advances env) (waiting env ps) (create_attempt ?new) (\<lambda>_. begun env ?k request)"
    proof (rule ensuresI)
      fix s t :: "('a, 'b) tool_runtime" and x
      assume w: "waiting env ps s" and run: "create_attempt ?new s = (x, t)"
      have "begun env ?k request t" if "x = Inr ()"
        using w create_attempt_run(1) [OF run, of env] create_attempt_run(2) [OF run that]
        by (auto simp: begun_def waiting_def advances_def new_attempt_def)
      then show "advances env s t \<and> (\<forall>z. x = Inr z \<longrightarrow> begun env ?k request t)"
        using create_attempt_run(1) [OF run] by auto
    qed
    fix created :: "unit result"
    show "ensures (advances env) (\<lambda>s. waiting env ps s \<and> (\<forall>y. created = Inr y \<longrightarrow> begun env ?k request s))
      (case created of
       Inl e \<Rightarrow>
         refused (failS env request (failure_of ''tool.state.conflict'' KInternal (exn_message e)) started)
     | Inr _ \<Rightarrow> validate_call env request ?k started) (outcome_ready env)"
    proof (cases created)
      case (Inl e)
      then show ?thesis
        by (auto intro: refused_ensures [OF clock_keeps(4) waiting_stable])
    next
      case (Inr z)
      then show ?thesis by (auto intro: ensures_conseq [OF validate_call_ensures])
    qed
  qed
qed

section \<open>Batches\<close>

lemma interrupt_unstarted_keeps: "keeps (advances env) (interrupt_unstarted env barrier request)"
  unfolding interrupt_unstarted_def
  by (auto intro!: advances.keeps_bind clock_keeps advances.keeps_attempt create_attempt_keeps
      advances.keeps_pure split: sum.split)

lemma prepare_items_ensures:
  "ensures (advances env) (waiting env ps) (prepare_items env ps requests)
     (\<lambda>outcome s. \<forall>qs. outcome = Inr qs \<longrightarrow> waiting env qs s)"
proof (induction env ps requests rule: prepare_items.induct)
  case (1 env ps)
  then show ?case unfolding prepare_items.simps by (intro advances.ensures_return) simp
next
  case (2 env ps request rest)
  have refused: "ensures (advances env) (waiting env ps)
     (bindS (interrupt_tail env b ps) (\<lambda>before.
         bindS (mapS (interrupt_unstarted env b) rest) (\<lambda>after. returnS (Inl (before @ [result] @ after)))))
     (\<lambda>outcome s. \<forall>qs. outcome = Inr qs \<longrightarrow> waiting env qs s)" for b result
    by (intro safe_then [OF interrupt_tail_keeps] safe_then [OF advances.keeps_map] interrupt_unstarted_keeps
          advances.ensures_return) simp
  show ?case
    unfolding prepare_items.simps
  proof (rule safe_bind [OF prepare_call_ensures])
    fix outcome :: "tool_result + ('a, 'b) prepared_call"
    show "ensures (advances env) (\<lambda>s. waiting env ps s \<and> (\<forall>p. outcome = Inr p \<longrightarrow> ready env p s))
       (case outcome of
       Inl result \<Rightarrow>
         bindS (interrupt_tail env (to_tool_call_id result) ps) (\<lambda>before.
         bindS (mapS (interrupt_unstarted env (to_tool_call_id result)) rest) (\<lambda>after.
         returnS (Inl (before @ [result] @ after))))
     | Inr p \<Rightarrow> prepare_items env (ps @ [p]) rest)
       (\<lambda>outcome s. \<forall>qs. outcome = Inr qs \<longrightarrow> waiting env qs s)"
    proof (cases outcome)
      case (Inl result)
      then show ?thesis using refused by simp
    next
      case (Inr p)
      then show ?thesis
        using 2 by (auto intro: ensures_conseq simp: waiting_append waiting_def)
    qed
  qed
qed

lemma ready_batches_frame:
  "ready env p (s\<lparr>rt_batch_sequence := n\<rparr>) = ready env p s"
  "run_ok env (s\<lparr>rt_batch_sequence := n\<rparr>) x = run_ok env s x"
  "ready env p (s\<lparr>rt_batches := bs\<rparr>) = ready env p s"
  "ready env p (s\<lparr>rt_batch_sequence := n, rt_batches := bs\<rparr>) = ready env p s"
  "run_ok env (s\<lparr>rt_batches := bs\<rparr>) x = run_ok env s x"
  "run_ok env (s\<lparr>rt_batch_sequence := n, rt_batches := bs\<rparr>) x = run_ok env s x"
  "runtime_le s (s\<lparr>rt_batches := bs\<rparr>)" "runtime_le s (s\<lparr>rt_batch_sequence := n, rt_batches := bs\<rparr>)"
  by (simp_all add: ready_def attempts_of_def run_ok_def runtime_le_def)

lemma store_batch_safe: "safe_for env ps (store_batch requests ps)"
proof (rule ensuresI)
  fix s t :: "('a, 'b) tool_runtime" and x
  assume w: "waiting env ps s" and run: "store_batch requests ps s = (x, t)"
  obtain n batch_id where t: "t = s\<lparr>rt_batch_sequence := n, rt_batches := AList.update batch_id ps (rt_batches s)\<rparr>"
    using run by (auto simp: store_batch_def Let_def)
  have "\<forall>b \<in> set (AList.update batch_id ps (rt_batches s)). \<forall>p \<in> set (snd b). ready env p s"
    using w set_update_subset [of batch_id ps "rt_batches s"] by (auto simp: waiting_def runtime_ok_def)
  then have "runtime_ok env t"
    using w by (auto simp: t waiting_def runtime_ok_def ready_batches_frame)
  then show "advances env s t \<and> (\<forall>z. x = Inr z \<longrightarrow> True)"
    by (simp add: advances_def t ready_batches_frame)
qed

lemma admit_batch_safe: "safe_for env ps (admit_batch env requests ps)"
proof -
  have "safe_for env ps (bindS (store_batch requests ps) (\<lambda>b. liftS (g b)))"
    for g :: "string \<Rightarrow> tool_batch_preparation result"
    by (rule safe_bind [OF store_batch_safe]) (auto intro: advances.ensures_lift)
  moreover have "safe_for env ps (bindS (mapS (\<lambda>p. refuse env (pc_attempt_id p) Failed (pc_request p)
      (over_budget n) (pc_started_ms p)) ps) (\<lambda>rs. liftS (g rs)))"
    for g :: "tool_result list \<Rightarrow> tool_batch_preparation result" and n
    by (intro ensures_keeps advances.keeps_bind advances.keeps_map refuse_keeps advances.keeps_pure)
  ultimately show ?thesis by (simp add: admit_batch_def Let_def)
qed

lemma prepare_batch_safe:
  "safe_for env [] (prepare_batch env requests :: ('a, 'b, tool_batch_preparation) runtime_op)"
proof (cases "requests = []")
  case True
  then show ?thesis by (simp add: prepare_batch_def advances.ensures_raise)
next
  case False
  have "safe_for env [] (bindS (prepare_items env [] requests) (\<lambda>outcome. case outcome of
      Inl results \<Rightarrow> liftS (g results)
    | Inr ps \<Rightarrow> admit_batch env requests ps) :: ('a, 'b, tool_batch_preparation) runtime_op)"
    for g :: "tool_result list \<Rightarrow> tool_batch_preparation result"
  proof (rule safe_bind [OF prepare_items_ensures])
    fix outcome :: "tool_result list + ('a, 'b) prepared_call list"
    show "ensures (advances env) (\<lambda>s. waiting env [] s \<and> (\<forall>qs. outcome = Inr qs \<longrightarrow> waiting env qs s))
      (case outcome of Inl results \<Rightarrow> liftS (g results) | Inr ps \<Rightarrow> admit_batch env requests ps) (\<lambda>_ _. True)"
      by (cases outcome) (auto intro: advances.ensures_lift ensures_conseq [OF admit_batch_safe])
  qed
  then show ?thesis using False by (simp add: prepare_batch_def)
qed

end
