(* ===== verification/Tools_Lifecycle.thy ===== *)
theory Tools_Lifecycle
  imports Tools_Admission
begin

text \<open>
  The operations that execute, resume and restore, and the runtime as a transition system:
  from an empty store, every state that any sequence of operations reaches satisfies the
  invariant, and any two states on the way are related by \<open>runtime_le\<close>.
\<close>

section \<open>Execution\<close>

lemma take_batch_ensures: "ensures (advances env) (waiting env []) (take_batch batch_id) (waiting env)"
proof (rule ensuresI)
  fix s t :: "('a, 'b) tool_runtime" and x
  assume w: "waiting env [] s" and run: "take_batch batch_id s = (x, t)"
  show "advances env s t \<and> (\<forall>ps. x = Inr ps \<longrightarrow> waiting env ps t)"
  proof (cases "map_of (rt_batches s) batch_id")
    case None
    then show ?thesis using run by (auto simp: take_batch_def advances.refl)
  next
    case (Some ps)
    then have t: "x = Inr ps" "t = s\<lparr>rt_batches := AList.delete batch_id (rt_batches s)\<rparr>"
      using run by (auto simp: take_batch_def)
    have "(batch_id, ps) \<in> set (rt_batches s)" using Some by (rule map_of_SomeD)
    then have ready: "\<forall>p \<in> set ps. ready env p s" using w by (force simp: waiting_def runtime_ok_def)
    have "set (AList.delete batch_id (rt_batches s)) \<subseteq> set (rt_batches s)"
      by (auto simp: AList.delete_eq)
    then have "runtime_ok env t"
      using w by (auto simp: t waiting_def runtime_ok_def ready_batches_frame)
    then show ?thesis using ready by (auto simp: t waiting_def advances_def ready_batches_frame)
  qed
qed

lemma execute_prepared_safe: "safe_for env [] (execute_prepared env batch_id)"
  unfolding execute_prepared_def Let_def
  by (auto intro!: advances.ensures_raise safe_bind [OF take_batch_ensures]
      ensures_conseq [OF execute_items_safe])

lemma execute_batch_safe: "safe_for env [] (execute_batch env requests)"
  unfolding execute_batch_def
  by (rule safe_bind [OF prepare_batch_safe])
     (auto intro: advances.ensures_return execute_prepared_safe)

section \<open>Resuming\<close>

text \<open>The record at hand is the present one.\<close>

definition present :: "'i tool_env \<Rightarrow> attempt_record \<Rightarrow> ('i, 'o) tool_runtime \<Rightarrow> bool" where
  "present env r s \<longleftrightarrow> runtime_ok env s \<and> attempts_of s (at_attempt_id r) = Some r"

lemma present_clock: "present env r s \<Longrightarrow> clock_only s t \<Longrightarrow> present env r t"
  using clock_advances [of s t env] by (auto simp: present_def advances_def clock_only_attempts)

lemma present_then:
  assumes "keeps clock_only m" and "\<And>x. ensures (advances env) (present env r) (f x) Q"
  shows "ensures (advances env) (present env r) (bindS m f) Q"
proof (rule ensuresI)
  fix s x t
  assume p: "present env r s" and run: "bindS m f s = (x, t)"
  show "advances env s t \<and> (\<forall>y. x = Inr y \<longrightarrow> Q y t)"
  proof (cases "m s")
    case (Pair y u)
    then have c: "clock_only s u" using keepsD [OF assms(1)] by blast
    show ?thesis
    proof (cases y)
      case (Inl e)
      then have "x = Inl e" "t = u" using run Pair by auto
      then show ?thesis using clock_advances [OF c] by simp
    next
      case (Inr z)
      then have "f z u = (x, t)" using run Pair by simp
      from ensuresD [OF assms(2) present_clock [OF p c] this] show ?thesis
        using advances.trans [OF clock_advances [OF c]] by blast
    qed
  qed
qed

lemma rewrite_record:
  assumes "proper_change state changes"
  shows "ensures (advances env) (present env r)
    (bindS (liftS (transition r state changes)) (set_attempt env (at_attempt_id r) expected))
    (\<lambda>_. begun env (at_attempt_id r) (at_request r))"
proof (rule ensuresI)
  fix s x t
  assume p: "present env r s"
    and run: "bindS (liftS (transition r state changes)) (set_attempt env (at_attempt_id r) expected) s = (x, t)"
  show "advances env s t \<and> (\<forall>z. x = Inr z \<longrightarrow> begun env (at_attempt_id r) (at_request r) t)"
  proof (cases "transition r state changes")
    case (Inl e)
    then show ?thesis using run by (auto simp: advances.refl)
  next
    case (Inr r')
    then have set: "set_attempt env (at_attempt_id r) expected r' s = (x, t)" using run by simp
    have le: "attempt_le r r'" by (rule transition_Inr(1) [OF Inr assms])
    then have adv: "advances env s t"
      using set_attempt_advances(1) [OF set] p by (simp add: present_def)
    have "begun env (at_attempt_id r) (at_request r) t" if "x = Inr ()"
      using set_attempt_advances(2) [OF set _ that] adv p le
      by (auto simp: present_def begun_def advances_def attempt_le_def)
    then show ?thesis using adv by auto
  qed
qed

lemma if_conflict_keeps: "keeps R m \<Longrightarrow> if_conflict m e = Some k \<Longrightarrow> keeps R k"
  by (auto simp: if_conflict_def split: exn.splits)

lemma settle_approval_safe:
  "ensures (advances env) (present env r) (settle_approval env r f started) (\<lambda>_ _. True)"
  unfolding settle_approval_def
proof (rule present_then [OF clock_ops(4)])
  fix result
  show "ensures (advances env) (present env r)
    (catchS (bindS (bindS (liftS (transition r Denied (at_result_update (\<lambda>_. Some result))))
       (set_attempt env (at_attempt_id r) AwaitingApproval)) (\<lambda>_. returnS result))
       (if_conflict (approval_consumed env (at_request r) started))) (\<lambda>_ _. True)"
  proof (rule advances.ensures_catch)
    show "ensures (advances env) (present env r)
      (bindS (bindS (liftS (transition r Denied (at_result_update (\<lambda>_. Some result))))
         (set_attempt env (at_attempt_id r) AwaitingApproval)) (\<lambda>_. returnS result)) (\<lambda>_ _. True)"
      by (rule advances.ensures_seq [OF rewrite_record])
         (auto intro: advances.ensures_return)
  qed (rule if_conflict_keeps [OF clock_keeps(8)])
qed

lemma issued_fingerprint:
  "issue_approval_grant uuid now c response = Inr g \<Longrightarrow>
   ag_request_fingerprint g = py_strip (ac_request_fingerprint c) \<and> ag_scope g = ap_scope response"
  by (auto simp: issue_approval_grant_def approval_grant_post_init_def bindE_eq_Inr
      sec_require_text_def required_text_PStr split: if_splits option.splits)

lemma run_queued_safe:
  fixes p :: "('a, 'b) prepared_call"
  assumes "proper_change Queued changes"
    and "\<And>engine r. at_attempt_id r = pc_attempt_id p \<Longrightarrow> at_request r = pc_request p \<Longrightarrow>
      licensed env engine p (changes (r\<lparr>at_state := Queued\<rparr>))"
  shows "ensures (advances env) (begun env (pc_attempt_id p) (pc_request p))
    (bindS (transition_attempt env (pc_attempt_id p) Queued changes) (\<lambda>_. run_handler env p)) (\<lambda>_ _. True)"
proof (rule advances.ensures_seq)
  show "ensures (advances env) (begun env (pc_attempt_id p) (pc_request p))
    (transition_attempt env (pc_attempt_id p) Queued changes) (\<lambda>_. waiting env [p])"
  proof (rule ensuresI)
    fix s t :: "('a, 'b) tool_runtime" and x
    assume b: "begun env (pc_attempt_id p) (pc_request p) s"
      and run: "transition_attempt env (pc_attempt_id p) Queued changes s = (x, t)"
    have adv: "advances env s t" by (rule transition_attempt_run(1) [OF run assms(1)])
    have "begun_under env (rt_engine s) (pc_attempt_id p) (pc_request p) s"
      using b by (simp add: begun_under_def)
    then have "ready env p t" if "x = Inr ()"
      using queued_ready [OF run [unfolded that] assms(1) _ assms(2)] by blast
    then show "advances env s t \<and> (\<forall>z. x = Inr z \<longrightarrow> waiting env [p] t)"
      using adv b by (auto simp: waiting_def begun_def advances_def)
  qed
qed (rule run_handler_safe)

lemma run_approved_safe:
  "ensures (advances env) (begun env (at_attempt_id r) (at_request r))
     (run_approved env r c response started) (\<lambda>_ _. True)"
  unfolding run_approved_def Let_def
proof (rule advances.ensures_then [OF clock_keeps(9) _ begun_stable])
  fix valid :: "string + ('a, 'b) tool_registration \<times> 'a access_resolution"
  let ?B = "begun env (at_attempt_id r) (at_request r)"
  have granted: "ensures (advances env) ?B
      (bindS (liftS (issue_approval_grant uuid now c response)) (\<lambda>g.
       bindS (transition_attempt env (at_attempt_id r) Queued
          (\<lambda>r. r\<lparr>at_grant := Some g, at_grant_consumed := (ap_scope response = ScopeOnce)\<rparr>)) (\<lambda>_.
       run_handler env
         \<lparr>pc_request = at_request r, pc_registration = registration, pc_resolution = resolution,
          pc_attempt_id = at_attempt_id r, pc_started_ms = started\<rparr>))) (\<lambda>_ _. True)"
    if same: "approval_fingerprint (ev_digest env) (at_request r) (re_access resolution) = ac_request_fingerprint c"
    for uuid now and registration :: "('a, 'b) tool_registration" and resolution
  proof (cases "issue_approval_grant uuid now c response")
    case (Inl e)
    then show ?thesis by (auto simp: ensures_def advances.refl)
  next
    case (Inr g)
    let ?p = "\<lparr>pc_request = at_request r, pc_registration = registration, pc_resolution = resolution,
          pc_attempt_id = at_attempt_id r, pc_started_ms = started\<rparr>"
    have "ensures (advances env) (begun env (pc_attempt_id ?p) (pc_request ?p))
      (bindS (transition_attempt env (pc_attempt_id ?p) Queued
          (\<lambda>r. r\<lparr>at_grant := Some g, at_grant_consumed := (ap_scope response = ScopeOnce)\<rparr>)) (\<lambda>_.
       run_handler env ?p)) (\<lambda>_ _. True)"
      by (rule run_queued_safe)
         (use issued_fingerprint [OF Inr] same in \<open>simp_all add: licensed_def Let_def\<close>)
    then show ?thesis by (simp add: Inr ensures_def)
  qed
  show "ensures (advances env) ?B
    (case valid of
       Inl text \<Rightarrow>
         refuse env (at_attempt_id r) Denied (at_request r)
           (denied (failure_of ''tool.approval.revalidation_failed'' KPermission text)) started
     | Inr (registration, resolution) \<Rightarrow>
         if approval_fingerprint (ev_digest env) (at_request r) (re_access resolution)
            \<noteq> ac_request_fingerprint c
         then refuse env (at_attempt_id r) Denied (at_request r)
           (denied (failure_of ''tool.approval.fingerprint_mismatch'' KPermission
              ''Resolved approval fingerprint changed'')) started
         else
         bindS (now_ms env) (\<lambda>now.
         bindS (random_id env) (\<lambda>uuid.
         bindS (liftS (issue_approval_grant uuid now c response)) (\<lambda>g.
         bindS (transition_attempt env (at_attempt_id r) Queued
                  (\<lambda>r. r\<lparr>at_grant := Some g, at_grant_consumed := (ap_scope response = ScopeOnce)\<rparr>)) (\<lambda>_.
         run_handler env
           \<lparr>pc_request = at_request r, pc_registration = registration, pc_resolution = resolution,
            pc_attempt_id = at_attempt_id r, pc_started_ms = started\<rparr>))))) (\<lambda>_ _. True)"
    by (auto intro!: ensures_keeps [OF refuse_keeps] granted
        advances.ensures_then [OF clock_keeps(2) _ begun_stable]
        advances.ensures_then [OF clock_keeps(3) _ begun_stable] split: sum.split prod.split)
qed

lemma find_present:
  assumes "runtime_ok env s"
  shows "find_by_approval_id (ss_memory (rt_store s)) i = Some r \<Longrightarrow> present env r s"
    and "find_by_interaction_id (ss_memory (rt_store s)) i = Some r \<Longrightarrow> present env r s"
proof -
  have "present env r s" if "store_get (ss_memory (rt_store s)) k = Some r" for k
  proof -
    have "(k, r) \<in> set (sr_attempts (ss_memory (rt_store s)))"
      using that by (auto simp: store_get_def dest: map_of_SomeD)
    then have "at_attempt_id r = k" using assms by (auto simp: runtime_ok_def store_keys_ok_def)
    then show ?thesis using assms that by (simp add: present_def attempts_of_def store_get_def)
  qed
  then show "find_by_approval_id (ss_memory (rt_store s)) i = Some r \<Longrightarrow> present env r s"
    and "find_by_interaction_id (ss_memory (rt_store s)) i = Some r \<Longrightarrow> present env r s"
    by (auto simp: find_by_approval_id_def find_by_interaction_id_def Option.bind_eq_Some_conv)
qed

lemma find_then:
  assumes "\<And>s r. runtime_ok env s \<Longrightarrow> g s = Some r \<Longrightarrow> present env r s"
    and "keeps (advances env) m"
    and "\<And>r. ensures (advances env) (present env r) (f r) (\<lambda>_ _. True)"
  shows "safe_for env [] (bindS (getS g) (\<lambda>found. case found of None \<Rightarrow> m | Some r \<Rightarrow> f r))"
proof (rule advances.ensures_get)
  fix found
  show "ensures (advances env) (\<lambda>s. waiting env [] s \<and> g s = found)
    (case found of None \<Rightarrow> m | Some r \<Rightarrow> f r) (\<lambda>_ _. True)"
  proof (cases found)
    case None
    then show ?thesis by (simp add: ensures_keeps [OF assms(2)])
  next
    case (Some r)
    then show ?thesis using assms(1) by (auto intro: ensures_conseq [OF assms(3)] simp: waiting_Nil)
  qed
qed

lemma reopen_safe:
  "ensures (advances env) (present env r)
     (bindS (attemptS (bindS (liftS (transition r ResolvingAccess id))
              (set_attempt env (at_attempt_id r) AwaitingApproval))) (\<lambda>reopened.
      case reopened of
        Inl (ToolStateConflictError _) \<Rightarrow> approval_consumed env (at_request r) started
      | Inl e \<Rightarrow> raiseS e
      | Inr _ \<Rightarrow> run_approved env r c response started)) (\<lambda>_ _. True)"
proof (rule advances.ensures_seq [OF advances.ensures_attempt [OF rewrite_record]])
  fix reopened :: "unit result"
  show "ensures (advances env) (\<lambda>s. \<forall>y. reopened = Inr y \<longrightarrow> begun env (at_attempt_id r) (at_request r) s)
    (case reopened of
        Inl (ToolStateConflictError _) \<Rightarrow> approval_consumed env (at_request r) started
      | Inl e \<Rightarrow> raiseS e
      | Inr _ \<Rightarrow> run_approved env r c response started) (\<lambda>_ _. True)"
  proof (cases reopened)
    case (Inl e)
    then show ?thesis
      by (cases e) (auto intro: ensures_keeps [OF clock_keeps(8)] advances.ensures_raise)
  next
    case (Inr y)
    then show ?thesis by (auto intro: ensures_conseq [OF run_approved_safe])
  qed
qed simp

lemma resume_approval_safe: "safe_for env [] (resume_approval env response)"
  unfolding resume_approval_def
proof (rule find_then)
  fix r
  show "ensures (advances env) (present env r)
    (bindS (now_ms env) (\<lambda>started.
         if at_state r \<noteq> AwaitingApproval \<or> at_grant_consumed r
         then approval_consumed env (at_request r) started
         else (case at_challenge r of
             None \<Rightarrow>
               settle_approval env r
                 (failure_of ''tool.approval.fingerprint_mismatch'' KPermission ''Approval fingerprint mismatch'')
                 started
           | Some c \<Rightarrow>
               bindS (now_ms env) (\<lambda>now.
               case response_problem c response now of
                 Some f \<Rightarrow> settle_approval env r f started
               | None \<Rightarrow>
                   bindS (attemptS (bindS (liftS (transition r ResolvingAccess id))
                            (set_attempt env (at_attempt_id r) AwaitingApproval))) (\<lambda>reopened.
                   case reopened of
                     Inl (ToolStateConflictError _) \<Rightarrow> approval_consumed env (at_request r) started
                   | Inl e \<Rightarrow> raiseS e
                   | Inr _ \<Rightarrow> run_approved env r c response started))))) (\<lambda>_ _. True)"
    by (auto intro!: present_then [OF clock_ops(2)] ensures_keeps [OF clock_keeps(8)]
        settle_approval_safe reopen_safe split: option.split)
qed (auto dest: find_present(1) intro: advances.keeps_pure)

lemma settle_answer_safe:
  "ensures (advances env) (present env r) (settle_answer env r response started) (\<lambda>_ _. True)"
proof -
  have answered: "ensures (advances env) (present env r)
    (catchS (bindS (bindS (liftS (transition r Succeeded
          (\<lambda>r. r\<lparr>at_result := Some result, at_interaction_consumed := True\<rparr>)))
        (set_attempt env (at_attempt_id r) AwaitingInput)) (\<lambda>_. returnS result))
      (if_conflict (liftS (already_answered response)))) (\<lambda>_ _. True)" for result
  proof (rule advances.ensures_catch)
    show "ensures (advances env) (present env r)
      (bindS (bindS (liftS (transition r Succeeded
          (\<lambda>r. r\<lparr>at_result := Some result, at_interaction_consumed := True\<rparr>)))
        (set_attempt env (at_attempt_id r) AwaitingInput)) (\<lambda>_. returnS result)) (\<lambda>_ _. True)"
      by (rule advances.ensures_seq [OF rewrite_record]) (auto intro: advances.ensures_return)
  qed (rule if_conflict_keeps [OF advances.keeps_pure(3)])
  show ?thesis
    unfolding settle_answer_def Let_def
    by (auto intro!: present_then [OF clock_ops(10)] present_then [OF clock_ops(11)]
        ensures_keeps [OF refuse_keeps] answered split: sum.split prod.split)
qed

lemma resume_interaction_safe: "safe_for env [] (resume_interaction env response)"
  unfolding resume_interaction_def
  by (rule find_then)
     (auto dest: find_present(2) intro: advances.keeps_pure ensures_keeps [OF advances.keeps_pure(3)]
        present_then [OF clock_ops(2)] settle_answer_safe split: option.split)

section \<open>Prepared resumes and checkpoints\<close>

text \<open>Operations that change only the prepared resumes.\<close>

lemma resumes_frame:
  "runtime_ok env (s\<lparr>rt_resumes := rs\<rparr>) = runtime_ok env s"
  "runtime_ok env (s\<lparr>rt_resume_sequence := n\<rparr>) = runtime_ok env s"
  "runtime_le s (s\<lparr>rt_resumes := rs\<rparr>)"
  "runtime_le s (s\<lparr>rt_resume_sequence := n, rt_resumes := rs\<rparr>)"
  "runtime_le s (s\<lparr>rt_resumes := rs, rt_resume_sequence := n\<rparr>)"
  by (simp_all add: runtime_ok_def ready_def attempts_of_def run_ok_def runtime_le_def)

lemma take_resume_keeps: "keeps (advances env) (take_resume resume_id)"
  by (auto simp: keeps_def take_resume_def advances_def resumes_frame split: option.splits)

lemma execute_prepared_resume_safe: "safe_for env [] (execute_prepared_resume env resume_id)"
  unfolding execute_prepared_resume_def Let_def
  by (auto intro!: advances.ensures_raise safe_then [OF take_resume_keeps]
      resume_approval_safe resume_interaction_safe split: resume_response.split)

lemma frozen_checkpoint_state: "frozen_checkpoint s = (x, t) \<Longrightarrow> t = s"
  by (auto simp: frozen_checkpoint_def split: option.splits)

lemma prepare_resume_keeps: "keeps (advances env) (prepare_resume response)"
  by (auto simp: keeps_def prepare_resume_def Let_def advances_def resumes_frame
      dest!: frozen_checkpoint_state split: prod.splits sum.splits)

lemma create_all_keys: "create_all rs m = Inr m' \<Longrightarrow> store_keys_ok m \<Longrightarrow> store_keys_ok m'"
  by (induction rs arbitrary: m)
     (auto simp: bindE_eq_Inr store_create_def put_attempt_keys split: if_splits)

lemma ss_restore_cases:
  assumes "ss_restore payload sid st = Inr st'"
  obtains "st' = st"
    | m rs where "sr_attempts (ss_memory st) = []" "create_all rs (ss_memory st) = Inr m"
        "st' = st\<lparr>ss_memory := m\<rparr>"
proof -
  have "st' = st \<or> (\<exists>m rs. sr_attempts (ss_memory st) = [] \<and> create_all rs (ss_memory st) = Inr m \<and>
      st' = st\<lparr>ss_memory := m\<rparr>)"
    using assms
    by (auto simp: ss_restore_def bindE_eq_Inr mapE_eq_Inr split: pyval.splits if_splits)
  then show thesis using that by blast
qed

lemma restore_store_keeps:
  "keeps (advances env) (restore_store state :: ('a, 'b, unit) runtime_op)"
proof (rule keepsI)
  fix s t :: "('a, 'b) tool_runtime" and x
  assume run: "restore_store state s = (x, t)"
  show "advances env s t"
  proof (cases "\<exists>sid st. ss_session (rt_store s) = Some sid \<and> ss_restore state sid (rt_store s) = Inr st")
    case False
    then have "t = s" using run by (auto simp: restore_store_def split: option.splits sum.splits if_splits)
    then show ?thesis by (simp add: advances.refl)
  next
    case True
    then obtain sid st where sid: "ss_session (rt_store s) = Some sid"
      and st: "ss_restore state sid (rt_store s) = Inr st" by blast
    have t: "t = s\<lparr>rt_store := st\<rparr>" using run sid st by (simp add: restore_store_def)
    from st show ?thesis
    proof (cases rule: ss_restore_cases)
      case 1
      then show ?thesis by (simp add: t advances.refl)
    next
      case (2 m rs)
      then have "runtime_le s t" by (simp add: t runtime_le_def attempts_of_def)
      moreover have "runtime_ok env s \<Longrightarrow> store_keys_ok (ss_memory (rt_store t))"
        using create_all_keys [OF 2(2)] by (simp add: t 2(3) runtime_ok_def)
      ultimately show ?thesis by (intro advancesI) (simp_all add: t)
    qed
  qed
qed

lemma adopt_resumes_keeps: "keeps (advances env) (adopt_resumes restored)"
  by (auto simp: keeps_def adopt_resumes_def advances_def resumes_frame split: if_splits)

lemma restore_resumes_keeps: "keeps (advances env) (restore_resumes intent)"
  unfolding restore_resumes_def
  by (auto intro: advances.keeps_pure advances.keeps_bind adopt_resumes_keeps split: pyval.split)

lemma restore_checkpoint_keeps: "keeps (advances env) (restore_checkpoint_state state)"
  unfolding restore_checkpoint_state_def
  by (auto intro!: advances.keeps_bind restore_store_keeps restore_resumes_keeps advances.keeps_pure
      split: pyval.split)

section \<open>The runtime as a transition system\<close>

text \<open>One operation of the runtime, whatever it returns or raises.\<close>

inductive runtime_step :: "'i tool_env \<Rightarrow> ('i, 'o) tool_runtime \<Rightarrow> ('i, 'o) tool_runtime \<Rightarrow> bool"
  for env where
  step_prepare: "prepare_batch env requests s = (x, t) \<Longrightarrow> runtime_step env s t"
| step_execute: "execute_prepared env batch_id s = (x, t) \<Longrightarrow> runtime_step env s t"
| step_stash: "prepare_resume response s = (x, t) \<Longrightarrow> runtime_step env s t"
| step_resume: "execute_prepared_resume env resume_id s = (x, t) \<Longrightarrow> runtime_step env s t"
| step_restore: "restore_checkpoint_state state s = (x, t) \<Longrightarrow> runtime_step env s t"

inductive_cases runtime_stepE: "runtime_step env s t"

lemma safe_advances: "safe_for env [] m \<Longrightarrow> m s = (x, t) \<Longrightarrow> advances env s t"
  by (auto simp: advances_def ensures_def waiting_Nil)

lemma runtime_step_advances: "runtime_step env s t \<Longrightarrow> advances env s t"
  by (erule runtime_stepE)
     (auto intro: safe_advances prepare_batch_safe execute_prepared_safe execute_prepared_resume_safe
        dest: keepsD [OF prepare_resume_keeps] keepsD [OF restore_checkpoint_keeps])

lemma runtime_steps_advance: "(runtime_step env)\<^sup>*\<^sup>* s t \<Longrightarrow> advances env s t"
  by (induction rule: rtranclp_induct)
     (auto intro: advances.refl advances.trans runtime_step_advances)

text \<open>A runtime as it is made for a session: nothing attempted yet.\<close>

definition fresh_runtime :: "('i, 'o) tool_runtime \<Rightarrow> bool" where
  "fresh_runtime s \<longleftrightarrow>
     (\<exists>registry engine store clock. s = new_runtime registry engine store clock \<and>
        ss_memory store = empty_store)"

lemma fresh_runtime_ok: "fresh_runtime s \<Longrightarrow> runtime_ok env s"
  by (auto simp: fresh_runtime_def new_runtime_def runtime_ok_def store_keys_ok_def empty_store_def)

lemma reached_ok: "fresh_runtime s0 \<Longrightarrow> (runtime_step env)\<^sup>*\<^sup>* s0 s \<Longrightarrow> runtime_ok env s"
  using runtime_steps_advance fresh_runtime_ok by (force simp: advances_def)

lemma reached_le:
  "fresh_runtime s0 \<Longrightarrow> (runtime_step env)\<^sup>*\<^sup>* s0 s \<Longrightarrow> (runtime_step env)\<^sup>*\<^sup>* s t \<Longrightarrow> runtime_le s t"
  using reached_ok [of s0 env s] runtime_steps_advance [of env s t] by (simp add: advances_def)

end
