(* ===== verification/Tools_Batches.thy ===== *)
theory Tools_Batches
  imports Tools_Lifecycle
begin

text \<open>
  What the runtime answers: every call of a batch has one result, under its id and in the
  order of the requests; admission starts no handler.
\<close>

section \<open>The result of a call\<close>

definition answers_call :: "tool_execution_request \<Rightarrow> tool_result \<Rightarrow> bool" where
  "answers_call request r \<longleftrightarrow> to_tool_call_id r = py_strip (ter_tool_call_id request)"

lemma post_init_call_id:
  "tool_result_post_init r = Inr r' \<Longrightarrow>
   to_tool_call_id r' = py_strip (to_tool_call_id r) \<and> to_status r' = to_status r"
  by (auto simp: tool_result_post_init_def bindE_eq_Inr sec_require_text_def required_text_PStr
      split: option.splits if_splits)

lemma failure_result_answers:
  "failure_result request f started finished = Inr r \<Longrightarrow> answers_call request r \<and> to_status r = fl_status f"
  by (auto simp: failure_result_def bindE_eq_Inr result_for_def answers_call_def dest!: post_init_call_id)

lemma failS_answers: "yields (failS env request f started) (\<lambda>r. answers_call request r \<and> to_status r = fl_status f)"
  unfolding failS_def by (intro yields_then yields_pure) (rule failure_result_answers)

lemma settle_yields: "yields (settle env k state errors result) (\<lambda>r. r = result)"
  unfolding settle_def by (intro yields_then yields_pure) simp

lemma refuse_answers:
  "yields (refuse env k state request f started) (\<lambda>r. answers_call request r \<and> to_status r = fl_status f)"
  unfolding refuse_def
  by (rule yields_bind [OF failS_answers]) (auto simp: yields_def dest: yieldsD [OF settle_yields])

lemma approval_result_answers: "yields (approval_result env request c started) (answers_call request)"
  unfolding approval_result_def
  by (intro yields_then yields_pure)
     (auto simp: bindE_eq_Inr result_for_def answers_call_def dest!: post_init_call_id)

lemma settle_failure_answers: "yields (settle_failure env p report state f) (answers_call (pc_request p))"
  unfolding settle_failure_def
  by (rule yields_bind [where P = "answers_call (pc_request p)"])
     (auto intro!: yields_pure simp: yields_def dest: failure_result_answers yieldsD [OF settle_yields])

lemma success_result_answers:
  "success_result request registration d content effects started finished = Inr r \<Longrightarrow> answers_call request r"
  by (auto simp: success_result_def bindE_eq_Inr result_for_def answers_call_def dest!: post_init_call_id)

lemma finish_call_answers: "yields (finish_call env p report) (answers_call (pc_request p))"
proof -
  have "yields (suspend_call env p report i) (answers_call (pc_request p))" for i
    unfolding suspend_call_def
    by (auto intro!: settle_failure_answers yields_then yields_pure
        simp: bindE_eq_Inr result_for_def answers_call_def dest!: post_init_call_id)
  moreover have "yields (return_value env p report v) (answers_call (pc_request p))" for v
  proof -
    have "yields (bindS (liftS (success_result (pc_request p) (pc_registration p) d content effects started finished))
        (settle env k state errors)) (answers_call (pc_request p))" for d content effects started finished k state errors
      by (rule yields_bind [where P = "answers_call (pc_request p)"])
         (auto intro!: yields_pure simp: yields_def dest: success_result_answers yieldsD [OF settle_yields])
    then have "yields (case encode_output (pc_registration p) n m v of
        Inl text \<Rightarrow> settle_failure env p report Failed (f text)
      | Inr (d, content) \<Rightarrow>
          bindS (liftS (success_result (pc_request p) (pc_registration p) d content (rr_effects report)
                   (pc_started_ms p) (int (rr_finished_ms report))))
            (settle env (pc_attempt_id p) Succeeded (rr_cleanup_errors report))) (answers_call (pc_request p))"
      for n m f
      by (auto intro: settle_failure_answers split: sum.split)
    then show ?thesis
      unfolding return_value_def Let_def by (simp add: settle_failure_answers yields_then)
  qed
  ultimately show ?thesis
    unfolding finish_call_def by (auto intro: settle_failure_answers split: call_end.split)
qed

lemma run_handler_answers: "yields (run_handler env p) (answers_call (pc_request p))"
  unfolding run_handler_def Let_def by (auto intro!: yields_then finish_call_answers)

section \<open>Executing\<close>

lemma interrupt_tail_answers:
  "yields (interrupt_tail env barrier ps) (list_all2 (\<lambda>p r. answers_call (pc_request p) r \<and> to_status r = TInterrupted) ps)"
  unfolding interrupt_tail_def
  by (rule yields_map) (use refuse_answers in \<open>force simp: yields_def interruption_def\<close>)

lemma execute_items_answers: "yields (execute_items env ps) (list_all2 (\<lambda>p. answers_call (pc_request p)) ps)"
proof (induction env ps rule: execute_items.induct)
  case (1 env)
  then show ?case unfolding execute_items.simps by (intro yields_pure) simp
next
  case (2 env p ps)
  let ?ok = "list_all2 (\<lambda>p. answers_call (pc_request p))"
  define group where "group = (if runs_parallel p then p # takeWhile runs_parallel ps else [p])"
  define rest where "rest = (if runs_parallel p then dropWhile runs_parallel ps else ps)"
  have split: "p # ps = group @ rest" by (simp add: group_def rest_def)
  have run: "yields (gatherS (run_handler env) group) (?ok group)"
    by (rule yields_gather) (rule run_handler_answers)
  have cut: "yields (interrupt_tail env b rest) (?ok rest)" for b
    by (rule yields_mono [OF interrupt_tail_answers]) (auto elim: list.rel_mono_strong)
  have join: "yields (returnS (rs @ tail)) (?ok (p # ps))" if "?ok group rs" "?ok rest tail" for rs tail
    unfolding split by (rule yields_pure) (rule list_all2_appendI [OF that])
  show ?case
    unfolding execute_items.simps Let_def group_def [symmetric] rest_def [symmetric]
  proof (rule yields_bind [OF run])
    fix rs
    assume rs: "?ok group rs"
    show "yields (case List.find is_barrier rs of
          Some b \<Rightarrow> bindS (interrupt_tail env (to_tool_call_id b) rest) (\<lambda>tail. returnS (rs @ tail))
        | None \<Rightarrow> bindS (execute_items env rest) (\<lambda>tail. returnS (rs @ tail))) (?ok (p # ps))"
    proof (cases "List.find is_barrier rs")
      case None
      have "yields (bindS (execute_items env rest) (\<lambda>tail. returnS (rs @ tail))) (?ok (p # ps))"
        by (rule yields_bind [OF 2 [OF group_def rest_def None]]) (rule join [OF rs])
      then show ?thesis using None by simp
    next
      case (Some b)
      have "yields (bindS (interrupt_tail env (to_tool_call_id b) rest) (\<lambda>tail. returnS (rs @ tail)))
          (?ok (p # ps))"
        by (rule yields_bind [OF cut]) (rule join [OF rs])
      then show ?thesis using Some by simp
    qed
  qed
qed

section \<open>Preparing\<close>

text \<open>A call that is refused or suspended is answered, and one that is admitted is the call that
  was asked for.\<close>

definition outcome_for ::
  "tool_execution_request \<Rightarrow> tool_result + ('i, 'o) prepared_call \<Rightarrow> bool" where
  "outcome_for request outcome \<longleftrightarrow>
     (case outcome of Inl r \<Rightarrow> answers_call request r | Inr p \<Rightarrow> pc_request p = request)"

lemma refused_outcome: "yields m (answers_call request) \<Longrightarrow> yields (refused m) (outcome_for request)"
  unfolding refused_def by (erule yields_bind) (simp add: yields_pure outcome_for_def)

lemma refuse_outcome: "yields (refused (refuse env k state request f started)) (outcome_for request)"
  by (rule refused_outcome, rule yields_mono [OF refuse_answers]) simp

lemma admitted_outcome: "pc_request p = request \<Longrightarrow> yields (admitted m p) (outcome_for request)"
  unfolding admitted_def by (intro yields_then yields_pure) (simp add: outcome_for_def)

lemma authorize_call_outcome: "yields (authorize_call env p) (outcome_for (pc_request p))"
  unfolding authorize_call_def Let_def
  by (auto intro!: yields_then refuse_outcome admitted_outcome refused_outcome approval_result_answers
      split: option.split)

lemma resolve_call_outcome:
  "yields (resolve_call env request registration decoded k started) (outcome_for request)"
  unfolding resolve_call_def
  using authorize_call_outcome [of env "\<lparr>pc_request = request, pc_registration = registration,
    pc_resolution = resolution, pc_attempt_id = k, pc_started_ms = started\<rparr>" for resolution]
  by (auto intro!: yields_then refuse_outcome split: sum.split)

lemma validate_call_outcome: "yields (validate_call env request k started) (outcome_for request)"
proof -
  have "yields (decode_call env request registration k started) (outcome_for request)" for registration
    unfolding decode_call_def
    by (auto intro!: yields_then refuse_outcome resolve_call_outcome split: sum.split)
  then show ?thesis
    unfolding validate_call_def
    by (auto intro!: yields_then refuse_outcome yields_pure split: option.split sum.split exn.split)
qed

lemma prepare_call_outcome: "yields (prepare_call env request) (outcome_for request)"
proof -
  have "yields (failS env request f started) (answers_call request)" for f started
    by (rule yields_mono [OF failS_answers]) simp
  then show ?thesis
    unfolding prepare_call_def Let_def
    by (auto intro!: yields_then refused_outcome validate_call_outcome split: sum.split)
qed

lemma interrupt_unstarted_answers:
  "yields (interrupt_unstarted env barrier request) (answers_call request)"
proof -
  have f: "yields (failS env request f started) (answers_call request)" for f started
    by (rule yields_mono [OF failS_answers]) simp
  show ?thesis
    unfolding interrupt_unstarted_def
    by (rule yields_then, rule yields_bind [OF f])
       (auto intro!: yields_then yields_pure f split: sum.split)
qed

lemma prepare_items_outcome:
  "yields (prepare_items env ps requests)
     (\<lambda>outcome. case outcome of
        Inl results \<Rightarrow> list_all2 answers_call (map pc_request ps @ requests) results
      | Inr qs \<Rightarrow> map pc_request qs = map pc_request ps @ requests)"
proof (induction env ps requests rule: prepare_items.induct)
  case (1 env ps)
  then show ?case unfolding prepare_items.simps by (rule yields_pure) simp
next
  case (2 env ps request rest)
  let ?ok = "\<lambda>outcome. case outcome of
        Inl results \<Rightarrow> list_all2 answers_call (map pc_request ps @ request # rest) results
      | Inr qs \<Rightarrow> map pc_request qs = map pc_request ps @ request # rest"
  have tail: "yields (interrupt_tail env b ps) (list_all2 answers_call (map pc_request ps))" for b
    by (rule yields_mono [OF interrupt_tail_answers]) (auto simp: list.rel_map elim: list.rel_mono_strong)
  have rest: "yields (mapS (interrupt_unstarted env b) rest) (list_all2 answers_call rest)" for b
    by (rule yields_map) (rule interrupt_unstarted_answers)
  have stop: "yields (bindS (interrupt_tail env b ps) (\<lambda>before.
         bindS (mapS (interrupt_unstarted env b) rest) (\<lambda>after. returnS (Inl (before @ [result] @ after))))) ?ok"
    if "answers_call request result" for b result
    by (rule yields_bind [OF tail], rule yields_bind [OF rest], rule yields_pure)
       (simp add: that list_all2_appendI)
  show ?case
    unfolding prepare_items.simps
  proof (rule yields_bind [OF prepare_call_outcome])
    fix outcome :: "tool_result + ('a, 'b) prepared_call"
    assume ok: "outcome_for request outcome"
    show "yields (case outcome of
       Inl result \<Rightarrow>
         bindS (interrupt_tail env (to_tool_call_id result) ps) (\<lambda>before.
         bindS (mapS (interrupt_unstarted env (to_tool_call_id result)) rest) (\<lambda>after.
         returnS (Inl (before @ [result] @ after))))
     | Inr p \<Rightarrow> prepare_items env (ps @ [p]) rest) ?ok"
    proof (cases outcome)
      case (Inl result)
      then show ?thesis using stop ok by (simp add: outcome_for_def)
    next
      case (Inr p)
      have "yields (prepare_items env (ps @ [p]) rest) ?ok"
        by (rule yields_mono [OF 2]) (use ok Inr in \<open>auto simp: outcome_for_def split: sum.splits\<close>)
      then show ?thesis using Inr by simp
    qed
  qed
qed

text \<open>With canonical ids the results are found again under the ids of the requests.\<close>

lemma answers_in_order_ids:
  assumes "answers_in_order requests results = Inr rs"
    and "list_all2 answers_call requests results"
    and "\<forall>request \<in> set requests. canon_text py_strip (ter_tool_call_id request)"
  shows "map to_tool_call_id rs = map ter_tool_call_id requests \<and> set rs \<subseteq> set results"
proof -
  let ?by = "map (\<lambda>r. (to_tool_call_id r, r)) results"
  have found: "to_tool_call_id r = k \<and> r \<in> set results" if "map_of (dict_of ?by) k = Some r" for k r
    using that by (auto simp: map_of_dict_of dest: map_of_SomeD)
  have "list_all2 (\<lambda>request r. (case map_of (dict_of ?by) (ter_tool_call_id request) of
      Some r \<Rightarrow> Inr r | None \<Rightarrow> Inl (KeyError (ter_tool_call_id request))) = Inr r) requests rs"
    using assms(1) by (simp add: answers_in_order_def Let_def traverse_eq_Inr)
  then have "list_all2 (\<lambda>request r. to_tool_call_id r = ter_tool_call_id request \<and> r \<in> set results) requests rs"
    by (rule list.rel_mono_strong) (auto dest!: found split: option.splits)
  then show ?thesis by (induction rule: list_all2_induct) auto
qed

section \<open>Whole batches\<close>

text \<open>The handle of a batch is not changed by stripping it.\<close>

lemma batch_id_canon:
  assumes "canon_text py_strip run_id"
  shows "canon_text py_strip (run_id @ '':batch:'' @ str_nat n)"
proof -
  have "py_strip run_id = run_id" "run_id \<noteq> []" using assms by (auto simp: canon_text_def)
  then have "stripped run_id" using stripped_py_strip by metis
  moreover have "\<not> py_space (last (str_nat n))"
    using str_nat_digits [OF last_in_set [OF str_nat_not_Nil], of n] by (auto simp: py_space_def)
  ultimately have "stripped (run_id @ '':batch:'' @ str_nat n)"
    using \<open>run_id \<noteq> []\<close> by (auto simp: stripped_def hd_append)
  then show ?thesis using \<open>run_id \<noteq> []\<close> by (simp add: canon_text_def py_strip_fix)
qed

lemma store_batch_run:
  assumes "store_batch requests ps s = (x, t)"
  obtains batch_id where "x = Inr batch_id" "map_of (rt_batches t) batch_id = Some ps"
    "batch_id = ter_run_id (hd requests) @ '':batch:'' @ str_nat (rt_batch_sequence s + 1)"
  using assms that by (auto simp: store_batch_def Let_def update_conv')

text \<open>A prepared batch is either answered, every request in order, or waits under its handle.\<close>

lemma prepare_batch_outcome:
  assumes "prepare_batch env requests s = (Inr preparation, t)"
    and "\<forall>request \<in> set requests. wf_execution_request request"
  shows "bp_results preparation \<noteq> [] \<and> bp_batch_id preparation = None \<and>
      map to_tool_call_id (bp_results preparation) = map ter_tool_call_id requests \<or>
    bp_results preparation = [] \<and>
      (\<exists>batch_id ps. bp_batch_id preparation = Some batch_id \<and> py_strip batch_id = batch_id \<and> batch_id \<noteq> [] \<and>
         map_of (rt_batches t) batch_id = Some ps \<and> map pc_request ps = requests)"
proof -
  have canon: "\<forall>request \<in> set requests. canon_text py_strip (ter_tool_call_id request)"
    "\<forall>request \<in> set requests. canon_text py_strip (ter_run_id request)"
    using assms(2) by (auto simp: wf_execution_request_def)
  have nonempty: "requests \<noteq> []" using assms(1) by (auto simp: prepare_batch_def)
  obtain outcome u where items: "prepare_items env [] requests s = (Inr outcome, u)"
    and rest: "(case outcome of
       Inl results \<Rightarrow>
         liftS (bindE (answers_in_order requests results) (\<lambda>rs.
           tool_batch_preparation_post_init \<lparr>bp_batch_id = None, bp_results = rs\<rparr>))
     | Inr ps \<Rightarrow> admit_batch env requests ps) u = (Inr preparation, t)"
    using assms(1) nonempty by (auto simp: prepare_batch_def bindS_Inr)
  note ok = yieldsD [OF prepare_items_outcome items]
  show ?thesis
  proof (cases outcome)
    case (Inl results)
    then obtain rs where "answers_in_order requests results = Inr rs"
      and post: "tool_batch_preparation_post_init \<lparr>bp_batch_id = None, bp_results = rs\<rparr> = Inr preparation"
      using rest by (auto simp: bindE_eq_Inr)
    with answers_in_order_ids [of requests results rs] ok Inl canon(1)
    have "map to_tool_call_id rs = map ter_tool_call_id requests" by simp
    moreover from this have "rs \<noteq> []" using nonempty by auto
    ultimately show ?thesis
      using post by (auto simp: tool_batch_preparation_post_init_def sec_optional_text_def)
  next
    case (Inr ps)
    then have ps: "map pc_request ps = requests" using ok by simp
    show ?thesis
    proof (cases "READ_BATCH_MAX_CHARS < requested_read_chars env ps")
      case True
      then obtain rs v where refused: "mapS (\<lambda>p. refuse env (pc_attempt_id p) Failed (pc_request p)
            (over_budget (requested_read_chars env ps)) (pc_started_ms p)) ps u = (Inr rs, v)"
        and post: "tool_batch_preparation_post_init \<lparr>bp_batch_id = None, bp_results = rs\<rparr> = Inr preparation"
        using rest Inr by (auto simp: admit_batch_def Let_def bindS_Inr)
      have "yields (mapS (\<lambda>p. refuse env (pc_attempt_id p) Failed (pc_request p)
            (over_budget (requested_read_chars env ps)) (pc_started_ms p)) ps)
          (list_all2 (\<lambda>p. answers_call (pc_request p)) ps)"
        by (rule yields_map, rule yields_mono [OF refuse_answers]) simp
      from yieldsD [OF this refused] have "list_all2 answers_call requests rs"
        by (simp add: ps [symmetric] list.rel_map)
      then have "map to_tool_call_id rs = map ter_tool_call_id requests"
        using canon(1) by (induction rule: list_all2_induct) (auto simp: answers_call_def canon_text_def)
      moreover from this have "rs \<noteq> []" using nonempty by auto
      ultimately show ?thesis
        using post by (auto simp: tool_batch_preparation_post_init_def sec_optional_text_def)
    next
      case False
      then obtain batch_id where store: "store_batch requests ps u = (Inr batch_id, t)"
        and post: "tool_batch_preparation_post_init \<lparr>bp_batch_id = Some batch_id, bp_results = []\<rparr> = Inr preparation"
        using rest Inr by (auto simp: admit_batch_def Let_def bindS_Inr)
      have c: "canon_text py_strip batch_id" and found: "map_of (rt_batches t) batch_id = Some ps"
      proof -
        have "canon_text py_strip (ter_run_id (hd requests))" using canon(2) nonempty by simp
        with store_batch_run [OF store] show "canon_text py_strip batch_id" "map_of (rt_batches t) batch_id = Some ps"
          by (metis batch_id_canon sum.inject(2))+
      qed
      then have "preparation = \<lparr>bp_batch_id = Some batch_id, bp_results = []\<rparr>"
        using post by (auto simp: tool_batch_preparation_post_init_def sec_optional_text_def
            optional_text_fix split: if_splits)
      then show ?thesis using c found ps by (auto simp: canon_text_def)
    qed
  qed
qed

lemma execute_prepared_answers:
  assumes "execute_prepared env batch_id s = (Inr rs, t)" and "py_strip batch_id = batch_id"
    and "map_of (rt_batches s) batch_id = Some ps"
    and "\<forall>p \<in> set ps. canon_text py_strip (ter_tool_call_id (pc_request p))"
  shows "map to_tool_call_id rs = map (ter_tool_call_id \<circ> pc_request) ps"
proof -
  have "\<exists>u v. execute_items env ps u = (Inr rs, v)"
    using assms(1-3) by (auto simp: execute_prepared_def Let_def bindS_Inr take_batch_def split: if_splits)
  then obtain u v where "execute_items env ps u = (Inr rs, v)" by blast
  from yieldsD [OF execute_items_answers this] assms(4) show ?thesis
    by (induction rule: list_all2_induct) (auto simp: answers_call_def canon_text_def)
qed

lemma execute_batch_answers:
  assumes "execute_batch env requests s = (Inr rs, t)"
    and "\<forall>request \<in> set requests. wf_execution_request request"
  shows "map to_tool_call_id rs = map ter_tool_call_id requests"
proof -
  obtain preparation u where prepare: "prepare_batch env requests s = (Inr preparation, u)"
    and rest: "(if bp_results preparation \<noteq> [] then returnS (bp_results preparation)
     else execute_prepared env (case bp_batch_id preparation of None \<Rightarrow> [] | Some b \<Rightarrow> b)) u = (Inr rs, t)"
    using assms(1) by (auto simp: execute_batch_def bindS_Inr)
  from prepare_batch_outcome [OF prepare assms(2)] show ?thesis
  proof
    assume "bp_results preparation = [] \<and>
      (\<exists>batch_id ps. bp_batch_id preparation = Some batch_id \<and> py_strip batch_id = batch_id \<and> batch_id \<noteq> [] \<and>
         map_of (rt_batches u) batch_id = Some ps \<and> map pc_request ps = requests)"
    then obtain batch_id ps where b: "bp_results preparation = []" "bp_batch_id preparation = Some batch_id"
      "py_strip batch_id = batch_id" "map_of (rt_batches u) batch_id = Some ps" "map pc_request ps = requests"
      by blast
    then have "execute_prepared env batch_id u = (Inr rs, t)" using rest by simp
    moreover have "\<forall>p \<in> set ps. canon_text py_strip (ter_tool_call_id (pc_request p))"
      using assms(2) by (auto simp: b(5) [symmetric] wf_execution_request_def)
    ultimately have "map to_tool_call_id rs = map (ter_tool_call_id \<circ> pc_request) ps"
      using execute_prepared_answers b(3,4) by blast
    then show ?thesis by (simp add: b(5) [symmetric])
  qed (use rest in auto)
qed

end
