(* ===== verification/Tools_Approvals.thy ===== *)
theory Tools_Approvals
  imports Tools_Batches
begin

text \<open>
  When a handler starts: admission and refusal start none, running a call starts its own at
  most once, and resuming an approval starts one only for a response that fits the challenge
  and while the access resolves to the same fingerprint.
\<close>

section \<open>Operations that start no handler\<close>

lemma same_runs_eq: "keeps same_runs m \<Longrightarrow> m s = (x, t) \<Longrightarrow> rt_runs t = rt_runs s"
  by (auto simp: same_runs_def dest: keepsD)

lemma settle_failure_runs: "keeps same_runs (settle_failure env p report state f)"
  unfolding settle_failure_def by (intro same_runs.keeps_bind same_runs.keeps_pure settle_runs)

lemma finish_call_runs: "keeps same_runs (finish_call env p report)"
proof -
  have "keeps same_runs (suspend_call env p report i)" for i
    unfolding suspend_call_def
    by (auto intro!: settle_failure_runs same_runs.keeps_bind transition_attempt_runs same_runs.keeps_pure)
  moreover have "keeps same_runs (return_value env p report v)" for v
    unfolding return_value_def Let_def
    by (auto intro!: settle_failure_runs same_runs.keeps_bind clock_runs same_runs.keeps_pure settle_runs
        split: sum.split)
  ultimately show ?thesis
    unfolding finish_call_def by (auto intro: settle_failure_runs split: call_end.split)
qed

lemma refused_runs: "keeps same_runs m \<Longrightarrow> keeps same_runs (refused m)"
  unfolding refused_def by (intro same_runs.keeps_bind same_runs.keeps_pure)

lemma admitted_runs: "keeps same_runs m \<Longrightarrow> keeps same_runs (admitted m p)"
  unfolding admitted_def by (intro same_runs.keeps_bind same_runs.keeps_pure)

lemma authorize_call_runs: "keeps same_runs (authorize_call env p)"
  unfolding authorize_call_def Let_def
  by (auto intro!: same_runs.keeps_bind same_runs.keeps_pure refused_runs admitted_runs refuse_runs
      clock_runs transition_attempt_runs split: option.split)

lemma validate_call_runs: "keeps same_runs (validate_call env request k started)"
proof -
  have "keeps same_runs (resolve_call env request registration decoded k started)" for registration decoded
    unfolding resolve_call_def
    by (auto intro!: same_runs.keeps_bind clock_runs transition_attempt_runs refused_runs refuse_runs
        authorize_call_runs split: sum.split)
  then have "keeps same_runs (decode_call env request registration k started)" for registration
    unfolding decode_call_def
    by (auto intro!: same_runs.keeps_bind clock_runs refused_runs refuse_runs split: sum.split)
  then show ?thesis
    unfolding validate_call_def
    by (auto intro!: same_runs.keeps_bind same_runs.keeps_pure transition_attempt_runs refused_runs refuse_runs
        split: option.split sum.split exn.split)
qed

lemma prepare_call_runs: "keeps same_runs (prepare_call env request)"
  unfolding prepare_call_def Let_def
  by (auto intro!: same_runs.keeps_bind clock_runs same_runs.keeps_attempt create_attempt_runs
      refused_runs validate_call_runs split: sum.split)

lemma interrupt_tail_runs: "keeps same_runs (interrupt_tail env barrier ps)"
  unfolding interrupt_tail_def by (intro same_runs.keeps_map refuse_runs)

lemma interrupt_unstarted_runs: "keeps same_runs (interrupt_unstarted env barrier request)"
  unfolding interrupt_unstarted_def
  by (auto intro!: same_runs.keeps_bind clock_runs same_runs.keeps_attempt create_attempt_runs
      same_runs.keeps_pure split: sum.split)

lemma prepare_items_runs: "keeps same_runs (prepare_items env ps requests)"
proof (induction env ps requests rule: prepare_items.induct)
  case (1 env ps)
  then show ?case unfolding prepare_items.simps by (rule same_runs.keeps_pure)
next
  case (2 env ps request rest)
  then show ?case
    unfolding prepare_items.simps
    by (intro same_runs.keeps_bind prepare_call_runs)
       (auto intro!: same_runs.keeps_bind interrupt_tail_runs same_runs.keeps_map interrupt_unstarted_runs
          same_runs.keeps_pure split: sum.split)
qed

lemma prepare_batch_runs: "keeps same_runs (prepare_batch env requests)"
proof -
  have "keeps same_runs (store_batch requests ps)" for ps
    by (auto simp: keeps_def same_runs_def store_batch_def Let_def)
  then have "keeps same_runs (admit_batch env requests ps)" for ps
    unfolding admit_batch_def Let_def
    by (auto intro!: same_runs.keeps_bind same_runs.keeps_map refuse_runs same_runs.keeps_pure)
  then show ?thesis
    unfolding prepare_batch_def
    by (auto intro!: same_runs.keeps_bind prepare_items_runs same_runs.keeps_pure split: sum.split)
qed

section \<open>Starting a handler\<close>

lemma run_handler_starts:
  assumes "run_handler env p s = (x, t)"
  shows "rt_runs t = rt_runs s \<or> (\<exists>r. rt_runs t = rt_runs s @ [(p, r)])"
proof -
  obtain n u where u: "clock_tick s = (Inr n, u)" "rt_runs u = rt_runs s"
    by (auto simp: clock_tick_def)
  let ?report = "run_report_of p n"
  show ?thesis
  proof (cases "ran (rr_end ?report)")
    case False
    then have "finish_call env p ?report u = (x, t)"
      using assms u(1) by (simp add: run_handler_def Let_def)
    then have "rt_runs t = rt_runs u" by (rule same_runs_eq [OF finish_call_runs])
    then show ?thesis using u(2) by simp
  next
    case True
    obtain y v where start: "start_handler env p u = (y, v)" by fastforce
    then have "finish_call env p (case y of Inl e \<Rightarrow> not_started e ?report | Inr _ \<Rightarrow> ?report) v = (x, t)"
      using assms u(1) True by (simp add: run_handler_def Let_def attemptS_def)
    then have "rt_runs t = rt_runs v" by (rule same_runs_eq [OF finish_call_runs])
    moreover have "rt_runs v = rt_runs u \<or> (\<exists>r. rt_runs v = rt_runs u @ [(p, r)])"
    proof -
      obtain z w where w: "transition_attempt env (pc_attempt_id p) Running id u = (z, w)" by fastforce
      then have "rt_runs w = rt_runs u" by (rule same_runs_eq [OF transition_attempt_runs])
      then show ?thesis
        using start w by (cases z) (auto simp: start_handler_def note_run_def split: option.splits)
    qed
    ultimately show ?thesis using u(2) by simp
  qed
qed

text \<open>An operation that starts at most one handler, and only of a call that satisfies \<open>P\<close>.\<close>

definition starts :: "(('i, 'o) tool_runtime, 'a) stateful \<Rightarrow> (('i, 'o) prepared_call \<Rightarrow> bool) \<Rightarrow> bool" where
  "starts m P \<longleftrightarrow> (\<forall>s x t. m s = (x, t) \<longrightarrow>
     rt_runs t = rt_runs s \<or> (\<exists>p r. P p \<and> rt_runs t = rt_runs s @ [(p, r)]))"

lemma starts_none: "keeps same_runs m \<Longrightarrow> starts m P"
  by (auto simp: starts_def same_runs_def dest: keepsD)

lemma starts_handler: "P p \<Longrightarrow> starts (run_handler env p) P"
  using run_handler_starts by (fastforce simp: starts_def)

lemma starts_bind:
  assumes "keeps same_runs m" and "\<And>s x t. m s = (Inr x, t) \<Longrightarrow> starts (f x) P"
  shows "starts (bindS m f) P"
  unfolding starts_def
proof (intro allI impI)
  fix s x t
  assume "bindS m f s = (x, t)"
  then consider e where "m s = (Inl e, t)" | y u where "m s = (Inr y, u)" "f y u = (x, t)"
    by (auto simp: bindS_eq)
  then show "rt_runs t = rt_runs s \<or> (\<exists>p r. P p \<and> rt_runs t = rt_runs s @ [(p, r)])"
  proof cases
    case 1
    then show ?thesis using same_runs_eq [OF assms(1)] by blast
  next
    case 2
    have "rt_runs u = rt_runs s" by (rule same_runs_eq [OF assms(1) 2(1)])
    then show ?thesis using assms(2) [OF 2(1), unfolded starts_def] 2(2) by metis
  qed
qed

definition resumes_exactly :: "'i tool_env \<Rightarrow> attempt_record \<Rightarrow> approval_challenge \<Rightarrow> ('i, 'o) prepared_call \<Rightarrow> bool" where
  "resumes_exactly env r c p \<longleftrightarrow>
     pc_attempt_id p = at_attempt_id r \<and> pc_request p = at_request r \<and>
     approval_fingerprint (ev_digest env) (pc_request p) (re_access (pc_resolution p)) = ac_request_fingerprint c"

lemma run_approved_starts:
  fixes env :: "'a tool_env"
  shows "starts (run_approved env r c response started :: ('a, 'b, tool_result) runtime_op) (resumes_exactly env r c)"
proof -
  have "starts (case valid of
       Inl text \<Rightarrow>
         refuse env (at_attempt_id r) Denied (at_request r)
           (denied (failure_of ''tool.approval.revalidation_failed'' KPermission text)) started
     | Inr (registration, resolution) \<Rightarrow>
         if approval_fingerprint (ev_digest env) (at_request r) (re_access resolution)
            \<noteq> ac_request_fingerprint c
         then refuse env (at_attempt_id r) Denied (at_request r)
           (denied (failure_of ''tool.approval.fingerprint_mismatch'' KPermission
              ''Resolved approval fingerprint changed'')) started
         else
         bindS (now_ms env) (\<lambda>now.
         bindS (random_id env) (\<lambda>uuid.
         bindS (liftS (issue_approval_grant uuid now c response)) (\<lambda>g.
         bindS (transition_attempt env (at_attempt_id r) Queued
                  (\<lambda>r. r\<lparr>at_grant := Some g, at_grant_consumed := (ap_scope response = ScopeOnce)\<rparr>)) (\<lambda>_.
         run_handler env
           \<lparr>pc_request = at_request r, pc_registration = registration, pc_resolution = resolution,
            pc_attempt_id = at_attempt_id r, pc_started_ms = started\<rparr>))))) (resumes_exactly env r c)"
    for valid :: "string + ('a, 'b) tool_registration \<times> 'a access_resolution"
    by (auto intro!: starts_none [OF refuse_runs] starts_bind clock_runs same_runs.keeps_pure
        transition_attempt_runs starts_handler simp: resumes_exactly_def split: sum.split prod.split)
  then show ?thesis unfolding run_approved_def Let_def by (intro starts_bind clock_runs)
qed

lemma settle_approval_runs: "keeps same_runs (settle_approval env r f started)"
  unfolding settle_approval_def
  by (intro same_runs.keeps_bind clock_runs same_runs.keeps_catch same_runs.keeps_pure set_attempt_runs)
     (rule if_conflict_keeps [OF clock_runs(8)])

lemma reopen_starts:
  "starts (bindS (attemptS (bindS (liftS (transition r ResolvingAccess id))
              (set_attempt env (at_attempt_id r) AwaitingApproval))) (\<lambda>reopened.
      case reopened of
        Inl (ToolStateConflictError _) \<Rightarrow> approval_consumed env (at_request r) started
      | Inl e \<Rightarrow> raiseS e
      | Inr _ \<Rightarrow> run_approved env r c response started)) (resumes_exactly env r c)"
  by (intro starts_bind same_runs.keeps_attempt same_runs.keeps_bind same_runs.keeps_pure set_attempt_runs)
     (auto intro!: starts_none [OF clock_runs(8)] starts_none [OF same_runs.keeps_pure(2)]
        run_approved_starts split: sum.split exn.split)

text \<open>What a response must be like for a handler to start.\<close>

lemma resume_approval_starts:
  assumes "resume_approval env response s = (x, t)" and "rt_runs t \<noteq> rt_runs s"
  shows "\<exists>r c p u. find_by_approval_id (ss_memory (rt_store s)) (ap_approval_id response) = Some r \<and>
    at_state r = AwaitingApproval \<and> \<not> at_grant_consumed r \<and> at_challenge r = Some c \<and>
    response_problem c response (int (ev_now env (rt_clock s + 1))) = None \<and>
    resumes_exactly env r c p \<and> rt_runs t = rt_runs s @ [(p, u)]"
proof (cases "find_by_approval_id (ss_memory (rt_store s)) (ap_approval_id response)")
  case None
  then show ?thesis using assms by (auto simp: resume_approval_def)
next
  case (Some r)
  note now = now_ms_def clock_tick_def bindS_def
  let ?u = "s\<lparr>rt_clock := rt_clock s + 1\<rparr>"
  have run: "(if at_state r \<noteq> AwaitingApproval \<or> at_grant_consumed r
      then approval_consumed env (at_request r) (int (ev_now env (rt_clock s)))
      else (case at_challenge r of
          None \<Rightarrow> settle_approval env r
              (failure_of ''tool.approval.fingerprint_mismatch'' KPermission ''Approval fingerprint mismatch'')
              (int (ev_now env (rt_clock s)))
        | Some c \<Rightarrow>
            bindS (now_ms env) (\<lambda>now.
            case response_problem c response now of
              Some f \<Rightarrow> settle_approval env r f (int (ev_now env (rt_clock s)))
            | None \<Rightarrow>
                bindS (attemptS (bindS (liftS (transition r ResolvingAccess id))
                         (set_attempt env (at_attempt_id r) AwaitingApproval))) (\<lambda>reopened.
                case reopened of
                  Inl (ToolStateConflictError _) \<Rightarrow> approval_consumed env (at_request r) (int (ev_now env (rt_clock s)))
                | Inl e \<Rightarrow> raiseS e
                | Inr _ \<Rightarrow> run_approved env r c response (int (ev_now env (rt_clock s))))))) ?u = (x, t)"
    using assms(1) Some by (simp add: resume_approval_def now)
  have frame: "rt_runs ?u = rt_runs s" by simp
  have waits: "at_state r = AwaitingApproval \<and> \<not> at_grant_consumed r"
    using run assms(2) frame same_runs_eq [OF clock_runs(8), of env "at_request r" _ ?u x t]
    by (auto split: if_splits)
  obtain c where c: "at_challenge r = Some c"
    using run assms(2) frame same_runs_eq [OF settle_approval_runs, of env r _ _ ?u x t] waits
    by (cases "at_challenge r") auto
  let ?v = "?u\<lparr>rt_clock := rt_clock s + 2\<rparr>"
  have run2: "(case response_problem c response (int (ev_now env (rt_clock s + 1))) of
              Some f \<Rightarrow> settle_approval env r f (int (ev_now env (rt_clock s)))
            | None \<Rightarrow>
                bindS (attemptS (bindS (liftS (transition r ResolvingAccess id))
                         (set_attempt env (at_attempt_id r) AwaitingApproval))) (\<lambda>reopened.
                case reopened of
                  Inl (ToolStateConflictError _) \<Rightarrow> approval_consumed env (at_request r) (int (ev_now env (rt_clock s)))
                | Inl e \<Rightarrow> raiseS e
                | Inr _ \<Rightarrow> run_approved env r c response (int (ev_now env (rt_clock s))))) ?v = (x, t)"
    using run waits c by (simp add: now_ms_def clock_tick_def bindS_def [of "\<lambda>s. (Inr (f s), g s)" for f g])
  have frame2: "rt_runs ?v = rt_runs s" by simp
  have none: "response_problem c response (int (ev_now env (rt_clock s + 1))) = None"
    using run2 assms(2) frame2 same_runs_eq [OF settle_approval_runs, of env r _ _ ?v x t]
    by (cases "response_problem c response (int (ev_now env (rt_clock s + 1)))") auto
  with run2 reopen_starts [of r env "int (ev_now env (rt_clock s))" c response] frame2 assms(2) obtain p u where
    "resumes_exactly env r c p" "rt_runs t = rt_runs s @ [(p, u)]"
    by (fastforce simp: starts_def)
  then show ?thesis using Some waits c none by blast
qed

end
