(* ===== verification/Tools_Checkpoint.thy ===== *)
theory Tools_Checkpoint
  imports Tools_Lifecycle "HOL-Library.Multiset"
begin

text \<open>
  The checkpoint of a tool runtime, taken and restored: the open attempts and the prepared
  resumes come back, and the next resume id is a new one.
\<close>

section \<open>Prepared responses\<close>

fun wf_resume_response :: "resume_response \<Rightarrow> bool" where
  "wf_resume_response (ResumeApproval r) \<longleftrightarrow>
     canon_text py_strip (ap_approval_id r) \<and> canon_text py_strip (ap_request_fingerprint r) \<and>
     py_strip (ap_reason r) = ap_reason r"
| "wf_resume_response (ResumeInteraction r) \<longleftrightarrow> wf_interaction_response r"

lemma jsonify_idem [simp]: "jsonify (jsonify v) = jsonify v"
  by (induction v rule: jsonify.induct) (auto simp: comp_def)

lemma interaction_response_fix: "wf_interaction_response r \<Longrightarrow> interaction_response_post_init r = Inr r"
  by (cases r) (simp add: interaction_response_post_init_def wf_interaction_response_def)

lemma approval_response_fix: "wf_resume_response (ResumeApproval r) \<Longrightarrow> approval_response_post_init r = Inr r"
  by (simp add: approval_response_post_init_def)

lemma interaction_response_built:
  "interaction_response_post_init r = Inr r' \<Longrightarrow> wf_resume_response (ResumeInteraction r')"
  by (auto simp: interaction_response_post_init_def wf_interaction_response_def bindE_eq_Inr comp_def
      dest: sec_require_text_canon split: if_splits)

lemma approval_response_built:
  "approval_response_post_init r = Inr r' \<Longrightarrow> wf_resume_response (ResumeApproval r')"
  by (auto simp: approval_response_post_init_def bindE_eq_Inr dest: sec_require_text_canon)

lemma decision_name_found:
  "List.find (\<lambda>d. approval_decision_name d = py_strip (approval_decision_name decision)) [Approve, DenyApproval]
     = Some decision"
  by (cases decision; simp only:; code_simp)

lemma scope_name_found:
  "List.find (\<lambda>s. approval_scope_name s = py_strip (approval_scope_name scope)) approval_scopes = Some scope"
  by (cases scope; simp only:; code_simp)

lemma approval_response_of_names:
  "approval_response_of approval_id fingerprint (approval_decision_name decision) (approval_scope_name scope) reason =
     approval_response_post_init \<lparr>ap_approval_id = approval_id, ap_request_fingerprint = fingerprint,
       ap_decision = decision, ap_scope = scope, ap_reason = reason\<rparr>"
  by (simp only: approval_response_of_def decision_name_found scope_name_found option.case)

lemma resume_decode_encode:
  assumes "wf_resume_response r"
  shows "resume_response_from_dict (resume_response_to_dict r) = Inr r"
proof (cases r)
  case (ResumeApproval a)
  then have "approval_response_post_init a = Inr a" using assms by (simp add: approval_response_fix)
  then show ?thesis
    by (cases a) (simp add: ResumeApproval resume_response_from_dict_def resume_response_to_dict_def same_keys_def
        approval_response_of_names dget_def)
next
  case (ResumeInteraction i)
  then have "interaction_response_post_init i = Inr i" using assms by (simp add: interaction_response_fix)
  then show ?thesis
    by (cases i) (simp add: ResumeInteraction resume_response_from_dict_def resume_response_to_dict_def same_keys_def dget_def)
qed

lemma resume_to_dict_json:
  "wf_resume_response r \<Longrightarrow> jsonify_dict (resume_response_to_dict r) = resume_response_to_dict r"
  by (cases r) (simp_all add: resume_response_to_dict_def jsonify_dict_def wf_interaction_response_def)

section \<open>Prepared resumes\<close>

definition resumes_ok :: "(string \<times> resume_response) list \<Rightarrow> bool" where
  "resumes_ok rs \<longleftrightarrow>
     distinct (map fst rs) \<and> (\<forall>(k, r) \<in> set rs. canon_text py_strip k \<and> wf_resume_response r)"

definition resume_entry :: "string \<times> resume_response \<Rightarrow> pyval" where
  "resume_entry = (\<lambda>(k, r). PDict [(''resume_id'', PStr k), (''response'', PDict (resume_response_to_dict r))])"

lemma resume_entries_map: "resume_entries rs = PList (map resume_entry (sort_key fst rs))"
  by (simp add: resume_entries_def resume_entry_def)

lemma restored_resumes_encoded:
  assumes "resumes_ok (acc @ rs)"
  shows "restored_resumes (map resume_entry rs) acc = Inr (acc @ rs)"
  using assms
proof (induction rs arbitrary: acc)
  case Nil
  show ?case by simp
next
  case (Cons x rs)
  obtain k r where x: "x = (k, r)" by (cases x)
  have k: "py_strip k = k" "k \<noteq> []" and r: "wf_resume_response r" and new: "map_of acc k = None"
    using Cons.prems by (auto simp: x resumes_ok_def canon_text_def map_of_eq_None_iff)
  have "restored_resumes (map resume_entry rs) (acc @ [(k, r)]) = Inr ((acc @ [(k, r)]) @ rs)"
    by (rule Cons.IH) (use Cons.prems x in simp)
  then show ?case
    by (simp add: x resume_entry_def same_keys_def dget_def k new resume_decode_encode [OF r])
qed

lemma resumes_ok_sort: "resumes_ok (sort_key fst rs) = resumes_ok rs"
proof -
  have "mset (map fst (sort_key fst rs)) = mset (map fst rs)" by (simp add: mset_map)
  then have "distinct (map fst (sort_key fst rs)) = distinct (map fst rs)"
    by (metis mset_eq_imp_distinct_iff)
  then show ?thesis by (simp add: resumes_ok_def)
qed

lemma jsonify_entries:
  assumes "resumes_ok rs"
  shows "jsonify (resume_entries rs) = resume_entries rs"
proof -
  have "jsonify (resume_entry x) = resume_entry x" if "x \<in> set rs" for x
  proof -
    obtain k r where x: "x = (k, r)" by (cases x)
    then have "wf_resume_response r" using assms that by (auto simp: resumes_ok_def)
    with x show ?thesis using resume_to_dict_json by (simp add: resume_entry_def jsonify_dict_def)
  qed
  then show ?thesis by (simp add: resume_entries_map)
qed

lemma resume_number_id [simp]: "resume_number (''resume:'' @ str_nat n) = n"
  by (simp add: resume_number_def py_startswith_def)

lemma fold_max_bounds: "m \<le> fold max ns m \<and> (\<forall>n \<in> set ns. n \<le> fold max ns (m::nat))"
proof (induction ns arbitrary: m)
  case Nil
  show ?case by simp
next
  case (Cons n ns)
  from Cons.IH [of "max n m"] show ?case by auto
qed

lemma adopted_resumes:
  assumes "rt_resumes s = []"
  obtains t where "adopt_resumes rs s = (Inr (), t)" "rt_store t = rt_store s" "rt_resumes t = rs"
    "''resume:'' @ str_nat (rt_resume_sequence t + 1) \<notin> fst ` set rs"
proof -
  let ?n = "fold max (map (\<lambda>(k, r). resume_number k) rs) (rt_resume_sequence s)"
  have "resume_number k \<le> ?n" if "(k, r) \<in> set rs" for k r
    using fold_max_bounds [of "rt_resume_sequence s" "map (\<lambda>(k, r). resume_number k) rs"] that by force
  then have "''resume:'' @ str_nat (?n + 1) \<notin> fst ` set rs"
    using resume_number_id [of "?n + 1"] by fastforce
  with that [of "s\<lparr>rt_resumes := rs, rt_resume_sequence := ?n\<rparr>"] show thesis
    using assms by (simp add: adopt_resumes_def)
qed

section \<open>The attempts and their indices\<close>

lemma created_attempts:
  "create_all rs m = Inr m' \<Longrightarrow> sr_attempts m' = sr_attempts m @ map (\<lambda>r. (at_attempt_id r, r)) rs"
proof (induction rs arbitrary: m)
  case Nil
  then show ?case by simp
next
  case (Cons r rs)
  then have new: "map_of (sr_attempts m) (at_attempt_id r) = None"
    and rest: "create_all rs (put_attempt r m) = Inr m'"
    by (auto simp: bindE_eq_Inr store_create_def store_get_def split: if_splits)
  have "sr_attempts (put_attempt r m) = sr_attempts m @ [(at_attempt_id r, r)]"
    using new by (simp add: put_attempt_attempts update_new map_of_eq_None_iff)
  with Cons.IH [OF rest] show ?case by simp
qed

lemma put_attempt_indices:
  "sr_approvals (put_attempt r m) = (case at_challenge r of None \<Rightarrow> sr_approvals m
     | Some c \<Rightarrow> (sr_approvals m)(ac_approval_id c \<mapsto> at_attempt_id r))"
  "sr_interactions (put_attempt r m) = (case at_interaction r of None \<Rightarrow> sr_interactions m
     | Some i \<Rightarrow> (sr_interactions m)(ir_interaction_id i \<mapsto> at_attempt_id r))"
  by (simp_all add: put_attempt_def index_attempt_def split: option.split)

definition waits_for_approval :: "string \<Rightarrow> attempt_record \<Rightarrow> bool" where
  "waits_for_approval k r \<longleftrightarrow> (\<exists>c. at_challenge r = Some c \<and> ac_approval_id c = k)"

definition waits_for_answer :: "string \<Rightarrow> attempt_record \<Rightarrow> bool" where
  "waits_for_answer k r \<longleftrightarrow> (\<exists>i. at_interaction r = Some i \<and> ir_interaction_id i = k)"

lemma created_indices:
  assumes "create_all rs m = Inr m'"
  shows "(\<forall>r \<in> set rs. \<not> waits_for_approval k r) \<Longrightarrow> sr_approvals m' k = sr_approvals m k"
    and "(\<forall>r \<in> set rs. \<not> waits_for_answer k r) \<Longrightarrow> sr_interactions m' k = sr_interactions m k"
    and "\<exists>r \<in> set rs. waits_for_approval k r \<Longrightarrow> \<exists>r \<in> set rs. waits_for_approval k r \<and> sr_approvals m' k = Some (at_attempt_id r)"
    and "\<exists>r \<in> set rs. waits_for_answer k r \<Longrightarrow> \<exists>r \<in> set rs. waits_for_answer k r \<and> sr_interactions m' k = Some (at_attempt_id r)"
proof -
  have "((\<forall>r \<in> set rs. \<not> waits_for_approval k r) \<longrightarrow> sr_approvals m' k = sr_approvals m k) \<and>
    ((\<forall>r \<in> set rs. \<not> waits_for_answer k r) \<longrightarrow> sr_interactions m' k = sr_interactions m k) \<and>
    ((\<exists>r \<in> set rs. waits_for_approval k r) \<longrightarrow>
       (\<exists>r \<in> set rs. waits_for_approval k r \<and> sr_approvals m' k = Some (at_attempt_id r))) \<and>
    ((\<exists>r \<in> set rs. waits_for_answer k r) \<longrightarrow>
       (\<exists>r \<in> set rs. waits_for_answer k r \<and> sr_interactions m' k = Some (at_attempt_id r)))"
    using assms
  proof (induction rs arbitrary: m)
    case Nil
    then show ?case by simp
  next
    case (Cons r rs)
    then have rest: "create_all rs (put_attempt r m) = Inr m'"
      by (auto simp: bindE_eq_Inr store_create_def split: if_splits)
    have a: "sr_approvals (put_attempt r m) k = (if waits_for_approval k r then Some (at_attempt_id r) else sr_approvals m k)"
      and i: "sr_interactions (put_attempt r m) k = (if waits_for_answer k r then Some (at_attempt_id r) else sr_interactions m k)"
      by (auto simp: put_attempt_indices waits_for_approval_def waits_for_answer_def split: option.splits)
    show ?case
      using Cons.IH [OF rest] unfolding a i
      by (cases "\<exists>x \<in> set rs. waits_for_approval k x"; cases "\<exists>x \<in> set rs. waits_for_answer k x") auto
  qed
  then show "(\<forall>r \<in> set rs. \<not> waits_for_approval k r) \<Longrightarrow> sr_approvals m' k = sr_approvals m k"
    and "(\<forall>r \<in> set rs. \<not> waits_for_answer k r) \<Longrightarrow> sr_interactions m' k = sr_interactions m k"
    and "\<exists>r \<in> set rs. waits_for_approval k r \<Longrightarrow> \<exists>r \<in> set rs. waits_for_approval k r \<and> sr_approvals m' k = Some (at_attempt_id r)"
    and "\<exists>r \<in> set rs. waits_for_answer k r \<Longrightarrow> \<exists>r \<in> set rs. waits_for_answer k r \<and> sr_interactions m' k = Some (at_attempt_id r)"
    by blast+
qed

text \<open>A suspended attempt of the snapshot is found by the id that its answer names.\<close>

lemma created_found:
  assumes "create_all rs empty_store = Inr m" and "r \<in> set rs"
    and "distinct (map at_attempt_id rs)"
  shows "waits_for_approval k r \<Longrightarrow> \<forall>x \<in> set rs. waits_for_approval k x \<longrightarrow> x = r \<Longrightarrow> find_by_approval_id m k = Some r"
    and "waits_for_answer k r \<Longrightarrow> \<forall>x \<in> set rs. waits_for_answer k x \<longrightarrow> x = r \<Longrightarrow> find_by_interaction_id m k = Some r"
proof -
  have "sr_attempts m = map (\<lambda>r. (at_attempt_id r, r)) rs"
    using created_attempts [OF assms(1)] by (simp add: empty_store_def)
  then have "store_get m (at_attempt_id r) = Some r"
    using assms(2,3) by (auto simp: store_get_def comp_def intro!: map_of_is_SomeI)
  note get = this
  show "find_by_approval_id m k = Some r"
    if "waits_for_approval k r" and only: "\<forall>x \<in> set rs. waits_for_approval k x \<longrightarrow> x = r"
  proof -
    have "sr_approvals m k = Some (at_attempt_id r)"
      using created_indices(3) [OF assms(1), of k] that(1) assms(2) only by metis
    then show ?thesis using get by (simp add: find_by_approval_id_def)
  qed
  show "find_by_interaction_id m k = Some r"
    if "waits_for_answer k r" and only: "\<forall>x \<in> set rs. waits_for_answer k x \<longrightarrow> x = r"
  proof -
    have "sr_interactions m k = Some (at_attempt_id r)"
      using created_indices(4) [OF assms(1), of k] that(1) assms(2) only by metis
    then show ?thesis using get by (simp add: find_by_interaction_id_def)
  qed
qed

section \<open>The checkpoint\<close>

text \<open>What a runtime must look like for its checkpoint to hold all of it.\<close>

definition checkpointable :: "string \<Rightarrow> ('i, 'o) tool_runtime \<Rightarrow> bool" where
  "checkpointable sid s \<longleftrightarrow>
     store_keys_ok (ss_memory (rt_store s)) \<and> ss_session (rt_store s) = Some sid \<and>
     (\<forall>(k, r) \<in> set (open_attempts (rt_store s)). storable_record r \<and> ter_session_id (at_request r) = sid) \<and>
     resumes_ok (rt_resumes s)"

definition blank :: "string \<Rightarrow> ('i, 'o) tool_runtime \<Rightarrow> bool" where
  "blank sid s \<longleftrightarrow>
     ss_session (rt_store s) = Some sid \<and> ss_memory (rt_store s) = empty_store \<and> rt_resumes s = []"

lemma open_attempts_distinct:
  assumes "checkpointable sid s"
  shows "distinct (map at_attempt_id (map snd (open_attempts (rt_store s))))"
proof -
  have keys: "distinct (map fst (sr_attempts (ss_memory (rt_store s))))"
    and ids: "\<forall>(k, r) \<in> set (sr_attempts (ss_memory (rt_store s))). at_attempt_id r = k"
    using assms by (simp_all add: checkpointable_def store_keys_ok_def)
  have "map at_attempt_id (map snd (open_attempts (rt_store s))) = map fst (open_attempts (rt_store s))"
    using ids by (auto simp: open_attempts_def)
  then show ?thesis using keys by (simp only: open_attempts_def distinct_map_filter)
qed

lemma restored_store:
  assumes "checkpointable sid s" and "blank sid fresh" and "checkpoint_state intent s = Some payload"
  obtains t where "restore_store payload fresh = (Inr (), t)" "rt_resumes t = []"
    "create_all (map snd (open_attempts (rt_store s))) empty_store = Inr (ss_memory (rt_store t))"
    "sr_attempts (ss_memory (rt_store t)) = open_attempts (rt_store s)"
proof -
  let ?d = "runtime_intent intent (rt_resumes s)"
  have "ss_checkpoint_state (if ?d = [] then None else Some ?d) sid (rt_store s) = Some payload"
    using assms(1,3) by (simp add: checkpoint_state_def checkpointable_def Let_def)
  then obtain st where st: "ss_restore payload sid (rt_store fresh) = Inr st"
    "sr_attempts (ss_memory st) = open_attempts (rt_store s)"
    using restored_attempts [of "rt_store s" sid _ payload "rt_store fresh"] assms(1,2)
    by (auto simp: checkpointable_def blank_def)
  let ?t = "fresh\<lparr>rt_store := st\<rparr>"
  have run: "restore_store payload fresh = (Inr (), ?t)"
    using assms(2) st(1) by (simp add: restore_store_def blank_def)
  have memory: "create_all (map snd (open_attempts (rt_store s))) empty_store = Inr (ss_memory st)"
    using st(1)
  proof (cases rule: ss_restore_cases)
    case 1
    then show ?thesis using assms(2) st(2) by (simp add: blank_def empty_store_def)
  next
    case (2 m rs)
    then have created: "create_all rs empty_store = Inr (ss_memory st)" using assms(2) by (simp add: blank_def)
    then have "open_attempts (rt_store s) = map (\<lambda>r. (at_attempt_id r, r)) rs"
      using created_attempts [OF created] st(2) by (simp add: empty_store_def)
    then show ?thesis using created by (simp add: comp_def)
  qed
  show thesis by (rule that [OF run]) (use assms(2) memory st(2) in \<open>simp_all add: blank_def\<close>)
qed

lemma payload_intent:
  assumes "checkpointable sid s" and "checkpoint_state intent s = Some payload"
  shows "dget payload ''intent'' = opt_val (\<lambda>d. PDict (plain_dict d))
    (if runtime_intent intent (rt_resumes s) = [] then None else Some (runtime_intent intent (rt_resumes s)))"
  using assms by (auto simp: checkpoint_state_def checkpointable_def Let_def ss_checkpoint_state_def dget_def
      opt_val_def split: if_splits)

lemma intent_resumes:
  assumes "resumes_ok rs"
  shows "set (map fst (plain_dict (runtime_intent intent rs))) \<subseteq> {''boundary_intent'', ''prepared_resumes''}"
    and "dget (plain_dict (runtime_intent intent rs)) ''prepared_resumes''
      = (if rs = [] then PNone else resume_entries rs)"
  using jsonify_entries [OF assms]
  by (auto simp: plain_dict_def plain_json_def runtime_intent_def dget_def split: option.splits list.splits)

text \<open>Restoring a checkpoint brings back the open attempts, findable by approval and interaction
  id, and the prepared resumes; the next id given out is not one of theirs.\<close>

lemma checkpoint_restored:
  assumes "checkpointable sid s" and "blank sid fresh" and "checkpoint_state intent s = Some payload"
  shows "\<exists>t. restore_checkpoint_state payload fresh = (Inr (), t) \<and>
    create_all (map snd (open_attempts (rt_store s))) empty_store = Inr (ss_memory (rt_store t)) \<and>
    sr_attempts (ss_memory (rt_store t)) = open_attempts (rt_store s) \<and>
    rt_resumes t = sort_key fst (rt_resumes s) \<and>
    ''resume:'' @ str_nat (rt_resume_sequence t + 1) \<notin> fst ` set (rt_resumes t)"
proof -
  obtain t where t: "restore_store payload fresh = (Inr (), t)" "rt_resumes t = []"
    "create_all (map snd (open_attempts (rt_store s))) empty_store = Inr (ss_memory (rt_store t))"
    "sr_attempts (ss_memory (rt_store t)) = open_attempts (rt_store s)"
    by (rule restored_store [OF assms])
  have ok: "resumes_ok (rt_resumes s)" using assms(1) by (simp add: checkpointable_def)
  note intent = payload_intent [OF assms(1,3)] and resumes = intent_resumes [OF ok, of intent]
  show ?thesis
  proof (cases "rt_resumes s = []")
    case True
    have "restore_checkpoint_state payload fresh = (Inr (), t)"
      using t(1) intent resumes True
      by (simp add: restore_checkpoint_state_def restore_resumes_def opt_val_def)
    then show ?thesis using t True by simp
  next
    case False
    have "restored_resumes (map resume_entry (sort_key fst (rt_resumes s))) [] = Inr ([] @ sort_key fst (rt_resumes s))"
      by (rule restored_resumes_encoded) (simp add: resumes_ok_sort ok)
    moreover obtain u where u: "adopt_resumes (sort_key fst (rt_resumes s)) t = (Inr (), u)"
      "rt_store u = rt_store t" "rt_resumes u = sort_key fst (rt_resumes s)"
      "''resume:'' @ str_nat (rt_resume_sequence u + 1) \<notin> fst ` set (sort_key fst (rt_resumes s))"
      by (rule adopted_resumes [OF t(2)])
    moreover have "runtime_intent intent (rt_resumes s) \<noteq> []" using False by (simp add: runtime_intent_def)
    ultimately have "restore_checkpoint_state payload fresh = (Inr (), u)"
      using t(1) intent resumes False
      by (simp add: restore_checkpoint_state_def restore_resumes_def opt_val_def resume_entries_map)
    then show ?thesis using t(3,4) u by auto
  qed
qed

end
