(* ===== verification/Tools_Catalog.thy ===== *)
theory Tools_Catalog
  imports Tools_Registry
begin

text \<open>
  The registry over any sequence of registrations: names are unique and are those of their
  registrations, a builtin tool stays builtin, a reserved name is never given to another tool,
  and a batch is registered as a whole.
\<close>

section \<open>Registering a batch\<close>

definition registry_ok :: "('i, 'o) tool_registry \<Rightarrow> bool" where
  "registry_ok ty \<longleftrightarrow>
     distinct (map fst (ty_registrations ty)) \<and>
     (\<forall>(name, m) \<in> set (ty_registrations ty). sp_name (rg_spec (mt_registration m)) = name)"

abbreviation registered :: "('i, 'o) tool_registry \<Rightarrow> string \<Rightarrow> ('i, 'o) tool_registration option" where
  "registered ty name \<equiv> map_option mt_registration (map_of (ty_registrations ty) name)"

lemma materialize_all_registrations [simp]: "map mt_registration (materialize_all digest n rs) = rs"
  by (induction rs arbitrary: n) simp_all

lemma fold_insert_other:
  "name \<notin> (\<lambda>m. sp_name (rg_spec (mt_registration m))) ` set ms \<Longrightarrow>
   map_of (fold insert_materialized ms al) name = map_of al name"
  by (induction ms arbitrary: al) (auto simp: insert_materialized_def update_conv')

lemma fold_insert_in:
  assumes "m \<in> set ms" and "distinct (map (\<lambda>m. sp_name (rg_spec (mt_registration m))) ms)"
  shows "map_of (fold insert_materialized ms al) (sp_name (rg_spec (mt_registration m))) = Some m"
  using assms
proof (induction ms arbitrary: al)
  case Nil
  then show ?case by simp
next
  case (Cons x ms)
  show ?case
  proof (cases "m = x")
    case True
    then have "sp_name (rg_spec (mt_registration m)) \<notin> (\<lambda>m. sp_name (rg_spec (mt_registration m))) ` set ms"
      using Cons.prems(2) by auto
    from fold_insert_other [OF this, of "insert_materialized x al"] show ?thesis
      by (simp add: True) (simp add: insert_materialized_def update_conv')
  next
    case False
    then show ?thesis using Cons by simp
  qed
qed

lemma fold_insert_distinct: "distinct (map fst al) \<Longrightarrow> distinct (map fst (fold insert_materialized ms al))"
  by (induction ms arbitrary: al) (simp_all add: insert_materialized_def distinct_update)

lemma fold_insert_set: "set (fold insert_materialized ms al) \<subseteq>
    (\<lambda>m. (sp_name (rg_spec (mt_registration m)), m)) ` set ms \<union> set al"
proof (induction ms arbitrary: al)
  case Nil
  show ?case by simp
next
  case (Cons m ms)
  have "set (insert_materialized m al) \<subseteq> insert (sp_name (rg_spec (mt_registration m)), m) (set al)"
    unfolding insert_materialized_def by (rule set_update_subset)
  with Cons.IH [of "insert_materialized m al"] show ?case by fastforce
qed

text \<open>What a successful batch leaves.\<close>

lemma register_batch_Inr:
  assumes "register_batch digest schema_error items owner replace ty = Inr (ids, ty')" and "items \<noteq> []"
  obtains "distinct (map (\<lambda>r. sp_name (rg_spec r)) items)"
    "\<forall>r \<in> set items. check_registration schema_error replace ty r = Inr ()"
    "\<forall>r \<in> set items. rg_owner r = py_strip owner"
    "ty' = ty\<lparr>ty_registrations := fold insert_materialized (materialize_all digest (ty_revision ty) items)
        (ty_registrations ty), ty_revision := ty_revision ty + length items\<rparr>"
    "ids = map mt_registration_id (materialize_all digest (ty_revision ty) items)"
proof -
  have "distinct (map (\<lambda>r. sp_name (rg_spec r)) items) \<and>
    (\<forall>r \<in> set items. check_registration schema_error replace ty r = Inr ()) \<and>
    (\<forall>r \<in> set items. rg_owner r = py_strip owner) \<and>
    ty' = ty\<lparr>ty_registrations := fold insert_materialized (materialize_all digest (ty_revision ty) items)
        (ty_registrations ty), ty_revision := ty_revision ty + length items\<rparr> \<and>
    ids = map mt_registration_id (materialize_all digest (ty_revision ty) items)"
    using assms
    by (auto simp: register_batch_def Let_def bindE_eq_Inr list_ex_iff traverse_eq_Inr list_all2_conv_all_nth
        in_set_conv_nth split: if_splits)
  then show thesis using that by blast
qed

lemma register_batch_lookup:
  assumes "register_batch digest schema_error items owner replace ty = Inr (ids, ty')"
  shows "registered ty' name =
    (case List.find (\<lambda>r. sp_name (rg_spec r) = name) items of None \<Rightarrow> registered ty name | Some r \<Rightarrow> Some r)"
proof (cases "items = []")
  case True
  then show ?thesis using assms by (simp add: register_batch_def)
next
  case False
  from assms False show ?thesis
  proof (cases rule: register_batch_Inr)
    case 1
    let ?ms = "materialize_all digest (ty_revision ty) items"
    let ?name = "\<lambda>m. sp_name (rg_spec (mt_registration m))"
    have names: "map ?name ?ms = map (\<lambda>r. sp_name (rg_spec r)) items"
      using arg_cong [OF materialize_all_registrations [of digest "ty_revision ty" items],
          of "map (\<lambda>r. sp_name (rg_spec r))"]
      by (simp add: comp_def del: materialize_all_registrations)
    have regs: "mt_registration ` set ?ms = set items"
      using arg_cong [OF materialize_all_registrations [of digest "ty_revision ty" items], of set]
      by (simp del: materialize_all_registrations)
    show ?thesis
    proof (cases "List.find (\<lambda>r. sp_name (rg_spec r) = name) items")
      case None
      then have "name \<notin> ?name ` set ?ms" using regs by (auto simp: find_None_iff)
      then show ?thesis using 1(4) None by (simp add: fold_insert_other)
    next
      case (Some r)
      then have r: "r \<in> set items" "sp_name (rg_spec r) = name" by (auto simp: find_Some_iff)
      then obtain m where m: "m \<in> set ?ms" "mt_registration m = r" using regs by (metis imageE)
      have "map_of (fold insert_materialized ?ms (ty_registrations ty)) (?name m) = Some m"
        by (rule fold_insert_in [OF m(1)]) (simp add: names 1(1))
      then show ?thesis using 1(4) Some m(2) r(2) by simp
    qed
  qed
qed

lemma register_batch_keeps:
  assumes "register_batch digest schema_error items owner replace ty = Inr (ids, ty')"
  shows "registry_ok ty \<Longrightarrow> registry_ok ty'"
    and "ty_reserved_names ty' = ty_reserved_names ty" and "ty_revision ty' = ty_revision ty + length items"
proof -
  have "(registry_ok ty \<longrightarrow> registry_ok ty') \<and> ty_reserved_names ty' = ty_reserved_names ty \<and>
    ty_revision ty' = ty_revision ty + length items"
  proof (cases "items = []")
    case True
    then show ?thesis using assms by (simp add: register_batch_def)
  next
    case False
    from assms False show ?thesis
    proof (cases rule: register_batch_Inr)
      case 1
      then show ?thesis
        using fold_insert_set [of "materialize_all digest (ty_revision ty) items" "ty_registrations ty"]
        by (fastforce simp: registry_ok_def fold_insert_distinct)
    qed
  qed
  then show "registry_ok ty \<Longrightarrow> registry_ok ty'"
    and "ty_reserved_names ty' = ty_reserved_names ty" and "ty_revision ty' = ty_revision ty + length items"
    by blast+
qed

section \<open>The registry as a transition system\<close>

inductive registry_step ::
  "(dict \<Rightarrow> string) \<Rightarrow> (dict \<Rightarrow> string option) \<Rightarrow> ('i, 'o) tool_registry \<Rightarrow> ('i, 'o) tool_registry \<Rightarrow> bool"
  for digest schema_error where
  step_reserve: "registry_reserve names ty = Inr ty' \<Longrightarrow> registry_step digest schema_error ty ty'"
| step_register: "register_batch digest schema_error items owner replace ty = Inr (ids, ty')
    \<Longrightarrow> registry_step digest schema_error ty ty'"
| step_extend: "extend_registry digest schema_error replace items ty = (x, ty')
    \<Longrightarrow> registry_step digest schema_error ty ty'"
| step_unregister: "unregister_tool name owner ty = (x, ty') \<Longrightarrow> registry_step digest schema_error ty ty'"
| step_unregister_owner: "unregister_owner owner ty = (n, ty') \<Longrightarrow> registry_step digest schema_error ty ty'"

inductive_cases registry_stepE: "registry_step digest schema_error ty ty'"

text \<open>A name that only builtin tools may have.\<close>

definition builtin_only :: "string \<Rightarrow> ('i, 'o) tool_registry \<Rightarrow> bool" where
  "builtin_only name ty \<longleftrightarrow>
     name \<in> ty_reserved_names ty \<and> (\<forall>r. registered ty name = Some r \<longrightarrow> rg_source r = BuiltinTool)"

definition protects :: "('i, 'o) tool_registry \<Rightarrow> ('i, 'o) tool_registry \<Rightarrow> bool" where
  "protects ty ty' \<longleftrightarrow>
     (registry_ok ty \<longrightarrow> registry_ok ty') \<and> (\<forall>name. builtin_only name ty \<longrightarrow> builtin_only name ty')"

lemma protects_refl: "protects ty ty"
  by (simp add: protects_def)

lemma protects_trans: "protects ty ty' \<Longrightarrow> protects ty' ty'' \<Longrightarrow> protects ty ty''"
  by (simp add: protects_def)

lemma checked_source:
  assumes "check_registration schema_error replace ty r = Inr ()"
  shows "sp_name (rg_spec r) \<in> ty_reserved_names ty \<Longrightarrow> rg_source r = BuiltinTool"
    and "registered ty (sp_name (rg_spec r)) = Some q \<Longrightarrow> replace \<and> (rg_source q = BuiltinTool \<longrightarrow> rg_source r = BuiltinTool)"
  using assms by (auto simp: check_registration_def bindE_eq_Inr Let_def split: if_splits option.splits)

lemma batch_item_checked:
  assumes "register_batch digest schema_error items owner replace ty = Inr (ids, ty')"
    and "List.find (\<lambda>r. sp_name (rg_spec r) = name) items = Some r"
  shows "check_registration schema_error replace ty r = Inr () \<and> sp_name (rg_spec r) = name"
proof -
  have r: "r \<in> set items" "sp_name (rg_spec r) = name" using assms(2) by (auto simp: find_Some_iff)
  then have "items \<noteq> []" by auto
  from assms(1) this have "check_registration schema_error replace ty r = Inr ()"
    by (rule register_batch_Inr) (use r(1) in blast)
  then show ?thesis using r(2) by simp
qed

lemma register_batch_protects:
  assumes "register_batch digest schema_error items owner replace ty = Inr (ids, ty')"
  shows "protects ty ty'"
proof -
  have "builtin_only name ty'" if "builtin_only name ty" for name
    using that register_batch_lookup [OF assms, of name] register_batch_keeps(2) [OF assms]
      batch_item_checked [OF assms, of name] checked_source(1)
    by (auto simp: builtin_only_def split: option.splits)
  then show ?thesis using register_batch_keeps(1) [OF assms] by (simp add: protects_def)
qed

text \<open>A registration never puts a tool from elsewhere in the place of a builtin one, and without
  leave to replace it takes no place at all.\<close>

lemma register_batch_builtin:
  assumes "register_batch digest schema_error items owner replace ty = Inr (ids, ty')"
    and "registered ty name = Some q"
  shows "\<exists>r. registered ty' name = Some r \<and> (r = q \<or> replace) \<and>
    (rg_source q = BuiltinTool \<longrightarrow> rg_source r = BuiltinTool)"
proof (cases "List.find (\<lambda>r. sp_name (rg_spec r) = name) items")
  case None
  then have "registered ty' name = Some q" using assms(2) register_batch_lookup [OF assms(1), of name] by simp
  then show ?thesis by blast
next
  case (Some r)
  then have "check_registration schema_error replace ty r = Inr ()" "sp_name (rg_spec r) = name"
    using batch_item_checked [OF assms(1)] by blast+
  then have "replace \<and> (rg_source q = BuiltinTool \<longrightarrow> rg_source r = BuiltinTool)"
    using checked_source(2) assms(2) by blast
  moreover have "registered ty' name = Some r" using register_batch_lookup [OF assms(1), of name] Some by simp
  ultimately show ?thesis by blast
qed

lemma extend_registry_protects: "extend_registry digest schema_error replace rs ty = (x, ty') \<Longrightarrow> protects ty ty'"
proof (induction digest schema_error replace rs ty arbitrary: x rule: extend_registry.induct)
  case (1 digest schema_error replace ty)
  then show ?case by (simp add: protects_refl)
next
  case (2 digest schema_error replace r rs ty)
  show ?case
  proof (cases "register_tool digest schema_error r replace ty")
    case (Inl e)
    then show ?thesis using 2 by (simp add: protects_refl)
  next
    case (Inr p)
    then obtain i u ids where p: "p = (i, u)" "register_batch digest schema_error [r] (rg_owner r) replace ty = Inr (ids, u)"
      by (cases p) (auto simp: register_tool_def mapE_eq_Inr)
    then have "protects ty u" by (intro register_batch_protects)
    moreover have "protects u ty'"
      using 2 Inr p(1) by (auto split: prod.splits)
    ultimately show ?thesis by (rule protects_trans)
  qed
qed

lemma protects_fewer:
  assumes "set (ty_registrations ty') \<subseteq> set (ty_registrations ty)" and "ty_reserved_names ty' = ty_reserved_names ty"
    and "distinct (map fst (ty_registrations ty)) \<Longrightarrow> distinct (map fst (ty_registrations ty'))"
    and "\<And>name. map_of (ty_registrations ty') name \<in> {None, map_of (ty_registrations ty) name}"
  shows "protects ty ty'"
proof -
  have "registered ty' name = Some r \<Longrightarrow> registered ty name = Some r" for name r
    using assms(4) [of name] by auto
  then show ?thesis using assms(1-3) unfolding protects_def builtin_only_def registry_ok_def by blast
qed

lemma map_of_filter_key: "map_of (filter (\<lambda>(k, v). P k) al) k = (if P k then map_of al k else None)"
  by (induction al) auto

lemma registry_step_protects: "registry_step digest schema_error ty ty' \<Longrightarrow> protects ty ty'"
proof (erule registry_stepE)
  show "protects ty ty'" if "registry_reserve names ty = Inr ty'" for names
    using that by (auto simp: registry_reserve_def Let_def protects_def registry_ok_def builtin_only_def split: if_splits)
  show "protects ty ty'" if "unregister_tool name owner ty = (x, ty')" for name owner x
  proof (cases "ty' = ty")
    case False
    then have t: "ty' = ty\<lparr>ty_registrations := AList.delete name (ty_registrations ty), ty_revision := ty_revision ty + 1\<rparr>"
      using that by (auto simp: unregister_tool_def split: option.splits if_splits)
    show ?thesis
      by (rule protects_fewer) (auto simp: t AList.delete_eq distinct_map_filter map_of_filter_key)
  qed (simp add: protects_refl)
  show "protects ty ty'" if "unregister_owner owner ty = (n, ty')" for owner n
    using that
    by (intro protects_fewer) (auto simp: unregister_owner_def Let_def distinct_map_filter map_of_filter_key)
qed (auto intro: register_batch_protects extend_registry_protects)

lemma registry_steps_protect: "(registry_step digest schema_error)\<^sup>*\<^sup>* ty ty' \<Longrightarrow> protects ty ty'"
  by (induction rule: rtranclp_induct) (auto intro: protects_refl protects_trans registry_step_protects)

end
