(* ===== verification/Tools_Samples.thy ===== *)
theory Tools_Samples
  imports Samples Tools_Approvals Tools_Checkpoint Tools_Catalog
begin

text \<open>
  A small tool runtime for the witnesses: two tools of which one reads and runs in parallel, and
  one writes and needs an approval, with the states that a few operations lead to.
\<close>

section \<open>Evaluation\<close>

lemma wf_artifact_ref_code [code]:
  "wf_artifact_ref a \<longleftrightarrow>
     canon_text py_strip (arf_artifact_id a) \<and> canon_text py_strip (arf_media_type a) \<and>
     opt_all (canon_text py_strip) (arf_name a) \<and> opt_all (\<lambda>n. 0 \<le> n) (arf_size_bytes a)"
  by (simp add: wf_artifact_ref_def opt_all_iff)

lemma wf_approval_challenge_code [code]:
  "wf_approval_challenge c \<longleftrightarrow>
     ac_allowed_scopes c \<noteq> {} \<and>
     list_all (canon_text py_strip) [ac_approval_id c, ac_request_fingerprint c, ac_run_id c, ac_session_id c,
       ac_tool_call_id c, ac_tool_name c, ac_registration_id c, ac_reason c] \<and>
     list_all (canon_text py_strip) (ac_actions c) \<and> list_all wf_tool_resource (ac_resources c) \<and>
     freeze_mapping (ac_safe_preview c) = ac_safe_preview c \<and> opt_all (\<lambda>n. 0 \<le> n) (ac_expires_at_ms c)"
  by (auto simp: wf_approval_challenge_def opt_all_iff list_all_iff)

lemma wf_approval_grant_code [code]:
  "wf_approval_grant g \<longleftrightarrow>
     list_all (canon_text py_strip) [ag_grant_id g, ag_approval_id g, ag_request_fingerprint g] \<and>
     list_all wf_tool_resource (ag_resources g) \<and> 0 \<le> ag_issued_at_ms g \<and>
     opt_all (\<lambda>n. 0 \<le> n) (ag_expires_at_ms g)"
  by (auto simp: wf_approval_grant_def opt_all_iff list_all_iff)

lemma wf_execution_request_code [code]:
  "wf_execution_request r \<longleftrightarrow>
     list_all (canon_text py_strip) [ter_run_id r, ter_session_id r, ter_tool_call_id r, ter_tool_name r,
       ter_registration_id r] \<and>
     freeze_mapping (ter_arguments r) = ter_arguments r \<and>
     opt_all (canon_text py_strip) (ter_raw_arguments r) \<and> opt_all (canon_text py_strip) (ter_argument_parse_error r)"
  by (auto simp: wf_execution_request_def opt_all_iff)

lemma wf_tool_timing_code [code]:
  "wf_tool_timing t \<longleftrightarrow>
     list_all (opt_all (\<lambda>n. 0 \<le> n)) [tt_queued_at_ms t, tt_started_at_ms t, tt_finished_at_ms t, tt_duration_ms t]"
  by (simp add: wf_tool_timing_def opt_all_iff)

lemma storable_result_code [code]:
  "storable_result r \<longleftrightarrow>
     wf_tool_result r \<and> list_all wf_tool_content (to_content r) \<and>
     opt_all (\<lambda>e. wf_tool_error e \<and> er_recovery_hint e \<noteq> []) (to_error r) \<and>
     list_all wf_tool_effect (to_effects r) \<and> list_all wf_artifact_ref (to_artifacts r) \<and>
     opt_all wf_approval_challenge (to_approval r) \<and> to_interaction r \<noteq> Some [] \<and> wf_tool_timing (to_timing r)"
  by (simp add: storable_result_def opt_all_iff list_all_iff)

lemma storable_record_code [code]:
  "storable_record r \<longleftrightarrow>
     canon_text py_strip (at_attempt_id r) \<and> wf_execution_request (at_request r) \<and>
     opt_all wf_approval_challenge (at_challenge r) \<and> opt_all wf_interaction_request (at_interaction r) \<and>
     opt_all wf_approval_grant (at_grant r) \<and> opt_all storable_result (at_result r)"
  by (simp add: storable_record_def opt_all_iff)

section \<open>Tools, registry and environment\<close>

definition sample_policy :: "concurrency_mode \<Rightarrow> effect_kind set \<Rightarrow> tool_policy" where
  "sample_policy mode effects =
     \<lparr>po_allowed_modes = {ToolExecute}, po_declared_effects = effects, po_required_permissions = [],
      po_base_risk = RiskLow, po_approval = ApproveNever,
      po_timeout = \<lparr>tp_default_execution_ms = 10, tp_max_execution_ms = 10, tp_cleanup_grace_ms = 1\<rparr>,
      po_concurrency = \<lparr>cp_mode = mode, cp_group = None, cp_max_parallel = None\<rparr>,
      po_output_limits = \<lparr>ol_max_data_bytes = 100, ol_max_content_bytes = 100, ol_max_artifacts = 1,
        ol_max_artifact_bytes = 100\<rparr>,
      po_output_trust = \<lparr>otp_default_content_trust = Trusted, otp_allow_structurally_validated = True\<rparr>\<rparr>"

definition sample_access :: "effect_kind set \<Rightarrow> tool_access_request" where
  "sample_access effects =
     \<lparr>ar_actions = [''act''], ar_resources = [\<lparr>tr_uri = ''file:a'', tr_metadata = []\<rparr>],
      ar_effects = effects, ar_risk = RiskLow, ar_reason = ''r'', ar_safe_preview = [],
      ar_approval_scopes = {ScopeOnce, ScopeSession}\<rparr>"

definition sample_tool :: "string \<Rightarrow> concurrency_mode \<Rightarrow> effect_kind set \<Rightarrow> (string, string) tool_registration" where
  "sample_tool name mode effects =
     \<lparr>rg_version = ''1'', rg_implementation_version = ''1'',
      rg_spec = \<lparr>sp_name = name, sp_description = ''d'', sp_input_schema = [(''type'', PStr ''object'')],
        sp_output_schema = None, sp_schema_version = 1\<rparr>,
      rg_category = CatFilesystem, rg_source = BuiltinTool, rg_owner = ''o'',
      rg_policy = sample_policy mode effects,
      rg_input_schema = Some [(''type'', PStr ''object'')], rg_output_schema = None,
      rg_decode = (\<lambda>n d. Inr ''in''),
      rg_resolve = (\<lambda>n i request. Inr \<lparr>re_input = i, re_access = sample_access effects, re_execution_timeout_ms = None\<rparr>),
      rg_run = (\<lambda>n res request. \<lparr>rr_end = Started (HandlerReturns (ter_tool_call_id request)),
        rr_effects = [], rr_cleanup_errors = [], rr_finished_ms = 9\<rparr>),
      rg_encode = (\<lambda>n v. Inr (PDict [(''out'', PStr ''x'')])),
      rg_render = (\<lambda>n v. Inr [ToolText ''x''])\<rparr>"

definition sample_registry :: "(string, string) tool_registry" where
  "sample_registry =
     \<lparr>ty_registrations =
        [(''read'', \<lparr>mt_registration_id = ''reg_r'', mt_registration = sample_tool ''read'' Parallel {FilesystemRead}\<rparr>),
         (''write'', \<lparr>mt_registration_id = ''reg_w'', mt_registration = sample_tool ''write'' Serial {FilesystemWrite}\<rparr>)],
      ty_reserved_names = {''read'', ''write''}, ty_revision = 2\<rparr>"

definition sample_engine :: permission_engine where
  "sample_engine = \<lparr>pe_rules = [], pe_denied_effects = {}, pe_approval_effects = {FilesystemWrite},
     pe_granted_permissions = []\<rparr>"

definition sample_env :: "string tool_env" where
  "sample_env = \<lparr>ev_now = (\<lambda>n. n), ev_uuid = (\<lambda>n. ''u''), ev_digest = (\<lambda>d. ''h''), ev_read_chars = (\<lambda>i. Some 10)\<rparr>"

definition sample_store :: session_store where
  "sample_store = \<lparr>ss_memory = empty_store, ss_session = Some ''s'', ss_grants = None\<rparr>"

definition sample_runtime :: "(string, string) tool_runtime" where
  "sample_runtime = new_runtime sample_registry sample_engine sample_store 0"

definition sample_request :: "string \<Rightarrow> string \<Rightarrow> string \<Rightarrow> tool_execution_request" where
  "sample_request call name registration_id =
     \<lparr>ter_run_id = ''r'', ter_session_id = ''s'', ter_tool_call_id = call, ter_tool_name = name,
      ter_arguments = [], ter_mode = ToolExecute, ter_registration_id = registration_id,
      ter_deadline_at_ms = None, ter_raw_arguments = None, ter_argument_parse_error = None\<rparr>"

definition sample_reads :: "tool_execution_request list" where
  "sample_reads = [sample_request ''a'' ''read'' ''reg_r'', sample_request ''b'' ''read'' ''reg_r'']"

definition sample_writes :: "tool_execution_request list" where
  "sample_writes = [sample_request ''a'' ''read'' ''reg_r'', sample_request ''w'' ''write'' ''reg_w'']"

section \<open>States\<close>

text \<open>Two reads admitted, and executed; a write suspended, its approval stashed, and resumed.\<close>

definition reads_prepared :: "(string, string) tool_runtime" where
  "reads_prepared = snd (prepare_batch sample_env sample_reads sample_runtime)"

definition reads_executed :: "(string, string) tool_runtime" where
  "reads_executed = snd (execute_prepared sample_env ''r:batch:1'' reads_prepared)"

definition write_suspended :: "(string, string) tool_runtime" where
  "write_suspended = snd (prepare_batch sample_env sample_writes sample_runtime)"

definition sample_approval :: approval_response where
  "sample_approval = \<lparr>ap_approval_id = ''approval_u'', ap_request_fingerprint = ''sha256:h'',
     ap_decision = Approve, ap_scope = ScopeOnce, ap_reason = []\<rparr>"

definition write_approved :: "(string, string) tool_runtime" where
  "write_approved = snd (prepare_resume (ResumeApproval sample_approval) write_suspended)"

definition write_resumed :: "(string, string) tool_runtime" where
  "write_resumed = snd (execute_prepared_resume sample_env ''resume:1'' write_approved)"

definition states_of :: "(string, string) tool_runtime \<Rightarrow> (string \<times> attempt_state) list" where
  "states_of s = map (\<lambda>(k, r). (k, at_state r)) (sr_attempts (ss_memory (rt_store s)))"

definition calls_run :: "(string, string) tool_runtime \<Rightarrow> string list" where
  "calls_run s = map (\<lambda>(p, r). ter_tool_call_id (pc_request p)) (rt_runs s)"

end
