(* ===== verification/Tools_Properties.thy ===== *)
theory Tools_Properties
  imports Tools_Samples
begin

text \<open>
  The properties of the tool runtime, \<^verbatim>\<open>src/codepilot/tools/runtime.py\<close>, with the stores of
  \<^verbatim>\<open>tools/state.py\<close> and \<^verbatim>\<open>tools/state_store.py\<close> and the registry \<^verbatim>\<open>tools/registry.py\<close>: what
  attempts go through, when handlers start, what a batch answers, and what a
  checkpoint brings back.
\<close>

section \<open>What the samples evaluate to\<close>

lemma tools_values:
  "states_of reads_prepared = [(''s:r:a'', Queued), (''s:r:b'', Queued)]"
  "states_of reads_executed = [(''s:r:a'', Succeeded), (''s:r:b'', Succeeded)]"
  "returns (fst (prepare_batch sample_env sample_writes sample_runtime))"
  "returns (fst (execute_batch sample_env sample_writes sample_runtime))"
  "calls_run write_resumed = [''w'']" "calls_run write_approved = []"
  "map fst (rt_resumes write_approved) = [''resume:1'']"
  "checkpoint_state None write_approved \<noteq> None"
  "calls_run (snd (resume_approval sample_env sample_approval write_suspended)) = [''w'']"
  "calls_run write_suspended = []"
  "checkpointable ''s'' write_approved"
  "map (\<lambda>(k, r). storable_record r) (sr_attempts (ss_memory (rt_store reads_executed))) = [True, True]"
  by code_simp+

lemma sample_fresh: "fresh_runtime sample_runtime"
  unfolding fresh_runtime_def sample_runtime_def
  by (intro exI conjI) (rule refl, simp add: sample_store_def)

lemma sample_steps:
  "runtime_step sample_env sample_runtime reads_prepared"
  "runtime_step sample_env reads_prepared reads_executed"
  "runtime_step sample_env sample_runtime write_suspended"
  "runtime_step sample_env write_suspended write_approved"
  "runtime_step sample_env write_approved write_resumed"
  unfolding reads_prepared_def reads_executed_def write_suspended_def write_approved_def write_resumed_def
  by (rule step_prepare step_execute step_stash step_resume; rule prod.collapse [symmetric])+

lemma states_of_attempt:
  assumes "map_of (states_of s) k = Some state"
  obtains r where "attempts_of s k = Some r" "at_state r = state"
proof -
  have "map_of (states_of s) k = map_option at_state (attempts_of s k)"
    by (simp add: states_of_def attempts_of_def map_of_map)
  with assms that show thesis by auto
qed

section \<open>Attempts\<close>

text \<open>Property C23. Over any sequence of operations of a runtime that starts empty, an attempt
  stays, keeps its request, moves along the transition table of the attempt states, and does not
  change at all once it is settled.\<close>

lemma attempts_only_advance:
  assumes "fresh_runtime s0" and "(runtime_step env)\<^sup>*\<^sup>* s0 s" and "(runtime_step env)\<^sup>*\<^sup>* s t"
    and "attempts_of s k = Some r"
  shows "\<exists>r'. attempts_of t k = Some r' \<and> at_request r' = at_request r \<and>
    (\<lambda>a b. b \<in> set (attempt_transitions a))\<^sup>*\<^sup>* (at_state r) (at_state r') \<and>
    (at_state r \<in> {Succeeded, Failed, Denied, TimedOut, AttemptCancelled, Interrupted} \<longrightarrow> r' = r)"
proof -
  have "attempt_step = (\<lambda>a b. b \<in> set (attempt_transitions a))"
    by (intro ext) (simp add: attempt_step_def)
  then show ?thesis
    using reached_le [OF assms(1-3)] assms(4) by (auto simp: runtime_le_def attempt_le_def terminal_states_def)
qed

lemma attempts_only_advance_witness:
  "\<exists>r r'. attempts_of reads_prepared ''s:r:a'' = Some r \<and> at_state r = Queued \<and>
     attempts_of reads_executed ''s:r:a'' = Some r' \<and> at_state r' = Succeeded \<and> at_request r' = at_request r"
proof -
  obtain r where r: "attempts_of reads_prepared ''s:r:a'' = Some r" "at_state r = Queued"
    by (rule states_of_attempt [of reads_prepared "''s:r:a''" Queued]) (simp_all add: tools_values(1))
  obtain q where q: "attempts_of reads_executed ''s:r:a'' = Some q" "at_state q = Succeeded"
    by (rule states_of_attempt [of reads_executed "''s:r:a''" Succeeded]) (simp_all add: tools_values(2))
  from attempts_only_advance [OF sample_fresh r_into_rtranclp r_into_rtranclp r(1)]
  show ?thesis using sample_steps(1,2) r q by force
qed

text \<open>Property C24. Whatever the operations, no handler starts twice for an attempt, and one
  starts only for an admitted call: the engine allows it; or it asks and a reusable grant covers
  the access; or a grant was issued for the fingerprint of exactly this request and access.\<close>

lemma handlers_are_licensed:
  assumes "fresh_runtime s0" and "(runtime_step env)\<^sup>*\<^sup>* s0 s"
  shows "distinct (map (pc_attempt_id \<circ> fst) (rt_runs s)) \<and>
    (\<forall>(p, r) \<in> set (rt_runs s).
       at_attempt_id r = pc_attempt_id p \<and> at_request r = pc_request p \<and> at_state r = Running \<and>
       (let a = re_access (pc_resolution p);
            effect = pdc_effect (decide_permission (rt_engine s) (pc_request p) (rg_policy (pc_registration p)) a) in
        effect = Allow \<or>
        (\<exists>g. at_grant r = Some g \<and>
           (effect = Ask \<and> ag_scope g \<noteq> ScopeOnce \<and> grant_covers g a \<or>
            ag_request_fingerprint g = py_strip (approval_fingerprint (ev_digest env) (pc_request p) a)))))"
  using reached_ok [OF assms] by (fastforce simp: runtime_ok_def run_ok_def licensed_def Let_def)

lemma handlers_are_licensed_witness:
  "\<exists>p r. rt_runs write_resumed = [(p, r)] \<and> ter_tool_call_id (pc_request p) = ''w'' \<and>
     at_attempt_id r = pc_attempt_id p \<and> at_state r = Running"
proof -
  have "(runtime_step sample_env)\<^sup>*\<^sup>* sample_runtime write_resumed"
    using sample_steps(3-5) by (meson rtranclp.rtrancl_into_rtrancl rtranclp.rtrancl_refl)
  from handlers_are_licensed [OF sample_fresh this] obtain p r where
    "rt_runs write_resumed = [(p, r)]" "ter_tool_call_id (pc_request p) = ''w''"
    "at_attempt_id r = pc_attempt_id p \<and> at_state r = Running"
    using tools_values(5) by (auto simp: calls_run_def)
  then show ?thesis by blast
qed

section \<open>Approvals\<close>

text \<open>Property C25. Answering an approval starts a handler only if the attempt still waits, the
  answer approves the challenge of this attempt (same fingerprint, an allowed scope, in time),
  and what the request would access now has the fingerprint that was approved; then exactly one
  handler starts, of the approved request.\<close>

lemma approval_starts_what_was_approved:
  assumes "resume_approval env response s = (x, t)" and "rt_runs t \<noteq> rt_runs s"
  shows "\<exists>r c p u. find_by_approval_id (ss_memory (rt_store s)) (ap_approval_id response) = Some r \<and>
    at_state r = AwaitingApproval \<and> \<not> at_grant_consumed r \<and> at_challenge r = Some c \<and>
    ap_decision response = Approve \<and> ap_request_fingerprint response = ac_request_fingerprint c \<and>
    ap_scope response \<in> ac_allowed_scopes c \<and>
    (\<forall>n. ac_expires_at_ms c = Some n \<longrightarrow> int (ev_now env (rt_clock s + 1)) < n) \<and>
    rt_runs t = rt_runs s @ [(p, u)] \<and> pc_attempt_id p = at_attempt_id r \<and> pc_request p = at_request r \<and>
    approval_fingerprint (ev_digest env) (pc_request p) (re_access (pc_resolution p)) = ac_request_fingerprint c"
proof -
  obtain r c p u where found: "find_by_approval_id (ss_memory (rt_store s)) (ap_approval_id response) = Some r"
    "at_state r = AwaitingApproval" "\<not> at_grant_consumed r" "at_challenge r = Some c"
    and none: "response_problem c response (int (ev_now env (rt_clock s + 1))) = None"
    and exact: "resumes_exactly env r c p" and run: "rt_runs t = rt_runs s @ [(p, u)]"
    using resume_approval_starts [OF assms] by blast
  have "ap_decision response = Approve" "ap_request_fingerprint response = ac_request_fingerprint c"
    "ap_scope response \<in> ac_allowed_scopes c"
    "\<forall>n. ac_expires_at_ms c = Some n \<longrightarrow> int (ev_now env (rt_clock s + 1)) < n"
    using none by (cases "ap_decision response"; auto simp: response_problem_def split: if_splits option.splits)+
  with found exact run show ?thesis by (auto simp: resumes_exactly_def)
qed

lemma approval_starts_what_was_approved_witness:
  "\<exists>r c. find_by_approval_id (ss_memory (rt_store write_suspended)) ''approval_u'' = Some r \<and>
     at_state r = AwaitingApproval \<and> at_challenge r = Some c \<and> ac_request_fingerprint c = ''sha256:h''"
proof -
  obtain x t where run: "resume_approval sample_env sample_approval write_suspended = (x, t)" by fastforce
  have "calls_run t = [''w'']" "calls_run write_suspended = []" using tools_values(9,10) run by simp_all
  then have "rt_runs t \<noteq> rt_runs write_suspended" by (auto simp: calls_run_def)
  from approval_starts_what_was_approved [OF run this] show ?thesis
    by (auto simp: sample_approval_def)
qed

section \<open>Batches\<close>

text \<open>Property C26. Executing a batch answers every request once, in the order of the requests,
  whether its calls were refused, suspended, interrupted or run.\<close>

lemma batch_answers_every_request:
  assumes "execute_batch env requests s = (Inr rs, t)"
    and "\<forall>request \<in> set requests. wf_execution_request request"
  shows "map to_tool_call_id rs = map ter_tool_call_id requests"
  by (rule execute_batch_answers [OF assms])

lemma sample_requests_ok: "\<forall>request \<in> set sample_writes. wf_execution_request request"
proof -
  have "canon_text py_strip ''r'' \<and> canon_text py_strip ''s'' \<and> canon_text py_strip ''a'' \<and> canon_text py_strip ''w'' \<and>
    canon_text py_strip ''read'' \<and> canon_text py_strip ''write'' \<and> canon_text py_strip ''reg_r'' \<and>
    canon_text py_strip ''reg_w''" by code_simp
  then show ?thesis
    by (simp add: sample_writes_def sample_request_def wf_execution_request_def freeze_mapping_def)
qed

lemma batch_answers_every_request_witness:
  "\<exists>rs t. execute_batch sample_env sample_writes sample_runtime = (Inr rs, t) \<and>
     map to_tool_call_id rs = [''a'', ''w'']"
proof -
  obtain rs t where run: "execute_batch sample_env sample_writes sample_runtime = (Inr rs, t)"
    using tools_values(4) by (cases "execute_batch sample_env sample_writes sample_runtime")
      (auto simp: returns_def split: sum.splits)
  from batch_answers_every_request [OF run sample_requests_ok] run show ?thesis
    by (simp add: sample_writes_def sample_request_def)
qed

text \<open>Property C27. Preparing a batch of requests that satisfy the checks of their class, when it
  returns, has started no handler. It either answers all requests in order and admits nothing, or
  answers none and keeps all calls, in order, under the id of one later execution.\<close>

lemma preparation_is_all_or_nothing:
  assumes "prepare_batch env requests s = (Inr preparation, t)"
    and "\<forall>request \<in> set requests. wf_execution_request request"
  shows "rt_runs t = rt_runs s \<and>
    (bp_results preparation \<noteq> [] \<and> bp_batch_id preparation = None \<and>
       map to_tool_call_id (bp_results preparation) = map ter_tool_call_id requests \<or>
     bp_results preparation = [] \<and>
       (\<exists>batch_id ps. bp_batch_id preparation = Some batch_id \<and>
          map_of (rt_batches t) batch_id = Some ps \<and> map pc_request ps = requests))"
  using same_runs_eq [OF prepare_batch_runs assms(1)] prepare_batch_outcome [OF assms] by blast

lemma preparation_is_all_or_nothing_witness:
  "\<exists>preparation t. prepare_batch sample_env sample_writes sample_runtime = (Inr preparation, t) \<and> rt_runs t = []"
proof -
  obtain preparation t where run: "prepare_batch sample_env sample_writes sample_runtime = (Inr preparation, t)"
    using tools_values(3) by (cases "prepare_batch sample_env sample_writes sample_runtime")
      (auto simp: returns_def split: sum.splits)
  from preparation_is_all_or_nothing [OF run sample_requests_ok] run show ?thesis
    by (simp add: sample_runtime_def new_runtime_def)
qed

section \<open>Checkpoints\<close>

text \<open>Property C29. A new runtime of the session that restores a checkpoint has the attempts that
  were open, the same records in the same order, and the prepared resumes; a suspended attempt is
  found again by the id of its approval, and the next resume id is a new one.\<close>

lemma checkpoint_brings_back_open_work:
  assumes "checkpointable sid s" and "blank sid fresh" and "checkpoint_state intent s = Some payload"
  shows "\<exists>t. restore_checkpoint_state payload fresh = (Inr (), t) \<and>
    sr_attempts (ss_memory (rt_store t)) = open_attempts (rt_store s) \<and>
    (\<forall>k r. (k, r) \<in> set (open_attempts (rt_store s)) \<longrightarrow>
       (\<forall>a. waits_for_approval a r \<and> (\<forall>(j, q) \<in> set (open_attempts (rt_store s)). waits_for_approval a q \<longrightarrow> q = r) \<longrightarrow>
          find_by_approval_id (ss_memory (rt_store t)) a = Some r)) \<and>
    rt_resumes t = sort_key fst (rt_resumes s) \<and>
    ''resume:'' @ str_nat (rt_resume_sequence t + 1) \<notin> fst ` set (rt_resumes t)"
proof -
  obtain t where t: "restore_checkpoint_state payload fresh = (Inr (), t)"
    "create_all (map snd (open_attempts (rt_store s))) empty_store = Inr (ss_memory (rt_store t))"
    "sr_attempts (ss_memory (rt_store t)) = open_attempts (rt_store s)"
    "rt_resumes t = sort_key fst (rt_resumes s)"
    "''resume:'' @ str_nat (rt_resume_sequence t + 1) \<notin> fst ` set (rt_resumes t)"
    using checkpoint_restored [OF assms] by blast
  have keys: "distinct (map at_attempt_id (map snd (open_attempts (rt_store s))))"
    using assms(1) by (rule open_attempts_distinct)
  have "find_by_approval_id (ss_memory (rt_store t)) a = Some r"
    if "(k, r) \<in> set (open_attempts (rt_store s))" "waits_for_approval a r"
      "\<forall>(j, q) \<in> set (open_attempts (rt_store s)). waits_for_approval a q \<longrightarrow> q = r" for k r a
    by (rule created_found(1) [OF t(2) _ keys that(2)]) (use that in force)+
  then show ?thesis using t by blast
qed

lemma checkpoint_brings_back_open_work_witness:
  "\<exists>payload t r. checkpoint_state None write_approved = Some payload \<and>
     restore_checkpoint_state payload sample_runtime = (Inr (), t) \<and> map fst (rt_resumes t) = [''resume:1''] \<and>
     sr_attempts (ss_memory (rt_store t)) = open_attempts (rt_store write_approved)"
proof -
  obtain payload where payload: "checkpoint_state None write_approved = Some payload"
    using tools_values(8) by blast
  have blank: "blank ''s'' sample_runtime"
    by (simp add: blank_def sample_runtime_def new_runtime_def sample_store_def)
  obtain x where x: "rt_resumes write_approved = [x]" "fst x = ''resume:1''"
    using tools_values(7) by auto
  from checkpoint_brings_back_open_work [OF tools_values(11) blank payload] obtain t where
    "restore_checkpoint_state payload sample_runtime = (Inr (), t)"
    "sr_attempts (ss_memory (rt_store t)) = open_attempts (rt_store write_approved)"
    "rt_resumes t = sort_key fst (rt_resumes write_approved)" by blast
  then show ?thesis using payload x by auto
qed

text \<open>Property C30. What the stored form of an attempt is decoded to, for every record whose parts
  satisfy the checks of their constructors. It is the same record, with its request, challenge,
  grant, interaction and result, except in two cases. A result with an error whose recovery hint
  is empty, the default, makes the decoder raise. An empty interaction of a result is stored as
  none: the decoder raises if the status needs one, and drops it otherwise.\<close>

lemma stored_attempt_decodes:
  assumes "built_record r"
  shows "record_from_dict (record_to_dict r) =
    (case at_result r of
       None \<Rightarrow> Inr r
     | Some x \<Rightarrow>
         if (\<exists>e. to_error x = Some e \<and> er_recovery_hint e = [])
           then Inl (ValueError ''optional text must be a non-empty string'')
         else if to_interaction x \<noteq> Some [] then Inr r
         else if to_status x = TUserInputRequired
           then Inl (ValueError ''user_input_required result requires interaction data'')
         else Inr (r\<lparr>at_result := Some (x\<lparr>to_interaction := None\<rparr>)\<rparr>))"
proof -
  have same: "r\<lparr>at_result := Some x\<rparr> = r" if "at_result r = Some x" for x
    using that by (cases r) simp
  show ?thesis
    unfolding record_reread [OF assms]
    by (auto simp: reread_result_def hintless_def same split: option.splits)
qed

lemma stored_attempt_decodes_witness:
  "\<exists>r. attempts_of reads_executed ''s:r:a'' = Some r \<and> at_state r = Succeeded \<and>
     record_from_dict (record_to_dict r) = Inr r"
proof -
  obtain r where r: "attempts_of reads_executed ''s:r:a'' = Some r" "at_state r = Succeeded"
    by (rule states_of_attempt [of reads_executed "''s:r:a''" Succeeded]) (simp_all add: tools_values(2))
  have all: "storable_record r" if "map (\<lambda>(k, r). storable_record r) al = [True, True]" "map_of al k = Some r" for al :: "(string \<times> attempt_record) list" and k
    using map_of_SomeD [OF that(2)] that(1) by (cases al; cases "tl al") auto
  have "storable_record r" by (rule all [OF tools_values(12) r(1) [unfolded attempts_of_def]])
  then have built: "built_record r" and x: "\<forall>x. at_result r = Some x \<longrightarrow> \<not> hintless x \<and> to_interaction x \<noteq> Some []"
    by (auto simp: storable_record_def built_record_def storable_built)
  from stored_attempt_decodes [OF built] x have "record_from_dict (record_to_dict r) = Inr r"
    by (auto simp: hintless_def split: option.splits)
  with r show ?thesis by blast
qed

section \<open>The registry\<close>

text \<open>Property C31. Over any sequence of registry operations, names stay unique and are those of
  their tools, and a reserved name held by a builtin tool, or by none, never comes to name a tool
  from elsewhere.\<close>

lemma registry_protects_builtins:
  assumes "(registry_step digest schema_error)\<^sup>*\<^sup>* ty ty'" and "registry_ok ty"
    and "name \<in> ty_reserved_names ty"
    and "\<forall>r. registered ty name = Some r \<longrightarrow> rg_source r = BuiltinTool"
  shows "registry_ok ty' \<and> (\<forall>r. registered ty' name = Some r \<longrightarrow> rg_source r = BuiltinTool)"
  using registry_steps_protect [OF assms(1)] assms(2-) unfolding protects_def builtin_only_def by blast

lemma registry_protects_builtins_witness:
  "\<exists>ty r. registry_step (\<lambda>d. ''h'') (\<lambda>d. None) sample_registry ty \<and> registry_ok ty \<and>
     registered ty ''read'' = Some r \<and> rg_source r = BuiltinTool"
proof -
  let ?ty = "snd (unregister_tool ''write'' None sample_registry)"
  have step: "registry_step (\<lambda>d. ''h'') (\<lambda>d. None) sample_registry ?ty"
    by (rule step_unregister) (rule prod.collapse [symmetric])
  then have steps: "(registry_step (\<lambda>d. ''h'') (\<lambda>d. None))\<^sup>*\<^sup>* sample_registry ?ty" ..
  have "registry_ok ?ty \<and> (\<forall>r. registered ?ty ''read'' = Some r \<longrightarrow> rg_source r = BuiltinTool)"
    by (rule registry_protects_builtins [OF steps])
       (simp_all add: sample_registry_def registry_ok_def sample_tool_def)
  moreover have "registered ?ty ''read'' \<noteq> None"
    by (simp add: unregister_tool_def sample_registry_def)
  ultimately show ?thesis using step by blast
qed

end
