(* ===== verification/Py_Paths.thy ===== *)
theory Py_Paths
  imports Py_Codec
begin

text \<open>
  The parts of Python's library that the context engine and its estimator use: paths in the
  POSIX form (\<^verbatim>\<open>pathlib\<close>, \<^verbatim>\<open>os.path.normpath\<close>), \<^verbatim>\<open>int\<close> of a value, substring tests and lines.
\<close>

section \<open>Paths\<close>

text \<open>One leading slash, exactly two, or none: POSIX keeps exactly two.\<close>

definition path_root :: "string \<Rightarrow> string" where
  "path_root s =
     (if \<not> py_startswith s ''/'' then []
      else if py_startswith s ''//'' \<and> \<not> py_startswith s ''///'' then ''//''
      else ''/'')"

definition path_parts :: "string \<Rightarrow> string list" where
  "path_parts s = filter (\<lambda>p. p \<noteq> [] \<and> p \<noteq> ''.'') (py_split_on CHR ''/'' s)"

text \<open>\<^verbatim>\<open>Path(s).as_posix()\<close>.\<close>

definition as_posix :: "string \<Rightarrow> string" where
  "as_posix s = (let p = path_root s @ py_join ''/'' (path_parts s) in
     if p = [] then ''.'' else p)"

text \<open>\<^verbatim>\<open>os.path.normpath\<close>: the parts kept so far come reversed.\<close>

fun norm_parts :: "bool \<Rightarrow> string list \<Rightarrow> string list \<Rightarrow> string list" where
  "norm_parts rooted kept [] = rev kept"
| "norm_parts rooted kept (p # ps) =
     (if p \<noteq> ''..'' \<or> (\<not> rooted \<and> kept = []) \<or> (kept \<noteq> [] \<and> hd kept = ''..'')
      then norm_parts rooted (p # kept) ps
      else norm_parts rooted (tl kept) ps)"

definition normpath :: "string \<Rightarrow> string" where
  "normpath s =
     (let root = path_root s;
          p = root @ py_join ''/'' (norm_parts (root \<noteq> []) [] (path_parts s))
      in if p = [] then ''.'' else p)"

text \<open>\<^verbatim>\<open>Path(s).parts\<close> without the root.\<close>

lemma norm_parts_rooted:
  "\<forall>p \<in> set kept. p \<noteq> ''..'' \<Longrightarrow> p \<in> set (norm_parts True kept ps) \<Longrightarrow> p \<noteq> ''..''"
proof (induction ps arbitrary: kept)
  case Nil
  then show ?case by simp
next
  case (Cons q ps)
  have step: "\<forall>p \<in> set ks. p \<noteq> ''..'' \<Longrightarrow> p \<in> set (norm_parts True ks ps) \<Longrightarrow> p \<noteq> ''..''" for ks
    by (rule Cons.IH)
  have h: "\<not> (kept \<noteq> [] \<and> hd kept = ''..'')" using Cons.prems(1) by (cases kept) auto
  show ?case
  proof (cases "q = ''..''")
    case True
    with Cons.prems(2) h have "p \<in> set (norm_parts True (tl kept) ps)" by simp
    moreover have "\<forall>p \<in> set (tl kept). p \<noteq> ''..''"
      using Cons.prems(1) by (cases kept) auto
    ultimately show ?thesis by (rule step [rotated])
  next
    case False
    with Cons.prems(2) have "p \<in> set (norm_parts True (q # kept) ps)" by simp
    moreover have "\<forall>p \<in> set (q # kept). p \<noteq> ''..''" using Cons.prems(1) False by simp
    ultimately show ?thesis by (rule step [rotated])
  qed
qed

lemma split_on_sep: "d \<notin> set w \<Longrightarrow> py_split_on d (w @ d # s) = w # py_split_on d s"
  by (induction w) auto

lemma split_on_word: "d \<notin> set w \<Longrightarrow> py_split_on d w = [w]"
  by (induction w) auto

lemma split_on_join:
  "\<forall>w \<in> set ws. d \<notin> set w \<Longrightarrow> ws \<noteq> [] \<Longrightarrow> py_split_on d (py_join [d] ws) = ws"
proof (induction ws)
  case Nil
  then show ?case by simp
next
  case (Cons w ws)
  then show ?case by (cases ws) (simp_all add: split_on_word split_on_sep)
qed

text \<open>A part: not empty, not a dot, no slash.\<close>

definition path_part :: "string \<Rightarrow> bool" where
  "path_part p \<longleftrightarrow> p \<noteq> [] \<and> p \<noteq> ''.'' \<and> CHR ''/'' \<notin> set p"

lemma path_parts_part: "p \<in> set (path_parts s) \<Longrightarrow> path_part p"
  by (auto simp: path_parts_def path_part_def dest: py_split_on_no_sep)

lemma path_parts_join:
  assumes "\<forall>p \<in> set ps. path_part p" and "r \<in> {[], ''/'', ''//''}"
  shows "path_parts (r @ py_join ''/'' ps) = ps"
proof -
  have "filter (\<lambda>p. p \<noteq> [] \<and> p \<noteq> ''.'') (py_split_on CHR ''/'' (py_join ''/'' ps)) = ps"
  proof (cases ps)
    case (Cons q qs)
    have "py_split_on CHR ''/'' (py_join ''/'' ps) = ps"
      using assms(1) Cons by (intro split_on_join) (auto simp: path_part_def)
    moreover have "filter (\<lambda>p. p \<noteq> [] \<and> p \<noteq> ''.'') ps = ps"
      using assms(1) by (auto simp: path_part_def intro: filter_True)
    ultimately show ?thesis by simp
  qed simp
  with assms(2) show ?thesis by (auto simp: path_parts_def)
qed

lemma path_root_join:
  assumes "\<forall>p \<in> set ps. path_part p" and "r \<in> {[], ''/'', ''//''}"
  shows "path_root (r @ py_join ''/'' ps) = r"
proof -
  have "py_join ''/'' ps = [] \<or> hd (py_join ''/'' ps) \<noteq> CHR ''/''"
    using assms(1) by (cases ps; cases "tl ps"; cases "hd ps") (auto simp: path_part_def)
  then obtain j where j: "py_join ''/'' ps = j" "j = [] \<or> hd j \<noteq> CHR ''/''" by blast
  show ?thesis
    using assms(2) j(2) unfolding j(1)
    by (cases j) (auto simp: path_root_def py_startswith_def)
qed

lemma path_root_range: "path_root s \<in> {[], ''/'', ''//''}"
  by (simp add: path_root_def)

lemma as_posix_idem [simp]: "as_posix (as_posix s) = as_posix s"
proof (cases "path_root s @ py_join ''/'' (path_parts s) = []")
  case True
  then have "as_posix s = ''.''" by (simp add: as_posix_def)
  moreover have "as_posix ''.'' = ''.''" by code_simp
  ultimately show ?thesis by simp
next
  case False
  then have e: "as_posix s = path_root s @ py_join ''/'' (path_parts s)"
    by (simp add: as_posix_def Let_def)
  have p: "\<forall>p \<in> set (path_parts s). path_part p" by (simp add: path_parts_part)
  have "path_parts (as_posix s) = path_parts s" and "path_root (as_posix s) = path_root s"
    unfolding e by (rule path_parts_join [OF p path_root_range], rule path_root_join [OF p path_root_range])
  then show ?thesis by (simp add: as_posix_def)
qed

section \<open>Integers from text\<close>

text \<open>What \<^verbatim>\<open>int\<close> skips around the digits: ASCII blanks, and the two blanks above ASCII.\<close>

definition int_space :: "char \<Rightarrow> bool" where
  "int_space c = (let n = (of_char c :: nat) in (9 \<le> n \<and> n \<le> 13) \<or> n \<in> {32, 133, 160})"

definition int_strip :: "string \<Rightarrow> string" where
  "int_strip s = rev (dropWhile int_space (rev (dropWhile int_space s)))"

abbreviation INT_MAX_STR_DIGITS :: nat where "INT_MAX_STR_DIGITS \<equiv> 4300"

definition int_digits :: "string \<Rightarrow> nat option" where
  "int_digits s =
     (let parts = py_split_on CHR ''_'' s in
      if list_all (\<lambda>p. p \<noteq> [] \<and> list_all ascii_digit p) parts \<and>
         length (concat parts) \<le> INT_MAX_STR_DIGITS
      then Some (digits_value (concat parts)) else None)"

definition int_of_text :: "string \<Rightarrow> int option" where
  "int_of_text s =
     (case int_strip s of
        [] \<Rightarrow> None
      | c # ds \<Rightarrow>
          if c = CHR ''-'' then map_option (\<lambda>n. - int n) (int_digits ds)
          else if c = CHR ''+'' then map_option int (int_digits ds)
          else map_option int (int_digits (c # ds)))"

definition py_int :: "pyval \<Rightarrow> int result" where
  "py_int v =
     (case v of
        PInt i \<Rightarrow> Inr i
      | PBool b \<Rightarrow> Inr (if b then 1 else 0)
      | PStr s \<Rightarrow>
          (case int_of_text s of
             Some i \<Rightarrow> Inr i
           | None \<Rightarrow> Inl (ValueError (''invalid literal for int() with base 10: '' @ repr_string s)))
      | _ \<Rightarrow> Inl (TypeError
             ''int() argument must be a string, a bytes-like object or a real number''))"

lemma py_int_PInt [simp]: "py_int (PInt i) = Inr i"
  by (simp add: py_int_def)

section \<open>Substrings, ends and lines\<close>

definition py_endswith :: "string \<Rightarrow> string \<Rightarrow> bool" where
  "py_endswith s p \<longleftrightarrow> py_startswith (rev s) (rev p)"

text \<open>\<^verbatim>\<open>p in s\<close>.\<close>

fun py_contains :: "string \<Rightarrow> string \<Rightarrow> bool" where
  "py_contains p [] = (p = [])"
| "py_contains p (c # s) = (py_startswith (c # s) p \<or> py_contains p s)"

lemma py_contains_iff: "py_contains p s \<longleftrightarrow> (\<exists>a b. s = a @ p @ b)"
proof (induction s)
  case Nil
  show ?case by simp
next
  case (Cons c s)
  have "py_startswith (c # s) p \<longleftrightarrow> (\<exists>b. c # s = p @ b)"
    unfolding py_startswith_def
    by (metis append_eq_conv_conj append_take_drop_id)
  moreover have "(\<exists>a b. c # s = a @ p @ b) \<longleftrightarrow> (\<exists>b. c # s = p @ b) \<or> (\<exists>a b. s = a @ p @ b)"
    by (metis append.left_neutral append_Cons Cons_eq_append_conv)
  ultimately show ?case using Cons.IH by simp
qed

definition line_break :: "char \<Rightarrow> bool" where
  "line_break c = (let n = (of_char c :: nat) in
     (10 \<le> n \<and> n \<le> 13) \<or> (28 \<le> n \<and> n \<le> 30) \<or> n = 133)"

text \<open>\<^verbatim>\<open>s.splitlines()\<close>: a carriage return and the newline after it are one break.\<close>

fun splitlines_from :: "string \<Rightarrow> string \<Rightarrow> string list" where
  "splitlines_from cur [] = (if cur = [] then [] else [rev cur])"
| "splitlines_from cur (c # s) =
     (if line_break c
      then rev cur # splitlines_from []
             (if c = CHR 0x0D \<and> s \<noteq> [] \<and> hd s = CHR 0x0A then tl s else s)
      else splitlines_from (c # cur) s)"

definition py_splitlines :: "string \<Rightarrow> string list" where
  "py_splitlines s = splitlines_from [] s"

end
