(* ===== verification/Context_Contracts.thy ===== *)
theory Context_Contracts
  imports Py_Paths Conversation Core_State
begin

text \<open>
  The contracts of the context engine, \<^verbatim>\<open>src/codepilot/sessions/context/contracts.py\<close>: the
  items that compete for the budget, the pressure, the projection of the conversation, the
  compact summary with its stored form and its rendering, the reference to a stored snapshot
  and the checkpoint. A \<^verbatim>\<open>Literal\<close> is a datatype. The layer weights of the budget are always
  empty in the source and left out.
\<close>

section \<open>Field helpers\<close>

definition ctx_optional_text :: "pyval \<Rightarrow> string option" where
  "ctx_optional_text v = optional_text py_strip v"

definition ctx_required_text :: "pyval \<Rightarrow> string \<Rightarrow> string result" where
  "ctx_required_text v field = required_text py_strip (ValueError (field @ '' is required'')) v"

definition ctx_text_tuple :: "pyval \<Rightarrow> string list result" where
  "ctx_text_tuple v =
     (case v of
        PNone \<Rightarrow> Inr []
      | PList xs \<Rightarrow> traverse (\<lambda>x. ctx_required_text x ''summary item'') xs
      | PTuple xs \<Rightarrow> traverse (\<lambda>x. ctx_required_text x ''summary item'') xs
      | _ \<Rightarrow> Inl (TypeError ''compact summary list fields must be lists or tuples''))"

text \<open>\<^verbatim>\<open>tuple(_required_text(item, name) for item in values)\<close> on texts.\<close>

definition ctx_texts :: "string list \<Rightarrow> string \<Rightarrow> string list result" where
  "ctx_texts ts field = traverse (\<lambda>t. ctx_required_text (PStr t) field) ts"

text \<open>\<^verbatim>\<open>str(value or "").strip()\<close>.\<close>

definition ctx_text_or_empty :: "pyval \<Rightarrow> string" where
  "ctx_text_or_empty v = (if py_truth v then py_strip (py_str v) else [])"

definition ctx_reject_unknown :: "dict \<Rightarrow> string list \<Rightarrow> string \<Rightarrow> unit result" where
  "ctx_reject_unknown raw allowed what =
     (let unknown = sort (remdups (filter (\<lambda>k. k \<notin> set allowed) (map fst raw)))
      in if unknown \<noteq> []
         then Inl (ValueError (''unknown '' @ what @ '' fields: '' @ py_join '', '' unknown))
         else Inr ())"

definition clean_texts :: "string list \<Rightarrow> bool" where
  "clean_texts ts \<longleftrightarrow> (\<forall>t \<in> set ts. canon_text py_strip t)"

lemma ctx_required_text_canon: "ctx_required_text v f = Inr t \<Longrightarrow> canon_text py_strip t"
  unfolding ctx_required_text_def by (rule strip.required_text_canon)

lemma ctx_required_text_fix [simp]:
  "ctx_required_text (PStr s) f = Inr s \<longleftrightarrow> canon_text py_strip s"
  using ctx_required_text_canon [of "PStr s" f s]
  by (auto simp: ctx_required_text_def intro: required_text_fix)

lemma ctx_texts_clean: "ctx_texts ts f = Inr us \<Longrightarrow> clean_texts us"
  unfolding ctx_texts_def clean_texts_def
  by (metis traverse_set ctx_required_text_canon)

lemma ctx_texts_fix [simp]: "ctx_texts ts f = Inr ts \<longleftrightarrow> clean_texts ts"
proof
  assume "clean_texts ts"
  then show "ctx_texts ts f = Inr ts"
    unfolding ctx_texts_def clean_texts_def by (intro traverse_id) simp
qed (rule ctx_texts_clean)

lemma ctx_text_tuple_clean: "ctx_text_tuple v = Inr ts \<Longrightarrow> clean_texts ts"
  unfolding ctx_text_tuple_def clean_texts_def
  by (cases v) (auto dest: traverse_set ctx_required_text_canon)

lemma ctx_text_tuple_fix:
  "clean_texts ts \<Longrightarrow> ctx_text_tuple (PList (map PStr ts)) = Inr ts"
proof -
  assume c: "clean_texts ts"
  have "traverse (\<lambda>x. ctx_required_text x ''summary item'') (map PStr ts) = Inr (map (\<lambda>t. t) ts)"
    using c unfolding clean_texts_def by (intro traverse_map_Inr) simp
  then show ?thesis by (simp add: ctx_text_tuple_def)
qed

lemma ctx_text_or_empty_PStr [simp]: "ctx_text_or_empty (PStr s) = py_strip s"
  by (simp add: ctx_text_or_empty_def py_strip_def py_lstrip_def)

lemma ctx_reject_unknown_ok [simp]:
  "set (map fst raw) \<subseteq> set allowed \<Longrightarrow> ctx_reject_unknown raw allowed w = Inr ()"
proof -
  assume "set (map fst raw) \<subseteq> set allowed"
  then have "filter (\<lambda>k. k \<notin> set allowed) (map fst raw) = []"
    unfolding filter_empty_conv by blast
  then show ?thesis by (simp only: ctx_reject_unknown_def Let_def) simp
qed

section \<open>Items, budget and pressure\<close>

datatype context_layer = L0 | L1 | L2 | L3 | L4

datatype retention_class = Required | Protected | Budgeted | DiscardFirst

datatype pressure_level = PressureNormal | PressureTight | PressureCritical | PressureOverflow

record context_source_ref =
  csr_kind :: string
  csr_ref :: string

definition context_source_ref_post_init :: "context_source_ref \<Rightarrow> context_source_ref result" where
  "context_source_ref_post_init r =
     bindE (ctx_required_text (PStr (csr_kind r)) ''source kind'') (\<lambda>kind.
     bindE (ctx_required_text (PStr (csr_ref r)) ''source ref'') (\<lambda>ref.
     Inr \<lparr>csr_kind = kind, csr_ref = ref\<rparr>))"

record context_item =
  ci_item_id :: string
  ci_layer :: context_layer
  ci_retention :: retention_class
  ci_content :: string
  ci_source :: context_source_ref
  ci_estimated_tokens :: int
  ci_relevance :: int
  ci_freshness :: string
  ci_recency :: int

definition context_item_post_init :: "context_item \<Rightarrow> context_item result" where
  "context_item_post_init i =
     bindE (ctx_required_text (PStr (ci_item_id i)) ''item id'') (\<lambda>item_id.
     bindE (ctx_required_text (PStr (ci_content i)) ''item content'') (\<lambda>content.
     if ci_estimated_tokens i < 0
     then Inl (ValueError ''estimated_tokens must be a non-negative integer'')
     else
     bindE (ctx_required_text (PStr (ci_freshness i)) ''freshness'') (\<lambda>freshness.
     Inr (i\<lparr>ci_item_id := item_id, ci_content := content, ci_freshness := freshness\<rparr>))))"

definition wf_context_item :: "context_item \<Rightarrow> bool" where
  "wf_context_item i \<longleftrightarrow>
     canon_text py_strip (ci_item_id i) \<and> canon_text py_strip (ci_content i) \<and>
     canon_text py_strip (ci_freshness i) \<and> 0 \<le> ci_estimated_tokens i"

interpretation context_item: validated wf_context_item context_item_post_init
proof unfold_locales
  fix x y assume "context_item_post_init x = Inr y"
  then show "wf_context_item y"
    by (auto simp: context_item_post_init_def wf_context_item_def bindE_eq_Inr
        dest: ctx_required_text_canon split: if_splits)
next
  fix x assume "wf_context_item x"
  then show "context_item_post_init x = Inr x"
    by (cases x) (simp add: context_item_post_init_def wf_context_item_def
        ctx_required_text_def required_text_fix)
qed

record context_budget =
  cb_effective_input_tokens :: int
  cb_output_reserve_tokens :: int
  cb_safety_margin_tokens :: int

definition context_budget_post_init :: "context_budget \<Rightarrow> context_budget result" where
  "context_budget_post_init b =
     (if cb_effective_input_tokens b < 0
        then Inl (ValueError ''effective_input_tokens must be a non-negative integer'')
      else if cb_output_reserve_tokens b < 0
        then Inl (ValueError ''output_reserve_tokens must be a non-negative integer'')
      else if cb_safety_margin_tokens b < 0
        then Inl (ValueError ''safety_margin_tokens must be a non-negative integer'')
      else Inr b)"

record context_pressure =
  cp_level :: pressure_level
  cp_raw_tokens :: int
  cp_effective_budget :: int
  cp_conversation_tokens :: int
  cp_reasons :: "string list"

definition context_pressure_post_init :: "context_pressure \<Rightarrow> context_pressure result" where
  "context_pressure_post_init p =
     (if cp_raw_tokens p < 0 then Inl (ValueError ''raw_tokens must be a non-negative integer'')
      else if cp_effective_budget p < 0
        then Inl (ValueError ''effective_budget must be a non-negative integer'')
      else if cp_conversation_tokens p < 0
        then Inl (ValueError ''conversation_tokens must be a non-negative integer'')
      else bindE (ctx_texts (cp_reasons p) ''pressure reason'') (\<lambda>reasons.
           Inr (p\<lparr>cp_reasons := reasons\<rparr>)))"

section \<open>Projection\<close>

datatype projection_action =
    KeepFull | KeepProjected | CoveredByCompactSummary | CoveredByNewerRead | DiscardOrphan

record projected_message =
  pm_source_ref :: string
  pm_message :: message
  pm_action :: projection_action
  pm_group_id :: string

definition projected_message_post_init :: "projected_message \<Rightarrow> projected_message result" where
  "projected_message_post_init p =
     bindE (ctx_required_text (PStr (pm_source_ref p)) ''source ref'') (\<lambda>source_ref.
     bindE (ctx_required_text (PStr (pm_group_id p)) ''group id'') (\<lambda>group_id.
     Inr (p\<lparr>pm_source_ref := source_ref, pm_group_id := group_id\<rparr>)))"

definition shown :: "projection_action \<Rightarrow> bool" where
  "shown a \<longleftrightarrow> a \<notin> {CoveredByCompactSummary, CoveredByNewerRead, DiscardOrphan}"

text \<open>\<^verbatim>\<open>ProjectionPlan.model_messages\<close>.\<close>

definition model_messages :: "projected_message list \<Rightarrow> message list" where
  "model_messages plan = map pm_message (filter (\<lambda>p. shown (pm_action p)) plan)"

end
