(* ===== verification/Llm_Estimation.thy ===== *)
theory Llm_Estimation
  imports Py_Paths Conversation
begin

text \<open>
  Token estimates, \<^verbatim>\<open>src/codepilot/llm/estimation.py\<close>: the kind of a text, the estimate of a
  text, a message, the tools and a whole context. A quotient of the source by a decimal such
  as 2.7 is written as a fraction of integers; the float of the source rounds to the same
  integer for every length a prompt can have. The correction factors, floats learnt from the
  providers' answers, are a parameter \<open>scale\<close>: what \<^verbatim>\<open>math.ceil(raw * factor)\<close> makes of a raw
  estimate of a kind. Without factors it is the identity.
\<close>

section \<open>Kinds of content\<close>

datatype content_type =
    ChineseText | EnglishText | CodeText | JsonSchema | ToolOutput | MarkdownMixed | ImageType
  | ToolCallStruct | MessageOverhead

text \<open>The keys of \<^verbatim>\<open>by_type\<close>: a kind, or the entry \<^verbatim>\<open>tools\<close>.\<close>

datatype estimate_key = OfType content_type | ToolsKey

abbreviation IMAGE_TOKEN_ESTIMATE :: nat where "IMAGE_TOKEN_ESTIMATE \<equiv> 1000"
abbreviation TOOL_SCHEMA_TOKEN_ESTIMATE :: nat where "TOOL_SCHEMA_TOKEN_ESTIMATE \<equiv> 200"
abbreviation MESSAGE_OVERHEAD_TOKENS :: nat where "MESSAGE_OVERHEAD_TOKENS \<equiv> 4"
abbreviation TOOL_CALL_OVERHEAD_TOKENS :: nat where "TOOL_CALL_OVERHEAD_TOKENS \<equiv> 8"

text \<open>Ten times the denominator of a kind.\<close>

fun denominator_tenths :: "content_type \<Rightarrow> nat" where
  "denominator_tenths ChineseText = 18"
| "denominator_tenths EnglishText = 40"
| "denominator_tenths CodeText = 32"
| "denominator_tenths JsonSchema = 27"
| "denominator_tenths ToolOutput = 30"
| "denominator_tenths MarkdownMixed = 26"
| "denominator_tenths ImageType = 10"
| "denominator_tenths ToolCallStruct = 30"
| "denominator_tenths MessageOverhead = 10"

definition ceil_div :: "nat \<Rightarrow> nat \<Rightarrow> nat" where
  "ceil_div n d = (n + d - 1) div d"

definition estimate_by_kind :: "string \<Rightarrow> content_type \<Rightarrow> nat" where
  "estimate_by_kind s kind =
     (if kind = ImageType then IMAGE_TOKEN_ESTIMATE
      else if s = [] then 0
      else max 1 (ceil_div (10 * length s) (denominator_tenths kind)))"

fun quoted_key_at :: "string \<Rightarrow> bool" where
  "quoted_key_at [] = False"
| "quoted_key_at (c # s) =
     (c = CHR 0x22 \<and>
      (let name = takeWhile (\<lambda>d. d \<noteq> CHR 0x22) s;
           rest = dropWhile (\<lambda>d. d \<noteq> CHR 0x22) s
       in name \<noteq> [] \<and> rest \<noteq> [] \<and>
          py_startswith (dropWhile py_space (tl rest)) '':''))"

text \<open>\<^verbatim>\<open>re.search\<close> of a quoted key and a colon.\<close>

fun has_quoted_key :: "string \<Rightarrow> bool" where
  "has_quoted_key [] = False"
| "has_quoted_key (c # s) = (quoted_key_at (c # s) \<or> has_quoted_key s)"

definition looks_like_json :: "string \<Rightarrow> bool" where
  "looks_like_json s =
     (let t = py_strip s in
      ((py_startswith t ''{'' \<or> py_startswith t ''['') \<and>
       (py_endswith t ''}'' \<or> py_endswith t '']'')) \<or> has_quoted_key s)"

definition code_markers :: "string list" where
  "code_markers =
     [''def '', ''class '', ''import '', ''from '', ''function '', ''const '', ''let '', ''var '',
      ''return '', ''=>'', '');'', ''{'', ''}'']"

definition looks_like_code :: "string \<Rightarrow> bool" where
  "looks_like_code s \<longleftrightarrow>
     2 \<le> length (filter (\<lambda>m. py_contains m s) code_markers) \<or>
     (3 \<le> length (py_splitlines s) \<and> list_ex (\<lambda>c. c \<in> set ''{};'') s)"

definition is_cjk :: "char \<Rightarrow> bool" where
  "is_cjk c \<longleftrightarrow> 0x4E00 \<le> (of_char c :: nat) \<and> (of_char c :: nat) \<le> 0x9FFF"

definition classify_content_type :: "string \<Rightarrow> content_type" where
  "classify_content_type s =
     (if s = [] then EnglishText
      else
        (let cjk_count = length (filter is_cjk s);
             structural = length (filter (\<lambda>c. c \<in> set ''{}[]\":,'') s)
         in if 4 \<le> cjk_count \<and> 18 * length s \<le> 100 * cjk_count then ChineseText
            else if 8 \<le> structural \<and> 16 * length s \<le> 100 * structural \<and> looks_like_json s
              then JsonSchema
            else if looks_like_code s then CodeText
            else if list_ex (\<lambda>m. py_contains m s) [''## '', ''- '', ''`'', ''|''] then MarkdownMixed
            else EnglishText))"

section \<open>Estimates\<close>

type_synonym by_type = "(estimate_key \<times> nat) list"
type_synonym scale = "content_type \<Rightarrow> nat \<Rightarrow> nat"

definition no_correction :: scale where
  "no_correction kind n = n"

definition estimate_total :: "by_type \<Rightarrow> nat" where
  "estimate_total b = sum_list (map snd b)"

definition add_tokens :: "by_type \<Rightarrow> estimate_key \<Rightarrow> nat \<Rightarrow> by_type" where
  "add_tokens b k n = AList.update k ((case map_of b k of None \<Rightarrow> 0 | Some m \<Rightarrow> m) + n) b"

definition merge_estimate :: "by_type \<Rightarrow> by_type \<Rightarrow> by_type" where
  "merge_estimate b e = fold (\<lambda>(k, n) b. add_tokens b k n) e b"

definition estimate_text_tokens :: "scale \<Rightarrow> content_type option \<Rightarrow> string \<Rightarrow> by_type" where
  "estimate_text_tokens scale given s =
     (let kind = (case given of Some k \<Rightarrow> k | None \<Rightarrow> classify_content_type s);
          total = (if s = [] then 0 else max 1 (scale kind (estimate_by_kind s kind)))
      in if total = 0 then [] else [(OfType kind, total)])"

definition text_tokens :: "scale \<Rightarrow> string \<Rightarrow> nat" where
  "text_tokens scale s = estimate_total (estimate_text_tokens scale None s)"

definition merge_image_estimate :: "scale \<Rightarrow> by_type \<Rightarrow> string \<Rightarrow> by_type" where
  "merge_image_estimate scale b mime =
     (let raw = (if py_endswith mime ''jpeg'' \<or> py_endswith mime ''jpg'' then 850
                 else IMAGE_TOKEN_ESTIMATE)
      in add_tokens b (OfType ImageType) (scale ImageType raw))"

definition estimate_tool_call_tokens :: "scale \<Rightarrow> string \<Rightarrow> dict \<Rightarrow> by_type" where
  "estimate_tool_call_tokens scale name arguments =
     (let s = name @ '' '' @ json_dumps (PDict arguments);
          raw = TOOL_CALL_OVERHEAD_TOKENS + estimate_by_kind s JsonSchema
      in [(OfType ToolCallStruct, scale ToolCallStruct raw)])"

text \<open>The blocks of a user message, an assistant message and a tool result.\<close>

fun merge_user_block :: "scale \<Rightarrow> content_block \<Rightarrow> by_type \<Rightarrow> by_type" where
  "merge_user_block scale (TextBlock s _) b = merge_estimate b (estimate_text_tokens scale None s)"
| "merge_user_block scale (ImageBlock _ mime _) b = merge_image_estimate scale b mime"
| "merge_user_block scale _ b = b"

fun merge_assistant_block :: "scale \<Rightarrow> content_block \<Rightarrow> by_type \<Rightarrow> by_type" where
  "merge_assistant_block scale (TextBlock s _) b =
     merge_estimate b (estimate_text_tokens scale None s)"
| "merge_assistant_block scale (ThinkingBlock s _ _) b =
     merge_estimate b (estimate_text_tokens scale (Some MarkdownMixed) s)"
| "merge_assistant_block scale (ToolCallBlock c) b =
     merge_estimate b (estimate_tool_call_tokens scale (tc_name c) (tc_arguments c))"
| "merge_assistant_block scale _ b = b"

fun merge_result_block :: "scale \<Rightarrow> content_block \<Rightarrow> by_type \<Rightarrow> by_type" where
  "merge_result_block scale (TextBlock s _) b =
     merge_estimate b (estimate_text_tokens scale (Some ToolOutput) s)"
| "merge_result_block scale (ImageBlock _ mime _) b = merge_image_estimate scale b mime"
| "merge_result_block scale _ b = b"

fun estimate_message :: "scale \<Rightarrow> message \<Rightarrow> by_type" where
  "estimate_message scale (UserMessage u) =
     (let b = [(OfType MessageOverhead, scale MessageOverhead MESSAGE_OVERHEAD_TOKENS)] in
      case um_content u of
        Inl s \<Rightarrow> merge_estimate b (estimate_text_tokens scale None s)
      | Inr blocks \<Rightarrow> fold (merge_user_block scale) blocks b)"
| "estimate_message scale (AssistantMessage a) =
     fold (merge_assistant_block scale) (am_content a)
       [(OfType MessageOverhead, scale MessageOverhead MESSAGE_OVERHEAD_TOKENS)]"
| "estimate_message scale (ToolResultMessage r) =
     fold (merge_result_block scale) (trm_content r)
       [(OfType MessageOverhead, scale MessageOverhead MESSAGE_OVERHEAD_TOKENS)]"

record model_tool =
  mt_name :: string
  mt_description :: string
  mt_parameters :: dict

definition estimate_tool :: "scale \<Rightarrow> model_tool \<Rightarrow> nat" where
  "estimate_tool scale t =
     (let s = json_dumps (PDict [(''name'', PStr (mt_name t)),
                (''description'', PStr (mt_description t)),
                (''parameters'', PDict (mt_parameters t))]);
          raw = max TOOL_SCHEMA_TOKEN_ESTIMATE (estimate_by_kind s JsonSchema)
      in scale JsonSchema raw)"

definition estimate_tools_tokens :: "scale \<Rightarrow> model_tool list \<Rightarrow> by_type" where
  "estimate_tools_tokens scale tools =
     fold (\<lambda>t b. let total = estimate_tool scale t in
             add_tokens (add_tokens b ToolsKey total) (OfType JsonSchema) total) tools []"

definition estimate_context ::
  "scale \<Rightarrow> message list \<Rightarrow> string \<Rightarrow> model_tool list \<Rightarrow> by_type" where
  "estimate_context scale messages system_prompt tools =
     merge_estimate
       (fold (\<lambda>m b. merge_estimate b (estimate_message scale m)) messages
         (merge_estimate [] (estimate_text_tokens scale (Some MarkdownMixed) system_prompt)))
       (estimate_tools_tokens scale tools)"

definition context_tokens :: "scale \<Rightarrow> message list \<Rightarrow> string \<Rightarrow> model_tool list \<Rightarrow> nat" where
  "context_tokens scale messages system_prompt tools =
     estimate_total (estimate_context scale messages system_prompt tools)"

text \<open>\<^verbatim>\<open>limit = int(model.context_window * safety_margin)\<close> with the margin as a fraction.\<close>

definition is_context_overflow ::
  "nat \<times> nat \<Rightarrow> nat \<Rightarrow> message list \<Rightarrow> string \<Rightarrow> model_tool list \<Rightarrow> bool" where
  "is_context_overflow margin context_window messages system_prompt tools \<longleftrightarrow>
     context_window * fst margin div snd margin
       < context_tokens no_correction messages system_prompt tools"

section \<open>Estimates add up\<close>

lemma estimate_total_update:
  "estimate_total (AList.update k n b) + (case map_of b k of None \<Rightarrow> 0 | Some m \<Rightarrow> m) =
   estimate_total b + n"
  by (induction b) (auto simp: estimate_total_def)

lemma estimate_total_add [simp]: "estimate_total (add_tokens b k n) = estimate_total b + n"
  using estimate_total_update [of k "(case map_of b k of None \<Rightarrow> 0 | Some m \<Rightarrow> m) + n" b]
  by (simp add: add_tokens_def)

lemma estimate_total_Nil [simp]: "estimate_total [] = 0"
  by (simp add: estimate_total_def)

lemma estimate_total_Cons [simp]: "estimate_total ((k, n) # b) = n + estimate_total b"
  by (simp add: estimate_total_def)

lemma estimate_total_merge [simp]:
  "estimate_total (merge_estimate b e) = estimate_total b + estimate_total e"
  unfolding merge_estimate_def
  by (induction e arbitrary: b) auto

lemma estimate_total_fold_merge:
  "estimate_total (fold (\<lambda>m b. merge_estimate b (f m)) ms b) =
   estimate_total b + (\<Sum>m\<leftarrow>ms. estimate_total (f m))"
  by (induction ms arbitrary: b) simp_all

definition message_tokens :: "scale \<Rightarrow> message \<Rightarrow> nat" where
  "message_tokens scale m = estimate_total (estimate_message scale m)"

lemma estimate_total_tools:
  "estimate_total (estimate_tools_tokens scale tools) = 2 * (\<Sum>t\<leftarrow>tools. estimate_tool scale t)"
proof -
  have "estimate_total (fold (\<lambda>t b. let total = estimate_tool scale t in
             add_tokens (add_tokens b ToolsKey total) (OfType JsonSchema) total) tools b) =
        estimate_total b + 2 * (\<Sum>t\<leftarrow>tools. estimate_tool scale t)" for b
    by (induction tools arbitrary: b) (simp_all add: Let_def)
  then show ?thesis by (simp add: estimate_tools_tokens_def)
qed

lemma context_tokens_sum:
  "context_tokens scale messages system_prompt tools =
   estimate_total (estimate_text_tokens scale (Some MarkdownMixed) system_prompt) +
   (\<Sum>m\<leftarrow>messages. message_tokens scale m) + 2 * (\<Sum>t\<leftarrow>tools. estimate_tool scale t)"
  by (simp add: context_tokens_def estimate_context_def estimate_total_fold_merge
      estimate_total_tools message_tokens_def)

lemma context_tokens_append:
  "context_tokens scale (xs @ ys) [] [] =
   context_tokens scale xs [] [] + context_tokens scale ys [] []"
  by (simp add: context_tokens_sum estimate_text_tokens_def)

end
