(* ===== verification/Context_Budget.thy ===== *)
theory Context_Budget
  imports Context_Contracts Llm_Estimation Complex_Main
    "HOL-Library.Product_Lexorder" "HOL-Library.Multiset"
begin

text \<open>
  The budget of a prompt, \<^verbatim>\<open>src/codepilot/sessions/context/budget.py\<close>: the configuration with
  its checks, the pressure level of an estimate, and the selection of context items by rank
  within the tokens available and the share of recalled memory. The ratios, decimals in the
  source, are rationals; their comparison with a quotient of token counts is exact. The tenth
  of the budget that memory may take is \<^verbatim>\<open>int(effective * 0.10)\<close>.
\<close>

section \<open>Configuration\<close>

record budget_config =
  bc_context_window :: int
  bc_max_output_tokens :: int
  bc_safety_margin_tokens :: int
  bc_tight_ratio :: rat
  bc_critical_ratio :: rat
  bc_single_evidence_tokens :: int
  bc_single_memory_tokens :: int

fun non_negative_fields :: "(string \<times> int) list \<Rightarrow> unit result" where
  "non_negative_fields [] = Inr ()"
| "non_negative_fields ((name, v) # fs) =
     (if v < 0 then Inl (ValueError (name @ '' must be a non-negative integer''))
      else non_negative_fields fs)"

definition budget_config_post_init :: "budget_config \<Rightarrow> budget_config result" where
  "budget_config_post_init c =
     bindE (non_negative_fields
       [(''context_window'', bc_context_window c),
        (''max_output_tokens'', bc_max_output_tokens c),
        (''safety_margin_tokens'', bc_safety_margin_tokens c),
        (''single_evidence_tokens'', bc_single_evidence_tokens c),
        (''single_memory_tokens'', bc_single_memory_tokens c)]) (\<lambda>_.
     if bc_context_window c \<le> bc_max_output_tokens c + bc_safety_margin_tokens c
     then Inl (ValueError ''context window must exceed output reserve and safety margin'')
     else if \<not> (0 < bc_tight_ratio c \<and> bc_tight_ratio c < bc_critical_ratio c \<and>
                bc_critical_ratio c < 1)
     then Inl (ValueError ''pressure ratios must satisfy 0 < tight < critical < 1'')
     else Inr c)"

definition wf_budget_config :: "budget_config \<Rightarrow> bool" where
  "wf_budget_config c \<longleftrightarrow>
     0 \<le> bc_context_window c \<and> 0 \<le> bc_max_output_tokens c \<and> 0 \<le> bc_safety_margin_tokens c \<and>
     0 \<le> bc_single_evidence_tokens c \<and> 0 \<le> bc_single_memory_tokens c \<and>
     bc_max_output_tokens c + bc_safety_margin_tokens c < bc_context_window c \<and>
     0 < bc_tight_ratio c \<and> bc_tight_ratio c < bc_critical_ratio c \<and> bc_critical_ratio c < 1"

interpretation budget_config: validated wf_budget_config budget_config_post_init
  by unfold_locales
     (auto simp: budget_config_post_init_def wf_budget_config_def bindE_eq_Inr split: if_splits)

record budget_manager =
  bm_config :: budget_config
  bm_budget :: context_budget

definition budget_manager_new :: "budget_config \<Rightarrow> budget_manager result" where
  "budget_manager_new c =
     bindE (context_budget_post_init
       \<lparr>cb_effective_input_tokens =
          bc_context_window c - bc_max_output_tokens c - bc_safety_margin_tokens c,
        cb_output_reserve_tokens = bc_max_output_tokens c,
        cb_safety_margin_tokens = bc_safety_margin_tokens c\<rparr>) (\<lambda>b.
     Inr \<lparr>bm_config = c, bm_budget = b\<rparr>)"

abbreviation effective_tokens :: "budget_manager \<Rightarrow> int" where
  "effective_tokens m \<equiv> cb_effective_input_tokens (bm_budget m)"

definition wf_budget_manager :: "budget_manager \<Rightarrow> bool" where
  "wf_budget_manager m \<longleftrightarrow>
     wf_budget_config (bm_config m) \<and> budget_manager_new (bm_config m) = Inr m"

lemma budget_manager_new_wf:
  assumes "wf_budget_config c"
  shows "\<exists>m. budget_manager_new c = Inr m \<and> wf_budget_manager m"
  using assms
  by (auto simp: budget_manager_new_def context_budget_post_init_def wf_budget_manager_def
      wf_budget_config_def)

lemma effective_tokens_pos: "wf_budget_manager m \<Longrightarrow> 0 < effective_tokens m"
  by (cases m) (auto simp: wf_budget_manager_def wf_budget_config_def budget_manager_new_def
      context_budget_post_init_def bindE_eq_Inr split: if_splits)

section \<open>Pressure\<close>

text \<open>The quotient of the source has a positive denominator: see \<open>effective_tokens_pos\<close>.\<close>

definition assess :: "budget_manager \<Rightarrow> int \<Rightarrow> int \<Rightarrow> context_pressure result" where
  "assess m raw_tokens conversation_tokens =
     (let effective = effective_tokens m;
          ratio = (of_int raw_tokens / of_int effective :: rat);
          (level, reasons) =
            (if 1 < ratio then (PressureOverflow, [''input_exceeds_effective_budget''])
             else if bc_critical_ratio (bm_config m) \<le> ratio
               then (PressureCritical, [''critical_budget_pressure''])
             else if bc_tight_ratio (bm_config m) \<le> ratio
               then (PressureTight, [''tight_budget_pressure''])
             else (PressureNormal, []))
      in context_pressure_post_init
           \<lparr>cp_level = level, cp_raw_tokens = max 0 raw_tokens, cp_effective_budget = effective,
            cp_conversation_tokens = max 0 conversation_tokens, cp_reasons = reasons\<rparr>)"

definition pressure_rank :: "pressure_level \<Rightarrow> nat" where
  "pressure_rank l = (case l of PressureNormal \<Rightarrow> 0 | PressureTight \<Rightarrow> 1
                     | PressureCritical \<Rightarrow> 2 | PressureOverflow \<Rightarrow> 3)"

definition assessed_level :: "budget_manager \<Rightarrow> int \<Rightarrow> pressure_level" where
  "assessed_level m raw =
     (let e = effective_tokens m; c = bm_config m in
      if e < raw then PressureOverflow
      else if bc_critical_ratio c * of_int e \<le> of_int raw then PressureCritical
      else if bc_tight_ratio c * of_int e \<le> of_int raw then PressureTight
      else PressureNormal)"

lemma pressure_reasons:
  "ctx_texts [''input_exceeds_effective_budget''] f = Inr [''input_exceeds_effective_budget'']"
  "ctx_texts [''critical_budget_pressure''] f = Inr [''critical_budget_pressure'']"
  "ctx_texts [''tight_budget_pressure''] f = Inr [''tight_budget_pressure'']"
  "ctx_texts [] f = Inr []"
  unfolding ctx_texts_fix clean_texts_def canon_text_def by (simp; code_simp)+

lemma assess_eq:
  assumes "wf_budget_manager m"
  shows "\<exists>reasons. assess m raw conv = Inr \<lparr>cp_level = assessed_level m raw,
           cp_raw_tokens = max 0 raw, cp_effective_budget = effective_tokens m,
           cp_conversation_tokens = max 0 conv, cp_reasons = reasons\<rparr>"
proof -
  have e: "(0::rat) < of_int (effective_tokens m)" using effective_tokens_pos [OF assms] by simp
  have le: "r \<le> of_int raw / of_int (effective_tokens m) \<longleftrightarrow>
            r * of_int (effective_tokens m) \<le> (of_int raw :: rat)" for r
    using e by (rule pos_le_divide_eq)
  have gt: "(1::rat) < of_int raw / of_int (effective_tokens m) \<longleftrightarrow> effective_tokens m < raw"
    using e by (simp add: pos_less_divide_eq)
  show ?thesis
    using effective_tokens_pos [OF assms]
    by (auto simp: assess_def assessed_level_def Let_def le gt context_pressure_post_init_def
        pressure_reasons)
qed

text \<open>More tokens never lower the level.\<close>

lemma assessed_level_mono:
  assumes "a \<le> b"
  shows "pressure_rank (assessed_level m a) \<le> pressure_rank (assessed_level m b)"
proof -
  have "(of_int a :: rat) \<le> of_int b" using assms by simp
  with assms show ?thesis
    by (auto simp: assessed_level_def pressure_rank_def Let_def)
qed

section \<open>Selection\<close>

fun retention_order :: "retention_class \<Rightarrow> int" where
  "retention_order Required = 0"
| "retention_order Protected = 1"
| "retention_order Budgeted = 2"
| "retention_order DiscardFirst = 3"

definition freshness_rank :: "string \<Rightarrow> int" where
  "freshness_rank v =
     (if v = ''fresh'' then 0 else if v = ''unknown'' then 1 else if v = ''stale'' then 2
      else if v = ''missing'' then 3 else 4)"

definition item_key :: "context_item \<Rightarrow> int \<times> int \<times> int \<times> int \<times> string" where
  "item_key i =
     (retention_order (ci_retention i), - ci_relevance i, freshness_rank (ci_freshness i),
      - ci_recency i, ci_item_id i)"

abbreviation l3_share :: "context_item \<Rightarrow> int" where
  "l3_share i \<equiv> (if ci_layer i = L3 then ci_estimated_tokens i else 0)"

definition select_into :: "context_item \<Rightarrow> context_item list \<times> context_item list
    \<Rightarrow> context_item list \<times> context_item list" where
  "select_into i r = (i # fst r, snd r)"

definition drop_into :: "context_item \<Rightarrow> context_item list \<times> context_item list
    \<Rightarrow> context_item list \<times> context_item list" where
  "drop_into i r = (fst r, i # snd r)"

fun select_loop :: "int \<Rightarrow> int \<Rightarrow> int \<Rightarrow> int \<Rightarrow> context_item list
    \<Rightarrow> (context_item list \<times> context_item list) result" where
  "select_loop l3_limit available used l3_used [] = Inr ([], [])"
| "select_loop l3_limit available used l3_used (i # ranked) =
     (let tokens = ci_estimated_tokens i in
      if ci_layer i = L3 \<and> l3_limit < l3_used + tokens
      then mapE (drop_into i) (select_loop l3_limit available used l3_used ranked)
      else if ci_retention i = Required
      then (if available < used + tokens
            then Inl (ContextBudgetExceededError
                   (''required Context item exceeds budget: '' @ ci_item_id i))
            else mapE (select_into i)
                   (select_loop l3_limit available (used + tokens) (l3_used + l3_share i) ranked))
      else if used + tokens \<le> available
      then mapE (select_into i)
             (select_loop l3_limit available (used + tokens) (l3_used + l3_share i) ranked)
      else mapE (drop_into i) (select_loop l3_limit available used l3_used ranked))"

definition l3_limit :: "budget_manager \<Rightarrow> int" where
  "l3_limit m = effective_tokens m * 10 div 100"

definition select_items :: "budget_manager \<Rightarrow> context_item list \<Rightarrow> int
    \<Rightarrow> (context_item list \<times> context_item list) result" where
  "select_items m items available =
     select_loop (l3_limit m) available 0 0 (sort_key item_key items)"

definition ensure_final_fit :: "budget_manager \<Rightarrow> int \<Rightarrow> unit result" where
  "ensure_final_fit m estimated =
     (if effective_tokens m < estimated
      then Inl (ContextBudgetExceededError
             (''final Context exceeds effective input budget: '' @ str_int estimated @ ''>''
              @ str_int (effective_tokens m)))
      else Inr ())"

section \<open>What a selection keeps\<close>

definition item_tokens :: "context_item list \<Rightarrow> int" where
  "item_tokens xs = (\<Sum>i\<leftarrow>xs. ci_estimated_tokens i)"

definition memory_tokens :: "context_item list \<Rightarrow> int" where
  "memory_tokens xs = (\<Sum>i\<leftarrow>xs. l3_share i)"

lemma item_tokens_simps [simp]:
  "item_tokens [] = 0" "item_tokens (i # xs) = ci_estimated_tokens i + item_tokens xs"
  "memory_tokens [] = 0" "memory_tokens (i # xs) = l3_share i + memory_tokens xs"
  by (simp_all add: item_tokens_def memory_tokens_def)

lemma item_tokens_nonneg:
  "\<forall>i \<in> set xs. 0 \<le> ci_estimated_tokens i \<Longrightarrow> 0 \<le> item_tokens xs \<and> 0 \<le> memory_tokens xs"
  by (induction xs) auto

lemma select_loop_parts:
  "select_loop cap av u l items = Inr (sel, drp) \<Longrightarrow>
   mset items = mset sel + mset drp"
proof (induction cap av u l items arbitrary: sel drp rule: select_loop.induct)
  case (1 cap av u l)
  then show ?case by simp
next
  case (2 cap av u l i items)
  show ?case
    using "2.prems" "2.IH"
    by (fastforce simp: Let_def mapE_eq_Inr select_into_def drop_into_def split: if_splits)
qed

lemma select_loop_within:
  "select_loop cap av u l items = Inr (sel, drp) \<Longrightarrow>
   (u \<le> av \<longrightarrow> u + item_tokens sel \<le> av) \<and> (l \<le> cap \<longrightarrow> l + memory_tokens sel \<le> cap)"
proof (induction cap av u l items arbitrary: sel drp rule: select_loop.induct)
  case (1 cap av u l)
  then show ?case by simp
next
  case (2 cap av u l i items)
  show ?case
    using "2.prems" "2.IH"
    by (fastforce simp: Let_def mapE_eq_Inr select_into_def drop_into_def split: if_splits)
qed

text \<open>Nothing that was left out would still fit.\<close>

lemma select_loop_maximal:
  assumes "\<forall>i \<in> set items. 0 \<le> ci_estimated_tokens i"
    and "select_loop cap av u l items = Inr (sel, drp)" and "d \<in> set drp"
  shows "av < u + item_tokens sel + ci_estimated_tokens d \<or>
         (ci_layer d = L3 \<and> cap < l + memory_tokens sel + ci_estimated_tokens d)"
  using assms
proof (induction cap av u l items arbitrary: sel drp rule: select_loop.induct)
  case (1 cap av u l)
  then show ?case by simp
next
  case (2 cap av u l i items)
  have nn: "0 \<le> item_tokens s \<and> 0 \<le> memory_tokens s"
    if "mset items = mset s + mset t" for s t
  proof -
    have "set s \<subseteq> set items" using that by (metis set_mset_mono mset_subset_eq_add_left set_mset_mset)
    with "2.prems"(1) have "\<forall>x \<in> set s. 0 \<le> ci_estimated_tokens x" by auto
    then show ?thesis by (rule item_tokens_nonneg)
  qed
  have nn': "0 \<le> item_tokens s \<and> 0 \<le> memory_tokens s"
    if "select_loop cap av u' l' items = Inr (s, t)" for s t u' l'
    using nn [of s t] select_loop_parts [OF that] by simp
  show ?case
    using "2.prems" "2.IH" nn'
    by (fastforce simp: Let_def mapE_eq_Inr select_into_def drop_into_def split: if_splits)
qed

lemma select_loop_optional:
  "\<forall>i \<in> set items. ci_retention i \<noteq> Required \<Longrightarrow> \<exists>r. select_loop cap av u l items = Inr r"
  by (induction cap av u l items rule: select_loop.induct) (force simp: Let_def)+

lemma mapE_eq_Inl: "mapE f r = Inl e \<longleftrightarrow> r = Inl e"
  by (cases r) auto

lemma sorted_retention:
  "sorted (map (\<lambda>i. retention_order (ci_retention i)) (sort_key item_key items))"
proof -
  have "sorted_wrt (\<lambda>x y. item_key x \<le> item_key y) (sort_key item_key items)"
    using sorted_sort_key [of item_key items] by (simp add: sorted_map)
  then have "sorted_wrt (\<lambda>x y. retention_order (ci_retention x) \<le> retention_order (ci_retention y))
               (sort_key item_key items)"
    by (rule sorted_wrt_mono_rel [rotated]) (auto simp: item_key_def less_eq_prod_def)
  then show ?thesis by (simp add: sorted_map)
qed

lemma item_tokens_mset: "mset xs = mset ys \<Longrightarrow> item_tokens xs = item_tokens ys"
  unfolding item_tokens_def by (metis mset_map sum_mset_sum_list)

text \<open>A required item is left out only for the share of the memory layer.\<close>

lemma select_loop_dropped_required:
  assumes "\<forall>i \<in> set items. 0 \<le> ci_estimated_tokens i"
    and "select_loop cap av u l items = Inr (sel, drp)" and "d \<in> set drp" and "ci_retention d = Required"
  shows "ci_layer d = L3 \<and> cap < l + memory_tokens sel + ci_estimated_tokens d"
  using assms
proof (induction cap av u l items arbitrary: sel drp rule: select_loop.induct)
  case (1 cap av u l)
  then show ?case by simp
next
  case (2 cap av u l i items)
  have nn: "0 \<le> memory_tokens s" if "select_loop cap av u' l' items = Inr (s, t)" for s t u' l'
  proof -
    have "set s \<subseteq> set items"
      using select_loop_parts [OF that] by (metis set_mset_mono mset_subset_eq_add_left set_mset_mset)
    with "2.prems"(1) have "\<forall>x \<in> set s. 0 \<le> ci_estimated_tokens x" by auto
    then show ?thesis by (rule item_tokens_nonneg [THEN conjunct2])
  qed
  show ?case
    using "2.prems" "2.IH" nn
    by (fastforce simp: Let_def mapE_eq_Inr select_into_def drop_into_def split: if_splits)
qed

lemma select_loop_raised:
  assumes "sorted (map (\<lambda>i. retention_order (ci_retention i)) items)"
    and "\<forall>i \<in> set items. 0 \<le> ci_estimated_tokens i"
    and "select_loop cap av u l items = Inl e"
  shows "av < u + item_tokens (filter (\<lambda>i. ci_retention i = Required) items) \<and>
    (\<exists>i \<in> set items. ci_retention i = Required \<and>
       e = ContextBudgetExceededError (''required Context item exceeds budget: '' @ ci_item_id i))"
  using assms
proof (induction items arbitrary: u l)
  case Nil
  then show ?case by simp
next
  case (Cons i items)
  have nn: "0 \<le> item_tokens (filter (\<lambda>i. ci_retention i = Required) items)" "0 \<le> ci_estimated_tokens i"
    using Cons.prems(2) by (auto intro: item_tokens_nonneg [THEN conjunct1])
  show ?case
  proof (cases "ci_retention i = Required")
    case True
    then show ?thesis
      using Cons.prems Cons.IH nn by (fastforce simp: Let_def mapE_eq_Inl split: if_splits)
  next
    case False
    then have "0 < retention_order (ci_retention i)" by (cases "ci_retention i") auto
    then have "0 < retention_order (ci_retention x)" if "x \<in> set items" for x
      using Cons.prems(1) that by fastforce
    then have "\<forall>x \<in> set (i # items). ci_retention x \<noteq> Required" using False by fastforce
    with select_loop_optional [of "i # items" cap av u l] Cons.prems(3) show ?thesis by auto
  qed
qed

lemma item_tokens_filter_le:
  "\<forall>i \<in> set xs. 0 \<le> ci_estimated_tokens i \<Longrightarrow> item_tokens (filter P xs) \<le> item_tokens xs"
  by (induction xs) auto

text \<open>So what must fit outside the memory layer is within what was selected.\<close>

lemma select_loop_required_fit:
  assumes "\<forall>i \<in> set items. 0 \<le> ci_estimated_tokens i"
    and "select_loop cap av u l items = Inr (sel, drp)" and "u \<le> av"
  shows "u + item_tokens (filter (\<lambda>i. ci_retention i = Required \<and> ci_layer i \<noteq> L3) items) \<le> av"
proof -
  let ?P = "\<lambda>i. ci_retention i = Required \<and> ci_layer i \<noteq> L3"
  have parts: "mset items = mset sel + mset drp" by (rule select_loop_parts [OF assms(2)])
  then have "set sel \<subseteq> set items" by (metis set_mset_mono mset_subset_eq_add_left set_mset_mset)
  then have nn: "\<forall>i \<in> set sel. 0 \<le> ci_estimated_tokens i" using assms(1) by auto
  have "filter ?P drp = []"
    using select_loop_dropped_required [OF assms(1,2)] by (auto simp: filter_empty_conv)
  moreover have "mset (filter ?P items) = mset (filter ?P sel) + mset (filter ?P drp)"
    by (simp add: mset_filter parts)
  ultimately have "mset (filter ?P items) = mset (filter ?P sel)" by simp
  then have "item_tokens (filter ?P items) = item_tokens (filter ?P sel)" by (rule item_tokens_mset)
  also have "\<dots> \<le> item_tokens sel" by (rule item_tokens_filter_le [OF nn])
  finally show ?thesis using select_loop_within [OF assms(2)] assms(3) by simp
qed

lemma select_items_raised:
  assumes "\<forall>i \<in> set items. 0 \<le> ci_estimated_tokens i" and "select_items m items available = Inl e"
  shows "available < item_tokens (filter (\<lambda>i. ci_retention i = Required) items) \<and>
    (\<exists>i \<in> set items. ci_retention i = Required \<and>
       e = ContextBudgetExceededError (''required Context item exceeds budget: '' @ ci_item_id i))"
proof -
  let ?s = "sort_key item_key items" and ?req = "filter (\<lambda>i. ci_retention i = Required)"
  have s: "select_loop (l3_limit m) available 0 0 ?s = Inl e" using assms(2) by (simp add: select_items_def)
  have nn: "\<forall>i \<in> set ?s. 0 \<le> ci_estimated_tokens i" using assms(1) by simp
  have "item_tokens (?req ?s) = item_tokens (?req items)" by (rule item_tokens_mset) simp
  with select_loop_raised [OF sorted_retention nn s] show ?thesis by (simp only: set_sort add_0)
qed

lemma select_items_selected:
  assumes "0 \<le> available" and "0 \<le> effective_tokens m"
    and "\<forall>i \<in> set items. 0 \<le> ci_estimated_tokens i"
    and "select_items m items available = Inr (selected, dropped)"
  shows "item_tokens (filter (\<lambda>i. ci_retention i = Required \<and> ci_layer i \<noteq> L3) items) \<le> available"
    and "mset items = mset selected + mset dropped"
    and "item_tokens selected \<le> available" and "memory_tokens selected \<le> l3_limit m"
    and "d \<in> set dropped \<Longrightarrow> available < item_tokens selected + ci_estimated_tokens d \<or>
           (ci_layer d = L3 \<and> l3_limit m < memory_tokens selected + ci_estimated_tokens d)"
    and "d \<in> set dropped \<Longrightarrow> ci_retention d = Required \<Longrightarrow>
           ci_layer d = L3 \<and> l3_limit m < memory_tokens selected + ci_estimated_tokens d"
proof -
  let ?s = "sort_key item_key items" and ?P = "\<lambda>i. ci_retention i = Required \<and> ci_layer i \<noteq> L3"
  have s: "select_loop (l3_limit m) available 0 0 ?s = Inr (selected, dropped)"
    using assms(4) by (simp add: select_items_def)
  have nn: "\<forall>i \<in> set ?s. 0 \<le> ci_estimated_tokens i" using assms(3) by simp
  have "item_tokens (filter ?P ?s) = item_tokens (filter ?P items)" by (rule item_tokens_mset) simp
  then show "item_tokens (filter ?P items) \<le> available"
    using select_loop_required_fit [OF nn s assms(1)] by simp
  show "mset items = mset selected + mset dropped" using select_loop_parts [OF s] by simp
  have "0 \<le> l3_limit m" using assms(2) by (simp add: l3_limit_def)
  then show "item_tokens selected \<le> available" "memory_tokens selected \<le> l3_limit m"
    using select_loop_within [OF s] assms(1) by simp_all
  show "available < item_tokens selected + ci_estimated_tokens d \<or>
      (ci_layer d = L3 \<and> l3_limit m < memory_tokens selected + ci_estimated_tokens d)" if "d \<in> set dropped"
    using select_loop_maximal [OF nn s that] by simp
  show "ci_layer d = L3 \<and> l3_limit m < memory_tokens selected + ci_estimated_tokens d"
    if "d \<in> set dropped" "ci_retention d = Required"
    using select_loop_dropped_required [OF nn s that] by simp
qed

lemma select_items_raises_iff:
  assumes "0 \<le> available" and "0 \<le> effective_tokens m"
    and "\<forall>i \<in> set items. 0 \<le> ci_estimated_tokens i"
    and "\<forall>i \<in> set items. ci_retention i = Required \<longrightarrow> ci_layer i \<noteq> L3"
  shows "(\<exists>e. select_items m items available = Inl e) \<longleftrightarrow>
    available < item_tokens (filter (\<lambda>i. ci_retention i = Required) items)"
proof -
  have same: "filter (\<lambda>i. ci_retention i = Required \<and> ci_layer i \<noteq> L3) items =
      filter (\<lambda>i. ci_retention i = Required) items"
    using assms(4) by (intro filter_cong) auto
  show ?thesis
  proof (cases "select_items m items available")
    case (Inl e)
    then show ?thesis using select_items_raised [OF assms(3) Inl] by simp
  next
    case (Inr parts)
    then obtain sel drp where "select_items m items available = Inr (sel, drp)" by (cases parts) auto
    from select_items_selected(1) [OF assms(1-3) this] show ?thesis by (simp add: Inr same)
  qed
qed

end
