(* ===== verification/Context_Summary.thy ===== *)
theory Context_Summary
  imports Context_Contracts
begin

text \<open>
  The compact summary of \<^verbatim>\<open>src/codepilot/sessions/context/contracts.py\<close> with its stored form
  and its rendering, the reference to a stored snapshot, the checkpoint of the context and
  the request and answer of the summarizer.
\<close>

section \<open>The compact summary\<close>

record compact_summary =
  csum_original_goal :: string
  csum_user_constraints :: "string list"
  csum_decisions :: "string list"
  csum_completed_work :: "string list"
  csum_files_and_symbols :: "string list"
  csum_important_evidence :: "string list"
  csum_errors_and_resolutions :: "string list"
  csum_verification_state :: string
  csum_open_questions :: "string list"
  csum_next_actions :: "string list"
  csum_source_refs :: "string list"

definition compact_summary_post_init :: "compact_summary \<Rightarrow> compact_summary result" where
  "compact_summary_post_init s =
     bindE (ctx_required_text (PStr (csum_original_goal s)) ''original goal'') (\<lambda>goal.
     bindE (ctx_texts (csum_user_constraints s) ''user_constraints'') (\<lambda>constraints.
     bindE (ctx_texts (csum_decisions s) ''decisions'') (\<lambda>decisions.
     bindE (ctx_texts (csum_completed_work s) ''completed_work'') (\<lambda>completed.
     bindE (ctx_texts (csum_files_and_symbols s) ''files_and_symbols'') (\<lambda>files.
     bindE (ctx_texts (csum_important_evidence s) ''important_evidence'') (\<lambda>evidence.
     bindE (ctx_texts (csum_errors_and_resolutions s) ''errors_and_resolutions'') (\<lambda>errors.
     bindE (ctx_texts (csum_open_questions s) ''open_questions'') (\<lambda>questions.
     bindE (ctx_texts (csum_next_actions s) ''next_actions'') (\<lambda>actions.
     bindE (ctx_texts (csum_source_refs s) ''source_refs'') (\<lambda>refs.
     if refs = [] then Inl (ValueError ''compact summary requires source refs'')
     else Inr
       \<lparr>csum_original_goal = goal, csum_user_constraints = constraints,
        csum_decisions = decisions, csum_completed_work = completed,
        csum_files_and_symbols = files, csum_important_evidence = evidence,
        csum_errors_and_resolutions = errors,
        csum_verification_state = py_strip (csum_verification_state s),
        csum_open_questions = questions, csum_next_actions = actions,
        csum_source_refs = refs\<rparr>))))))))))"

definition wf_compact_summary :: "compact_summary \<Rightarrow> bool" where
  "wf_compact_summary s \<longleftrightarrow>
     canon_text py_strip (csum_original_goal s) \<and>
     clean_texts (csum_user_constraints s) \<and> clean_texts (csum_decisions s) \<and>
     clean_texts (csum_completed_work s) \<and> clean_texts (csum_files_and_symbols s) \<and>
     clean_texts (csum_important_evidence s) \<and> clean_texts (csum_errors_and_resolutions s) \<and>
     py_strip (csum_verification_state s) = csum_verification_state s \<and>
     clean_texts (csum_open_questions s) \<and> clean_texts (csum_next_actions s) \<and>
     clean_texts (csum_source_refs s) \<and> csum_source_refs s \<noteq> []"

definition compact_summary_to_mapping :: "compact_summary \<Rightarrow> dict" where
  "compact_summary_to_mapping s =
     [(''original_goal'', PStr (csum_original_goal s)),
      (''user_constraints'', PList (map PStr (csum_user_constraints s))),
      (''decisions'', PList (map PStr (csum_decisions s))),
      (''completed_work'', PList (map PStr (csum_completed_work s))),
      (''files_and_symbols'', PList (map PStr (csum_files_and_symbols s))),
      (''important_evidence'', PList (map PStr (csum_important_evidence s))),
      (''errors_and_resolutions'', PList (map PStr (csum_errors_and_resolutions s))),
      (''verification_state'', PStr (csum_verification_state s)),
      (''open_questions'', PList (map PStr (csum_open_questions s))),
      (''next_actions'', PList (map PStr (csum_next_actions s))),
      (''source_refs'', PList (map PStr (csum_source_refs s)))]"

definition compact_summary_fields :: "string list" where
  "compact_summary_fields =
     [''original_goal'', ''user_constraints'', ''decisions'', ''completed_work'',
      ''files_and_symbols'', ''important_evidence'', ''errors_and_resolutions'',
      ''verification_state'', ''open_questions'', ''next_actions'', ''source_refs'']"

definition compact_summary_from_mapping :: "dict \<Rightarrow> compact_summary result" where
  "compact_summary_from_mapping raw =
     bindE (ctx_reject_unknown raw compact_summary_fields ''compact summary'') (\<lambda>_.
     bindE (ctx_required_text (dget raw ''original_goal'') ''original goal'') (\<lambda>goal.
     bindE (ctx_text_tuple (dget raw ''user_constraints'')) (\<lambda>constraints.
     bindE (ctx_text_tuple (dget raw ''decisions'')) (\<lambda>decisions.
     bindE (ctx_text_tuple (dget raw ''completed_work'')) (\<lambda>completed.
     bindE (ctx_text_tuple (dget raw ''files_and_symbols'')) (\<lambda>files.
     bindE (ctx_text_tuple (dget raw ''important_evidence'')) (\<lambda>evidence.
     bindE (ctx_text_tuple (dget raw ''errors_and_resolutions'')) (\<lambda>errors.
     bindE (ctx_text_tuple (dget raw ''open_questions'')) (\<lambda>questions.
     bindE (ctx_text_tuple (dget raw ''next_actions'')) (\<lambda>actions.
     bindE (ctx_text_tuple (dget raw ''source_refs'')) (\<lambda>refs.
     compact_summary_post_init
       \<lparr>csum_original_goal = goal, csum_user_constraints = constraints,
        csum_decisions = decisions, csum_completed_work = completed,
        csum_files_and_symbols = files, csum_important_evidence = evidence,
        csum_errors_and_resolutions = errors,
        csum_verification_state = ctx_text_or_empty (dget raw ''verification_state''),
        csum_open_questions = questions, csum_next_actions = actions,
        csum_source_refs = refs\<rparr>)))))))))))"

definition render_section :: "string \<Rightarrow> string list \<Rightarrow> string list" where
  "render_section title ts = (if ts = [] then [] else [title @ '': '' @ py_join ''; '' ts])"

definition compact_summary_render :: "compact_summary \<Rightarrow> string" where
  "compact_summary_render s =
     py_join ''\<newline>''
       ([''Original goal: '' @ csum_original_goal s] @
        render_section ''User constraints'' (csum_user_constraints s) @
        render_section ''Decisions'' (csum_decisions s) @
        render_section ''Completed work'' (csum_completed_work s) @
        render_section ''Files and symbols'' (csum_files_and_symbols s) @
        render_section ''Important evidence'' (csum_important_evidence s) @
        render_section ''Errors and resolutions'' (csum_errors_and_resolutions s) @
        render_section ''Open questions'' (csum_open_questions s) @
        render_section ''Next actions'' (csum_next_actions s) @
        render_section ''Source refs'' (csum_source_refs s) @
        (if csum_verification_state s = [] then []
         else [''Verification state: '' @ csum_verification_state s]))"

lemma compact_summary_eta [simp]:
  "\<lparr>csum_original_goal = csum_original_goal x,
    csum_user_constraints = csum_user_constraints x,
    csum_decisions = csum_decisions x,
    csum_completed_work = csum_completed_work x,
    csum_files_and_symbols = csum_files_and_symbols x,
    csum_important_evidence = csum_important_evidence x,
    csum_errors_and_resolutions = csum_errors_and_resolutions x,
    csum_verification_state = csum_verification_state x,
    csum_open_questions = csum_open_questions x,
    csum_next_actions = csum_next_actions x,
    csum_source_refs = csum_source_refs x\<rparr> = (x :: compact_summary)"
  by simp

lemma compact_summary_post_init_Inr:
  "compact_summary_post_init s = Inr t \<Longrightarrow> wf_compact_summary t"
  by (auto simp: compact_summary_post_init_def wf_compact_summary_def bindE_eq_Inr
      dest: ctx_required_text_canon ctx_texts_clean)

lemma compact_summary_post_init_wf:
  assumes "wf_compact_summary s"
  shows "compact_summary_post_init s = Inr s"
proof -
  have t: "clean_texts ts \<Longrightarrow> ctx_texts ts f = Inr ts" for ts f by simp
  have g: "ctx_required_text (PStr (csum_original_goal s)) f = Inr (csum_original_goal s)" for f
    using assms by (simp add: wf_compact_summary_def)
  show ?thesis
    using assms unfolding wf_compact_summary_def
    by (simp add: compact_summary_post_init_def g t)
qed

lemma compact_summary_decode_encode:
  assumes "wf_compact_summary s"
  shows "compact_summary_from_mapping (compact_summary_to_mapping s) = Inr s"
proof -
  have g: "ctx_required_text (PStr (csum_original_goal s)) f = Inr (csum_original_goal s)" for f
    using assms by (simp add: wf_compact_summary_def)
  have u: "ctx_reject_unknown (compact_summary_to_mapping s) compact_summary_fields w = Inr ()" for w
    by (rule ctx_reject_unknown_ok)
       (simp add: compact_summary_to_mapping_def compact_summary_fields_def)
  have t: "clean_texts ts \<Longrightarrow> ctx_text_tuple (PList (map PStr ts)) = Inr ts" for ts
    by (rule ctx_text_tuple_fix)
  have "compact_summary_from_mapping (compact_summary_to_mapping s) = compact_summary_post_init s"
    using assms unfolding wf_compact_summary_def
    by (simp add: compact_summary_from_mapping_def u)
       (simp add: compact_summary_to_mapping_def g t)
  with assms show ?thesis by (simp add: compact_summary_post_init_wf)
qed

lemma compact_summary_decode_wf:
  "compact_summary_from_mapping d = Inr s \<Longrightarrow> wf_compact_summary s"
  by (auto simp: compact_summary_from_mapping_def bindE_eq_Inr
      dest: compact_summary_post_init_Inr)

interpretation compact_summary: dataclass_codec wf_compact_summary compact_summary_post_init
  compact_summary_to_mapping compact_summary_from_mapping
  by unfold_locales
     (simp_all add: compact_summary_post_init_Inr compact_summary_post_init_wf
       compact_summary_decode_encode compact_summary_decode_wf)

section \<open>Snapshots\<close>

record compact_snapshot_ref =
  csn_compact_id :: string
  csn_path :: string
  csn_compacted_until_message_id :: string
  csn_source_digest :: string
  csn_estimated_tokens_before :: int
  csn_estimated_tokens_after :: int

definition compact_snapshot_ref_post_init ::
  "compact_snapshot_ref \<Rightarrow> compact_snapshot_ref result" where
  "compact_snapshot_ref_post_init s =
     bindE (ctx_required_text (PStr (csn_compact_id s)) ''compact_id'') (\<lambda>compact_id.
     bindE (ctx_required_text (PStr (csn_path s)) ''path'') (\<lambda>path.
     bindE (ctx_required_text (PStr (csn_compacted_until_message_id s))
              ''compacted_until_message_id'') (\<lambda>until.
     bindE (ctx_required_text (PStr (csn_source_digest s)) ''source_digest'') (\<lambda>digest.
     if csn_estimated_tokens_before s < 0 \<or> csn_estimated_tokens_after s < 0
     then Inl (ValueError ''snapshot token counts must be non-negative'')
     else Inr (s\<lparr>csn_compact_id := compact_id, csn_path := path,
                 csn_compacted_until_message_id := until, csn_source_digest := digest\<rparr>)))))"

definition wf_compact_snapshot_ref :: "compact_snapshot_ref \<Rightarrow> bool" where
  "wf_compact_snapshot_ref s \<longleftrightarrow>
     canon_text py_strip (csn_compact_id s) \<and> canon_text py_strip (csn_path s) \<and>
     canon_text py_strip (csn_compacted_until_message_id s) \<and>
     canon_text py_strip (csn_source_digest s) \<and>
     0 \<le> csn_estimated_tokens_before s \<and> 0 \<le> csn_estimated_tokens_after s"

definition compact_snapshot_fields :: "string list" where
  "compact_snapshot_fields =
     [''compact_id'', ''path'', ''compacted_until_message_id'', ''source_digest'',
      ''estimated_tokens_before'', ''estimated_tokens_after'']"

text \<open>The \<^verbatim>\<open>snapshot\<close> part of the payload of \<^verbatim>\<open>_write_snapshot\<close>.\<close>

definition snapshot_to_mapping :: "compact_snapshot_ref \<Rightarrow> dict" where
  "snapshot_to_mapping s =
     [(''compact_id'', PStr (csn_compact_id s)),
      (''path'', PStr (csn_path s)),
      (''compacted_until_message_id'', PStr (csn_compacted_until_message_id s)),
      (''source_digest'', PStr (csn_source_digest s)),
      (''estimated_tokens_before'', PInt (csn_estimated_tokens_before s)),
      (''estimated_tokens_after'', PInt (csn_estimated_tokens_after s))]"

definition snapshot_from_mapping :: "dict \<Rightarrow> compact_snapshot_ref result" where
  "snapshot_from_mapping raw =
     (if set (map fst raw) \<noteq> set compact_snapshot_fields
      then Inl (ValueError ''compact snapshot reference fields are invalid'')
      else
      bindE (py_int (dget raw ''estimated_tokens_before'')) (\<lambda>before.
      bindE (py_int (dget raw ''estimated_tokens_after'')) (\<lambda>after.
      compact_snapshot_ref_post_init
        \<lparr>csn_compact_id = py_str (dget raw ''compact_id''),
         csn_path = py_str (dget raw ''path''),
         csn_compacted_until_message_id = py_str (dget raw ''compacted_until_message_id''),
         csn_source_digest = py_str (dget raw ''source_digest''),
         csn_estimated_tokens_before = before, csn_estimated_tokens_after = after\<rparr>)))"

lemma compact_snapshot_ref_eta [simp]:
  "\<lparr>csn_compact_id = csn_compact_id x,
    csn_path = csn_path x,
    csn_compacted_until_message_id = csn_compacted_until_message_id x,
    csn_source_digest = csn_source_digest x,
    csn_estimated_tokens_before = csn_estimated_tokens_before x,
    csn_estimated_tokens_after = csn_estimated_tokens_after x\<rparr> = (x :: compact_snapshot_ref)"
  by simp

lemma compact_snapshot_ref_post_init_Inr:
  "compact_snapshot_ref_post_init s = Inr t \<Longrightarrow> wf_compact_snapshot_ref t"
  by (auto simp: compact_snapshot_ref_post_init_def wf_compact_snapshot_ref_def bindE_eq_Inr
      dest: ctx_required_text_canon split: if_splits)

lemma compact_snapshot_ref_post_init_wf:
  "wf_compact_snapshot_ref s \<Longrightarrow> compact_snapshot_ref_post_init s = Inr s"
  by (cases s) (simp add: compact_snapshot_ref_post_init_def wf_compact_snapshot_ref_def
      ctx_required_text_def required_text_fix)

interpretation compact_snapshot: dataclass_codec wf_compact_snapshot_ref
  compact_snapshot_ref_post_init snapshot_to_mapping snapshot_from_mapping
proof unfold_locales
  fix x y assume "compact_snapshot_ref_post_init x = Inr y"
  then show "wf_compact_snapshot_ref y" by (rule compact_snapshot_ref_post_init_Inr)
next
  fix x assume w: "wf_compact_snapshot_ref x"
  then show p: "compact_snapshot_ref_post_init x = Inr x"
    by (rule compact_snapshot_ref_post_init_wf)
  have "set (map fst (snapshot_to_mapping x)) = set compact_snapshot_fields"
    by (simp add: snapshot_to_mapping_def compact_snapshot_fields_def)
  with p show "snapshot_from_mapping (snapshot_to_mapping x) = Inr x"
    by (simp add: snapshot_from_mapping_def snapshot_to_mapping_def)
next
  fix d x assume "snapshot_from_mapping d = Inr x"
  then show "wf_compact_snapshot_ref x"
    by (auto simp: snapshot_from_mapping_def bindE_eq_Inr
        dest: compact_snapshot_ref_post_init_Inr split: if_splits)
qed

section \<open>The checkpoint\<close>

record context_checkpoint =
  cc_compact_snapshot_ref :: "string option"
  cc_compacted_until_message_id :: "string option"

definition opt_str :: "string option \<Rightarrow> pyval" where
  "opt_str t = (case t of None \<Rightarrow> PNone | Some s \<Rightarrow> PStr s)"

definition context_checkpoint_post_init :: "context_checkpoint \<Rightarrow> context_checkpoint" where
  "context_checkpoint_post_init c =
     \<lparr>cc_compact_snapshot_ref = ctx_optional_text (opt_str (cc_compact_snapshot_ref c)),
      cc_compacted_until_message_id =
        ctx_optional_text (opt_str (cc_compacted_until_message_id c))\<rparr>"

definition context_checkpoint_to_mapping :: "context_checkpoint \<Rightarrow> dict" where
  "context_checkpoint_to_mapping c =
     [(''compact_snapshot_ref'', opt_str (cc_compact_snapshot_ref c)),
      (''compacted_until_message_id'', opt_str (cc_compacted_until_message_id c))]"

definition context_checkpoint_from_mapping :: "dict \<Rightarrow> context_checkpoint result" where
  "context_checkpoint_from_mapping raw =
     bindE (ctx_reject_unknown raw [''compact_snapshot_ref'', ''compacted_until_message_id'']
              ''context checkpoint'') (\<lambda>_.
     Inr (context_checkpoint_post_init
       \<lparr>cc_compact_snapshot_ref = ctx_optional_text (dget raw ''compact_snapshot_ref''),
        cc_compacted_until_message_id =
          ctx_optional_text (dget raw ''compacted_until_message_id'')\<rparr>))"

definition wf_context_checkpoint :: "context_checkpoint \<Rightarrow> bool" where
  "wf_context_checkpoint c \<longleftrightarrow>
     (\<forall>t \<in> set_option (cc_compact_snapshot_ref c). canon_text py_strip t) \<and>
     (\<forall>t \<in> set_option (cc_compacted_until_message_id c). canon_text py_strip t)"

lemma ctx_optional_text_opt [simp]:
  "(\<forall>u \<in> set_option t. canon_text py_strip u) \<Longrightarrow> ctx_optional_text (opt_str t) = t"
  by (cases t) (simp_all add: opt_str_def ctx_optional_text_def optional_text_fix)

lemma ctx_optional_text_canon:
  "ctx_optional_text v = Some t \<Longrightarrow> canon_text py_strip t"
  by (simp add: ctx_optional_text_def strip.optional_text_canon)

interpretation context_checkpoint: record_codec wf_context_checkpoint
  context_checkpoint_to_mapping context_checkpoint_from_mapping
proof unfold_locales
  fix x assume "wf_context_checkpoint x"
  then show "context_checkpoint_from_mapping (context_checkpoint_to_mapping x) = Inr x"
    by (cases x) (simp add: context_checkpoint_from_mapping_def context_checkpoint_to_mapping_def
        context_checkpoint_post_init_def wf_context_checkpoint_def)
next
  fix d x assume "context_checkpoint_from_mapping d = Inr x"
  then show "wf_context_checkpoint x"
    by (auto simp: context_checkpoint_from_mapping_def context_checkpoint_post_init_def
        wf_context_checkpoint_def bindE_eq_Inr dest: ctx_optional_text_canon)
qed

section \<open>The summarizer's request and answer\<close>

record context_summary_request =
  sreq_messages :: "message list"
  sreq_original_goal :: string
  sreq_previous_summary :: "compact_summary option"

definition context_summary_request_post_init ::
  "context_summary_request \<Rightarrow> context_summary_request result" where
  "context_summary_request_post_init r =
     (if sreq_messages r = [] then Inl (ValueError ''summary messages cannot be empty'')
      else bindE (ctx_required_text (PStr (sreq_original_goal r)) ''original goal'') (\<lambda>goal.
           Inr (r\<lparr>sreq_original_goal := goal\<rparr>)))"

record context_summary_result =
  sres_summary :: compact_summary
  sres_compacted_until_message_id :: string

definition context_summary_result_post_init ::
  "context_summary_result \<Rightarrow> context_summary_result result" where
  "context_summary_result_post_init r =
     bindE (ctx_required_text (PStr (sres_compacted_until_message_id r))
              ''compacted_until_message_id'') (\<lambda>until.
     Inr (r\<lparr>sres_compacted_until_message_id := until\<rparr>))"

end
