(* ===== verification/Context_Repository.thy ===== *)
theory Context_Repository
  imports Py_Paths Core_State
begin

text \<open>
  Snapshots of the repository and their differences: \<^verbatim>\<open>compare_snapshots\<close> and
  \<^verbatim>\<open>repository_summary\<close> of \<^verbatim>\<open>src/codepilot/sessions/context/state.py\<close> on the records of
  \<^verbatim>\<open>src/codepilot/protocols/context.py\<close>. How a snapshot is collected (git, hashes of files) is
  input and output and not modelled.
\<close>

record repository_snapshot =
  rs_workspace_root :: string
  rs_project_type :: "string option"
  rs_manifest_files :: "string list"
  rs_top_level_entries :: "string list"
  rs_test_directories :: "string list"
  rs_instruction_files :: "string list"
  rs_branch :: "string option"
  rs_head_sha :: "string option"
  rs_git_status :: "string list"
  rs_fingerprint :: string
  rs_instruction_hashes :: "(string \<times> string) list"
  rs_dirty_path_hashes :: "(string \<times> string) list"

record repository_delta =
  rd_added_paths :: "string list"
  rd_modified_paths :: "string list"
  rd_deleted_paths :: "string list"
  rd_branch_changed :: bool
  rd_head_changed :: bool
  rd_instructions_changed :: bool

definition empty_delta :: repository_delta where
  "empty_delta = \<lparr>rd_added_paths = [], rd_modified_paths = [], rd_deleted_paths = [],
     rd_branch_changed = False, rd_head_changed = False, rd_instructions_changed = False\<rparr>"

definition delta_changed :: "repository_delta \<Rightarrow> bool" where
  "delta_changed d \<longleftrightarrow>
     rd_added_paths d \<noteq> [] \<or> rd_modified_paths d \<noteq> [] \<or> rd_deleted_paths d \<noteq> [] \<or>
     rd_branch_changed d \<or> rd_head_changed d \<or> rd_instructions_changed d"

definition is_internal_path :: "string \<Rightarrow> bool" where
  "is_internal_path p =
     list_ex (\<lambda>part. part \<in> {''.git'', ''.codepilot'', ''.pytest_cache'', ''__pycache__''})
       (path_parts p)"

definition slashes :: "string \<Rightarrow> string" where
  "slashes s = map (\<lambda>c. if c = CHR 0x5C then CHR ''/'' else c) s"

text \<open>The path and the two status letters of a line of \<^verbatim>\<open>git status --porcelain\<close>; a repeated
  path keeps its place and takes the last letters.\<close>

definition status_map :: "string list \<Rightarrow> (string \<times> string) list" where
  "status_map lines =
     dict_of (map (\<lambda>l. (slashes (py_strip (drop 3 l)), take 2 l))
       (filter (\<lambda>l. 4 \<le> length l) lines))"

text \<open>Equality of two dictionaries does not see the order of their keys.\<close>

definition same_dict :: "(string \<times> string) list \<Rightarrow> (string \<times> string) list \<Rightarrow> bool" where
  "same_dict d e =
     (list_all (\<lambda>(k, v). map_of e k = map_of d k) d \<and>
      list_all (\<lambda>(k, v). map_of d k = map_of e k) e)"

definition compare_snapshots ::
  "repository_snapshot option \<Rightarrow> repository_snapshot \<Rightarrow> repository_delta" where
  "compare_snapshots previous current =
     (case previous of
        None \<Rightarrow> empty_delta
      | Some old \<Rightarrow>
         (let old_status = status_map (rs_git_status old);
              new_status = status_map (rs_git_status current);
              modified = sort (map fst (filter (\<lambda>(path, status).
                status \<noteq> ''??'' \<and> \<not> is_internal_path path \<and>
                (map_of old_status path \<noteq> Some status \<or>
                 map_of (rs_dirty_path_hashes old) path
                   \<noteq> map_of (rs_dirty_path_hashes current) path)) new_status));
              old_paths = rs_top_level_entries old;
              new_paths = rs_top_level_entries current
          in \<lparr>rd_added_paths = sorted_set
                (filter (\<lambda>p. p \<notin> set old_paths) new_paths @
                 map fst (filter (\<lambda>(path, status). status = ''??'') new_status)),
              rd_modified_paths = modified,
              rd_deleted_paths = sorted_set
                (map fst (filter (\<lambda>(path, status).
                   CHR ''D'' \<in> set status \<and> \<not> is_internal_path path) new_status) @
                 filter (\<lambda>p. p \<notin> set new_paths \<and> \<not> is_internal_path p) old_paths),
              rd_branch_changed = (rs_branch old \<noteq> rs_branch current),
              rd_head_changed = (rs_head_sha old \<noteq> rs_head_sha current),
              rd_instructions_changed =
                (\<not> same_dict (rs_instruction_hashes old) (rs_instruction_hashes current))\<rparr>))"

definition or_text :: "string \<Rightarrow> string \<Rightarrow> string" where
  "or_text s d = (if s = [] then d else s)"

definition or_name :: "string option \<Rightarrow> string \<Rightarrow> string" where
  "or_name s d = (case s of None \<Rightarrow> d | Some t \<Rightarrow> or_text t d)"

definition repository_summary :: "repository_snapshot \<Rightarrow> repository_delta \<Rightarrow> string" where
  "repository_summary s d =
     py_join ''\<newline>''
       ([''Repository fingerprint: '' @ take 12 (rs_fingerprint s),
         ''Project type: '' @ or_name (rs_project_type s) ''unknown'',
         ''Manifests: '' @ or_text (py_join '', '' (rs_manifest_files s)) ''(none)'',
         ''Top-level: '' @ or_text (py_join '', '' (rs_top_level_entries s)) ''(empty)'',
         ''Tests: '' @ or_text (py_join '', '' (rs_test_directories s)) ''(none)'',
         ''Git branch: '' @ or_name (rs_branch s) ''unknown''] @
        (if delta_changed d
         then [''Added: '' @ or_text (py_join '', '' (rd_added_paths d)) ''(none)'',
               ''Modified: '' @ or_text (py_join '', '' (rd_modified_paths d)) ''(none)'',
               ''Deleted: '' @ or_text (py_join '', '' (rd_deleted_paths d)) ''(none)'']
         else []))"

section \<open>When nothing changed\<close>

lemma map_of_same_dict: "same_dict d e \<longleftrightarrow> map_of d = map_of e"
proof
  assume s: "same_dict d e"
  show "map_of d = map_of e"
  proof
    fix k
    have "map_of e k = map_of d k" if "k \<in> fst ` set d \<or> k \<in> fst ` set e"
      using s that by (auto simp: same_dict_def list_all_iff)
    moreover have "map_of e k = map_of d k" if "\<not> (k \<in> fst ` set d \<or> k \<in> fst ` set e)"
      using that by (simp add: map_of_eq_None_iff [THEN iffD2])
    ultimately show "map_of d k = map_of e k" by metis
  qed
qed (auto simp: same_dict_def list_all_iff)

lemma distinct_status_map: "distinct (map fst (status_map lines))"
proof -
  have "distinct (map fst (fold (\<lambda>(k, v). AList.update k v) kvs d))"
    if "distinct (map fst d)" for kvs d :: "(string \<times> string) list"
    using that by (induction kvs arbitrary: d) (auto intro: distinct_update)
  then show ?thesis by (simp add: status_map_def dict_of_def)
qed

text \<open>Between equal snapshots the delta has only what is untracked or deleted in both.\<close>

lemma compare_same_modified: "rd_modified_paths (compare_snapshots (Some s) s) = []"
proof -
  have k: "map_of (status_map (rs_git_status s)) p = Some st"
    if "(p, st) \<in> set (status_map (rs_git_status s))" for p st
    using that distinct_status_map by (rule map_of_is_SomeI [rotated])
  have "filter (\<lambda>(path, status). status \<noteq> ''??'' \<and> \<not> is_internal_path path \<and>
          map_of (status_map (rs_git_status s)) path \<noteq> Some status)
          (status_map (rs_git_status s)) = []"
    unfolding filter_empty_conv using k by fast
  then show ?thesis by (simp add: compare_snapshots_def Let_def)
qed

lemma sorted_set_Nil [simp]: "sorted_set xs = [] \<longleftrightarrow> xs = []"
  by (metis sorted_set_def remdups_eq_nil_iff set_empty set_sort sort_key_simps(1))

lemma compare_same_changed:
  "delta_changed (compare_snapshots (Some s) s) \<longleftrightarrow>
   (\<exists>(path, status) \<in> set (status_map (rs_git_status s)).
      status = ''??'' \<or> (CHR ''D'' \<in> set status \<and> \<not> is_internal_path path))"
proof -
  have "same_dict (rs_instruction_hashes s) (rs_instruction_hashes s)"
    by (simp add: map_of_same_dict)
  then show ?thesis
    using compare_same_modified [of s]
    by (auto simp: delta_changed_def compare_snapshots_def Let_def filter_empty_conv)
qed

end
