(* ===== verification/Context_State.thy ===== *)
theory Context_State
  imports Context_Repository Conversation "HOL-Library.Product_Lexorder" "HOL-Library.Multiset"
begin

text \<open>
  The working set of a session, \<^verbatim>\<open>src/codepilot/sessions/context/state.py\<close>: the active files
  and the evidence that tool results leave, their invalidation by changes and their freshness.
  Parameters: the SHA-256 of a text, the readings of the clock (only compared), and what the
  file system says of a path. The state counts the readings it has taken.
\<close>

section \<open>Messages as evidence\<close>

fun message_metadata :: "message \<Rightarrow> dict" where
  "message_metadata (UserMessage u) = um_metadata u"
| "message_metadata (AssistantMessage a) = am_metadata a"
| "message_metadata (ToolResultMessage r) = trm_metadata r"

definition session_message_id :: "message \<Rightarrow> string option" where
  "session_message_id m = optional_text py_strip (dget (message_metadata m) ''session_message_id'')"

definition evidence_source_ref :: "tool_result_message \<Rightarrow> string" where
  "evidence_source_ref r =
     (case session_message_id (ToolResultMessage r) of
        Some i \<Rightarrow> ''message:'' @ i
      | None \<Rightarrow> ''tool:'' @ trm_tool_call_id r)"

fun block_texts :: "content_block list \<Rightarrow> string list" where
  "block_texts [] = []"
| "block_texts (TextBlock s _ # bs) = (if s = [] then block_texts bs else s # block_texts bs)"
| "block_texts (_ # bs) = block_texts bs"

definition tool_text :: "tool_result_message \<Rightarrow> string" where
  "tool_text r = py_join ''\<newline>'' (block_texts (trm_content r))"

text \<open>\<^verbatim>\<open>str(d.get(key) or "")\<close>.\<close>

definition str_or_empty :: "pyval \<Rightarrow> string" where
  "str_or_empty v = (if py_truth v then py_str v else [])"

definition details_dict :: "tool_result_message \<Rightarrow> dict option" where
  "details_dict r = (case trm_details r of PDict d \<Rightarrow> Some d | _ \<Rightarrow> None)"

definition message_paths :: "tool_result_message \<Rightarrow> string list" where
  "message_paths r =
     (let affected = filter (\<lambda>p. py_strip p \<noteq> []) (trm_affected_paths r);
          detail = (if trm_tool_name r = ''read''
                    then (case details_dict r of
                            None \<Rightarrow> []
                          | Some d \<Rightarrow> (let p = py_strip (str_or_empty (dget d ''path'')) in
                                     if p = [] then [] else [p]))
                    else []);
          read = (case dget (trm_metadata r) ''read_paths'' of
                    PList xs \<Rightarrow> filter (\<lambda>p. py_strip p \<noteq> []) (map py_str xs)
                  | _ \<Rightarrow> [])
      in dedup (map as_posix (affected @ detail @ read)))"

definition file_hash_from_message :: "tool_result_message \<Rightarrow> string \<Rightarrow> string option" where
  "file_hash_from_message r path =
     (case (case dget (trm_metadata r) ''file_state'' of PDict d \<Rightarrow> Some d | _ \<Rightarrow> details_dict r) of
        Some d \<Rightarrow> if str_or_empty (dget d ''path'') = path
                  then optional_text py_strip (dget d ''sha256'') else None
      | None \<Rightarrow> None)"

definition is_read :: "tool_result_message \<Rightarrow> bool" where
  "is_read r \<longleftrightarrow> py_lower (trm_tool_name r) \<in> {''read'', ''read_file'', ''view'', ''cat''}"

definition changed_workspace :: "tool_result_message \<Rightarrow> bool" where
  "changed_workspace r \<longleftrightarrow> trm_workspace_changed r = Some True"

definition has_verification :: "tool_result_message \<Rightarrow> bool" where
  "has_verification r \<longleftrightarrow> (case trm_verification r of None \<Rightarrow> False | Some d \<Rightarrow> d \<noteq> [])"

definition evidence_summary :: "tool_result_message \<Rightarrow> string \<Rightarrow> string" where
  "evidence_summary r txt =
     (let preview = take 600 (py_join '' '' (py_split txt)) in
      py_join '' ''
        ([trm_tool_name r @ '' status='' @ tool_result_status_name (trm_status r)] @
         (case trm_exit_code r of None \<Rightarrow> [] | Some c \<Rightarrow> [''exit_code='' @ str_int c]) @
         (if trm_affected_paths r = [] then []
          else [''paths='' @ py_join '', '' (take 8 (trm_affected_paths r))]) @
         (if has_verification r
          then [''verification='' @ py_repr (PDict (the (trm_verification r)))] else []) @
         (if preview = [] then [] else [''summary='' @ preview])))"

definition evidence_kind :: "tool_result_message \<Rightarrow> string" where
  "evidence_kind r =
     (if trm_is_error r \<or> trm_status r \<noteq> TRSuccess then ''error''
      else if changed_workspace r then ''mutation''
      else if has_verification r then ''verification''
      else ''observation'')"

section \<open>The state\<close>

record active_file =
  af_path :: string
  af_role :: string
  af_reason :: string
  af_source_hash :: "string option"
  af_freshness :: string
  af_access_count :: int
  af_last_accessed_at :: int

record context_evidence =
  cev_evidence_id :: string
  cev_kind :: string
  cev_summary :: string
  cev_source_ref :: string
  cev_source_tool_call_id :: string
  cev_affected_paths :: "string list"
  cev_status :: string
  cev_artifact_ref :: "string option"
  cev_source_hash :: "string option"
  cev_workspace_fingerprint :: "string option"
  cev_freshness :: string
  cev_created_at :: int

record context_state =
  cx_active_files :: "(string \<times> active_file) list"
  cx_evidence :: "(string \<times> context_evidence) list"
  cx_last_repository_snapshot :: "repository_snapshot option"
  cx_observed_tool_call_ids :: "string set"
  cx_max_active_files :: nat
  cx_readings :: nat

definition context_state_new :: context_state where
  "context_state_new = \<lparr>cx_active_files = [], cx_evidence = [],
     cx_last_repository_snapshot = None, cx_observed_tool_call_ids = {},
     cx_max_active_files = 40, cx_readings = 0\<rparr>"

record context_env =
  cenv_sha256 :: "string \<Rightarrow> string"
  cenv_clock :: "nat \<Rightarrow> int"

section \<open>Active files\<close>

definition prune_key :: "active_file \<Rightarrow> bool \<times> bool \<times> int \<times> int \<times> string" where
  "prune_key a = (af_role a = ''target'', af_freshness a = ''fresh'', af_access_count a,
                  af_last_accessed_at a, af_path a)"

text \<open>\<^verbatim>\<open>sorted(..., reverse=True)\<close> keeps the order of equal keys.\<close>

definition sort_down :: "('a \<Rightarrow> 'b::linorder) \<Rightarrow> 'a list \<Rightarrow> 'a list" where
  "sort_down key xs = rev (sort_key key (rev xs))"

definition prune_active_files :: "context_state \<Rightarrow> context_state" where
  "prune_active_files s =
     (if length (cx_active_files s) \<le> cx_max_active_files s then s
      else s\<lparr>cx_active_files :=
             dict_of (map (\<lambda>a. (af_path a, a))
               (take (cx_max_active_files s)
                 (sort_down prune_key (map snd (cx_active_files s)))))\<rparr>)"

definition truthy :: "string option \<Rightarrow> bool" where
  "truthy t \<longleftrightarrow> t \<noteq> None \<and> t \<noteq> Some []"

definition touch_file ::
  "context_env \<Rightarrow> string \<Rightarrow> string \<Rightarrow> string \<Rightarrow> string option \<Rightarrow> context_state \<Rightarrow> context_state" where
  "touch_file env path role reason source_hash s =
     (let normalized = as_posix path; now = cenv_clock env (cx_readings s) in
      prune_active_files
        (s\<lparr>cx_readings := Suc (cx_readings s),
           cx_active_files :=
             AList.update normalized
               (case map_of (cx_active_files s) normalized of
                  None \<Rightarrow> \<lparr>af_path = normalized, af_role = role, af_reason = reason,
                           af_source_hash = source_hash,
                           af_freshness = (if truthy source_hash then ''fresh'' else ''unknown''),
                           af_access_count = 1, af_last_accessed_at = now\<rparr>
                | Some a \<Rightarrow>
                    a\<lparr>af_access_count := af_access_count a + 1, af_last_accessed_at := now,
                      af_reason := reason,
                      af_role := (if role = ''target'' \<or> af_role a = ''reference'' then role
                                  else af_role a),
                      af_source_hash := (if truthy source_hash then source_hash
                                         else af_source_hash a),
                      af_freshness := (if truthy source_hash then ''fresh''
                                       else af_freshness a)\<rparr>)
               (cx_active_files s)\<rparr>))"

section \<open>Invalidation\<close>

definition stale_file :: "string set \<Rightarrow> string \<times> active_file \<Rightarrow> string \<times> active_file" where
  "stale_file paths f = (fst f, if fst f \<in> paths then (snd f)\<lparr>af_freshness := ''stale''\<rparr> else snd f)"

definition stale_evidence ::
  "(context_evidence \<Rightarrow> bool) \<Rightarrow> string \<times> context_evidence \<Rightarrow> string \<times> context_evidence" where
  "stale_evidence hit e =
     (fst e, if hit (snd e) then (snd e)\<lparr>cev_freshness := ''stale''\<rparr> else snd e)"

definition invalidate_paths :: "string list \<Rightarrow> context_state \<Rightarrow> context_state" where
  "invalidate_paths paths s =
     (let normalized = as_posix ` set paths in
      s\<lparr>cx_active_files := map (stale_file normalized) (cx_active_files s),
        cx_evidence := map (stale_evidence (\<lambda>e. list_ex (\<lambda>p. p \<in> normalized) (cev_affected_paths e)))
          (cx_evidence s)\<rparr>)"

definition invalidate_verification :: "context_state \<Rightarrow> context_state" where
  "invalidate_verification s =
     s\<lparr>cx_evidence := map (stale_evidence (\<lambda>e. cev_kind e = ''verification'')) (cx_evidence s)\<rparr>"

section \<open>Observation\<close>

abbreviation MAX_EVIDENCE :: nat where "MAX_EVIDENCE \<equiv> 80"

definition evidence_key :: "context_evidence \<Rightarrow> int \<times> string" where
  "evidence_key e = (cev_created_at e, cev_evidence_id e)"

definition cap_evidence :: "(string \<times> context_evidence) list \<Rightarrow> (string \<times> context_evidence) list" where
  "cap_evidence es =
     (if MAX_EVIDENCE < length es
      then AList.delete (cev_source_ref (arg_min_list evidence_key (map snd es))) es
      else es)"

definition touch_paths :: "context_env \<Rightarrow> tool_result_message \<Rightarrow> string list \<Rightarrow> context_state \<Rightarrow> context_state" where
  "touch_paths env r paths s =
     fold (\<lambda>p. touch_file env p
              (if changed_workspace r \<or> is_read r then ''target'' else ''reference'')
              (trm_tool_name r @ '' tool result'') (file_hash_from_message r p)) paths s"

definition new_evidence ::
  "context_env \<Rightarrow> string option \<Rightarrow> tool_result_message \<Rightarrow> context_state \<Rightarrow> context_evidence" where
  "new_evidence env fingerprint r s =
     (let txt = tool_text r;
          digest = (if txt = [] then None else Some (cenv_sha256 env txt));
          name = (if trm_tool_call_id r \<noteq> [] then trm_tool_call_id r
                  else case digest of
                         Some d \<Rightarrow> if d \<noteq> [] then d else str_nat (length (cx_evidence s))
                       | None \<Rightarrow> str_nat (length (cx_evidence s)))
      in \<lparr>cev_evidence_id = ''evidence:'' @ name, cev_kind = evidence_kind r,
          cev_summary = evidence_summary r txt, cev_source_ref = evidence_source_ref r,
          cev_source_tool_call_id = trm_tool_call_id r, cev_affected_paths = dedup (message_paths r),
          cev_status = tool_result_status_name (trm_status r),
          cev_artifact_ref = optional_text py_strip (dget (trm_metadata r) ''artifact_ref''),
          cev_source_hash = digest, cev_workspace_fingerprint = fingerprint,
          cev_freshness = ''fresh'', cev_created_at = cenv_clock env (cx_readings s)\<rparr>)"

definition observe_tool_result ::
  "context_env \<Rightarrow> string option \<Rightarrow> tool_result_message \<Rightarrow> context_state \<Rightarrow> context_state" where
  "observe_tool_result env fingerprint r s =
     (if trm_tool_call_id r \<in> cx_observed_tool_call_ids s then s
      else
        (let s1 = (if trm_tool_call_id r \<noteq> []
                   then s\<lparr>cx_observed_tool_call_ids :=
                          insert (trm_tool_call_id r) (cx_observed_tool_call_ids s)\<rparr>
                   else s);
             paths = dedup (message_paths r);
             s2 = (if changed_workspace r
                   then invalidate_verification (invalidate_paths paths s1) else s1);
             s3 = touch_paths env r paths s2
         in s3\<lparr>cx_readings := Suc (cx_readings s3),
               cx_evidence := cap_evidence
                 (AList.update (evidence_source_ref r) (new_evidence env fingerprint r s3)
                   (cx_evidence s3))\<rparr>))"

fun observe_messages ::
  "context_env \<Rightarrow> string option \<Rightarrow> message list \<Rightarrow> context_state \<Rightarrow> context_state" where
  "observe_messages env fingerprint [] s = s"
| "observe_messages env fingerprint (ToolResultMessage r # ms) s =
     observe_messages env fingerprint ms (observe_tool_result env fingerprint r s)"
| "observe_messages env fingerprint (_ # ms) s = observe_messages env fingerprint ms s"

section \<open>Freshness\<close>

definition refreshed_file :: "dict \<Rightarrow> active_file \<Rightarrow> active_file" where
  "refreshed_file st a =
     a\<lparr>af_freshness :=
        (if \<not> py_truth (dget st ''exists'') then ''missing''
         else if truthy (af_source_hash a)
           then (if dget st ''sha256'' \<noteq> PStr (the (af_source_hash a)) then ''stale'' else ''fresh'')
         else ''unknown'')\<rparr>"

text \<open>The loop updates the files one by one; when the file system raises, the ones before keep
  their update.\<close>

fun refresh_files :: "(string \<Rightarrow> dict result) \<Rightarrow> (string \<times> active_file) list
    \<Rightarrow> (string \<times> active_file) list \<times> exn option" where
  "refresh_files file_state [] = ([], None)"
| "refresh_files file_state ((p, a) # fs) =
     (case file_state p of
        Inl e \<Rightarrow> ((p, a) # fs, Some e)
      | Inr st \<Rightarrow> (let (fs', e) = refresh_files file_state fs in ((p, refreshed_file st a) # fs', e)))"

definition refreshed_evidence :: "string \<Rightarrow> string \<times> context_evidence \<Rightarrow> string \<times> context_evidence" where
  "refreshed_evidence fingerprint =
     stale_evidence (\<lambda>e. cev_kind e = ''verification'' \<and> truthy (cev_workspace_fingerprint e) \<and>
                         cev_workspace_fingerprint e \<noteq> Some fingerprint)"

definition out_of_date :: "string \<Rightarrow> bool" where
  "out_of_date f \<longleftrightarrow> f = ''stale'' \<or> f = ''missing''"

definition refresh_freshness ::
  "(string \<Rightarrow> dict result) \<Rightarrow> string \<Rightarrow> context_state \<Rightarrow> context_state \<times> string list result" where
  "refresh_freshness file_state fingerprint s =
     (case refresh_files file_state (cx_active_files s) of
        (files, Some e) \<Rightarrow> (s\<lparr>cx_active_files := files\<rparr>, Inl e)
      | (files, None) \<Rightarrow>
          (let evidence = map (refreshed_evidence fingerprint) (cx_evidence s) in
           (s\<lparr>cx_active_files := files, cx_evidence := evidence\<rparr>,
            Inr (sort
              (map (\<lambda>(p, a). ''active_file:'' @ p @ '':'' @ af_freshness a)
                 (filter (\<lambda>(p, a). out_of_date (af_freshness a)) files) @
               map (\<lambda>(k, e). cev_evidence_id e @ '':'' @ cev_freshness e)
                 (filter (\<lambda>(k, e). out_of_date (cev_freshness e)) evidence))))))"

section \<open>Invariant\<close>

text \<open>The keys name what they hold, and both tables stay within their bounds.\<close>

definition wf_context_state :: "context_state \<Rightarrow> bool" where
  "wf_context_state s \<longleftrightarrow>
     distinct (map fst (cx_active_files s)) \<and>
     (\<forall>(p, a) \<in> set (cx_active_files s). af_path a = p) \<and>
     length (cx_active_files s) \<le> cx_max_active_files s \<and>
     distinct (map fst (cx_evidence s)) \<and>
     (\<forall>(k, e) \<in> set (cx_evidence s). cev_source_ref e = k) \<and>
     length (cx_evidence s) \<le> MAX_EVIDENCE"

lemma wf_context_state_new: "wf_context_state context_state_new"
  by (simp add: wf_context_state_def context_state_new_def)

lemma set_sort_down [simp]: "set (sort_down key xs) = set xs"
  by (simp add: sort_down_def)

lemma mset_sort_down [simp]: "mset (sort_down key xs) = mset xs"
  by (simp add: sort_down_def)

lemma distinct_map_sort_down [simp]: "distinct (map f (sort_down key xs)) = distinct (map f xs)"
  by (metis mset_map mset_sort_down mset_eq_imp_distinct_iff)

lemma prune_keeps:
  assumes "distinct (map fst (cx_active_files s))"
    and "\<forall>(p, a) \<in> set (cx_active_files s). af_path a = p"
  defines "t \<equiv> prune_active_files s"
  shows "distinct (map fst (cx_active_files t)) \<and>
         (\<forall>(p, a) \<in> set (cx_active_files t). af_path a = p) \<and>
         length (cx_active_files t) \<le> cx_max_active_files t \<and>
         set (cx_active_files t) \<subseteq> set (cx_active_files s)"
proof (cases "length (cx_active_files s) \<le> cx_max_active_files s")
  case True
  with assms show ?thesis by (simp add: prune_active_files_def)
next
  case False
  let ?fs = "take (cx_max_active_files s) (sort_down prune_key (map snd (cx_active_files s)))"
  have k: "map (af_path \<circ> snd) (cx_active_files s) = map fst (cx_active_files s)"
    using assms(2) by auto
  have "distinct (map af_path (sort_down prune_key (map snd (cx_active_files s))))"
    using assms(1) by (simp add: k)
  then have d: "distinct (map af_path ?fs)" by (simp add: take_map [symmetric])
  then have e: "cx_active_files t = map (\<lambda>a. (af_path a, a)) ?fs"
    using False by (simp add: t_def prune_active_files_def dict_of_distinct comp_def)
  have "(af_path a, a) \<in> set (cx_active_files s)" if "a \<in> set ?fs" for a
    using set_take_subset [THEN subsetD, OF that] assms(2) by auto
  moreover have "cx_max_active_files t = cx_max_active_files s"
    by (simp add: t_def prune_active_files_def)
  ultimately show ?thesis using d by (auto simp: e comp_def)
qed

lemma prune_frame [simp]:
  "cx_evidence (prune_active_files s) = cx_evidence s"
  "cx_observed_tool_call_ids (prune_active_files s) = cx_observed_tool_call_ids s"
  "cx_max_active_files (prune_active_files s) = cx_max_active_files s"
  "cx_readings (prune_active_files s) = cx_readings s"
  by (simp_all add: prune_active_files_def)

lemma touch_frame [simp]:
  "cx_evidence (touch_file env p role reason h s) = cx_evidence s"
  "cx_observed_tool_call_ids (touch_file env p role reason h s) = cx_observed_tool_call_ids s"
  "cx_max_active_files (touch_file env p role reason h s) = cx_max_active_files s"
  by (simp_all add: touch_file_def Let_def)

lemma touch_file_wf: "wf_context_state s \<Longrightarrow> wf_context_state (touch_file env p role reason h s)"
proof -
  assume w: "wf_context_state s"
  define a where "a =
    (case map_of (cx_active_files s) (as_posix p) of
       None \<Rightarrow> \<lparr>af_path = as_posix p, af_role = role, af_reason = reason, af_source_hash = h,
                af_freshness = (if truthy h then ''fresh'' else ''unknown''),
                af_access_count = 1, af_last_accessed_at = cenv_clock env (cx_readings s)\<rparr>
     | Some a \<Rightarrow>
         a\<lparr>af_access_count := af_access_count a + 1,
           af_last_accessed_at := cenv_clock env (cx_readings s), af_reason := reason,
           af_role := (if role = ''target'' \<or> af_role a = ''reference'' then role else af_role a),
           af_source_hash := (if truthy h then h else af_source_hash a),
           af_freshness := (if truthy h then ''fresh'' else af_freshness a)\<rparr>)"
  have "af_path a = as_posix p"
    using w by (auto simp: a_def wf_context_state_def split: option.splits dest: map_of_SomeD)
  moreover have "distinct (map fst (AList.update (as_posix p) a (cx_active_files s)))"
    using w by (intro distinct_update) (simp add: wf_context_state_def)
  moreover have "\<forall>(q, b) \<in> set (AList.update (as_posix p) a (cx_active_files s)).
      b = a \<and> q = as_posix p \<or> af_path b = q"
    using w set_update_subset [of "as_posix p" a "cx_active_files s"]
    by (fastforce simp: wf_context_state_def)
  ultimately have "wf_context_state (touch_file env p role reason h s) \<longleftrightarrow> True"
    using w prune_keeps [of "s\<lparr>cx_readings := Suc (cx_readings s),
        cx_active_files := AList.update (as_posix p) a (cx_active_files s)\<rparr>"]
    unfolding touch_file_def Let_def a_def [symmetric]
    by (simp add: wf_context_state_def) fastforce
  then show ?thesis by simp
qed

lemma touch_paths_wf: "wf_context_state s \<Longrightarrow> wf_context_state (touch_paths env r ps s)"
  unfolding touch_paths_def by (induction ps arbitrary: s) (simp_all add: touch_file_wf)

lemma touch_paths_frame [simp]:
  "cx_evidence (touch_paths env r ps s) = cx_evidence s"
  "cx_observed_tool_call_ids (touch_paths env r ps s) = cx_observed_tool_call_ids s"
  unfolding touch_paths_def by (induction ps arbitrary: s) simp_all

lemma map_stale_keys [simp]:
  "map fst (map (stale_file ps) fs) = map fst fs"
  "map fst (map (stale_evidence hit) es) = map fst es"
  "fst \<circ> stale_file ps = fst" "fst \<circ> stale_evidence hit = fst"
  by (auto simp: stale_file_def stale_evidence_def comp_def)

lemma invalidate_wf:
  "wf_context_state s \<Longrightarrow> wf_context_state (invalidate_paths ps s)"
  "wf_context_state s \<Longrightarrow> wf_context_state (invalidate_verification s)"
  by (auto simp: wf_context_state_def invalidate_paths_def invalidate_verification_def Let_def
      stale_file_def stale_evidence_def comp_def)

lemma cap_evidence_bound:
  assumes "\<forall>(k, e) \<in> set es. cev_source_ref e = k" and "length es \<le> Suc MAX_EVIDENCE"
  shows "length (cap_evidence es) \<le> MAX_EVIDENCE"
proof (cases "MAX_EVIDENCE < length es")
  case True
  let ?o = "arg_min_list evidence_key (map snd es)"
  have "map snd es \<noteq> []" using True by auto
  then have "?o \<in> set (map snd es)" by (rule arg_min_list_in)
  then obtain k where "(k, ?o) \<in> set es" by auto
  with assms(1) have "(cev_source_ref ?o, ?o) \<in> set es" by auto
  then have "length (AList.delete (cev_source_ref ?o) es) < length es"
    unfolding AList.delete_eq by (rule length_filter_less) simp
  with True assms(2) show ?thesis by (simp add: cap_evidence_def)
qed (simp add: cap_evidence_def)

lemma cap_evidence_subset: "set (cap_evidence es) \<subseteq> set es"
  by (auto simp: cap_evidence_def AList.delete_eq)

lemma cap_evidence_distinct: "distinct (map fst es) \<Longrightarrow> distinct (map fst (cap_evidence es))"
  by (simp add: cap_evidence_def distinct_delete)

lemma length_update_le: "length (AList.update k v es) \<le> Suc (length es)"
  by (induction es) auto

lemma observe_tool_result_wf:
  assumes "wf_context_state s"
  shows "wf_context_state (observe_tool_result env fp r s)"
proof (cases "trm_tool_call_id r \<in> cx_observed_tool_call_ids s")
  case True
  with assms show ?thesis by (simp add: observe_tool_result_def)
next
  case False
  define ps where "ps = dedup (message_paths r)"
  define s1 where "s1 = (if trm_tool_call_id r \<noteq> []
    then s\<lparr>cx_observed_tool_call_ids := insert (trm_tool_call_id r) (cx_observed_tool_call_ids s)\<rparr>
    else s)"
  define s2 where "s2 = (if changed_workspace r
    then invalidate_verification (invalidate_paths ps s1) else s1)"
  define s3 where "s3 = touch_paths env r ps s2"
  have "wf_context_state s1" using assms by (simp add: s1_def wf_context_state_def)
  then have "wf_context_state s2" by (simp add: s2_def invalidate_wf)
  then have w: "wf_context_state s3" by (simp add: s3_def touch_paths_wf)
  define es where "es = AList.update (evidence_source_ref r) (new_evidence env fp r s3) (cx_evidence s3)"
  have "length es \<le> Suc (length (cx_evidence s3))"
    unfolding es_def by (rule length_update_le)
  with w have l: "length es \<le> Suc MAX_EVIDENCE" by (simp add: wf_context_state_def)
  have "cev_source_ref (new_evidence env fp r s3) = evidence_source_ref r"
    by (simp add: new_evidence_def Let_def)
  with w have k: "\<forall>(k, e) \<in> set es. cev_source_ref e = k"
    using set_update_subset [of "evidence_source_ref r" "new_evidence env fp r s3" "cx_evidence s3"]
    unfolding es_def wf_context_state_def by fastforce
  have d: "distinct (map fst es)"
    using w unfolding es_def by (intro distinct_update) (simp add: wf_context_state_def)
  have "observe_tool_result env fp r s =
        s3\<lparr>cx_readings := Suc (cx_readings s3), cx_evidence := cap_evidence es\<rparr>"
    using False by (simp add: observe_tool_result_def Let_def ps_def s1_def s2_def s3_def es_def)
  moreover have "\<forall>(k, e) \<in> set (cap_evidence es). cev_source_ref e = k"
    using k cap_evidence_subset by blast
  ultimately show ?thesis
    using w cap_evidence_bound [OF k l] cap_evidence_distinct [OF d]
    by (simp add: wf_context_state_def)
qed

lemma observe_messages_wf:
  "wf_context_state s \<Longrightarrow> wf_context_state (observe_messages env fp ms s)"
  by (induction env fp ms s rule: observe_messages.induct) (simp_all add: observe_tool_result_wf)

lemma files_named:
  "(\<forall>(p, a) \<in> set fs. af_path a = p) \<longleftrightarrow> map (\<lambda>f. af_path (snd f)) fs = map fst fs"
  by (induction fs) auto

lemma evidence_named:
  "(\<forall>(k, e) \<in> set es. cev_source_ref e = k) \<longleftrightarrow> map (\<lambda>f. cev_source_ref (snd f)) es = map fst es"
  by (induction es) auto

lemma stale_evidence_refs [simp]:
  "map (\<lambda>f. cev_source_ref (snd f)) (map (stale_evidence hit) es) = map (\<lambda>f. cev_source_ref (snd f)) es"
  by (simp add: stale_evidence_def)

lemma refresh_files_keys:
  "refresh_files fs as = (bs, e) \<Longrightarrow>
   map fst bs = map fst as \<and> map (\<lambda>f. af_path (snd f)) bs = map (\<lambda>f. af_path (snd f)) as"
  by (induction fs as arbitrary: bs e rule: refresh_files.induct)
     (auto simp: refreshed_file_def split: sum.splits prod.splits)

lemma refresh_freshness_wf:
  assumes "wf_context_state s" and "refresh_freshness fs fp s = (t, r)"
  shows "wf_context_state t"
proof -
  obtain bs e where b: "refresh_files fs (cx_active_files s) = (bs, e)"
    by (cases "refresh_files fs (cx_active_files s)")
  from refresh_files_keys [OF b]
  have k: "map fst bs = map fst (cx_active_files s)"
    "map (\<lambda>f. af_path (snd f)) bs = map (\<lambda>f. af_path (snd f)) (cx_active_files s)" by simp_all
  then have l: "length bs = length (cx_active_files s)" by (metis length_map)
  let ?es = "map (refreshed_evidence fp) (cx_evidence s)"
  have n: "map fst ?es = map fst (cx_evidence s)"
    "map (\<lambda>f. cev_source_ref (snd f)) ?es = map (\<lambda>f. cev_source_ref (snd f)) (cx_evidence s)"
    unfolding refreshed_evidence_def by (simp_all only: map_stale_keys stale_evidence_refs)
  have "t = s\<lparr>cx_active_files := bs\<rparr> \<or> t = s\<lparr>cx_active_files := bs, cx_evidence := ?es\<rparr>"
    using assms(2) b by (cases e) (auto simp: refresh_freshness_def Let_def)
  then show ?thesis
  proof
    assume "t = s\<lparr>cx_active_files := bs\<rparr>"
    with assms(1) k l show ?thesis by (simp add: wf_context_state_def files_named)
  next
    assume t: "t = s\<lparr>cx_active_files := bs, cx_evidence := ?es\<rparr>"
    have "cx_active_files t = bs" "cx_evidence t = ?es" "cx_max_active_files t = cx_max_active_files s"
      by (simp_all add: t)
    then show ?thesis
      using assms(1) k l n unfolding wf_context_state_def files_named evidence_named
      by (simp only: length_map)
  qed
qed

section \<open>Observing again\<close>

lemma observed_ids:
  "cx_observed_tool_call_ids (observe_tool_result env fp r s) =
   cx_observed_tool_call_ids s \<union> ({trm_tool_call_id r} - {[]})"
  by (auto simp: observe_tool_result_def Let_def invalidate_paths_def invalidate_verification_def)

fun result_call_ids :: "message list \<Rightarrow> string set" where
  "result_call_ids [] = {}"
| "result_call_ids (ToolResultMessage r # ms) = insert (trm_tool_call_id r) (result_call_ids ms)"
| "result_call_ids (_ # ms) = result_call_ids ms"

lemma observed_messages_ids:
  "cx_observed_tool_call_ids (observe_messages env fp ms s) =
   cx_observed_tool_call_ids s \<union> (result_call_ids ms - {[]})"
  by (induction env fp ms s rule: observe_messages.induct) (auto simp: observed_ids)

lemma observe_known:
  "result_call_ids ms \<subseteq> cx_observed_tool_call_ids s \<Longrightarrow> observe_messages env fp ms s = s"
  by (induction env fp ms s rule: observe_messages.induct) (auto simp: observe_tool_result_def)

lemma observe_messages_append:
  "observe_messages env fp (ms @ ns) s = observe_messages env fp ns (observe_messages env fp ms s)"
  by (induction env fp ms s rule: observe_messages.induct) simp_all

section \<open>Changes make older evidence stale\<close>

lemma stale_evidence_hit:
  assumes "(k, e) \<in> set (map (stale_evidence hit) es)" and "hit e"
    and "\<And>x. hit (x\<lparr>cev_freshness := ''stale''\<rparr>) = hit x"
  shows "cev_freshness e = ''stale''"
proof -
  obtain x where x: "e = (if hit x then x\<lparr>cev_freshness := ''stale''\<rparr> else x)"
    using assms(1) by (auto simp: stale_evidence_def)
  with assms(2,3) show ?thesis by (cases "hit x") simp_all
qed

lemma stale_evidence_stays:
  "(k, e) \<in> set (map (stale_evidence hit) es) \<Longrightarrow>
   \<exists>f. (k, f) \<in> set es \<and> (cev_freshness f = ''stale'' \<longrightarrow> cev_freshness e = ''stale'') \<and>
       cev_kind e = cev_kind f \<and> cev_affected_paths e = cev_affected_paths f"
  by (auto simp: stale_evidence_def split: if_splits)

lemma observe_change_stale:
  assumes new: "trm_tool_call_id r \<notin> cx_observed_tool_call_ids s" and ch: "changed_workspace r"
    and e: "(k, e) \<in> set (cx_evidence (observe_tool_result env fp r s))"
    and other: "k \<noteq> evidence_source_ref r"
    and hit: "cev_kind e = ''verification'' \<or>
      (\<exists>p \<in> set (cev_affected_paths e). p \<in> as_posix ` set (message_paths r))"
  shows "cev_freshness e = ''stale''"
proof -
  let ?in = "\<lambda>e. list_ex (\<lambda>p. p \<in> as_posix ` set (message_paths r)) (cev_affected_paths e)"
  let ?ver = "\<lambda>e. cev_kind e = ''verification''"
  let ?es = "map (stale_evidence ?ver) (map (stale_evidence ?in) (cx_evidence s))"
  define s1 where "s1 = (if trm_tool_call_id r \<noteq> []
    then s\<lparr>cx_observed_tool_call_ids := insert (trm_tool_call_id r) (cx_observed_tool_call_ids s)\<rparr>
    else s)"
  define s3 where "s3 = touch_paths env r (dedup (message_paths r))
    (invalidate_verification (invalidate_paths (dedup (message_paths r)) s1))"
  have ev: "cx_evidence s3 = ?es"
    by (simp add: s3_def invalidate_verification_def invalidate_paths_def s1_def Let_def)
  define U where "U = AList.update (evidence_source_ref r) (new_evidence env fp r s3) ?es"
  have "cx_evidence (observe_tool_result env fp r s) = cap_evidence U"
    using new ch ev by (simp add: observe_tool_result_def Let_def s1_def s3_def U_def)
  with e have "(k, e) \<in> set (cap_evidence U)" by simp
  then have "(k, e) \<in> set U" by (rule subsetD [OF cap_evidence_subset])
  then have "(k, e) \<in> insert (evidence_source_ref r, new_evidence env fp r s3) (set ?es)"
    unfolding U_def by (rule subsetD [OF set_update_subset])
  with other have m: "(k, e) \<in> set ?es" by blast
  show ?thesis
  proof (cases "?ver e")
    case True
    show ?thesis by (rule stale_evidence_hit [OF m True]) simp
  next
    case False
    with hit have i: "?in e" by (auto simp: list_ex_iff)
    obtain f where f: "(k, f) \<in> set (map (stale_evidence ?in) (cx_evidence s))"
      "cev_freshness f = ''stale'' \<longrightarrow> cev_freshness e = ''stale''"
      "cev_affected_paths e = cev_affected_paths f"
      using stale_evidence_stays [OF m] by blast
    have i': "?in f" using i by (simp only: f(3))
    have "cev_freshness f = ''stale''"
    proof (rule stale_evidence_hit [OF f(1) i'])
      fix x show "?in (x\<lparr>cev_freshness := ''stale''\<rparr>) = ?in x" by simp
    qed
    with f(2) show ?thesis by simp
  qed
qed

lemma message_paths_posix: "as_posix ` set (message_paths r) = set (message_paths r)"
proof -
  obtain ps where "message_paths r = dedup (map as_posix ps)"
    unfolding message_paths_def Let_def by blast
  then show ?thesis by (simp add: image_image)
qed

end
