(* ===== verification/Context_Projection.thy ===== *)
theory Context_Projection
  imports Context_State Context_Contracts
begin

text \<open>
  The projection of the conversation for one model call,
  \<^verbatim>\<open>src/codepilot/sessions/context/projection.py\<close>: the messages after the compaction cursor, in
  groups; orphaned tool results are discarded, a read whose identical result stands in a newer
  batch is replaced by a marker (the whole batch is left out when all its results are), and a
  result whose evidence is stale carries a warning. Paths are POSIX paths.
\<close>

section \<open>Cursors\<close>

text \<open>\<^verbatim>\<open>if not cursor\<close>: no cursor, or an empty one.\<close>

fun after_cursor :: "string \<Rightarrow> message list \<Rightarrow> message list option" where
  "after_cursor cursor [] = None"
| "after_cursor cursor (m # ms) =
     (if session_message_id m = Some cursor then Some ms else after_cursor cursor ms)"

definition messages_after_cursor :: "message list \<Rightarrow> string option \<Rightarrow> message list" where
  "messages_after_cursor ms cursor =
     (if truthy cursor
      then (case after_cursor (the cursor) ms of None \<Rightarrow> ms | Some rest \<Rightarrow> rest)
      else ms)"

section \<open>References and identities\<close>

fun message_role :: "message \<Rightarrow> string" where
  "message_role (UserMessage _) = ''user''"
| "message_role (AssistantMessage _) = ''assistant''"
| "message_role (ToolResultMessage _) = ''toolResult''"

definition message_source_ref :: "message \<Rightarrow> nat \<Rightarrow> string" where
  "message_source_ref m index =
     (case session_message_id m of
        Some i \<Rightarrow> ''message:'' @ i
      | None \<Rightarrow>
          (let transient = ''transient:'' @ str_nat index @ '':'' @ message_role m in
           case m of
             ToolResultMessage r \<Rightarrow>
               if trm_tool_call_id r \<noteq> [] then ''tool:'' @ trm_tool_call_id r else transient
           | _ \<Rightarrow> transient))"

text \<open>Normalised path, digest, first and last line: what makes two reads the same.\<close>

type_synonym line_range = "int \<times> int"
type_synonym read_key = "string \<times> string \<times> line_range"

definition read_result_identity ::
  "tool_result_message \<Rightarrow> (string \<times> string \<times> string \<times> line_range) option" where
  "read_result_identity r =
     (if trm_tool_name r \<noteq> ''read'' then None
      else (case details_dict r of
        None \<Rightarrow> None
      | Some d \<Rightarrow>
         (let path = py_strip (str_or_empty (dget d ''path''));
              sha256 = py_strip (str_or_empty (dget d ''sha256'')) in
          case (py_int (dget d ''offset''), py_int (dget d ''returned_lines'')) of
            (Inr offset, Inr returned_lines) \<Rightarrow>
              if path = [] \<or> sha256 = [] \<or> offset < 1 \<or> returned_lines < 0 then None
              else Some (normpath path, as_posix path, sha256,
                         (offset, offset + max 0 (returned_lines - 1)))
          | _ \<Rightarrow> None)))"

definition read_key_of :: "tool_result_message \<Rightarrow> read_key option" where
  "read_key_of r = map_option (\<lambda>(path, display, sha256, lines). (path, sha256, lines))
                     (read_result_identity r)"

definition duplicate_marker :: "string \<Rightarrow> line_range \<Rightarrow> string" where
  "duplicate_marker display lines =
     ''read result duplicate: path='' @ display @ '' range='' @ str_int (fst lines) @ '':''
     @ str_int (snd lines) @ '' full_content_available_in_newer_result''"

section \<open>Duplicates\<close>

fun tool_results :: "message list \<Rightarrow> tool_result_message list" where
  "tool_results [] = []"
| "tool_results (ToolResultMessage r # ms) = r # tool_results ms"
| "tool_results (_ # ms) = tool_results ms"

text \<open>The results of one batch, in order: the markers of the duplicates by call id, and the
  keys seen so far.\<close>

fun scan_results :: "bool \<Rightarrow> read_key set \<Rightarrow> tool_result_message list
    \<Rightarrow> (string \<times> string) list \<times> read_key set" where
  "scan_results protected seen [] = ([], seen)"
| "scan_results protected seen (r # rs) =
     (case read_result_identity r of
        None \<Rightarrow> scan_results protected seen rs
      | Some (path, display, sha256, lines) \<Rightarrow>
         (let key = (path, sha256, lines);
              (marks, seen') = scan_results protected (insert key seen) rs
          in (if key \<in> seen \<and> \<not> protected
              then (trm_tool_call_id r, duplicate_marker display lines) # marks else marks,
              seen')))"

text \<open>What becomes of a group: it is left out, or some of its results get a marker. The groups
  come reversed, so the index of the head is the length of its tail.\<close>

datatype group_plan = OmitGroup | MarkResults "(string \<times> string) list"

definition group_duplicates :: "bool \<Rightarrow> read_key set \<Rightarrow> message list \<Rightarrow> group_plan \<times> read_key set" where
  "group_duplicates protected seen grp =
     (if is_closed_tool_batch grp
      then
        (let results = tool_results (tl grp);
             (marks, seen') = scan_results protected seen results
         in (if results \<noteq> [] \<and> card (fst ` set marks) = length results then OmitGroup
             else MarkResults marks, seen'))
      else (MarkResults [], seen))"

fun duplicates_loop :: "nat option \<Rightarrow> read_key set \<Rightarrow> message list list \<Rightarrow> group_plan list" where
  "duplicates_loop protected seen [] = []"
| "duplicates_loop protected seen (g # gs) =
     (let (plan, seen') = group_duplicates (protected = Some (length gs)) seen g
      in plan # duplicates_loop protected seen' gs)"

definition exact_read_duplicates :: "nat option \<Rightarrow> message list list \<Rightarrow> group_plan list" where
  "exact_read_duplicates protected groups = rev (duplicates_loop protected {} (rev groups))"

section \<open>The projection\<close>

definition with_content :: "tool_result_message \<Rightarrow> content_block list \<Rightarrow> message" where
  "with_content r blocks = ToolResultMessage (r\<lparr>trm_content := blocks\<rparr>)"

definition freshness_warning :: "string \<Rightarrow> string" where
  "freshness_warning f =
     ''[Historical tool result: freshness='' @ f @ ''. Keep as historical context; ''
     @ ''do not treat it as current workspace state.]''"

definition with_freshness_warning ::
  "tool_result_message \<Rightarrow> context_evidence option \<Rightarrow> message" where
  "with_freshness_warning r evidence =
     (case evidence of
        None \<Rightarrow> ToolResultMessage r
      | Some e \<Rightarrow>
          if out_of_date (cev_freshness e)
          then with_content r (TextBlock (freshness_warning (cev_freshness e)) None # trm_content r)
          else ToolResultMessage r)"

definition message_action ::
  "context_state \<Rightarrow> string set \<Rightarrow> nat \<Rightarrow> bool \<Rightarrow> group_plan \<Rightarrow> message \<Rightarrow> message \<times> projection_action" where
  "message_action s known index protected plan m =
     (case plan of
        OmitGroup \<Rightarrow> (m, CoveredByNewerRead)
      | MarkResults marks \<Rightarrow>
          (case m of
             ToolResultMessage r \<Rightarrow>
               if trm_tool_call_id r \<notin> known then (m, DiscardOrphan)
               else
                 (let full = (with_freshness_warning r
                        (map_of (cx_evidence s) (message_source_ref m index)), KeepFull) in
                  case map_of marks (trm_tool_call_id r) of
                    Some marker \<Rightarrow>
                      if protected then full
                      else (with_content r [TextBlock marker None], KeepProjected)
                  | None \<Rightarrow> full)
           | _ \<Rightarrow> (m, KeepFull)))"

definition project_message ::
  "context_state \<Rightarrow> string set \<Rightarrow> nat \<Rightarrow> bool \<Rightarrow> group_plan \<Rightarrow> message \<Rightarrow> projected_message result" where
  "project_message s known index protected plan m =
     (let (message, action) = message_action s known index protected plan m in
      projected_message_post_init
        \<lparr>pm_source_ref = message_source_ref m index, pm_message = message, pm_action = action,
         pm_group_id = ''group:'' @ str_nat index\<rparr>)"

definition project_group ::
  "context_state \<Rightarrow> string set \<Rightarrow> nat option \<Rightarrow> nat \<times> group_plan \<times> message list
   \<Rightarrow> projected_message list result" where
  "project_group s known protected = (\<lambda>(index, plan, grp).
     traverse (project_message s known index (protected = Some index) plan) grp)"

definition known_call_ids :: "message list \<Rightarrow> string set" where
  "known_call_ids ms = \<Union> (set (map opens_batch ms))"

definition build_projection ::
  "context_state \<Rightarrow> message list \<Rightarrow> string option \<Rightarrow> projected_message list result" where
  "build_projection s messages cursor =
     (let visible = messages_after_cursor messages cursor;
          groups = message_groups visible;
          protected = latest_unconsumed_tool_batch groups;
          plans = exact_read_duplicates protected groups
      in mapE concat (traverse (project_group s (known_call_ids visible) protected)
                        (enumerate 0 (zip plans groups))))"

end
