(* ===== verification/Context_Transcript.thy ===== *)
theory Context_Transcript
  imports Context_Projection
begin

text \<open>
  Conversations a provider accepts: every group of \<^verbatim>\<open>message_groups\<close> is a tool batch with one
  result for each call, or a single message that neither calls tools nor is a result. This is
  what \<^verbatim>\<open>_validate_message_groups\<close> of \<^verbatim>\<open>src/codepilot/sessions/context/compaction.py\<close> accepts.
  The projection keeps it, and what it hides of a read is shown in full elsewhere.
\<close>

section \<open>Settled conversations\<close>

definition batch_group :: "message list \<Rightarrow> bool" where
  "batch_group g \<longleftrightarrow>
     (\<exists>a rs. g = AssistantMessage a # map ToolResultMessage rs \<and> call_ids a \<noteq> {} \<and>
             length rs = card (call_ids a) \<and> set (map trm_tool_call_id rs) = call_ids a)"

fun plain_message :: "message \<Rightarrow> bool" where
  "plain_message (UserMessage _) = True"
| "plain_message (AssistantMessage a) = (call_ids a = {})"
| "plain_message (ToolResultMessage _) = False"

definition settled_group :: "message list \<Rightarrow> bool" where
  "settled_group g \<longleftrightarrow> batch_group g \<or> (\<exists>m. g = [m] \<and> plain_message m)"

definition settled_messages :: "message list \<Rightarrow> bool" where
  "settled_messages ms \<longleftrightarrow> (\<forall>g \<in> set (message_groups ms). settled_group g)"

lemma tool_results_results [simp]: "tool_results (map ToolResultMessage rs) = rs"
  by (induction rs) auto

lemma settled_group_head: "settled_group g \<Longrightarrow> \<exists>m ms. g = m # ms \<and> \<not> is_result_for ids m"
  by (auto simp: settled_group_def batch_group_def elim: plain_message.elims)

lemma settled_group_closed: "batch_group g \<Longrightarrow> is_closed_tool_batch g"
  by (auto simp: batch_group_def is_closed_tool_batch_def tool_batch_call_ids_def Let_def)

lemma group_of_results:
  assumes "\<forall>m \<in> set ms. is_result_for ids m"
  shows "\<exists>rs. ms = map ToolResultMessage rs"
proof
  show "ms = map ToolResultMessage (tool_results ms)"
    using assms
  proof (induction ms)
    case (Cons m ms)
    then show ?case by (cases m) auto
  qed simp
qed

lemma closed_group_batch:
  assumes "g \<in> set (message_groups ms)" and "is_closed_tool_batch g"
  shows "batch_group g"
proof -
  from assms(2) obtain a rest where g: "g = AssistantMessage a # rest" and ne: "call_ids a \<noteq> {}"
    by (cases g) (auto simp: is_closed_tool_batch_def tool_batch_call_ids_def Let_def
        split: message.splits)
  have "\<forall>m \<in> set rest. is_result_for (call_ids a) m"
    using message_groups_shape [OF assms(1)] g by auto
  then obtain rs where rs: "rest = map ToolResultMessage rs" using group_of_results by blast
  show ?thesis
    using assms(2) ne unfolding batch_group_def g rs
    by (auto simp: is_closed_tool_batch_def tool_batch_call_ids_def Let_def)
qed

lemma takeWhile_stop: "xs = [] \<or> \<not> P (hd xs) \<Longrightarrow> takeWhile P xs = [] \<and> dropWhile P xs = xs"
  by (cases xs) simp_all

text \<open>Settled groups, put one after the other, are found again.\<close>

lemma message_groups_concat:
  "\<forall>g \<in> set gs. settled_group g \<Longrightarrow> message_groups (concat gs) = gs"
proof (induction gs)
  case Nil
  show ?case by simp
next
  case (Cons g gs)
  then have IH: "message_groups (concat gs) = gs" and g: "settled_group g" by simp_all
  have rest: "concat gs = [] \<or> \<not> is_result_for ids (hd (concat gs))" for ids
    using Cons.prems settled_group_head [of "hd gs" ids] by (cases gs) auto
  from g consider (batch) a rs where "g = AssistantMessage a # map ToolResultMessage rs"
      "call_ids a \<noteq> {}" "set (map trm_tool_call_id rs) = call_ids a"
    | (one) m where "g = [m]" "plain_message m"
    by (auto simp: settled_group_def batch_group_def)
  then show ?case
  proof cases
    case batch
    let ?P = "is_result_for (call_ids a)"
    have all: "\<forall>m \<in> set (map ToolResultMessage rs). ?P m" using batch(3) by auto
    have stop: "takeWhile ?P (concat gs) = []" "dropWhile ?P (concat gs) = concat gs"
      using takeWhile_stop [of "concat gs" ?P] rest [of "call_ids a"] by blast+
    have "takeWhile ?P (map ToolResultMessage rs @ concat gs) =
          map ToolResultMessage rs @ takeWhile ?P (concat gs)"
      by (rule takeWhile_append2) (use all in blast)
    then have tw: "takeWhile ?P (map ToolResultMessage rs @ concat gs) = map ToolResultMessage rs"
      by (simp only: stop(1) append_Nil2)
    have "dropWhile ?P (map ToolResultMessage rs @ concat gs) = dropWhile ?P (concat gs)"
      by (rule dropWhile_append2) (use all in blast)
    then have dw: "dropWhile ?P (map ToolResultMessage rs @ concat gs) = concat gs"
      by (simp only: stop(2))
    show ?thesis using batch(2) by (simp add: batch(1) tw dw IH)
  next
    case one
    then have "opens_batch m = {}" by (cases m) simp_all
    with one show ?thesis by (simp add: IH)
  qed
qed

lemma settled_concat: "\<forall>g \<in> set gs. settled_group g \<Longrightarrow> settled_messages (concat gs)"
  by (simp add: settled_messages_def message_groups_concat)

lemma settled_group_ids: "settled_group g \<Longrightarrow> (\<Union>m \<in> set g. opens_batch m) = set (result_ids g)"
  by (auto simp: settled_group_def batch_group_def elim: plain_message.elims)

lemma settled_messages_unsettled:
  assumes "settled_messages ms"
  shows "unsettled_tool_calls ms = []"
proof -
  have "(\<Union>m \<in> set (concat gs). opens_batch m) = set (result_ids (concat gs))"
    if "\<forall>g \<in> set gs. settled_group g" for gs
    using that by (induction gs) (simp_all add: settled_group_ids)
  from this [of "message_groups ms"] assms
  have "(\<Union>m \<in> set ms. opens_batch m) = set (result_ids ms)"
    by (simp add: settled_messages_def concat_message_groups)
  then have "tc_id ` set (unsettled_tool_calls ms) = {}" by (simp add: unsettled_tool_calls_ids)
  then show ?thesis by simp
qed

lemma settled_messages_Cons:
  "plain_message m \<Longrightarrow> settled_messages ms \<Longrightarrow> settled_messages (m # ms)"
  by (cases m) (auto simp: settled_messages_def settled_group_def)

section \<open>The projection of a settled conversation\<close>

text \<open>The same message, or a tool result for the same call.\<close>

definition same_message :: "message \<Rightarrow> message \<Rightarrow> bool" where
  "same_message m n \<longleftrightarrow>
     n = m \<or> (\<exists>r r'. m = ToolResultMessage r \<and> n = ToolResultMessage r' \<and>
                   trm_tool_call_id r' = trm_tool_call_id r)"

lemma same_message_plain: "same_message m n \<Longrightarrow> plain_message m \<Longrightarrow> n = m"
  by (auto simp: same_message_def)

lemma same_results:
  "list_all2 same_message (map ToolResultMessage rs) ns \<Longrightarrow>
   \<exists>rs'. ns = map ToolResultMessage rs' \<and> map trm_tool_call_id rs' = map trm_tool_call_id rs"
proof (induction rs arbitrary: ns)
  case Nil
  then show ?case by simp
next
  case (Cons r rs)
  then obtain n ns' where n: "ns = n # ns'" "same_message (ToolResultMessage r) n"
    "list_all2 same_message (map ToolResultMessage rs) ns'"
    by (auto simp: list_all2_Cons1)
  from n(2) obtain r' where r': "n = ToolResultMessage r'" "trm_tool_call_id r' = trm_tool_call_id r"
    by (auto simp: same_message_def with_content_def)
  from Cons.IH [OF n(3)] obtain rs' where "ns' = map ToolResultMessage rs'"
    "map trm_tool_call_id rs' = map trm_tool_call_id rs" by blast
  with n(1) r' show ?case by (intro exI [of _ "r' # rs'"]) simp
qed

lemma settled_group_same:
  assumes "settled_group g" and "list_all2 same_message g h"
  shows "settled_group h"
  using assms(1) unfolding settled_group_def
proof
  assume "batch_group g"
  then obtain a rs where g: "g = AssistantMessage a # map ToolResultMessage rs" "call_ids a \<noteq> {}"
    "length rs = card (call_ids a)" "set (map trm_tool_call_id rs) = call_ids a"
    unfolding batch_group_def by blast
  with assms(2) obtain n ns where h: "h = n # ns" "same_message (AssistantMessage a) n"
    "list_all2 same_message (map ToolResultMessage rs) ns"
    by (auto simp: list_all2_Cons1)
  from same_results [OF h(3)] obtain rs' where rs': "ns = map ToolResultMessage rs'"
    "map trm_tool_call_id rs' = map trm_tool_call_id rs" by blast
  from h(2) have "n = AssistantMessage a" by (simp add: same_message_def)
  moreover have "length rs' = length rs" using rs'(2) by (metis length_map)
  ultimately have "batch_group h"
    unfolding batch_group_def h(1) rs'(1) using g(2-4) rs'(2) by (intro exI [of _ a] exI [of _ rs']) simp
  then show "batch_group h \<or> (\<exists>m. h = [m] \<and> plain_message m)" by blast
next
  assume "\<exists>m. g = [m] \<and> plain_message m"
  with assms(2) show "batch_group h \<or> (\<exists>m. h = [m] \<and> plain_message m)"
    by (auto simp: list_all2_Cons1) (metis same_message_plain)+
qed

lemma required_prefix:
  "c \<noteq> CHR '' '' \<Longrightarrow> \<not> py_space c \<Longrightarrow> \<exists>t. ctx_required_text (PStr (c # s)) f = Inr t"
proof -
  assume "\<not> py_space c"
  then have "py_strip (c # s) \<noteq> []" by (auto simp: py_strip_def py_lstrip_def dropWhile_append)
  then show ?thesis by (simp add: ctx_required_text_def required_text_PStr)
qed

lemma source_ref_head: "\<exists>c s. message_source_ref m i = c # s \<and> c \<in> {CHR ''m'', CHR ''t''}"
  by (auto simp: message_source_ref_def Let_def split: option.splits message.splits)

lemma letters_not_space: "\<not> py_space CHR ''m''" "\<not> py_space CHR ''t''" "\<not> py_space CHR ''g''"
  by code_simp+

text \<open>Projecting never raises, and decides as \<open>message_action\<close> says.\<close>

lemma project_message_total:
  "\<exists>ref group. project_message s known i prot plan m =
     Inr \<lparr>pm_source_ref = ref, pm_message = fst (message_action s known i prot plan m),
          pm_action = snd (message_action s known i prot plan m), pm_group_id = group\<rparr>"
proof -
  obtain c cs where c: "message_source_ref m i = c # cs" "c \<in> {CHR ''m'', CHR ''t''}"
    using source_ref_head by blast
  then have "c \<noteq> CHR '' '' \<and> \<not> py_space c" using letters_not_space by auto
  then obtain ref where ref: "ctx_required_text (PStr (message_source_ref m i)) ''source ref'' = Inr ref"
    using required_prefix [of c cs] c(1) by metis
  obtain grp where grp: "ctx_required_text (PStr (''group:'' @ str_nat i)) ''group id'' = Inr grp"
    using required_prefix [of "CHR ''g''" "''roup:'' @ str_nat i" "''group id''"] letters_not_space(3)
    by auto
  show ?thesis
    by (cases "message_action s known i prot plan m")
       (simp add: project_message_def projected_message_post_init_def ref grp [simplified])
qed

text \<open>What the model is shown of a group.\<close>

definition shown_group ::
  "context_state \<Rightarrow> string set \<Rightarrow> nat option \<Rightarrow> nat \<times> group_plan \<times> message list \<Rightarrow> message list" where
  "shown_group s known protected = (\<lambda>(index, plan, grp).
     map fst (filter (\<lambda>ma. shown (snd ma))
       (map (message_action s known index (protected = Some index) plan) grp)))"

lemma project_group_total:
  "\<exists>ps. project_group s known prot ig = Inr ps \<and> model_messages ps = shown_group s known prot ig \<and>
        map (\<lambda>p. (pm_message p, pm_action p)) ps =
        map (message_action s known (fst ig) (prot = Some (fst ig)) (fst (snd ig))) (snd (snd ig))"
proof -
  obtain i plan g where ig: "ig = (i, plan, g)" by (cases ig)
  let ?f = "message_action s known i (prot = Some i) plan"
  have "\<exists>ps. traverse (project_message s known i (prot = Some i) plan) g = Inr ps \<and>
             map (\<lambda>p. (pm_message p, pm_action p)) ps = map ?f g"
  proof (induction g)
    case Nil
    show ?case by simp
  next
    case (Cons m g)
    obtain ref grp where "project_message s known i (prot = Some i) plan m =
        Inr \<lparr>pm_source_ref = ref, pm_message = fst (?f m), pm_action = snd (?f m), pm_group_id = grp\<rparr>"
      using project_message_total by blast
    with Cons.IH show ?case by auto
  qed
  then obtain ps where ps: "project_group s known prot ig = Inr ps"
    "map (\<lambda>p. (pm_message p, pm_action p)) ps = map ?f g"
    by (auto simp: project_group_def ig)
  have "model_messages qs = map fst (filter (\<lambda>ma. shown (snd ma)) (map (\<lambda>p. (pm_message p, pm_action p)) qs))"
    for qs by (induction qs) (simp_all add: model_messages_def)
  with ps show ?thesis by (auto simp: shown_group_def ig)
qed

lemma model_messages_append [simp]: "model_messages (xs @ ys) = model_messages xs @ model_messages ys"
  by (simp add: model_messages_def)

lemma model_messages_Nil [simp]: "model_messages [] = []"
  by (simp add: model_messages_def)

definition numbered_groups :: "message list \<Rightarrow> (nat \<times> group_plan \<times> message list) list" where
  "numbered_groups visible =
     (let groups = message_groups visible in
      enumerate 0 (zip (exact_read_duplicates (latest_unconsumed_tool_batch groups) groups) groups))"

lemma build_projection_total:
  assumes "visible = messages_after_cursor ms cursor"
  defines "prot \<equiv> latest_unconsumed_tool_batch (message_groups visible)"
  shows "\<exists>plan. build_projection s ms cursor = Inr plan \<and>
     model_messages plan = concat (map (shown_group s (known_call_ids visible) prot) (numbered_groups visible)) \<and>
     map (\<lambda>p. (pm_message p, pm_action p)) plan =
     concat (map (\<lambda>(i, pl, g). map (message_action s (known_call_ids visible) i (prot = Some i) pl) g)
       (numbered_groups visible))"
proof -
  have "\<exists>ps. traverse (project_group s k prot) igs = Inr ps \<and>
          model_messages (concat ps) = concat (map (shown_group s k prot) igs) \<and>
          map (\<lambda>p. (pm_message p, pm_action p)) (concat ps) =
          concat (map (\<lambda>(i, pl, g). map (message_action s k i (prot = Some i) pl) g) igs)" for k igs
  proof (induction igs)
    case Nil
    show ?case by simp
  next
    case (Cons ig igs)
    obtain i pl g where ig: "ig = (i, pl, g)" by (cases ig)
    with project_group_total [of s k prot ig] Cons.IH show ?case by auto
  qed
  from this [of "known_call_ids visible" "numbered_groups visible"] obtain ps where
    "traverse (project_group s (known_call_ids visible) prot) (numbered_groups visible) = Inr ps"
    "model_messages (concat ps) =
       concat (map (shown_group s (known_call_ids visible) prot) (numbered_groups visible))"
    "map (\<lambda>p. (pm_message p, pm_action p)) (concat ps) =
       concat (map (\<lambda>(i, pl, g). map (message_action s (known_call_ids visible) i (prot = Some i) pl) g)
         (numbered_groups visible))" by blast
  moreover have "build_projection s ms cursor =
      mapE concat (traverse (project_group s (known_call_ids visible) prot) (numbered_groups visible))"
    by (simp add: build_projection_def numbered_groups_def Let_def assms)
  ultimately show ?thesis by simp
qed

lemma with_freshness_same: "same_message (ToolResultMessage r) (with_freshness_warning r e)"
  by (auto simp: with_freshness_warning_def with_content_def same_message_def split: option.splits)

lemma message_action_known:
  assumes "\<forall>r. m = ToolResultMessage r \<longrightarrow> trm_tool_call_id r \<in> known"
  shows "same_message m (fst (message_action s known i prot (MarkResults marks) m)) \<and>
         shown (snd (message_action s known i prot (MarkResults marks) m))"
  using assms
  by (cases m)
     (auto simp: message_action_def Let_def shown_def with_freshness_same split: option.splits,
      auto simp: same_message_def with_content_def)

lemma result_in_ids: "ToolResultMessage r \<in> set g \<Longrightarrow> trm_tool_call_id r \<in> set (result_ids g)"
  by (induction g rule: result_ids.induct) auto

lemma shown_group_same:
  assumes "settled_group g" and "(\<Union>m \<in> set g. opens_batch m) \<subseteq> known"
  shows "list_all2 same_message g (shown_group s known prot (i, MarkResults marks, g))"
proof -
  let ?f = "message_action s known i (prot = Some i) (MarkResults marks)"
  have k: "same_message m (fst (?f m)) \<and> shown (snd (?f m))" if "m \<in> set g" for m
  proof (rule message_action_known, intro allI impI)
    fix r assume "m = ToolResultMessage r"
    with that have "trm_tool_call_id r \<in> set (result_ids g)" using result_in_ids by blast
    with assms settled_group_ids show "trm_tool_call_id r \<in> known" by blast
  qed
  then have "filter (\<lambda>ma. shown (snd ma)) (map ?f g) = map ?f g"
    by (intro filter_True) auto
  then have "shown_group s known prot (i, MarkResults marks, g) = map (fst \<circ> ?f) g"
    by (simp add: shown_group_def)
  then show ?thesis using k by (simp add: list_all2_conv_all_nth)
qed

lemma shown_group_omitted: "shown_group s known prot (i, OmitGroup, g) = []"
  by (simp add: shown_group_def message_action_def shown_def comp_def filter_empty_conv)

lemma numbered_groups_group: "(i, pl, g) \<in> set (numbered_groups visible) \<Longrightarrow> g \<in> set (message_groups visible)"
  by (auto simp: numbered_groups_def Let_def in_set_enumerate_eq dest: set_zip_rightD nth_mem)

lemma known_of_group:
  assumes "g \<in> set (message_groups visible)"
  shows "(\<Union>m \<in> set g. opens_batch m) \<subseteq> known_call_ids visible"
proof -
  have "set g \<subseteq> set (concat (message_groups visible))" using assms by auto
  then show ?thesis by (auto simp: known_call_ids_def concat_message_groups)
qed

lemma concat_nonempty: "concat (filter (\<lambda>ys. ys \<noteq> []) xss) = concat xss"
  by (induction xss) simp_all

theorem projection_settled:
  assumes "visible = messages_after_cursor ms cursor" and "settled_messages visible"
    and "build_projection s ms cursor = Inr plan"
  shows "settled_messages (model_messages plan)"
proof -
  let ?prot = "latest_unconsumed_tool_batch (message_groups visible)"
  let ?h = "shown_group s (known_call_ids visible) ?prot"
  have m: "model_messages plan = concat (map ?h (numbered_groups visible))"
    using build_projection_total [OF assms(1), of s] assms(3) by auto
  have "?h ig = [] \<or> settled_group (?h ig)" if ig: "ig \<in> set (numbered_groups visible)" for ig
  proof -
    obtain i pl g where e: "ig = (i, pl, g)" by (cases ig)
    have g: "g \<in> set (message_groups visible)" using ig e numbered_groups_group by blast
    then have st: "settled_group g" using assms(2) by (simp add: settled_messages_def)
    show ?thesis
    proof (cases pl)
      case OmitGroup
      with e show ?thesis by (simp add: shown_group_omitted)
    next
      case (MarkResults marks)
      with e shown_group_same [OF st known_of_group [OF g]] settled_group_same [OF st] show ?thesis by blast
    qed
  qed
  then have "\<forall>h \<in> set (filter (\<lambda>ys. ys \<noteq> []) (map ?h (numbered_groups visible))). settled_group h"
    by auto
  then have "settled_messages (concat (filter (\<lambda>ys. ys \<noteq> []) (map ?h (numbered_groups visible))))"
    by (rule settled_concat)
  then show ?thesis by (simp only: m concat_nonempty)
qed

section \<open>What is hidden of a read is shown in full elsewhere\<close>

definition marked :: "group_plan \<Rightarrow> tool_result_message \<Rightarrow> bool" where
  "marked plan r \<longleftrightarrow>
     (case plan of OmitGroup \<Rightarrow> True | MarkResults marks \<Rightarrow> trm_tool_call_id r \<in> fst ` set marks)"

definition full_copy :: "group_plan \<Rightarrow> message list \<Rightarrow> read_key \<Rightarrow> bool" where
  "full_copy plan g k \<longleftrightarrow>
     (\<exists>r \<in> set (tool_results g). read_key_of r = Some k \<and> \<not> marked plan r)"

lemma scan_results_keys:
  "scan_results prot seen rs = (marks, seen') \<Longrightarrow>
   seen' = seen \<union> {k. \<exists>r \<in> set rs. read_key_of r = Some k}"
proof (induction rs arbitrary: seen marks seen')
  case Nil
  then show ?case by simp
next
  case (Cons r rs)
  show ?case
  proof (cases "read_result_identity r")
    case None
    with Cons.IH [of seen marks seen'] Cons.prems show ?thesis
      by (auto simp: read_key_of_def)
  next
    case (Some id)
    obtain p d h l where id: "id = (p, d, h, l)" by (cases id)
    obtain ms s2 where rec: "scan_results prot (insert (p, h, l) seen) rs = (ms, s2)" by fastforce
    have "read_key_of r = Some (p, h, l)" by (simp add: read_key_of_def Some id)
    then show ?thesis
      using Cons.prems Cons.IH [OF rec] rec by (auto simp: Some id Let_def split: if_splits)
  qed
qed

lemma scan_results_marks:
  "scan_results prot seen rs = (marks, seen') \<Longrightarrow> i \<in> fst ` set marks \<Longrightarrow>
   \<exists>r \<in> set rs. trm_tool_call_id r = i \<and> read_key_of r \<noteq> None \<and> \<not> prot"
proof (induction rs arbitrary: seen marks seen')
  case Nil
  then show ?case by simp
next
  case (Cons r rs)
  show ?case
  proof (cases "read_result_identity r")
    case None
    with Cons.IH [of seen marks seen'] Cons.prems show ?thesis by auto
  next
    case (Some id)
    obtain p d h l where id: "id = (p, d, h, l)" by (cases id)
    obtain ms s2 where rec: "scan_results prot (insert (p, h, l) seen) rs = (ms, s2)" by fastforce
    have k: "read_key_of r \<noteq> None" by (simp add: read_key_of_def Some)
    from Cons.prems rec have "i \<in> fst ` set ms \<or> (i = trm_tool_call_id r \<and> \<not> prot)"
      by (auto simp: Some id Let_def split: if_splits)
    with k Cons.IH [OF rec] show ?thesis by auto
  qed
qed

lemma scan_results_ids:
  assumes "scan_results prot seen rs = (marks, seen')"
  shows "fst ` set marks \<subseteq> trm_tool_call_id ` set rs"
proof
  fix i assume "i \<in> fst ` set marks"
  from scan_results_marks [OF assms this] show "i \<in> trm_tool_call_id ` set rs" by auto
qed

text \<open>The first result with a new key gets no marker.\<close>

lemma scan_results_new:
  "scan_results prot seen rs = (marks, seen') \<Longrightarrow> distinct (map trm_tool_call_id rs) \<Longrightarrow>
   k \<in> seen' - seen \<Longrightarrow>
   \<exists>r \<in> set rs. read_key_of r = Some k \<and> trm_tool_call_id r \<notin> fst ` set marks"
proof (induction rs arbitrary: seen marks seen')
  case Nil
  then show ?case by simp
next
  case (Cons r rs)
  show ?case
  proof (cases "read_result_identity r")
    case None
    with Cons show ?thesis by force
  next
    case (Some id)
    obtain p d h l where id: "id = (p, d, h, l)" by (cases id)
    obtain ms s2 where rec: "scan_results prot (insert (p, h, l) seen) rs = (ms, s2)" by fastforce
    have key: "read_key_of r = Some (p, h, l)" by (simp add: read_key_of_def Some id)
    have c: "seen' = s2 \<and> (marks = ms \<or>
        ((p, h, l) \<in> seen \<and> marks = (trm_tool_call_id r, duplicate_marker d l) # ms))"
      using Cons.prems(1) rec by (simp add: Some id Let_def split: if_splits)
    then have s2: "seen' = s2" by (rule conjunct1)
    have marks: "fst ` set marks \<subseteq>
        fst ` set ms \<union> (if (p, h, l) \<in> seen then {trm_tool_call_id r} else {})"
    proof (cases "marks = ms")
      case True
      then show ?thesis by blast
    next
      case False
      with c have "(p, h, l) \<in> seen" "marks = (trm_tool_call_id r, duplicate_marker d l) # ms"
        by blast+
      then show ?thesis by simp
    qed
    have in_rs: "fst ` set ms \<subseteq> trm_tool_call_id ` set rs"
      by (rule scan_results_ids [OF rec])
    show ?thesis
    proof (cases "k = (p, h, l)")
      case True
      with Cons.prems(3) have "(p, h, l) \<notin> seen" by simp
      with marks in_rs Cons.prems(2) have "trm_tool_call_id r \<notin> fst ` set marks" by auto
      with True key show ?thesis by simp
    next
      case False
      with Cons.prems(3) s2 have "k \<in> s2 - insert (p, h, l) seen" by simp
      with Cons.IH [OF rec] Cons.prems(2) obtain q where
        q: "q \<in> set rs" "read_key_of q = Some k" "trm_tool_call_id q \<notin> fst ` set ms" by auto
      have "trm_tool_call_id q \<in> trm_tool_call_id ` set rs" using q(1) by (rule imageI)
      moreover have "trm_tool_call_id r \<notin> trm_tool_call_id ` set rs" using Cons.prems(2) by simp
      ultimately have "trm_tool_call_id q \<noteq> trm_tool_call_id r" by metis
      then have "trm_tool_call_id q \<notin> fst ` set marks"
        using marks q(3) by (cases "(p, h, l) \<in> seen") auto
      with q(1,2) show ?thesis by (intro bexI [of _ q]) auto
    qed
  qed
qed

lemma tool_results_tl: "is_closed_tool_batch g \<Longrightarrow> tool_results g = tool_results (tl g)"
  by (cases g) (auto simp: is_closed_tool_batch_def tool_batch_call_ids_def Let_def
      split: message.splits)

lemma result_ids_tool_results: "result_ids ms = map trm_tool_call_id (tool_results ms)"
  by (induction ms rule: tool_results.induct) auto

lemma group_duplicates_full:
  assumes "group_duplicates prot seen g = (plan, seen')"
  shows "seen \<subseteq> seen'" and "k \<in> seen' - seen \<Longrightarrow> full_copy plan g k"
    and "r \<in> set (tool_results g) \<Longrightarrow> marked plan r \<Longrightarrow>
         \<exists>k \<in> seen'. read_key_of r = Some k"
proof -
  let ?rs = "tool_results (tl g)"
  obtain marks s2 where sc: "scan_results prot seen ?rs = (marks, s2)" by fastforce
  note keys = scan_results_keys [OF sc]
  note ms = scan_results_marks [OF sc]
  show "seen \<subseteq> seen'"
    using assms sc keys by (auto simp: group_duplicates_def Let_def split: if_splits)
  have closed: "is_closed_tool_batch g" if "marked plan r \<or> k \<in> seen' - seen" for r k
    using that assms by (auto simp: group_duplicates_def marked_def split: if_splits)
  have cl: "tool_results g = ?rs \<and> distinct (map trm_tool_call_id ?rs) \<and> seen' = s2 \<and>
     (plan = MarkResults marks \<or>
      (plan = OmitGroup \<and> card (fst ` set marks) = length ?rs))"
    if c: "is_closed_tool_batch g"
  proof -
    have "distinct (map trm_tool_call_id ?rs)"
      using c by (intro card_distinct)
        (simp add: is_closed_tool_batch_def Let_def result_ids_tool_results)
    with c tool_results_tl [OF c] assms sc show ?thesis
      by (auto simp: group_duplicates_def Let_def split: if_splits)
  qed
  note sub = scan_results_ids [OF sc]
  have all: "trm_tool_call_id r \<in> fst ` set marks"
    if c: "is_closed_tool_batch g" and "marked plan r" and "r \<in> set ?rs" for r
  proof -
    from cl [OF c] consider "plan = MarkResults marks"
      | "card (fst ` set marks) = length ?rs" "distinct (map trm_tool_call_id ?rs)" by blast
    then show ?thesis
    proof cases
      case 1
      with that show ?thesis by (simp add: marked_def)
    next
      case 2
      have "card (trm_tool_call_id ` set ?rs) = length ?rs"
        using distinct_card [OF 2(2)] by simp
      with 2(1) sub have "fst ` set marks = trm_tool_call_id ` set ?rs"
        by (intro card_subset_eq) auto
      with that(3) show ?thesis by blast
    qed
  qed
  show "full_copy plan g k" if k: "k \<in> seen' - seen"
  proof -
    have c: "is_closed_tool_batch g" using closed k by blast
    have k2: "k \<in> s2 - seen" using k cl [OF c] by simp
    have d: "distinct (map trm_tool_call_id ?rs)" using cl [OF c] by blast
    obtain q where q: "q \<in> set ?rs" "read_key_of q = Some k" "trm_tool_call_id q \<notin> fst ` set marks"
      using scan_results_new [OF sc d k2] by blast
    with all [OF c] have "\<not> marked plan q" by blast
    with q cl [OF c] show ?thesis unfolding full_copy_def by auto
  qed
  show "\<exists>k \<in> seen'. read_key_of r = Some k" if r: "r \<in> set (tool_results g)" "marked plan r"
  proof -
    have c: "is_closed_tool_batch g" using closed r by blast
    with cl r(1) have rs: "r \<in> set ?rs" by simp
    with all [OF c r(2)] ms obtain r' where r': "r' \<in> set ?rs"
      "trm_tool_call_id r' = trm_tool_call_id r" "read_key_of r' \<noteq> None" by blast
    have "inj_on trm_tool_call_id (set ?rs)" using cl [OF c] by (simp add: distinct_map)
    with r' rs have "r' = r" by (simp add: inj_on_eq_iff)
    with r'(3) obtain k where "read_key_of r = Some k" by blast
    with rs keys cl [OF c] show ?thesis by auto
  qed
qed

lemma length_duplicates_loop [simp]: "length (duplicates_loop prot seen gs) = length gs"
  by (induction prot seen gs rule: duplicates_loop.induct) (simp_all add: Let_def split: prod.splits)

lemma duplicates_loop_full:
  assumes "(pl, g) \<in> set (zip (duplicates_loop prot seen gs) gs)"
    and "r \<in> set (tool_results g)" and "marked pl r"
  shows "\<exists>k. read_key_of r = Some k \<and>
    (k \<in> seen \<or> (\<exists>pl' g'. (pl', g') \<in> set (zip (duplicates_loop prot seen gs) gs) \<and> full_copy pl' g' k))"
  using assms
proof (induction gs arbitrary: seen)
  case Nil
  then show ?case by simp
next
  case (Cons h gs)
  obtain hp seen' where h: "group_duplicates (prot = Some (length gs)) seen h = (hp, seen')" by fastforce
  have z: "zip (duplicates_loop prot seen (h # gs)) (h # gs) =
           (hp, h) # zip (duplicates_loop prot seen' gs) gs" by (simp add: h)
  note full = group_duplicates_full [OF h]
  have "\<exists>k. read_key_of r = Some k \<and>
    (k \<in> seen' \<or> (\<exists>pl' g'. (pl', g') \<in> set (zip (duplicates_loop prot seen' gs) gs) \<and> full_copy pl' g' k))"
  proof (cases "(pl, g) = (hp, h)")
    case True
    with full(3) [of r] Cons.prems(2,3) show ?thesis by auto
  next
    case False
    with Cons.prems(1) z have "(pl, g) \<in> set (zip (duplicates_loop prot seen' gs) gs)" by auto
    then show ?thesis using Cons.prems(2,3) by (rule Cons.IH)
  qed
  then obtain k where k: "read_key_of r = Some k"
    "k \<in> seen' \<or> (\<exists>pl' g'. (pl', g') \<in> set (zip (duplicates_loop prot seen' gs) gs) \<and> full_copy pl' g' k)"
    by blast
  show ?case
  proof (cases "k \<in> seen' - seen")
    case True
    then have "full_copy hp h k" by (rule full(2))
    with k(1) show ?thesis unfolding z by auto
  next
    case False
    with k show ?thesis unfolding z by auto
  qed
qed

lemma in_enumerate: "(\<exists>i. (i, x) \<in> set (enumerate n xs)) \<longleftrightarrow> x \<in> set xs"
proof -
  have "set xs = snd ` set (enumerate n xs)" by (metis list.set_map map_snd_enumerate)
  then show ?thesis by force
qed

lemma in_numbered_groups:
  "(\<exists>i. (i, pl, g) \<in> set (numbered_groups visible)) \<longleftrightarrow>
   (pl, g) \<in> set (zip (exact_read_duplicates (latest_unconsumed_tool_batch (message_groups visible))
                     (message_groups visible)) (message_groups visible))"
  unfolding numbered_groups_def Let_def by (rule in_enumerate)

lemma marked_has_full_copy:
  assumes "(i, pl, g) \<in> set (numbered_groups visible)" and "r \<in> set (tool_results g)" and "marked pl r"
  shows "\<exists>k i' pl' g'. read_key_of r = Some k \<and> (i', pl', g') \<in> set (numbered_groups visible) \<and>
           full_copy pl' g' k"
proof -
  let ?gs = "message_groups visible"
  let ?p = "latest_unconsumed_tool_batch ?gs"
  let ?z = "zip (duplicates_loop ?p {} (rev ?gs)) (rev ?gs)"
  have "zip (exact_read_duplicates ?p ?gs) ?gs = rev ?z"
    unfolding exact_read_duplicates_def by (subst zip_rev [symmetric]) simp_all
  then have eq: "set (zip (exact_read_duplicates ?p ?gs) ?gs) = set ?z" by simp
  have "(pl, g) \<in> set ?z" using assms(1) in_numbered_groups eq by blast
  from duplicates_loop_full [OF this assms(2,3)] show ?thesis
    using eq in_numbered_groups by blast
qed

lemma read_key_with_content [simp]: "read_key_of (r\<lparr>trm_content := blocks\<rparr>) = read_key_of r"
  by (simp add: read_key_of_def read_result_identity_def details_dict_def)

lemma tool_results_in: "r \<in> set (tool_results ms) \<longleftrightarrow> ToolResultMessage r \<in> set ms"
  by (induction ms rule: tool_results.induct) auto

lemma plan_entry:
  "map (\<lambda>p. (pm_message p, pm_action p)) plan = concat (map (\<lambda>(i, pl, g). map (f i pl) g) igs) \<Longrightarrow>
   (\<exists>p \<in> set plan. pm_message p = m \<and> pm_action p = a) \<longleftrightarrow>
   (\<exists>i pl g. (i, pl, g) \<in> set igs \<and> (\<exists>n \<in> set g. f i pl n = (m, a)))"
proof -
  assume e: "map (\<lambda>p. (pm_message p, pm_action p)) plan = concat (map (\<lambda>(i, pl, g). map (f i pl) g) igs)"
  have "(\<exists>p \<in> set plan. pm_message p = m \<and> pm_action p = a) \<longleftrightarrow>
        (m, a) \<in> set (map (\<lambda>p. (pm_message p, pm_action p)) plan)" by auto
  also have "\<dots> \<longleftrightarrow> (\<exists>i pl g. (i, pl, g) \<in> set igs \<and> (\<exists>n \<in> set g. f i pl n = (m, a)))"
    unfolding e by (auto simp: image_iff) (metis, force)
  finally show ?thesis .
qed

theorem hidden_read_is_shown:
  assumes vis: "visible = messages_after_cursor ms cursor" and st: "settled_messages visible"
    and plan: "build_projection s ms cursor = Inr plan"
    and p: "p \<in> set plan" "pm_message p = ToolResultMessage r"
      "pm_action p \<noteq> KeepFull" "pm_action p \<noteq> DiscardOrphan"
  shows "\<exists>q \<in> set plan. \<exists>r' e. pm_action q = KeepFull \<and> pm_message q = with_freshness_warning r' e \<and>
           ToolResultMessage r' \<in> set visible \<and> read_key_of r \<noteq> None \<and> read_key_of r' = read_key_of r"
proof -
  let ?prot = "latest_unconsumed_tool_batch (message_groups visible)"
  let ?f = "\<lambda>i pl. message_action s (known_call_ids visible) i (?prot = Some i) pl"
  have e: "map (\<lambda>p. (pm_message p, pm_action p)) plan =
     concat (map (\<lambda>(i, pl, g). map (?f i pl) g) (numbered_groups visible))"
    using build_projection_total [OF vis, of s] plan by auto
  from p(1,2) have "\<exists>p' \<in> set plan. pm_message p' = ToolResultMessage r \<and> pm_action p' = pm_action p" by blast
  then obtain i pl g m where g: "(i, pl, g) \<in> set (numbered_groups visible)" "m \<in> set g"
    "?f i pl m = (ToolResultMessage r, pm_action p)"
    unfolding plan_entry [OF e] by blast
  have "\<exists>r0. m = ToolResultMessage r0 \<and> marked pl r0 \<and> read_key_of r0 = read_key_of r"
    using g(3) p(3,4)
    by (auto simp: message_action_def Let_def marked_def with_content_def
        split: group_plan.splits message.splits if_splits option.splits dest!: map_of_SomeD)
       (metis fst_conv image_eqI)+
  then obtain r0 where r0: "m = ToolResultMessage r0" "marked pl r0" "read_key_of r0 = read_key_of r"
    by blast
  with g(2) have "r0 \<in> set (tool_results g)" by (simp add: tool_results_in)
  from marked_has_full_copy [OF g(1) this r0(2)] obtain k i' pl' g' where
    k: "read_key_of r0 = Some k" and g': "(i', pl', g') \<in> set (numbered_groups visible)"
    and fc: "full_copy pl' g' k" by blast
  from fc obtain r' where r': "ToolResultMessage r' \<in> set g'" "read_key_of r' = Some k" "\<not> marked pl' r'"
    unfolding full_copy_def by (auto simp: tool_results_in)
  have gm: "g' \<in> set (message_groups visible)" by (rule numbered_groups_group [OF g'])
  with st have sg: "settled_group g'" by (simp add: settled_messages_def)
  have "trm_tool_call_id r' \<in> (\<Union>m \<in> set g'. opens_batch m)"
    using result_in_ids [OF r'(1)] settled_group_ids [OF sg] by simp
  with known_of_group [OF gm] have kn: "trm_tool_call_id r' \<in> known_call_ids visible" by blast
  from r'(3) obtain marks where "pl' = MarkResults marks" "trm_tool_call_id r' \<notin> fst ` set marks"
    by (cases pl') (auto simp: marked_def)
  with kn have "?f i' pl' (ToolResultMessage r') = (with_freshness_warning r'
      (map_of (cx_evidence s) (message_source_ref (ToolResultMessage r') i')), KeepFull)"
    by (simp add: message_action_def Let_def map_of_eq_None_iff [THEN iffD2])
  with g' r'(1) have "\<exists>q \<in> set plan. pm_message q = with_freshness_warning r'
      (map_of (cx_evidence s) (message_source_ref (ToolResultMessage r') i')) \<and> pm_action q = KeepFull"
    unfolding plan_entry [OF e] by blast
  moreover have "ToolResultMessage r' \<in> set visible"
  proof -
    have "set g' \<subseteq> set (concat (message_groups visible))" using gm by auto
    with r'(1) show ?thesis by (auto simp: concat_message_groups)
  qed
  ultimately show ?thesis using k r'(2) r0(3) by (metis option.distinct(1))
qed

end
