(* ===== verification/Context_Thinning.thy ===== *)
theory Context_Thinning
  imports Context_Transcript Llm_Estimation
begin

text \<open>
  Thinning under pressure, \<^verbatim>\<open>src/codepilot/sessions/context/thinning.py\<close>: old recoverable tool
  outputs and reads covered by newer ones are replaced by an excerpt and a reference to the
  archived text, oldest first, until the estimate reaches the target. The estimator is the
  argument the source has; the archive is a table from paths to texts, written only where no
  file is.
\<close>

abbreviation MAX_RECENT_TOOL_TOKENS :: int where "MAX_RECENT_TOOL_TOKENS \<equiv> 40000"
abbreviation EXCERPT_CHARS :: nat where "EXCERPT_CHARS \<equiv> 500"

definition thinnable_tools :: "string list" where
  "thinnable_tools =
     [''bash'', ''command'', ''find'', ''grep'', ''ls'', ''shell'', ''workspace_status'']"

section \<open>Covered ranges\<close>

fun covered_loop :: "int \<Rightarrow> int \<Rightarrow> line_range list \<Rightarrow> bool" where
  "covered_loop cursor stop [] = (stop < cursor)"
| "covered_loop cursor stop ((start, finish) # ranges) =
     (if finish < cursor then covered_loop cursor stop ranges
      else if cursor < start then False
      else (let cursor' = max cursor (finish + 1) in
            if stop < cursor' then True else covered_loop cursor' stop ranges))"

definition range_covered :: "line_range \<Rightarrow> line_range list \<Rightarrow> bool" where
  "range_covered target ranges \<longleftrightarrow>
     ranges \<noteq> [] \<and> covered_loop (fst target) (snd target) (sort ranges)"

definition line_in :: "int \<Rightarrow> line_range list \<Rightarrow> bool" where
  "line_in l ranges \<longleftrightarrow> (\<exists>r \<in> set ranges. fst r \<le> l \<and> l \<le> snd r)"

lemma covered_loop_lines:
  assumes "sorted ranges" and "cursor \<le> stop"
  shows "covered_loop cursor stop ranges \<longleftrightarrow> (\<forall>l. cursor \<le> l \<and> l \<le> stop \<longrightarrow> line_in l ranges)"
  using assms
proof (induction cursor stop ranges rule: covered_loop.induct)
  case (1 cursor stop)
  then show ?case by (auto simp: line_in_def)
next
  case (2 cursor stop start finish ranges)
  have sorted: "sorted ranges" using "2.prems"(1) by simp
  have later: "start \<le> fst r" if "r \<in> set ranges" for r
    using "2.prems"(1) that by (auto simp: less_eq_prod_def)
  consider (before) "finish < cursor" | (gap) "\<not> finish < cursor" "cursor < start"
    | (meet) "\<not> finish < cursor" "\<not> cursor < start" by blast
  then show ?case
  proof cases
    case before
    have "line_in l ((start, finish) # ranges) = line_in l ranges" if "cursor \<le> l" for l
      using that before by (auto simp: line_in_def)
    with before "2.IH"(1) [OF before sorted "2.prems"(2)] show ?thesis by auto
  next
    case gap
    have "\<not> line_in cursor ((start, finish) # ranges)"
      using gap later by (fastforce simp: line_in_def)
    with gap "2.prems"(2) show ?thesis by auto
  next
    case meet
    have m: "max cursor (finish + 1) = finish + 1" using meet by simp
    show ?thesis
    proof (cases "stop < finish + 1")
      case True
      with meet m show ?thesis by (auto simp: line_in_def)
    next
      case False
      have "(\<forall>l. cursor \<le> l \<and> l \<le> stop \<longrightarrow> line_in l ((start, finish) # ranges)) \<longleftrightarrow>
            (\<forall>l. finish + 1 \<le> l \<and> l \<le> stop \<longrightarrow> line_in l ranges)"
        using meet by (auto simp: line_in_def) (smt (verit) fst_conv snd_conv)+
      with meet m False "2.IH"(2) [OF meet refl] sorted show ?thesis by simp
    qed
  qed
qed

theorem range_covered_lines:
  assumes "fst target \<le> snd target"
  shows "range_covered target ranges \<longleftrightarrow>
         (\<forall>l. fst target \<le> l \<and> l \<le> snd target \<longrightarrow> line_in l ranges)"
proof (cases "ranges = []")
  case True
  with assms show ?thesis by (auto simp: range_covered_def line_in_def)
next
  case False
  have "line_in l (sort ranges) = line_in l ranges" for l by (simp add: line_in_def)
  with False covered_loop_lines [of "sort ranges"] assms show ?thesis
    by (simp add: range_covered_def)
qed

section \<open>What may be thinned\<close>

type_synonym newer_reads = "(string \<times> (string \<times> line_range) list) list"

text \<open>One message of the scan from the newest group: the reads seen so far, by path, and the
  calls whose lines they cover.\<close>

definition cover_result ::
  "context_state \<Rightarrow> nat \<Rightarrow> tool_result_message \<Rightarrow> newer_reads \<times> string set \<Rightarrow> newer_reads \<times> string set" where
  "cover_result s index r = (\<lambda>(newer, covered).
     case read_result_identity r of
       None \<Rightarrow> (newer, covered)
     | Some (path, display, sha256, lines) \<Rightarrow>
         (let evidence = map_of (cx_evidence s) (message_source_ref (ToolResultMessage r) index);
              candidates = (case map_of newer path of None \<Rightarrow> [] | Some cs \<Rightarrow> cs);
              old = (case evidence of None \<Rightarrow> False | Some e \<Rightarrow> out_of_date (cev_freshness e));
              new_version = list_ex (\<lambda>c. fst c \<noteq> sha256) candidates
          in (if \<not> old then AList.update path (candidates @ [(sha256, lines)]) newer else newer,
              if candidates \<noteq> [] \<and> range_covered lines (map snd candidates) \<and>
                 (evidence = None \<or> old \<or> new_version)
              then insert (trm_tool_call_id r) covered else covered)))"

fun covered_groups ::
  "context_state \<Rightarrow> message list list \<Rightarrow> newer_reads \<times> string set \<Rightarrow> newer_reads \<times> string set" where
  "covered_groups s [] acc = acc"
| "covered_groups s (g # gs) acc =
     covered_groups s gs (fold (cover_result s (length gs)) (tool_results g) acc)"

definition covered_read_calls :: "context_state \<Rightarrow> message list list \<Rightarrow> string set" where
  "covered_read_calls s groups = snd (covered_groups s (rev groups) ([], {}))"

fun recent_loop :: "int \<Rightarrow> int \<Rightarrow> string set \<Rightarrow> message list list \<Rightarrow> string set" where
  "recent_loop budget used protected [] = protected"
| "recent_loop budget used protected (g # gs) =
     (let results = tool_results g in
      if results = [] then recent_loop budget used protected gs
      else
        (let tokens = int (sum_list (map (\<lambda>r. text_tokens no_correction (tool_text r)) results)) in
         if protected \<noteq> {} \<and> budget < used + tokens then protected
         else recent_loop budget (used + tokens)
                (protected \<union> set (map trm_tool_call_id results)) gs))"

definition recent_tool_calls :: "message list list \<Rightarrow> int \<Rightarrow> string set" where
  "recent_tool_calls groups budget = recent_loop budget 0 {} (rev groups)"

definition thinning_reason :: "tool_result_message \<Rightarrow> string set \<Rightarrow> string option" where
  "thinning_reason r covered =
     (if trm_tool_call_id r \<in> covered then Some ''read_covered''
      else if trm_tool_name r \<notin> set thinnable_tools then None
      else if trm_status r \<noteq> TRSuccess \<or> trm_is_error r \<or> changed_workspace r then None
      else if has_verification r then None
      else Some ''old_tool_output'')"

section \<open>The replacement\<close>

text \<open>\<^verbatim>\<open>isalnum\<close> on code points below 256.\<close>

definition alnum_char :: "char \<Rightarrow> bool" where
  "alnum_char c = (let n = (of_char c :: nat) in
     (48 \<le> n \<and> n \<le> 57) \<or> (65 \<le> n \<and> n \<le> 90) \<or> (97 \<le> n \<and> n \<le> 122) \<or>
     n \<in> {170, 178, 179, 181, 185, 186, 188, 189, 190} \<or>
     (192 \<le> n \<and> n \<noteq> 215 \<and> n \<noteq> 247))"

definition safe_stem :: "string \<Rightarrow> string" where
  "safe_stem s =
     (let stem = take 80 (map (\<lambda>c. if alnum_char c \<or> c = CHR ''-'' \<or> c = CHR ''_'' then c
                                  else CHR ''_'') s)
      in if stem = [] then ''tool'' else stem)"

definition py_rstrip :: "string \<Rightarrow> string" where
  "py_rstrip s = rev (py_lstrip (rev s))"

definition excerpt :: "string \<Rightarrow> string \<times> string" where
  "excerpt s =
     (if length s \<le> EXCERPT_CHARS * 2 then (s, s)
      else (py_rstrip (take EXCERPT_CHARS s), py_lstrip (drop (length s - EXCERPT_CHARS) s)))"

text \<open>\<^verbatim>\<open>p / q\<close>: an absolute part replaces what stands before it.\<close>

definition path_join :: "string list \<Rightarrow> string" where
  "path_join parts =
     as_posix (foldl (\<lambda>p q. if py_startswith q ''/'' then q else p @ ''/'' @ q) (hd parts) (tl parts))"

type_synonym archive = "(string \<times> string) list"

definition archive_path :: "context_env \<Rightarrow> string \<Rightarrow> tool_result_message \<Rightarrow> string \<Rightarrow> string" where
  "archive_path env run_id r txt =
     path_join [''.codepilot'', ''runs'', run_id, ''artifacts'', ''tool_outputs'',
       safe_stem (trm_tool_call_id r) @ ''_'' @ take 12 (cenv_sha256 env txt) @ ''.txt'']"

definition archive_output ::
  "context_env \<Rightarrow> string \<Rightarrow> tool_result_message \<Rightarrow> string \<Rightarrow> archive \<Rightarrow> string \<times> archive" where
  "archive_output env run_id r txt files =
     (let ref = archive_path env run_id r txt in
      (ref, if map_of files ref = None then AList.update ref txt files else files))"

definition thinned_text :: "tool_result_message \<Rightarrow> string \<Rightarrow> string \<Rightarrow> string \<Rightarrow> string" where
  "thinned_text r txt ref reason =
     (let (first, final) = excerpt txt in
      py_join ''\<newline>''
        ([''[Older tool output omitted under tight Context pressure]'',
          ''tool='' @ trm_tool_name r @ '' status='' @ tool_result_status_name (trm_status r)
            @ '' reason='' @ reason] @
         (case trm_exit_code r of None \<Rightarrow> [] | Some c \<Rightarrow> [''exit_code='' @ str_int c]) @
         (if trm_affected_paths r = [] then []
          else [''paths='' @ py_join '', '' (take 8 (trm_affected_paths r))]) @
         [''artifact_ref='' @ ref] @
         (if first = [] then [] else [''first_excerpt:'', first]) @
         (if final = [] \<or> final = first then [] else [''last_excerpt:'', final])))"

definition thinned_result :: "tool_result_message \<Rightarrow> string \<Rightarrow> string \<Rightarrow> string \<Rightarrow> tool_result_message" where
  "thinned_result r txt ref reason =
     r\<lparr>trm_content := [TextBlock (thinned_text r txt ref reason) None],
       trm_metadata := AList.update ''context_thinned'' (PBool True)
         (AList.update ''artifact_ref'' (PStr ref) (trm_metadata r))\<rparr>"

section \<open>The loop\<close>

record thinning =
  th_messages :: "message list"
  th_actions :: "string list"
  th_archive :: archive

record thin_env =
  te_env :: context_env
  te_run_id :: string
  te_target :: nat
  te_estimate :: "message list \<Rightarrow> nat"
  te_protected_group :: "nat option"
  te_protected_calls :: "string set"
  te_covered :: "string set"

text \<open>The result that may be thinned, with its text and the reason.\<close>

definition thinnable :: "thin_env \<Rightarrow> nat \<Rightarrow> message \<Rightarrow> (tool_result_message \<times> string \<times> string) option" where
  "thinnable te index m =
     (if te_protected_group te = Some index then None
      else (case m of
        ToolResultMessage r \<Rightarrow>
          if trm_tool_call_id r \<in> te_protected_calls te then None
          else (case thinning_reason r (te_covered te) of
                  None \<Rightarrow> None
                | Some reason \<Rightarrow> if tool_text r = [] then None else Some (r, tool_text r, reason))
      | _ \<Rightarrow> None))"

fun thin_loop :: "thin_env \<Rightarrow> message list \<Rightarrow> (nat \<times> message) list \<Rightarrow> string list \<Rightarrow> archive \<Rightarrow> thinning" where
  "thin_loop te before [] actions files =
     \<lparr>th_messages = before, th_actions = actions, th_archive = files\<rparr>"
| "thin_loop te before ((index, m) # rest) actions files =
     (case thinnable te index m of
        None \<Rightarrow> thin_loop te (before @ [m]) rest actions files
      | Some (r, txt, reason) \<Rightarrow>
         (let (ref, files') = archive_output (te_env te) (te_run_id te) r txt files;
              m' = ToolResultMessage (thinned_result r txt ref reason);
              output = before @ m' # map snd rest;
              actions' = actions @ [reason @ '':'' @ trm_tool_call_id r]
          in if te_estimate te output \<le> te_target te
             then \<lparr>th_messages = output, th_actions = actions', th_archive = files'\<rparr>
             else thin_loop te (before @ [m']) rest actions' files'))"

definition indexed_messages :: "message list list \<Rightarrow> (nat \<times> message) list" where
  "indexed_messages groups = concat (map (\<lambda>(i, g). map (\<lambda>m. (i, m)) g) (enumerate 0 groups))"

definition thin_env_of ::
  "context_env \<Rightarrow> context_state \<Rightarrow> string \<Rightarrow> nat \<Rightarrow> (message list \<Rightarrow> nat) \<Rightarrow> int \<Rightarrow> message list list \<Rightarrow> thin_env" where
  "thin_env_of env s run_id target estimate recent groups =
     \<lparr>te_env = env, te_run_id = run_id, te_target = target, te_estimate = estimate,
      te_protected_group = latest_unconsumed_tool_batch groups,
      te_protected_calls = recent_tool_calls groups (max 0 recent),
      te_covered = covered_read_calls s groups\<rparr>"

definition thin ::
  "context_env \<Rightarrow> context_state \<Rightarrow> string \<Rightarrow> nat \<Rightarrow> (message list \<Rightarrow> nat) \<Rightarrow> int
   \<Rightarrow> message list \<Rightarrow> archive \<Rightarrow> thinning" where
  "thin env s run_id target estimate recent messages files =
     (if estimate messages \<le> target
      then \<lparr>th_messages = messages, th_actions = [], th_archive = files\<rparr>
      else
        (let groups = message_groups messages in
         thin_loop (thin_env_of env s run_id target estimate recent groups) []
           (indexed_messages groups) [] files))"

section \<open>What thinning keeps\<close>

definition thinned_as :: "thin_env \<Rightarrow> nat \<times> message \<Rightarrow> message \<Rightarrow> bool" where
  "thinned_as te = (\<lambda>(index, m) n. \<exists>r txt reason. thinnable te index m = Some (r, txt, reason) \<and>
     n = ToolResultMessage (thinned_result r txt
           (archive_path (te_env te) (te_run_id te) r txt) reason))"

lemma thinnable_Some:
  "thinnable te i m = Some (r, txt, reason) \<longleftrightarrow>
   m = ToolResultMessage r \<and> te_protected_group te \<noteq> Some i \<and>
   trm_tool_call_id r \<notin> te_protected_calls te \<and> thinning_reason r (te_covered te) = Some reason \<and>
   txt = tool_text r \<and> txt \<noteq> []"
  by (auto simp: thinnable_def split: message.splits option.splits)

lemma thin_loop_induct [case_names Nil Keep Thin]:
  assumes "\<And>before actions files. P before [] actions files"
    and "\<And>before i m rest actions files. thinnable te i m = None \<Longrightarrow>
           P (before @ [m]) rest actions files \<Longrightarrow> P before ((i, m) # rest) actions files"
    and "\<And>before i m rest actions files r body reason ref files' m'.
           thinnable te i m = Some (r, body, reason) \<Longrightarrow>
           archive_output (te_env te) (te_run_id te) r body files = (ref, files') \<Longrightarrow>
           m' = ToolResultMessage (thinned_result r body ref reason) \<Longrightarrow>
           P (before @ [m']) rest (actions @ [reason @ '':'' @ trm_tool_call_id r]) files' \<Longrightarrow>
           P before ((i, m) # rest) actions files"
  shows "P before rest actions files"
proof (induction rest arbitrary: before actions files)
  case Nil
  show ?case by (rule assms(1))
next
  case (Cons im rest before actions files)
  obtain i m where im: "im = (i, m)" by (cases im)
  show ?case
  proof (cases "thinnable te i m")
    case None
    then show ?thesis unfolding im by (rule assms(2)) (rule Cons.IH)
  next
    case (Some x)
    obtain r body reason where x: "x = (r, body, reason)" by (cases x)
    obtain ref files' where a: "archive_output (te_env te) (te_run_id te) r body files = (ref, files')"
      by fastforce
    show ?thesis unfolding im
      by (rule assms(3) [OF Some [unfolded x] a refl]) (rule Cons.IH)
  qed
qed

lemma archive_output_ref:
  "archive_output env run r body files = (ref, files') \<Longrightarrow> ref = archive_path env run r body"
  by (simp add: archive_output_def Let_def)

lemma thin_loop_messages:
  "\<exists>ns. th_messages (thin_loop te before rest actions files) = before @ ns \<and>
        list_all2 (\<lambda>im n. n = snd im \<or> thinned_as te im n) rest ns"
proof (induction before rest actions files rule: thin_loop_induct [of _ te])
  case (Nil before actions files)
  show ?case by simp
next
  case (Keep before i m rest actions files)
  then obtain ns where
    "th_messages (thin_loop te (before @ [m]) rest actions files) = (before @ [m]) @ ns"
    "list_all2 (\<lambda>im n. n = snd im \<or> thinned_as te im n) rest ns" by blast
  with Keep(1) show ?case by (intro exI [of _ "m # ns"]) simp
next
  case (Thin before i m rest actions files r body reason ref files' m')
  have th: "thinned_as te (i, m) m'"
    using Thin(1,3) archive_output_ref [OF Thin(2)] unfolding thinned_as_def by blast
  show ?case
  proof (cases "te_estimate te (before @ m' # map snd rest) \<le> te_target te")
    case True
    have "list_all2 (\<lambda>im n. n = snd im \<or> thinned_as te im n) rest (map snd rest)"
      by (simp add: list_all2_conv_all_nth)
    with True th Thin(1-3) show ?thesis
      by (intro exI [of _ "m' # map snd rest"]) simp
  next
    case False
    from Thin(4) obtain ns where
      "th_messages (thin_loop te (before @ [m']) rest (actions @ [reason @ '':'' @ trm_tool_call_id r]) files')
         = (before @ [m']) @ ns"
      "list_all2 (\<lambda>im n. n = snd im \<or> thinned_as te im n) rest ns" by blast
    with False th Thin(1-3) show ?thesis
      by (intro exI [of _ "m' # ns"]) simp
  qed
qed

text \<open>Either the estimate reaches the target, or everything that may be thinned has been.\<close>

lemma thin_loop_exhaustive:
  assumes "rest \<noteq> []" and "te_target te < te_estimate te (before @ map snd rest)"
  shows "te_estimate te (th_messages (thin_loop te before rest actions files)) \<le> te_target te \<or>
    (\<exists>ns. th_messages (thin_loop te before rest actions files) = before @ ns \<and>
          list_all2 (\<lambda>im n. thinned_as te im n \<or> (n = snd im \<and> thinnable te (fst im) (snd im) = None)) rest ns)"
    (is "?small before rest actions files \<or> ?all before rest actions files")
proof -
  have "?small before rest actions files \<or> ?all before rest actions files" for before rest actions files
  proof (induction before rest actions files rule: thin_loop_induct [of _ te])
    case (Nil before actions files)
    show ?case by simp
  next
    case (Keep before i m rest actions files)
    from Keep(2) show ?case
    proof
      assume "?all (before @ [m]) rest actions files"
      then obtain ns where
        "th_messages (thin_loop te (before @ [m]) rest actions files) = (before @ [m]) @ ns"
        "list_all2 (\<lambda>im n. thinned_as te im n \<or> (n = snd im \<and> thinnable te (fst im) (snd im) = None)) rest ns"
        by blast
      with Keep(1) have "?all before ((i, m) # rest) actions files"
        by (intro exI [of _ "m # ns"]) simp
      then show ?thesis ..
    qed (use Keep(1) in simp)
  next
    case (Thin before i m rest actions files r body reason ref files' m')
    have th: "thinned_as te (i, m) m'"
      using Thin(1,3) archive_output_ref [OF Thin(2)] unfolding thinned_as_def by blast
    let ?acts = "actions @ [reason @ '':'' @ trm_tool_call_id r]"
    show ?case
    proof (cases "te_estimate te (before @ m' # map snd rest) \<le> te_target te")
      case True
      with Thin(1-3) show ?thesis by simp
    next
      case False
      from Thin(4) show ?thesis
      proof
        assume "?all (before @ [m']) rest ?acts files'"
        then obtain ns where
          "th_messages (thin_loop te (before @ [m']) rest ?acts files') = (before @ [m']) @ ns"
          "list_all2 (\<lambda>im n. thinned_as te im n \<or> (n = snd im \<and> thinnable te (fst im) (snd im) = None)) rest ns"
          by blast
        with False th Thin(1-3) have "?all before ((i, m) # rest) actions files"
          by (intro exI [of _ "m' # ns"]) simp
        then show ?thesis ..
      qed (use False Thin(1-3) in simp)
    qed
  qed
  then show ?thesis .
qed

section \<open>The archive\<close>

lemma archive_output_keeps:
  assumes "archive_output env run r body files = (ref, files')"
  shows "map_of files k = Some t \<Longrightarrow> map_of files' k = Some t"
    and "map_of files' ref \<noteq> None"
    and "map_of files' k = Some t \<Longrightarrow> map_of files k = Some t \<or> (k = ref \<and> t = body)"
  using assms
  by (auto simp: archive_output_def Let_def update_conv' split: if_splits)

lemma thin_loop_archive:
  "map_of files k = Some t \<Longrightarrow> map_of (th_archive (thin_loop te before rest actions files)) k = Some t"
proof (induction before rest actions files rule: thin_loop_induct [of _ te])
  case (Nil before actions files)
  then show ?case by simp
next
  case (Keep before i m rest actions files)
  then show ?case by simp
next
  case (Thin before i m rest actions files r body reason ref files' m')
  have "map_of files' k = Some t" by (rule archive_output_keeps(1) [OF Thin(2) Thin.prems])
  with Thin(4) have "map_of (th_archive (thin_loop te (before @ [m']) rest
      (actions @ [reason @ '':'' @ trm_tool_call_id r]) files')) k = Some t" by blast
  with Thin(1-3) \<open>map_of files' k = Some t\<close> show ?case by (simp add: Let_def)
qed

definition te_path :: "thin_env \<Rightarrow> tool_result_message \<Rightarrow> string" where
  "te_path te r = archive_path (te_env te) (te_run_id te) r (tool_text r)"

text \<open>Neither an old file nor another output of these messages claims the path of an output with
  a different text: no collision of the abbreviated digests.\<close>

definition no_clash :: "thin_env \<Rightarrow> message list \<Rightarrow> archive \<Rightarrow> bool" where
  "no_clash te ms files \<longleftrightarrow>
     (\<forall>r. ToolResultMessage r \<in> set ms \<longrightarrow>
        map_of files (te_path te r) \<in> {None, Some (tool_text r)} \<and>
        (\<forall>q. ToolResultMessage q \<in> set ms \<longrightarrow> te_path te q = te_path te r \<longrightarrow> tool_text q = tool_text r))"

lemma no_clash_file:
  "no_clash te ms files \<Longrightarrow> ToolResultMessage r \<in> set ms \<Longrightarrow>
   map_of files (te_path te r) \<in> {None, Some (tool_text r)}"
  unfolding no_clash_def by blast

lemma no_clash_text:
  "no_clash te ms files \<Longrightarrow> ToolResultMessage r \<in> set ms \<Longrightarrow> ToolResultMessage q \<in> set ms \<Longrightarrow>
   te_path te q = te_path te r \<Longrightarrow> tool_text q = tool_text r"
  unfolding no_clash_def by blast

definition archived :: "thin_env \<Rightarrow> archive \<Rightarrow> message \<Rightarrow> bool" where
  "archived te files m \<longleftrightarrow>
     (\<forall>r. m = ToolResultMessage r \<longrightarrow> map_of files (te_path te r) = Some (tool_text r))"

lemma no_clash_rest: "no_clash te (m # ms) files \<Longrightarrow> no_clash te ms files"
  unfolding no_clash_def list.set(2) by blast

lemma thin_loop_recoverable:
  assumes "no_clash te (map snd rest) files"
  shows "\<exists>ns. th_messages (thin_loop te before rest actions files) = before @ ns \<and>
     list_all2 (\<lambda>im n. n = snd im \<or> (thinned_as te im n \<and>
        archived te (th_archive (thin_loop te before rest actions files)) (snd im))) rest ns"
  using assms
proof (induction before rest actions files rule: thin_loop_induct [of _ te])
  case (Nil before actions files)
  show ?case by simp
next
  case (Keep before i m rest actions files)
  have "no_clash te (map snd rest) files" using Keep.prems no_clash_rest by simp
  with Keep(2) obtain ns where
    "th_messages (thin_loop te (before @ [m]) rest actions files) = (before @ [m]) @ ns"
    "list_all2 (\<lambda>im n. n = snd im \<or> (thinned_as te im n \<and>
       archived te (th_archive (thin_loop te (before @ [m]) rest actions files)) (snd im))) rest ns" by blast
  with Keep(1) show ?case by (intro exI [of _ "m # ns"]) simp
next
  case (Thin before i m rest actions files r body reason ref files' m')
  have th: "thinned_as te (i, m) m'"
    using Thin(1,3) archive_output_ref [OF Thin(2)] unfolding thinned_as_def by blast
  have m: "m = ToolResultMessage r" and body: "body = tool_text r"
    using Thin(1) by (simp_all add: thinnable_Some)
  have ref: "ref = te_path te r" using archive_output_ref [OF Thin(2)] by (simp add: te_path_def body)
  have files': "files' = (if map_of files ref = None then AList.update ref body files else files)"
    using Thin(2) unfolding archive_output_def Let_def by (elim Pair_inject) (hypsubst, rule refl)
  have nc: "map_of files (te_path te q) \<in> {None, Some (tool_text q)} \<and>
      (te_path te q = ref \<longrightarrow> tool_text q = body)" if "ToolResultMessage q \<in> set (m # map snd rest)" for q
  proof -
    from that have q: "ToolResultMessage q \<in> set (map snd ((i, m) # rest))" by simp
    have r: "ToolResultMessage r \<in> set (map snd ((i, m) # rest))" using m by simp
    show ?thesis
      using no_clash_file [OF Thin.prems q] no_clash_text [OF Thin.prems r q] unfolding ref body by blast
  qed
  have "map_of files ref \<in> {None, Some body}" using nc [of r] m by (simp add: ref body)
  then have here: "map_of files' ref = Some body" by (auto simp: files' update_conv')
  have other: "map_of files' k = map_of files k" if "k \<noteq> ref" for k
    using that by (simp add: files' update_conv')
  have "no_clash te (map snd rest) files'"
    unfolding no_clash_def
  proof (intro allI impI conjI)
    fix q assume q: "ToolResultMessage q \<in> set (map snd rest)"
    then have q': "ToolResultMessage q \<in> set (m # map snd rest)" by simp
    show "map_of files' (te_path te q) \<in> {None, Some (tool_text q)}"
      using nc [OF q'] here other [of "te_path te q"] by (cases "te_path te q = ref") simp_all
    fix p assume p: "ToolResultMessage p \<in> set (map snd rest)" "te_path te p = te_path te q"
    then have p': "ToolResultMessage p \<in> set (map snd ((i, m) # rest))" by simp
    from q have q2: "ToolResultMessage q \<in> set (map snd ((i, m) # rest))" by simp
    show "tool_text p = tool_text q" by (rule no_clash_text [OF Thin.prems q2 p' p(2)])
  qed
  with Thin(4) obtain ns where ns:
    "th_messages (thin_loop te (before @ [m']) rest (actions @ [reason @ '':'' @ trm_tool_call_id r]) files')
       = (before @ [m']) @ ns"
    "list_all2 (\<lambda>im n. n = snd im \<or> (thinned_as te im n \<and>
       archived te (th_archive (thin_loop te (before @ [m']) rest
         (actions @ [reason @ '':'' @ trm_tool_call_id r]) files')) (snd im))) rest ns" by blast
  have arch: "archived te fs m" if "map_of fs ref = Some body" for fs
    using that by (simp add: archived_def m ref body)
  show ?case
  proof (cases "te_estimate te (before @ m' # map snd rest) \<le> te_target te")
    case True
    have same: "list_all2 (\<lambda>im n. n = snd im \<or> P im n) rest (map snd rest)" for P
      by (simp add: list_all2_conv_all_nth)
    from True th Thin(1-3) arch [OF here] same show ?thesis
      by (intro exI [of _ "m' # map snd rest"]) simp
  next
    case False
    have "map_of (th_archive (thin_loop te (before @ [m']) rest
        (actions @ [reason @ '':'' @ trm_tool_call_id r]) files')) ref = Some body"
      by (rule thin_loop_archive [OF here])
    with False th Thin(1-3) ns arch show ?thesis
      by (intro exI [of _ "m' # ns"]) simp
  qed
qed

lemma indexed_messages_snd [simp]: "map snd (indexed_messages groups) = concat groups"
proof -
  have "map snd (concat (map (\<lambda>(i, g). map (\<lambda>m. (i, m)) g) (enumerate n groups))) = concat groups" for n
    by (induction groups arbitrary: n) (simp_all add: comp_def)
  then show ?thesis by (simp add: indexed_messages_def)
qed

lemma thinned_same: "thinned_as te im n \<Longrightarrow> same_message (snd im) n"
  by (cases im) (auto simp: thinned_as_def thinnable_Some same_message_def thinned_result_def)

definition te_of where
  "te_of env s run_id target estimate recent messages =
     thin_env_of env s run_id target estimate recent (message_groups messages)"

lemma thin_relation:
  assumes "no_clash (te_of env s run_id target estimate recent messages) messages files"
  defines "te \<equiv> te_of env s run_id target estimate recent messages"
    and "t \<equiv> thin env s run_id target estimate recent messages files"
  shows "list_all2 (\<lambda>im n. n = snd im \<or> (thinned_as te im n \<and> archived te (th_archive t) (snd im)))
           (indexed_messages (message_groups messages)) (th_messages t)"
proof (cases "estimate messages \<le> target")
  case True
  have "map snd (indexed_messages (message_groups messages)) = messages"
    by (simp add: concat_message_groups)
  then have "list_all2 (\<lambda>im n. n = snd im) (indexed_messages (message_groups messages)) messages"
    by (metis (mono_tags, lifting) list.rel_map(2) list_all2_refl)
  with True show ?thesis
    by (auto simp: t_def thin_def elim: list_all2_mono)
next
  case False
  then have t: "t = thin_loop te [] (indexed_messages (message_groups messages)) [] files"
    by (simp add: t_def thin_def te_def te_of_def Let_def)
  have "no_clash te (map snd (indexed_messages (message_groups messages))) files"
    using assms(1) by (simp add: te_def concat_message_groups)
  from thin_loop_recoverable [OF this, of "[]" "[]"] show ?thesis by (simp add: t [symmetric])
qed

lemma thin_same:
  "list_all2 same_message messages
     (th_messages (thin env s run_id target estimate recent messages files))"
proof (cases "estimate messages \<le> target")
  case True
  have "list_all2 same_message messages messages"
    by (simp add: list_all2_refl same_message_def)
  with True show ?thesis by (simp add: thin_def)
next
  case False
  let ?im = "indexed_messages (message_groups messages)"
  let ?te = "te_of env s run_id target estimate recent messages"
  have t: "thin env s run_id target estimate recent messages files = thin_loop ?te [] ?im [] files"
    using False by (simp add: thin_def te_of_def Let_def)
  obtain ns where ns: "th_messages (thin_loop ?te [] ?im [] files) = ns"
    "list_all2 (\<lambda>im n. n = snd im \<or> thinned_as ?te im n) ?im ns"
    using thin_loop_messages [of ?te "[]" ?im "[]" files] by auto
  from ns(2) have "list_all2 (\<lambda>im n. same_message (snd im) n) ?im ns"
    by (rule list_all2_mono) (metis same_message_def thinned_same)
  then have "list_all2 same_message (map snd ?im) ns" unfolding list_all2_map1 .
  then show ?thesis unfolding t ns(1) indexed_messages_snd concat_message_groups .
qed

lemma list_all2_split:
  "list_all2 R (concat gs) ns \<Longrightarrow> \<exists>hs. ns = concat hs \<and> list_all2 (list_all2 R) gs hs"
proof (induction gs arbitrary: ns)
  case Nil
  then show ?case by (intro exI [of _ "[]"]) simp
next
  case (Cons g gs)
  then obtain h rest where "ns = h @ rest" "list_all2 R g h" "list_all2 R (concat gs) rest"
    by (auto simp: list_all2_append1)
  with Cons.IH [of rest] obtain hs where "rest = concat hs" "list_all2 (list_all2 R) gs hs" by blast
  with \<open>ns = h @ rest\<close> \<open>list_all2 R g h\<close> show ?case by (intro exI [of _ "h # hs"]) simp
qed

lemma settled_messages_same:
  assumes "settled_messages ms" and "list_all2 same_message ms ns"
  shows "settled_messages ns"
proof -
  from assms(2) have "list_all2 same_message (concat (message_groups ms)) ns"
    by (simp add: concat_message_groups)
  from list_all2_split [OF this] obtain hs where hs: "ns = concat hs"
    "list_all2 (list_all2 same_message) (message_groups ms) hs" by blast
  have "settled_group h" if h: "h \<in> set hs" for h
  proof -
    from h obtain i where i: "i < length hs" "h = hs ! i" by (auto simp: in_set_conv_nth)
    then have "i < length (message_groups ms)" and s: "list_all2 same_message (message_groups ms ! i) h"
      using hs(2) by (simp_all add: list_all2_conv_all_nth)
    then have "settled_group (message_groups ms ! i)"
      using assms(1) by (simp add: settled_messages_def)
    then show ?thesis using s by (rule settled_group_same)
  qed
  then have "\<forall>h \<in> set hs. settled_group h" by blast
  then show ?thesis by (simp add: hs(1) settled_concat)
qed

end
