(* ===== verification/Context_Compaction.thy ===== *)
theory Context_Compaction
  imports Context_Summary Context_Thinning
begin

text \<open>
  Compaction under critical pressure, \<^verbatim>\<open>src/codepilot/sessions/context/compaction.py\<close>: a prefix
  of whole groups before the unconsumed batch is replaced by a summary, whose snapshot is
  stored, checkpointed and restored. Parameters: the summarizer (absent, raising, or answering
  with an object that may not be a result), the SHA-256, the \<^verbatim>\<open>repr\<close> of a message, the random
  part of an identifier, and whether a write fails. The stored files are a table from paths to
  JSON values, \<open>None\<close> standing for a text that is not JSON. The compression ratio 0.85 is the
  fraction 85/100, which agrees with the float on every length below three millions.
\<close>

record compactor =
  cmp_current_snapshot :: "compact_snapshot_ref option"
  cmp_current_summary :: "compact_summary option"

type_synonym snapshot_files = "(string \<times> pyval option) list"

record compact_env =
  cpe_sha256 :: "string \<Rightarrow> string"
  cpe_repr :: "message \<Rightarrow> string"
  cpe_hex :: string
  cpe_write_error :: "exn option"
  cpe_summarizer :: "(context_summary_request \<Rightarrow> context_summary_result option result) option"

definition no_compaction :: compactor where
  "no_compaction = \<lparr>cmp_current_snapshot = None, cmp_current_summary = None\<rparr>"

section \<open>Groups and cursors\<close>

fun validate_group :: "message list \<Rightarrow> unit result" where
  "validate_group [] = Inl (ContextCompactionError ''tool call batch is not closed'')"
| "validate_group (m # ms) =
     (if is_closed_tool_batch (m # ms) then Inr ()
      else if ms \<noteq> [] then Inl (ContextCompactionError ''tool call batch is not closed'')
      else (case m of
        ToolResultMessage r \<Rightarrow> Inl (ContextCompactionError ''orphan tool result is not compactable'')
      | AssistantMessage a \<Rightarrow>
          if tool_batch_call_ids [m] \<noteq> {}
          then Inl (ContextCompactionError ''tool call batch is not closed'') else Inr ()
      | UserMessage u \<Rightarrow> Inr ()))"

definition validate_message_groups :: "message list list \<Rightarrow> unit result" where
  "validate_message_groups groups = mapE (\<lambda>_. ()) (traverse validate_group groups)"

fun kept_groups :: "int \<Rightarrow> nat \<Rightarrow> int \<Rightarrow> message list list \<Rightarrow> nat" where
  "kept_groups keep_tokens kept used [] = kept"
| "kept_groups keep_tokens kept used (g # gs) =
     (let tokens = int (context_tokens no_correction g [] []) in
      if kept \<noteq> 0 \<and> keep_tokens < used + tokens then kept
      else kept_groups keep_tokens (kept + 1) (used + tokens) gs)"

definition compact_group_count :: "message list list \<Rightarrow> int option \<Rightarrow> nat result" where
  "compact_group_count groups keep_tokens =
     (case keep_tokens of
        None \<Rightarrow> Inr (max 1 (length groups - max 3 ((length groups * 3 + 9) div 10)))
      | Some keep \<Rightarrow>
          if keep < 0 then Inl (ContextCompactionError ''keep_tokens must be non-negative'')
          else Inr (max 1 (length groups - kept_groups keep 0 0 (rev groups))))"

fun prefix_through_cursor :: "message list \<Rightarrow> string \<Rightarrow> message list result" where
  "prefix_through_cursor [] cursor =
     Inl (ContextCompactionError ''compaction cursor is not present in the message chain'')"
| "prefix_through_cursor (m # ms) cursor =
     (if session_message_id m = Some cursor then Inr [m]
      else mapE (\<lambda>p. m # p) (prefix_through_cursor ms cursor))"

definition source_text :: "compact_env \<Rightarrow> message list \<Rightarrow> compact_summary option \<Rightarrow> string" where
  "source_text env ms previous =
     py_join ''\<newline>''
       ((case previous of None \<Rightarrow> [] | Some s \<Rightarrow> [compact_summary_render s]) @ map (cpe_repr env) ms)"

section \<open>Compaction\<close>

definition snapshot_payload :: "compact_snapshot_ref \<Rightarrow> compact_summary \<Rightarrow> pyval" where
  "snapshot_payload snapshot summary =
     PDict [(''snapshot'', PDict (snapshot_to_mapping snapshot)),
            (''summary'', PDict (compact_summary_to_mapping summary))]"

definition write_snapshot ::
  "compact_env \<Rightarrow> compact_snapshot_ref \<Rightarrow> compact_summary \<Rightarrow> snapshot_files \<Rightarrow> snapshot_files result" where
  "write_snapshot env snapshot summary files =
     (case cpe_write_error env of
        Some e \<Rightarrow> Inl e
      | None \<Rightarrow> Inr (AList.update (as_posix (csn_path snapshot))
                     (Some (snapshot_payload snapshot summary)) files))"

definition previous_cursor :: "compactor \<Rightarrow> string option" where
  "previous_cursor c = map_option csn_compacted_until_message_id (cmp_current_snapshot c)"

text \<open>The groups of a legal prefix: \<open>None\<close> when the previous snapshot is to be kept.\<close>

definition compact_prefix ::
  "compactor \<Rightarrow> message list \<Rightarrow> int option \<Rightarrow> message list list option result" where
  "compact_prefix c messages keep_tokens =
     (let groups = message_groups (messages_after_cursor messages (previous_cursor c)) in
      bindE (validate_message_groups groups) (\<lambda>_.
      if length groups < 4
      then (if cmp_current_snapshot c \<noteq> None then Inr None
            else Inl (ContextCompactionError ''no legal message prefix is large enough to compact''))
      else
      bindE (compact_group_count groups keep_tokens) (\<lambda>count.
      let n = (case latest_unconsumed_tool_batch groups of
                 None \<Rightarrow> count | Some protected \<Rightarrow> min count protected) in
      if n < 1
      then (if cmp_current_snapshot c \<noteq> None then Inr None
            else Inl (ContextCompactionError
                   ''no legal message prefix exists before the unconsumed tool batch''))
      else Inr (Some (take n groups)))))"

text \<open>\<^verbatim>\<open>if any(_message_id(message) is None ...)\<close>, then the id of the last message.\<close>

definition compact_cursor :: "message list \<Rightarrow> string result" where
  "compact_cursor ms =
     (if list_ex (\<lambda>m. session_message_id m = None) ms
      then Inl (ContextCompactionError
             ''compaction requires committed message ids for the complete prefix'')
      else (case session_message_id (last ms) of
              None \<Rightarrow> Inl (ContextCompactionError ''compaction cursor requires committed message ids'')
            | Some cursor \<Rightarrow> Inr cursor))"

definition summarize ::
  "compact_env \<Rightarrow> compactor \<Rightarrow> message list \<Rightarrow> string \<Rightarrow> string \<Rightarrow> compact_summary result" where
  "summarize env c ms original_goal cursor =
     (case cpe_summarizer env of
        None \<Rightarrow> Inl (ContextCompactionError ''Context summarizer is not configured'')
      | Some summarizer \<Rightarrow>
         bindE (context_summary_request_post_init
           \<lparr>sreq_messages = ms, sreq_original_goal = original_goal,
            sreq_previous_summary = cmp_current_summary c\<rparr>) (\<lambda>request.
         bindE (summarizer request) (\<lambda>answer.
         case answer of
           None \<Rightarrow> Inl (ContextCompactionError ''summarizer returned an invalid result'')
         | Some res \<Rightarrow>
             if sres_compacted_until_message_id res \<noteq> cursor
             then Inl (ContextCompactionError ''summarizer returned an invalid compaction cursor'')
             else if max 1 (length (source_text env ms (cmp_current_summary c)) * 85 div 100)
                       \<le> length (compact_summary_render (sres_summary res))
             then Inl (ContextCompactionError ''summary did not reach the minimum compression ratio'')
             else Inr (sres_summary res))))"

definition new_snapshot ::
  "compact_env \<Rightarrow> string \<Rightarrow> message list \<Rightarrow> string \<Rightarrow> compact_summary \<Rightarrow> compact_snapshot_ref result" where
  "new_snapshot env run_id messages cursor summary =
     bindE (prefix_through_cursor messages cursor) (\<lambda>source_messages.
     let compact_id = ''compact_'' @ cpe_hex env in
     compact_snapshot_ref_post_init
       \<lparr>csn_compact_id = compact_id,
        csn_path = path_join [''.codepilot'', ''runs'', run_id, ''artifacts'', ''context'',
                     compact_id @ ''.json''],
        csn_compacted_until_message_id = cursor,
        csn_source_digest = cpe_sha256 env (source_text env source_messages None),
        csn_estimated_tokens_before = int (context_tokens no_correction source_messages [] []),
        csn_estimated_tokens_after =
          int (text_tokens no_correction (compact_summary_render summary))\<rparr>)"

text \<open>The body of the \<^verbatim>\<open>try\<close>: the previous snapshot (\<open>None\<close>), or a new one with its summary and
  the files after the write.\<close>

definition compact_body ::
  "compact_env \<Rightarrow> compactor \<Rightarrow> string \<Rightarrow> message list \<Rightarrow> string \<Rightarrow> int option \<Rightarrow> snapshot_files
   \<Rightarrow> (compact_snapshot_ref \<times> compact_summary \<times> snapshot_files) option result" where
  "compact_body env c run_id messages original_goal keep_tokens files =
     (if cpe_summarizer env = None
      then Inl (ContextCompactionError ''Context summarizer is not configured'')
      else
      bindE (compact_prefix c messages keep_tokens) (\<lambda>p.
      case p of
        None \<Rightarrow> Inr None
      | Some groups \<Rightarrow>
          bindE (compact_cursor (concat groups)) (\<lambda>cursor.
          bindE (summarize env c (concat groups) original_goal cursor) (\<lambda>summary.
          bindE (new_snapshot env run_id messages cursor summary) (\<lambda>snapshot.
          bindE (write_snapshot env snapshot summary files) (\<lambda>files'.
          Inr (Some (snapshot, summary, files'))))))))"

fun is_compaction_error :: "exn \<Rightarrow> bool" where
  "is_compaction_error (ContextCompactionError _) = True"
| "is_compaction_error _ = False"

text \<open>The result is the snapshot that stands afterwards, or the exception; the compactor and the
  files come with it.\<close>

definition compact ::
  "compact_env \<Rightarrow> compactor \<Rightarrow> string \<Rightarrow> message list \<Rightarrow> string \<Rightarrow> int option \<Rightarrow> snapshot_files
   \<Rightarrow> compactor \<times> snapshot_files \<times> compact_snapshot_ref result" where
  "compact env c run_id messages original_goal keep_tokens files =
     (case compact_body env c run_id messages original_goal keep_tokens files of
        Inr (Some (snapshot, summary, files')) \<Rightarrow>
          (\<lparr>cmp_current_snapshot = Some snapshot, cmp_current_summary = Some summary\<rparr>, files',
           Inr snapshot)
      | Inr None \<Rightarrow> (c, files, Inr (the (cmp_current_snapshot c)))
      | Inl e \<Rightarrow>
          (c, files,
           (case cmp_current_snapshot c of
              Some snapshot \<Rightarrow> Inr snapshot
            | None \<Rightarrow> if is_compaction_error e then Inl e
                      else Inl (ContextCompactionError (exn_text e)))))"

section \<open>Validation, checkpoint and restoration\<close>

definition validate_messages ::
  "compact_env \<Rightarrow> compactor \<Rightarrow> message list \<Rightarrow> compactor \<times> bool result" where
  "validate_messages env c messages =
     (case validate_message_groups (message_groups messages) of
        Inl e \<Rightarrow> (c, Inl e)
      | Inr _ \<Rightarrow>
         (case cmp_current_snapshot c of
            None \<Rightarrow> (c, Inr True)
          | Some snapshot \<Rightarrow>
             (case prefix_through_cursor messages (csn_compacted_until_message_id snapshot) of
                Inl _ \<Rightarrow> (no_compaction, Inr False)
              | Inr source \<Rightarrow>
                  if cpe_sha256 env (source_text env source None) \<noteq> csn_source_digest snapshot
                  then (no_compaction, Inr False)
                  else (c, Inr True))))"

definition compactor_checkpoint :: "compactor \<Rightarrow> dict" where
  "compactor_checkpoint c =
     context_checkpoint_to_mapping (context_checkpoint_post_init
       \<lparr>cc_compact_snapshot_ref = map_option csn_path (cmp_current_snapshot c),
        cc_compacted_until_message_id =
          map_option csn_compacted_until_message_id (cmp_current_snapshot c)\<rparr>)"

definition payload_parts :: "pyval \<Rightarrow> (dict \<times> dict) result" where
  "payload_parts payload =
     (case payload of
        PDict d \<Rightarrow>
          if set (map fst d) \<noteq> {''snapshot'', ''summary''}
          then Inl (ValueError ''compact snapshot has unknown fields'')
          else (case (dget d ''snapshot'', dget d ''summary'') of
                  (PDict s, PDict t) \<Rightarrow> Inr (s, t)
                | _ \<Rightarrow> Inl (ValueError ''compact snapshot payload is invalid''))
      | _ \<Rightarrow> Inl (ValueError ''compact snapshot must be an object''))"

definition load_snapshot ::
  "snapshot_files \<Rightarrow> string \<Rightarrow> string option \<Rightarrow> (compact_snapshot_ref \<times> compact_summary) result" where
  "load_snapshot files ref until =
     bindE (case map_of files (as_posix ref) of
              None \<Rightarrow> Inl (RuntimeError ''no such file'')
            | Some None \<Rightarrow> Inl (ValueError ''not a JSON document'')
            | Some (Some v) \<Rightarrow> Inr v) (\<lambda>payload.
     bindE (payload_parts payload) (\<lambda>(snapshot_raw, summary_raw).
     bindE (snapshot_from_mapping snapshot_raw) (\<lambda>snapshot.
     bindE (compact_summary_from_mapping summary_raw) (\<lambda>summary.
     if csn_path snapshot \<noteq> ref then Inl (ValueError ''compact snapshot path mismatch'')
     else if Some (csn_compacted_until_message_id snapshot) \<noteq> until
     then Inl (ValueError ''compact snapshot cursor mismatch'')
     else Inr (snapshot, summary)))))"

text \<open>Every exception of the load is one that the source catches: a missing file, a text that is
  not JSON, a value or type error.\<close>

definition restore_compactor :: "snapshot_files \<Rightarrow> compactor \<Rightarrow> pyval \<Rightarrow> compactor result" where
  "restore_compactor files c state =
     (case state of
        PDict d \<Rightarrow>
          bindE (context_checkpoint_from_mapping d) (\<lambda>checkpoint.
          Inr (case cc_compact_snapshot_ref checkpoint of
                 None \<Rightarrow> no_compaction
               | Some ref \<Rightarrow>
                  (case load_snapshot files ref (cc_compacted_until_message_id checkpoint) of
                     Inl _ \<Rightarrow> no_compaction
                   | Inr (snapshot, summary) \<Rightarrow>
                       \<lparr>cmp_current_snapshot = Some snapshot, cmp_current_summary = Some summary\<rparr>)))
      | _ \<Rightarrow> Inl (TypeError ''context checkpoint must be a mapping''))"

end
