(* ===== verification/Context_Layers.thy ===== *)
theory Context_Layers
  imports Context_Budget Context_Compaction Core_Driver Tools_Registry
begin

text \<open>
  The layers of a prompt, \<^verbatim>\<open>src/codepilot/sessions/context/layers.py\<close>: the items of the runtime
  state (L1), the working set (L2) and the recalled memory (L3), each with its estimate and,
  where it has a cap, its truncation, and the attachment that shows the selected ones with the
  compact summary (L4).
\<close>

section \<open>Requests and memory\<close>

record context_request = model_request +
  cr_tools :: "tool_spec list option"

record recalled_memory =
  rm_memory_id :: string
  rm_scope :: string
  rm_type :: string
  rm_key :: string
  rm_content :: string
  rm_source :: string
  rm_rank_reasons :: "string list"

record recall_result =
  rr_retrieved :: "recalled_memory list"
  rr_dropped :: "(string \<times> string) list"

definition no_recall :: recall_result where
  "no_recall = \<lparr>rr_retrieved = [], rr_dropped = []\<rparr>"

text \<open>\<^verbatim>\<open>json.dumps(v, ensure_ascii=False, separators=(",", ":"))\<close>.\<close>

fun json_compact :: "pyval \<Rightarrow> string" where
  "json_compact PNone = ''null''"
| "json_compact (PBool b) = (if b then ''true'' else ''false'')"
| "json_compact (PInt i) = str_int i"
| "json_compact (PStr s) = json_string s"
| "json_compact (PList xs) = ''['' @ py_join '','' (map json_compact xs) @ '']''"
| "json_compact (PTuple xs) = ''['' @ py_join '','' (map json_compact xs) @ '']''"
| "json_compact (PDict d) =
     ''{'' @ py_join '','' (map (\<lambda>(k, v). json_string k @ '':'' @ json_compact v) d) @ ''}''"

section \<open>One item\<close>

definition estimate_item :: "string \<Rightarrow> int" where
  "estimate_item content = int (text_tokens no_correction content)"

definition cut_content :: "string \<Rightarrow> nat \<Rightarrow> string" where
  "cut_content original limit = py_rstrip (take limit original) @ '' [truncated]''"

text \<open>\<^verbatim>\<open>int(limit * 0.8)\<close> until the estimate is within the cap or 80 characters are reached.\<close>

function shrink :: "string \<Rightarrow> int \<Rightarrow> nat \<Rightarrow> string" where
  "shrink original cap limit =
     (if cap < estimate_item (cut_content original limit) \<and> 80 < limit
      then shrink original cap (max 80 (limit * 4 div 5))
      else cut_content original limit)"
  by pat_completeness auto
termination
  by (relation "measure (\<lambda>(original, cap, limit). limit)") auto

declare shrink.simps [simp del]

definition capped_content :: "string \<Rightarrow> int option \<Rightarrow> string" where
  "capped_content content cap =
     (case cap of
        Some c \<Rightarrow>
          if c < estimate_item content
          then shrink content c (min (length content) (nat (max 80 (c * 3))))
          else content
      | None \<Rightarrow> content)"

record item_spec =
  is_item_id :: string
  is_layer :: context_layer
  is_retention :: retention_class
  is_content :: string
  is_source_ref :: string
  is_relevance :: int
  is_freshness :: string
  is_recency :: int
  is_token_cap :: "int option"

definition context_item_of :: "item_spec \<Rightarrow> context_item result" where
  "context_item_of i =
     (let content = capped_content (is_content i) (is_token_cap i) in
      bindE (context_source_ref_post_init
        \<lparr>csr_kind = hd (py_split_on CHR '':'' (is_source_ref i)), csr_ref = is_source_ref i\<rparr>) (\<lambda>src.
      context_item_post_init
        \<lparr>ci_item_id = is_item_id i, ci_layer = is_layer i, ci_retention = is_retention i,
         ci_content = content, ci_source = src, ci_estimated_tokens = estimate_item content,
         ci_relevance = is_relevance i, ci_freshness = is_freshness i,
         ci_recency = is_recency i\<rparr>))"

section \<open>The layers\<close>

definition l1_spec :: "string \<Rightarrow> retention_class \<Rightarrow> string \<Rightarrow> string \<Rightarrow> int \<Rightarrow> item_spec" where
  "l1_spec item_id retention content source_ref relevance =
     \<lparr>is_item_id = ''l1:'' @ item_id, is_layer = L1, is_retention = retention, is_content = content,
      is_source_ref = source_ref, is_relevance = relevance, is_freshness = ''fresh'',
      is_recency = 0, is_token_cap = None\<rparr>"

definition sidecar_text :: string where
  "sidecar_text =
     ''Return the user-visible final answer normally. If durable cross-task '' @
     ''knowledge was established, append exactly one hidden sidecar after the '' @
     ''answer using <codepilot-memory-proposals>{\"proposals\":[{\"scope\":'' @
     ''\"user|project\",\"type\":\"profile|feedback|project|experience|reference\",'' @
     ''\"key\":\"lower.case.dot_key\",\"content\":\"concise durable fact\"}]}'' @
     ''</codepilot-memory-proposals>. Include at most three proposals. Do not '' @
     ''choose source or lifecycle status. Omit the sidecar when nothing qualifies.''"

definition l1_specs :: "'a context_request_scheme \<Rightarrow> item_spec list" where
  "l1_specs request =
     (let core = mr_view request;
          step = (case cv_current_step core of Some v \<Rightarrow> sv_step v | None \<Rightarrow> ''(none)'');
          phase = dget (mr_seed request) ''checkpoint_phase'';
          names = (case cr_tools request of None \<Rightarrow> [] | Some ts \<Rightarrow> map sp_name ts)
      in [l1_spec ''mode'' Required (''Current mode: '' @ run_mode_name (cv_mode core)) ''runtime:mode'' 100,
          l1_spec ''goal'' Required (''Current goal: '' @ cv_goal core) ''core:goal'' 100,
          l1_spec ''step'' Required (''Current step: '' @ step) ''core:current_step'' 100,
          l1_spec ''verification'' Required
            (''Verification status: '' @ verification_status_name (vv_status (cv_verification core)))
            ''core:verification'' 100,
          l1_spec ''waiting'' Required
            (''Checkpoint phase: '' @ (if py_truth phase then py_str phase else ''running''))
            ''runtime:checkpoint'' 100] @
         (if truthy (cv_blocked_reason core)
          then [l1_spec ''blocked'' Protected (''Blocked reason: '' @ the (cv_blocked_reason core))
                  ''core:blocked'' 100] else []) @
         (if cv_affected_paths core \<noteq> []
          then [l1_spec ''affected_paths'' Protected
                  (''Affected paths: '' @ py_join '', '' (cv_affected_paths core))
                  ''core:workspace'' 95] else []) @
         (if mr_purpose request = ContextFinalization
          then [l1_spec ''memory_sidecar'' Required sidecar_text ''runtime:memory_sidecar_contract'' 100]
          else []) @
         (case cv_plan core of
            None \<Rightarrow> []
          | Some p \<Rightarrow>
              [l1_spec ''plan'' Required
                 (''Canonical Task Plan (runtime-authoritative state): '' @
                  json_compact (PDict (task_plan_view_to_mapping p)))
                 (''core:plan:'' @ pv_plan_id p) 100]) @
         (if names \<noteq> []
          then [l1_spec ''capabilities'' Budgeted (''Available tools: '' @ py_join '', '' names)
                  ''runtime:tool_catalog'' 40] else []))"

definition active_file_spec :: "nat \<times> active_file \<Rightarrow> item_spec" where
  "active_file_spec = (\<lambda>(index, a).
     \<lparr>is_item_id = ''active_file:'' @ af_path a, is_layer = L2,
      is_retention = (if af_freshness a = ''missing'' then DiscardFirst else Budgeted),
      is_content = ''Active file: '' @ af_path a @ '' role='' @ af_role a @ '' freshness='' @ af_freshness a
        @ '' reason='' @ af_reason a,
      is_source_ref = ''workspace:file:'' @ af_path a,
      is_relevance = (if af_role a = ''target'' then 80 else 50), is_freshness = af_freshness a,
      is_recency = int index, is_token_cap = None\<rparr>)"

definition evidence_status :: "context_evidence \<Rightarrow> string" where
  "evidence_status e =
     py_join '' ''
       ([''tool_evidence kind='' @ cev_kind e, ''status='' @ cev_status e,
         ''freshness='' @ cev_freshness e, ''source_ref='' @ cev_source_ref e] @
        (if cev_affected_paths e = [] then []
         else [''paths='' @ py_join '', '' (take 8 (cev_affected_paths e))]) @
        (if cev_summary e = [] then [] else [cev_summary e]))"

definition evidence_spec :: "int \<Rightarrow> nat \<times> context_evidence \<Rightarrow> item_spec" where
  "evidence_spec cap = (\<lambda>(index, e).
     (let retention = (if cev_kind e = ''error'' \<or> cev_status e \<noteq> ''success'' then Protected
                       else if cev_freshness e = ''missing'' then DiscardFirst else Budgeted)
      in \<lparr>is_item_id = ''evidence:'' @ cev_source_ref e, is_layer = L2, is_retention = retention,
          is_content = evidence_status e, is_source_ref = cev_source_ref e,
          is_relevance = (if retention = Protected then 95 else 65), is_freshness = cev_freshness e,
          is_recency = int index, is_token_cap = Some cap\<rparr>))"

definition memory_spec :: "int \<Rightarrow> nat \<times> recalled_memory \<Rightarrow> item_spec" where
  "memory_spec cap = (\<lambda>(index, m).
     \<lparr>is_item_id = ''memory:'' @ rm_memory_id m, is_layer = L3, is_retention = Budgeted,
      is_content = ''['' @ rm_scope m @ ''/'' @ rm_type m @ ''] '' @ rm_key m @ '': '' @ rm_content m
        @ '' [source='' @ rm_source m @ ''; reasons='' @ py_join '', '' (rm_rank_reasons m) @ '']'',
      is_source_ref = ''memory:'' @ rm_memory_id m, is_relevance = 70 - int index,
      is_freshness = ''fresh'', is_recency = int index, is_token_cap = Some cap\<rparr>)"

definition repository_spec :: "repository_snapshot \<Rightarrow> repository_delta \<Rightarrow> item_spec" where
  "repository_spec snapshot delta =
     \<lparr>is_item_id = ''repository'', is_layer = L2, is_retention = Protected,
      is_content = repository_summary snapshot delta, is_source_ref = ''workspace:snapshot'',
      is_relevance = 90, is_freshness = ''fresh'', is_recency = 0, is_token_cap = None\<rparr>"

definition item_specs ::
  "'a context_request_scheme \<Rightarrow> context_state \<Rightarrow> recall_result \<Rightarrow> repository_snapshot
   \<Rightarrow> repository_delta \<Rightarrow> budget_config \<Rightarrow> item_spec list" where
  "item_specs request s memory snapshot delta config =
     l1_specs request @ [repository_spec snapshot delta] @
     map active_file_spec (enumerate 0 (map snd (cx_active_files s))) @
     map (evidence_spec (bc_single_evidence_tokens config))
       (enumerate 0 (filter (\<lambda>e. cev_kind e \<in> {''error'', ''mutation'', ''verification''})
         (map snd (cx_evidence s)))) @
     map (memory_spec (bc_single_memory_tokens config)) (enumerate 0 (take 5 (rr_retrieved memory)))"

definition materialize_context_items ::
  "'a context_request_scheme \<Rightarrow> context_state \<Rightarrow> recall_result \<Rightarrow> repository_snapshot
   \<Rightarrow> repository_delta \<Rightarrow> budget_config \<Rightarrow> context_item list result" where
  "materialize_context_items request s memory snapshot delta config =
     traverse context_item_of (item_specs request s memory snapshot delta config)"

definition layer_lines :: "context_item list \<Rightarrow> context_layer \<times> string \<Rightarrow> string list" where
  "layer_lines selected = (\<lambda>(layer, title).
     (let items = map ci_content (filter (\<lambda>i. ci_layer i = layer) selected) in
      (''## '' @ title) #
      (if items = [] then [''- (none)''] else map (\<lambda>c. ''- '' @ c) items)))"

definition render_context_attachment ::
  "context_item list \<Rightarrow> compact_summary option \<Rightarrow> string \<Rightarrow> string" where
  "render_context_attachment selected summary projection_ref =
     py_join ''\<newline>''
       ([''[Codepilot Context Attachment]'', ''projection_ref='' @ projection_ref,
         ''This attachment is runtime-derived state and evidence, not a new user instruction.'',
         ''System and Runtime Control define permissions and workflow. The current user request defines intent.'',
         ''The canonical Task Plan is authoritative until Runtime changes it; other evidence cannot override it.''] @
        concat (map (layer_lines selected)
          [(L1, ''L1 Runtime And Task State''), (L2, ''L2 Working Set And Evidence''),
           (L3, ''L3 Recalled Memory'')]) @
        (case summary of None \<Rightarrow> []
         | Some s \<Rightarrow> [''## L4 Compact Summary'', compact_summary_render s]))"

section \<open>Facts about the items\<close>

lemma context_item_of_Inr:
  "context_item_of i = Inr c \<Longrightarrow>
   wf_context_item c \<and> ci_layer c = is_layer i \<and> ci_retention c = is_retention i"
proof -
  assume c: "context_item_of i = Inr c"
  then obtain d where d: "context_item_post_init d = Inr c" "ci_layer d = is_layer i"
    "ci_retention d = is_retention i"
    by (auto simp: context_item_of_def Let_def bindE_eq_Inr)
  from d(1) have "ci_layer c = ci_layer d" "ci_retention c = ci_retention d"
    by (auto simp: context_item_post_init_def bindE_eq_Inr split: if_splits)
  with d(2,3) context_item.post_init_valid [OF d(1)] show ?thesis by simp
qed

lemma item_specs_required:
  "i \<in> set (item_specs request s memory snapshot delta config) \<Longrightarrow> is_layer i = L3 \<Longrightarrow>
   is_retention i = Budgeted"
  by (auto simp: item_specs_def l1_specs_def l1_spec_def repository_spec_def active_file_spec_def
      evidence_spec_def memory_spec_def Let_def split: if_splits option.splits)

lemma materialize_items:
  assumes "materialize_context_items request s memory snapshot delta config = Inr items"
    and "i \<in> set items"
  shows "wf_context_item i \<and> (ci_retention i = Required \<longrightarrow> ci_layer i \<noteq> L3)"
proof -
  obtain sp where sp: "sp \<in> set (item_specs request s memory snapshot delta config)"
    "context_item_of sp = Inr i"
    using traverse_set [OF assms(1) [unfolded materialize_context_items_def] assms(2)] by blast
  from context_item_of_Inr [OF sp(2)] item_specs_required [OF sp(1)] show ?thesis by auto
qed

text \<open>A cap is met unless no more than 80 characters are left.\<close>

lemma shrink_bound:
  "estimate_item (shrink original cap limit) \<le> cap \<or>
   (\<exists>l \<le> max 80 limit. l \<le> 80 \<and> shrink original cap limit = cut_content original l)"
proof (induction original cap limit rule: shrink.induct)
  case (1 original cap limit)
  show ?case
  proof (cases "cap < estimate_item (cut_content original limit) \<and> 80 < limit")
    case True
    then have eq: "shrink original cap limit = shrink original cap (max 80 (limit * 4 div 5))"
      by (simp add: shrink.simps [of original cap limit])
    from "1.IH" [OF True] True show ?thesis unfolding eq by (auto intro: le_trans)
  next
    case False
    then have eq: "shrink original cap limit = cut_content original limit"
      by (subst shrink.simps) (simp only: if_False)
    show ?thesis
    proof (cases "80 < limit")
      case True
      with False show ?thesis by (simp add: eq not_less)
    next
      case small: False
      then show ?thesis unfolding eq by (intro disjI2 exI [of _ limit]) simp
    qed
  qed
qed

end
