(* ===== verification/Context_Service.thy ===== *)
theory Context_Service
  imports Context_Layers Py_Stateful
begin

text \<open>
  The preparation of one model call, \<^verbatim>\<open>src/codepilot/sessions/context/service.py\<close>: it validates
  the conversation, refreshes the working set, projects the conversation, and thins or compacts
  it while the pressure asks for it, then checks that the result fits and that every tool call
  has its result. The state outlives an exception. Parameters: the snapshot of the repository,
  the file system, the recall of memory, the correction of estimates, and the notice of the
  control section, a sentence in Chinese. The report keeps what decisions read and the lists of
  items; its breakdowns for display are left out. The factors 0.55, 0.20 and 0.15 are fractions
  of integers, which agree with the floats on budgets below three millions.
\<close>

record memory_query =
  mq_user_request :: string
  mq_task_goal :: string
  mq_current_step :: "string option"
  mq_active_paths :: "string list"
  mq_limit :: int

definition memory_query_post_init :: "memory_query \<Rightarrow> memory_query result" where
  "memory_query_post_init q =
     bindE (ctx_texts (mq_active_paths q) ''active path'') (\<lambda>paths.
     if mq_limit q < 1 \<or> 5 < mq_limit q
     then Inl (ValueError ''memory recall limit must be between 1 and 5'')
     else Inr (q\<lparr>mq_user_request := py_strip (mq_user_request q),
                 mq_task_goal := py_strip (mq_task_goal q),
                 mq_current_step := ctx_optional_text (opt_str (mq_current_step q)),
                 mq_active_paths := paths\<rparr>))"

record service_env =
  xe_context :: context_env
  xe_compact :: compact_env
  xe_file_state :: "string \<Rightarrow> dict result"
  xe_snapshot :: repository_snapshot
  xe_recall :: "(memory_query \<Rightarrow> recall_result result) option"
  xe_scale :: scale
  xe_control_notice :: string

record context_report =
  cr_projection_ref :: string
  cr_repository_fingerprint :: string
  cr_total_budget :: int
  cr_tokens_before :: int
  cr_tokens_after :: int
  cr_stage :: string
  cr_selected_items :: "string list"
  cr_dropped_items :: "string list"
  cr_stale_items :: "string list"
  cr_memory_error :: "string option"
  cr_source_refs :: "string list"
  cr_compact_snapshot_ref :: "string option"
  cr_compacted_until :: "string option"
  cr_pressures :: "context_pressure list"
  cr_thinning_actions :: "string list"

record context_service =
  xs_session_id :: string
  xs_state :: context_state
  xs_budget :: budget_manager
  xs_compactor :: compactor
  xs_files :: snapshot_files
  xs_archive :: archive
  xs_report :: "context_report option"

record prepared_context =
  pc_system_prompt :: string
  pc_messages :: "message list"
  pc_tools :: "model_tool list"
  pc_projection_ref :: string

section \<open>The system prompt\<close>

definition seed_text :: "pyval \<Rightarrow> string" where
  "seed_text v = py_strip (str_or_empty v)"

definition synthetic_lines :: "pyval \<Rightarrow> string list" where
  "synthetic_lines v =
     (case v of
        PDict d \<Rightarrow>
          (let instruction = seed_text (dget d ''instruction'');
               kind = dget d ''kind''; scope = dget d ''scope'' in
           if instruction = [] then []
           else [''Continuation event: '' @ py_strip (if py_truth kind then py_str kind else ''continuation''),
                 ''Required scope: '' @ py_strip (if py_truth scope then py_str scope else ''current_turn''),
                 instruction])
      | _ \<Rightarrow> [])"

text \<open>\<^verbatim>\<open>str(directive).strip()\<close>: an absent directive is the text \<^verbatim>\<open>None\<close>.\<close>

definition directive_text :: "string option \<Rightarrow> string" where
  "directive_text directive = py_strip (py_str (opt_str directive))"

definition control_lines :: "dict \<Rightarrow> string option \<Rightarrow> string list" where
  "control_lines seed directive =
     (let mode_policy = seed_text (dget seed ''mode_policy''); core = directive_text directive in
      (if mode_policy = [] then [] else [mode_policy]) @
      synthetic_lines (dget seed ''synthetic_control'') @
      (if core = [] then [] else [''Core directive for this model call:'', core]))"

definition compiled_system_prompt :: "string \<Rightarrow> dict \<Rightarrow> string option \<Rightarrow> string" where
  "compiled_system_prompt notice seed directive =
     (let base = seed_text (dget seed ''system_prompt''); lines = control_lines seed directive in
      if lines = [] then base
      else py_join ''\<newline>\<newline>'' (filter (\<lambda>p. p \<noteq> [])
             [base, py_join ''\<newline>'' ([''# Codepilot Runtime Control'', notice] @ lines)]))"

definition tools_from_request :: "'a context_request_scheme \<Rightarrow> model_tool list" where
  "tools_from_request r =
     (case cr_tools r of
        None \<Rightarrow> []
      | Some ts \<Rightarrow> map (\<lambda>t. \<lparr>mt_name = sp_name t, mt_description = sp_description t,
                          mt_parameters = sp_input_schema t\<rparr>) ts)"

fun context_purpose_name :: "context_purpose \<Rightarrow> string" where
  "context_purpose_name ContextReasoning = ''reasoning''"
| "context_purpose_name ContextVerification = ''verification''"
| "context_purpose_name ContextFinalization = ''finalization''"

definition projection_ref_of ::
  "context_env \<Rightarrow> 'a context_request_scheme \<Rightarrow> string \<Rightarrow> context_item list \<Rightarrow> string" where
  "projection_ref_of env r fingerprint items =
     ''ctx_'' @ take 16 (cenv_sha256 env (py_join ''\<newline>''
       ([mr_session_id r, mr_run_id r, context_purpose_name (mr_purpose r), fingerprint] @
        map ci_item_id items)))"

section \<open>The steps\<close>

type_synonym 'a service = "(context_service, 'a) stateful"

definition set_compactor :: "compactor \<Rightarrow> context_service \<Rightarrow> context_service" where
  "set_compactor c x = x\<lparr>xs_compactor := c\<rparr>"

definition update_state :: "(context_state \<Rightarrow> context_state) \<Rightarrow> context_service \<Rightarrow> context_service" where
  "update_state f x = x\<lparr>xs_state := f (xs_state x)\<rparr>"

definition validate_conversation :: "service_env \<Rightarrow> message list \<Rightarrow> unit service" where
  "validate_conversation env ms =
     (\<lambda>x. case validate_messages (xe_compact env) (xs_compactor x) ms of
        (c, Inr _) \<Rightarrow> (Inr (), set_compactor c x)
      | (c, Inl e) \<Rightarrow>
          (Inl (if is_compaction_error e
                then ContextBudgetExceededError (''context_protocol_invalid: '' @ exn_text e) else e),
           set_compactor c x))"

definition refresh_working_set ::
  "service_env \<Rightarrow> message list \<Rightarrow> (repository_delta \<times> string list) service" where
  "refresh_working_set env ms =
     bindS (getS (\<lambda>x. compare_snapshots (cx_last_repository_snapshot (xs_state x)) (xe_snapshot env))) (\<lambda>delta.
     bindS (modifyS (update_state (\<lambda>s.
       let s1 = s\<lparr>cx_last_repository_snapshot := Some (xe_snapshot env)\<rparr>;
           s2 = (if delta_changed delta
                 then invalidate_verification
                        (invalidate_paths (rd_modified_paths delta @ rd_deleted_paths delta) s1)
                 else s1)
       in observe_messages (xe_context env) (Some (rs_fingerprint (xe_snapshot env))) ms s2))) (\<lambda>_.
     bindS (\<lambda>x. case refresh_freshness (xe_file_state env) (rs_fingerprint (xe_snapshot env)) (xs_state x) of
              (s, r) \<Rightarrow> (r, x\<lparr>xs_state := s\<rparr>)) (\<lambda>stale.
     returnS (delta, stale))))"

definition recall_memory ::
  "service_env \<Rightarrow> 'a context_request_scheme \<Rightarrow> context_state \<Rightarrow> recall_result \<times> string option" where
  "recall_memory env r s =
     (case xe_recall env of
        None \<Rightarrow> (no_recall, None)
      | Some recall \<Rightarrow>
          (case bindE (memory_query_post_init
                  \<lparr>mq_user_request = cv_original_request (mr_view r), mq_task_goal = cv_goal (mr_view r),
                   mq_current_step = map_option sv_step (cv_current_step (mr_view r)),
                   mq_active_paths = sort (map fst (cx_active_files s)), mq_limit = 5\<rparr>) recall of
             Inl e \<Rightarrow> (no_recall, Some (exn_text e))
           | Inr m \<Rightarrow> (m, None)))"

text \<open>What one call fixes before it projects.\<close>

record prepare_frame =
  pf_tools :: "model_tool list"
  pf_system_prompt :: string
  pf_delta :: repository_delta
  pf_stale :: "string list"
  pf_memory :: recall_result
  pf_memory_error :: "string option"
  pf_raw_tokens :: int

definition message_estimate :: "service_env \<Rightarrow> message list \<Rightarrow> nat" where
  "message_estimate env ms = context_tokens (xe_scale env) ms [] []"

definition project :: "'a context_request_scheme \<Rightarrow> projected_message list service" where
  "project r = (\<lambda>x.
     (build_projection (xs_state x) (mr_messages r) (previous_cursor (xs_compactor x)), x))"

definition select_for ::
  "budget_manager \<Rightarrow> context_item list \<Rightarrow> int \<Rightarrow> bool \<Rightarrow> (context_item list \<times> context_item list) result" where
  "select_for m items available allow_overflow =
     (case select_items m items available of
        Inr sd \<Rightarrow> Inr sd
      | Inl e \<Rightarrow>
          if allow_overflow
          then Inr (filter (\<lambda>i. ci_retention i = Required) items,
                    filter (\<lambda>i. ci_retention i \<noteq> Required) items)
          else Inl e)"

definition attachment_message :: "string \<Rightarrow> string \<Rightarrow> message" where
  "attachment_message content projection_ref =
     UserMessage \<lparr>um_content = Inl content, um_timestamp = 0,
       um_metadata = [(''context_attachment'', PBool True), (''projection_ref'', PStr projection_ref)]\<rparr>"

definition materialize ::
  "service_env \<Rightarrow> 'a context_request_scheme \<Rightarrow> prepare_frame \<Rightarrow> projected_message list \<Rightarrow> message list
   \<Rightarrow> bool \<Rightarrow> string \<Rightarrow> (prepared_context \<times> context_report) service" where
  "materialize env r f projection base allow_overflow stage = (\<lambda>x.
     (let budget = xs_budget x; snapshot = xe_snapshot env; compactor = xs_compactor x in
      bindE (materialize_context_items r (xs_state x) (pf_memory f) snapshot (pf_delta f)
               (bm_config budget)) (\<lambda>items.
      let base_tokens = int (context_tokens (xe_scale env) base (pf_system_prompt f) (pf_tools f));
          available = max 0 (effective_tokens budget - base_tokens - 32) in
      bindE (select_for budget items available allow_overflow) (\<lambda>(selected, dropped).
      let ref = projection_ref_of (xe_context env) r (rs_fingerprint snapshot) selected;
          messages = attachment_message
            (render_context_attachment selected (cmp_current_summary compactor) ref) ref # base
      in
      Inr (\<lparr>pc_system_prompt = pf_system_prompt f, pc_messages = messages, pc_tools = pf_tools f,
            pc_projection_ref = py_strip ref\<rparr>,
           \<lparr>cr_projection_ref = ref, cr_repository_fingerprint = rs_fingerprint snapshot,
            cr_total_budget = effective_tokens budget, cr_tokens_before = pf_raw_tokens f,
            cr_tokens_after =
              int (context_tokens (xe_scale env) messages (pf_system_prompt f) (pf_tools f)),
            cr_stage = stage, cr_selected_items = map ci_item_id selected,
            cr_dropped_items = map ci_item_id dropped, cr_stale_items = pf_stale f,
            cr_memory_error = pf_memory_error f, cr_source_refs = map pm_source_ref projection,
            cr_compact_snapshot_ref = map_option csn_path (cmp_current_snapshot compactor),
            cr_compacted_until = previous_cursor compactor, cr_pressures = [],
            cr_thinning_actions = []\<rparr>))), x))"

definition thin_step ::
  "service_env \<Rightarrow> 'a context_request_scheme \<Rightarrow> context_report \<Rightarrow> message list
   \<Rightarrow> (message list \<times> string list) service" where
  "thin_step env r report ms = (\<lambda>x.
     (let effective = effective_tokens (xs_budget x);
          fixed = max 0 (cr_tokens_after report - int (message_estimate env ms));
          target = max 0 (effective * 55 div 100 - fixed);
          recent = min 40000 (max 512 (effective * 20 div 100));
          t = thin (xe_context env) (xs_state x) (mr_run_id r) (nat target) (message_estimate env)
                recent ms (xs_archive x)
      in (Inr (th_messages t, th_actions t), x\<lparr>xs_archive := th_archive t\<rparr>)))"

definition compact_step :: "service_env \<Rightarrow> 'a context_request_scheme \<Rightarrow> unit service" where
  "compact_step env r = (\<lambda>x.
     (let keep = min 8000 (max 512 (effective_tokens (xs_budget x) * 15 div 100)) in
      case compact (xe_compact env) (xs_compactor x) (mr_run_id r) (mr_messages r)
             (cv_goal (mr_view r)) (Some keep) (xs_files x) of
        (c, files, res) \<Rightarrow>
          ((case res of
              Inr _ \<Rightarrow> Inr ()
            | Inl e \<Rightarrow> Inl (if is_compaction_error e
                         then ContextBudgetExceededError (''context_compaction_failed: '' @ exn_text e)
                         else e)),
           x\<lparr>xs_compactor := c, xs_files := files\<rparr>)))"

definition assess_prepared ::
  "service_env \<Rightarrow> prepared_context \<times> context_report \<Rightarrow> context_pressure service" where
  "assess_prepared env pr = (\<lambda>x.
     (assess (xs_budget x) (cr_tokens_after (snd pr))
        (int (message_estimate env (pc_messages (fst pr)))), x))"

section \<open>The preparation\<close>

type_synonym prepared = "prepared_context \<times> context_report"

definition materialized_thin ::
  "service_env \<Rightarrow> 'a context_request_scheme \<Rightarrow> prepare_frame \<Rightarrow> projected_message list \<Rightarrow> prepared
   \<Rightarrow> bool \<Rightarrow> string \<Rightarrow> (string list \<times> prepared) service" where
  "materialized_thin env r f projection pr allow_overflow stage =
     bindS (thin_step env r (snd pr) (model_messages projection)) (\<lambda>(ms, actions).
     if actions = [] then returnS ([], pr)
     else bindS (materialize env r f projection ms allow_overflow stage) (\<lambda>pr'.
          returnS (actions, pr')))"

definition critical_stage ::
  "service_env \<Rightarrow> 'a context_request_scheme \<Rightarrow> prepare_frame \<Rightarrow> (string list \<times> prepared \<times> context_pressure) service" where
  "critical_stage env r f =
     bindS (compact_step env r) (\<lambda>_.
     bindS (project r) (\<lambda>projection.
     bindS (materialize env r f projection (model_messages projection) False ''critical'') (\<lambda>pr.
     bindS (assess_prepared env pr) (\<lambda>pressure.
     if cp_level pressure = PressureNormal then returnS ([], pr, pressure)
     else
       bindS (materialized_thin env r f projection pr False ''critical+tight'') (\<lambda>(actions, pr').
       if actions = [] then returnS ([], pr, pressure)
       else bindS (assess_prepared env pr') (\<lambda>pressure'. returnS (actions, pr', pressure')))))))"

definition prepare_stages ::
  "service_env \<Rightarrow> 'a context_request_scheme \<Rightarrow> prepare_frame
   \<Rightarrow> (string list \<times> prepared \<times> context_pressure list) service" where
  "prepare_stages env r f =
     bindS (\<lambda>x. (assess (xs_budget x) (pf_raw_tokens f) (int (message_estimate env (mr_messages r))), x)) (\<lambda>raw_pressure.
     bindS (project r) (\<lambda>projection.
     bindS (materialize env r f projection (model_messages projection) True ''lossless'') (\<lambda>pr.
     bindS (assess_prepared env pr) (\<lambda>lossless.
     bindS (if cp_level lossless = PressureTight
            then materialized_thin env r f projection pr True ''tight'' else returnS ([], pr)) (\<lambda>(actions, pr1).
     bindS (assess_prepared env pr1) (\<lambda>final_pressure.
     if cp_level lossless = PressureCritical \<or> cp_level lossless = PressureOverflow
     then bindS (critical_stage env r f) (\<lambda>(more, pr2, pressure).
          returnS (actions @ more, pr2, [raw_pressure, lossless, pressure]))
     else returnS (actions, pr1, [raw_pressure, lossless, final_pressure])))))))"

definition check_prepared ::
  "string list \<times> prepared \<times> context_pressure list \<Rightarrow> prepared_context service" where
  "check_prepared = (\<lambda>(actions, (prepared, report), pressures).
     bindS (\<lambda>x. (ensure_final_fit (xs_budget x) (cr_tokens_after report), x)) (\<lambda>_.
     let unsettled = unsettled_tool_calls (pc_messages prepared) in
     if unsettled \<noteq> []
     then raiseS (ContextBudgetExceededError
            (''projected context contains unsettled tool calls: '' @
             py_join '', '' (map tc_id unsettled)))
     else
       bindS (modifyS (\<lambda>x. x\<lparr>xs_report :=
         Some (report\<lparr>cr_pressures := pressures, cr_thinning_actions := dedup actions\<rparr>)\<rparr>)) (\<lambda>_.
       returnS prepared)))"

definition prepare_context :: "service_env \<Rightarrow> 'a context_request_scheme \<Rightarrow> prepared_context service" where
  "prepare_context env r =
     bindS (getS (\<lambda>x. mr_session_id r = xs_session_id x)) (\<lambda>own.
     if \<not> own then raiseS (ValueError ''Context request belongs to another session'')
     else
     bindS (validate_conversation env (mr_messages r)) (\<lambda>_.
     let prompt = compiled_system_prompt (xe_control_notice env) (mr_seed r) (mr_directive r);
         tools = tools_from_request r in
     bindS (getS (\<lambda>x. effective_tokens (xs_budget x)
                      < int (context_tokens (xe_scale env) [] prompt tools))) (\<lambda>too_big.
     if too_big
     then raiseS (ContextBudgetExceededError
            ''L0 rules and tool schemas exceed the effective input budget'')
     else
     bindS (refresh_working_set env (mr_messages r)) (\<lambda>(delta, stale).
     bindS (getS (\<lambda>x. recall_memory env r (xs_state x))) (\<lambda>(memory, memory_error).
     bindS (prepare_stages env r
       \<lparr>pf_tools = tools, pf_system_prompt = prompt, pf_delta = delta, pf_stale = stale,
        pf_memory = memory, pf_memory_error = memory_error,
        pf_raw_tokens = int (context_tokens (xe_scale env) (mr_messages r) prompt tools)\<rparr>)
       check_prepared)))))"

section \<open>Checkpoint\<close>

definition service_checkpoint :: "context_service \<Rightarrow> dict" where
  "service_checkpoint x = compactor_checkpoint (xs_compactor x)"

definition service_restore :: "pyval \<Rightarrow> unit service" where
  "service_restore state = (\<lambda>x.
     case restore_compactor (xs_files x) (xs_compactor x) state of
       Inl e \<Rightarrow> (Inl e, x)
     | Inr c \<Rightarrow> (Inr (), set_compactor c x))"

end
