(* ===== verification/Context_Compaction_Facts.thy ===== *)
theory Context_Compaction_Facts
  imports Context_Compaction
begin

text \<open>
  What a compaction does: it cuts the conversation between two groups, before the unconsumed
  batch, and leaves a settled rest; a failure changes nothing; the checkpoint of a compactor
  restores it from the stored files.
\<close>

section \<open>Validation\<close>

lemma validate_group_settled:
  assumes "g \<in> set (message_groups ms)"
  shows "validate_group g = Inr () \<longleftrightarrow> settled_group g"
proof -
  obtain m rest where g: "g = m # rest" using message_groups_nonempty [OF assms] by (cases g) auto
  show ?thesis
  proof (cases "is_closed_tool_batch g")
    case True
    with closed_group_batch [OF assms] g show ?thesis by (simp add: settled_group_def)
  next
    case False
    then have nb: "\<not> batch_group g" using settled_group_closed by blast
    show ?thesis
      using False nb unfolding g
      by (cases m) (auto simp: settled_group_def tool_batch_call_ids_def)
  qed
qed

lemma validate_groups_settled:
  "(\<exists>u. validate_message_groups (message_groups ms) = Inr u) \<longleftrightarrow> settled_messages ms"
proof -
  have "(\<exists>us. traverse validate_group gs = Inr us) \<longleftrightarrow> (\<forall>g \<in> set gs. validate_group g = Inr ())" for gs
    by (induction gs) (auto simp: bindE_eq_Inr)
  then show ?thesis
    using validate_group_settled
    by (auto simp: validate_message_groups_def mapE_eq_Inr settled_messages_def)
qed

section \<open>Cursors\<close>

definition message_ids :: "message list \<Rightarrow> string list" where
  "message_ids ms = map the (filter (\<lambda>i. i \<noteq> None) (map session_message_id ms))"

lemma message_ids_simps [simp]:
  "message_ids [] = []"
  "message_ids (m # ms) =
     (case session_message_id m of None \<Rightarrow> message_ids ms | Some i \<Rightarrow> i # message_ids ms)"
  "message_ids (xs @ ys) = message_ids xs @ message_ids ys"
  by (simp_all add: message_ids_def split: option.splits)

lemma session_message_id_canon: "session_message_id m = Some i \<Longrightarrow> canon_text py_strip i"
  unfolding session_message_id_def by (rule strip.optional_text_canon)

lemma after_cursor_at:
  "distinct (message_ids (xs @ m # ys)) \<Longrightarrow> session_message_id m = Some c \<Longrightarrow>
   after_cursor c (xs @ m # ys) = Some ys"
  by (induction xs) (auto split: option.splits)

lemma prefix_at:
  "distinct (message_ids (xs @ m # ys)) \<Longrightarrow> session_message_id m = Some c \<Longrightarrow>
   prefix_through_cursor (xs @ m # ys) c = Inr (xs @ [m])"
  by (induction xs) (auto split: option.splits)

lemma after_cursor_suffix:
  "after_cursor c ms = Some rest \<Longrightarrow> \<exists>xs m. ms = xs @ m # rest \<and> session_message_id m = Some c"
proof (induction ms)
  case Nil
  then show ?case by simp
next
  case (Cons m ms)
  show ?case
  proof (cases "session_message_id m = Some c")
    case True
    with Cons.prems show ?thesis by (intro exI [of _ "[]"] exI [of _ m]) simp
  next
    case False
    with Cons obtain xs n where "ms = xs @ n # rest" "session_message_id n = Some c" by auto
    then show ?thesis by (intro exI [of _ "m # xs"] exI [of _ n]) simp
  qed
qed

lemma messages_after_suffix: "\<exists>pre. ms = pre @ messages_after_cursor ms cursor"
proof (cases "truthy cursor \<and> after_cursor (the cursor) ms \<noteq> None")
  case True
  then obtain rest where "after_cursor (the cursor) ms = Some rest" by blast
  with after_cursor_suffix [OF this] True show ?thesis
    by (auto simp: messages_after_cursor_def)
next
  case False
  then have "messages_after_cursor ms cursor = ms"
    by (auto simp: messages_after_cursor_def)
  then show ?thesis by simp
qed

lemma messages_after_at:
  assumes "distinct (message_ids (xs @ m # ys))" and "session_message_id m = Some c"
  shows "messages_after_cursor (xs @ m # ys) (Some c) = ys"
proof -
  have "c \<noteq> []" using session_message_id_canon [OF assms(2)] by (simp add: canon_text_def)
  with after_cursor_at [OF assms] show ?thesis
    by (simp add: messages_after_cursor_def truthy_def)
qed

section \<open>Where the cut is\<close>

lemma kept_groups_bounds:
  "kept \<le> kept_groups keep kept used gs \<and>
   (kept = 0 \<longrightarrow> gs \<noteq> [] \<longrightarrow> 1 \<le> kept_groups keep kept used gs)"
proof (induction keep kept used gs rule: kept_groups.induct)
  case (1 keep kept used)
  show ?case by simp
next
  case (2 keep kept used g gs)
  let ?t = "int (context_tokens no_correction g [] [])"
  show ?case
  proof (cases "kept \<noteq> 0 \<and> keep < used + ?t")
    case True
    then show ?thesis by simp
  next
    case False
    with "2.IH" [OF refl] show ?thesis by auto
  qed
qed

lemma compact_group_count_bounds:
  assumes "compact_group_count groups keep = Inr n" and "4 \<le> length groups"
  shows "1 \<le> n \<and> n < length groups"
proof (cases keep)
  case None
  with assms show ?thesis by (auto simp: compact_group_count_def)
next
  case (Some k)
  have "rev groups \<noteq> []" using assms(2) by auto
  then have "1 \<le> kept_groups k 0 0 (rev groups)" using kept_groups_bounds by blast
  with Some assms show ?thesis by (auto simp: compact_group_count_def split: if_splits)
qed

lemma compact_prefix_cut:
  assumes "compact_prefix c messages keep = Inr (Some gs)"
  defines "visible \<equiv> messages_after_cursor messages (previous_cursor c)"
  shows "settled_messages visible \<and>
    (\<exists>n. gs = take n (message_groups visible) \<and> 0 < n \<and> n < length (message_groups visible) \<and>
       (\<forall>i. latest_unconsumed_tool_batch (message_groups visible) = Some i \<longrightarrow> n \<le> i))"
proof -
  let ?gs = "message_groups visible"
  obtain u where u: "validate_message_groups ?gs = Inr u"
    using assms(1) by (auto simp: compact_prefix_def visible_def Let_def bindE_eq_Inr)
  then have "settled_messages visible" using validate_groups_settled by blast
  moreover obtain count where count: "compact_group_count ?gs keep = Inr count" "4 \<le> length ?gs"
    and gs: "gs = take (case latest_unconsumed_tool_batch ?gs of None \<Rightarrow> count
                        | Some protected \<Rightarrow> min count protected) ?gs"
    and pos: "0 < (case latest_unconsumed_tool_batch ?gs of None \<Rightarrow> count
                    | Some protected \<Rightarrow> min count protected)"
    using assms(1) u
    by (auto simp: compact_prefix_def visible_def Let_def bindE_eq_Inr split: if_splits)
  moreover have "count < length ?gs" using compact_group_count_bounds [OF count] by simp
  ultimately show ?thesis
    by (intro conjI exI [of _ "case latest_unconsumed_tool_batch ?gs of None \<Rightarrow> count
                        | Some protected \<Rightarrow> min count protected"])
       (auto split: option.splits)
qed

lemma compact_body_parts:
  assumes "compact_body env c run_id messages goal keep files = Inr (Some (snapshot, summary, files'))"
  shows "\<exists>groups cursor. compact_prefix c messages keep = Inr (Some groups) \<and>
     compact_cursor (concat groups) = Inr cursor \<and>
     summarize env c (concat groups) goal cursor = Inr summary \<and>
     new_snapshot env run_id messages cursor summary = Inr snapshot \<and>
     write_snapshot env snapshot summary files = Inr files'"
  using assms
  by (auto simp: compact_body_def bindE_eq_Inr split: if_splits option.splits)

lemma new_snapshot_parts:
  assumes "new_snapshot env run_id messages cursor summary = Inr snapshot"
    and "canon_text py_strip cursor"
  shows "csn_compacted_until_message_id snapshot = cursor \<and> wf_compact_snapshot_ref snapshot \<and>
    (\<exists>src. prefix_through_cursor messages cursor = Inr src \<and>
       csn_source_digest snapshot = py_strip (cpe_sha256 env (source_text env src None)))"
proof -
  have id: "ctx_required_text (PStr cursor) f = Inr cursor" for f using assms(2) by simp
  have d: "ctx_required_text (PStr t) f = Inr u \<Longrightarrow> u = py_strip t" for t u f
    by (auto simp: ctx_required_text_def required_text_PStr split: if_splits)
  show ?thesis
    using assms(1) unfolding new_snapshot_def Let_def
    by (auto simp: bindE_eq_Inr compact_snapshot_ref_post_init_def id assms(2)
        wf_compact_snapshot_ref_def dest: ctx_required_text_canon d split: if_splits)
qed

theorem compaction_cuts_between_groups:
  assumes body: "compact_body env c run_id messages goal keep files = Inr (Some (snapshot, summary, files'))"
    and ids: "distinct (message_ids messages)"
  defines "visible \<equiv> messages_after_cursor messages (previous_cursor c)"
    and "rest \<equiv> messages_after_cursor messages (Some (csn_compacted_until_message_id snapshot))"
  shows "\<exists>n. 0 < n \<and> n < length (message_groups visible) \<and>
    message_groups rest = drop n (message_groups visible) \<and> settled_messages rest \<and>
    (\<forall>i. latest_unconsumed_tool_batch (message_groups visible) = Some i \<longrightarrow> n \<le> i)"
proof -
  let ?gs = "message_groups visible"
  obtain groups cursor where p: "compact_prefix c messages keep = Inr (Some groups)"
    and cur: "compact_cursor (concat groups) = Inr cursor"
    and snap: "new_snapshot env run_id messages cursor summary = Inr snapshot"
    using compact_body_parts [OF body] by blast
  from compact_prefix_cut [OF p] obtain n where st: "settled_messages visible"
    and n: "groups = take n ?gs" "0 < n" "n < length ?gs"
    and unc: "\<forall>i. latest_unconsumed_tool_batch ?gs = Some i \<longrightarrow> n \<le> i"
    unfolding visible_def by blast
  have "groups \<noteq> []" using n by auto
  then obtain g gs' where "groups = g # gs'" by (cases groups) auto
  moreover have "g \<noteq> []" if "g \<in> set groups" for g
    using that n(1) message_groups_nonempty set_take_subset by (metis subsetD)
  ultimately have ne: "concat groups \<noteq> []" by auto
  obtain xs m where xm: "concat groups = xs @ [m]" using ne by (metis rev_exhaust)
  have sid: "session_message_id m = Some cursor"
    using cur by (auto simp: compact_cursor_def xm split: if_splits option.splits)
  have canon: "canon_text py_strip cursor" by (rule session_message_id_canon [OF sid])
  have until: "csn_compacted_until_message_id snapshot = cursor"
    using new_snapshot_parts [OF snap canon] by blast
  obtain pre where pre: "messages = pre @ visible"
    using messages_after_suffix unfolding visible_def by blast
  have "visible = concat (take n ?gs) @ concat (drop n ?gs)"
    by (metis append_take_drop_id concat_append concat_message_groups)
  then have vis: "visible = xs @ m # concat (drop n ?gs)" using xm n(1) by simp
  then have "messages = (pre @ xs) @ m # concat (drop n ?gs)" using pre by simp
  with ids sid have rest: "rest = concat (drop n ?gs)"
    unfolding rest_def until using messages_after_at by metis
  have all: "\<forall>g \<in> set (drop n ?gs). settled_group g"
    using st unfolding settled_messages_def by (meson in_set_dropD)
  then have "message_groups rest = drop n ?gs" unfolding rest by (rule message_groups_concat)
  moreover have "settled_messages rest" unfolding rest by (rule settled_concat [OF all])
  ultimately show ?thesis using n(2,3) unc by blast
qed

section \<open>Failure\<close>

definition wf_compactor :: "compactor \<Rightarrow> bool" where
  "wf_compactor c \<longleftrightarrow>
     (case (cmp_current_snapshot c, cmp_current_summary c) of
        (None, None) \<Rightarrow> True
      | (Some s, Some t) \<Rightarrow> wf_compact_snapshot_ref s \<and> wf_compact_summary t
      | _ \<Rightarrow> False)"

lemma compact_cases:
  assumes "compact env c run_id messages goal keep files = (c', files', r)"
  obtains (Fresh) snapshot summary where
      "compact_body env c run_id messages goal keep files = Inr (Some (snapshot, summary, files'))"
      "c' = \<lparr>cmp_current_snapshot = Some snapshot, cmp_current_summary = Some summary\<rparr>" "r = Inr snapshot"
    | (Same) snapshot where "cmp_current_snapshot c = Some snapshot" "r = Inr snapshot"
        "c' = c" "files' = files"
    | (Failed) message where "cmp_current_snapshot c = None" "r = Inl (ContextCompactionError message)"
        "c' = c" "files' = files"
proof (cases "compact_body env c run_id messages goal keep files")
  case (Inl e)
  show ?thesis
  proof (cases "cmp_current_snapshot c")
    case None
    then have "c' = c" "files' = files" and r: "r = (if is_compaction_error e then Inl e
        else Inl (ContextCompactionError (exn_text e)))"
      using assms Inl by (simp_all add: compact_def)
    moreover have "\<exists>message. r = Inl (ContextCompactionError message)"
      unfolding r by (cases e) simp_all
    ultimately show ?thesis using None that(3) by blast
  next
    case (Some a)
    then have "c' = c" "files' = files" "r = Inr a" using assms Inl by (simp_all add: compact_def)
    with Some show ?thesis using that(2) by blast
  qed
next
  case (Inr x0)
  show ?thesis
  proof (cases x0)
    case None
    have "cmp_current_snapshot c \<noteq> None"
      using Inr unfolding None
      by (auto simp: compact_body_def compact_prefix_def bindE_eq_Inr Let_def split: if_splits option.splits)
    then obtain s where s: "cmp_current_snapshot c = Some s" by blast
    then have "c' = c" "files' = files" "r = Inr s" using assms Inr None by (simp_all add: compact_def)
    with s show ?thesis using that(2) by blast
  next
    case (Some x)
    obtain snapshot summary fs where x: "x = (snapshot, summary, fs)" by (cases x)
    have b: "compact_body env c run_id messages goal keep files = Inr (Some (snapshot, summary, fs))"
      by (simp only: Inr Some x)
    then have "c' = \<lparr>cmp_current_snapshot = Some snapshot, cmp_current_summary = Some summary\<rparr>"
      "files' = fs" "r = Inr snapshot" using assms by (simp_all add: compact_def)
    with b show ?thesis using that(1) by blast
  qed
qed

section \<open>Checkpoint and restoration\<close>

text \<open>What the summarizer answers is an object its class can construct.\<close>

definition summarizer_ok :: "compact_env \<Rightarrow> bool" where
  "summarizer_ok env \<longleftrightarrow>
     (\<forall>f req res. cpe_summarizer env = Some f \<longrightarrow> f req = Inr (Some res) \<longrightarrow>
        wf_compact_summary (sres_summary res))"

lemma summarize_wf:
  "summarizer_ok env \<Longrightarrow> summarize env c ms goal cursor = Inr summary \<Longrightarrow> wf_compact_summary summary"
  by (auto simp: summarize_def summarizer_ok_def bindE_eq_Inr split: option.splits if_splits)

lemma compact_cursor_canon: "compact_cursor ms = Inr cursor \<Longrightarrow> canon_text py_strip cursor"
  by (auto simp: compact_cursor_def dest: session_message_id_canon split: if_splits option.splits)

lemma compact_body_wf:
  assumes "summarizer_ok env"
    and "compact_body env c run_id messages goal keep files = Inr (Some (snapshot, summary, files'))"
  shows "wf_compact_snapshot_ref snapshot \<and> wf_compact_summary summary \<and>
    files' = AList.update (as_posix (csn_path snapshot)) (Some (snapshot_payload snapshot summary)) files"
proof -
  obtain groups cursor where p: "compact_cursor (concat groups) = Inr cursor"
    "summarize env c (concat groups) goal cursor = Inr summary"
    "new_snapshot env run_id messages cursor summary = Inr snapshot"
    "write_snapshot env snapshot summary files = Inr files'"
    using compact_body_parts [OF assms(2)] by blast
  have "wf_compact_snapshot_ref snapshot"
    using new_snapshot_parts [OF p(3) compact_cursor_canon [OF p(1)]] by blast
  with summarize_wf [OF assms(1) p(2)] p(4) show ?thesis
    by (auto simp: write_snapshot_def split: option.splits)
qed

lemma compact_wf:
  assumes "wf_compactor c" and "summarizer_ok env"
    and "compact env c run_id messages goal keep files = (c', files', r)"
  shows "wf_compactor c'"
  using assms(3)
proof (cases rule: compact_cases)
  case (Fresh snapshot summary)
  with compact_body_wf [OF assms(2) Fresh(1)] show ?thesis by (simp add: wf_compactor_def)
qed (use assms(1) in simp_all)

lemma payload_parts_payload:
  "payload_parts (snapshot_payload s t) = Inr (snapshot_to_mapping s, compact_summary_to_mapping t)"
  by (simp add: payload_parts_def snapshot_payload_def)

lemma load_stored:
  assumes "wf_compact_snapshot_ref s" and "wf_compact_summary t"
    and "map_of files (as_posix (csn_path s)) = Some (Some (snapshot_payload s t))"
  shows "load_snapshot files (csn_path s) (Some (csn_compacted_until_message_id s)) = Inr (s, t)"
  using assms
  by (simp add: load_snapshot_def payload_parts_payload compact_snapshot.decode_encode
      compact_summary.decode_encode)

text \<open>The files hold what the compactor refers to.\<close>

definition stored :: "snapshot_files \<Rightarrow> compactor \<Rightarrow> bool" where
  "stored files c \<longleftrightarrow>
     (\<forall>s t. cmp_current_snapshot c = Some s \<longrightarrow> cmp_current_summary c = Some t \<longrightarrow>
        map_of files (as_posix (csn_path s)) = Some (Some (snapshot_payload s t)))"

lemma compact_stored:
  assumes "stored files c" and "summarizer_ok env"
    and "compact env c run_id messages goal keep files = (c', files', r)"
  shows "stored files' c'"
  using assms(3)
proof (cases rule: compact_cases)
  case (Fresh snapshot summary)
  with compact_body_wf [OF assms(2) Fresh(1)] show ?thesis by (simp add: stored_def update_conv')
qed (use assms(1) in simp_all)

theorem restore_checkpoint:
  assumes "wf_compactor c" and "stored files c"
  shows "restore_compactor files d (PDict (compactor_checkpoint c)) = Inr c"
proof -
  consider (none) "cmp_current_snapshot c = None" "cmp_current_summary c = None"
    | (some) s t where "cmp_current_snapshot c = Some s" "cmp_current_summary c = Some t"
        "wf_compact_snapshot_ref s" "wf_compact_summary t"
    using assms(1) by (auto simp: wf_compactor_def split: option.splits)
  then show ?thesis
  proof cases
    case none
    then have "c = no_compaction" by (cases c) (simp add: no_compaction_def)
    then show ?thesis
      by (simp add: restore_compactor_def compactor_checkpoint_def context_checkpoint_from_mapping_def
          context_checkpoint_to_mapping_def context_checkpoint_post_init_def no_compaction_def
          opt_str_def ctx_optional_text_def)
  next
    case some
    let ?k = "\<lparr>cc_compact_snapshot_ref = Some (csn_path s),
               cc_compacted_until_message_id = Some (csn_compacted_until_message_id s)\<rparr>"
    have w: "wf_context_checkpoint ?k"
      using some(3) by (simp add: wf_context_checkpoint_def wf_compact_snapshot_ref_def)
    then have "context_checkpoint_post_init ?k = ?k"
      by (simp add: context_checkpoint_post_init_def wf_context_checkpoint_def)
    then have "compactor_checkpoint c = context_checkpoint_to_mapping ?k"
      by (simp add: compactor_checkpoint_def some(1))
    then have k: "context_checkpoint_from_mapping (compactor_checkpoint c) = Inr ?k"
      using context_checkpoint.decode_encode [OF w] by simp
    have "map_of files (as_posix (csn_path s)) = Some (Some (snapshot_payload s t))"
      using assms(2) some(1,2) by (simp add: stored_def)
    from load_stored [OF some(3,4) this] k some(1,2) show ?thesis
      by (cases c) (simp add: restore_compactor_def)
  qed
qed

section \<open>A snapshot stands while the prefix does\<close>

lemma prefix_append:
  "prefix_through_cursor ms cursor = Inr p \<Longrightarrow> prefix_through_cursor (ms @ ns) cursor = Inr p"
  by (induction ms arbitrary: p) (auto simp: mapE_eq_Inr split: if_splits)

theorem snapshot_stays_valid:
  assumes "compact_body env c run_id messages goal keep files = Inr (Some (snapshot, summary, files'))"
    and "\<And>t. py_strip (cpe_sha256 env t) = cpe_sha256 env t"
    and "settled_messages (messages @ newer)" and "cmp_current_snapshot c' = Some snapshot"
  shows "validate_messages env c' (messages @ newer) = (c', Inr True)"
proof -
  obtain groups cursor where p: "compact_cursor (concat groups) = Inr cursor"
    "new_snapshot env run_id messages cursor summary = Inr snapshot"
    using compact_body_parts [OF assms(1)] by blast
  obtain src where src: "prefix_through_cursor messages cursor = Inr src"
    "csn_source_digest snapshot = cpe_sha256 env (source_text env src None)"
    "csn_compacted_until_message_id snapshot = cursor"
    using new_snapshot_parts [OF p(2) compact_cursor_canon [OF p(1)]] assms(2) by auto
  obtain u where "validate_message_groups (message_groups (messages @ newer)) = Inr u"
    using assms(3) validate_groups_settled by blast
  with src prefix_append [OF src(1), of newer] show ?thesis
    by (simp add: validate_messages_def assms(4))
qed

end
