(* ===== verification/Context_Service_Facts.thy ===== *)
theory Context_Service_Facts
  imports Context_Service Context_Compaction_Facts
begin

text \<open>
  What a preparation returns: messages that come from the projection after the cursor that
  stands at the end, thinned or not, within the budget, settled, and with the results of the
  unconsumed batch in full.
\<close>

section \<open>The unconsumed batch\<close>

lemma latest_unconsumed_iff:
  "latest_unconsumed_tool_batch gs = Some i \<longleftrightarrow>
   (\<exists>as g bs. gs = as @ g # bs \<and> i = length as \<and> is_closed_tool_batch g \<and>
              (\<forall>h \<in> set bs. \<not> list_ex is_assistant h))"
proof -
  have "(\<exists>xs g ys. rev gs = xs @ g # ys \<and> i = length ys \<and> is_closed_tool_batch g \<and>
           (\<forall>x \<in> set xs. \<not> list_ex is_assistant x)) \<longleftrightarrow>
        (\<exists>as g bs. gs = as @ g # bs \<and> i = length as \<and> is_closed_tool_batch g \<and>
           (\<forall>h \<in> set bs. \<not> list_ex is_assistant h))" (is "?L \<longleftrightarrow> ?R")
  proof
    assume ?L
    then obtain xs g ys where "rev gs = xs @ g # ys" "i = length ys" "is_closed_tool_batch g"
      "\<forall>x \<in> set xs. \<not> list_ex is_assistant x" by blast
    moreover from this(1) have "gs = rev ys @ g # rev xs" by (simp add: rev_swap)
    ultimately show ?R by (intro exI [of _ "rev ys"] exI [of _ g] exI [of _ "rev xs"]) simp
  next
    assume ?R
    then obtain as g bs where "gs = as @ g # bs" "i = length as" "is_closed_tool_batch g"
      "\<forall>h \<in> set bs. \<not> list_ex is_assistant h" by blast
    then show ?L by (intro exI [of _ "rev bs"] exI [of _ g] exI [of _ "rev as"]) simp
  qed
  then show ?thesis
    by (simp only: latest_unconsumed_tool_batch_def latest_unconsumed_loop_Some)
qed

lemma latest_unconsumed_drop:
  assumes "latest_unconsumed_tool_batch gs = Some i" and "n \<le> i"
  shows "latest_unconsumed_tool_batch (drop n gs) = Some (i - n) \<and> drop n gs ! (i - n) = gs ! i"
proof -
  obtain as g bs where g: "gs = as @ g # bs" "i = length as" "is_closed_tool_batch g"
    "\<forall>h \<in> set bs. \<not> list_ex is_assistant h" using assms(1) unfolding latest_unconsumed_iff by blast
  have "drop n gs = drop n as @ g # bs" using g(1,2) assms(2) by simp
  with g assms(2) have "latest_unconsumed_tool_batch (drop n gs) = Some (i - n)"
    unfolding latest_unconsumed_iff by (intro exI [of _ "drop n as"] exI [of _ g] exI [of _ bs]) simp
  moreover have "drop n gs ! (i - n) = gs ! i" using g(1,2) assms(2) by (simp add: nth_append)
  ultimately show ?thesis by blast
qed

lemma same_message_assistant: "same_message m n \<Longrightarrow> is_assistant n = is_assistant m"
  by (auto simp: same_message_def)

lemma same_group_assistant:
  "list_all2 same_message g h \<Longrightarrow> list_ex is_assistant h = list_ex is_assistant g"
  by (induction rule: list_all2_induct) (simp_all add: same_message_assistant)

text \<open>The results of the protected batch get no marker.\<close>

lemma protected_group_plan:
  "is_closed_tool_batch g \<Longrightarrow> fst (group_duplicates True seen g) = MarkResults []"
proof -
  assume c: "is_closed_tool_batch g"
  obtain marks s2 where sc: "scan_results True seen (tool_results (tl g)) = (marks, s2)" by fastforce
  have "j \<notin> fst ` set marks" for j
  proof
    assume "j \<in> fst ` set marks"
    from scan_results_marks [OF sc this] show False by simp
  qed
  then have m: "marks = []" by (metis image_eqI list.set_intros(1) neq_Nil_conv)
  have "tool_results (tl g) \<noteq> []"
  proof
    assume "tool_results (tl g) = []"
    then have "result_ids (tl g) = []" by (simp add: result_ids_tool_results)
    with c show False by (auto simp: is_closed_tool_batch_def Let_def)
  qed
  with c sc m show ?thesis by (simp add: group_duplicates_def Let_def)
qed

lemma duplicates_loop_append:
  "\<exists>ds seen'. duplicates_loop prot seen (xs @ ys) = ds @ duplicates_loop prot seen' ys \<and>
     length ds = length xs"
proof (induction xs arbitrary: seen)
  case Nil
  show ?case by (intro exI [of _ "[]"] exI [of _ seen]) simp
next
  case (Cons x xs)
  obtain p s2 where g: "group_duplicates (prot = Some (length (xs @ ys))) seen x = (p, s2)" by fastforce
  from Cons.IH [of s2] obtain ds s3 where
    "duplicates_loop prot s2 (xs @ ys) = ds @ duplicates_loop prot s3 ys" "length ds = length xs" by blast
  with g show ?case by (intro exI [of _ "p # ds"] exI [of _ s3]) simp
qed

lemma protected_plan:
  assumes "gs = as @ g # bs" and "is_closed_tool_batch g"
  shows "exact_read_duplicates (Some (length as)) gs ! length as = MarkResults []"
proof -
  let ?d = "duplicates_loop (Some (length as)) {} (rev bs @ g # rev as)"
  obtain ds seen where d: "?d = ds @ duplicates_loop (Some (length as)) seen (g # rev as)"
    "length ds = length bs"
    using duplicates_loop_append [of "Some (length as)" "{}" "rev bs" "g # rev as"] by auto
  have "?d ! length bs = duplicates_loop (Some (length as)) seen (g # rev as) ! 0"
    unfolding d(1) by (subst nth_append) (simp add: d(2))
  also have "\<dots> = fst (group_duplicates True seen g)"
    by (simp add: Let_def split: prod.splits)
  finally have "?d ! length bs = MarkResults []" using protected_group_plan [OF assms(2)] by simp
  moreover have "exact_read_duplicates (Some (length as)) gs = rev ?d"
    by (simp add: exact_read_duplicates_def assms(1))
  moreover have "rev ?d ! length as = ?d ! length bs"
    by (subst rev_nth) simp_all
  ultimately show ?thesis by simp
qed

text \<open>A message as it is, or a result with its freshness warning.\<close>

definition warned_message :: "message \<Rightarrow> message \<Rightarrow> bool" where
  "warned_message m n \<longleftrightarrow> n = m \<or> (\<exists>r e. m = ToolResultMessage r \<and> n = with_freshness_warning r e)"

lemma warned_result: "warned_message (ToolResultMessage q) n \<Longrightarrow> \<exists>e. n = with_freshness_warning q e"
proof -
  assume w: "warned_message (ToolResultMessage q) n"
  have "ToolResultMessage q = with_freshness_warning q None" by (simp add: with_freshness_warning_def)
  with w show ?thesis by (auto simp: warned_message_def)
qed

lemma shown_unmarked:
  assumes "settled_group g" and "(\<Union>m \<in> set g. opens_batch m) \<subseteq> known"
  shows "list_all2 warned_message g (shown_group s known prot (i, MarkResults [], g))"
proof -
  let ?f = "message_action s known i (prot = Some i) (MarkResults [])"
  have k: "warned_message m (fst (?f m)) \<and> shown (snd (?f m))" if "m \<in> set g" for m
  proof (cases m)
    case (ToolResultMessage r)
    with that have "trm_tool_call_id r \<in> set (result_ids g)" using result_in_ids by blast
    with assms settled_group_ids have "trm_tool_call_id r \<in> known" by blast
    with ToolResultMessage show ?thesis
      by (auto simp: message_action_def Let_def shown_def warned_message_def)
  qed (auto simp: message_action_def shown_def warned_message_def)
  then have "filter (\<lambda>ma. shown (snd ma)) (map ?f g) = map ?f g"
    by (intro filter_True) auto
  then have "shown_group s known prot (i, MarkResults [], g) = map (fst \<circ> ?f) g"
    by (simp add: shown_group_def)
  then show ?thesis using k by (simp add: list_all2_conv_all_nth)
qed

lemma warned_same: "warned_message m n \<Longrightarrow> same_message m n"
  by (auto simp: warned_message_def with_freshness_same) (simp add: same_message_def)

lemma batch_group_same:
  assumes "batch_group g" and "list_all2 same_message g h"
  shows "batch_group h"
proof -
  have "settled_group h" using settled_group_same assms by (auto simp: settled_group_def)
  moreover have "\<not> (\<exists>m. h = [m] \<and> plain_message m)"
  proof
    assume "\<exists>m. h = [m] \<and> plain_message m"
    then obtain m where m: "h = [m]" "plain_message m" by blast
    obtain a rs where g: "g = AssistantMessage a # map ToolResultMessage rs" "call_ids a \<noteq> {}"
      using assms(1) unfolding batch_group_def by blast
    with assms(2) m(1) have "same_message (AssistantMessage a) m" by simp
    then have "m = AssistantMessage a" by (simp add: same_message_def)
    with m(2) g(2) show False by simp
  qed
  ultimately show ?thesis by (auto simp: settled_group_def)
qed

lemma settled_unconsumed:
  assumes "settled_messages visible"
    and "latest_unconsumed_tool_batch (message_groups visible) = Some i"
    and "build_projection s ms cursor = Inr plan" and vis: "visible = messages_after_cursor ms cursor"
  shows "\<exists>j. latest_unconsumed_tool_batch (message_groups (model_messages plan)) = Some j \<and>
    list_all2 warned_message (message_groups visible ! i) (message_groups (model_messages plan) ! j)"
proof -
  let ?gs = "message_groups visible"
  let ?h = "shown_group s (known_call_ids visible) (Some i)"
  obtain as g bs where g: "?gs = as @ g # bs" "i = length as" "is_closed_tool_batch g"
    "\<forall>h \<in> set bs. \<not> list_ex is_assistant h"
    using assms(2) unfolding latest_unconsumed_iff by blast
  define plans where "plans = exact_read_duplicates (Some i) ?gs"
  have len: "length plans = length ?gs" by (simp add: plans_def exact_read_duplicates_def)
  have num: "numbered_groups visible = enumerate 0 (zip plans ?gs)"
    by (simp add: numbered_groups_def Let_def assms(2) plans_def)
  let ?num = "numbered_groups visible"
  have ln: "length ?num = length ?gs" by (simp add: num len)
  have at: "?num ! k = (k, plans ! k, ?gs ! k)" if "k < length ?gs" for k
    using that by (simp add: num nth_enumerate_eq len)
  have i: "i < length ?gs" using g(1,2) by simp
  have gi: "?gs ! i = g" using g(1,2) by simp
  have pi: "plans ! i = MarkResults []"
    using protected_plan [OF g(1) g(3)] by (simp add: plans_def g(2))
  have sg: "settled_group h \<and> (\<Union>m \<in> set h. opens_batch m) \<subseteq> known_call_ids visible" if "h \<in> set ?gs" for h
    using that assms(1) known_of_group by (auto simp: settled_messages_def)
  have g_in: "g \<in> set ?gs" using g(1) by simp
  have mid: "list_all2 warned_message g (?h (?num ! i))"
    unfolding at [OF i] pi gi by (rule shown_unmarked) (use sg [OF g_in] in blast)+
  have same: "?h ig = [] \<or> list_all2 same_message (snd (snd ig)) (?h ig)" if ig: "ig \<in> set ?num" for ig
  proof -
    obtain k pl h where e: "ig = (k, pl, h)" by (cases ig)
    have "h \<in> set ?gs" using ig e numbered_groups_group by blast
    then show ?thesis
      using shown_group_same [of h "known_call_ids visible"] sg [of h] e
      by (cases pl) (simp_all add: shown_group_omitted)
  qed
  define A where "A = filter (\<lambda>ys. ys \<noteq> []) (map ?h (take i ?num))"
  define B where "B = filter (\<lambda>ys. ys \<noteq> []) (map ?h (drop (Suc i) ?num))"
  have split: "?num = take i ?num @ ?num ! i # drop (Suc i) ?num"
    using i ln by (simp add: id_take_nth_drop)
  have settled: "\<forall>h \<in> set (A @ ?h (?num ! i) # B). settled_group h"
  proof
    fix x assume "x \<in> set (A @ ?h (?num ! i) # B)"
    then consider (mid) "x = ?h (?num ! i)" | (other) ig where "ig \<in> set ?num" "x = ?h ig" "x \<noteq> []"
      by (auto simp: A_def B_def dest: in_set_takeD in_set_dropD)
    then show "settled_group x"
    proof cases
      case mid
      then show ?thesis
        using sg [OF g_in] \<open>list_all2 warned_message g (?h (?num ! i))\<close>
          list_all2_mono [of warned_message g "?h (?num ! i)" same_message] warned_same settled_group_same
        by blast
    next
      case other
      have "snd (snd ig) \<in> set ?gs"
        using other(1) numbered_groups_group [of "fst ig" "fst (snd ig)" "snd (snd ig)" visible] by simp
      with other same [OF other(1)] sg settled_group_same show ?thesis by metis
    qed
  qed
  have "?h (?num ! i) \<noteq> []"
    using settled_group_head [of "?h (?num ! i)" "{}"] settled by auto
  moreover have "model_messages plan = concat (map ?h ?num)"
    using build_projection_total [OF vis, of s] assms(2,3) by auto
  ultimately have mm: "model_messages plan = concat (A @ ?h (?num ! i) # B)"
    by (subst (asm) split) (simp add: A_def B_def concat_nonempty)
  have groups: "message_groups (model_messages plan) = A @ ?h (?num ! i) # B"
    unfolding mm by (rule message_groups_concat [OF settled])
  have "is_closed_tool_batch (?h (?num ! i))"
  proof -
    have "batch_group g" using closed_group_batch [OF g_in g(3)] .
    moreover have "list_all2 same_message g (?h (?num ! i))"
      using mid by (rule list_all2_mono) (rule warned_same)
    ultimately show ?thesis by (rule batch_group_same [THEN settled_group_closed])
  qed
  moreover have "\<not> list_ex is_assistant h" if h: "h \<in> set B" for h
  proof -
    from h obtain ig where ig: "ig \<in> set (drop (Suc i) ?num)" "h = ?h ig" "h \<noteq> []"
      by (auto simp: B_def)
    then obtain k where k: "k < length (drop (Suc i) ?num)" "ig = drop (Suc i) ?num ! k"
      by (auto simp: in_set_conv_nth)
    then have "ig = ?num ! (Suc i + k)" "Suc i + k < length ?gs" using ln by simp_all
    then have "snd (snd ig) = bs ! k" "k < length bs" using at g(1,2) by (simp_all add: nth_append)
    then have "\<not> list_ex is_assistant (snd (snd ig))" using g(4) by simp
    moreover have "list_all2 same_message (snd (snd ig)) h"
      using same [of ig] ig set_drop_subset by (metis subsetD)
    ultimately show ?thesis using same_group_assistant by blast
  qed
  ultimately have "latest_unconsumed_tool_batch (message_groups (model_messages plan)) = Some (length A)"
    unfolding latest_unconsumed_iff groups by blast
  then show ?thesis using mid by (auto simp: groups gi)
qed

lemma thin_changes:
  "list_all2 (\<lambda>im n. n = snd im \<or> thinned_as (te_of env s run_id target estimate recent messages) im n)
     (indexed_messages (message_groups messages))
     (th_messages (thin env s run_id target estimate recent messages files))"
proof (cases "estimate messages \<le> target")
  case True
  have "list_all2 (\<lambda>im n. n = snd im) (indexed_messages (message_groups messages)) messages"
    by (metis (mono_tags, lifting) concat_message_groups indexed_messages_snd list.rel_map(2) list_all2_refl)
  with True show ?thesis by (auto simp: thin_def elim: list_all2_mono)
next
  case False
  then show ?thesis
    using thin_loop_messages [of "te_of env s run_id target estimate recent messages" "[]"
        "indexed_messages (message_groups messages)" "[]" files]
    by (auto simp: thin_def te_of_def Let_def)
qed

lemma in_indexed_messages:
  assumes "j < length gs" and "m \<in> set (gs ! j)"
  shows "(j, m) \<in> set (indexed_messages gs)"
proof -
  have "(j, gs ! j) \<in> set (enumerate 0 gs)"
    using assms(1) by (auto simp: in_set_enumerate_eq)
  with assms(2) show ?thesis unfolding indexed_messages_def by fastforce
qed

lemma thin_keeps_unconsumed:
  assumes "latest_unconsumed_tool_batch (message_groups ms) = Some j"
    and "m \<in> set (message_groups ms ! j)"
  shows "m \<in> set (th_messages (thin env s run_id target estimate recent ms files))"
proof -
  let ?te = "te_of env s run_id target estimate recent ms"
  have "j < length (message_groups ms)" using assms(1) unfolding latest_unconsumed_iff by auto
  from in_indexed_messages [OF this assms(2)]
  obtain n where n: "n \<in> set (th_messages (thin env s run_id target estimate recent ms files))"
    "n = m \<or> thinned_as ?te (j, m) n"
    using thin_changes [of env s run_id target estimate recent ms files]
    by (auto simp: list_all2_conv_all_nth in_set_conv_nth) (metis snd_conv)
  have "\<not> thinned_as ?te (j, m) n"
    by (auto simp: thinned_as_def thinnable_Some te_of_def thin_env_of_def assms(1))
  with n show ?thesis by simp
qed

section \<open>The stages\<close>

text \<open>Messages that show the projection after the cursor of the compactor, thinned or not.\<close>

definition shown_from ::
  "service_env \<Rightarrow> 'a context_request_scheme \<Rightarrow> compactor \<Rightarrow> message list \<Rightarrow> bool" where
  "shown_from env r c base \<longleftrightarrow>
     (\<exists>s projection. build_projection s (mr_messages r) (previous_cursor c) = Inr projection \<and>
        (base = model_messages projection \<or>
         (\<exists>s' target recent files. base = th_messages (thin (xe_context env) s' (mr_run_id r) target
            (message_estimate env) recent (model_messages projection) files))))"

definition prepared_ok ::
  "service_env \<Rightarrow> 'a context_request_scheme \<Rightarrow> compactor \<Rightarrow> prepare_frame \<Rightarrow> prepared \<Rightarrow> bool" where
  "prepared_ok env r c f pr \<longleftrightarrow>
     pc_system_prompt (fst pr) = pf_system_prompt f \<and> pc_tools (fst pr) = pf_tools f \<and>
     cr_tokens_after (snd pr) =
       int (context_tokens (xe_scale env) (pc_messages (fst pr)) (pf_system_prompt f) (pf_tools f)) \<and>
     (\<exists>content ref base. pc_messages (fst pr) = attachment_message content ref # base \<and>
        shown_from env r c base)"

lemma project_Inr:
  "project r x = (Inr projection, y) \<Longrightarrow>
   y = x \<and> build_projection (xs_state x) (mr_messages r) (previous_cursor (xs_compactor x)) = Inr projection"
  by (auto simp: project_def)

lemma materialize_Inr:
  assumes "materialize env r f projection base al st x = (Inr pr, y)"
    and "shown_from env r (xs_compactor x) base"
  shows "y = x \<and> prepared_ok env r (xs_compactor x) f pr"
proof -
  from assms(1) have "y = x" by (auto simp: materialize_def Let_def)
  moreover have "prepared_ok env r (xs_compactor x) f pr"
    using assms by (auto simp: materialize_def Let_def bindE_eq_Inr prepared_ok_def split: prod.splits) blast+
  ultimately show ?thesis by blast
qed

lemma assess_prepared_Inr: "assess_prepared env pr x = (Inr p, y) \<Longrightarrow> y = x"
  by (simp add: assess_prepared_def)

lemma step_frames:
  "project r x = (Inr projection, y) \<longleftrightarrow> y = x \<and> fst (project r x) = Inr projection"
  "materialize env r f projection base al st x = (Inr pr, y) \<longleftrightarrow>
     y = x \<and> fst (materialize env r f projection base al st x) = Inr pr"
  "assess_prepared env pr x = (Inr p, y) \<longleftrightarrow> y = x \<and> fst (assess_prepared env pr x) = Inr p"
  by (auto simp: project_def materialize_def assess_prepared_def Let_def)

definition compactor_frame :: "context_service \<Rightarrow> context_service \<Rightarrow> bool" where
  "compactor_frame x y \<longleftrightarrow> xs_compactor y = xs_compactor x \<and> xs_files y = xs_files x \<and>
     xs_budget y = xs_budget x"

lemma thin_step_Inr:
  assumes "thin_step env r report ms x = (Inr (ns, actions), y)"
  shows "compactor_frame x y \<and> (\<exists>s' target recent files. ns = th_messages (thin (xe_context env) s'
     (mr_run_id r) target (message_estimate env) recent ms files))"
  using assms by (auto simp: thin_step_def Let_def compactor_frame_def)

lemma materialized_thin_Inr:
  assumes run: "materialized_thin env r f projection pr al st x = (Inr (actions, pr'), y)"
    and p: "build_projection s (mr_messages r) (previous_cursor (xs_compactor x)) = Inr projection"
    and pr: "prepared_ok env r (xs_compactor x) f pr"
  shows "compactor_frame x y \<and> prepared_ok env r (xs_compactor x) f pr'"
proof -
  from run obtain ns acts z where t: "thin_step env r (snd pr) (model_messages projection) x = (Inr (ns, acts), z)"
    and rest: "(if acts = [] then returnS ([], pr)
       else bindS (materialize env r f projection ns al st) (\<lambda>pr'. returnS (acts, pr'))) z
       = (Inr (actions, pr'), y)"
    by (auto simp: materialized_thin_def bindS_Inr)
  note th = thin_step_Inr [OF t]
  then have c: "xs_compactor z = xs_compactor x" by (simp add: compactor_frame_def)
  have sh: "shown_from env r (xs_compactor z) ns"
    using th p unfolding shown_from_def c by blast
  show ?thesis
  proof (cases "acts = []")
    case True
    with rest th pr show ?thesis by simp
  next
    case False
    with rest obtain w where "materialize env r f projection ns al st z = (Inr pr', w)" "y = w"
      by (auto simp: bindS_Inr)
    with materialize_Inr [OF this(1) sh] th c show ?thesis by auto
  qed
qed

lemma shown_from_projection:
  "build_projection s (mr_messages r) (previous_cursor c) = Inr projection \<Longrightarrow>
   shown_from env r c (model_messages projection)"
  unfolding shown_from_def by blast

lemma compact_step_Inr:
  assumes "compact_step env r x = (Inr u, y)"
  shows "xs_budget y = xs_budget x \<and> xs_state y = xs_state x \<and>
    (\<exists>keep snap. compact (xe_compact env) (xs_compactor x) (mr_run_id r) (mr_messages r)
       (cv_goal (mr_view r)) keep (xs_files x) = (xs_compactor y, xs_files y, Inr snap))"
  using assms
  by (auto simp: compact_step_def Let_def split: prod.splits sum.splits) blast+

lemma critical_stage_Inr:
  assumes "critical_stage env r f x = (Inr (actions, pr, pressure), y)"
  shows "xs_budget y = xs_budget x \<and> prepared_ok env r (xs_compactor y) f pr \<and>
    (\<exists>keep snap. compact (xe_compact env) (xs_compactor x) (mr_run_id r) (mr_messages r)
       (cv_goal (mr_view r)) keep (xs_files x) = (xs_compactor y, xs_files y, Inr snap))"
proof -
  from assms obtain u x1 projection pr0 p0 where
    c: "compact_step env r x = (Inr u, x1)" and
    p: "project r x1 = (Inr projection, x1)" and
    m: "materialize env r f projection (model_messages projection) False ''critical'' x1 = (Inr pr0, x1)" and
    rest: "(if cp_level p0 = PressureNormal then returnS ([], pr0, p0)
       else bindS (materialized_thin env r f projection pr0 False ''critical+tight'') (\<lambda>(actions, pr').
         if actions = [] then returnS ([], pr0, p0)
         else bindS (assess_prepared env pr') (\<lambda>pressure'. returnS (actions, pr', pressure')))) x1
       = (Inr (actions, pr, pressure), y)"
    unfolding critical_stage_def bindS_Inr step_frames by blast
  note b = project_Inr [OF p]
  have ok: "prepared_ok env r (xs_compactor x1) f pr0"
    using materialize_Inr [OF m shown_from_projection] b by blast
  have "compactor_frame x1 y \<and> prepared_ok env r (xs_compactor x1) f pr"
  proof (cases "cp_level p0 = PressureNormal")
    case True
    with rest ok show ?thesis by (simp add: compactor_frame_def)
  next
    case False
    with rest obtain acts pr' z where t:
      "materialized_thin env r f projection pr0 False ''critical+tight'' x1 = (Inr (acts, pr'), z)"
      and r2: "(if acts = [] then returnS ([], pr0, p0)
         else bindS (assess_prepared env pr') (\<lambda>pressure'. returnS (acts, pr', pressure'))) z
         = (Inr (actions, pr, pressure), y)"
      by (auto simp: bindS_Inr)
    note th = materialized_thin_Inr [OF t _ ok]
    with b have th': "compactor_frame x1 z" "prepared_ok env r (xs_compactor x1) f pr'" by blast+
    show ?thesis
    proof (cases "acts = []")
      case True
      with r2 th' ok show ?thesis by simp
    next
      case False
      with r2 th' show ?thesis by (auto simp: bindS_Inr dest: assess_prepared_Inr)
    qed
  qed
  with compact_step_Inr [OF c] show ?thesis by (auto simp: compactor_frame_def)
qed


lemma prepare_stages_Inr:
  assumes "prepare_stages env r f x = (Inr (actions, pr, pressures), y)"
  shows "xs_budget y = xs_budget x \<and> prepared_ok env r (xs_compactor y) f pr \<and>
    (xs_compactor y = xs_compactor x \<or>
     (\<exists>keep files files' snap. compact (xe_compact env) (xs_compactor x) (mr_run_id r) (mr_messages r)
        (cv_goal (mr_view r)) keep files = (xs_compactor y, files', Inr snap)))"
proof -
  let ?thinned = "\<lambda>p0 projection pr0. if cp_level p0 = PressureTight
     then materialized_thin env r f projection pr0 True ''tight'' else returnS ([], pr0)"
  let ?last = "\<lambda>raw p0 fp acts pr1. if cp_level p0 = PressureCritical \<or> cp_level p0 = PressureOverflow
     then bindS (critical_stage env r f) (\<lambda>(more, pr2, pressure).
          returnS (acts @ more, pr2, [raw, p0, pressure]))
     else returnS (acts, pr1, [raw, p0, fp])"
  from assms obtain raw projection pr0 p0 acts pr1 z fp where
    p: "project r x = (Inr projection, x)" and
    m: "materialize env r f projection (model_messages projection) True ''lossless'' x = (Inr pr0, x)" and
    t: "?thinned p0 projection pr0 x = (Inr (acts, pr1), z)" and
    r2: "?last raw p0 fp acts pr1 z = (Inr (actions, pr, pressures), y)"
    unfolding prepare_stages_def bindS_Inr step_frames by (clarsimp simp: bindS_Inr step_frames)
  note b = project_Inr [OF p]
  have ok: "prepared_ok env r (xs_compactor x) f pr0"
    using materialize_Inr [OF m shown_from_projection] b by blast
  have z: "compactor_frame x z \<and> prepared_ok env r (xs_compactor x) f pr1"
  proof (cases "cp_level p0 = PressureTight")
    case True
    with t have "materialized_thin env r f projection pr0 True ''tight'' x = (Inr (acts, pr1), z)" by simp
    from materialized_thin_Inr [OF this _ ok] b show ?thesis by blast
  next
    case False
    with t ok show ?thesis by (simp add: compactor_frame_def)
  qed
  show ?thesis
  proof (cases "cp_level p0 = PressureCritical \<or> cp_level p0 = PressureOverflow")
    case True
    with r2 obtain acts2 pressure where "critical_stage env r f z = (Inr (acts2, pr, pressure), y)"
      by (auto simp: bindS_Inr)
    from critical_stage_Inr [OF this] z show ?thesis unfolding compactor_frame_def by metis
  next
    case False
    with r2 z show ?thesis by (auto simp: compactor_frame_def)
  qed
qed

section \<open>What the shown messages keep\<close>

text \<open>The results of the batch that the model has not seen yet.\<close>

definition unconsumed_results :: "message list \<Rightarrow> tool_result_message list" where
  "unconsumed_results visible =
     (case latest_unconsumed_tool_batch (message_groups visible) of
        None \<Rightarrow> [] | Some i \<Rightarrow> tool_results (message_groups visible ! i))"

lemma compacted_visible:
  assumes "compact env c run_id messages goal keep files = (c', files', Inr snap)"
    and "distinct (message_ids messages)"
  defines "visible \<equiv> messages_after_cursor messages (previous_cursor c)"
    and "rest \<equiv> messages_after_cursor messages (previous_cursor c')"
  assumes "settled_messages visible"
  shows "settled_messages rest \<and> unconsumed_results rest = unconsumed_results visible"
  using assms(1)
proof (cases rule: compact_cases)
  case (Fresh snapshot summary)
  then have c: "previous_cursor c' = Some (csn_compacted_until_message_id snapshot)"
    by (simp add: previous_cursor_def)
  obtain n where n: "n < length (message_groups visible)"
    "message_groups rest = drop n (message_groups visible)" "settled_messages rest"
    "\<forall>i. latest_unconsumed_tool_batch (message_groups visible) = Some i \<longrightarrow> n \<le> i"
    using compaction_cuts_between_groups [OF Fresh(1) assms(2)] unfolding visible_def rest_def c by blast
  have "unconsumed_results rest = unconsumed_results visible"
  proof (cases "latest_unconsumed_tool_batch (message_groups visible)")
    case None
    have "latest_unconsumed_tool_batch (message_groups rest) = None"
    proof (rule ccontr)
      assume "latest_unconsumed_tool_batch (message_groups rest) \<noteq> None"
      then obtain as g bs where g: "drop n (message_groups visible) = as @ g # bs"
        "is_closed_tool_batch g" "\<forall>h \<in> set bs. \<not> list_ex is_assistant h"
        unfolding n(2) option.distinct not_None_eq latest_unconsumed_iff by blast
      have "message_groups visible = (take n (message_groups visible) @ as) @ g # bs"
        by (metis append_take_drop_id g(1) append_assoc)
      with g(2,3) have "latest_unconsumed_tool_batch (message_groups visible)
          = Some (length (take n (message_groups visible) @ as))"
        unfolding latest_unconsumed_iff by blast
      with None show False by simp
    qed
    with None show ?thesis by (simp add: unconsumed_results_def)
  next
    case (Some i)
    then have "n \<le> i" using n(4) by blast
    with latest_unconsumed_drop [OF Some this] Some n(2) show ?thesis
      by (simp add: unconsumed_results_def)
  qed
  with n(3) show ?thesis by blast
next
  case (Same snapshot)
  with assms(5) show ?thesis by (simp add: rest_def visible_def)
next
  case (Failed message)
  then show ?thesis by simp
qed

lemma shown_from_keeps:
  assumes "shown_from env r c base"
    and vis: "visible = messages_after_cursor (mr_messages r) (previous_cursor c)"
    and "settled_messages visible"
  shows "settled_messages base \<and>
    (\<forall>q \<in> set (unconsumed_results visible). \<exists>e. with_freshness_warning q e \<in> set base)"
proof -
  obtain s projection where p: "build_projection s (mr_messages r) (previous_cursor c) = Inr projection"
    and b: "base = model_messages projection \<or>
       (\<exists>s' target recent files. base = th_messages (thin (xe_context env) s' (mr_run_id r) target
            (message_estimate env) recent (model_messages projection) files))"
    using assms(1) unfolding shown_from_def by blast
  have st: "settled_messages (model_messages projection)"
    by (rule projection_settled [OF vis assms(3) p])
  have "settled_messages base" using b st settled_messages_same thin_same by metis
  moreover have "\<exists>e. with_freshness_warning q e \<in> set base" if q: "q \<in> set (unconsumed_results visible)" for q
  proof -
    obtain i where i: "latest_unconsumed_tool_batch (message_groups visible) = Some i"
      and q': "ToolResultMessage q \<in> set (message_groups visible ! i)"
      using q by (cases "latest_unconsumed_tool_batch (message_groups visible)")
        (auto simp: unconsumed_results_def tool_results_in)
    obtain j where j: "latest_unconsumed_tool_batch (message_groups (model_messages projection)) = Some j"
      and w: "list_all2 warned_message (message_groups visible ! i)
                (message_groups (model_messages projection) ! j)"
      using settled_unconsumed [OF assms(3) i p vis] by blast
    obtain n where n: "n \<in> set (message_groups (model_messages projection) ! j)"
      "warned_message (ToolResultMessage q) n"
      using w q' by (metis list_all2_conv_all_nth in_set_conv_nth)
    obtain e where e: "n = with_freshness_warning q e"
      using warned_result [OF n(2)] by blast
    have "n \<in> set (model_messages projection)"
    proof -
      have "j < length (message_groups (model_messages projection))"
        using j unfolding latest_unconsumed_iff by auto
      then have "n \<in> set (concat (message_groups (model_messages projection)))" using n(1) by auto
      then show ?thesis by (simp add: concat_message_groups)
    qed
    moreover have "n \<in> set (th_messages (thin (xe_context env) s' (mr_run_id r) target
            (message_estimate env) recent (model_messages projection) files))" for s' target recent files
      by (rule thin_keeps_unconsumed [OF j n(1)])
    ultimately show ?thesis using b e by blast
  qed
  ultimately show ?thesis by blast
qed


section \<open>What every preparation keeps\<close>

text \<open>The state of the context and the compactor are well formed, and the stored files hold the
  snapshot the compactor refers to.\<close>

definition wf_service :: "context_service \<Rightarrow> bool" where
  "wf_service x \<longleftrightarrow> wf_context_state (xs_state x) \<and> wf_compactor (xs_compactor x) \<and>
     stored (xs_files x) (xs_compactor x)"

definition archive_grows :: "archive \<Rightarrow> archive \<Rightarrow> bool" where
  "archive_grows a b \<longleftrightarrow> (\<forall>k t. map_of a k = Some t \<longrightarrow> map_of b k = Some t)"

definition service_kept :: "context_service \<Rightarrow> context_service \<Rightarrow> bool" where
  "service_kept x y \<longleftrightarrow> (wf_service x \<longrightarrow> wf_service y) \<and> xs_session_id y = xs_session_id x \<and>
     xs_budget y = xs_budget x \<and> archive_grows (xs_archive x) (xs_archive y)"

interpretation service_kept: stateful_relation service_kept
  by unfold_locales (auto simp: service_kept_def archive_grows_def)

lemma service_kept_same: "service_kept x x"
  by (rule service_kept.refl)

lemma keeps_same: "(\<And>x. snd (m x) = x) \<Longrightarrow> keeps service_kept m"
  by (rule keepsI) (metis service_kept_same snd_conv)

lemma keeps_pure_read: "keeps service_kept (\<lambda>x. (f x, x))"
  by (rule keeps_same) simp

lemma keeps_read:
  "keeps service_kept (project r)" "keeps service_kept (materialize env r f projection base al st)"
  "keeps service_kept (assess_prepared env pr)"
  by (rule keeps_same, simp add: project_def materialize_def assess_prepared_def Let_def)+

lemma wf_no_compaction: "wf_compactor no_compaction" "stored files no_compaction"
  by (simp_all add: wf_compactor_def stored_def no_compaction_def)

lemma validate_messages_compactor:
  "validate_messages env c ms = (c', ok) \<Longrightarrow> c' = c \<or> c' = no_compaction"
  by (auto simp: validate_messages_def split: sum.splits option.splits if_splits)

lemma keeps_validate: "keeps service_kept (validate_conversation env ms)"
proof (rule keepsI)
  fix x :: context_service and res y assume "validate_conversation env ms x = (res, y)"
  then obtain c ok where v: "validate_messages (xe_compact env) (xs_compactor x) ms = (c, ok)"
    "y = set_compactor c x"
    by (auto simp: validate_conversation_def split: prod.splits sum.splits)
  from validate_messages_compactor [OF v(1)] show "service_kept x y"
    by (auto simp: service_kept_def v(2) set_compactor_def wf_service_def wf_no_compaction archive_grows_def)
qed

lemma keeps_state:
  assumes "\<And>s. wf_context_state s \<Longrightarrow> wf_context_state (f s)"
  shows "keeps service_kept (modifyS (update_state f))"
  by (rule service_kept.keeps_modify)
     (auto simp: service_kept_def update_state_def wf_service_def assms archive_grows_def)

lemma keeps_refresh: "keeps service_kept (refresh_working_set env ms)"
proof -
  have snap: "wf_context_state (s\<lparr>cx_last_repository_snapshot := p\<rparr>) = wf_context_state s" for s p
    by (simp add: wf_context_state_def)
  have fresh: "keeps service_kept (\<lambda>x. case refresh_freshness (xe_file_state env)
      (rs_fingerprint (xe_snapshot env)) (xs_state x) of (s, r) \<Rightarrow> (r, x\<lparr>xs_state := s\<rparr>))"
  proof (rule keepsI)
    fix x :: context_service and r y
    assume "(case refresh_freshness (xe_file_state env)
      (rs_fingerprint (xe_snapshot env)) (xs_state x) of (s, r) \<Rightarrow> (r, x\<lparr>xs_state := s\<rparr>)) = (r, y)"
    then obtain s where s: "refresh_freshness (xe_file_state env) (rs_fingerprint (xe_snapshot env))
        (xs_state x) = (s, r)" "y = x\<lparr>xs_state := s\<rparr>" by (auto split: prod.splits)
    with refresh_freshness_wf [OF _ s(1)] show "service_kept x y"
      by (auto simp: service_kept_def wf_service_def archive_grows_def)
  qed
  show ?thesis
    unfolding refresh_working_set_def
    by (intro service_kept.keeps_bind service_kept.keeps_pure keeps_state fresh)
       (auto simp: Let_def snap intro!: observe_messages_wf invalidate_wf)
qed

lemma keeps_thin: "keeps service_kept (thin_step env r report ms)"
proof (rule keepsI)
  fix x :: context_service and res y assume run: "thin_step env r report ms x = (res, y)"
  have grows: "archive_grows files (th_archive (thin e s i target estimate recent ms files))"
    for e s i target estimate recent files
    by (auto simp: archive_grows_def thin_def Let_def thin_loop_archive)
  from run obtain a where "y = x\<lparr>xs_archive := a\<rparr>" "archive_grows (xs_archive x) a"
    by (auto simp: thin_step_def Let_def grows)
  then show "service_kept x y" by (simp add: service_kept_def wf_service_def)
qed

lemma keeps_compact: "summarizer_ok (xe_compact env) \<Longrightarrow> keeps service_kept (compact_step env r)"
proof (rule keepsI)
  fix x res y
  assume ok: "summarizer_ok (xe_compact env)" and run: "compact_step env r x = (res, y)"
  then obtain keep c files ans where c: "compact (xe_compact env) (xs_compactor x) (mr_run_id r)
      (mr_messages r) (cv_goal (mr_view r)) keep (xs_files x) = (c, files, ans)"
    "y = x\<lparr>xs_compactor := c, xs_files := files\<rparr>"
    by (auto simp: compact_step_def Let_def split: prod.splits)
  with compact_wf [OF _ ok c(1)] compact_stored [OF _ ok c(1)] show "service_kept x y"
    by (auto simp: service_kept_def wf_service_def archive_grows_def)
qed

lemma keeps_thinned: "keeps service_kept (materialized_thin env r f projection pr al st)"
  unfolding materialized_thin_def
  by (intro service_kept.keeps_bind keeps_thin)
     (auto intro!: service_kept.keeps_bind service_kept.keeps_pure keeps_read split: prod.split)

lemma keeps_critical: "summarizer_ok (xe_compact env) \<Longrightarrow> keeps service_kept (critical_stage env r f)"
  unfolding critical_stage_def
  by (auto intro!: service_kept.keeps_bind service_kept.keeps_pure keeps_read keeps_compact
      keeps_thinned split: prod.split)

lemma keeps_stages: "summarizer_ok (xe_compact env) \<Longrightarrow> keeps service_kept (prepare_stages env r f)"
  unfolding prepare_stages_def
  by (auto intro!: service_kept.keeps_bind service_kept.keeps_pure keeps_read keeps_critical
      keeps_thinned keeps_pure_read split: prod.split)

lemma keeps_check: "keeps service_kept (check_prepared p)"
proof -
  have report: "keeps service_kept (modifyS (\<lambda>x. x\<lparr>xs_report := v\<rparr>))" for v
    by (rule service_kept.keeps_modify) (simp add: service_kept_def wf_service_def archive_grows_def)
  show ?thesis
    unfolding check_prepared_def Let_def
    by (auto intro!: service_kept.keeps_bind service_kept.keeps_pure keeps_pure_read report split: prod.split)
qed

lemma keeps_prepare: "summarizer_ok (xe_compact env) \<Longrightarrow> keeps service_kept (prepare_context env r)"
  unfolding prepare_context_def Let_def
  by (auto intro!: service_kept.keeps_bind service_kept.keeps_pure keeps_validate keeps_refresh
      keeps_stages keeps_check split: prod.split)


section \<open>A preparation without loss\<close>

lemma context_tokens_grow:
  "context_tokens scale [] prompt tools \<le> context_tokens scale messages prompt tools"
  by (simp add: context_tokens_sum)

lemma refresh_frame:
  "refresh_working_set env ms x = (res, y) \<Longrightarrow>
   xs_budget y = xs_budget x \<and> xs_compactor y = xs_compactor x \<and> xs_session_id y = xs_session_id x"
  by (auto simp: refresh_working_set_def bindS_eq update_state_def split: prod.splits)

text \<open>When every part returns and the lossless messages leave the pressure normal, the preparation
  returns them, and the compactor stays.\<close>

lemma lossless_run:
  assumes own: "mr_session_id r = xs_session_id x"
    and valid: "validate_messages (xe_compact env) (xs_compactor x) (mr_messages r) = (c, Inr b)"
    and wf: "wf_budget_manager (xs_budget x)"
    and fresh: "refresh_working_set env (mr_messages r) (set_compactor c x) = (Inr (delta, stale), z)"
    and proj: "build_projection (xs_state z) (mr_messages r) (previous_cursor c) = Inr projection"
    and items: "materialize_context_items r (xs_state z) (fst (recall_memory env r (xs_state z)))
        (xe_snapshot env) delta (bm_config (xs_budget x)) = Inr items"
    and prompt: "prompt = compiled_system_prompt (xe_control_notice env) (mr_seed r) (mr_directive r)"
    and tools: "tools = tools_from_request r"
    and sel: "select_for (xs_budget x) items (max 0 (effective_tokens (xs_budget x) -
        int (context_tokens (xe_scale env) (model_messages projection) prompt tools) - 32)) True
        = Inr (selected, dropped)"
    and ref: "ref = projection_ref_of (xe_context env) r (rs_fingerprint (xe_snapshot env)) selected"
    and messages: "messages = attachment_message
        (render_context_attachment selected (cmp_current_summary c) ref) ref # model_messages projection"
    and normal: "assessed_level (xs_budget x) (int (context_tokens (xe_scale env) messages prompt tools))
        = PressureNormal"
    and settled: "settled_messages (messages_after_cursor (mr_messages r) (previous_cursor c))"
  shows "\<exists>y. prepare_context env r x = (Inr \<lparr>pc_system_prompt = prompt, pc_messages = messages,
      pc_tools = tools, pc_projection_ref = py_strip ref\<rparr>, y) \<and> xs_compactor y = c"
proof -
  have z: "xs_budget z = xs_budget x" "xs_compactor z = c" "xs_session_id z = xs_session_id x"
    using refresh_frame [OF fresh] by (simp_all add: set_compactor_def)
  have fit: "int (context_tokens (xe_scale env) messages prompt tools) \<le> effective_tokens (xs_budget x)"
    using normal by (auto simp: assessed_level_def Let_def split: if_splits)
  have small: "\<not> effective_tokens (xs_budget x) < int (context_tokens (xe_scale env) [] prompt tools)"
    using fit context_tokens_grow [of "xe_scale env" prompt tools messages] by linarith
  have "settled_messages (model_messages projection)" by (rule projection_settled [OF refl settled proj])
  then have open_calls: "unsettled_tool_calls messages = []"
    by (simp add: messages attachment_message_def settled_messages_Cons settled_messages_unsettled)
  obtain memory err where rec: "recall_memory env r (xs_state z) = (memory, err)" by fastforce
  define f where "f = \<lparr>pf_tools = tools, pf_system_prompt = prompt, pf_delta = delta, pf_stale = stale,
        pf_memory = memory, pf_memory_error = err,
        pf_raw_tokens = int (context_tokens (xe_scale env) (mr_messages r) prompt tools)\<rparr>"
  let ?p = "\<lparr>pc_system_prompt = prompt, pc_messages = messages, pc_tools = tools,
             pc_projection_ref = py_strip ref\<rparr>"
  obtain report where mat: "materialize env r f projection (model_messages projection) True ''lossless'' z
      = (Inr (?p, report), z)"
    and after: "cr_tokens_after report = int (context_tokens (xe_scale env) messages prompt tools)"
    using items sel unfolding ref [symmetric] messages
    by (simp add: materialize_def Let_def z rec f_def ref [symmetric])
  obtain raw where raw: "assess (xs_budget x) (pf_raw_tokens f)
      (int (message_estimate env (mr_messages r))) = Inr raw"
    using assess_eq [OF wf] by blast
  obtain lossless where l: "assess (xs_budget x) (cr_tokens_after report)
      (int (message_estimate env messages)) = Inr lossless" "cp_level lossless = PressureNormal"
    using assess_eq [OF wf, of "cr_tokens_after report"] normal after by fastforce
  have stages: "\<exists>ps. prepare_stages env r f z = (Inr ([], (?p, report), ps), z)"
    using proj z raw l mat
    by (simp add: prepare_stages_def bindS_def project_def assess_prepared_def)
  then obtain ps where s: "prepare_stages env r f z = (Inr ([], (?p, report), ps), z)" by blast
  have "check_prepared ([], (?p, report), ps) z =
    (Inr ?p, z\<lparr>xs_report := Some (report\<lparr>cr_pressures := ps, cr_thinning_actions := dedup []\<rparr>)\<rparr>)"
    using fit z after open_calls by (simp add: check_prepared_def bindS_def ensure_final_fit_def Let_def)
  moreover have "prepare_context env r x = check_prepared ([], (?p, report), ps) z"
    using own valid small fresh rec s f_def
    by (simp add: prepare_context_def bindS_def validate_conversation_def set_compactor_def Let_def
        prompt [symmetric] tools [symmetric])
  ultimately show ?thesis using z by simp
qed

end
