(* ===== verification/Context_Samples.thy ===== *)
theory Context_Samples
  imports Context_Service_Facts Driver_Samples "HOL-Library.Code_Target_Nat"
begin

text \<open>
  A small session for the witnesses: a conversation that reads a file twice, where the model has
  not seen the second result yet; a service with a budget of some thousand tokens; and a
  summarizer that answers with a short summary.
\<close>

definition sample_id :: "string \<Rightarrow> dict" where
  "sample_id i = [(''session_message_id'', PStr i)]"

definition sample_user :: "string \<Rightarrow> string \<Rightarrow> message" where
  "sample_user i t = UserMessage \<lparr>um_content = Inl t, um_timestamp = 0, um_metadata = sample_id i\<rparr>"

definition sample_asks :: "string \<Rightarrow> string \<Rightarrow> message" where
  "sample_asks i c = AssistantMessage ((sample_message [ToolCallBlock (sample_call c)])\<lparr>am_metadata := sample_id i\<rparr>)"

definition sample_says :: "string \<Rightarrow> string \<Rightarrow> message" where
  "sample_says i t = AssistantMessage ((sample_message [TextBlock t None])\<lparr>am_metadata := sample_id i\<rparr>)"

definition sample_output :: "string \<Rightarrow> string \<Rightarrow> string \<Rightarrow> tool_result_message" where
  "sample_output i c t =
     \<lparr>trm_tool_call_id = c, trm_tool_name = ''bash'', trm_content = [TextBlock t None],
      trm_status = TRSuccess, trm_approved = False, trm_approval_id = None, trm_error_code = None,
      trm_exit_code = None, trm_affected_paths = [], trm_workspace_changed = None,
      trm_diff_summary = None, trm_verification = None, trm_details = PNone,
      trm_timestamp = 0, trm_metadata = sample_id i\<rparr>"

definition sample_read :: "string \<Rightarrow> string \<Rightarrow> tool_result_message" where
  "sample_read i c = (sample_output i c ''x = 1'')\<lparr>trm_tool_name := ''read'',
     trm_details := PDict [(''path'', PStr ''a.py''), (''sha256'', PStr ''d''),
       (''offset'', PInt 1), (''returned_lines'', PInt 1)]\<rparr>"

definition sample_change :: "string \<Rightarrow> string \<Rightarrow> tool_result_message" where
  "sample_change i c = (sample_output i c ''written'')\<lparr>trm_tool_name := ''write'',
     trm_affected_paths := [''a.py''], trm_workspace_changed := Some True\<rparr>"

text \<open>Two reads of the same lines; the second is the unconsumed batch.\<close>

definition sample_reads :: "message list" where
  "sample_reads =
     [sample_user ''m1'' ''g'',
      sample_asks ''m2'' ''c1'', ToolResultMessage (sample_read ''m3'' ''c1''),
      sample_asks ''m4'' ''c2'', ToolResultMessage (sample_read ''m5'' ''c2'')]"

definition sample_talk :: "message list" where
  "sample_talk =
     [sample_user ''m1'' ''the first request of a conversation of which only a summary is kept'',
      sample_says ''m2'' ''the first answer, with all the details that the summary leaves out'',
      sample_user ''m3'' ''go on'', sample_says ''m4'' ''done'',
      sample_user ''m5'' ''next'', sample_says ''m6'' ''ok'']"

definition sample_budget :: budget_manager where
  "sample_budget =
     \<lparr>bm_config = \<lparr>bc_context_window = 9000, bc_max_output_tokens = 1000, bc_safety_margin_tokens = 1000,
        bc_tight_ratio = 7 / 10, bc_critical_ratio = 9 / 10,
        bc_single_evidence_tokens = 400, bc_single_memory_tokens = 200\<rparr>,
      bm_budget = \<lparr>cb_effective_input_tokens = 7000, cb_output_reserve_tokens = 1000,
        cb_safety_margin_tokens = 1000\<rparr>\<rparr>"

definition sample_summary :: compact_summary where
  "sample_summary =
     \<lparr>csum_original_goal = ''g'', csum_user_constraints = [], csum_decisions = [],
      csum_completed_work = [], csum_files_and_symbols = [], csum_important_evidence = [],
      csum_errors_and_resolutions = [], csum_verification_state = [], csum_open_questions = [],
      csum_next_actions = [], csum_source_refs = [''m1'']\<rparr>"

definition sample_digest :: "string \<Rightarrow> string" where
  "sample_digest t = ''d'' @ str_nat (length t) @ ''x''"

lemma sample_digest_strip: "py_strip (sample_digest t) = sample_digest t"
proof -
  have "\<not> py_space CHR ''d''" "\<not> py_space CHR ''x''" by code_simp+
  then show ?thesis by (simp add: sample_digest_def py_strip_def py_lstrip_def)
qed

text \<open>The summarizer names the id of the last message it is given.\<close>

definition sample_summarizer :: "context_summary_request \<Rightarrow> context_summary_result option result" where
  "sample_summarizer request = Inr (Some
     \<lparr>sres_summary = sample_summary,
      sres_compacted_until_message_id = the (session_message_id (last (sreq_messages request)))\<rparr>)"

fun sample_repr :: "message \<Rightarrow> string" where
  "sample_repr (UserMessage u) = (case um_content u of Inl t \<Rightarrow> t | Inr blocks \<Rightarrow> ''image'')"
| "sample_repr (AssistantMessage a) = (case am_content a of [TextBlock t g] \<Rightarrow> t | _ \<Rightarrow> ''call'')"
| "sample_repr (ToolResultMessage r) = tool_text r"

definition sample_compact_env :: compact_env where
  "sample_compact_env =
     \<lparr>cpe_sha256 = sample_digest, cpe_repr = sample_repr, cpe_hex = ''h'', cpe_write_error = None,
      cpe_summarizer = Some sample_summarizer\<rparr>"

definition sample_context_env :: context_env where
  "sample_context_env = \<lparr>cenv_sha256 = sample_digest, cenv_clock = int\<rparr>"

definition sample_service_env :: service_env where
  "sample_service_env =
     \<lparr>xe_context = sample_context_env, xe_compact = sample_compact_env,
      xe_file_state = (\<lambda>p. Inr [(''exists'', PBool True), (''sha256'', PStr ''d'')]),
      xe_snapshot = \<lparr>rs_workspace_root = ''/w'', rs_project_type = None, rs_manifest_files = [],
        rs_top_level_entries = [], rs_test_directories = [], rs_instruction_files = [],
        rs_branch = None, rs_head_sha = None, rs_git_status = [], rs_fingerprint = ''f'',
        rs_instruction_hashes = [], rs_dirty_path_hashes = []\<rparr>,
      xe_recall = None, xe_scale = no_correction, xe_control_notice = ''notice''\<rparr>"

definition sample_view :: core_context_view where
  "sample_view =
     (case core_context_view_from_state building ModeBuild of Inr v \<Rightarrow> v | Inl e \<Rightarrow> undefined)"

definition sample_request :: context_request where
  "sample_request =
     \<lparr>mr_purpose = ContextReasoning, mr_directive = Some ''go'', mr_session_id = ''s'',
      mr_run_id = ''r'', mr_messages = sample_reads, mr_view = sample_view, mr_catalog = None,
      mr_seed = [(''system_prompt'', PStr ''be careful'')], cr_tools = None\<rparr>"

definition sample_service :: context_service where
  "sample_service =
     \<lparr>xs_session_id = ''s'', xs_state = context_state_new, xs_budget = sample_budget,
      xs_compactor = no_compaction, xs_files = [], xs_archive = [], xs_report = None\<rparr>"

section \<open>Evaluation\<close>

text \<open>A character has a code below 256, so none is a CJK character.\<close>

lemma is_cjk_code [code]: "is_cjk c = False"
proof -
  have "(of_char c :: nat) < 256" by (rule nat_of_char_less_256)
  then have "\<not> 0x4E00 \<le> (of_char c :: nat)" by linarith
  then show ?thesis by (simp add: is_cjk_def)
qed

lemma py_startswith_code [code]:
  "py_startswith s [] = True"
  "py_startswith [] (c # p) = False"
  "py_startswith (d # s) (c # p) = (d = c \<and> py_startswith s p)"
  by (auto simp: py_startswith_def)

text \<open>No text has more tokens than characters.\<close>

lemma estimate_by_kind_le: "kind \<noteq> ImageType \<Longrightarrow> estimate_by_kind s kind \<le> length s"
proof (cases "s = []")
  case False
  assume k: "kind \<noteq> ImageType"
  define d where "d = denominator_tenths kind"
  have d: "10 \<le> d" unfolding d_def by (cases kind) simp_all
  then have "length s * 10 \<le> length s * d" by (rule mult_le_mono2)
  with d have "10 * length s + d - 1 < (length s + 1) * d"
    by (simp only: add_mult_distrib mult_1 mult.commute [of 10])
  then have "ceil_div (10 * length s) (denominator_tenths kind) \<le> length s"
    using d unfolding ceil_div_def d_def by (simp add: div_less_iff_less_mult less_Suc_eq_le [symmetric])
  with False k show ?thesis by (cases s) (auto simp: estimate_by_kind_def)
qed (auto simp: estimate_by_kind_def)

lemma text_estimate_le:
  "given \<noteq> Some ImageType \<Longrightarrow> estimate_total (estimate_text_tokens no_correction given s) \<le> length s"
proof -
  assume g: "given \<noteq> Some ImageType"
  let ?kind = "case given of Some k \<Rightarrow> k | None \<Rightarrow> classify_content_type s"
  have "?kind \<noteq> ImageType"
    using g by (auto simp: classify_content_type_def Let_def split: option.splits)
  then have "estimate_by_kind s ?kind \<le> length s" by (rule estimate_by_kind_le)
  then show ?thesis
    by (cases "s = []") (simp_all add: estimate_text_tokens_def Let_def no_correction_def Suc_le_eq)
qed

lemma attachment_tokens_le:
  "message_tokens no_correction (attachment_message content ref) \<le> 4 + length content"
  using text_estimate_le [of None content]
  by (simp add: message_tokens_def attachment_message_def Let_def no_correction_def)

text \<open>A check, without the estimate of the attachment, that a preparation with no summary returns.\<close>

definition fits_easily :: "service_env \<Rightarrow> context_request \<Rightarrow> context_service \<Rightarrow> bool" where
  "fits_easily env r x =
     (case refresh_working_set env (mr_messages r) (set_compactor no_compaction x) of
        (Inl e, z) \<Rightarrow> False
      | (Inr (delta, stale), z) \<Rightarrow>
          (let prompt = compiled_system_prompt (xe_control_notice env) (mr_seed r) (mr_directive r);
               budget = xs_budget x
           in case (build_projection (xs_state z) (mr_messages r) None,
                    materialize_context_items r (xs_state z) (fst (recall_memory env r (xs_state z)))
                      (xe_snapshot env) delta (bm_config budget)) of
                (Inr projection, Inr items) \<Rightarrow>
                  (let base = context_tokens no_correction (model_messages projection) prompt [];
                       available = max 0 (effective_tokens budget - int base - 32)
                   in case select_for budget items available True of
                        Inl e \<Rightarrow> False
                      | Inr (selected, dropped) \<Rightarrow>
                          (let ref = projection_ref_of (xe_context env) r (rs_fingerprint (xe_snapshot env)) selected
                           in assessed_level budget (int (base + 4 +
                                length (render_context_attachment selected None ref))) = PressureNormal))
              | _ \<Rightarrow> False))"

lemma fits_easily_prepares:
  assumes "fits_easily env r x" and "mr_session_id r = xs_session_id x"
    and "validate_messages (xe_compact env) (xs_compactor x) (mr_messages r) = (no_compaction, Inr b)"
    and "wf_budget_manager (xs_budget x)" and "xe_scale env = no_correction" and "cr_tools r = None"
  shows "\<exists>p y. prepare_context env r x = (Inr p, y) \<and> xs_compactor y = no_compaction"
proof -
  let ?prompt = "compiled_system_prompt (xe_control_notice env) (mr_seed r) (mr_directive r)"
  let ?base = "\<lambda>projection. context_tokens no_correction (model_messages projection) ?prompt []"
  let ?ref = "\<lambda>selected. projection_ref_of (xe_context env) r (rs_fingerprint (xe_snapshot env)) selected"
  obtain delta stale z projection items selected dropped where
    z: "refresh_working_set env (mr_messages r) (set_compactor no_compaction x) = (Inr (delta, stale), z)" and
    p: "build_projection (xs_state z) (mr_messages r) None = Inr projection" and
    i: "materialize_context_items r (xs_state z) (fst (recall_memory env r (xs_state z)))
          (xe_snapshot env) delta (bm_config (xs_budget x)) = Inr items" and
    s: "select_for (xs_budget x) items (max 0 (effective_tokens (xs_budget x) - int (?base projection) - 32)) True
          = Inr (selected, dropped)" and
    n: "assessed_level (xs_budget x) (int (?base projection + 4 +
          length (render_context_attachment selected None (?ref selected)))) = PressureNormal"
    using assms(1) unfolding fits_easily_def Let_def
    by (clarsimp simp only: prod.case split: prod.split_asm sum.split_asm)
  define ref where "ref = ?ref selected"
  let ?attachment = "attachment_message (render_context_attachment selected None ref) ref"
  have "context_tokens no_correction (?attachment # model_messages projection) ?prompt []
      = message_tokens no_correction ?attachment + ?base projection" by (simp add: context_tokens_sum)
  with attachment_tokens_le [of "render_context_attachment selected None ref" ref] have
    "int (context_tokens no_correction (?attachment # model_messages projection) ?prompt [])
      \<le> int (?base projection + 4 + length (render_context_attachment selected None ref))" by simp
  from assessed_level_mono [OF this, of "xs_budget x"] n [folded ref_def] have normal: "assessed_level (xs_budget x)
      (int (context_tokens no_correction (?attachment # model_messages projection) ?prompt [])) = PressureNormal"
    by (simp add: pressure_rank_def split: pressure_level.splits)
  have "settled_messages (mr_messages r)"
    using assms(3) validate_groups_settled [of "mr_messages r"]
    by (auto simp: validate_messages_def split: sum.splits)
  then have st: "settled_messages (messages_after_cursor (mr_messages r) (previous_cursor no_compaction))"
    by (simp add: no_compaction_def previous_cursor_def messages_after_cursor_def truthy_def)
  have t: "tools_from_request r = []" using assms(6) by (simp add: tools_from_request_def)
  have c: "previous_cursor no_compaction = None" "cmp_current_summary no_compaction = None"
    by (simp_all add: no_compaction_def previous_cursor_def)
  show ?thesis
    using lossless_run [OF assms(2,3,4) z p [folded c(1)] i refl t [symmetric], unfolded assms(5),
        OF s ref_def refl _ st] normal c(2) by simp blast
qed

section \<open>The sample session\<close>

lemma sample_valid:
  "validate_messages sample_compact_env no_compaction sample_reads = (no_compaction, Inr True)"
  by code_simp

lemma sample_budget_wf: "wf_budget_manager sample_budget"
  by code_simp

lemma sample_fits: "fits_easily sample_service_env sample_request sample_service"
  by code_simp

lemma sample_prepares:
  "\<exists>p y. prepare_context sample_service_env sample_request sample_service = (Inr p, y)"
proof -
  have "validate_messages (xe_compact sample_service_env) (xs_compactor sample_service)
      (mr_messages sample_request) = (no_compaction, Inr True)"
    by (simp add: sample_service_env_def sample_service_def sample_request_def sample_valid)
  moreover have "mr_session_id sample_request = xs_session_id sample_service"
    "wf_budget_manager (xs_budget sample_service)" "cr_tools sample_request = None"
    by (simp_all add: sample_service_def sample_request_def sample_budget_wf)
  moreover have "xe_scale sample_service_env = no_correction" by (simp add: sample_service_env_def)
  ultimately have "\<exists>p y. prepare_context sample_service_env sample_request sample_service = (Inr p, y) \<and>
      xs_compactor y = no_compaction"
    using fits_easily_prepares [OF sample_fits] by blast
  then show ?thesis by blast
qed

lemma sample_summarizer_ok: "summarizer_ok sample_compact_env"
proof -
  have w: "wf_compact_summary sample_summary" by code_simp
  have "sres_summary res = sample_summary"
    if f: "cpe_summarizer sample_compact_env = Some f" and a: "f req = Inr (Some res)" for f req res
  proof -
    have "f = sample_summarizer" using f by (simp add: sample_compact_env_def)
    with a show ?thesis by (auto simp: sample_summarizer_def)
  qed
  with w show ?thesis unfolding summarizer_ok_def by metis
qed

lemma sample_service_wf: "wf_service sample_service"
  by (simp add: wf_service_def sample_service_def wf_context_state_new wf_no_compaction)

text \<open>The conversation is cut after its fifth message.\<close>

definition sample_compaction :: "compactor \<times> snapshot_files \<times> compact_snapshot_ref result" where
  "sample_compaction = compact sample_compact_env no_compaction ''r'' sample_talk ''g'' (Some 2) []"

definition compacted_service :: context_service where
  "compacted_service = sample_service\<lparr>xs_compactor := fst sample_compaction,
     xs_files := fst (snd sample_compaction)\<rparr>"

lemma sample_cut:
  "case sample_compaction of
     (c, files, Inr snapshot) \<Rightarrow> previous_cursor c = Some ''m5'' \<and> cmp_current_snapshot c = Some snapshot
   | _ \<Rightarrow> False"
  by code_simp

lemma compacted_service_wf: "wf_service compacted_service"
proof -
  obtain c files r where c: "sample_compaction = (c, files, r)" by (cases sample_compaction)
  note run = c [unfolded sample_compaction_def]
  have "wf_compactor c" by (rule compact_wf [OF wf_no_compaction(1) sample_summarizer_ok run])
  moreover have "stored files c" by (rule compact_stored [OF wf_no_compaction(2) sample_summarizer_ok run])
  ultimately show ?thesis
    by (simp add: wf_service_def compacted_service_def sample_service_def wf_context_state_new c)
qed

definition sample_item :: "string \<Rightarrow> retention_class \<Rightarrow> int \<Rightarrow> context_item" where
  "sample_item i retention tokens =
     \<lparr>ci_item_id = i, ci_layer = L1, ci_retention = retention, ci_content = ''t'',
      ci_source = \<lparr>csr_kind = ''s'', csr_ref = ''i''\<rparr>, ci_estimated_tokens = tokens,
      ci_relevance = 0, ci_freshness = ''fresh'', ci_recency = 0\<rparr>"

text \<open>An old batch with a long output, a new batch, and an archive that starts empty.\<close>

definition old_output :: tool_result_message where
  "old_output = sample_output ''m2'' ''c1'' (replicate 60 CHR ''x'')"

definition new_output :: tool_result_message where
  "new_output = sample_output ''m5'' ''c2'' ''new''"

definition sample_outputs :: "message list" where
  "sample_outputs =
     [sample_asks ''m1'' ''c1'', ToolResultMessage old_output,
      sample_says ''m3'' ''ok'',
      sample_asks ''m4'' ''c2'', ToolResultMessage new_output]"

text \<open>Only the overhead of the messages, which thinning cannot lower: everything that may be thinned
  is.\<close>

definition sample_estimate :: "message list \<Rightarrow> nat" where
  "sample_estimate ms = 4 * length ms"

definition sample_thinning :: thinning where
  "sample_thinning = thin sample_context_env context_state_new ''r'' 5 sample_estimate 5 sample_outputs []"

abbreviation sample_te :: thin_env where
  "sample_te \<equiv> te_of sample_context_env context_state_new ''r'' 5 sample_estimate 5 sample_outputs"

lemma sample_outputs_results: "ToolResultMessage r \<in> set sample_outputs \<Longrightarrow> r \<in> {old_output, new_output}"
  by (auto simp: sample_outputs_def sample_asks_def sample_says_def)

lemma sample_paths: "te_path sample_te old_output \<noteq> te_path sample_te new_output"
proof -
  have "archive_path sample_context_env ''r'' old_output (tool_text old_output) \<noteq>
      archive_path sample_context_env ''r'' new_output (tool_text new_output)" by code_simp
  then show ?thesis by (simp add: te_path_def te_of_def thin_env_of_def)
qed

lemma sample_thinning_no_clash: "no_clash sample_te sample_outputs []"
  unfolding no_clash_def
proof (intro allI impI conjI)
  fix r assume r: "ToolResultMessage r \<in> set sample_outputs"
  show "map_of [] (te_path sample_te r) \<in> {None, Some (tool_text r)}" by simp
  fix q assume q: "ToolResultMessage q \<in> set sample_outputs" "te_path sample_te q = te_path sample_te r"
  with sample_outputs_results [OF r] sample_outputs_results [OF q(1)] sample_paths
  show "tool_text q = tool_text r" by auto
qed

lemma sample_thinning_thins:
  "settled_messages sample_outputs \<and> length (th_actions sample_thinning) = 1"
proof
  have "\<not> isl (validate_message_groups (message_groups sample_outputs))" by code_simp
  then show "settled_messages sample_outputs"
    using validate_groups_settled [of sample_outputs]
    by (cases "validate_message_groups (message_groups sample_outputs)") auto
  show "length (th_actions sample_thinning) = 1" by code_simp
qed

end
