(* ===== verification/Context_Properties.thy ===== *)
theory Context_Properties
  imports Context_Samples
begin

text \<open>
  The properties of the context of one model call: what a preparation returns and keeps, how the
  items are selected, what the projection, the thinning and the compaction may hide, and how the
  working set follows the conversation. Each property is followed by its witness.
\<close>

section \<open>Preparation\<close>

lemma prepared_parts:
  assumes "prepare_context env r x = (Inr p, y)"
    and "validate_messages (xe_compact env) (xs_compactor x) (mr_messages r) = (c, ok)"
  shows "\<exists>f report. settled_messages (mr_messages r) \<and> prepared_ok env r (xs_compactor y) f (p, report) \<and>
     cr_tokens_after report \<le> effective_tokens (xs_budget x) \<and>
     (xs_compactor y = c \<or>
      (\<exists>keep files files' snap. compact (xe_compact env) c (mr_run_id r) (mr_messages r)
         (cv_goal (mr_view r)) keep files = (xs_compactor y, files', Inr snap)))"
proof -
  from assms(1) obtain b where v: "validate_conversation env (mr_messages r) x = (Inr (), b)"
    by (auto simp: prepare_context_def bindS_Inr split: if_splits)
  with assms(2) have b: "b = set_compactor c x" and ok: "\<exists>u. ok = Inr u"
    by (auto simp: validate_conversation_def split: sum.splits)
  have st: "settled_messages (mr_messages r)"
    using assms(2) ok validate_groups_settled [of "mr_messages r"]
    by (auto simp: validate_messages_def split: sum.splits)
  from assms(1) v obtain w z f res d where
    w: "refresh_working_set env (mr_messages r) b = (Inr w, z)" and
    s: "prepare_stages env r f z = (Inr res, d)" and
    k: "check_prepared res d = (Inr p, y)"
    by (auto simp: prepare_context_def bindS_Inr Let_def case_prod_beta split: if_splits)
  obtain actions pr pressures where res: "res = (actions, pr, pressures)" by (cases res) auto
  have z: "xs_budget z = xs_budget x \<and> xs_compactor z = c"
    using w b by (auto simp: refresh_working_set_def bindS_Inr update_state_def set_compactor_def
        split: prod.splits)
  from k have y: "fst pr = p" "xs_compactor y = xs_compactor d"
    "cr_tokens_after (snd pr) \<le> effective_tokens (xs_budget d)"
    by (auto simp: res check_prepared_def bindS_Inr ensure_final_fit_def Let_def
        split: prod.splits if_splits)
  note stages = prepare_stages_Inr [OF s [unfolded res]]
  have "prepared_ok env r (xs_compactor y) f (p, snd pr)" using stages y(1,2) by (metis prod.collapse)
  with stages z y st show ?thesis by metis
qed

text \<open>Property C32. A prepared context fits: its estimate is within the budget. Its messages are a
  conversation a provider accepts, in which every tool call stands with its results, and the
  results the model has not seen yet are there in full, whatever was projected, thinned or
  compacted. The conversation after an earlier snapshot has to be one, which it is when there is
  no earlier snapshot.\<close>

theorem prepared_context_is_safe:
  assumes "prepare_context env r x = (Inr p, y)"
    and "validate_messages (xe_compact env) (xs_compactor x) (mr_messages r) = (c, ok)"
    and "distinct (message_ids (mr_messages r))"
    and "cmp_current_snapshot c = None \<or>
      settled_messages (messages_after_cursor (mr_messages r) (previous_cursor c))"
  shows "int (context_tokens (xe_scale env) (pc_messages p) (pc_system_prompt p) (pc_tools p))
      \<le> effective_tokens (xs_budget x) \<and>
    settled_messages (pc_messages p) \<and>
    (\<forall>q \<in> set (unconsumed_results (messages_after_cursor (mr_messages r) (previous_cursor c))).
       \<exists>e. with_freshness_warning q e \<in> set (pc_messages p))"
proof -
  let ?visible = "messages_after_cursor (mr_messages r) (previous_cursor c)"
  obtain f report where st: "settled_messages (mr_messages r)"
    and ok: "prepared_ok env r (xs_compactor y) f (p, report)"
    and fit: "cr_tokens_after report \<le> effective_tokens (xs_budget x)"
    and cut: "xs_compactor y = c \<or>
      (\<exists>keep files files' snap. compact (xe_compact env) c (mr_run_id r) (mr_messages r)
         (cv_goal (mr_view r)) keep files = (xs_compactor y, files', Inr snap))"
    using prepared_parts [OF assms(1,2)] by blast
  have sv: "settled_messages ?visible"
    using assms(4) st by (auto simp: previous_cursor_def messages_after_cursor_def truthy_def)
  have rest: "settled_messages (messages_after_cursor (mr_messages r) (previous_cursor (xs_compactor y)))"
    "unconsumed_results (messages_after_cursor (mr_messages r) (previous_cursor (xs_compactor y)))
       = unconsumed_results ?visible"
    using cut sv compacted_visible [OF _ assms(3) sv] by blast+
  obtain content ref base where m: "pc_messages p = attachment_message content ref # base"
    "shown_from env r (xs_compactor y) base" using ok by (auto simp: prepared_ok_def)
  note base = shown_from_keeps [OF m(2) refl rest(1)]
  have "settled_messages (pc_messages p)"
    using base by (simp add: m(1) attachment_message_def settled_messages_Cons)
  moreover have "int (context_tokens (xe_scale env) (pc_messages p) (pc_system_prompt p) (pc_tools p))
      \<le> effective_tokens (xs_budget x)"
    using ok fit by (simp add: prepared_ok_def)
  moreover have "set base \<subseteq> set (pc_messages p)" by (auto simp: m(1))
  ultimately show ?thesis using base unfolding rest(2) by blast
qed

theorem prepared_context_is_safe_witness:
  "\<exists>p y. prepare_context sample_service_env sample_request sample_service = (Inr p, y) \<and>
     settled_messages (pc_messages p) \<and>
     (\<exists>e. with_freshness_warning (sample_read ''m5'' ''c2'') e \<in> set (pc_messages p))"
proof -
  obtain p y where run: "prepare_context sample_service_env sample_request sample_service = (Inr p, y)"
    using sample_prepares by blast
  have v: "validate_messages (xe_compact sample_service_env) (xs_compactor sample_service)
      (mr_messages sample_request) = (no_compaction, Inr True)"
    by (simp add: sample_service_env_def sample_service_def sample_request_def sample_valid)
  have d: "distinct (message_ids (mr_messages sample_request))" by code_simp
  have q: "sample_read ''m5'' ''c2'' \<in> set (unconsumed_results
      (messages_after_cursor (mr_messages sample_request) (previous_cursor no_compaction)))"
    by code_simp
  have n: "cmp_current_snapshot no_compaction = None" by (simp add: no_compaction_def)
  from prepared_context_is_safe [OF run v d disjI1 [OF n]] q run show ?thesis by blast
qed

text \<open>Property C33. Every preparation, refused or not, keeps the service well formed: both tables of the
  working set within their bounds with keys that name what they hold, and the stored snapshot
  the one the compactor refers to. It keeps the session and the budget, and no archived output is
  lost or changed.\<close>

theorem preparation_keeps_the_service:
  assumes "summarizer_ok (xe_compact env)" and "wf_service x"
    and "prepare_context env r x = (res, y)"
  shows "wf_service y \<and> xs_session_id y = xs_session_id x \<and> xs_budget y = xs_budget x \<and>
    archive_grows (xs_archive x) (xs_archive y)"
  using keepsD [OF keeps_prepare [OF assms(1)] assms(3)] assms(2) by (simp add: service_kept_def)

theorem preparation_keeps_the_service_witness:
  "wf_service (snd (prepare_context sample_service_env sample_request sample_service))"
proof -
  obtain res y where run: "prepare_context sample_service_env sample_request sample_service = (res, y)"
    by (cases "prepare_context sample_service_env sample_request sample_service")
  have ok: "summarizer_ok (xe_compact sample_service_env)"
    by (simp add: sample_service_env_def sample_summarizer_ok)
  from preparation_keeps_the_service [OF ok sample_service_wf run] run show ?thesis by simp
qed

text \<open>Property C38. The checkpoint of a well-formed service, restored over the same files into any
  service, brings back its compactor: the snapshot and the summary.\<close>

theorem checkpoint_brings_back_the_summary:
  assumes "wf_service x" and "xs_files z = xs_files x"
  shows "service_restore (PDict (service_checkpoint x)) z = (Inr (), set_compactor (xs_compactor x) z)"
  using assms restore_checkpoint [of "xs_compactor x" "xs_files x"]
  by (simp add: service_restore_def service_checkpoint_def wf_service_def)

theorem checkpoint_brings_back_the_summary_witness:
  "service_restore (PDict (service_checkpoint compacted_service))
     (sample_service\<lparr>xs_files := xs_files compacted_service\<rparr>) =
   (Inr (), sample_service\<lparr>xs_files := xs_files compacted_service,
      xs_compactor := xs_compactor compacted_service\<rparr>)"
  by (simp add: checkpoint_brings_back_the_summary [OF compacted_service_wf] set_compactor_def)

section \<open>Selection\<close>

text \<open>Property C37. The selection of items, for all items with token counts that are not negative.
  If it raises, the error names a required item, and the required items do not fit in the tokens
  available. Otherwise it splits the items in two, stays within the tokens and within the share
  of the memory layer L3, and leaves out only what would no longer fit one of them; a required
  item is left out only if it is of L3 and over that share, which the source checks first, so the
  required items of the other layers are all selected. Where no required item is of L3, as in the
  items that the layers build, it raises exactly when the required items do not fit.\<close>

theorem selection_fills_the_budget:
  assumes "0 \<le> available" and "0 \<le> effective_tokens m"
    and "\<forall>i \<in> set items. 0 \<le> ci_estimated_tokens i"
  shows "(case select_items m items available of
      Inl e \<Rightarrow>
        available < item_tokens (filter (\<lambda>i. ci_retention i = Required) items) \<and>
        (\<exists>i \<in> set items. ci_retention i = Required \<and>
           e = ContextBudgetExceededError (''required Context item exceeds budget: '' @ ci_item_id i))
    | Inr (selected, dropped) \<Rightarrow>
        item_tokens (filter (\<lambda>i. ci_retention i = Required \<and> ci_layer i \<noteq> L3) items) \<le> available \<and>
        mset items = mset selected + mset dropped \<and>
        item_tokens selected \<le> available \<and> memory_tokens selected \<le> l3_limit m \<and>
        (\<forall>d \<in> set dropped.
           (ci_layer d = L3 \<and> l3_limit m < memory_tokens selected + ci_estimated_tokens d) \<or>
           (ci_retention d \<noteq> Required \<and> available < item_tokens selected + ci_estimated_tokens d))) \<and>
    ((\<forall>i \<in> set items. ci_retention i = Required \<longrightarrow> ci_layer i \<noteq> L3) \<longrightarrow>
       ((\<exists>e. select_items m items available = Inl e) \<longleftrightarrow>
        available < item_tokens (filter (\<lambda>i. ci_retention i = Required) items)))"
proof (rule conjI, goal_cases)
  case 1
  show ?case
  proof (cases "select_items m items available")
    case (Inl e)
    with select_items_raised [OF assms(3) Inl] show ?thesis by (simp only: sum.case)
  next
    case (Inr parts)
    then obtain sel drp where p: "select_items m items available = Inr (sel, drp)" by (cases parts) auto
    note facts = select_items_selected [OF assms p]
    show ?thesis
      unfolding p sum.case prod.case
      by (intro conjI ballI facts(1-4)) (use facts(5,6) in blast)
  qed
next
  case 2
  show ?case using select_items_raises_iff [OF assms] by blast
qed
theorem selection_fills_the_budget_witness:
  "item_tokens (fst (projr (select_items sample_budget
     [sample_item ''a'' Budgeted 5, sample_item ''b'' Required 4, sample_item ''c'' Protected 3] 9))) \<le> 9"
proof -
  let ?items = "[sample_item ''a'' Budgeted 5, sample_item ''b'' Required 4, sample_item ''c'' Protected 3]"
  have r: "\<forall>i \<in> set ?items. 0 \<le> ci_estimated_tokens i"
    by (simp add: sample_item_def)
  have e: "(0::int) \<le> 9" "0 \<le> effective_tokens sample_budget" by (simp_all add: sample_budget_def)
  have "\<not> isl (select_items sample_budget ?items 9)" by code_simp
  then obtain sel drp where "select_items sample_budget ?items 9 = Inr (sel, drp)"
    by (cases "select_items sample_budget ?items 9") auto
  with selection_fills_the_budget [OF e r] show ?thesis by simp
qed

section \<open>What the model is shown\<close>

text \<open>Property C34. The projection of a settled conversation is settled, and a read it does not show in
  full, because it got a marker or its batch was left out, is shown in full elsewhere: some result
  of the conversation with the same path, digest and lines is shown as it is, with at most a
  warning about its freshness.\<close>

theorem hidden_reads_are_shown:
  assumes "visible = messages_after_cursor ms cursor" and "settled_messages visible"
    and "build_projection s ms cursor = Inr plan"
  shows "settled_messages (model_messages plan) \<and>
    (\<forall>p \<in> set plan. \<forall>r. pm_message p = ToolResultMessage r \<longrightarrow> pm_action p \<notin> {KeepFull, DiscardOrphan} \<longrightarrow>
       (\<exists>q \<in> set plan. \<exists>r' e. pm_action q = KeepFull \<and> pm_message q = with_freshness_warning r' e \<and>
          ToolResultMessage r' \<in> set visible \<and> read_key_of r \<noteq> None \<and> read_key_of r' = read_key_of r))"
  using projection_settled [OF assms] hidden_read_is_shown [OF assms] by simp

text \<open>In the sample the first read, a batch of its own, is left out.\<close>

theorem hidden_reads_are_shown_witness:
  "settled_messages (model_messages (projr (build_projection context_state_new sample_reads None))) \<and>
   length (model_messages (projr (build_projection context_state_new sample_reads None))) = 3"
proof -
  have "\<not> isl (build_projection context_state_new sample_reads None)" by code_simp
  then obtain plan where plan: "build_projection context_state_new sample_reads None = Inr plan"
    by (cases "build_projection context_state_new sample_reads None") auto
  have s: "settled_messages (messages_after_cursor sample_reads None)"
    using sample_valid validate_groups_settled [of sample_reads]
    by (auto simp: validate_messages_def messages_after_cursor_def truthy_def split: sum.splits)
  have "length (model_messages (projr (build_projection context_state_new sample_reads None))) = 3"
    by code_simp
  with hidden_reads_are_shown [OF refl s plan] plan show ?thesis by simp
qed

text \<open>Property C35. Thinning changes nothing but results that may be thinned: no result of the
  unconsumed batch, none of the recent calls, only with a reason. The full text of each is in the
  archive under the path its excerpt names, no archived text is lost, and the conversation stays
  settled. If the target is missed, everything that may be thinned is. The archive must not hold
  another text under the path of an output, which is named by its call and its digest.\<close>

theorem thinning_is_recoverable:
  assumes "no_clash (te_of env s run_id target estimate recent messages) messages files"
  shows "let te = te_of env s run_id target estimate recent messages;
             t = thin env s run_id target estimate recent messages files;
             numbered = indexed_messages (message_groups messages)
    in list_all2 (\<lambda>im n. n = snd im \<or> (thinned_as te im n \<and> archived te (th_archive t) (snd im)))
         numbered (th_messages t) \<and>
       archive_grows files (th_archive t) \<and>
       (settled_messages messages \<longrightarrow> settled_messages (th_messages t)) \<and>
       (estimate (th_messages t) \<le> target \<or>
        list_all2 (\<lambda>im n. thinned_as te im n \<or> (n = snd im \<and> thinnable te (fst im) (snd im) = None))
          numbered (th_messages t))"
proof -
  let ?te = "te_of env s run_id target estimate recent messages"
  let ?t = "thin env s run_id target estimate recent messages files"
  let ?num = "indexed_messages (message_groups messages)"
  have grows: "archive_grows files (th_archive ?t)"
    by (auto simp: archive_grows_def thin_def Let_def thin_loop_archive)
  have "estimate (th_messages ?t) \<le> target \<or>
        list_all2 (\<lambda>im n. thinned_as ?te im n \<or> (n = snd im \<and> thinnable ?te (fst im) (snd im) = None))
          ?num (th_messages ?t)"
  proof (cases "estimate messages \<le> target")
    case True
    then show ?thesis by (simp add: thin_def)
  next
    case False
    then have t: "?t = thin_loop ?te [] ?num [] files" by (simp add: thin_def te_of_def Let_def)
    have e: "te_estimate ?te = estimate" "te_target ?te = target"
      by (simp_all add: te_of_def thin_env_of_def)
    show ?thesis
    proof (cases "?num = []")
      case True
      then show ?thesis unfolding t by simp
    next
      case False
      have "te_target ?te < te_estimate ?te ([] @ map snd ?num)"
        using \<open>\<not> estimate messages \<le> target\<close> by (simp add: e concat_message_groups)
      from thin_loop_exhaustive [OF False this, of "[]" files] show ?thesis unfolding t e by simp
    qed
  qed
  with thin_relation [OF assms] grows settled_messages_same [OF _ thin_same] show ?thesis
    by (simp add: Let_def)
qed

theorem thinning_is_recoverable_witness:
  "length (th_actions sample_thinning) = 1 \<and> settled_messages (th_messages sample_thinning)"
  using thinning_is_recoverable [OF sample_thinning_no_clash] sample_thinning_thins
  by (simp add: Let_def sample_thinning_def)

text \<open>Property C39. The lines of a read are covered by newer reads exactly when each of them is in
  one of those: the sweep over the sorted ranges decides what it says. That the read must also be
  without evidence, out of date or of another version of the file before it is thinned is a
  condition of \<open>covered_read_calls\<close>, and not of the sweep.\<close>

theorem covered_reads_are_covered:
  assumes "fst target \<le> snd target"
  shows "range_covered target ranges \<longleftrightarrow>
    (\<forall>l. fst target \<le> l \<and> l \<le> snd target \<longrightarrow> (\<exists>(a, b) \<in> set ranges. a \<le> l \<and> l \<le> b))"
  using range_covered_lines [OF assms] by (simp add: line_in_def case_prod_beta)

theorem covered_reads_are_covered_witness:
  "range_covered (2, 9) [(6, 12), (1, 5)] \<and> \<not> range_covered (2, 9) [(7, 12), (1, 5)]"
proof
  show "range_covered (2, 9) [(6, 12), (1, 5)]"
    by (subst covered_reads_are_covered) auto
  show "\<not> range_covered (2, 9) [(7, 12), (1, 5)]"
    by (subst covered_reads_are_covered) (auto intro: exI [of _ 6])
qed

section \<open>Compaction\<close>

text \<open>Property C36. A compaction that does not succeed changes neither the compactor nor the files.
  One that makes a new snapshot stores it with its summary, and cuts the conversation after the
  old cursor between two groups: something is left, it is settled, and the batch the model has not
  seen is not cut away. The snapshot stays valid however the conversation goes on. The ids of the
  messages are distinct, and the digest is a text without blanks at its ends.\<close>

theorem compaction_cuts_a_prefix:
  assumes "compact env c run_id messages goal keep files = (c', files', res)"
    and "distinct (message_ids messages)" and "\<And>t. py_strip (cpe_sha256 env t) = cpe_sha256 env t"
  shows "(c' = c \<and> files' = files \<and>
      (case cmp_current_snapshot c of Some s \<Rightarrow> res = Inr s
       | None \<Rightarrow> (\<exists>message. res = Inl (ContextCompactionError message)))) \<or>
    (\<exists>snapshot summary n.
       res = Inr snapshot \<and>
       c' = \<lparr>cmp_current_snapshot = Some snapshot, cmp_current_summary = Some summary\<rparr> \<and>
       map_of files' (as_posix (csn_path snapshot)) = Some (Some (snapshot_payload snapshot summary)) \<and>
       (let old = message_groups (messages_after_cursor messages (previous_cursor c));
            rest = messages_after_cursor messages (previous_cursor c')
        in 0 < n \<and> n < length old \<and> message_groups rest = drop n old \<and> settled_messages rest \<and>
           (\<forall>i. latest_unconsumed_tool_batch old = Some i \<longrightarrow> n \<le> i)) \<and>
       (\<forall>newer. settled_messages (messages @ newer) \<longrightarrow>
          validate_messages env c' (messages @ newer) = (c', Inr True)))"
  using assms(1)
proof (cases rule: compact_cases)
  case (Fresh snapshot summary)
  have p: "previous_cursor c' = Some (csn_compacted_until_message_id snapshot)"
    by (simp add: Fresh(2) previous_cursor_def)
  from compaction_cuts_between_groups [OF Fresh(1) assms(2)] obtain n where n: "0 < n"
    "n < length (message_groups (messages_after_cursor messages (previous_cursor c)))"
    "message_groups (messages_after_cursor messages (previous_cursor c'))
       = drop n (message_groups (messages_after_cursor messages (previous_cursor c)))"
    "settled_messages (messages_after_cursor messages (previous_cursor c'))"
    "\<forall>i. latest_unconsumed_tool_batch (message_groups (messages_after_cursor messages
         (previous_cursor c))) = Some i \<longrightarrow> n \<le> i"
    unfolding p by blast
  from compact_body_parts [OF Fresh(1)]
  have f: "map_of files' (as_posix (csn_path snapshot)) = Some (Some (snapshot_payload snapshot summary))"
    by (auto simp: write_snapshot_def update_conv' split: option.splits)
  have v: "\<forall>newer. settled_messages (messages @ newer) \<longrightarrow>
          validate_messages env c' (messages @ newer) = (c', Inr True)"
    using snapshot_stays_valid [OF Fresh(1) assms(3), of _ c'] by (simp add: Fresh(2))
  show ?thesis
    by (intro disjI2 exI [of _ snapshot] exI [of _ summary] exI [of _ n])
       (use n f v Fresh(2,3) in \<open>simp add: Let_def\<close>)
next
  case (Same snapshot)
  then show ?thesis by simp
next
  case (Failed message)
  then show ?thesis by simp
qed

theorem compaction_cuts_a_prefix_witness:
  "\<exists>c files snapshot. sample_compaction = (c, files, Inr snapshot) \<and>
     settled_messages (messages_after_cursor sample_talk (previous_cursor c))"
proof -
  obtain c files res where r: "sample_compaction = (c, files, res)" by (cases sample_compaction)
  obtain snapshot where "res = Inr snapshot" using sample_cut unfolding r by (cases res) auto
  with r have s: "sample_compaction = (c, files, Inr snapshot)" by simp
  have d: "distinct (message_ids sample_talk)" by code_simp
  have digest: "py_strip (cpe_sha256 sample_compact_env t) = cpe_sha256 sample_compact_env t" for t
    by (simp add: sample_compact_env_def sample_digest_strip)
  have "c \<noteq> no_compaction"
    using sample_cut by (auto simp: s no_compaction_def previous_cursor_def)
  with compaction_cuts_a_prefix [OF s [unfolded sample_compaction_def] d digest]
  have "settled_messages (messages_after_cursor sample_talk (previous_cursor c))"
    by (auto simp: Let_def)
  with s show ?thesis by blast
qed

section \<open>The working set\<close>

text \<open>Property C40. When a new result reports a change of the workspace, every evidence left from
  before is stale that is a verification or is about a path of the result.\<close>

theorem change_makes_evidence_stale:
  assumes "trm_tool_call_id r \<notin> cx_observed_tool_call_ids s" and "changed_workspace r"
    and "(k, e) \<in> set (cx_evidence (observe_tool_result env fp r s))"
    and "k \<noteq> evidence_source_ref r"
    and "cev_kind e = ''verification'' \<or> set (cev_affected_paths e) \<inter> set (message_paths r) \<noteq> {}"
  shows "cev_freshness e = ''stale''"
proof -
  have "cev_kind e = ''verification'' \<or>
      (\<exists>p \<in> set (cev_affected_paths e). p \<in> as_posix ` set (message_paths r))"
    using assms(5) unfolding message_paths_posix by blast
  then show ?thesis using observe_change_stale [OF assms(1-4)] by blast
qed

theorem change_makes_evidence_stale_witness:
  "(map_option cev_freshness (map_of (cx_evidence (observe_tool_result sample_context_env None
       (sample_change ''m4'' ''c2'')
       (observe_tool_result sample_context_env None (sample_read ''m3'' ''c1'') context_state_new)))
     ''message:m3'')) = Some ''stale''"
proof -
  let ?s = "observe_tool_result sample_context_env None (sample_read ''m3'' ''c1'') context_state_new"
  let ?r = "sample_change ''m4'' ''c2''"
  let ?t = "observe_tool_result sample_context_env None ?r ?s"
  have "\<not> Option.is_none (map_of (cx_evidence ?t) ''message:m3'')" by code_simp
  then obtain e where e: "map_of (cx_evidence ?t) ''message:m3'' = Some e"
    by (cases "map_of (cx_evidence ?t) ''message:m3''") auto
  have n: "trm_tool_call_id ?r \<notin> cx_observed_tool_call_ids ?s" "changed_workspace ?r"
    "''message:m3'' \<noteq> evidence_source_ref ?r" by code_simp+
  have "list_ex (\<lambda>p. p \<in> set (message_paths ?r))
      (cev_affected_paths (the (map_of (cx_evidence ?t) ''message:m3'')))" by code_simp
  then have "set (cev_affected_paths e) \<inter> set (message_paths ?r) \<noteq> {}" by (auto simp: e list_ex_iff)
  with change_makes_evidence_stale [OF n(1,2) map_of_SomeD [OF e] n(3)] e show ?thesis by simp
qed

end
